(* ===== verification/Prelude.thy ===== *)
theory Prelude
  imports Main "HOL-Library.Multiset"
begin

text \<open>
  Shared vocabulary of the development.

  \<^item> JavaScript strings. A string is a \<^typ>\<open>string\<close>, one \<^typ>\<open>char\<close> per UTF-16 code unit; the
    model covers the code units 0 to 255, where \<open>length\<close> is both the number of code units
    (\<open>s.length\<close>) and the number of code points (\<open>for .. of s\<close>). \<open>compareText\<close> is the three-way
    comparison every module of the program defines for itself.
  \<^item> \<open>Array.prototype.sort\<close> with a comparison function: \<open>js_sort\<close>, a stable insertion sort. For
    a consistent comparison ECMAScript fixes the result (the stable sort), so \<open>js_sort\<close> computes
    it. The laws are proved once, inside the locale \<open>comparison\<close>; every comparison function of
    the program is an interpretation of it.
  \<^item> Results that may fail: sums, with \<open>Inl\<close> for the thrown error, and their composition
    \<open>andThen\<close>; the reading of a \<open>Set\<close> built from an array, \<open>[...new Set(xs)]\<close>, as \<open>uniq\<close>.
  \<^item> Decimal rendering of numbers in template strings, \<open>nat_text\<close> and \<open>int_text\<close>.
\<close>

named_theorems text_simps \<open>evaluation of text predicates\<close>
named_theorems comparison_intros \<open>ways to build a comparison function\<close>

section \<open>Strings\<close>

abbreviation code_unit :: "char \<Rightarrow> nat" where
  "code_unit c \<equiv> of_char c"

fun text_less :: "string \<Rightarrow> string \<Rightarrow> bool" where
  "text_less [] [] = False"
| "text_less [] (y # ys) = True"
| "text_less (x # xs) [] = False"
| "text_less (x # xs) (y # ys) =
     (if code_unit x < code_unit y then True
      else if x = y then text_less xs ys else False)"

definition compareText :: "string \<Rightarrow> string \<Rightarrow> int" where
  "compareText left right = (if text_less left right then -1 else if text_less right left then 1 else 0)"

lemma code_unit_eq [simp]: "code_unit c = code_unit d \<longleftrightarrow> c = d"
  by (metis char_of_char)

lemma text_less_irrefl [simp]: "\<not> text_less x x"
  by (induction x) auto

lemma text_less_trans: "text_less x y \<Longrightarrow> text_less y z \<Longrightarrow> text_less x z"
proof (induction x y arbitrary: z rule: text_less.induct)
  case (4 x xs y ys)
  then obtain w ws where z: "z = w # ws" by (cases z) auto
  show ?case
  proof (cases "x = y")
    case True
    with 4 z show ?thesis by (auto split: if_splits)
  next
    case False
    with "4.prems"(1) have "code_unit x < code_unit y" by (auto split: if_splits)
    moreover have "code_unit y \<le> code_unit w" using "4.prems"(2) z by (auto split: if_splits)
    ultimately show ?thesis using z by simp
  qed
next
  case (2 y ys)
  then show ?case by (cases z) auto
qed auto

lemma text_less_linear: "text_less x y \<or> x = y \<or> text_less y x"
proof (induction x y rule: text_less.induct)
  case (4 x xs y ys)
  then show ?case
    by (cases "code_unit x" "code_unit y" rule: linorder_cases) auto
qed auto

lemma text_less_asym: "text_less x y \<Longrightarrow> \<not> text_less y x"
  using text_less_trans text_less_irrefl by blast

lemma compareText_eq_0 [simp]: "compareText x y = 0 \<longleftrightarrow> x = y"
  using text_less_linear by (auto simp: compareText_def)

lemma compareText_le: "compareText x y \<le> 0 \<longleftrightarrow> x = y \<or> text_less x y"
  using text_less_linear [of x y] text_less_asym [of x y] by (auto simp: compareText_def)

lemma compareText_refl [simp]: "compareText x x = 0"
  by simp

text \<open>The part of a text before the first character that fails a test, and the rest of it.\<close>

fun is_suffix_of :: "string \<Rightarrow> string \<Rightarrow> bool" where
  "is_suffix_of suf [] = (suf = [])"
| "is_suffix_of suf (c # cs) = (suf = c # cs \<or> is_suffix_of suf cs)"

lemma is_suffix_of_iff: "is_suffix_of suf s \<longleftrightarrow> (\<exists>pre. s = pre @ suf)"
proof (induction s)
  case (Cons c cs)
  then show ?case by (auto simp: Cons_eq_append_conv)
qed simp

fun is_prefix_of :: "string \<Rightarrow> string \<Rightarrow> bool" where
  "is_prefix_of [] s = True"
| "is_prefix_of (p # ps) [] = False"
| "is_prefix_of (p # ps) (c # cs) = (p = c \<and> is_prefix_of ps cs)"

lemma is_prefix_of_iff: "is_prefix_of p s \<longleftrightarrow> (\<exists>post. s = p @ post)"
  by (induction p s rule: is_prefix_of.induct) auto

text \<open>\<open>s.split(sep)\<close> for a one-character separator.\<close>

fun split_at :: "char \<Rightarrow> string \<Rightarrow> string list" where
  "split_at sep [] = [[]]"
| "split_at sep (c # cs) =
     (if c = sep then [] # split_at sep cs
      else case split_at sep cs of [] \<Rightarrow> [[c]] | w # ws \<Rightarrow> (c # w) # ws)"

lemma split_at_nonempty [simp]: "split_at sep s \<noteq> []"
  by (induction s) (auto split: list.splits)

text \<open>\<open>xs.join(sep)\<close>.\<close>

fun join_with :: "string \<Rightarrow> string list \<Rightarrow> string" where
  "join_with sep [] = []"
| "join_with sep [x] = x"
| "join_with sep (x # y # ys) = x @ sep @ join_with sep (y # ys)"

lemma join_split: "join_with [sep] (split_at sep s) = s"
proof (induction s)
  case (Cons c cs)
  show ?case
  proof (cases "split_at sep cs")
    case Nil
    then show ?thesis by simp
  next
    case (Cons w ws)
    with Cons.IH show ?thesis by (cases ws) auto
  qed
qed simp

lemma split_at_no_sep: "w \<in> set (split_at sep s) \<Longrightarrow> sep \<notin> set w"
  by (induction s arbitrary: w) (auto split: if_splits list.splits)

text \<open>The UTF-8 bytes of a code unit below 256.\<close>

definition utf8 :: "char \<Rightarrow> nat list" where
  "utf8 c = (let n = code_unit c in if n < 128 then [n] else [192 + n div 64, 128 + n mod 64])"

lemma code_bound: "code_unit c < 256"
  by (metis of_char_mod_256 mod_less_divisor zero_less_numeral)

lemma utf8_bound: "b \<in> set (utf8 c) \<Longrightarrow> b < 256"
proof -
  have "code_unit c div 64 < 4" using code_bound [of c] by (simp add: less_mult_imp_div_less)
  then show "b \<in> set (utf8 c) \<Longrightarrow> b < 256" by (auto simp: utf8_def Let_def split: if_splits)
qed

section \<open>Numbers in template strings\<close>

fun nat_text :: "nat \<Rightarrow> string" where
  "nat_text n = (if n < 10 then [char_of (48 + n)] else nat_text (n div 10) @ [char_of (48 + n mod 10)])"

declare nat_text.simps [simp del]

definition int_text :: "int \<Rightarrow> string" where
  "int_text i = (if i < 0 then ''-'' @ nat_text (nat (- i)) else nat_text (nat i))"

definition is_digit :: "char \<Rightarrow> bool" where
  "is_digit c \<longleftrightarrow> 48 \<le> code_unit c \<and> code_unit c \<le> 57"

lemma code_unit_digit [simp]: "n < 10 \<Longrightarrow> code_unit (char_of (48 + n)) = 48 + n"
  by simp

lemma nat_text_digits: "c \<in> set (nat_text n) \<Longrightarrow> is_digit c"
proof (induction n rule: nat_text.induct)
  case (1 n)
  then show ?case
    by (subst (asm) nat_text.simps) (auto simp: is_digit_def split: if_splits)
qed

lemma nat_text_nonempty [simp]: "nat_text n \<noteq> []"
  by (subst nat_text.simps) simp

fun digits_value :: "string \<Rightarrow> nat" where
  "digits_value s = foldl (\<lambda>v c. 10 * v + (code_unit c - 48)) 0 s"

lemma digits_value_nat_text [simp]: "digits_value (nat_text n) = n"
proof (induction n rule: nat_text.induct)
  case (1 n)
  show ?case
  proof (cases "n < 10")
    case True
    then show ?thesis by (subst nat_text.simps) simp
  next
    case False
    with "1.IH" show ?thesis by (subst nat_text.simps) simp
  qed
qed

lemma nat_text_inject [simp]: "nat_text m = nat_text n \<longleftrightarrow> m = n"
  by (metis digits_value_nat_text)

lemma minus_not_digit [simp]: "\<not> is_digit CHR ''-''"
  by (simp add: is_digit_def)

lemma int_text_inject [simp]: "int_text i = int_text j \<longleftrightarrow> i = j"
proof
  assume eq: "int_text i = int_text j"
  have no_minus: "hd (nat_text n) \<noteq> CHR ''-''" for n
    using nat_text_digits [of "hd (nat_text n)" n] hd_in_set [OF nat_text_nonempty] minus_not_digit
    by metis
  from eq show "i = j"
    by (auto simp: int_text_def split: if_splits)
       (metis append_Cons append_Nil list.sel(1) no_minus)+
qed simp

section \<open>Sorting with a comparison function\<close>

text \<open>\<open>a || b\<close> on the numbers two comparisons return.\<close>

definition or_else :: "int \<Rightarrow> int \<Rightarrow> int" where
  "or_else a b = (if a \<noteq> 0 then a else b)"

fun js_insert :: "('a \<Rightarrow> 'a \<Rightarrow> int) \<Rightarrow> 'a \<Rightarrow> 'a list \<Rightarrow> 'a list" where
  "js_insert cmp x [] = [x]"
| "js_insert cmp x (y # ys) = (if cmp x y \<le> 0 then x # y # ys else y # js_insert cmp x ys)"

fun js_sort :: "('a \<Rightarrow> 'a \<Rightarrow> int) \<Rightarrow> 'a list \<Rightarrow> 'a list" where
  "js_sort cmp [] = []"
| "js_sort cmp (x # xs) = js_insert cmp x (js_sort cmp xs)"

lemma mset_js_insert [simp]: "mset (js_insert cmp x ys) = add_mset x (mset ys)"
  by (induction ys) auto

lemma mset_js_sort [simp]: "mset (js_sort cmp xs) = mset xs"
  by (induction xs) auto

lemma set_js_insert [simp]: "set (js_insert cmp x ys) = insert x (set ys)"
  by (metis mset_js_insert set_mset_add_mset_insert set_mset_mset)

lemma set_js_sort [simp]: "set (js_sort cmp xs) = set xs"
  by (metis mset_js_sort set_mset_mset)

lemma length_js_sort [simp]: "length (js_sort cmp xs) = length xs"
  by (metis mset_js_sort size_mset)

lemma distinct_js_sort [simp]: "distinct (js_sort cmp xs) = distinct xs"
  by (metis mset_js_sort mset_eq_imp_distinct_iff)

lemma distinct_map_js_sort [simp]: "distinct (map f (js_sort cmp xs)) = distinct (map f xs)"
  by (metis mset_js_sort mset_map mset_eq_imp_distinct_iff)

lemma js_sort_eq_Nil [simp]: "js_sort cmp xs = [] \<longleftrightarrow> xs = []"
  by (metis length_0_conv length_js_sort)

lemma filter_empty_js_sort [simp]: "filter P (js_sort cmp xs) = [] \<longleftrightarrow> filter P xs = []"
  by (simp add: filter_empty_conv)

lemma length_filter_js_sort [simp]: "length (filter P (js_sort cmp xs)) = length (filter P xs)"
  by (metis mset_filter mset_js_sort size_mset)

locale comparison =
  fixes cmp :: "'a \<Rightarrow> 'a \<Rightarrow> int"
  assumes refl: "cmp x x = 0"
    and flip: "cmp x y < 0 \<longleftrightarrow> 0 < cmp y x"
    and trans: "cmp x y \<le> 0 \<Longrightarrow> cmp y z \<le> 0 \<Longrightarrow> cmp x z \<le> 0"
begin

lemma total: "cmp x y \<le> 0 \<or> cmp y x \<le> 0"
  by (meson flip not_le order_less_imp_le)

lemma zero_flip: "cmp x y = 0 \<Longrightarrow> cmp y x = 0"
  by (metis flip linorder_neq_iff)

lemma sorted_insert:
  assumes "sorted_wrt (\<lambda>a b. cmp a b \<le> 0) ys"
  shows "sorted_wrt (\<lambda>a b. cmp a b \<le> 0) (js_insert cmp x ys)"
  using assms
proof (induction ys)
  case (Cons y ys)
  show ?case
  proof (cases "cmp x y \<le> 0")
    case True
    with Cons.prems show ?thesis using trans by auto
  next
    case False
    then have "cmp y x \<le> 0" using total by blast
    with Cons False show ?thesis by auto
  qed
qed simp

lemma sorted_sort: "sorted_wrt (\<lambda>a b. cmp a b \<le> 0) (js_sort cmp xs)"
  by (induction xs) (auto simp: sorted_insert)

lemma sort_sorted: "sorted_wrt (\<lambda>a b. cmp a b \<le> 0) xs \<Longrightarrow> js_sort cmp xs = xs"
proof (induction xs)
  case (Cons x xs)
  then show ?case by (cases xs) auto
qed simp

lemma sort_idem [simp]: "js_sort cmp (js_sort cmp xs) = js_sort cmp xs"
  by (rule sort_sorted) (rule sorted_sort)

lemma strict_trans1: "cmp x y < 0 \<Longrightarrow> cmp y z \<le> 0 \<Longrightarrow> cmp x z < 0"
  using trans flip by (metis linorder_not_less order_less_imp_le)

lemma strict_trans2: "cmp x y \<le> 0 \<Longrightarrow> cmp y z < 0 \<Longrightarrow> cmp x z < 0"
  using trans flip by (metis linorder_not_less order_less_imp_le)

text \<open>Two sorted arrangements of the same elements agree when no two different elements tie.\<close>

lemma sorted_unique:
  assumes "sorted_wrt (\<lambda>a b. cmp a b \<le> 0) xs" "sorted_wrt (\<lambda>a b. cmp a b \<le> 0) ys"
    and "mset xs = mset ys"
    and "\<And>a b. a \<in> set xs \<Longrightarrow> b \<in> set xs \<Longrightarrow> cmp a b = 0 \<Longrightarrow> a = b"
  shows "xs = ys"
  using assms
proof (induction xs arbitrary: ys)
  case (Cons x xs)
  then obtain y ys' where ys: "ys = y # ys'" by (cases ys) auto
  have "x \<in> set ys" "y \<in> set (x # xs)"
    using Cons.prems(3) ys by (metis list.set_intros(1) mset_eq_setD)+
  then have "cmp x y \<le> 0" "cmp y x \<le> 0"
    using Cons.prems(1,2) ys refl by auto
  then have "cmp x y = 0" by (meson flip not_le order_antisym_conv)
  with Cons.prems(4) \<open>y \<in> set (x # xs)\<close> have "x = y" by simp
  with Cons ys show ?case by auto
qed simp

lemma sort_cong:
  assumes "mset xs = mset ys"
    and "\<And>a b. a \<in> set xs \<Longrightarrow> b \<in> set xs \<Longrightarrow> cmp a b = 0 \<Longrightarrow> a = b"
  shows "js_sort cmp xs = js_sort cmp ys"
  using assms by (intro sorted_unique) (auto simp: sorted_sort)

end

text \<open>Ways to build comparisons: by a key, in reverse, and one after the other.\<close>

lemma comparison_text: "comparison compareText"
proof
  fix x y z :: string
  show "compareText x x = 0" by simp
  show "compareText x y < 0 \<longleftrightarrow> 0 < compareText y x"
    by (auto simp: compareText_def text_less_asym)
  show "compareText x y \<le> 0 \<Longrightarrow> compareText y z \<le> 0 \<Longrightarrow> compareText x z \<le> 0"
    unfolding compareText_le using text_less_trans by blast
qed

lemma comparison_by: "comparison c \<Longrightarrow> comparison (\<lambda>x y. c (f x) (f y))"
  unfolding comparison_def by blast

lemma comparison_text_by [comparison_intros]: "comparison (\<lambda>x y. compareText (f x) (f y))"
  by (rule comparison_by) (rule comparison_text)

lemma comparison_diff [comparison_intros]: "comparison (\<lambda>x y. (f x :: int) - f y)"
  by unfold_locales auto

lemma comparison_diff_rev [comparison_intros]: "comparison (\<lambda>x y. (f y :: int) - f x)"
  by unfold_locales auto

lemma comparison_or_else [comparison_intros]:
  assumes "comparison c" "comparison d"
  shows "comparison (\<lambda>x y. or_else (c x y) (d x y))"
proof
  fix x y z
  show "or_else (c x x) (d x x) = 0"
    by (simp add: or_else_def comparison.refl [OF assms(1)] comparison.refl [OF assms(2)])
  show "or_else (c x y) (d x y) < 0 \<longleftrightarrow> 0 < or_else (c y x) (d y x)"
    using comparison.flip [OF assms(1)] comparison.flip [OF assms(2)]
      comparison.zero_flip [OF assms(1)]
    by (auto simp: or_else_def)
  assume le: "or_else (c x y) (d x y) \<le> 0" "or_else (c y z) (d y z) \<le> 0"
  then have c: "c x y \<le> 0" "c y z \<le> 0" by (auto simp: or_else_def split: if_splits)
  show "or_else (c x z) (d x z) \<le> 0"
  proof (cases "c x z = 0")
    case True
    then have "c x y = 0" "c y z = 0"
      using comparison.strict_trans1 [OF assms(1)] comparison.strict_trans2 [OF assms(1)] c
      by force+
    with True le show ?thesis
      using comparison.trans [OF assms(2)] by (auto simp: or_else_def)
  next
    case False
    then show ?thesis
      using comparison.trans [OF assms(1) c] by (simp add: or_else_def)
  qed
qed

section \<open>Results\<close>

definition andThen :: "'e + 'a \<Rightarrow> ('a \<Rightarrow> 'e + 'b) \<Rightarrow> 'e + 'b" where
  "andThen m f = (case m of Inl e \<Rightarrow> Inl e | Inr x \<Rightarrow> f x)"

lemma andThen_simps [simp]:
  "andThen (Inl e) f = Inl e" "andThen (Inr x) f = f x"
  by (simp_all add: andThen_def)

lemma andThen_Inr: "andThen m f = Inr y \<longleftrightarrow> (\<exists>x. m = Inr x \<and> f x = Inr y)"
  by (cases m) auto

text \<open>\<open>[...new Set(xs)]\<close>: the first occurrence of every element, in order.\<close>

fun uniq :: "'a list \<Rightarrow> 'a list" where
  "uniq [] = []"
| "uniq (x # xs) = x # uniq (filter (\<lambda>y. y \<noteq> x) xs)"

lemma set_uniq [simp]: "set (uniq xs) = set xs"
  by (induction xs rule: uniq.induct) auto

lemma distinct_uniq [simp]: "distinct (uniq xs)"
  by (induction xs rule: uniq.induct) auto

lemma uniq_eq_Nil [simp]: "uniq xs = [] \<longleftrightarrow> xs = []"
  by (cases xs) auto

lemma uniq_distinct: "distinct xs \<Longrightarrow> uniq xs = xs"
proof (induction xs)
  case (Cons x xs)
  then have "filter (\<lambda>y. y \<noteq> x) xs = xs" by (auto intro!: filter_True)
  with Cons show ?case by simp
qed simp

end
