(* ===== verification/Text_Patterns.thy ===== *)
theory Text_Patterns
  imports Prelude
begin

text \<open>
  Regular expressions and text functions of the program.

  Every module validates its inputs with \<open>RegExp.prototype.test\<close>. A \<^verbatim>\<open>pattern\<close> is the syntax of
  those expressions (classes, bounded runs of a class, groups, alternatives, \<open>^\<close>, \<open>$\<close>, \<open>\b\<close>),
  \<open>ends\<close> the matcher (all the positions a match can end at, with the preceding character, which
  \<open>^\<close> and \<open>\b\<close> look at) and \<open>test\<close> the search from every position. The constants below are the
  expressions of \<^verbatim>\<open>src/config.ts\<close>, \<^verbatim>\<open>src/plan.ts\<close>, \<^verbatim>\<open>src/receipt.ts\<close>, \<^verbatim>\<open>src/reconciler.ts\<close>,
  \<^verbatim>\<open>src/canary-service-identity.ts\<close>, \<^verbatim>\<open>src/access-groups.ts\<close> and \<^verbatim>\<open>src/receipt-store.ts\<close>, written
  as in the source. The lemmas turn each into a direct description of the texts it accepts.
\<close>

section \<open>Character classes\<close>

definition is_lower :: "char \<Rightarrow> bool" where
  "is_lower c \<longleftrightarrow> 97 \<le> code_unit c \<and> code_unit c \<le> 122"

definition is_upper :: "char \<Rightarrow> bool" where
  "is_upper c \<longleftrightarrow> 65 \<le> code_unit c \<and> code_unit c \<le> 90"

definition is_alnum :: "char \<Rightarrow> bool" where
  "is_alnum c \<longleftrightarrow> is_lower c \<or> is_upper c \<or> is_digit c"

definition is_lower_hex :: "char \<Rightarrow> bool" where
  "is_lower_hex c \<longleftrightarrow> is_digit c \<or> (97 \<le> code_unit c \<and> code_unit c \<le> 102)"

definition is_word :: "char \<Rightarrow> bool" where
  "is_word c \<longleftrightarrow> is_alnum c \<or> c = CHR ''_''"

text \<open>White space and line terminators among the code units 0 to 255: \<open>\s\<close> and \<open>trim\<close>.\<close>

definition is_space :: "char \<Rightarrow> bool" where
  "is_space c \<longleftrightarrow> code_unit c \<in> {9, 10, 11, 12, 13, 32, 160}"

definition lower_char :: "char \<Rightarrow> char" where
  "lower_char c = (let n = code_unit c in
     if (65 \<le> n \<and> n \<le> 90) \<or> (192 \<le> n \<and> n \<le> 214) \<or> (216 \<le> n \<and> n \<le> 222)
     then char_of (n + 32) else c)"

definition toLowerCase :: "string \<Rightarrow> string" where
  "toLowerCase s = map lower_char s"

definition js_trim :: "string \<Rightarrow> string" where
  "js_trim s = rev (dropWhile is_space (rev (dropWhile is_space s)))"

lemmas char_class_defs =
  is_lower_def is_upper_def is_alnum_def is_lower_hex_def is_word_def is_space_def is_digit_def

section \<open>Patterns and matching\<close>

datatype pattern =
    Eps
  | Lit string
  | LitI string
  | Cls "char \<Rightarrow> bool"
  | Run "char \<Rightarrow> bool" nat "nat option"
  | Seq pattern pattern
  | Alt pattern pattern
  | Many1 pattern
  | Start
  | End
  | Boundary

fun lit_end :: "(char \<Rightarrow> char) \<Rightarrow> string \<Rightarrow> char option \<Rightarrow> string \<Rightarrow> (char option \<times> string) list" where
  "lit_end f [] pr s = [(pr, s)]"
| "lit_end f (w # ws) pr [] = []"
| "lit_end f (w # ws) pr (c # cs) = (if f c = w then lit_end f ws (Some c) cs else [])"

fun run_ends :: "(char \<Rightarrow> bool) \<Rightarrow> nat \<Rightarrow> nat option \<Rightarrow> char option \<Rightarrow> string \<Rightarrow> (char option \<times> string) list" where
  "run_ends P lo hi pr [] = (if lo = 0 then [(pr, [])] else [])"
| "run_ends P lo hi pr (c # cs) =
     (if lo = 0 then [(pr, c # cs)] else []) @
     (if hi \<noteq> Some 0 \<and> P c then run_ends P (lo - 1) (map_option (\<lambda>h. h - 1) hi) (Some c) cs else [])"

fun many_ends :: "nat \<Rightarrow> (char option \<Rightarrow> string \<Rightarrow> (char option \<times> string) list)
    \<Rightarrow> char option \<Rightarrow> string \<Rightarrow> (char option \<times> string) list" where
  "many_ends 0 f pr s = []"
| "many_ends (Suc n) f pr s =
     f pr s @ concat (map (\<lambda>(pr', s'). if length s' < length s then many_ends n f pr' s' else []) (f pr s))"

definition word_at :: "char option \<Rightarrow> bool" where
  "word_at c = (case c of None \<Rightarrow> False | Some c \<Rightarrow> is_word c)"

definition first_char :: "string \<Rightarrow> char option" where
  "first_char s = (case s of [] \<Rightarrow> None | c # _ \<Rightarrow> Some c)"

primrec ends :: "pattern \<Rightarrow> char option \<Rightarrow> string \<Rightarrow> (char option \<times> string) list" where
  "ends Eps pr s = [(pr, s)]"
| "ends (Lit w) pr s = lit_end (\<lambda>c. c) w pr s"
| "ends (LitI w) pr s = lit_end lower_char w pr s"
| "ends (Cls P) pr s = (case s of [] \<Rightarrow> [] | c # cs \<Rightarrow> if P c then [(Some c, cs)] else [])"
| "ends (Run P lo hi) pr s = run_ends P lo hi pr s"
| "ends (Seq p q) pr s = concat (map (\<lambda>(pr', s'). ends q pr' s') (ends p pr s))"
| "ends (Alt p q) pr s = ends p pr s @ ends q pr s"
| "ends (Many1 p) pr s = many_ends (length s) (ends p) pr s"
| "ends Start pr s = (if pr = None then [(pr, s)] else [])"
| "ends End pr s = (if s = [] then [(pr, s)] else [])"
| "ends Boundary pr s = (if word_at pr \<noteq> word_at (first_char s) then [(pr, s)] else [])"

fun search_from :: "pattern \<Rightarrow> char option \<Rightarrow> string \<Rightarrow> bool" where
  "search_from p pr [] = (ends p pr [] \<noteq> [])"
| "search_from p pr (c # cs) = (ends p pr (c # cs) \<noteq> [] \<or> search_from p (Some c) cs)"

definition test :: "pattern \<Rightarrow> string \<Rightarrow> bool" where
  "test p s = search_from p None s"

primrec seqs :: "pattern list \<Rightarrow> pattern" where
  "seqs [] = Eps"
| "seqs (p # ps) = Seq p (seqs ps)"

primrec alts :: "pattern list \<Rightarrow> pattern" where
  "alts [] = Run (\<lambda>c. False) 1 None"
| "alts (p # ps) = Alt p (alts ps)"

definition Opt :: "pattern \<Rightarrow> pattern" where
  "Opt p = Alt p Eps"

lemma search_from_anchored: "search_from (Seq Start p) (Some c) s = False"
  by (induction s arbitrary: c) auto

lemma test_anchored [simp]: "test (Seq Start p) s \<longleftrightarrow> ends p None s \<noteq> []"
  by (cases s) (auto simp: test_def search_from_anchored)

lemma run_to_end:
  "(\<exists>pr'. (pr', []) \<in> set (run_ends P lo hi pr s)) \<longleftrightarrow>
     list_all P s \<and> lo \<le> length s \<and> (case hi of None \<Rightarrow> True | Some h \<Rightarrow> length s \<le> h)"
  by (induction P lo hi pr s rule: run_ends.induct) (auto split: option.splits if_splits)

lemma ends_run_end:
  "ends (Seq (Run P lo hi) (Seq End Eps)) pr s \<noteq> [] \<longleftrightarrow>
     list_all P s \<and> lo \<le> length s \<and> (case hi of None \<Rightarrow> True | Some h \<Rightarrow> length s \<le> h)"
proof -
  have "ends (Seq (Run P lo hi) (Seq End Eps)) pr s \<noteq> [] \<longleftrightarrow>
      (\<exists>pr'. (pr', []) \<in> set (run_ends P lo hi pr s))"
    by (auto split: if_splits) force
  then show ?thesis by (simp only: run_to_end)
qed

lemma ends_Cls_Seq:
  "ends (Seq (Cls P) q) pr s = (case s of [] \<Rightarrow> [] | c # cs \<Rightarrow> if P c then ends q (Some c) cs else [])"
  by (auto split: list.splits)

lemmas ends_anchored = ends_run_end ends_Cls_Seq

lemma ends_Seq_ne:
  "ends (Seq p q) pr s \<noteq> [] \<longleftrightarrow> (\<exists>(pr', s') \<in> set (ends p pr s). ends q pr' s' \<noteq> [])"
  by (simp add: split_beta)

lemma lit_end_eq:
  "lit_end (\<lambda>c. c) w pr s =
     (if is_prefix_of w s then [(if w = [] then pr else Some (last w), drop (length w) s)] else [])"
  by (induction "\<lambda>c :: char. c" w pr s rule: lit_end.induct) auto

lemma ends_Lit_run_end:
  "ends (Seq (Lit w) (Seq (Run P lo hi) (Seq End Eps))) pr s \<noteq> [] \<longleftrightarrow>
     is_prefix_of w s \<and> list_all P (drop (length w) s) \<and> lo \<le> length s - length w
     \<and> (case hi of None \<Rightarrow> True | Some h \<Rightarrow> length s - length w \<le> h)"
proof -
  have "ends (Seq (Lit w) (Seq (Run P lo hi) (Seq End Eps))) pr s \<noteq> [] \<longleftrightarrow>
      (\<exists>(pr', s') \<in> set (lit_end (\<lambda>c. c) w pr s).
         list_all P s' \<and> lo \<le> length s' \<and> (case hi of None \<Rightarrow> True | Some h \<Rightarrow> length s' \<le> h))"
    by (simp only: ends_Seq_ne [of "Lit w"] ends_run_end ends.simps(2))
  also have "\<dots> \<longleftrightarrow> is_prefix_of w s \<and> list_all P (drop (length w) s) \<and> lo \<le> length s - length w
     \<and> (case hi of None \<Rightarrow> True | Some h \<Rightarrow> length s - length w \<le> h)"
    by (simp add: lit_end_eq cong: option.case_cong)
  finally show ?thesis .
qed

text \<open>A match of a pattern that must consume a character with property \<open>P\<close> shows one.\<close>

lemma lit_end_subset: "(pr', s') \<in> set (lit_end f w pr s) \<Longrightarrow> set s' \<subseteq> set s"
  by (induction f w pr s rule: lit_end.induct) (auto split: if_splits)

lemma run_ends_subset: "(pr', s') \<in> set (run_ends P lo hi pr s) \<Longrightarrow> set s' \<subseteq> set s"
  by (induction P lo hi pr s rule: run_ends.induct) (auto split: if_splits)

lemma many_ends_subset:
  assumes "\<And>pr s pr' s'. (pr', s') \<in> set (f pr s) \<Longrightarrow> set s' \<subseteq> set s"
  shows "(pr', s') \<in> set (many_ends n f pr s) \<Longrightarrow> set s' \<subseteq> set s"
proof (induction n arbitrary: pr s)
  case (Suc n)
  then show ?case using assms by (fastforce split: if_splits)
qed simp

lemma ends_subset: "(pr', s') \<in> set (ends p pr s) \<Longrightarrow> set s' \<subseteq> set s"
proof (induction p arbitrary: pr s pr' s')
  case (Seq p q)
  then show ?case by fastforce
next
  case (Many1 p)
  then show ?case using many_ends_subset [of "ends p"] by (metis ends.simps(8))
next
  case (Alt p q)
  then show ?case by (metis Un_iff ends.simps(7) set_append)
qed (auto dest: lit_end_subset run_ends_subset split: list.splits if_splits)

primrec must :: "(char \<Rightarrow> bool) \<Rightarrow> pattern \<Rightarrow> bool" where
  "must P Eps = False"
| "must P (Lit w) = list_ex P w"
| "must P (LitI w) = False"
| "must P (Cls Q) = (\<forall>c. Q c \<longrightarrow> P c)"
| "must P (Run Q lo hi) = (lo > 0 \<and> (\<forall>c. Q c \<longrightarrow> P c))"
| "must P (Seq p q) = (must P p \<or> must P q)"
| "must P (Alt p q) = (must P p \<and> must P q)"
| "must P (Many1 p) = False"
| "must P Start = False"
| "must P End = False"
| "must P Boundary = False"

lemma lit_end_must: "lit_end (\<lambda>c. c) w pr s \<noteq> [] \<Longrightarrow> list_ex P w \<Longrightarrow> \<exists>c \<in> set s. P c"
  by (induction "\<lambda>c :: char. c" w pr s rule: lit_end.induct) (auto split: if_splits)

lemma run_ends_must:
  "run_ends Q lo hi pr s \<noteq> [] \<Longrightarrow> 0 < lo \<Longrightarrow> \<forall>c. Q c \<longrightarrow> P c \<Longrightarrow> \<exists>c \<in> set s. P c"
  by (induction Q lo hi pr s rule: run_ends.induct) (auto split: if_splits)

lemma ends_must: "must P p \<Longrightarrow> ends p pr s \<noteq> [] \<Longrightarrow> \<exists>c \<in> set s. P c"
proof (induction p arbitrary: pr s)
  case (Seq p q)
  from Seq.prems(2) obtain pr' s' where pq: "(pr', s') \<in> set (ends p pr s)" "ends q pr' s' \<noteq> []"
    by (auto simp: concat_eq_Nil_conv)
  show ?case
  proof (cases "must P p")
    case True
    then show ?thesis using Seq.IH(1) pq(1) by (metis empty_iff empty_set)
  next
    case False
    with Seq.prems(1) have "\<exists>c \<in> set s'. P c" using Seq.IH(2) pq(2) by auto
    then show ?thesis using ends_subset [OF pq(1)] by blast
  qed
next
  case (Cls Q)
  then show ?case by (auto split: list.splits if_splits)
next
  case (Alt p q)
  then show ?case by (metis append_is_Nil_conv ends.simps(7) must.simps(7))
qed (auto dest: lit_end_must run_ends_must)

lemma test_must: "must P p \<Longrightarrow> \<not> list_ex P s \<Longrightarrow> \<not> test p s"
proof -
  assume p: "must P p"
  have "search_from p pr s \<Longrightarrow> list_ex P s" for pr
  proof (induction s arbitrary: pr)
    case Nil
    then show ?case using ends_must [OF p, of pr "[]"] by simp
  next
    case (Cons c cs)
    then show ?case using ends_must [OF p, of pr "c # cs"] by (auto simp: list_ex_iff)
  qed
  then show "\<not> list_ex P s \<Longrightarrow> \<not> test p s" by (auto simp: test_def)
qed

section \<open>The expressions of the program\<close>

definition key_char :: "char \<Rightarrow> bool" where
  "key_char c \<longleftrightarrow> is_lower c \<or> is_digit c \<or> c = CHR ''-''"

definition lower_alnum :: "char \<Rightarrow> bool" where
  "lower_alnum c \<longleftrightarrow> is_lower c \<or> is_digit c"

definition opaque_char :: "char \<Rightarrow> bool" where
  "opaque_char c \<longleftrightarrow> is_alnum c \<or> c \<in> {CHR ''_'', CHR ''.'', CHR '':'', CHR ''-''}"

definition release_char :: "char \<Rightarrow> bool" where
  "release_char c \<longleftrightarrow> is_alnum c \<or> c \<in> {CHR ''.'', CHR ''_'', CHR ''+'', CHR ''-''}"

definition RESOURCE_KEY :: pattern where
  "RESOURCE_KEY = seqs [Start, Cls is_lower, Run key_char 0 (Some 31), End]"

definition SAFE_OPAQUE_ID :: pattern where
  "SAFE_OPAQUE_ID = seqs [Start, Cls is_alnum, Run opaque_char 0 (Some 127), End]"

definition RELEASE :: pattern where
  "RELEASE = seqs [Start, Cls is_alnum, Run release_char 0 (Some 79), End]"

definition HASH :: pattern where
  "HASH = seqs [Start, Lit ''sha256:'', Run is_lower_hex 64 (Some 64), End]"

definition HOST_LABEL :: pattern where
  "HOST_LABEL = seqs [Start, Cls lower_alnum,
     Opt (seqs [Run key_char 0 (Some 61), Cls lower_alnum]), End]"

definition IP_LITERAL :: pattern where
  "IP_LITERAL = seqs [Start, Many1 (seqs [Run is_digit 1 None, Lit ''.'']), Run is_digit 1 None, End]"

definition SAFE_CODE :: pattern where
  "SAFE_CODE = seqs [Start, Cls is_lower,
     Run (\<lambda>c. is_lower c \<or> is_digit c \<or> c = CHR ''_'') 0 (Some 63), End]"

definition SAFE_OPERATION_ID :: pattern where
  "SAFE_OPERATION_ID = seqs [Start, Cls is_lower,
     Run (\<lambda>c. is_lower c \<or> is_digit c \<or> c \<in> {CHR ''.'', CHR ''_'', CHR '':'', CHR ''-''}) 0 (Some 63), End]"

definition ROLLBACK_ID :: pattern where
  "ROLLBACK_ID = seqs [Start, Lit ''rollback-'', Run is_lower_hex 24 (Some 24), End]"

definition SERVICE_TOKEN_ID :: pattern where
  "SERVICE_TOKEN_ID = seqs [Start, Run is_lower_hex 8 (Some 8), Lit ''-'',
     Run is_lower_hex 4 (Some 4), Lit ''-'', Run is_lower_hex 4 (Some 4), Lit ''-'',
     Run is_lower_hex 4 (Some 4), Lit ''-'', Run is_lower_hex 12 (Some 12), End]"

definition CANARY_HOST_LABEL :: pattern where
  "CANARY_HOST_LABEL = seqs [Start, Lit ''ankka-canary'',
     Opt (seqs [Lit ''-'', Run key_char 1 None]), End]"

definition EMAIL :: pattern where
  "EMAIL = (let other = (\<lambda>c. \<not> is_space c \<and> c \<noteq> CHR ''@'') in
     seqs [Start, Run other 1 None, Lit ''@'', Run other 1 None, Lit ''.'', Run other 1 None, End])"

definition dash_or_underscore :: pattern where
  "dash_or_underscore = Opt (Cls (\<lambda>c. c = CHR ''_'' \<or> c = CHR ''-''))"

definition SECRET_KEY :: pattern where
  "SECRET_KEY = alts [seqs [LitI ''api'', dash_or_underscore, LitI ''key''], LitI ''credential'',
     LitI ''password'', seqs [LitI ''private'', dash_or_underscore, LitI ''key''],
     LitI ''secret'', LitI ''token'']"

definition SENSITIVE_QUERY_KEY :: pattern where
  "SENSITIVE_QUERY_KEY = alts [seqs [LitI ''api'', dash_or_underscore, LitI ''key''], LitI ''auth'',
     LitI ''credential'', LitI ''password'', LitI ''secret'', LitI ''signature'', LitI ''token'']"

definition FORBIDDEN_FIELD :: pattern where
  "FORBIDDEN_FIELD = alts [LitI ''authorization'', LitI ''bearer'', LitI ''cookie'',
     LitI ''credential'', LitI ''password'', seqs [LitI ''private'', dash_or_underscore, LitI ''key''],
     LitI ''secret'', LitI ''token'', LitI ''raw'', LitI ''payload'',
     seqs [LitI ''response'', dash_or_underscore, LitI ''body''],
     seqs [LitI ''header'', Opt (LitI ''s'')],
     seqs [LitI ''allowed'', dash_or_underscore, LitI ''email'', Opt (LitI ''s'')],
     seqs [LitI ''email'', Opt (LitI ''s'')], seqs [LitI ''error'', Opt (LitI ''s'')]]"

definition local_char :: "char \<Rightarrow> bool" where
  "local_char c \<longleftrightarrow> is_alnum c \<or> c \<in> {CHR ''.'', CHR ''_'', CHR ''%'', CHR ''+'', CHR ''-''}"

definition domain_char :: "char \<Rightarrow> bool" where
  "domain_char c \<longleftrightarrow> is_alnum c \<or> c \<in> {CHR ''.'', CHR ''-''}"

definition EMAIL_VALUE :: pattern where
  "EMAIL_VALUE = seqs [Alt Start (Cls (\<lambda>c. \<not> local_char c)), Run local_char 1 None, Lit ''@'',
     Run domain_char 1 None, Lit ''.'', Run (\<lambda>c. is_upper c \<or> is_lower c) 2 None,
     Alt End (Cls (\<lambda>c. \<not> domain_char c))]"

definition BEARER_VALUE :: pattern where
  "BEARER_VALUE = seqs [Boundary, LitI ''bearer'', Run is_space 1 None,
     Run (\<lambda>c. is_alnum c \<or> c \<in> {CHR ''.'', CHR ''_'', CHR ''~'', CHR ''+'', CHR ''/'', CHR ''='', CHR ''-''}) 1 None]"

definition PRIVATE_KEY_VALUE :: pattern where
  "PRIVATE_KEY_VALUE = seqs [Lit ''-----BEGIN '', Run (\<lambda>c. is_upper c \<or> c = CHR '' '') 0 None,
     Lit ''PRIVATE KEY-----'']"

definition JWT_VALUE :: pattern where
  "JWT_VALUE = (let part = Run (\<lambda>c. is_word c \<or> c = CHR ''-'') 4 None in
     seqs [Boundary, Lit ''eyJ'', part, Lit ''.'', part, Lit ''.'', part, Boundary])"

section \<open>What they accept\<close>

lemma is_resource_key [text_simps]:
  "test RESOURCE_KEY s \<longleftrightarrow>
     (case s of [] \<Rightarrow> False | c # cs \<Rightarrow> is_lower c \<and> list_all key_char cs \<and> length cs \<le> 31)"
  by (cases s) (simp_all add: RESOURCE_KEY_def ends_run_end ends_Cls_Seq del: ends.simps(6))

lemma is_opaque_id [text_simps]:
  "test SAFE_OPAQUE_ID s \<longleftrightarrow>
     (case s of [] \<Rightarrow> False | c # cs \<Rightarrow> is_alnum c \<and> list_all opaque_char cs \<and> length cs \<le> 127)"
  by (cases s) (simp_all add: SAFE_OPAQUE_ID_def ends_run_end ends_Cls_Seq del: ends.simps(6))

lemma is_release [text_simps]:
  "test RELEASE s \<longleftrightarrow>
     (case s of [] \<Rightarrow> False | c # cs \<Rightarrow> is_alnum c \<and> list_all release_char cs \<and> length cs \<le> 79)"
  by (cases s) (simp_all add: RELEASE_def ends_run_end ends_Cls_Seq del: ends.simps(6))

lemma is_hash [text_simps]:
  "test HASH s \<longleftrightarrow> is_prefix_of ''sha256:'' s \<and> list_all is_lower_hex (drop 7 s) \<and> length s = 71"
proof -
  have len: "length ''sha256:'' = 7" by simp
  have "test HASH s \<longleftrightarrow> is_prefix_of ''sha256:'' s \<and> list_all is_lower_hex (drop 7 s)
      \<and> 64 \<le> length s - 7 \<and> length s - 7 \<le> 64"
    by (simp only: HASH_def seqs.simps test_anchored ends_Lit_run_end len option.case)
  then show ?thesis by auto
qed

text \<open>
  Text with no \<open>@\<close>, no white space and no \<open>J\<close> is never taken for an email address, a bearer
  token, a private key or a signed token.
\<close>

definition plain_char :: "char \<Rightarrow> bool" where
  "plain_char c \<longleftrightarrow> c \<noteq> CHR ''@'' \<and> \<not> is_space c \<and> c \<noteq> CHR ''J''"

lemma plain_no_sensitive_value:
  assumes "list_all plain_char s"
  shows "\<not> test EMAIL_VALUE s" "\<not> test BEARER_VALUE s" "\<not> test PRIVATE_KEY_VALUE s" "\<not> test JWT_VALUE s"
proof -
  have "\<not> list_ex (\<lambda>c. c = CHR ''@'') s" "\<not> list_ex is_space s" "\<not> list_ex (\<lambda>c. c = CHR ''J'') s"
    using assms by (auto simp: list_ex_iff list_all_iff plain_char_def)
  moreover have "must (\<lambda>c. c = CHR ''@'') EMAIL_VALUE" "must is_space BEARER_VALUE"
    "must is_space PRIVATE_KEY_VALUE" "must (\<lambda>c. c = CHR ''J'') JWT_VALUE"
    by (simp_all add: EMAIL_VALUE_def BEARER_VALUE_def PRIVATE_KEY_VALUE_def JWT_VALUE_def Let_def is_space_def)
  ultimately show "\<not> test EMAIL_VALUE s" "\<not> test BEARER_VALUE s"
    "\<not> test PRIVATE_KEY_VALUE s" "\<not> test JWT_VALUE s"
    using test_must by blast+
qed

lemma plain_hex: "is_lower_hex c \<Longrightarrow> plain_char c"
  by (auto simp: plain_char_def char_class_defs)

lemma plain_hash: "test HASH s \<Longrightarrow> list_all plain_char s"
proof -
  assume "test HASH s"
  then obtain t where s: "s = ''sha256:'' @ t" and t: "list_all is_lower_hex t"
    by (auto simp: is_hash is_prefix_of_iff)
  from t have "list_all plain_char t" by (auto simp: list_all_iff plain_hex)
  with s show ?thesis by (simp add: plain_char_def is_space_def)
qed

end
