(* ===== verification/Json.thy ===== *)
theory Json
  imports Text_Patterns
begin

text \<open>
  The values the program works on, \<^verbatim>\<open>src/json.ts\<close>, and their canonical text.

  \<^verbatim>\<open>BoundaryValue\<close> is the datatype \<^verbatim>\<open>jval\<close>: the JavaScript primitives, arrays, and objects as
  association lists in insertion order. A number is a safe integer (\<open>JInt\<close>), another finite
  number given by its ECMAScript text (\<open>JFrac\<close>), or an infinity; \<open>-0\<close> is \<open>JInt 0\<close> (\<open>===\<close> and
  \<^verbatim>\<open>JSON.stringify\<close> do not tell them apart) and \<open>NaN\<close>, which the schemas refuse, is left out.
  \<open>well_formed\<close> holds of the values that come from JavaScript: distinct keys in every object, and
  every number in its own class. \<open>isObject\<close> is the schema test \<^verbatim>\<open>v.is(v.record(...), value)\<close>, which
  accepts whatever has \<^verbatim>\<open>typeof value === 'object'\<close>: objects and arrays.

  \<open>canonicalJson\<close> is the canonical serialisation every digest of the program is computed from.
  The digest itself (SHA-256 of the UTF-8 text, in lower-case hexadecimal) is Web Crypto's and a
  parameter of the model, a function \<open>sha\<close> on texts. The theorems about digests are stated for
  every such function: where the code relies on collision resistance, the theorem exhibits the
  two texts that collide.
\<close>

datatype jnum = JInt int | JFrac string | JInf bool

datatype jval =
    Undef
  | JNull
  | JBool bool
  | JNum jnum
  | JStr string
  | JArr "jval list"
  | JObj "(string \<times> jval) list"

abbreviation jint :: "int \<Rightarrow> jval" where
  "jint i \<equiv> JNum (JInt i)"

definition MAX_SAFE_INTEGER :: int where
  "MAX_SAFE_INTEGER = 9007199254740991"

definition is_safe_integer :: "int \<Rightarrow> bool" where
  "is_safe_integer i \<longleftrightarrow> \<bar>i\<bar> \<le> MAX_SAFE_INTEGER"

text \<open>\<open>Number.isSafeInteger(value)\<close>, with the integer.\<close>

fun safe_int :: "jval \<Rightarrow> int option" where
  "safe_int (JNum (JInt i)) = (if is_safe_integer i then Some i else None)"
| "safe_int _ = None"

fun isString :: "jval \<Rightarrow> bool" where
  "isString (JStr s) = True"
| "isString _ = False"

fun isNumber :: "jval \<Rightarrow> bool" where
  "isNumber (JNum n) = True"
| "isNumber _ = False"

fun isArray :: "jval \<Rightarrow> bool" where
  "isArray (JArr xs) = True"
| "isArray _ = False"

fun isObject :: "jval \<Rightarrow> bool" where
  "isObject (JObj kvs) = True"
| "isObject (JArr xs) = True"
| "isObject _ = False"

text \<open>The elements of an array; \<open>None\<close> where \<^verbatim>\<open>Array.isArray(value)\<close> is false.\<close>

fun items :: "jval \<Rightarrow> jval list option" where
  "items (JArr xs) = Some xs"
| "items _ = None"

lemma items_Some [simp]: "items v = Some xs \<longleftrightarrow> v = JArr xs"
  by (cases v) auto

text \<open>\<open>isString(value) ? value : fallback\<close>.\<close>

fun text_or :: "string \<Rightarrow> jval \<Rightarrow> string" where
  "text_or d (JStr s) = s"
| "text_or d _ = d"

text \<open>\<open>value[key]\<close> on an object; absent keys and the named keys of an array give \<open>undefined\<close>.\<close>

fun field :: "jval \<Rightarrow> string \<Rightarrow> jval" where
  "field (JObj kvs) k = (case map_of kvs k of None \<Rightarrow> Undef | Some v \<Rightarrow> v)"
| "field _ k = Undef"

text \<open>\<open>Object.keys(value)\<close>.\<close>

fun keys :: "jval \<Rightarrow> string list" where
  "keys (JObj kvs) = map fst kvs"
| "keys (JArr xs) = map nat_text [0..<length xs]"
| "keys _ = []"

text \<open>The keys of \<^verbatim>\<open>value\<close> outside an allow list: \<^verbatim>\<open>rejectUnknownKeys\<close> reports each.\<close>

definition unknown_keys :: "jval \<Rightarrow> string list \<Rightarrow> string list" where
  "unknown_keys value allowed = filter (\<lambda>k. k \<notin> set allowed) (keys value)"

section \<open>Schemas\<close>

text \<open>
  \<^verbatim>\<open>v.parse(boundaryValueSchema, value)\<close> of a value that comes from JavaScript, and the records of the other
  schemas: a record schema leaves out the keys of the prototype, at every depth.
\<close>

definition prototype_key :: "string \<Rightarrow> bool" where
  "prototype_key k \<longleftrightarrow> k = ''__proto__'' \<or> k = ''prototype'' \<or> k = ''constructor''"

fun drop_prototype :: "jval \<Rightarrow> jval"
  and drop_prototype_items :: "jval list \<Rightarrow> jval list"
  and drop_prototype_entries :: "(string \<times> jval) list \<Rightarrow> (string \<times> jval) list" where
  "drop_prototype (JArr xs) = JArr (drop_prototype_items xs)"
| "drop_prototype (JObj kvs) = JObj (drop_prototype_entries kvs)"
| "drop_prototype v = v"
| "drop_prototype_items [] = []"
| "drop_prototype_items (x # xs) = drop_prototype x # drop_prototype_items xs"
| "drop_prototype_entries [] = []"
| "drop_prototype_entries ((k, v) # kvs) =
     (if prototype_key k then drop_prototype_entries kvs else (k, drop_prototype v) # drop_prototype_entries kvs)"

lemma drop_prototype_map:
  "drop_prototype_items xs = map drop_prototype xs"
  "drop_prototype_entries kvs = map (\<lambda>(k, v). (k, drop_prototype v)) (filter (\<lambda>e. \<not> prototype_key (fst e)) kvs)"
proof -
  show "drop_prototype_items xs = map drop_prototype xs" by (induction xs) auto
  show "drop_prototype_entries kvs = map (\<lambda>(k, v). (k, drop_prototype v)) (filter (\<lambda>e. \<not> prototype_key (fst e)) kvs)"
    by (induction kvs) auto
qed

section \<open>Well-formed values\<close>

definition num_char :: "char \<Rightarrow> bool" where
  "num_char c \<longleftrightarrow> is_digit c \<or> c \<in> {CHR ''-'', CHR ''+'', CHR ''.'', CHR ''e''}"

definition text_int :: "string \<Rightarrow> int" where
  "text_int t = (if hd t = CHR ''-'' then - int (digits_value (tl t)) else int (digits_value t))"

fun well_formed_num :: "jnum \<Rightarrow> bool" where
  "well_formed_num (JInt i) = is_safe_integer i"
| "well_formed_num (JFrac t) =
     (t \<noteq> [] \<and> list_all num_char t \<and> (hd t = CHR ''-'' \<or> is_digit (hd t))
      \<and> \<not> (is_safe_integer (text_int t) \<and> t = int_text (text_int t)))"
| "well_formed_num (JInf b) = True"

fun well_formed :: "jval \<Rightarrow> bool"
  and well_formed_items :: "jval list \<Rightarrow> bool"
  and well_formed_entries :: "(string \<times> jval) list \<Rightarrow> bool" where
  "well_formed (JArr xs) = well_formed_items xs"
| "well_formed (JObj kvs) = (distinct (map fst kvs) \<and> well_formed_entries kvs)"
| "well_formed (JNum n) = well_formed_num n"
| "well_formed Undef = True"
| "well_formed JNull = True"
| "well_formed (JBool b) = True"
| "well_formed (JStr s) = True"
| "well_formed_items [] = True"
| "well_formed_items (x # xs) = (well_formed x \<and> well_formed_items xs)"
| "well_formed_entries [] = True"
| "well_formed_entries ((k, v) # kvs) = (well_formed v \<and> well_formed_entries kvs)"

section \<open>Canonical text\<close>

text \<open>\<open>JSON.stringify\<close> of a string (code units below 256 have no lone surrogates).\<close>

definition hex_digit :: "nat \<Rightarrow> char" where
  "hex_digit n = (if n < 10 then char_of (48 + n) else char_of (87 + n))"

definition escape_char :: "char \<Rightarrow> string" where
  "escape_char c =
     (let n = code_unit c in
      if n = 8 then [CHR 0x5C, CHR ''b''] else if n = 9 then [CHR 0x5C, CHR ''t'']
      else if n = 10 then [CHR 0x5C, CHR ''n''] else if n = 12 then [CHR 0x5C, CHR ''f'']
      else if n = 13 then [CHR 0x5C, CHR ''r''] else if n = 34 then [CHR 0x5C, CHR 0x22]
      else if n = 92 then [CHR 0x5C, CHR 0x5C]
      else if n < 32 then [CHR 0x5C, CHR ''u'', CHR ''0'', CHR ''0'', hex_digit (n div 16), hex_digit (n mod 16)]
      else [c])"

definition quote_text :: "string \<Rightarrow> string" where
  "quote_text s = [CHR 0x22] @ concat (map escape_char s) @ [CHR 0x22]"

text \<open>\<open>None\<close> is the thrown \<^verbatim>\<open>TypeError\<close>: a non-finite number or \<open>undefined\<close> cannot be hashed.\<close>

fun canonicalJson :: "jval \<Rightarrow> string option"
  and canonical_items :: "jval list \<Rightarrow> string list option"
  and canonical_entries :: "(string \<times> jval) list \<Rightarrow> (string \<times> string) list option" where
  "canonicalJson JNull = Some ''null''"
| "canonicalJson (JBool b) = Some (if b then ''true'' else ''false'')"
| "canonicalJson (JStr s) = Some (quote_text s)"
| "canonicalJson (JNum (JInt i)) = Some (int_text i)"
| "canonicalJson (JNum (JFrac t)) = Some t"
| "canonicalJson (JNum (JInf b)) = None"
| "canonicalJson (JArr xs) =
     map_option (\<lambda>ts. ''['' @ join_with '','' ts @ '']'') (canonical_items xs)"
| "canonicalJson (JObj kvs) =
     map_option (\<lambda>es. [CHR 0x7B] @ join_with '',''
        (map (\<lambda>(k, t). quote_text k @ '':'' @ t) (js_sort (\<lambda>a b. compareText (fst a) (fst b)) es)) @ [CHR 0x7D])
       (canonical_entries kvs)"
| "canonicalJson Undef = None"
| "canonical_items [] = Some []"
| "canonical_items (x # xs) =
     (case canonicalJson x of None \<Rightarrow> None | Some t \<Rightarrow> map_option ((#) t) (canonical_items xs))"
| "canonical_entries [] = Some []"
| "canonical_entries ((k, v) # kvs) =
     (case canonicalJson v of None \<Rightarrow> None | Some t \<Rightarrow> map_option ((#) (k, t)) (canonical_entries kvs))"

end
