(* ===== verification/Json_Canonical.thy ===== *)
theory Json_Canonical
  imports Json
begin

text \<open>
  The canonical text determines the value: \<open>canonicalJson\<close> (the same function in
  \<^verbatim>\<open>src/plan.ts\<close>, \<^verbatim>\<open>src/receipt.ts\<close> and \<^verbatim>\<open>src/reconciler.ts\<close>) sends two well-formed values to
  one text exactly when they differ only in the order of object keys. The proof goes through
  \<open>render\<close>, the text of a value whose keys are already sorted, which is uniquely decodable.
\<close>

section \<open>Sorted keys\<close>

abbreviation by_key :: "string \<times> 'a \<Rightarrow> string \<times> 'a \<Rightarrow> int" where
  "by_key a b \<equiv> compareText (fst a) (fst b)"

interpretation key_order: comparison "by_key :: string \<times> 'a \<Rightarrow> string \<times> 'a \<Rightarrow> int"
  by (intro comparison_intros)

fun sort_keys :: "jval \<Rightarrow> jval"
  and sort_keys_items :: "jval list \<Rightarrow> jval list"
  and sort_keys_entries :: "(string \<times> jval) list \<Rightarrow> (string \<times> jval) list" where
  "sort_keys (JArr xs) = JArr (sort_keys_items xs)"
| "sort_keys (JObj kvs) = JObj (js_sort by_key (sort_keys_entries kvs))"
| "sort_keys Undef = Undef"
| "sort_keys JNull = JNull"
| "sort_keys (JBool b) = JBool b"
| "sort_keys (JStr s) = JStr s"
| "sort_keys (JNum n) = JNum n"
| "sort_keys_items [] = []"
| "sort_keys_items (x # xs) = sort_keys x # sort_keys_items xs"
| "sort_keys_entries [] = []"
| "sort_keys_entries ((k, v) # kvs) = (k, sort_keys v) # sort_keys_entries kvs"

fun render :: "jval \<Rightarrow> string"
  and render_items :: "jval list \<Rightarrow> string list"
  and render_entries :: "(string \<times> jval) list \<Rightarrow> string list" where
  "render JNull = ''null''"
| "render (JBool b) = (if b then ''true'' else ''false'')"
| "render (JStr s) = quote_text s"
| "render (JNum (JInt i)) = int_text i"
| "render (JNum (JFrac t)) = t"
| "render (JNum (JInf b)) = []"
| "render Undef = []"
| "render (JArr xs) = ''['' @ join_with '','' (render_items xs) @ '']''"
| "render (JObj kvs) = [CHR 0x7B] @ join_with '','' (render_entries kvs) @ [CHR 0x7D]"
| "render_items [] = []"
| "render_items (x # xs) = render x # render_items xs"
| "render_entries [] = []"
| "render_entries ((k, v) # kvs) = (quote_text k @ '':'' @ render v) # render_entries kvs"

lemma js_insert_map: "js_insert c (f x) (map f ys) = map f (js_insert (\<lambda>a b. c (f a) (f b)) x ys)"
  by (induction ys) auto

lemma js_sort_map: "js_sort c (map f xs) = map f (js_sort (\<lambda>a b. c (f a) (f b)) xs)"
  by (induction xs) (auto simp: js_insert_map)

lemma render_entries_map:
  "render_entries kvs = map (\<lambda>(k, t). quote_text k @ '':'' @ t) (map (\<lambda>(k, v). (k, render v)) kvs)"
  by (induction kvs) auto

lemma js_sort_by_key_map:
  "js_sort by_key (map (\<lambda>(k, v). (k, g v)) kvs) = map (\<lambda>(k, v). (k, g v)) (js_sort by_key kvs)"
  by (simp add: js_sort_map split_beta)

lemma canonical_render:
  "canonicalJson v = Some t \<Longrightarrow> t = render (sort_keys v)"
  "canonical_items xs = Some ts \<Longrightarrow> ts = render_items (sort_keys_items xs)"
  "canonical_entries kvs = Some es \<Longrightarrow> es = map (\<lambda>(k, v). (k, render v)) (sort_keys_entries kvs)"
proof (induction v and xs and kvs arbitrary: t and ts and es
    rule: canonicalJson_canonical_items_canonical_entries.induct)
  case (8 kvs)
  then show ?case
    by (auto simp: render_entries_map js_sort_by_key_map [symmetric] simp del: map_map)
qed (auto split: option.splits)

section \<open>Unique decoding\<close>

fun hex_value :: "char \<Rightarrow> nat" where
  "hex_value c = (let n = code_unit c in if n \<le> 57 then n - 48 else n - 87)"

fun unescape :: "string \<Rightarrow> (char \<times> string)" where
  "unescape [] = (CHR 0x22, [])"
| "unescape (c # cs) =
    (if c \<noteq> CHR 0x5C then (c, cs)
     else case cs of
       [] \<Rightarrow> (c, [])
     | d # ds \<Rightarrow>
        if d = CHR ''b'' then (char_of (8::nat), ds) else if d = CHR ''t'' then (char_of (9::nat), ds)
        else if d = CHR ''n'' then (char_of (10::nat), ds) else if d = CHR ''f'' then (char_of (12::nat), ds)
        else if d = CHR ''r'' then (char_of (13::nat), ds)
        else if d = CHR ''u'' then (char_of (16 * hex_value (ds ! 2) + hex_value (ds ! 3)), drop 4 ds)
        else (d, ds))"

lemma hex_value_digit: "n < 16 \<Longrightarrow> hex_value (hex_digit n) = n"
  by (simp add: hex_digit_def Let_def)

lemma code_unit_literal: "code_unit c = n \<Longrightarrow> c = char_of n"
  by (metis char_of_char)

lemma unescape_escape: "unescape (escape_char c @ rest) = (c, rest)"
proof -
  define n where "n = code_unit c"
  have c: "c = char_of n" by (simp add: n_def)
  consider "n = 8" | "n = 9" | "n = 10" | "n = 12" | "n = 13" | "n = 34" | "n = 92"
    | "n < 32" "n \<notin> {8, 9, 10, 12, 13}" | "32 \<le> n" "n \<noteq> 34" "n \<noteq> 92"
    by force
  then show ?thesis
  proof cases
    case 6
    then have "c = CHR 0x22" using code_unit_eq [of c "CHR 0x22"] by (simp add: n_def)
    then show ?thesis by (simp add: escape_char_def)
  next
    case 7
    then have "c = CHR 0x5C" using code_unit_eq [of c "CHR 0x5C"] by (simp add: n_def)
    then show ?thesis by (simp add: escape_char_def)
  next
    case 8
    then have "escape_char c =
        [CHR 0x5C, CHR ''u'', CHR ''0'', CHR ''0'', hex_digit (n div 16), hex_digit (n mod 16)]"
      by (simp add: escape_char_def n_def [symmetric] Let_def)
    moreover have "hex_value (hex_digit (n div 16)) = n div 16" "hex_value (hex_digit (n mod 16)) = n mod 16"
      using 8 by (simp_all add: hex_value_digit del: hex_value.simps)
    ultimately show ?thesis by (simp add: c del: hex_value.simps)
  next
    case 9
    then have "escape_char c = [c]" "c \<noteq> CHR 0x5C"
      by (auto simp: escape_char_def n_def [symmetric] Let_def) (auto simp: n_def)
    then show ?thesis by simp
  qed (simp_all add: escape_char_def n_def [symmetric] Let_def c)
qed

lemma escape_char_not_quote: "escape_char c = d # ds \<Longrightarrow> d \<noteq> CHR 0x22"
  by (auto simp: escape_char_def Let_def split: if_splits dest: code_unit_literal)

lemma escape_char_nonempty [simp]: "escape_char c \<noteq> []"
  by (simp add: escape_char_def Let_def)

lemma escaped_inject:
  "concat (map escape_char s) @ CHR 0x22 # r = concat (map escape_char s') @ CHR 0x22 # r' \<Longrightarrow>
   s = s' \<and> r = r'"
proof (induction s arbitrary: s')
  case Nil
  show ?case
  proof (cases s')
    case (Cons c cs)
    obtain d ds where "escape_char c = d # ds" by (cases "escape_char c") auto
    with Nil Cons escape_char_not_quote show ?thesis by fastforce
  qed (use Nil in simp)
next
  case (Cons c cs)
  show ?case
  proof (cases s')
    case Nil
    obtain d ds where "escape_char c = d # ds" by (cases "escape_char c") auto
    with Nil Cons.prems escape_char_not_quote show ?thesis by fastforce
  next
    case (Cons c' cs')
    have "unescape (escape_char c @ concat (map escape_char cs) @ CHR 0x22 # r) =
        unescape (escape_char c' @ concat (map escape_char cs') @ CHR 0x22 # r')"
      using Cons.prems Cons by simp
    then show ?thesis using Cons.IH Cons unfolding unescape_escape by auto
  qed
qed

lemma quote_text_inject: "quote_text s @ r = quote_text s' @ r' \<Longrightarrow> s = s' \<and> r = r'"
  by (rule escaped_inject) (simp add: quote_text_def)

definition stop :: "string \<Rightarrow> bool" where
  "stop r \<longleftrightarrow> (case r of [] \<Rightarrow> True | c # cs \<Rightarrow> c \<in> {CHR '','', CHR '']'', CHR 0x7D})"

fun renderable :: "jval \<Rightarrow> bool"
  and renderable_items :: "jval list \<Rightarrow> bool"
  and renderable_entries :: "(string \<times> jval) list \<Rightarrow> bool" where
  "renderable (JArr xs) = renderable_items xs"
| "renderable (JObj kvs) = renderable_entries kvs"
| "renderable (JNum n) = (well_formed_num n \<and> (case n of JInf b \<Rightarrow> False | _ \<Rightarrow> True))"
| "renderable Undef = False"
| "renderable JNull = True"
| "renderable (JBool b) = True"
| "renderable (JStr s) = True"
| "renderable_items [] = True"
| "renderable_items (x # xs) = (renderable x \<and> renderable_items xs)"
| "renderable_entries [] = True"
| "renderable_entries ((k, v) # kvs) = (renderable v \<and> renderable_entries kvs)"

lemma renderable_entries_iff: "renderable_entries kvs \<longleftrightarrow> (\<forall>e \<in> set kvs. renderable (snd e))"
  by (induction kvs) auto

lemma renderable_sort_keys:
  "well_formed v \<Longrightarrow> canonicalJson v \<noteq> None \<Longrightarrow> renderable (sort_keys v)"
  "well_formed_items xs \<Longrightarrow> canonical_items xs \<noteq> None \<Longrightarrow> renderable_items (sort_keys_items xs)"
  "well_formed_entries kvs \<Longrightarrow> canonical_entries kvs \<noteq> None \<Longrightarrow> renderable_entries (sort_keys_entries kvs)"
  by (induction v and xs and kvs rule: canonicalJson_canonical_items_canonical_entries.induct)
     (auto simp: renderable_entries_iff split: option.splits)

definition num_text :: "jnum \<Rightarrow> string" where
  "num_text n = (case n of JInt i \<Rightarrow> int_text i | JFrac t \<Rightarrow> t | JInf b \<Rightarrow> [])"

lemma render_num: "render (JNum n) = num_text n"
  by (cases n) (auto simp: num_text_def)

lemma int_text_chars: "list_all num_char (int_text i)" "int_text i \<noteq> []"
  "hd (int_text i) = CHR ''-'' \<or> is_digit (hd (int_text i))"
  using nat_text_digits nat_text_digits [OF hd_in_set [OF nat_text_nonempty]]
  by (auto simp: int_text_def list_all_iff num_char_def)

lemma text_int_text [simp]: "text_int (int_text i) = i"
proof -
  have "hd (nat_text n) \<noteq> CHR ''-''" for n
    using nat_text_digits [OF hd_in_set [OF nat_text_nonempty]] minus_not_digit by metis
  then show ?thesis
    by (auto simp: int_text_def text_int_def simp del: digits_value.simps)
qed

lemma num_text_chars:
  assumes "renderable (JNum n)"
  shows "list_all num_char (num_text n)" "num_text n \<noteq> []"
    "hd (num_text n) = CHR ''-'' \<or> is_digit (hd (num_text n))"
  using assms int_text_chars by (cases n; simp add: num_text_def)+

lemma num_text_inject:
  assumes "renderable (JNum m)" "renderable (JNum n)" "num_text m = num_text n"
  shows "m = n"
  using assms by (cases m; cases n) (auto simp: num_text_def)

lemma stop_not_num: "stop (c # cs) \<Longrightarrow> \<not> num_char c"
  by (auto simp: stop_def num_char_def is_digit_def)

lemma num_prefix_inject:
  assumes "t @ r = t' @ r'" "list_all num_char t" "list_all num_char t'" "stop r" "stop r'"
  shows "t = t' \<and> r = r'"
proof -
  have split: "takeWhile num_char (u @ q) = u" if "list_all num_char u" "stop q" for u q
    using that stop_not_num by (cases q) (auto simp: list_all_iff takeWhile_append)
  from split [OF assms(2,4)] split [OF assms(3,5)] assms(1) have "t = t'" by simp
  with assms(1) show ?thesis by simp
qed

text \<open>The first character of a value's text tells its kind, and is no delimiter.\<close>

definition kind_of_char :: "char \<Rightarrow> nat" where
  "kind_of_char c = (if c = CHR ''n'' then 1 else if c = CHR ''t'' \<or> c = CHR ''f'' then 2
     else if c = CHR 0x22 then 3 else if c = CHR ''['' then 4 else if c = CHR 0x7B then 5
     else if c = CHR ''-'' \<or> is_digit c then 6 else 0)"

definition kind_of_value :: "jval \<Rightarrow> nat" where
  "kind_of_value v = (case v of JNull \<Rightarrow> 1 | JBool b \<Rightarrow> 2 | JStr s \<Rightarrow> 3 | JArr xs \<Rightarrow> 4 | JObj kvs \<Rightarrow> 5
     | JNum n \<Rightarrow> 6 | Undef \<Rightarrow> 0)"

lemma render_first:
  assumes "renderable v"
  shows "render v \<noteq> [] \<and> kind_of_char (hd (render v)) = kind_of_value v"
proof (cases v)
  case (JNum n)
  have "kind_of_char c = 6" if "c = CHR ''-'' \<or> is_digit c" for c
    using that by (auto simp: kind_of_char_def is_digit_def)
  with JNum num_text_chars [of n] assms show ?thesis
    by (auto simp: render_num kind_of_value_def)
qed (use assms in \<open>auto simp: kind_of_char_def kind_of_value_def quote_text_def is_digit_def\<close>)

lemma kind_of_value_pos: "renderable v \<Longrightarrow> 0 < kind_of_value v"
  by (cases v) (auto simp: kind_of_value_def)

lemma render_same_kind:
  assumes "render v @ r = render w @ r'" "renderable v" "renderable w"
  shows "kind_of_value v = kind_of_value w"
  using assms render_first by (metis hd_append2)

lemma render_not_stop: "renderable v \<Longrightarrow> \<not> stop (render v @ r)"
  using render_first [of v] kind_of_value_pos [of v]
  by (cases "render v") (auto simp: stop_def kind_of_char_def is_digit_def)

text \<open>
  The elements after the first one, each with the comma before it: what is left of an array or
  object text once its first element is read.
\<close>

definition tail_text :: "string list \<Rightarrow> string" where
  "tail_text ts = concat (map (\<lambda>t. CHR '','' # t) ts)"

lemma join_tail: "join_with '','' (t # ts) = t @ tail_text ts"
  by (induction ts arbitrary: t) (auto simp: tail_text_def)

lemma tail_text_simps [simp]:
  "tail_text [] = []" "tail_text (t # ts) = CHR '','' # t @ tail_text ts"
  by (simp_all add: tail_text_def)

lemma stop_tail [simp]:
  "c \<in> {CHR '']'', CHR 0x7D} \<Longrightarrow> stop (tail_text ts @ c # r)"
  by (cases ts) (auto simp: stop_def)

text \<open>An array or object text read up to its bracket, from the reading of its tail.\<close>

lemma join_decode:
  assumes "join_with '','' ts @ c # r = join_with '','' us @ c # r'" "c \<in> {CHR '']'', CHR 0x7D}"
    and "\<And>t q. t \<in> set ts \<union> set us \<Longrightarrow> \<not> stop (t @ q)"
    and "tail_text ts @ c # r = tail_text us @ c # r' \<Longrightarrow> P"
    and "ts = [] \<Longrightarrow> us = [] \<Longrightarrow> r = r' \<Longrightarrow> P"
  shows P
proof (cases ts)
  case Nil
  then show ?thesis
  proof (cases us)
    case (Cons u us')
    with Nil assms(1) have "u @ tail_text us' @ c # r' = c # r" by (simp add: join_tail)
    moreover have "stop (c # r)" using assms(2) by (auto simp: stop_def)
    ultimately show ?thesis using assms(3) [of u] Cons by (metis UnCI list.set_intros(1))
  qed (use assms in simp)
next
  case (Cons t ts')
  show ?thesis
  proof (cases us)
    case Nil
    with Cons assms(1) have "t @ tail_text ts' @ c # r = c # r'" by (simp add: join_tail)
    moreover have "stop (c # r')" using assms(2) by (auto simp: stop_def)
    ultimately show ?thesis using assms(3) [of t] Cons by (metis UnCI list.set_intros(1))
  next
    case (Cons u us')
    with assms(1) \<open>ts = t # ts'\<close> have "tail_text ts @ c # r = tail_text us @ c # r'"
      by (simp add: join_tail)
    then show ?thesis by (rule assms(4))
  qed
qed

lemma items_not_stop: "renderable_items xs \<Longrightarrow> t \<in> set (render_items xs) \<Longrightarrow> \<not> stop (t @ q)"
  by (induction xs) (auto simp: render_not_stop)

lemma entries_not_stop: "t \<in> set (render_entries kvs) \<Longrightarrow> \<not> stop (t @ q)"
  by (induction kvs) (auto simp: stop_def quote_text_def)

lemma render_items_Nil [simp]: "render_items xs = [] \<longleftrightarrow> xs = []"
  by (cases xs) auto

lemma render_entries_Nil [simp]: "render_entries kvs = [] \<longleftrightarrow> kvs = []"
  by (cases kvs) auto

lemma same_kind:
  "kind_of_value JNull = kind_of_value w \<Longrightarrow> w = JNull"
  "kind_of_value (JBool b) = kind_of_value w \<Longrightarrow> \<exists>c. w = JBool c"
  "kind_of_value (JStr s) = kind_of_value w \<Longrightarrow> \<exists>t. w = JStr t"
  "kind_of_value (JNum n) = kind_of_value w \<Longrightarrow> \<exists>m. w = JNum m"
  "kind_of_value (JArr xs) = kind_of_value w \<Longrightarrow> \<exists>ys. w = JArr ys"
  "kind_of_value (JObj kvs) = kind_of_value w \<Longrightarrow> \<exists>lws. w = JObj lws"
  by (cases w; simp add: kind_of_value_def)+

lemma render_decode:
  "render v @ r = render w @ r' \<Longrightarrow> renderable v \<Longrightarrow> renderable w \<Longrightarrow> stop r \<Longrightarrow> stop r' \<Longrightarrow> v = w \<and> r = r'"
  "tail_text (render_items xs) @ CHR '']'' # r = tail_text (render_items ys) @ CHR '']'' # r' \<Longrightarrow>
   renderable_items xs \<Longrightarrow> renderable_items ys \<Longrightarrow> xs = ys \<and> r = r'"
  "tail_text (render_entries kvs) @ CHR 0x7D # r = tail_text (render_entries lws) @ CHR 0x7D # r' \<Longrightarrow>
   renderable_entries kvs \<Longrightarrow> renderable_entries lws \<Longrightarrow> kvs = lws \<and> r = r'"
proof (induction v and xs and kvs arbitrary: w r r' and ys r r' and lws r r'
    rule: sort_keys_sort_keys_items_sort_keys_entries.induct)
  case (1 xs)
  obtain ys where w: "w = JArr ys"
    using same_kind render_same_kind [OF "1.prems"(1-3)] by blast
  show ?case
  proof (rule join_decode [of "render_items xs" "CHR '']''" r "render_items ys" r'])
    show "join_with '','' (render_items xs) @ CHR '']'' # r = join_with '','' (render_items ys) @ CHR '']'' # r'"
      using "1.prems"(1) w by simp
    show "\<not> stop (t @ q)" if "t \<in> set (render_items xs) \<union> set (render_items ys)" for t q
      using that "1.prems"(2,3) w items_not_stop by auto
    show "JArr xs = w \<and> r = r'" if "tail_text (render_items xs) @ CHR '']'' # r = tail_text (render_items ys) @ CHR '']'' # r'"
    proof -
      have "renderable_items xs" "renderable_items ys" using "1.prems"(2,3) w by simp_all
      with "1.IH" that have "xs = ys \<and> r = r'" by blast
      then show ?thesis by (simp add: w)
    qed
    show "JArr xs = w \<and> r = r'" if "render_items xs = []" "render_items ys = []" "r = r'"
      using that by (simp add: w)
  qed simp
next
  case (2 kvs)
  obtain lws where w: "w = JObj lws"
    using same_kind render_same_kind [OF "2.prems"(1-3)] by blast
  show ?case
  proof (rule join_decode [of "render_entries kvs" "CHR 0x7D" r "render_entries lws" r'])
    show "join_with '','' (render_entries kvs) @ CHR 0x7D # r = join_with '','' (render_entries lws) @ CHR 0x7D # r'"
      using "2.prems"(1) w by simp
    show "\<not> stop (t @ q)" if "t \<in> set (render_entries kvs) \<union> set (render_entries lws)" for t q
      using that entries_not_stop by auto
    show "JObj kvs = w \<and> r = r'" if "tail_text (render_entries kvs) @ CHR 0x7D # r = tail_text (render_entries lws) @ CHR 0x7D # r'"
    proof -
      have "renderable_entries kvs" "renderable_entries lws" using "2.prems"(2,3) w by simp_all
      with "2.IH" that have "kvs = lws \<and> r = r'" by blast
      then show ?thesis by (simp add: w)
    qed
    show "JObj kvs = w \<and> r = r'" if "render_entries kvs = []" "render_entries lws = []" "r = r'"
      using that by (simp add: w)
  qed simp
next
  case (9 x xs)
  from "9.prems"(1) obtain y ys' where ys: "ys = y # ys'" by (cases ys) auto
  from "9.prems"(1) ys have "render x @ tail_text (render_items xs) @ CHR '']'' # r =
      render y @ tail_text (render_items ys') @ CHR '']'' # r'"
    by simp
  moreover have "renderable x" "renderable y" using "9.prems"(2,3) ys by auto
  ultimately have eq: "x = y" "tail_text (render_items xs) @ CHR '']'' # r = tail_text (render_items ys') @ CHR '']'' # r'"
    using "9.IH"(1) [of "tail_text (render_items xs) @ CHR '']'' # r" y
        "tail_text (render_items ys') @ CHR '']'' # r'"] by auto
  have "renderable_items xs" "renderable_items ys'" using "9.prems"(2,3) ys by auto
  from "9.IH"(2) [OF eq(2) this] eq(1) ys show ?case by simp
next
  case (11 k v kvs)
  from "11.prems"(1) obtain l w lws' where lws: "lws = (l, w) # lws'" by (cases lws) auto
  have "quote_text k @ '':'' @ render v @ tail_text (render_entries kvs) @ CHR 0x7D # r =
      quote_text l @ '':'' @ render w @ tail_text (render_entries lws') @ CHR 0x7D # r'"
    using "11.prems"(1) lws by simp
  note eq_kv = quote_text_inject [OF this]
  then have "k = l" and "render v @ tail_text (render_entries kvs) @ CHR 0x7D # r =
      render w @ tail_text (render_entries lws') @ CHR 0x7D # r'"
    by simp_all
  moreover have "renderable v" "renderable w" "renderable_entries kvs" "renderable_entries lws'"
    using "11.prems"(2,3) lws by auto
  ultimately have "v = w" and eq: "tail_text (render_entries kvs) @ CHR 0x7D # r = tail_text (render_entries lws') @ CHR 0x7D # r'"
    using "11.IH"(1) [of "tail_text (render_entries kvs) @ CHR 0x7D # r" w
        "tail_text (render_entries lws') @ CHR 0x7D # r'"] by auto
  from "11.IH"(2) [OF eq] \<open>renderable_entries kvs\<close> \<open>renderable_entries lws'\<close> lws \<open>k = l\<close> \<open>v = w\<close>
  show ?case by simp
next
  case 8
  from "8.prems"(1) show ?case by (cases ys) auto
next
  case 10
  from "10.prems"(1) show ?case by (cases lws) auto
next
  case (6 s)
  obtain t where "w = JStr t"
    using same_kind render_same_kind [OF "6.prems"(1-3)] by blast
  with quote_text_inject [of s r _ r'] "6.prems"(1) show ?case by auto
next
  case (7 n)
  obtain m where w: "w = JNum m"
    using same_kind render_same_kind [OF "7.prems"(1-3)] by blast
  with "7.prems" num_prefix_inject [of "num_text n" r "num_text m" r'] num_text_inject
  show ?case by (auto simp: render_num num_text_chars simp del: renderable.simps)
next
  case (5 b)
  obtain c where "w = JBool c"
    using same_kind render_same_kind [OF "5.prems"(1-3)] by blast
  with "5.prems"(1) show ?case by (auto split: if_splits)
next
  case 4
  have "w = JNull"
    using same_kind render_same_kind [OF "4.prems"(1-3)] by blast
  with "4.prems"(1) show ?case by simp
qed simp

lemma canonical_inject:
  assumes "well_formed v" "well_formed w"
    and "canonicalJson v = Some t" "canonicalJson w = Some t"
  shows "sort_keys v = sort_keys w"
proof -
  have "render (sort_keys v) @ [] = render (sort_keys w) @ []"
    using canonical_render(1) assms(3,4) by metis
  moreover have "renderable (sort_keys v)" "renderable (sort_keys w)"
    using renderable_sort_keys(1) assms by simp_all
  ultimately show ?thesis
    using render_decode(1) [of "sort_keys v" "[]" "sort_keys w" "[]"] by (simp add: stop_def)
qed

text \<open>Conversely the order of keys never matters.\<close>

lemma canonical_of_sort_keys:
  assumes "sort_keys v = sort_keys w" "canonicalJson v = Some t" "canonicalJson w = Some u"
  shows "t = u"
  using assms canonical_render(1) by metis

section \<open>Fields of canonical values\<close>

lemma sort_keys_entries_map: "sort_keys_entries kvs = map (\<lambda>(k, v). (k, sort_keys v)) kvs"
  by (induction kvs) auto

lemma sort_keys_items_map: "sort_keys_items xs = map sort_keys xs"
  by (induction xs) auto

lemma map_of_js_sort: "distinct (map fst kvs) \<Longrightarrow> map_of (js_sort by_key kvs) = map_of kvs"
  by (simp add: map_of_inject_set)

lemma field_sort_keys:
  assumes "well_formed v" shows "field (sort_keys v) k = sort_keys (field v k)"
proof (cases v)
  case (JObj kvs)
  have "distinct (map fst (sort_keys_entries kvs))"
    using assms JObj by (simp add: sort_keys_entries_map comp_def case_prod_beta)
  then have "map_of (js_sort by_key (sort_keys_entries kvs)) k = map_option sort_keys (map_of kvs k)"
    by (simp add: map_of_js_sort sort_keys_entries_map map_of_map)
  then show ?thesis using JObj by (auto split: option.splits)
qed auto

text \<open>Two values with the same canonical text agree on every field, up to the order of keys inside it.\<close>

lemma sort_keys_field:
  "sort_keys v = sort_keys w \<Longrightarrow> well_formed v \<Longrightarrow> well_formed w \<Longrightarrow>
   sort_keys (field v k) = sort_keys (field w k)"
  by (metis field_sort_keys)

lemma sort_keys_scalar [simp]:
  "sort_keys v = JStr s \<longleftrightarrow> v = JStr s" "JStr s = sort_keys v \<longleftrightarrow> v = JStr s"
  "sort_keys v = JNum n \<longleftrightarrow> v = JNum n" "JNum n = sort_keys v \<longleftrightarrow> v = JNum n"
  "sort_keys v = Undef \<longleftrightarrow> v = Undef" "Undef = sort_keys v \<longleftrightarrow> v = Undef"
  "sort_keys v = JNull \<longleftrightarrow> v = JNull" "JNull = sort_keys v \<longleftrightarrow> v = JNull"
  by (cases v; auto)+

lemma well_formed_items_iff: "well_formed_items xs \<longleftrightarrow> list_all well_formed xs"
  by (induction xs) auto

lemma well_formed_entries_iff: "well_formed_entries kvs \<longleftrightarrow> list_all (\<lambda>e. well_formed (snd e)) kvs"
  by (induction kvs) auto

section \<open>When a digest exists\<close>

lemma canonical_items_None [simp]: "canonical_items xs = None \<longleftrightarrow> (\<exists>x \<in> set xs. canonicalJson x = None)"
  by (induction xs) (auto split: option.splits)

lemma canonical_entries_None [simp]: "canonical_entries kvs = None \<longleftrightarrow> (\<exists>e \<in> set kvs. canonicalJson (snd e) = None)"
  by (induction kvs) (auto split: option.splits)

lemma canonical_None:
  "canonicalJson (JArr xs) = None \<longleftrightarrow> (\<exists>x \<in> set xs. canonicalJson x = None)"
  "canonicalJson (JObj kvs) = None \<longleftrightarrow> (\<exists>e \<in> set kvs. canonicalJson (snd e) = None)"
  "canonicalJson (JStr s) \<noteq> None" "canonicalJson (JNum (JInt i)) \<noteq> None" "canonicalJson (JBool b) \<noteq> None"
  by simp_all

section \<open>Digests\<close>

text \<open>
  \<open>sha\<close> is Web Crypto's SHA-256 of a text, as 64 lower-case hexadecimal digits. \<open>None\<close> is the
  \<^verbatim>\<open>TypeError\<close> of \<open>canonicalJson\<close>.
\<close>

definition hashHex :: "(string \<Rightarrow> string) \<Rightarrow> jval \<Rightarrow> string option" where
  "hashHex sha value = map_option sha (canonicalJson value)"

definition hashCanonical :: "(string \<Rightarrow> string) \<Rightarrow> jval \<Rightarrow> string option" where
  "hashCanonical sha value = map_option (\<lambda>h. ''sha256:'' @ h) (hashHex sha value)"

definition hex_digest :: "(string \<Rightarrow> string) \<Rightarrow> bool" where
  "hex_digest sha \<longleftrightarrow> (\<forall>t. length (sha t) = 64 \<and> list_all is_lower_hex (sha t))"

definition collision :: "(string \<Rightarrow> string) \<Rightarrow> string \<Rightarrow> string \<Rightarrow> bool" where
  "collision sha t u \<longleftrightarrow> t \<noteq> u \<and> sha t = sha u"

lemma hashCanonical_HASH:
  assumes "hex_digest sha" "hashCanonical sha v = Some h"
  shows "test HASH h"
proof -
  from assms(2) obtain t where h: "h = ''sha256:'' @ sha t"
    by (auto simp: hashCanonical_def hashHex_def)
  have "drop 7 h = sha t" by (simp add: h)
  then show ?thesis using assms(1) h by (simp add: is_hash hex_digest_def is_prefix_of_iff)
qed

lemma hashCanonical_inject:
  assumes "well_formed v" "well_formed w"
    and "hashCanonical sha v = Some h" "hashCanonical sha w = Some h"
  shows "sort_keys v = sort_keys w \<or>
    (\<exists>t u. canonicalJson v = Some t \<and> canonicalJson w = Some u \<and> collision sha t u)"
proof -
  obtain t u where t: "canonicalJson v = Some t" and u: "canonicalJson w = Some u" and eq: "sha t = sha u"
    using assms(3,4) by (auto simp: hashCanonical_def hashHex_def)
  show ?thesis
  proof (cases "t = u")
    case True
    with t u canonical_inject [OF assms(1,2), of t] show ?thesis by simp
  next
    case False
    with t u eq show ?thesis by (simp add: collision_def)
  qed
qed

lemma hashHex_None: "hashHex sha v = None \<longleftrightarrow> canonicalJson v = None"
  by (simp add: hashHex_def)

lemma hashCanonical_None: "hashCanonical sha v = None \<longleftrightarrow> canonicalJson v = None"
  by (simp add: hashCanonical_def hashHex_def)

end
