(* ===== verification/Json_Roundtrip.thy ===== *)
theory Json_Roundtrip
  imports Json_Text
begin

text \<open>
  What \<^verbatim>\<open>JSON.stringify\<close> writes, \<^verbatim>\<open>JSON.parse\<close> reads back: for a value without \<^verbatim>\<open>undefined\<close>, with distinct
  keys, and whose non-integer numbers are texts the platform reads back as themselves (ECMAScript's
  shortest round-trip numerals).
\<close>

section \<open>Strings\<close>

lemma hex_of_digit: "n < 16 \<Longrightarrow> hex_of (hex_digit n) = Some n"
  by (auto simp: hex_of_def hex_digit_def Let_def)

lemma parse_escaped_char: "parse_chars (escape_char c @ rest) = map_option (map_prod ((#) c) id) (parse_chars rest)"
proof -
  define n where "n = code_unit c"
  have c: "c = char_of n" by (simp add: n_def)
  consider "n = 8" | "n = 9" | "n = 10" | "n = 12" | "n = 13" | "n = 34" | "n = 92"
    | "n < 32" "n \<notin> {8, 9, 10, 12, 13}" | "32 \<le> n" "n \<noteq> 34" "n \<noteq> 92"
    by force
  then show ?thesis
  proof cases
    case 6
    then have "c = CHR 0x22" using code_unit_eq [of c "CHR 0x22"] by (simp add: n_def)
    then show ?thesis by (simp add: escape_char_def simple_escape_def)
  next
    case 7
    then have "c = CHR 0x5C" using code_unit_eq [of c "CHR 0x5C"] by (simp add: n_def)
    then show ?thesis by (simp add: escape_char_def simple_escape_def)
  next
    case 8
    then have "escape_char c =
        [CHR 0x5C, CHR ''u'', CHR ''0'', CHR ''0'', hex_digit (n div 16), hex_digit (n mod 16)]"
      by (simp add: escape_char_def n_def [symmetric] Let_def)
    moreover have "hex_of (hex_digit (n div 16)) = Some (n div 16)" "hex_of (hex_digit (n mod 16)) = Some (n mod 16)"
      using 8 by (simp_all add: hex_of_digit)
    moreover have "hex_of CHR ''0'' = Some 0" by (simp add: hex_of_def)
    ultimately show ?thesis by (simp add: c escape_unit_def)
  next
    case 9
    then have "escape_char c = [c]" "c \<noteq> CHR 0x5C" "c \<noteq> CHR 0x22" "\<not> code_unit c < 32"
      by (auto simp: escape_char_def n_def [symmetric] Let_def) (auto simp: n_def)
    then show ?thesis by simp
  qed (simp_all add: escape_char_def n_def [symmetric] Let_def c simple_escape_def)
qed

lemma parse_quoted: "parse_chars (concat (map escape_char s) @ CHR 0x22 # r) = Some (s, r)"
  by (induction s) (simp_all add: parse_escaped_char)


section \<open>Numerals\<close>

lemma nat_text_single: "n < 10 \<Longrightarrow> length (nat_text n) = 1"
  by (subst nat_text.simps) simp

lemma nat_text_no_leading_zero: "0 < n \<Longrightarrow> hd (nat_text n) \<noteq> CHR ''0''"
proof (induction n rule: nat_text.induct)
  case (1 n)
  show ?case
  proof (cases "n < 10")
    case True
    then have "code_unit (hd (nat_text n)) = 48 + n" by (subst nat_text.simps) simp
    then show ?thesis using 1(2) by auto
  next
    case False
    then have "hd (nat_text n) = hd (nat_text (n div 10))" by (subst nat_text.simps) (simp add: hd_append)
    moreover have "0 < n div 10" using False by simp
    ultimately show ?thesis using 1(1) [OF False] by simp
  qed
qed

lemma digits_of_nat_text: "takeWhile is_digit (nat_text n) = nat_text n" "dropWhile is_digit (nat_text n) = []"
  by (meson nat_text_digits takeWhile_eq_all_conv) (meson nat_text_digits dropWhile_eq_Nil_conv)

lemma numeral_nat_text: "length t = 1 \<or> hd t \<noteq> CHR ''0'' \<Longrightarrow> t = nat_text n \<Longrightarrow> numeral_ok t \<and> numeral_ok (CHR ''-'' # t)"
proof -
  assume zero: "length t = 1 \<or> hd t \<noteq> CHR ''0''" and t: "t = nat_text n"
  have run: "takeWhile is_digit t = t" "dropWhile is_digit t = []" by (simp_all only: t digits_of_nat_text)
  obtain d ds where d: "t = d # ds" using t nat_text_nonempty by (metis neq_Nil_conv)
  have "d \<noteq> CHR ''-''" using nat_text_digits [of d n] d t minus_not_digit by (metis list.set_intros(1))
  then have strip: "(case t of [] \<Rightarrow> [] | c # r \<Rightarrow> if c = CHR ''-'' then r else t) = t" by (simp add: d)
  have "t \<noteq> []" using d by simp
  then show ?thesis
    using zero unfolding numeral_ok_def strip by (simp add: run fraction_ok_def)
qed

lemma numeral_int_text: "numeral_ok (int_text i)"
proof -
  have "length (nat_text n) = 1 \<or> hd (nat_text n) \<noteq> CHR ''0''" for n
    using nat_text_single nat_text_no_leading_zero by (cases "n < 10") auto
  then show ?thesis
    using numeral_nat_text [OF _ refl] by (simp add: int_text_def)
qed

section \<open>Values\<close>

fun readable :: "(string \<Rightarrow> jnum) \<Rightarrow> jval \<Rightarrow> bool"
  and readable_items :: "(string \<Rightarrow> jnum) \<Rightarrow> jval list \<Rightarrow> bool"
  and readable_entries :: "(string \<Rightarrow> jnum) \<Rightarrow> (string \<times> jval) list \<Rightarrow> bool" where
  "readable double (JArr xs) = readable_items double xs"
| "readable double (JObj kvs) = (distinct (map fst kvs) \<and> readable_entries double kvs)"
| "readable double (JNum n) = (well_formed_num n \<and> (case n of JInt i \<Rightarrow> True | JFrac t \<Rightarrow> numeral_ok t \<and> double t = n | JInf b \<Rightarrow> False))"
| "readable double Undef = False"
| "readable double JNull = True"
| "readable double (JBool b) = True"
| "readable double (JStr s) = True"
| "readable_items double [] = True"
| "readable_items double (x # xs) = (readable double x \<and> readable_items double xs)"
| "readable_entries double [] = True"
| "readable_entries double ((k, v) # kvs) = (readable double v \<and> readable_entries double kvs)"

lemma stringify_render:
  "readable double v \<Longrightarrow> json_stringify v = Some (render v)"
  "readable_items double xs \<Longrightarrow> stringify_items xs = render_items xs"
  "readable_entries double kvs \<Longrightarrow> stringify_entries kvs = render_entries kvs"
  by (induction v and xs and kvs rule: sort_keys_sort_keys_items_sort_keys_entries.induct)
     (auto split: jnum.splits)

definition ends_numeral :: "string \<Rightarrow> bool" where
  "ends_numeral r \<longleftrightarrow> (case r of [] \<Rightarrow> True | c # cs \<Rightarrow> \<not> numeral_char c)"

lemma parse_num_text:
  assumes "readable double (JNum m)" "ends_numeral r"
  shows "parse_value double (Suc n) (num_text m @ r) = Some (JNum m, r)"
proof -
  let ?t = "num_text m"
  have ren: "renderable (JNum m)" using assms(1) by (cases m) auto
  have chars: "list_all numeral_char ?t" "?t \<noteq> []" "hd ?t = CHR ''-'' \<or> is_digit (hd ?t)"
    using num_text_chars [OF ren] by (auto simp: numeral_char_def list_all_iff)
  obtain c q where c: "?t = c # q" using chars(2) by (cases ?t) auto
  have first: "c = CHR ''-'' \<or> is_digit c" using chars(3) c by simp
  then have sp: "\<not> json_space c" by (auto simp: json_space_def is_digit_def)
  have tw: "takeWhile numeral_char (?t @ r) = ?t" "dropWhile numeral_char (?t @ r) = r"
    using chars(1) assms(2) by (cases r; auto simp: ends_numeral_def list_all_iff takeWhile_append dropWhile_append)+
  have ok: "numeral_ok ?t" using assms(1) numeral_int_text by (cases m) (simp_all add: num_text_def)
  have val: "number_value double ?t = m"
    using assms(1) by (cases m) (auto simp: num_text_def number_value_def)
  have ne: "c \<noteq> CHR 0x22" "c \<noteq> CHR ''[''" "c \<noteq> CHR 0x7B" "c \<noteq> CHR ''n''" "c \<noteq> CHR ''t''" "c \<noteq> CHR ''f''"
    using first by (auto simp: is_digit_def)
  have sk: "skip_space (?t @ r) = c # q @ r" by (simp add: skip_space_def c sp)
  have tw': "takeWhile numeral_char (c # q @ r) = ?t" "dropWhile numeral_char (c # q @ r) = r"
    using tw c by simp_all
  show ?thesis
    unfolding parse_value.simps sk list.case by (simp only: ne if_False tw' Let_def ok if_True val)
qed

lemma readable_renderable:
  "readable double v \<Longrightarrow> renderable v"
  "readable_items double xs \<Longrightarrow> renderable_items xs"
  "readable_entries double kvs \<Longrightarrow> renderable_entries kvs"
  by (induction v and xs and kvs rule: sort_keys_sort_keys_items_sort_keys_entries.induct)
     (auto split: jnum.splits)

lemma space_no_kind: "json_space c \<Longrightarrow> kind_of_char c = 0"
proof -
  assume sp: "json_space c"
  have "c \<noteq> CHR ''n''" "c \<noteq> CHR ''t''" "c \<noteq> CHR ''f''" "c \<noteq> CHR 0x22" "c \<noteq> CHR ''[''" "c \<noteq> CHR 0x7B" "c \<noteq> CHR ''-''"
    "\<not> is_digit c"
    using sp by (auto simp: json_space_def is_digit_def)
  then show ?thesis by (simp add: kind_of_char_def)
qed

lemma render_head:
  assumes "readable double v"
  obtains c q where "render v = c # q" "\<not> json_space c" "c \<noteq> CHR '']''"
proof -
  have ren: "renderable v" using readable_renderable(1) [OF assms] .
  obtain c q where c: "render v = c # q" using render_first [OF ren] by (cases "render v") auto
  have "kind_of_char c \<noteq> 0" using render_first [OF ren] kind_of_value_pos [OF ren] c by simp
  then have "\<not> json_space c" "c \<noteq> CHR '']''"
    using space_no_kind by (auto simp: kind_of_char_def is_digit_def)
  with c show ?thesis by (rule that)
qed

lemma skip_none: "\<not> json_space c \<Longrightarrow> skip_space (c # q) = c # q"
  by (simp add: skip_space_def)

lemma delimiter_facts [simp]:
  "\<not> json_space CHR 0x22" "\<not> json_space CHR ''[''" "\<not> json_space CHR '']''" "\<not> json_space CHR 0x7B"
  "\<not> json_space CHR 0x7D" "\<not> json_space CHR '',''" "\<not> json_space CHR '':''"
  "\<not> json_space CHR ''n''" "\<not> json_space CHR ''t''" "\<not> json_space CHR ''f''"
  "ends_numeral (CHR '']'' # r)" "ends_numeral (CHR 0x7D # r)" "ends_numeral (CHR '','' # r)" "ends_numeral []"
  by (simp_all add: json_space_def ends_numeral_def numeral_char_def num_char_def is_digit_def)

lemma ends_numeral_tail [simp]: "ends_numeral (tail_text ts @ CHR '']'' # r)" "ends_numeral (tail_text ts @ CHR 0x7D # r)"
  by (cases ts; simp)+

lemma put_new: "k \<notin> fst ` set acc \<Longrightarrow> put k v acc = acc @ [(k, v)]"
  by (induction acc) auto

lemma parse_render:
  "readable double v \<Longrightarrow> ends_numeral r \<Longrightarrow> 2 * length (render v @ r) \<le> n \<Longrightarrow> parse_value double n (render v @ r) = Some (v, r)"
  "readable_items double xs \<Longrightarrow> xs \<noteq> [] \<Longrightarrow> 2 * length (join_with '','' (render_items xs) @ CHR '']'' # r) < n \<Longrightarrow>
     parse_items double n (join_with '','' (render_items xs) @ CHR '']'' # r) = Some (xs, r)"
  "readable_entries double kvs \<Longrightarrow> kvs \<noteq> [] \<Longrightarrow> distinct (map fst (acc @ kvs)) \<Longrightarrow>
     2 * length (join_with '','' (render_entries kvs) @ CHR 0x7D # r) < n \<Longrightarrow>
     parse_members double n acc (join_with '','' (render_entries kvs) @ CHR 0x7D # r) = Some (acc @ kvs, r)"
proof (induction v and xs and kvs arbitrary: r n and r n and acc r n
    rule: sort_keys_sort_keys_items_sort_keys_entries.induct)
  case (1 xs)
  obtain m where m: "n = Suc m" using "1.prems"(3) by (cases n) auto
  show ?case
  proof (cases xs)
    case Nil
    then show ?thesis by (simp add: m skip_none)
  next
    case (Cons x ys)
    obtain c q where c: "render x = c # q" "\<not> json_space c" "c \<noteq> CHR '']''"
      using render_head [of double x] "1.prems"(1) Cons by auto
    have join: "join_with '','' (render_items xs) @ CHR '']'' # r = c # q @ tail_text (render_items ys) @ CHR '']'' # r"
      using c by (simp add: Cons join_tail)
    have "parse_items double m (join_with '','' (render_items xs) @ CHR '']'' # r) = Some (xs, r)"
      by (rule "1.IH") (use "1.prems" m Cons in auto)
    then show ?thesis using c(2,3) by (simp add: m skip_none join)
  qed
next
  case (2 kvs)
  obtain m where m: "n = Suc m" using "2.prems"(3) by (cases n) auto
  show ?case
  proof (cases kvs)
    case Nil
    then show ?thesis by (simp add: m skip_none)
  next
    case (Cons e es)
    obtain k x where e: "e = (k, x)" by (cases e)
    obtain q where q: "join_with '','' (render_entries kvs) @ CHR 0x7D # r = CHR 0x22 # q"
      by (simp add: Cons e join_tail quote_text_def)
    have "parse_members double m [] (join_with '','' (render_entries kvs) @ CHR 0x7D # r) = Some ([] @ kvs, r)"
      by (rule "2.IH") (use "2.prems" m Cons in auto)
    then show ?thesis by (simp add: m skip_none q)
  qed
next
  case 3
  then show ?case by simp
next
  case 4
  then obtain m where "n = Suc m" by (cases n) auto
  then show ?case by (simp add: skip_none expect_def)
next
  case (5 b)
  then obtain m where "n = Suc m" by (cases n) (auto split: if_splits)
  then show ?case by (simp add: skip_none expect_def)
next
  case (6 s)
  then obtain m where "n = Suc m" by (cases n) (auto simp: quote_text_def)
  then show ?case by (simp add: skip_none quote_text_def parse_quoted)
next
  case (7 k)
  have "renderable (JNum k)" using readable_renderable(1) [OF "7.prems"(1)] .
  then have "num_text k \<noteq> []" by (rule num_text_chars(2))
  then obtain m where "n = Suc m" using "7.prems"(3) by (cases n) (auto simp: render_num)
  then show ?case using parse_num_text [OF "7.prems"(1,2)] by (simp add: render_num)
next
  case 8
  then show ?case by simp
next
  case (9 x xs)
  obtain m where m: "n = Suc m" using "9.prems"(3) by (cases n) auto
  have sp: "join_with '','' (render_items (x # xs)) @ CHR '']'' # r = render x @ tail_text (render_items xs) @ CHR '']'' # r"
    by (simp add: join_tail)
  have "parse_value double m (render x @ tail_text (render_items xs) @ CHR '']'' # r) = Some (x, tail_text (render_items xs) @ CHR '']'' # r)"
  proof (rule "9.IH"(1))
    show "2 * length (render x @ tail_text (render_items xs) @ CHR '']'' # r) \<le> m" using "9.prems"(3) unfolding sp m by simp
  qed (use "9.prems"(1) in simp_all)
  then show ?case
  proof (cases xs)
    case Nil
    then show ?thesis using \<open>parse_value double m _ = _\<close> by (simp add: m skip_none)
  next
    case (Cons y ys)
    have tl: "tail_text (render_items xs) = CHR '','' # join_with '','' (render_items xs)"
      by (simp add: Cons join_tail)
    have "parse_items double m (join_with '','' (render_items xs) @ CHR '']'' # r) = Some (xs, r)"
      by (rule "9.IH"(2)) (use "9.prems" m sp tl Cons in auto)
    then show ?thesis
      using \<open>parse_value double m _ = _\<close> unfolding sp m parse_items.simps by (simp add: tl skip_none)
  qed
next
  case 10
  then show ?case by simp
next
  case (11 k v kvs)
  obtain m where m: "n = Suc m" using "11.prems"(4) by (cases n) auto
  let ?rest = "tail_text (render_entries kvs) @ CHR 0x7D # r"
  have sp: "join_with '','' (render_entries ((k, v) # kvs)) @ CHR 0x7D # r =
      CHR 0x22 # concat (map escape_char k) @ CHR 0x22 # CHR '':'' # render v @ ?rest"
    by (simp add: join_tail quote_text_def)
  have v: "parse_value double m (render v @ ?rest) = Some (v, ?rest)"
  proof (rule "11.IH"(1))
    show "2 * length (render v @ ?rest) \<le> m" using "11.prems"(4) unfolding sp m by simp
  qed (use "11.prems"(1) in simp_all)
  have acc: "put k v acc = acc @ [(k, v)]" using "11.prems"(3) by (intro put_new) simp
  show ?case
  proof (cases kvs)
    case Nil
    then show ?thesis
      using v unfolding sp m parse_members.simps by (simp add: skip_none parse_quoted acc)
  next
    case (Cons e es)
    have tl: "tail_text (render_entries kvs) = CHR '','' # join_with '','' (render_entries kvs)"
      by (cases e) (simp add: Cons join_tail)
    have "parse_members double m (acc @ [(k, v)]) (join_with '','' (render_entries kvs) @ CHR 0x7D # r) =
        Some ((acc @ [(k, v)]) @ kvs, r)"
    proof (rule "11.IH"(2))
      show "2 * length (join_with '','' (render_entries kvs) @ CHR 0x7D # r) < m"
        using "11.prems"(4) unfolding sp m by (simp add: tl)
    qed (use "11.prems"(1,3) Cons in auto)
    then show ?thesis
      using v unfolding sp m parse_members.simps by (simp add: tl skip_none parse_quoted acc)
  qed
qed

lemma stringify_parse:
  assumes "readable double v"
  obtains t where "json_stringify v = Some t" "json_parse double t = Some v"
proof
  show "json_stringify v = Some (render v)" using stringify_render(1) [OF assms] .
  have "parse_value double (2 * length (render v)) (render v @ []) = Some (v, [])"
    by (rule parse_render(1) [OF assms]) simp_all
  then show "json_parse double (render v) = Some v" by (simp add: json_parse_def skip_space_def)
qed

end
