(* ===== verification/Schemas.thy ===== *)
theory Schemas
  imports Json_Roundtrip "HOL-Library.Monad_Syntax"
begin

text \<open>
  The schemas (valibot) the stored states of \<^verbatim>\<open>apps/installer/src\<close> are read with, as partial functions on the values of
  \<open>Json\<close>, and the values the states are written as. A schema reads what is written (\<open>schema_simps\<close>).
\<close>

named_theorems schema_simps \<open>reading what is written\<close>

definition strict_object :: "string list \<Rightarrow> jval \<Rightarrow> unit option" where
  "strict_object allowed v = (if isObject v \<and> unknown_keys v allowed = [] then Some () else None)"

definition exactly :: "jval \<Rightarrow> jval \<Rightarrow> unit option" where
  "exactly w v = (if v = w then Some () else None)"

fun boolean :: "jval \<Rightarrow> bool option" where
  "boolean (JBool b) = Some b"
| "boolean v = None"

definition matching :: "pattern \<Rightarrow> jval \<Rightarrow> string option" where
  "matching p v = (case v of JStr s \<Rightarrow> if test p s then Some s else None | _ \<Rightarrow> None)"

definition int_from :: "int \<Rightarrow> jval \<Rightarrow> int option" where
  "int_from lo v = (case safe_int v of Some i \<Rightarrow> if lo \<le> i then Some i else None | None \<Rightarrow> None)"

definition picklist :: "('a \<Rightarrow> string) \<Rightarrow> 'a list \<Rightarrow> jval \<Rightarrow> 'a option" where
  "picklist label choices v = (case v of JStr s \<Rightarrow> find (\<lambda>a. label a = s) choices | _ \<Rightarrow> None)"

definition nullable :: "(jval \<Rightarrow> 'a option) \<Rightarrow> jval \<Rightarrow> 'a option option" where
  "nullable f v = (if v = JNull then Some None else map_option Some (f v))"

text \<open>\<^verbatim>\<open>v.optional(v.union([..., v.null()]), null)\<close>.\<close>

definition null_default :: "(jval \<Rightarrow> 'a option) \<Rightarrow> jval \<Rightarrow> 'a option option" where
  "null_default f v = (if v = Undef then Some None else nullable f v)"

definition or_null :: "('a \<Rightarrow> jval) \<Rightarrow> 'a option \<Rightarrow> jval" where
  "or_null f x = (case x of None \<Rightarrow> JNull | Some a \<Rightarrow> f a)"

section \<open>Reading what is written\<close>

lemma strict_object_JObj [schema_simps]: "strict_object allowed (JObj kvs) = (if set (map fst kvs) \<subseteq> set allowed then Some () else None)"
  by (auto simp: strict_object_def unknown_keys_def filter_empty_conv)

lemma exactly_same [schema_simps]: "exactly w w = Some ()"
  by (simp add: exactly_def)

lemma matching_JStr [schema_simps]: "matching p (JStr s) = (if test p s then Some s else None)"
  by (simp add: matching_def)

lemma matching_other [simp]: "matching p JNull = None" "matching p Undef = None"
  by (simp_all add: matching_def)

lemma int_from_jint [schema_simps]: "int_from lo (jint i) = (if is_safe_integer i \<and> lo \<le> i then Some i else None)"
  by (simp add: int_from_def)

lemma safe_int_jint [schema_simps]: "safe_int (jint i) = (if is_safe_integer i then Some i else None)"
  by simp

lemma picklist_label [schema_simps]:
  "distinct (map label choices) \<Longrightarrow> a \<in> set choices \<Longrightarrow> picklist label choices (JStr (label a)) = Some a"
  by (induction choices) (auto simp: picklist_def)

lemma bind_if [schema_simps]: "Option.bind (if b then Some a else None) k = (if b then k a else None)"
  by simp

lemma nullable_written:
  assumes "\<And>a. f (put_as a) = (if ok a then Some a else None)" "\<And>a. put_as a \<noteq> JNull"
  shows "nullable f (or_null put_as x) = (if pred_option ok x then Some x else None)"
  using assms by (cases x) (simp_all add: nullable_def or_null_def)

lemma null_default_written:
  assumes "\<And>a. f (put_as a) = (if ok a then Some a else None)" "\<And>a. put_as a \<noteq> JNull" "\<And>a. put_as a \<noteq> Undef"
  shows "null_default f (or_null put_as x) = (if pred_option ok x then Some x else None)"
  using assms by (cases x) (simp_all add: null_default_def nullable_def or_null_def)

lemma nullable_always: "(\<And>a. f (put_as a) = Some a) \<Longrightarrow> (\<And>a. put_as a \<noteq> JNull) \<Longrightarrow> nullable f (or_null put_as x) = Some x"
  by (cases x) (simp_all add: nullable_def or_null_def)

lemma null_default_always:
  "(\<And>a. f (put_as a) = Some a) \<Longrightarrow> (\<And>a. put_as a \<noteq> JNull) \<Longrightarrow> (\<And>a. put_as a \<noteq> Undef) \<Longrightarrow> null_default f (or_null put_as x) = Some x"
  by (cases x) (simp_all add: null_default_def nullable_def or_null_def)

lemma readable_or_null [simp]: "readable double (or_null f x) \<longleftrightarrow> pred_option (\<lambda>a. readable double (f a)) x"
  by (cases x) (simp_all add: or_null_def)

lemma well_formed_field: "well_formed v \<Longrightarrow> well_formed (field v k)"
proof (cases v)
  case (JObj kvs)
  have "well_formed_entries kvs \<Longrightarrow> map_of kvs k = Some w \<Longrightarrow> well_formed w" for w by (induction kvs) (auto split: if_splits)
  then show "well_formed v \<Longrightarrow> ?thesis" using JObj by (auto split: option.splits)
qed auto

end
