(* ===== verification/Web_Codec.thy ===== *)
theory Web_Codec
  imports Json "HOL-Library.Word"
begin

text \<open>
  Bytes as texts, \<^verbatim>\<open>apps/installer/src/crypto.ts\<close>: base64url without padding, digests, tokens and the comparison
  that takes the same time for all texts of one length. \<^verbatim>\<open>btoa\<close> and \<^verbatim>\<open>atob\<close> are the platform's, written out as the
  standards have them; the digest of Web Crypto is a parameter, a function on bytes.
\<close>

unbundle bit_operations_syntax

type_synonym bytes = "8 word list"

definition encode_text :: "string \<Rightarrow> bytes" where
  "encode_text s = map of_nat (concat (map utf8 s))"

section \<open>Base64\<close>

definition ALPHABET :: string where
  "ALPHABET = ''ABCDEFGHIJKLMNOPQRSTUVWXYZabcdefghijklmnopqrstuvwxyz0123456789+/''"

definition b64_char :: "nat \<Rightarrow> char" where
  "b64_char n = ALPHABET ! n"

definition b64_value :: "char \<Rightarrow> nat option" where
  "b64_value = map_of (zip ALPHABET [0..<64])"

fun sextets :: "nat list \<Rightarrow> nat list" where
  "sextets [] = []"
| "sextets [a] = [a div 4, a mod 4 * 16]"
| "sextets [a, b] = [a div 4, a mod 4 * 16 + b div 16, b mod 16 * 4]"
| "sextets (a # b # c # r) = [a div 4, a mod 4 * 16 + b div 16, b mod 16 * 4 + c div 64, c mod 64] @ sextets r"

fun octets :: "nat list \<Rightarrow> nat list" where
  "octets (a # b # c # d # r) = [a * 4 + b div 16, b mod 16 * 16 + c div 4, c mod 4 * 64 + d] @ octets r"
| "octets [a, b, c] = [a * 4 + b div 16, b mod 16 * 16 + c div 4]"
| "octets [a, b] = [a * 4 + b div 16]"
| "octets _ = []"

definition btoa :: "nat list \<Rightarrow> string" where
  "btoa binary = map b64_char (sextets binary) @ replicate ((3 - length binary mod 3) mod 3) CHR ''=''"

text \<open>On a text without white space.\<close>

definition strip_padding :: "string \<Rightarrow> string" where
  "strip_padding s = (if length s mod 4 \<noteq> 0 then s else if is_suffix_of ''=='' s then take (length s - 2) s
     else if is_suffix_of ''='' s then take (length s - 1) s else s)"

definition atob :: "string \<Rightarrow> nat list option" where
  "atob s = (let d = strip_padding s in if length d mod 4 = 1 then None else map_option octets (those (map b64_value d)))"

definition replaceAll :: "char \<Rightarrow> char \<Rightarrow> string \<Rightarrow> string" where
  "replaceAll a b = map (\<lambda>c. if c = a then b else c)"

definition base64UrlEncode :: "bytes \<Rightarrow> string" where
  "base64UrlEncode bytes = rev (dropWhile (\<lambda>c. c = CHR ''='')
     (rev (replaceAll CHR ''/'' CHR ''_'' (replaceAll CHR ''+'' CHR ''-'' (btoa (map unat bytes))))))"

definition token_char :: "char \<Rightarrow> bool" where
  "token_char c \<longleftrightarrow> is_alnum c \<or> c \<in> {CHR ''_'', CHR ''-''}"

definition BASE64URL :: pattern where
  "BASE64URL = seqs [Start, Run token_char 1 None, End]"

text \<open>\<open>None\<close> is the thrown \<^verbatim>\<open>DeployError\<close>.\<close>

definition base64UrlDecode :: "string \<Rightarrow> bytes option" where
  "base64UrlDecode value = (if \<not> test BASE64URL value then None
     else case atob (replaceAll CHR ''_'' CHR ''/'' (replaceAll CHR ''-'' CHR ''+'' value)
         @ replicate ((4 - length value mod 4) mod 4) CHR ''='') of
       None \<Rightarrow> None
     | Some binary \<Rightarrow> (let bytes = map of_nat binary in if base64UrlEncode bytes \<noteq> value then None else Some bytes))"

section \<open>Digests and comparison\<close>

definition sha256 :: "(bytes \<Rightarrow> bytes) \<Rightarrow> string \<Rightarrow> string" where
  "sha256 digest value = base64UrlEncode (digest (encode_text value))"

definition byte_hex :: "8 word \<Rightarrow> string" where
  "byte_hex b = [hex_digit (unat b div 16), hex_digit (unat b mod 16)]"

definition sha256Hex :: "(bytes \<Rightarrow> bytes) \<Rightarrow> string \<Rightarrow> string" where
  "sha256Hex digest value = concat (map byte_hex (digest (encode_text value)))"

definition pkceChallenge :: "(bytes \<Rightarrow> bytes) \<Rightarrow> string \<Rightarrow> string" where
  "pkceChallenge digest verifier = sha256 digest verifier"

definition byte_at :: "bytes \<Rightarrow> nat \<Rightarrow> 32 word" where
  "byte_at bs i = (if i < length bs then ucast (bs ! i) else 0)"

definition constantTimeEqual :: "string \<Rightarrow> string \<Rightarrow> bool" where
  "constantTimeEqual left right =
     (let leftBytes = encode_text left; rightBytes = encode_text right;
          mismatch = foldl (\<lambda>m index. m OR (byte_at leftBytes index XOR byte_at rightBytes index))
            (of_nat (length leftBytes) XOR of_nat (length rightBytes)) [0..<max (length leftBytes) (length rightBytes)]
      in mismatch = (0 :: 32 word))"

text \<open>
  Base64url is read back as it was written, in one spelling only; tokens have the form the stored states ask for; the
  comparison decides equality.
\<close>

section \<open>Sextets\<close>

lemma alphabet: "length ALPHABET = 64" "distinct ALPHABET"
  by (simp_all add: ALPHABET_def)

lemma b64_value_char [simp]: "n < 64 \<Longrightarrow> b64_value (b64_char n) = Some n"
  using map_of_zip_nth [of ALPHABET "[0..<64]" n] by (simp add: b64_value_def b64_char_def alphabet)

text \<open>What holds of each of the 64 characters, by evaluation.\<close>

lemma all_sextets: "list_all P ALPHABET \<Longrightarrow> n < 64 \<Longrightarrow> P (b64_char n)"
  by (simp add: list_all_length b64_char_def alphabet)

lemma sextets_bound: "list_all (\<lambda>b. b < 256) bs \<Longrightarrow> list_all (\<lambda>x. x < 64) (sextets bs)"
  by (induction bs rule: sextets.induct) auto

lemma octets_sextets: "list_all (\<lambda>b. b < 256) bs \<Longrightarrow> octets (sextets bs) = bs"
  by (induction bs rule: sextets.induct) auto

lemma length_sextets: "length (sextets bs) = (4 * length bs + 2) div 3"
  by (induction bs rule: sextets.induct) auto

lemma those_map_total: "list_all (\<lambda>x. f x = Some (g x)) xs \<Longrightarrow> those (map f xs) = Some (map g xs)"
  by (induction xs) auto

section \<open>Encoding\<close>

definition to_url :: "char \<Rightarrow> char" where
  "to_url c = (if c = CHR ''+'' then CHR ''-'' else if c = CHR ''/'' then CHR ''_'' else c)"

definition from_url :: "char \<Rightarrow> char" where
  "from_url c = (if c = CHR ''-'' then CHR ''+'' else if c = CHR ''_'' then CHR ''/'' else c)"

lemma replace_url:
  "replaceAll CHR ''/'' CHR ''_'' (replaceAll CHR ''+'' CHR ''-'' s) = map to_url s"
  "replaceAll CHR ''_'' CHR ''/'' (replaceAll CHR ''-'' CHR ''+'' s) = map from_url s"
  by (auto simp: replaceAll_def to_url_def from_url_def)

lemma alphabet_all:
  "list_all (\<lambda>c. c \<noteq> CHR ''='') ALPHABET" "list_all (\<lambda>c. token_char (to_url c)) ALPHABET"
  "list_all (\<lambda>c. to_url c \<noteq> CHR ''='') ALPHABET" "list_all (\<lambda>c. from_url (to_url c) = c) ALPHABET"
  by (simp_all add: ALPHABET_def token_char_def to_url_def from_url_def char_class_defs)

lemmas url_char = alphabet_all [THEN all_sextets]

lemma bytes_bound [simp]: "list_all (\<lambda>b. b < 256) (map unat (bs :: bytes))"
proof -
  have "unat (b :: 8 word) < 256" for b using unsigned_less [of b, where ?'a = nat] by simp
  then show ?thesis by (simp add: list_all_iff)
qed

lemma strip_pad: "list_all (\<lambda>c. c \<noteq> CHR ''='') s \<Longrightarrow> rev (dropWhile (\<lambda>c. c = CHR ''='') (rev (s @ replicate n CHR ''=''))) = s"
proof -
  assume s: "list_all (\<lambda>c. c \<noteq> CHR ''='') s"
  have "dropWhile (\<lambda>c. c = CHR ''='') (replicate n CHR ''='' @ rev s) = dropWhile (\<lambda>c. c = CHR ''='') (rev s)"
    by (induction n) auto
  also have "\<dots> = rev s" using s by (cases "rev s") (auto simp: list_all_iff dest: arg_cong [where f = set])
  finally show ?thesis by simp
qed

lemma encode_chars: "base64UrlEncode bs = map (to_url \<circ> b64_char) (sextets (map unat bs))"
proof -
  let ?x = "sextets (map unat bs)"
  have "list_all (\<lambda>x. x < 64) ?x" by (rule sextets_bound) simp
  then have "list_all (\<lambda>c. c \<noteq> CHR ''='') (map (to_url \<circ> b64_char) ?x)" using url_char(3) by (auto simp: list_all_iff)
  note strip = strip_pad [OF this, of "(3 - length bs mod 3) mod 3"]
  have "map to_url (btoa (map unat bs)) = map (to_url \<circ> b64_char) ?x @ replicate ((3 - length bs mod 3) mod 3) CHR ''=''"
    by (simp add: btoa_def to_url_def)
  then show ?thesis using strip by (simp add: base64UrlEncode_def replace_url)
qed

lemma encode_tokens: "list_all token_char (base64UrlEncode bs)" "length (base64UrlEncode bs) = (4 * length bs + 2) div 3"
proof -
  have "list_all (\<lambda>x. x < 64) (sextets (map unat bs))" by (rule sextets_bound) simp
  then show "list_all token_char (base64UrlEncode bs)" by (auto simp: encode_chars list_all_iff url_char(2))
qed (simp add: encode_chars length_sextets)

section \<open>Reading back\<close>

lemma strip_padding_pad:
  assumes "list_all (\<lambda>c. c \<noteq> CHR ''='') s" "length s mod 4 \<noteq> 1"
  shows "strip_padding (s @ replicate ((4 - length s mod 4) mod 4) CHR ''='') = s"
proof -
  have last: "\<not> is_suffix_of (CHR ''='' # u) s" if "u = [] \<or> u = ''=''" for u
    using assms(1) that by (auto simp: is_suffix_of_iff)
  have one: "is_suffix_of ''='' (s @ ''='')" "is_suffix_of ''=='' (s @ ''=='')" by (auto simp: is_suffix_of_iff)
  have two: "\<not> is_suffix_of ''=='' (s @ ''='')"
    using assms(1) by (auto simp: is_suffix_of_iff append_eq_append_conv2 Cons_eq_append_conv append_eq_Cons_conv)
  consider "length s mod 4 = 0" | "length s mod 4 = 2" | "length s mod 4 = 3" using assms(2) by force
  then show ?thesis
  proof cases
    case 1
    then show ?thesis using last by (simp add: strip_padding_def)
  next
    case 2
    then have "replicate ((4 - length s mod 4) mod 4) CHR ''='' = ''==''" by (simp add: numeral_2_eq_2)
    moreover have "length (s @ ''=='') mod 4 = 0" using 2 by (simp add: mod_Suc)
    ultimately show ?thesis using one by (simp add: strip_padding_def)
  next
    case 3
    then have "replicate ((4 - length s mod 4) mod 4) CHR ''='' = ''=''" by simp
    moreover have "length (s @ ''='') mod 4 = 0" using 3 by (simp add: mod_Suc)
    ultimately show ?thesis using one two by (simp add: strip_padding_def)
  qed
qed

lemma length_sextets_mod: "length (sextets bs) mod 4 \<noteq> 1"
  by (induction bs rule: sextets.induct) auto

lemma is_base64url: "test BASE64URL s \<longleftrightarrow> list_all token_char s \<and> s \<noteq> []"
proof -
  have "test BASE64URL s \<longleftrightarrow> list_all token_char s \<and> 1 \<le> length s"
    by (simp only: BASE64URL_def seqs.simps test_anchored ends_run_end option.case simp_thms)
  then show ?thesis by (cases s) simp_all
qed

lemma base64_read_back:
  assumes "bs \<noteq> []"
  shows "base64UrlDecode (base64UrlEncode bs) = Some bs"
proof -
  let ?x = "sextets (map unat bs)"
  have b: "list_all (\<lambda>x. x < 64) ?x" by (rule sextets_bound) simp
  have std: "map from_url (base64UrlEncode bs) = map b64_char ?x"
    using b url_char(4) by (auto simp: encode_chars list_all_iff)
  have n: "length (base64UrlEncode bs) = length ?x" by (simp add: encode_chars)
  have "list_all (\<lambda>c. c \<noteq> CHR ''='') (map b64_char ?x)" using b url_char(1) by (auto simp: list_all_iff)
  then have pad: "strip_padding (map b64_char ?x @ replicate ((4 - length ?x mod 4) mod 4) CHR ''='') = map b64_char ?x"
    using strip_padding_pad [of "map b64_char ?x"] length_sextets_mod [of "map unat bs"] by (simp only: length_map simp_thms)
  have "those (map b64_value (map b64_char ?x)) = Some ?x"
    using those_map_total [of "b64_value \<circ> b64_char" id ?x] b by (simp add: list_all_iff)
  then have "atob (map b64_char ?x @ replicate ((4 - length ?x mod 4) mod 4) CHR ''='') = Some (map unat bs)"
    using length_sextets_mod [of "map unat bs"] octets_sextets [OF bytes_bound [of bs]] by (simp only: atob_def pad Let_def length_map) simp
  moreover have "map of_nat (map unat bs) = bs" by (simp add: map_idI)
  moreover have "test BASE64URL (base64UrlEncode bs)"
    using assms encode_tokens [of bs] by (cases bs) (auto simp: is_base64url)
  ultimately show ?thesis
    by (simp only: base64UrlDecode_def replace_url std n Let_def simp_thms if_False option.case)
qed

section \<open>Tokens\<close>

lemma token_of_bytes:
  "length bs = 32 \<Longrightarrow> list_all token_char (base64UrlEncode bs) \<and> length (base64UrlEncode bs) = 43"
  "length bs = 18 \<Longrightarrow> list_all token_char (base64UrlEncode bs) \<and> length (base64UrlEncode bs) = 24"
  using encode_tokens [of bs] by auto

lemma hex_of_bytes: "list_all is_lower_hex (sha256Hex digest v)" "length (sha256Hex digest v) = 2 * length (digest (encode_text v))"
proof -
  have h: "n < 16 \<Longrightarrow> is_lower_hex (hex_digit n)" for n by (auto simp: hex_digit_def char_class_defs)
  have "unat b div 16 < 16" for b :: "8 word" using unsigned_less [of b, where ?'a = nat] by simp
  then have "list_all is_lower_hex (byte_hex b)" for b by (simp add: byte_hex_def h)
  then show "list_all is_lower_hex (sha256Hex digest v)" by (auto simp: sha256Hex_def list_all_iff)
  show "length (sha256Hex digest v) = 2 * length (digest (encode_text v))"
    by (simp add: sha256Hex_def length_concat byte_hex_def comp_def sum_list_triv)
qed

section \<open>Comparison\<close>

lemma or_zero: "(a OR b = 0) \<longleftrightarrow> a = 0 \<and> b = (0 :: 32 word)"
  by (auto simp: bit_eq_iff bit_or_iff)

lemma xor_zero: "(a XOR b = 0) \<longleftrightarrow> a = (b :: 32 word)"
  by (auto simp: bit_eq_iff bit_xor_iff)

lemma fold_mismatch: "foldl (\<lambda>m i. m OR f i) z is = 0 \<longleftrightarrow> z = 0 \<and> list_all (\<lambda>i. f i = (0 :: 32 word)) is"
  by (induction "is" arbitrary: z) (auto simp: or_zero)

lemma utf8_inject: "utf8 c @ bs = utf8 d @ bs' \<longleftrightarrow> c = d \<and> bs = bs'"
proof
  assume e: "utf8 c @ bs = utf8 d @ bs'"
  have "code_unit c = code_unit d"
    using e mult_div_mod_eq [of 64 "code_unit c"] mult_div_mod_eq [of 64 "code_unit d"]
    by (auto simp: utf8_def Let_def split: if_splits) (metis code_unit_eq div_mult_mod_eq)
  then show "c = d \<and> bs = bs'" using e by simp
qed simp

lemma encode_text_inject: "encode_text s = encode_text s' \<longleftrightarrow> s = s'"
proof
  have encoded: "map unat (encode_text s) = concat (map utf8 s)" for s
    using utf8_bound by (auto simp: encode_text_def unat_of_nat intro!: map_idI)
  assume "encode_text s = encode_text s'"
  then have "concat (map utf8 s) = concat (map utf8 s')" by (metis encoded)
  then show "s = s'"
  proof (induction s arbitrary: s')
    case Nil
    then show ?case by (cases s') (auto simp: utf8_def Let_def split: if_splits)
  next
    case (Cons c s)
    then obtain d t where "s' = d # t" by (cases s') (auto simp: utf8_def Let_def split: if_splits)
    with Cons show ?case by (simp add: utf8_inject)
  qed
qed simp

lemma length_encode_text: "length s \<le> length (encode_text s)" "length (encode_text s) \<le> 2 * length s"
  by (induction s) (auto simp: encode_text_def utf8_def Let_def)

lemma ucast_byte: "(ucast a :: 32 word) = ucast b \<longleftrightarrow> a = (b :: 8 word)"
proof
  assume "(ucast a :: 32 word) = ucast b"
  then have "unat (ucast a :: 32 word) = unat (ucast b :: 32 word)" by simp
  then show "a = b" using unsigned_less [of a, where ?'a = nat] unsigned_less [of b, where ?'a = nat]
    by (simp add: unsigned_ucast_eq take_bit_nat_eq_self word_unat_eq_iff)
qed simp

text \<open>Texts of JavaScript have fewer than \<open>2 ^ 30\<close> code units, so their lengths are compared without wrap-around.\<close>

lemma constant_time_decides:
  assumes "length left < 2 ^ 30" "length right < 2 ^ 30"
  shows "constantTimeEqual left right \<longleftrightarrow> left = right"
proof -
  let ?l = "encode_text left" and ?r = "encode_text right"
  have n: "length ?l < 2 ^ 32" "length ?r < 2 ^ 32"
    using length_encode_text(2) [of left] length_encode_text(2) [of right] assms by simp_all
  have "unat (of_nat m :: 32 word) = m" if "m < 2 ^ 32" for m using that by (simp add: unat_of_nat)
  then have len: "(of_nat (length ?l) :: 32 word) = of_nat (length ?r) \<longleftrightarrow> length ?l = length ?r" using n by metis
  have "constantTimeEqual left right \<longleftrightarrow> length ?l = length ?r \<and> (\<forall>i < max (length ?l) (length ?r). byte_at ?l i = byte_at ?r i)"
    by (auto simp: constantTimeEqual_def Let_def fold_mismatch xor_zero len list_all_iff)
  also have "\<dots> \<longleftrightarrow> ?l = ?r"
    by (auto simp: byte_at_def list_eq_iff_nth_eq ucast_byte)
  finally show ?thesis by (simp add: encode_text_inject)
qed

end
