(* ===== verification/Bootstrap_State.thy ===== *)
theory Bootstrap_State
  imports Schemas Web_Codec
begin

text \<open>
  The state of a customer's bootstrap, \<^verbatim>\<open>apps/installer/src/customer-bootstrap-state.ts\<close>: a capability is consumed once and
  gives a browser session, the session starts an authorisation, its callback starts the convergence, and the convergence
  ends in \<^verbatim>\<open>READY\<close> or goes back. Every operation reads the state by its schema and returns a new state. Times and
  revisions are integers, random bytes are arguments in the order the code draws them, and the digest of Web Crypto is a
  parameter.
\<close>

section \<open>The state\<close>

datatype bootstrap_status = INCOMPLETE | CONVERGING | READY

fun bootstrap_status_text :: "bootstrap_status \<Rightarrow> string" where
  "bootstrap_status_text INCOMPLETE = ''INCOMPLETE''"
| "bootstrap_status_text CONVERGING = ''CONVERGING''"
| "bootstrap_status_text READY = ''READY''"

datatype bootstrap_failure = Authorization_rejected | Grant_invalid | Provider_recovery_required | Revocation_unconfirmed

fun bootstrap_failure_text :: "bootstrap_failure \<Rightarrow> string" where
  "bootstrap_failure_text Authorization_rejected = ''authorization_rejected''"
| "bootstrap_failure_text Grant_invalid = ''grant_invalid''"
| "bootstrap_failure_text Provider_recovery_required = ''provider_recovery_required''"
| "bootstrap_failure_text Revocation_unconfirmed = ''revocation_unconfirmed''"

datatype oauth_phase = Authorizing | Exchanging | Finalizing

fun oauth_phase_text :: "oauth_phase \<Rightarrow> string" where
  "oauth_phase_text Authorizing = ''authorizing''"
| "oauth_phase_text Exchanging = ''exchanging''"
| "oauth_phase_text Finalizing = ''finalizing''"

datatype cleanup_phase = Cleanup_removing | Cleanup_removed | Cleanup_recovery_required

fun cleanup_phase_text :: "cleanup_phase \<Rightarrow> string" where
  "cleanup_phase_text Cleanup_removing = ''removing''"
| "cleanup_phase_text Cleanup_removed = ''removed''"
| "cleanup_phase_text Cleanup_recovery_required = ''recovery_required''"

record bootstrap_session =
  bn_secretHash :: string
  bn_expiresAt :: int

record bootstrap_oauth =
  bo_attemptId :: string
  bo_stateHash :: string
  bo_phase :: oauth_phase
  bo_expiresAt :: int

record bootstrap_state =
  bs_revision :: int
  bs_status :: bootstrap_status
  bs_installId :: string
  bs_bootstrapId :: string
  bs_secretCommitment :: string
  bs_capabilityUnused :: bool
  bs_capabilityExpiresAt :: int
  bs_session :: "bootstrap_session option"
  bs_oauth :: "bootstrap_oauth option"
  bs_failureCode :: "bootstrap_failure option"
  bs_failureReason :: "string option"
  bs_cleanup :: "cleanup_phase option"
  bs_readyAt :: "int option"

datatype bootstrap_error = Bootstrap_invalid | Bootstrap_expired | Bootstrap_consumed | Bootstrap_conflict | Bootstrap_final

text \<open>A literal prefix and a run of so many characters.\<close>

definition prefixed :: "string \<Rightarrow> (char \<Rightarrow> bool) \<Rightarrow> nat \<Rightarrow> pattern" where
  "prefixed w P n = seqs [Start, Lit w, Run P n (Some n), End]"

definition BOOTSTRAP_ID :: pattern where
  "BOOTSTRAP_ID = prefixed ''boot_'' token_char 24"

definition INSTALLATION_ID :: pattern where
  "INSTALLATION_ID = prefixed ''acg-'' is_lower_hex 24"

definition ATTEMPT_ID :: pattern where
  "ATTEMPT_ID = prefixed ''attempt_'' token_char 24"

definition TOKEN :: pattern where
  "TOKEN = prefixed [] token_char 43"

definition FAILURE_REASON :: pattern where
  "FAILURE_REASON = seqs [Start, Cls is_lower, Run (\<lambda>c. is_lower c \<or> is_digit c \<or> c = CHR ''_'') 0 (Some 159), End]"

definition CUSTOMER_BOOTSTRAP_TTL_MS :: int where
  "CUSTOMER_BOOTSTRAP_TTL_MS = 10 * 60 * 1000"

definition CUSTOMER_BOOTSTRAP_OAUTH_TTL_MS :: int where
  "CUSTOMER_BOOTSTRAP_OAUTH_TTL_MS = 5 * 60 * 1000"

section \<open>Reading and writing\<close>

definition session_value :: "bootstrap_session \<Rightarrow> jval" where
  "session_value s = JObj [(''secretHash'', JStr (bn_secretHash s)), (''expiresAt'', jint (bn_expiresAt s))]"

definition parse_session :: "jval \<Rightarrow> bootstrap_session option" where
  "parse_session v = do {
     strict_object [''secretHash'', ''expiresAt''] v;
     secretHash \<leftarrow> matching TOKEN (field v ''secretHash'');
     expiresAt \<leftarrow> safe_int (field v ''expiresAt'');
     Some \<lparr>bn_secretHash = secretHash, bn_expiresAt = expiresAt\<rparr> }"

definition oauth_value :: "bootstrap_oauth \<Rightarrow> jval" where
  "oauth_value a = JObj [(''attemptId'', JStr (bo_attemptId a)), (''stateHash'', JStr (bo_stateHash a)),
     (''phase'', JStr (oauth_phase_text (bo_phase a))), (''expiresAt'', jint (bo_expiresAt a))]"

definition parse_oauth :: "jval \<Rightarrow> bootstrap_oauth option" where
  "parse_oauth v = do {
     strict_object [''attemptId'', ''stateHash'', ''phase'', ''expiresAt''] v;
     attemptId \<leftarrow> matching ATTEMPT_ID (field v ''attemptId'');
     stateHash \<leftarrow> matching TOKEN (field v ''stateHash'');
     phase \<leftarrow> picklist oauth_phase_text [Authorizing, Exchanging, Finalizing] (field v ''phase'');
     expiresAt \<leftarrow> safe_int (field v ''expiresAt'');
     Some \<lparr>bo_attemptId = attemptId, bo_stateHash = stateHash, bo_phase = phase, bo_expiresAt = expiresAt\<rparr> }"

definition cleanup_value :: "cleanup_phase \<Rightarrow> jval" where
  "cleanup_value p = JObj [(''phase'', JStr (cleanup_phase_text p))]"

definition parse_cleanup :: "jval \<Rightarrow> cleanup_phase option" where
  "parse_cleanup v = do {
     strict_object [''phase''] v;
     picklist cleanup_phase_text [Cleanup_removing, Cleanup_removed, Cleanup_recovery_required] (field v ''phase'') }"

definition bootstrap_value :: "bootstrap_state \<Rightarrow> jval" where
  "bootstrap_value s = JObj [(''schemaVersion'', jint 1), (''revision'', jint (bs_revision s)),
     (''status'', JStr (bootstrap_status_text (bs_status s))), (''installId'', JStr (bs_installId s)),
     (''bootstrapId'', JStr (bs_bootstrapId s)), (''secretCommitment'', JStr (bs_secretCommitment s)),
     (''capabilityUnused'', JBool (bs_capabilityUnused s)), (''capabilityExpiresAt'', jint (bs_capabilityExpiresAt s)),
     (''session'', or_null session_value (bs_session s)), (''oauth'', or_null oauth_value (bs_oauth s)),
     (''failureCode'', or_null (JStr \<circ> bootstrap_failure_text) (bs_failureCode s)),
     (''failureReason'', or_null JStr (bs_failureReason s)), (''cleanup'', or_null cleanup_value (bs_cleanup s)),
     (''readyAt'', or_null jint (bs_readyAt s))]"

definition bootstrap_keys :: "string list" where
  "bootstrap_keys = [''schemaVersion'', ''revision'', ''status'', ''installId'', ''bootstrapId'', ''secretCommitment'',
     ''capabilityUnused'', ''capabilityExpiresAt'', ''session'', ''oauth'', ''failureCode'', ''failureReason'', ''cleanup'', ''readyAt'']"

definition parseCustomerBootstrapState :: "jval \<Rightarrow> bootstrap_state option" where
  "parseCustomerBootstrapState v = do {
     strict_object bootstrap_keys v;
     exactly (jint 1) (field v ''schemaVersion'');
     revision \<leftarrow> int_from 1 (field v ''revision'');
     status \<leftarrow> picklist bootstrap_status_text [INCOMPLETE, CONVERGING, READY] (field v ''status'');
     installId \<leftarrow> matching INSTALLATION_ID (field v ''installId'');
     bootstrapId \<leftarrow> matching BOOTSTRAP_ID (field v ''bootstrapId'');
     secretCommitment \<leftarrow> matching HASH (field v ''secretCommitment'');
     capabilityUnused \<leftarrow> boolean (field v ''capabilityUnused'');
     capabilityExpiresAt \<leftarrow> safe_int (field v ''capabilityExpiresAt'');
     session \<leftarrow> nullable parse_session (field v ''session'');
     oauth \<leftarrow> nullable parse_oauth (field v ''oauth'');
     failureCode \<leftarrow> nullable (picklist bootstrap_failure_text
       [Authorization_rejected, Grant_invalid, Provider_recovery_required, Revocation_unconfirmed]) (field v ''failureCode'');
     failureReason \<leftarrow> null_default (matching FAILURE_REASON) (field v ''failureReason'');
     cleanup \<leftarrow> null_default parse_cleanup (field v ''cleanup'');
     readyAt \<leftarrow> nullable safe_int (field v ''readyAt'');
     Some \<lparr>bs_revision = revision, bs_status = status, bs_installId = installId, bs_bootstrapId = bootstrapId,
       bs_secretCommitment = secretCommitment, bs_capabilityUnused = capabilityUnused,
       bs_capabilityExpiresAt = capabilityExpiresAt, bs_session = session, bs_oauth = oauth, bs_failureCode = failureCode,
       bs_failureReason = failureReason, bs_cleanup = cleanup, bs_readyAt = readyAt\<rparr> }"

definition frozen :: "bootstrap_state \<Rightarrow> bootstrap_error + bootstrap_state" where
  "frozen s = (case parseCustomerBootstrapState (bootstrap_value s) of None \<Rightarrow> Inl Bootstrap_invalid | Some t \<Rightarrow> Inr t)"

section \<open>Operations\<close>

definition bootstrap_require :: "bool \<Rightarrow> bootstrap_error \<Rightarrow> bootstrap_error + unit" where
  "bootstrap_require b e = (if b then Inr () else Inl e)"

definition validNow :: "int \<Rightarrow> bootstrap_error + unit" where
  "validNow now = bootstrap_require (is_safe_integer now \<and> 0 \<le> now) Bootstrap_invalid"

definition randomToken :: "bytes \<Rightarrow> bootstrap_error + string" where
  "randomToken bs = (if length bs \<noteq> 32 then Inl Bootstrap_invalid else Inr (base64UrlEncode bs))"

definition randomShortToken :: "bytes \<Rightarrow> bootstrap_error + string" where
  "randomShortToken bs = (if length bs \<noteq> 18 then Inl Bootstrap_invalid else Inr (base64UrlEncode bs))"

definition parsed_state :: "jval \<Rightarrow> bool \<Rightarrow> bootstrap_error + bootstrap_state" where
  "parsed_state v b = (case parseCustomerBootstrapState v of
     None \<Rightarrow> Inl Bootstrap_invalid | Some s \<Rightarrow> if b then Inr s else Inl Bootstrap_invalid)"

text \<open>The capability: its identifier, its secret, the commitment to the secret and its expiry.\<close>

definition createCustomerBootstrapCapability :: "(bytes \<Rightarrow> bytes) \<Rightarrow> int \<Rightarrow> bytes \<Rightarrow> bytes
    \<Rightarrow> bootstrap_error + string \<times> string \<times> string \<times> int" where
  "createCustomerBootstrapCapability digest now secretBytes idBytes =
     andThen (validNow now) (\<lambda>_.
     andThen (randomToken secretBytes) (\<lambda>secret.
     andThen (randomShortToken idBytes) (\<lambda>short.
       Inr (''boot_'' @ short, secret, ''sha256:'' @ sha256Hex digest secret, now + CUSTOMER_BOOTSTRAP_TTL_MS))))"

definition initialCustomerBootstrapState :: "string \<Rightarrow> string \<Rightarrow> string \<Rightarrow> int \<Rightarrow> bootstrap_error + bootstrap_state" where
  "initialCustomerBootstrapState installId bootstrapId secretCommitment expiresAt =
     frozen \<lparr>bs_revision = 1, bs_status = INCOMPLETE, bs_installId = installId, bs_bootstrapId = bootstrapId,
       bs_secretCommitment = secretCommitment, bs_capabilityUnused = True, bs_capabilityExpiresAt = expiresAt,
       bs_session = None, bs_oauth = None, bs_failureCode = None, bs_failureReason = None, bs_cleanup = None, bs_readyAt = None\<rparr>"

text \<open>The session secret, its expiry and the next state.\<close>

definition consumeCustomerBootstrapCapability :: "(bytes \<Rightarrow> bytes) \<Rightarrow> jval \<Rightarrow> string \<Rightarrow> string \<Rightarrow> int \<Rightarrow> bytes
    \<Rightarrow> bootstrap_error + string \<times> int \<times> bootstrap_state" where
  "consumeCustomerBootstrapCapability digest v bootstrapId secret now secretBytes =
     andThen (validNow now) (\<lambda>_.
     andThen (parsed_state v (test BOOTSTRAP_ID bootstrapId \<and> test TOKEN secret)) (\<lambda>current.
     andThen (bootstrap_require (bs_status current \<noteq> READY) Bootstrap_final) (\<lambda>_.
     andThen (bootstrap_require (bs_bootstrapId current = bootstrapId) Bootstrap_invalid) (\<lambda>_.
     andThen (bootstrap_require (bs_capabilityUnused current) Bootstrap_consumed) (\<lambda>_.
     andThen (bootstrap_require (now < bs_capabilityExpiresAt current) Bootstrap_expired) (\<lambda>_.
     andThen (bootstrap_require (constantTimeEqual (''sha256:'' @ sha256Hex digest secret) (bs_secretCommitment current))
       Bootstrap_invalid) (\<lambda>_.
     andThen (randomToken secretBytes) (\<lambda>sessionSecret.
     let expiresAt = min (now + CUSTOMER_BOOTSTRAP_TTL_MS) (bs_capabilityExpiresAt current) in
     andThen (frozen (current\<lparr>bs_revision := bs_revision current + 1, bs_capabilityUnused := False,
         bs_session := Some \<lparr>bn_secretHash = sha256 digest sessionSecret, bn_expiresAt = expiresAt\<rparr>,
         bs_oauth := None, bs_failureCode := None, bs_failureReason := None\<rparr>)) (\<lambda>state.
       Inr (sessionSecret, expiresAt, state))))))))))"

definition createCustomerBootstrapRecoverySession :: "(bytes \<Rightarrow> bytes) \<Rightarrow> jval \<Rightarrow> int \<Rightarrow> bytes
    \<Rightarrow> bootstrap_error + string \<times> int \<times> bootstrap_state" where
  "createCustomerBootstrapRecoverySession digest v now secretBytes =
     andThen (validNow now) (\<lambda>_.
     andThen (parsed_state v True) (\<lambda>current.
     andThen (bootstrap_require (\<not> bs_capabilityUnused current) Bootstrap_invalid) (\<lambda>_.
     andThen (bootstrap_require (bs_status current \<noteq> READY) Bootstrap_final) (\<lambda>_.
     andThen (bootstrap_require (case bs_oauth current of None \<Rightarrow> True | Some a \<Rightarrow> bo_expiresAt a \<le> now) Bootstrap_conflict) (\<lambda>_.
     andThen (randomToken secretBytes) (\<lambda>sessionSecret.
     let expiresAt = now + CUSTOMER_BOOTSTRAP_TTL_MS in
     andThen (bootstrap_require (is_safe_integer expiresAt) Bootstrap_invalid) (\<lambda>_.
     andThen (frozen (current\<lparr>bs_revision := bs_revision current + 1, bs_status := INCOMPLETE,
         bs_session := Some \<lparr>bn_secretHash = sha256 digest sessionSecret, bn_expiresAt = expiresAt\<rparr>, bs_oauth := None,
         bs_failureCode := (if bs_status current = CONVERGING \<or> bs_oauth current \<noteq> None then Some Provider_recovery_required
           else bs_failureCode current)\<rparr>)) (\<lambda>state.
       Inr (sessionSecret, expiresAt, state)))))))))"

definition authenticatedSession :: "(bytes \<Rightarrow> bytes) \<Rightarrow> bootstrap_state \<Rightarrow> string \<Rightarrow> int \<Rightarrow> bootstrap_error + unit" where
  "authenticatedSession digest current sessionSecret now =
     andThen (bootstrap_require (test TOKEN sessionSecret) Bootstrap_invalid) (\<lambda>_. case bs_session current of
       None \<Rightarrow> Inl Bootstrap_expired
     | Some s \<Rightarrow> andThen (bootstrap_require (now < bn_expiresAt s) Bootstrap_expired) (\<lambda>_.
         bootstrap_require (constantTimeEqual (sha256 digest sessionSecret) (bn_secretHash s)) Bootstrap_invalid))"

text \<open>What an authorisation is started with: the attempt, the state and the verifier the browser keeps, the challenge and the expiry.\<close>

record oauth_start =
  os_attemptId :: string
  os_state :: string
  os_verifier :: string
  os_challenge :: string
  os_expiresAt :: int
  os_next :: bootstrap_state

definition startCustomerBootstrapOauth :: "(bytes \<Rightarrow> bytes) \<Rightarrow> jval \<Rightarrow> string \<Rightarrow> int \<Rightarrow> bytes \<Rightarrow> bytes \<Rightarrow> bytes
    \<Rightarrow> bootstrap_error + oauth_start" where
  "startCustomerBootstrapOauth digest v sessionSecret now verifierBytes stateBytes attemptBytes =
     andThen (validNow now) (\<lambda>_.
     andThen (parsed_state v True) (\<lambda>read_state.
     andThen (bootstrap_require (bs_status read_state \<noteq> READY) Bootstrap_final) (\<lambda>_.
     andThen (authenticatedSession digest read_state sessionSecret now) (\<lambda>_.
     andThen (case bs_oauth read_state of
         None \<Rightarrow> Inr read_state
       | Some a \<Rightarrow> if bo_expiresAt a \<le> now
           then frozen (read_state\<lparr>bs_status := INCOMPLETE, bs_oauth := None,
             bs_failureCode := Some Provider_recovery_required, bs_failureReason := None\<rparr>)
           else Inr read_state) (\<lambda>current.
     andThen (bootstrap_require (bs_status current = INCOMPLETE \<and> bs_oauth current = None) Bootstrap_conflict) (\<lambda>_.
     andThen (randomToken verifierBytes) (\<lambda>verifier.
     andThen (randomToken stateBytes) (\<lambda>state.
     andThen (randomShortToken attemptBytes) (\<lambda>short.
     let attemptId = ''attempt_'' @ short;
         expiresAt = min (now + CUSTOMER_BOOTSTRAP_OAUTH_TTL_MS) (case bs_session current of None \<Rightarrow> 0 | Some s \<Rightarrow> bn_expiresAt s) in
     andThen (frozen (current\<lparr>bs_revision := bs_revision current + 1,
         bs_oauth := Some \<lparr>bo_attemptId = attemptId, bo_stateHash = sha256 digest state, bo_phase = Authorizing,
           bo_expiresAt = expiresAt\<rparr>, bs_failureCode := None, bs_failureReason := None\<rparr>)) (\<lambda>next_state.
       Inr \<lparr>os_attemptId = attemptId, os_state = state, os_verifier = verifier,
         os_challenge = pkceChallenge digest verifier, os_expiresAt = expiresAt, os_next = next_state\<rparr>))))))))))"

text \<open>The checks the two callbacks share.\<close>

definition callback_oauth :: "(bytes \<Rightarrow> bytes) \<Rightarrow> bootstrap_state \<Rightarrow> bool \<Rightarrow> string \<Rightarrow> string \<Rightarrow> string \<Rightarrow> int
    \<Rightarrow> bootstrap_error + bootstrap_oauth" where
  "callback_oauth digest current admitted sessionSecret attemptId state now =
     andThen (bootstrap_require (bs_status current \<noteq> READY) Bootstrap_final) (\<lambda>_.
     andThen (authenticatedSession digest current sessionSecret now) (\<lambda>_. case bs_oauth current of
       None \<Rightarrow> Inl Bootstrap_conflict
     | Some oauth \<Rightarrow>
         andThen (bootstrap_require (admitted \<and> bo_phase oauth = Authorizing) Bootstrap_conflict) (\<lambda>_.
         andThen (bootstrap_require (now < bo_expiresAt oauth) Bootstrap_expired) (\<lambda>_.
         andThen (bootstrap_require (bo_attemptId oauth = attemptId) Bootstrap_invalid) (\<lambda>_.
         andThen (bootstrap_require (constantTimeEqual (sha256 digest state) (bo_stateHash oauth)) Bootstrap_invalid) (\<lambda>_.
           Inr oauth))))))"

definition consumeCustomerBootstrapOauthCallback :: "(bytes \<Rightarrow> bytes) \<Rightarrow> jval \<Rightarrow> string \<Rightarrow> string \<Rightarrow> string \<Rightarrow> int
    \<Rightarrow> bootstrap_error + string \<times> bootstrap_state" where
  "consumeCustomerBootstrapOauthCallback digest v sessionSecret attemptId state now =
     andThen (validNow now) (\<lambda>_.
     andThen (parsed_state v (test ATTEMPT_ID attemptId \<and> test TOKEN state)) (\<lambda>current.
     andThen (callback_oauth digest current True sessionSecret attemptId state now) (\<lambda>oauth.
     andThen (frozen (current\<lparr>bs_revision := bs_revision current + 1, bs_status := CONVERGING,
         bs_oauth := Some (oauth\<lparr>bo_phase := Exchanging\<rparr>), bs_failureCode := None, bs_failureReason := None\<rparr>)) (\<lambda>next_state.
       Inr (bo_attemptId oauth, next_state)))))"

definition rejectCustomerBootstrapOauthStart :: "jval \<Rightarrow> string \<Rightarrow> bootstrap_error + bootstrap_state" where
  "rejectCustomerBootstrapOauthStart v attemptId =
     andThen (parsed_state v (test ATTEMPT_ID attemptId)) (\<lambda>current.
     andThen (bootstrap_require (bs_status current \<noteq> READY) Bootstrap_final) (\<lambda>_.
     andThen (bootstrap_require (bs_status current = INCOMPLETE \<and> (case bs_oauth current of
         None \<Rightarrow> False | Some a \<Rightarrow> bo_phase a = Authorizing \<and> bo_attemptId a = attemptId)) Bootstrap_conflict) (\<lambda>_.
       frozen (current\<lparr>bs_revision := bs_revision current + 1, bs_oauth := None,
         bs_failureCode := Some Authorization_rejected, bs_failureReason := None\<rparr>))))"

definition rejectCustomerBootstrapOauthCallback :: "(bytes \<Rightarrow> bytes) \<Rightarrow> jval \<Rightarrow> string \<Rightarrow> string \<Rightarrow> string \<Rightarrow> int
    \<Rightarrow> bootstrap_error + bootstrap_state" where
  "rejectCustomerBootstrapOauthCallback digest v sessionSecret attemptId state now =
     andThen (validNow now) (\<lambda>_.
     andThen (parsed_state v (test ATTEMPT_ID attemptId \<and> test TOKEN state)) (\<lambda>current.
     andThen (callback_oauth digest current (bs_status current = INCOMPLETE) sessionSecret attemptId state now) (\<lambda>oauth.
       frozen (current\<lparr>bs_revision := bs_revision current + 1, bs_oauth := None,
         bs_failureCode := Some Authorization_rejected, bs_failureReason := None\<rparr>))))"

text \<open>The attempt of a converging state.\<close>

definition converging_oauth :: "jval \<Rightarrow> string \<Rightarrow> (oauth_phase \<Rightarrow> bool) \<Rightarrow> bootstrap_error + bootstrap_state \<times> bootstrap_oauth" where
  "converging_oauth v attemptId phase_ok =
     andThen (parsed_state v (test ATTEMPT_ID attemptId)) (\<lambda>current.
     andThen (bootstrap_require (bs_status current \<noteq> READY) Bootstrap_final) (\<lambda>_. case bs_oauth current of
       None \<Rightarrow> Inl Bootstrap_conflict
     | Some oauth \<Rightarrow> andThen (bootstrap_require (bs_status current = CONVERGING \<and> bo_attemptId oauth = attemptId
         \<and> phase_ok (bo_phase oauth)) Bootstrap_conflict) (\<lambda>_. Inr (current, oauth))))"

definition markCustomerBootstrapFinalizing :: "jval \<Rightarrow> string \<Rightarrow> bootstrap_error + bootstrap_state" where
  "markCustomerBootstrapFinalizing v attemptId =
     andThen (converging_oauth v attemptId (\<lambda>p. p = Exchanging)) (\<lambda>(current, oauth).
       frozen (current\<lparr>bs_revision := bs_revision current + 1, bs_oauth := Some (oauth\<lparr>bo_phase := Finalizing\<rparr>)\<rparr>))"

definition safe_reason :: "string option \<Rightarrow> string option" where
  "safe_reason reason = (case reason of None \<Rightarrow> None | Some r \<Rightarrow> if test FAILURE_REASON r then Some r else None)"

definition markCustomerBootstrapIncomplete :: "jval \<Rightarrow> string \<Rightarrow> bootstrap_failure \<Rightarrow> string option \<Rightarrow> cleanup_phase option
    \<Rightarrow> bootstrap_error + bootstrap_state" where
  "markCustomerBootstrapIncomplete v attemptId failureCode failureReason cleanup =
     andThen (converging_oauth v attemptId (\<lambda>p. True)) (\<lambda>(current, oauth).
       frozen (current\<lparr>bs_revision := bs_revision current + 1, bs_status := INCOMPLETE, bs_oauth := None,
         bs_failureCode := Some failureCode, bs_failureReason := safe_reason failureReason, bs_cleanup := cleanup\<rparr>))"

definition markCustomerBootstrapCleanupPending :: "jval \<Rightarrow> string \<Rightarrow> bootstrap_failure \<Rightarrow> string option
    \<Rightarrow> bootstrap_error + bootstrap_state" where
  "markCustomerBootstrapCleanupPending v attemptId failureCode failureReason =
     andThen (converging_oauth v attemptId (\<lambda>p. p \<noteq> Finalizing)) (\<lambda>(current, oauth).
       frozen (current\<lparr>bs_revision := bs_revision current + 1, bs_failureCode := Some failureCode,
         bs_failureReason := safe_reason failureReason, bs_cleanup := Some Cleanup_removing\<rparr>))"

definition markCustomerBootstrapReady :: "jval \<Rightarrow> string \<Rightarrow> int \<Rightarrow> bootstrap_error + bootstrap_state" where
  "markCustomerBootstrapReady v attemptId now =
     andThen (validNow now) (\<lambda>_.
     andThen (converging_oauth v attemptId (\<lambda>p. True)) (\<lambda>(current, oauth).
       frozen (current\<lparr>bs_revision := bs_revision current + 1, bs_status := READY, bs_capabilityUnused := False,
         bs_session := None, bs_oauth := None, bs_failureCode := None, bs_failureReason := None, bs_readyAt := Some now\<rparr>)))"

text \<open>The status and whether one can retry.\<close>

definition publicCustomerBootstrapStatus :: "jval \<Rightarrow> bootstrap_error + bootstrap_status \<times> bool" where
  "publicCustomerBootstrapStatus v = andThen (parsed_state v True) (\<lambda>s.
     Inr (bs_status s, bs_status s = INCOMPLETE \<and> bs_session s \<noteq> None))"

end
