(* ===== verification/Bootstrap_Machine.thy ===== *)
theory Bootstrap_Machine
  imports Bootstrap_State Web_Codec
begin

text \<open>
  What the schema of the bootstrap state accepts, written out as \<open>bootstrap_ok\<close>, and that a state is read as it was
  written. The tokens the operations draw have the form the schema asks for.
\<close>

section \<open>Forms\<close>

lemma is_prefixed: "test (prefixed w P n) s \<longleftrightarrow> is_prefix_of w s \<and> list_all P (drop (length w) s) \<and> length s = length w + n"
proof -
  have "test (prefixed w P n) s \<longleftrightarrow> is_prefix_of w s \<and> list_all P (drop (length w) s) \<and> n \<le> length s - length w \<and> length s - length w \<le> n"
    by (simp only: prefixed_def seqs.simps test_anchored ends_Lit_run_end option.case)
  moreover have "is_prefix_of w s \<Longrightarrow> length w \<le> length s" by (auto simp: is_prefix_of_iff)
  ultimately show ?thesis by auto
qed

lemma prefixed_append [simp]: "test (prefixed w P n) (w @ s) \<longleftrightarrow> list_all P s \<and> length s = n"
  by (auto simp: is_prefixed is_prefix_of_iff)

lemma token_32 [simp]: "length bs = 32 \<Longrightarrow> test TOKEN (base64UrlEncode bs)"
  using token_of_bytes(1) [of bs] by (simp add: TOKEN_def is_prefixed)

lemma token_18 [simp]:
  "length bs = 18 \<Longrightarrow> test ATTEMPT_ID (''attempt_'' @ base64UrlEncode bs)"
  "length bs = 18 \<Longrightarrow> test BOOTSTRAP_ID (''boot_'' @ base64UrlEncode bs)"
  using token_of_bytes(2) [of bs] by (simp_all add: ATTEMPT_ID_def BOOTSTRAP_ID_def del: append.simps)

lemma length_token: "test TOKEN s \<Longrightarrow> length s = 43"
  by (simp add: TOKEN_def is_prefixed)

section \<open>The schema\<close>

definition session_ok :: "bootstrap_session \<Rightarrow> bool" where
  "session_ok s \<longleftrightarrow> test TOKEN (bn_secretHash s) \<and> is_safe_integer (bn_expiresAt s)"

definition oauth_ok :: "bootstrap_oauth \<Rightarrow> bool" where
  "oauth_ok a \<longleftrightarrow> test ATTEMPT_ID (bo_attemptId a) \<and> test TOKEN (bo_stateHash a) \<and> is_safe_integer (bo_expiresAt a)"

definition bootstrap_ok :: "bootstrap_state \<Rightarrow> bool" where
  "bootstrap_ok s \<longleftrightarrow> is_safe_integer (bs_revision s) \<and> 1 \<le> bs_revision s \<and> test INSTALLATION_ID (bs_installId s)
     \<and> test BOOTSTRAP_ID (bs_bootstrapId s) \<and> test HASH (bs_secretCommitment s) \<and> is_safe_integer (bs_capabilityExpiresAt s)
     \<and> pred_option session_ok (bs_session s) \<and> pred_option oauth_ok (bs_oauth s)
     \<and> pred_option (test FAILURE_REASON) (bs_failureReason s) \<and> pred_option is_safe_integer (bs_readyAt s)"

lemma bootstrap_label [simp]: "picklist bootstrap_status_text [INCOMPLETE, CONVERGING, READY] (JStr (bootstrap_status_text st)) = Some st"
  by (cases st) (simp_all add: picklist_def)

lemma oauth_label [simp]: "picklist oauth_phase_text [Authorizing, Exchanging, Finalizing] (JStr (oauth_phase_text p)) = Some p"
  by (cases p) (simp_all add: picklist_def)

lemma cleanup_label [simp]:
  "picklist cleanup_phase_text [Cleanup_removing, Cleanup_removed, Cleanup_recovery_required] (JStr (cleanup_phase_text c)) = Some c"
  by (cases c) (simp_all add: picklist_def)

lemma failure_label [simp]:
  "picklist bootstrap_failure_text [Authorization_rejected, Grant_invalid, Provider_recovery_required, Revocation_unconfirmed]
     (JStr (bootstrap_failure_text f)) = Some f"
  by (cases f) (simp_all add: picklist_def)

lemma parse_session_value: "parse_session (session_value s) = (if session_ok s then Some s else None)"
  by (simp add: parse_session_def session_value_def session_ok_def schema_simps)

lemma parse_oauth_value: "parse_oauth (oauth_value a) = (if oauth_ok a then Some a else None)"
  by (simp add: parse_oauth_def oauth_value_def oauth_ok_def schema_simps)

lemma parse_cleanup_value: "parse_cleanup (cleanup_value c) = Some c"
  by (simp add: parse_cleanup_def cleanup_value_def schema_simps)

lemma bootstrap_parts:
  "nullable parse_session (or_null session_value x) = (if pred_option session_ok x then Some x else None)"
  "nullable parse_oauth (or_null oauth_value y) = (if pred_option oauth_ok y then Some y else None)"
  "nullable (picklist bootstrap_failure_text [Authorization_rejected, Grant_invalid, Provider_recovery_required, Revocation_unconfirmed])
     (or_null (JStr \<circ> bootstrap_failure_text) f) = Some f"
  "null_default (matching FAILURE_REASON) (or_null JStr r) = (if pred_option (test FAILURE_REASON) r then Some r else None)"
  "null_default parse_cleanup (or_null cleanup_value c) = Some c"
  "nullable safe_int (or_null jint n) = (if pred_option is_safe_integer n then Some n else None)"
proof -
  show "nullable parse_session (or_null session_value x) = (if pred_option session_ok x then Some x else None)"
    by (rule nullable_written, rule parse_session_value, simp add: session_value_def)
  show "nullable parse_oauth (or_null oauth_value y) = (if pred_option oauth_ok y then Some y else None)"
    by (rule nullable_written, rule parse_oauth_value, simp add: oauth_value_def)
  show "null_default parse_cleanup (or_null cleanup_value c) = Some c"
    by (rule null_default_always, rule parse_cleanup_value) (simp_all add: cleanup_value_def)
qed (rule nullable_always null_default_written nullable_written; simp add: schema_simps)+

lemma parse_bootstrap_value: "parseCustomerBootstrapState (bootstrap_value s) = (if bootstrap_ok s then Some s else None)"
  unfolding parseCustomerBootstrapState_def bootstrap_value_def bootstrap_ok_def
  by (cases s) (simp add: bootstrap_keys_def schema_simps bootstrap_parts)

lemma frozen_ok: "frozen s = (if bootstrap_ok s then Inr s else Inl Bootstrap_invalid)"
  by (simp add: frozen_def parse_bootstrap_value)

text \<open>
  The bootstrap as a state machine: the operations of \<open>Bootstrap_State\<close> with their inputs, the states they reach from an
  initial one, the invariant of these states, and what a sequence of operations can do.
\<close>

section \<open>The machine\<close>

datatype bootstrap_operation =
    Consume_capability string string int bytes
  | Recovery_session int bytes
  | Start_oauth string int bytes bytes bytes
  | Oauth_callback string string string int
  | Reject_start string
  | Reject_callback string string string int
  | Mark_finalizing string
  | Mark_incomplete string bootstrap_failure "string option" "cleanup_phase option"
  | Mark_cleanup_pending string bootstrap_failure "string option"
  | Mark_ready string int

fun bootstrap_step :: "(bytes \<Rightarrow> bytes) \<Rightarrow> bootstrap_operation \<Rightarrow> bootstrap_state \<Rightarrow> bootstrap_error + bootstrap_state" where
  "bootstrap_step digest (Consume_capability i secret now bs) s =
     andThen (consumeCustomerBootstrapCapability digest (bootstrap_value s) i secret now bs) (\<lambda>(_, _, t). Inr t)"
| "bootstrap_step digest (Recovery_session now bs) s =
     andThen (createCustomerBootstrapRecoverySession digest (bootstrap_value s) now bs) (\<lambda>(_, _, t). Inr t)"
| "bootstrap_step digest (Start_oauth secret now vb sb ab) s =
     andThen (startCustomerBootstrapOauth digest (bootstrap_value s) secret now vb sb ab) (\<lambda>o_start. Inr (os_next o_start))"
| "bootstrap_step digest (Oauth_callback secret a st now) s =
     andThen (consumeCustomerBootstrapOauthCallback digest (bootstrap_value s) secret a st now) (\<lambda>(_, t). Inr t)"
| "bootstrap_step digest (Reject_start a) s = rejectCustomerBootstrapOauthStart (bootstrap_value s) a"
| "bootstrap_step digest (Reject_callback secret a st now) s =
     rejectCustomerBootstrapOauthCallback digest (bootstrap_value s) secret a st now"
| "bootstrap_step digest (Mark_finalizing a) s = markCustomerBootstrapFinalizing (bootstrap_value s) a"
| "bootstrap_step digest (Mark_incomplete a code reason cleanup) s =
     markCustomerBootstrapIncomplete (bootstrap_value s) a code reason cleanup"
| "bootstrap_step digest (Mark_cleanup_pending a code reason) s =
     markCustomerBootstrapCleanupPending (bootstrap_value s) a code reason"
| "bootstrap_step digest (Mark_ready a now) s = markCustomerBootstrapReady (bootstrap_value s) a now"

primrec bootstrap_run :: "(bytes \<Rightarrow> bytes) \<Rightarrow> bootstrap_operation list \<Rightarrow> bootstrap_state \<Rightarrow> bootstrap_error + bootstrap_state" where
  "bootstrap_run digest [] s = Inr s"
| "bootstrap_run digest (op # ops) s = andThen (bootstrap_step digest op s) (bootstrap_run digest ops)"

inductive_set bootstrap_states :: "(bytes \<Rightarrow> bytes) \<Rightarrow> bootstrap_state set" for digest where
  start: "initialCustomerBootstrapState i b c e = Inr s \<Longrightarrow> s \<in> bootstrap_states digest"
| step: "s \<in> bootstrap_states digest \<Longrightarrow> bootstrap_step digest op s = Inr t \<Longrightarrow> t \<in> bootstrap_states digest"

lemma run_states: "s \<in> bootstrap_states digest \<Longrightarrow> bootstrap_run digest ops s = Inr t \<Longrightarrow> t \<in> bootstrap_states digest"
  by (induction ops arbitrary: s) (auto simp: andThen_Inr intro: bootstrap_states.step)

section \<open>What the operations change\<close>

lemma require_Inr [simp]: "bootstrap_require b e = Inr u \<longleftrightarrow> b"
  by (simp add: bootstrap_require_def)

lemma parsed_written [simp]: "parsed_state (bootstrap_value s) b = (if bootstrap_ok s \<and> b then Inr s else Inl Bootstrap_invalid)"
  by (simp add: parsed_state_def parse_bootstrap_value)

lemma randomToken_Inr [simp]: "randomToken bs = Inr t \<longleftrightarrow> length bs = 32 \<and> t = base64UrlEncode bs"
  "randomShortToken bs = Inr t \<longleftrightarrow> length bs = 18 \<and> t = base64UrlEncode bs"
  by (auto simp: randomToken_def randomShortToken_def)

lemma frozen_Inr [simp]: "frozen s = Inr t \<longleftrightarrow> bootstrap_ok s \<and> t = s"
  by (auto simp: frozen_ok)

lemma consume_step:
  "bootstrap_step digest (Consume_capability i secret now bs) s = Inr t \<longleftrightarrow>
     validNow now = Inr () \<and> bootstrap_ok s \<and> test BOOTSTRAP_ID i \<and> test TOKEN secret \<and> bs_status s \<noteq> READY \<and> bs_bootstrapId s = i
     \<and> bs_capabilityUnused s \<and> now < bs_capabilityExpiresAt s
     \<and> constantTimeEqual (''sha256:'' @ sha256Hex digest secret) (bs_secretCommitment s) \<and> length bs = 32 \<and> bootstrap_ok t
     \<and> t = s\<lparr>bs_revision := bs_revision s + 1, bs_capabilityUnused := False,
         bs_session := Some \<lparr>bn_secretHash = sha256 digest (base64UrlEncode bs),
           bn_expiresAt = min (now + CUSTOMER_BOOTSTRAP_TTL_MS) (bs_capabilityExpiresAt s)\<rparr>,
         bs_oauth := None, bs_failureCode := None, bs_failureReason := None\<rparr>"
  by (auto simp: consumeCustomerBootstrapCapability_def andThen_Inr Let_def split: if_splits)

lemma recovery_step:
  "bootstrap_step digest (Recovery_session now bs) s = Inr t \<longleftrightarrow>
     validNow now = Inr () \<and> bootstrap_ok s \<and> \<not> bs_capabilityUnused s \<and> bs_status s \<noteq> READY
     \<and> (case bs_oauth s of None \<Rightarrow> True | Some a \<Rightarrow> bo_expiresAt a \<le> now) \<and> length bs = 32
     \<and> is_safe_integer (now + CUSTOMER_BOOTSTRAP_TTL_MS) \<and> bootstrap_ok t
     \<and> t = s\<lparr>bs_revision := bs_revision s + 1, bs_status := INCOMPLETE,
         bs_session := Some \<lparr>bn_secretHash = sha256 digest (base64UrlEncode bs), bn_expiresAt = now + CUSTOMER_BOOTSTRAP_TTL_MS\<rparr>,
         bs_oauth := None, bs_failureCode := (if bs_status s = CONVERGING \<or> bs_oauth s \<noteq> None then Some Provider_recovery_required
           else bs_failureCode s)\<rparr>"
  by (auto simp: createCustomerBootstrapRecoverySession_def andThen_Inr Let_def split: if_splits)

lemma start_step:
  assumes "bootstrap_step digest (Start_oauth secret now vb sb ab) s = Inr t"
  obtains se where "bootstrap_ok t" "bs_status s \<noteq> READY" "bs_session s = Some se" "now < bn_expiresAt se"
    "case bs_oauth s of None \<Rightarrow> bs_status s = INCOMPLETE | Some a \<Rightarrow> bo_expiresAt a \<le> now"
    "t = s\<lparr>bs_revision := bs_revision s + 1, bs_status := INCOMPLETE,
       bs_oauth := Some \<lparr>bo_attemptId = ''attempt_'' @ base64UrlEncode ab, bo_stateHash = sha256 digest (base64UrlEncode sb),
         bo_phase = Authorizing, bo_expiresAt = min (now + CUSTOMER_BOOTSTRAP_OAUTH_TTL_MS) (bn_expiresAt se)\<rparr>,
       bs_failureCode := None, bs_failureReason := None\<rparr>"
  using assms
  by (cases s) (auto simp: startCustomerBootstrapOauth_def andThen_Inr Let_def authenticatedSession_def
      split: if_splits option.splits)

lemma callback_Inr:
  "callback_oauth digest s b secret a st now = Inr oauth \<longleftrightarrow> bs_status s \<noteq> READY \<and> authenticatedSession digest s secret now = Inr ()
     \<and> bs_oauth s = Some oauth \<and> b \<and> bo_phase oauth = Authorizing \<and> now < bo_expiresAt oauth \<and> bo_attemptId oauth = a
     \<and> constantTimeEqual (sha256 digest st) (bo_stateHash oauth)"
  by (auto simp: callback_oauth_def andThen_Inr split: option.splits)

lemma callback_step:
  "bootstrap_step digest (Oauth_callback secret a st now) s = Inr t \<longleftrightarrow>
     validNow now = Inr () \<and> bootstrap_ok s \<and> test ATTEMPT_ID a \<and> test TOKEN st
     \<and> (\<exists>oauth. callback_oauth digest s True secret a st now = Inr oauth \<and> bootstrap_ok t
       \<and> t = s\<lparr>bs_revision := bs_revision s + 1, bs_status := CONVERGING, bs_oauth := Some (oauth\<lparr>bo_phase := Exchanging\<rparr>),
           bs_failureCode := None, bs_failureReason := None\<rparr>)"
  by (auto simp: consumeCustomerBootstrapOauthCallback_def andThen_Inr split: if_splits)

lemma reject_start_step:
  "bootstrap_step digest (Reject_start a) s = Inr t \<longleftrightarrow>
     bootstrap_ok s \<and> test ATTEMPT_ID a \<and> bs_status s = INCOMPLETE
     \<and> (case bs_oauth s of None \<Rightarrow> False | Some oauth \<Rightarrow> bo_phase oauth = Authorizing \<and> bo_attemptId oauth = a) \<and> bootstrap_ok t
     \<and> t = s\<lparr>bs_revision := bs_revision s + 1, bs_oauth := None, bs_failureCode := Some Authorization_rejected, bs_failureReason := None\<rparr>"
  by (auto simp: rejectCustomerBootstrapOauthStart_def andThen_Inr split: if_splits)

lemma reject_callback_step:
  "bootstrap_step digest (Reject_callback secret a st now) s = Inr t \<longleftrightarrow>
     validNow now = Inr () \<and> bootstrap_ok s \<and> test ATTEMPT_ID a \<and> test TOKEN st
     \<and> (\<exists>oauth. callback_oauth digest s (bs_status s = INCOMPLETE) secret a st now = Inr oauth) \<and> bootstrap_ok t
     \<and> t = s\<lparr>bs_revision := bs_revision s + 1, bs_oauth := None, bs_failureCode := Some Authorization_rejected, bs_failureReason := None\<rparr>"
  by (auto simp: rejectCustomerBootstrapOauthCallback_def andThen_Inr split: if_splits)

lemma converging_Inr:
  "converging_oauth (bootstrap_value s) a P = Inr x \<longleftrightarrow> bootstrap_ok s \<and> test ATTEMPT_ID a
     \<and> (\<exists>oauth. bs_oauth s = Some oauth \<and> bs_status s = CONVERGING \<and> bo_attemptId oauth = a \<and> P (bo_phase oauth) \<and> x = (s, oauth))"
  by (auto simp: converging_oauth_def andThen_Inr split: if_splits option.splits)

lemma finalizing_step:
  "bootstrap_step digest (Mark_finalizing a) s = Inr t \<longleftrightarrow> bootstrap_ok s \<and> test ATTEMPT_ID a \<and> bootstrap_ok t
     \<and> (\<exists>oauth. bs_oauth s = Some oauth \<and> bs_status s = CONVERGING \<and> bo_attemptId oauth = a \<and> bo_phase oauth = Exchanging
       \<and> t = s\<lparr>bs_revision := bs_revision s + 1, bs_oauth := Some (oauth\<lparr>bo_phase := Finalizing\<rparr>)\<rparr>)"
  by (auto simp: markCustomerBootstrapFinalizing_def andThen_Inr converging_Inr)

lemma incomplete_step:
  "bootstrap_step digest (Mark_incomplete a code reason cleanup) s = Inr t \<longleftrightarrow> bootstrap_ok s \<and> test ATTEMPT_ID a \<and> bootstrap_ok t
     \<and> (\<exists>oauth. bs_oauth s = Some oauth \<and> bs_status s = CONVERGING \<and> bo_attemptId oauth = a)
     \<and> t = s\<lparr>bs_revision := bs_revision s + 1, bs_status := INCOMPLETE, bs_oauth := None, bs_failureCode := Some code,
         bs_failureReason := safe_reason reason, bs_cleanup := cleanup\<rparr>"
  by (auto simp: markCustomerBootstrapIncomplete_def andThen_Inr converging_Inr)

lemma cleanup_step:
  "bootstrap_step digest (Mark_cleanup_pending a code reason) s = Inr t \<longleftrightarrow> bootstrap_ok s \<and> test ATTEMPT_ID a \<and> bootstrap_ok t
     \<and> (\<exists>oauth. bs_oauth s = Some oauth \<and> bs_status s = CONVERGING \<and> bo_attemptId oauth = a \<and> bo_phase oauth \<noteq> Finalizing)
     \<and> t = s\<lparr>bs_revision := bs_revision s + 1, bs_failureCode := Some code, bs_failureReason := safe_reason reason,
         bs_cleanup := Some Cleanup_removing\<rparr>"
  by (auto simp: markCustomerBootstrapCleanupPending_def andThen_Inr converging_Inr)

lemma ready_step:
  "bootstrap_step digest (Mark_ready a now) s = Inr t \<longleftrightarrow> validNow now = Inr () \<and> bootstrap_ok s \<and> test ATTEMPT_ID a \<and> bootstrap_ok t
     \<and> (\<exists>oauth. bs_oauth s = Some oauth \<and> bs_status s = CONVERGING \<and> bo_attemptId oauth = a)
     \<and> t = s\<lparr>bs_revision := bs_revision s + 1, bs_status := READY, bs_capabilityUnused := False, bs_session := None, bs_oauth := None,
         bs_failureCode := None, bs_failureReason := None, bs_readyAt := Some now\<rparr>"
  by (auto simp: markCustomerBootstrapReady_def andThen_Inr converging_Inr)

lemmas bootstrap_steps = consume_step recovery_step callback_step callback_Inr reject_start_step reject_callback_step
  finalizing_step incomplete_step cleanup_step ready_step

declare bootstrap_step.simps [simp del]

end
