(* ===== verification/Bootstrap_Properties.thy ===== *)
theory Bootstrap_Properties
  imports Bootstrap_Machine
begin

text \<open>
  The invariant of the bootstrap, the protocol its operations refine, and that it can always be completed.
\<close>

section \<open>The invariant\<close>

definition bootstrap_consistent :: "bootstrap_state \<Rightarrow> bool" where
  "bootstrap_consistent s \<longleftrightarrow> bootstrap_ok s
     \<and> (bs_status s = CONVERGING \<longleftrightarrow> (case bs_oauth s of None \<Rightarrow> False | Some a \<Rightarrow> bo_phase a \<noteq> Authorizing))
     \<and> (bs_status s = READY \<longleftrightarrow> bs_readyAt s \<noteq> None)
     \<and> (if bs_status s = READY then bs_session s = None \<and> bs_oauth s = None \<and> \<not> bs_capabilityUnused s \<and> bs_failureCode s = None
        else bs_capabilityUnused s \<longleftrightarrow> bs_session s = None)
     \<and> (case bs_oauth s of None \<Rightarrow> True | Some a \<Rightarrow> (case bs_session s of None \<Rightarrow> False | Some se \<Rightarrow> bo_expiresAt a \<le> bn_expiresAt se))
     \<and> (bs_failureCode s = None \<longrightarrow> bs_failureReason s = None)"

lemma initial_consistent: "initialCustomerBootstrapState i b c e = Inr s \<Longrightarrow> bootstrap_consistent s"
  by (auto simp: initialCustomerBootstrapState_def bootstrap_consistent_def)

lemma step_consistent:
  assumes "bootstrap_consistent s" "bootstrap_step digest op s = Inr t"
  shows "bootstrap_consistent t"
proof (cases op)
  case (Start_oauth secret now vb sb ab)
  then show ?thesis using assms(2) [unfolded Start_oauth] assms(1)
    by (elim start_step) (auto simp: bootstrap_consistent_def split: option.splits if_splits)
qed (use assms in \<open>auto simp: bootstrap_consistent_def bootstrap_steps split: option.splits if_splits\<close>)

text \<open>
  C19. Every state the bootstrap reaches is consistent: it is \<^verbatim>\<open>CONVERGING\<close> exactly while a consumed authorisation is being worked on;
  it has a browser session exactly from the consumption of the capability to \<^verbatim>\<open>READY\<close>; an authorisation never outlives
  its session; a \<^verbatim>\<open>READY\<close> state holds no session, no authorisation, no unused capability and no failure.
\<close>

theorem bootstrap_states_consistent: "bootstrap_states digest \<subseteq> Collect bootstrap_consistent"
proof
  fix s assume "s \<in> bootstrap_states digest"
  then show "s \<in> Collect bootstrap_consistent"
    by induction (auto intro: initial_consistent step_consistent)
qed

section \<open>The protocol\<close>

text \<open>What the operations mean, without secrets, times and failures.\<close>

datatype bootstrap_protocol = Sealed | Idle | Asked string | Working string bool | Finished

fun protocol_of :: "bootstrap_state \<Rightarrow> bootstrap_protocol" where
  "protocol_of s = (if bs_status s = READY then Finished else if bs_capabilityUnused s then Sealed else case bs_oauth s of
     None \<Rightarrow> Idle
   | Some a \<Rightarrow> (case bo_phase a of Authorizing \<Rightarrow> Asked (bo_attemptId a) | Exchanging \<Rightarrow> Working (bo_attemptId a) False
       | Finalizing \<Rightarrow> Working (bo_attemptId a) True))"

declare protocol_of.simps [simp del]

inductive protocol_step :: "bootstrap_protocol \<Rightarrow> bootstrap_operation \<Rightarrow> bootstrap_protocol \<Rightarrow> bool" where
  consume: "protocol_step Sealed (Consume_capability i secret now bs) Idle"
| recover: "p \<noteq> Sealed \<Longrightarrow> p \<noteq> Finished \<Longrightarrow> protocol_step p (Recovery_session now bs) Idle"
| ask: "p \<noteq> Sealed \<Longrightarrow> p \<noteq> Finished \<Longrightarrow> protocol_step p (Start_oauth secret now vb sb ab) (Asked (''attempt_'' @ base64UrlEncode ab))"
| answer: "protocol_step (Asked a) (Oauth_callback secret a st now) (Working a False)"
| withdraw: "protocol_step (Asked a) (Reject_start a) Idle"
| deny: "protocol_step (Asked a) (Reject_callback secret a st now) Idle"
| finalize: "protocol_step (Working a False) (Mark_finalizing a) (Working a True)"
| fail: "protocol_step (Working a f) (Mark_incomplete a code reason cleanup) Idle"
| clean: "protocol_step (Working a False) (Mark_cleanup_pending a code reason) (Working a False)"
| finish: "protocol_step (Working a f) (Mark_ready a now) Finished"

inductive_cases from_finished: "protocol_step Finished op q"

lemma protocol_sealed: "bs_status s \<noteq> READY \<Longrightarrow> bs_capabilityUnused s \<Longrightarrow> protocol_of s = Sealed"
  by (simp add: protocol_of.simps)

lemma protocol_asked:
  "bootstrap_consistent s \<Longrightarrow> bs_oauth s = Some a \<Longrightarrow> bo_phase a = Authorizing \<Longrightarrow>
    protocol_of s = Asked (bo_attemptId a) \<and> bs_status s = INCOMPLETE"
  by (cases "bs_status s") (auto simp: bootstrap_consistent_def protocol_of.simps split: option.splits)

lemma protocol_working:
  "bootstrap_consistent s \<Longrightarrow> bs_oauth s = Some a \<Longrightarrow> bs_status s = CONVERGING \<Longrightarrow>
    protocol_of s = Working (bo_attemptId a) (bo_phase a = Finalizing)"
  by (cases "bo_phase a") (auto simp: bootstrap_consistent_def protocol_of.simps split: option.splits)

lemma protocol_open: "protocol_of s = Sealed \<longleftrightarrow> bs_status s \<noteq> READY \<and> bs_capabilityUnused s"
  "protocol_of s = Finished \<longleftrightarrow> bs_status s = READY"
  by (auto simp: protocol_of.simps split: option.splits oauth_phase.splits)

lemma protocol_idle: "bs_status t \<noteq> READY \<Longrightarrow> \<not> bs_capabilityUnused t \<Longrightarrow> bs_oauth t = None \<Longrightarrow> protocol_of t = Idle"
  by (simp add: protocol_of.simps)

lemma consistent_open: "bootstrap_consistent s \<Longrightarrow> bs_oauth s = Some a \<Longrightarrow> bs_status s \<noteq> READY \<and> \<not> bs_capabilityUnused s"
  by (auto simp: bootstrap_consistent_def split: if_splits option.splits)

lemma refined_consume_capability:
  assumes s: "bootstrap_consistent s" and t: "bootstrap_step digest (Consume_capability i secret now bs) s = Inr t"
  shows "protocol_step (protocol_of s) (Consume_capability i secret now bs) (protocol_of t)"
  using t protocol_sealed [of s] protocol_idle [of t] by (auto simp: consume_step intro: protocol_step.consume)

lemma refined_recovery_session:
  assumes s: "bootstrap_consistent s" and t: "bootstrap_step digest (Recovery_session now bs) s = Inr t"
  shows "protocol_step (protocol_of s) (Recovery_session now bs) (protocol_of t)"
  using t protocol_open [of s] protocol_idle [of t] by (auto simp: recovery_step intro: protocol_step.recover)

lemma refined_start_oauth:
  assumes s: "bootstrap_consistent s" and t: "bootstrap_step digest (Start_oauth secret now vb sb ab) s = Inr t"
  shows "protocol_step (protocol_of s) (Start_oauth secret now vb sb ab) (protocol_of t)"
proof -
  have ct: "bootstrap_consistent t" using step_consistent [OF assms] .
  obtain se where "bs_status s \<noteq> READY" "bs_session s = Some se"
    and o_t: "bs_oauth t = Some \<lparr>bo_attemptId = ''attempt_'' @ base64UrlEncode ab, bo_stateHash = sha256 digest (base64UrlEncode sb),
       bo_phase = Authorizing, bo_expiresAt = min (now + CUSTOMER_BOOTSTRAP_OAUTH_TTL_MS) (bn_expiresAt se)\<rparr>"
    using start_step [OF t] by force
  then have "protocol_of s \<noteq> Sealed" "protocol_of s \<noteq> Finished"
    using s by (auto simp: protocol_open bootstrap_consistent_def)
  moreover have "protocol_of t = Asked (''attempt_'' @ base64UrlEncode ab)" using protocol_asked [OF ct o_t] by simp
  ultimately show ?thesis using protocol_step.ask by metis
qed

lemma refined_oauth_callback:
  assumes s: "bootstrap_consistent s" and t: "bootstrap_step digest (Oauth_callback secret a st now) s = Inr t"
  shows "protocol_step (protocol_of s) (Oauth_callback secret a st now) (protocol_of t)"
proof -
  have ct: "bootstrap_consistent t" using step_consistent [OF assms] .
  obtain oauth where "bs_oauth s = Some oauth" "bo_phase oauth = Authorizing" "bo_attemptId oauth = a"
    "bs_oauth t = Some (oauth\<lparr>bo_phase := Exchanging\<rparr>)" "bs_status t = CONVERGING"
    using t by (auto simp: callback_step callback_Inr)
  then show ?thesis using protocol_asked [OF s] protocol_working [OF ct] by (auto intro: protocol_step.answer)
qed

lemma refined_reject_start:
  assumes s: "bootstrap_consistent s" and t: "bootstrap_step digest (Reject_start a) s = Inr t"
  shows "protocol_step (protocol_of s) (Reject_start a) (protocol_of t)"
proof -
  obtain oauth where "bs_oauth s = Some oauth" "bo_phase oauth = Authorizing" "bo_attemptId oauth = a" "bs_oauth t = None"
    "bs_status t = INCOMPLETE" "bs_capabilityUnused t = bs_capabilityUnused s"
    using t by (auto simp: reject_start_step split: option.splits)
  then show ?thesis using protocol_asked [OF s] protocol_idle [of t] consistent_open [OF s] by (auto intro: protocol_step.withdraw)
qed

lemma refined_reject_callback:
  assumes s: "bootstrap_consistent s" and t: "bootstrap_step digest (Reject_callback secret a st now) s = Inr t"
  shows "protocol_step (protocol_of s) (Reject_callback secret a st now) (protocol_of t)"
proof -
  obtain oauth where "bs_oauth s = Some oauth" "bo_phase oauth = Authorizing" "bo_attemptId oauth = a" "bs_oauth t = None"
    "bs_status t = INCOMPLETE" "bs_capabilityUnused t = bs_capabilityUnused s"
    using t by (auto simp: reject_callback_step callback_Inr)
  then show ?thesis using protocol_asked [OF s] protocol_idle [of t] consistent_open [OF s] by (auto intro: protocol_step.deny)
qed

lemma refined_mark_finalizing:
  assumes s: "bootstrap_consistent s" and t: "bootstrap_step digest (Mark_finalizing a) s = Inr t"
  shows "protocol_step (protocol_of s) (Mark_finalizing a) (protocol_of t)"
proof -
  have ct: "bootstrap_consistent t" using step_consistent [OF assms] .
  obtain oauth where "bs_oauth s = Some oauth" "bs_status s = CONVERGING" "bo_attemptId oauth = a" "bo_phase oauth = Exchanging"
    "bs_oauth t = Some (oauth\<lparr>bo_phase := Finalizing\<rparr>)" "bs_status t = CONVERGING" using t by (auto simp: finalizing_step)
  then show ?thesis using protocol_working [OF s] protocol_working [OF ct] by (auto intro: protocol_step.finalize)
qed

lemma refined_mark_incomplete:
  assumes s: "bootstrap_consistent s" and t: "bootstrap_step digest (Mark_incomplete a code reason cleanup) s = Inr t"
  shows "protocol_step (protocol_of s) (Mark_incomplete a code reason cleanup) (protocol_of t)"
proof -
  obtain oauth where "bs_oauth s = Some oauth" "bs_status s = CONVERGING" "bo_attemptId oauth = a" "bs_oauth t = None"
    "bs_status t = INCOMPLETE" "bs_capabilityUnused t = bs_capabilityUnused s" using t by (auto simp: incomplete_step)
  then show ?thesis using protocol_working [OF s] protocol_idle [of t] consistent_open [OF s] by (auto intro: protocol_step.fail)
qed

lemma refined_mark_cleanup_pending:
  assumes s: "bootstrap_consistent s" and t: "bootstrap_step digest (Mark_cleanup_pending a code reason) s = Inr t"
  shows "protocol_step (protocol_of s) (Mark_cleanup_pending a code reason) (protocol_of t)"
proof -
  have ct: "bootstrap_consistent t" using step_consistent [OF assms] .
  obtain oauth where "bs_oauth s = Some oauth" "bs_status s = CONVERGING" "bo_attemptId oauth = a" "bo_phase oauth \<noteq> Finalizing"
    "bs_oauth t = Some oauth" "bs_status t = CONVERGING" using t by (auto simp: cleanup_step)
  then show ?thesis using protocol_working [OF s] protocol_working [OF ct] by (auto intro: protocol_step.clean)
qed

lemma refined_mark_ready:
  assumes s: "bootstrap_consistent s" and t: "bootstrap_step digest (Mark_ready a now) s = Inr t"
  shows "protocol_step (protocol_of s) (Mark_ready a now) (protocol_of t)"
proof -
  obtain oauth where "bs_oauth s = Some oauth" "bs_status s = CONVERGING" "bo_attemptId oauth = a" "bs_status t = READY"
    using t by (auto simp: ready_step)
  then show ?thesis using protocol_working [OF s] protocol_open(2) [of t] by (auto intro: protocol_step.finish)
qed

lemmas refined = refined_consume_capability refined_recovery_session refined_start_oauth refined_oauth_callback refined_reject_start refined_reject_callback refined_mark_finalizing refined_mark_incomplete refined_mark_cleanup_pending refined_mark_ready

lemma protocol_refined:
  "bootstrap_consistent s \<Longrightarrow> bootstrap_step digest op s = Inr t \<Longrightarrow> protocol_step (protocol_of s) op (protocol_of t)"
  by (cases op) (simp_all only: refined)

text \<open>
  C14. The operations keep to the protocol: in every state the bootstrap reaches, an operation that succeeds is a step of the
  protocol, under which the capability opens the first session, only the attempt that was asked for is answered,
  withdrawn or denied, only the attempt being worked on is finished or given up, and nothing follows the end.
\<close>

theorem bootstrap_refines_protocol:
  "{(protocol_of s, op, protocol_of t) | s op t. s \<in> bootstrap_states digest \<and> bootstrap_step digest op s = Inr t}
   \<subseteq> {(p, op, q). protocol_step p op q}"
  using subsetD [OF bootstrap_states_consistent] protocol_refined by fastforce

section \<open>Sequences of operations\<close>

fun is_consumption :: "bootstrap_operation \<Rightarrow> bool" where
  "is_consumption (Consume_capability i secret now bs) = True"
| "is_consumption op = False"

fun is_start :: "bootstrap_operation \<Rightarrow> bool" where
  "is_start (Start_oauth secret now vb sb ab) = True"
| "is_start op = False"

text \<open>What a consent is answered with.\<close>

fun is_answer :: "bootstrap_operation \<Rightarrow> bool" where
  "is_answer (Oauth_callback secret a st now) = True"
| "is_answer (Reject_start a) = True"
| "is_answer (Reject_callback secret a st now) = True"
| "is_answer op = False"

fun is_finish :: "bootstrap_operation \<Rightarrow> bool" where
  "is_finish (Mark_ready a now) = True"
| "is_finish op = False"

fun protocol_run :: "bootstrap_protocol \<Rightarrow> bootstrap_operation list \<Rightarrow> bootstrap_protocol \<Rightarrow> bool" where
  "protocol_run p [] q = (p = q)"
| "protocol_run p (op # ops) q = (\<exists>r. protocol_step p op r \<and> protocol_run r ops q)"

lemma run_protocol: "bootstrap_consistent s \<Longrightarrow> bootstrap_run digest ops s = Inr t \<Longrightarrow> protocol_run (protocol_of s) ops (protocol_of t)"
  by (induction ops arbitrary: s) (auto simp: andThen_Inr intro: protocol_refined step_consistent)

lemma protocol_consumes:
  "protocol_run p ops q \<Longrightarrow> length (filter is_consumption ops) \<le> (if p = Sealed then 1 else 0)"
proof (induction ops arbitrary: p)
  case (Cons op ops)
  then obtain r where r: "protocol_step p op r" "protocol_run r ops q" by auto
  then have "r \<noteq> Sealed" "is_consumption op \<Longrightarrow> p = Sealed" by (auto elim: protocol_step.cases)
  with Cons.IH [OF r(2)] show ?case by auto
qed simp

lemma protocol_answers:
  "protocol_run p ops q \<Longrightarrow> length (filter is_answer ops) \<le> length (filter is_start ops) + (case p of Asked a \<Rightarrow> 1 | _ \<Rightarrow> 0)"
proof (induction ops arbitrary: p)
  case (Cons op ops)
  then obtain r where r: "protocol_step p op r" "protocol_run r ops q" by auto
  show ?case using r(1) Cons.IH [OF r(2)] by cases (auto split: bootstrap_protocol.splits)
qed simp

lemma protocol_finishes: "protocol_run p ops q \<Longrightarrow> \<not> list_ex is_finish (butlast ops)"
proof (induction ops arbitrary: p)
  case (Cons op ops)
  then obtain r where r: "protocol_step p op r" "protocol_run r ops q" by auto
  have "is_finish op \<Longrightarrow> r = Finished" using r(1) by (auto elim: protocol_step.cases)
  moreover have "r = Finished \<Longrightarrow> ops = []" using r(2) by (cases ops) (auto elim: from_finished)
  ultimately show ?case using Cons.IH [OF r(2)] by auto
qed simp

lemma step_revision: "bootstrap_step digest op s = Inr t \<Longrightarrow> bs_revision t = bs_revision s + 1
    \<and> bs_installId t = bs_installId s \<and> bs_bootstrapId t = bs_bootstrapId s \<and> bs_secretCommitment t = bs_secretCommitment s
    \<and> bs_capabilityExpiresAt t = bs_capabilityExpiresAt s"
proof (cases op)
  case (Start_oauth secret now vb sb ab)
  assume "bootstrap_step digest op s = Inr t"
  from this [unfolded Start_oauth] show ?thesis by (rule start_step) simp
qed (auto simp: bootstrap_steps)

definition capability_proven :: "(bytes \<Rightarrow> bytes) \<Rightarrow> bootstrap_state \<Rightarrow> bootstrap_operation \<Rightarrow> bool" where
  "capability_proven digest s op \<longleftrightarrow> (case op of
     Consume_capability i secret now bs \<Rightarrow> i = bs_bootstrapId s \<and> now < bs_capabilityExpiresAt s
       \<and> constantTimeEqual (''sha256:'' @ sha256Hex digest secret) (bs_secretCommitment s)
   | _ \<Rightarrow> True)"

lemma run_append: "bootstrap_run digest (ops @ ops') s = andThen (bootstrap_run digest ops s) (bootstrap_run digest ops')"
proof (induction ops arbitrary: s)
  case (Cons op ops)
  then show ?case by (cases "bootstrap_step digest op s") simp_all
qed simp

lemma run_proven: "bootstrap_run digest ops s = Inr t \<Longrightarrow>
    bs_revision t = bs_revision s + int (length ops) \<and> list_all (capability_proven digest s) ops"
proof (induction ops arbitrary: s)
  case (Cons op ops)
  then obtain r where r: "bootstrap_step digest op s = Inr r" "bootstrap_run digest ops r = Inr t" by (auto simp: andThen_Inr)
  have "capability_proven digest s op"
    using r(1) by (cases op) (auto simp: capability_proven_def consume_step)
  moreover have "capability_proven digest r = capability_proven digest s"
    using step_revision [OF r(1)] by (auto simp: capability_proven_def fun_eq_iff split: bootstrap_operation.split)
  ultimately show ?case using Cons.IH [OF r(2)] step_revision [OF r(1)] by simp
qed simp

text \<open>
  The consent that is open, by its attempt and the digest of its state: asking opens one in place of the one before, a recovery
  takes it back, and an answer closes it. An answer has to be to the open consent: it names its attempt, and what comes back from the
  authorisation server also presents its state.
\<close>

fun answers_open :: "(bytes \<Rightarrow> bytes) \<Rightarrow> (string \<times> string) option \<Rightarrow> bootstrap_operation list \<Rightarrow> bool" where
  "answers_open digest pending [] = True"
| "answers_open digest pending (Start_oauth secret now vb sb ab # ops) =
     answers_open digest (Some (''attempt_'' @ base64UrlEncode ab, sha256 digest (base64UrlEncode sb))) ops"
| "answers_open digest pending (Recovery_session now bs # ops) = answers_open digest None ops"
| "answers_open digest pending (Oauth_callback secret a st now # ops) =
     ((case pending of None \<Rightarrow> False | Some (b, h) \<Rightarrow> a = b \<and> constantTimeEqual (sha256 digest st) h) \<and> answers_open digest None ops)"
| "answers_open digest pending (Reject_callback secret a st now # ops) =
     ((case pending of None \<Rightarrow> False | Some (b, h) \<Rightarrow> a = b \<and> constantTimeEqual (sha256 digest st) h) \<and> answers_open digest None ops)"
| "answers_open digest pending (Reject_start a # ops) =
     ((case pending of None \<Rightarrow> False | Some (b, h) \<Rightarrow> a = b) \<and> answers_open digest None ops)"
| "answers_open digest pending (op # ops) = answers_open digest pending ops"

definition open_consent :: "bootstrap_state \<Rightarrow> (string \<times> string) option" where
  "open_consent s = (case bs_oauth s of None \<Rightarrow> None
     | Some a \<Rightarrow> if bo_phase a = Authorizing then Some (bo_attemptId a, bo_stateHash a) else None)"

lemma run_answers:
  "bootstrap_consistent s \<Longrightarrow> bootstrap_run digest ops s = Inr t \<Longrightarrow> answers_open digest (open_consent s) ops"
proof (induction ops arbitrary: s)
  case (Cons op ops)
  then obtain r where r: "bootstrap_step digest op s = Inr r" "bootstrap_run digest ops r = Inr t" by (auto simp: andThen_Inr)
  have ih: "answers_open digest (open_consent r) ops" using Cons.IH [OF step_consistent [OF Cons.prems(1) r(1)] r(2)] .
  show ?case
  proof (cases op)
    case (Start_oauth secret now vb sb ab)
    show ?thesis using r(1) ih unfolding Start_oauth by (elim start_step) (simp add: open_consent_def)
  qed (use r(1) ih Cons.prems(1) in \<open>auto simp: bootstrap_steps open_consent_def bootstrap_consistent_def split: option.splits if_splits\<close>)
qed simp

text \<open>
  C15. In every sequence of operations from an initial state: the capability is consumed at most once, by whoever presents a secret
  with the committed digest before it expires; every consent that is asked for is answered at most once, and only while it is the open one,
  by naming its attempt and, where the answer comes back from the authorisation server, presenting its state; nothing
  follows \<^verbatim>\<open>READY\<close>; and every operation increases the revision by one.
\<close>

theorem bootstrap_runs_disciplined:
  "case initialCustomerBootstrapState i b c e of Inl err \<Rightarrow> True | Inr s \<Rightarrow> (case bootstrap_run digest ops s of Inl err \<Rightarrow> True | Inr t \<Rightarrow>
     length (filter is_consumption ops) \<le> 1 \<and> list_all (capability_proven digest s) ops
     \<and> answers_open digest None ops \<and> length (filter is_answer ops) \<le> length (filter is_start ops)
     \<and> \<not> list_ex is_finish (butlast ops) \<and> bs_revision t = 1 + int (length ops))"
proof (cases "initialCustomerBootstrapState i b c e")
  case (Inr s)
  have s: "protocol_of s = Sealed" "bs_revision s = 1" "open_consent s = None"
    using Inr by (auto simp: initialCustomerBootstrapState_def protocol_of.simps open_consent_def)
  show ?thesis
  proof (cases "bootstrap_run digest ops s")
    case run: (Inr t)
    have c: "bootstrap_consistent s" using initial_consistent [OF Inr] .
    have p: "protocol_run Sealed ops (protocol_of t)" using run_protocol [OF c run] s by simp
    show ?thesis
      using protocol_consumes [OF p] protocol_answers [OF p] protocol_finishes [OF p] run_proven [OF run] run_answers [OF c run] s
      by (simp add: Inr run)
  qed (simp add: Inr)
qed simp

section \<open>Completion\<close>

lemma constant_time_refl [simp]: "constantTimeEqual v v"
  by (simp add: constantTimeEqual_def Let_def fold_mismatch xor_zero list_all_iff)

lemma token_sha [simp]: "length (digest (encode_text v)) = 32 \<Longrightarrow> test TOKEN (sha256 digest v)"
  by (simp add: sha256_def)

text \<open>A new consent, all at one time, with the random bytes given.\<close>

definition new_consent :: "int \<Rightarrow> bytes \<Rightarrow> bytes \<Rightarrow> bytes \<Rightarrow> bootstrap_operation list" where
  "new_consent now bs sb ab = [Recovery_session now bs, Start_oauth (base64UrlEncode bs) now bs sb ab,
     Oauth_callback (base64UrlEncode bs) (''attempt_'' @ base64UrlEncode ab) (base64UrlEncode sb) now,
     Mark_ready (''attempt_'' @ base64UrlEncode ab) now]"

text \<open>What is open is given up first.\<close>

definition give_up :: "bootstrap_state \<Rightarrow> bootstrap_operation list" where
  "give_up s = (case bs_oauth s of None \<Rightarrow> []
     | Some a \<Rightarrow> if bo_phase a = Authorizing then [Reject_start (bo_attemptId a)]
         else [Mark_incomplete (bo_attemptId a) Provider_recovery_required None None])"

lemma given_up:
  assumes "bootstrap_consistent s" "bs_status s \<noteq> READY" "is_safe_integer (bs_revision s + 1)"
  obtains t where "bootstrap_run digest (give_up s) s = Inr t" "bootstrap_ok t" "bs_oauth t = None" "bs_status t = INCOMPLETE"
    "bs_capabilityUnused t = bs_capabilityUnused s" "bs_revision s \<le> bs_revision t" "bs_revision t \<le> bs_revision s + 1"
proof (cases "bs_oauth s")
  case None
  then have "bs_status s = INCOMPLETE" using assms by (cases "bs_status s") (auto simp: bootstrap_consistent_def)
  then show ?thesis using that [of s] None assms(1) by (simp add: give_up_def bootstrap_consistent_def)
next
  case (Some a)
  have ok: "bootstrap_ok s" "oauth_ok a" using assms(1) Some by (auto simp: bootstrap_consistent_def bootstrap_ok_def)
  show ?thesis
  proof (cases "bo_phase a = Authorizing")
    case True
    let ?t = "s\<lparr>bs_revision := bs_revision s + 1, bs_oauth := None, bs_failureCode := Some Authorization_rejected, bs_failureReason := None\<rparr>"
    have "bootstrap_ok ?t" using ok assms(3) by (simp add: bootstrap_ok_def)
    moreover have "bs_status s = INCOMPLETE" using protocol_asked [OF assms(1) Some True] by simp
    ultimately have "bootstrap_step digest (Reject_start (bo_attemptId a)) s = Inr ?t" "bootstrap_ok ?t" "bs_status s = INCOMPLETE"
      using ok Some True by (simp_all add: reject_start_step oauth_ok_def)
    then show ?thesis using that [of ?t] Some True by (simp add: give_up_def)
  next
    case False
    let ?t = "s\<lparr>bs_revision := bs_revision s + 1, bs_status := INCOMPLETE, bs_oauth := None,
      bs_failureCode := Some Provider_recovery_required, bs_failureReason := None, bs_cleanup := None\<rparr>"
    have "bootstrap_ok ?t" using ok assms(3) by (simp add: bootstrap_ok_def)
    moreover have "bs_status s = CONVERGING" using assms(1) Some False by (auto simp: bootstrap_consistent_def)
    ultimately have "bootstrap_step digest (Mark_incomplete (bo_attemptId a) Provider_recovery_required None None) s = Inr ?t" "bootstrap_ok ?t"
      using ok Some False by (simp_all add: incomplete_step oauth_ok_def safe_reason_def)
    then show ?thesis using that [of ?t] Some False by (simp add: give_up_def)
  qed
qed

lemma start_intro:
  assumes "validNow now = Inr ()" "bootstrap_ok s" "bs_status s = INCOMPLETE" "bs_oauth s = None" "bs_session s = Some se"
    "authenticatedSession digest s secret now = Inr ()" "length vb = 32" "length sb = 32" "length ab = 18" "bootstrap_ok t"
    "t = s\<lparr>bs_revision := bs_revision s + 1,
       bs_oauth := Some \<lparr>bo_attemptId = ''attempt_'' @ base64UrlEncode ab, bo_stateHash = sha256 digest (base64UrlEncode sb),
         bo_phase = Authorizing, bo_expiresAt = min (now + CUSTOMER_BOOTSTRAP_OAUTH_TTL_MS) (bn_expiresAt se)\<rparr>,
       bs_failureCode := None, bs_failureReason := None\<rparr>"
  shows "bootstrap_step digest (Start_oauth secret now vb sb ab) s = Inr t"
  using assms by (simp add: bootstrap_step.simps startCustomerBootstrapOauth_def randomToken_def randomShortToken_def
      bootstrap_require_def frozen_ok Let_def)

lemma consent_completes:
  assumes "bootstrap_ok s" "bs_oauth s = None" "bs_status s = INCOMPLETE" "\<not> bs_capabilityUnused s"
    and "is_safe_integer (bs_revision s + 4)" "0 \<le> now" "is_safe_integer (now + CUSTOMER_BOOTSTRAP_TTL_MS)"
    and "\<And>v. length (digest v) = 32" "length bs = 32" "length sb = 32" "length ab = 18"
  shows "\<exists>t. bootstrap_run digest (new_consent now bs sb ab) s = Inr t \<and> bs_status t = READY"
proof -
  let ?a = "''attempt_'' @ base64UrlEncode ab"
  define session where "session = \<lparr>bn_secretHash = sha256 digest (base64UrlEncode bs), bn_expiresAt = now + CUSTOMER_BOOTSTRAP_TTL_MS\<rparr>"
  define oauth where "oauth = \<lparr>bo_attemptId = ?a, bo_stateHash = sha256 digest (base64UrlEncode sb), bo_phase = Authorizing,
    bo_expiresAt = now + CUSTOMER_BOOTSTRAP_OAUTH_TTL_MS\<rparr>"
  define t1 where "t1 = s\<lparr>bs_revision := bs_revision s + 1, bs_status := INCOMPLETE, bs_session := Some session, bs_oauth := None\<rparr>"
  define t2 where "t2 = t1\<lparr>bs_revision := bs_revision t1 + 1, bs_oauth := Some oauth, bs_failureCode := None, bs_failureReason := None\<rparr>"
  define t3 where "t3 = t2\<lparr>bs_revision := bs_revision t2 + 1, bs_status := CONVERGING, bs_oauth := Some (oauth\<lparr>bo_phase := Exchanging\<rparr>)\<rparr>"
  define t4 where "t4 = t3\<lparr>bs_revision := bs_revision t3 + 1, bs_status := READY, bs_capabilityUnused := False, bs_session := None,
    bs_oauth := None, bs_readyAt := Some now\<rparr>"
  have times: "validNow now = Inr ()" "is_safe_integer (now + CUSTOMER_BOOTSTRAP_OAUTH_TTL_MS)"
      "now < now + CUSTOMER_BOOTSTRAP_TTL_MS" "now < now + CUSTOMER_BOOTSTRAP_OAUTH_TTL_MS"
      "min (now + CUSTOMER_BOOTSTRAP_OAUTH_TTL_MS) (now + CUSTOMER_BOOTSTRAP_TTL_MS) = now + CUSTOMER_BOOTSTRAP_OAUTH_TTL_MS"
    using assms(6,7) by (auto simp: validNow_def is_safe_integer_def CUSTOMER_BOOTSTRAP_TTL_MS_def CUSTOMER_BOOTSTRAP_OAUTH_TTL_MS_def)
  have revisions: "is_safe_integer (k + bs_revision s)" if "0 \<le> k" "k \<le> 4" for k
    using assms(1,5) that by (auto simp: bootstrap_ok_def is_safe_integer_def)
  have oks: "session_ok session" "oauth_ok oauth" "oauth_ok (oauth\<lparr>bo_phase := Exchanging\<rparr>)"
    using times assms(7-11) by (simp_all add: session_ok_def oauth_ok_def session_def oauth_def del: append.simps)
  have ok: "bootstrap_ok t1" "bootstrap_ok t2" "bootstrap_ok t3" "bootstrap_ok t4"
    using assms(1) oks revisions [of 1] revisions [of 2] revisions [of 3] revisions [of 4] times(1)
    by (simp_all add: t1_def t2_def t3_def t4_def bootstrap_ok_def validNow_def add.commute)
  have 1: "bootstrap_step digest (Recovery_session now bs) s = Inr t1"
    using assms ok(1) times by (simp add: recovery_step t1_def session_def)
  have 2: "bootstrap_step digest (Start_oauth (base64UrlEncode bs) now bs sb ab) t1 = Inr t2"
  proof -
    have "authenticatedSession digest t1 (base64UrlEncode bs) now = Inr ()"
      using assms(9) times by (simp add: authenticatedSession_def t1_def session_def bootstrap_require_def)
    then show ?thesis using assms(4,9-11) ok(1,2) times
      by (intro start_intro [where se = session]) (simp_all add: t1_def t2_def session_def oauth_def)
  qed
  have 3: "bootstrap_step digest (Oauth_callback (base64UrlEncode bs) ?a (base64UrlEncode sb) now) t2 = Inr t3"
    using assms(9-11) ok(2,3) times
    by (simp add: callback_step callback_Inr authenticatedSession_def andThen_Inr del: append.simps)
       (simp add: t1_def t2_def t3_def session_def oauth_def andThen_Inr)
  have 4: "bootstrap_step digest (Mark_ready ?a now) t3 = Inr t4"
    using assms(11) ok(3,4) times
    by (simp add: ready_step del: append.simps) (simp add: t1_def t2_def t3_def t4_def oauth_def)
  show ?thesis using 1 2 3 4 by (simp add: new_consent_def t4_def)
qed

text \<open>
  C20. The bootstrap can always be completed: in every state it reaches that is not \<^verbatim>\<open>READY\<close> and whose capability was consumed,
  giving up what is open and asking for a new consent brings it to \<^verbatim>\<open>READY\<close>, at any time and with any random bytes.
\<close>

theorem bootstrap_can_complete:
  assumes "s \<in> bootstrap_states digest" "bs_status s \<noteq> READY" "\<not> bs_capabilityUnused s"
    and "is_safe_integer (bs_revision s + 5)" "0 \<le> now" "is_safe_integer (now + CUSTOMER_BOOTSTRAP_TTL_MS)"
    and "\<And>v. length (digest v) = 32" "length bs = 32" "length sb = 32" "length ab = 18"
  shows "\<exists>t. bootstrap_run digest (give_up s @ new_consent now bs sb ab) s = Inr t \<and> bs_status t = READY"
proof -
  have s: "bootstrap_consistent s" using bootstrap_states_consistent assms(1) by blast
  have low: "1 \<le> bs_revision s" using s by (simp add: bootstrap_consistent_def bootstrap_ok_def)
  then have r: "is_safe_integer (bs_revision s + 1)" using assms(4) by (simp add: is_safe_integer_def)
  obtain t where t: "bootstrap_run digest (give_up s) s = Inr t" "bootstrap_ok t" "bs_oauth t = None" "bs_status t = INCOMPLETE"
    "bs_capabilityUnused t = bs_capabilityUnused s" "bs_revision s \<le> bs_revision t" "bs_revision t \<le> bs_revision s + 1"
    using s assms(2) r by (rule given_up)
  have "is_safe_integer (bs_revision t + 4)" using assms(4) t(6,7) low by (simp add: is_safe_integer_def)
  then have "\<exists>u. bootstrap_run digest (new_consent now bs sb ab) t = Inr u \<and> bs_status u = READY"
    using t assms by (intro consent_completes) simp_all
  then show ?thesis using t(1) by (simp add: run_append)
qed

definition zero_digest :: "bytes \<Rightarrow> bytes" where
  "zero_digest v = replicate 32 0"

definition sample_start :: bootstrap_state where
  "sample_start = \<lparr>bs_revision = 1, bs_status = INCOMPLETE, bs_installId = ''acg-'' @ replicate 24 CHR ''0'',
     bs_bootstrapId = ''boot_'' @ replicate 24 CHR ''0'', bs_secretCommitment = ''sha256:'' @ replicate 64 CHR ''0'',
     bs_capabilityUnused = True, bs_capabilityExpiresAt = 600000, bs_session = None, bs_oauth = None, bs_failureCode = None,
     bs_failureReason = None, bs_cleanup = None, bs_readyAt = None\<rparr>"

definition sample_session :: bootstrap_state where
  "sample_session = sample_start\<lparr>bs_revision := 2, bs_capabilityUnused := False,
     bs_session := Some \<lparr>bn_secretHash = sha256 zero_digest (base64UrlEncode (replicate 32 0)), bn_expiresAt = 600000\<rparr>\<rparr>"

lemma sample_reached: "sample_session \<in> bootstrap_states zero_digest"
proof -
  have forms: "test INSTALLATION_ID (''acg-'' @ replicate 24 CHR ''0'')" "test BOOTSTRAP_ID (''boot_'' @ replicate 24 CHR ''0'')"
    "test HASH (''sha256:'' @ replicate 64 CHR ''0'')" "test TOKEN (replicate 43 CHR ''0'')"
    by code_simp+
  have digest: "''sha256:'' @ sha256Hex zero_digest v = ''sha256:'' @ replicate 64 CHR ''0''" for v
  proof -
    have "concat (map byte_hex (replicate 32 0)) = replicate 64 CHR ''0''" by code_simp
    then show ?thesis by (simp only: sha256Hex_def zero_digest_def)
  qed
  have ok: "bootstrap_ok sample_start" "bootstrap_ok sample_session"
    using forms by (simp_all add: bootstrap_ok_def sample_start_def sample_session_def session_ok_def zero_digest_def
        is_safe_integer_def MAX_SAFE_INTEGER_def del: append.simps replicate.simps)
  have "initialCustomerBootstrapState (''acg-'' @ replicate 24 CHR ''0'') (''boot_'' @ replicate 24 CHR ''0'')
      (''sha256:'' @ replicate 64 CHR ''0'') 600000 = Inr sample_start"
    using ok(1) by (simp add: initialCustomerBootstrapState_def sample_start_def del: append.simps replicate.simps)
  then have "sample_start \<in> bootstrap_states zero_digest" by (rule bootstrap_states.start)
  moreover have "bootstrap_step zero_digest (Consume_capability (''boot_'' @ replicate 24 CHR ''0'') (replicate 43 CHR ''0'') 0 (replicate 32 0))
      sample_start = Inr sample_session"
    using ok forms digest
    by (simp add: consume_step sample_start_def sample_session_def validNow_def bootstrap_require_def is_safe_integer_def
        MAX_SAFE_INTEGER_def CUSTOMER_BOOTSTRAP_TTL_MS_def del: append.simps replicate.simps)
  ultimately show ?thesis by (rule bootstrap_states.step)
qed

theorem bootstrap_can_complete_witness:
  "\<exists>t. bootstrap_run zero_digest (give_up sample_session @ new_consent 5 (replicate 32 0) (replicate 32 1) (replicate 18 2)) sample_session
     = Inr t \<and> bs_status t = READY"
  by (rule bootstrap_can_complete [OF sample_reached])
     (simp_all add: sample_session_def sample_start_def is_safe_integer_def MAX_SAFE_INTEGER_def CUSTOMER_BOOTSTRAP_TTL_MS_def zero_digest_def)

end
