(* ===== verification/Revision_Store.thy ===== *)
theory Revision_Store
  imports Schemas
begin

text \<open>
  The stored rows of \<^verbatim>\<open>apps/installer/src/*-durable-state.ts\<close>: one row with a revision and the canonical text of a state,
  replaced by compare-and-set. The interface \<open>revision_store\<close> is what the clients rely on; inside it, whatever the
  interleaving of requests that read a state, work on it and write the successor, what is stored is a sequential
  history: no update is lost, none is applied to a state that was already replaced.
\<close>

section \<open>Rows\<close>

type_synonym stored_row = "(int \<times> string) option"

definition row_ok :: "nat \<Rightarrow> int \<Rightarrow> string \<Rightarrow> bool" where
  "row_ok limit revision text \<longleftrightarrow> 1 \<le> revision \<and> 2 \<le> length text \<and> length text \<le> limit"

text \<open>
  \<^verbatim>\<open>INSERT ... ON CONFLICT DO NOTHING\<close> and \<^verbatim>\<open>UPDATE ... WHERE revision = ?\<close>, with the number of changed rows; \<open>None\<close> is a
  violated constraint, which is thrown and leaves the row as it is.
\<close>

definition sql_insert :: "nat \<Rightarrow> stored_row \<Rightarrow> int \<Rightarrow> string \<Rightarrow> (nat \<times> stored_row) option" where
  "sql_insert limit r revision text = (if \<not> row_ok limit revision text then None else case r of
     None \<Rightarrow> Some (1, Some (revision, text)) | Some x \<Rightarrow> Some (0, Some x))"

definition sql_update :: "nat \<Rightarrow> stored_row \<Rightarrow> int \<Rightarrow> string \<Rightarrow> int \<Rightarrow> (nat \<times> stored_row) option" where
  "sql_update limit r revision text expected = (case r of
     None \<Rightarrow> Some (0, None)
   | Some (n, t) \<Rightarrow> if n \<noteq> expected then Some (0, Some (n, t))
       else if \<not> row_ok limit revision text then None else Some (1, Some (revision, text)))"

text \<open>The write of a compare-and-set, in one transaction: whether one row changed, or \<open>None\<close> where the database throws.\<close>

definition sql_write :: "nat \<Rightarrow> int option \<Rightarrow> int \<Rightarrow> string \<Rightarrow> stored_row \<Rightarrow> (bool \<times> stored_row) option" where
  "sql_write limit expected revision text r = map_option (map_prod (\<lambda>changed. changed = 1) id) (case expected of
     None \<Rightarrow> sql_insert limit r revision text
   | Some n \<Rightarrow> sql_update limit r revision text n)"

lemma sql_write_True:
  "sql_write limit expected revision text r = Some (True, r') \<longleftrightarrow>
     row_ok limit revision text \<and> expected = map_option fst r \<and> r' = Some (revision, text)"
  by (auto simp: sql_write_def sql_insert_def sql_update_def split: option.splits if_splits)

lemma sql_write_same: "sql_write limit expected revision text r = Some (b, r') \<Longrightarrow> b \<or> r' = r"
  by (auto simp: sql_write_def sql_insert_def sql_update_def split: option.splits if_splits)

section \<open>Reading what is stored\<close>

lemma readable_sort_keys:
  "readable double v \<Longrightarrow> readable double (sort_keys v)"
  "readable_items double xs \<Longrightarrow> readable_items double (sort_keys_items xs)"
  "readable_entries double kvs \<Longrightarrow> readable_entries double (sort_keys_entries kvs)"
proof (induction v and xs and kvs rule: sort_keys_sort_keys_items_sort_keys_entries.induct)
  case (2 kvs)
  have all: "readable_entries double es \<longleftrightarrow> list_all (\<lambda>e. readable double (snd e)) es" for es by (induction es) auto
  have "distinct (map fst (sort_keys_entries kvs))"
    using 2(2) by (simp add: sort_keys_entries_map comp_def case_prod_beta)
  then show ?case using 2 by (simp add: all list_all_iff)
qed simp_all

lemma readable_well_formed:
  "readable double v \<Longrightarrow> well_formed v"
  "readable_items double xs \<Longrightarrow> well_formed_items xs"
  "readable_entries double kvs \<Longrightarrow> well_formed_entries kvs"
  by (induction v and xs and kvs rule: well_formed_well_formed_items_well_formed_entries.induct) auto

lemma readable_canonical:
  "readable double v \<Longrightarrow> \<exists>t. canonicalJson v = Some t"
  "readable_items double xs \<Longrightarrow> \<exists>ts. canonical_items xs = Some ts"
  "readable_entries double kvs \<Longrightarrow> \<exists>es. canonical_entries kvs = Some es"
proof (induction v and xs and kvs rule: canonicalJson_canonical_items_canonical_entries.induct)
  case (6 b)
  then show ?case by simp
qed (auto split: option.splits)

lemma sort_keys_idem:
  "sort_keys (sort_keys v) = sort_keys v"
  "sort_keys_items (sort_keys_items xs) = sort_keys_items xs"
  "sort_keys_entries (sort_keys_entries kvs) = sort_keys_entries kvs"
proof (induction v and xs and kvs rule: sort_keys_sort_keys_items_sort_keys_entries.induct)
  case (2 kvs)
  have "sort_keys_entries (js_sort by_key (sort_keys_entries kvs)) = js_sort by_key (sort_keys_entries (sort_keys_entries kvs))"
    by (simp add: sort_keys_entries_map js_sort_by_key_map del: map_map)
  then show ?case using 2 by (simp add: key_order.sort_idem)
qed simp_all

lemma canonical_read_back:
  assumes "readable double v"
  obtains t where "canonicalJson v = Some t" "json_parse double t = Some (sort_keys v)" "canonicalJson (sort_keys v) = Some t"
proof -
  obtain t where t: "canonicalJson v = Some t" using readable_canonical(1) [OF assms] by blast
  obtain u where u: "canonicalJson (sort_keys v) = Some u" using readable_canonical(1) [OF readable_sort_keys(1) [OF assms]] by blast
  have "t = render (sort_keys v)" using canonical_render(1) [OF t] .
  moreover have "u = t" using canonical_of_sort_keys [OF sort_keys_idem(1) u t] .
  moreover have "json_parse double (render (sort_keys v)) = Some (sort_keys v)"
    using parse_render(1) [OF readable_sort_keys(1) [OF assms], of "[]" "2 * length (render (sort_keys v))"]
    by (simp add: json_parse_def skip_space_def)
  ultimately show ?thesis using that t u by simp
qed

text \<open>A schema does not look at the order of keys.\<close>

named_theorems order_simps \<open>schemas on values with sorted keys\<close>

lemma keys_sort_keys: "set (keys (sort_keys v)) = set (keys v)"
proof (cases v)
  case (JObj kvs)
  then show ?thesis by (force simp: sort_keys_entries_map)
qed (simp_all add: sort_keys_items_map)

lemma strict_object_order [order_simps]: "strict_object allowed (sort_keys v) = strict_object allowed v"
proof -
  have "isObject (sort_keys v) = isObject v" by (cases v) auto
  moreover have "unknown_keys (sort_keys v) allowed = [] \<longleftrightarrow> unknown_keys v allowed = []"
    using keys_sort_keys [of v] by (auto simp: unknown_keys_def filter_empty_conv)
  ultimately show ?thesis by (simp add: strict_object_def)
qed

lemma scalar_order [order_simps]:
  "exactly (JNum n) (sort_keys v) = exactly (JNum n) v" "matching p (sort_keys v) = matching p v"
  "safe_int (sort_keys v) = safe_int v" "int_from lo (sort_keys v) = int_from lo v"
  "picklist label choices (sort_keys v) = picklist label choices v" "boolean (sort_keys v) = boolean v"
  by (cases v; simp add: exactly_def matching_def int_from_def picklist_def)+

lemma null_order [order_simps]:
  "nullable f (sort_keys v) = (if v = JNull then Some None else map_option Some (f (sort_keys v)))"
  "null_default f (sort_keys v) = (if v = Undef \<or> v = JNull then Some None else map_option Some (f (sort_keys v)))"
  by (auto simp: nullable_def null_default_def)

section \<open>Interleaved requests\<close>

text \<open>
  The requests \<open>'w\<close> of a server over one row: each may read the row, try to create the first state, or try to replace the state
  it read by a successor. \<open>settled\<close> is the state as it is read back. The history is the list of the states stored so far,
  the last one first.
\<close>

inductive served :: "('r \<Rightarrow> 'e + 's option) \<Rightarrow> (int option \<Rightarrow> 's \<Rightarrow> 'r \<Rightarrow> ('e + bool) \<times> 'r) \<Rightarrow> ('s \<Rightarrow> int) \<Rightarrow> ('s \<Rightarrow> 's)
    \<Rightarrow> ('s \<Rightarrow> bool) \<Rightarrow> ('s \<Rightarrow> 's \<Rightarrow> bool) \<Rightarrow> 'r \<Rightarrow> 'r \<Rightarrow> ('w \<Rightarrow> 's option) \<Rightarrow> 's list \<Rightarrow> bool"
  for load save revision settled initial succ_of empty where
  nothing: "served load save revision settled initial succ_of empty empty (\<lambda>w. None) []"
| reading: "served load save revision settled initial succ_of empty r m h \<Longrightarrow> load r = Inr found
    \<Longrightarrow> served load save revision settled initial succ_of empty r (m(w := found)) h"
| creating: "served load save revision settled initial succ_of empty r m h \<Longrightarrow> initial s \<Longrightarrow> save None s r = (res, r')
    \<Longrightarrow> served load save revision settled initial succ_of empty r' m (if res = Inr True then settled s # h else h)"
| replacing: "served load save revision settled initial succ_of empty r m h \<Longrightarrow> m w = Some s \<Longrightarrow> succ_of s t
    \<Longrightarrow> save (Some (revision s)) t r = (res, r')
    \<Longrightarrow> served load save revision settled initial succ_of empty r' m (if res = Inr True then settled t # h else h)"

text \<open>A sequential history.\<close>

fun sequential :: "('s \<Rightarrow> 's) \<Rightarrow> ('s \<Rightarrow> bool) \<Rightarrow> ('s \<Rightarrow> 's \<Rightarrow> bool) \<Rightarrow> 's list \<Rightarrow> bool" where
  "sequential settled initial succ_of [] = True"
| "sequential settled initial succ_of [s] = (\<exists>s'. initial s' \<and> s = settled s')"
| "sequential settled initial succ_of (t # s # h) = ((\<exists>t'. succ_of s t' \<and> t = settled t') \<and> sequential settled initial succ_of (s # h))"

definition latest :: "'s list \<Rightarrow> 's option" where
  "latest h = (case h of [] \<Rightarrow> None | s # _ \<Rightarrow> Some s)"

text \<open>The laws of a port, for the states that are \<open>sound\<close>, and the rows that are \<open>valid\<close>.\<close>

locale revision_store =
  fixes load :: "'r \<Rightarrow> 'e + 's option" and save :: "int option \<Rightarrow> 's \<Rightarrow> 'r \<Rightarrow> ('e + bool) \<times> 'r"
    and revision :: "'s \<Rightarrow> int" and settled :: "'s \<Rightarrow> 's" and sound :: "'s \<Rightarrow> bool" and valid :: "'r \<Rightarrow> bool" and empty :: 'r
  assumes empty_row: "valid empty" "load empty = Inr None"
    and stored: "valid r \<Longrightarrow> sound s \<Longrightarrow> load r = Inr found \<Longrightarrow> save expected s r = (Inr True, r') \<Longrightarrow>
      expected = map_option revision found \<and> revision s = (case expected of None \<Rightarrow> 1 | Some n \<Rightarrow> n + 1)
      \<and> valid r' \<and> load r' = Inr (Some (settled s))"
    and refused: "save expected s r = (res, r') \<Longrightarrow> res \<noteq> Inr True \<Longrightarrow> r' = r"
    and settled_revision: "revision (settled s) = revision s" and settled_sound: "sound s \<Longrightarrow> sound (settled s)"
begin

definition counted :: "'s list \<Rightarrow> bool" where
  "counted h \<longleftrightarrow> map revision h = map int (rev [1..<length h + 1])"

lemma counted_Cons: "counted (s # h) \<longleftrightarrow> revision s = int (length h) + 1 \<and> counted h"
  by (auto simp: counted_def)

lemma counted_latest: "counted h \<Longrightarrow> map_option revision (latest h) = (if h = [] then None else Some (int (length h)))"
  by (cases h) (simp_all add: latest_def counted_Cons)

lemma counted_less: "counted h \<Longrightarrow> s \<in> set h \<Longrightarrow> revision s \<le> int (length h)"
  by (induction h) (auto simp: counted_Cons)

text \<open>One state for each revision.\<close>

lemma counted_unique: "counted (t # h) \<Longrightarrow> s \<in> set (t # h) \<Longrightarrow> revision s = revision t \<Longrightarrow> s = t"
  using counted_less by (force simp: counted_Cons)

lemma current_is_latest:
  assumes "counted h" "s \<in> set h" "Some (revision s) = map_option revision (latest h)"
  obtains h' where "h = s # h'"
proof -
  obtain u h' where h: "h = u # h'" "revision s = revision u" using assms(3) by (auto simp: latest_def split: list.splits)
  then have "s = u" using counted_unique [of u h' s] assms by simp
  then show ?thesis using that h by simp
qed

lemma served_invariant:
  assumes "served load save revision settled initial succ_of empty r m h"
    and sound: "\<And>s. initial s \<Longrightarrow> sound s" "\<And>s t. sound s \<Longrightarrow> succ_of s t \<Longrightarrow> sound t"
  shows "valid r \<and> list_all sound h \<and> load r = Inr (latest h) \<and> counted h \<and> sequential settled initial succ_of h \<and> (\<forall>w s. m w = Some s \<longrightarrow> s \<in> set h)"
  using assms(1)
proof induction
  case nothing
  show ?case using empty_row by (simp add: latest_def counted_def)
next
  case (reading r m h found w)
  then have "found = latest h" by simp
  moreover have "latest h = Some s \<Longrightarrow> s \<in> set h" for s by (auto simp: latest_def split: list.splits)
  ultimately show ?case using reading.IH by simp
next
  case (creating r m h s res r')
  show ?case
  proof (cases "res = Inr True")
    case True
    have v: "valid r" "load r = Inr (latest h)" using creating.IH by auto
    have e: "None = map_option revision (latest h)" "revision s = 1" "valid r'" "load r' = Inr (Some (settled s))"
      using stored [OF v(1) sound(1) [OF creating.hyps(2)] v(2) creating.hyps(3) [unfolded True]] by auto
    then have "h = []" by (simp add: latest_def split: list.splits)
    then show ?thesis using True creating e settled_sound [OF sound(1) [OF creating.hyps(2)]]
      by (auto simp: latest_def counted_def settled_revision)
  next
    case False
    then show ?thesis using creating.IH refused [OF creating.hyps(3)] by simp
  qed
next
  case (replacing r m h w s t res r')
  show ?case
  proof (cases "res = Inr True")
    case True
    have v: "valid r" "load r = Inr (latest h)" using replacing.IH by auto
    have "sound s" using replacing.IH replacing.hyps(2) by (auto simp: list_all_iff)
    then have t: "sound t" using sound(2) replacing.hyps(3) by blast
    have e: "Some (revision s) = map_option revision (latest h)" "revision t = revision s + 1" "valid r'"
      "load r' = Inr (Some (settled t))" using stored [OF v(1) t v(2) replacing.hyps(4) [unfolded True]] by auto
    obtain h' where h: "h = s # h'" using current_is_latest [of h s] replacing.IH replacing.hyps(2) e(1) by blast
    have "counted (settled t # h)" using replacing.IH e(2) h by (simp add: counted_Cons settled_revision)
    moreover have "sequential settled initial succ_of (settled t # h)" using replacing.IH replacing.hyps(3) h by auto
    ultimately show ?thesis using True e t replacing.IH settled_sound by (simp add: latest_def)
  next
    case False
    then show ?thesis using replacing.IH refused [OF replacing.hyps(4)] by simp
  qed
qed

end

end
