(* ===== verification/Bootstrap_Store.thy ===== *)
theory Bootstrap_Store
  imports Bootstrap_Properties Revision_Store
begin

text \<open>
  Where the bootstrap state is kept, \<^verbatim>\<open>apps/installer/src/customer-bootstrap-durable-state.ts\<close>, and how the requests and
  the handover change it (\<^verbatim>\<open>customer-bootstrap-router.ts\<close>, \<^verbatim>\<open>customer-bootstrap-handover.ts\<close>): read, one operation, compare-and-set.
\<close>

section \<open>The port\<close>

text \<open>The error thrown, or that of the database.\<close>

datatype 'e port_error = Thrown 'e | Sql_error

definition MAX_BOOTSTRAP_TEXT :: nat where
  "MAX_BOOTSTRAP_TEXT = 16384"

text \<open>The version of the schema, created where there is none.\<close>

definition initializeCustomerBootstrapSql :: "int option \<Rightarrow> bootstrap_error + int" where
  "initializeCustomerBootstrapSql version = (let stored = (case version of None \<Rightarrow> 1 | Some n \<Rightarrow> n) in
     if stored \<noteq> 1 then Inl Bootstrap_conflict else Inr stored)"

definition read_bootstrap :: "(string \<Rightarrow> jnum) \<Rightarrow> stored_row \<Rightarrow> bootstrap_error + bootstrap_state option" where
  "read_bootstrap double r = (case r of
     None \<Rightarrow> Inr None
   | Some (revision, text) \<Rightarrow>
       if \<not> is_safe_integer revision \<or> revision < 1 \<or> MAX_BOOTSTRAP_TEXT < length text then Inl Bootstrap_conflict
       else (case json_parse double text of
         None \<Rightarrow> Inl Bootstrap_conflict
       | Some decoded \<Rightarrow> (case parseCustomerBootstrapState decoded of
           None \<Rightarrow> Inl Bootstrap_conflict
         | Some state \<Rightarrow> if bs_revision state \<noteq> revision \<or> canonicalJson decoded \<noteq> Some text then Inl Bootstrap_conflict
             else Inr (Some state))))"

text \<open>The result and the row afterwards.\<close>

definition write_bootstrap :: "int option \<Rightarrow> bootstrap_state \<Rightarrow> stored_row \<Rightarrow> (bootstrap_error port_error + bool) \<times> stored_row" where
  "write_bootstrap expected state r = (case parseCustomerBootstrapState (bootstrap_value state) of
     None \<Rightarrow> (Inl (Thrown Bootstrap_invalid), r)
   | Some parsed \<Rightarrow>
       if (case expected of None \<Rightarrow> bs_revision parsed \<noteq> 1
           | Some n \<Rightarrow> \<not> is_safe_integer n \<or> n < 1 \<or> bs_revision parsed \<noteq> n + 1) then (Inl (Thrown Bootstrap_invalid), r)
       else (case canonicalJson (bootstrap_value parsed) of
         None \<Rightarrow> (Inl (Thrown Bootstrap_invalid), r)
       | Some serialized \<Rightarrow> if MAX_BOOTSTRAP_TEXT < length serialized then (Inl (Thrown Bootstrap_invalid), r)
           else (case sql_write MAX_BOOTSTRAP_TEXT expected (bs_revision parsed) serialized r of
             None \<Rightarrow> (Inl Sql_error, r)
           | Some (changed, r') \<Rightarrow> (Inr changed, r'))))"

section \<open>Clients\<close>

definition persistTransition :: "bootstrap_state \<Rightarrow> bootstrap_state \<Rightarrow> stored_row \<Rightarrow> (bootstrap_error port_error + unit) \<times> stored_row" where
  "persistTransition expected next_state r =
     (if bs_revision next_state \<noteq> bs_revision expected + 1 then (Inl (Thrown Bootstrap_conflict), r)
      else case write_bootstrap (Some (bs_revision expected)) next_state r of
        (Inl e, r') \<Rightarrow> (Inl e, r')
      | (Inr changed, r') \<Rightarrow> (if changed then Inr () else Inl (Thrown Bootstrap_conflict), r'))"

text \<open>The attempt that was finalizing becomes \<^verbatim>\<open>READY\<close>, given the state read and the row of the later write.\<close>

datatype handover_outcome = Handover_ready | Handover_idle

definition finalizeCustomerBootstrapHandover :: "bootstrap_state option \<Rightarrow> int \<Rightarrow> stored_row
    \<Rightarrow> (bootstrap_error port_error + handover_outcome) \<times> stored_row" where
  "finalizeCustomerBootstrapHandover found now r = (case Option.bind found (\<lambda>s. parseCustomerBootstrapState (bootstrap_value s)) of
     None \<Rightarrow> (Inr Handover_idle, r)
   | Some current \<Rightarrow> (case bs_oauth current of
       None \<Rightarrow> (Inr Handover_idle, r)
     | Some oauth \<Rightarrow> if bs_status current \<noteq> CONVERGING \<or> bo_phase oauth \<noteq> Finalizing then (Inr Handover_idle, r)
         else (case markCustomerBootstrapReady (bootstrap_value current) (bo_attemptId oauth) now of
           Inl e \<Rightarrow> (Inl (Thrown e), r)
         | Inr state \<Rightarrow> (case write_bootstrap (Some (bs_revision current)) state r of
             (Inl e, r') \<Rightarrow> (Inl e, r')
           | (Inr changed, r') \<Rightarrow> (Inr (if changed then Handover_ready else Handover_idle), r')))))"

section \<open>The laws of the port\<close>

lemma bootstrap_readable:
  assumes "bootstrap_ok s" shows "readable double (bootstrap_value s)"
proof -
  have "readable double (session_value x)" if "session_ok x" for x using that by (simp add: session_value_def session_ok_def)
  moreover have "readable double (oauth_value y)" if "oauth_ok y" for y using that by (simp add: oauth_value_def oauth_ok_def)
  moreover have "readable double (cleanup_value z)" for z by (simp add: cleanup_value_def)
  ultimately show ?thesis
    using assms by (auto simp: bootstrap_ok_def bootstrap_value_def option.pred_set is_safe_integer_def [of 1] MAX_SAFE_INTEGER_def)
qed

lemma parse_session_order: "parse_session (sort_keys v) = parse_session v" if "well_formed v"
  using that by (simp add: parse_session_def order_simps field_sort_keys)

lemma parse_oauth_order: "parse_oauth (sort_keys v) = parse_oauth v" if "well_formed v"
  using that by (simp add: parse_oauth_def order_simps field_sort_keys)

lemma parse_cleanup_order: "parse_cleanup (sort_keys v) = parse_cleanup v" if "well_formed v"
  using that by (simp add: parse_cleanup_def order_simps field_sort_keys)

lemma parse_bootstrap_order: "parseCustomerBootstrapState (sort_keys v) = parseCustomerBootstrapState v" if "well_formed v"
  using that
  by (simp add: parseCustomerBootstrapState_def order_simps field_sort_keys well_formed_field parse_session_order parse_oauth_order
      parse_cleanup_order nullable_def null_default_def)

definition bootstrap_row :: "stored_row \<Rightarrow> bool" where
  "bootstrap_row r \<longleftrightarrow> (case r of None \<Rightarrow> True | Some (revision, text) \<Rightarrow>
     \<exists>s. bootstrap_ok s \<and> canonicalJson (bootstrap_value s) = Some text \<and> revision = bs_revision s \<and> length text \<le> MAX_BOOTSTRAP_TEXT)"

lemma read_stored:
  assumes "bootstrap_ok s" "canonicalJson (bootstrap_value s) = Some text" "length text \<le> MAX_BOOTSTRAP_TEXT"
  shows "read_bootstrap double (Some (bs_revision s, text)) = Inr (Some s)"
proof -
  have v: "readable double (bootstrap_value s)" using assms(1) by (rule bootstrap_readable)
  obtain t where "canonicalJson (bootstrap_value s) = Some t" "json_parse double t = Some (sort_keys (bootstrap_value s))"
    "canonicalJson (sort_keys (bootstrap_value s)) = Some t" using v by (rule canonical_read_back)
  moreover have "parseCustomerBootstrapState (sort_keys (bootstrap_value s)) = Some s"
    using parse_bootstrap_order [OF readable_well_formed(1) [OF v]] assms(1) by (simp add: parse_bootstrap_value)
  ultimately show ?thesis using assms by (simp add: read_bootstrap_def bootstrap_ok_def)
qed

lemma write_True:
  "write_bootstrap expected s r = (Inr True, r') \<Longrightarrow> bootstrap_ok s \<and> expected = map_option fst r
     \<and> bs_revision s = (case expected of None \<Rightarrow> 1 | Some n \<Rightarrow> n + 1)
     \<and> (\<exists>text. canonicalJson (bootstrap_value s) = Some text \<and> length text \<le> MAX_BOOTSTRAP_TEXT \<and> r' = Some (bs_revision s, text))"
  by (auto simp: write_bootstrap_def parse_bootstrap_value sql_write_True split: if_splits option.splits)

lemma write_refused: "write_bootstrap expected s r = (res, r') \<Longrightarrow> res \<noteq> Inr True \<Longrightarrow> r' = r"
  by (auto simp: write_bootstrap_def dest: sql_write_same split: if_splits option.splits)

interpretation bootstrap_port: revision_store "map_sum Thrown id \<circ> read_bootstrap double" write_bootstrap bs_revision id "\<lambda>s. True" bootstrap_row None
  for double
proof unfold_locales
  fix r found expected s r'
  assume r: "bootstrap_row r" "(map_sum Thrown id \<circ> read_bootstrap double) r = Inr found" "write_bootstrap expected s r = (Inr True, r')"
  obtain body where w: "bootstrap_ok s" "expected = map_option fst r" "bs_revision s = (case expected of None \<Rightarrow> 1 | Some n \<Rightarrow> n + 1)"
    "canonicalJson (bootstrap_value s) = Some body" "length body \<le> MAX_BOOTSTRAP_TEXT" "r' = Some (bs_revision s, body)"
    using write_True [OF r(3)] by blast
  have "map_option fst r = map_option bs_revision found"
    using r(1,2) read_stored by (auto simp: bootstrap_row_def read_bootstrap_def split: option.splits if_splits)
  then show "expected = map_option bs_revision found \<and> bs_revision s = (case expected of None \<Rightarrow> 1 | Some n \<Rightarrow> n + 1)
      \<and> bootstrap_row r' \<and> (map_sum Thrown id \<circ> read_bootstrap double) r' = Inr (Some (id s))"
    using w read_stored [OF w(1,4,5)] by (auto simp: bootstrap_row_def)
qed (use write_refused in \<open>auto simp: bootstrap_row_def read_bootstrap_def\<close>)

section \<open>What is stored\<close>

definition bootstrap_initial :: "bootstrap_state \<Rightarrow> bool" where
  "bootstrap_initial s \<longleftrightarrow> (\<exists>i b c e. initialCustomerBootstrapState i b c e = Inr s)"

definition bootstrap_follows :: "(bytes \<Rightarrow> bytes) \<Rightarrow> bootstrap_state \<Rightarrow> bootstrap_state \<Rightarrow> bool" where
  "bootstrap_follows digest s t \<longleftrightarrow> (\<exists>op. bootstrap_step digest op s = Inr t)"

lemma sequential_states: "sequential id bootstrap_initial (bootstrap_follows digest) h \<Longrightarrow> set h \<subseteq> bootstrap_states digest"
proof (induction h rule: induct_list012)
  case (2 s)
  then show ?case by (auto simp: bootstrap_initial_def intro: bootstrap_states.start)
next
  case (3 t s h)
  then show ?case by (auto simp: bootstrap_follows_def intro: bootstrap_states.step)
qed simp

text \<open>
  C16. Whatever the interleaving of the requests that read the row, work on what they read and write the successor, the row holds what a
  sequential history of the operations ends in: each stored state is an operation applied to the one stored before, no
  operation is lost and none works on a state already replaced; and the row is always readable.
\<close>

theorem bootstrap_serialized:
  "{(r, h) | r m h. served (map_sum Thrown id \<circ> read_bootstrap double) write_bootstrap bs_revision id bootstrap_initial
       (bootstrap_follows digest) None r m h}
   \<subseteq> {(r, h). read_bootstrap double r = Inr (latest h) \<and> sequential id bootstrap_initial (bootstrap_follows digest) h
       \<and> set h \<subseteq> bootstrap_states digest}"
proof clarify
  fix r :: stored_row and m :: "'w \<Rightarrow> bootstrap_state option" and h
  assume "served (map_sum Thrown id \<circ> read_bootstrap double) write_bootstrap bs_revision id bootstrap_initial
       (bootstrap_follows digest) None r m h"
  from bootstrap_port.served_invariant [OF this TrueI TrueI]
  have "sequential id bootstrap_initial (bootstrap_follows digest) h" "(map_sum Thrown id \<circ> read_bootstrap double) r = Inr (latest h)"
    by auto
  then show "read_bootstrap double r = Inr (latest h) \<and> sequential id bootstrap_initial (bootstrap_follows digest) h
      \<and> set h \<subseteq> bootstrap_states digest"
    using sequential_states by (auto simp: map_sum_def split: sum.splits)
qed

text \<open>The handover is such a request.\<close>

lemma handover_replaces:
  assumes "finalizeCustomerBootstrapHandover (Some s) now r = (Inr Handover_ready, r')" "bootstrap_ok s"
  obtains a t where "bootstrap_step digest (Mark_ready a now) s = Inr t" "write_bootstrap (Some (bs_revision s)) t r = (Inr True, r')"
    "bs_status t = READY"
proof -
  obtain oauth :: bootstrap_oauth and t where "markCustomerBootstrapReady (bootstrap_value s) (bo_attemptId oauth) now = Inr t"
    "write_bootstrap (Some (bs_revision s)) t r = (Inr True, r')"
    using assms by (auto simp: finalizeCustomerBootstrapHandover_def parse_bootstrap_value
        split: option.splits if_splits sum.splits prod.splits)
  then have "bootstrap_step digest (Mark_ready (bo_attemptId oauth) now) s = Inr t" by (simp add: bootstrap_step.simps)
  moreover from this have "bs_status t = READY" by (simp add: ready_step)
  ultimately show ?thesis using that \<open>write_bootstrap (Some (bs_revision s)) t r = (Inr True, r')\<close> by blast
qed

end
