(* ===== verification/Programs.thy ===== *)
theory Programs
  imports Prelude "HOL-Library.Sublist"
begin

text \<open>
  Asynchronous code as programs that call their environment. Everything the program does not
  compute itself (the file system, the provider, the receipt store, random identifiers) is a call,
  and the environment chooses the answer freely: a failing or slow disk, a provider another process
  changes, a lying store are all choices of answers. A program is the tree of its calls; it has no
  infinite run, so every property of all runs is a property of a function that returns.

  \<^item> \<open>seq\<close>, \<open>lift\<close> and \<open>attempt\<close> build programs: \<^verbatim>\<open>await\<close>, synchronous code that may throw, and
    \<^verbatim>\<open>try\<close> (\<open>attempt m\<close> returns the error or the value of \<open>m\<close>).
  \<^item> \<open>runs p t r\<close>: the environment gave the answers in the trace \<open>t\<close>, the calls with their answers,
    and \<open>p\<close> ended with \<open>r\<close>. \<open>play\<close> computes the run of a list of answers.
  \<^item> \<open>wp G Q h p\<close>: after the history \<open>h\<close>, every call of \<open>p\<close> is permitted by the guard \<open>G\<close>, which sees
    the history before the call, and \<open>p\<close> ends only where \<open>Q\<close> holds. The rules for it are the
    weakest preconditions of the constructors; \<open>wp_runs\<close> relates it to runs.
  \<^item> \<open>safely G R p h\<close>: the same, with a condition on what an action returns and none on its errors.
\<close>

named_theorems wp_intros \<open>weakest precondition rules\<close>

datatype ('c, 'a, 'r) program = Done 'r | Ask 'c "'a \<Rightarrow> ('c, 'a, 'r) program"

type_synonym ('c, 'a, 'e, 'x) action = "('c, 'a, 'e + 'x) program"

abbreviation return :: "'x \<Rightarrow> ('c, 'a, 'e, 'x) action" where
  "return x \<equiv> Done (Inr x)"

abbreviation throw :: "'e \<Rightarrow> ('c, 'a, 'e, 'x) action" where
  "throw e \<equiv> Done (Inl e)"

primrec map_end :: "('r \<Rightarrow> ('c, 'a, 's) program) \<Rightarrow> ('c, 'a, 'r) program \<Rightarrow> ('c, 'a, 's) program" where
  "map_end f (Done r) = f r"
| "map_end f (Ask c k) = Ask c (\<lambda>a. map_end f (k a))"

text \<open>\<^verbatim>\<open>const x = await m; f(x)\<close>\<close>

definition seq :: "('c, 'a, 'e, 'x) action \<Rightarrow> ('x \<Rightarrow> ('c, 'a, 'e, 'y) action) \<Rightarrow> ('c, 'a, 'e, 'y) action" where
  "seq m f = map_end (\<lambda>r. case r of Inl e \<Rightarrow> throw e | Inr x \<Rightarrow> f x) m"

text \<open>Synchronous code.\<close>

definition lift :: "'e + 'x \<Rightarrow> ('c, 'a, 'e, 'x) action" where
  "lift r = Done r"

text \<open>\<^verbatim>\<open>if (condition) throw e\<close>\<close>

definition refuse_if :: "bool \<Rightarrow> 'e \<Rightarrow> ('c, 'a, 'e, unit) action" where
  "refuse_if b e = (if b then throw e else return ())"

text \<open>\<^verbatim>\<open>try { m }\<close>, the outcome to be inspected by the \<^verbatim>\<open>catch\<close> or \<^verbatim>\<open>finally\<close> that follows.\<close>

definition attempt :: "('c, 'a, 'e, 'x) action \<Rightarrow> ('c, 'a, 'e, 'e + 'x) action" where
  "attempt m = map_end return m"

text \<open>\<^verbatim>\<open>try { m } catch (error) { f(error) }\<close>\<close>

definition catch :: "('c, 'a, 'e, 'x) action \<Rightarrow> ('e \<Rightarrow> ('c, 'a, 'e, 'x) action) \<Rightarrow> ('c, 'a, 'e, 'x) action" where
  "catch m f = map_end (\<lambda>r. case r of Inl e \<Rightarrow> f e | Inr x \<Rightarrow> return x) m"

text \<open>One call whose answer is an error or a value.\<close>

definition call :: "'c \<Rightarrow> ('c, 'e + 'x, 'e, 'x) action" where
  "call c = Ask c Done"

section \<open>Runs\<close>

type_synonym ('c, 'a) trace = "('c \<times> 'a) list"

primrec runs :: "('c, 'a, 'r) program \<Rightarrow> ('c, 'a) trace \<Rightarrow> 'r \<Rightarrow> bool" where
  "runs (Done r') = (\<lambda>t r. t = [] \<and> r = r')"
| "runs (Ask c k) = (\<lambda>t r. case t of [] \<Rightarrow> False | (c', a) # t' \<Rightarrow> c' = c \<and> runs (k a) t' r)"

primrec play :: "('c, 'a, 'r) program \<Rightarrow> 'a list \<Rightarrow> ('c, 'a) trace \<times> 'r option" where
  "play (Done r) = (\<lambda>as. ([], Some r))"
| "play (Ask c k) = (\<lambda>as. case as of [] \<Rightarrow> ([], None) | a # as' \<Rightarrow> map_prod ((#) (c, a)) id (play (k a) as'))"

lemma play_runs: "play p as = (t, Some r) \<Longrightarrow> runs p t r"
proof (induction p arbitrary: as t)
  case (Ask c k)
  then show ?case by (cases as) (auto simp: map_prod_def split: prod.splits)
qed simp

lemma runs_play: "runs p t r \<Longrightarrow> play p (map snd t) = (t, Some r)"
  by (induction p arbitrary: t) (auto split: list.splits)

text \<open>Every environment lets every program end.\<close>

lemma some_run: "\<exists>t r. runs p t r"
proof (induction p)
  case (Ask c k)
  obtain t r where "runs (k undefined) t r" using Ask.IH by blast
  then have "runs (Ask c k) ((c, undefined) # t) r" by simp
  then show ?case by blast
qed auto

lemma runs_deterministic: "runs p t r \<Longrightarrow> runs p t r' \<Longrightarrow> r = r'"
  by (induction p arbitrary: t) (auto split: list.splits)

section \<open>Weakest preconditions\<close>

primrec wp :: "(('c, 'a) trace \<Rightarrow> 'c \<Rightarrow> bool) \<Rightarrow> ('r \<Rightarrow> ('c, 'a) trace \<Rightarrow> bool) \<Rightarrow> ('c, 'a, 'r) program
    \<Rightarrow> ('c, 'a) trace \<Rightarrow> bool" where
  "wp G Q (Done r) = (\<lambda>h. Q r h)"
| "wp G Q (Ask c k) = (\<lambda>h. G h c \<and> (\<forall>a. wp G Q (k a) (h @ [(c, a)])))"

lemma wp_mono:
  "wp G Q p h \<Longrightarrow> (\<And>r h'. Q r h' \<Longrightarrow> Q' r h') \<Longrightarrow> (\<And>h' c. G h' c \<Longrightarrow> G' h' c) \<Longrightarrow> wp G' Q' p h"
  by (induction p arbitrary: h) auto

lemma wp_post: "wp G Q p h \<Longrightarrow> (\<And>r h'. Q r h' \<Longrightarrow> Q' r h') \<Longrightarrow> wp G Q' p h"
  by (rule wp_mono)

lemma wp_conj: "wp G Q p h \<Longrightarrow> wp G' Q' p h \<Longrightarrow> wp (\<lambda>h c. G h c \<and> G' h c) (\<lambda>r h. Q r h \<and> Q' r h) p h"
  by (induction p arbitrary: h) auto

lemma wp_runs:
  "wp G Q p h \<longleftrightarrow>
     (\<forall>t r. runs p t r \<longrightarrow> Q r (h @ t) \<and> (\<forall>i < length t. G (h @ take i t) (fst (t ! i))))"
proof (induction p arbitrary: h)
  case (Ask c k)
  show ?case (is "?L \<longleftrightarrow> ?R")
  proof
    assume L: ?L
    show ?R
    proof (intro allI impI)
      fix t r assume "runs (Ask c k) t r"
      then obtain a t' where t: "t = (c, a) # t'" "runs (k a) t' r" by (auto split: list.splits)
      have G: "G h c" using L by simp
      have "wp G Q (k a) (h @ [(c, a)])" using L by simp
      then have IH: "Q r ((h @ [(c, a)]) @ t') \<and> (\<forall>i < length t'. G ((h @ [(c, a)]) @ take i t') (fst (t' ! i)))"
        using Ask.IH t(2) by blast
      have "G (h @ take i t) (fst (t ! i))" if "i < length t" for i
        using that G IH by (cases i) (auto simp: t(1))
      with IH show "Q r (h @ t) \<and> (\<forall>i < length t. G (h @ take i t) (fst (t ! i)))" by (simp add: t(1))
    qed
  next
    assume R: ?R
    have "wp G Q (k a) (h @ [(c, a)])" for a
    proof -
      have "Q r ((h @ [(c, a)]) @ t) \<and> (\<forall>i < length t. G ((h @ [(c, a)]) @ take i t) (fst (t ! i)))"
        if "runs (k a) t r" for t r
      proof -
        have "runs (Ask c k) ((c, a) # t) r" using that by simp
        with R have *: "Q r (h @ (c, a) # t)" "\<forall>i < Suc (length t). G (h @ take i ((c, a) # t)) (fst (((c, a) # t) ! i))"
          by fastforce+
        have "G ((h @ [(c, a)]) @ take i t) (fst (t ! i))" if "i < length t" for i
          using *(2) [rule_format, of "Suc i"] that by simp
        with *(1) show ?thesis by simp
      qed
      then show ?thesis using Ask.IH by blast
    qed
    moreover have "G h c"
    proof -
      obtain t r where "runs (k undefined) t r" using some_run [of "k undefined"] by blast
      then have "runs (Ask c k) ((c, undefined) # t) r" by simp
      with R show ?thesis by fastforce
    qed
    ultimately show ?L by simp
  qed
qed simp

text \<open>What \<open>wp\<close> says about one run.\<close>

lemma runs_wp: "runs p t r \<Longrightarrow> wp G Q p [] \<Longrightarrow> Q r t"
  unfolding wp_runs by simp

lemma runs_guard: "runs p t r \<Longrightarrow> wp G Q p [] \<Longrightarrow> t = pre @ (c, a) # post \<Longrightarrow> G pre c"
proof -
  assume a: "runs p t r" "wp G Q p []" "t = pre @ (c, a) # post"
  have "\<forall>i < length t. G (take i t) (fst (t ! i))" using a(1,2) unfolding wp_runs by simp
  from this [rule_format, of "length pre"] show "G pre c" by (simp add: a(3))
qed

lemma wp_map_end: "wp G Q (map_end f p) h \<longleftrightarrow> wp G (\<lambda>r. wp G Q (f r)) p h"
  by (induction p arbitrary: h) auto

lemma wp_seq: "wp G Q (seq m f) h \<longleftrightarrow> wp G (\<lambda>r h. case r of Inl e \<Rightarrow> Q (Inl e) h | Inr x \<Rightarrow> wp G Q (f x) h) m h"
proof -
  have "(\<lambda>r. wp G Q (case r of Inl e \<Rightarrow> throw e | Inr x \<Rightarrow> f x)) =
      (\<lambda>r h. case r of Inl e \<Rightarrow> Q (Inl e) h | Inr x \<Rightarrow> wp G Q (f x) h)"
    by (simp add: fun_eq_iff split: sum.split)
  then show ?thesis by (simp only: seq_def wp_map_end)
qed

lemma wp_catch: "wp G Q (catch m f) h \<longleftrightarrow> wp G (\<lambda>r h. case r of Inl e \<Rightarrow> wp G Q (f e) h | Inr x \<Rightarrow> Q (Inr x) h) m h"
proof -
  have "(\<lambda>r. wp G Q (case r of Inl e \<Rightarrow> f e | Inr x \<Rightarrow> return x)) =
      (\<lambda>r h. case r of Inl e \<Rightarrow> wp G Q (f e) h | Inr x \<Rightarrow> Q (Inr x) h)"
    by (simp add: fun_eq_iff split: sum.split)
  then show ?thesis by (simp only: catch_def wp_map_end)
qed

lemma wp_attempt: "wp G Q (attempt m) h \<longleftrightarrow> wp G (\<lambda>r. Q (Inr r)) m h"
  by (simp add: attempt_def wp_map_end)

lemma wp_lift: "wp G Q (lift r) h \<longleftrightarrow> Q r h"
  by (simp add: lift_def)

lemma wp_call: "wp G Q (call c) h \<longleftrightarrow> G h c \<and> (\<forall>a. Q a (h @ [(c, a)]))"
  by (simp add: call_def)

lemma wp_refuse: "wp G Q (refuse_if b e) h \<longleftrightarrow> (if b then Q (Inl e) h else Q (Inr ()) h)"
  by (simp add: refuse_if_def)

lemmas wp_simps = wp_seq wp_catch wp_attempt wp_lift wp_call wp_refuse

text \<open>The rule for a sequence: a condition between the two parts.\<close>

lemma wp_seqI:
  assumes "wp G R m h" "\<And>e h'. R (Inl e) h' \<Longrightarrow> Q (Inl e) h'" "\<And>x h'. R (Inr x) h' \<Longrightarrow> wp G Q (f x) h'"
  shows "wp G Q (seq m f) h"
  unfolding wp_seq using assms by (intro wp_post [OF assms(1)]) (auto split: sum.split)

lemma wp_catchI:
  assumes "wp G R m h" "\<And>x h'. R (Inr x) h' \<Longrightarrow> Q (Inr x) h'" "\<And>e h'. R (Inl e) h' \<Longrightarrow> wp G Q (f e) h'"
  shows "wp G Q (catch m f) h"
  unfolding wp_catch using assms by (intro wp_post [OF assms(1)]) (auto split: sum.split)

lemma wp_case_option:
  "wp G Q (case x of None \<Rightarrow> p | Some y \<Rightarrow> q y) h \<longleftrightarrow> (case x of None \<Rightarrow> wp G Q p h | Some y \<Rightarrow> wp G Q (q y) h)"
  by (simp split: option.split)

lemma wp_if: "wp G Q (if b then p else q) h \<longleftrightarrow> (if b then wp G Q p h else wp G Q q h)"
  by simp

text \<open>The final history extends the first one.\<close>

lemma wp_extends: "wp G (\<lambda>r h'. (\<exists>t. h' = h @ t) \<longrightarrow> Q r h') p h \<Longrightarrow> wp G Q p h"
  unfolding wp_runs by blast

section \<open>Safe actions\<close>

definition safely :: "(('c, 'a) trace \<Rightarrow> 'c \<Rightarrow> bool) \<Rightarrow> ('x \<Rightarrow> ('c, 'a) trace \<Rightarrow> bool) \<Rightarrow> ('c, 'a, 'e, 'x) action
    \<Rightarrow> ('c, 'a) trace \<Rightarrow> bool" where
  "safely G R p h \<longleftrightarrow> wp G (\<lambda>r h'. case r of Inl e \<Rightarrow> True | Inr x \<Rightarrow> R x h') p h"

lemma safely_return [simp]: "safely G R (return x) h \<longleftrightarrow> R x h"
  by (simp add: safely_def)

lemma safely_throw [simp]: "safely G R (throw e) h"
  by (simp add: safely_def)

lemma safely_lift: "(\<And>x. r = Inr x \<Longrightarrow> R x h) \<Longrightarrow> safely G R (lift r) h"
  by (auto simp: safely_def wp_lift split: sum.split)

lemma safely_refuse: "(\<not> b \<Longrightarrow> R () h) \<Longrightarrow> safely G R (refuse_if b e) h"
  by (simp add: safely_def wp_refuse)

lemma safely_call: "G h c \<Longrightarrow> (\<And>v. R v (h @ [(c, Inr v)])) \<Longrightarrow> safely G R (call c) h"
  by (auto simp: safely_def wp_call split: sum.split)

lemma safely_post: "safely G R p h \<Longrightarrow> (\<And>x h'. R x h' \<Longrightarrow> prefix h h' \<Longrightarrow> S x h') \<Longrightarrow> safely G S p h"
  unfolding safely_def wp_runs by (auto split: sum.splits)

lemma safely_guard: "safely G R p h \<Longrightarrow> (\<And>h' c. G h' c \<Longrightarrow> G' h' c) \<Longrightarrow> safely G' R p h"
  unfolding safely_def by (rule wp_mono)

lemma safely_seq:
  assumes "safely G R m h" "\<And>x h'. R x h' \<Longrightarrow> prefix h h' \<Longrightarrow> safely G S (f x) h'"
  shows "safely G S (seq m f) h"
proof -
  have "safely G (\<lambda>x h'. R x h' \<and> prefix h h') m h" using assms(1) by (rule safely_post) simp
  then show ?thesis unfolding safely_def
    by (rule wp_seqI) (use assms(2) in \<open>auto simp: safely_def\<close>)
qed

lemma safely_seq_lift [wp_intros]:
  "(\<And>x. r = Inr x \<Longrightarrow> safely G R (f x) h) \<Longrightarrow> safely G R (seq (lift r) f) h"
  by (auto simp: safely_def wp_seq wp_lift split: sum.split)

lemma safely_seq_refuse [wp_intros]:
  "(\<not> b \<Longrightarrow> safely G R (f ()) h) \<Longrightarrow> safely G R (seq (refuse_if b e) f) h"
  by (auto simp: safely_def wp_seq wp_refuse)

lemma safely_seq_return [simp]: "safely G R (seq (return x) f) h = safely G R (f x) h"
  by (simp add: seq_def)

lemma safely_seq_throw [simp]: "safely G R (seq (throw e) f) h"
  by (simp add: seq_def)

lemma safely_rethrow: "safely G R m h \<Longrightarrow> (\<And>e. \<exists>e'. f e = throw e') \<Longrightarrow> safely G R (catch m f) h"
  unfolding safely_def
proof (erule wp_catchI, goal_cases)
  case (2 e h')
  from 2(1) [of e] show ?case by auto
qed simp

lemma safely_option [wp_intros]:
  "(x = None \<Longrightarrow> safely G R p h) \<Longrightarrow> (\<And>y. x = Some y \<Longrightarrow> safely G R (q y) h)
     \<Longrightarrow> safely G R (case x of None \<Rightarrow> p | Some y \<Rightarrow> q y) h"
  by (cases x) auto

lemma safely_if [wp_intros]:
  "(b \<Longrightarrow> safely G R p h) \<Longrightarrow> (\<not> b \<Longrightarrow> safely G R q h) \<Longrightarrow> safely G R (if b then p else q) h"
  by simp

lemma safely_wp: "safely G R p h \<Longrightarrow> (\<And>e h'. Q (Inl e) h') \<Longrightarrow> (\<And>x h'. R x h' \<Longrightarrow> Q (Inr x) h') \<Longrightarrow> wp G Q p h"
  unfolding safely_def by (erule wp_post) (auto split: sum.splits)

text \<open>Only calls of some sort are made: a guard that ignores the history.\<close>

lemma wp_calls:
  "wp (\<lambda>h c. P c) (\<lambda>r h. True) p [] \<Longrightarrow> runs p t r \<Longrightarrow> list_all (\<lambda>e. P (fst e)) t"
  unfolding wp_runs by (auto simp: list_all_length)

end
