(* ===== verification/Composition.thy ===== *)
theory Composition
  imports Programs
begin

text \<open>
  Programs whose calls are carried out by programs. \<open>connect I p\<close> runs \<open>p\<close> and, for each of its calls \<open>c\<close>, the
  program \<open>I c\<close>, whose result is the answer. A run of it is a run of \<open>p\<close>, whose answers are the results of runs of \<open>I\<close>
  (\<open>unfolds\<close>): what was proved of \<open>p\<close> for all environments holds of it with \<open>I\<close> for its environment, and what was proved of
  \<open>I\<close> holds of each part of the run.
\<close>

primrec connect :: "('c \<Rightarrow> ('d, 'b, 'a) program) \<Rightarrow> ('c, 'a, 'r) program \<Rightarrow> ('d, 'b, 'r) program" where
  "connect I (Done r) = Done r"
| "connect I (Ask c k) = map_end (\<lambda>a. connect I (k a)) (I c)"

text \<open>The trace \<open>t\<close> consists of runs of the programs for the calls of the trace \<open>h\<close>, which end with the answers in \<open>h\<close>.\<close>

inductive unfolds :: "('c \<Rightarrow> ('d, 'b, 'a) program) \<Rightarrow> ('c, 'a) trace \<Rightarrow> ('d, 'b) trace \<Rightarrow> bool" for I where
  nothing: "unfolds I [] []"
| part: "runs (I c) s a \<Longrightarrow> unfolds I h t \<Longrightarrow> unfolds I ((c, a) # h) (s @ t)"

inductive_cases unfolds_NilE [elim!]: "unfolds I [] t"
inductive_cases unfolds_ConsE: "unfolds I (e # h) t"

lemma unfolds_Cons: "unfolds I ((c, a) # h) t \<longleftrightarrow> (\<exists>s t'. t = s @ t' \<and> runs (I c) s a \<and> unfolds I h t')"
  by (auto intro: unfolds.part elim!: unfolds_ConsE)

lemma unfolds_append: "unfolds I h t \<Longrightarrow> unfolds I h' t' \<Longrightarrow> unfolds I (h @ h') (t @ t')"
proof (induction rule: unfolds.induct)
  case (part c s a h t)
  then show ?case using unfolds.part [of I c s a "h @ h'" "t @ t'"] by simp
qed simp

lemma unfolds_single: "runs (I c) s a \<Longrightarrow> unfolds I [(c, a)] s"
  using unfolds.part [OF _ unfolds.nothing] by fastforce

lemma runs_map_end: "runs (map_end f p) t s \<longleftrightarrow> (\<exists>t1 t2 r. t = t1 @ t2 \<and> runs p t1 r \<and> runs (f r) t2 s)"
proof (induction p arbitrary: t)
  case (Ask c k)
  show ?case
  proof
    assume "runs (map_end f (Ask c k)) t s"
    then obtain a t' where t: "t = (c, a) # t'" "runs (map_end f (k a)) t' s" by (auto split: list.splits)
    with Ask.IH obtain t1 t2 r where "t' = t1 @ t2" "runs (k a) t1 r" "runs (f r) t2 s" by blast
    with t have "t = ((c, a) # t1) @ t2" "runs (Ask c k) ((c, a) # t1) r" "runs (f r) t2 s" by simp_all
    then show "\<exists>t1 t2 r. t = t1 @ t2 \<and> runs (Ask c k) t1 r \<and> runs (f r) t2 s" by blast
  next
    assume "\<exists>t1 t2 r. t = t1 @ t2 \<and> runs (Ask c k) t1 r \<and> runs (f r) t2 s"
    then obtain t1 t2 r where r: "t = t1 @ t2" "runs (Ask c k) t1 r" "runs (f r) t2 s" by blast
    then obtain a t1' where "t1 = (c, a) # t1'" "runs (k a) t1' r" by (auto split: list.splits)
    then show "runs (map_end f (Ask c k)) t s" using r Ask.IH by auto
  qed
qed simp

text \<open>The runs of a connected program.\<close>

lemma connect_runs: "runs (connect I p) t r \<longleftrightarrow> (\<exists>h. unfolds I h t \<and> runs p h r)"
proof (induction p arbitrary: t)
  case (Done r')
  then show ?case by (auto intro: unfolds.nothing)
next
  case (Ask c k)
  have "runs (connect I (Ask c k)) t r \<longleftrightarrow> (\<exists>t1 t2 a. t = t1 @ t2 \<and> runs (I c) t1 a \<and> runs (connect I (k a)) t2 r)"
    by (simp add: runs_map_end)
  also have "\<dots> \<longleftrightarrow> (\<exists>t1 t2 a h. t = t1 @ t2 \<and> runs (I c) t1 a \<and> unfolds I h t2 \<and> runs (k a) h r)"
    by (simp add: Ask.IH)
  also have "\<dots> \<longleftrightarrow> (\<exists>a h. unfolds I ((c, a) # h) t \<and> runs (k a) h r)"
    unfolding unfolds_Cons by blast
  also have "\<dots> \<longleftrightarrow> (\<exists>h. unfolds I h t \<and> runs (Ask c k) h r)"
    by (auto split: list.splits) (metis list.exhaust prod.exhaust)
  finally show ?case .
qed

text \<open>An event of the run belongs to one call: what came before is the earlier calls and a part of this one.\<close>

lemma unfolds_event:
  assumes "unfolds I h t" "t = pre @ e # post"
  obtains h1 c a h2 t1 u v t2 where "h = h1 @ (c, a) # h2" "unfolds I h1 t1" "runs (I c) (u @ e # v) a"
    "unfolds I h2 t2" "pre = t1 @ u" "post = v @ t2"
proof -
  have "\<exists>h1 c a h2 t1 u v t2. h = h1 @ (c, a) # h2 \<and> unfolds I h1 t1 \<and> runs (I c) (u @ e # v) a
      \<and> unfolds I h2 t2 \<and> pre = t1 @ u \<and> post = v @ t2"
    using assms
  proof (induction arbitrary: pre rule: unfolds.induct)
    case (part c s a h t)
    show ?case
    proof (cases "length pre < length s")
      case True
      have split: "s @ t = pre @ e # post" using part.prems .
      have "take (length pre) s = pre" "drop (length pre) s @ t = e # post"
        using arg_cong [OF split, of "take (length pre)"] arg_cong [OF split, of "drop (length pre)"] True by simp_all
      moreover obtain v where "drop (length pre) s = e # v"
        using calculation(2) True by (cases "drop (length pre) s") auto
      ultimately have s: "s = pre @ e # v" "post = v @ t" by (metis append_take_drop_id, simp)
      then show ?thesis using part.hyps unfolds.nothing
        by (intro exI [of _ "[]"] exI [of _ c] exI [of _ a] exI [of _ h] exI [of _ "[]"] exI [of _ pre] exI [of _ v] exI [of _ t]) simp
    next
      case False
      have split: "s @ t = pre @ e # post" using part.prems .
      have p: "pre = s @ drop (length s) pre" "t = drop (length s) pre @ e # post"
        using arg_cong [OF split, of "take (length s)"] arg_cong [OF split, of "drop (length s)"] False
        by (metis append_take_drop_id append_eq_conv_conj take_append diff_is_0_eq' linorder_not_less take0 append_Nil2, simp)
      from part.IH [OF p(2)] obtain h1 c' a' h2 t1 u v t2 where
        i: "h = h1 @ (c', a') # h2" "unfolds I h1 t1" "runs (I c') (u @ e # v) a'" "unfolds I h2 t2"
          "drop (length s) pre = t1 @ u" "post = v @ t2" by blast
      have "unfolds I ((c, a) # h1) (s @ t1)" using part.hyps(1) i(2) by (rule unfolds.part)
      moreover have "pre = (s @ t1) @ u" using p(1) i(5) by simp
      ultimately show ?thesis using i
        by (intro exI [of _ "(c, a) # h1"] exI [of _ c'] exI [of _ a'] exI [of _ h2] exI [of _ "s @ t1"] exI [of _ u]
          exI [of _ v] exI [of _ t2]) simp
    qed
  qed simp
  then show ?thesis using that by blast
qed

text \<open>A guard on the calls of \<open>p\<close> holds where they are carried out.\<close>

lemma connect_guard:
  assumes "runs (connect I p) t r" "wp G Q p []" "t = pre @ e # post"
  obtains h c a u v t1 where "unfolds I h t1" "G h c" "runs (I c) (u @ e # v) a" "pre = t1 @ u"
proof -
  obtain h where h: "unfolds I h t" "runs p h r" using assms(1) by (auto simp: connect_runs)
  from h(1) assms(3) show ?thesis
  proof (rule unfolds_event)
    fix h1 c a h2 t1 u v t2
    assume i: "h = h1 @ (c, a) # h2" "unfolds I h1 t1" "runs (I c) (u @ e # v) a" "pre = t1 @ u"
    have "G h1 c" using runs_guard [OF h(2) assms(2) i(1)] .
    then show ?thesis using i by (intro that)
  qed
qed

text \<open>A guard and a condition on the result of any program, proved on its runs.\<close>

lemma wp_from_runs:
  assumes "\<And>t r. runs p t r \<Longrightarrow> Q r t" "\<And>t r pre c a post. runs p t r \<Longrightarrow> t = pre @ (c, a) # post \<Longrightarrow> G pre c"
  shows "wp G Q p []"
  unfolding wp_runs append_Nil
proof (intro allI impI conjI)
  fix t r i assume r: "runs p t r" and i: "i < length t"
  have "t = take i t @ (fst (t ! i), snd (t ! i)) # drop (Suc i) t" using id_take_nth_drop [OF i] by simp
  with r show "G (take i t) (fst (t ! i))" by (rule assms(2))
qed (rule assms(1))

end
