(* ===== verification/Access_Groups.thy ===== *)
theory Access_Groups
  imports Json_Canonical
begin

text \<open>
  \<^verbatim>\<open>src/access-groups.ts\<close>: the fresh Access group observations a plan may bind a source to. Group observations come from the provider and are reduced to exact, unique pairs of an
  identifier and a name.
\<close>

section \<open>Access groups\<close>

record access_group =
  ag_id :: string
  ag_name :: string

record normalized_groups =
  ng_groups :: "access_group list"
  ng_invalidCount :: nat
  ng_provided :: bool

definition MAX_ACCESS_GROUP_NAME_LENGTH :: nat where
  "MAX_ACCESS_GROUP_NAME_LENGTH = 128"

definition isSafeProviderGroupId :: "jval \<Rightarrow> bool" where
  "isSafeProviderGroupId value = (case value of JStr s \<Rightarrow> test SAFE_OPAQUE_ID s | _ \<Rightarrow> False)"

definition hasExactKeys :: "jval \<Rightarrow> string list \<Rightarrow> bool" where
  "hasExactKeys value expected \<longleftrightarrow> js_sort compareText (keys value) = js_sort compareText expected"

definition hasControlCharacter :: "string \<Rightarrow> bool" where
  "hasControlCharacter value = list_ex (\<lambda>c. code_unit c \<le> 31 \<or> code_unit c = 127) value"

definition codePointLengthWithin :: "string \<Rightarrow> nat \<Rightarrow> bool" where
  "codePointLengthWithin value maximum \<longleftrightarrow> 0 < length value \<and> length value \<le> maximum"

definition isAccessGroupName :: "jval \<Rightarrow> bool" where
  "isAccessGroupName value = (case value of
     JStr s \<Rightarrow> codePointLengthWithin s MAX_ACCESS_GROUP_NAME_LENGTH \<and> s = js_trim s
       \<and> \<not> hasControlCharacter s
   | _ \<Rightarrow> False)"

text \<open>One raw observation; \<open>None\<close> is an invalid one, which is counted and skipped.\<close>

definition readAccessGroup :: "jval \<Rightarrow> access_group option" where
  "readAccessGroup raw =
     (if \<not> isObject raw \<or> \<not> hasExactKeys raw [''id'', ''name'']
         \<or> \<not> isSafeProviderGroupId (field raw ''id'') \<or> \<not> isAccessGroupName (field raw ''name'')
      then None
      else Some \<lparr>ag_id = text_or [] (field raw ''id''), ag_name = text_or [] (field raw ''name'')\<rparr>)"

definition compareGroups :: "access_group \<Rightarrow> access_group \<Rightarrow> int" where
  "compareGroups left right =
     or_else (compareText (ag_name left) (ag_name right)) (compareText (ag_id left) (ag_id right))"

definition duplicateIds :: "access_group list \<Rightarrow> string list" where
  "duplicateIds candidates =
     (let ids = map ag_id candidates in filter (\<lambda>i. 1 < count_list ids i) (uniq ids))"

definition normalizeAccessGroups :: "jval \<Rightarrow> normalized_groups" where
  "normalizeAccessGroups access =
     (let rawAccess = (if isObject access then access else JObj []) in
      case field rawAccess ''groups'' of
        JArr raws \<Rightarrow>
          (let candidates = List.map_filter readAccessGroup raws;
               duplicates = duplicateIds candidates;
               groups = filter (\<lambda>g. ag_id g \<notin> set duplicates) candidates
           in \<lparr>ng_groups = js_sort compareGroups groups,
               ng_invalidCount = length (filter (\<lambda>r. readAccessGroup r = None) raws) + length duplicates,
               ng_provided = True\<rparr>)
      | _ \<Rightarrow> \<lparr>ng_groups = [], ng_invalidCount = 0, ng_provided = False\<rparr>)"

definition accessGroupsNamed :: "access_group list \<Rightarrow> string \<Rightarrow> access_group list" where
  "accessGroupsNamed groups logicalName = filter (\<lambda>g. ag_name g = logicalName) groups"

text \<open>
  \<^verbatim>\<open>JSON.stringify({ groups: [{ id, name }, ...] })\<close>: the keys already stand in sorted order, so
  the text is the canonical one.
\<close>

definition groupsValue :: "access_group list \<Rightarrow> jval" where
  "groupsValue groups = JObj [(''groups'',
     JArr (map (\<lambda>g. JObj [(''id'', JStr (ag_id g)), (''name'', JStr (ag_name g))]) groups))]"

definition accessGroupDigest :: "(string \<Rightarrow> string) \<Rightarrow> access_group list \<Rightarrow> string" where
  "accessGroupDigest sha groups =
     ''sha256:'' @ sha (render (groupsValue (js_sort compareGroups groups)))"

definition resolveAccessGroupByDigest ::
    "(string \<Rightarrow> string) \<Rightarrow> jval \<Rightarrow> int \<Rightarrow> string \<Rightarrow> access_group option" where
  "resolveAccessGroupByDigest sha access identityCount identitiesHash =
     (let normalized = normalizeAccessGroups access in
      if \<not> ng_provided normalized \<or> 0 < ng_invalidCount normalized \<or> identityCount \<noteq> 1 then None
      else case filter (\<lambda>g. accessGroupDigest sha [g] = identitiesHash) (ng_groups normalized) of
             [g] \<Rightarrow> Some g
           | _ \<Rightarrow> None)"

interpretation group_order: comparison compareGroups
  unfolding compareGroups_def [abs_def] by (intro comparison_intros)

lemma compareGroups_eq_0: "compareGroups g h = 0 \<longleftrightarrow> g = h"
  by (cases g; cases h) (auto simp: compareGroups_def or_else_def)

lemma accessGroupDigest_order:
  "mset gs = mset hs \<Longrightarrow> accessGroupDigest sha gs = accessGroupDigest sha hs"
  using group_order.sort_cong [of gs hs] by (simp add: accessGroupDigest_def compareGroups_eq_0)

text \<open>What the valid observations are.\<close>

definition valid_group :: "access_group \<Rightarrow> bool" where
  "valid_group g \<longleftrightarrow> test SAFE_OPAQUE_ID (ag_id g) \<and> isAccessGroupName (JStr (ag_name g))"

lemma readAccessGroup_valid: "readAccessGroup raw = Some g \<Longrightarrow> valid_group g"
  by (auto simp: readAccessGroup_def valid_group_def isSafeProviderGroupId_def isAccessGroupName_def
      split: if_splits jval.splits)

lemma count_list_map_filter: "count_list (map f (filter P xs)) k \<le> count_list (map f xs) k"
  by (induction xs) auto

lemma distinct_count_list: "(\<And>k. count_list ys k \<le> 1) \<Longrightarrow> distinct ys"
proof (induction ys)
  case (Cons y ys)
  then have "count_list ys y = 0" using Cons.prems [of y] by simp
  moreover have "count_list ys k \<le> 1" for k using Cons.prems [of k] by (auto split: if_splits)
  ultimately show ?case using Cons.IH by (simp add: count_list_0_iff)
qed simp

lemma distinct_unique_keys: "distinct (map f (filter (\<lambda>x. \<not> 1 < count_list (map f xs) (f x)) xs))"
  (is "distinct (map f (filter ?P xs))")
proof (rule distinct_count_list)
  fix k
  show "count_list (map f (filter ?P xs)) k \<le> 1"
  proof (cases "k \<in> set (map f (filter ?P xs))")
    case True
    then have "\<not> 1 < count_list (map f xs) k" by auto
    then show ?thesis using count_list_map_filter [of f ?P xs k] by linarith
  next
    case False
    then show ?thesis by (simp add: count_list_0_iff)
  qed
qed

lemma not_duplicate_iff:
  "g \<in> set candidates \<Longrightarrow>
   ag_id g \<notin> set (duplicateIds candidates) \<longleftrightarrow> \<not> 1 < count_list (map ag_id candidates) (ag_id g)"
  by (auto simp: duplicateIds_def Let_def)

lemma unique_candidates:
  "filter (\<lambda>g. ag_id g \<notin> set (duplicateIds candidates)) candidates =
   filter (\<lambda>g. \<not> 1 < count_list (map ag_id candidates) (ag_id g)) candidates"
  by (rule filter_cong) (simp_all add: not_duplicate_iff)

lemma normalized_groups_distinct: "distinct (map ag_id (ng_groups (normalizeAccessGroups access)))"
  using distinct_unique_keys [of ag_id]
  by (auto simp: normalizeAccessGroups_def Let_def unique_candidates simp del: One_nat_def
      split: jval.split)

lemma normalized_groups_valid:
  "g \<in> set (ng_groups (normalizeAccessGroups access)) \<Longrightarrow> valid_group g"
  by (auto simp: normalizeAccessGroups_def Let_def map_filter_def readAccessGroup_valid
      split: jval.splits if_splits)

lemma normalized_groups_sorted:
  "sorted_wrt (\<lambda>g h. compareGroups g h \<le> 0) (ng_groups (normalizeAccessGroups access))"
  by (auto simp: normalizeAccessGroups_def Let_def group_order.sorted_sort split: jval.split)

text \<open>Every raw observation is a group of the result, counted as invalid, or one of a duplicate.\<close>

lemma map_filter_length:
  "length (List.map_filter f xs) + length (filter (\<lambda>x. f x = None) xs) = length xs"
  by (induction xs) (auto simp: map_filter_simps split: option.split)

lemma normalized_groups_complete:
  assumes "ng_provided (normalizeAccessGroups access)" "ng_invalidCount (normalizeAccessGroups access) = 0"
  shows "\<exists>raws. field access ''groups'' = JArr raws \<and>
    length (ng_groups (normalizeAccessGroups access)) = length raws \<and>
    mset (map Some (ng_groups (normalizeAccessGroups access))) = mset (map readAccessGroup raws)"
proof -
  obtain raws where raws: "field access ''groups'' = JArr raws" and obj: "isObject access"
    using assms(1) by (auto simp: normalizeAccessGroups_def Let_def split: jval.splits if_splits)
  have valid: "readAccessGroup r \<noteq> None" if "r \<in> set raws" for r
    using assms(2) raws obj that by (auto simp: normalizeAccessGroups_def Let_def filter_empty_conv)
  have "duplicateIds (List.map_filter readAccessGroup raws) = []"
    using assms(2) raws obj by (simp add: normalizeAccessGroups_def Let_def)
  then have groups: "ng_groups (normalizeAccessGroups access) =
      js_sort compareGroups (List.map_filter readAccessGroup raws)"
    using raws obj by (simp add: normalizeAccessGroups_def Let_def)
  have all: "map Some (List.map_filter readAccessGroup rs) = map readAccessGroup rs" if "set rs \<subseteq> set raws" for rs
    using that by (induction rs) (auto simp: map_filter_simps split: option.split dest: valid)
  have "mset (map Some (ng_groups (normalizeAccessGroups access))) = mset (map readAccessGroup raws)"
    using all [of raws] by (metis groups mset_js_sort mset_map order_refl)
  moreover from this have "length (ng_groups (normalizeAccessGroups access)) = length raws"
    by (metis length_map size_mset)
  ultimately show ?thesis using raws by blast
qed

lemma resolveAccessGroupByDigest_Some:
  assumes "resolveAccessGroupByDigest sha access n h = Some g"
  shows "n = 1 \<and> g \<in> set (ng_groups (normalizeAccessGroups access)) \<and> accessGroupDigest sha [g] = h
    \<and> (\<forall>g' \<in> set (ng_groups (normalizeAccessGroups access)). accessGroupDigest sha [g'] = h \<longrightarrow> g' = g)"
proof -
  have "filter (\<lambda>g. accessGroupDigest sha [g] = h) (ng_groups (normalizeAccessGroups access)) = [g]" and n: "n = 1"
    using assms by (auto simp: resolveAccessGroupByDigest_def Let_def split: if_splits list.splits)
  from this(1) have "set (filter (\<lambda>g. accessGroupDigest sha [g] = h) (ng_groups (normalizeAccessGroups access))) = {g}"
    by simp
  then have "{g' \<in> set (ng_groups (normalizeAccessGroups access)). accessGroupDigest sha [g'] = h} = {g}"
    by simp
  with n show ?thesis by blast
qed

end
