(* ===== verification/Gateway_Config.thy ===== *)
theory Gateway_Config
  imports Access_Groups
begin

text \<open>
  \<^verbatim>\<open>src/config.ts\<close>: validation of the secret-free gateway configuration. The validators append
  their messages to one error list; here each returns the messages it appends, in order. When the
  list is empty the value is parsed with the valibot schema \<^verbatim>\<open>gatewayConfigSchema\<close>, whose own
  failure (a \<^verbatim>\<open>ValiError\<close>) is the second way \<open>validateGatewayConfig\<close> throws.

  The URL parser is the platform's; \<open>parse_url\<close> is a parameter that gives the parts the code
  reads, or \<open>None\<close> where \<^verbatim>\<open>new URL(value)\<close> throws.
\<close>

record url =
  u_protocol :: string
  u_username :: string
  u_password :: string
  u_hostname :: string
  u_searchKeys :: "string list"

datatype config_error = ConfigErrors "string list" | ConfigSchemaError

record source_authentication =
  sa_mode :: string
  sa_onBehalfOfUser :: bool

record gateway_source =
  gs_id :: string
  gs_label :: string
  gs_url :: string
  gs_authentication :: source_authentication
  gs_accessGroup :: "string option"
  gs_enabledTools :: "string list"

record gateway_config =
  gc_name :: string
  gc_hostname :: string
  gc_codeMode :: string
  gc_capabilityMode :: string
  gc_sources :: "gateway_source list"

definition MAX_ENABLED_TOOLS_PER_SOURCE :: nat where
  "MAX_ENABLED_TOOLS_PER_SOURCE = 500"

definition CODE_MODES :: "string list" where
  "CODE_MODES = [''off'', ''opt_in'', ''default_on'', ''enforced'']"

definition AUTH_MODES :: "string list" where
  "AUTH_MODES = [''none'', ''bearer'', ''oauth'', ''headers'']"

text \<open>\<^verbatim>\<open>v.is(jsonObjectSchema, value)\<close>: an object (or array) with no \<open>undefined\<close> inside.\<close>

fun is_json :: "jval \<Rightarrow> bool"
  and is_json_items :: "jval list \<Rightarrow> bool"
  and is_json_entries :: "(string \<times> jval) list \<Rightarrow> bool" where
  "is_json Undef = False"
| "is_json (JArr xs) = is_json_items xs"
| "is_json (JObj kvs) = is_json_entries kvs"
| "is_json JNull = True"
| "is_json (JBool b) = True"
| "is_json (JNum n) = True"
| "is_json (JStr s) = True"
| "is_json_items [] = True"
| "is_json_items (x # xs) = (is_json x \<and> is_json_items xs)"
| "is_json_entries [] = True"
| "is_json_entries ((k, v) # kvs) = (is_json v \<and> is_json_entries kvs)"

definition isJsonObject :: "jval \<Rightarrow> bool" where
  "isJsonObject value \<longleftrightarrow> isObject value \<and> is_json value"

definition config_rejectUnknownKeys :: "jval \<Rightarrow> string \<Rightarrow> string list \<Rightarrow> string list" where
  "config_rejectUnknownKeys value path allowedKeys =
     map (\<lambda>key. path @ ''.'' @ key @ '' is not supported'') (unknown_keys value allowedKeys)"

definition config_requireText :: "jval \<Rightarrow> string \<Rightarrow> nat \<Rightarrow> string list" where
  "config_requireText value path maxLength =
     (case value of
        JStr s \<Rightarrow> if js_trim s = [] \<or> maxLength < length s
          then [path @ '' must be a non-empty string of at most '' @ nat_text maxLength @ '' characters''] else []
      | _ \<Rightarrow> [path @ '' must be a non-empty string of at most '' @ nat_text maxLength @ '' characters''])"

definition isIpLiteral :: "string \<Rightarrow> bool" where
  "isIpLiteral value \<longleftrightarrow> CHR '':'' \<in> set value \<or> is_prefix_of ''['' value \<or> is_suffix_of '']'' value
     \<or> test IP_LITERAL value"

definition config_isHostname :: "string \<Rightarrow> bool" where
  "config_isHostname value \<longleftrightarrow>
     length value \<le> 253 \<and> value = toLowerCase value \<and> \<not> isIpLiteral value \<and>
     2 \<le> length (split_at CHR ''.'' value) \<and> list_all (test HOST_LABEL) (split_at CHR ''.'' value)"

definition validateGateway :: "jval \<Rightarrow> string list" where
  "validateGateway gateway =
     (if \<not> isJsonObject gateway then [''gateway must be an object'']
      else config_rejectUnknownKeys gateway ''gateway'' [''name'', ''hostname'', ''codeMode'']
        @ config_requireText (field gateway ''name'') ''gateway.name'' 80
        @ (case field gateway ''hostname'' of
             JStr h \<Rightarrow> if config_isHostname h then []
               else [''gateway.hostname must be a lowercase fully qualified hostname'']
           | _ \<Rightarrow> [''gateway.hostname must be a lowercase fully qualified hostname''])
        @ (case field gateway ''codeMode'' of
             JStr m \<Rightarrow> if m \<in> set CODE_MODES then [] else [''gateway.codeMode is not supported'']
           | _ \<Rightarrow> [''gateway.codeMode is not supported'']))"

definition validatePolicy :: "jval \<Rightarrow> string list" where
  "validatePolicy policy =
     (if \<not> isJsonObject policy then [''policy must be an object'']
      else config_rejectUnknownKeys policy ''policy'' [''capabilityMode'', ''credentialCustody'', ''telemetry'']
        @ (if field policy ''capabilityMode'' \<noteq> JStr ''read_only''
              \<and> field policy ''capabilityMode'' \<noteq> JStr ''read_write''
           then [''policy.capabilityMode must be read_only or read_write''] else [])
        @ (if field policy ''credentialCustody'' \<noteq> JStr ''customer''
           then [''policy.credentialCustody must be customer''] else [])
        @ (if field policy ''telemetry'' \<noteq> JStr ''off'' then [''policy.telemetry must be off''] else []))"

definition validateSourceUrl :: "(string \<Rightarrow> url option) \<Rightarrow> jval \<Rightarrow> string \<Rightarrow> string list" where
  "validateSourceUrl parse_url value path =
     (case value of
        JStr s \<Rightarrow> (case parse_url s of
            None \<Rightarrow> [path @ '' must be a valid HTTPS URL'']
          | Some url \<Rightarrow>
              (if u_protocol url \<noteq> ''https:'' \<or> u_username url \<noteq> [] \<or> u_password url \<noteq> []
               then [path @ '' must be HTTPS and contain no embedded credentials''] else [])
            @ (if \<not> config_isHostname (u_hostname url) \<or> is_suffix_of ''.local'' (u_hostname url)
               then [path @ '' must use a public fully qualified hostname''] else [])
            @ concat (map (\<lambda>key. if test SENSITIVE_QUERY_KEY key
                 then [path @ '' must not contain credential-like query parameters''] else [])
                (u_searchKeys url)))
      | _ \<Rightarrow> [path @ '' must be a valid HTTPS URL''])"

definition validateAuthentication :: "jval \<Rightarrow> string \<Rightarrow> string list" where
  "validateAuthentication authentication path =
     (if \<not> isJsonObject authentication then [path @ '' must be an object'']
      else config_rejectUnknownKeys authentication path [''mode'', ''onBehalfOfUser'']
        @ (case field authentication ''mode'' of
             JStr m \<Rightarrow> if m \<in> set AUTH_MODES then [] else [path @ ''.mode is not supported'']
           | _ \<Rightarrow> [path @ ''.mode is not supported''])
        @ (case field authentication ''onBehalfOfUser'' of
             JBool b \<Rightarrow> if field authentication ''mode'' = JStr ''none'' \<and> b
               then [path @ ''.onBehalfOfUser must be false when mode is none''] else []
           | _ \<Rightarrow> [path @ ''.onBehalfOfUser must be a boolean'']))"

text \<open>The loop over the tools, with the names seen so far.\<close>

fun validate_tool_list :: "string \<Rightarrow> nat \<Rightarrow> string list \<Rightarrow> jval list \<Rightarrow> string list" where
  "validate_tool_list path index seen [] = []"
| "validate_tool_list path index seen (tool # tools) =
     (case tool of
        JStr t \<Rightarrow>
          if js_trim t = [] \<or> 128 < length t
          then (path @ ''['' @ nat_text index @ ''] must be a non-empty tool name'')
             # validate_tool_list path (Suc index) seen tools
          else if t = ''*''
          then (path @ ''['' @ nat_text index @ ''] must not be a wildcard'')
             # validate_tool_list path (Suc index) seen tools
          else if t \<in> set seen
          then (path @ ''['' @ nat_text index @ ''] duplicates '' @ t)
             # validate_tool_list path (Suc index) seen tools
          else validate_tool_list path (Suc index) (t # seen) tools
      | _ \<Rightarrow> (path @ ''['' @ nat_text index @ ''] must be a non-empty tool name'')
             # validate_tool_list path (Suc index) seen tools)"

definition validateTools :: "jval \<Rightarrow> string \<Rightarrow> string list" where
  "validateTools tools path =
     (case tools of
        JArr ts \<Rightarrow>
          if ts = [] then [path @ '' must contain at least one exact tool name'']
          else (if MAX_ENABLED_TOOLS_PER_SOURCE < length ts
                then [path @ '' cannot contain more than '' @ nat_text MAX_ENABLED_TOOLS_PER_SOURCE @ '' entries'']
                else [])
             @ validate_tool_list path 0 [] ts
      | _ \<Rightarrow> [path @ '' must contain at least one exact tool name''])"

text \<open>The checks of one source other than its identifier's uniqueness, and the loop over sources.\<close>

definition validate_source_rest :: "(string \<Rightarrow> url option) \<Rightarrow> jval \<Rightarrow> string \<Rightarrow> string list" where
  "validate_source_rest parse_url source path =
     config_requireText (field source ''label'') (path @ ''.label'') 80
     @ (if field source ''accessGroup'' \<noteq> Undef \<and> \<not> isAccessGroupName (field source ''accessGroup'')
        then [path @ ''.accessGroup must be an exact non-empty group name of at most ''
                @ nat_text MAX_ACCESS_GROUP_NAME_LENGTH @ '' characters''] else [])
     @ validateSourceUrl parse_url (field source ''url'') (path @ ''.url'')
     @ validateAuthentication (field source ''authentication'') (path @ ''.authentication'')
     @ validateTools (field source ''enabledTools'') (path @ ''.enabledTools'')"

fun validate_source_list ::
    "(string \<Rightarrow> url option) \<Rightarrow> nat \<Rightarrow> string list \<Rightarrow> jval list \<Rightarrow> string list" where
  "validate_source_list parse_url index ids [] = []"
| "validate_source_list parse_url index ids (source # sources) =
     (let path = ''sources['' @ nat_text index @ '']'' in
      if \<not> isJsonObject source
      then (path @ '' must be an object'') # validate_source_list parse_url (Suc index) ids sources
      else config_rejectUnknownKeys source path
             [''id'', ''label'', ''url'', ''authentication'', ''accessGroup'', ''enabledTools'']
         @ (let (idErrors, ids') =
              (case field source ''id'' of
                 JStr i \<Rightarrow>
                   if \<not> test RESOURCE_KEY i
                   then ([path @ ''.id must use lowercase letters, numbers, and hyphens''], ids)
                   else if i \<in> set ids then ([path @ ''.id duplicates '' @ i], ids)
                   else ([], i # ids)
               | _ \<Rightarrow> ([path @ ''.id must use lowercase letters, numbers, and hyphens''], ids))
            in idErrors @ validate_source_rest parse_url source path
               @ validate_source_list parse_url (Suc index) ids' sources))"

definition validateSources :: "(string \<Rightarrow> url option) \<Rightarrow> jval \<Rightarrow> string list" where
  "validateSources parse_url sources =
     (case sources of
        JArr ss \<Rightarrow>
          if ss = [] then [''sources must contain at least one source'']
          else (if 40 < length ss then [''sources cannot contain more than 40 entries''] else [])
             @ validate_source_list parse_url 0 [] ss
      | _ \<Rightarrow> [''sources must contain at least one source''])"

text \<open>\<^verbatim>\<open>SECRET_METADATA_KEYS\<close> is the one key that may look like a secret.\<close>

fun findSecretFields :: "jval \<Rightarrow> string \<Rightarrow> string list"
  and find_secret_items :: "jval list \<Rightarrow> nat \<Rightarrow> string \<Rightarrow> string list"
  and find_secret_entries :: "(string \<times> jval) list \<Rightarrow> string \<Rightarrow> string list" where
  "findSecretFields (JArr xs) path = find_secret_items xs 0 path"
| "findSecretFields (JObj kvs) path = (if is_json (JObj kvs) then find_secret_entries kvs path else [])"
| "findSecretFields JNull path = []"
| "findSecretFields Undef path = []"
| "findSecretFields (JBool b) path = []"
| "findSecretFields (JNum n) path = []"
| "findSecretFields (JStr s) path = []"
| "find_secret_items [] index path = []"
| "find_secret_items (x # xs) index path =
     findSecretFields x (path @ ''['' @ nat_text index @ '']'') @ find_secret_items xs (Suc index) path"
| "find_secret_entries [] path = []"
| "find_secret_entries ((key, child) # kvs) path =
     (if test SECRET_KEY key \<and> key \<noteq> ''credentialCustody''
      then [path @ ''.'' @ key @ '' is a forbidden secret-bearing field''] else [])
     @ findSecretFields child (path @ ''.'' @ key) @ find_secret_entries kvs path"

section \<open>The schema\<close>

text \<open>
  \<^verbatim>\<open>v.parse(gatewayConfigSchema, input)\<close>: strict objects refuse unknown keys, \<^verbatim>\<open>v.optional\<close>
  accepts an absent or undefined key. \<open>None\<close> is the thrown \<^verbatim>\<open>ValiError\<close>.
\<close>

fun parse_string :: "jval \<Rightarrow> string option" where
  "parse_string (JStr s) = Some s"
| "parse_string _ = None"

fun parse_bool :: "jval \<Rightarrow> bool option" where
  "parse_bool (JBool b) = Some b"
| "parse_bool _ = None"

fun parse_strings :: "jval list \<Rightarrow> string list option" where
  "parse_strings [] = Some []"
| "parse_strings (JStr s # xs) = map_option ((#) s) (parse_strings xs)"
| "parse_strings (_ # xs) = None"

definition strict_object :: "jval \<Rightarrow> string list \<Rightarrow> bool" where
  "strict_object value entries \<longleftrightarrow> isObject value \<and> unknown_keys value entries = []"

definition parse_picklist :: "string list \<Rightarrow> jval \<Rightarrow> string option" where
  "parse_picklist options value = (case value of
     JStr s \<Rightarrow> if s \<in> set options then Some s else None | _ \<Rightarrow> None)"

definition parse_optional_string :: "jval \<Rightarrow> string option option" where
  "parse_optional_string value = (case value of
     Undef \<Rightarrow> Some None | JStr s \<Rightarrow> Some (Some s) | _ \<Rightarrow> None)"

definition parse_authentication :: "jval \<Rightarrow> source_authentication option" where
  "parse_authentication value =
     (if \<not> strict_object value [''mode'', ''onBehalfOfUser''] then None
      else case parse_picklist AUTH_MODES (field value ''mode'') of None \<Rightarrow> None
      | Some mode \<Rightarrow> (case parse_bool (field value ''onBehalfOfUser'') of None \<Rightarrow> None
      | Some b \<Rightarrow> Some \<lparr>sa_mode = mode, sa_onBehalfOfUser = b\<rparr>))"

definition parse_source :: "jval \<Rightarrow> gateway_source option" where
  "parse_source value =
     (if \<not> strict_object value [''id'', ''label'', ''url'', ''authentication'', ''accessGroup'', ''enabledTools'']
      then None
      else case parse_string (field value ''id'') of None \<Rightarrow> None
      | Some i \<Rightarrow> (case parse_string (field value ''label'') of None \<Rightarrow> None
      | Some l \<Rightarrow> (case parse_string (field value ''url'') of None \<Rightarrow> None
      | Some u \<Rightarrow> (case parse_authentication (field value ''authentication'') of None \<Rightarrow> None
      | Some a \<Rightarrow> (case parse_optional_string (field value ''accessGroup'') of None \<Rightarrow> None
      | Some g \<Rightarrow> (case field value ''enabledTools'' of
          JArr ts \<Rightarrow> map_option (\<lambda>tools. \<lparr>gs_id = i, gs_label = l, gs_url = u, gs_authentication = a,
              gs_accessGroup = g, gs_enabledTools = tools\<rparr>) (parse_strings ts)
        | _ \<Rightarrow> None))))))"

fun parse_sources :: "jval list \<Rightarrow> gateway_source list option" where
  "parse_sources [] = Some []"
| "parse_sources (x # xs) =
     (case parse_source x of None \<Rightarrow> None | Some s \<Rightarrow> map_option ((#) s) (parse_sources xs))"

definition gatewayConfigSchema :: "jval \<Rightarrow> gateway_config option" where
  "gatewayConfigSchema input =
     (let gateway = field input ''gateway''; policy = field input ''policy'' in
      if \<not> strict_object input [''$schema'', ''schemaVersion'', ''gateway'', ''policy'', ''sources'']
         \<or> parse_optional_string (field input ''$schema'') = None
         \<or> field input ''schemaVersion'' \<noteq> jint 1
         \<or> \<not> strict_object gateway [''name'', ''hostname'', ''codeMode'']
         \<or> \<not> strict_object policy [''capabilityMode'', ''credentialCustody'', ''telemetry'']
         \<or> field policy ''credentialCustody'' \<noteq> JStr ''customer'' \<or> field policy ''telemetry'' \<noteq> JStr ''off''
      then None
      else case parse_string (field gateway ''name'') of None \<Rightarrow> None
      | Some name \<Rightarrow> (case parse_string (field gateway ''hostname'') of None \<Rightarrow> None
      | Some hostname \<Rightarrow> (case parse_picklist CODE_MODES (field gateway ''codeMode'') of None \<Rightarrow> None
      | Some codeMode \<Rightarrow>
        (case parse_picklist [''read_only'', ''read_write''] (field policy ''capabilityMode'') of None \<Rightarrow> None
      | Some capability \<Rightarrow> (case field input ''sources'' of
          JArr ss \<Rightarrow> map_option (\<lambda>sources. \<lparr>gc_name = name, gc_hostname = hostname, gc_codeMode = codeMode,
              gc_capabilityMode = capability, gc_sources = sources\<rparr>) (parse_sources ss)
        | _ \<Rightarrow> None)))))"

definition config_errors :: "(string \<Rightarrow> url option) \<Rightarrow> jval \<Rightarrow> string list" where
  "config_errors parse_url input =
     findSecretFields input ''$''
     @ config_rejectUnknownKeys input ''$'' [''$schema'', ''schemaVersion'', ''gateway'', ''policy'', ''sources'']
     @ (if field input ''schemaVersion'' \<noteq> jint 1 then [''schemaVersion must be 1''] else [])
     @ validateGateway (field input ''gateway'')
     @ validatePolicy (field input ''policy'')
     @ validateSources parse_url (field input ''sources'')"

definition validateGatewayConfig :: "(string \<Rightarrow> url option) \<Rightarrow> jval \<Rightarrow> config_error + gateway_config" where
  "validateGatewayConfig parse_url input =
     (if \<not> isJsonObject input then Inl (ConfigErrors [''configuration must be a JSON object''])
      else if config_errors parse_url input \<noteq> [] then Inl (ConfigErrors (config_errors parse_url input))
      else case gatewayConfigSchema input of
             None \<Rightarrow> Inl ConfigSchemaError
           | Some config \<Rightarrow> Inr config)"

section \<open>What an accepted configuration is\<close>

definition valid_tools :: "string list \<Rightarrow> bool" where
  "valid_tools tools \<longleftrightarrow> tools \<noteq> [] \<and> length tools \<le> 500 \<and> distinct tools
     \<and> list_all (\<lambda>t. js_trim t \<noteq> [] \<and> length t \<le> 128 \<and> t \<noteq> ''*'') tools"

definition valid_source :: "(string \<Rightarrow> url option) \<Rightarrow> gateway_source \<Rightarrow> bool" where
  "valid_source parse_url s \<longleftrightarrow>
     test RESOURCE_KEY (gs_id s) \<and> js_trim (gs_label s) \<noteq> [] \<and> length (gs_label s) \<le> 80
     \<and> (case gs_accessGroup s of None \<Rightarrow> True | Some g \<Rightarrow> isAccessGroupName (JStr g))
     \<and> (case parse_url (gs_url s) of None \<Rightarrow> False | Some url \<Rightarrow>
          u_protocol url = ''https:'' \<and> u_username url = [] \<and> u_password url = []
          \<and> config_isHostname (u_hostname url) \<and> \<not> is_suffix_of ''.local'' (u_hostname url)
          \<and> list_all (\<lambda>k. \<not> test SENSITIVE_QUERY_KEY k) (u_searchKeys url))
     \<and> sa_mode (gs_authentication s) \<in> set AUTH_MODES
     \<and> (sa_mode (gs_authentication s) = ''none'' \<longrightarrow> \<not> sa_onBehalfOfUser (gs_authentication s))
     \<and> valid_tools (gs_enabledTools s)"

definition valid_config :: "(string \<Rightarrow> url option) \<Rightarrow> gateway_config \<Rightarrow> bool" where
  "valid_config parse_url c \<longleftrightarrow>
     js_trim (gc_name c) \<noteq> [] \<and> length (gc_name c) \<le> 80 \<and> config_isHostname (gc_hostname c)
     \<and> gc_codeMode c \<in> set CODE_MODES \<and> gc_capabilityMode c \<in> {''read_only'', ''read_write''}
     \<and> gc_sources c \<noteq> [] \<and> length (gc_sources c) \<le> 40 \<and> distinct (map gs_id (gc_sources c))
     \<and> list_all (valid_source parse_url) (gc_sources c)"

lemma validate_tool_list_ok:
  "validate_tool_list path n seen ts = [] \<Longrightarrow>
   \<exists>tools. parse_strings ts = Some tools \<and> length tools = length ts \<and> distinct tools
     \<and> set tools \<inter> set seen = {}
     \<and> list_all (\<lambda>t. js_trim t \<noteq> [] \<and> length t \<le> 128 \<and> t \<noteq> ''*'') tools"
proof (induction ts arbitrary: n seen)
  case (Cons t ts)
  then show ?case by (cases t) (fastforce split: if_splits)+
qed simp

lemma validateTools_ok:
  assumes "validateTools v path = []"
  obtains ts tools where "v = JArr ts" "parse_strings ts = Some tools" "valid_tools tools"
proof -
  obtain ts where ts: "v = JArr ts" "ts \<noteq> []" "length ts \<le> 500" "validate_tool_list path 0 [] ts = []"
    using assms by (auto simp: validateTools_def MAX_ENABLED_TOOLS_PER_SOURCE_def split: jval.splits if_splits)
  from validate_tool_list_ok [OF ts(4)] obtain tools where "parse_strings ts = Some tools"
    "length tools = length ts" "distinct tools"
    "list_all (\<lambda>t. js_trim t \<noteq> [] \<and> length t \<le> 128 \<and> t \<noteq> ''*'') tools"
    by blast
  moreover from this ts have "tools \<noteq> []" by (metis length_0_conv)
  ultimately have "valid_tools tools" using ts(3) by (simp add: valid_tools_def)
  with ts(1) \<open>parse_strings ts = Some tools\<close> show ?thesis by (rule that)
qed

lemma requireText_ok:
  "config_requireText v path m = [] \<longleftrightarrow> (\<exists>s. v = JStr s \<and> js_trim s \<noteq> [] \<and> length s \<le> m)"
  by (auto simp: config_requireText_def split: jval.splits)

lemma rejectUnknown_ok: "config_rejectUnknownKeys v path ks = [] \<longleftrightarrow> unknown_keys v ks = []"
  by (simp add: config_rejectUnknownKeys_def)

lemma validateAuthentication_ok:
  assumes "validateAuthentication v path = []"
  shows "\<exists>a. parse_authentication v = Some a \<and> sa_mode a \<in> set AUTH_MODES
    \<and> (sa_mode a = ''none'' \<longrightarrow> \<not> sa_onBehalfOfUser a)"
  using assms
  by (auto simp: validateAuthentication_def parse_authentication_def rejectUnknown_ok strict_object_def
      isJsonObject_def parse_picklist_def split: jval.splits if_splits)

lemma validateSourceUrl_ok:
  assumes "validateSourceUrl parse_url v path = []"
  obtains u url where "v = JStr u" "parse_url u = Some url" "u_protocol url = ''https:''"
    "u_username url = []" "u_password url = []" "config_isHostname (u_hostname url)"
    "\<not> is_suffix_of ''.local'' (u_hostname url)"
    "list_all (\<lambda>k. \<not> test SENSITIVE_QUERY_KEY k) (u_searchKeys url)"
  using assms
  by (auto simp: validateSourceUrl_def list_all_iff split: jval.splits option.splits if_splits)

lemma validate_source_ok:
  assumes "isJsonObject v" "config_rejectUnknownKeys v path
      [''id'', ''label'', ''url'', ''authentication'', ''accessGroup'', ''enabledTools''] = []"
    and "field v ''id'' = JStr i" "test RESOURCE_KEY i" "validate_source_rest parse_url v path = []"
  shows "\<exists>s. parse_source v = Some s \<and> gs_id s = i \<and> valid_source parse_url s"
proof -
  have rest: "config_requireText (field v ''label'') (path @ ''.label'') 80 = []"
    "field v ''accessGroup'' \<noteq> Undef \<longrightarrow> isAccessGroupName (field v ''accessGroup'')"
    "validateSourceUrl parse_url (field v ''url'') (path @ ''.url'') = []"
    "validateAuthentication (field v ''authentication'') (path @ ''.authentication'') = []"
    "validateTools (field v ''enabledTools'') (path @ ''.enabledTools'') = []"
    using assms(5) by (auto simp: validate_source_rest_def split: if_splits)
  obtain l where l: "field v ''label'' = JStr l" "js_trim l \<noteq> []" "length l \<le> 80"
    using rest(1) requireText_ok by blast
  obtain u url where u: "field v ''url'' = JStr u" "parse_url u = Some url" "u_protocol url = ''https:''"
    "u_username url = []" "u_password url = []" "config_isHostname (u_hostname url)"
    "\<not> is_suffix_of ''.local'' (u_hostname url)"
    "list_all (\<lambda>k. \<not> test SENSITIVE_QUERY_KEY k) (u_searchKeys url)"
    using rest(3) by (rule validateSourceUrl_ok)
  obtain a where a: "parse_authentication (field v ''authentication'') = Some a"
    "sa_mode a \<in> set AUTH_MODES" "sa_mode a = ''none'' \<longrightarrow> \<not> sa_onBehalfOfUser a"
    using validateAuthentication_ok [OF rest(4)] by blast
  obtain ts tools where t: "field v ''enabledTools'' = JArr ts" "parse_strings ts = Some tools" "valid_tools tools"
    using rest(5) by (rule validateTools_ok)
  obtain g where g: "parse_optional_string (field v ''accessGroup'') = Some g"
    "case g of None \<Rightarrow> True | Some n \<Rightarrow> isAccessGroupName (JStr n)"
    using rest(2) by (cases "field v ''accessGroup''") (auto simp: parse_optional_string_def isAccessGroupName_def)
  have "strict_object v [''id'', ''label'', ''url'', ''authentication'', ''accessGroup'', ''enabledTools'']"
    using assms(1,2) by (simp add: strict_object_def isJsonObject_def rejectUnknown_ok)
  then show ?thesis using assms(3,4) l u a t g by (simp add: parse_source_def valid_source_def)
qed

lemma validate_source_list_ok:
  "validate_source_list parse_url n ids vs = [] \<Longrightarrow>
   \<exists>ss. parse_sources vs = Some ss \<and> length ss = length vs \<and> distinct (map gs_id ss)
     \<and> set (map gs_id ss) \<inter> set ids = {} \<and> list_all (valid_source parse_url) ss"
proof (induction vs arbitrary: n ids)
  case (Cons v vs)
  let ?path = "''sources['' @ nat_text n @ '']''"
  from Cons.prems obtain i where v: "isJsonObject v" "config_rejectUnknownKeys v ?path
      [''id'', ''label'', ''url'', ''authentication'', ''accessGroup'', ''enabledTools''] = []"
    "field v ''id'' = JStr i" "test RESOURCE_KEY i" "i \<notin> set ids"
    "validate_source_rest parse_url v ?path = []"
    and rest: "validate_source_list parse_url (Suc n) (i # ids) vs = []"
    by (auto simp: Let_def split: if_splits jval.splits)
  obtain s where s: "parse_source v = Some s" "gs_id s = i" "valid_source parse_url s"
    using validate_source_ok [OF v(1,2,3,4,6)] by blast
  from Cons.IH [OF rest] s v(5) show ?case by fastforce
qed simp

lemma validateSources_ok:
  assumes "validateSources parse_url v = []"
  obtains vs ss where "v = JArr vs" "parse_sources vs = Some ss" "ss \<noteq> []" "length ss \<le> 40"
    "distinct (map gs_id ss)" "list_all (valid_source parse_url) ss"
proof -
  obtain vs where vs: "v = JArr vs" "vs \<noteq> []" "length vs \<le> 40" "validate_source_list parse_url 0 [] vs = []"
    using assms by (auto simp: validateSources_def split: jval.splits if_splits)
  from validate_source_list_ok [OF vs(4)] obtain ss where ss: "parse_sources vs = Some ss"
    "length ss = length vs" "distinct (map gs_id ss)" "list_all (valid_source parse_url) ss"
    by blast
  then have "ss \<noteq> []" "length ss \<le> 40" using vs by auto
  with vs(1) ss that show ?thesis by blast
qed

lemma validateGateway_ok:
  assumes "validateGateway v = []"
  obtains n h m where "strict_object v [''name'', ''hostname'', ''codeMode'']"
    "field v ''name'' = JStr n" "js_trim n \<noteq> []" "length n \<le> 80"
    "field v ''hostname'' = JStr h" "config_isHostname h"
    "field v ''codeMode'' = JStr m" "m \<in> set CODE_MODES"
  using assms
  by (auto simp: validateGateway_def strict_object_def isJsonObject_def rejectUnknown_ok requireText_ok
      split: jval.splits if_splits)

lemma validatePolicy_ok:
  assumes "validatePolicy v = []"
  obtains c where "strict_object v [''capabilityMode'', ''credentialCustody'', ''telemetry'']"
    "field v ''capabilityMode'' = JStr c" "c \<in> {''read_only'', ''read_write''}"
    "field v ''credentialCustody'' = JStr ''customer''" "field v ''telemetry'' = JStr ''off''"
  using assms
  by (auto simp: validatePolicy_def strict_object_def isJsonObject_def rejectUnknown_ok split: if_splits)

text \<open>
  No message means the schema parses the value, unless \<^verbatim>\<open>$schema\<close> is present and no string: the
  one part of the schema the validators do not look at.
\<close>

lemma no_errors_schema:
  assumes "isJsonObject input" "config_errors parse_url input = []"
  shows "(\<exists>c. gatewayConfigSchema input = Some c \<and> valid_config parse_url c) \<longleftrightarrow>
      parse_optional_string (field input ''$schema'') \<noteq> None"
    and "gatewayConfigSchema input \<noteq> None \<longleftrightarrow> parse_optional_string (field input ''$schema'') \<noteq> None"
proof -
  have e: "validateGateway (field input ''gateway'') = []" "validatePolicy (field input ''policy'') = []"
    "validateSources parse_url (field input ''sources'') = []" "field input ''schemaVersion'' = jint 1"
    "unknown_keys input [''$schema'', ''schemaVersion'', ''gateway'', ''policy'', ''sources''] = []"
    using assms(2) by (auto simp: config_errors_def rejectUnknown_ok split: if_splits)
  obtain n h m where g: "strict_object (field input ''gateway'') [''name'', ''hostname'', ''codeMode'']"
    "field (field input ''gateway'') ''name'' = JStr n" "js_trim n \<noteq> []" "length n \<le> 80"
    "field (field input ''gateway'') ''hostname'' = JStr h" "config_isHostname h"
    "field (field input ''gateway'') ''codeMode'' = JStr m" "m \<in> set CODE_MODES"
    using e(1) by (rule validateGateway_ok)
  obtain c where p: "strict_object (field input ''policy'') [''capabilityMode'', ''credentialCustody'', ''telemetry'']"
    "field (field input ''policy'') ''capabilityMode'' = JStr c" "c \<in> {''read_only'', ''read_write''}"
    "field (field input ''policy'') ''credentialCustody'' = JStr ''customer''"
    "field (field input ''policy'') ''telemetry'' = JStr ''off''"
    using e(2) by (rule validatePolicy_ok)
  obtain vs ss where s: "field input ''sources'' = JArr vs" "parse_sources vs = Some ss" "ss \<noteq> []"
    "length ss \<le> 40" "distinct (map gs_id ss)" "list_all (valid_source parse_url) ss"
    using e(3) by (rule validateSources_ok)
  have "strict_object input [''$schema'', ''schemaVersion'', ''gateway'', ''policy'', ''sources'']"
    using assms(1) e(5) by (simp add: strict_object_def isJsonObject_def)
  then have schema: "gatewayConfigSchema input =
      (if parse_optional_string (field input ''$schema'') = None then None
       else Some \<lparr>gc_name = n, gc_hostname = h, gc_codeMode = m, gc_capabilityMode = c, gc_sources = ss\<rparr>)"
    using e(4) g p s by (auto simp: gatewayConfigSchema_def Let_def parse_picklist_def)
  show "(\<exists>c. gatewayConfigSchema input = Some c \<and> valid_config parse_url c) \<longleftrightarrow>
      parse_optional_string (field input ''$schema'') \<noteq> None"
    using g p s by (auto simp: schema valid_config_def)
  show "gatewayConfigSchema input \<noteq> None \<longleftrightarrow> parse_optional_string (field input ''$schema'') \<noteq> None"
    by (simp add: schema)
qed

lemma validateGatewayConfig_valid:
  assumes "validateGatewayConfig parse_url input = Inr c"
  shows "valid_config parse_url c"
proof -
  have ok: "isJsonObject input" "config_errors parse_url input = []" "gatewayConfigSchema input = Some c"
    using assms by (auto simp: validateGatewayConfig_def split: if_splits option.splits)
  then have "parse_optional_string (field input ''$schema'') \<noteq> None"
    using no_errors_schema(2) [OF ok(1,2)] by simp
  then show ?thesis using no_errors_schema(1) [OF ok(1,2)] ok(3) by auto
qed

text \<open>No secret-bearing field anywhere in an accepted configuration.\<close>

fun secret_free :: "jval \<Rightarrow> bool"
  and secret_free_items :: "jval list \<Rightarrow> bool"
  and secret_free_entries :: "(string \<times> jval) list \<Rightarrow> bool" where
  "secret_free (JArr xs) = secret_free_items xs"
| "secret_free (JObj kvs) = secret_free_entries kvs"
| "secret_free Undef = True"
| "secret_free JNull = True"
| "secret_free (JBool b) = True"
| "secret_free (JNum n) = True"
| "secret_free (JStr s) = True"
| "secret_free_items [] = True"
| "secret_free_items (x # xs) = (secret_free x \<and> secret_free_items xs)"
| "secret_free_entries [] = True"
| "secret_free_entries ((k, v) # kvs) =
     ((test SECRET_KEY k \<longrightarrow> k = ''credentialCustody'') \<and> secret_free v \<and> secret_free_entries kvs)"

lemma findSecretFields_empty:
  "is_json v \<Longrightarrow> findSecretFields v path = [] \<longleftrightarrow> secret_free v"
  "is_json_items xs \<Longrightarrow> find_secret_items xs n path = [] \<longleftrightarrow> secret_free_items xs"
  "is_json_entries kvs \<Longrightarrow> find_secret_entries kvs path = [] \<longleftrightarrow> secret_free_entries kvs"
  by (induction v path and xs n path and kvs path
      rule: findSecretFields_find_secret_items_find_secret_entries.induct) auto

end
