(* ===== verification/Canary_Identity.thy ===== *)
theory Canary_Identity
  imports Gateway_Config
begin

text \<open>
  \<^verbatim>\<open>src/canary-service-identity.ts\<close>: the service-token identity of the disposable canary. The
  token identifier is accepted only as the one field of the private access input, only with the
  fixed canary configuration, and leaves this module only as a digest. A thrown \<^verbatim>\<open>TypeError\<close> is
  \<open>Inl\<close> of its message.
\<close>

definition service_token_message :: string where
  "service_token_message = ''canary service identity must be one exact service token ID''"

definition canaryServiceTokenId :: "jval \<Rightarrow> string + string option" where
  "canaryServiceTokenId access =
     (if \<not> isObject access \<or> ''canaryServiceTokenId'' \<notin> set (keys access) then Inr None
      else case field access ''canaryServiceTokenId'' of
        JStr i \<Rightarrow> if length (keys access) \<noteq> 1 \<or> \<not> test SERVICE_TOKEN_ID i
          then Inl service_token_message else Inr (Some i)
      | _ \<Rightarrow> Inl service_token_message)"

definition canary_config :: "gateway_config \<Rightarrow> bool" where
  "canary_config config \<longleftrightarrow>
     gc_name config = ''Ankka disposable canary''
     \<and> test CANARY_HOST_LABEL (hd (split_at CHR ''.'' (gc_hostname config)))
     \<and> gc_codeMode config = ''off''
     \<and> (case gc_sources config of
          [source] \<Rightarrow> gs_id source = ''synthetic-canary''
            \<and> gs_enabledTools source = [''ankka_canary_status'']
            \<and> sa_mode (gs_authentication source) = ''none''
            \<and> \<not> sa_onBehalfOfUser (gs_authentication source)
            \<and> gs_accessGroup source = None
        | _ \<Rightarrow> False)"

definition assertCanaryServiceIdentityConfig :: "gateway_config \<Rightarrow> string + unit" where
  "assertCanaryServiceIdentityConfig config =
     (if canary_config config then Inr ()
      else Inl ''service identity is restricted to the disposable synthetic canary'')"

definition canaryServiceIdentityDigest :: "(string \<Rightarrow> string) \<Rightarrow> string \<Rightarrow> string + string" where
  "canaryServiceIdentityDigest sha i =
     (if \<not> test SERVICE_TOKEN_ID i then Inl service_token_message
      else Inr (''sha256:'' @ sha (render (JObj [(''canaryServiceTokenId'', JStr i)]))))"

definition exactServiceTokenPolicyRule :: "jval \<Rightarrow> string option" where
  "exactServiceTokenPolicyRule rule =
     (let token = field rule ''service_token'' in
      if \<not> isObject rule \<or> length (keys rule) \<noteq> 1 \<or> \<not> isObject token \<or> length (keys token) \<noteq> 1 then None
      else case field token ''token_id'' of
        JStr i \<Rightarrow> if test SERVICE_TOKEN_ID i then Some i else None
      | _ \<Rightarrow> None)"

definition serviceTokenPolicyMatchesDigest :: "(string \<Rightarrow> string) \<Rightarrow> jval \<Rightarrow> string \<Rightarrow> bool" where
  "serviceTokenPolicyMatchesDigest sha policy identitiesHash =
     (if \<not> isObject policy \<or> field policy ''decision'' \<noteq> JStr ''non_identity''
         \<or> map_option length (items (field policy ''include'')) \<noteq> Some 1
         \<or> items (field policy ''exclude'') \<noteq> Some [] \<or> items (field policy ''require'') \<noteq> Some []
      then False
      else case items (field policy ''include'') of
        Some (rule # _) \<Rightarrow>
          (case exactServiceTokenPolicyRule rule of
             None \<Rightarrow> False
           | Some i \<Rightarrow> canaryServiceIdentityDigest sha i = Inr identitiesHash)
      | _ \<Rightarrow> False)"

lemma exactServiceTokenPolicyRule_token:
  "exactServiceTokenPolicyRule rule = Some i \<Longrightarrow> test SERVICE_TOKEN_ID i"
  by (auto simp: exactServiceTokenPolicyRule_def Let_def split: if_splits jval.splits)

lemma canaryServiceTokenId_token:
  "canaryServiceTokenId access = Inr (Some i) \<Longrightarrow>
   test SERVICE_TOKEN_ID i \<and> keys access = [''canaryServiceTokenId'']"
  by (cases "keys access")
     (auto simp: canaryServiceTokenId_def length_Suc_conv split: if_splits jval.splits)

text \<open>
  A policy matches a digest only when it allows exactly one service token whose digest it is; two
  such policies name the same token unless SHA-256 collides.
\<close>

lemma serviceTokenPolicyMatchesDigest_token:
  assumes "serviceTokenPolicyMatchesDigest sha policy h"
  obtains rule i where "field policy ''include'' = JArr [rule]" "exactServiceTokenPolicyRule rule = Some i"
    "h = ''sha256:'' @ sha (render (JObj [(''canaryServiceTokenId'', JStr i)]))"
proof -
  obtain rule i where r: "items (field policy ''include'') = Some [rule]"
    "exactServiceTokenPolicyRule rule = Some i" "canaryServiceIdentityDigest sha i = Inr h"
    using assms
    by (auto simp: serviceTokenPolicyMatchesDigest_def length_Suc_conv split: if_splits option.splits)
  moreover have "test SERVICE_TOKEN_ID i" using r(2) by (rule exactServiceTokenPolicyRule_token)
  ultimately show ?thesis using that by (simp add: canaryServiceIdentityDigest_def del: render.simps)
qed

definition token_text :: "string \<Rightarrow> string" where
  "token_text i = render (JObj [(''canaryServiceTokenId'', JStr i)])"

lemma token_text_inject: "token_text i = token_text j \<longleftrightarrow> i = j"
  using render_decode(1) [of "JObj [(''canaryServiceTokenId'', JStr i)]" "[]"
      "JObj [(''canaryServiceTokenId'', JStr j)]" "[]"]
  by (auto simp: stop_def token_text_def)

lemma policy_token_unique:
  assumes "serviceTokenPolicyMatchesDigest sha p h" "serviceTokenPolicyMatchesDigest sha q h"
    and "field p ''include'' = JArr [r]" "field q ''include'' = JArr [s]"
  shows "\<exists>i j. exactServiceTokenPolicyRule r = Some i \<and> exactServiceTokenPolicyRule s = Some j
    \<and> (i = j \<or> collision sha (token_text i) (token_text j))"
proof -
  obtain i where i: "exactServiceTokenPolicyRule r = Some i" "h = ''sha256:'' @ sha (token_text i)"
    using assms(1,3) unfolding token_text_def by (elim serviceTokenPolicyMatchesDigest_token) auto
  obtain j where j: "exactServiceTokenPolicyRule s = Some j" "h = ''sha256:'' @ sha (token_text j)"
    using assms(2,4) unfolding token_text_def by (elim serviceTokenPolicyMatchesDigest_token) auto
  from i(2) j(2) have "i = j \<or> collision sha (token_text i) (token_text j)"
    by (auto simp: collision_def token_text_inject)
  with i(1) j(1) show ?thesis by blast
qed

end
