(* ===== verification/Resources.thy ===== *)
theory Resources
  imports Json_Canonical
begin

text \<open>
  The kinds of Cloudflare resources the program manages and the locators of provider resources,
  the vocabulary \<^verbatim>\<open>src/plan.ts\<close>, \<^verbatim>\<open>src/receipt.ts\<close> and \<^verbatim>\<open>src/reconciler.ts\<close> share. The kinds are
  ordered by \<^verbatim>\<open>RESOURCE_ORDER\<close>, the dependency order: a resource depends only on resources of a
  lower rank.
\<close>

datatype resource_kind =
    Mcp_server
  | Source_access_application
  | Source_access_policy
  | Portal
  | Portal_access_application
  | Portal_access_policy
  | Dns_record

fun resourceRank :: "resource_kind \<Rightarrow> int" where
  "resourceRank Mcp_server = 0"
| "resourceRank Source_access_application = 1"
| "resourceRank Source_access_policy = 2"
| "resourceRank Portal = 3"
| "resourceRank Portal_access_application = 4"
| "resourceRank Portal_access_policy = 5"
| "resourceRank Dns_record = 6"

lemma resourceRank_inject [simp]: "resourceRank k = resourceRank l \<longleftrightarrow> k = l"
  by (cases k; cases l) auto

instantiation resource_kind :: linorder
begin

definition less_eq_resource_kind :: "resource_kind \<Rightarrow> resource_kind \<Rightarrow> bool" where
  "less_eq_resource_kind k l \<longleftrightarrow> resourceRank k \<le> resourceRank l"

definition less_resource_kind :: "resource_kind \<Rightarrow> resource_kind \<Rightarrow> bool" where
  "less_resource_kind k l \<longleftrightarrow> resourceRank k < resourceRank l"

instance
  by standard (auto simp: less_eq_resource_kind_def less_resource_kind_def)

end

fun kind_text :: "resource_kind \<Rightarrow> string" where
  "kind_text Mcp_server = ''mcp_server''"
| "kind_text Source_access_application = ''source_access_application''"
| "kind_text Source_access_policy = ''source_access_policy''"
| "kind_text Portal = ''portal''"
| "kind_text Portal_access_application = ''portal_access_application''"
| "kind_text Portal_access_policy = ''portal_access_policy''"
| "kind_text Dns_record = ''dns_record''"

definition all_kinds :: "resource_kind list" where
  "all_kinds = [Mcp_server, Source_access_application, Source_access_policy, Portal,
     Portal_access_application, Portal_access_policy, Dns_record]"

text \<open>\<^verbatim>\<open>v.is(resourceKindSchema, value)\<close>, with the kind.\<close>

definition parse_kind :: "jval \<Rightarrow> resource_kind option" where
  "parse_kind value = find (\<lambda>k. JStr (kind_text k) = value) all_kinds"

lemma kind_text_inject [simp]: "kind_text k = kind_text l \<longleftrightarrow> k = l"
  by (cases k; cases l) auto

lemma parse_kind_text [simp]: "parse_kind (JStr (kind_text k)) = Some k"
  by (cases k) (simp_all add: parse_kind_def all_kinds_def)

lemma parse_kind_Some: "parse_kind v = Some k \<longleftrightarrow> v = JStr (kind_text k)"
proof
  assume "parse_kind v = Some k"
  then show "v = JStr (kind_text k)" by (auto simp: parse_kind_def find_Some_iff)
qed simp

definition is_policy :: "resource_kind \<Rightarrow> bool" where
  "is_policy kind \<longleftrightarrow> kind = Source_access_policy \<or> kind = Portal_access_policy"

text \<open>\<^verbatim>\<open>{ id, parentId? }\<close>.\<close>

record locator =
  loc_id :: string
  loc_parentId :: "string option"

definition opt_entry :: "string \<Rightarrow> jval option \<Rightarrow> (string \<times> jval) list" where
  "opt_entry k v = (case v of None \<Rightarrow> [] | Some x \<Rightarrow> [(k, x)])"

definition locator_value :: "locator \<Rightarrow> jval" where
  "locator_value l = JObj ((''id'', JStr (loc_id l)) # opt_entry ''parentId'' (map_option JStr (loc_parentId l)))"

text \<open>The parts an identifier is made of when it is used as a map key; code unit 0 separates them.\<close>

definition NUL :: char where
  "NUL = char_of (0::nat)"

definition resourceIdentity :: "resource_kind \<Rightarrow> string \<Rightarrow> string" where
  "resourceIdentity kind key = kind_text kind @ [NUL] @ key"

lemma kind_text_no_NUL: "NUL \<notin> set (kind_text k)"
proof -
  have "code_unit NUL = 0" by (simp add: NUL_def)
  then have "NUL \<noteq> c" if "code_unit c \<noteq> 0" for c using that by auto
  then show ?thesis by (cases k) auto
qed

lemma append_sep_inject:
  "c \<notin> set xs \<Longrightarrow> c \<notin> set ys \<Longrightarrow> xs @ c # us = ys @ c # vs \<longleftrightarrow> xs = ys \<and> us = vs"
  by (auto simp: append_eq_append_conv2 Cons_eq_append_conv append_eq_Cons_conv)

lemma resourceIdentity_inject [simp]:
  "resourceIdentity k x = resourceIdentity l y \<longleftrightarrow> k = l \<and> x = y"
  by (simp add: resourceIdentity_def append_sep_inject kind_text_no_NUL)

text \<open>\<^verbatim>\<open>hostnameBelongsToZone\<close>.\<close>

definition hostnameBelongsToZone :: "string \<Rightarrow> string \<Rightarrow> bool" where
  "hostnameBelongsToZone hostname zoneName \<longleftrightarrow>
     hostname = zoneName \<or> is_suffix_of (''.'' @ zoneName) hostname"

lemma hostnameBelongsToZone_iff:
  "hostnameBelongsToZone h z \<longleftrightarrow> h = z \<or> (\<exists>sub. h = sub @ ''.'' @ z)"
  by (simp add: hostnameBelongsToZone_def is_suffix_of_iff)

end
