(* ===== verification/Gateway_Plan.thy ===== *)
theory Gateway_Plan
  imports Canary_Identity Resources "HOL-Library.Monad_Syntax"
begin

text \<open>
  \<^verbatim>\<open>src/plan.ts\<close>: desired-versus-observed state. \<open>buildGatewayDesiredState\<close> turns a validated
  configuration into the resources the gateway should have; \<open>reconcile\<close> compares them with the
  observed resources and gives one change for every desired resource, then the deletions of stale
  resources, and the uninstall list; \<open>buildGatewayPlan\<close> adds the blockers and the plan
  identifier an operator approves.

  \<open>sha\<close> and \<open>parse_url\<close> are the platform's digest and URL parser. Functions that only serialise
  strings and integers live in the option monad, \<open>None\<close> being the \<^verbatim>\<open>TypeError\<close> of
  \<open>canonicalJson\<close>.
\<close>

section \<open>Data\<close>

datatype plan_error = PlanConfigError config_error | PlanTypeError

datatype change_action = Conflict | Create | Delete | Noop | Update

fun action_text :: "change_action \<Rightarrow> string" where
  "action_text Conflict = ''conflict''"
| "action_text Create = ''create''"
| "action_text Delete = ''delete''"
| "action_text Noop = ''noop''"
| "action_text Update = ''update''"

lemma action_text_inject [simp]: "action_text a = action_text b \<longleftrightarrow> a = b"
  by (cases a; cases b) auto

record deployment_target =
  dt_accountId :: "string option"
  dt_zoneId :: "string option"
  dt_zoneName :: string
  dt_zoneStatus :: string
  dt_zeroTrustReady :: bool

record normalized_access =
  na_accessGroups :: "access_group list"
  na_accessGroupsProvided :: bool
  na_allowedEmails :: "string list"
  na_allowedEmailsProvided :: bool
  na_canaryServiceIdentity :: bool
  na_identitiesHash :: string
  na_invalidAccessGroupCount :: nat
  na_invalidEmailCount :: nat

record plan_blocker =
  pb_code :: string
  pb_message :: string

record resource_spec =
  rs_kind :: resource_kind
  rs_key :: string
  rs_desired :: jval

record desired_resource = resource_spec +
  dr_desiredHash :: string

record observed_resource =
  ob_kind :: resource_kind
  ob_key :: string
  ob_desiredHash :: string
  ob_ownerInstallationId :: string
  ob_ownerMatchesManager :: bool
  ob_provider :: "locator option"

record plan_change =
  pc_action :: change_action
  pc_kind :: resource_kind
  pc_key :: string
  pc_desiredHash :: "string option"
  pc_desired :: "jval option"
  pc_provider :: "locator option"
  pc_reason :: "string option"

record access_policy =
  ap_identityType :: string
  ap_identityCount :: int
  ap_identitiesHash :: string

record desired_state =
  ds_accessPolicy :: access_policy
  ds_blockers :: "plan_blocker list"
  ds_desiredHash :: string
  ds_installationId :: string
  ds_resources :: "desired_resource list"

record gateway_plan =
  gp_blockers :: "plan_blocker list"
  gp_changes :: "plan_change list"
  gp_desiredHash :: string
  gp_installationId :: string
  gp_planId :: string
  gp_release :: string
  gp_uninstall :: "plan_change list"

definition MANAGER :: string where
  "MANAGER = ''ankka-mcp-gateway''"

definition GATEWAY_REQUIRED_CAPABILITIES :: "string list" where
  "GATEWAY_REQUIRED_CAPABILITIES =
     [''identity.discovery'', ''account.discovery'', ''zone.discovery'', ''mcp.server.read'',
      ''mcp.server.write'', ''mcp.server.sync'', ''mcp.portal.read'', ''mcp.portal.write'',
      ''access.application.read'', ''access.application.write'', ''access.policy.read'',
      ''access.policy.write'', ''dns.record.read'', ''dns.record.write'']"

section \<open>Normalising the inputs\<close>

definition normalizeRelease :: "jval \<Rightarrow> string option" where
  "normalizeRelease value = (case value of
     Undef \<Rightarrow> Some ''development''
   | JStr s \<Rightarrow> if test RELEASE s then Some s else None
   | _ \<Rightarrow> None)"

definition safeOpaqueId :: "jval \<Rightarrow> string option" where
  "safeOpaqueId value = (case value of JStr s \<Rightarrow> if test SAFE_OPAQUE_ID s then Some s else None | _ \<Rightarrow> None)"

definition isResourceKey :: "jval \<Rightarrow> bool" where
  "isResourceKey value = (case value of JStr s \<Rightarrow> test RESOURCE_KEY s | _ \<Rightarrow> False)"

definition normalizeHostname :: "jval \<Rightarrow> string" where
  "normalizeHostname value = (case value of
     JStr s \<Rightarrow>
       if 253 < length s \<or> s \<noteq> toLowerCase s then []
       else let labels = split_at CHR ''.'' s in
         if length labels < 2 \<or> \<not> list_all (test HOST_LABEL) labels then [] else s
   | _ \<Rightarrow> [])"

definition normalizeTarget :: "jval \<Rightarrow> deployment_target" where
  "normalizeTarget value =
     (let rawTarget = (if isObject value then value else JObj []) in
      \<lparr>dt_accountId = safeOpaqueId (field rawTarget ''accountId''),
       dt_zoneId = safeOpaqueId (field rawTarget ''zoneId''),
       dt_zoneName = normalizeHostname (field rawTarget ''zoneName''),
       dt_zoneStatus = text_or [] (field rawTarget ''zoneStatus''),
       dt_zeroTrustReady = (field rawTarget ''zeroTrustReady'' = JBool True)\<rparr>)"

text \<open>One raw email; \<open>None\<close> is an invalid one, which is counted.\<close>

definition readEmail :: "jval \<Rightarrow> string option" where
  "readEmail rawEmail = (case rawEmail of
     JStr s \<Rightarrow> let email = toLowerCase (js_trim s) in
       if email = [] \<or> 254 < length email \<or> \<not> test EMAIL email then None else Some email
   | _ \<Rightarrow> None)"

definition emailsValue :: "string list \<Rightarrow> jval" where
  "emailsValue emails = JObj [(''emails'', JArr (map JStr emails))]"

text \<open>\<^verbatim>\<open>normalizeAccess\<close>; \<open>None\<close> is a thrown \<^verbatim>\<open>TypeError\<close>.\<close>

definition normalizeAccess :: "(string \<Rightarrow> string) \<Rightarrow> jval \<Rightarrow> normalized_access option" where
  "normalizeAccess sha value =
     (let rawAccess = (if isObject value then value else JObj []);
          normalizedGroups = normalizeAccessGroups rawAccess;
          rawEmails = (case items (field rawAccess ''allowedEmails'') of None \<Rightarrow> [] | Some es \<Rightarrow> es);
          allowedEmails = js_sort compareText (uniq (List.map_filter readEmail rawEmails))
      in if unknown_keys rawAccess [''allowedEmails'', ''groups'', ''canaryServiceTokenId''] \<noteq> [] then None
      else case canaryServiceTokenId rawAccess of
        Inl message \<Rightarrow> None
      | Inr serviceTokenId \<Rightarrow>
          (case (case serviceTokenId of
                   None \<Rightarrow> hashCanonical sha (emailsValue allowedEmails)
                 | Some i \<Rightarrow> (case canaryServiceIdentityDigest sha i of Inl message \<Rightarrow> None | Inr h \<Rightarrow> Some h)) of
             None \<Rightarrow> None
           | Some identitiesHash \<Rightarrow> Some
               \<lparr>na_accessGroups = ng_groups normalizedGroups,
                na_accessGroupsProvided = ng_provided normalizedGroups,
                na_allowedEmails = allowedEmails,
                na_allowedEmailsProvided = isArray (field rawAccess ''allowedEmails''),
                na_canaryServiceIdentity = (serviceTokenId \<noteq> None),
                na_identitiesHash = identitiesHash,
                na_invalidAccessGroupCount = ng_invalidCount normalizedGroups,
                na_invalidEmailCount = length (filter (\<lambda>e. readEmail e = None) rawEmails)\<rparr>))"

section \<open>Blockers\<close>

abbreviation blocker :: "string \<Rightarrow> string \<Rightarrow> plan_blocker" where
  "blocker code message \<equiv> \<lparr>pb_code = code, pb_message = message\<rparr>"

definition source_blockers :: "normalized_access \<Rightarrow> gateway_source \<Rightarrow> plan_blocker list" where
  "source_blockers access source = (case gs_accessGroup source of
     None \<Rightarrow> []
   | Some accessGroup \<Rightarrow>
       let matches = accessGroupsNamed (na_accessGroups access) accessGroup in
       if \<not> na_accessGroupsProvided access \<or> matches = []
       then [blocker ''source_access_group_missing''
         (''Resolve one fresh Access group observation for source '' @ gs_id source @ ''.'')]
       else if 1 < length matches
       then [blocker ''source_access_group_ambiguous''
         (''Resolve exactly one fresh Access group observation for source '' @ gs_id source @ ''.'')]
       else [])"

definition buildBlockers ::
    "gateway_config \<Rightarrow> deployment_target \<Rightarrow> normalized_access \<Rightarrow> plan_blocker list" where
  "buildBlockers config target access =
     (if dt_accountId target = None
      then [blocker ''account_required'' ''Select a Cloudflare account before deployment.''] else [])
     @ (if dt_zoneId target = None \<or> dt_zoneName target = []
        then [blocker ''active_zone_required'' ''Select an active Cloudflare DNS zone before deployment.'']
        else if dt_zoneStatus target \<noteq> ''active''
        then [blocker ''zone_not_active'' ''The selected Cloudflare DNS zone must be active.''] else [])
     @ (if dt_zoneName target \<noteq> [] \<and> \<not> hostnameBelongsToZone (gc_hostname config) (dt_zoneName target)
        then [blocker ''hostname_outside_zone''
          ''The gateway hostname must belong to the selected Cloudflare DNS zone.''] else [])
     @ (if \<not> dt_zeroTrustReady target
        then [blocker ''zero_trust_required'' ''Complete Cloudflare Zero Trust setup before deployment.''] else [])
     @ (if \<not> na_canaryServiceIdentity access
           \<and> (\<not> na_allowedEmailsProvided access \<or> na_allowedEmails access = [])
        then [blocker ''allowed_emails_required''
          ''Provide at least one valid email identity for the Access allow policy.''] else [])
     @ (if 0 < na_invalidEmailCount access
        then [blocker ''invalid_allowed_emails'' ''Every Access identity must be a valid email address.''] else [])
     @ (if 0 < na_invalidAccessGroupCount access
        then [blocker ''invalid_access_groups''
          ''Every Access group observation must contain only one safe ID and exact name.''] else [])
     @ concat (map (source_blockers access) (gc_sources config))"

section \<open>Identifiers\<close>

definition stableInstallationId :: "(string \<Rightarrow> string) \<Rightarrow> string \<Rightarrow> deployment_target \<Rightarrow> string option" where
  "stableInstallationId sha hostname target = do {
     digest \<leftarrow> hashHex sha (JObj [
       (''hostname'', JStr hostname),
       (''accountId'', JStr (case dt_accountId target of None \<Rightarrow> [] | Some a \<Rightarrow> a)),
       (''zoneId'', JStr (case dt_zoneId target of None \<Rightarrow> [] | Some z \<Rightarrow> z))]);
     Some (''acg-'' @ take 24 digest) }"

definition stablePlanId :: "(string \<Rightarrow> string) \<Rightarrow> jval \<Rightarrow> string option" where
  "stablePlanId sha value = do { digest \<leftarrow> hashHex sha value; Some (''plan-'' @ take 24 digest) }"

text \<open>\<^verbatim>\<open>.replace(/[^a-z0-9-]+/g, '-')\<close> and \<^verbatim>\<open>.replace(/^-+|-+$/g, '')\<close>.\<close>

function dash_runs :: "string \<Rightarrow> string" where
  "dash_runs [] = []"
| "dash_runs (c # cs) =
     (if key_char c then c # dash_runs cs
      else CHR ''-'' # dash_runs (dropWhile (\<lambda>d. \<not> key_char d) cs))"
  by pat_completeness auto
termination
  by (relation "measure length") (auto simp: le_imp_less_Suc length_dropWhile_le)

definition trim_dashes :: "string \<Rightarrow> string" where
  "trim_dashes s = rev (dropWhile (\<lambda>c. c = CHR ''-'') (rev (dropWhile (\<lambda>c. c = CHR ''-'') s)))"

definition stableResourceKey :: "(string \<Rightarrow> string) \<Rightarrow> string \<Rightarrow> string \<Rightarrow> string \<Rightarrow> string option" where
  "stableResourceKey sha prefix installationId logicalId = do {
     digest \<leftarrow> hashHex sha (JObj [(''installationId'', JStr installationId), (''prefix'', JStr prefix),
       (''logicalId'', JStr logicalId)]);
     let hint = trim_dashes (dash_runs (toLowerCase logicalId));
         hintLength = 32 - length prefix - 10
     in if hint \<noteq> [] \<and> 0 < hintLength
        then Some (prefix @ ''-'' @ take hintLength hint @ ''-'' @ take 8 digest)
        else Some (prefix @ ''-'' @ take (32 - length prefix - 1) digest) }"

section \<open>Desired resources\<close>

definition groupAllowPolicy :: "(string \<Rightarrow> string) \<Rightarrow> string \<Rightarrow> normalized_access \<Rightarrow> jval" where
  "groupAllowPolicy sha logicalName access =
     (let matches = accessGroupsNamed (na_accessGroups access) logicalName in
      JObj [(''identitiesRef'', JStr ''access.groups''), (''identityType'', JStr ''group''),
        (''identityCount'', jint (int (length matches))),
        (''identitiesHash'', JStr (accessGroupDigest sha matches))])"

definition defaultAllowPolicy :: "normalized_access \<Rightarrow> jval" where
  "defaultAllowPolicy access =
     JObj [(''identitiesRef'', JStr (if na_canaryServiceIdentity access
              then ''access.canaryServiceTokenId'' else ''access.allowedEmails'')),
       (''identityType'', JStr (if na_canaryServiceIdentity access then ''service_token'' else ''email'')),
       (''identityCount'', jint (if na_canaryServiceIdentity access then 1
              else int (length (na_allowedEmails access)))),
       (''identitiesHash'', JStr (na_identitiesHash access))]"

definition metadataValue :: "string \<Rightarrow> jval" where
  "metadataValue installationId =
     JObj [(''manager'', JStr MANAGER), (''installationId'', JStr installationId)]"

abbreviation spec :: "resource_kind \<Rightarrow> string \<Rightarrow> jval \<Rightarrow> resource_spec" where
  "spec kind key desired \<equiv> \<lparr>rs_kind = kind, rs_key = key, rs_desired = desired\<rparr>"

text \<open>The three resources of one source, with its entry of the portal's source mappings.\<close>

definition sourceResources :: "(string \<Rightarrow> string) \<Rightarrow> gateway_config \<Rightarrow> normalized_access \<Rightarrow> string
    \<Rightarrow> gateway_source \<Rightarrow> (resource_spec list \<times> jval) option" where
  "sourceResources sha config access installationId source = do {
     mcpKey \<leftarrow> stableResourceKey sha ''mcp'' installationId (gs_id source);
     applicationKey \<leftarrow> stableResourceKey sha ''source-app'' installationId (gs_id source);
     accessKey \<leftarrow> stableResourceKey sha ''source-access'' installationId (gs_id source);
     let allow = (case gs_accessGroup source of
           None \<Rightarrow> defaultAllowPolicy access
         | Some g \<Rightarrow> groupAllowPolicy sha g access);
         tools = JArr (map JStr (gs_enabledTools source));
         metadata = metadataValue installationId;
         onBehalf = JBool (sa_onBehalfOfUser (gs_authentication source))
     in Some
       ([spec Mcp_server mcpKey (JObj [
           (''metadata'', metadata), (''sourceId'', JStr (gs_id source)), (''name'', JStr (gs_label source)),
           (''endpoint'', JStr (gs_url source)), (''capabilityMode'', JStr (gc_capabilityMode config)),
           (''secureWebGateway'', JBool False),
           (''toolPolicy'', JObj [(''defaultDisabled'', JBool True), (''allowedTools'', tools)]),
           (''authentication'', JObj [(''mode'', JStr (sa_mode (gs_authentication source))),
              (''onBehalfOfUser'', onBehalf), (''credentialCustody'', JStr ''customer'')])]),
         spec Source_access_application applicationKey (JObj [
           (''metadata'', metadata), (''sourceResourceKey'', JStr mcpKey), (''applicationType'', JStr ''mcp'')]),
         spec Source_access_policy accessKey (JObj [
           (''metadata'', metadata), (''sourceApplicationResourceKey'', JStr applicationKey),
           (''defaultAction'', JStr ''deny''), (''allow'', allow)])],
        JObj [(''sourceResourceKey'', JStr mcpKey), (''defaultDisabled'', JBool True),
          (''allowedTools'', tools), (''onBehalfOfUser'', onBehalf)]) }"

definition portalResources :: "(string \<Rightarrow> string) \<Rightarrow> gateway_config \<Rightarrow> normalized_access \<Rightarrow> string
    \<Rightarrow> jval list \<Rightarrow> resource_spec list option" where
  "portalResources sha config access installationId sourceMappings = do {
     let hostname = gc_hostname config;
     let metadata = metadataValue installationId;
     portalKey \<leftarrow> stableResourceKey sha ''portal'' installationId hostname;
     portalApplicationKey \<leftarrow> stableResourceKey sha ''portal-app'' installationId hostname;
     portalAccessKey \<leftarrow> stableResourceKey sha ''portal-access'' installationId hostname;
     dnsKey \<leftarrow> stableResourceKey sha ''dns'' installationId hostname;
     Some
      [spec Portal portalKey (JObj [
         (''metadata'', metadata), (''name'', JStr (gc_name config)), (''hostname'', JStr hostname),
         (''capabilityMode'', JStr (gc_capabilityMode config)), (''codeMode'', JStr (gc_codeMode config)),
         (''secureWebGateway'', JBool False), (''sourceMappings'', JArr sourceMappings)]),
       spec Portal_access_application portalApplicationKey (JObj [
         (''metadata'', metadata), (''portalResourceKey'', JStr portalKey), (''name'', JStr (gc_name config)),
         (''hostname'', JStr hostname), (''applicationType'', JStr ''mcp_portal''),
         (''destination'', JObj [(''type'', JStr ''public''), (''uri'', JStr hostname)]),
         (''authentication'', JObj [(''mode'', JStr ''managed_oauth''),
            (''dynamicClientRegistration'', JObj [(''enabled'', JBool True),
               (''allowAnyOnLocalhost'', JBool True), (''allowAnyOnLoopback'', JBool True)]),
            (''grant'', JObj [(''accessTokenLifetime'', JStr ''15m''), (''sessionDuration'', JStr ''336h'')])])]),
       spec Portal_access_policy portalAccessKey (JObj [
         (''metadata'', metadata), (''portalApplicationResourceKey'', JStr portalApplicationKey),
         (''defaultAction'', JStr ''deny''), (''allow'', defaultAllowPolicy access)]),
       spec Dns_record dnsKey (JObj [
         (''metadata'', metadata), (''recordType'', JStr ''CNAME''), (''hostname'', JStr hostname),
         (''content'', JStr ''gateway.agents.cloudflare.com''), (''proxied'', JBool True),
         (''dependsOnResourceKey'', JStr portalKey)])] }"

definition seal_spec :: "(string \<Rightarrow> string) \<Rightarrow> resource_spec \<Rightarrow> desired_resource option" where
  "seal_spec sha r = do {
     h \<leftarrow> hashCanonical sha (JObj [(''schemaVersion'', jint 1), (''kind'', JStr (kind_text (rs_kind r))),
       (''key'', JStr (rs_key r)), (''desired'', rs_desired r)]);
     Some \<lparr>rs_kind = rs_kind r, rs_key = rs_key r, rs_desired = rs_desired r, dr_desiredHash = h\<rparr> }"

definition sortedSources :: "gateway_config \<Rightarrow> gateway_source list" where
  "sortedSources config =
     js_sort (\<lambda>left right. compareText (gs_id left) (gs_id right))
       (map (\<lambda>s. s\<lparr>gs_enabledTools := js_sort compareText (gs_enabledTools s)\<rparr>) (gc_sources config))"

definition buildDesiredResources :: "(string \<Rightarrow> string) \<Rightarrow> gateway_config \<Rightarrow> normalized_access \<Rightarrow> string
    \<Rightarrow> desired_resource list option" where
  "buildDesiredResources sha config access installationId = do {
     perSource \<leftarrow> those (map (sourceResources sha config access installationId) (sortedSources config));
     portal \<leftarrow> portalResources sha config access installationId (map snd perSource);
     those (map (seal_spec sha) (concat (map fst perSource) @ portal)) }"

section \<open>Observed resources\<close>

definition normalizeProviderLocator :: "resource_kind \<Rightarrow> jval \<Rightarrow> locator option" where
  "normalizeProviderLocator kind value =
     (if \<not> isObject value then None
      else let expectedKeys = (if is_policy kind then [''id'', ''parentId''] else [''id'']) in
        if length (keys value) \<noteq> length expectedKeys \<or> \<not> list_all (\<lambda>k. k \<in> set (keys value)) expectedKeys
        then None
        else case safeOpaqueId (field value ''id'') of
          None \<Rightarrow> None
        | Some i \<Rightarrow>
            if is_policy kind
            then (case safeOpaqueId (field value ''parentId'') of
                    None \<Rightarrow> None
                  | Some p \<Rightarrow> Some \<lparr>loc_id = i, loc_parentId = Some p\<rparr>)
            else Some \<lparr>loc_id = i, loc_parentId = None\<rparr>)"

definition providerLocatorText :: "locator option \<Rightarrow> string" where
  "providerLocatorText value = (case value of
     None \<Rightarrow> []
   | Some l \<Rightarrow> (case loc_parentId l of None \<Rightarrow> [] | Some p \<Rightarrow> p) @ [NUL] @ loc_id l)"

definition compareObservedResources :: "observed_resource \<Rightarrow> observed_resource \<Rightarrow> int" where
  "compareObservedResources left right =
     or_else (resourceRank (ob_kind left) - resourceRank (ob_kind right))
       (or_else (compareText (ob_key left) (ob_key right))
         (compareText (providerLocatorText (ob_provider left)) (providerLocatorText (ob_provider right))))"

text \<open>One raw resource; \<open>None\<close> is skipped.\<close>

definition readObservedResource :: "jval \<Rightarrow> observed_resource option" where
  "readObservedResource raw =
     (if \<not> isObject raw \<or> \<not> isResourceKey (field raw ''key'') then None
      else case parse_kind (field raw ''kind'') of
        None \<Rightarrow> None
      | Some kind \<Rightarrow>
          let owner = (if isObject (field raw ''owner'') then field raw ''owner'' else JObj []) in
          Some \<lparr>ob_kind = kind, ob_key = text_or [] (field raw ''key''),
            ob_desiredHash = (case field raw ''desiredHash'' of
               JStr h \<Rightarrow> if test HASH h then h else [] | _ \<Rightarrow> []),
            ob_ownerInstallationId = (if isResourceKey (field owner ''installationId'')
               then text_or [] (field owner ''installationId'') else []),
            ob_ownerMatchesManager = (field owner ''manager'' = JStr MANAGER),
            ob_provider = normalizeProviderLocator kind (field raw ''provider'')\<rparr>)"

definition normalizeObservedResources :: "jval \<Rightarrow> observed_resource list" where
  "normalizeObservedResources observed =
     (let rawResources = (if isObject observed
          then (case items (field observed ''resources'') of None \<Rightarrow> [] | Some rs \<Rightarrow> rs) else [])
      in js_sort compareObservedResources (List.map_filter readObservedResource rawResources))"

section \<open>Reconciliation\<close>

definition isOwned :: "observed_resource \<Rightarrow> string \<Rightarrow> bool" where
  "isOwned resource installationId \<longleftrightarrow>
     ob_ownerMatchesManager resource \<and> ob_ownerInstallationId resource = installationId"

definition desiredChange ::
    "change_action \<Rightarrow> desired_resource \<Rightarrow> locator option \<Rightarrow> string option \<Rightarrow> plan_change" where
  "desiredChange action resource provider reason =
     \<lparr>pc_action = action, pc_kind = rs_kind resource, pc_key = rs_key resource,
      pc_desiredHash = Some (dr_desiredHash resource), pc_desired = Some (rs_desired resource),
      pc_provider = provider, pc_reason = reason\<rparr>"

definition compareReverseResourceOrder :: "plan_change \<Rightarrow> plan_change \<Rightarrow> int" where
  "compareReverseResourceOrder left right =
     or_else (resourceRank (pc_kind right) - resourceRank (pc_kind left))
       (or_else (compareText (pc_key left) (pc_key right))
         (compareText (providerLocatorText (pc_provider left)) (providerLocatorText (pc_provider right))))"

definition observedIdentity :: "observed_resource \<Rightarrow> string" where
  "observedIdentity resource = resourceIdentity (ob_kind resource) (ob_key resource)"

definition desiredIdentity :: "desired_resource \<Rightarrow> string" where
  "desiredIdentity resource = resourceIdentity (rs_kind resource) (rs_key resource)"

text \<open>The change of one desired resource, from the observed resources with its identity.\<close>

definition reconcileDesired ::
    "observed_resource list \<Rightarrow> string \<Rightarrow> desired_resource \<Rightarrow> plan_change" where
  "reconcileDesired observedResources installationId desired =
     (case filter (\<lambda>ob. observedIdentity ob = desiredIdentity desired) observedResources of
        [] \<Rightarrow> desiredChange Create desired None None
      | [observed] \<Rightarrow>
          if \<not> isOwned observed installationId
          then desiredChange Conflict desired (ob_provider observed) (Some ''foreign_resource_collision'')
          else if ob_desiredHash observed = dr_desiredHash desired
          then desiredChange Noop desired (ob_provider observed) None
          else desiredChange Update desired (ob_provider observed) (Some ''owned_resource_drift'')
      | _ \<Rightarrow> desiredChange Conflict desired None (Some ''ambiguous_observed_resource''))"

definition staleResources ::
    "desired_resource list \<Rightarrow> observed_resource list \<Rightarrow> string \<Rightarrow> observed_resource list" where
  "staleResources desiredResources observedResources installationId =
     filter (\<lambda>ob. observedIdentity ob \<notin> set (map desiredIdentity desiredResources) \<and> isOwned ob installationId)
       observedResources"

text \<open>One entry of \<^verbatim>\<open>staleByIdentity\<close>: the first of its resources, and whether it is alone.\<close>

definition staleChange :: "observed_resource list \<Rightarrow> plan_change" where
  "staleChange matches = (case matches of
     [observed] \<Rightarrow>
       \<lparr>pc_action = Delete, pc_kind = ob_kind observed, pc_key = ob_key observed, pc_desiredHash = None,
        pc_desired = None, pc_provider = ob_provider observed, pc_reason = Some ''stale_owned_resource''\<rparr>
   | _ \<Rightarrow>
       \<lparr>pc_action = Conflict, pc_kind = ob_kind (hd matches), pc_key = ob_key (hd matches),
        pc_desiredHash = None, pc_desired = None, pc_provider = None,
        pc_reason = Some ''ambiguous_observed_resource''\<rparr>)"

definition staleChanges :: "observed_resource list \<Rightarrow> plan_change list" where
  "staleChanges stale =
     js_sort compareReverseResourceOrder
       (map (\<lambda>identity. staleChange (filter (\<lambda>ob. observedIdentity ob = identity) stale))
         (uniq (map observedIdentity stale)))"

definition uninstallChange :: "observed_resource \<Rightarrow> plan_change" where
  "uninstallChange resource =
     \<lparr>pc_action = Delete, pc_kind = ob_kind resource, pc_key = ob_key resource, pc_desiredHash = None,
      pc_desired = None, pc_provider = ob_provider resource, pc_reason = None\<rparr>"

definition reconcile :: "desired_resource list \<Rightarrow> observed_resource list \<Rightarrow> string
    \<Rightarrow> plan_change list \<times> plan_change list" where
  "reconcile desiredResources observedResources installationId =
     (map (reconcileDesired observedResources installationId) desiredResources
        @ staleChanges (staleResources desiredResources observedResources installationId),
      js_sort compareReverseResourceOrder
        (map uninstallChange (filter (\<lambda>ob. isOwned ob installationId) observedResources)))"

section \<open>The plan\<close>

definition blocker_value :: "plan_blocker \<Rightarrow> jval" where
  "blocker_value b = JObj [(''code'', JStr (pb_code b)), (''message'', JStr (pb_message b))]"

text \<open>A change as a JSON object; keys whose field was never assigned are absent.\<close>

definition change_value :: "plan_change \<Rightarrow> jval" where
  "change_value c = JObj ([(''action'', JStr (action_text (pc_action c))), (''kind'', JStr (kind_text (pc_kind c))),
     (''key'', JStr (pc_key c))]
     @ opt_entry ''desiredHash'' (map_option JStr (pc_desiredHash c))
     @ opt_entry ''desired'' (pc_desired c)
     @ opt_entry ''provider'' (map_option locator_value (pc_provider c))
     @ opt_entry ''reason'' (map_option JStr (pc_reason c)))"

definition desired_resource_value :: "desired_resource \<Rightarrow> jval" where
  "desired_resource_value r = JObj [(''kind'', JStr (kind_text (rs_kind r))), (''key'', JStr (rs_key r)),
     (''desired'', rs_desired r), (''desiredHash'', JStr (dr_desiredHash r))]"

definition planValue :: "string \<Rightarrow> string \<Rightarrow> string \<Rightarrow> plan_blocker list \<Rightarrow> plan_change list
    \<Rightarrow> plan_change list \<Rightarrow> jval" where
  "planValue installationId desiredHash release blockers changes uninstall =
     JObj [(''schemaVersion'', jint 1), (''installationId'', JStr installationId),
       (''desiredHash'', JStr desiredHash), (''release'', JStr release),
       (''requiredCapabilities'', JArr (map JStr GATEWAY_REQUIRED_CAPABILITIES)),
       (''blockers'', JArr (map blocker_value blockers)),
       (''changes'', JArr (map change_value changes)),
       (''uninstall'', JArr (map change_value uninstall))]"

definition type_error :: "'a option \<Rightarrow> plan_error + 'a" where
  "type_error m = (case m of None \<Rightarrow> Inl PlanTypeError | Some x \<Rightarrow> Inr x)"

lemma type_error_Inr [simp]: "type_error m = Inr x \<longleftrightarrow> m = Some x"
  by (cases m) (auto simp: type_error_def)

definition desired_state_of :: "(string \<Rightarrow> string) \<Rightarrow> gateway_config \<Rightarrow> deployment_target
    \<Rightarrow> normalized_access \<Rightarrow> desired_state option" where
  "desired_state_of sha config target access = do {
     installationId \<leftarrow> stableInstallationId sha (gc_hostname config) target;
     resources \<leftarrow> buildDesiredResources sha config access installationId;
     desiredHash \<leftarrow> hashCanonical sha (JObj [(''schemaVersion'', jint 1),
       (''installationId'', JStr installationId), (''resources'', JArr (map desired_resource_value resources))]);
     Some \<lparr>ds_accessPolicy =
         \<lparr>ap_identityType = (if na_canaryServiceIdentity access then ''service_token'' else ''email''),
          ap_identityCount = (if na_canaryServiceIdentity access then 1
            else int (length (na_allowedEmails access))),
          ap_identitiesHash = na_identitiesHash access\<rparr>,
       ds_blockers = buildBlockers config target access,
       ds_desiredHash = desiredHash, ds_installationId = installationId, ds_resources = resources\<rparr> }"

definition buildGatewayDesiredState :: "(string \<Rightarrow> string) \<Rightarrow> (string \<Rightarrow> url option) \<Rightarrow> jval
    \<Rightarrow> jval \<Rightarrow> jval \<Rightarrow> plan_error + desired_state" where
  "buildGatewayDesiredState sha parse_url configInput targetInput accessInput =
     (case validateGatewayConfig parse_url configInput of
        Inl e \<Rightarrow> Inl (PlanConfigError e)
      | Inr config \<Rightarrow>
          (let target = normalizeTarget targetInput in
           case normalizeAccess sha accessInput of
             None \<Rightarrow> Inl PlanTypeError
           | Some access \<Rightarrow>
               if na_canaryServiceIdentity access \<and> assertCanaryServiceIdentityConfig config \<noteq> Inr ()
               then Inl PlanTypeError
               else type_error (desired_state_of sha config target access)))"

definition plan_of :: "(string \<Rightarrow> string) \<Rightarrow> string \<Rightarrow> desired_state \<Rightarrow> jval \<Rightarrow> gateway_plan option" where
  "plan_of sha release desiredState observed =
     (let (changes, uninstall) =
            reconcile (ds_resources desiredState) (normalizeObservedResources observed)
              (ds_installationId desiredState);
          blockers = ds_blockers desiredState
            @ (if list_ex (\<lambda>c. pc_action c = Conflict) changes
               then [blocker ''resource_conflicts''
                 ''Resolve existing resource ownership conflicts before deployment.''] else [])
      in map_option (\<lambda>planId.
           \<lparr>gp_blockers = blockers, gp_changes = changes, gp_desiredHash = ds_desiredHash desiredState,
            gp_installationId = ds_installationId desiredState, gp_planId = planId, gp_release = release,
            gp_uninstall = uninstall\<rparr>)
         (stablePlanId sha (planValue (ds_installationId desiredState) (ds_desiredHash desiredState)
            release blockers changes uninstall)))"

definition buildGatewayPlan :: "(string \<Rightarrow> string) \<Rightarrow> (string \<Rightarrow> url option) \<Rightarrow> jval \<Rightarrow> jval
    \<Rightarrow> jval \<Rightarrow> jval \<Rightarrow> plan_error + gateway_plan" where
  "buildGatewayPlan sha parse_url config observed releaseInput accessInput =
     (case normalizeRelease releaseInput of
        None \<Rightarrow> Inl PlanTypeError
      | Some release \<Rightarrow>
          andThen (buildGatewayDesiredState sha parse_url config
              (if isObject observed then field observed ''target'' else Undef) accessInput)
            (\<lambda>desiredState. type_error (plan_of sha release desiredState observed)))"

end
