(* ===== verification/Receipt.thy ===== *)
theory Receipt
  imports Gateway_Plan
begin

text \<open>
  \<^verbatim>\<open>src/receipt.ts\<close>: the installation receipt, the customer's own ledger of the provider
  resources the gateway owns. A receipt is validated, normalised and protected by a checksum; a
  mutation is journaled in it before any remote write and committed or cleared after it.

  Untrusted inputs are \<^typ>\<open>jval\<close>; normalised data are records, and \<open>receipt_value\<close> is the object a
  record denotes. Validators append to one error list in the code; here each returns the messages it
  appends, in order. \<open>rc_checksum\<close> is \<open>None\<close> in a \<^verbatim>\<open>ReceiptCandidate\<close> without checksum.
\<close>

section \<open>Data\<close>

datatype receipt_state = Installing | Ready | Uninstalling | Removed

datatype operation_type = Apply_type | Uninstall_type

datatype receipt_action = Create_action | Update_action | Delete_action

fun state_text :: "receipt_state \<Rightarrow> string" where
  "state_text Installing = ''installing''"
| "state_text Ready = ''ready''"
| "state_text Uninstalling = ''uninstalling''"
| "state_text Removed = ''removed''"

fun type_text :: "operation_type \<Rightarrow> string" where
  "type_text Apply_type = ''apply''"
| "type_text Uninstall_type = ''uninstall''"

fun receipt_action_text :: "receipt_action \<Rightarrow> string" where
  "receipt_action_text Create_action = ''create''"
| "receipt_action_text Update_action = ''update''"
| "receipt_action_text Delete_action = ''delete''"

definition parse_state :: "jval \<Rightarrow> receipt_state option" where
  "parse_state value = find (\<lambda>s. JStr (state_text s) = value) [Installing, Ready, Uninstalling, Removed]"

definition parse_type :: "jval \<Rightarrow> operation_type option" where
  "parse_type value = find (\<lambda>s. JStr (type_text s) = value) [Apply_type, Uninstall_type]"

definition parse_action :: "jval \<Rightarrow> receipt_action option" where
  "parse_action value = find (\<lambda>s. JStr (receipt_action_text s) = value) [Create_action, Update_action, Delete_action]"

lemma parse_state_text [simp]: "parse_state (JStr (state_text s)) = Some s"
  by (cases s) (simp_all add: parse_state_def)

lemma parse_type_text [simp]: "parse_type (JStr (type_text t)) = Some t"
  by (cases t) (simp_all add: parse_type_def)

lemma parse_action_text [simp]: "parse_action (JStr (receipt_action_text a)) = Some a"
  by (cases a) (simp_all add: parse_action_def)

lemma find_image: "find (\<lambda>s. f s = v) xs = Some s \<Longrightarrow> v = f s"
  by (induction xs) (auto split: if_splits)

lemma parse_state_Some: "parse_state v = Some s \<longleftrightarrow> v = JStr (state_text s)"
proof
  show "parse_state v = Some s \<Longrightarrow> v = JStr (state_text s)" unfolding parse_state_def by (rule find_image)
qed simp

lemma parse_type_Some: "parse_type v = Some t \<longleftrightarrow> v = JStr (type_text t)"
proof
  show "parse_type v = Some t \<Longrightarrow> v = JStr (type_text t)" unfolding parse_type_def by (rule find_image)
qed simp

lemma parse_action_Some: "parse_action v = Some a \<longleftrightarrow> v = JStr (receipt_action_text a)"
proof
  show "parse_action v = Some a \<Longrightarrow> v = JStr (receipt_action_text a)" unfolding parse_action_def by (rule find_image)
qed simp

record receipt_target =
  rt_accountId :: string
  rt_hostname :: string
  rt_zoneId :: string
  rt_zoneName :: string

record receipt_resource =
  rr_desiredHash :: string
  rr_identityHash :: "string option"
  rr_key :: string
  rr_kind :: resource_kind
  rr_marker :: "string option"
  rr_provider :: locator

record receipt_pending =
  rp_action :: receipt_action
  rp_expectedDesiredHash :: string
  rp_key :: string
  rp_kind :: resource_kind
  rp_operationId :: string
  rp_planId :: string
  rp_pruneApprovalId :: "string option"
  rp_requestHash :: string
  rp_type :: operation_type

record receipt =
  rc_accessPolicy :: access_policy
  rc_desiredHash :: string
  rc_installationId :: string
  rc_pending :: "receipt_pending option"
  rc_release :: string
  rc_resources :: "receipt_resource list"
  rc_revision :: int
  rc_state :: receipt_state
  rc_target :: receipt_target
  rc_checksum :: "string option"

record commit_result =
  cr_identityHash :: "string option"
  cr_marker :: "string option"
  cr_provider :: "locator option"

text \<open>\<^verbatim>\<open>ReceiptValidationError\<close> with its messages, and the \<^verbatim>\<open>TypeError\<close> of a value that cannot be hashed.\<close>

datatype receipt_error = ReceiptErrors "string list" | ReceiptTypeError

definition MAX_RESOURCES :: nat where
  "MAX_RESOURCES = 200"

definition is_access_application :: "resource_kind \<Rightarrow> bool" where
  "is_access_application kind \<longleftrightarrow> kind = Source_access_application \<or> kind = Portal_access_application"

section \<open>Field validators\<close>

definition rejectUnknownKeys :: "jval \<Rightarrow> string \<Rightarrow> string list \<Rightarrow> string list" where
  "rejectUnknownKeys value path allowedKeys =
     (if \<not> isObject value then []
      else map (\<lambda>key. path @ ''.'' @ key @ '' is not supported'') (unknown_keys value allowedKeys))"

definition validateResourceKey :: "jval \<Rightarrow> string \<Rightarrow> string list" where
  "validateResourceKey value path =
     (if isResourceKey value then []
      else [path @ '' must use at most 32 lowercase letters, numbers, and hyphens''])"

definition validateOpaqueId :: "jval \<Rightarrow> string \<Rightarrow> string list" where
  "validateOpaqueId value path =
     (if safeOpaqueId value \<noteq> None then [] else [path @ '' must be a bounded opaque identifier''])"

definition validateHash :: "jval \<Rightarrow> string \<Rightarrow> string list" where
  "validateHash value path =
     (case value of
        JStr s \<Rightarrow> if test HASH s then [] else [path @ '' must be a canonical SHA-256 digest'']
      | _ \<Rightarrow> [path @ '' must be a canonical SHA-256 digest''])"

definition is_receipt_hostname :: "string \<Rightarrow> bool" where
  "is_receipt_hostname s \<longleftrightarrow>
     length s \<le> 253 \<and> s = toLowerCase s \<and> CHR '':'' \<notin> set s \<and> \<not> test IP_LITERAL s
     \<and> 2 \<le> length (split_at CHR ''.'' s) \<and> list_all (test HOST_LABEL) (split_at CHR ''.'' s)"

definition validateHostname :: "jval \<Rightarrow> string \<Rightarrow> string list" where
  "validateHostname value path =
     (case value of
        JStr s \<Rightarrow> if is_receipt_hostname s then []
          else [path @ '' must be a lowercase fully qualified hostname'']
      | _ \<Rightarrow> [path @ '' must be a lowercase fully qualified hostname''])"

definition is_sensitive_value :: "string \<Rightarrow> bool" where
  "is_sensitive_value s \<longleftrightarrow> test EMAIL_VALUE s \<or> test BEARER_VALUE s \<or> test PRIVATE_KEY_VALUE s \<or> test JWT_VALUE s"

fun findForbiddenMaterial :: "jval \<Rightarrow> string \<Rightarrow> string list"
  and find_forbidden_items :: "jval list \<Rightarrow> nat \<Rightarrow> string \<Rightarrow> string list"
  and find_forbidden_entries :: "(string \<times> jval) list \<Rightarrow> string \<Rightarrow> string list" where
  "findForbiddenMaterial (JArr xs) path = find_forbidden_items xs 0 path"
| "findForbiddenMaterial (JObj kvs) path = find_forbidden_entries kvs path"
| "findForbiddenMaterial (JStr s) path =
     (if is_sensitive_value s then [path @ '' contains forbidden sensitive material''] else [])"
| "findForbiddenMaterial JNull path = []"
| "findForbiddenMaterial Undef path = []"
| "findForbiddenMaterial (JBool b) path = []"
| "findForbiddenMaterial (JNum n) path = []"
| "find_forbidden_items [] index path = []"
| "find_forbidden_items (x # xs) index path =
     findForbiddenMaterial x (path @ ''['' @ nat_text index @ '']'') @ find_forbidden_items xs (Suc index) path"
| "find_forbidden_entries [] path = []"
| "find_forbidden_entries ((key, child) # kvs) path =
     (if test FORBIDDEN_FIELD key then [path @ ''.'' @ key @ '' is a forbidden sensitive field''] else [])
     @ findForbiddenMaterial child (path @ ''.'' @ key) @ find_forbidden_entries kvs path"

definition ownershipMarker :: "jval \<Rightarrow> jval \<Rightarrow> receipt_error + string" where
  "ownershipMarker installationId key =
     (let errors = validateResourceKey installationId ''installationId'' @ validateResourceKey key ''key'' in
      if errors \<noteq> [] then Inl (ReceiptErrors errors)
      else Inr (''acg:v1:'' @ text_or [] installationId @ '':'' @ text_or [] key))"

section \<open>Normalising the parts\<close>

text \<open>Each normaliser returns its value and the messages it appends.\<close>

definition normalizeTargetForReceipt :: "jval \<Rightarrow> string \<Rightarrow> receipt_target \<times> string list" where
  "normalizeTargetForReceipt input path =
     (if \<not> isObject input
      then (\<lparr>rt_accountId = [], rt_hostname = [], rt_zoneId = [], rt_zoneName = []\<rparr>,
        [path @ '' must be an object''])
      else (\<lparr>rt_accountId = text_or [] (field input ''accountId''), rt_hostname = text_or [] (field input ''hostname''),
          rt_zoneId = text_or [] (field input ''zoneId''), rt_zoneName = text_or [] (field input ''zoneName'')\<rparr>,
        rejectUnknownKeys input path [''accountId'', ''zoneId'', ''zoneName'', ''hostname'']
        @ validateOpaqueId (field input ''accountId'') (path @ ''.accountId'')
        @ validateOpaqueId (field input ''zoneId'') (path @ ''.zoneId'')
        @ validateHostname (field input ''zoneName'') (path @ ''.zoneName'')
        @ validateHostname (field input ''hostname'') (path @ ''.hostname'')))"

text \<open>\<^verbatim>\<open>target.zoneName && target.hostname && !hostnameBelongsToZone(...)\<close>.\<close>

definition outside_zone :: "receipt_target \<Rightarrow> bool" where
  "outside_zone target \<longleftrightarrow> rt_zoneName target \<noteq> [] \<and> rt_hostname target \<noteq> []
     \<and> \<not> hostnameBelongsToZone (rt_hostname target) (rt_zoneName target)"

definition normalizeReceiptTarget :: "jval \<Rightarrow> string \<Rightarrow> receipt_error + receipt_target" where
  "normalizeReceiptTarget input path =
     (let (target, targetErrors) = normalizeTargetForReceipt input path;
          errors = targetErrors @ (if outside_zone target
            then [path @ ''.hostname must belong to '' @ path @ ''.zoneName''] else [])
      in if errors \<noteq> [] then Inl (ReceiptErrors (uniq errors)) else Inr target)"

definition normalizeAccessPolicy :: "jval \<Rightarrow> string \<Rightarrow> access_policy \<times> string list" where
  "normalizeAccessPolicy input path =
     (if \<not> isObject input
      then (\<lparr>ap_identityType = [], ap_identityCount = -1, ap_identitiesHash = []\<rparr>, [path @ '' must be an object''])
      else let identityType = field input ''identityType''; identityCount = field input ''identityCount'' in
        (\<lparr>ap_identityType = text_or [] identityType,
          ap_identityCount = (case safe_int identityCount of None \<Rightarrow> -1 | Some n \<Rightarrow> n),
          ap_identitiesHash = text_or [] (field input ''identitiesHash'')\<rparr>,
         rejectUnknownKeys input path [''identityType'', ''identityCount'', ''identitiesHash'']
         @ (if identityType \<noteq> JStr ''email'' \<and> identityType \<noteq> JStr ''service_token''
            then [path @ ''.identityType must be email or service_token''] else [])
         @ (if identityType = JStr ''service_token'' \<and> identityCount \<noteq> jint 1
            then [path @ ''.identityCount must be 1 for a canary service identity''] else [])
         @ (case safe_int identityCount of
              None \<Rightarrow> [path @ ''.identityCount must be an integer from 1 to 10000'']
            | Some n \<Rightarrow> if n < 1 \<or> 10000 < n
                then [path @ ''.identityCount must be an integer from 1 to 10000''] else [])
         @ validateHash (field input ''identitiesHash'') (path @ ''.identitiesHash'')))"

definition normalizeProvider :: "jval \<Rightarrow> string \<Rightarrow> resource_kind \<Rightarrow> locator \<times> string list" where
  "normalizeProvider input path kind =
     (if \<not> isObject input then (\<lparr>loc_id = [], loc_parentId = None\<rparr>, [path @ '' must be an object''])
      else (\<lparr>loc_id = text_or [] (field input ''id''),
          loc_parentId = (if is_policy kind then Some (text_or [] (field input ''parentId'')) else None)\<rparr>,
        rejectUnknownKeys input path (if is_policy kind then [''id'', ''parentId''] else [''id''])
        @ validateOpaqueId (field input ''id'') (path @ ''.id'')
        @ (if is_policy kind then validateOpaqueId (field input ''parentId'') (path @ ''.parentId'') else [])))"

text \<open>\<^verbatim>\<open>isString(x) ? { ...object, [k]: x } : object\<close>.\<close>

fun text_option :: "jval \<Rightarrow> string option" where
  "text_option (JStr s) = Some s"
| "text_option _ = None"

definition normalizeResource :: "jval \<Rightarrow> string \<Rightarrow> receipt_resource \<times> string list" where
  "normalizeResource input path =
     (if \<not> isObject input
      then (\<lparr>rr_desiredHash = [], rr_identityHash = None, rr_key = [], rr_kind = Mcp_server, rr_marker = None,
          rr_provider = \<lparr>loc_id = [], loc_parentId = None\<rparr>\<rparr>, [path @ '' must be an object''])
      else
        let kind = (case parse_kind (field input ''kind'') of None \<Rightarrow> Mcp_server | Some k \<Rightarrow> k);
            (provider, providerErrors) = normalizeProvider (field input ''provider'') (path @ ''.provider'') kind;
            marker = field input ''marker''; identityHash = field input ''identityHash''
        in (\<lparr>rr_desiredHash = text_or [] (field input ''desiredHash''), rr_identityHash = text_option identityHash,
             rr_key = text_or [] (field input ''key''), rr_kind = kind, rr_marker = text_option marker,
             rr_provider = provider\<rparr>,
           rejectUnknownKeys input path
             [''kind'', ''key'', ''provider'', ''desiredHash'', ''marker'', ''identityHash'']
           @ (if parse_kind (field input ''kind'') = None then [path @ ''.kind is not supported''] else [])
           @ validateResourceKey (field input ''key'') (path @ ''.key'')
           @ providerErrors
           @ validateHash (field input ''desiredHash'') (path @ ''.desiredHash'')
           @ (if marker = Undef then []
              else if case marker of JStr m \<Rightarrow> 96 < length m | _ \<Rightarrow> True
              then [path @ ''.marker must be a bounded ownership marker''] else [])
           @ (if identityHash = Undef then [] else validateHash identityHash (path @ ''.identityHash''))))"

definition providerIdentity :: "resource_kind \<Rightarrow> locator \<Rightarrow> string" where
  "providerIdentity kind provider =
     kind_text kind @ [NUL] @ (case loc_parentId provider of None \<Rightarrow> [] | Some p \<Rightarrow> p) @ [NUL] @ loc_id provider"

definition parent_text :: "receipt_resource \<Rightarrow> string" where
  "parent_text r = (case loc_parentId (rr_provider r) of None \<Rightarrow> [] | Some p \<Rightarrow> p)"

definition compareResources :: "receipt_resource \<Rightarrow> receipt_resource \<Rightarrow> int" where
  "compareResources left right =
     or_else (resourceRank (rr_kind left) - resourceRank (rr_kind right))
       (or_else (compareText (rr_key left) (rr_key right))
         (or_else (compareText (parent_text left) (parent_text right))
           (compareText (loc_id (rr_provider left)) (loc_id (rr_provider right)))))"

text \<open>The index of the first resource with a kind and key; \<open>None\<close> is -1.\<close>

fun findResourceIndex :: "receipt_resource list \<Rightarrow> resource_kind \<Rightarrow> string \<Rightarrow> nat option" where
  "findResourceIndex [] kind key = None"
| "findResourceIndex (r # rs) kind key =
     (if rr_kind r = kind \<and> rr_key r = key then Some 0 else map_option Suc (findResourceIndex rs kind key))"

text \<open>The first loop of \<^verbatim>\<open>assertUniqueResources\<close>, with the three sets of values seen so far.\<close>

fun duplicate_errors :: "string list \<Rightarrow> string list \<Rightarrow> string list \<Rightarrow> receipt_resource list \<Rightarrow> string list" where
  "duplicate_errors identities locators applicationIds [] = []"
| "duplicate_errors identities locators applicationIds (r # rs) =
     (let identity = resourceIdentity (rr_kind r) (rr_key r);
          locator = providerIdentity (rr_kind r) (rr_provider r);
          i = loc_id (rr_provider r)
      in (if identity \<in> set identities
          then [''resources duplicate '' @ kind_text (rr_kind r) @ ''/'' @ rr_key r] else [])
       @ (if locator \<in> set locators
          then [''resources duplicate a '' @ kind_text (rr_kind r) @ '' provider locator''] else [])
       @ (if is_access_application (rr_kind r) \<and> i \<in> set applicationIds
          then [''resources duplicate an Access application provider ID''] else [])
       @ duplicate_errors (identity # identities) (locator # locators)
           (if is_access_application (rr_kind r) then i # applicationIds else applicationIds) rs)"

definition parent_kind :: "resource_kind \<Rightarrow> resource_kind" where
  "parent_kind kind = (if kind = Source_access_policy then Source_access_application else Portal_access_application)"

text \<open>The second loop: a policy's parent is one of the applications of its kind, if there are any.\<close>

definition parent_errors :: "receipt_resource list \<Rightarrow> receipt_resource \<Rightarrow> string list" where
  "parent_errors resources r =
     (if \<not> is_policy (rr_kind r) then []
      else let parents = filter (\<lambda>c. rr_kind c = parent_kind (rr_kind r)) resources in
        if parents \<noteq> [] \<and> parent_text r \<notin> set (map (\<lambda>c. loc_id (rr_provider c)) parents)
        then [kind_text (rr_kind r) @ ''/'' @ rr_key r @ '' parentId does not match its parent binding''] else [])"

definition unique_errors :: "receipt_resource list \<Rightarrow> string list" where
  "unique_errors resources = duplicate_errors [] [] [] resources @ concat (map (parent_errors resources) resources)"

definition assertUniqueResources :: "receipt_resource list \<Rightarrow> receipt_error + unit" where
  "assertUniqueResources resources =
     (if unique_errors resources = [] then Inr () else Inl (ReceiptErrors (uniq (unique_errors resources))))"

definition normalizeResources :: "jval \<Rightarrow> receipt_resource list \<times> string list" where
  "normalizeResources input =
     (case items input of
        None \<Rightarrow> ([], [''resources must be an array''])
      | Some xs \<Rightarrow>
          let results = map (\<lambda>(index, x). normalizeResource x (''resources['' @ nat_text index @ '']''))
                (enumerate 0 xs);
              resources = map fst results
          in (js_sort compareResources resources,
              (if MAX_RESOURCES < length xs
               then [''resources cannot exceed '' @ nat_text MAX_RESOURCES @ '' entries''] else [])
              @ concat (map snd results) @ unique_errors resources))"

definition normalizePendingForReceipt :: "jval \<Rightarrow> string \<Rightarrow> receipt_pending option \<times> string list" where
  "normalizePendingForReceipt input path =
     (if \<not> isObject input then (None, [path @ '' must be an object or null''])
      else let typ = field input ''type''; action = field input ''action''; kind = field input ''kind'';
             prune = field input ''pruneApprovalId''
        in (Some \<lparr>rp_action = (case parse_action action of None \<Rightarrow> Create_action | Some a \<Rightarrow> a),
              rp_expectedDesiredHash = text_or [] (field input ''expectedDesiredHash''),
              rp_key = text_or [] (field input ''key''),
              rp_kind = (case parse_kind kind of None \<Rightarrow> Mcp_server | Some k \<Rightarrow> k),
              rp_operationId = text_or [] (field input ''operationId''),
              rp_planId = text_or [] (field input ''planId''),
              rp_pruneApprovalId = text_option prune,
              rp_requestHash = text_or [] (field input ''requestHash''),
              rp_type = (case parse_type typ of None \<Rightarrow> Apply_type | Some t \<Rightarrow> t)\<rparr>,
            rejectUnknownKeys input path [''operationId'', ''type'', ''planId'', ''action'', ''kind'', ''key'',
              ''expectedDesiredHash'', ''pruneApprovalId'', ''requestHash'']
            @ validateOpaqueId (field input ''operationId'') (path @ ''.operationId'')
            @ (if parse_type typ = None then [path @ ''.type is not supported''] else [])
            @ validateOpaqueId (field input ''planId'') (path @ ''.planId'')
            @ (if parse_action action = None then [path @ ''.action is not supported''] else [])
            @ (if parse_kind kind = None then [path @ ''.kind is not supported''] else [])
            @ validateResourceKey (field input ''key'') (path @ ''.key'')
            @ validateHash (field input ''expectedDesiredHash'') (path @ ''.expectedDesiredHash'')
            @ (if prune = Undef then []
               else validateOpaqueId prune (path @ ''.pruneApprovalId'')
                 @ (if typ \<noteq> JStr ''apply'' \<or> action \<noteq> JStr ''delete''
                    then [path @ ''.pruneApprovalId is supported only for apply delete actions''] else []))
            @ validateHash (field input ''requestHash'') (path @ ''.requestHash'')))"

definition normalizePending :: "jval \<Rightarrow> string \<Rightarrow> receipt_error + receipt_pending" where
  "normalizePending input path =
     (let (pending, pendingErrors) = normalizePendingForReceipt input path;
          errors = findForbiddenMaterial input path @ pendingErrors
      in if errors \<noteq> [] then Inl (ReceiptErrors (uniq errors))
         else case pending of
           None \<Rightarrow> Inl (ReceiptErrors [path @ '' must be an object''])
         | Some p \<Rightarrow> Inr p)"

section \<open>Consistency\<close>

definition validateStateConsistency :: "jval \<Rightarrow> receipt_pending option \<Rightarrow> receipt_resource list \<Rightarrow> string list" where
  "validateStateConsistency state pending resources =
     (if state = JStr ''removed'' \<and> (pending \<noteq> None \<or> resources \<noteq> [])
      then [''removed receipt must be a resource-free tombstone with no pending action''] else [])
     @ (if state = JStr ''ready'' \<and> pending \<noteq> None then [''ready receipt cannot contain a pending action''] else [])
     @ (if map_option rp_type pending = Some Apply_type \<and> state \<noteq> JStr ''installing''
        then [''apply pending action requires installing state''] else [])
     @ (if map_option rp_type pending = Some Uninstall_type \<and> state \<noteq> JStr ''uninstalling''
        then [''uninstall pending action requires uninstalling state''] else [])"

definition validatePendingOwnership :: "receipt_pending option \<Rightarrow> receipt_resource list \<Rightarrow> string list" where
  "validatePendingOwnership pending resources =
     (case pending of
        None \<Rightarrow> []
      | Some p \<Rightarrow>
          let index = findResourceIndex resources (rp_kind p) (rp_key p) in
          (if rp_type p = Uninstall_type \<and> rp_action p \<noteq> Delete_action
           then [''uninstall pending action must be delete''] else [])
          @ (if rp_action p = Create_action \<and> index \<noteq> None
             then [''pending create conflicts with an existing receipt resource''] else [])
          @ (if rp_action p \<noteq> Create_action \<and> index = None
             then [''pending update or delete must target a receipt resource''] else [])
          @ (case index of
               None \<Rightarrow> []
             | Some i \<Rightarrow> if rp_action p = Delete_action
                   \<and> rp_expectedDesiredHash p \<noteq> rr_desiredHash (resources ! i)
                 then [''pending delete hash must match the receipt resource''] else []))"

text \<open>The checks of one resource against the receipt it is in.\<close>

definition binding_errors :: "jval \<Rightarrow> access_policy \<Rightarrow> nat \<Rightarrow> receipt_resource \<Rightarrow> string list" where
  "binding_errors installationId accessPolicy index r =
     (if ap_identityType accessPolicy = ''service_token'' \<and> is_policy (rr_kind r)
         \<and> rr_identityHash r \<noteq> Some (ap_identitiesHash accessPolicy)
      then [''resources['' @ nat_text index @ ''].identityHash must match the canary service identity''] else [])
     @ (case rr_marker r of
          None \<Rightarrow> []
        | Some m \<Rightarrow> if isResourceKey installationId \<and> test RESOURCE_KEY (rr_key r)
              \<and> ownershipMarker installationId (JStr (rr_key r)) \<noteq> Inr m
            then [''resources['' @ nat_text index @ ''].marker is not the expected ownership marker''] else [])"

definition receipt_keys :: "string list" where
  "receipt_keys = [''schemaVersion'', ''manager'', ''installationId'', ''state'', ''revision'', ''release'',
     ''target'', ''accessPolicy'', ''desiredHash'', ''resources'', ''pending'', ''checksum'']"

section \<open>The receipt\<close>

definition receipt_errors :: "jval \<Rightarrow> bool \<Rightarrow> string list" where
  "receipt_errors input checksumRequired =
     (let (target, targetErrors) = normalizeTargetForReceipt (field input ''target'') ''target'';
          (accessPolicy, policyErrors) = normalizeAccessPolicy (field input ''accessPolicy'') ''accessPolicy'';
          (resources, resourceErrors) = normalizeResources (field input ''resources'');
          (pending, pendingErrors) = (if field input ''pending'' = JNull then (None, [])
            else normalizePendingForReceipt (field input ''pending'') ''pending'')
      in findForbiddenMaterial input ''$''
       @ rejectUnknownKeys input ''$'' receipt_keys
       @ (if field input ''schemaVersion'' \<noteq> jint 1 then [''schemaVersion must be 1''] else [])
       @ (if field input ''manager'' \<noteq> JStr MANAGER then [''manager must be '' @ MANAGER] else [])
       @ validateResourceKey (field input ''installationId'') ''installationId''
       @ (if parse_state (field input ''state'') = None then [''state is not supported''] else [])
       @ (case safe_int (field input ''revision'') of
            None \<Rightarrow> [''revision must be a non-negative safe integer'']
          | Some n \<Rightarrow> if n < 0 then [''revision must be a non-negative safe integer''] else [])
       @ (case field input ''release'' of
            JStr s \<Rightarrow> if test RELEASE s then [] else [''release must be a safe identifier of at most 80 characters'']
          | _ \<Rightarrow> [''release must be a safe identifier of at most 80 characters''])
       @ validateHash (field input ''desiredHash'') ''desiredHash''
       @ targetErrors @ policyErrors @ resourceErrors @ pendingErrors
       @ (if checksumRequired \<or> field input ''checksum'' \<noteq> Undef
          then validateHash (field input ''checksum'') ''checksum'' else [])
       @ validateStateConsistency (field input ''state'') pending resources
       @ validatePendingOwnership pending resources
       @ concat (map (\<lambda>(index, r). binding_errors (field input ''installationId'') accessPolicy index r)
           (enumerate 0 resources))
       @ (if outside_zone target then [''target.hostname must belong to target.zoneName''] else []))"

definition normalizeReceipt :: "jval \<Rightarrow> bool \<Rightarrow> receipt_error + receipt" where
  "normalizeReceipt input checksumRequired =
     (if \<not> isObject input then Inl (ReceiptErrors [''receipt must be an object''])
      else if receipt_errors input checksumRequired \<noteq> []
      then Inl (ReceiptErrors (uniq (receipt_errors input checksumRequired)))
      else Inr
        \<lparr>rc_accessPolicy = fst (normalizeAccessPolicy (field input ''accessPolicy'') ''accessPolicy''),
         rc_desiredHash = text_or [] (field input ''desiredHash''),
         rc_installationId = text_or [] (field input ''installationId''),
         rc_pending = (if field input ''pending'' = JNull then None
           else fst (normalizePendingForReceipt (field input ''pending'') ''pending'')),
         rc_release = text_or [] (field input ''release''),
         rc_resources = fst (normalizeResources (field input ''resources'')),
         rc_revision = (case safe_int (field input ''revision'') of None \<Rightarrow> 0 | Some n \<Rightarrow> n),
         rc_state = (case parse_state (field input ''state'') of None \<Rightarrow> Ready | Some s \<Rightarrow> s),
         rc_target = fst (normalizeTargetForReceipt (field input ''target'') ''target''),
         rc_checksum = text_option (field input ''checksum'')\<rparr>)"

definition requireSealedReceipt :: "receipt \<Rightarrow> receipt_error + receipt" where
  "requireSealedReceipt candidate =
     (if rc_checksum candidate = None \<or> rc_checksum candidate = Some []
      then Inl (ReceiptErrors [''checksum must be a canonical SHA-256 digest'']) else Inr candidate)"

text \<open>The objects the records denote.\<close>

definition target_value :: "receipt_target \<Rightarrow> jval" where
  "target_value t = JObj [(''accountId'', JStr (rt_accountId t)), (''zoneId'', JStr (rt_zoneId t)),
     (''zoneName'', JStr (rt_zoneName t)), (''hostname'', JStr (rt_hostname t))]"

definition policy_value :: "access_policy \<Rightarrow> jval" where
  "policy_value a = JObj [(''identityType'', JStr (ap_identityType a)), (''identityCount'', jint (ap_identityCount a)),
     (''identitiesHash'', JStr (ap_identitiesHash a))]"

definition resource_value :: "receipt_resource \<Rightarrow> jval" where
  "resource_value r = JObj ([(''kind'', JStr (kind_text (rr_kind r))), (''key'', JStr (rr_key r)),
       (''provider'', locator_value (rr_provider r)), (''desiredHash'', JStr (rr_desiredHash r))]
     @ opt_entry ''marker'' (map_option JStr (rr_marker r))
     @ opt_entry ''identityHash'' (map_option JStr (rr_identityHash r)))"

definition pending_value :: "receipt_pending \<Rightarrow> jval" where
  "pending_value p = JObj ([(''operationId'', JStr (rp_operationId p)), (''type'', JStr (type_text (rp_type p))),
       (''planId'', JStr (rp_planId p)), (''action'', JStr (receipt_action_text (rp_action p))),
       (''kind'', JStr (kind_text (rp_kind p))), (''key'', JStr (rp_key p)),
       (''expectedDesiredHash'', JStr (rp_expectedDesiredHash p)), (''requestHash'', JStr (rp_requestHash p))]
     @ opt_entry ''pruneApprovalId'' (map_option JStr (rp_pruneApprovalId p)))"

definition receipt_value :: "receipt \<Rightarrow> jval" where
  "receipt_value r = JObj ([(''schemaVersion'', jint 1), (''manager'', JStr MANAGER),
       (''installationId'', JStr (rc_installationId r)), (''state'', JStr (state_text (rc_state r))),
       (''revision'', jint (rc_revision r)), (''release'', JStr (rc_release r)),
       (''target'', target_value (rc_target r)), (''accessPolicy'', policy_value (rc_accessPolicy r)),
       (''desiredHash'', JStr (rc_desiredHash r)), (''resources'', JArr (map resource_value (rc_resources r))),
       (''pending'', case rc_pending r of None \<Rightarrow> JNull | Some p \<Rightarrow> pending_value p)]
     @ opt_entry ''checksum'' (map_option JStr (rc_checksum r)))"

definition withoutChecksum :: "receipt \<Rightarrow> receipt" where
  "withoutChecksum r = r\<lparr>rc_checksum := None\<rparr>"

text \<open>The digest of a normalised receipt without its checksum.\<close>

definition unsigned_digest :: "(string \<Rightarrow> string) \<Rightarrow> receipt \<Rightarrow> receipt_error + string" where
  "unsigned_digest sha normalized =
     (case hashCanonical sha (receipt_value (withoutChecksum normalized)) of
        None \<Rightarrow> Inl ReceiptTypeError | Some h \<Rightarrow> Inr h)"

definition receiptChecksum :: "(string \<Rightarrow> string) \<Rightarrow> jval \<Rightarrow> receipt_error + string" where
  "receiptChecksum sha input = andThen (normalizeReceipt input False) (unsigned_digest sha)"

definition sealReceipt :: "(string \<Rightarrow> string) \<Rightarrow> jval \<Rightarrow> receipt_error + receipt" where
  "sealReceipt sha candidate =
     andThen (normalizeReceipt candidate False) (\<lambda>normalized.
     andThen (unsigned_digest sha normalized) (\<lambda>checksum.
     andThen (normalizeReceipt (receipt_value (normalized\<lparr>rc_checksum := Some checksum\<rparr>)) True)
       requireSealedReceipt))"

end
