(* ===== verification/Receipt_Actions.thy ===== *)
theory Receipt_Actions
  imports Receipt
begin

text \<open>
  The operations of \<^verbatim>\<open>src/receipt.ts\<close> on whole receipts. Each validates its input receipt first,
  and returns a freshly sealed receipt or the error it throws.
\<close>

definition sameTarget :: "receipt_target \<Rightarrow> receipt_target \<Rightarrow> bool" where
  "sameTarget left right \<longleftrightarrow> rt_accountId left = rt_accountId right \<and> rt_zoneId left = rt_zoneId right
     \<and> rt_zoneName left = rt_zoneName right \<and> rt_hostname left = rt_hostname right"

definition sameAccessPolicy :: "access_policy \<Rightarrow> access_policy \<Rightarrow> bool" where
  "sameAccessPolicy left right \<longleftrightarrow> ap_identityType left = ap_identityType right
     \<and> ap_identityCount left = ap_identityCount right \<and> ap_identitiesHash left = ap_identitiesHash right"

definition incrementRevision :: "int \<Rightarrow> receipt_error + int" where
  "incrementRevision revision =
     (if \<not> is_safe_integer revision \<or> MAX_SAFE_INTEGER \<le> revision
      then Inl (ReceiptErrors [''revision cannot be incremented safely'']) else Inr (revision + 1))"

definition validateInstallationReceipt :: "(string \<Rightarrow> string) \<Rightarrow> jval \<Rightarrow> jval \<Rightarrow> receipt_error + receipt" where
  "validateInstallationReceipt sha input options =
     (if \<not> isObject options then Inl (ReceiptErrors [''options must be an object''])
      else if rejectUnknownKeys options ''options'' [''expectedTarget''] \<noteq> []
      then Inl (ReceiptErrors (rejectUnknownKeys options ''options'' [''expectedTarget'']))
      else andThen (andThen (normalizeReceipt input True) requireSealedReceipt) (\<lambda>normalized.
        andThen (receiptChecksum sha (receipt_value normalized)) (\<lambda>expectedChecksum.
          if rc_checksum normalized \<noteq> Some expectedChecksum
          then Inl (ReceiptErrors [''checksum does not match the receipt contents''])
          else if field options ''expectedTarget'' = Undef then Inr normalized
          else andThen (normalizeReceiptTarget (field options ''expectedTarget'') ''options.expectedTarget'')
            (\<lambda>expected. if sameTarget (rc_target normalized) expected then Inr normalized
              else Inl (ReceiptErrors
                [''target does not match the account, zone, and hostname selected for this operation''])))))"

abbreviation validReceipt :: "(string \<Rightarrow> string) \<Rightarrow> jval \<Rightarrow> receipt_error + receipt" where
  "validReceipt sha input \<equiv> validateInstallationReceipt sha input (JObj [])"

section \<open>Creating and updating\<close>

text \<open>\<^verbatim>\<open>value ?? fallback\<close>.\<close>

definition coalesce :: "jval \<Rightarrow> jval \<Rightarrow> jval" where
  "coalesce value fallback = (if value = Undef \<or> value = JNull then fallback else value)"

definition policy_fields :: "jval \<Rightarrow> jval" where
  "policy_fields v = JObj [(''identityType'', field v ''identityType''), (''identityCount'', field v ''identityCount''),
     (''identitiesHash'', field v ''identitiesHash'')]"

fun first_allow :: "jval list \<Rightarrow> jval" where
  "first_allow [] = Undef"
| "first_allow (change # changes) =
     (let allow = (if isObject change \<and> isObject (field change ''desired'')
           then field (field change ''desired'') ''allow'' else Undef)
      in if isObject allow
          \<and> (field allow ''identityType'' = JStr ''email'' \<or> field allow ''identityType'' = JStr ''service_token'')
          \<and> safe_int (field allow ''identityCount'') \<noteq> None \<and> isString (field allow ''identitiesHash'')
         then policy_fields allow else first_allow changes)"

definition inferAccessPolicy :: "jval \<Rightarrow> jval" where
  "inferAccessPolicy plan =
     (if \<not> isObject plan then Undef
      else if isObject (field plan ''accessPolicy'') then policy_fields (field plan ''accessPolicy'')
      else case items (field plan ''changes'') of None \<Rightarrow> Undef | Some changes \<Rightarrow> first_allow changes)"

definition createInstallationReceipt :: "(string \<Rightarrow> string) \<Rightarrow> jval \<Rightarrow> receipt_error + receipt" where
  "createInstallationReceipt sha input =
     (if \<not> isObject input then Inl (ReceiptErrors [''input must be an object''])
      else let plan = field input ''plan''; target = field input ''target'';
             resources = (if field input ''resources'' = Undef then JArr [] else field input ''resources'');
             errors = rejectUnknownKeys input ''input'' [''plan'', ''target'', ''accessPolicy'', ''resources'']
               @ (if \<not> isObject plan then [''plan must be an object''] else [])
               @ (if \<not> isObject target then [''target must be an object''] else []);
             of_plan = (\<lambda>k. if isObject plan then field plan k else Undef)
        in if errors \<noteq> [] then Inl (ReceiptErrors errors)
           else sealReceipt sha (JObj [(''schemaVersion'', jint 1), (''manager'', JStr MANAGER),
             (''installationId'', of_plan ''installationId''), (''state'', JStr ''ready''), (''revision'', jint 0),
             (''release'', of_plan ''release''), (''target'', target),
             (''accessPolicy'', coalesce (field input ''accessPolicy'') (inferAccessPolicy plan)),
             (''desiredHash'', of_plan ''desiredHash''), (''resources'', resources), (''pending'', JNull)]))"

definition updateInstallationReceipt :: "(string \<Rightarrow> string) \<Rightarrow> jval \<Rightarrow> jval \<Rightarrow> receipt_error + receipt" where
  "updateInstallationReceipt sha input update =
     andThen (validReceipt sha input) (\<lambda>current.
       let plan = field update ''plan'';
           unknown = rejectUnknownKeys update ''input'' [''plan'', ''target'', ''accessPolicy'']
       in if rc_state current = Removed then Inl (ReceiptErrors [''removed receipts cannot be updated''])
       else if rc_pending current \<noteq> None
       then Inl (ReceiptErrors [''a receipt with a pending action cannot be updated''])
       else if \<not> isObject update then Inl (ReceiptErrors [''input must be an object''])
       else if unknown \<noteq> [] then Inl (ReceiptErrors unknown)
       else if \<not> isObject plan then Inl (ReceiptErrors [''plan must be an object''])
       else if field plan ''installationId'' \<noteq> JStr (rc_installationId current)
       then Inl (ReceiptErrors [''plan installationId does not match the receipt''])
       else andThen (normalizeReceiptTarget (field update ''target'') ''target'') (\<lambda>expectedTarget.
         if \<not> sameTarget (rc_target current) expectedTarget
         then Inl (ReceiptErrors [''target does not match the account, zone, and hostname in the receipt''])
         else
           let (policy, policyErrors) =
                 normalizeAccessPolicy (coalesce (field update ''accessPolicy'') (inferAccessPolicy plan)) ''accessPolicy'';
               errors = policyErrors
                 @ (if (ap_identityType (rc_accessPolicy current) = ''service_token''
                        \<or> ap_identityType policy = ''service_token'')
                       \<and> \<not> sameAccessPolicy (rc_accessPolicy current) policy
                    then [''canary service identity cannot change within an installation receipt''] else []);
               release = field plan ''release''; desiredHash = field plan ''desiredHash'';
               planErrors = (case release of
                    JStr s \<Rightarrow> if test RELEASE s then []
                      else [''plan.release must be a safe identifier of at most 80 characters'']
                  | _ \<Rightarrow> [''plan.release must be a safe identifier of at most 80 characters''])
                 @ validateHash desiredHash ''plan.desiredHash''
           in if errors \<noteq> [] then Inl (ReceiptErrors (uniq errors))
           else if planErrors \<noteq> [] then Inl (ReceiptErrors (uniq planErrors))
           else if JStr (rc_release current) = release \<and> JStr (rc_desiredHash current) = desiredHash
              \<and> sameAccessPolicy (rc_accessPolicy current) policy
           then Inr current
           else andThen (incrementRevision (rc_revision current)) (\<lambda>revision.
             sealReceipt sha (receipt_value ((withoutChecksum current)
               \<lparr>rc_revision := revision, rc_release := text_or [] release, rc_accessPolicy := policy,
                rc_desiredHash := text_or [] desiredHash\<rparr>)))))"

section \<open>The journal\<close>

definition beginReceiptAction :: "(string \<Rightarrow> string) \<Rightarrow> jval \<Rightarrow> jval \<Rightarrow> receipt_error + receipt" where
  "beginReceiptAction sha input intent =
     andThen (validReceipt sha input) (\<lambda>current.
       if rc_state current = Removed
       then Inl (ReceiptErrors [''removed receipts cannot begin new actions''])
       else if rc_pending current \<noteq> None then Inl (ReceiptErrors [''a receipt action is already pending''])
       else andThen (normalizePending intent ''intent'') (\<lambda>pending.
         let existing = findResourceIndex (rc_resources current) (rp_kind pending) (rp_key pending) in
         if rp_type pending = Uninstall_type \<and> rp_action pending \<noteq> Delete_action
         then Inl (ReceiptErrors [''uninstall actions must delete an owned resource''])
         else if rp_action pending = Create_action \<and> existing \<noteq> None
         then Inl (ReceiptErrors [''create action targets an existing receipt resource''])
         else if rp_action pending \<noteq> Create_action \<and> existing = None
         then Inl (ReceiptErrors [receipt_action_text (rp_action pending)
           @ '' action does not target a receipt-owned resource''])
         else if rp_action pending = Delete_action
            \<and> (case existing of None \<Rightarrow> False
               | Some i \<Rightarrow> rr_desiredHash (rc_resources current ! i) \<noteq> rp_expectedDesiredHash pending)
         then Inl (ReceiptErrors [''delete action expectedDesiredHash does not match the owned receipt resource''])
         else andThen (incrementRevision (rc_revision current)) (\<lambda>revision.
           sealReceipt sha (receipt_value ((withoutChecksum current)
             \<lparr>rc_state := (if rp_type pending = Uninstall_type then Uninstalling else Installing),
              rc_revision := revision, rc_pending := Some pending\<rparr>)))))"

definition normalizeCommitResult :: "jval \<Rightarrow> receipt_pending \<Rightarrow> string \<Rightarrow> receipt_error + commit_result" where
  "normalizeCommitResult input pending installationId =
     (if \<not> isObject input then Inl (ReceiptErrors [''result must be an object''])
      else
        let (provider, providerErrors) = (if field input ''provider'' = Undef then (None, [])
              else map_prod Some id (normalizeProvider (field input ''provider'') ''result.provider'' (rp_kind pending)));
            desiredHash = field input ''desiredHash''; marker = field input ''marker'';
            identityHash = field input ''identityHash''
        in andThen (if marker = Undef then Inr []
              else andThen (ownershipMarker (JStr installationId) (JStr (rp_key pending)))
                (\<lambda>expected. Inr (if marker \<noteq> JStr expected
                  then [''result.marker is not the expected ownership marker''] else [])))
          (\<lambda>markerErrors.
            let errors = findForbiddenMaterial input ''result''
                  @ rejectUnknownKeys input ''result'' [''provider'', ''desiredHash'', ''marker'', ''identityHash'']
                  @ providerErrors
                  @ (if rp_action pending = Create_action \<and> provider = None
                     then [''result.provider is required when committing a create action''] else [])
                  @ (if rp_action pending = Delete_action \<and> keys input \<noteq> []
                     then [''a delete commit does not accept remote result fields''] else [])
                  @ (if desiredHash = Undef then []
                     else validateHash desiredHash ''result.desiredHash''
                       @ (if desiredHash \<noteq> JStr (rp_expectedDesiredHash pending)
                          then [''result.desiredHash does not match the pending action''] else []))
                  @ markerErrors
                  @ (if identityHash = Undef then [] else validateHash identityHash ''result.identityHash'')
            in if errors \<noteq> [] then Inl (ReceiptErrors (uniq errors))
               else Inr \<lparr>cr_identityHash = text_option identityHash, cr_marker = text_option marker,
                 cr_provider = provider\<rparr>))"

text \<open>\<^verbatim>\<open>resources.splice(index, 1)\<close>.\<close>

definition remove_nth :: "nat \<Rightarrow> 'a list \<Rightarrow> 'a list" where
  "remove_nth i xs = take i xs @ drop (Suc i) xs"

text \<open>\<^verbatim>\<open>if (text) object = { ...object, field: text }\<close>: an absent or empty text leaves the field as it is.\<close>

definition non_empty :: "string option \<Rightarrow> string option" where
  "non_empty s = (if s = Some [] then None else s)"

definition or_keep :: "string option \<Rightarrow> string option \<Rightarrow> string option" where
  "or_keep new old = (case new of None \<Rightarrow> old | Some s \<Rightarrow> Some s)"

text \<open>The resources after the pending action.\<close>

definition committed_resources ::
    "receipt_resource list \<Rightarrow> receipt_pending \<Rightarrow> commit_result \<Rightarrow> receipt_error + receipt_resource list" where
  "committed_resources resources pending result =
     (case (rp_action pending, findResourceIndex resources (rp_kind pending) (rp_key pending)) of
        (Delete_action, None) \<Rightarrow>
          Inl (ReceiptErrors [''pending delete no longer has an owned receipt resource''])
      | (Delete_action, Some i) \<Rightarrow> Inr (remove_nth i resources)
      | (Create_action, Some i) \<Rightarrow>
          Inl (ReceiptErrors [''pending create already has an owned receipt resource''])
      | (Create_action, None) \<Rightarrow>
          (case cr_provider result of
             None \<Rightarrow> Inl (ReceiptErrors [''create commit requires a provider locator''])
           | Some provider \<Rightarrow> Inr (resources @ [\<lparr>rr_desiredHash = rp_expectedDesiredHash pending,
               rr_identityHash = non_empty (cr_identityHash result), rr_key = rp_key pending,
               rr_kind = rp_kind pending, rr_marker = non_empty (cr_marker result), rr_provider = provider\<rparr>]))
      | (Update_action, None) \<Rightarrow>
          Inl (ReceiptErrors [''pending update no longer has an owned receipt resource''])
      | (Update_action, Some i) \<Rightarrow>
          let existing = resources ! i in
          if (case cr_provider result of None \<Rightarrow> False
              | Some provider \<Rightarrow> providerIdentity (rp_kind pending) provider
                  \<noteq> providerIdentity (rr_kind existing) (rr_provider existing))
          then Inl (ReceiptErrors [''an update cannot change the owned provider locator''])
          else Inr (resources[i := existing\<lparr>rr_desiredHash := rp_expectedDesiredHash pending,
            rr_marker := or_keep (cr_marker result) (rr_marker existing),
            rr_identityHash := or_keep (cr_identityHash result) (rr_identityHash existing)\<rparr>]))"

definition commitReceiptAction :: "(string \<Rightarrow> string) \<Rightarrow> jval \<Rightarrow> jval \<Rightarrow> receipt_error + receipt" where
  "commitReceiptAction sha input result =
     andThen (validReceipt sha input) (\<lambda>current.
       case rc_pending current of
         None \<Rightarrow> Inl (ReceiptErrors [''there is no pending receipt action to commit''])
       | Some pending \<Rightarrow>
           andThen (normalizeCommitResult result pending (rc_installationId current)) (\<lambda>normalizedResult.
           andThen (committed_resources (rc_resources current) pending normalizedResult) (\<lambda>resources.
           andThen (assertUniqueResources resources) (\<lambda>_.
           andThen (incrementRevision (rc_revision current)) (\<lambda>revision.
             sealReceipt sha (receipt_value ((withoutChecksum current)
               \<lparr>rc_state := (if rp_type pending = Uninstall_type then Uninstalling else Ready),
                rc_revision := revision, rc_resources := resources, rc_pending := None\<rparr>)))))))"

definition clearReceiptAction :: "(string \<Rightarrow> string) \<Rightarrow> jval \<Rightarrow> jval \<Rightarrow> receipt_error + receipt" where
  "clearReceiptAction sha input operationId =
     andThen (validReceipt sha input) (\<lambda>current.
       case rc_pending current of
         None \<Rightarrow> Inr current
       | Some pending \<Rightarrow>
           if operationId \<noteq> Undef \<and> validateOpaqueId operationId ''operationId'' \<noteq> []
           then Inl (ReceiptErrors (validateOpaqueId operationId ''operationId''))
           else if operationId \<noteq> Undef \<and> operationId \<noteq> JStr (rp_operationId pending)
           then Inl (ReceiptErrors [''operationId does not match the pending receipt action''])
           else andThen (incrementRevision (rc_revision current)) (\<lambda>revision.
             sealReceipt sha (receipt_value ((withoutChecksum current)
               \<lparr>rc_state := Ready, rc_revision := revision, rc_pending := None\<rparr>))))"

definition markReceiptRemoved :: "(string \<Rightarrow> string) \<Rightarrow> jval \<Rightarrow> receipt_error + receipt" where
  "markReceiptRemoved sha input =
     andThen (validReceipt sha input) (\<lambda>current.
       if rc_state current = Removed then Inr current
       else if rc_pending current \<noteq> None
       then Inl (ReceiptErrors [''cannot remove a receipt while an action is pending''])
       else if rc_resources current \<noteq> []
       then Inl (ReceiptErrors [''cannot remove a receipt that still owns resources''])
       else andThen (incrementRevision (rc_revision current)) (\<lambda>revision.
         sealReceipt sha (receipt_value ((withoutChecksum current)
           \<lparr>rc_state := Removed, rc_revision := revision\<rparr>))))"

end
