(* ===== verification/Reconciler_Data.thy ===== *)
theory Reconciler_Data
  imports Receipt_Actions Programs
begin

text \<open>
  The data of \<^verbatim>\<open>src/reconciler.ts\<close> and the checks it makes on values that come from outside: the
  observed state, the result of a mutation, provider locators. \<open>platform\<close> holds the platform
  functions the planner and the receipts use: the digest and the URL parser.
\<close>

record platform =
  pf_sha :: "string \<Rightarrow> string"
  pf_parse_url :: "string \<Rightarrow> url option"

section \<open>Errors\<close>

text \<open>
  What is thrown: a \<^verbatim>\<open>GatewayReconcileError\<close> with its code, a \<^verbatim>\<open>TypeError\<close> of this program (or
  another error without code), or an error of the environment, with its code if it has one and
  whether it proves that a mutation was not submitted.
\<close>

datatype failure = Gateway_error string | Type_error | Foreign_error "string option" bool

definition GatewayReconcileError :: "string \<Rightarrow> failure" where
  "GatewayReconcileError code = Gateway_error (if test SAFE_CODE code then code else ''reconcile_failed'')"

fun is_gateway_error :: "failure \<Rightarrow> bool" where
  "is_gateway_error (Gateway_error code) = True"
| "is_gateway_error _ = False"

text \<open>\<^verbatim>\<open>v.is(codedErrorSchema, error)\<close>, with the code, and \<^verbatim>\<open>v.is(mutationOutcomeErrorSchema, error)\<close>.\<close>

fun coded_error :: "failure \<Rightarrow> string option" where
  "coded_error (Gateway_error code) = Some code"
| "coded_error Type_error = None"
| "coded_error (Foreign_error code ns) = code"

fun not_submitted :: "failure \<Rightarrow> bool" where
  "not_submitted (Foreign_error code ns) = ns"
| "not_submitted _ = False"

definition messages :: "(string \<times> string) list" where
  "messages =
    [(''approval_required'', ''Apply requires the exact current plan approval.''),
     (''installation_removed'', ''This installation receipt is a completed uninstall tombstone.''),
     (''invalid_observed_state'', ''The provider returned an invalid normalized state.''),
     (''mutation_failed'', ''The provider mutation failed; the receipt retains its recovery intent.''),
     (''mutation_not_submitted'', ''The provider proved that no mutation was submitted; review a fresh plan.''),
     (''observation_failed'', ''Live provider state could not be read safely.''),
     (''ownership_conflict'', ''Live ownership could not be proven from the receipt and resource marker.''),
     (''pending_apply'', ''Finish the pending apply operation before uninstalling.''),
     (''pending_conflict'', ''A pending operation cannot be recovered unambiguously.''),
     (''pending_outcome_unknown'',
        ''The pending create outcome is not visible yet and will not be replayed automatically.''),
     (''pending_uninstall'', ''Finish the pending uninstall operation before applying changes.''),
     (''plan_blocked'', ''The current plan has blockers and cannot be applied.''),
     (''plan_changed'', ''Live state changed after approval; review a fresh plan.''),
     (''prune_approval_required'', ''Prune requires the exact destructive-change approval.''),
     (''receipt_invalid'', ''The gateway installation receipt is invalid.''),
     (''receipt_changed'', ''The gateway installation receipt changed during the operation.''),
     (''receipt_locked'', ''Another receipt mutation is already in progress.''),
     (''receipt_lock_failed'', ''The gateway installation receipt could not be locked for mutation.''),
     (''rollback_approval_required'', ''Rollback requires the exact current pending-create recovery approval.''),
     (''receipt_mismatch'', ''The receipt belongs to a different installation.''),
     (''receipt_read_failed'', ''The gateway installation receipt could not be read.''),
     (''receipt_required'', ''A gateway installation receipt is required.''),
     (''receipt_write_failed'', ''The gateway installation receipt could not be persisted safely.''),
     (''target_mismatch'', ''Cloudflare returned a different account or zone than the selected target.''),
     (''uninstall_approval_required'', ''Uninstall requires the exact current uninstall approval.''),
     (''verification_failed'', ''The provider mutation could not be verified from fresh live state.'')]"

definition messageFor :: "string \<Rightarrow> string" where
  "messageFor code = (case map_of messages code of None \<Rightarrow> ''Gateway reconciliation failed.'' | Some m \<Rightarrow> m)"

text \<open>The errors of the modules called, none of which is a \<^verbatim>\<open>GatewayReconcileError\<close>.\<close>

definition type_failure :: "'e + 'a \<Rightarrow> failure + 'a" where
  "type_failure m = (case m of Inl e \<Rightarrow> Inl Type_error | Inr x \<Rightarrow> Inr x)"

definition hash_or_fail :: "string option \<Rightarrow> failure + string" where
  "hash_or_fail h = (case h of None \<Rightarrow> Inl Type_error | Some t \<Rightarrow> Inr t)"

section \<open>Schemas\<close>

text \<open>\<^verbatim>\<open>v.parse(jsonValueSchema, value)\<close>.\<close>

definition parse_json :: "jval \<Rightarrow> jval option" where
  "parse_json value = (let parsed = drop_prototype value in if is_json parsed then Some parsed else None)"

text \<open>\<^verbatim>\<open>v.parse(boundaryObjectSchema, value)\<close>: an array becomes the object of its indices.\<close>

definition parse_boundary_object :: "jval \<Rightarrow> jval option" where
  "parse_boundary_object value = (case value of
     JObj kvs \<Rightarrow> Some (drop_prototype value)
   | JArr xs \<Rightarrow> Some (JObj (map (\<lambda>(i, x). (nat_text i, drop_prototype x)) (enumerate 0 xs)))
   | _ \<Rightarrow> None)"

text \<open>The entries of \<^verbatim>\<open>v.object({ k: ... })\<close> that are present in the input, in the order of the schema.\<close>

definition pick :: "string list \<Rightarrow> jval \<Rightarrow> jval" where
  "pick ks value = JObj (map (\<lambda>k. (k, field value k)) (filter (\<lambda>k. k \<in> set (keys value)) ks))"

text \<open>\<^verbatim>\<open>v.optional(v.string())\<close> on an entry: \<open>Some None\<close> is an absent one, \<open>None\<close> an issue.\<close>

definition optional_text :: "jval \<Rightarrow> string option option" where
  "optional_text value = (case value of Undef \<Rightarrow> Some None | JStr s \<Rightarrow> Some (Some s) | _ \<Rightarrow> None)"

section \<open>The observed state\<close>

record cloud_resource =
  cl_desiredHash :: string
  cl_key :: string
  cl_kind :: resource_kind
  cl_installationId :: "string option"
  cl_manager :: "string option"
  cl_provider :: "locator option"

record cloud_diagnostic =
  cd_code :: string
  cd_count :: "jnum option"
  cd_key :: "string option"
  cd_kind :: "resource_kind option"

record verified_target =
  vt_accountId :: string
  vt_zeroTrustReady :: bool
  vt_zoneId :: string
  vt_zoneName :: string
  vt_zoneStatus :: string

record cloud_state =
  cs_diagnostics :: "cloud_diagnostic list"
  cs_resources :: "cloud_resource list"
  cs_target :: verified_target

definition validProviderForKind :: "resource_kind \<Rightarrow> jval \<Rightarrow> bool" where
  "validProviderForKind kind provider \<longleftrightarrow>
     isObject provider \<and> safeOpaqueId (field provider ''id'') \<noteq> None
     \<and> (let expectedKeys = (if is_policy kind then [''id'', ''parentId''] else [''id'']) in
        length (keys provider) = length expectedKeys \<and> list_all (\<lambda>k. k \<in> set (keys provider)) expectedKeys)
     \<and> (is_policy kind \<longrightarrow> safeOpaqueId (field provider ''parentId'') \<noteq> None)"

definition read_locator :: "jval \<Rightarrow> locator" where
  "read_locator provider = \<lparr>loc_id = text_or [] (field provider ''id''), loc_parentId = text_option (field provider ''parentId'')\<rparr>"

definition normalizeObservedLocator :: "resource_kind \<Rightarrow> jval \<Rightarrow> failure + locator" where
  "normalizeObservedLocator kind provider =
     (if \<not> validProviderForKind kind provider then Inl (GatewayReconcileError ''invalid_observed_state'')
      else Inr (read_locator provider))"

text \<open>\<^verbatim>\<open>undefined\<close> or the object of a locator.\<close>

definition provider_value :: "locator option \<Rightarrow> jval" where
  "provider_value provider = (case provider of None \<Rightarrow> Undef | Some l \<Rightarrow> locator_value l)"

text \<open>The schemas: \<open>None\<close> is a failed parse. The provider stays a value, to be validated for its kind.\<close>

definition observedProviderSchema :: "jval \<Rightarrow> jval option" where
  "observedProviderSchema value =
     (if isObject value \<and> isString (field value ''id'') \<and> optional_text (field value ''parentId'') \<noteq> None
      then Some (pick [''id'', ''parentId''] value) else None)"

definition observedResourceSchema :: "jval \<Rightarrow> (cloud_resource \<times> jval option) option" where
  "observedResourceSchema value =
     (if \<not> isObject value then None
      else do {
        desiredHash \<leftarrow> text_option (field value ''desiredHash'');
        key \<leftarrow> text_option (field value ''key'');
        kind \<leftarrow> parse_kind (field value ''kind'');
        let owner = field value ''owner'' in if \<not> isObject owner then None else do {
          installationId \<leftarrow> optional_text (field owner ''installationId'');
          manager \<leftarrow> optional_text (field owner ''manager'');
          provider \<leftarrow> (if field value ''provider'' = Undef then Some None
            else map_option Some (observedProviderSchema (field value ''provider'')));
          Some (\<lparr>cl_desiredHash = desiredHash, cl_key = key, cl_kind = kind, cl_installationId = installationId,
            cl_manager = manager, cl_provider = None\<rparr>, provider) } })"

definition observedDiagnosticSchema :: "jval \<Rightarrow> cloud_diagnostic option" where
  "observedDiagnosticSchema value =
     (if \<not> isObject value then None
      else do {
        code \<leftarrow> text_option (field value ''code'');
        count \<leftarrow> (case field value ''count'' of Undef \<Rightarrow> Some None | JNum n \<Rightarrow> Some (Some n) | _ \<Rightarrow> None);
        key \<leftarrow> optional_text (field value ''key'');
        kind \<leftarrow> (if field value ''kind'' = Undef then Some None else map_option Some (parse_kind (field value ''kind'')));
        Some \<lparr>cd_code = code, cd_count = count, cd_key = key, cd_kind = kind\<rparr> })"

definition verifiedTargetSchema :: "jval \<Rightarrow> verified_target option" where
  "verifiedTargetSchema value =
     (if \<not> isObject value then None
      else do {
        accountId \<leftarrow> text_option (field value ''accountId'');
        ready \<leftarrow> (case field value ''zeroTrustReady'' of JBool b \<Rightarrow> Some b | _ \<Rightarrow> None);
        zoneId \<leftarrow> text_option (field value ''zoneId'');
        zoneName \<leftarrow> text_option (field value ''zoneName'');
        zoneStatus \<leftarrow> text_option (field value ''zoneStatus'');
        Some \<lparr>vt_accountId = accountId, vt_zeroTrustReady = ready, vt_zoneId = zoneId, vt_zoneName = zoneName,
          vt_zoneStatus = zoneStatus\<rparr> })"

fun all_or_none :: "('a \<Rightarrow> 'b option) \<Rightarrow> 'a list \<Rightarrow> 'b list option" where
  "all_or_none f [] = Some []"
| "all_or_none f (x # xs) = (case f x of None \<Rightarrow> None | Some y \<Rightarrow> map_option ((#) y) (all_or_none f xs))"

text \<open>\<^verbatim>\<open>xs.map(f)\<close> for a function that may throw.\<close>

fun map_or_throw :: "('a \<Rightarrow> 'e + 'b) \<Rightarrow> 'a list \<Rightarrow> 'e + 'b list" where
  "map_or_throw f [] = Inr []"
| "map_or_throw f (x # xs) = andThen (f x) (\<lambda>y. andThen (map_or_throw f xs) (\<lambda>ys. Inr (y # ys)))"

definition normalizeObservedResource :: "cloud_resource \<times> jval option \<Rightarrow> failure + cloud_resource" where
  "normalizeObservedResource parsed = (case snd parsed of
     None \<Rightarrow> Inr (fst parsed)
   | Some provider \<Rightarrow> andThen (normalizeObservedLocator (cl_kind (fst parsed)) provider)
       (\<lambda>l. Inr ((fst parsed)\<lparr>cl_provider := Some l\<rparr>)))"

text \<open>One round of the loop of \<^verbatim>\<open>assertObservedResources\<close>.\<close>

definition observed_resource_ok :: "cloud_resource \<Rightarrow> bool" where
  "observed_resource_ok r \<longleftrightarrow>
     test RESOURCE_KEY (cl_key r) \<and> (cl_desiredHash r = [] \<or> test HASH (cl_desiredHash r))
     \<and> (cl_provider r \<noteq> None \<longrightarrow> validProviderForKind (cl_kind r) (provider_value (cl_provider r)))
     \<and> (cl_manager r = Some MANAGER \<longrightarrow> validProviderForKind (cl_kind r) (provider_value (cl_provider r)))"

definition assertObservedResources :: "cloud_resource list \<Rightarrow> failure + unit" where
  "assertObservedResources resources =
     (if list_all observed_resource_ok resources then Inr ()
      else Inl (GatewayReconcileError ''invalid_observed_state''))"

definition normalizeObservedState :: "jval \<Rightarrow> failure + cloud_state" where
  "normalizeObservedState value =
     (let parsed = (if \<not> isObject value then None
        else do {
          diagnostics \<leftarrow> Option.bind (items (field value ''diagnostics'')) (all_or_none observedDiagnosticSchema);
          resources \<leftarrow> Option.bind (items (field value ''resources'')) (all_or_none observedResourceSchema);
          target \<leftarrow> verifiedTargetSchema (field value ''target'');
          Some (diagnostics, resources, target) })
      in case parsed of
           None \<Rightarrow> Inl (GatewayReconcileError ''invalid_observed_state'')
         | Some (diagnostics, rawResources, target) \<Rightarrow>
             andThen (map_or_throw normalizeObservedResource rawResources) (\<lambda>resources.
             andThen (assertObservedResources resources) (\<lambda>_.
               Inr \<lparr>cs_diagnostics = diagnostics, cs_resources = resources, cs_target = target\<rparr>)))"

text \<open>The normalised state as the value the planner reads.\<close>

definition cloud_resource_value :: "cloud_resource \<Rightarrow> jval" where
  "cloud_resource_value r = JObj ([(''desiredHash'', JStr (cl_desiredHash r)), (''key'', JStr (cl_key r)),
       (''kind'', JStr (kind_text (cl_kind r))),
       (''owner'', JObj (opt_entry ''installationId'' (map_option JStr (cl_installationId r))
          @ opt_entry ''manager'' (map_option JStr (cl_manager r))))]
     @ opt_entry ''provider'' (map_option locator_value (cl_provider r)))"

definition diagnostic_value :: "cloud_diagnostic \<Rightarrow> jval" where
  "diagnostic_value d = JObj ((''code'', JStr (cd_code d)) # opt_entry ''count'' (map_option JNum (cd_count d))
     @ opt_entry ''key'' (map_option JStr (cd_key d))
     @ opt_entry ''kind'' (map_option (\<lambda>k. JStr (kind_text k)) (cd_kind d)))"

definition verified_target_value :: "verified_target \<Rightarrow> jval" where
  "verified_target_value t = JObj [(''accountId'', JStr (vt_accountId t)), (''zeroTrustReady'', JBool (vt_zeroTrustReady t)),
     (''zoneId'', JStr (vt_zoneId t)), (''zoneName'', JStr (vt_zoneName t)), (''zoneStatus'', JStr (vt_zoneStatus t))]"

definition cloud_state_value :: "cloud_state \<Rightarrow> jval" where
  "cloud_state_value s = JObj [(''diagnostics'', JArr (map diagnostic_value (cs_diagnostics s))),
     (''resources'', JArr (map cloud_resource_value (cs_resources s))),
     (''target'', verified_target_value (cs_target s))]"

section \<open>Results of mutations\<close>

definition isMarkerlessApplicationCreate :: "plan_change \<Rightarrow> bool" where
  "isMarkerlessApplicationCreate change \<longleftrightarrow> pc_action change = Create \<and> pc_kind change = Portal_access_application"

text \<open>\<^verbatim>\<open>MutationResult\<close>: the status is always \<^verbatim>\<open>submitted\<close>; the locator, where there is one.\<close>

type_synonym mutation_result = "locator option"

definition normalizeMutationResult :: "plan_change \<Rightarrow> jval \<Rightarrow> failure + mutation_result" where
  "normalizeMutationResult change value =
     (if isMarkerlessApplicationCreate change then
        if \<not> isObject value \<or> field value ''status'' \<noteq> JStr ''submitted''
           \<or> join_with '','' (js_sort compareText (keys value)) \<noteq> ''provider,status''
           \<or> \<not> validProviderForKind (pc_kind change) (field value ''provider'')
        then Inl (GatewayReconcileError ''mutation_failed'')
        else Inr (Some (read_locator (field value ''provider'')))
      else if \<not> isObject value \<or> field value ''status'' \<noteq> JStr ''submitted'' \<or> length (keys value) \<noteq> 1
      then Inl (GatewayReconcileError ''mutation_failed'')
      else Inr None)"

datatype portal_evidence = Portal_ready | Portal_already_absent

definition normalizePendingPortalRollbackEvidence :: "jval \<Rightarrow> string \<Rightarrow> failure + portal_evidence" where
  "normalizePendingPortalRollbackEvidence value portalKey =
     (let status = (if isObject value then field value ''status'' else Undef) in
      if \<not> isObject value \<or> (status \<noteq> JStr ''ready'' \<and> status \<noteq> JStr ''already_absent'')
         \<or> field value ''portalKey'' \<noteq> JStr portalKey
         \<or> join_with '','' (js_sort compareText (keys value)) \<noteq> ''portalKey,status''
      then Inl (GatewayReconcileError ''invalid_observed_state'')
      else Inr (if status = JStr ''ready'' then Portal_ready else Portal_already_absent))"

datatype rollback_status = Rolled_back | Rollback_already_absent

datatype delete_request = Delete_confirmed | Delete_not_needed | Delete_outcome_unknown

definition normalizePendingPortalRollbackMutationResult ::
    "jval \<Rightarrow> string \<Rightarrow> failure + rollback_status \<times> delete_request" where
  "normalizePendingPortalRollbackMutationResult value portalKey =
     (let status = (if isObject value then field value ''status'' else Undef);
          deleteRequest = (if isObject value then field value ''deleteRequest'' else Undef) in
      if \<not> isObject value \<or> status \<notin> {JStr ''rolled_back'', JStr ''already_absent''}
         \<or> field value ''portalKey'' \<noteq> JStr portalKey
         \<or> deleteRequest \<notin> {JStr ''confirmed'', JStr ''outcome_unknown'', JStr ''not_needed''}
         \<or> status = JStr ''already_absent'' \<and> deleteRequest \<noteq> JStr ''not_needed''
         \<or> status = JStr ''rolled_back'' \<and> deleteRequest = JStr ''not_needed''
         \<or> join_with '','' (js_sort compareText (keys value)) \<noteq> ''deleteRequest,portalKey,status''
      then Inl (GatewayReconcileError ''verification_failed'')
      else Inr (if status = JStr ''rolled_back'' then Rolled_back else Rollback_already_absent,
        if deleteRequest = JStr ''confirmed'' then Delete_confirmed
        else if deleteRequest = JStr ''not_needed'' then Delete_not_needed else Delete_outcome_unknown))"

end
