(* ===== verification/Reconciler_Checks.thy ===== *)
theory Reconciler_Checks
  imports Reconciler_Data
begin

text \<open>
  The synchronous parts of \<^verbatim>\<open>src/reconciler.ts\<close>: finding and comparing changes and resources, the
  assertions that refuse a plan, a change or an approval, and the approval identifiers of a prune
  and of an uninstallation.
\<close>

section \<open>The context of an operation\<close>

text \<open>
  \<^verbatim>\<open>ReconcileContext\<close>. The provider and the store are the environment; of the optional functions
  the context keeps which are there. \<open>cx_override\<close> is \<^verbatim>\<open>receiptOverride\<close>, \<open>None\<close> where it is
  \<^verbatim>\<open>undefined\<close>; the code only ever sets it to a receipt.
\<close>

record reconcile_context =
  cx_access :: jval
  cx_approvedPlanId :: "string option"
  cx_approvedPruneId :: "string option"
  cx_approvedRollbackId :: "string option"
  cx_approvedUninstallId :: "string option"
  cx_config :: jval
  cx_configValue :: gateway_config
  cx_hasProgress :: bool
  cx_canApply :: bool
  cx_canInspect :: bool
  cx_canRollback :: bool
  cx_canLock :: bool
  cx_prune :: bool
  cx_override :: "receipt option"
  cx_release :: string
  cx_target :: jval

record live_state =
  lv_observed :: cloud_state
  lv_plan :: gateway_plan
  lv_receipt :: "receipt option"

section \<open>Finding and comparing\<close>

definition findChange :: "gateway_plan \<Rightarrow> resource_kind \<Rightarrow> string \<Rightarrow> plan_change option" where
  "findChange plan kind key = find (\<lambda>c. pc_kind c = kind \<and> pc_key c = key) (gp_changes plan)"

definition findReceiptResource :: "receipt \<Rightarrow> resource_kind \<Rightarrow> string \<Rightarrow> receipt_resource option" where
  "findReceiptResource receipt kind key = find (\<lambda>r. rr_kind r = kind \<and> rr_key r = key) (rc_resources receipt)"

definition matchingResources :: "cloud_resource list \<Rightarrow> resource_kind \<Rightarrow> string \<Rightarrow> cloud_resource list" where
  "matchingResources resources kind key = filter (\<lambda>r. cl_kind r = kind \<and> cl_key r = key) resources"

definition parent_or_empty :: "locator \<Rightarrow> string" where
  "parent_or_empty l = (case loc_parentId l of None \<Rightarrow> [] | Some p \<Rightarrow> p)"

definition sameProvider :: "locator option \<Rightarrow> locator option \<Rightarrow> bool" where
  "sameProvider left right = (case (left, right) of
     (None, None) \<Rightarrow> True
   | (Some l, Some r) \<Rightarrow> loc_id l = loc_id r \<and> parent_or_empty l = parent_or_empty r
   | _ \<Rightarrow> False)"

definition isExactOwnedMatch :: "cloud_resource \<Rightarrow> receipt_resource \<Rightarrow> string \<Rightarrow> bool" where
  "isExactOwnedMatch observed owned installationId \<longleftrightarrow>
     cl_manager observed = Some MANAGER \<and> cl_installationId observed = Some installationId
     \<and> sameProvider (cl_provider observed) (Some (rr_provider owned))"

definition compareReverse :: "('a \<Rightarrow> resource_kind) \<Rightarrow> ('a \<Rightarrow> string) \<Rightarrow> 'a \<Rightarrow> 'a \<Rightarrow> int" where
  "compareReverse kind key left right =
     or_else (resourceRank (kind right) - resourceRank (kind left)) (compareText (key left) (key right))"

abbreviation compareReceiptResourcesReverse :: "receipt_resource \<Rightarrow> receipt_resource \<Rightarrow> int" where
  "compareReceiptResourcesReverse \<equiv> compareReverse rr_kind rr_key"

definition compareApprovedChanges :: "plan_change \<Rightarrow> plan_change \<Rightarrow> int" where
  "compareApprovedChanges left right =
     (let leftDelete = (pc_action left = Delete); rightDelete = (pc_action right = Delete) in
      if leftDelete \<noteq> rightDelete then (if leftDelete then 1 else -1)
      else or_else ((if leftDelete then -1 else 1) * (resourceRank (pc_kind left) - resourceRank (pc_kind right)))
        (compareText (pc_key left) (pc_key right)))"

definition receiptTarget :: "gateway_config \<Rightarrow> verified_target \<Rightarrow> receipt_target" where
  "receiptTarget config observed = \<lparr>rt_accountId = vt_accountId observed, rt_hostname = gc_hostname config,
     rt_zoneId = vt_zoneId observed, rt_zoneName = vt_zoneName observed\<rparr>"

definition requireDesiredHash :: "string option \<Rightarrow> failure + string" where
  "requireDesiredHash value = (case value of
     None \<Rightarrow> Inl (GatewayReconcileError ''plan_changed'')
   | Some h \<Rightarrow> if test HASH h then Inr h else Inl (GatewayReconcileError ''plan_changed''))"

definition expectedHash :: "receipt \<Rightarrow> plan_change \<Rightarrow> failure + string" where
  "expectedHash receipt change =
     (if pc_action change = Create then requireDesiredHash (pc_desiredHash change)
      else case findReceiptResource receipt (pc_kind change) (pc_key change) of
        None \<Rightarrow> Inl (GatewayReconcileError ''ownership_conflict'')
      | Some owned \<Rightarrow>
          if \<not> sameProvider (Some (rr_provider owned)) (pc_provider change)
          then Inl (GatewayReconcileError ''ownership_conflict'')
          else if pc_action change = Delete then Inr (rr_desiredHash owned)
          else requireDesiredHash (pc_desiredHash change))"

definition requirePlanProvider :: "plan_change \<Rightarrow> failure + locator" where
  "requirePlanProvider change = (case pc_provider change of
     None \<Rightarrow> Inl (GatewayReconcileError ''invalid_observed_state'') | Some l \<Rightarrow> Inr l)"

text \<open>The deletion of a receipt resource, as a change.\<close>

definition deletion_of :: "receipt_resource \<Rightarrow> plan_change" where
  "deletion_of owned = \<lparr>pc_action = Delete, pc_kind = rr_kind owned, pc_key = rr_key owned,
     pc_desiredHash = Some (rr_desiredHash owned), pc_desired = None, pc_provider = Some (rr_provider owned),
     pc_reason = None\<rparr>"

definition desiredIdentityHash :: "jval \<Rightarrow> string option" where
  "desiredIdentityHash desired =
     (if \<not> isObject (field desired ''allow'') then None else text_option (field (field desired ''allow'') ''identitiesHash''))"

section \<open>Assertions\<close>

definition assertPlanExecutable :: "gateway_plan \<Rightarrow> failure + unit" where
  "assertPlanExecutable plan =
     (if gp_blockers plan \<noteq> [] \<or> list_ex (\<lambda>c. pc_action c = Conflict) (gp_changes plan)
      then Inl (GatewayReconcileError ''plan_blocked'')
      else if list_ex (\<lambda>c. pc_action c \<noteq> Create \<and> \<not> validProviderForKind (pc_kind c) (provider_value (pc_provider c)))
          (gp_changes plan)
      then Inl (GatewayReconcileError ''invalid_observed_state'') else Inr ())"

definition assertReceiptMatchesPlan :: "receipt \<Rightarrow> gateway_plan \<Rightarrow> failure + unit" where
  "assertReceiptMatchesPlan receipt plan =
     (if rc_installationId receipt \<noteq> gp_installationId plan \<or> rc_release receipt \<noteq> gp_release plan
      then Inl (GatewayReconcileError ''receipt_mismatch'') else Inr ())"

text \<open>\<^verbatim>\<open>approved.desiredHash &&\<close>: an absent or empty hash is not compared. Gives the current change.\<close>

definition assertApprovedChangeStillMatches :: "plan_change \<Rightarrow> plan_change option \<Rightarrow> failure + plan_change" where
  "assertApprovedChangeStillMatches approved current = (case current of
     None \<Rightarrow> Inl (GatewayReconcileError ''plan_changed'')
   | Some c \<Rightarrow>
       if pc_action c \<noteq> pc_action approved then Inl (GatewayReconcileError ''plan_changed'')
       else if pc_desiredHash approved \<noteq> None \<and> pc_desiredHash approved \<noteq> Some []
          \<and> pc_desiredHash c \<noteq> pc_desiredHash approved
       then Inl (GatewayReconcileError ''plan_changed'')
       else if \<not> sameProvider (pc_provider approved) (pc_provider c)
       then Inl (GatewayReconcileError ''plan_changed'') else Inr c)"

definition dependency_converged :: "receipt \<Rightarrow> plan_change \<Rightarrow> bool" where
  "dependency_converged receipt dependency = (case findReceiptResource receipt (pc_kind dependency) (pc_key dependency) of
     None \<Rightarrow> False
   | Some owned \<Rightarrow> pc_action dependency = Noop \<and> Some (rr_desiredHash owned) = pc_desiredHash dependency
       \<and> sameProvider (Some (rr_provider owned)) (pc_provider dependency))"

definition assertLowerRankDependenciesConverged :: "gateway_plan \<Rightarrow> receipt \<Rightarrow> plan_change \<Rightarrow> failure + unit" where
  "assertLowerRankDependenciesConverged plan receipt current =
     (if pc_action current \<noteq> Create \<and> pc_action current \<noteq> Update then Inr ()
      else if list_ex (\<lambda>dependency. (case pc_desired dependency of None \<Rightarrow> False | Some d \<Rightarrow> isObject d)
          \<and> resourceRank (pc_kind dependency) < resourceRank (pc_kind current)
          \<and> \<not> dependency_converged receipt dependency) (gp_changes plan)
      then Inl (GatewayReconcileError ''plan_changed'') else Inr ())"

definition assertSelectedTarget :: "jval \<Rightarrow> verified_target \<Rightarrow> failure + unit" where
  "assertSelectedTarget selected observed =
     (let differs = (\<lambda>k s. isString (field selected k) \<and> field selected k \<noteq> JStr s) in
      if differs ''accountId'' (vt_accountId observed) \<or> differs ''zoneId'' (vt_zoneId observed)
         \<or> differs ''zoneName'' (vt_zoneName observed)
      then Inl (GatewayReconcileError ''target_mismatch'') else Inr ())"

section \<open>Request digests\<close>

definition mutation_request :: "operation_type \<Rightarrow> string \<Rightarrow> change_action \<Rightarrow> resource_kind \<Rightarrow> string \<Rightarrow> string
    \<Rightarrow> string option \<Rightarrow> (string \<times> jval) list" where
  "mutation_request type planId action kind key expectedDesiredHash pruneApprovalId =
     [(''type'', JStr (type_text type)), (''planId'', JStr planId), (''action'', JStr (action_text action)),
      (''kind'', JStr (kind_text kind)), (''key'', JStr key), (''expectedDesiredHash'', JStr expectedDesiredHash)]
     @ opt_entry ''pruneApprovalId'' (map_option JStr pruneApprovalId)"

definition mutationRequestHash :: "(string \<Rightarrow> string) \<Rightarrow> (string \<times> jval) list \<Rightarrow> failure + string" where
  "mutationRequestHash sha request = hash_or_fail (hashCanonical sha (JObj ((''schemaVersion'', jint 1) # request)))"

fun change_action_of :: "receipt_action \<Rightarrow> change_action" where
  "change_action_of Create_action = Create"
| "change_action_of Update_action = Update"
| "change_action_of Delete_action = Delete"

definition assertPendingRequestHash :: "(string \<Rightarrow> string) \<Rightarrow> receipt_pending \<Rightarrow> failure + unit" where
  "assertPendingRequestHash sha pending =
     andThen (mutationRequestHash sha (mutation_request (rp_type pending) (rp_planId pending)
         (change_action_of (rp_action pending)) (rp_kind pending) (rp_key pending) (rp_expectedDesiredHash pending)
         (rp_pruneApprovalId pending)))
       (\<lambda>expected. if expected \<noteq> rp_requestHash pending then Inl (GatewayReconcileError ''pending_conflict'') else Inr ())"

section \<open>Pruning\<close>

record prune_resource =
  pn_desiredHash :: "string option"
  pn_key :: string
  pn_kind :: resource_kind
  pn_provider :: locator

datatype prune_verb = Prune_delete | Retire_receipt

record prune_approval =
  pa_actions :: "(prune_verb \<times> resource_kind \<times> string) list"
  pa_approvalId :: "string option"
  pa_receiptRetirements :: "prune_resource list"
  pa_remoteDeletions :: "prune_resource list"

definition comparePruneResources :: "prune_resource \<Rightarrow> prune_resource \<Rightarrow> int" where
  "comparePruneResources left right =
     or_else (compareReverse pn_kind pn_key left right)
       (or_else (compareText (parent_or_empty (pn_provider left)) (parent_or_empty (pn_provider right)))
         (compareText (loc_id (pn_provider left)) (loc_id (pn_provider right))))"

definition copyReceiptResourceForPrune :: "receipt_resource \<Rightarrow> prune_resource" where
  "copyReceiptResourceForPrune resource = \<lparr>pn_desiredHash = Some (rr_desiredHash resource), pn_key = rr_key resource,
     pn_kind = rr_kind resource, pn_provider = rr_provider resource\<rparr>"

definition sameReceiptResource :: "prune_resource \<Rightarrow> receipt_resource \<Rightarrow> bool" where
  "sameReceiptResource left right \<longleftrightarrow> pn_kind left = rr_kind right \<and> pn_key left = rr_key right
     \<and> pn_desiredHash left = Some (rr_desiredHash right) \<and> sameProvider (Some (pn_provider left)) (Some (rr_provider right))"

definition prune_resource_value :: "prune_resource \<Rightarrow> jval" where
  "prune_resource_value p = JObj ([(''kind'', JStr (kind_text (pn_kind p))), (''key'', JStr (pn_key p)),
       (''provider'', locator_value (pn_provider p))]
     @ opt_entry ''desiredHash'' (map_option JStr (pn_desiredHash p)))"

definition remoteDeletions :: "gateway_plan \<Rightarrow> failure + prune_resource list" where
  "remoteDeletions plan =
     andThen (map_or_throw (\<lambda>change. andThen (requirePlanProvider change) (\<lambda>provider.
         Inr \<lparr>pn_desiredHash = None, pn_key = pc_key change, pn_kind = pc_kind change, pn_provider = provider\<rparr>))
       (filter (\<lambda>c. pc_action c = Delete) (gp_changes plan)))
     (\<lambda>deletions. Inr (js_sort comparePruneResources deletions))"

definition receiptRetirements :: "live_state \<Rightarrow> prune_resource list" where
  "receiptRetirements live = (case lv_receipt live of
     None \<Rightarrow> []
   | Some receipt \<Rightarrow> js_sort comparePruneResources (map copyReceiptResourceForPrune
       (filter (\<lambda>owned. findChange (lv_plan live) (rr_kind owned) (rr_key owned) = None
           \<and> matchingResources (cs_resources (lv_observed live)) (rr_kind owned) (rr_key owned) = [])
         (rc_resources receipt))))"

definition buildPruneApproval :: "(string \<Rightarrow> string) \<Rightarrow> live_state \<Rightarrow> failure + prune_approval" where
  "buildPruneApproval sha live =
     andThen (remoteDeletions (lv_plan live)) (\<lambda>deletions.
       let retirements = receiptRetirements live;
           actions = map (\<lambda>p. (Prune_delete, pn_kind p, pn_key p)) deletions
             @ map (\<lambda>p. (Retire_receipt, pn_kind p, pn_key p)) retirements;
           approval = (\<lambda>i. \<lparr>pa_actions = actions, pa_approvalId = i, pa_receiptRetirements = retirements,
             pa_remoteDeletions = deletions\<rparr>)
       in if actions = [] then Inr (approval None)
       else andThen (hash_or_fail (hashCanonical sha (JObj [(''schemaVersion'', jint 1), (''operation'', JStr ''prune''),
           (''planId'', JStr (gp_planId (lv_plan live))),
           (''receiptChecksum'', case Option.bind (lv_receipt live) rc_checksum of None \<Rightarrow> JNull | Some c \<Rightarrow> JStr c),
           (''remoteDeletions'', JArr (map prune_resource_value deletions)),
           (''receiptRetirements'', JArr (map prune_resource_value retirements))])))
         (\<lambda>digest. Inr (approval (Some (''prune-'' @ take 24 (drop 7 digest))))))"

definition assertPruneApproval :: "reconcile_context \<Rightarrow> prune_approval \<Rightarrow> failure + unit" where
  "assertPruneApproval context prune =
     (if \<not> cx_prune context then Inr ()
      else if pa_approvalId prune \<noteq> None \<and> cx_approvedPruneId context \<noteq> pa_approvalId prune
      then Inl (GatewayReconcileError ''prune_approval_required'') else Inr ())"

definition assertRecoveryApplyRetry :: "reconcile_context \<Rightarrow> receipt_pending \<Rightarrow> live_state \<Rightarrow> failure + unit" where
  "assertRecoveryApplyRetry context pending live =
     andThen (assertPlanExecutable (lv_plan live)) (\<lambda>_.
       if cx_approvedPlanId context \<noteq> Some (rp_planId pending) \<or> gp_planId (lv_plan live) \<noteq> rp_planId pending
       then Inl (GatewayReconcileError ''approval_required'')
       else if rp_action pending = Delete_action
          \<and> (rp_pruneApprovalId pending = None \<or> rp_pruneApprovalId pending = Some [] \<or> \<not> cx_prune context
             \<or> cx_approvedPruneId context \<noteq> rp_pruneApprovalId pending)
       then Inl (GatewayReconcileError ''prune_approval_required'') else Inr ())"

section \<open>Uninstallation previews\<close>

datatype uninstall_verb = Uninstall_delete | Uninstall_noop

record uninstall_action =
  ua_verb :: uninstall_verb
  ua_key :: string
  ua_kind :: resource_kind

record uninstall_preview =
  up_actions :: "uninstall_action list"
  up_blockers :: "(resource_kind \<times> string) list"
  up_installationId :: string
  up_observed :: cloud_state
  up_receipt :: receipt
  up_uninstallId :: string

text \<open>One round of the loop over the owned resources: an action, or a blocker.\<close>

definition uninstall_entry :: "cloud_state \<Rightarrow> string \<Rightarrow> receipt_resource \<Rightarrow> (resource_kind \<times> string) + uninstall_action" where
  "uninstall_entry observed installationId owned =
     (case matchingResources (cs_resources observed) (rr_kind owned) (rr_key owned) of
        [] \<Rightarrow> Inr \<lparr>ua_verb = Uninstall_noop, ua_key = rr_key owned, ua_kind = rr_kind owned\<rparr>
      | [match] \<Rightarrow>
          if isExactOwnedMatch match owned installationId
          then Inr \<lparr>ua_verb = Uninstall_delete, ua_key = rr_key owned, ua_kind = rr_kind owned\<rparr>
          else Inl (rr_kind owned, rr_key owned)
      | _ \<Rightarrow> Inl (rr_kind owned, rr_key owned))"

definition uninstall_entries :: "cloud_state \<Rightarrow> receipt \<Rightarrow> ((resource_kind \<times> string) + uninstall_action) list" where
  "uninstall_entries observed receipt =
     map (uninstall_entry observed (rc_installationId receipt))
       (js_sort compareReceiptResourcesReverse (rc_resources receipt))"

definition lefts :: "('a + 'b) list \<Rightarrow> 'a list" where
  "lefts xs = List.map_filter (\<lambda>x. case x of Inl a \<Rightarrow> Some a | Inr b \<Rightarrow> None) xs"

definition rights :: "('a + 'b) list \<Rightarrow> 'b list" where
  "rights xs = List.map_filter (\<lambda>x. case x of Inl a \<Rightarrow> None | Inr b \<Rightarrow> Some b) xs"

definition blocker_ref_value :: "resource_kind \<times> string \<Rightarrow> jval" where
  "blocker_ref_value b = JObj [(''code'', JStr ''ownership_conflict''), (''kind'', JStr (kind_text (fst b))),
     (''key'', JStr (snd b))]"

definition uninstall_action_value :: "uninstall_action \<Rightarrow> jval" where
  "uninstall_action_value a = JObj (case ua_verb a of
     Uninstall_noop \<Rightarrow> [(''action'', JStr ''noop''), (''kind'', JStr (kind_text (ua_kind a))), (''key'', JStr (ua_key a)),
       (''reason'', JStr ''already_absent'')]
   | Uninstall_delete \<Rightarrow> [(''action'', JStr ''delete''), (''kind'', JStr (kind_text (ua_kind a))), (''key'', JStr (ua_key a))])"

definition fingerprintProvider :: "cloud_resource \<Rightarrow> locator" where
  "fingerprintProvider resource = (case cl_provider resource of
     None \<Rightarrow> \<lparr>loc_id = [], loc_parentId = None\<rparr> | Some l \<Rightarrow> l)"

definition provider_sort_text :: "locator \<Rightarrow> string" where
  "provider_sort_text l = parent_or_empty l @ [NUL] @ loc_id l"

definition fingerprint :: "cloud_resource list \<Rightarrow> string \<Rightarrow> receipt_resource \<Rightarrow> jval" where
  "fingerprint observedResources installationId owned =
     (let matches = matchingResources observedResources (rr_kind owned) (rr_key owned) in
      JObj [(''kind'', JStr (kind_text (rr_kind owned))), (''key'', JStr (rr_key owned)),
        (''count'', jint (int (length matches))),
        (''owned'', JBool (case matches of [match] \<Rightarrow> isExactOwnedMatch match owned installationId | _ \<Rightarrow> False)),
        (''providers'', JArr (map locator_value (js_sort (\<lambda>l r. compareText (provider_sort_text l) (provider_sort_text r))
           (map fingerprintProvider matches)))),
        (''hashes'', JArr (map JStr (js_sort compareText (map cl_desiredHash matches))))])"

definition kind_key_text :: "receipt_resource \<Rightarrow> string" where
  "kind_key_text r = kind_text (rr_kind r) @ '':'' @ rr_key r"

definition liveFingerprints :: "cloud_resource list \<Rightarrow> receipt_resource list \<Rightarrow> string \<Rightarrow> jval list" where
  "liveFingerprints observedResources receiptResources installationId =
     map (fingerprint observedResources installationId)
       (js_sort (\<lambda>l r. compareText (kind_key_text l) (kind_key_text r)) receiptResources)"

definition uninstall_digest_value :: "cloud_state \<Rightarrow> receipt \<Rightarrow> jval" where
  "uninstall_digest_value observed receipt =
     (let entries = uninstall_entries observed receipt in
      JObj [(''schemaVersion'', jint 1), (''installationId'', JStr (rc_installationId receipt)),
        (''revision'', jint (rc_revision receipt)), (''state'', JStr (state_text (rc_state receipt))),
        (''receiptChecksum'', case rc_checksum receipt of None \<Rightarrow> Undef | Some c \<Rightarrow> JStr c),
        (''receiptResources'', JArr (map (\<lambda>r. JObj [(''kind'', JStr (kind_text (rr_kind r))), (''key'', JStr (rr_key r)),
            (''provider'', locator_value (rr_provider r)), (''desiredHash'', JStr (rr_desiredHash r))]) (rc_resources receipt))),
        (''blockers'', JArr (map blocker_ref_value (lefts entries))),
        (''actions'', JArr (map uninstall_action_value (rights entries))),
        (''live'', JArr (liveFingerprints (cs_resources observed) (rc_resources receipt) (rc_installationId receipt)))])"

definition uninstall_plan_of :: "(string \<Rightarrow> string) \<Rightarrow> live_state \<Rightarrow> failure + uninstall_preview" where
  "uninstall_plan_of sha live = (case lv_receipt live of
     None \<Rightarrow> Inl (GatewayReconcileError ''receipt_required'')
   | Some receipt \<Rightarrow>
       if (case rc_pending receipt of None \<Rightarrow> False | Some p \<Rightarrow> rp_type p \<noteq> Uninstall_type)
       then Inl (GatewayReconcileError ''pending_apply'')
       else let entries = uninstall_entries (lv_observed live) receipt in
         andThen (hash_or_fail (hashCanonical sha (uninstall_digest_value (lv_observed live) receipt))) (\<lambda>digest.
           Inr \<lparr>up_actions = rights entries, up_blockers = lefts entries, up_installationId = rc_installationId receipt,
             up_observed = lv_observed live, up_receipt = receipt,
             up_uninstallId = ''uninstall-'' @ take 24 (drop 7 digest)\<rparr>))"

end
