(* ===== verification/Observer_Data.thy ===== *)
theory Observer_Data
  imports Reconciler_Checks
begin

text \<open>
  The synchronous parts of \<^verbatim>\<open>src/cloudflare-observed.ts\<close>: how a live object is compared with a desired
  resource, and when a live resource is reported as owned (\<open>makeObserved\<close>). A reported resource and the
  whole observed state are the \<open>cloud_resource\<close> and \<open>cloud_state\<close> the reconciler reads.
\<close>

section \<open>Errors\<close>

datatype observe_failure = Observed_error string | Config_failure config_error | Other_failure

definition SAFE_ERROR_CODES :: "string list" where
  "SAFE_ERROR_CODES = [''invalid_input'', ''provider_read_failed'', ''invalid_provider_response'', ''zone_not_found'',
     ''zone_mismatch'', ''zone_account_mismatch'']"

definition ObservedStateError :: "string \<Rightarrow> observe_failure" where
  "ObservedStateError code = Observed_error (if code \<in> set SAFE_ERROR_CODES then code else ''provider_read_failed'')"

abbreviation invalid_response :: observe_failure where
  "invalid_response \<equiv> ObservedStateError ''invalid_provider_response''"

section \<open>Values\<close>

text \<open>\<^verbatim>\<open>SAFE_ID\<close> is the pattern of the planner's opaque identifiers.\<close>

definition safeId :: "jval \<Rightarrow> string option" where
  "safeId value = safeOpaqueId value"

text \<open>
  \<^verbatim>\<open>left === right\<close> for values of different origin: two arrays or objects are different even if their
  contents agree.
\<close>

fun same_value :: "jval \<Rightarrow> jval \<Rightarrow> bool" where
  "same_value (JArr xs) v = False"
| "same_value (JObj kvs) v = False"
| "same_value u v = (u = v)"

definition stringArray :: "jval \<Rightarrow> string list option" where
  "stringArray value = (case items value of
     None \<Rightarrow> None
   | Some xs \<Rightarrow> if list_all isString xs then Some (map (text_or []) xs) else None)"

definition validHostname :: "jval \<Rightarrow> bool" where
  "validHostname value = (case value of
     JStr s \<Rightarrow> s = toLowerCase s \<and> length s \<le> 253
       \<and> 1 < length (split_at CHR ''.'' s) \<and> list_all (test HOST_LABEL) (split_at CHR ''.'' s)
   | _ \<Rightarrow> False)"

definition normalizeDnsName :: "jval \<Rightarrow> string" where
  "normalizeDnsName value = (case value of
     JStr s \<Rightarrow> let t = toLowerCase s in if t \<noteq> [] \<and> last t = CHR ''.'' then butlast t else t
   | _ \<Rightarrow> [])"

definition emptyRules :: "jval \<Rightarrow> bool" where
  "emptyRules value \<longleftrightarrow> value = Undef \<or> value = JArr []"

definition optionalPromptsAreEmpty :: "jval \<Rightarrow> bool" where
  "optionalPromptsAreEmpty value \<longleftrightarrow> value = Undef \<or> value = JArr []"

definition sameTextSet :: "string list \<Rightarrow> string list \<Rightarrow> bool" where
  "sameTextSet left right \<longleftrightarrow> length left = length right \<and> distinct left \<and> js_sort compareText left = js_sort compareText right"

definition tool_enabled :: "jval \<Rightarrow> (string \<times> bool) option" where
  "tool_enabled tool = (case (field tool ''name'', field tool ''enabled'') of
     (JStr name, JBool enabled) \<Rightarrow> if isObject tool then Some (name, enabled) else None
   | _ \<Rightarrow> None)"

definition sameEnabledTools :: "jval \<Rightarrow> string list \<Rightarrow> bool" where
  "sameEnabledTools tools expected = (case items tools of
     None \<Rightarrow> False
   | Some xs \<Rightarrow> list_all (\<lambda>t. tool_enabled t \<noteq> None) xs
       \<and> sameTextSet (map fst (filter snd (List.map_filter tool_enabled xs))) expected)"

text \<open>The object at a field, or \<open>None\<close>.\<close>

definition object_field :: "jval \<Rightarrow> string \<Rightarrow> jval option" where
  "object_field value k = (if isObject (field value k) then Some (field value k) else None)"

text \<open>\<^verbatim>\<open>x?.k\<close>\<close>

definition maybe_field :: "jval option \<Rightarrow> string \<Rightarrow> jval" where
  "maybe_field value k = (case value of None \<Rightarrow> Undef | Some v \<Rightarrow> field v k)"

definition exactPolicyEmail :: "jval \<Rightarrow> string option" where
  "exactPolicyEmail rule =
     (if \<not> isObject rule \<or> \<not> hasExactKeys rule [''email''] \<or> \<not> isObject (field rule ''email'')
         \<or> \<not> hasExactKeys (field rule ''email'') [''email'']
      then None else text_option (field (field rule ''email'') ''email''))"

definition exactPolicyGroup :: "jval \<Rightarrow> string option" where
  "exactPolicyGroup rule =
     (if \<not> isObject rule \<or> \<not> hasExactKeys rule [''group''] \<or> \<not> isObject (field rule ''group'')
         \<or> \<not> hasExactKeys (field rule ''group'') [''id'']
      then None else safeId (field (field rule ''group'') ''id''))"

definition normalizeAllowedEmails :: "jval \<Rightarrow> string list option" where
  "normalizeAllowedEmails access =
     (if \<not> isObject access then None
      else case items (field access ''allowedEmails'') of
        None \<Rightarrow> None
      | Some raws \<Rightarrow> map_option (\<lambda>emails. js_sort compareText (uniq emails)) (all_or_none readEmail raws))"

section \<open>Locators and markers\<close>

abbreviation locator_at :: "string \<Rightarrow> locator" where
  "locator_at i \<equiv> \<lparr>loc_id = i, loc_parentId = None\<rparr>"

definition sameLocator :: "locator option \<Rightarrow> locator option \<Rightarrow> bool" where
  "sameLocator left right = (case (left, right) of
     (Some l, Some r) \<Rightarrow> loc_id l = loc_id r \<and> parent_or_empty l = parent_or_empty r
   | _ \<Rightarrow> False)"

definition hasLocator :: "cloud_resource list \<Rightarrow> resource_kind \<Rightarrow> string \<Rightarrow> locator option \<Rightarrow> bool" where
  "hasLocator resources kind key locator =
     list_ex (\<lambda>r. cl_kind r = kind \<and> cl_key r = key \<and> sameLocator (cl_provider r) locator) resources"

definition pushObserved :: "cloud_resource list \<Rightarrow> cloud_resource \<Rightarrow> cloud_resource list" where
  "pushObserved resources r =
     (if hasLocator resources (cl_kind r) (cl_key r) (cl_provider r) then resources else resources @ [r])"

text \<open>A resource that is there and proven to be nobody's in particular.\<close>

definition unproven :: "resource_kind \<Rightarrow> string \<Rightarrow> locator option \<Rightarrow> cloud_resource" where
  "unproven kind key provider = \<lparr>cl_desiredHash = [], cl_key = key, cl_kind = kind, cl_installationId = None,
     cl_manager = None, cl_provider = provider\<rparr>"

definition marker_of :: "string \<Rightarrow> string \<Rightarrow> observe_failure + string" where
  "marker_of installationId key = (case ownershipMarker (JStr installationId) (JStr key) of
     Inl e \<Rightarrow> Inl Other_failure | Inr m \<Rightarrow> Inr m)"

section \<open>Comparing with the desired resource\<close>

definition metadata_installation :: "jval \<Rightarrow> string option" where
  "metadata_installation expected = (case object_field expected ''metadata'' of
     None \<Rightarrow> None | Some metadata \<Rightarrow> text_option (field metadata ''installationId''))"

text \<open>\<^verbatim>\<open>live.description === ownershipMarker(...)\<close>; the marker of a desired resource can always be built.\<close>

definition carries_marker :: "jval \<Rightarrow> string \<Rightarrow> string \<Rightarrow> observe_failure + bool" where
  "carries_marker value installationId key = andThen (marker_of installationId key) (\<lambda>m. Inr (value = JStr m))"

definition serverCreationIdentityMatches :: "jval \<Rightarrow> desired_resource \<Rightarrow> observe_failure + bool" where
  "serverCreationIdentityMatches live desired =
     (let expected = rs_desired desired in
      case (object_field expected ''authentication'', metadata_installation expected) of
        (Some authentication, Some installationId) \<Rightarrow>
          let authType = (if field authentication ''mode'' = JStr ''none'' then ''unauthenticated''
                else if field authentication ''mode'' = JStr ''oauth'' then ''oauth'' else ''bearer'') in
          if field live ''id'' = JStr (rs_key desired) \<and> same_value (field live ''hostname'') (field expected ''endpoint'')
             \<and> field live ''auth_type'' = JStr authType
          then carries_marker (field live ''description'') installationId (rs_key desired) else Inr False
      | _ \<Rightarrow> Inr False)"

definition expectedToolsDiscovered :: "jval \<Rightarrow> string list \<Rightarrow> bool" where
  "expectedToolsDiscovered tools expected = (case items tools of
     None \<Rightarrow> False
   | Some xs \<Rightarrow> list_all (\<lambda>t. isObject t \<and> isString (field t ''name'')) xs
       \<and> (let names = map (\<lambda>t. text_or [] (field t ''name'')) xs in
           distinct names \<and> list_all (\<lambda>n. n \<in> set names) expected))"

definition serverMatches :: "jval \<Rightarrow> desired_resource \<Rightarrow> observe_failure + bool" where
  "serverMatches live desired =
     (let expected = rs_desired desired in
      case Option.bind (object_field expected ''toolPolicy'') (\<lambda>p. stringArray (field p ''allowedTools'')) of
        None \<Rightarrow> Inr False
      | Some allowedTools \<Rightarrow> andThen (serverCreationIdentityMatches live desired) (\<lambda>same. Inr (same
          \<and> same_value (field live ''name'') (field expected ''name'')
          \<and> same_value (field live ''secure_web_gateway'') (field expected ''secureWebGateway'')
          \<and> field live ''status'' = JStr ''ready''
          \<and> expectedToolsDiscovered (field live ''tools'') allowedTools
          \<and> optionalPromptsAreEmpty (field live ''updated_prompts'')
          \<and> sameEnabledTools (field live ''updated_tools'') allowedTools)))"

definition server_reference :: "jval \<Rightarrow> jval" where
  "server_reference server = (case field server ''server_id'' of Undef \<Rightarrow> field server ''id'' | JNull \<Rightarrow> field server ''id'' | v \<Rightarrow> v)"

definition mappingMatches :: "jval list \<Rightarrow> jval \<Rightarrow> bool" where
  "mappingMatches liveServers mapping \<longleftrightarrow> isObject mapping
     \<and> (case filter (\<lambda>s. isObject s \<and> same_value (server_reference s) (field mapping ''sourceResourceKey'')) liveServers of
          [server] \<Rightarrow> (case stringArray (field mapping ''allowedTools'') of
              None \<Rightarrow> False
            | Some allowedTools \<Rightarrow> field server ''default_disabled'' = JBool True
                \<and> same_value (field server ''on_behalf'') (field mapping ''onBehalfOfUser'')
                \<and> optionalPromptsAreEmpty (field server ''updated_prompts'')
                \<and> sameEnabledTools (field server ''updated_tools'') allowedTools)
        | _ \<Rightarrow> False)"

definition portalBaseMatches :: "jval \<Rightarrow> desired_resource \<Rightarrow> observe_failure + bool" where
  "portalBaseMatches live desired =
     (let expected = rs_desired desired in
      case (metadata_installation expected, items (field expected ''sourceMappings'')) of
        (Some installationId, Some mappings) \<Rightarrow>
          if field live ''id'' \<noteq> JStr (rs_key desired) \<or> \<not> same_value (field live ''name'') (field expected ''name'')
             \<or> \<not> same_value (field live ''hostname'') (field expected ''hostname'') \<or> \<not> same_value (field live ''code_mode'') (field expected ''codeMode'')
             \<or> \<not> same_value (field live ''secure_web_gateway'') (field expected ''secureWebGateway'')
          then Inr False
          else andThen (carries_marker (field live ''description'') installationId (rs_key desired)) (\<lambda>marked. Inr (marked
            \<and> (case items (field live ''servers'') of
                 None \<Rightarrow> False
               | Some liveServers \<Rightarrow> length liveServers = length mappings \<and> list_all (mappingMatches liveServers) mappings)))
      | _ \<Rightarrow> Inr False)"

definition dnsMatches :: "jval \<Rightarrow> desired_resource \<Rightarrow> observe_failure + bool" where
  "dnsMatches live desired =
     (let expected = rs_desired desired in
      case metadata_installation expected of
        None \<Rightarrow> Inr False
      | Some installationId \<Rightarrow>
          if same_value (field live ''type'') (field expected ''recordType'')
             \<and> normalizeDnsName (field live ''name'') = normalizeDnsName (field expected ''hostname'')
             \<and> normalizeDnsName (field live ''content'') = normalizeDnsName (field expected ''content'')
             \<and> same_value (field live ''proxied'') (field expected ''proxied'')
          then carries_marker (field live ''comment'') installationId (rs_key desired) else Inr False)"

definition managedOauthMatches :: "jval \<Rightarrow> jval \<Rightarrow> bool" where
  "managedOauthMatches app expected =
     (if \<not> isObject expected then False
      else let oauth = object_field app ''oauth_configuration'';
               registration = Option.bind oauth (\<lambda>c. object_field c ''dynamic_client_registration'');
               grant = Option.bind oauth (\<lambda>c. object_field c ''grant'');
               expectedRegistration = object_field expected ''dynamicClientRegistration'';
               expectedGrant = object_field expected ''grant'' in
        field expected ''mode'' = JStr ''managed_oauth'' \<and> maybe_field oauth ''enabled'' = JBool True
        \<and> same_value (maybe_field registration ''enabled'') (maybe_field expectedRegistration ''enabled'')
        \<and> same_value (maybe_field registration ''allow_any_on_localhost'') (maybe_field expectedRegistration ''allowAnyOnLocalhost'')
        \<and> same_value (maybe_field registration ''allow_any_on_loopback'') (maybe_field expectedRegistration ''allowAnyOnLoopback'')
        \<and> same_value (maybe_field grant ''access_token_lifetime'') (maybe_field expectedGrant ''accessTokenLifetime'')
        \<and> same_value (maybe_field grant ''session_duration'') (maybe_field expectedGrant ''sessionDuration''))"

section \<open>Access applications\<close>

definition is_portal_destination :: "jval \<Rightarrow> jval \<Rightarrow> bool" where
  "is_portal_destination serverId destination \<longleftrightarrow> isObject destination
     \<and> field destination ''type'' = JStr ''via_mcp_server_portal'' \<and> same_value (field destination ''mcp_server_id'') serverId"

definition isServerApp :: "jval \<Rightarrow> jval \<Rightarrow> bool" where
  "isServerApp app serverId \<longleftrightarrow> isObject app \<and> field app ''type'' = JStr ''mcp''
     \<and> (case items (field app ''destinations'') of None \<Rightarrow> False | Some ds \<Rightarrow> list_ex (is_portal_destination serverId) ds)"

definition sourceAppHasNoDomain :: "jval \<Rightarrow> bool" where
  "sourceAppHasNoDomain app \<longleftrightarrow> field app ''domain'' \<in> {Undef, JNull}"

definition source_destination :: "jval \<Rightarrow> string \<Rightarrow> jval option" where
  "source_destination app marker =
     (if field app ''name'' \<noteq> JStr marker \<or> field app ''type'' \<noteq> JStr ''mcp'' \<or> \<not> sourceAppHasNoDomain app then None
      else case items (field app ''destinations'') of
        Some [d] \<Rightarrow> if isObject d \<and> join_with '','' (js_sort compareText (keys d)) = ''mcp_server_id,type''
            \<and> field d ''type'' = JStr ''via_mcp_server_portal'' then Some d else None
      | _ \<Rightarrow> None)"

definition sourceAccessApplicationBaseMatches :: "jval \<Rightarrow> jval \<Rightarrow> string \<Rightarrow> bool" where
  "sourceAccessApplicationBaseMatches app serverId marker =
     (case source_destination app marker of None \<Rightarrow> False | Some d \<Rightarrow> same_value (field d ''mcp_server_id'') serverId)"

definition sourceAccessApplicationMatches :: "jval \<Rightarrow> jval \<Rightarrow> string \<Rightarrow> bool" where
  "sourceAccessApplicationMatches app serverId marker = sourceAccessApplicationBaseMatches app serverId marker"

definition sourceAccessApplicationReceiptMatches ::
    "jval \<Rightarrow> receipt_resource \<Rightarrow> receipt_resource list \<Rightarrow> string \<Rightarrow> observe_failure + bool" where
  "sourceAccessApplicationReceiptMatches app owned receiptResources installationId =
     andThen (marker_of installationId (rr_key owned)) (\<lambda>marker. Inr (case source_destination app marker of
        None \<Rightarrow> False
      | Some d \<Rightarrow> list_ex (\<lambda>r. rr_kind r = Mcp_server \<and> JStr (loc_id (rr_provider r)) = field d ''mcp_server_id'') receiptResources))"

definition portalAccessApplicationBaseMatches :: "jval \<Rightarrow> jval \<Rightarrow> bool" where
  "portalAccessApplicationBaseMatches app expected =
     (let destinationSpec = object_field expected ''destination''; hostname = field expected ''hostname'' in
      if \<not> same_value (field app ''name'') (field expected ''name'') \<or> field expected ''applicationType'' \<noteq> JStr ''mcp_portal''
         \<or> maybe_field destinationSpec ''type'' \<noteq> JStr ''public'' \<or> \<not> same_value (maybe_field destinationSpec ''uri'') hostname
         \<or> field app ''type'' \<noteq> JStr ''mcp_portal'' \<or> \<not> same_value (field app ''domain'') hostname
      then False
      else case items (field app ''destinations'') of
        Some [d] \<Rightarrow> isObject d \<and> join_with '','' (js_sort compareText (keys d)) = ''type,uri''
          \<and> field d ''type'' = JStr ''public'' \<and> same_value (field d ''uri'') hostname
      | _ \<Rightarrow> False)"

definition portalAccessApplicationMatches :: "jval \<Rightarrow> jval \<Rightarrow> bool" where
  "portalAccessApplicationMatches app expected \<longleftrightarrow>
     portalAccessApplicationBaseMatches app expected \<and> managedOauthMatches app (field expected ''authentication'')"

definition isPortalAppCandidate :: "jval \<Rightarrow> jval \<Rightarrow> bool" where
  "isPortalAppCandidate app hostname \<longleftrightarrow> isObject app \<and> field app ''type'' = JStr ''mcp_portal''
     \<and> (same_value (field app ''domain'') hostname
        \<or> (case items (field app ''destinations'') of None \<Rightarrow> False
           | Some ds \<Rightarrow> list_ex (\<lambda>d. isObject d \<and> field d ''type'' = JStr ''public'' \<and> same_value (field d ''uri'') hostname) ds))"

text \<open>The identifier of a listed application, the only part of it that is used.\<close>

definition requireObservedApp :: "jval \<Rightarrow> observe_failure + string" where
  "requireObservedApp app = (case (if isObject app then safeId (field app ''id'') else None) of
     None \<Rightarrow> Inl invalid_response | Some i \<Rightarrow> Inr i)"

definition exactReturnedId :: "jval \<Rightarrow> string \<Rightarrow> observe_failure + string" where
  "exactReturnedId live expectedId =
     (if (if isObject live then safeId (field live ''id'') else None) = Some expectedId
      then Inr expectedId else Inl invalid_response)"

section \<open>Policies\<close>

definition inlinePoliciesAreEmpty :: "jval \<Rightarrow> bool" where
  "inlinePoliciesAreEmpty app \<longleftrightarrow> ''policies'' \<notin> set (keys app) \<or> field app ''policies'' = JArr []"

text \<open>The identifier an inline policy gives: itself, where it is a text, or its field.\<close>

definition inline_id :: "jval \<Rightarrow> string option" where
  "inline_id p = safeId (if isString p then p else if isObject p then field p ''id'' else Undef)"

definition inline_agrees :: "jval list \<Rightarrow> jval \<Rightarrow> bool" where
  "inline_agrees policies p \<longleftrightarrow>
     (isObject p \<and> ''name'' \<in> set (keys p)
       \<longrightarrow> (\<exists>q \<in> set policies. safeId (field q ''id'') = inline_id p \<and> same_value (field q ''name'') (field p ''name'')))"

definition inlinePoliciesMatchListedPolicies :: "jval \<Rightarrow> jval list \<Rightarrow> bool" where
  "inlinePoliciesMatchListedPolicies app policies =
     (if inlinePoliciesAreEmpty app then True
      else case items (field app ''policies'') of
        None \<Rightarrow> False
      | Some inline \<Rightarrow>
          length inline = length policies
          \<and> list_all (\<lambda>p. isObject p \<and> safeId (field p ''id'') \<noteq> None) policies
          \<and> distinct (map (\<lambda>p. safeId (field p ''id'')) policies)
          \<and> list_all (\<lambda>p. inline_id p \<noteq> None \<and> inline_id p \<in> set (map (\<lambda>p. safeId (field p ''id'')) policies)) inline
          \<and> distinct (map inline_id inline)
          \<and> list_all (inline_agrees policies) inline)"

definition identity_count :: "jval \<Rightarrow> int" where
  "identity_count value = (case value of JNum (JInt i) \<Rightarrow> i | _ \<Rightarrow> 0)"

text \<open>A malformed canary identifier makes \<^verbatim>\<open>canaryServiceTokenId\<close> throw.\<close>

definition policyMatches :: "platform \<Rightarrow> jval \<Rightarrow> jval \<Rightarrow> jval \<Rightarrow> observe_failure + bool" where
  "policyMatches pf policy desired access =
     (let allow = field desired ''allow''; sha = pf_sha pf in
      if \<not> isObject policy \<or> \<not> emptyRules (field policy ''exclude'') \<or> \<not> emptyRules (field policy ''require'') then Inr False
      else case items (field policy ''include'') of
        None \<Rightarrow> Inr False
      | Some include \<Rightarrow>
          if \<not> isObject allow then Inr False
          else (case text_option (field allow ''identitiesHash'') of
            None \<Rightarrow> Inr False
          | Some identitiesHash \<Rightarrow>
              if \<not> isNumber (field allow ''identityCount'') then Inr False
              else if field allow ''identitiesRef'' = JStr ''access.canaryServiceTokenId''
                      \<and> field allow ''identityType'' = JStr ''service_token''
              then (case canaryServiceTokenId access of
                  Inl e \<Rightarrow> Inl Other_failure
                | Inr None \<Rightarrow> Inr False
                | Inr (Some i) \<Rightarrow>
                    if field allow ''identityCount'' \<noteq> jint 1 then Inr False
                    else (case canaryServiceIdentityDigest sha i of
                        Inl e \<Rightarrow> Inl Other_failure
                      | Inr digest \<Rightarrow> Inr (digest = identitiesHash \<and> serviceTokenPolicyMatchesDigest sha policy identitiesHash)))
              else if field policy ''decision'' \<noteq> JStr ''allow'' then Inr False
              else if field allow ''identitiesRef'' = JStr ''access.allowedEmails'' \<and> field allow ''identityType'' = JStr ''email''
              then (case normalizeAllowedEmails access of
                  None \<Rightarrow> Inr False
                | Some allowedEmails \<Rightarrow>
                    if field allow ''identityCount'' \<noteq> jint (int (length allowedEmails)) \<or> length include \<noteq> length allowedEmails
                    then Inr False
                    else (case all_or_none exactPolicyEmail include of
                        None \<Rightarrow> Inr False
                      | Some emails \<Rightarrow> Inr (sameTextSet (map (\<lambda>e. toLowerCase (js_trim e)) emails) allowedEmails)))
              else if field allow ''identitiesRef'' = JStr ''access.groups'' \<and> field allow ''identityType'' = JStr ''group''
              then (case resolveAccessGroupByDigest sha access (identity_count (field allow ''identityCount'')) identitiesHash of
                  None \<Rightarrow> Inr False
                | Some g \<Rightarrow> Inr (case include of [rule] \<Rightarrow> exactPolicyGroup rule = Some (ag_id g) | _ \<Rightarrow> False))
              else Inr False))"

section \<open>Ownership\<close>

definition pendingCreateMatches :: "receipt option \<Rightarrow> desired_resource \<Rightarrow> bool" where
  "pendingCreateMatches receipt desired = (case Option.bind receipt rc_pending of
     None \<Rightarrow> False
   | Some p \<Rightarrow> rp_type p = Apply_type \<and> rp_action p = Create_action \<and> rp_kind p = rs_kind desired
       \<and> rp_key p = rs_key desired \<and> rp_expectedDesiredHash p = dr_desiredHash desired)"

definition desiredInstallationId :: "desired_resource option \<Rightarrow> string option" where
  "desiredInstallationId desired = (case desired of
     None \<Rightarrow> None
   | Some d \<Rightarrow> (case object_field (rs_desired d) ''metadata'' of None \<Rightarrow> None | Some m \<Rightarrow> safeId (field m ''installationId'')))"

definition trusted_resources :: "receipt option \<Rightarrow> receipt_resource list" where
  "trusted_resources receipt = (case receipt of None \<Rightarrow> [] | Some r \<Rightarrow> rc_resources r)"

definition pending_create :: "receipt option \<Rightarrow> resource_kind \<Rightarrow> string \<Rightarrow> desired_resource option \<Rightarrow> bool" where
  "pending_create receipt kind key desired = (case (Option.bind receipt rc_pending, desired) of
     (Some p, Some d) \<Rightarrow> rp_type p = Apply_type \<and> rp_action p = Create_action \<and> rp_kind p = kind \<and> rp_key p = key
       \<and> rp_expectedDesiredHash p = dr_desiredHash d
   | _ \<Rightarrow> False)"

definition receipt_entry :: "receipt option \<Rightarrow> resource_kind \<Rightarrow> string \<Rightarrow> locator \<Rightarrow> receipt_resource option" where
  "receipt_entry receipt kind key locator =
     find (\<lambda>r. rr_kind r = kind \<and> rr_key r = key \<and> sameLocator (Some (rr_provider r)) (Some locator)) (trusted_resources receipt)"

text \<open>A policy that admits a machine identity is only owned if that identity is the receipt's.\<close>

definition machine_identity_proven ::
    "resource_kind \<Rightarrow> bool \<Rightarrow> desired_resource option \<Rightarrow> receipt option \<Rightarrow> receipt_resource option \<Rightarrow> bool \<Rightarrow> bool" where
  "machine_identity_proven kind liveMatchesDesired desired receipt entry pendingMatches =
     (let allow = (case desired of None \<Rightarrow> None | Some d \<Rightarrow> object_field (rs_desired d) ''allow'');
          receiptType = map_option (\<lambda>r. ap_identityType (rc_accessPolicy r)) receipt;
          service = (maybe_field allow ''identityType'' = JStr ''service_token'') in
      \<not> (is_policy kind \<and> (service \<or> receiptType = Some ''service_token''))
      \<or> liveMatchesDesired \<and> service \<and> receiptType = Some ''service_token''
        \<and> (case receipt of None \<Rightarrow> False
           | Some r \<Rightarrow> maybe_field allow ''identitiesHash'' = JStr (ap_identitiesHash (rc_accessPolicy r)))
        \<and> (map_option JStr (Option.bind entry rr_identityHash) = Some (maybe_field allow ''identitiesHash'') \<or> pendingMatches))"

definition is_owned ::
    "resource_kind \<Rightarrow> bool \<Rightarrow> bool \<Rightarrow> desired_resource option \<Rightarrow> receipt option \<Rightarrow> receipt_resource option \<Rightarrow> bool \<Rightarrow> bool \<Rightarrow> bool" where
  "is_owned kind markerMatches liveMatchesDesired desired receipt entry pendingMatches provenance =
     (if kind = Portal_access_application then entry \<noteq> None
      else machine_identity_proven kind liveMatchesDesired desired receipt entry pendingMatches \<and> markerMatches
        \<and> (entry \<noteq> None \<or> pendingMatches \<and> (kind \<noteq> Source_access_application \<or> provenance)))"

definition makeObserved :: "resource_kind \<Rightarrow> string \<Rightarrow> locator \<Rightarrow> jval \<Rightarrow> bool \<Rightarrow> desired_resource option
    \<Rightarrow> receipt option \<Rightarrow> bool \<Rightarrow> observe_failure + cloud_resource" where
  "makeObserved kind key locator marker liveMatchesDesired desired receipt pendingCreateProvenance =
     andThen (marker_of (case receipt of Some r \<Rightarrow> rc_installationId r
         | None \<Rightarrow> (case desiredInstallationId desired of Some i \<Rightarrow> i | None \<Rightarrow> ''invalid'')) key) (\<lambda>expectedMarker.
      let entry = receipt_entry receipt kind key locator;
          owned = is_owned kind (marker = JStr expectedMarker) liveMatchesDesired desired receipt entry
            (pending_create receipt kind key desired) pendingCreateProvenance in
      Inr \<lparr>cl_desiredHash = (if liveMatchesDesired then (case desired of None \<Rightarrow> [] | Some d \<Rightarrow> dr_desiredHash d) else []),
        cl_key = key, cl_kind = kind,
        cl_installationId = (if owned then map_option rc_installationId receipt else None),
        cl_manager = (if owned \<and> receipt \<noteq> None then Some MANAGER else None),
        cl_provider = Some locator\<rparr>)"

section \<open>Order\<close>

definition compareObserved :: "cloud_resource \<Rightarrow> cloud_resource \<Rightarrow> int" where
  "compareObserved left right =
     or_else (compareText (kind_text (cl_kind left)) (kind_text (cl_kind right)))
       (or_else (compareText (cl_key left) (cl_key right))
         (or_else (compareText (case cl_provider left of None \<Rightarrow> [] | Some l \<Rightarrow> parent_or_empty l)
              (case cl_provider right of None \<Rightarrow> [] | Some l \<Rightarrow> parent_or_empty l))
           (compareText (case cl_provider left of None \<Rightarrow> [] | Some l \<Rightarrow> loc_id l)
              (case cl_provider right of None \<Rightarrow> [] | Some l \<Rightarrow> loc_id l))))"

definition compareDiagnostics :: "cloud_diagnostic \<Rightarrow> cloud_diagnostic \<Rightarrow> int" where
  "compareDiagnostics left right =
     or_else (compareText (cd_code left) (cd_code right))
       (or_else (compareText (case cd_kind left of None \<Rightarrow> [] | Some k \<Rightarrow> kind_text k) (case cd_kind right of None \<Rightarrow> [] | Some k \<Rightarrow> kind_text k))
         (compareText (case cd_key left of None \<Rightarrow> [] | Some k \<Rightarrow> k) (case cd_key right of None \<Rightarrow> [] | Some k \<Rightarrow> k)))"

end
