(* ===== verification/Observer.thy ===== *)
theory Observer
  imports Observer_Data
begin

text \<open>
  \<^verbatim>\<open>readCloudflareObservedState\<close> of \<^verbatim>\<open>src/cloudflare-observed.ts\<close>, as a program over the calls to the
  provider's read client. The calls of \<^verbatim>\<open>Promise.all\<close> are made in the order of the list and the first
  failure in that order is reported. The loops thread the resources and the diagnostics collected so
  far, which the code keeps in two arrays.
\<close>

section \<open>The provider\<close>

datatype observe_call =
    Get_zone
  | List_identity_providers
  | Get_mcp_server string
  | Get_portal string
  | List_dns_records string
  | List_access_apps
  | Get_access_app string
  | Get_dns_record string
  | List_app_policies string
  | Get_app_policy string string

type_synonym 'x observing = "(observe_call, observe_failure + jval, observe_failure, 'x) action"

text \<open>
  An \<open>ObservedStateError\<close> is rethrown; its constructor has masked its code already, so that constructing
  it again from its code gives the same error.
\<close>

definition provider_failure :: "observe_failure \<Rightarrow> observe_failure" where
  "provider_failure e = (case e of Observed_error code \<Rightarrow> ObservedStateError code | _ \<Rightarrow> ObservedStateError ''provider_read_failed'')"

definition providerRead :: "observe_call \<Rightarrow> jval observing" where
  "providerRead c = catch (call c) (\<lambda>e. throw (provider_failure e))"

definition read_list :: "observe_call \<Rightarrow> jval list observing" where
  "read_list c = seq (providerRead c) (\<lambda>v. case items v of None \<Rightarrow> throw invalid_response | Some xs \<Rightarrow> return xs)"

text \<open>\<^verbatim>\<open>for (const x of xs)\<close> over the collected state.\<close>

primrec each :: "('x \<Rightarrow> 's \<Rightarrow> ('c, 'a, 'e, 's) action) \<Rightarrow> 'x list \<Rightarrow> 's \<Rightarrow> ('c, 'a, 'e, 's) action" where
  "each f [] = return"
| "each f (x # xs) = (\<lambda>s. seq (f x s) (each f xs))"

text \<open>All the reads of a list, then the first failure.\<close>

primrec each_read :: "('x \<Rightarrow> ('c, 'a, 'e, 'y) action) \<Rightarrow> 'x list \<Rightarrow> ('c, 'a, 'e, ('e + 'y) list) action" where
  "each_read f [] = return []"
| "each_read f (x # xs) = seq (attempt (f x)) (\<lambda>r. seq (each_read f xs) (\<lambda>rs. return (r # rs)))"

definition all_settled :: "('e + 'y) list \<Rightarrow> 'e + 'y list" where
  "all_settled = map_or_throw id"

section \<open>Input and state\<close>

record observe_input =
  oi_access :: jval
  oi_config :: jval
  oi_receipt :: jval
  oi_target :: jval

record observed_so_far =
  os_resources :: "cloud_resource list"
  os_diagnostics :: "cloud_diagnostic list"

text \<open>What the loops read: the access input, the desired state and the trusted receipt.\<close>

record observation =
  ob_access :: jval
  ob_desiredState :: desired_state
  ob_receipt :: "receipt option"

definition diagnostic :: "string \<Rightarrow> resource_kind \<Rightarrow> string \<Rightarrow> nat option \<Rightarrow> cloud_diagnostic" where
  "diagnostic code kind key counted = \<lparr>cd_code = code, cd_count = map_option (\<lambda>n. JInt (int n)) counted, cd_key = Some key, cd_kind = Some kind\<rparr>"

definition bare_diagnostic :: "string \<Rightarrow> cloud_diagnostic" where
  "bare_diagnostic code = \<lparr>cd_code = code, cd_count = None, cd_key = None, cd_kind = None\<rparr>"

definition noted :: "cloud_diagnostic \<Rightarrow> observed_so_far \<Rightarrow> observed_so_far" where
  "noted d s = s\<lparr>os_diagnostics := os_diagnostics s @ [d]\<rparr>"

definition pushed :: "cloud_resource \<Rightarrow> observed_so_far \<Rightarrow> observed_so_far" where
  "pushed r s = s\<lparr>os_resources := pushObserved (os_resources s) r\<rparr>"

definition push_made :: "observe_failure + cloud_resource \<Rightarrow> observed_so_far \<Rightarrow> observed_so_far observing" where
  "push_made made s = seq (lift made) (\<lambda>r. return (pushed r s))"

definition normalizeSelectedTarget :: "jval \<Rightarrow> observe_failure + string \<times> string" where
  "normalizeSelectedTarget target =
     (if \<not> isObject target then Inl (ObservedStateError ''invalid_input'')
      else case (safeId (field target ''accountId''), safeId (field target ''zoneId'')) of
        (Some accountId, Some zoneId) \<Rightarrow> Inr (accountId, zoneId)
      | _ \<Rightarrow> Inl (ObservedStateError ''invalid_input''))"

definition verifyZone :: "jval \<Rightarrow> string \<times> string \<Rightarrow> observe_failure + verified_target" where
  "verifyZone zone target =
     (if zone = JNull then Inl (ObservedStateError ''zone_not_found'')
      else if \<not> isObject zone then Inl invalid_response
      else if field zone ''id'' \<noteq> JStr (snd target) then Inl (ObservedStateError ''zone_mismatch'')
      else if \<not> isObject (field zone ''account'') \<or> field (field zone ''account'') ''id'' \<noteq> JStr (fst target)
      then Inl (ObservedStateError ''zone_account_mismatch'')
      else if \<not> validHostname (field zone ''name'') \<or> \<not> isString (field zone ''status'') then Inl invalid_response
      else Inr \<lparr>vt_accountId = fst target, vt_zeroTrustReady = False, vt_zoneId = snd target,
        vt_zoneName = text_or [] (field zone ''name''), vt_zoneStatus = text_or [] (field zone ''status'')\<rparr>)"

definition expected_target_value :: "verified_target \<Rightarrow> string \<Rightarrow> jval" where
  "expected_target_value target hostname = JObj [(''accountId'', JStr (vt_accountId target)), (''zoneId'', JStr (vt_zoneId target)),
     (''zoneName'', JStr (vt_zoneName target)), (''hostname'', JStr hostname)]"

definition readTrustedReceipt :: "(string \<Rightarrow> string) \<Rightarrow> jval \<Rightarrow> string \<Rightarrow> jval \<Rightarrow> receipt option \<times> cloud_diagnostic list" where
  "readTrustedReceipt sha receipt installationId expectedTarget =
     (if receipt \<in> {Undef, JNull} then (None, [])
      else case validateInstallationReceipt sha receipt (JObj [(''expectedTarget'', expectedTarget)]) of
        Inl e \<Rightarrow> (None, [bare_diagnostic ''invalid_receipt''])
      | Inr trusted \<Rightarrow> if rc_installationId trusted \<noteq> installationId then (None, [bare_diagnostic ''invalid_receipt''])
          else (Some trusted, []))"

definition desired_at :: "observation \<Rightarrow> resource_kind \<Rightarrow> string \<Rightarrow> desired_resource option" where
  "desired_at ob kind key = find (\<lambda>d. rs_kind d = kind \<and> rs_key d = key) (rev (ds_resources (ob_desiredState ob)))"

definition desired_of_kind :: "observation \<Rightarrow> resource_kind \<Rightarrow> desired_resource list" where
  "desired_of_kind ob kind = filter (\<lambda>d. rs_kind d = kind) (ds_resources (ob_desiredState ob))"

definition receiptResources :: "observation \<Rightarrow> receipt_resource list" where
  "receiptResources ob = trusted_resources (ob_receipt ob)"

definition observed_marker :: "observation \<Rightarrow> string \<Rightarrow> observe_failure + string" where
  "observed_marker ob key = marker_of (ds_installationId (ob_desiredState ob)) key"

section \<open>Servers and portals\<close>

definition buildEntityReads :: "resource_kind \<Rightarrow> desired_resource list \<Rightarrow> receipt_resource list \<Rightarrow> (string \<times> string) list" where
  "buildEntityReads kind desiredResources receipt_entries =
     uniq (map (\<lambda>d. (rs_key d, rs_key d)) (filter (\<lambda>d. rs_kind d = kind) desiredResources)
       @ map (\<lambda>r. (rr_key r, loc_id (rr_provider r))) (filter (\<lambda>r. rr_kind r = kind) receipt_entries))"

text \<open>The key, the identifier and the live object, if there is one.\<close>

definition read_entity :: "(string \<Rightarrow> observe_call) \<Rightarrow> string \<times> string \<Rightarrow> (string \<times> string \<times> jval option) observing" where
  "read_entity reader read = seq (providerRead (reader (snd read))) (\<lambda>live.
     if live = JNull then return (fst read, snd read, None)
     else if \<not> isObject live then throw invalid_response
     else seq (lift (exactReturnedId live (snd read))) (\<lambda>i. return (fst read, i, Some live)))"

definition readEntities :: "(string \<times> string) list \<Rightarrow> (string \<Rightarrow> observe_call)
    \<Rightarrow> (observe_failure + (string \<times> string \<times> jval option)) list observing" where
  "readEntities reads reader = each_read (read_entity reader) reads"

definition observe_entity :: "observation \<Rightarrow> resource_kind \<Rightarrow> (jval \<Rightarrow> desired_resource \<Rightarrow> observe_failure + bool)
    \<Rightarrow> string \<times> string \<times> jval option \<Rightarrow> observed_so_far \<Rightarrow> observed_so_far observing" where
  "observe_entity ob kind matches result s = (case result of
     (key, i, None) \<Rightarrow> return s
   | (key, i, Some live) \<Rightarrow>
       let desired = desired_at ob kind key in
       seq (lift (case desired of None \<Rightarrow> Inr False
         | Some d \<Rightarrow> if pendingCreateMatches (ob_receipt ob) d then matches live d else Inr False)) (\<lambda>pendingCreateCanRecover.
       seq (lift (case desired of None \<Rightarrow> Inr False | Some d \<Rightarrow> andThen (matches live d) (\<lambda>m. Inr (m \<or> pendingCreateCanRecover)))) (\<lambda>liveMatches.
         push_made (makeObserved kind key (locator_at i) (field live ''description'') liveMatches desired (ob_receipt ob) False) s)))"

section \<open>Access applications\<close>

text \<open>The listed candidates by their identifiers, with the application the receipt names.\<close>

definition with_receipt_candidate :: "observation \<Rightarrow> desired_resource \<Rightarrow> string list \<Rightarrow> string list observing" where
  "with_receipt_candidate ob desired candidates =
     (case find (\<lambda>r. rr_kind r = rs_kind desired \<and> rr_key r = rs_key desired) (receiptResources ob) of
        None \<Rightarrow> return candidates
      | Some entry \<Rightarrow> let i = loc_id (rr_provider entry) in
          if i \<in> set candidates then return candidates
          else seq (providerRead (Get_access_app i)) (\<lambda>exact.
            if exact = JNull then return candidates
            else seq (lift (exactReturnedId exact i)) (\<lambda>_.
              seq (lift (requireObservedApp exact)) (\<lambda>j. return (candidates @ [j])))))"

text \<open>A candidate that is not the application it was listed as.\<close>

definition mismatched :: "desired_resource \<Rightarrow> string \<Rightarrow> observed_so_far \<Rightarrow> observed_so_far" where
  "mismatched desired candidate s =
     pushed (unproven (rs_kind desired) (rs_key desired) (Some (locator_at candidate)))
       (noted (diagnostic ''access_app_provenance_mismatch'' (rs_kind desired) (rs_key desired) None) s)"

definition note_ambiguous :: "desired_resource \<Rightarrow> nat \<Rightarrow> observed_so_far \<Rightarrow> observed_so_far" where
  "note_ambiguous desired seen s = (if 1 < seen
     then noted (diagnostic ''access_app_ambiguous'' (rs_kind desired) (rs_key desired) (Some seen)) s else s)"

definition is_exactly :: "jval \<Rightarrow> string \<Rightarrow> bool" where
  "is_exactly live candidate \<longleftrightarrow> isObject live \<and> safeId (field live ''id'') = Some candidate"

text \<open>Whether a pending creation can be recovered from an application that has no policies yet.\<close>

definition pending_base_recovers :: "bool \<Rightarrow> string \<Rightarrow> jval \<Rightarrow> bool observing" where
  "pending_base_recovers eligible candidate live =
     (if eligible \<and> inlinePoliciesAreEmpty live
      then seq (read_list (List_app_policies candidate)) (\<lambda>policies. return (policies = []))
      else return False)"

definition observe_source_candidate :: "observation \<Rightarrow> desired_resource \<Rightarrow> string \<Rightarrow> bool \<Rightarrow> string
    \<Rightarrow> observed_so_far \<Rightarrow> observed_so_far observing" where
  "observe_source_candidate ob desired marker onlyCandidate candidate s =
     seq (providerRead (Get_access_app candidate)) (\<lambda>live.
       if \<not> is_exactly live candidate then return (mismatched desired candidate s)
       else let serverId = field (rs_desired desired) ''sourceResourceKey'';
                baseMatches = sourceAccessApplicationBaseMatches live serverId marker in
         seq (pending_base_recovers (pendingCreateMatches (ob_receipt ob) desired \<and> onlyCandidate \<and> baseMatches) candidate live)
           (\<lambda>pendingBaseCanRecover.
         let exact = sourceAccessApplicationMatches live serverId marker in
         push_made (makeObserved (rs_kind desired) (rs_key desired) (locator_at candidate)
           (if exact then field live ''name'' else Undef) (exact \<or> pendingBaseCanRecover) (Some desired) (ob_receipt ob)
           pendingBaseCanRecover) s))"

definition observe_source_application :: "observation \<Rightarrow> jval list \<Rightarrow> desired_resource
    \<Rightarrow> observed_so_far \<Rightarrow> observed_so_far observing" where
  "observe_source_application ob accessApps desired s =
     seq (lift (observed_marker ob (rs_key desired))) (\<lambda>marker.
     seq (lift (map_or_throw requireObservedApp (filter (\<lambda>app. isObject app \<and> field app ''name'' = JStr marker
         \<or> isServerApp app (field (rs_desired desired) ''sourceResourceKey'')) accessApps))) (\<lambda>listed.
     seq (with_receipt_candidate ob desired listed) (\<lambda>candidates.
       let seen = uniq candidates in
       seq (each (observe_source_candidate ob desired marker (length seen = 1)) seen s) (\<lambda>s'.
         return (note_ambiguous desired (length seen) s')))))"

definition observe_portal_candidate :: "observation \<Rightarrow> desired_resource \<Rightarrow> string
    \<Rightarrow> observed_so_far \<Rightarrow> observed_so_far observing" where
  "observe_portal_candidate ob desired candidate s =
     seq (providerRead (Get_access_app candidate)) (\<lambda>live.
       if \<not> is_exactly live candidate then return (mismatched desired candidate s)
       else push_made (makeObserved (rs_kind desired) (rs_key desired) (locator_at candidate) Undef
         (portalAccessApplicationMatches live (rs_desired desired)) (Some desired) (ob_receipt ob) False) s)"

definition observe_portal_application :: "observation \<Rightarrow> jval list \<Rightarrow> desired_resource
    \<Rightarrow> observed_so_far \<Rightarrow> observed_so_far observing" where
  "observe_portal_application ob accessApps desired s =
     seq (lift (map_or_throw requireObservedApp (filter (\<lambda>app.
         isObject app \<and> same_value (field app ''name'') (field (rs_desired desired) ''name'')
         \<or> isPortalAppCandidate app (field (rs_desired desired) ''hostname'')) accessApps))) (\<lambda>listed.
     seq (with_receipt_candidate ob desired listed) (\<lambda>candidates.
       let seen = uniq candidates in
       seq (each (observe_portal_candidate ob desired) seen s) (\<lambda>s'.
         return (note_ambiguous desired (length seen) s'))))"

section \<open>DNS records\<close>

definition record_id :: "jval \<Rightarrow> string option" where
  "record_id record = (if isObject record then safeId (field record ''id'') else None)"

definition observe_dns_record :: "observation \<Rightarrow> desired_resource \<Rightarrow> jval \<Rightarrow> observed_so_far \<Rightarrow> observed_so_far observing" where
  "observe_dns_record ob desiredDns record s = (case record_id record of
     None \<Rightarrow> return (pushed (unproven Dns_record (rs_key desiredDns) None) (noted (bare_diagnostic ''invalid_dns_record'') s))
   | Some i \<Rightarrow> seq (lift (dnsMatches record desiredDns)) (\<lambda>liveMatches.
       push_made (makeObserved Dns_record (rs_key desiredDns) (locator_at i) (field record ''comment'') liveMatches
         (Some desiredDns) (ob_receipt ob) False) s))"

text \<open>A record the receipt names that the hostname's records do not include.\<close>

definition observe_owned_dns :: "observation \<Rightarrow> string list \<Rightarrow> receipt_resource \<Rightarrow> observed_so_far \<Rightarrow> observed_so_far observing" where
  "observe_owned_dns ob seenDnsIds ownedDns s = (let i = loc_id (rr_provider ownedDns) in
     if i \<in> set seenDnsIds then return s
     else seq (providerRead (Get_dns_record i)) (\<lambda>record.
       if \<not> isObject record then return s
       else seq (lift (exactReturnedId record i)) (\<lambda>j.
         let currentDesiredDns = desired_at ob Dns_record (rr_key ownedDns) in
         seq (lift (case currentDesiredDns of None \<Rightarrow> Inr False | Some d \<Rightarrow> dnsMatches record d)) (\<lambda>liveMatches.
           push_made (makeObserved Dns_record (rr_key ownedDns) (locator_at j) (field record ''comment'') liveMatches
             currentDesiredDns (ob_receipt ob) False) s))))"

definition observe_dns :: "observation \<Rightarrow> jval list \<Rightarrow> observed_so_far \<Rightarrow> observed_so_far observing" where
  "observe_dns ob dnsRecords s = (case desired_of_kind ob Dns_record of
     [] \<Rightarrow> throw (ObservedStateError ''invalid_input'')
   | desiredDns # _ \<Rightarrow>
       seq (each (observe_dns_record ob desiredDns) dnsRecords s) (\<lambda>s1.
       let s2 = (if 1 < length dnsRecords
             then noted (diagnostic ''ambiguous_dns_record'' Dns_record (rs_key desiredDns) (Some (length dnsRecords))) s1 else s1) in
       each (observe_owned_dns ob (List.map_filter record_id dnsRecords))
         (filter (\<lambda>r. rr_kind r = Dns_record) (receiptResources ob)) s2))"

section \<open>Policies\<close>

definition parent_key :: "desired_resource \<Rightarrow> jval" where
  "parent_key desired = field (rs_desired desired) (if rs_kind desired = Source_access_policy
     then ''sourceApplicationResourceKey'' else ''portalApplicationResourceKey'')"

text \<open>Whether the live application is the one that is desired for the parent.\<close>

definition parent_matches :: "observation \<Rightarrow> resource_kind \<Rightarrow> string \<Rightarrow> jval \<Rightarrow> observe_failure + bool" where
  "parent_matches ob kind parentKey candidate = (case desired_at ob (parent_kind kind) parentKey of
     None \<Rightarrow> Inr False
   | Some application \<Rightarrow>
       if kind = Source_access_policy
       then andThen (observed_marker ob parentKey) (\<lambda>marker.
         Inr (sourceAccessApplicationMatches candidate (field (rs_desired application) ''sourceResourceKey'') marker))
       else Inr (portalAccessApplicationMatches candidate (rs_desired application)))"

text \<open>\<^verbatim>\<open>verifySingleAccessApp\<close>; its only caller gives one candidate. The result is the live application.\<close>

definition verifySingleAccessApp :: "string \<Rightarrow> (jval \<Rightarrow> observe_failure + bool) \<Rightarrow> resource_kind \<Rightarrow> string
    \<Rightarrow> observed_so_far \<Rightarrow> (jval option \<times> observed_so_far) observing" where
  "verifySingleAccessApp candidate predicate kind key s =
     seq (providerRead (Get_access_app candidate)) (\<lambda>live.
     seq (lift (if is_exactly live candidate then predicate live else Inr False)) (\<lambda>verified.
       return (if verified then (Some live, s)
         else (None, noted (diagnostic ''access_app_provenance_mismatch'' kind key None) s))))"

definition observe_policy :: "platform \<Rightarrow> observation \<Rightarrow> desired_resource \<Rightarrow> string \<Rightarrow> jval
    \<Rightarrow> observed_so_far \<Rightarrow> observed_so_far observing" where
  "observe_policy pf ob desired appId policy s = (case safeId (field policy ''id'') of
     None \<Rightarrow> return (pushed (unproven (rs_kind desired) (rs_key desired) None)
       (noted (diagnostic ''invalid_access_policy'' (rs_kind desired) (rs_key desired) None) s))
   | Some i \<Rightarrow> seq (lift (policyMatches pf policy (rs_desired desired) (ob_access ob))) (\<lambda>liveMatches.
       push_made (makeObserved (rs_kind desired) (rs_key desired) \<lparr>loc_id = i, loc_parentId = Some appId\<rparr> (field policy ''name'')
         liveMatches (Some desired) (ob_receipt ob) False) s))"

text \<open>Policies beside the desired one: a diagnostic and an unconditional, locator-less entry.\<close>

definition note_unexpected :: "desired_resource \<Rightarrow> nat \<Rightarrow> observed_so_far \<Rightarrow> observed_so_far" where
  "note_unexpected desired unexpected s = (if unexpected = 0 then s
     else (noted (diagnostic ''unexpected_access_policy'' (rs_kind desired) (rs_key desired) (Some unexpected)) s)
       \<lparr>os_resources := os_resources s @ [unproven (rs_kind desired) (rs_key desired) None]\<rparr>)"

definition observe_policies :: "platform \<Rightarrow> observation \<Rightarrow> desired_resource \<Rightarrow> string \<Rightarrow> jval
    \<Rightarrow> observed_so_far \<Rightarrow> observed_so_far observing" where
  "observe_policies pf ob desired appId app s =
     seq (read_list (List_app_policies appId)) (\<lambda>policies.
     seq (lift (observed_marker ob (rs_key desired))) (\<lambda>marker.
       let is_match = (\<lambda>p. isObject p \<and> field p ''name'' = JStr marker);
           matches = filter is_match policies;
           unexpected = length (filter (\<lambda>p. \<not> is_match p) policies)
             + (if inlinePoliciesMatchListedPolicies app policies then 0 else 1);
           s1 = note_unexpected desired unexpected s;
           s2 = (if 1 < length matches
             then noted (diagnostic ''access_policy_ambiguous'' (rs_kind desired) (rs_key desired) (Some (length matches))) s1 else s1) in
       each (observe_policy pf ob desired appId) matches s2))"

definition observe_desired_policy :: "platform \<Rightarrow> observation \<Rightarrow> desired_resource
    \<Rightarrow> observed_so_far \<Rightarrow> observed_so_far observing" where
  "observe_desired_policy pf ob desired s = (case text_option (parent_key desired) of
     None \<Rightarrow> throw (ObservedStateError ''invalid_input'')
   | Some parentKey \<Rightarrow>
       (case Option.bind (find (\<lambda>r. cl_kind r = parent_kind (rs_kind desired) \<and> cl_key r = parentKey \<and> cl_manager r = Some MANAGER)
               (os_resources s)) cl_provider of
          None \<Rightarrow> return s
        | Some l \<Rightarrow>
            seq (verifySingleAccessApp (loc_id l) (parent_matches ob (rs_kind desired) parentKey) (rs_kind desired) (rs_key desired) s)
              (\<lambda>(app, s1). case app of
                 None \<Rightarrow> return (pushed (unproven (rs_kind desired) (rs_key desired) None) s1)
               | Some live \<Rightarrow> observe_policies pf ob desired (loc_id l) live s1)))"

section \<open>The installed inventory\<close>

text \<open>Whether a desired resource has already been found where the receipt says it is.\<close>

definition already_seen :: "observation \<Rightarrow> receipt_resource \<Rightarrow> observed_so_far \<Rightarrow> bool" where
  "already_seen ob entry s \<longleftrightarrow> desired_at ob (rr_kind entry) (rr_key entry) \<noteq> None
     \<and> hasLocator (os_resources s) (rr_kind entry) (rr_key entry) (Some (rr_provider entry))"

definition owned_application_matches :: "observation \<Rightarrow> receipt \<Rightarrow> receipt_resource \<Rightarrow> jval \<Rightarrow> observe_failure + bool" where
  "owned_application_matches ob trusted entry app = (case desired_at ob (rr_kind entry) (rr_key entry) of
     None \<Rightarrow> Inr False
   | Some desired \<Rightarrow>
       if rr_kind entry = Source_access_application
       then andThen (marker_of (rc_installationId trusted) (rs_key desired)) (\<lambda>marker.
         Inr (sourceAccessApplicationMatches app (field (rs_desired desired) ''sourceResourceKey'') marker))
       else Inr (portalAccessApplicationMatches app (rs_desired desired)))"

definition observe_owned_application :: "observation \<Rightarrow> receipt_resource \<Rightarrow> observed_so_far \<Rightarrow> observed_so_far observing" where
  "observe_owned_application ob entry s =
     (if already_seen ob entry s then return s
      else let i = loc_id (rr_provider entry) in
        seq (providerRead (Get_access_app i)) (\<lambda>app. case ob_receipt ob of
          None \<Rightarrow> return s
        | Some trusted \<Rightarrow>
            if \<not> isObject app then return s
            else seq (lift (exactReturnedId app i)) (\<lambda>j.
              seq (lift (if rr_kind entry = Source_access_application
                  then sourceAccessApplicationReceiptMatches app entry (receiptResources ob) (rc_installationId trusted)
                  else Inr True)) (\<lambda>exact.
              seq (lift (owned_application_matches ob trusted entry app)) (\<lambda>liveMatches.
                push_made (makeObserved (rr_kind entry) (rr_key entry) (locator_at j)
                  (if exact \<and> rr_kind entry \<noteq> Portal_access_application then field app ''name'' else Undef) liveMatches
                  (desired_at ob (rr_kind entry) (rr_key entry)) (ob_receipt ob) False) s)))))"

definition observe_owned_policy :: "observation \<Rightarrow> receipt_resource \<Rightarrow> observed_so_far \<Rightarrow> observed_so_far observing" where
  "observe_owned_policy ob entry s =
     (if already_seen ob entry s then return s
      else let parentId = parent_or_empty (rr_provider entry); i = loc_id (rr_provider entry) in
        seq (providerRead (Get_app_policy parentId i)) (\<lambda>policy.
          if \<not> isObject policy then return s
          else if parentId = [] then throw (ObservedStateError ''invalid_receipt'')
          else seq (lift (exactReturnedId policy i)) (\<lambda>j.
            push_made (makeObserved (rr_kind entry) (rr_key entry) \<lparr>loc_id = j, loc_parentId = Some parentId\<rparr>
              (field policy ''name'') False (desired_at ob (rr_kind entry) (rr_key entry)) (ob_receipt ob) False) s)))"

section \<open>The observation\<close>

text \<open>The four reads that are made together, then what they list.\<close>

definition read_inventory :: "observation \<Rightarrow> string
    \<Rightarrow> ((string \<times> string \<times> jval option) list \<times> (string \<times> string \<times> jval option) list \<times> jval list \<times> jval list) observing" where
  "read_inventory ob hostname =
     seq (readEntities (buildEntityReads Mcp_server (ds_resources (ob_desiredState ob)) (receiptResources ob)) Get_mcp_server) (\<lambda>servers.
     seq (readEntities (buildEntityReads Portal (ds_resources (ob_desiredState ob)) (receiptResources ob)) Get_portal) (\<lambda>portals.
     seq (attempt (providerRead (List_dns_records hostname))) (\<lambda>dns.
     seq (attempt (providerRead List_access_apps)) (\<lambda>apps.
     seq (lift (all_settled servers)) (\<lambda>serverResults.
     seq (lift (all_settled portals)) (\<lambda>portalResults.
     seq (lift dns) (\<lambda>dnsRecords.
     seq (lift apps) (\<lambda>accessApps.
       case (items dnsRecords, items accessApps) of
         (Some dnsList, Some appList) \<Rightarrow> return (serverResults, portalResults, dnsList, appList)
       | _ \<Rightarrow> throw invalid_response))))))))"

definition observe_resources :: "platform \<Rightarrow> observation \<Rightarrow> string \<Rightarrow> observed_so_far \<Rightarrow> observed_so_far observing" where
  "observe_resources pf ob hostname s =
     seq (read_inventory ob hostname) (\<lambda>(serverResults, portalResults, dnsRecords, accessApps).
     seq (each (observe_entity ob Mcp_server serverMatches) serverResults s) (\<lambda>s1.
     seq (each (observe_entity ob Portal portalBaseMatches) portalResults s1) (\<lambda>s2.
     seq (each (observe_source_application ob accessApps) (desired_of_kind ob Source_access_application) s2) (\<lambda>s3.
     seq (each (observe_portal_application ob accessApps) (desired_of_kind ob Portal_access_application) s3) (\<lambda>s4.
     seq (observe_dns ob dnsRecords s4) (\<lambda>s5.
     seq (each (observe_desired_policy pf ob) (filter (\<lambda>d. is_policy (rs_kind d)) (ds_resources (ob_desiredState ob))) s5) (\<lambda>s6.
     seq (each (observe_owned_application ob)
       (filter (\<lambda>r. rr_kind r = Source_access_application \<or> rr_kind r = Portal_access_application) (receiptResources ob)) s6) (\<lambda>s7.
       each (observe_owned_policy ob) (filter (\<lambda>r. is_policy (rr_kind r)) (receiptResources ob)) s7))))))))"

definition verified_zone :: "observe_input \<Rightarrow> verified_target observing" where
  "verified_zone inp =
     seq (lift (normalizeSelectedTarget (oi_target inp))) (\<lambda>selected.
     seq (providerRead Get_zone) (\<lambda>zone.
     seq (lift (verifyZone zone selected)) (\<lambda>target.
     seq (read_list List_identity_providers) (\<lambda>providers.
       return (target\<lparr>vt_zeroTrustReady := (providers \<noteq> [])\<rparr>)))))"

definition desired_for_observation :: "platform \<Rightarrow> observe_input \<Rightarrow> verified_target \<Rightarrow> observe_failure + desired_state" where
  "desired_for_observation pf inp target =
     (case buildGatewayDesiredState (pf_sha pf) (pf_parse_url pf) (oi_config inp) (verified_target_value target) (oi_access inp) of
        Inl e \<Rightarrow> Inl (ObservedStateError ''invalid_input'') | Inr st \<Rightarrow> Inr st)"

definition readCloudflareObservedState :: "platform \<Rightarrow> observe_input \<Rightarrow> cloud_state observing" where
  "readCloudflareObservedState pf inp =
     seq (lift (case validateGatewayConfig (pf_parse_url pf) (oi_config inp) of Inl e \<Rightarrow> Inl (Config_failure e) | Inr c \<Rightarrow> Inr c)) (\<lambda>config.
     seq (verified_zone inp) (\<lambda>target.
     seq (lift (desired_for_observation pf inp target)) (\<lambda>st.
       let (trusted, notes) = readTrustedReceipt (pf_sha pf) (oi_receipt inp) (ds_installationId st)
             (expected_target_value target (gc_hostname config));
           ob = \<lparr>ob_access = oi_access inp, ob_desiredState = st, ob_receipt = trusted\<rparr> in
       seq (observe_resources pf ob (gc_hostname config) \<lparr>os_resources = [], os_diagnostics = notes\<rparr>) (\<lambda>s.
         return \<lparr>cs_diagnostics = js_sort compareDiagnostics (os_diagnostics s),
           cs_resources = js_sort compareObserved (os_resources s), cs_target = target\<rparr>))))"

end
