(* ===== verification/Provider_Data.thy ===== *)
theory Provider_Data
  imports Observer
begin

text \<open>
  The synchronous parts of \<^verbatim>\<open>src/cloudflare-provider.ts\<close>: its errors, the values read from a desired
  resource and the request bodies made from them, and the comparisons with live objects. The requests are
  in \<open>Provider\<close>. Where this file repeats a function of \<^verbatim>\<open>src/cloudflare-observed.ts\<close> word for word
  (\<open>sameTextSet\<close>, \<open>expectedToolsDiscovered\<close>, \<open>inlinePoliciesAreEmpty\<close> and others) the definition of
  \<open>Observer_Data\<close> serves both.
\<close>

section \<open>Errors\<close>

text \<open>
  A \<^verbatim>\<open>CloudflareGatewayProviderError\<close> with its code and whether it says that no mutation was submitted;
  any other thrown error (of the client, of a schema, of a callback).
\<close>

datatype provider_fault = Provider_error string bool | Other_fault

definition SAFE_CODES :: "string list" where
  "SAFE_CODES = [''invalid_input'', ''target_mismatch'', ''unsupported_change'', ''ownership_conflict'', ''resource_collision'',
     ''immutable_server_drift'', ''authenticated_server_update_blocked'', ''source_authorization_required'',
     ''access_app_missing'', ''access_app_ambiguous'', ''access_app_shape_unsupported'', ''access_identity_mismatch'',
     ''invalid_provider_response'', ''sync_failed'', ''sync_timeout'', ''provider_read_failed'', ''provider_write_failed'']"

definition CloudflareGatewayProviderError :: "string \<Rightarrow> bool \<Rightarrow> provider_fault" where
  "CloudflareGatewayProviderError code notSubmitted =
     Provider_error (if code \<in> set SAFE_CODES then code else ''provider_write_failed'') notSubmitted"

definition fault :: "string \<Rightarrow> provider_fault" where
  "fault code = CloudflareGatewayProviderError code False"

text \<open>\<^verbatim>\<open>if (!condition) fail(code)\<close>\<close>

definition demand :: "bool \<Rightarrow> string \<Rightarrow> provider_fault + unit" where
  "demand b code = (if b then Inr () else Inl (fault code))"

definition demand_some :: "'a option \<Rightarrow> string \<Rightarrow> provider_fault + 'a" where
  "demand_some v code = (case v of None \<Rightarrow> Inl (fault code) | Some x \<Rightarrow> Inr x)"

text \<open>An error of another module that is not caught.\<close>

definition foreign :: "'e + 'a \<Rightarrow> provider_fault + 'a" where
  "foreign r = (case r of Inl e \<Rightarrow> Inl Other_fault | Inr x \<Rightarrow> Inr x)"

text \<open>An error of another module that is caught and replaced.\<close>

definition replaced :: "'e + 'a \<Rightarrow> string \<Rightarrow> provider_fault + 'a" where
  "replaced r code = (case r of Inl e \<Rightarrow> Inl (fault code) | Inr x \<Rightarrow> Inr x)"

section \<open>Values\<close>

definition assertExactKeys :: "jval \<Rightarrow> string list \<Rightarrow> provider_fault + unit" where
  "assertExactKeys value expected = demand (isObject value \<and> hasExactKeys value expected) ''invalid_input''"

definition requireText :: "jval \<Rightarrow> provider_fault + string" where
  "requireText value = demand_some (text_option value) ''invalid_input''"

definition requireSafeId :: "jval \<Rightarrow> provider_fault + string" where
  "requireSafeId value = demand_some (safeId value) ''invalid_input''"

definition requireResourceKey :: "jval \<Rightarrow> provider_fault + string" where
  "requireResourceKey value = demand_some (if isResourceKey value then text_option value else None) ''invalid_input''"

definition optionalResourceKey :: "jval \<Rightarrow> provider_fault + string option" where
  "optionalResourceKey value = (if value = Undef then Inr None else andThen (requireResourceKey value) (\<lambda>k. Inr (Some k)))"

definition requireHostname :: "jval \<Rightarrow> provider_fault + unit" where
  "requireHostname value = demand (validHostname value) ''invalid_input''"

definition requireHttpsUrl :: "(string \<Rightarrow> url option) \<Rightarrow> string \<Rightarrow> provider_fault + unit" where
  "requireHttpsUrl parse_url value = demand (case parse_url value of None \<Rightarrow> False
     | Some u \<Rightarrow> u_protocol u = ''https:'' \<and> u_username u = [] \<and> u_password u = []) ''invalid_input''"

definition requireAppId :: "jval \<Rightarrow> provider_fault + string" where
  "requireAppId app = demand_some (if isObject app then safeId (field app ''id'') else None) ''invalid_provider_response''"

text \<open>\<^verbatim>\<open>if (!Array.isArray(value)) fail('invalid_provider_response')\<close>\<close>

definition requireList :: "jval \<Rightarrow> provider_fault + jval list" where
  "requireList value = demand_some (items value) ''invalid_provider_response''"

definition normalizeTools :: "jval \<Rightarrow> provider_fault + string list" where
  "normalizeTools value = demand_some (case stringArray value of
     None \<Rightarrow> None
   | Some tools \<Rightarrow> if tools = [] \<or> MAX_ENABLED_TOOLS_PER_SOURCE < length tools
         \<or> \<not> list_all (\<lambda>t. t \<noteq> [] \<and> length t \<le> 128 \<and> t \<noteq> ''*'') tools \<or> \<not> distinct tools
       then None else Some (js_sort compareText tools)) ''invalid_input''"

definition normalizeEmails :: "jval \<Rightarrow> provider_fault + string list" where
  "normalizeEmails access = demand_some (normalizeAllowedEmails access) ''access_identity_mismatch''"

definition provider_marker :: "string \<Rightarrow> string \<Rightarrow> provider_fault + string" where
  "provider_marker installationId key = foreign (ownershipMarker (JStr installationId) (JStr key))"

text \<open>
  \<^verbatim>\<open>value === ownershipMarker(...)\<close> inside a predicate. The identifiers come from a validated receipt and from
  derived keys, for which a marker always exists.
\<close>

definition is_marker :: "string \<Rightarrow> string \<Rightarrow> jval \<Rightarrow> bool" where
  "is_marker installationId key value = (case provider_marker installationId key of Inl e \<Rightarrow> False | Inr m \<Rightarrow> value = JStr m)"

definition assertMarker :: "jval \<Rightarrow> string \<Rightarrow> provider_fault + unit" where
  "assertMarker actual expected = demand (actual = JStr expected) ''ownership_conflict''"

text \<open>\<^verbatim>\<open>canonicalJson\<close> of this file fails with \<^verbatim>\<open>invalid_input\<close> where the planner's throws.\<close>

definition provider_hash :: "(string \<Rightarrow> string) \<Rightarrow> jval \<Rightarrow> provider_fault + string" where
  "provider_hash sha value = demand_some (hashCanonical sha value) ''invalid_input''"

definition provider_canonical :: "jval \<Rightarrow> provider_fault + string" where
  "provider_canonical value = demand_some (canonicalJson value) ''invalid_input''"

definition same_canonical :: "jval \<Rightarrow> jval \<Rightarrow> provider_fault + bool" where
  "same_canonical left right = andThen (provider_canonical left) (\<lambda>l. andThen (provider_canonical right) (\<lambda>r. Inr (l = r)))"

definition policyIdentityHash :: "jval \<Rightarrow> provider_fault + string" where
  "policyIdentityHash value = demand_some
     (if isObject (field value ''allow'') then text_option (field (field value ''allow'') ''identitiesHash'') else None) ''invalid_input''"

section \<open>Request bodies\<close>

definition tools_value :: "string list \<Rightarrow> jval" where
  "tools_value tools = JArr (map (\<lambda>t. JObj [(''name'', JStr t), (''enabled'', JBool True)]) tools)"

record server_desired =
  sd_auth_type :: string
  sd_hostname :: string
  sd_name :: string
  sd_updated_tools :: "string list"

definition auth_type_of :: "jval \<Rightarrow> string option" where
  "auth_type_of mode = (if mode = JStr ''none'' then Some ''unauthenticated''
     else if mode = JStr ''oauth'' then Some ''oauth''
     else if mode = JStr ''bearer'' \<or> mode = JStr ''headers'' then Some ''bearer'' else None)"

definition is_capability :: "jval \<Rightarrow> bool" where
  "is_capability value \<longleftrightarrow> value = JStr ''read_only'' \<or> value = JStr ''read_write''"

definition normalizeServerDesired :: "(string \<Rightarrow> url option) \<Rightarrow> jval \<Rightarrow> provider_fault + server_desired" where
  "normalizeServerDesired parse_url value =
     andThen (assertExactKeys value [''metadata'', ''sourceId'', ''name'', ''endpoint'', ''capabilityMode'', ''secureWebGateway'',
       ''toolPolicy'', ''authentication'']) (\<lambda>_.
     andThen (demand (is_capability (field value ''capabilityMode'') \<and> field value ''secureWebGateway'' = JBool False) ''invalid_input'') (\<lambda>_.
     andThen (requireText (field value ''name'')) (\<lambda>name.
     andThen (requireText (field value ''endpoint'')) (\<lambda>endpoint.
     andThen (demand (1 \<le> length name \<and> length name \<le> 350) ''invalid_input'') (\<lambda>_.
     andThen (requireHttpsUrl parse_url endpoint) (\<lambda>_.
     let toolPolicy = field value ''toolPolicy''; authentication = field value ''authentication'' in
     andThen (assertExactKeys toolPolicy [''defaultDisabled'', ''allowedTools'']) (\<lambda>_.
     andThen (demand (field toolPolicy ''defaultDisabled'' = JBool True) ''invalid_input'') (\<lambda>_.
     andThen (normalizeTools (field toolPolicy ''allowedTools'')) (\<lambda>tools.
     andThen (assertExactKeys authentication [''mode'', ''onBehalfOfUser'', ''credentialCustody'']) (\<lambda>_.
     andThen (demand (field authentication ''credentialCustody'' = JStr ''customer'') ''invalid_input'') (\<lambda>_.
     andThen (demand_some (auth_type_of (field authentication ''mode'')) ''invalid_input'') (\<lambda>authType.
       Inr \<lparr>sd_auth_type = authType, sd_hostname = endpoint, sd_name = name, sd_updated_tools = tools\<rparr>))))))))))))"

definition server_create_body :: "string \<Rightarrow> server_desired \<Rightarrow> string \<Rightarrow> jval" where
  "server_create_body key expected marker = JObj [(''id'', JStr key), (''auth_type'', JStr (sd_auth_type expected)),
     (''hostname'', JStr (sd_hostname expected)), (''name'', JStr (sd_name expected)), (''description'', JStr marker),
     (''secure_web_gateway'', JBool False), (''updated_prompts'', JArr []), (''updated_tools'', tools_value (sd_updated_tools expected))]"

definition server_update_body :: "server_desired \<Rightarrow> string \<Rightarrow> jval" where
  "server_update_body expected marker = JObj [(''name'', JStr (sd_name expected)), (''description'', JStr marker),
     (''secure_web_gateway'', JBool False), (''updated_prompts'', JArr []), (''updated_tools'', tools_value (sd_updated_tools expected))]"

definition normalizeSourceAccessApplicationDesired :: "jval \<Rightarrow> provider_fault + string" where
  "normalizeSourceAccessApplicationDesired value =
     andThen (assertExactKeys value [''metadata'', ''sourceResourceKey'', ''applicationType'']) (\<lambda>_.
     andThen (requireResourceKey (field value ''sourceResourceKey'')) (\<lambda>sourceResourceKey.
     andThen (demand (field value ''applicationType'' = JStr ''mcp'') ''invalid_input'') (\<lambda>_. Inr sourceResourceKey)))"

definition source_application_body :: "string \<Rightarrow> string \<Rightarrow> jval" where
  "source_application_body marker serverId = JObj [(''name'', JStr marker), (''type'', JStr ''mcp''),
     (''destinations'', JArr [JObj [(''type'', JStr ''via_mcp_server_portal''), (''mcp_server_id'', JStr serverId)]])]"

definition DEFAULT_OAUTH_CALLBACKS :: "string list" where
  "DEFAULT_OAUTH_CALLBACKS = [''https://claude.ai/api/mcp/auth_callback'', ''https://chatgpt.com/connector_platform_oauth_redirect'',
     ''https://chatgpt.com/connector/oauth/*'', ''https://www.cursor.com/agents/mcp/oauth/callback'',
     ''https://playground.ai.cloudflare.com/agents/playground/*'']"

definition expectedManagedOauthConfiguration :: jval where
  "expectedManagedOauthConfiguration = JObj [(''enabled'', JBool True),
     (''dynamic_client_registration'', JObj [(''enabled'', JBool True), (''allowed_uris'', JArr (map JStr DEFAULT_OAUTH_CALLBACKS)),
        (''allow_any_on_localhost'', JBool True), (''allow_any_on_loopback'', JBool True)]),
     (''grant'', JObj [(''access_token_lifetime'', JStr ''15m''), (''session_duration'', JStr ''336h'')])]"

definition normalizeManagedOauth :: "jval \<Rightarrow> provider_fault + jval" where
  "normalizeManagedOauth value =
     (let registration = field value ''dynamicClientRegistration''; grant = field value ''grant'' in
      andThen (demand (isObject value) ''invalid_input'') (\<lambda>_.
      andThen (assertExactKeys value [''mode'', ''dynamicClientRegistration'', ''grant'']) (\<lambda>_.
      andThen (demand (field value ''mode'' = JStr ''managed_oauth'' \<and> isObject registration \<and> isObject grant) ''invalid_input'') (\<lambda>_.
      andThen (assertExactKeys registration [''enabled'', ''allowAnyOnLocalhost'', ''allowAnyOnLoopback'']) (\<lambda>_.
      andThen (assertExactKeys grant [''accessTokenLifetime'', ''sessionDuration'']) (\<lambda>_.
      andThen (demand (field registration ''enabled'' = JBool True \<and> field registration ''allowAnyOnLocalhost'' = JBool True
         \<and> field registration ''allowAnyOnLoopback'' = JBool True \<and> field grant ''accessTokenLifetime'' = JStr ''15m''
         \<and> field grant ''sessionDuration'' = JStr ''336h'') ''invalid_input'') (\<lambda>_. Inr expectedManagedOauthConfiguration)))))))"

record portal_application =
  pa_portalResourceKey :: string
  pa_name :: string
  pa_domain :: string
  pa_oauth :: jval

definition normalizePortalAccessApplicationDesired :: "jval \<Rightarrow> provider_fault + portal_application" where
  "normalizePortalAccessApplicationDesired value =
     andThen (assertExactKeys value [''metadata'', ''portalResourceKey'', ''name'', ''hostname'', ''applicationType'',
       ''destination'', ''authentication'']) (\<lambda>_.
     andThen (requireResourceKey (field value ''portalResourceKey'')) (\<lambda>portalResourceKey.
     andThen (requireText (field value ''name'')) (\<lambda>name.
     andThen (requireText (field value ''hostname'')) (\<lambda>hostname.
     andThen (demand (field value ''applicationType'' = JStr ''mcp_portal'' \<and> 1 \<le> length name) ''invalid_input'') (\<lambda>_.
     andThen (requireHostname (JStr hostname)) (\<lambda>_.
     let destination = field value ''destination'' in
     andThen (assertExactKeys destination [''type'', ''uri'']) (\<lambda>_.
     andThen (demand (field destination ''type'' = JStr ''public'' \<and> field destination ''uri'' = JStr hostname) ''invalid_input'') (\<lambda>_.
     andThen (demand (length name \<le> 350 \<and> \<not> hasControlCharacter name) ''invalid_input'') (\<lambda>_.
     andThen (normalizeManagedOauth (field value ''authentication'')) (\<lambda>oauth.
       Inr \<lparr>pa_portalResourceKey = portalResourceKey, pa_name = name, pa_domain = hostname, pa_oauth = oauth\<rparr>))))))))))"

definition portal_application_body :: "portal_application \<Rightarrow> jval" where
  "portal_application_body app = JObj [(''name'', JStr (pa_name app)), (''type'', JStr ''mcp_portal''), (''domain'', JStr (pa_domain app)),
     (''destinations'', JArr [JObj [(''type'', JStr ''public''), (''uri'', JStr (pa_domain app))]]),
     (''oauth_configuration'', pa_oauth app)]"

record portal_server =
  ps_server_id :: string
  ps_on_behalf :: bool
  ps_updated_tools :: "string list"

record portal_desired =
  pd_hostname :: string
  pd_name :: string
  pd_code_mode :: string
  pd_description :: string
  pd_servers :: "portal_server list"

text \<open>One source mapping of a portal.\<close>

definition normalizeMapping :: "jval \<Rightarrow> provider_fault + portal_server" where
  "normalizeMapping mapping =
     andThen (assertExactKeys mapping [''sourceResourceKey'', ''defaultDisabled'', ''allowedTools'', ''onBehalfOfUser'']) (\<lambda>_.
     andThen (requireResourceKey (field mapping ''sourceResourceKey'')) (\<lambda>key.
     case field mapping ''onBehalfOfUser'' of
       JBool onBehalf \<Rightarrow>
         andThen (demand (field mapping ''defaultDisabled'' = JBool True) ''invalid_input'') (\<lambda>_.
         andThen (normalizeTools (field mapping ''allowedTools'')) (\<lambda>tools.
           Inr \<lparr>ps_server_id = key, ps_on_behalf = onBehalf, ps_updated_tools = tools\<rparr>))
     | _ \<Rightarrow> Inl (fault ''invalid_input'')))"

definition is_code_mode :: "string \<Rightarrow> bool" where
  "is_code_mode mode \<longleftrightarrow> mode \<in> {''off'', ''opt_in'', ''default_on'', ''enforced''}"

definition normalizePortalDesired :: "jval \<Rightarrow> string \<Rightarrow> provider_fault + portal_desired" where
  "normalizePortalDesired value marker =
     andThen (assertExactKeys value [''metadata'', ''name'', ''hostname'', ''capabilityMode'', ''codeMode'', ''secureWebGateway'',
       ''sourceMappings'']) (\<lambda>_.
     andThen (demand (is_capability (field value ''capabilityMode'') \<and> field value ''secureWebGateway'' = JBool False) ''invalid_input'') (\<lambda>_.
     andThen (requireText (field value ''name'')) (\<lambda>name.
     andThen (requireText (field value ''hostname'')) (\<lambda>hostname.
     andThen (demand (1 \<le> length name \<and> length name \<le> 350) ''invalid_input'') (\<lambda>_.
     andThen (requireHostname (JStr hostname)) (\<lambda>_.
     andThen (requireText (field value ''codeMode'')) (\<lambda>codeMode.
     andThen (demand (is_code_mode codeMode) ''invalid_input'') (\<lambda>_.
     andThen (demand_some (items (field value ''sourceMappings'')) ''invalid_input'') (\<lambda>mappings.
     andThen (demand (mappings \<noteq> []) ''invalid_input'') (\<lambda>_.
     andThen (map_or_throw normalizeMapping mappings) (\<lambda>servers.
     andThen (demand (distinct (map ps_server_id servers)) ''invalid_input'') (\<lambda>_.
       Inr \<lparr>pd_hostname = hostname, pd_name = name, pd_code_mode = codeMode, pd_description = marker, pd_servers = servers\<rparr>))))))))))))"

definition portal_server_value :: "portal_server \<Rightarrow> jval" where
  "portal_server_value s = JObj [(''server_id'', JStr (ps_server_id s)), (''default_disabled'', JBool True),
     (''on_behalf'', JBool (ps_on_behalf s)), (''updated_prompts'', JArr []), (''updated_tools'', tools_value (ps_updated_tools s)),
     (''id'', JStr (ps_server_id s))]"

definition portal_body_entries :: "portal_desired \<Rightarrow> (string \<times> jval) list" where
  "portal_body_entries p = [(''hostname'', JStr (pd_hostname p)), (''name'', JStr (pd_name p)), (''code_mode'', JStr (pd_code_mode p)),
     (''description'', JStr (pd_description p)), (''secure_web_gateway'', JBool False),
     (''servers'', JArr (map portal_server_value (pd_servers p)))]"

datatype policy_rule = Email_rule string | Group_rule string | Token_rule string

record policy_body =
  pb_name :: string
  pb_decision :: string
  pb_include :: "policy_rule list"

fun policy_rule_value :: "policy_rule \<Rightarrow> jval" where
  "policy_rule_value (Email_rule e) = JObj [(''email'', JObj [(''email'', JStr e)])]"
| "policy_rule_value (Group_rule g) = JObj [(''group'', JObj [(''id'', JStr g)])]"
| "policy_rule_value (Token_rule t) = JObj [(''service_token'', JObj [(''token_id'', JStr t)])]"

definition policy_body_value :: "policy_body \<Rightarrow> jval" where
  "policy_body_value b = JObj [(''name'', JStr (pb_name b)), (''decision'', JStr (pb_decision b)),
     (''include'', JArr (map policy_rule_value (pb_include b))), (''exclude'', JArr []), (''require'', JArr [])]"

text \<open>\<^verbatim>\<open>left ?? right\<close>\<close>

definition nullish_or :: "jval \<Rightarrow> jval \<Rightarrow> jval" where
  "nullish_or left right = (if left \<in> {Undef, JNull} then right else left)"

text \<open>Who the policy admits: the rules and the decision, from the current access input.\<close>

definition policy_include :: "(string \<Rightarrow> string) \<Rightarrow> jval \<Rightarrow> jval \<Rightarrow> string \<Rightarrow> provider_fault + string \<times> policy_rule list" where
  "policy_include sha allow access identitiesHash =
     (let ref = field allow ''identitiesRef''; type = field allow ''identityType''; counted = field allow ''identityCount'' in
      if ref = JStr ''access.allowedEmails'' \<and> type = JStr ''email'' then
        andThen (normalizeEmails access) (\<lambda>emails.
        andThen (demand (counted = jint (int (length emails))) ''access_identity_mismatch'') (\<lambda>_.
        andThen (provider_hash sha (emailsValue emails)) (\<lambda>h.
        andThen (demand (h = identitiesHash) ''access_identity_mismatch'') (\<lambda>_. Inr (''allow'', map Email_rule emails)))))
      else if ref = JStr ''access.groups'' \<and> type = JStr ''group'' then
        andThen (demand_some (resolveAccessGroupByDigest sha access (identity_count counted) identitiesHash) ''access_identity_mismatch'') (\<lambda>g.
          Inr (''allow'', [Group_rule (ag_id g)]))
      else if ref = JStr ''access.canaryServiceTokenId'' \<and> type = JStr ''service_token'' then
        andThen (replaced (canaryServiceTokenId access) ''access_identity_mismatch'') (\<lambda>token.
        andThen (demand_some token ''access_identity_mismatch'') (\<lambda>i.
        andThen (demand (counted = jint 1) ''access_identity_mismatch'') (\<lambda>_.
        andThen (foreign (canaryServiceIdentityDigest sha i)) (\<lambda>digest.
        andThen (demand (digest = identitiesHash) ''access_identity_mismatch'') (\<lambda>_. Inr (''non_identity'', [Token_rule i]))))))
      else Inl (fault ''invalid_input''))"

definition normalizePolicyDesired :: "(string \<Rightarrow> string) \<Rightarrow> jval \<Rightarrow> jval \<Rightarrow> string \<Rightarrow> provider_fault + policy_body" where
  "normalizePolicyDesired sha value access marker =
     (let allow = field value ''allow'' in
      andThen (assertExactKeys value (if field value ''portalApplicationResourceKey'' = Undef
         then [''metadata'', ''sourceApplicationResourceKey'', ''defaultAction'', ''allow'']
         else [''metadata'', ''portalApplicationResourceKey'', ''defaultAction'', ''allow''])) (\<lambda>_.
      andThen (requireResourceKey (nullish_or (field value ''sourceApplicationResourceKey'') (field value ''portalApplicationResourceKey''))) (\<lambda>_.
      andThen (demand (field value ''defaultAction'' = JStr ''deny'' \<and> isObject allow) ''invalid_input'') (\<lambda>_.
      andThen (assertExactKeys allow [''identitiesRef'', ''identityType'', ''identityCount'', ''identitiesHash'']) (\<lambda>_.
      andThen (demand (isNumber (field allow ''identityCount'')) ''access_identity_mismatch'') (\<lambda>_.
      andThen (demand_some (text_option (field allow ''identitiesHash'')) ''access_identity_mismatch'') (\<lambda>identitiesHash.
      andThen (policy_include sha allow access identitiesHash) (\<lambda>(decision, include).
        Inr \<lparr>pb_name = marker, pb_decision = decision, pb_include = include\<rparr>))))))))"

definition PORTAL_CNAME_TARGET :: string where
  "PORTAL_CNAME_TARGET = ''gateway.agents.cloudflare.com''"

definition normalizeDnsDesired :: "jval \<Rightarrow> string \<Rightarrow> string \<Rightarrow> provider_fault + jval" where
  "normalizeDnsDesired value marker hostname =
     andThen (assertExactKeys value [''metadata'', ''recordType'', ''hostname'', ''content'', ''proxied'', ''dependsOnResourceKey'']) (\<lambda>_.
     andThen (demand (field value ''recordType'' = JStr ''CNAME'' \<and> field value ''hostname'' = JStr hostname
        \<and> field value ''content'' = JStr PORTAL_CNAME_TARGET \<and> field value ''proxied'' = JBool True
        \<and> isResourceKey (field value ''dependsOnResourceKey'')) ''invalid_input'') (\<lambda>_.
       Inr (JObj [(''type'', JStr ''CNAME''), (''name'', JStr hostname), (''content'', JStr PORTAL_CNAME_TARGET),
         (''proxied'', JBool True), (''ttl'', jint 1), (''comment'', JStr marker)])))"

section \<open>Live objects\<close>

definition samePortalServers :: "jval \<Rightarrow> portal_server list \<Rightarrow> bool" where
  "samePortalServers liveServers expectedServers = (case items liveServers of
     None \<Rightarrow> False
   | Some lives \<Rightarrow> length lives = length expectedServers \<and> list_all (\<lambda>expected.
       (case filter (\<lambda>l. server_reference l = JStr (ps_server_id expected)) lives of
          [live] \<Rightarrow> field live ''default_disabled'' = JBool True \<and> field live ''on_behalf'' = JBool (ps_on_behalf expected)
            \<and> optionalPromptsAreEmpty (field live ''updated_prompts'')
            \<and> sameEnabledTools (field live ''updated_tools'') (ps_updated_tools expected)
        | _ \<Rightarrow> False)) expectedServers)"

definition portalMatchesExpected :: "jval \<Rightarrow> string \<Rightarrow> portal_desired \<Rightarrow> bool" where
  "portalMatchesExpected portal portalId expected \<longleftrightarrow> field portal ''id'' = JStr portalId
     \<and> field portal ''name'' = JStr (pd_name expected) \<and> field portal ''hostname'' = JStr (pd_hostname expected)
     \<and> field portal ''code_mode'' = JStr (pd_code_mode expected) \<and> field portal ''secure_web_gateway'' = JBool False
     \<and> field portal ''description'' = JStr (pd_description expected) \<and> samePortalServers (field portal ''servers'') (pd_servers expected)"

definition isExactServerApp :: "jval \<Rightarrow> string \<Rightarrow> bool" where
  "isExactServerApp app serverId \<longleftrightarrow> safeId (JStr serverId) \<noteq> None \<and> isServerApp app (JStr serverId)"

definition isExactSourceAccessApplication :: "jval \<Rightarrow> string \<Rightarrow> string \<Rightarrow> bool" where
  "isExactSourceAccessApplication app serverId marker \<longleftrightarrow> isObject app
     \<and> (case source_destination app marker of None \<Rightarrow> False | Some d \<Rightarrow> field d ''mcp_server_id'' = JStr serverId)"

definition portalAccessApplicationContractMatches :: "jval \<Rightarrow> string \<Rightarrow> bool" where
  "portalAccessApplicationContractMatches app hostname \<longleftrightarrow> isObject app \<and> field app ''type'' = JStr ''mcp_portal''
     \<and> field app ''domain'' = JStr hostname
     \<and> (case items (field app ''destinations'') of
          Some [d] \<Rightarrow> isObject d \<and> join_with '','' (js_sort compareText (keys d)) = ''type,uri''
            \<and> field d ''type'' = JStr ''public'' \<and> field d ''uri'' = JStr hostname
        | _ \<Rightarrow> False)"

text \<open>The desired side is always \<open>expectedManagedOauthConfiguration\<close>.\<close>

definition provider_oauth_matches :: "jval \<Rightarrow> bool" where
  "provider_oauth_matches live \<longleftrightarrow>
     (let registration = field live ''dynamic_client_registration''; grant = field live ''grant'' in
      isObject live \<and> isObject registration \<and> isObject grant \<and> field live ''enabled'' = JBool True
      \<and> field registration ''enabled'' = JBool True \<and> field registration ''allow_any_on_localhost'' = JBool True
      \<and> field registration ''allow_any_on_loopback'' = JBool True
      \<and> field grant ''access_token_lifetime'' = JStr ''15m'' \<and> field grant ''session_duration'' = JStr ''336h'')"

definition live_application_matches :: "jval \<Rightarrow> portal_application \<Rightarrow> bool" where
  "live_application_matches app expected \<longleftrightarrow> isObject app \<and> field app ''name'' = JStr (pa_name expected)
     \<and> portalAccessApplicationContractMatches app (pa_domain expected)
     \<and> provider_oauth_matches (field app ''oauth_configuration'')"

definition portalAccessApplicationPrePolicyMatches :: "jval \<Rightarrow> portal_application \<Rightarrow> bool" where
  "portalAccessApplicationPrePolicyMatches app expected \<longleftrightarrow> live_application_matches app expected \<and> inlinePoliciesAreEmpty app"

definition accessPolicyMatches :: "jval \<Rightarrow> policy_body \<Rightarrow> bool" where
  "accessPolicyMatches live expected =
     (if field live ''name'' \<noteq> JStr (pb_name expected) \<or> field live ''decision'' \<noteq> JStr (pb_decision expected)
         \<or> field live ''exclude'' \<noteq> JArr [] \<or> field live ''require'' \<noteq> JArr []
         \<or> map_option length (items (field live ''include'')) \<noteq> Some (length (pb_include expected)) then False
      else let include = (case items (field live ''include'') of None \<Rightarrow> [] | Some rules \<Rightarrow> rules) in
        if pb_decision expected = ''non_identity''
        then (case (include, pb_include expected) of
            ([l], [e]) \<Rightarrow> exactServiceTokenPolicyRule (policy_rule_value e) \<noteq> None
              \<and> exactServiceTokenPolicyRule l = exactServiceTokenPolicyRule (policy_rule_value e)
          | _ \<Rightarrow> False)
        else case (case pb_include expected of [e] \<Rightarrow> exactPolicyGroup (policy_rule_value e) | _ \<Rightarrow> None) of
            Some g \<Rightarrow> (case include of [l] \<Rightarrow> exactPolicyGroup l = Some g | _ \<Rightarrow> False)
          | None \<Rightarrow> (case (all_or_none exactPolicyEmail include, all_or_none exactPolicyEmail (map policy_rule_value (pb_include expected))) of
              (Some lives, Some expecteds) \<Rightarrow> sameTextSet (map (\<lambda>e. toLowerCase (js_trim e)) lives) expecteds
            | _ \<Rightarrow> False))"

text \<open>The listed policies are exactly the expected one: that policy, or \<open>None\<close> where it may be absent.\<close>

definition assertExpectedPolicySet :: "jval \<Rightarrow> string \<Rightarrow> string \<Rightarrow> bool \<Rightarrow> provider_fault + jval option" where
  "assertExpectedPolicySet policies i marker allowAbsent =
     andThen (requireList policies) (\<lambda>ps.
       let is_it = (\<lambda>p. isObject p \<and> field p ''id'' = JStr i \<and> field p ''name'' = JStr marker);
           expected = filter is_it ps in
       if filter (\<lambda>p. \<not> is_it p) ps \<noteq> [] \<or> 1 < length expected then Inl (fault ''ownership_conflict'')
       else case expected of
         [] \<Rightarrow> if allowAbsent \<and> ps = [] then Inr None else Inl (fault ''ownership_conflict'')
       | match # _ \<Rightarrow> Inr (Some match))"

definition assertEmptyPolicySet :: "jval \<Rightarrow> string \<Rightarrow> provider_fault + unit" where
  "assertEmptyPolicySet policies marker =
     andThen (requireList policies) (\<lambda>ps.
       if ps = [] then Inr ()
       else if list_ex (\<lambda>p. field p ''name'' \<noteq> JStr marker) ps then Inl (fault ''ownership_conflict'')
       else Inl (fault ''resource_collision''))"

definition assertInlinePolicySet :: "jval \<Rightarrow> jval \<Rightarrow> provider_fault + unit" where
  "assertInlinePolicySet app policies = demand (case items policies of None \<Rightarrow> False
     | Some ps \<Rightarrow> inlinePoliciesMatchListedPolicies app ps) ''ownership_conflict''"

end
