(* ===== verification/Provider_Input.thy ===== *)
theory Provider_Input
  imports Provider_Data
begin

text \<open>
  What \<^verbatim>\<open>src/cloudflare-provider.ts\<close> is asked to do: \<open>normalizeMutationInput\<close> turns the reconciler's input into
  one mutation that the validated receipt has journaled, \<open>normalizePendingPortalCreateRollbackInput\<close> into the rollback of
  a pending portal. Then the assertions on the mutation that need no request.
\<close>

section \<open>Mutations\<close>

datatype mutation_change =
    Create_mutation (mc_kind: resource_kind) (mc_key: string) (mc_desired: jval) (mc_hash: string)
  | Update_mutation (mc_kind: resource_kind) (mc_key: string) (mc_desired: jval) (mc_hash: string) (mc_provider: locator)
  | Delete_mutation (mc_kind: resource_kind) (mc_key: string) (mc_provider: locator)

text \<open>\<^verbatim>\<open>change.desired?.k\<close>\<close>

definition mc_field :: "mutation_change \<Rightarrow> string \<Rightarrow> jval" where
  "mc_field change k = (case change of Delete_mutation _ _ _ \<Rightarrow> Undef | _ \<Rightarrow> field (mc_desired change) k)"

record gateway_mutation =
  gm_access :: jval
  gm_change :: mutation_change
  gm_config :: gateway_config
  gm_configInput :: jval
  gm_marker :: string
  gm_owned :: "receipt_resource option"
  gm_receipt :: receipt
  gm_target :: jval

text \<open>The account and the zone the provider is bound to.\<close>

record bound_target =
  bt_accountId :: string
  bt_zoneId :: string

definition assertTarget :: "jval \<Rightarrow> bound_target \<Rightarrow> receipt_target \<Rightarrow> provider_fault + unit" where
  "assertTarget target bound owner = demand (isObject target \<and> field target ''accountId'' = JStr (bt_accountId bound)
     \<and> field target ''zoneId'' = JStr (bt_zoneId bound) \<and> rt_accountId owner = bt_accountId bound
     \<and> rt_zoneId owner = bt_zoneId bound) ''target_mismatch''"

definition provider_receipt :: "(string \<Rightarrow> string) \<Rightarrow> jval \<Rightarrow> provider_fault + receipt" where
  "provider_receipt sha value = replaced (validateInstallationReceipt sha value (JObj [])) ''invalid_input''"

text \<open>\<^verbatim>\<open>v.parse(jsonValueSchema, value)\<close> and \<^verbatim>\<open>validateGatewayConfig\<close>, both inside the same \<^verbatim>\<open>try\<close>.\<close>

definition provider_config :: "(string \<Rightarrow> url option) \<Rightarrow> jval \<Rightarrow> provider_fault + jval \<times> gateway_config" where
  "provider_config parse_url value =
     andThen (demand_some (parse_json value) ''invalid_input'') (\<lambda>configInput.
     andThen (replaced (validateGatewayConfig parse_url configInput) ''invalid_input'') (\<lambda>config. Inr (configInput, config)))"

definition machine_identity_checked :: "(string \<Rightarrow> string) \<Rightarrow> jval \<Rightarrow> gateway_config \<Rightarrow> receipt \<Rightarrow> provider_fault + unit" where
  "machine_identity_checked sha access config receipt =
     andThen (replaced (canaryServiceTokenId access) ''access_identity_mismatch'') (\<lambda>serviceId.
       let service = (ap_identityType (rc_accessPolicy receipt) = ''service_token'') in
       if serviceId = None \<and> \<not> service then Inr ()
       else andThen (replaced (assertCanaryServiceIdentityConfig config) ''access_identity_mismatch'') (\<lambda>_.
         case serviceId of
           None \<Rightarrow> Inl (fault ''access_identity_mismatch'')
         | Some i \<Rightarrow> if \<not> service then Inl (fault ''access_identity_mismatch'')
             else andThen (foreign (canaryServiceIdentityDigest sha i)) (\<lambda>digest.
               demand (digest = ap_identitiesHash (rc_accessPolicy receipt)) ''access_identity_mismatch'')))"

definition provider_locator :: "resource_kind \<Rightarrow> jval \<Rightarrow> provider_fault + locator" where
  "provider_locator kind provider =
     andThen (demand_some (if isObject provider then safeId (field provider ''id'') else None) ''invalid_input'') (\<lambda>i.
     andThen (assertExactKeys provider (if is_policy kind then [''id'', ''parentId''] else [''id''])) (\<lambda>_.
       if is_policy kind
       then andThen (requireSafeId (field provider ''parentId'')) (\<lambda>p. Inr \<lparr>loc_id = i, loc_parentId = Some p\<rparr>)
       else Inr \<lparr>loc_id = i, loc_parentId = None\<rparr>))"

text \<open>Servers and portals have the identifier their creator gave them.\<close>

definition keyed_locator :: "resource_kind \<Rightarrow> string \<Rightarrow> jval \<Rightarrow> provider_fault + locator" where
  "keyed_locator kind key provider =
     andThen (provider_locator kind provider) (\<lambda>l.
     andThen (demand (\<not> ((kind = Mcp_server \<or> kind = Portal) \<and> loc_id l \<noteq> key)) ''ownership_conflict'') (\<lambda>_. Inr l))"

definition assertDesiredMetadata :: "jval \<Rightarrow> string \<Rightarrow> provider_fault + unit" where
  "assertDesiredMetadata desired installationId =
     andThen (assertExactKeys (field desired ''metadata'') [''manager'', ''installationId'']) (\<lambda>_.
       demand (field (field desired ''metadata'') ''manager'' = JStr MANAGER
         \<and> field (field desired ''metadata'') ''installationId'' = JStr installationId) ''invalid_input'')"

text \<open>The desired object and its hash, which has to be the hash the receipt's pending action expects.\<close>

definition checked_desired :: "(string \<Rightarrow> string) \<Rightarrow> jval \<Rightarrow> resource_kind \<Rightarrow> string \<Rightarrow> receipt_pending \<Rightarrow> string
    \<Rightarrow> provider_fault + jval \<times> string" where
  "checked_desired sha rawChange kind key pending installationId =
     andThen (demand_some (case field rawChange ''desiredHash'' of JStr h \<Rightarrow> if test HASH h then Some h else None | _ \<Rightarrow> None)
       ''invalid_input'') (\<lambda>desiredHash.
     andThen (demand (isObject (field rawChange ''desired'')) ''invalid_input'') (\<lambda>_.
     andThen (case parse_boundary_object (field rawChange ''desired'') of
         Some d \<Rightarrow> if is_json d then Inr d else Inl Other_fault | None \<Rightarrow> Inl Other_fault) (\<lambda>desired.
     andThen (demand (desiredHash = rp_expectedDesiredHash pending) ''invalid_input'') (\<lambda>_.
     andThen (provider_hash sha (JObj [(''schemaVersion'', jint 1), (''kind'', JStr (kind_text kind)), (''key'', JStr key),
       (''desired'', desired)])) (\<lambda>computed.
     andThen (demand (computed = desiredHash) ''invalid_input'') (\<lambda>_.
     andThen (assertDesiredMetadata desired installationId) (\<lambda>_. Inr (desired, desiredHash))))))))"

definition normalized_change :: "(string \<Rightarrow> string) \<Rightarrow> jval \<Rightarrow> receipt \<Rightarrow> provider_fault + mutation_change" where
  "normalized_change sha rawChange receipt =
     andThen (demand (isObject rawChange) ''unsupported_change'') (\<lambda>_.
     andThen (demand_some (parse_action (field rawChange ''action'')) ''unsupported_change'') (\<lambda>action.
     andThen (demand_some (parse_kind (field rawChange ''kind'')) ''unsupported_change'') (\<lambda>kind.
     andThen (requireResourceKey (field rawChange ''key'')) (\<lambda>key.
     andThen (demand_some (rc_pending receipt) ''invalid_input'') (\<lambda>pending.
     andThen (demand (rp_action pending = action \<and> rp_kind pending = kind \<and> rp_key pending = key) ''invalid_input'') (\<lambda>_.
       case action of
         Delete_action \<Rightarrow> andThen (keyed_locator kind key (field rawChange ''provider'')) (\<lambda>l. Inr (Delete_mutation kind key l))
       | Create_action \<Rightarrow> andThen (checked_desired sha rawChange kind key pending (rc_installationId receipt)) (\<lambda>(desired, h).
           Inr (Create_mutation kind key desired h))
       | Update_action \<Rightarrow> andThen (checked_desired sha rawChange kind key pending (rc_installationId receipt)) (\<lambda>(desired, h).
           andThen (keyed_locator kind key (field rawChange ''provider'')) (\<lambda>l. Inr (Update_mutation kind key desired h l)))))))))"

definition owned_resource :: "receipt \<Rightarrow> mutation_change \<Rightarrow> provider_fault + receipt_resource option" where
  "owned_resource receipt change = (case change of
     Create_mutation _ _ _ _ \<Rightarrow> Inr None
   | _ \<Rightarrow> andThen (demand_some (find (\<lambda>r. rr_kind r = mc_kind change \<and> rr_key r = mc_key change
         \<and> sameLocator (Some (rr_provider r)) (Some (mc_provider change))) (rc_resources receipt)) ''ownership_conflict'')
       (\<lambda>r. Inr (Some r)))"

definition normalizeMutationInput :: "platform \<Rightarrow> bound_target \<Rightarrow> jval \<Rightarrow> provider_fault + gateway_mutation" where
  "normalizeMutationInput pf bound inp =
     andThen (demand (isObject inp) ''invalid_input'') (\<lambda>_.
     andThen (demand (unknown_keys inp [''change'', ''receipt'', ''config'', ''target'', ''access''] = []) ''invalid_input'') (\<lambda>_.
     andThen (provider_receipt (pf_sha pf) (field inp ''receipt'')) (\<lambda>receipt.
     andThen (assertTarget (field inp ''target'') bound (rc_target receipt)) (\<lambda>_.
     andThen (provider_config (pf_parse_url pf) (field inp ''config'')) (\<lambda>(configInput, config).
     andThen (demand (gc_hostname config = rt_hostname (rc_target receipt)) ''invalid_input'') (\<lambda>_.
     andThen (machine_identity_checked (pf_sha pf) (field inp ''access'') config receipt) (\<lambda>_.
     andThen (normalized_change (pf_sha pf) (field inp ''change'') receipt) (\<lambda>change.
     andThen (owned_resource receipt change) (\<lambda>owned.
     andThen (provider_marker (rc_installationId receipt) (mc_key change)) (\<lambda>marker.
       Inr \<lparr>gm_access = field inp ''access'', gm_change = change, gm_config = config, gm_configInput = configInput, gm_marker = marker,
         gm_owned = owned, gm_receipt = receipt, gm_target = field inp ''target''\<rparr>))))))))))"

section \<open>The desired state of a mutation\<close>

definition mutation_desired_state :: "platform \<Rightarrow> gateway_mutation \<Rightarrow> provider_fault + desired_state" where
  "mutation_desired_state pf m =
     replaced (buildGatewayDesiredState (pf_sha pf) (pf_parse_url pf) (gm_configInput m) (gm_target m) (gm_access m)) ''invalid_input''"

definition desired_in :: "desired_state \<Rightarrow> resource_kind \<Rightarrow> string \<Rightarrow> desired_resource option" where
  "desired_in st kind key = find (\<lambda>d. rs_kind d = kind \<and> rs_key d = key) (ds_resources st)"

definition entries_of :: "receipt \<Rightarrow> resource_kind \<Rightarrow> string \<Rightarrow> receipt_resource list" where
  "entries_of receipt kind key = filter (\<lambda>r. rr_kind r = kind \<and> rr_key r = key) (rc_resources receipt)"

text \<open>The only element of a list of matches.\<close>

definition only :: "'a list \<Rightarrow> string \<Rightarrow> provider_fault + 'a" where
  "only xs code = (case xs of [x] \<Rightarrow> Inr x | _ \<Rightarrow> Inl (fault code))"

definition exactReceiptResource :: "receipt \<Rightarrow> desired_resource \<Rightarrow> provider_fault + receipt_resource" where
  "exactReceiptResource receipt desired = only (filter (\<lambda>r. rr_kind r = rs_kind desired \<and> rr_key r = rs_key desired
     \<and> rr_desiredHash r = dr_desiredHash desired
     \<and> (case rr_marker r of None \<Rightarrow> False | Some m \<Rightarrow> is_marker (rc_installationId receipt) (rs_key desired) (JStr m)))
     (rc_resources receipt)) ''ownership_conflict''"

definition identity_blockers :: "string list" where
  "identity_blockers = [''allowed_emails_required'', ''invalid_allowed_emails'', ''invalid_access_groups'',
     ''source_access_group_missing'', ''source_access_group_ambiguous'']"

definition assertPolicyDesiredMatchesConfig :: "platform \<Rightarrow> gateway_mutation \<Rightarrow> provider_fault + unit" where
  "assertPolicyDesiredMatchesConfig pf m = (case gm_change m of
     Delete_mutation _ _ _ \<Rightarrow> Inl (fault ''invalid_input'')
   | change \<Rightarrow> if \<not> is_policy (mc_kind change) then Inl (fault ''invalid_input'') else
       andThen (mutation_desired_state pf m) (\<lambda>st.
       andThen (demand (\<not> list_ex (\<lambda>b. pb_code b \<in> set identity_blockers) (ds_blockers st)) ''access_identity_mismatch'') (\<lambda>_.
       andThen (demand (ds_blockers st = []) ''invalid_input'') (\<lambda>_.
       andThen (if ap_identityType (ds_accessPolicy st) = ''service_token''
             \<or> ap_identityType (rc_accessPolicy (gm_receipt m)) = ''service_token''
          then andThen (same_canonical (policy_value (ds_accessPolicy st)) (policy_value (rc_accessPolicy (gm_receipt m)))) (\<lambda>same.
            demand same ''access_identity_mismatch'')
          else Inr ()) (\<lambda>_.
       andThen (demand_some (desired_in st (mc_kind change) (mc_key change)) ''invalid_input'') (\<lambda>expected.
       andThen (demand (dr_desiredHash expected = mc_hash change) ''invalid_input'') (\<lambda>_.
       andThen (same_canonical (rs_desired expected) (mc_desired change)) (\<lambda>same.
         demand same ''invalid_input''))))))))"

definition findPolicyParent :: "gateway_mutation \<Rightarrow> provider_fault + string" where
  "findPolicyParent m =
     (let source = (mc_kind (gm_change m) = Source_access_policy) in
      andThen (requireResourceKey (mc_field (gm_change m)
        (if source then ''sourceApplicationResourceKey'' else ''portalApplicationResourceKey''))) (\<lambda>key.
      andThen (only (entries_of (gm_receipt m) (if source then Source_access_application else Portal_access_application) key)
        ''ownership_conflict'') (\<lambda>r. Inr (loc_id (rr_provider r)))))"

definition expectedPortalForApplicationMutation :: "platform \<Rightarrow> gateway_mutation \<Rightarrow> string \<Rightarrow> provider_fault + portal_desired" where
  "expectedPortalForApplicationMutation pf m portalKey = (case gm_change m of
     Delete_mutation _ _ _ \<Rightarrow> Inl (fault ''invalid_input'')
   | change \<Rightarrow>
       andThen (mutation_desired_state pf m) (\<lambda>st.
       andThen (demand_some (desired_in st Portal_access_application (mc_key change)) ''invalid_input'') (\<lambda>application.
       andThen (demand_some (desired_in st Portal portalKey) ''invalid_input'') (\<lambda>portal.
       andThen (demand (ds_installationId st = rc_installationId (gm_receipt m) \<and> dr_desiredHash application = mc_hash change)
         ''invalid_input'') (\<lambda>_.
       andThen (same_canonical (rs_desired application) (mc_desired change)) (\<lambda>same.
       andThen (demand same ''invalid_input'') (\<lambda>_.
       andThen (provider_marker (rc_installationId (gm_receipt m)) (rs_key portal)) (\<lambda>marker.
       andThen (only (filter (\<lambda>r. loc_id (rr_provider r) = rs_key portal \<and> rr_desiredHash r = dr_desiredHash portal
           \<and> rr_marker r = Some marker) (entries_of (gm_receipt m) Portal (rs_key portal))) ''invalid_input'') (\<lambda>_.
         normalizePortalDesired (rs_desired portal) marker)))))))))"

definition assertPortalApplicationReceiptAbsent :: "receipt \<Rightarrow> provider_fault + unit" where
  "assertPortalApplicationReceiptAbsent receipt =
     demand (\<not> list_ex (\<lambda>r. rr_kind r = Portal_access_application) (rc_resources receipt)) ''ownership_conflict''"

definition assertCanaryPolicyIdentity :: "(string \<Rightarrow> string) \<Rightarrow> jval \<Rightarrow> gateway_mutation \<Rightarrow> provider_fault + unit" where
  "assertCanaryPolicyIdentity sha live m =
     (if ap_identityType (rc_accessPolicy (gm_receipt m)) \<noteq> ''service_token'' then Inr ()
      else demand (serviceTokenPolicyMatchesDigest sha live (ap_identitiesHash (rc_accessPolicy (gm_receipt m)))) ''ownership_conflict'')"

section \<open>Rolling back a pending portal\<close>

record rollback_mutation =
  rm_mutation :: gateway_mutation
  rm_expectedPortal :: portal_desired

text \<open>The receipt holds exactly the resources below the portal, each as desired.\<close>

definition below_ok :: "receipt \<Rightarrow> desired_resource \<Rightarrow> provider_fault + unit" where
  "below_ok receipt desired =
     andThen (only (entries_of receipt (rs_kind desired) (rs_key desired)) ''invalid_input'') (\<lambda>owned.
     andThen (demand (rr_desiredHash owned = dr_desiredHash desired
        \<and> (case rr_marker owned of None \<Rightarrow> False | Some m \<Rightarrow> is_marker (rc_installationId receipt) (rs_key desired) (JStr m)))
        ''invalid_input'') (\<lambda>_.
     andThen (demand (rs_kind desired = Mcp_server \<longrightarrow> loc_id (rr_provider owned) = rs_key desired) ''invalid_input'') (\<lambda>_.
     andThen (if rs_kind desired = Source_access_application
        then andThen (only (filter (\<lambda>r. rr_kind r = Mcp_server \<and> JStr (rr_key r) = field (rs_desired desired) ''sourceResourceKey''
            \<and> JStr (loc_id (rr_provider r)) = field (rs_desired desired) ''sourceResourceKey'') (rc_resources receipt)) ''invalid_input'') (\<lambda>_. Inr ())
        else Inr ()) (\<lambda>_.
       if rs_kind desired = Source_access_policy
       then andThen (only (filter (\<lambda>r. rr_kind r = Source_access_application
             \<and> JStr (rr_key r) = field (rs_desired desired) ''sourceApplicationResourceKey'') (rc_resources receipt)) ''invalid_input'') (\<lambda>parent.
         andThen (demand (loc_parentId (rr_provider owned) = Some (loc_id (rr_provider parent))) ''invalid_input'') (\<lambda>_.
         andThen (policyIdentityHash (rs_desired desired)) (\<lambda>h. demand (rr_identityHash owned = Some h) ''invalid_input'')))
       else Inr ()))))"

definition assertPendingPortalRollbackReceiptTopology :: "desired_resource list \<Rightarrow> receipt \<Rightarrow> provider_fault + unit" where
  "assertPendingPortalRollbackReceiptTopology desiredResources receipt =
     (let lower = takeWhile (\<lambda>d. rs_kind d \<noteq> Portal) desiredResources in
      andThen (demand (list_ex (\<lambda>d. rs_kind d = Portal) desiredResources \<and> length (rc_resources receipt) = length lower) ''invalid_input'') (\<lambda>_.
      andThen (map_or_throw (below_ok receipt) lower) (\<lambda>_. Inr ())))"

definition portal_kinds :: "resource_kind list" where
  "portal_kinds = [Portal, Portal_access_application, Portal_access_policy, Dns_record]"

definition normalizePendingPortalCreateRollbackInput :: "platform \<Rightarrow> bound_target \<Rightarrow> jval \<Rightarrow> provider_fault + rollback_mutation" where
  "normalizePendingPortalCreateRollbackInput pf bound inp =
     andThen (normalizeMutationInput pf bound inp) (\<lambda>m. case gm_change m of
       Create_mutation kind key desired h \<Rightarrow>
         let receipt = gm_receipt m in
         andThen (demand (kind = Portal \<and> map_option rp_type (rc_pending receipt) = Some Apply_type) ''invalid_input'') (\<lambda>_.
         andThen (demand (field (gm_target m) ''zoneName'' = JStr (rt_zoneName (rc_target receipt))) ''target_mismatch'') (\<lambda>_.
         andThen (demand (\<not> list_ex (\<lambda>r. rr_kind r \<in> set portal_kinds) (rc_resources receipt)) ''ownership_conflict'') (\<lambda>_.
         andThen (mutation_desired_state pf m) (\<lambda>st.
         andThen (demand_some (desired_in st Portal key) ''invalid_input'') (\<lambda>portal.
         andThen (demand (ds_installationId st = rc_installationId receipt \<and> dr_desiredHash portal = h) ''invalid_input'') (\<lambda>_.
         andThen (same_canonical (rs_desired portal) desired) (\<lambda>same.
         andThen (demand same ''invalid_input'') (\<lambda>_.
         andThen (same_canonical (policy_value (ds_accessPolicy st)) (policy_value (rc_accessPolicy receipt))) (\<lambda>samePolicy.
         andThen (demand samePolicy ''invalid_input'') (\<lambda>_.
         andThen (assertPendingPortalRollbackReceiptTopology (ds_resources st) receipt) (\<lambda>_.
         andThen (normalizePortalDesired desired (gm_marker m)) (\<lambda>expected.
           Inr \<lparr>rm_mutation = m, rm_expectedPortal = expected\<rparr>))))))))))))
     | _ \<Rightarrow> Inl (fault ''invalid_input''))"

end
