(* ===== verification/Provider.thy ===== *)
theory Provider
  imports Provider_Input
begin

text \<open>
  The requests of \<^verbatim>\<open>src/cloudflare-provider.ts\<close>: one mutation of the account with the reads that guard it, the
  inspections, and the rollback of a pending portal, as programs over the calls of the Cloudflare client. The reads
  are those of the observer; any call may fail, with an error that says nothing (\<open>()\<close>). The delay between two
  attempts of a polling loop is a call too. The loops recur on the attempts that remain.
\<close>

section \<open>The client\<close>

datatype client_call =
    Read observe_call
  | Create_mcp_server jval | Update_mcp_server string jval | Delete_mcp_server string | Sync_mcp_server string
  | Create_portal jval | Update_portal string jval | Delete_portal string
  | Create_access_app jval | Update_access_app string jval | Delete_access_app string
  | Create_app_policy string jval | Update_app_policy string string jval | Delete_app_policy string string
  | Create_dns_record jval | Update_dns_record string jval | Delete_dns_record string
  | Wait int

type_synonym 'x providing = "(client_call, unit + jval, provider_fault, 'x) action"

definition ask :: "client_call \<Rightarrow> jval providing" where
  "ask c = Ask c (\<lambda>a. Done (foreign a))"

definition ensure :: "bool \<Rightarrow> string \<Rightarrow> unit providing" where
  "ensure b code = lift (demand b code)"

definition list_of :: "observe_call \<Rightarrow> jval list providing" where
  "list_of c = seq (ask (Read c)) (\<lambda>v. lift (requireList v))"

text \<open>The object with the identifier, or \<open>None\<close> where there is none.\<close>

definition exactRead :: "observe_call \<Rightarrow> string \<Rightarrow> jval option providing" where
  "exactRead c expectedId = seq (ask (Read c)) (\<lambda>v.
     if v = JNull then return None
     else if \<not> isObject v \<or> field v ''id'' \<noteq> JStr expectedId then throw (fault ''invalid_provider_response'')
     else return (Some v))"

text \<open>An exact read, and the error where there is nothing.\<close>

definition exactLive :: "observe_call \<Rightarrow> string \<Rightarrow> string \<Rightarrow> jval providing" where
  "exactLive c expectedId code = seq (exactRead c expectedId) (\<lambda>live. lift (demand_some live code))"

record polling =
  po_attempts :: nat
  po_interval :: int

definition pause :: "polling \<Rightarrow> unit providing" where
  "pause po = seq (ask (Wait (po_interval po))) (\<lambda>_. return ())"

text \<open>\<^verbatim>\<open>if (attempt + 1 < polling.attempts) await polling.delayImpl(...)\<close>, with \<open>n\<close> attempts left after this one.\<close>

definition pause_between :: "polling \<Rightarrow> nat \<Rightarrow> unit providing" where
  "pause_between po n = (if n = 0 then return () else pause po)"

section \<open>Applications\<close>

definition candidate_ids :: "(jval \<Rightarrow> bool) \<Rightarrow> jval list \<Rightarrow> provider_fault + string list" where
  "candidate_ids predicate apps = map_or_throw requireAppId (filter predicate apps)"

definition is_candidate :: "string \<Rightarrow> jval \<Rightarrow> bool" where
  "is_candidate hostname app = isPortalAppCandidate app (JStr hostname)"

definition is_named :: "string \<Rightarrow> jval \<Rightarrow> bool" where
  "is_named name app \<longleftrightarrow> isObject app \<and> field app ''name'' = JStr name"

definition assertNoAccessAppBaseline :: "(jval \<Rightarrow> bool) \<Rightarrow> unit providing" where
  "assertNoAccessAppBaseline predicate = seq (list_of List_access_apps) (\<lambda>apps.
     seq (lift (candidate_ids predicate apps)) (\<lambda>matches. ensure (matches = []) ''resource_collision''))"

definition assertNoServerAccessApplications :: "string \<Rightarrow> unit providing" where
  "assertNoServerAccessApplications serverId = seq (list_of List_access_apps) (\<lambda>apps.
     ensure (\<not> list_ex (\<lambda>app. isExactServerApp app serverId) apps) ''ownership_conflict'')"

definition assertNoPortalAccessApplications :: "string \<Rightarrow> unit providing" where
  "assertNoPortalAccessApplications hostname = seq (list_of List_access_apps) (\<lambda>apps.
     ensure (\<not> list_ex (is_candidate hostname) apps) ''ownership_conflict'')"

primrec provePortalAccessApplicationBaselineQuiet :: "nat \<Rightarrow> polling \<Rightarrow> string \<Rightarrow> unit providing" where
  "provePortalAccessApplicationBaselineQuiet 0 po hostname = return ()"
| "provePortalAccessApplicationBaselineQuiet (Suc n) po hostname =
     seq (list_of List_access_apps) (\<lambda>apps.
     seq (ensure (\<not> list_ex (is_candidate hostname) apps) ''resource_collision'') (\<lambda>_.
     seq (pause_between po n) (\<lambda>_. provePortalAccessApplicationBaselineQuiet n po hostname)))"

definition assertPortalAccessApplicationCandidateSet :: "string \<Rightarrow> string \<Rightarrow> string \<Rightarrow> bool \<Rightarrow> unit providing" where
  "assertPortalAccessApplicationCandidateSet hostname expectedName expectedId allowAbsent =
     seq (list_of List_access_apps) (\<lambda>apps.
     seq (lift (candidate_ids (\<lambda>app. is_named expectedName app \<or> is_candidate hostname app) apps)) (\<lambda>matches.
       ensure (matches = (if allowAbsent then [] else [expectedId])) ''ownership_conflict''))"

definition assertAccessApplicationPoliciesEmpty :: "jval \<Rightarrow> unit providing" where
  "assertAccessApplicationPoliciesEmpty app =
     seq (lift (requireSafeId (field app ''id''))) (\<lambda>i.
     seq (list_of (List_app_policies i)) (\<lambda>policies.
       ensure (policies = [] \<and> inlinePoliciesAreEmpty app) ''ownership_conflict''))"

definition assertPortalAccessApplicationPolicyPhase :: "gateway_mutation \<Rightarrow> jval \<Rightarrow> unit providing" where
  "assertPortalAccessApplicationPolicyPhase m app =
     seq (lift (requireSafeId (field app ''id''))) (\<lambda>i.
     seq (list_of (List_app_policies i)) (\<lambda>policies.
       case filter (\<lambda>r. rr_kind r = Portal_access_policy \<and> loc_parentId (rr_provider r) = Some i) (rc_resources (gm_receipt m)) of
         [] \<Rightarrow> ensure (policies = [] \<and> inlinePoliciesAreEmpty app) ''ownership_conflict''
       | [owned] \<Rightarrow>
           seq (lift (provider_marker (rc_installationId (gm_receipt m)) (rr_key owned))) (\<lambda>marker.
           seq (ensure (rr_marker owned = Some marker) ''ownership_conflict'') (\<lambda>_.
           seq (lift (assertExpectedPolicySet (JArr policies) (loc_id (rr_provider owned)) marker False)) (\<lambda>_.
             lift (assertInlinePolicySet app (JArr policies)))))
       | _ \<Rightarrow> throw (fault ''ownership_conflict'')))"

section \<open>Receipt-owned parents\<close>

definition assertReceiptOwnedServer :: "gateway_mutation \<Rightarrow> string \<Rightarrow> receipt_resource providing" where
  "assertReceiptOwnedServer m serverKey =
     seq (lift (only (filter (\<lambda>r. loc_id (rr_provider r) = serverKey) (entries_of (gm_receipt m) Mcp_server serverKey)) ''ownership_conflict'')) (\<lambda>server.
     seq (exactLive (Get_mcp_server (loc_id (rr_provider server))) (loc_id (rr_provider server)) ''ownership_conflict'') (\<lambda>live.
     seq (ensure (is_marker (rc_installationId (gm_receipt m)) (rr_key server) (field live ''description'')) ''ownership_conflict'') (\<lambda>_.
       return server)))"

definition assertReceiptOwnedPortal :: "gateway_mutation \<Rightarrow> string \<Rightarrow> bool \<Rightarrow> portal_desired option \<Rightarrow> unit providing" where
  "assertReceiptOwnedPortal m portalKey allowMissing expected =
     seq (lift (only (filter (\<lambda>r. loc_id (rr_provider r) = rr_key r) (entries_of (gm_receipt m) Portal portalKey)) ''ownership_conflict'')) (\<lambda>portal.
     seq (exactRead (Get_portal (loc_id (rr_provider portal))) (loc_id (rr_provider portal))) (\<lambda>found. case found of
       None \<Rightarrow> ensure allowMissing ''ownership_conflict''
     | Some live \<Rightarrow>
         seq (ensure (is_marker (rc_installationId (gm_receipt m)) (rr_key portal) (field live ''description'')
           \<and> field live ''hostname'' = JStr (gc_hostname (gm_config m))) ''ownership_conflict'') (\<lambda>_.
           ensure (case expected of None \<Rightarrow> True | Some e \<Rightarrow> portalMatchesExpected live (loc_id (rr_provider portal)) e) ''ownership_conflict'')))"

definition assertSourceAccessApplicationAuthority :: "gateway_mutation \<Rightarrow> jval \<Rightarrow> string \<Rightarrow> bool \<Rightarrow> unit providing" where
  "assertSourceAccessApplicationAuthority m app marker allowMissingServer =
     seq (lift (demand_some (Option.bind (source_destination app marker) (\<lambda>d. safeId (field d ''mcp_server_id''))) ''ownership_conflict'')) (\<lambda>serverId.
       case filter (\<lambda>r. rr_kind r = Mcp_server \<and> loc_id (rr_provider r) = serverId \<and> loc_id (rr_provider r) = rr_key r)
           (rc_resources (gm_receipt m)) of
         [server] \<Rightarrow>
           seq (exactRead (Get_mcp_server (loc_id (rr_provider server))) (loc_id (rr_provider server))) (\<lambda>found. case found of
             None \<Rightarrow> ensure allowMissingServer ''ownership_conflict''
           | Some live \<Rightarrow> ensure (is_marker (rc_installationId (gm_receipt m)) (rr_key server) (field live ''description'')) ''ownership_conflict'')
       | [] \<Rightarrow> if allowMissingServer
           then seq (exactRead (Get_mcp_server serverId) serverId) (\<lambda>found. ensure (found = None) ''ownership_conflict'')
           else throw (fault ''ownership_conflict'')
       | _ \<Rightarrow> throw (fault ''ownership_conflict''))"

definition assertPortalAccessApplicationAuthority :: "gateway_mutation \<Rightarrow> jval \<Rightarrow> bool \<Rightarrow> bool \<Rightarrow> unit providing" where
  "assertPortalAccessApplicationAuthority m app allowMissingPortal requireDesired =
     seq (ensure (field app ''name'' = JStr (gc_name (gm_config m))
        \<and> portalAccessApplicationContractMatches app (gc_hostname (gm_config m))
        \<and> (requireDesired \<longrightarrow> provider_oauth_matches (field app ''oauth_configuration''))) ''ownership_conflict'') (\<lambda>_.
     seq (lift (only (filter (\<lambda>r. rr_kind r = Portal_access_application \<and> JStr (loc_id (rr_provider r)) = field app ''id'')
        (rc_resources (gm_receipt m))) ''ownership_conflict'')) (\<lambda>_.
     seq (lift (only (filter (\<lambda>r. rr_kind r = Portal) (rc_resources (gm_receipt m))) ''ownership_conflict'')) (\<lambda>portal.
       assertReceiptOwnedPortal m (rr_key portal) allowMissingPortal None)))"

definition is_deletion :: "mutation_change \<Rightarrow> bool" where
  "is_deletion change = (case change of Delete_mutation _ _ _ \<Rightarrow> True | _ \<Rightarrow> False)"

text \<open>The receipt's application with the identifier, and the key the desired policy names, if it names one.\<close>

definition parent_entry :: "gateway_mutation \<Rightarrow> resource_kind \<Rightarrow> string \<Rightarrow> string \<Rightarrow> provider_fault + receipt_resource" where
  "parent_entry m kind fieldName parentId =
     andThen (optionalResourceKey (mc_field (gm_change m) fieldName)) (\<lambda>key.
       only (filter (\<lambda>r. rr_kind r = kind \<and> (case key of None \<Rightarrow> True | Some k \<Rightarrow> rr_key r = k)
         \<and> loc_id (rr_provider r) = parentId) (rc_resources (gm_receipt m))) ''ownership_conflict'')"

definition assertPolicyParent :: "gateway_mutation \<Rightarrow> string \<Rightarrow> jval providing" where
  "assertPolicyParent m parentId =
     seq (exactLive (Get_access_app parentId) parentId ''access_app_missing'') (\<lambda>app.
       if mc_kind (gm_change m) = Portal_access_policy
       then seq (lift (parent_entry m Portal_access_application ''portalApplicationResourceKey'' parentId)) (\<lambda>_.
         seq (assertPortalAccessApplicationAuthority m app (is_deletion (gm_change m)) True) (\<lambda>_. return app))
       else seq (lift (parent_entry m Source_access_application ''sourceApplicationResourceKey'' parentId)) (\<lambda>entry.
         seq (lift (provider_marker (rc_installationId (gm_receipt m)) (rr_key entry))) (\<lambda>marker.
         seq (assertSourceAccessApplicationAuthority m app marker (is_deletion (gm_change m))) (\<lambda>_. return app))))"

end
