(* ===== verification/Provider_Mutations.thy ===== *)
theory Provider_Mutations
  imports Provider
begin

text \<open>
  The handlers of \<^verbatim>\<open>src/cloudflare-provider.ts\<close>, one for each kind of resource, and \<open>applyChange\<close>, which validates
  the input, runs the handler while noting whether it submitted a mutation, and reports the outcome.
\<close>

section \<open>Servers\<close>

text \<open>\<^verbatim>\<open>waitForServerSync\<close> with \<open>n\<close> attempts left.\<close>

primrec waitForServerSync :: "nat \<Rightarrow> polling \<Rightarrow> string \<Rightarrow> string list \<Rightarrow> unit providing" where
  "waitForServerSync 0 po serverId expectedTools = throw (fault ''sync_timeout'')"
| "waitForServerSync (Suc n) po serverId expectedTools =
     seq (exactLive (Get_mcp_server serverId) serverId ''sync_failed'') (\<lambda>server.
       if field server ''status'' = JStr ''ready'' \<and> expectedToolsDiscovered (field server ''tools'') expectedTools then return ()
       else if field server ''status'' = JStr ''error'' then throw (fault ''sync_failed'')
       else seq (pause_between po n) (\<lambda>_. waitForServerSync n po serverId expectedTools))"

definition deleteServer :: "gateway_mutation \<Rightarrow> string \<Rightarrow> unit providing" where
  "deleteServer m i =
     seq (exactRead (Get_mcp_server i) i) (\<lambda>found. case found of
       None \<Rightarrow> assertNoServerAccessApplications i
     | Some live \<Rightarrow>
         seq (lift (assertMarker (field live ''description'') (gm_marker m))) (\<lambda>_.
         seq (assertNoServerAccessApplications i) (\<lambda>_.
         seq (exactLive (Get_mcp_server i) i ''ownership_conflict'') (\<lambda>confirmed.
         seq (lift (assertMarker (field confirmed ''description'') (gm_marker m))) (\<lambda>_.
         seq (assertNoServerAccessApplications i) (\<lambda>_.
         seq (ask (Delete_mcp_server i)) (\<lambda>_. return ())))))))"

definition createServer :: "gateway_mutation \<Rightarrow> string \<Rightarrow> server_desired \<Rightarrow> unit providing" where
  "createServer m key expected =
     seq (ask (Read (Get_mcp_server key))) (\<lambda>found.
     seq (ensure (found = JNull) ''resource_collision'') (\<lambda>_.
     seq (ensure (sd_auth_type expected = ''unauthenticated'') ''source_authorization_required'') (\<lambda>_.
     seq (assertNoAccessAppBaseline (\<lambda>app. isExactServerApp app key)) (\<lambda>_.
     seq (ask (Create_mcp_server (server_create_body key expected (gm_marker m)))) (\<lambda>_. return ())))))"

definition checkServerUpdate :: "gateway_mutation \<Rightarrow> string \<Rightarrow> server_desired \<Rightarrow> unit providing" where
  "checkServerUpdate m i expected =
     seq (exactLive (Get_mcp_server i) i ''ownership_conflict'') (\<lambda>live.
     seq (lift (assertMarker (field live ''description'') (gm_marker m))) (\<lambda>_.
     seq (ensure (field live ''hostname'' = JStr (sd_hostname expected) \<and> field live ''auth_type'' = JStr (sd_auth_type expected))
       ''immutable_server_drift'') (\<lambda>_.
       ensure (field live ''auth_type'' = JStr ''unauthenticated'') ''authenticated_server_update_blocked'')))"

definition syncServer :: "gateway_mutation \<Rightarrow> polling \<Rightarrow> string \<Rightarrow> server_desired \<Rightarrow> unit providing" where
  "syncServer m po key expected =
     seq (ask (Sync_mcp_server key)) (\<lambda>_.
     seq (waitForServerSync (po_attempts po) po key (sd_updated_tools expected)) (\<lambda>_.
     seq (ask (Update_mcp_server key (server_update_body expected (gm_marker m)))) (\<lambda>_. return ())))"

definition mutateServer :: "platform \<Rightarrow> polling \<Rightarrow> gateway_mutation \<Rightarrow> unit providing" where
  "mutateServer pf po m = (case gm_change m of
     Delete_mutation kind key l \<Rightarrow> deleteServer m (loc_id l)
   | Create_mutation kind key desired h \<Rightarrow>
       seq (lift (normalizeServerDesired (pf_parse_url pf) desired)) (\<lambda>expected.
       seq (createServer m key expected) (\<lambda>_. syncServer m po key expected))
   | Update_mutation kind key desired h l \<Rightarrow>
       seq (lift (normalizeServerDesired (pf_parse_url pf) desired)) (\<lambda>expected.
       seq (checkServerUpdate m (loc_id l) expected) (\<lambda>_. syncServer m po key expected)))"

section \<open>Source applications\<close>

primrec waitForAccessAppAbsence :: "nat \<Rightarrow> polling \<Rightarrow> string \<Rightarrow> unit providing" where
  "waitForAccessAppAbsence 0 po appId = throw (fault ''sync_timeout'')"
| "waitForAccessAppAbsence (Suc n) po appId =
     seq (exactRead (Get_access_app appId) appId) (\<lambda>app.
       if app = None then return ()
       else seq (pause_between po n) (\<lambda>_. waitForAccessAppAbsence n po appId))"

text \<open>The deletion itself, then the wait until the application is gone.\<close>

definition deleteApplication :: "polling \<Rightarrow> string \<Rightarrow> unit providing" where
  "deleteApplication po i =
     seq (ask (Delete_access_app i)) (\<lambda>_.
     seq (ensure (safeId (JStr i) \<noteq> None) ''ownership_conflict'') (\<lambda>_. waitForAccessAppAbsence (po_attempts po) po i))"

definition checkSourceApplication :: "gateway_mutation \<Rightarrow> jval \<Rightarrow> unit providing" where
  "checkSourceApplication m app =
     seq (assertSourceAccessApplicationAuthority m app (gm_marker m) True) (\<lambda>_. assertAccessApplicationPoliciesEmpty app)"

definition deleteSourceApplication :: "polling \<Rightarrow> gateway_mutation \<Rightarrow> string \<Rightarrow> unit providing" where
  "deleteSourceApplication po m i =
     seq (exactRead (Get_access_app i) i) (\<lambda>found. case found of
       None \<Rightarrow> return ()
     | Some app \<Rightarrow>
         seq (checkSourceApplication m app) (\<lambda>_.
         seq (exactLive (Get_access_app i) i ''ownership_conflict'') (\<lambda>confirmed.
         seq (checkSourceApplication m confirmed) (\<lambda>_. deleteApplication po i))))"

definition updateSourceApplication :: "gateway_mutation \<Rightarrow> string \<Rightarrow> string \<Rightarrow> unit providing" where
  "updateSourceApplication m i serverId =
     seq (exactLive (Get_access_app i) i ''ownership_conflict'') (\<lambda>live.
     seq (ensure (isExactSourceAccessApplication live serverId (gm_marker m)) ''ownership_conflict'') (\<lambda>_.
       assertAccessApplicationPoliciesEmpty live))"

definition createSourceApplication :: "gateway_mutation \<Rightarrow> string \<Rightarrow> string \<Rightarrow> unit providing" where
  "createSourceApplication m sourceKey serverId =
     seq (list_of List_access_apps) (\<lambda>apps.
     seq (ensure (\<not> list_ex (\<lambda>app. is_named (gm_marker m) app \<or> isExactServerApp app serverId) apps) ''resource_collision'') (\<lambda>_.
     seq (ask (Create_access_app (source_application_body (gm_marker m) serverId))) (\<lambda>created.
     seq (lift (requireAppId created)) (\<lambda>createdId.
     seq (exactLive (Get_access_app createdId) createdId ''ownership_conflict'') (\<lambda>live.
     seq (ensure (isExactSourceAccessApplication live serverId (gm_marker m)) ''ownership_conflict'') (\<lambda>_.
     seq (assertReceiptOwnedServer m sourceKey) (\<lambda>_. assertAccessApplicationPoliciesEmpty live)))))))"

definition mutateSourceAccessApplication :: "polling \<Rightarrow> gateway_mutation \<Rightarrow> unit providing" where
  "mutateSourceAccessApplication po m = (case gm_change m of
     Delete_mutation kind key l \<Rightarrow> deleteSourceApplication po m (loc_id l)
   | Create_mutation kind key desired h \<Rightarrow>
       seq (lift (normalizeSourceAccessApplicationDesired desired)) (\<lambda>sourceKey.
       seq (assertReceiptOwnedServer m sourceKey) (\<lambda>server. createSourceApplication m sourceKey (loc_id (rr_provider server))))
   | Update_mutation kind key desired h l \<Rightarrow>
       seq (lift (normalizeSourceAccessApplicationDesired desired)) (\<lambda>sourceKey.
       seq (assertReceiptOwnedServer m sourceKey) (\<lambda>server. updateSourceApplication m (loc_id l) (loc_id (rr_provider server)))))"

section \<open>Portals\<close>

definition checkPortal :: "gateway_mutation \<Rightarrow> jval \<Rightarrow> provider_fault + unit" where
  "checkPortal m live =
     andThen (assertMarker (field live ''description'') (gm_marker m)) (\<lambda>_.
       demand (field live ''hostname'' = JStr (gc_hostname (gm_config m))) ''ownership_conflict'')"

definition deletePortal :: "gateway_mutation \<Rightarrow> string \<Rightarrow> unit providing" where
  "deletePortal m i =
     seq (lift (assertPortalApplicationReceiptAbsent (gm_receipt m))) (\<lambda>_.
     seq (exactRead (Get_portal i) i) (\<lambda>found. case found of
       None \<Rightarrow> assertNoPortalAccessApplications (gc_hostname (gm_config m))
     | Some live \<Rightarrow>
         seq (lift (checkPortal m live)) (\<lambda>_.
         seq (assertNoPortalAccessApplications (gc_hostname (gm_config m))) (\<lambda>_.
         seq (exactLive (Get_portal i) i ''ownership_conflict'') (\<lambda>confirmed.
         seq (ensure (field confirmed ''hostname'' = JStr (gc_hostname (gm_config m))) ''ownership_conflict'') (\<lambda>_.
         seq (lift (assertMarker (field confirmed ''description'') (gm_marker m))) (\<lambda>_.
         seq (lift (assertPortalApplicationReceiptAbsent (gm_receipt m))) (\<lambda>_.
         seq (assertNoPortalAccessApplications (gc_hostname (gm_config m))) (\<lambda>_.
         seq (ask (Delete_portal i)) (\<lambda>_. return ()))))))))))"

definition createPortal :: "gateway_mutation \<Rightarrow> string \<Rightarrow> portal_desired \<Rightarrow> unit providing" where
  "createPortal m key expected =
     seq (ask (Read (Get_portal key))) (\<lambda>found.
     seq (ensure (found = JNull) ''resource_collision'') (\<lambda>_.
     seq (assertNoAccessAppBaseline (is_candidate (gc_hostname (gm_config m)))) (\<lambda>_.
     seq (ask (Create_portal (JObj ((''id'', JStr key) # portal_body_entries expected)))) (\<lambda>_. return ()))))"

definition updatePortal :: "gateway_mutation \<Rightarrow> string \<Rightarrow> portal_desired \<Rightarrow> unit providing" where
  "updatePortal m i expected =
     seq (exactLive (Get_portal i) i ''ownership_conflict'') (\<lambda>live.
     seq (lift (checkPortal m live)) (\<lambda>_.
     seq (ask (Update_portal i (JObj (portal_body_entries expected)))) (\<lambda>_. return ())))"

definition mutatePortal :: "gateway_mutation \<Rightarrow> unit providing" where
  "mutatePortal m = (case gm_change m of
     Delete_mutation kind key l \<Rightarrow> deletePortal m (loc_id l)
   | Create_mutation kind key desired h \<Rightarrow>
       seq (lift (normalizePortalDesired desired (gm_marker m))) (\<lambda>expected. createPortal m key expected)
   | Update_mutation kind key desired h l \<Rightarrow>
       seq (lift (normalizePortalDesired desired (gm_marker m))) (\<lambda>expected. updatePortal m (loc_id l) expected))"

section \<open>Portal applications\<close>

definition checkPortalApplication :: "gateway_mutation \<Rightarrow> string \<Rightarrow> jval \<Rightarrow> unit providing" where
  "checkPortalApplication m i app =
     seq (assertPortalAccessApplicationAuthority m app True False) (\<lambda>_.
     seq (assertPortalAccessApplicationCandidateSet (gc_hostname (gm_config m)) (gc_name (gm_config m)) i False) (\<lambda>_.
       assertAccessApplicationPoliciesEmpty app))"

definition deletePortalApplication :: "polling \<Rightarrow> gateway_mutation \<Rightarrow> string \<Rightarrow> unit providing" where
  "deletePortalApplication po m i =
     seq (exactRead (Get_access_app i) i) (\<lambda>found. case found of
       None \<Rightarrow> assertPortalAccessApplicationCandidateSet (gc_hostname (gm_config m)) (gc_name (gm_config m)) i True
     | Some app \<Rightarrow>
         seq (checkPortalApplication m i app) (\<lambda>_.
         seq (exactLive (Get_access_app i) i ''ownership_conflict'') (\<lambda>confirmed.
         seq (checkPortalApplication m i confirmed) (\<lambda>_. deleteApplication po i))))"

text \<open>The result of a creation is the identifier of the application.\<close>

definition created_result :: "string \<Rightarrow> jval" where
  "created_result i = JObj [(''provider'', JObj [(''id'', JStr i)])]"

definition createPortalApplication :: "polling \<Rightarrow> gateway_mutation \<Rightarrow> portal_application \<Rightarrow> portal_desired \<Rightarrow> jval providing" where
  "createPortalApplication po m expected expectedPortal =
     seq (provePortalAccessApplicationBaselineQuiet (po_attempts po) po (pa_domain expected)) (\<lambda>_.
     seq (assertReceiptOwnedPortal m (pa_portalResourceKey expected) False (Some expectedPortal)) (\<lambda>_.
     seq (list_of List_access_apps) (\<lambda>apps.
     seq (ensure (\<not> list_ex (\<lambda>app. is_named (pa_name expected) app \<or> is_candidate (pa_domain expected) app) apps) ''resource_collision'') (\<lambda>_.
     seq (ask (Create_access_app (portal_application_body expected))) (\<lambda>created.
     seq (lift (requireAppId created)) (\<lambda>createdId.
     seq (exactLive (Get_access_app createdId) createdId ''ownership_conflict'') (\<lambda>live.
     seq (ensure (portalAccessApplicationPrePolicyMatches live expected) ''ownership_conflict'') (\<lambda>_.
       return (created_result createdId)))))))))"

definition livePortalApplication :: "string \<Rightarrow> portal_application \<Rightarrow> jval providing" where
  "livePortalApplication i expected =
     seq (exactLive (Get_access_app i) i ''ownership_conflict'') (\<lambda>live.
     seq (ensure (field live ''name'' = JStr (pa_name expected) \<and> portalAccessApplicationContractMatches live (pa_domain expected))
       ''ownership_conflict'') (\<lambda>_. return live))"

definition updatePortalApplication :: "gateway_mutation \<Rightarrow> string \<Rightarrow> portal_application \<Rightarrow> portal_desired \<Rightarrow> unit providing" where
  "updatePortalApplication m i expected expectedPortal =
     seq (livePortalApplication i expected) (\<lambda>live.
     seq (assertPortalAccessApplicationCandidateSet (pa_domain expected) (pa_name expected) i False) (\<lambda>_.
     seq (assertPortalAccessApplicationPolicyPhase m live) (\<lambda>_.
     seq (livePortalApplication i expected) (\<lambda>confirmed.
     seq (assertReceiptOwnedPortal m (pa_portalResourceKey expected) False (Some expectedPortal)) (\<lambda>_.
     seq (assertPortalAccessApplicationPolicyPhase m confirmed) (\<lambda>_.
     seq (ask (Update_access_app i (portal_application_body expected))) (\<lambda>_. return ())))))))"

text \<open>\<^verbatim>\<open>void\<close>\<close>

definition no_result :: "unit providing \<Rightarrow> jval providing" where
  "no_result p = seq p (\<lambda>_. return Undef)"

definition prepared_application :: "platform \<Rightarrow> gateway_mutation \<Rightarrow> jval \<Rightarrow> (portal_application \<times> portal_desired) providing" where
  "prepared_application pf m desired =
     seq (lift (normalizePortalAccessApplicationDesired desired)) (\<lambda>expected.
     seq (lift (expectedPortalForApplicationMutation pf m (pa_portalResourceKey expected))) (\<lambda>expectedPortal.
     seq (assertReceiptOwnedPortal m (pa_portalResourceKey expected) False (Some expectedPortal)) (\<lambda>_.
       return (expected, expectedPortal))))"

definition mutatePortalAccessApplication :: "platform \<Rightarrow> polling \<Rightarrow> gateway_mutation \<Rightarrow> jval providing" where
  "mutatePortalAccessApplication pf po m = (case gm_change m of
     Delete_mutation kind key l \<Rightarrow> no_result (deletePortalApplication po m (loc_id l))
   | Create_mutation kind key desired h \<Rightarrow>
       seq (prepared_application pf m desired) (\<lambda>(expected, expectedPortal). createPortalApplication po m expected expectedPortal)
   | Update_mutation kind key desired h l \<Rightarrow>
       seq (prepared_application pf m desired) (\<lambda>(expected, expectedPortal).
         no_result (updatePortalApplication m (loc_id l) expected expectedPortal)))"

section \<open>Policies\<close>

text \<open>The listed policies are the expected one and agree with the application's own list.\<close>

definition confirmPolicy :: "platform \<Rightarrow> gateway_mutation \<Rightarrow> string \<Rightarrow> string \<Rightarrow> jval \<Rightarrow> unit providing" where
  "confirmPolicy pf m parentId i parent =
     seq (list_of (List_app_policies parentId)) (\<lambda>policies.
     seq (lift (assertExpectedPolicySet (JArr policies) i (gm_marker m) False)) (\<lambda>confirmed.
     seq (lift (assertInlinePolicySet parent (JArr policies))) (\<lambda>_.
       lift (assertCanaryPolicyIdentity (pf_sha pf) (case confirmed of None \<Rightarrow> JNull | Some p \<Rightarrow> p) m))))"

definition checkLivePolicy :: "platform \<Rightarrow> gateway_mutation \<Rightarrow> string \<Rightarrow> string \<Rightarrow> unit providing" where
  "checkLivePolicy pf m parentId i =
     seq (exactLive (Get_app_policy parentId i) i ''ownership_conflict'') (\<lambda>live.
     seq (lift (assertMarker (field live ''name'') (gm_marker m))) (\<lambda>_.
       lift (assertCanaryPolicyIdentity (pf_sha pf) live m)))"

definition deletePolicy :: "platform \<Rightarrow> gateway_mutation \<Rightarrow> locator \<Rightarrow> unit providing" where
  "deletePolicy pf m l =
     seq (lift (demand_some (Option.bind (loc_parentId l) (\<lambda>p. safeId (JStr p))) ''invalid_input'')) (\<lambda>parentId.
     seq (assertPolicyParent m parentId) (\<lambda>parent.
     seq (ask (Read (List_app_policies parentId))) (\<lambda>policies.
     seq (lift (assertInlinePolicySet parent policies)) (\<lambda>_.
     seq (lift (assertExpectedPolicySet policies (loc_id l) (gm_marker m) True)) (\<lambda>listed. case listed of
       None \<Rightarrow> return ()
     | Some _ \<Rightarrow>
         seq (checkLivePolicy pf m parentId (loc_id l)) (\<lambda>_.
         seq (assertPolicyParent m parentId) (\<lambda>confirmedParent.
         seq (confirmPolicy pf m parentId (loc_id l) confirmedParent) (\<lambda>_.
         seq (ask (Delete_app_policy parentId (loc_id l))) (\<lambda>_. return ())))))))))"

text \<open>No policies, neither listed nor in the application, and this twice.\<close>

definition noPolicies :: "gateway_mutation \<Rightarrow> string \<Rightarrow> unit providing" where
  "noPolicies m parentId =
     seq (assertPolicyParent m parentId) (\<lambda>parent.
     seq (ensure (inlinePoliciesAreEmpty parent) ''ownership_conflict'') (\<lambda>_.
     seq (list_of (List_app_policies parentId)) (\<lambda>policies. lift (assertEmptyPolicySet (JArr policies) (gm_marker m)))))"

definition createPolicy :: "gateway_mutation \<Rightarrow> string \<Rightarrow> policy_body \<Rightarrow> unit providing" where
  "createPolicy m parentId body =
     seq (noPolicies m parentId) (\<lambda>_.
     seq (noPolicies m parentId) (\<lambda>_.
     seq (ask (Create_app_policy parentId (policy_body_value body))) (\<lambda>_. return ())))"

definition updatePolicy :: "platform \<Rightarrow> gateway_mutation \<Rightarrow> string \<Rightarrow> string \<Rightarrow> policy_body \<Rightarrow> unit providing" where
  "updatePolicy pf m parentId i body =
     seq (assertPolicyParent m parentId) (\<lambda>parent.
     seq (ask (Read (List_app_policies parentId))) (\<lambda>policies.
     seq (lift (assertExpectedPolicySet policies i (gm_marker m) False)) (\<lambda>_.
     seq (lift (assertInlinePolicySet parent policies)) (\<lambda>_.
     seq (checkLivePolicy pf m parentId i) (\<lambda>_.
     seq (assertPolicyParent m parentId) (\<lambda>confirmedParent.
     seq (confirmPolicy pf m parentId i confirmedParent) (\<lambda>_.
     seq (ask (Update_app_policy parentId i (policy_body_value body))) (\<lambda>_. return ()))))))))"

definition desiredPolicy :: "platform \<Rightarrow> gateway_mutation \<Rightarrow> jval \<Rightarrow> provider_fault + policy_body" where
  "desiredPolicy pf m desired =
     andThen (normalizePolicyDesired (pf_sha pf) desired (gm_access m) (gm_marker m)) (\<lambda>body.
     andThen (assertPolicyDesiredMatchesConfig pf m) (\<lambda>_. Inr body))"

definition mutatePolicy :: "platform \<Rightarrow> gateway_mutation \<Rightarrow> unit providing" where
  "mutatePolicy pf m = (case gm_change m of
     Delete_mutation kind key l \<Rightarrow> deletePolicy pf m l
   | Create_mutation kind key desired h \<Rightarrow>
       seq (lift (desiredPolicy pf m desired)) (\<lambda>body.
       seq (lift (findPolicyParent m)) (\<lambda>parentId. createPolicy m parentId body))
   | Update_mutation kind key desired h l \<Rightarrow>
       seq (lift (desiredPolicy pf m desired)) (\<lambda>body.
       seq (lift (demand_some (Option.bind (loc_parentId l) (\<lambda>p. safeId (JStr p))) ''invalid_input'')) (\<lambda>parentId.
         updatePolicy pf m parentId (loc_id l) body)))"

section \<open>DNS records\<close>

text \<open>What the DNS record depends on: the desired resources, their receipt entries and the hashes all agree.\<close>

record dns_dependencies =
  dd_portal :: desired_resource
  dd_application :: desired_resource
  dd_policy :: desired_resource
  dd_ownedApplication :: receipt_resource
  dd_ownedPolicy :: receipt_resource

definition dnsDependencies :: "platform \<Rightarrow> gateway_mutation \<Rightarrow> string \<Rightarrow> provider_fault + dns_dependencies" where
  "dnsDependencies pf m portalKey = (case gm_change m of
     Delete_mutation _ _ _ \<Rightarrow> Inl (fault ''invalid_input'')
   | change \<Rightarrow>
       andThen (mutation_desired_state pf m) (\<lambda>st.
       andThen (demand (ds_installationId st = rc_installationId (gm_receipt m)) ''invalid_input'') (\<lambda>_.
       andThen (demand_some (desired_in st Dns_record (mc_key change)) ''invalid_input'') (\<lambda>dns.
       andThen (demand (dr_desiredHash dns = mc_hash change) ''invalid_input'') (\<lambda>_.
       andThen (demand_some (desired_in st Portal portalKey) ''invalid_input'') (\<lambda>portal.
       andThen (demand_some (find (\<lambda>d. rs_kind d = Portal_access_application
           \<and> field (rs_desired d) ''portalResourceKey'' = JStr portalKey) (ds_resources st)) ''invalid_input'') (\<lambda>application.
       andThen (demand_some (find (\<lambda>d. rs_kind d = Portal_access_policy
           \<and> field (rs_desired d) ''portalApplicationResourceKey'' = JStr (rs_key application)) (ds_resources st)) ''invalid_input'') (\<lambda>policy.
       andThen (same_canonical (rs_desired dns) (mc_desired change)) (\<lambda>same.
       andThen (demand same ''invalid_input'') (\<lambda>_.
       andThen (exactReceiptResource (gm_receipt m) portal) (\<lambda>ownedPortal.
       andThen (exactReceiptResource (gm_receipt m) application) (\<lambda>ownedApplication.
       andThen (exactReceiptResource (gm_receipt m) policy) (\<lambda>ownedPolicy.
       andThen (demand (loc_id (rr_provider ownedPortal) = rs_key portal
           \<and> loc_parentId (rr_provider ownedPolicy) = Some (loc_id (rr_provider ownedApplication))) ''ownership_conflict'') (\<lambda>_.
       andThen (policyIdentityHash (rs_desired policy)) (\<lambda>h.
       andThen (demand (rr_identityHash ownedPolicy = Some h) ''ownership_conflict'') (\<lambda>_.
         Inr \<lparr>dd_portal = portal, dd_application = application, dd_policy = policy, dd_ownedApplication = ownedApplication,
           dd_ownedPolicy = ownedPolicy\<rparr>))))))))))))))))"

definition dnsPortalLive :: "gateway_mutation \<Rightarrow> dns_dependencies \<Rightarrow> unit providing" where
  "dnsPortalLive m deps =
     seq (lift (provider_marker (rc_installationId (gm_receipt m)) (rs_key (dd_portal deps)))) (\<lambda>marker.
     seq (lift (normalizePortalDesired (rs_desired (dd_portal deps)) marker)) (\<lambda>expectedPortal.
       assertReceiptOwnedPortal m (rs_key (dd_portal deps)) False (Some expectedPortal)))"

definition dnsApplicationLive :: "dns_dependencies \<Rightarrow> jval providing" where
  "dnsApplicationLive deps =
     (let i = loc_id (rr_provider (dd_ownedApplication deps)) in
      seq (lift (normalizePortalAccessApplicationDesired (rs_desired (dd_application deps)))) (\<lambda>expected.
      seq (exactLive (Get_access_app i) i ''ownership_conflict'') (\<lambda>application.
      seq (ensure (live_application_matches application expected) ''ownership_conflict'') (\<lambda>_.
      seq (assertPortalAccessApplicationCandidateSet (pa_domain expected) (pa_name expected) i False) (\<lambda>_.
        return application)))))"

definition dnsPolicyLive :: "platform \<Rightarrow> gateway_mutation \<Rightarrow> dns_dependencies \<Rightarrow> jval \<Rightarrow> unit providing" where
  "dnsPolicyLive pf m deps application =
     (let i = loc_id (rr_provider (dd_ownedApplication deps)); j = loc_id (rr_provider (dd_ownedPolicy deps)) in
      seq (lift (provider_marker (rc_installationId (gm_receipt m)) (rs_key (dd_policy deps)))) (\<lambda>marker.
      seq (list_of (List_app_policies i)) (\<lambda>policies.
      seq (lift (assertExpectedPolicySet (JArr policies) j marker False)) (\<lambda>_.
      seq (lift (assertInlinePolicySet application (JArr policies))) (\<lambda>_.
      seq (exactRead (Get_app_policy i j) j) (\<lambda>policy.
      seq (lift (normalizePolicyDesired (pf_sha pf) (rs_desired (dd_policy deps)) (gm_access m) marker)) (\<lambda>expectedPolicy.
        ensure (case policy of None \<Rightarrow> False | Some live \<Rightarrow> accessPolicyMatches live expectedPolicy) ''ownership_conflict'')))))))"

definition assertDnsDependencies :: "platform \<Rightarrow> gateway_mutation \<Rightarrow> string \<Rightarrow> unit providing" where
  "assertDnsDependencies pf m portalKey =
     seq (lift (dnsDependencies pf m portalKey)) (\<lambda>deps.
     seq (dnsPortalLive m deps) (\<lambda>_.
     seq (dnsApplicationLive deps) (\<lambda>application. dnsPolicyLive pf m deps application)))"

text \<open>A live record with the marker and the hostname.\<close>

definition checkDns :: "gateway_mutation \<Rightarrow> jval \<Rightarrow> provider_fault + unit" where
  "checkDns m live =
     andThen (assertMarker (field live ''comment'') (gm_marker m)) (\<lambda>_.
       demand (normalizeDnsName (field live ''name'') = gc_hostname (gm_config m)) ''ownership_conflict'')"

definition deleteDns :: "gateway_mutation \<Rightarrow> string \<Rightarrow> unit providing" where
  "deleteDns m i =
     seq (exactRead (Get_dns_record i) i) (\<lambda>found. case found of
       None \<Rightarrow> return ()
     | Some live \<Rightarrow>
         seq (lift (checkDns m live)) (\<lambda>_.
         seq (ask (Delete_dns_record i)) (\<lambda>_. return ())))"

definition createDns :: "platform \<Rightarrow> gateway_mutation \<Rightarrow> string \<Rightarrow> jval \<Rightarrow> unit providing" where
  "createDns pf m portalKey body =
     seq (assertDnsDependencies pf m portalKey) (\<lambda>_.
     seq (list_of (List_dns_records (gc_hostname (gm_config m)))) (\<lambda>collisions.
     seq (ensure (collisions = []) ''resource_collision'') (\<lambda>_.
     seq (assertDnsDependencies pf m portalKey) (\<lambda>_.
     seq (ask (Create_dns_record body)) (\<lambda>_. return ())))))"

definition updateDns :: "platform \<Rightarrow> gateway_mutation \<Rightarrow> string \<Rightarrow> string \<Rightarrow> jval \<Rightarrow> unit providing" where
  "updateDns pf m i portalKey body =
     seq (assertDnsDependencies pf m portalKey) (\<lambda>_.
     seq (exactLive (Get_dns_record i) i ''ownership_conflict'') (\<lambda>live.
     seq (lift (checkDns m live)) (\<lambda>_.
     seq (assertDnsDependencies pf m portalKey) (\<lambda>_.
     seq (ask (Update_dns_record i body)) (\<lambda>_. return ())))))"

definition desiredDns :: "gateway_mutation \<Rightarrow> jval \<Rightarrow> provider_fault + jval \<times> string" where
  "desiredDns m desired =
     andThen (normalizeDnsDesired desired (gm_marker m) (gc_hostname (gm_config m))) (\<lambda>body.
     andThen (requireResourceKey (field desired ''dependsOnResourceKey'')) (\<lambda>portalKey. Inr (body, portalKey)))"

definition mutateDns :: "platform \<Rightarrow> gateway_mutation \<Rightarrow> unit providing" where
  "mutateDns pf m = (case gm_change m of
     Delete_mutation kind key l \<Rightarrow> deleteDns m (loc_id l)
   | Create_mutation kind key desired h \<Rightarrow>
       seq (lift (desiredDns m desired)) (\<lambda>(body, portalKey). createDns pf m portalKey body)
   | Update_mutation kind key desired h l \<Rightarrow>
       seq (lift (desiredDns m desired)) (\<lambda>(body, portalKey). updateDns pf m (loc_id l) portalKey body))"

section \<open>Applying one change\<close>

definition dispatchMutation :: "platform \<Rightarrow> polling \<Rightarrow> gateway_mutation \<Rightarrow> jval providing" where
  "dispatchMutation pf po m = (case mc_kind (gm_change m) of
     Mcp_server \<Rightarrow> no_result (mutateServer pf po m)
   | Source_access_application \<Rightarrow> no_result (mutateSourceAccessApplication po m)
   | Portal \<Rightarrow> no_result (mutatePortal m)
   | Portal_access_application \<Rightarrow> mutatePortalAccessApplication pf po m
   | Source_access_policy \<Rightarrow> no_result (mutatePolicy pf m)
   | Portal_access_policy \<Rightarrow> no_result (mutatePolicy pf m)
   | Dns_record \<Rightarrow> no_result (mutateDns pf m))"

definition normalizeApplyMutationResult :: "mutation_change \<Rightarrow> jval \<Rightarrow> provider_fault + jval" where
  "normalizeApplyMutationResult change result =
     (if \<not> ((case change of Create_mutation _ _ _ _ \<Rightarrow> True | _ \<Rightarrow> False)
         \<and> mc_kind change = Portal_access_application)
      then andThen (demand (result = Undef) ''invalid_provider_response'') (\<lambda>_. Inr (JObj [(''status'', JStr ''submitted'')]))
      else andThen (demand (isObject result \<and> join_with '','' (js_sort compareText (keys result)) = ''provider''
             \<and> isObject (field result ''provider'')
             \<and> join_with '','' (js_sort compareText (keys (field result ''provider''))) = ''id'') ''invalid_provider_response'') (\<lambda>_.
        andThen (demand_some (safeId (field (field result ''provider'') ''id'')) ''invalid_provider_response'') (\<lambda>i.
          Inr (JObj [(''status'', JStr ''submitted''), (''provider'', JObj [(''id'', JStr i)])]))))"

text \<open>The methods that \<^verbatim>\<open>trackCloudflareMutationAttempt\<close> wraps.\<close>

fun is_mutation :: "client_call \<Rightarrow> bool" where
  "is_mutation (Read c) = False"
| "is_mutation (Wait n) = False"
| "is_mutation _ = True"

text \<open>Running with the tracked client: whether a mutation was submitted, beside the result.\<close>

primrec trackCloudflareMutationAttempt :: "(client_call, 'a, 'r) program \<Rightarrow> bool \<Rightarrow> (client_call, 'a, 'r \<times> bool) program" where
  "trackCloudflareMutationAttempt (Done r) = (\<lambda>submitted. Done (r, submitted))"
| "trackCloudflareMutationAttempt (Ask c k) = (\<lambda>submitted.
     Ask c (\<lambda>a. trackCloudflareMutationAttempt (k a) (submitted \<or> is_mutation c)))"

definition apply_mutation :: "platform \<Rightarrow> bound_target \<Rightarrow> polling \<Rightarrow> jval \<Rightarrow> jval providing" where
  "apply_mutation pf bound po inp =
     seq (lift (normalizeMutationInput pf bound inp)) (\<lambda>m.
     seq (dispatchMutation pf po m) (\<lambda>result. lift (normalizeApplyMutationResult (gm_change m) result)))"

definition fault_code :: "provider_fault \<Rightarrow> string" where
  "fault_code e = (case e of Provider_error code _ \<Rightarrow> code | Other_fault \<Rightarrow> ''provider_write_failed'')"

definition applyChange :: "platform \<Rightarrow> bound_target \<Rightarrow> polling \<Rightarrow> jval \<Rightarrow> jval providing" where
  "applyChange pf bound po inp = map_end (\<lambda>(r, submitted). case r of
       Inl e \<Rightarrow> throw (CloudflareGatewayProviderError (fault_code e) (\<not> submitted))
     | Inr x \<Rightarrow> return x)
     (trackCloudflareMutationAttempt (apply_mutation pf bound po inp) False)"

end
