(* ===== verification/Provider_Inspect.thy ===== *)
theory Provider_Inspect
  imports Provider_Mutations
begin

text \<open>
  The rest of \<^verbatim>\<open>createCloudflareGatewayProvider\<close>: its options, the rollback of a pending portal with its inspection,
  the inspection of what is left of a removed installation, and the observation through the same client. The
  cancellation signal of an inspection only makes calls fail and has no value here.
\<close>

section \<open>Options\<close>

definition integer_option :: "jval \<Rightarrow> int \<Rightarrow> int \<Rightarrow> int \<Rightarrow> int option" where
  "integer_option value standard low high = (case value of
     Undef \<Rightarrow> Some standard
   | JNum (JInt i) \<Rightarrow> if low \<le> i \<and> i \<le> high then Some i else None
   | _ \<Rightarrow> None)"

text \<open>The target and the polling of a provider; every refusal is a \<^verbatim>\<open>TypeError\<close>.\<close>

definition provider_options :: "jval \<Rightarrow> provider_fault + bound_target \<times> polling" where
  "provider_options options =
     (if \<not> isObject options
         \<or> unknown_keys options [''token'', ''accountId'', ''zoneId'', ''fetchImpl'', ''delayImpl'', ''discoveryAttempts'',
             ''discoveryIntervalMs'', ''requestTimeoutMs''] \<noteq> [] then Inl Other_fault
      else case (safeId (field options ''accountId''), safeId (field options ''zoneId''),
          integer_option (field options ''discoveryAttempts'') 30 1 120,
          integer_option (field options ''discoveryIntervalMs'') 1000 0 10000) of
        (Some accountId, Some zoneId, Some attempts, Some interval) \<Rightarrow>
          Inr (\<lparr>bt_accountId = accountId, bt_zoneId = zoneId\<rparr>, \<lparr>po_attempts = nat attempts, po_interval = interval\<rparr>)
      | _ \<Rightarrow> Inl Other_fault)"

section \<open>Rolling back a pending portal\<close>

record rollback_sample =
  sa_appCandidates :: "string list"
  sa_dnsRecords :: "jval list"
  sa_portal :: "jval option"

definition rollback_hostname :: "rollback_mutation \<Rightarrow> string" where
  "rollback_hostname rm = gc_hostname (gm_config (rm_mutation rm))"

definition rollback_key :: "rollback_mutation \<Rightarrow> string" where
  "rollback_key rm = mc_key (gm_change (rm_mutation rm))"

definition readPendingPortalCreateRollbackSample :: "rollback_mutation \<Rightarrow> rollback_sample providing" where
  "readPendingPortalCreateRollbackSample rm =
     seq (exactRead (Get_portal (rollback_key rm)) (rollback_key rm)) (\<lambda>portal.
     seq (list_of List_access_apps) (\<lambda>apps.
     seq (lift (candidate_ids (is_candidate (rollback_hostname rm)) apps)) (\<lambda>candidates.
     seq (list_of (List_dns_records (rollback_hostname rm))) (\<lambda>records.
       return \<lparr>sa_appCandidates = candidates, sa_dnsRecords = records, sa_portal = portal\<rparr>))))"

definition assertNoPendingPortalAppCandidates :: "rollback_sample \<Rightarrow> provider_fault + unit" where
  "assertNoPendingPortalAppCandidates sample = demand (sa_appCandidates sample = [] \<and> sa_dnsRecords sample = []) ''ownership_conflict''"

definition assertPendingPortalCreateContract :: "rollback_mutation \<Rightarrow> jval \<Rightarrow> provider_fault + unit" where
  "assertPendingPortalCreateContract rm portal =
     demand (portalMatchesExpected portal (rollback_key rm) (rm_expectedPortal rm)) ''ownership_conflict''"

text \<open>A sample without applications and records, and the portal, if there is one, as it was to be created.\<close>

definition checkedSample :: "rollback_mutation \<Rightarrow> jval option providing" where
  "checkedSample rm =
     seq (readPendingPortalCreateRollbackSample rm) (\<lambda>sample.
     seq (lift (assertNoPendingPortalAppCandidates sample)) (\<lambda>_. return (sa_portal sample)))"

primrec quiet_samples :: "nat \<Rightarrow> polling \<Rightarrow> rollback_mutation \<Rightarrow> bool \<Rightarrow> bool providing" where
  "quiet_samples 0 po rm everySampleQuiet = return everySampleQuiet"
| "quiet_samples (Suc n) po rm everySampleQuiet =
     seq (checkedSample rm) (\<lambda>portal.
     seq (lift (case portal of None \<Rightarrow> Inr () | Some p \<Rightarrow> assertPendingPortalCreateContract rm p)) (\<lambda>_.
     seq (pause_between po n) (\<lambda>_. quiet_samples n po rm (everySampleQuiet \<and> portal = None))))"

definition provePendingPortalCreateRollbackQuiet :: "polling \<Rightarrow> rollback_mutation \<Rightarrow> unit providing" where
  "provePendingPortalCreateRollbackQuiet po rm =
     seq (quiet_samples (po_attempts po) po rm True) (\<lambda>quiet. ensure quiet ''sync_timeout'')"

text \<open>\<^verbatim>\<open>catch (error) { if (error instanceof CloudflareGatewayProviderError) throw error; throw new ...(code) }\<close>\<close>

definition recoded :: "string \<Rightarrow> 'x providing \<Rightarrow> 'x providing" where
  "recoded code p = catch p (\<lambda>e. throw (case e of Provider_error c n \<Rightarrow> e | Other_fault \<Rightarrow> fault code))"

definition inspection_report :: "string \<Rightarrow> string \<Rightarrow> jval" where
  "inspection_report status key = JObj [(''status'', JStr status), (''portalKey'', JStr key)]"

definition rollback_report :: "string \<Rightarrow> string \<Rightarrow> string \<Rightarrow> jval" where
  "rollback_report status key request = JObj [(''status'', JStr status), (''portalKey'', JStr key), (''deleteRequest'', JStr request)]"

definition inspectPendingPortalCreateRollback :: "platform \<Rightarrow> bound_target \<Rightarrow> polling \<Rightarrow> jval \<Rightarrow> jval providing" where
  "inspectPendingPortalCreateRollback pf bound po inp = recoded ''provider_read_failed''
     (seq (lift (normalizePendingPortalCreateRollbackInput pf bound inp)) (\<lambda>rm.
      seq (checkedSample rm) (\<lambda>portal. case portal of
        None \<Rightarrow> seq (provePendingPortalCreateRollbackQuiet po rm) (\<lambda>_. return (inspection_report ''already_absent'' (rollback_key rm)))
      | Some p \<Rightarrow> seq (lift (assertPendingPortalCreateContract rm p)) (\<lambda>_. return (inspection_report ''ready'' (rollback_key rm))))))"

definition alreadyAbsent :: "polling \<Rightarrow> rollback_mutation \<Rightarrow> jval providing" where
  "alreadyAbsent po rm = seq (provePendingPortalCreateRollbackQuiet po rm) (\<lambda>_.
     return (rollback_report ''already_absent'' (rollback_key rm) ''not_needed''))"

text \<open>The deletion, whose failure says nothing about its effect, and then the proof that nothing is left.\<close>

definition deletePendingPortal :: "polling \<Rightarrow> rollback_mutation \<Rightarrow> jval providing" where
  "deletePendingPortal po rm =
     seq (attempt (ask (Delete_portal (rollback_key rm)))) (\<lambda>deleted.
     seq (provePendingPortalCreateRollbackQuiet po rm) (\<lambda>_.
       return (rollback_report ''rolled_back'' (rollback_key rm)
         (case deleted of Inl _ \<Rightarrow> ''outcome_unknown'' | Inr _ \<Rightarrow> ''confirmed''))))"

definition rollback_portal :: "polling \<Rightarrow> rollback_mutation \<Rightarrow> jval providing" where
  "rollback_portal po rm =
     seq (checkedSample rm) (\<lambda>first. case first of
       None \<Rightarrow> alreadyAbsent po rm
     | Some p \<Rightarrow>
         seq (lift (assertPendingPortalCreateContract rm p)) (\<lambda>_.
         seq (pause po) (\<lambda>_.
         seq (checkedSample rm) (\<lambda>second. case second of
           None \<Rightarrow> alreadyAbsent po rm
         | Some q \<Rightarrow> seq (lift (assertPendingPortalCreateContract rm q)) (\<lambda>_. deletePendingPortal po rm)))))"

definition rollbackPendingPortalCreate :: "platform \<Rightarrow> bound_target \<Rightarrow> polling \<Rightarrow> jval \<Rightarrow> jval providing" where
  "rollbackPendingPortalCreate pf bound po inp = recoded ''provider_write_failed''
     (seq (lift (normalizePendingPortalCreateRollbackInput pf bound inp)) (rollback_portal po))"

section \<open>What is left of an installation\<close>

definition residue_read :: "receipt_resource \<Rightarrow> jval option providing" where
  "residue_read r = (let i = loc_id (rr_provider r) in case rr_kind r of
     Mcp_server \<Rightarrow> exactRead (Get_mcp_server i) i
   | Source_access_application \<Rightarrow> exactRead (Get_access_app i) i
   | Portal_access_application \<Rightarrow> exactRead (Get_access_app i) i
   | Portal \<Rightarrow> exactRead (Get_portal i) i
   | Dns_record \<Rightarrow> exactRead (Get_dns_record i) i
   | _ \<Rightarrow> seq (lift (demand_some (Option.bind (loc_parentId (rr_provider r)) (\<lambda>p. safeId (JStr p))) ''invalid_input'')) (\<lambda>parentId.
       exactRead (Get_app_policy parentId i) i))"

text \<open>The count, and the identifiers of the applications it includes.\<close>

primrec count_residue :: "receipt_resource list \<Rightarrow> nat \<times> string list \<Rightarrow> (nat \<times> string list) providing" where
  "count_residue [] counted = return counted"
| "count_residue (r # rs) counted =
     seq (residue_read r) (\<lambda>live.
       count_residue rs (if live = None then counted
         else (fst counted + 1,
           if rr_kind r = Portal_access_application then snd counted @ [loc_id (rr_provider r)] else snd counted)))"

definition add_candidate :: "string \<Rightarrow> nat \<times> string list \<Rightarrow> nat \<times> string list" where
  "add_candidate i counted = (if i \<in> set (snd counted) then counted else (fst counted + 1, snd counted @ [i]))"

definition inspectResidue :: "platform \<Rightarrow> bound_target \<Rightarrow> jval \<Rightarrow> nat providing" where
  "inspectResidue pf bound inp =
     seq (ensure (unknown_keys inp [''config'', ''target'', ''receipt'', ''signal''] = []) ''invalid_input'') (\<lambda>_.
     seq (lift (provider_receipt (pf_sha pf) (field inp ''receipt''))) (\<lambda>receipt.
     seq (lift (assertTarget (field inp ''target'') bound (rc_target receipt))) (\<lambda>_.
     seq (lift (provider_config (pf_parse_url pf) (field inp ''config''))) (\<lambda>(_, config).
     seq (ensure (gc_hostname config = rt_hostname (rc_target receipt)) ''invalid_input'') (\<lambda>_.
     seq (count_residue (rc_resources receipt) (0, [])) (\<lambda>counted.
     seq (list_of List_access_apps) (\<lambda>apps.
     seq (lift (candidate_ids (is_candidate (gc_hostname config)) apps)) (\<lambda>candidates.
       return (fst (fold add_candidate candidates counted))))))))))"

definition inspectCanaryResidue :: "platform \<Rightarrow> bound_target \<Rightarrow> jval \<Rightarrow> nat providing" where
  "inspectCanaryResidue pf bound inp = recoded ''provider_read_failed''
     (seq (ensure (isObject inp) ''invalid_input'') (\<lambda>_.
      seq (ensure (field inp ''signal'' = Undef) ''invalid_input'') (\<lambda>_. inspectResidue pf bound inp)))"

section \<open>Observation\<close>

text \<open>A program of the observer over the calls of the client.\<close>

primrec through_client :: "(observe_call, observe_failure + 'a, 'r) program \<Rightarrow> (client_call, unit + 'a, 'r) program" where
  "through_client (Done r) = Done r"
| "through_client (Ask c k) = Ask (Read c) (\<lambda>a. through_client (k (case a of Inl e \<Rightarrow> Inl Other_failure | Inr v \<Rightarrow> Inr v)))"

definition readObservedState :: "platform \<Rightarrow> observe_input
    \<Rightarrow> (client_call, unit + jval, observe_failure + cloud_state) program" where
  "readObservedState pf inp = through_client (readCloudflareObservedState pf inp)"

end
