(* ===== verification/Plan_Facts.thy ===== *)
theory Plan_Facts
  imports Gateway_Plan
begin

text \<open>
  What the planner guarantees: the keys it derives are valid resource keys; a change touches only
  resources the installation owns; the plan does not depend on the order of observations; a plan
  with nothing to do is exactly a realised desired state, and executing a plan realises it; the
  uninstall list is in reverse dependency order; the plan identifier binds the reviewed content.
\<close>

section \<open>Orders\<close>

interpretation observed_order: comparison compareObservedResources
  unfolding compareObservedResources_def [abs_def] by (intro comparison_intros)

interpretation reverse_order: comparison compareReverseResourceOrder
  unfolding compareReverseResourceOrder_def [abs_def] by (intro comparison_intros)

section \<open>Derived keys\<close>

lemma dash_runs_chars: "list_all key_char (dash_runs s)"
  by (induction s rule: dash_runs.induct) (auto simp: key_char_def)

lemma list_all_trim_dashes: "list_all P s \<Longrightarrow> list_all P (trim_dashes s)"
  by (auto simp: trim_dashes_def list_all_iff dest!: set_dropWhileD)

lemma take_hex: "list_all is_lower_hex s \<Longrightarrow> list_all key_char (take n s)"
  by (auto simp: list_all_iff key_char_def char_class_defs dest!: in_set_takeD)

lemma hashHex_hex:
  "hex_digest sha \<Longrightarrow> hashHex sha v = Some d \<Longrightarrow> list_all is_lower_hex d \<and> length d = 64"
  by (auto simp: hashHex_def hex_digest_def)

lemma stableResourceKey_valid:
  assumes "hex_digest sha" "stableResourceKey sha prefix inst i = Some key"
    and "prefix \<noteq> []" "is_lower (hd prefix)" "list_all key_char prefix" "length prefix \<le> 22"
  shows "test RESOURCE_KEY key" and "length key \<le> 32"
proof -
  define hint where "hint = trim_dashes (dash_runs (toLowerCase i))"
  define n where "n = 32 - length prefix - 10"
  obtain d where d: "hashHex sha (JObj [(''installationId'', JStr inst), (''prefix'', JStr prefix),
       (''logicalId'', JStr i)]) = Some d"
    and key: "key = (if hint \<noteq> [] \<and> 0 < n then prefix @ ''-'' @ take n hint @ ''-'' @ take 8 d
      else prefix @ ''-'' @ take (32 - length prefix - 1) d)"
    using assms(2) by (auto simp: stableResourceKey_def hint_def n_def Let_def split: bind_splits if_splits)
  have "list_all key_char d" "list_all key_char (take k d)" for k
    using hashHex_hex [OF assms(1) d] take_hex [of d "length d"] take_hex [of d k] by auto
  moreover have "list_all key_char (take k hint)" for k
    using list_all_trim_dashes [OF dash_runs_chars]
    by (auto simp: hint_def list_all_iff dest!: in_set_takeD)
  ultimately have chars: "list_all key_char key"
    using assms(5) by (auto simp: key key_char_def)
  have len: "length key \<le> 32" using assms(6) by (auto simp: key n_def)
  then show "length key \<le> 32" .
  obtain c cs where "prefix = c # cs" using assms(3) by (cases prefix) auto
  with assms(4) chars len show "test RESOURCE_KEY key"
    by (cases key) (auto simp: is_resource_key key split: if_splits)
qed

section \<open>Locators\<close>

definition valid_locator :: "resource_kind \<Rightarrow> locator \<Rightarrow> bool" where
  "valid_locator kind l \<longleftrightarrow> test SAFE_OPAQUE_ID (loc_id l)
     \<and> (case loc_parentId l of None \<Rightarrow> \<not> is_policy kind | Some p \<Rightarrow> is_policy kind \<and> test SAFE_OPAQUE_ID p)"

lemma safeOpaqueId_Some: "safeOpaqueId v = Some s \<longleftrightarrow> v = JStr s \<and> test SAFE_OPAQUE_ID s"
  by (auto simp: safeOpaqueId_def split: jval.splits)

lemma normalizeProviderLocator_valid:
  "normalizeProviderLocator kind v = Some l \<Longrightarrow> valid_locator kind l"
  by (auto simp: normalizeProviderLocator_def valid_locator_def Let_def safeOpaqueId_Some
      split: if_splits option.splits)

lemma opaque_char_code: "opaque_char c \<Longrightarrow> 45 \<le> code_unit c"
  by (auto simp: opaque_char_def char_class_defs)

lemma set_map_filter_D: "y \<in> set (List.map_filter f xs) \<Longrightarrow> \<exists>x \<in> set xs. f x = Some y"
  by (auto simp: map_filter_def)

lemma opaque_no_NUL: "test SAFE_OPAQUE_ID s \<Longrightarrow> NUL \<notin> set s"
proof -
  have "code_unit NUL = 0" by (simp add: NUL_def)
  then have "\<not> is_alnum NUL" "\<not> opaque_char NUL"
    using opaque_char_code [of NUL] by (auto simp: char_class_defs)
  then show "test SAFE_OPAQUE_ID s \<Longrightarrow> NUL \<notin> set s"
    by (cases s) (auto simp: is_opaque_id list_all_iff)
qed

lemma opaque_nonempty: "test SAFE_OPAQUE_ID s \<Longrightarrow> s \<noteq> []"
  by (auto simp: is_opaque_id)

lemma providerLocatorText_inject:
  assumes "\<And>l. p = Some l \<Longrightarrow> valid_locator kind l" "\<And>l. q = Some l \<Longrightarrow> valid_locator kind l"
    and "providerLocatorText p = providerLocatorText q"
  shows "p = q"
proof (cases p)
  case None
  with assms(3) show ?thesis by (cases q) (auto simp: providerLocatorText_def)
next
  case (Some l)
  with assms(3) obtain m where m: "q = Some m" by (cases q) (auto simp: providerLocatorText_def)
  have "loc_id l = loc_id m \<and> loc_parentId l = loc_parentId m"
    using assms(1) [OF Some] assms(2) [OF m] assms(3)
    by (auto simp: Some m providerLocatorText_def valid_locator_def append_sep_inject opaque_no_NUL
        split: option.splits)
  with Some m show ?thesis by simp
qed

definition valid_observed :: "observed_resource \<Rightarrow> bool" where
  "valid_observed ob \<longleftrightarrow> (case ob_provider ob of None \<Rightarrow> True | Some l \<Rightarrow> valid_locator (ob_kind ob) l)"

lemma readObservedResource_valid: "readObservedResource raw = Some ob \<Longrightarrow> valid_observed ob"
  by (auto simp: readObservedResource_def valid_observed_def Let_def
      intro: normalizeProviderLocator_valid split: if_splits option.splits)

lemma normalizeObservedResources_valid:
  "ob \<in> set (normalizeObservedResources observed) \<Longrightarrow> valid_observed ob"
  unfolding normalizeObservedResources_def Let_def set_js_sort
  by (drule set_map_filter_D) (blast intro: readObservedResource_valid)

section \<open>Independence of the order of observations\<close>

lemma mset_singleton_list: "mset xs = mset [x] \<longleftrightarrow> xs = [x]"
  by (cases xs) auto

lemma reconcileDesired_cong:
  assumes "mset obs = mset obs'"
  shows "reconcileDesired obs inst d = reconcileDesired obs' inst d"
proof -
  let ?f = "filter (\<lambda>ob. observedIdentity ob = desiredIdentity d)"
  have m: "mset (?f obs) = mset (?f obs')" using assms by (metis mset_filter)
  show ?thesis
  proof (cases "\<exists>x. ?f obs = [x]")
    case True
    with m have "?f obs = ?f obs'" by (metis mset_singleton_list)
    then show ?thesis by (simp add: reconcileDesired_def)
  next
    case False
    with m have "\<nexists>x. ?f obs' = [x]" "?f obs = [] \<longleftrightarrow> ?f obs' = []"
      by (metis mset_singleton_list) (metis m mset_zero_iff)
    with False show ?thesis by (auto simp: reconcileDesired_def split: list.splits)
  qed
qed

lemma staleChange_cong:
  assumes "mset xs = mset ys" "\<And>a. a \<in> set xs \<Longrightarrow> observedIdentity a = i"
  shows "staleChange xs = staleChange ys"
proof (cases "\<exists>x. xs = [x]")
  case True
  then show ?thesis using assms(1) by (metis mset_singleton_list)
next
  case False
  then have no: "\<nexists>x. ys = [x]" using assms(1) by (metis mset_singleton_list)
  show ?thesis
  proof (cases xs)
    case Nil
    with assms(1) show ?thesis by simp
  next
    case (Cons a as)
    with assms(1) obtain b bs where ys: "ys = b # bs" by (cases ys) auto
    have "observedIdentity a = i" "observedIdentity b = i"
      using assms Cons ys by (metis list.set_intros(1) mset_eq_setD)+
    then have "ob_kind a = ob_kind b" "ob_key a = ob_key b"
      by (auto simp: observedIdentity_def)
    with Cons ys False no show ?thesis by (auto simp: staleChange_def split: list.splits)
  qed
qed

lemma staleChange_identity:
  assumes "i \<in> set (map observedIdentity stale)"
  shows "resourceIdentity (pc_kind (staleChange (filter (\<lambda>ob. observedIdentity ob = i) stale)))
    (pc_key (staleChange (filter (\<lambda>ob. observedIdentity ob = i) stale))) = i"
proof -
  let ?f = "filter (\<lambda>ob. observedIdentity ob = i) stale"
  have "?f \<noteq> []" using assms by (auto simp: filter_empty_conv)
  then obtain a as where f: "?f = a # as" by (cases ?f) auto
  then have "a \<in> set ?f" by simp
  then have "observedIdentity a = i" by simp
  then show ?thesis using f by (auto simp: staleChange_def observedIdentity_def split: list.splits)
qed

lemma staleChanges_cong:
  assumes "mset stale = mset stale'"
  shows "staleChanges stale = staleChanges stale'"
proof -
  let ?c = "\<lambda>s i. staleChange (filter (\<lambda>ob. observedIdentity ob = i) s)"
  have "?c stale i = ?c stale' i" for i
    by (rule staleChange_cong [of _ _ i]) (use assms in \<open>auto simp: mset_filter\<close>)
  moreover have "mset (uniq (map observedIdentity stale)) = mset (uniq (map observedIdentity stale'))"
    using assms by (metis distinct_uniq mset_eq_setD mset_map set_eq_iff_mset_eq_distinct set_uniq)
  ultimately have "mset (map (?c stale) (uniq (map observedIdentity stale))) =
      mset (map (?c stale') (uniq (map observedIdentity stale')))"
    by simp
  then show ?thesis unfolding staleChanges_def
  proof (rule reverse_order.sort_cong)
    fix a b
    assume ab: "a \<in> set (map (?c stale) (uniq (map observedIdentity stale)))"
      "b \<in> set (map (?c stale) (uniq (map observedIdentity stale)))"
      "compareReverseResourceOrder a b = 0"
    then have "pc_kind a = pc_kind b" "pc_key a = pc_key b"
      by (auto simp: compareReverseResourceOrder_def or_else_def split: if_splits)
    moreover from ab(1) obtain i where "a = ?c stale i" "i \<in> set (map observedIdentity stale)" by auto
    moreover from ab(2) obtain j where "b = ?c stale j" "j \<in> set (map observedIdentity stale)" by auto
    ultimately show "a = b" using staleChange_identity by metis
  qed
qed

lemma reconcile_order:
  assumes "mset obs = mset obs'" "\<And>ob. ob \<in> set obs \<Longrightarrow> valid_observed ob"
  shows "reconcile ds obs inst = reconcile ds obs' inst"
proof -
  have stale: "mset (staleResources ds obs inst) = mset (staleResources ds obs' inst)"
    using assms(1) by (simp add: staleResources_def mset_filter)
  let ?owned = "\<lambda>obs. map uninstallChange (filter (\<lambda>ob. isOwned ob inst) obs)"
  have "js_sort compareReverseResourceOrder (?owned obs) = js_sort compareReverseResourceOrder (?owned obs')"
  proof (rule reverse_order.sort_cong)
    show "mset (?owned obs) = mset (?owned obs')" using assms(1) by (simp add: mset_filter)
    fix a b
    assume ab: "a \<in> set (?owned obs)" "b \<in> set (?owned obs)" "compareReverseResourceOrder a b = 0"
    obtain x where x: "a = uninstallChange x" "x \<in> set obs" using ab(1) by auto
    obtain y where y: "b = uninstallChange y" "y \<in> set obs" using ab(2) by auto
    have eq: "ob_kind x = ob_kind y" "ob_key x = ob_key y"
      "providerLocatorText (ob_provider x) = providerLocatorText (ob_provider y)"
      using ab(3) by (auto simp: x y uninstallChange_def compareReverseResourceOrder_def or_else_def split: if_splits)
    have "ob_provider x = ob_provider y"
      using eq assms(2) [OF x(2)] assms(2) [OF y(2)]
      by (intro providerLocatorText_inject [of _ "ob_kind x"]) (auto simp: valid_observed_def)
    with eq show "a = b" by (simp add: x y uninstallChange_def)
  qed
  moreover have "reconcileDesired obs inst = reconcileDesired obs' inst"
    using reconcileDesired_cong [OF assms(1)] by blast
  ultimately show ?thesis by (simp add: reconcile_def staleChanges_cong [OF stale])
qed

section \<open>What a change touches\<close>

lemma staleResources_D:
  "ob \<in> set (staleResources ds obs inst) \<Longrightarrow>
   ob \<in> set obs \<and> isOwned ob inst \<and> observedIdentity ob \<notin> desiredIdentity ` set ds"
  by (auto simp: staleResources_def)

lemma staleChanges_D:
  assumes "c \<in> set (staleChanges stale)"
  obtains i where "i \<in> set (map observedIdentity stale)"
    "c = staleChange (filter (\<lambda>ob. observedIdentity ob = i) stale)"
  using assms by (auto simp: staleChanges_def)

lemma staleChange_Delete:
  assumes "pc_action (staleChange xs) \<noteq> Conflict"
  obtains ob where "xs = [ob]" "staleChange xs = uninstallChange ob \<lparr>pc_reason := Some ''stale_owned_resource''\<rparr>"
  using assms by (auto simp: staleChange_def uninstallChange_def split: list.splits)

lemma reconcileDesired_cases:
  obtains (absent) "filter (\<lambda>ob. observedIdentity ob = desiredIdentity d) obs = []"
      "reconcileDesired obs inst d = desiredChange Create d None None"
  | (foreign) ob where "filter (\<lambda>ob. observedIdentity ob = desiredIdentity d) obs = [ob]" "\<not> isOwned ob inst"
      "pc_action (reconcileDesired obs inst d) = Conflict"
  | (same) ob where "filter (\<lambda>ob. observedIdentity ob = desiredIdentity d) obs = [ob]" "isOwned ob inst"
      "ob_desiredHash ob = dr_desiredHash d"
      "reconcileDesired obs inst d = desiredChange Noop d (ob_provider ob) None"
  | (drift) ob where "filter (\<lambda>ob. observedIdentity ob = desiredIdentity d) obs = [ob]" "isOwned ob inst"
      "ob_desiredHash ob \<noteq> dr_desiredHash d"
      "reconcileDesired obs inst d = desiredChange Update d (ob_provider ob) (Some ''owned_resource_drift'')"
  | (ambiguous) "2 \<le> length (filter (\<lambda>ob. observedIdentity ob = desiredIdentity d) obs)"
      "pc_action (reconcileDesired obs inst d) = Conflict"
proof (cases "filter (\<lambda>ob. observedIdentity ob = desiredIdentity d) obs")
  case Nil
  then show ?thesis by (intro absent) (auto simp: reconcileDesired_def)
next
  case (Cons ob rest)
  show ?thesis
  proof (cases rest)
    case Nil
    with Cons show ?thesis
      by (cases "isOwned ob inst"; cases "ob_desiredHash ob = dr_desiredHash d")
         (auto intro: foreign same drift simp: reconcileDesired_def desiredChange_def)
  next
    case (Cons ob' rest')
    with \<open>filter _ obs = ob # rest\<close> show ?thesis
      by (intro ambiguous) (auto simp: reconcileDesired_def desiredChange_def)
  qed
qed

lemma desiredChange_simps [simp]:
  "pc_action (desiredChange a d p r) = a" "pc_kind (desiredChange a d p r) = rs_kind d"
  "pc_key (desiredChange a d p r) = rs_key d" "pc_provider (desiredChange a d p r) = p"
  "pc_desiredHash (desiredChange a d p r) = Some (dr_desiredHash d)"
  "pc_desired (desiredChange a d p r) = Some (rs_desired d)"
  by (simp_all add: desiredChange_def)

lemma reconcileDesired_identity [simp]:
  "pc_kind (reconcileDesired obs inst d) = rs_kind d" "pc_key (reconcileDesired obs inst d) = rs_key d"
  by (cases rule: reconcileDesired_cases [of d obs inst]; auto simp: reconcileDesired_def split: list.splits)+

text \<open>
  A change that would touch an existing resource names the one observed resource with its kind and
  key, which carries this installation's ownership, and keeps its locator.
\<close>

lemma reconcile_owned:
  assumes "c \<in> set (fst (reconcile ds obs inst))" "pc_action c \<in> {Update, Delete, Noop}"
  shows "\<exists>ob. filter (\<lambda>ob. ob_kind ob = pc_kind c \<and> ob_key ob = pc_key c \<and> isOwned ob inst) obs = [ob]
    \<and> pc_provider c = ob_provider ob"
proof -
  from assms(1) consider d where "d \<in> set ds" "c = reconcileDesired obs inst d"
    | "c \<in> set (staleChanges (staleResources ds obs inst))"
    by (auto simp: reconcile_def)
  then show ?thesis
  proof cases
    case 1
    then have ids: "pc_kind c = rs_kind d" "pc_key c = rs_key d" by simp_all
    obtain ob where "filter (\<lambda>ob. observedIdentity ob = desiredIdentity d) obs = [ob]" "isOwned ob inst"
      "pc_provider c = ob_provider ob"
      using assms(2) 1(2) by (cases rule: reconcileDesired_cases [of d obs inst]) auto
    moreover have "filter (\<lambda>ob. ob_kind ob = pc_kind c \<and> ob_key ob = pc_key c \<and> isOwned ob inst) obs =
        filter (\<lambda>ob. isOwned ob inst) (filter (\<lambda>ob. observedIdentity ob = desiredIdentity d) obs)"
      by (auto simp: ids observedIdentity_def desiredIdentity_def intro: filter_cong)
    ultimately show ?thesis by auto
  next
    case 2
    then obtain i where i: "i \<in> set (map observedIdentity (staleResources ds obs inst))"
      "c = staleChange (filter (\<lambda>ob. observedIdentity ob = i) (staleResources ds obs inst))"
      by (rule staleChanges_D)
    then obtain ob where ob: "filter (\<lambda>ob. observedIdentity ob = i) (staleResources ds obs inst) = [ob]"
      "c = uninstallChange ob \<lparr>pc_reason := Some ''stale_owned_resource''\<rparr>"
      using assms(2) staleChange_Delete by (metis change_action.distinct insertE singletonD)
    from ob(1) have mem: "ob \<in> set (filter (\<lambda>ob. observedIdentity ob = i) (staleResources ds obs inst))" by simp
    then have io1: "observedIdentity ob = i" by simp
    have io2: "i \<notin> desiredIdentity ` set ds" using mem by (auto dest: staleResources_D)
    note io = io1 io2
    have "filter (\<lambda>x. ob_kind x = ob_kind ob \<and> ob_key x = ob_key ob \<and> isOwned x inst) obs =
        filter (\<lambda>ob. observedIdentity ob = i) (staleResources ds obs inst)"
      using io by (auto simp: staleResources_def observedIdentity_def intro: filter_cong)
    with ob show ?thesis by (simp add: uninstallChange_def)
  qed
qed

lemma reconcile_length: "length ds \<le> length (fst (reconcile ds obs inst))"
  by (simp add: reconcile_def)

lemma reconcile_desired_part:
  "i < length ds \<Longrightarrow> fst (reconcile ds obs inst) ! i = reconcileDesired obs inst (ds ! i)"
  by (simp add: reconcile_def nth_append)

lemma reconcile_stale_part:
  assumes "c \<in> set (drop (length ds) (fst (reconcile ds obs inst)))"
  shows "pc_action c \<in> {Delete, Conflict} \<and> (\<forall>d \<in> set ds. (rs_kind d, rs_key d) \<noteq> (pc_kind c, pc_key c))"
proof -
  have "c \<in> set (staleChanges (staleResources ds obs inst))" using assms by (simp add: reconcile_def)
  then obtain i where i: "i \<in> set (map observedIdentity (staleResources ds obs inst))"
    "c = staleChange (filter (\<lambda>ob. observedIdentity ob = i) (staleResources ds obs inst))"
    by (rule staleChanges_D)
  then have id: "resourceIdentity (pc_kind c) (pc_key c) = i" using staleChange_identity by blast
  have "i \<notin> desiredIdentity ` set ds" using i(1) by (auto dest: staleResources_D)
  moreover have "pc_action c \<in> {Delete, Conflict}" by (auto simp: i(2) staleChange_def split: list.splits)
  moreover have "(rs_kind d, rs_key d) \<noteq> (pc_kind c, pc_key c)" if "d \<in> set ds" for d
  proof
    assume "(rs_kind d, rs_key d) = (pc_kind c, pc_key c)"
    then have "desiredIdentity d = i" using id by (simp add: desiredIdentity_def)
    with that \<open>i \<notin> desiredIdentity ` set ds\<close> show False by blast
  qed
  ultimately show ?thesis by blast
qed

section \<open>Fixed point and convergence\<close>

text \<open>The observed resources realise the desired ones: each exactly once, owned and current, no stale one.\<close>

definition realised :: "desired_resource list \<Rightarrow> observed_resource list \<Rightarrow> string \<Rightarrow> bool" where
  "realised ds obs inst \<longleftrightarrow>
     list_all (\<lambda>d. case filter (\<lambda>ob. observedIdentity ob = desiredIdentity d) obs of
         [ob] \<Rightarrow> isOwned ob inst \<and> ob_desiredHash ob = dr_desiredHash d
       | _ \<Rightarrow> False) ds
     \<and> staleResources ds obs inst = []"

lemma reconcileDesired_Noop:
  "pc_action (reconcileDesired obs inst d) = Noop \<longleftrightarrow>
   (case filter (\<lambda>ob. observedIdentity ob = desiredIdentity d) obs of
      [ob] \<Rightarrow> isOwned ob inst \<and> ob_desiredHash ob = dr_desiredHash d | _ \<Rightarrow> False)"
  by (cases rule: reconcileDesired_cases [of d obs inst])
     (auto split: list.splits simp: desiredChange_def)

lemma all_noop_iff_realised:
  "list_all (\<lambda>c. pc_action c = Noop) (fst (reconcile ds obs inst)) \<longleftrightarrow> realised ds obs inst"
proof -
  have "list_all (\<lambda>c. pc_action c = Noop) (staleChanges stale) \<longleftrightarrow> stale = []" for stale
  proof
    assume all: "list_all (\<lambda>c. pc_action c = Noop) (staleChanges stale)"
    show "stale = []"
    proof (rule ccontr)
      assume "stale \<noteq> []"
      then have "staleChanges stale \<noteq> []" by (simp add: staleChanges_def)
      then obtain c where c: "c \<in> set (staleChanges stale)" by (cases "staleChanges stale") auto
      from c all have "pc_action c = Noop" by (simp add: list_all_iff)
      moreover from c obtain xs where "c = staleChange xs" by (rule staleChanges_D)
      ultimately show False by (auto simp: staleChange_def split: list.splits)
    qed
  qed (simp add: staleChanges_def)
  moreover have "list_all (\<lambda>c. pc_action c = Noop) (map (reconcileDesired obs inst) ds) \<longleftrightarrow>
      list_all (\<lambda>d. pc_action (reconcileDesired obs inst d) = Noop) ds"
    by (simp add: list.pred_map comp_def)
  ultimately show ?thesis
    by (simp only: reconcile_def realised_def reconcileDesired_Noop fst_conv list_all_append)
qed

text \<open>
  What executing a plan does. \<open>carry_out\<close> is the effect a provider that accepts every call has on
  the observed resources; carrying out all changes of a conflict-free reconciliation realises the
  desired resources, so the next plan has nothing to do, and carrying out the uninstall list leaves
  no owned resource behind.
\<close>

section \<open>An ideal provider\<close>

definition changeIdentity :: "plan_change \<Rightarrow> string" where
  "changeIdentity c = resourceIdentity (pc_kind c) (pc_key c)"

definition created :: "string \<Rightarrow> plan_change \<Rightarrow> observed_resource" where
  "created inst c =
     \<lparr>ob_kind = pc_kind c, ob_key = pc_key c,
      ob_desiredHash = (case pc_desiredHash c of None \<Rightarrow> [] | Some h \<Rightarrow> h),
      ob_ownerInstallationId = inst, ob_ownerMatchesManager = True, ob_provider = None\<rparr>"

definition carry_out :: "string \<Rightarrow> plan_change \<Rightarrow> observed_resource list \<Rightarrow> observed_resource list" where
  "carry_out inst c obs = (case pc_action c of
     Create \<Rightarrow> obs @ [created inst c]
   | Update \<Rightarrow> map (\<lambda>ob. if observedIdentity ob = changeIdentity c
        then ob\<lparr>ob_desiredHash := (case pc_desiredHash c of None \<Rightarrow> [] | Some h \<Rightarrow> h)\<rparr> else ob) obs
   | Delete \<Rightarrow> filter (\<lambda>ob. \<not> (observedIdentity ob = changeIdentity c \<and> isOwned ob inst)) obs
   | Noop \<Rightarrow> obs
   | Conflict \<Rightarrow> obs)"

abbreviation at :: "string \<Rightarrow> observed_resource list \<Rightarrow> observed_resource list" where
  "at i obs \<equiv> filter (\<lambda>ob. observedIdentity ob = i) obs"

lemma observedIdentity_created [simp]: "observedIdentity (created inst c) = changeIdentity c"
  by (simp add: created_def observedIdentity_def changeIdentity_def)

lemma observedIdentity_hash [simp]: "observedIdentity (ob\<lparr>ob_desiredHash := h\<rparr>) = observedIdentity ob"
  by (simp add: observedIdentity_def)

lemma filter_map_keep:
  "(\<And>x. x \<in> set xs \<Longrightarrow> P (f x) = P x) \<Longrightarrow> filter P (map f xs) = map f (filter P xs)"
  by (induction xs) auto

lemma at_carry_out_other: "changeIdentity c \<noteq> i \<Longrightarrow> at i (carry_out inst c obs) = at i obs"
proof -
  assume ne: "changeIdentity c \<noteq> i"
  have "at i (map (\<lambda>ob. if observedIdentity ob = changeIdentity c then ob\<lparr>ob_desiredHash := h\<rparr> else ob) obs)
      = at i obs" for h
    using ne by (induction obs) auto
  moreover have "at i (filter (\<lambda>ob. \<not> (observedIdentity ob = changeIdentity c \<and> isOwned ob inst)) obs) = at i obs"
    using ne by (induction obs) auto
  ultimately show ?thesis using ne by (cases "pc_action c") (simp_all add: carry_out_def)
qed

lemma at_carry_out: "at (changeIdentity c) (carry_out inst c obs) = carry_out inst c (at (changeIdentity c) obs)"
proof -
  let ?i = "changeIdentity c"
  have "at ?i (map (\<lambda>ob. if observedIdentity ob = ?i then ob\<lparr>ob_desiredHash := h\<rparr> else ob) obs)
      = map (\<lambda>ob. if observedIdentity ob = ?i then ob\<lparr>ob_desiredHash := h\<rparr> else ob) (at ?i obs)" for h
    by (rule filter_map_keep) simp
  moreover have "at ?i (filter (\<lambda>ob. \<not> (observedIdentity ob = ?i \<and> isOwned ob inst)) obs)
      = filter (\<lambda>ob. \<not> (observedIdentity ob = ?i \<and> isOwned ob inst)) (at ?i obs)"
    by (simp add: conj_commute)
  ultimately show ?thesis by (cases "pc_action c") (simp_all add: carry_out_def)
qed

lemma at_fold_other:
  "(\<And>c. c \<in> set cs \<Longrightarrow> changeIdentity c \<noteq> i) \<Longrightarrow> at i (fold (carry_out inst) cs obs) = at i obs"
  by (induction cs arbitrary: obs) (simp_all add: at_carry_out_other)

lemma at_fold:
  assumes "distinct (map changeIdentity cs)" "c \<in> set cs"
  shows "at (changeIdentity c) (fold (carry_out inst) cs obs) = carry_out inst c (at (changeIdentity c) obs)"
  using assms
proof (induction cs arbitrary: obs)
  case (Cons b cs)
  show ?case
  proof (cases "c = b")
    case True
    have "changeIdentity b \<notin> changeIdentity ` set cs" using Cons.prems(1) by simp
    then have other: "\<And>x. x \<in> set cs \<Longrightarrow> changeIdentity x \<noteq> changeIdentity b" by (metis imageI)
    show ?thesis unfolding True using at_fold_other [OF other] by (simp add: at_carry_out)
  next
    case False
    then have c: "c \<in> set cs" using Cons.prems(2) by simp
    moreover have "changeIdentity b \<notin> changeIdentity ` set cs" using Cons.prems(1) by simp
    ultimately have "changeIdentity b \<noteq> changeIdentity c" by (metis imageI)
    then show ?thesis using Cons.IH [OF _ c, of "carry_out inst b obs"] Cons.prems(1)
      by (simp add: at_carry_out_other)
  qed
qed simp

section \<open>The changes of a reconciliation\<close>

lemma changeIdentity_staleChange:
  "i \<in> set (map observedIdentity stale) \<Longrightarrow>
   changeIdentity (staleChange (at i stale)) = i"
  unfolding changeIdentity_def by (rule staleChange_identity)

lemma map_changeIdentity_stale:
  "set (map changeIdentity (staleChanges stale)) = set (map observedIdentity stale)"
  "distinct (map changeIdentity (staleChanges stale))"
proof -
  let ?cs = "map (\<lambda>i. staleChange (at i stale)) (uniq (map observedIdentity stale))"
  have eq: "map changeIdentity ?cs = uniq (map observedIdentity stale)"
    unfolding map_map by (rule map_idI) (simp add: changeIdentity_staleChange)
  have "mset (map changeIdentity (staleChanges stale)) = mset (map changeIdentity ?cs)"
    unfolding staleChanges_def mset_map mset_js_sort by (rule refl)
  then have m: "mset (map changeIdentity (staleChanges stale)) = mset (uniq (map observedIdentity stale))"
    unfolding eq .
  show "set (map changeIdentity (staleChanges stale)) = set (map observedIdentity stale)"
    using m by (metis mset_eq_setD set_uniq)
  show "distinct (map changeIdentity (staleChanges stale))"
    using m by (metis distinct_uniq mset_eq_imp_distinct_iff)
qed

lemma changeIdentity_desired [simp]: "changeIdentity (reconcileDesired obs inst d) = desiredIdentity d"
  by (simp add: changeIdentity_def desiredIdentity_def)

lemma reconcile_distinct:
  assumes "distinct (map desiredIdentity ds)"
  shows "distinct (map changeIdentity (fst (reconcile ds obs inst)))"
proof -
  have "set (map observedIdentity (staleResources ds obs inst)) \<inter> set (map desiredIdentity ds) = {}"
    unfolding staleResources_def by auto
  moreover have "map changeIdentity (map (reconcileDesired obs inst) ds) = map desiredIdentity ds"
    by simp
  ultimately show ?thesis
    using assms map_changeIdentity_stale [of "staleResources ds obs inst"]
    unfolding reconcile_def fst_conv map_append distinct_append by (metis inf_commute)
qed

lemma realised_single:
  assumes "pc_action (reconcileDesired obs inst d) \<noteq> Conflict"
  shows "\<exists>ob. carry_out inst (reconcileDesired obs inst d) (at (desiredIdentity d) obs) = [ob]
    \<and> isOwned ob inst \<and> ob_desiredHash ob = dr_desiredHash d"
proof (cases rule: reconcileDesired_cases [of d obs inst])
  case absent
  then show ?thesis by (simp add: carry_out_def created_def isOwned_def)
next
  case (drift ob)
  have "observedIdentity ob = desiredIdentity d"
    using drift(1) by (metis (mono_tags, lifting) filter_eq_ConsD)
  then show ?thesis using drift
    by (simp add: carry_out_def isOwned_def changeIdentity_def desiredIdentity_def)
qed (use assms in \<open>auto simp: carry_out_def\<close>)

lemma carry_out_realises:
  assumes dist: "distinct (map desiredIdentity ds)"
    and ok: "\<not> list_ex (\<lambda>c. pc_action c = Conflict) (fst (reconcile ds obs inst))"
  shows "realised ds (fold (carry_out inst) (fst (reconcile ds obs inst)) obs) inst"
proof -
  let ?cs = "fst (reconcile ds obs inst)" and ?stale = "staleResources ds obs inst"
  let ?obs = "fold (carry_out inst) ?cs obs"
  note d = reconcile_distinct [OF dist, of obs inst]
  have desired: "\<exists>ob. at (desiredIdentity d) ?obs = [ob] \<and> isOwned ob inst \<and> ob_desiredHash ob = dr_desiredHash d"
    if "d \<in> set ds" for d
  proof -
    have c: "reconcileDesired obs inst d \<in> set ?cs" using that by (simp add: reconcile_def)
    then have "pc_action (reconcileDesired obs inst d) \<noteq> Conflict" using ok by (auto simp: list_ex_iff)
    then show ?thesis using at_fold [OF d c, of inst obs] realised_single by simp
  qed
  have no_owned: "\<not> isOwned ob inst" if ob: "ob \<in> set ?obs" "observedIdentity ob \<notin> set (map desiredIdentity ds)" for ob
  proof -
    let ?i = "observedIdentity ob"
    have mem: "ob \<in> set (at ?i ?obs)" using ob(1) by simp
    show ?thesis
    proof (cases "?i \<in> set (map observedIdentity ?stale)")
      case True
      then have "?i \<in> set (map changeIdentity (staleChanges ?stale))"
        using map_changeIdentity_stale(1) by blast
      then obtain c where c: "c \<in> set (staleChanges ?stale)" "changeIdentity c = ?i" by auto
      then have cs: "c \<in> set ?cs" by (simp add: reconcile_def)
      moreover from c(1) obtain xs where "c = staleChange xs" by (rule staleChanges_D)
      ultimately have "pc_action c = Delete" using ok by (auto simp: list_ex_iff staleChange_def split: list.splits)
      moreover have "ob \<in> set (carry_out inst c (at ?i obs))"
        using mem at_fold [OF d cs, of inst obs] c(2) by metis
      ultimately show ?thesis using c(2) by (auto simp: carry_out_def)
    next
      case False
      have "changeIdentity ` set ?cs = set (map desiredIdentity ds) \<union> set (map observedIdentity ?stale)"
        using map_changeIdentity_stale(1) [of ?stale] by (simp add: reconcile_def image_Un image_image)
      then have other: "changeIdentity c \<noteq> ?i" if "c \<in> set ?cs" for c
        using that False ob(2) by (metis UnE imageI)
      have "at ?i ?obs = at ?i obs" by (rule at_fold_other) (rule other)
      with mem have "ob \<in> set obs" by simp
      with False ob(2) show ?thesis by (auto simp: staleResources_def)
    qed
  qed
  have "staleResources ds ?obs inst = []" using no_owned by (auto simp: staleResources_def filter_empty_conv)
  moreover have "list_all (\<lambda>d. case at (desiredIdentity d) ?obs of
      [ob] \<Rightarrow> isOwned ob inst \<and> ob_desiredHash ob = dr_desiredHash d | _ \<Rightarrow> False) ds"
    using desired by (fastforce simp: list_all_iff)
  ultimately show ?thesis by (simp add: realised_def)
qed

section \<open>Uninstall\<close>

lemma uninstall_rank:
  "sorted_wrt (\<lambda>c d. resourceRank (pc_kind d) \<le> resourceRank (pc_kind c)) (snd (reconcile ds obs inst))"
proof -
  have "sorted_wrt (\<lambda>a b. compareReverseResourceOrder a b \<le> 0) (snd (reconcile ds obs inst))"
    by (simp add: reconcile_def reverse_order.sorted_sort)
  then show ?thesis
    by (rule sorted_wrt_mono_rel [rotated]) (auto simp: compareReverseResourceOrder_def or_else_def split: if_splits)
qed

lemma fold_deletes:
  "(\<And>c. c \<in> set cs \<Longrightarrow> pc_action c = Delete) \<Longrightarrow>
   fold (carry_out inst) cs obs =
     filter (\<lambda>ob. \<not> (observedIdentity ob \<in> set (map changeIdentity cs) \<and> isOwned ob inst)) obs"
proof (induction cs arbitrary: obs)
  case (Cons c cs)
  have "carry_out inst c obs = filter (\<lambda>ob. \<not> (observedIdentity ob = changeIdentity c \<and> isOwned ob inst)) obs"
    using Cons.prems by (simp add: carry_out_def)
  then show ?case using Cons by (auto intro: filter_cong)
qed simp

lemma changeIdentity_uninstall [simp]: "changeIdentity (uninstallChange ob) = observedIdentity ob"
  by (simp add: changeIdentity_def uninstallChange_def observedIdentity_def)

lemma uninstall_all:
  "fold (carry_out inst) (snd (reconcile ds obs inst)) obs = filter (\<lambda>ob. \<not> isOwned ob inst) obs"
proof -
  let ?u = "snd (reconcile ds obs inst)"
  have "pc_action c = Delete" if "c \<in> set ?u" for c
    using that by (auto simp: reconcile_def uninstallChange_def)
  moreover have "observedIdentity ob \<in> set (map changeIdentity ?u)" if "ob \<in> set obs" "isOwned ob inst" for ob
  proof -
    have "uninstallChange ob \<in> set ?u" using that by (simp add: reconcile_def)
    then show ?thesis by (metis changeIdentity_uninstall imageI set_map)
  qed
  ultimately show ?thesis by (subst fold_deletes) (auto intro: filter_cong)
qed

end
