(* ===== verification/Plan_Identity.thy ===== *)
theory Plan_Identity
  imports Plan_Facts
begin

text \<open>
  What the identifiers of a plan bind. \<^verbatim>\<open>planId\<close> is a truncated digest of the canonical text of
  everything the operator reviews; two plans with one identifier show the same content, or their two
  texts collide under the truncated digest. The desired resources built from a configuration carry
  valid keys and digests, and refer only to resources that come before them.
\<close>

section \<open>The reviewed content\<close>

definition plan_value :: "gateway_plan \<Rightarrow> jval" where
  "plan_value p = planValue (gp_installationId p) (gp_desiredHash p) (gp_release p) (gp_blockers p)
     (gp_changes p) (gp_uninstall p)"

text \<open>A change up to the order of keys in its desired object.\<close>

definition reviewed :: "plan_change \<Rightarrow> plan_change" where
  "reviewed c = c\<lparr>pc_desired := map_option sort_keys (pc_desired c)\<rparr>"

definition same_review :: "gateway_plan \<Rightarrow> gateway_plan \<Rightarrow> bool" where
  "same_review p q \<longleftrightarrow> gp_installationId p = gp_installationId q \<and> gp_desiredHash p = gp_desiredHash q
     \<and> gp_release p = gp_release q \<and> gp_blockers p = gp_blockers q
     \<and> map reviewed (gp_changes p) = map reviewed (gp_changes q)
     \<and> map reviewed (gp_uninstall p) = map reviewed (gp_uninstall q)"

definition good_desired :: "jval option \<Rightarrow> bool" where
  "good_desired d \<longleftrightarrow> (case d of None \<Rightarrow> True | Some v \<Rightarrow> isObject v \<and> well_formed v)"

lemma field_simps_change:
  "field (change_value c) ''action'' = JStr (action_text (pc_action c))"
  "field (change_value c) ''kind'' = JStr (kind_text (pc_kind c))"
  "field (change_value c) ''key'' = JStr (pc_key c)"
  "field (change_value c) ''desiredHash'' = (case pc_desiredHash c of None \<Rightarrow> Undef | Some h \<Rightarrow> JStr h)"
  "field (change_value c) ''desired'' = (case pc_desired c of None \<Rightarrow> Undef | Some d \<Rightarrow> d)"
  "field (change_value c) ''provider'' = (case pc_provider c of None \<Rightarrow> Undef | Some l \<Rightarrow> locator_value l)"
  "field (change_value c) ''reason'' = (case pc_reason c of None \<Rightarrow> Undef | Some r \<Rightarrow> JStr r)"
  by (simp_all add: change_value_def opt_entry_def split: option.splits)

lemma well_formed_locator [simp]: "well_formed (locator_value l)"
  by (simp add: locator_value_def opt_entry_def split: option.splits)

lemma field_locator:
  "field (locator_value l) ''id'' = JStr (loc_id l)"
  "field (locator_value l) ''parentId'' = (case loc_parentId l of None \<Rightarrow> Undef | Some p \<Rightarrow> JStr p)"
  by (simp_all add: locator_value_def opt_entry_def split: option.splits)

lemma well_formed_change: "good_desired (pc_desired c) \<Longrightarrow> well_formed (change_value c)"
  by (simp add: change_value_def opt_entry_def good_desired_def well_formed_entries_iff split: option.splits)

lemma locator_review:
  assumes "sort_keys (locator_value l) = sort_keys (locator_value m)" shows "(l :: locator) = m"
proof -
  have "loc_id l = loc_id m"
    using sort_keys_field [OF assms, of "''id''"] by (simp add: field_locator)
  moreover have "loc_parentId l = loc_parentId m"
    using sort_keys_field [OF assms, of "''parentId''"] by (simp add: field_locator split: option.splits)
  ultimately show ?thesis by simp
qed

lemma locator_value_obj [simp]: "locator_value l \<noteq> Undef" "sort_keys (locator_value l) \<noteq> Undef"
  by (simp_all add: locator_value_def)

lemma change_review:
  assumes "sort_keys (change_value c) = sort_keys (change_value d)"
    and "good_desired (pc_desired c)" "good_desired (pc_desired d)"
  shows "reviewed c = reviewed d"
proof -
  note f = sort_keys_field [OF assms(1) well_formed_change [OF assms(2)] well_formed_change [OF assms(3)]]
  have "pc_action c = pc_action d" using f [of "''action''"] by (simp add: field_simps_change)
  moreover have "pc_kind c = pc_kind d" using f [of "''kind''"] by (simp add: field_simps_change)
  moreover have "pc_key c = pc_key d" using f [of "''key''"] by (simp add: field_simps_change)
  moreover have "pc_desiredHash c = pc_desiredHash d"
    using f [of "''desiredHash''"] by (simp add: field_simps_change split: option.splits)
  moreover have "pc_reason c = pc_reason d"
    using f [of "''reason''"] by (simp add: field_simps_change split: option.splits)
  moreover have "pc_provider c = pc_provider d"
    using f [of "''provider''"]
    by (simp add: field_simps_change split: option.splits) (auto dest: locator_review simp: eq_commute [of Undef])
  moreover have "map_option sort_keys (pc_desired c) = map_option sort_keys (pc_desired d)"
    using f [of "''desired''"] assms(2,3)
    by (auto simp: field_simps_change good_desired_def split: option.splits)
  ultimately show ?thesis by (simp add: reviewed_def)
qed

lemma changes_review:
  assumes "map sort_keys (map change_value cs) = map sort_keys (map change_value ds)"
    and "\<And>c. c \<in> set cs \<Longrightarrow> good_desired (pc_desired c)" "\<And>d. d \<in> set ds \<Longrightarrow> good_desired (pc_desired d)"
  shows "map reviewed cs = map reviewed ds"
  using assms
proof (induction cs arbitrary: ds)
  case (Cons c cs)
  then obtain d ds' where ds: "ds = d # ds'" by (cases ds) auto
  with Cons show ?case by (auto intro: change_review)
qed simp

lemma blockers_review:
  "map sort_keys (map blocker_value bs) = map sort_keys (map blocker_value cs) \<Longrightarrow> bs = cs"
proof (induction bs arbitrary: cs)
  case (Cons b bs)
  then obtain c cs' where cs: "cs = c # cs'" by (cases cs) auto
  have wf: "well_formed (blocker_value x)" for x by (simp add: blocker_value_def)
  have eq: "sort_keys (blocker_value b) = sort_keys (blocker_value c)" using Cons.prems cs by simp
  have "b = c"
    using sort_keys_field [OF eq wf wf, of "''code''"] sort_keys_field [OF eq wf wf, of "''message''"]
    by (simp add: blocker_value_def)
  with Cons cs show ?case by simp
qed simp

text \<open>The changes of a reconciliation show the desired object of some desired resource, or none.\<close>

lemma reconcile_good_desired:
  assumes "\<And>d. d \<in> set ds \<Longrightarrow> good_desired (Some (rs_desired d))"
  shows "c \<in> set (fst (reconcile ds obs inst)) \<Longrightarrow> good_desired (pc_desired c)"
    and "c \<in> set (snd (reconcile ds obs inst)) \<Longrightarrow> good_desired (pc_desired c)"
proof -
  have stale: "pc_desired (staleChange xs) = None" for xs
    by (auto simp: staleChange_def split: list.splits)
  have "pc_desired (reconcileDesired obs inst d) = Some (rs_desired d)" for d
    by (auto simp: reconcileDesired_def split: list.splits)
  then show "c \<in> set (fst (reconcile ds obs inst)) \<Longrightarrow> good_desired (pc_desired c)"
    using assms by (auto simp: reconcile_def staleChanges_def stale good_desired_def)
  show "c \<in> set (snd (reconcile ds obs inst)) \<Longrightarrow> good_desired (pc_desired c)"
    by (auto simp: reconcile_def uninstallChange_def good_desired_def)
qed

lemma well_formed_plan:
  assumes "\<And>c. c \<in> set (gp_changes p) \<Longrightarrow> good_desired (pc_desired c)"
    "\<And>c. c \<in> set (gp_uninstall p) \<Longrightarrow> good_desired (pc_desired c)"
  shows "well_formed (plan_value p)"
  using assms
  by (auto simp: plan_value_def planValue_def well_formed_entries_iff well_formed_items_iff list_all_iff
      well_formed_change blocker_value_def is_safe_integer_def MAX_SAFE_INTEGER_def)

lemma field_plan:
  "field (plan_value p) ''installationId'' = JStr (gp_installationId p)"
  "field (plan_value p) ''desiredHash'' = JStr (gp_desiredHash p)"
  "field (plan_value p) ''release'' = JStr (gp_release p)"
  "field (plan_value p) ''blockers'' = JArr (map blocker_value (gp_blockers p))"
  "field (plan_value p) ''changes'' = JArr (map change_value (gp_changes p))"
  "field (plan_value p) ''uninstall'' = JArr (map change_value (gp_uninstall p))"
  by (simp_all add: plan_value_def planValue_def)

lemma same_review_of_values:
  assumes eq: "sort_keys (plan_value p) = sort_keys (plan_value q)"
    and p: "\<And>c. c \<in> set (gp_changes p) \<Longrightarrow> good_desired (pc_desired c)"
      "\<And>c. c \<in> set (gp_uninstall p) \<Longrightarrow> good_desired (pc_desired c)"
    and q: "\<And>c. c \<in> set (gp_changes q) \<Longrightarrow> good_desired (pc_desired c)"
      "\<And>c. c \<in> set (gp_uninstall q) \<Longrightarrow> good_desired (pc_desired c)"
  shows "same_review p q"
proof -
  note f = sort_keys_field [OF eq well_formed_plan [OF p] well_formed_plan [OF q]]
  have "gp_installationId p = gp_installationId q" "gp_desiredHash p = gp_desiredHash q" "gp_release p = gp_release q"
    using f [of "''installationId''"] f [of "''desiredHash''"] f [of "''release''"] by (simp_all add: field_plan)
  moreover have "gp_blockers p = gp_blockers q"
    using f [of "''blockers''"] by (intro blockers_review) (simp add: field_plan sort_keys_items_map)
  moreover have "map reviewed (gp_changes p) = map reviewed (gp_changes q)"
    using f [of "''changes''"] p(1) q(1) by (intro changes_review) (simp_all add: field_plan sort_keys_items_map)
  moreover have "map reviewed (gp_uninstall p) = map reviewed (gp_uninstall q)"
    using f [of "''uninstall''"] p(2) q(2) by (intro changes_review) (simp_all add: field_plan sort_keys_items_map)
  ultimately show ?thesis by (simp add: same_review_def)
qed

lemma plan_of_parts:
  assumes "plan_of sha rel st obs = Some p"
  shows "fst (reconcile (ds_resources st) (normalizeObservedResources obs) (ds_installationId st)) = gp_changes p"
    and "snd (reconcile (ds_resources st) (normalizeObservedResources obs) (ds_installationId st)) = gp_uninstall p"
    and "gp_installationId p = ds_installationId st" "gp_desiredHash p = ds_desiredHash st" "gp_release p = rel"
    and "gp_blockers p = ds_blockers st @
      (if list_ex (\<lambda>c. pc_action c = Conflict) (gp_changes p)
       then [blocker ''resource_conflicts''
         ''Resolve existing resource ownership conflicts before deployment.''] else [])"
    and "stablePlanId sha (plan_value p) = Some (gp_planId p)"
  using assms by (auto simp: plan_of_def Let_def plan_value_def split: prod.splits)

lemma stablePlanId_Some:
  "stablePlanId sha v = Some i \<longleftrightarrow> (\<exists>t. canonicalJson v = Some t \<and> i = ''plan-'' @ take 24 (sha t))"
  by (auto simp: stablePlanId_def hashHex_def split: bind_splits)

section \<open>The desired resources\<close>

text \<open>The keys of other resources a desired object names.\<close>

definition text_field :: "jval \<Rightarrow> string \<Rightarrow> string list" where
  "text_field v k = (case field v k of JStr s \<Rightarrow> [s] | _ \<Rightarrow> [])"

definition dependencies :: "jval \<Rightarrow> string list" where
  "dependencies desired =
     concat (map (text_field desired) [''sourceResourceKey'', ''sourceApplicationResourceKey'',
       ''portalResourceKey'', ''portalApplicationResourceKey'', ''dependsOnResourceKey''])
     @ (case items (field desired ''sourceMappings'') of None \<Rightarrow> []
        | Some ms \<Rightarrow> concat (map (\<lambda>m. text_field m ''sourceResourceKey'') ms))"

fun dependencies_first :: "string set \<Rightarrow> (string \<times> jval) list \<Rightarrow> bool" where
  "dependencies_first seen [] = True"
| "dependencies_first seen ((key, desired) # rs) =
     (set (dependencies desired) \<subseteq> seen \<and> dependencies_first (insert key seen) rs)"

lemma dependencies_first_append:
  "dependencies_first seen (xs @ ys) \<longleftrightarrow>
   dependencies_first seen xs \<and> dependencies_first (seen \<union> fst ` set xs) ys"
  by (induction seen xs rule: dependencies_first.induct) auto

lemma dependencies_first_mono:
  "dependencies_first seen xs \<Longrightarrow> seen \<subseteq> seen' \<Longrightarrow> dependencies_first seen' xs"
  by (induction seen xs arbitrary: seen' rule: dependencies_first.induct) auto

lemma dependencies_first_nth:
  "dependencies_first seen xs \<Longrightarrow> i < length xs \<Longrightarrow>
   set (dependencies (snd (xs ! i))) \<subseteq> seen \<union> set (map fst (take i xs))"
proof (induction seen xs arbitrary: i rule: dependencies_first.induct)
  case (2 seen key desired rs)
  show ?case
  proof (cases i)
    case (Suc j)
    with 2 show ?thesis by fastforce
  qed (use "2.prems" in simp)
qed simp

abbreviation key_desired :: "resource_spec \<Rightarrow> string \<times> jval" where
  "key_desired r \<equiv> (rs_key r, rs_desired r)"

lemma those_map_id [simp]: "those (map Some ys) = Some ys"
  by (induction ys) auto

lemma those_Some: "those xs = Some ys \<longleftrightarrow> xs = map Some ys"
proof
  show "those xs = Some ys \<Longrightarrow> xs = map Some ys"
    by (induction xs arbitrary: ys) (auto split: option.splits)
qed simp

lemma those_map_Some: "those (map f xs) = Some ys \<longleftrightarrow> length ys = length xs \<and> (\<forall>i < length xs. f (xs ! i) = Some (ys ! i))"
  by (auto simp: those_Some list_eq_iff_nth_eq)

lemma those_map_set:
  "those (map f xs) = Some ys \<Longrightarrow> y \<in> set ys \<Longrightarrow> \<exists>x \<in> set xs. f x = Some y"
  by (force simp: those_map_Some in_set_conv_nth)

lemma sourceResources_Some:
  assumes "sourceResources sha config access inst source = Some (specs, mapping)"
  obtains k1 k2 k3 where "map rs_key specs = [k1, k2, k3]"
    "map rs_kind specs = [Mcp_server, Source_access_application, Source_access_policy]"
    "stableResourceKey sha ''mcp'' inst (gs_id source) = Some k1"
    "stableResourceKey sha ''source-app'' inst (gs_id source) = Some k2"
    "stableResourceKey sha ''source-access'' inst (gs_id source) = Some k3"
    "text_field mapping ''sourceResourceKey'' = [k1]"
    "dependencies_first {} (map key_desired specs)"
  using assms
  by (auto simp: sourceResources_def Let_def dependencies_def text_field_def split: bind_splits)

lemma portalResources_Some:
  assumes "portalResources sha config access inst mappings = Some specs"
  obtains k1 k2 k3 k4 where "map rs_key specs = [k1, k2, k3, k4]"
    "map rs_kind specs = [Portal, Portal_access_application, Portal_access_policy, Dns_record]"
    "stableResourceKey sha ''portal'' inst (gc_hostname config) = Some k1"
    "stableResourceKey sha ''portal-app'' inst (gc_hostname config) = Some k2"
    "stableResourceKey sha ''portal-access'' inst (gc_hostname config) = Some k3"
    "stableResourceKey sha ''dns'' inst (gc_hostname config) = Some k4"
    "dependencies_first (set (concat (map (\<lambda>m. text_field m ''sourceResourceKey'') mappings)))
       (map key_desired specs)"
  using assms
  by (auto simp: portalResources_def Let_def dependencies_def text_field_def split: bind_splits)

lemma seal_spec_Some:
  "seal_spec sha r = Some d \<Longrightarrow> key_desired (resource_spec.truncate d) = key_desired r \<and> rs_kind d = rs_kind r
     \<and> hashCanonical sha (JObj [(''schemaVersion'', jint 1), (''kind'', JStr (kind_text (rs_kind d))),
         (''key'', JStr (rs_key d)), (''desired'', rs_desired d)]) = Some (dr_desiredHash d)"
  by (auto simp: seal_spec_def resource_spec.defs split: bind_splits)

lemma those_seal:
  "those (map (seal_spec sha) specs) = Some rs \<Longrightarrow>
   map (\<lambda>r. (rs_kind r, rs_key r, rs_desired r)) rs = map (\<lambda>r. (rs_kind r, rs_key r, rs_desired r)) specs"
  by (rule nth_equalityI)
     (auto simp: those_map_Some resource_spec.defs dest!: seal_spec_Some spec)

text \<open>The blocks of the desired resources: three per source in the order of the sorted sources, then the portal's.\<close>

lemma buildDesiredResources_blocks:
  assumes "buildDesiredResources sha config access inst = Some rs"
  obtains perSource portal where
    "length perSource = length (gc_sources config)"
    "list_all2 (\<lambda>source block. sourceResources sha config access inst source = Some block)
       (sortedSources config) perSource"
    "portalResources sha config access inst (map snd perSource) = Some portal"
    "map (\<lambda>r. (rs_kind r, rs_key r, rs_desired r)) rs =
     map (\<lambda>r. (rs_kind r, rs_key r, rs_desired r)) (concat (map fst perSource) @ portal)"
    "those (map (seal_spec sha) (concat (map fst perSource) @ portal)) = Some rs"
proof -
  obtain perSource portal where p:
      "those (map (sourceResources sha config access inst) (sortedSources config)) = Some perSource"
      "portalResources sha config access inst (map snd perSource) = Some portal"
      "those (map (seal_spec sha) (concat (map fst perSource) @ portal)) = Some rs"
    using assms by (auto simp: buildDesiredResources_def split: bind_splits)
  have len: "length perSource = length (gc_sources config)"
    using p(1) by (simp add: those_map_Some sortedSources_def)
  moreover have "list_all2 (\<lambda>source block. sourceResources sha config access inst source = Some block)
       (sortedSources config) perSource"
    using p(1) by (auto simp: those_map_Some list_all2_conv_all_nth)
  ultimately show ?thesis using that p(2,3) those_seal [OF p(3)] by blast
qed

text \<open>The key of a resource is derived from one of the seven prefixes.\<close>

definition derived_key :: "(string \<Rightarrow> string) \<Rightarrow> string \<Rightarrow> string \<Rightarrow> bool" where
  "derived_key sha inst key \<longleftrightarrow>
     (\<exists>prefix \<in> {''mcp'', ''source-app'', ''source-access'', ''portal'', ''portal-app'', ''portal-access'', ''dns''}.
      \<exists>i. stableResourceKey sha prefix inst i = Some key)"

lemma derived_keyI:
  "stableResourceKey sha ''mcp'' inst i = Some key \<Longrightarrow> derived_key sha inst key"
  "stableResourceKey sha ''source-app'' inst i = Some key \<Longrightarrow> derived_key sha inst key"
  "stableResourceKey sha ''source-access'' inst i = Some key \<Longrightarrow> derived_key sha inst key"
  "stableResourceKey sha ''portal'' inst i = Some key \<Longrightarrow> derived_key sha inst key"
  "stableResourceKey sha ''portal-app'' inst i = Some key \<Longrightarrow> derived_key sha inst key"
  "stableResourceKey sha ''portal-access'' inst i = Some key \<Longrightarrow> derived_key sha inst key"
  "stableResourceKey sha ''dns'' inst i = Some key \<Longrightarrow> derived_key sha inst key"
  by (auto simp: derived_key_def)

lemma derived_key_valid:
  assumes "hex_digest sha" "derived_key sha inst key"
  shows "test RESOURCE_KEY key \<and> length key \<le> 32"
proof -
  from assms(2) obtain prefix i where p: "stableResourceKey sha prefix inst i = Some key"
    "prefix \<in> {''mcp'', ''source-app'', ''source-access'', ''portal'', ''portal-app'', ''portal-access'', ''dns''}"
    unfolding derived_key_def by (elim bexE exE)
  have "list_all (\<lambda>p. p \<noteq> [] \<and> is_lower (hd p) \<and> list_all key_char p \<and> length p \<le> 22)
      [''mcp'', ''source-app'', ''source-access'', ''portal'', ''portal-app'', ''portal-access'', ''dns'']"
    by (simp add: key_char_def char_class_defs)
  moreover have "prefix \<in> set [''mcp'', ''source-app'', ''source-access'', ''portal'', ''portal-app'', ''portal-access'', ''dns'']"
    using p(2) by simp
  ultimately have "prefix \<noteq> [] \<and> is_lower (hd prefix) \<and> list_all key_char prefix \<and> length prefix \<le> 22"
    unfolding list_all_iff by (rule bspec)
  then show ?thesis using stableResourceKey_valid [OF assms(1) p(1)] by blast
qed

lemma blocks_closed:
  assumes "list_all2 (\<lambda>source block. sourceResources sha config access inst source = Some block) sources perSource"
  shows "dependencies_first {} (map key_desired (concat (map fst perSource)))
    \<and> set (concat (map (\<lambda>m. text_field m ''sourceResourceKey'') (map snd perSource)))
        \<subseteq> rs_key ` set (concat (map fst perSource))
    \<and> length (concat (map fst perSource)) = 3 * length perSource
    \<and> list_all (\<lambda>r. derived_key sha inst (rs_key r)) (concat (map fst perSource))"
  using assms
proof (induction rule: list_all2_induct)
  case (Cons source sources block blocks)
  obtain specs mapping where block: "block = (specs, mapping)" by (cases block)
  from Cons(1) obtain k1 k2 k3 where k: "map rs_key specs = [k1, k2, k3]"
    "stableResourceKey sha ''mcp'' inst (gs_id source) = Some k1"
    "stableResourceKey sha ''source-app'' inst (gs_id source) = Some k2"
    "stableResourceKey sha ''source-access'' inst (gs_id source) = Some k3"
    "text_field mapping ''sourceResourceKey'' = [k1]"
    "dependencies_first {} (map key_desired specs)"
    unfolding block by (rule sourceResources_Some)
  have "length specs = 3" using arg_cong [OF k(1), of length] by simp
  moreover have "rs_key ` set specs = {k1, k2, k3}" using arg_cong [OF k(1), of set] by simp
  moreover have "\<forall>r \<in> set specs. derived_key sha inst (rs_key r)"
  proof
    fix r assume "r \<in> set specs"
    then have "rs_key r \<in> {k1, k2, k3}" using \<open>rs_key ` set specs = _\<close> by blast
    then show "derived_key sha inst (rs_key r)" using k(2,3,4) by (auto intro: derived_keyI)
  qed
  moreover have "dependencies_first (fst ` set (map key_desired specs)) (map key_desired (concat (map fst blocks)))"
    using Cons(3) by (blast intro: dependencies_first_mono)
  ultimately show ?case
    using Cons(3) k(5,6)
    by (simp add: block dependencies_first_append list_all_iff image_Un) blast
qed simp

lemma desired_structure:
  assumes "buildDesiredResources sha config access inst = Some rs"
  shows "dependencies_first {} (map (\<lambda>r. (rs_key r, rs_desired r)) rs)"
    and "length rs = 3 * length (gc_sources config) + 4"
    and "r \<in> set rs \<Longrightarrow> derived_key sha inst (rs_key r)"
    and "r \<in> set rs \<Longrightarrow> \<exists>v. hashCanonical sha v = Some (dr_desiredHash r)"
proof -
  from assms obtain perSource portal where p:
    "length perSource = length (gc_sources config)"
    "list_all2 (\<lambda>source block. sourceResources sha config access inst source = Some block)
       (sortedSources config) perSource"
    "portalResources sha config access inst (map snd perSource) = Some portal"
    "map (\<lambda>r. (rs_kind r, rs_key r, rs_desired r)) rs =
     map (\<lambda>r. (rs_kind r, rs_key r, rs_desired r)) (concat (map fst perSource) @ portal)"
    "those (map (seal_spec sha) (concat (map fst perSource) @ portal)) = Some rs"
    by (rule buildDesiredResources_blocks)
  note b = blocks_closed [OF p(2)]
  from p(3) obtain k1 k2 k3 k4 where k: "map rs_key portal = [k1, k2, k3, k4]"
    "stableResourceKey sha ''portal'' inst (gc_hostname config) = Some k1"
    "stableResourceKey sha ''portal-app'' inst (gc_hostname config) = Some k2"
    "stableResourceKey sha ''portal-access'' inst (gc_hostname config) = Some k3"
    "stableResourceKey sha ''dns'' inst (gc_hostname config) = Some k4"
    "dependencies_first (set (concat (map (\<lambda>m. text_field m ''sourceResourceKey'') (map snd perSource))))
       (map key_desired portal)"
    by (rule portalResources_Some)
  have keys: "map (\<lambda>r. (rs_key r, rs_desired r)) rs = map key_desired (concat (map fst perSource) @ portal)"
    using arg_cong [OF p(4), of "map snd"] by (simp add: comp_def)
  have "dependencies_first (fst ` set (map key_desired (concat (map fst perSource)))) (map key_desired portal)"
    using k(6) b by (elim dependencies_first_mono) (auto simp: image_image)
  then show "dependencies_first {} (map (\<lambda>r. (rs_key r, rs_desired r)) rs)"
    unfolding keys map_append dependencies_first_append using b by simp
  have "length portal = 4" using arg_cong [OF k(1), of length] by simp
  then show "length rs = 3 * length (gc_sources config) + 4"
    using arg_cong [OF p(4), of length] b p(1) by simp
  have all: "list_all (derived_key sha inst) (map rs_key (concat (map fst perSource) @ portal))"
  proof -
    have "list_all (derived_key sha inst) (map rs_key portal)"
      unfolding k(1) using k(2-5) by (simp add: derived_keyI)
    then show ?thesis using b by (simp add: list.pred_map comp_def)
  qed
  have "map rs_key rs = map rs_key (concat (map fst perSource) @ portal)"
    using arg_cong [OF keys, of "map fst"] by (simp add: comp_def)
  with all have "list_all (derived_key sha inst) (map rs_key rs)" by simp
  then show "r \<in> set rs \<Longrightarrow> derived_key sha inst (rs_key r)" by (simp add: list_all_iff)
  show "r \<in> set rs \<Longrightarrow> \<exists>v. hashCanonical sha v = Some (dr_desiredHash r)"
    using those_map_set [OF p(5)] seal_spec_Some by blast
qed

section \<open>Planning never fails on a valid configuration\<close>

text \<open>Everything the planner hashes is made of texts, booleans and counts, so no digest fails.\<close>

lemma stableResourceKey_total: "\<exists>k. stableResourceKey sha prefix inst i = Some k"
proof -
  have "hashHex sha (JObj [(''installationId'', JStr inst), (''prefix'', JStr prefix), (''logicalId'', JStr i)]) \<noteq> None"
    by (simp add: hashHex_None del: canonicalJson.simps not_None_eq add: canonical_None)
  then show ?thesis by (auto simp: stableResourceKey_def Let_def)
qed

lemma allow_canonical:
  "canonicalJson (groupAllowPolicy sha g access) \<noteq> None" "canonicalJson (defaultAllowPolicy access) \<noteq> None"
  by (simp_all add: groupAllowPolicy_def defaultAllowPolicy_def Let_def canonical_None del: canonicalJson.simps not_None_eq)

lemma metadata_canonical: "canonicalJson (metadataValue inst) \<noteq> None"
  by (simp add: metadataValue_def canonical_None del: canonicalJson.simps not_None_eq)

lemma sourceResources_total:
  "\<exists>specs mapping. sourceResources sha config access inst source = Some (specs, mapping)
    \<and> list_all (\<lambda>r. canonicalJson (rs_desired r) \<noteq> None) specs \<and> canonicalJson mapping \<noteq> None"
proof -
  obtain k1 k2 k3 where k: "stableResourceKey sha ''mcp'' inst (gs_id source) = Some k1"
    "stableResourceKey sha ''source-app'' inst (gs_id source) = Some k2"
    "stableResourceKey sha ''source-access'' inst (gs_id source) = Some k3"
    using stableResourceKey_total by metis
  show ?thesis
    by (simp add: sourceResources_def k Let_def canonical_None metadata_canonical allow_canonical
        del: canonicalJson.simps not_None_eq split: option.split)
qed

lemma portalResources_total:
  assumes "list_all (\<lambda>m. canonicalJson m \<noteq> None) mappings"
  shows "\<exists>specs. portalResources sha config access inst mappings = Some specs
    \<and> list_all (\<lambda>r. canonicalJson (rs_desired r) \<noteq> None) specs"
proof -
  obtain k1 k2 k3 k4 where k: "stableResourceKey sha ''portal'' inst (gc_hostname config) = Some k1"
    "stableResourceKey sha ''portal-app'' inst (gc_hostname config) = Some k2"
    "stableResourceKey sha ''portal-access'' inst (gc_hostname config) = Some k3"
    "stableResourceKey sha ''dns'' inst (gc_hostname config) = Some k4"
    using stableResourceKey_total by metis
  have "\<not> (\<exists>m \<in> set mappings. canonicalJson m = None)" using assms by (auto simp: list_all_iff)
  then show ?thesis
    by (simp add: portalResources_def k Let_def canonical_None metadata_canonical allow_canonical
        del: canonicalJson.simps not_None_eq)
qed

lemma those_total: "(\<And>x. x \<in> set xs \<Longrightarrow> \<exists>y. f x = Some y) \<Longrightarrow> \<exists>ys. those (map f xs) = Some ys"
proof (induction xs)
  case (Cons x xs)
  obtain y where "f x = Some y" using Cons.prems [of x] by auto
  moreover obtain ys where "those (map f xs) = Some ys" using Cons by auto
  ultimately show ?case by simp
qed simp

lemma buildDesiredResources_total: "\<exists>rs. buildDesiredResources sha config access inst = Some rs"
proof -
  obtain blocks where b: "those (map (sourceResources sha config access inst) (sortedSources config)) = Some blocks"
    using those_total [of "sortedSources config" "sourceResources sha config access inst"] sourceResources_total
    by metis
  have good: "list_all (\<lambda>r. canonicalJson (rs_desired r) \<noteq> None) (fst block) \<and> canonicalJson (snd block) \<noteq> None"
    if mem: "block \<in> set blocks" for block
  proof -
    obtain s where "sourceResources sha config access inst s = Some block" using those_map_set [OF b mem] by blast
    moreover obtain specs mapping where "sourceResources sha config access inst s = Some (specs, mapping)"
      "list_all (\<lambda>r. canonicalJson (rs_desired r) \<noteq> None) specs" "canonicalJson mapping \<noteq> None"
      using sourceResources_total by blast
    ultimately show ?thesis by auto
  qed
  then have "list_all (\<lambda>m. canonicalJson m \<noteq> None) (map snd blocks)" by (auto simp: list_all_iff)
  from portalResources_total [OF this] obtain portal where p:
    "portalResources sha config access inst (map snd blocks) = Some portal"
    "list_all (\<lambda>r. canonicalJson (rs_desired r) \<noteq> None) portal"
    by blast
  have "\<exists>d. seal_spec sha r = Some d" if "r \<in> set (concat (map fst blocks) @ portal)" for r
  proof -
    have "canonicalJson (rs_desired r) \<noteq> None" using that good p(2) by (auto simp: list_all_iff)
    then have "hashCanonical sha (JObj [(''schemaVersion'', jint 1), (''kind'', JStr (kind_text (rs_kind r))),
       (''key'', JStr (rs_key r)), (''desired'', rs_desired r)]) \<noteq> None"
      by (simp add: hashCanonical_None canonical_None del: canonicalJson.simps not_None_eq)
    then show ?thesis by (auto simp: seal_spec_def)
  qed
  then obtain rs where "those (map (seal_spec sha) (concat (map fst blocks) @ portal)) = Some rs"
    using those_total [of "concat (map fst blocks) @ portal" "seal_spec sha"] by blast
  then show ?thesis using b p(1) by (simp add: buildDesiredResources_def)
qed

lemma stableInstallationId_total: "\<exists>i. stableInstallationId sha hostname target = Some i"
proof -
  have "hashHex sha (JObj [(''hostname'', JStr hostname),
       (''accountId'', JStr (case dt_accountId target of None \<Rightarrow> [] | Some a \<Rightarrow> a)),
       (''zoneId'', JStr (case dt_zoneId target of None \<Rightarrow> [] | Some z \<Rightarrow> z))]) \<noteq> None"
    by (simp add: hashHex_None canonical_None del: canonicalJson.simps not_None_eq)
  then show ?thesis by (auto simp: stableInstallationId_def)
qed

lemma seal_spec_canonical: "seal_spec sha r = Some d \<Longrightarrow> canonicalJson (rs_desired d) \<noteq> None"
proof
  assume "seal_spec sha r = Some d" "canonicalJson (rs_desired d) = None"
  then have "hashCanonical sha (JObj [(''schemaVersion'', jint 1), (''kind'', JStr (kind_text (rs_kind d))),
       (''key'', JStr (rs_key d)), (''desired'', rs_desired d)]) = None"
    by (simp add: hashCanonical_None canonical_None del: canonicalJson.simps not_None_eq)
  with \<open>seal_spec sha r = Some d\<close> show False using seal_spec_Some by fastforce
qed

lemma desired_state_total:
  "\<exists>st. desired_state_of sha config target access = Some st
    \<and> list_all (\<lambda>d. canonicalJson (rs_desired d) \<noteq> None) (ds_resources st)"
proof -
  obtain i where i: "stableInstallationId sha (gc_hostname config) target = Some i"
    using stableInstallationId_total by blast
  obtain rs where rs: "buildDesiredResources sha config access i = Some rs"
    using buildDesiredResources_total by blast
  have c: "list_all (\<lambda>d. canonicalJson (rs_desired d) \<noteq> None) rs"
  proof -
    obtain perSource :: "(resource_spec list \<times> jval) list" and portal where
        "those (map (seal_spec sha) (concat (map fst perSource) @ portal)) = Some rs"
      using rs by (rule buildDesiredResources_blocks)
    from those_map_set [OF this] show ?thesis unfolding list_all_iff using seal_spec_canonical by metis
  qed
  then have "\<not> (\<exists>d \<in> set rs. canonicalJson (rs_desired d) = None)" by (auto simp: list_all_iff)
  then have "hashCanonical sha (JObj [(''schemaVersion'', jint 1), (''installationId'', JStr i),
      (''resources'', JArr (map desired_resource_value rs))]) \<noteq> None"
    by (simp add: hashCanonical_None canonical_None desired_resource_value_def del: canonicalJson.simps not_None_eq)
  then show ?thesis using c by (auto simp: desired_state_of_def i rs)
qed

lemma blocker_canonical: "canonicalJson (blocker_value b) \<noteq> None"
  by (simp add: blocker_value_def canonical_None del: canonicalJson.simps not_None_eq)

lemma opt_entry_canonical:
  "e \<in> set (opt_entry k (map_option f v)) \<Longrightarrow> \<exists>x. v = Some x \<and> snd e = f x"
  "e \<in> set (opt_entry k w) \<Longrightarrow> \<exists>x. w = Some x \<and> snd e = x"
  by (auto simp: opt_entry_def split: option.splits)

lemma locator_canonical: "canonicalJson (locator_value l) \<noteq> None"
proof -
  have "canonicalJson (snd e) \<noteq> None" if "e \<in> set (opt_entry ''parentId'' (map_option JStr (loc_parentId l)))" for e
    using opt_entry_canonical(1) [OF that] canonical_None(3) by metis
  then have "\<not> (\<exists>e \<in> set ((''id'', JStr (loc_id l)) # opt_entry ''parentId'' (map_option JStr (loc_parentId l))).
      canonicalJson (snd e) = None)"
    using canonical_None(3) by (metis set_ConsD snd_conv)
  then show ?thesis unfolding locator_value_def canonical_None(2) .
qed

lemma change_canonical:
  assumes "\<And>v. pc_desired c = Some v \<Longrightarrow> canonicalJson v \<noteq> None"
  shows "canonicalJson (change_value c) \<noteq> None"
proof
  assume "canonicalJson (change_value c) = None"
  then obtain e where "canonicalJson (snd e) = None"
    "e \<in> set (opt_entry ''desiredHash'' (map_option JStr (pc_desiredHash c))) \<or> e \<in> set (opt_entry ''desired'' (pc_desired c))
     \<or> e \<in> set (opt_entry ''provider'' (map_option locator_value (pc_provider c)))
     \<or> e \<in> set (opt_entry ''reason'' (map_option JStr (pc_reason c)))"
    by (auto simp: change_value_def canonical_None simp del: canonicalJson.simps not_None_eq)
  then consider x where "snd e = JStr x" | x where "pc_desired c = Some x" "snd e = x" | x where "snd e = locator_value x"
    by (auto dest!: opt_entry_canonical(1)) (auto dest!: opt_entry_canonical(2))
  then show False
    using \<open>canonicalJson (snd e) = None\<close> assms locator_canonical canonical_None(3) by cases metis+
qed

lemma plan_of_total:
  assumes "list_all (\<lambda>d. canonicalJson (rs_desired d) \<noteq> None) (ds_resources st)"
  shows "\<exists>p. plan_of sha release st observed = Some p"
proof -
  have desired: "pc_desired (reconcileDesired obs inst d) = Some (rs_desired d)" for obs inst d
    by (auto simp: reconcileDesired_def split: list.splits)
  have stale: "pc_desired (staleChange xs) = None" for xs
    by (auto simp: staleChange_def split: list.splits)
  let ?r = "reconcile (ds_resources st) (normalizeObservedResources observed) (ds_installationId st)"
  have c: "canonicalJson (change_value c) \<noteq> None" if "c \<in> set (fst ?r) \<union> set (snd ?r)" for c
  proof (rule change_canonical)
    fix v assume "pc_desired c = Some v"
    with that assms show "canonicalJson v \<noteq> None"
      by (auto simp: reconcile_def staleChanges_def desired stale uninstallChange_def list_all_iff simp del: not_None_eq)
  qed
  obtain cs us where r: "?r = (cs, us)" by fastforce
  have "\<not> (\<exists>c \<in> set cs. canonicalJson (change_value c) = None)" "\<not> (\<exists>c \<in> set us. canonicalJson (change_value c) = None)"
    using c r by auto
  then have "canonicalJson (planValue i h rel bs cs us) \<noteq> None" for i h rel bs
    using blocker_canonical
    by (simp add: planValue_def canonical_None del: canonicalJson.simps not_None_eq)
  then have "\<exists>i'. stablePlanId sha (planValue i h rel bs cs us) = Some i'" for i h rel bs
    using stablePlanId_Some by blast
  then show ?thesis by (auto simp: plan_of_def Let_def r)
qed

end
