(* ===== verification/Receipt_Facts.thy ===== *)
theory Receipt_Facts
  imports Receipt_Actions Plan_Facts
begin

text \<open>
  What a normalised receipt is. \<open>receipt_ok\<close> is the well-formedness of a receipt record;
  normalising any value gives a well-formed sorted receipt or the errors, and normalising the object
  of a well-formed receipt gives that receipt back with its resources in order. Every operation is
  characterised through these two facts.
\<close>

section \<open>Sensitive material\<close>

fun material_free :: "jval \<Rightarrow> bool"
  and material_free_items :: "jval list \<Rightarrow> bool"
  and material_free_entries :: "(string \<times> jval) list \<Rightarrow> bool" where
  "material_free (JArr xs) = material_free_items xs"
| "material_free (JObj kvs) = material_free_entries kvs"
| "material_free (JStr s) = (\<not> is_sensitive_value s)"
| "material_free JNull = True"
| "material_free Undef = True"
| "material_free (JBool b) = True"
| "material_free (JNum n) = True"
| "material_free_items [] = True"
| "material_free_items (x # xs) = (material_free x \<and> material_free_items xs)"
| "material_free_entries [] = True"
| "material_free_entries ((k, v) # kvs) = (\<not> test FORBIDDEN_FIELD k \<and> material_free v \<and> material_free_entries kvs)"

lemma find_forbidden_empty:
  "findForbiddenMaterial v path = [] \<longleftrightarrow> material_free v"
  "find_forbidden_items xs n path = [] \<longleftrightarrow> material_free_items xs"
  "find_forbidden_entries kvs path = [] \<longleftrightarrow> material_free_entries kvs"
  by (induction v path and xs n path and kvs path
      rule: findForbiddenMaterial_find_forbidden_items_find_forbidden_entries.induct) auto

lemma material_free_entries_append:
  "material_free_entries (xs @ ys) \<longleftrightarrow> material_free_entries xs \<and> material_free_entries ys"
  by (induction xs) auto

lemma material_free_items_iff: "material_free_items xs \<longleftrightarrow> list_all material_free xs"
  by (induction xs) auto

lemma material_free_map_of: "material_free_entries kvs \<Longrightarrow> map_of kvs k = Some v \<Longrightarrow> material_free v"
  by (induction kvs) (auto split: if_splits)

lemma material_free_field: "material_free v \<Longrightarrow> material_free (field v k)"
  by (cases v) (auto split: option.split dest: material_free_map_of)

lemma material_free_text: "material_free v \<Longrightarrow> material_free (JStr (text_or [] v))"
  by (cases v) (auto simp: is_sensitive_value_def plain_no_sensitive_value)

lemma plain_clean: "list_all plain_char s \<Longrightarrow> \<not> is_sensitive_value s"
  by (simp add: is_sensitive_value_def plain_no_sensitive_value)

lemma hash_clean: "test HASH s \<Longrightarrow> \<not> is_sensitive_value s"
  by (intro plain_clean plain_hash)

lemma enum_clean [simp]:
  "\<not> is_sensitive_value (kind_text k)" "\<not> is_sensitive_value (state_text s)"
  "\<not> is_sensitive_value (type_text t)" "\<not> is_sensitive_value (receipt_action_text a)"
  "\<not> is_sensitive_value MANAGER"
proof -
  show "\<not> is_sensitive_value (kind_text k)"
    by (cases k; rule plain_clean) (simp_all add: plain_char_def is_space_def)
  show "\<not> is_sensitive_value (state_text s)"
    by (cases s; rule plain_clean) (simp_all add: plain_char_def is_space_def)
  show "\<not> is_sensitive_value (type_text t)"
    by (cases t; rule plain_clean) (simp_all add: plain_char_def is_space_def)
  show "\<not> is_sensitive_value (receipt_action_text a)"
    by (cases a; rule plain_clean) (simp_all add: plain_char_def is_space_def)
  show "\<not> is_sensitive_value MANAGER"
    by (rule plain_clean) (simp add: MANAGER_def plain_char_def is_space_def)
qed

text \<open>A forbidden field name contains one of these words, whatever the case.\<close>

fun contains :: "string \<Rightarrow> string \<Rightarrow> bool" where
  "contains w [] = (w = [])"
| "contains w (c # cs) = (is_prefix_of w (c # cs) \<or> contains w cs)"

definition forbidden_words :: "string list" where
  "forbidden_words = [''authorization'', ''bearer'', ''cookie'', ''credential'', ''password'', ''private'', ''secret'',
     ''token'', ''raw'', ''payload'', ''response'', ''header'', ''allowed'', ''email'', ''error'']"

lemma lit_end_prefix: "lit_end f w pr s \<noteq> [] \<Longrightarrow> is_prefix_of w (map f s)"
  by (induction f w pr s rule: lit_end.induct) (auto split: if_splits)

lemma search_LitI: "search_from (LitI w) pr s \<Longrightarrow> contains w (map lower_char s)"
proof (induction s arbitrary: pr)
  case Nil
  then show ?case by (cases w) auto
next
  case (Cons c cs)
  then show ?case using lit_end_prefix [of lower_char w pr "c # cs"] by auto
qed

lemma search_Seq: "search_from (Seq p q) pr s \<Longrightarrow> search_from p pr s"
  by (induction s arbitrary: pr) auto

lemma search_Alt: "search_from (Alt p q) pr s \<longleftrightarrow> search_from p pr s \<or> search_from q pr s"
  by (induction s arbitrary: pr) auto

lemma search_none: "\<not> search_from (Run (\<lambda>c. False) 1 None) pr s"
  by (induction s arbitrary: pr) auto

lemma forbidden_words_needed:
  "test FORBIDDEN_FIELD s \<Longrightarrow> list_ex (\<lambda>w. contains w (toLowerCase s)) forbidden_words"
  by (auto simp: test_def FORBIDDEN_FIELD_def search_Alt search_none search_none [simplified] toLowerCase_def forbidden_words_def
      dest!: search_Seq search_LitI)

lemma receipt_field_names:
  "list_all (\<lambda>k. \<not> test FORBIDDEN_FIELD k)
     [''schemaVersion'', ''manager'', ''installationId'', ''state'', ''revision'', ''release'', ''target'',
      ''accessPolicy'', ''desiredHash'', ''resources'', ''pending'', ''checksum'',
      ''accountId'', ''zoneId'', ''zoneName'', ''hostname'', ''identityType'', ''identityCount'', ''identitiesHash'',
      ''kind'', ''key'', ''provider'', ''marker'', ''identityHash'', ''id'', ''parentId'',
      ''operationId'', ''type'', ''planId'', ''action'', ''expectedDesiredHash'', ''pruneApprovalId'', ''requestHash'']"
  (is "list_all _ ?names")
proof -
  have "list_all (\<lambda>k. \<not> list_ex (\<lambda>w. contains w (toLowerCase k)) forbidden_words) ?names"
    by code_simp
  then show ?thesis unfolding list_all_iff using forbidden_words_needed by blast
qed

lemmas field_names_clean [simp] = receipt_field_names [simplified]

section \<open>Field validators\<close>

lemma validators_ok [simp]:
  "validateResourceKey v p = [] \<longleftrightarrow> (\<exists>s. v = JStr s \<and> test RESOURCE_KEY s)"
  "validateOpaqueId v p = [] \<longleftrightarrow> (\<exists>s. v = JStr s \<and> test SAFE_OPAQUE_ID s)"
  "validateHash v p = [] \<longleftrightarrow> (\<exists>s. v = JStr s \<and> test HASH s)"
  "validateHostname v p = [] \<longleftrightarrow> (\<exists>s. v = JStr s \<and> is_receipt_hostname s)"
  by (auto simp: validateResourceKey_def isResourceKey_def validateOpaqueId_def safeOpaqueId_def validateHash_def
      validateHostname_def split: jval.splits if_splits)

section \<open>Well-formed parts\<close>

definition ok_target :: "receipt_target \<Rightarrow> bool" where
  "ok_target t \<longleftrightarrow> test SAFE_OPAQUE_ID (rt_accountId t) \<and> test SAFE_OPAQUE_ID (rt_zoneId t)
     \<and> is_receipt_hostname (rt_zoneName t) \<and> is_receipt_hostname (rt_hostname t)"

definition ok_policy :: "access_policy \<Rightarrow> bool" where
  "ok_policy a \<longleftrightarrow> ap_identityType a \<in> {''email'', ''service_token''}
     \<and> (ap_identityType a = ''service_token'' \<longrightarrow> ap_identityCount a = 1)
     \<and> 1 \<le> ap_identityCount a \<and> ap_identityCount a \<le> 10000 \<and> test HASH (ap_identitiesHash a)"

definition ok_resource :: "receipt_resource \<Rightarrow> bool" where
  "ok_resource r \<longleftrightarrow> test RESOURCE_KEY (rr_key r) \<and> valid_locator (rr_kind r) (rr_provider r)
     \<and> test HASH (rr_desiredHash r)
     \<and> (case rr_marker r of None \<Rightarrow> True | Some m \<Rightarrow> length m \<le> 96)
     \<and> (case rr_identityHash r of None \<Rightarrow> True | Some h \<Rightarrow> test HASH h)"

definition ok_pending :: "receipt_pending \<Rightarrow> bool" where
  "ok_pending p \<longleftrightarrow> test SAFE_OPAQUE_ID (rp_operationId p) \<and> test SAFE_OPAQUE_ID (rp_planId p)
     \<and> test RESOURCE_KEY (rp_key p) \<and> test HASH (rp_expectedDesiredHash p) \<and> test HASH (rp_requestHash p)
     \<and> (case rp_pruneApprovalId p of None \<Rightarrow> True
        | Some i \<Rightarrow> test SAFE_OPAQUE_ID i \<and> rp_type p = Apply_type \<and> rp_action p = Delete_action)"

definition bound :: "string \<Rightarrow> access_policy \<Rightarrow> receipt_resource \<Rightarrow> bool" where
  "bound installationId policy r \<longleftrightarrow>
     (ap_identityType policy = ''service_token'' \<and> is_policy (rr_kind r) \<longrightarrow>
        rr_identityHash r = Some (ap_identitiesHash policy))
     \<and> (case rr_marker r of None \<Rightarrow> True | Some m \<Rightarrow> m = ''acg:v1:'' @ installationId @ '':'' @ rr_key r)"

definition identity_of :: "receipt_resource \<Rightarrow> resource_kind \<times> string" where
  "identity_of r = (rr_kind r, rr_key r)"

definition unique_resources :: "receipt_resource list \<Rightarrow> bool" where
  "unique_resources rs \<longleftrightarrow> distinct (map identity_of rs)
     \<and> distinct (map (\<lambda>r. providerIdentity (rr_kind r) (rr_provider r)) rs)
     \<and> distinct (map (\<lambda>r. loc_id (rr_provider r)) (filter (\<lambda>r. is_access_application (rr_kind r)) rs))
     \<and> (\<forall>r \<in> set rs. is_policy (rr_kind r) \<longrightarrow>
          (let parents = {c \<in> set rs. rr_kind c = parent_kind (rr_kind r)} in
           parents \<noteq> {} \<longrightarrow> parent_text r \<in> (\<lambda>c. loc_id (rr_provider c)) ` parents))"

definition consistent :: "receipt_state \<Rightarrow> receipt_pending option \<Rightarrow> receipt_resource list \<Rightarrow> bool" where
  "consistent state pending rs \<longleftrightarrow>
     (state = Removed \<longrightarrow> pending = None \<and> rs = [])
     \<and> (case pending of None \<Rightarrow> True
        | Some p \<Rightarrow> state = (if rp_type p = Apply_type then Installing else Uninstalling))"

definition pending_owned :: "receipt_pending option \<Rightarrow> receipt_resource list \<Rightarrow> bool" where
  "pending_owned pending rs \<longleftrightarrow> (case pending of None \<Rightarrow> True | Some p \<Rightarrow>
     (rp_type p = Uninstall_type \<longrightarrow> rp_action p = Delete_action)
     \<and> (case findResourceIndex rs (rp_kind p) (rp_key p) of
          None \<Rightarrow> rp_action p = Create_action
        | Some i \<Rightarrow> rp_action p \<noteq> Create_action
            \<and> (rp_action p = Delete_action \<longrightarrow> rp_expectedDesiredHash p = rr_desiredHash (rs ! i))))"

definition receipt_ok :: "receipt \<Rightarrow> bool" where
  "receipt_ok r \<longleftrightarrow>
     test RESOURCE_KEY (rc_installationId r) \<and> 0 \<le> rc_revision r \<and> is_safe_integer (rc_revision r)
     \<and> test RELEASE (rc_release r) \<and> test HASH (rc_desiredHash r)
     \<and> ok_target (rc_target r) \<and> \<not> outside_zone (rc_target r) \<and> ok_policy (rc_accessPolicy r)
     \<and> length (rc_resources r) \<le> MAX_RESOURCES \<and> list_all ok_resource (rc_resources r)
     \<and> unique_resources (rc_resources r)
     \<and> list_all (bound (rc_installationId r) (rc_accessPolicy r)) (rc_resources r)
     \<and> (case rc_pending r of None \<Rightarrow> True | Some p \<Rightarrow> ok_pending p)
     \<and> consistent (rc_state r) (rc_pending r) (rc_resources r)
     \<and> pending_owned (rc_pending r) (js_sort compareResources (rc_resources r))
     \<and> material_free (receipt_value (withoutChecksum r))"

section \<open>Normalising well-formed parts\<close>

lemma unknown_ok [simp]: "rejectUnknownKeys (JObj kvs) p ks = [] \<longleftrightarrow> set (map fst kvs) \<subseteq> set ks"
  by (auto simp: rejectUnknownKeys_def unknown_keys_def filter_empty_conv)

lemma target_normal: "ok_target t \<Longrightarrow> normalizeTargetForReceipt (target_value t) p = (t, [])"
  by (simp add: normalizeTargetForReceipt_def target_value_def ok_target_def)

lemma policy_normal: "ok_policy a \<Longrightarrow> normalizeAccessPolicy (policy_value a) p = (a, [])"
  by (auto simp: normalizeAccessPolicy_def policy_value_def ok_policy_def Let_def is_safe_integer_def MAX_SAFE_INTEGER_def)

lemma provider_normal: "valid_locator k l \<Longrightarrow> normalizeProvider (locator_value l) p k = (l, [])"
  by (cases l) (auto simp: normalizeProvider_def locator_value_def opt_entry_def valid_locator_def split: option.splits)

lemma resource_normal: "ok_resource r \<Longrightarrow> normalizeResource (resource_value r) p = (r, [])"
proof -
  assume ok: "ok_resource r"
  then have prov: "normalizeProvider (locator_value (rr_provider r)) q (rr_kind r) = (rr_provider r, [])" for q
    by (simp add: ok_resource_def provider_normal)
  show "normalizeResource (resource_value r) p = (r, [])"
    using ok by (auto simp: normalizeResource_def Let_def resource_value_def opt_entry_def ok_resource_def prov split: option.splits)
qed

lemma pending_normal: "ok_pending q \<Longrightarrow> normalizePendingForReceipt (pending_value q) p = (Some q, [])"
  by (auto simp: normalizePendingForReceipt_def pending_value_def opt_entry_def ok_pending_def Let_def split: option.splits)

end
