(* ===== verification/Receipt_Normal.thy ===== *)
theory Receipt_Normal
  imports Receipt_Facts
begin

text \<open>
  Normalisation of receipts as a whole: a value that normalises gives a well-formed, sorted receipt
  (\<open>normalizeReceipt_ok\<close>), and the object of a well-formed receipt normalises to the receipt with
  its resources in order (\<open>normalizeReceipt_value\<close>).
\<close>

section \<open>Unique resources\<close>

lemma duplicate_errors_empty:
  "duplicate_errors is ls as rs = [] \<longleftrightarrow>
     distinct (map (\<lambda>r. resourceIdentity (rr_kind r) (rr_key r)) rs)
     \<and> (\<forall>r \<in> set rs. resourceIdentity (rr_kind r) (rr_key r) \<notin> set is)
     \<and> distinct (map (\<lambda>r. providerIdentity (rr_kind r) (rr_provider r)) rs)
     \<and> (\<forall>r \<in> set rs. providerIdentity (rr_kind r) (rr_provider r) \<notin> set ls)
     \<and> distinct (map (\<lambda>r. loc_id (rr_provider r)) (filter (\<lambda>r. is_access_application (rr_kind r)) rs))
     \<and> (\<forall>r \<in> set rs. is_access_application (rr_kind r) \<longrightarrow> loc_id (rr_provider r) \<notin> set as)"
proof (induction "is" ls as rs rule: duplicate_errors.induct)
  case (2 ids ls as r rs)
  have "a \<in> (\<lambda>r. resourceIdentity (rr_kind r) (rr_key r)) ` set rs \<longleftrightarrow>
      (\<exists>x \<in> set rs. resourceIdentity (rr_kind x) (rr_key x) = a)" for a
    by blast
  moreover have "a \<in> (\<lambda>r. providerIdentity (rr_kind r) (rr_provider r)) ` set rs \<longleftrightarrow>
      (\<exists>x \<in> set rs. providerIdentity (rr_kind x) (rr_provider x) = a)" for a
    by blast
  moreover have "a \<in> (\<lambda>r. loc_id (rr_provider r)) ` {x \<in> set rs. is_access_application (rr_kind x)} \<longleftrightarrow>
      (\<exists>x \<in> set rs. is_access_application (rr_kind x) \<and> loc_id (rr_provider x) = a)" for a
    by blast
  ultimately show ?case
    unfolding duplicate_errors.simps Let_def append_is_Nil_conv "2.IH" [OF refl refl refl]
    by (simp del: resourceIdentity_inject) blast
qed simp

lemma identity_distinct:
  "distinct (map (\<lambda>r. resourceIdentity (rr_kind r) (rr_key r)) rs) \<longleftrightarrow> distinct (map identity_of rs)"
  by (induction rs) (auto simp: identity_of_def)

lemma parent_errors_empty:
  "parent_errors rs r = [] \<longleftrightarrow> (is_policy (rr_kind r) \<longrightarrow>
     (let parents = {c \<in> set rs. rr_kind c = parent_kind (rr_kind r)} in
      parents \<noteq> {} \<longrightarrow> parent_text r \<in> (\<lambda>c. loc_id (rr_provider c)) ` parents))"
  by (auto simp: parent_errors_def Let_def filter_empty_conv)

lemma unique_errors_empty: "unique_errors rs = [] \<longleftrightarrow> unique_resources rs"
  by (auto simp: unique_errors_def unique_resources_def duplicate_errors_empty identity_distinct parent_errors_empty)

lemma unique_resources_mset:
  assumes "mset rs = mset rs'"
  shows "unique_resources rs \<longleftrightarrow> unique_resources rs'"
proof -
  have 3: "distinct (map identity_of rs) \<longleftrightarrow> distinct (map identity_of rs')"
    by (rule mset_eq_imp_distinct_iff) (simp add: assms)
  have 4: "distinct (map (\<lambda>r. loc_id (rr_provider r)) (filter (\<lambda>r. is_access_application (rr_kind r)) rs)) \<longleftrightarrow>
      distinct (map (\<lambda>r. loc_id (rr_provider r)) (filter (\<lambda>r. is_access_application (rr_kind r)) rs'))"
    by (rule mset_eq_imp_distinct_iff) (simp add: assms)
  have 5: "distinct (map (\<lambda>r. providerIdentity (rr_kind r) (rr_provider r)) rs) \<longleftrightarrow>
      distinct (map (\<lambda>r. providerIdentity (rr_kind r) (rr_provider r)) rs')"
    by (rule mset_eq_imp_distinct_iff) (simp add: assms)
  have "set rs = set rs'" using assms by (rule mset_eq_setD)
  then show ?thesis unfolding unique_resources_def 3 4 5 by simp
qed

interpretation resource_order: comparison compareResources
  unfolding compareResources_def [abs_def] by (intro comparison_intros)

lemma resource_order_identity: "compareResources r s = 0 \<Longrightarrow> identity_of r = identity_of s"
  by (auto simp: compareResources_def or_else_def identity_of_def split: if_splits)

lemma unique_resources_tie:
  "unique_resources rs \<Longrightarrow> r \<in> set rs \<Longrightarrow> s \<in> set rs \<Longrightarrow> compareResources r s = 0 \<Longrightarrow> r = s"
  by (auto simp: unique_resources_def distinct_map dest!: resource_order_identity dest: inj_onD)

lemma sort_unique:
  "unique_resources rs \<Longrightarrow> mset rs = mset rs' \<Longrightarrow> js_sort compareResources rs = js_sort compareResources rs'"
  by (rule resource_order.sort_cong) (auto dest: unique_resources_tie)

section \<open>What normalising gives\<close>

text \<open>No message means the value is an object with the right fields.\<close>

lemma target_N:
  assumes "normalizeTargetForReceipt v p = (t, [])"
  shows "ok_target t" "material_free v \<Longrightarrow> material_free (target_value t)"
proof -
  obtain a z n h where f: "field v ''accountId'' = JStr a" "field v ''zoneId'' = JStr z"
    "field v ''zoneName'' = JStr n" "field v ''hostname'' = JStr h"
    and t: "t = \<lparr>rt_accountId = a, rt_hostname = h, rt_zoneId = z, rt_zoneName = n\<rparr>" and ok: "ok_target t"
    using assms by (auto simp: normalizeTargetForReceipt_def ok_target_def split: if_splits)
  show "ok_target t" by (rule ok)
  assume "material_free v"
  then show "material_free (target_value t)"
    using material_free_field [of v "''accountId''"] material_free_field [of v "''zoneId''"]
      material_free_field [of v "''zoneName''"] material_free_field [of v "''hostname''"] f
    by (simp add: target_value_def t)
qed

lemma policy_N:
  assumes "normalizeAccessPolicy v p = (a, [])"
  shows "ok_policy a" "material_free v \<Longrightarrow> material_free (policy_value a)"
proof -
  obtain i n h where f: "field v ''identityType'' = JStr i" "safe_int (field v ''identityCount'') = Some n"
    "field v ''identitiesHash'' = JStr h"
    and a: "a = \<lparr>ap_identityType = i, ap_identityCount = n, ap_identitiesHash = h\<rparr>" and ok: "ok_policy a"
  proof -
    from assms obtain h where h: "isObject v" "field v ''identitiesHash'' = JStr h" "test HASH h"
      by (auto simp: normalizeAccessPolicy_def Let_def split: if_splits)
    from assms h obtain n where n: "safe_int (field v ''identityCount'') = Some n" "1 \<le> n" "n \<le> 10000"
      by (auto simp: normalizeAccessPolicy_def Let_def split: if_splits option.splits)
    from assms h n obtain i where i: "field v ''identityType'' = JStr i" "i \<in> {''email'', ''service_token''}"
      by (auto simp: normalizeAccessPolicy_def Let_def split: if_splits)
    have one: "i = ''service_token'' \<Longrightarrow> n = 1"
      using assms h n i by (auto simp: normalizeAccessPolicy_def Let_def split: if_splits)
    have a: "a = \<lparr>ap_identityType = i, ap_identityCount = n, ap_identitiesHash = h\<rparr>"
      using assms h n i by (auto simp: normalizeAccessPolicy_def Let_def)
    then have "ok_policy a" using h n i one by (auto simp: ok_policy_def)
    with that h n i a show ?thesis by blast
  qed
  show "ok_policy a" by (rule ok)
  assume "material_free v"
  then show "material_free (policy_value a)"
    using material_free_field [of v "''identityType''"] material_free_field [of v "''identitiesHash''"] f
    by (simp add: policy_value_def a)
qed

lemma provider_N:
  assumes "normalizeProvider v p k = (l, [])"
  shows "valid_locator k l" "material_free v \<Longrightarrow> material_free (locator_value l)"
proof -
  from assms obtain i where i: "isObject v" "field v ''id'' = JStr i" "test SAFE_OPAQUE_ID i"
    by (auto simp: normalizeProvider_def split: if_splits)
  show "valid_locator k l"
    using assms i by (auto simp: normalizeProvider_def valid_locator_def split: if_splits)
  assume "material_free v"
  then have m: "material_free (field v ''id'')" "material_free (JStr (text_or [] (field v ''parentId'')))"
    using material_free_field material_free_text by blast+
  show "material_free (locator_value l)"
    using assms i m by (auto simp: normalizeProvider_def locator_value_def opt_entry_def split: if_splits)
qed

lemma opt_text_free:
  "material_free v \<Longrightarrow> material_free_entries (opt_entry k (map_option JStr (text_option v))) \<longleftrightarrow> \<not> test FORBIDDEN_FIELD k \<or> text_option v = None"
  by (cases v) (auto simp: opt_entry_def)

lemma text_option_Undef: "text_option v = None \<or> v = JStr (the (text_option v))"
  by (cases v) auto

lemma resource_N:
  assumes "normalizeResource v p = (r, [])"
  shows "ok_resource r" "material_free v \<Longrightarrow> material_free (resource_value r)"
proof -
  from assms have obj: "isObject v" by (auto simp: normalizeResource_def split: if_splits)
  obtain k where k: "parse_kind (field v ''kind'') = Some k"
    using assms obj by (auto simp: normalizeResource_def Let_def split: prod.splits if_splits)
  obtain l where l: "normalizeProvider (field v ''provider'') (p @ ''.provider'') k = (l, [])"
    using assms obj k by (auto simp: normalizeResource_def Let_def split: prod.splits)
  obtain key h where f: "field v ''key'' = JStr key" "test RESOURCE_KEY key" "field v ''desiredHash'' = JStr h" "test HASH h"
    using assms obj k l by (auto simp: normalizeResource_def Let_def)
  have marker: "field v ''marker'' = Undef \<or> (\<exists>m. field v ''marker'' = JStr m \<and> length m \<le> 96)"
    using assms obj k l f by (cases "field v ''marker''") (auto simp: normalizeResource_def Let_def split: if_splits)
  have ident: "field v ''identityHash'' = Undef \<or> (\<exists>m. field v ''identityHash'' = JStr m \<and> test HASH m)"
    using assms obj k l f by (auto simp: normalizeResource_def Let_def split: if_splits)
  have r: "r = \<lparr>rr_desiredHash = h, rr_identityHash = text_option (field v ''identityHash''), rr_key = key,
      rr_kind = k, rr_marker = text_option (field v ''marker''), rr_provider = l\<rparr>"
    using assms obj k l f by (simp add: normalizeResource_def Let_def)
  show "ok_resource r"
    using f marker ident provider_N(1) [OF l] by (auto simp: ok_resource_def r)
  assume free: "material_free v"
  have "material_free (locator_value l)" by (rule provider_N(2) [OF l]) (rule material_free_field [OF free])
  moreover have "\<not> is_sensitive_value key" "\<not> is_sensitive_value h"
    using material_free_field [OF free, of "''key''"] material_free_field [OF free, of "''desiredHash''"] f by simp_all
  moreover have "material_free (field v ''marker'')" "material_free (field v ''identityHash'')"
    by (rule material_free_field [OF free])+
  ultimately show "material_free (resource_value r)"
    by (simp add: resource_value_def r material_free_entries_append opt_text_free)
qed

lemma pending_N:
  assumes "normalizePendingForReceipt v p = (q, [])"
  shows "\<exists>r. q = Some r \<and> ok_pending r \<and> (material_free v \<longrightarrow> material_free (pending_value r))"
proof -
  from assms have obj: "isObject v" by (auto simp: normalizePendingForReceipt_def split: if_splits)
  obtain t where t: "parse_type (field v ''type'') = Some t"
    using assms obj by (auto simp: normalizePendingForReceipt_def Let_def split: if_splits)
  obtain a where a: "parse_action (field v ''action'') = Some a"
    using assms obj t by (auto simp: normalizePendingForReceipt_def Let_def split: if_splits)
  obtain k where k: "parse_kind (field v ''kind'') = Some k"
    using assms obj t a by (auto simp: normalizePendingForReceipt_def Let_def split: if_splits)
  obtain i pl key h rq where f: "field v ''operationId'' = JStr i" "test SAFE_OPAQUE_ID i"
    "field v ''planId'' = JStr pl" "test SAFE_OPAQUE_ID pl" "field v ''key'' = JStr key" "test RESOURCE_KEY key"
    "field v ''expectedDesiredHash'' = JStr h" "test HASH h" "field v ''requestHash'' = JStr rq" "test HASH rq"
    using assms obj t a k by (auto simp: normalizePendingForReceipt_def Let_def)
  have prune: "field v ''pruneApprovalId'' = Undef \<or> (\<exists>m. field v ''pruneApprovalId'' = JStr m \<and> test SAFE_OPAQUE_ID m
      \<and> field v ''type'' = JStr ''apply'' \<and> field v ''action'' = JStr ''delete'')"
    using assms obj t a k f by (auto simp: normalizePendingForReceipt_def Let_def split: if_splits)
  have q: "q = Some \<lparr>rp_action = a, rp_expectedDesiredHash = h, rp_key = key, rp_kind = k, rp_operationId = i,
      rp_planId = pl, rp_pruneApprovalId = text_option (field v ''pruneApprovalId''), rp_requestHash = rq, rp_type = t\<rparr>"
    using assms obj t a k f by (simp add: normalizePendingForReceipt_def Let_def)
  have ta: "t = Apply_type" "a = Delete_action" if "field v ''pruneApprovalId'' \<noteq> Undef"
  proof -
    have "parse_type (JStr ''apply'') = Some Apply_type" "parse_action (JStr ''delete'') = Some Delete_action"
      using parse_type_text [of Apply_type] parse_action_text [of Delete_action] by simp_all
    with that prune t a show "t = Apply_type" "a = Delete_action" by auto
  qed
  then have "ok_pending (the q)" using f prune by (auto simp: ok_pending_def q)
  moreover have "material_free (pending_value (the q))" if free: "material_free v"
  proof -
    have "\<not> is_sensitive_value i" "\<not> is_sensitive_value pl" "\<not> is_sensitive_value key" "\<not> is_sensitive_value h"
        "\<not> is_sensitive_value rq"
      using material_free_field [OF free, of "''operationId''"] material_free_field [OF free, of "''planId''"]
        material_free_field [OF free, of "''key''"] material_free_field [OF free, of "''expectedDesiredHash''"]
        material_free_field [OF free, of "''requestHash''"] f by simp_all
    moreover have "material_free (field v ''pruneApprovalId'')" by (rule material_free_field [OF free])
    ultimately show ?thesis by (simp add: pending_value_def q material_free_entries_append opt_text_free)
  qed
  ultimately show ?thesis by (auto simp: q)
qed

section \<open>Resource lists\<close>

lemma set_enumerate_elem: "x \<in> set xs \<longleftrightarrow> (\<exists>i. (i, x) \<in> set (enumerate n xs))"
proof
  assume "x \<in> set xs"
  then obtain i where "i < length xs" "xs ! i = x" by (auto simp: in_set_conv_nth)
  then have "(n + i, x) \<in> set (enumerate n xs)" by (simp add: in_set_enumerate_eq)
  then show "\<exists>i. (i, x) \<in> set (enumerate n xs)" ..
qed (auto simp: in_set_enumerate_eq)

lemma resources_normal:
  assumes "list_all ok_resource rs" "unique_resources rs" "length rs \<le> MAX_RESOURCES"
  shows "normalizeResources (JArr (map resource_value rs)) = (js_sort compareResources rs, [])"
proof -
  let ?f = "\<lambda>(i, x). normalizeResource x (''resources['' @ nat_text i @ '']'')"
  have "map ?f (enumerate 0 (map resource_value rs)) = map (\<lambda>x. (x, [])) rs"
  proof (rule nth_equalityI)
    fix i assume "i < length (map ?f (enumerate 0 (map resource_value rs)))"
    then have i: "i < length rs" by simp
    then have "ok_resource (rs ! i)" using assms(1) by (simp add: list_all_length)
    with i show "map ?f (enumerate 0 (map resource_value rs)) ! i = map (\<lambda>x. (x, [])) rs ! i"
      by (simp add: nth_enumerate_eq resource_normal)
  qed simp
  moreover have "unique_errors rs = []" using assms(2) by (simp add: unique_errors_empty)
  ultimately show ?thesis
    using assms(3) by (simp add: normalizeResources_def Let_def comp_def)
qed

lemma resources_N:
  assumes "normalizeResources v = (rs, [])"
  shows "list_all ok_resource rs \<and> unique_resources rs \<and> length rs \<le> MAX_RESOURCES
    \<and> js_sort compareResources rs = rs \<and> (material_free v \<longrightarrow> list_all (\<lambda>r. material_free (resource_value r)) rs)"
proof -
  define f where "f = (\<lambda>(i, x). normalizeResource x (''resources['' @ nat_text i @ '']''))"
  obtain xs where v: "v = JArr xs"
    using assms by (auto simp: normalizeResources_def split: option.splits)
  let ?rs = "map fst (map f (enumerate 0 xs))"
  have rs: "rs = js_sort compareResources ?rs" and len: "length xs \<le> MAX_RESOURCES"
    and errs: "\<forall>y \<in> set (map f (enumerate 0 xs)). snd y = []" and uniq: "unique_resources ?rs"
    using assms unfolding f_def
    by (auto simp: normalizeResources_def v Let_def unique_errors_empty [symmetric] split: if_splits)
  have each: "ok_resource r \<and> (material_free v \<longrightarrow> material_free (resource_value r))" if r: "r \<in> set ?rs" for r
  proof -
    from r obtain y where y: "y \<in> set (map f (enumerate 0 xs))" "r = fst y" by (metis imageE set_map)
    then have e: "y = (r, [])" using errs by (metis prod.collapse)
    from y(1) obtain e where e': "e \<in> set (enumerate 0 xs)" "y = f e" by (metis imageE set_map)
    obtain i x where "e = (i, x)" by (cases e)
    with e' have ix: "(i, x) \<in> set (enumerate 0 xs)" "y = normalizeResource x (''resources['' @ nat_text i @ '']'')"
      by (simp_all add: f_def)
    have "x \<in> set xs" unfolding set_enumerate_elem [of x xs 0] using ix(1) by (rule exI)
    then have free: "material_free v \<Longrightarrow> material_free x" by (auto simp: v material_free_items_iff list_all_iff)
    have N: "normalizeResource x (''resources['' @ nat_text i @ '']'') = (r, [])" using ix(2) e by simp
    show ?thesis using resource_N [OF N] free by blast
  qed
  have "mset rs = mset ?rs" by (simp add: rs)
  then have "unique_resources rs" "set rs = set ?rs"
    using uniq unique_resources_mset by (blast, metis mset_eq_setD)
  then show ?thesis using each len by (auto simp: rs list_all_iff)
qed

section \<open>Whole receipts\<close>

lemma binding_ok:
  assumes "test RESOURCE_KEY inst" "test RESOURCE_KEY (rr_key r)"
  shows "binding_errors (JStr inst) policy i r = [] \<longleftrightarrow> bound inst policy r"
proof -
  have "ownershipMarker (JStr inst) (JStr (rr_key r)) = Inr (''acg:v1:'' @ inst @ '':'' @ rr_key r)"
    using assms by (simp add: ownershipMarker_def Let_def)
  moreover have "isResourceKey (JStr inst)" using assms by (simp add: isResourceKey_def)
  ultimately show ?thesis
    using assms by (auto simp: binding_errors_def bound_def split: option.splits)
qed

lemma bindings_ok:
  assumes "test RESOURCE_KEY inst" "list_all ok_resource rs"
  shows "concat (map (\<lambda>(i, r). binding_errors (JStr inst) policy i r) (enumerate n rs)) = [] \<longleftrightarrow>
    list_all (bound inst policy) rs"
  using assms(2)
proof (induction rs arbitrary: n)
  case (Cons r rs)
  then have "binding_errors (JStr inst) policy n r = [] \<longleftrightarrow> bound inst policy r"
    by (intro binding_ok assms(1)) (simp add: ok_resource_def)
  with Cons show ?case by simp
qed simp

lemma state_consistent:
  "validateStateConsistency (JStr (state_text s)) pending rs = [] \<longleftrightarrow> consistent s pending rs"
  by (cases s; cases pending; cases "rp_type (the pending)")
     (auto simp: validateStateConsistency_def consistent_def split: if_splits)

lemma ownership_ok: "validatePendingOwnership pending rs = [] \<longleftrightarrow> pending_owned pending rs"
proof (cases pending)
  case (Some p)
  then show ?thesis
    by (cases "findResourceIndex rs (rp_kind p) (rp_key p)"; cases "rp_action p")
       (auto simp: validatePendingOwnership_def pending_owned_def Let_def)
qed (simp add: validatePendingOwnership_def pending_owned_def)

lemma receipt_errors_empty:
  "receipt_errors v req = [] \<longleftrightarrow> material_free v \<and> rejectUnknownKeys v ''$'' receipt_keys = []
     \<and> field v ''schemaVersion'' = jint 1 \<and> field v ''manager'' = JStr MANAGER
     \<and> (\<exists>s. field v ''installationId'' = JStr s \<and> test RESOURCE_KEY s)
     \<and> parse_state (field v ''state'') \<noteq> None
     \<and> (\<exists>n. safe_int (field v ''revision'') = Some n \<and> 0 \<le> n)
     \<and> (\<exists>s. field v ''release'' = JStr s \<and> test RELEASE s)
     \<and> (\<exists>s. field v ''desiredHash'' = JStr s \<and> test HASH s)
     \<and> snd (normalizeTargetForReceipt (field v ''target'') ''target'') = []
     \<and> snd (normalizeAccessPolicy (field v ''accessPolicy'') ''accessPolicy'') = []
     \<and> snd (normalizeResources (field v ''resources'')) = []
     \<and> (field v ''pending'' \<noteq> JNull \<longrightarrow> snd (normalizePendingForReceipt (field v ''pending'') ''pending'') = [])
     \<and> (req \<or> field v ''checksum'' \<noteq> Undef \<longrightarrow> (\<exists>s. field v ''checksum'' = JStr s \<and> test HASH s))
     \<and> validateStateConsistency (field v ''state'') (if field v ''pending'' = JNull then None
          else fst (normalizePendingForReceipt (field v ''pending'') ''pending'')) (fst (normalizeResources (field v ''resources''))) = []
     \<and> validatePendingOwnership (if field v ''pending'' = JNull then None
          else fst (normalizePendingForReceipt (field v ''pending'') ''pending'')) (fst (normalizeResources (field v ''resources''))) = []
     \<and> concat (map (\<lambda>(i, r). binding_errors (field v ''installationId'')
          (fst (normalizeAccessPolicy (field v ''accessPolicy'') ''accessPolicy'')) i r)
          (enumerate 0 (fst (normalizeResources (field v ''resources''))))) = []
     \<and> \<not> outside_zone (fst (normalizeTargetForReceipt (field v ''target'') ''target''))"
proof -
  have rev: "(case safe_int w of None \<Rightarrow> [e] | Some n \<Rightarrow> if n < 0 then [e] else []) = [] \<longleftrightarrow>
      (\<exists>n. safe_int w = Some n \<and> 0 \<le> n)" for w and e :: string
    by (auto split: option.splits if_splits)
  have rel: "(case w of JStr s \<Rightarrow> if test RELEASE s then [] else [e] | _ \<Rightarrow> [e]) = [] \<longleftrightarrow>
      (\<exists>s. w = JStr s \<and> test RELEASE s)" for w and e :: string
    by (cases w) auto
  have ifs: "(if b then [] else xs) = [] \<longleftrightarrow> (\<not> b \<longrightarrow> xs = [])" "(if b then xs else []) = [] \<longleftrightarrow> (b \<longrightarrow> xs = [])"
    for b and xs :: "string list" by auto
  have pend: "snd (if b then (None, []) else q) = (if b then [] else snd q)"
      "fst (if b then (None, []) else q) = (if b then None else fst q)"
    for b and q :: "receipt_pending option \<times> string list" by auto
  show ?thesis
    unfolding receipt_errors_def Let_def case_prod_beta append_is_Nil_conv rev rel find_forbidden_empty
      validators_ok ifs pend
    by (rule iffI; (elim conjE)?; intro conjI) (auto simp only: list.distinct not_not simp_thms)
qed

end
