(* ===== verification/Receipt_Sealed.thy ===== *)
theory Receipt_Sealed
  imports Receipt_Normal
begin

text \<open>
  Sealed receipts. Sealing the object of a receipt record succeeds exactly when the record is
  well formed, and gives the record with its resources in order and the checksum of that content; a
  sealed receipt validates to itself.
\<close>

definition checksum_ok :: "bool \<Rightarrow> receipt \<Rightarrow> bool" where
  "checksum_ok required r \<longleftrightarrow> (case rc_checksum r of None \<Rightarrow> \<not> required | Some c \<Rightarrow> test HASH c)"

definition in_order :: "receipt \<Rightarrow> receipt" where
  "in_order r = r\<lparr>rc_resources := js_sort compareResources (rc_resources r)\<rparr>"

lemma material_receipt:
  "checksum_ok req r \<Longrightarrow> material_free (receipt_value (withoutChecksum r)) \<Longrightarrow> material_free (receipt_value r)"
  by (auto simp: receipt_value_def withoutChecksum_def opt_entry_def material_free_entries_append checksum_ok_def
      hash_clean split: option.splits)

lemma fields_receipt [simp]:
  "field (receipt_value r) ''schemaVersion'' = jint 1" "field (receipt_value r) ''manager'' = JStr MANAGER"
  "field (receipt_value r) ''installationId'' = JStr (rc_installationId r)"
  "field (receipt_value r) ''state'' = JStr (state_text (rc_state r))"
  "field (receipt_value r) ''revision'' = jint (rc_revision r)" "field (receipt_value r) ''release'' = JStr (rc_release r)"
  "field (receipt_value r) ''target'' = target_value (rc_target r)"
  "field (receipt_value r) ''accessPolicy'' = policy_value (rc_accessPolicy r)"
  "field (receipt_value r) ''desiredHash'' = JStr (rc_desiredHash r)"
  "field (receipt_value r) ''resources'' = JArr (map resource_value (rc_resources r))"
  "field (receipt_value r) ''pending'' = (case rc_pending r of None \<Rightarrow> JNull | Some p \<Rightarrow> pending_value p)"
  "field (receipt_value r) ''checksum'' = (case rc_checksum r of None \<Rightarrow> Undef | Some c \<Rightarrow> JStr c)"
  by (simp_all add: receipt_value_def opt_entry_def split: option.splits)

lemma pending_value_not_null [simp]: "pending_value p \<noteq> JNull"
  by (simp add: pending_value_def)

lemma keys_receipt: "rejectUnknownKeys (receipt_value r) p receipt_keys = []"
  by (auto simp: receipt_value_def receipt_keys_def opt_entry_def split: option.splits)

lemma isObject_receipt [simp]: "isObject (receipt_value r)"
  by (simp add: receipt_value_def)

lemma normalizeReceipt_value:
  assumes ok: "receipt_ok r" and c: "checksum_ok req r"
  shows "normalizeReceipt (receipt_value r) req = Inr (in_order r)"
proof -
  note parts = ok [unfolded receipt_ok_def]
  have t: "normalizeTargetForReceipt (target_value (rc_target r)) p = (rc_target r, [])" for p
    using parts by (simp add: target_normal)
  have a: "normalizeAccessPolicy (policy_value (rc_accessPolicy r)) p = (rc_accessPolicy r, [])" for p
    using parts by (simp add: policy_normal)
  have rs: "normalizeResources (JArr (map resource_value (rc_resources r))) = (js_sort compareResources (rc_resources r), [])"
    using parts by (simp add: resources_normal)
  have pend: "(if field (receipt_value r) ''pending'' = JNull then None
      else fst (normalizePendingForReceipt (field (receipt_value r) ''pending'') ''pending'')) = rc_pending r"
    "field (receipt_value r) ''pending'' \<noteq> JNull \<longrightarrow>
      snd (normalizePendingForReceipt (field (receipt_value r) ''pending'') ''pending'') = []"
    using parts by (auto simp: pending_normal split: option.splits)
  have b: "list_all (bound (rc_installationId r) (rc_accessPolicy r)) (js_sort compareResources (rc_resources r))"
    "list_all ok_resource (js_sort compareResources (rc_resources r))"
    using parts by (auto simp: list_all_iff)
  have cons: "consistent (rc_state r) (rc_pending r) (js_sort compareResources (rc_resources r))"
    using parts by (auto simp: consistent_def)
  have binds: "concat (map (\<lambda>(i, x). binding_errors (JStr (rc_installationId r)) (rc_accessPolicy r) i x)
      (enumerate 0 (js_sort compareResources (rc_resources r)))) = []"
    using bindings_ok [of "rc_installationId r" "js_sort compareResources (rc_resources r)" "rc_accessPolicy r" 0] parts b
    by blast
  have "receipt_errors (receipt_value r) req = []"
    unfolding receipt_errors_empty pend fields_receipt(1-10,12) t a rs fst_conv snd_conv binds
    using parts c material_receipt [OF c] cons pend(2)
    by (auto simp: keys_receipt state_consistent ownership_ok checksum_ok_def split: option.splits)
  moreover have "text_option (field (receipt_value r) ''checksum'') = rc_checksum r" by (simp split: option.split)
  moreover have "safe_int (jint (rc_revision r)) = Some (rc_revision r)" using parts by simp
  ultimately have "normalizeReceipt (receipt_value r) req = Inr \<lparr>rc_accessPolicy = rc_accessPolicy r,
      rc_desiredHash = rc_desiredHash r, rc_installationId = rc_installationId r, rc_pending = rc_pending r,
      rc_release = rc_release r, rc_resources = js_sort compareResources (rc_resources r), rc_revision = rc_revision r,
      rc_state = rc_state r, rc_target = rc_target r, rc_checksum = rc_checksum r\<rparr>"
    unfolding normalizeReceipt_def pend(1) by (simp add: t a rs)
  then show ?thesis by (simp add: in_order_def)
qed

lemma normalizeReceipt_ok:
  assumes "normalizeReceipt v req = Inr r"
  shows "receipt_ok r" "in_order r = r" "checksum_ok req r"
proof -
  have obj: "isObject v" and e: "receipt_errors v req = []"
    using assms by (auto simp: normalizeReceipt_def split: if_splits)
  note parts = e [unfolded receipt_errors_empty]
  from parts obtain i n rel h where f: "field v ''installationId'' = JStr i" "test RESOURCE_KEY i"
    "safe_int (field v ''revision'') = Some n" "0 \<le> n" "field v ''release'' = JStr rel" "test RELEASE rel"
    "field v ''desiredHash'' = JStr h" "test HASH h"
    by blast
  obtain s where s: "field v ''state'' = JStr (state_text s)" using parts by (auto simp: parse_state_Some)
  obtain t where t: "normalizeTargetForReceipt (field v ''target'') ''target'' = (t, [])" using parts by (metis prod.collapse)
  obtain a where a: "normalizeAccessPolicy (field v ''accessPolicy'') ''accessPolicy'' = (a, [])" using parts by (metis prod.collapse)
  obtain rs where rs: "normalizeResources (field v ''resources'') = (rs, [])" using parts by (metis prod.collapse)
  define q where "q = (if field v ''pending'' = JNull then None
      else fst (normalizePendingForReceipt (field v ''pending'') ''pending''))"
  have free: "material_free v" using parts by blast
  have q: "q = None \<and> field v ''pending'' = JNull \<or> (\<exists>p. q = Some p \<and> ok_pending p \<and> material_free (pending_value p))"
  proof (cases "field v ''pending'' = JNull")
    case False
    then have "normalizePendingForReceipt (field v ''pending'') ''pending'' = (q, [])"
      using parts by (metis prod.collapse q_def)
    from pending_N [OF this] show ?thesis using material_free_field [OF free] by blast
  qed (simp add: q_def)
  have r: "r = \<lparr>rc_accessPolicy = a, rc_desiredHash = h, rc_installationId = i, rc_pending = q, rc_release = rel,
      rc_resources = rs, rc_revision = n, rc_state = s, rc_target = t, rc_checksum = text_option (field v ''checksum'')\<rparr>"
    using assms obj e by (simp add: normalizeReceipt_def f s t a rs q_def)
  note R = resources_N [OF rs]
  show "in_order r = r" using R by (simp add: in_order_def r)
  have "field v ''checksum'' = Undef \<and> \<not> req \<or> (\<exists>c. field v ''checksum'' = JStr c \<and> test HASH c)"
    using parts by blast
  then show "checksum_ok req r" by (auto simp: checksum_ok_def r)
  have "safe_int (field v ''revision'') = Some n \<Longrightarrow> is_safe_integer n"
    by (cases "field v ''revision''" rule: safe_int.cases) (auto split: if_splits)
  moreover have "material_free (receipt_value (withoutChecksum r))"
  proof -
    have "material_free (target_value t)" "material_free (policy_value a)"
      using target_N(2) [OF t] policy_N(2) [OF a] material_free_field [OF free] by blast+
    moreover have "list_all (\<lambda>x. material_free (resource_value x)) rs"
      using R material_free_field [OF free] by blast
    moreover have "\<not> is_sensitive_value i" "\<not> is_sensitive_value rel" "\<not> is_sensitive_value h"
      using material_free_field [OF free, of "''installationId''"] material_free_field [OF free, of "''release''"]
        material_free_field [OF free, of "''desiredHash''"] f by simp_all
    ultimately show ?thesis
      using q by (auto simp: receipt_value_def withoutChecksum_def r opt_entry_def material_free_items_iff list.pred_map comp_def)
  qed
  moreover have "consistent s q rs" "pending_owned q rs"
    using parts unfolding q_def [symmetric] rs fst_conv s state_consistent ownership_ok by blast+
  moreover have "list_all (bound i a) rs"
    using parts unfolding rs fst_conv a f(1) bindings_ok [OF f(2) R [THEN conjunct1]] by blast
  moreover have "\<not> outside_zone t" using parts unfolding t fst_conv by blast
  ultimately show "receipt_ok r"
    using f R target_N(1) [OF t] policy_N(1) [OF a] q by (auto simp: receipt_ok_def r)
qed

section \<open>Normalising an object gives the same fields back\<close>

lemma target_inv: "normalizeTargetForReceipt (target_value t) p = (t', []) \<Longrightarrow> t' = t"
  by (auto simp: normalizeTargetForReceipt_def target_value_def)

lemma policy_inv: "normalizeAccessPolicy (policy_value a) p = (a', []) \<Longrightarrow> a' = a"
  by (cases "is_safe_integer (ap_identityCount a)") (auto simp: normalizeAccessPolicy_def policy_value_def Let_def)

lemma provider_inv: "normalizeProvider (locator_value l) p k = (l', []) \<Longrightarrow> l' = l"
  by (cases l; cases "loc_parentId l")
     (auto simp: normalizeProvider_def locator_value_def opt_entry_def split: if_splits)

lemma resource_inv: "normalizeResource (resource_value r) p = (r', []) \<Longrightarrow> r' = r"
proof -
  assume N: "normalizeResource (resource_value r) p = (r', [])"
  have f: "isObject (resource_value r)" "field (resource_value r) ''kind'' = JStr (kind_text (rr_kind r))"
    "field (resource_value r) ''provider'' = locator_value (rr_provider r)"
    "field (resource_value r) ''key'' = JStr (rr_key r)" "field (resource_value r) ''desiredHash'' = JStr (rr_desiredHash r)"
    "text_option (field (resource_value r) ''marker'') = rr_marker r"
    "text_option (field (resource_value r) ''identityHash'') = rr_identityHash r"
    by (simp_all add: resource_value_def opt_entry_def split: option.split)
  obtain l e where l: "normalizeProvider (locator_value (rr_provider r)) (p @ ''.provider'') (rr_kind r) = (l, e)" by fastforce
  then have "e = []" using N by (simp add: normalizeResource_def f Let_def)
  then have "l = rr_provider r" using l provider_inv by blast
  then show "r' = r" using N l by (auto simp: normalizeResource_def f Let_def)
qed

lemma pending_inv: "normalizePendingForReceipt (pending_value q) p = (q', []) \<Longrightarrow> q' = Some q"
proof -
  assume N: "normalizePendingForReceipt (pending_value q) p = (q', [])"
  have f: "isObject (pending_value q)" "field (pending_value q) ''type'' = JStr (type_text (rp_type q))"
    "field (pending_value q) ''action'' = JStr (receipt_action_text (rp_action q))"
    "field (pending_value q) ''kind'' = JStr (kind_text (rp_kind q))"
    "field (pending_value q) ''key'' = JStr (rp_key q)" "field (pending_value q) ''planId'' = JStr (rp_planId q)"
    "field (pending_value q) ''operationId'' = JStr (rp_operationId q)"
    "field (pending_value q) ''expectedDesiredHash'' = JStr (rp_expectedDesiredHash q)"
    "field (pending_value q) ''requestHash'' = JStr (rp_requestHash q)"
    "text_option (field (pending_value q) ''pruneApprovalId'') = rp_pruneApprovalId q"
    by (simp_all add: pending_value_def opt_entry_def split: option.split)
  show "q' = Some q" using N by (auto simp: normalizePendingForReceipt_def f Let_def)
qed

lemma resources_inv:
  assumes "normalizeResources (JArr (map resource_value rs)) = (rs', [])"
  shows "rs' = js_sort compareResources rs"
proof -
  define f where "f = (\<lambda>(i, x). normalizeResource x (''resources['' @ nat_text i @ '']''))"
  let ?ys = "map f (enumerate 0 (map resource_value rs))"
  have rs': "rs' = js_sort compareResources (map fst ?ys)" and errs: "\<forall>y \<in> set ?ys. snd y = []"
    using assms unfolding f_def by (auto simp: normalizeResources_def Let_def)
  have "map fst ?ys = rs"
  proof (rule nth_equalityI)
    fix i assume "i < length (map fst ?ys)"
    then have i: "i < length rs" by simp
    have y: "?ys ! i = normalizeResource (resource_value (rs ! i)) (''resources['' @ nat_text i @ '']'')"
      using i by (simp add: nth_enumerate_eq f_def)
    have "snd (?ys ! i) = []" using errs i by (metis length_enumerate length_map nth_mem)
    then have "normalizeResource (resource_value (rs ! i)) (''resources['' @ nat_text i @ '']'') = (fst (?ys ! i), [])"
      using y by (metis prod.collapse)
    then have "fst (?ys ! i) = rs ! i" by (rule resource_inv)
    with i show "map fst ?ys ! i = rs ! i" by simp
  qed simp
  with rs' show ?thesis by simp
qed

lemma normalizeReceipt_value_inv:
  assumes "normalizeReceipt (receipt_value c) req = Inr n"
  shows "n = in_order c"
proof -
  have e: "receipt_errors (receipt_value c) req = []"
    using assms by (auto simp: normalizeReceipt_def split: if_splits)
  note parts = e [unfolded receipt_errors_empty]
  have t: "fst (normalizeTargetForReceipt (target_value (rc_target c)) ''target'') = rc_target c"
    using parts by (metis fields_receipt(7) prod.collapse target_inv)
  have a: "fst (normalizeAccessPolicy (policy_value (rc_accessPolicy c)) ''accessPolicy'') = rc_accessPolicy c"
    using parts by (metis fields_receipt(8) prod.collapse policy_inv)
  have rs: "fst (normalizeResources (JArr (map resource_value (rc_resources c)))) = js_sort compareResources (rc_resources c)"
    using parts by (metis fields_receipt(10) prod.collapse resources_inv)
  have p: "(if field (receipt_value c) ''pending'' = JNull then None
      else fst (normalizePendingForReceipt (field (receipt_value c) ''pending'') ''pending'')) = rc_pending c"
  proof (cases "rc_pending c")
    case (Some q)
    have "snd (normalizePendingForReceipt (pending_value q) ''pending'') = []" using parts Some by simp
    then have "fst (normalizePendingForReceipt (pending_value q) ''pending'') = Some q" by (metis prod.collapse pending_inv)
    with Some show ?thesis by simp
  qed simp
  obtain m where m: "safe_int (jint (rc_revision c)) = Some m" using parts by auto
  then have "m = rc_revision c" by (simp split: if_splits)
  moreover have "text_option (field (receipt_value c) ''checksum'') = rc_checksum c" by (simp split: option.split)
  ultimately have "n = \<lparr>rc_accessPolicy = rc_accessPolicy c, rc_desiredHash = rc_desiredHash c,
      rc_installationId = rc_installationId c, rc_pending = rc_pending c, rc_release = rc_release c,
      rc_resources = js_sort compareResources (rc_resources c), rc_revision = rc_revision c, rc_state = rc_state c,
      rc_target = rc_target c, rc_checksum = rc_checksum c\<rparr>"
    using assms e m unfolding normalizeReceipt_def p by (simp add: t a rs)
  then show ?thesis by (simp add: in_order_def)
qed

section \<open>Sealed receipts\<close>

definition sealed :: "(string \<Rightarrow> string) \<Rightarrow> receipt \<Rightarrow> bool" where
  "sealed sha r \<longleftrightarrow> receipt_ok r \<and> in_order r = r
     \<and> (\<exists>h. rc_checksum r = Some h \<and> unsigned_digest sha r = Inr h \<and> test HASH h)"

lemma checksum_irrelevant [simp]:
  "withoutChecksum (r\<lparr>rc_checksum := c\<rparr>) = withoutChecksum r" "withoutChecksum (withoutChecksum r) = withoutChecksum r"
  "receipt_ok (r\<lparr>rc_checksum := c\<rparr>) = receipt_ok r" "receipt_ok (withoutChecksum r) = receipt_ok r"
  "unsigned_digest sha (r\<lparr>rc_checksum := c\<rparr>) = unsigned_digest sha r"
  "unsigned_digest sha (withoutChecksum r) = unsigned_digest sha r"
  "in_order (r\<lparr>rc_checksum := c\<rparr>) = (in_order r)\<lparr>rc_checksum := c\<rparr>"
  "in_order (withoutChecksum r) = withoutChecksum (in_order r)" "in_order (in_order r) = in_order r"
  by (simp_all add: withoutChecksum_def receipt_ok_def unsigned_digest_def in_order_def)

lemma sealReceipt_Inr:
  assumes "sealReceipt sha v = Inr r"
  obtains n h where "normalizeReceipt v False = Inr n" "unsigned_digest sha n = Inr h"
    "r = n\<lparr>rc_checksum := Some h\<rparr>" "sealed sha r"
proof -
  obtain n h where n: "normalizeReceipt v False = Inr n" "unsigned_digest sha n = Inr h"
    "andThen (normalizeReceipt (receipt_value (n\<lparr>rc_checksum := Some h\<rparr>)) True) requireSealedReceipt = Inr r"
    using assms by (auto simp: sealReceipt_def andThen_Inr)
  then obtain m where m: "normalizeReceipt (receipt_value (n\<lparr>rc_checksum := Some h\<rparr>)) True = Inr m" "r = m"
    by (auto simp: andThen_Inr requireSealedReceipt_def split: if_splits)
  have "m = (in_order n)\<lparr>rc_checksum := Some h\<rparr>" using normalizeReceipt_value_inv [OF m(1)] by simp
  then have r: "r = n\<lparr>rc_checksum := Some h\<rparr>" using m(2) normalizeReceipt_ok(2) [OF n(1)] by simp
  have "rc_checksum m = Some h" using m(2) r by auto
  then have "test HASH h" using normalizeReceipt_ok(3) [OF m(1)] by (simp add: checksum_ok_def)
  then have "sealed sha r"
    using normalizeReceipt_ok(1,2) [OF n(1)] n(2) by (simp add: sealed_def r)
  with n r that show ?thesis by blast
qed

lemma seal_value_Inr:
  assumes "sealReceipt sha (receipt_value c) = Inr r"
  obtains h where "r = (in_order c)\<lparr>rc_checksum := Some h\<rparr>" "sealed sha r"
  using assms
proof (rule sealReceipt_Inr)
  fix n h assume "normalizeReceipt (receipt_value c) False = Inr n" "r = n\<lparr>rc_checksum := Some h\<rparr>" "sealed sha r"
  then show thesis using that normalizeReceipt_value_inv by blast
qed

lemma opt_text_canonical: "e \<in> set (opt_entry k (map_option JStr v)) \<Longrightarrow> canonicalJson (snd e) \<noteq> None"
  by (auto simp: opt_entry_def split: option.splits)

lemma object_canonical:
  assumes "list_all (\<lambda>e. canonicalJson (snd e) \<noteq> None) xs" "\<And>e. e \<in> set ys \<Longrightarrow> canonicalJson (snd e) \<noteq> None"
  shows "canonicalJson (JObj (xs @ ys)) \<noteq> None"
  unfolding canonical_None(2) using assms unfolding list_all_iff by (metis Un_iff set_append)

lemma parts_canonical:
  "canonicalJson (target_value t) \<noteq> None" "canonicalJson (policy_value a) \<noteq> None"
  "canonicalJson (locator_value l) \<noteq> None" "canonicalJson (resource_value x) \<noteq> None"
  "canonicalJson (pending_value q) \<noteq> None"
proof -
  show "canonicalJson (target_value t) \<noteq> None"
    by (simp add: target_value_def canonical_None del: canonicalJson.simps not_None_eq)
  show "canonicalJson (policy_value a) \<noteq> None"
    by (simp add: policy_value_def canonical_None del: canonicalJson.simps not_None_eq)
  show l: "canonicalJson (locator_value l) \<noteq> None" for l
    using object_canonical [of "[(''id'', JStr (loc_id l))]", OF _ opt_text_canonical]
    by (simp add: locator_value_def canonical_None del: canonicalJson.simps not_None_eq)
  show "canonicalJson (resource_value x) \<noteq> None"
    unfolding resource_value_def append_assoc
  proof (rule object_canonical)
    show "list_all (\<lambda>e. canonicalJson (snd e) \<noteq> None) [(''kind'', JStr (kind_text (rr_kind x))), (''key'', JStr (rr_key x)),
       (''provider'', locator_value (rr_provider x)), (''desiredHash'', JStr (rr_desiredHash x))]"
      using l by (simp add: canonical_None del: canonicalJson.simps not_None_eq)
  qed (auto dest: opt_text_canonical simp del: not_None_eq canonicalJson.simps)
  show "canonicalJson (pending_value q) \<noteq> None"
    unfolding pending_value_def
    by (rule object_canonical) (simp_all add: canonical_None opt_text_canonical del: canonicalJson.simps not_None_eq)
qed

lemma digest_total: "\<exists>h. unsigned_digest sha r = Inr h"
proof -
  have "canonicalJson (receipt_value (withoutChecksum r)) \<noteq> None"
    unfolding receipt_value_def
  proof (rule object_canonical)
    have "canonicalJson (JArr (map resource_value rs)) \<noteq> None" for rs
      using parts_canonical(4) by (simp add: canonical_None del: canonicalJson.simps not_None_eq)
    moreover have "canonicalJson (case q of None \<Rightarrow> JNull | Some p \<Rightarrow> pending_value p) \<noteq> None" for q
      using parts_canonical(5) by (simp split: option.split)
    ultimately show "list_all (\<lambda>e. canonicalJson (snd e) \<noteq> None) [(''schemaVersion'', jint 1), (''manager'', JStr MANAGER),
       (''installationId'', JStr (rc_installationId (withoutChecksum r))),
       (''state'', JStr (state_text (rc_state (withoutChecksum r)))),
       (''revision'', jint (rc_revision (withoutChecksum r))), (''release'', JStr (rc_release (withoutChecksum r))),
       (''target'', target_value (rc_target (withoutChecksum r))),
       (''accessPolicy'', policy_value (rc_accessPolicy (withoutChecksum r))),
       (''desiredHash'', JStr (rc_desiredHash (withoutChecksum r))),
       (''resources'', JArr (map resource_value (rc_resources (withoutChecksum r)))),
       (''pending'', case rc_pending (withoutChecksum r) of None \<Rightarrow> JNull | Some p \<Rightarrow> pending_value p)]"
      using parts_canonical(1,2) by (simp add: canonical_None(3-5) del: canonicalJson.simps not_None_eq)
  qed (rule opt_text_canonical)
  then show ?thesis by (auto simp: unsigned_digest_def hashCanonical_def hashHex_def)
qed

text \<open>
  The operations on sealed receipts, and the ledger they implement. Each operation that succeeds
  returns a sealed receipt that differs from its input only in the fields the operation is about,
  with the revision increased by one. \<open>ledger\<close> is the abstract content, the resources by kind and
  key; \<open>ledger_step\<close> is the abstract journal protocol, which every operation refines.
\<close>

section \<open>Validation\<close>

lemma validReceipt_Inr:
  assumes "validateInstallationReceipt sha v options = Inr r"
  shows "sealed sha r" "normalizeReceipt v True = Inr r"
proof -
  obtain n where n: "normalizeReceipt v True = Inr n" "requireSealedReceipt n = Inr r"
    using assms by (auto simp: validateInstallationReceipt_def andThen_Inr split: if_splits)
  from n(2) have [simp]: "n = r" by (auto simp: requireSealedReceipt_def split: if_splits)
  note ok = normalizeReceipt_ok [OF n(1)]
  obtain h where h: "receiptChecksum sha (receipt_value r) = Inr h" "rc_checksum r = Some h"
    using assms n by (auto simp: validateInstallationReceipt_def andThen_Inr split: if_splits)
  from h(1) obtain m where "normalizeReceipt (receipt_value r) False = Inr m" "unsigned_digest sha m = Inr h"
    by (auto simp: receiptChecksum_def andThen_Inr)
  then have "unsigned_digest sha r = Inr h" using normalizeReceipt_value_inv ok(2) by fastforce
  then show "sealed sha r" using ok h(2) by (auto simp: sealed_def checksum_ok_def)
  show "normalizeReceipt v True = Inr r" using n(1) by simp
qed

lemma sealed_checksum_ok: "sealed sha r \<Longrightarrow> checksum_ok req r"
  by (auto simp: sealed_def checksum_ok_def)

lemma sealed_validates: "sealed sha r \<Longrightarrow> validReceipt sha (receipt_value r) = Inr r"
proof -
  assume s: "sealed sha r"
  then have n: "normalizeReceipt (receipt_value r) req = Inr r" for req
    using normalizeReceipt_value [OF _ sealed_checksum_ok [OF s]] by (simp add: sealed_def)
  obtain h where h: "rc_checksum r = Some h" "unsigned_digest sha r = Inr h" "test HASH h"
    using s by (auto simp: sealed_def)
  then have "requireSealedReceipt r = Inr r" by (auto simp: requireSealedReceipt_def is_hash)
  moreover have "receiptChecksum sha (receipt_value r) = Inr h" by (simp add: receiptChecksum_def n h)
  ultimately show ?thesis by (simp add: validateInstallationReceipt_def n h rejectUnknownKeys_def unknown_keys_def)
qed

section \<open>The operations\<close>

lemma incrementRevision_Inr: "incrementRevision n = Inr m \<longleftrightarrow> m = n + 1 \<and> is_safe_integer n \<and> n < MAX_SAFE_INTEGER"
  by (auto simp: incrementRevision_def)

lemma if_Inl: "(if b then Inl e else m) = Inr x \<longleftrightarrow> \<not> b \<and> m = Inr x"
  by simp

lemma if_Inr: "(if b then Inr a else m) = Inr x \<longleftrightarrow> b \<and> a = x \<or> \<not> b \<and> m = Inr x"
  by auto

lemma begin_Inr:
  assumes "beginReceiptAction sha v intent = Inr r'" and r: "validReceipt sha v = Inr r"
  obtains p h where "normalizePending intent ''intent'' = Inr p"
    "rc_state r \<noteq> Removed" "rc_pending r = None"
    "rp_type p = Uninstall_type \<longrightarrow> rp_action p = Delete_action"
    "rp_action p = Create_action \<longleftrightarrow> findResourceIndex (rc_resources r) (rp_kind p) (rp_key p) = None"
    "\<forall>i. rp_action p = Delete_action \<longrightarrow> findResourceIndex (rc_resources r) (rp_kind p) (rp_key p) = Some i \<longrightarrow>
       rr_desiredHash (rc_resources r ! i) = rp_expectedDesiredHash p"
    "r' = r\<lparr>rc_state := (if rp_type p = Uninstall_type then Uninstalling else Installing),
       rc_revision := rc_revision r + 1, rc_pending := Some p, rc_checksum := Some h\<rparr>"
    "sealed sha r'"
proof -
  have so: "in_order r = r" using validReceipt_Inr [OF r] by (simp add: sealed_def)
  have g: "rc_state r \<noteq> Removed" "rc_pending r = None"
    using assms r by (auto simp: beginReceiptAction_def split: if_splits)
  obtain p where p: "normalizePending intent ''intent'' = Inr p"
    using assms r g by (auto simp: beginReceiptAction_def andThen_Inr)
  have guards: "rp_type p = Uninstall_type \<longrightarrow> rp_action p = Delete_action"
    "rp_action p = Create_action \<longleftrightarrow> findResourceIndex (rc_resources r) (rp_kind p) (rp_key p) = None"
    "\<forall>i. rp_action p = Delete_action \<longrightarrow> findResourceIndex (rc_resources r) (rp_kind p) (rp_key p) = Some i \<longrightarrow>
       rr_desiredHash (rc_resources r ! i) = rp_expectedDesiredHash p"
    using assms r g p by (auto simp: beginReceiptAction_def Let_def split: if_splits)
  have "sealReceipt sha (receipt_value ((withoutChecksum r)
     \<lparr>rc_state := (if rp_type p = Uninstall_type then Uninstalling else Installing),
      rc_revision := rc_revision r + 1, rc_pending := Some p\<rparr>)) = Inr r'"
    using assms r g p by (auto simp: beginReceiptAction_def Let_def andThen_Inr incrementRevision_Inr split: if_splits option.splits)
  then obtain h where h: "r' = (in_order ((withoutChecksum r)
     \<lparr>rc_state := (if rp_type p = Uninstall_type then Uninstalling else Installing),
      rc_revision := rc_revision r + 1, rc_pending := Some p\<rparr>))\<lparr>rc_checksum := Some h\<rparr>" "sealed sha r'"
    by (rule seal_value_Inr)
  from h(1) so have eq: "r' = r\<lparr>rc_state := (if rp_type p = Uninstall_type then Uninstalling else Installing),
       rc_revision := rc_revision r + 1, rc_pending := Some p, rc_checksum := Some h\<rparr>"
    by (cases r) (simp add: in_order_def withoutChecksum_def)
  show ?thesis by (rule that [OF p g guards eq h(2)])
qed

lemma commit_Inr:
  assumes "commitReceiptAction sha v result = Inr r'" and r: "validReceipt sha v = Inr r"
  obtains p c rs h where "rc_pending r = Some p"
    "normalizeCommitResult result p (rc_installationId r) = Inr c"
    "committed_resources (rc_resources r) p c = Inr rs" "unique_resources rs"
    "r' = r\<lparr>rc_state := (if rp_type p = Uninstall_type then Uninstalling else Ready),
       rc_revision := rc_revision r + 1, rc_resources := js_sort compareResources rs, rc_pending := None,
       rc_checksum := Some h\<rparr>"
    "sealed sha r'"
proof -
  obtain p where p: "rc_pending r = Some p"
    using assms r by (auto simp: commitReceiptAction_def split: option.splits)
  obtain c rs where c: "normalizeCommitResult result p (rc_installationId r) = Inr c"
    "committed_resources (rc_resources r) p c = Inr rs" "assertUniqueResources rs = Inr ()"
    "sealReceipt sha (receipt_value ((withoutChecksum r)
       \<lparr>rc_state := (if rp_type p = Uninstall_type then Uninstalling else Ready),
        rc_revision := rc_revision r + 1, rc_resources := rs, rc_pending := None\<rparr>)) = Inr r'"
    using assms r p by (auto simp: commitReceiptAction_def andThen_Inr incrementRevision_Inr)
  from c(3) have "unique_resources rs" by (simp add: assertUniqueResources_def unique_errors_empty split: if_splits)
  moreover from c(4) obtain h where "r' = (in_order ((withoutChecksum r)
       \<lparr>rc_state := (if rp_type p = Uninstall_type then Uninstalling else Ready),
        rc_revision := rc_revision r + 1, rc_resources := rs, rc_pending := None\<rparr>))\<lparr>rc_checksum := Some h\<rparr>"
    "sealed sha r'"
    by (rule seal_value_Inr)
  moreover from this have "r' = r\<lparr>rc_state := (if rp_type p = Uninstall_type then Uninstalling else Ready),
       rc_revision := rc_revision r + 1, rc_resources := js_sort compareResources rs, rc_pending := None,
       rc_checksum := Some h\<rparr>"
    by (cases r) (simp add: in_order_def withoutChecksum_def)
  ultimately show ?thesis using that p c(1,2) by blast
qed

lemma clear_Inr:
  assumes "clearReceiptAction sha v i = Inr r'"
  obtains (idle) "validReceipt sha v = Inr r'" "rc_pending r' = None"
  | (cleared) r p h where "validReceipt sha v = Inr r" "rc_pending r = Some p"
      "i = Undef \<or> i = JStr (rp_operationId p)"
      "r' = r\<lparr>rc_state := Ready, rc_revision := rc_revision r + 1, rc_pending := None, rc_checksum := Some h\<rparr>"
      "sealed sha r'"
proof -
  obtain r where r: "validReceipt sha v = Inr r"
    using assms by (auto simp: clearReceiptAction_def andThen_Inr)
  have so: "in_order r = r" using validReceipt_Inr [OF r] by (simp add: sealed_def)
  show ?thesis
  proof (cases "rc_pending r")
    case None
    then show ?thesis using idle assms r by (simp add: clearReceiptAction_def)
  next
    case (Some p)
    then have i: "i = Undef \<or> i = JStr (rp_operationId p)"
      and "sealReceipt sha (receipt_value ((withoutChecksum r)
        \<lparr>rc_state := Ready, rc_revision := rc_revision r + 1, rc_pending := None\<rparr>)) = Inr r'"
      using assms r by (auto simp: clearReceiptAction_def andThen_Inr incrementRevision_Inr split: if_splits)
    from this(2) obtain h where "r' = (in_order ((withoutChecksum r)
        \<lparr>rc_state := Ready, rc_revision := rc_revision r + 1, rc_pending := None\<rparr>))\<lparr>rc_checksum := Some h\<rparr>"
      "sealed sha r'"
      by (rule seal_value_Inr)
    moreover from this so have
      "r' = r\<lparr>rc_state := Ready, rc_revision := rc_revision r + 1, rc_pending := None, rc_checksum := Some h\<rparr>"
      by (cases r) (simp add: in_order_def withoutChecksum_def)
    ultimately show ?thesis using cleared r Some i by blast
  qed
qed

lemma mark_Inr:
  assumes "markReceiptRemoved sha v = Inr r'"
  obtains (already) "validReceipt sha v = Inr r'" "rc_state r' = Removed"
  | (marked) r h where "validReceipt sha v = Inr r" "rc_state r \<noteq> Removed" "rc_pending r = None" "rc_resources r = []"
      "r' = r\<lparr>rc_state := Removed, rc_revision := rc_revision r + 1, rc_checksum := Some h\<rparr>" "sealed sha r'"
proof -
  obtain r where r: "validReceipt sha v = Inr r"
    using assms by (auto simp: markReceiptRemoved_def andThen_Inr)
  have so: "in_order r = r" using validReceipt_Inr [OF r] by (simp add: sealed_def)
  show ?thesis
  proof (cases "rc_state r = Removed")
    case True
    then show ?thesis using already assms r by (simp add: markReceiptRemoved_def)
  next
    case False
    then have g: "rc_pending r = None" "rc_resources r = []"
      and "sealReceipt sha (receipt_value ((withoutChecksum r)
        \<lparr>rc_state := Removed, rc_revision := rc_revision r + 1\<rparr>)) = Inr r'"
      using assms r by (auto simp: markReceiptRemoved_def andThen_Inr incrementRevision_Inr split: if_splits)
    from this(3) obtain h where "r' = (in_order ((withoutChecksum r)
        \<lparr>rc_state := Removed, rc_revision := rc_revision r + 1\<rparr>))\<lparr>rc_checksum := Some h\<rparr>" "sealed sha r'"
      by (rule seal_value_Inr)
    moreover from this so have "r' = r\<lparr>rc_state := Removed, rc_revision := rc_revision r + 1, rc_checksum := Some h\<rparr>"
      by (cases r) (simp add: in_order_def withoutChecksum_def)
    ultimately show ?thesis using marked r False g by blast
  qed
qed

lemma update_Inr:
  assumes "updateInstallationReceipt sha v u = Inr r'"
  obtains (same) "validReceipt sha v = Inr r'" "rc_state r' \<noteq> Removed" "rc_pending r' = None"
  | (updated) r h where "validReceipt sha v = Inr r" "rc_state r \<noteq> Removed" "rc_pending r = None"
      "r' = r\<lparr>rc_revision := rc_revision r + 1, rc_release := rc_release r', rc_accessPolicy := rc_accessPolicy r',
         rc_desiredHash := rc_desiredHash r', rc_checksum := Some h\<rparr>"
      "sealed sha r'"
proof -
  obtain r where r: "validReceipt sha v = Inr r"
    using assms by (auto simp: updateInstallationReceipt_def andThen_Inr)
  have so: "in_order r = r" using validReceipt_Inr [OF r] by (simp add: sealed_def)
  have g: "rc_state r \<noteq> Removed" "rc_pending r = None"
    using assms r by (auto simp: updateInstallationReceipt_def Let_def split: if_splits)
  consider "r' = r" | rel pol dh where "sealReceipt sha (receipt_value ((withoutChecksum r)
      \<lparr>rc_revision := rc_revision r + 1, rc_release := rel, rc_accessPolicy := pol, rc_desiredHash := dh\<rparr>)) = Inr r'"
  proof -
    note step = assms [unfolded updateInstallationReceipt_def Let_def case_prod_beta r andThen_simps if_Inl andThen_Inr
        incrementRevision_Inr if_Inr]
    from step show ?thesis
      by (elim conjE exE disjE) (rule that(1), rule sym, assumption, hypsubst, rule that(2), assumption)
  qed
  then show ?thesis
  proof cases
    case 1
    then show ?thesis using same r g by simp
  next
    case (2 rel pol dh)
    then obtain h where "r' = (in_order ((withoutChecksum r)
        \<lparr>rc_revision := rc_revision r + 1, rc_release := rel, rc_accessPolicy := pol, rc_desiredHash := dh\<rparr>))
        \<lparr>rc_checksum := Some h\<rparr>" "sealed sha r'"
      by (rule seal_value_Inr)
    moreover from this so have "r' = r\<lparr>rc_revision := rc_revision r + 1, rc_release := rc_release r',
        rc_accessPolicy := rc_accessPolicy r', rc_desiredHash := rc_desiredHash r', rc_checksum := Some h\<rparr>"
      by (cases r) (simp add: in_order_def withoutChecksum_def)
    ultimately show ?thesis using updated r g by blast
  qed
qed

end
