(* ===== verification/Observer_Facts.thy ===== *)
theory Observer_Facts
  imports Observer Plan_Identity Receipt_Sealed
begin

text \<open>
  Facts on the synchronous parts of the observer: in a sane observation, where the desired resources
  and the trusted receipt are well formed, no comparison fails, and every reported resource is well
  formed. \<open>sane_start\<close> shows that what \<open>readCloudflareObservedState\<close> builds is a sane observation.
\<close>

section \<open>Sane observations\<close>

definition sane_desired :: "string \<Rightarrow> desired_resource \<Rightarrow> bool" where
  "sane_desired inst d \<longleftrightarrow> test RESOURCE_KEY (rs_key d) \<and> test HASH (dr_desiredHash d)
     \<and> metadata_installation (rs_desired d) = Some inst
     \<and> (is_policy (rs_kind d) \<longrightarrow> isString (parent_key d))"

definition sane_access :: "(string \<Rightarrow> string) \<Rightarrow> jval \<Rightarrow> bool" where
  "sane_access sha access \<longleftrightarrow> (\<exists>i. canaryServiceTokenId access = Inr i)"

definition sane_observation :: "platform \<Rightarrow> observation \<Rightarrow> bool" where
  "sane_observation pf ob \<longleftrightarrow>
     test RESOURCE_KEY (ds_installationId (ob_desiredState ob))
     \<and> (\<forall>d \<in> set (ds_resources (ob_desiredState ob)). sane_desired (ds_installationId (ob_desiredState ob)) d)
     \<and> (\<exists>d \<in> set (ds_resources (ob_desiredState ob)). rs_kind d = Dns_record)
     \<and> (\<forall>r. ob_receipt ob = Some r \<longrightarrow> receipt_ok r \<and> rc_installationId r = ds_installationId (ob_desiredState ob))
     \<and> sane_access (pf_sha pf) (ob_access ob)"

lemma sane_parts:
  assumes "sane_observation pf ob"
  shows "d \<in> set (ds_resources (ob_desiredState ob)) \<Longrightarrow> sane_desired (ds_installationId (ob_desiredState ob)) d"
    "test RESOURCE_KEY (ds_installationId (ob_desiredState ob))"
    "ob_receipt ob = Some r \<Longrightarrow> rc_installationId r = ds_installationId (ob_desiredState ob)"
    "e \<in> set (receiptResources ob) \<Longrightarrow> ok_resource e"
    "sane_access (pf_sha pf) (ob_access ob)"
    "desired_of_kind ob Dns_record \<noteq> []"
proof -
  note sane = assms [unfolded sane_observation_def]
  show "d \<in> set (ds_resources (ob_desiredState ob)) \<Longrightarrow> sane_desired (ds_installationId (ob_desiredState ob)) d"
    "test RESOURCE_KEY (ds_installationId (ob_desiredState ob))"
    "ob_receipt ob = Some r \<Longrightarrow> rc_installationId r = ds_installationId (ob_desiredState ob)"
    "sane_access (pf_sha pf) (ob_access ob)" using sane by simp_all
  show "desired_of_kind ob Dns_record \<noteq> []" using sane by (auto simp: desired_of_kind_def filter_empty_conv)
  show "ok_resource e" if e: "e \<in> set (receiptResources ob)"
  proof -
    obtain r where r: "ob_receipt ob = Some r" "e \<in> set (rc_resources r)"
      using e by (cases "ob_receipt ob") (simp_all add: receiptResources_def trusted_resources_def)
    then have "receipt_ok r" using sane by simp
    then show ?thesis using r(2) by (simp add: receipt_ok_def list_all_iff)
  qed
qed

lemma desired_at_Some:
  assumes "desired_at ob kind key = Some d"
  shows "d \<in> set (ds_resources (ob_desiredState ob))" "rs_kind d = kind" "rs_key d = key"
proof -
  obtain i where i: "i < length (ds_resources (ob_desiredState ob))" "d = rev (ds_resources (ob_desiredState ob)) ! i"
    "rs_kind d = kind" "rs_key d = key"
    using assms by (auto simp: desired_at_def find_Some_iff)
  then have "d \<in> set (rev (ds_resources (ob_desiredState ob)))" by (metis nth_mem length_rev)
  then show "d \<in> set (ds_resources (ob_desiredState ob))" by simp
  show "rs_kind d = kind" "rs_key d = key" using i by simp_all
qed

section \<open>No comparison fails\<close>

lemma marker_of_valid: "test RESOURCE_KEY i \<Longrightarrow> test RESOURCE_KEY k \<Longrightarrow> marker_of i k = Inr (''acg:v1:'' @ i @ '':'' @ k)"
  by (simp add: marker_of_def ownershipMarker_def validateResourceKey_def isResourceKey_def)

lemma carries_marker_valid:
  "test RESOURCE_KEY i \<Longrightarrow> test RESOURCE_KEY k \<Longrightarrow> carries_marker v i k = Inr (v = JStr (''acg:v1:'' @ i @ '':'' @ k))"
  by (simp add: carries_marker_def marker_of_valid)

text \<open>A comparison with a desired resource returns a Boolean.\<close>

definition decides :: "(jval \<Rightarrow> desired_resource \<Rightarrow> observe_failure + bool) \<Rightarrow> bool" where
  "decides matches \<longleftrightarrow> (\<forall>live d inst. test RESOURCE_KEY inst \<and> sane_desired inst d \<longrightarrow> (\<exists>b. matches live d = Inr b))"

lemma creation_decides: "decides serverCreationIdentityMatches"
  by (auto simp: decides_def serverCreationIdentityMatches_def sane_desired_def Let_def carries_marker_valid split: option.split)

lemma server_decides: "decides serverMatches"
proof (unfold decides_def, intro allI impI)
  fix live d inst assume "test RESOURCE_KEY inst \<and> sane_desired inst d"
  then obtain b where "serverCreationIdentityMatches live d = Inr b" using creation_decides unfolding decides_def by blast
  then show "\<exists>b. serverMatches live d = Inr b" by (auto simp: serverMatches_def Let_def split: option.split)
qed

lemma portal_decides: "decides portalBaseMatches"
  by (auto simp: decides_def portalBaseMatches_def sane_desired_def Let_def carries_marker_valid split: option.split)

lemma dns_decides: "decides dnsMatches"
  by (auto simp: decides_def dnsMatches_def sane_desired_def Let_def carries_marker_valid split: option.split)

lemma decided_intros:
  "\<exists>b. Inr x = Inr b"
  "(c \<Longrightarrow> \<exists>b. p = Inr b) \<Longrightarrow> (\<not> c \<Longrightarrow> \<exists>b. q = Inr b) \<Longrightarrow> \<exists>b. (if c then p else q) = Inr b"
  "(v = None \<Longrightarrow> \<exists>b. p = Inr b) \<Longrightarrow> (\<And>x. v = Some x \<Longrightarrow> \<exists>b. f x = Inr b) \<Longrightarrow> \<exists>b. (case v of None \<Rightarrow> p | Some x \<Rightarrow> f x) = Inr b"
  "(\<And>e. r = Inl e \<Longrightarrow> \<exists>b. g e = Inr b) \<Longrightarrow> (\<And>x. r = Inr x \<Longrightarrow> \<exists>b. f x = Inr b) \<Longrightarrow> \<exists>b. (case r of Inl e \<Rightarrow> g e | Inr x \<Rightarrow> f x) = Inr b"
  by (auto split: option.split sum.split)

lemma policy_decides:
  assumes "sane_access (pf_sha pf) access"
  shows "\<exists>b. policyMatches pf policy desired access = Inr b"
proof -
  obtain i where i: "canaryServiceTokenId access = Inr i" using assms by (auto simp: sane_access_def)
  have "canaryServiceIdentityDigest sha t \<noteq> Inl e" if "i = Some t" for t e sha
    using i that by (auto simp: canaryServiceTokenId_def canaryServiceIdentityDigest_def split: if_splits jval.splits)
  then show ?thesis unfolding policyMatches_def Let_def i by (intro decided_intros) simp_all
qed

section \<open>Reported resources\<close>

text \<open>The kinds and keys that can be reported: the desired resources' and the receipt's.\<close>

definition known :: "observation \<Rightarrow> resource_kind \<Rightarrow> string \<Rightarrow> bool" where
  "known ob kind key \<longleftrightarrow> (\<exists>d \<in> set (ds_resources (ob_desiredState ob)). rs_kind d = kind \<and> rs_key d = key)
     \<or> (\<exists>e \<in> set (receiptResources ob). rr_kind e = kind \<and> rr_key e = key)"

lemma known_desired: "d \<in> set (ds_resources (ob_desiredState ob)) \<Longrightarrow> known ob (rs_kind d) (rs_key d)"
  by (auto simp: known_def)

lemma known_entry: "e \<in> set (receiptResources ob) \<Longrightarrow> known ob (rr_kind e) (rr_key e)"
  by (auto simp: known_def)

lemma known_valid: "sane_observation pf ob \<Longrightarrow> known ob kind key \<Longrightarrow> test RESOURCE_KEY key"
  unfolding known_def using sane_parts(1,4) by (fastforce simp: sane_desired_def ok_resource_def)

definition sane_resource :: "observation \<Rightarrow> cloud_resource \<Rightarrow> bool" where
  "sane_resource ob r \<longleftrightarrow> known ob (cl_kind r) (cl_key r)
     \<and> (cl_desiredHash r = [] \<or> test HASH (cl_desiredHash r))
     \<and> (\<forall>l. cl_provider r = Some l \<longrightarrow> valid_locator (cl_kind r) l)
     \<and> (case cl_manager r of None \<Rightarrow> cl_installationId r = None
        | Some m \<Rightarrow> m = MANAGER \<and> cl_provider r \<noteq> None \<and> cl_installationId r = Some (ds_installationId (ob_desiredState ob)))"

definition sane_so_far :: "observation \<Rightarrow> observed_so_far \<Rightarrow> bool" where
  "sane_so_far ob s \<longleftrightarrow> (\<forall>r \<in> set (os_resources s). sane_resource ob r)"

lemma sane_unproven:
  "known ob kind key \<Longrightarrow> (\<And>l. p = Some l \<Longrightarrow> valid_locator kind l) \<Longrightarrow> sane_resource ob (unproven kind key p)"
  by (simp add: sane_resource_def unproven_def)

lemma makeObserved_total:
  assumes "sane_observation pf ob" "known ob kind key" "\<And>d. desired = Some d \<Longrightarrow> d \<in> set (ds_resources (ob_desiredState ob))"
  shows "\<exists>r. makeObserved kind key l marker m desired (ob_receipt ob) prov = Inr r"
proof -
  have k: "test RESOURCE_KEY key" using assms(1,2) by (rule known_valid)
  note inst = sane_parts(2) [OF assms(1)]
  have "desiredInstallationId desired \<in> {None, Some (ds_installationId (ob_desiredState ob))}"
  proof (cases desired)
    case (Some d)
    then have "metadata_installation (rs_desired d) = Some (ds_installationId (ob_desiredState ob))"
      using sane_parts(1) [OF assms(1)] assms(3) by (simp add: sane_desired_def)
    then show ?thesis
      by (auto simp: Some desiredInstallationId_def metadata_installation_def safeId_def safeOpaqueId_def split: option.splits jval.splits)
  qed (simp add: desiredInstallationId_def)
  moreover have "test RESOURCE_KEY ''invalid''" by (simp add: is_resource_key key_char_def char_class_defs)
  ultimately have "test RESOURCE_KEY (case ob_receipt ob of Some r \<Rightarrow> rc_installationId r
         | None \<Rightarrow> (case desiredInstallationId desired of Some i \<Rightarrow> i | None \<Rightarrow> ''invalid''))"
    using inst sane_parts(3) [OF assms(1)] by (auto split: option.split)
  from marker_of_valid [OF this k]
  show ?thesis by (simp add: makeObserved_def Let_def)
qed

lemma makeObserved_Inr:
  assumes "makeObserved kind key l marker m desired receipt prov = Inr r"
  shows "cl_kind r = kind" "cl_key r = key" "cl_provider r = Some l"
    "cl_desiredHash r = (if m then (case desired of None \<Rightarrow> [] | Some d \<Rightarrow> dr_desiredHash d) else [])"
    "(cl_manager r \<noteq> None \<or> cl_installationId r \<noteq> None) \<longleftrightarrow> cl_manager r = Some MANAGER"
    "cl_manager r = Some MANAGER \<Longrightarrow> \<exists>rc. receipt = Some rc \<and> cl_installationId r = Some (rc_installationId rc)
       \<and> (\<exists>em. marker_of (rc_installationId rc) key = Inr em
            \<and> is_owned kind (marker = JStr em) m desired receipt (receipt_entry receipt kind key l)
                (pending_create receipt kind key desired) prov)"
  using assms by (auto simp: makeObserved_def andThen_Inr Let_def split: if_splits option.splits)

lemma made_sane:
  assumes sane: "sane_observation pf ob" and r: "makeObserved kind key l marker m desired (ob_receipt ob) prov = Inr r"
    and "known ob kind key" "valid_locator kind l"
    and d: "\<And>d. desired = Some d \<Longrightarrow> d \<in> set (ds_resources (ob_desiredState ob))"
  shows "sane_resource ob r"
proof -
  note f = makeObserved_Inr [OF r]
  have "case desired of None \<Rightarrow> True | Some d \<Rightarrow> test HASH (dr_desiredHash d)"
    using sane_parts(1) [OF sane] d by (auto simp: sane_desired_def split: option.split)
  then have "cl_desiredHash r = [] \<or> test HASH (cl_desiredHash r)" by (simp add: f(4) split: option.splits)
  moreover have "case cl_manager r of None \<Rightarrow> cl_installationId r = None
        | Some k \<Rightarrow> k = MANAGER \<and> cl_provider r \<noteq> None \<and> cl_installationId r = Some (ds_installationId (ob_desiredState ob))"
    using f(3,5,6) sane_parts(3) [OF sane] by (cases "cl_manager r") auto
  ultimately show ?thesis using assms(3,4) by (simp add: sane_resource_def f)
qed

section \<open>Identifiers\<close>

lemma safeId_Some: "safeId v = Some i \<longleftrightarrow> v = JStr i \<and> test SAFE_OPAQUE_ID i"
  by (simp add: safeId_def safeOpaqueId_Some)

lemma exactReturnedId_Inr: "exactReturnedId live i = Inr j \<longleftrightarrow> j = i \<and> isObject live \<and> safeId (field live ''id'') = Some i"
  by (auto simp: exactReturnedId_def split: if_splits)

lemma requireObservedApp_Inr: "requireObservedApp app = Inr j \<longleftrightarrow> isObject app \<and> safeId (field app ''id'') = Some j"
  by (auto simp: requireObservedApp_def split: option.splits if_splits)

lemma record_id_Some: "record_id r = Some i \<longleftrightarrow> isObject r \<and> safeId (field r ''id'') = Some i"
  by (simp add: record_id_def)

lemma map_or_throw_Inr: "map_or_throw f xs = Inr ys \<Longrightarrow> y \<in> set ys \<Longrightarrow> \<exists>x \<in> set xs. f x = Inr y"
  by (induction xs arbitrary: ys) (auto simp: andThen_Inr)

lemma map_or_throw_Inl: "map_or_throw f xs = Inl e \<Longrightarrow> \<exists>x \<in> set xs. f x = Inl e"
  by (induction xs) (auto simp: andThen_def split: sum.splits)

lemma valid_locator_at: "\<not> is_policy kind \<Longrightarrow> valid_locator kind (locator_at i) \<longleftrightarrow> test SAFE_OPAQUE_ID i"
  by (simp add: valid_locator_def)

text \<open>
  What every part of the observer keeps. \<open>delivers R p h\<close>: after the history \<open>h\<close> the program \<open>p\<close> ends with
  a coded error, or with a result for which \<open>R\<close> holds. The locale \<open>observation_invariant\<close> is the interface between the
  loops of the observer and a property of the resources collected so far: a property that survives the few ways a
  resource is added holds of the whole observation.
\<close>

section \<open>Coded errors\<close>

definition coded :: "observe_failure \<Rightarrow> bool" where
  "coded e \<longleftrightarrow> (case e of Observed_error code \<Rightarrow> code \<in> set SAFE_ERROR_CODES | Config_failure c \<Rightarrow> True | Other_failure \<Rightarrow> False)"

lemma coded_constructor [simp]: "coded (ObservedStateError code)"
  by (simp add: coded_def ObservedStateError_def SAFE_ERROR_CODES_def)

lemma coded_provider [simp]: "coded (provider_failure e)"
  by (simp add: provider_failure_def split: observe_failure.split)

section \<open>Delivering\<close>

type_synonym observe_trace = "(observe_call, observe_failure + jval) trace"

definition delivers :: "('x \<Rightarrow> observe_trace \<Rightarrow> bool) \<Rightarrow> 'x observing \<Rightarrow> observe_trace \<Rightarrow> bool" where
  "delivers R p h \<longleftrightarrow> wp (\<lambda>h c. True) (\<lambda>r h'. case r of Inl e \<Rightarrow> coded e | Inr x \<Rightarrow> R x h') p h"

named_theorems delivery \<open>ways to deliver\<close>

lemma delivers_return [simp]: "delivers R (return x) h \<longleftrightarrow> R x h"
  by (simp add: delivers_def)

lemma delivers_throw [simp]: "delivers R (throw e) h \<longleftrightarrow> coded e"
  by (simp add: delivers_def)

lemma delivers_post: "delivers R p h \<Longrightarrow> (\<And>x h'. R x h' \<Longrightarrow> prefix h h' \<Longrightarrow> S x h') \<Longrightarrow> delivers S p h"
  unfolding delivers_def wp_runs by (auto split: sum.splits)

lemma delivers_seq:
  assumes "delivers R m h" "\<And>x h'. R x h' \<Longrightarrow> prefix h h' \<Longrightarrow> delivers S (f x) h'"
  shows "delivers S (seq m f) h"
proof -
  have "delivers (\<lambda>x h'. R x h' \<and> prefix h h') m h" using assms(1) by (rule delivers_post) simp
  then show ?thesis unfolding delivers_def
    by (rule wp_seqI) (use assms(2) in \<open>auto simp: delivers_def\<close>)
qed

lemma delivers_lift: "delivers R (lift r) h \<longleftrightarrow> (case r of Inl e \<Rightarrow> coded e | Inr x \<Rightarrow> R x h)"
  by (simp add: delivers_def wp_lift)

lemma delivers_seq_lift [delivery]:
  "(\<And>e. r = Inl e \<Longrightarrow> coded e) \<Longrightarrow> (\<And>x. r = Inr x \<Longrightarrow> delivers R (f x) h) \<Longrightarrow> delivers R (seq (lift r) f) h"
  by (auto simp: delivers_def wp_seq wp_lift split: sum.split)

lemma delivers_seq_return [simp]: "delivers R (seq (return x) f) h = delivers R (f x) h"
  by (simp add: seq_def)

lemma delivers_option [delivery]:
  "(x = None \<Longrightarrow> delivers R p h) \<Longrightarrow> (\<And>y. x = Some y \<Longrightarrow> delivers R (q y) h)
     \<Longrightarrow> delivers R (case x of None \<Rightarrow> p | Some y \<Rightarrow> q y) h"
  by (cases x) auto

lemma delivers_if [delivery]:
  "(b \<Longrightarrow> delivers R p h) \<Longrightarrow> (\<not> b \<Longrightarrow> delivers R q h) \<Longrightarrow> delivers R (if b then p else q) h"
  by simp

lemma delivers_read:
  "(\<And>v. R v (h @ [(c, Inr v)])) \<Longrightarrow> delivers R (providerRead c) h"
  unfolding delivers_def providerRead_def wp_catch wp_call by (auto split: sum.split)

lemma delivers_seq_read [delivery]:
  assumes "\<And>v. delivers R (f v) (h @ [(c, Inr v)])"
  shows "delivers R (seq (providerRead c) f) h"
  by (rule delivers_seq [where R = "\<lambda>v h'. h' = h @ [(c, Inr v)]"]) (auto intro: delivers_read assms)

lemma delivers_read_list:
  "(\<And>xs. R xs (h @ [(c, Inr (JArr xs))])) \<Longrightarrow> delivers R (read_list c) h"
  unfolding read_list_def by (auto intro!: delivery)

lemma delivers_each:
  assumes "\<And>x s h. x \<in> set xs \<Longrightarrow> J s h \<Longrightarrow> delivers J (f x s) h" "J s h"
  shows "delivers J (each f xs s) h"
  using assms
proof (induction xs arbitrary: s h)
  case (Cons x xs)
  show ?case unfolding each.simps
    by (rule delivers_seq [where R = J]) (use Cons in auto)
qed simp

text \<open>A list of reads delivers, for each, an error that is coded or a result.\<close>

lemma delivers_attempt:
  assumes "delivers R m h" "\<And>e h'. prefix h h' \<Longrightarrow> coded e \<Longrightarrow> S (Inl e) h'" "\<And>x h'. R x h' \<Longrightarrow> prefix h h' \<Longrightarrow> S (Inr x) h'"
  shows "delivers S (attempt m) h"
proof -
  have "S r (h @ t)" if "runs m t r" for t r
    using assms(1) that assms(2) [of "h @ t"] assms(3) [of _ "h @ t"] unfolding delivers_def wp_runs
    by (cases r) fastforce+
  then have "wp (\<lambda>h c. True) (\<lambda>r h'. S r h') m h" by (simp add: wp_runs)
  then show ?thesis by (simp add: delivers_def wp_attempt)
qed

definition settled :: "('x \<Rightarrow> bool) \<Rightarrow> observe_failure + 'x \<Rightarrow> bool" where
  "settled P r \<longleftrightarrow> (case r of Inl e \<Rightarrow> coded e | Inr x \<Rightarrow> P x)"

lemma delivers_each_read:
  assumes "\<And>x h. x \<in> set xs \<Longrightarrow> delivers (\<lambda>y h'. P y h') (f x) h" "\<And>y h h'. P y h \<Longrightarrow> prefix h h' \<Longrightarrow> P y h'"
  shows "delivers (\<lambda>rs h'. list_all (settled (\<lambda>y. P y h')) rs) (each_read f xs) h"
  using assms(1)
proof (induction xs arbitrary: h)
  case (Cons y ys h)
  have "delivers (\<lambda>r h'. settled (\<lambda>y. P y h') r) (attempt (f y)) h"
    by (rule delivers_attempt [OF Cons.prems]) (auto simp: settled_def)
  then show ?case unfolding each_read.simps
  proof (rule delivers_seq)
    fix r h' assume r: "settled (\<lambda>y. P y h') r"
    have "delivers (\<lambda>rs h''. list_all (settled (\<lambda>y. P y h'')) rs) (each_read f ys) h'"
      using Cons by simp
    then show "delivers (\<lambda>rs h'. list_all (settled (\<lambda>y. P y h')) rs) (seq (each_read f ys) (\<lambda>rs. return (r # rs))) h'"
    proof (rule delivers_seq)
      fix rs h'' assume "list_all (settled (\<lambda>y. P y h'')) rs" "prefix h' h''"
      moreover have "settled (\<lambda>y. P y h'') r"
        using r assms(2) \<open>prefix h' h''\<close> by (auto simp: settled_def split: sum.splits)
      ultimately show "delivers (\<lambda>rs h'. list_all (settled (\<lambda>y. P y h')) rs) (return (r # rs)) h''" by simp
    qed
  qed
qed simp

lemma all_settled_ok:
  assumes "list_all (settled P) rs"
  shows "case all_settled rs of Inl e \<Rightarrow> coded e | Inr xs \<Rightarrow> list_all P xs"
  using assms
proof (induction rs)
  case (Cons r rs)
  then show ?case
    by (cases r; cases "all_settled rs") (auto simp: all_settled_def settled_def)
qed (simp add: all_settled_def)

end
