(* ===== verification/Provider_Rules.thy ===== *)
theory Provider_Rules
  imports Provider_Inspect Observer_Facts
begin

text \<open>
  What the provider has seen and submitted, as functions of the history of its calls, and rules for the reads that
  guard a mutation. \<open>seen h c\<close> is the latest answer to the read \<open>c\<close>, \<open>submitted h\<close> the mutations requested so far.
  \<open>frame D h h'\<close>: between two histories nothing was submitted and only reads in \<open>D\<close> were answered anew. The locale
  \<open>reading_allowed\<close> is the interface between the checks of a handler and a rule that decides which calls are lawful:
  under every rule that permits reading, a check establishes what it has read and keeps the rest of the history's
  knowledge.
\<close>

section \<open>Histories\<close>

type_synonym client_trace = "(client_call, unit + jval) trace"

definition submitted :: "client_trace \<Rightarrow> client_call list" where
  "submitted h = filter is_mutation (map fst h)"

definition answered :: "unit + jval \<Rightarrow> jval option" where
  "answered a = (case a of Inl _ \<Rightarrow> None | Inr v \<Rightarrow> Some v)"

text \<open>The latest answer to a read; \<open>None\<close> where it was not made or failed.\<close>

definition seen :: "client_trace \<Rightarrow> observe_call \<Rightarrow> jval option" where
  "seen h c = Option.bind (find (\<lambda>e. fst e = Read c) (rev h)) (\<lambda>e. answered (snd e))"

lemma seen_Nil [simp]: "seen [] c = None"
  by (simp add: seen_def)

lemma seen_snoc [simp]: "seen (h @ [(c, a)]) c' = (if c = Read c' then answered a else seen h c')"
  by (simp add: seen_def)

lemma answered_simps [simp]: "answered (Inr v) = Some v" "answered (Inl u) = None"
  by (simp_all add: answered_def)

lemma submitted_Nil [simp]: "submitted [] = []"
  by (simp add: submitted_def)

lemma submitted_snoc [simp]: "submitted (h @ [(c, a)]) = submitted h @ (if is_mutation c then [c] else [])"
  by (simp add: submitted_def)

lemma submitted_append: "submitted (h @ h') = submitted h @ submitted h'"
  by (simp add: submitted_def)

definition frame :: "(observe_call \<Rightarrow> bool) \<Rightarrow> client_trace \<Rightarrow> client_trace \<Rightarrow> bool" where
  "frame D h h' \<longleftrightarrow> submitted h' = submitted h \<and> (\<forall>c. \<not> D c \<longrightarrow> seen h' c = seen h c)"

lemma frame_refl [simp]: "frame D h h"
  by (simp add: frame_def)

lemma frame_trans: "frame D h h' \<Longrightarrow> frame D h' h'' \<Longrightarrow> frame D h h''"
  by (simp add: frame_def)

lemma frame_read: "D c \<Longrightarrow> frame D h (h @ [(Read c, a)])"
  by (auto simp: frame_def)

lemma frame_wait: "frame D h (h @ [(Wait n, a)])"
  by (auto simp: frame_def)

lemma frame_mono: "frame D h h' \<Longrightarrow> (\<And>c. D c \<Longrightarrow> D' c) \<Longrightarrow> frame D' h h'"
  by (auto simp: frame_def)

lemma frame_submitted: "frame D h h' \<Longrightarrow> submitted h' = submitted h"
  by (simp add: frame_def)

lemma frame_seen: "frame D h h' \<Longrightarrow> \<not> D c \<Longrightarrow> seen h' c = seen h c"
  by (simp add: frame_def)

section \<open>Outcomes of synchronous code\<close>

lemma demand_Inr [simp]: "demand b code = Inr u \<longleftrightarrow> b"
  by (simp add: demand_def)

lemma demand_some_Inr [simp]: "demand_some v code = Inr x \<longleftrightarrow> v = Some x"
  by (simp add: demand_some_def split: option.split)

lemma assertMarker_Inr [simp]: "assertMarker v m = Inr u \<longleftrightarrow> v = JStr m"
  by (simp add: assertMarker_def)

lemma requireList_Inr [simp]: "requireList v = Inr xs \<longleftrightarrow> v = JArr xs"
  by (simp add: requireList_def)

lemma foreign_Inr [simp]: "foreign r = Inr x \<longleftrightarrow> r = Inr x"
  by (simp add: foreign_def split: sum.split)

lemma replaced_Inr [simp]: "replaced r code = Inr x \<longleftrightarrow> r = Inr x"
  by (simp add: replaced_def split: sum.split)

lemma only_Inr [simp]: "only xs code = Inr x \<longleftrightarrow> xs = [x]"
  by (auto simp: only_def split: list.split)

lemma requireSafeId_Inr: "requireSafeId v = Inr i \<Longrightarrow> v = JStr i"
  by (auto simp: requireSafeId_def safeId_Some)

lemma requireAppId_Inr: "requireAppId app = Inr i \<Longrightarrow> field app ''id'' = JStr i"
  by (auto simp: requireAppId_def safeId_Some split: if_splits)

lemma provider_marker_is: "provider_marker installationId key = Inr marker \<Longrightarrow> is_marker installationId key v \<longleftrightarrow> v = JStr marker"
  by (simp add: is_marker_def)

lemma candidate_ids_Nil: "candidate_ids predicate apps = Inr [] \<Longrightarrow> list_all (\<lambda>a. \<not> predicate a) apps"
proof -
  assume a: "candidate_ids predicate apps = Inr []"
  have "filter predicate apps = []"
    using a by (cases "filter predicate apps") (auto simp: candidate_ids_def andThen_def split: sum.splits)
  then show ?thesis by (simp add: filter_empty_conv list_all_iff)
qed

text \<open>The policies of an application before it is updated: none, or the one the receipt owns.\<close>

definition phase_ok :: "receipt \<Rightarrow> string \<Rightarrow> jval \<Rightarrow> jval list \<Rightarrow> bool" where
  "phase_ok receipt i app policies \<longleftrightarrow>
     (case filter (\<lambda>r. rr_kind r = Portal_access_policy \<and> loc_parentId (rr_provider r) = Some i) (rc_resources receipt) of
        [] \<Rightarrow> policies = [] \<and> inlinePoliciesAreEmpty app
      | [owned] \<Rightarrow> (\<exists>marker found. provider_marker (rc_installationId receipt) (rr_key owned) = Inr marker
          \<and> assertExpectedPolicySet (JArr policies) (loc_id (rr_provider owned)) marker False = Inr found)
      | _ \<Rightarrow> False)"

section \<open>Checks\<close>

locale reading_allowed =
  fixes G :: "client_trace \<Rightarrow> client_call \<Rightarrow> bool"
  assumes reads: "G h (Read c)" and waits: "G h (Wait n)"
begin

lemma ask_read: "(\<And>v. safely G S (f v) (h @ [(Read c, Inr v)])) \<Longrightarrow> safely G S (seq (ask (Read c)) f) h"
  by (auto simp: ask_def safely_def wp_seq reads foreign_def split: sum.split)

lemma ensured: "(b \<Longrightarrow> safely G S (f ()) h) \<Longrightarrow> safely G S (seq (ensure b code) f) h"
  unfolding ensure_def by (rule safely_seq_lift) simp

lemma ensured_last: "(b \<Longrightarrow> S () h) \<Longrightarrow> safely G S (ensure b code) h"
  by (auto simp: ensure_def intro!: safely_lift)

lemma listed: "(\<And>xs. safely G S (f xs) (h @ [(Read c, Inr (JArr xs))])) \<Longrightarrow> safely G S (seq (list_of c) f) h"
proof -
  assume a: "\<And>xs. safely G S (f xs) (h @ [(Read c, Inr (JArr xs))])"
  have "safely G (\<lambda>xs h'. h' = h @ [(Read c, Inr (JArr xs))]) (list_of c) h"
    unfolding list_of_def by (rule ask_read) (auto intro!: safely_lift)
  then show ?thesis by (rule safely_seq) (simp add: a)
qed

lemma exactly_read:
  assumes "safely G S (f None) (h @ [(Read c, Inr JNull)])"
    "\<And>v. field v ''id'' = JStr i \<Longrightarrow> isObject v \<Longrightarrow> safely G S (f (Some v)) (h @ [(Read c, Inr v)])"
  shows "safely G S (seq (exactRead c i) f) h"
proof -
  have "safely G (\<lambda>r h'. (r = None \<and> h' = h @ [(Read c, Inr JNull)])
      \<or> (\<exists>v. r = Some v \<and> field v ''id'' = JStr i \<and> isObject v \<and> h' = h @ [(Read c, Inr v)])) (exactRead c i) h"
    unfolding exactRead_def by (rule ask_read) simp
  then show ?thesis by (rule safely_seq) (use assms in auto)
qed

lemma live_read:
  assumes "\<And>v. field v ''id'' = JStr i \<Longrightarrow> isObject v \<Longrightarrow> safely G S (f v) (h @ [(Read c, Inr v)])"
  shows "safely G S (seq (exactLive c i code) f) h"
proof -
  have "safely G (\<lambda>v h'. field v ''id'' = JStr i \<and> isObject v \<and> h' = h @ [(Read c, Inr v)]) (exactLive c i code) h"
    unfolding exactLive_def by (rule exactly_read) (auto intro!: safely_lift)
  then show ?thesis by (rule safely_seq) (use assms in auto)
qed

lemma waited: "(\<And>a. safely G S (f ()) (h @ [(Wait (po_interval po), a)])) \<Longrightarrow> safely G S (seq (pause po) f) h"
  unfolding pause_def by (auto simp: ask_def safely_def wp_seq waits foreign_def split: sum.split)

lemma waited_between: "(\<And>h'. frame D h h' \<Longrightarrow> safely G S (f ()) h') \<Longrightarrow> safely G S (seq (pause_between po n) f) h"
  by (auto simp: pause_between_def intro!: waited frame_wait)

lemma lifted: "(\<And>x. r = Inr x \<Longrightarrow> safely G S (f x) h) \<Longrightarrow> safely G S (seq (lift r) f) h"
  by (rule safely_seq_lift)

lemma lifted_last: "(\<And>x. r = Inr x \<Longrightarrow> S x h) \<Longrightarrow> safely G S (lift r) h"
  by (rule safely_lift)

lemma asked: "G h c \<Longrightarrow> (\<And>v. safely G S (f v) (h @ [(c, Inr v)])) \<Longrightarrow> safely G S (seq (ask c) f) h"
  by (auto simp: ask_def safely_def wp_seq foreign_def split: sum.split)

lemmas steps = ask_read ensured ensured_last listed exactly_read live_read waited lifted lifted_last

text \<open>From the specification of a check to the rule for what comes after it.\<close>

lemma after:
  assumes "safely G (\<lambda>x h'. frame D h h' \<and> R x h') m h" "\<And>x h'. frame D h h' \<Longrightarrow> R x h' \<Longrightarrow> safely G S (f x) h'"
  shows "safely G S (seq m f) h"
  using assms(1) by (rule safely_seq) (use assms(2) in auto)

section \<open>Applications\<close>

lemma no_server_applications:
  "safely G (\<lambda>_ h'. frame ((=) List_access_apps) h h'
     \<and> (\<exists>apps. seen h' List_access_apps = Some (JArr apps) \<and> list_all (\<lambda>a. \<not> isExactServerApp a i) apps))
     (assertNoServerAccessApplications i) h"
  unfolding assertNoServerAccessApplications_def
  by (intro steps) (auto simp: frame_read list_ex_iff list_all_iff)

lemma no_portal_applications:
  "safely G (\<lambda>_ h'. frame ((=) List_access_apps) h h'
     \<and> (\<exists>apps. seen h' List_access_apps = Some (JArr apps) \<and> list_all (\<lambda>a. \<not> is_candidate hostname a) apps))
     (assertNoPortalAccessApplications hostname) h"
  unfolding assertNoPortalAccessApplications_def
  by (intro steps) (auto simp: frame_read list_ex_iff list_all_iff)

lemma no_baseline:
  "safely G (\<lambda>_ h'. frame ((=) List_access_apps) h h'
     \<and> (\<exists>apps. seen h' List_access_apps = Some (JArr apps) \<and> list_all (\<lambda>a. \<not> predicate a) apps))
     (assertNoAccessAppBaseline predicate) h"
  unfolding assertNoAccessAppBaseline_def
  by (intro steps) (auto simp: frame_read dest: candidate_ids_Nil)

lemma quiet_baseline:
  "safely G (\<lambda>_ h'. frame ((=) List_access_apps) h h') (provePortalAccessApplicationBaselineQuiet n po hostname) h"
proof (induction n arbitrary: h)
  case (Suc n)
  have "safely G (\<lambda>_ h'. frame ((=) List_access_apps) h h') (provePortalAccessApplicationBaselineQuiet n po hostname) h'"
    if "frame ((=) List_access_apps) h h'" for h'
    using Suc.IH by (rule safely_post) (auto intro: frame_trans that)
  then show ?case
    by (simp, intro steps waited_between [where D = "(=) List_access_apps"])
      (auto intro: frame_trans frame_read)
qed simp

lemma candidate_set:
  "safely G (\<lambda>_ h'. frame ((=) List_access_apps) h h'
     \<and> (\<exists>apps. seen h' List_access_apps = Some (JArr apps)
         \<and> candidate_ids (\<lambda>a. is_named name a \<or> is_candidate hostname a) apps = Inr (if allowAbsent then [] else [i])))
     (assertPortalAccessApplicationCandidateSet hostname name i allowAbsent) h"
  unfolding assertPortalAccessApplicationCandidateSet_def
  by (intro steps) (auto simp: frame_read)

lemma policies_empty:
  assumes "field app ''id'' = JStr i"
  shows "safely G (\<lambda>_ h'. frame ((=) (List_app_policies i)) h h' \<and> seen h' (List_app_policies i) = Some (JArr [])
     \<and> inlinePoliciesAreEmpty app) (assertAccessApplicationPoliciesEmpty app) h"
  unfolding assertAccessApplicationPoliciesEmpty_def
  by (intro steps) (use assms in \<open>auto simp: frame_read dest!: requireSafeId_Inr\<close>)

lemma policy_phase:
  assumes "field app ''id'' = JStr i"
  shows "safely G (\<lambda>_ h'. frame ((=) (List_app_policies i)) h h'
       \<and> (\<exists>policies. seen h' (List_app_policies i) = Some (JArr policies) \<and> phase_ok (gm_receipt m) i app policies))
     (assertPortalAccessApplicationPolicyPhase m app) h"
proof -
  have "safely G (\<lambda>_ h'. frame ((=) (List_app_policies i)) h h'
       \<and> (\<exists>policies. seen h' (List_app_policies i) = Some (JArr policies) \<and> phase_ok (gm_receipt m) i app policies))
     (case filter (\<lambda>r. rr_kind r = Portal_access_policy \<and> loc_parentId (rr_provider r) = Some i) (rc_resources (gm_receipt m)) of
         [] \<Rightarrow> ensure (policies = [] \<and> inlinePoliciesAreEmpty app) ''ownership_conflict''
       | [owned] \<Rightarrow>
           seq (lift (provider_marker (rc_installationId (gm_receipt m)) (rr_key owned))) (\<lambda>marker.
           seq (ensure (rr_marker owned = Some marker) ''ownership_conflict'') (\<lambda>_.
           seq (lift (assertExpectedPolicySet (JArr policies) (loc_id (rr_provider owned)) marker False)) (\<lambda>_.
             lift (assertInlinePolicySet app (JArr policies)))))
       | _ \<Rightarrow> throw (fault ''ownership_conflict'')) (h @ [(Read (List_app_policies i), Inr (JArr policies))])" for policies
    by (auto split: list.split simp: frame_read phase_ok_def intro!: steps)
  then show ?thesis
    unfolding assertPortalAccessApplicationPolicyPhase_def
    by (intro steps) (use assms in \<open>auto dest!: requireSafeId_Inr\<close>)
qed

end

text \<open>
  The rule of the provider: which requests a validated mutation permits after which history. \<open>lawful pf m h c\<close> refers to
  nothing but the mutation, the receipt in it, what was seen and what was submitted; it is the specification
  the handlers are proved against in \<open>Provider_Safety\<close>. Before that, the checks of the resources a mutation depends on.
\<close>

section \<open>What the reads have shown\<close>

definition shown :: "client_trace \<Rightarrow> observe_call \<Rightarrow> (jval \<Rightarrow> bool) \<Rightarrow> bool" where
  "shown h c P \<longleftrightarrow> (\<exists>v. seen h c = Some v \<and> P v)"

definition listing :: "client_trace \<Rightarrow> observe_call \<Rightarrow> (jval list \<Rightarrow> bool) \<Rightarrow> bool" where
  "listing h c P \<longleftrightarrow> (\<exists>xs. seen h c = Some (JArr xs) \<and> P xs)"

definition carries :: "receipt \<Rightarrow> string \<Rightarrow> jval \<Rightarrow> bool" where
  "carries receipt key live = is_marker (rc_installationId receipt) key (field live ''description'')"

definition holds_entry :: "receipt \<Rightarrow> resource_kind \<Rightarrow> string \<Rightarrow> string \<Rightarrow> bool" where
  "holds_entry receipt kind key i \<longleftrightarrow>
     (\<exists>r \<in> set (rc_resources receipt). rr_kind r = kind \<and> rr_key r = key \<and> loc_id (rr_provider r) = i)"

definition server_ready :: "gateway_mutation \<Rightarrow> string \<Rightarrow> client_trace \<Rightarrow> bool" where
  "server_ready m key h \<longleftrightarrow> holds_entry (gm_receipt m) Mcp_server key key
     \<and> shown h (Get_mcp_server key) (carries (gm_receipt m) key)"

definition portal_ready :: "gateway_mutation \<Rightarrow> string \<Rightarrow> portal_desired \<Rightarrow> client_trace \<Rightarrow> bool" where
  "portal_ready m key expected h \<longleftrightarrow> holds_entry (gm_receipt m) Portal key key
     \<and> shown h (Get_portal key) (\<lambda>live. carries (gm_receipt m) key live
         \<and> field live ''hostname'' = JStr (gc_hostname (gm_config m)) \<and> portalMatchesExpected live key expected)"

text \<open>The live application below which a policy is: the receipt's, with its marker or the configured name.\<close>

definition parent_proven :: "gateway_mutation \<Rightarrow> string \<Rightarrow> jval \<Rightarrow> bool" where
  "parent_proven m p app \<longleftrightarrow> field app ''id'' = JStr p
     \<and> (if mc_kind (gm_change m) = Portal_access_policy
        then (\<exists>key. holds_entry (gm_receipt m) Portal_access_application key p)
          \<and> field app ''name'' = JStr (gc_name (gm_config m))
          \<and> portalAccessApplicationContractMatches app (gc_hostname (gm_config m))
          \<and> provider_oauth_matches (field app ''oauth_configuration'')
        else (\<exists>key marker. holds_entry (gm_receipt m) Source_access_application key p
          \<and> provider_marker (rc_installationId (gm_receipt m)) key = Inr marker \<and> source_destination app marker \<noteq> None))"

text \<open>The policy was read with the marker, and it is the only one its application has.\<close>

definition policy_confirmed :: "gateway_mutation \<Rightarrow> string \<Rightarrow> string \<Rightarrow> client_trace \<Rightarrow> bool" where
  "policy_confirmed m p i h \<longleftrightarrow> shown h (Get_access_app p) (parent_proven m p)
     \<and> shown h (Get_app_policy p i) (\<lambda>live. field live ''id'' = JStr i \<and> field live ''name'' = JStr (gm_marker m))
     \<and> listing h (List_app_policies p) (\<lambda>ps. \<exists>found. assertExpectedPolicySet (JArr ps) i (gm_marker m) False = Inr (Some found))"

definition dns_backed :: "platform \<Rightarrow> gateway_mutation \<Rightarrow> string \<Rightarrow> client_trace \<Rightarrow> bool" where
  "dns_backed pf m portalKey h \<longleftrightarrow> (\<exists>deps expectedPortal application marker policy.
     dnsDependencies pf m portalKey = Inr deps \<and> portal_ready m (rs_key (dd_portal deps)) expectedPortal h
     \<and> normalizePortalAccessApplicationDesired (rs_desired (dd_application deps)) = Inr application
     \<and> shown h (Get_access_app (loc_id (rr_provider (dd_ownedApplication deps)))) (\<lambda>live. live_application_matches live application)
     \<and> normalizePolicyDesired (pf_sha pf) (rs_desired (dd_policy deps)) (gm_access m) marker = Inr policy
     \<and> shown h (Get_app_policy (loc_id (rr_provider (dd_ownedApplication deps))) (loc_id (rr_provider (dd_ownedPolicy deps))))
         (\<lambda>live. accessPolicyMatches live policy))"

definition none_is :: "(jval \<Rightarrow> bool) \<Rightarrow> jval list \<Rightarrow> bool" where
  "none_is P xs = list_all (\<lambda>x. \<not> P x) xs"

section \<open>Lawful requests\<close>

definition is_creation :: "mutation_change \<Rightarrow> bool" where
  "is_creation change = (case change of Create_mutation _ _ _ _ \<Rightarrow> True | _ \<Rightarrow> False)"

text \<open>
  The server to be synchronised: the one just created, or the receipt's, which was read with the marker and with the
  desired endpoint and authentication.
\<close>

definition syncs :: "platform \<Rightarrow> gateway_mutation \<Rightarrow> string \<Rightarrow> server_desired \<Rightarrow> client_call list \<Rightarrow> bool" where
  "syncs pf m key expected before \<longleftrightarrow> mc_kind (gm_change m) = Mcp_server \<and> mc_key (gm_change m) = key
     \<and> \<not> is_deletion (gm_change m) \<and> normalizeServerDesired (pf_parse_url pf) (mc_desired (gm_change m)) = Inr expected
     \<and> before = (if is_creation (gm_change m) then [Create_mcp_server (server_create_body key expected (gm_marker m))] else [])"

definition removes :: "gateway_mutation \<Rightarrow> resource_kind \<Rightarrow> string \<Rightarrow> bool" where
  "removes m kind i \<longleftrightarrow> (\<exists>key l. gm_change m = Delete_mutation kind key l \<and> loc_id l = i)"

definition updates :: "gateway_mutation \<Rightarrow> resource_kind \<Rightarrow> string \<Rightarrow> jval \<Rightarrow> bool" where
  "updates m kind i desired \<longleftrightarrow> (\<exists>key h l. gm_change m = Update_mutation kind key desired h l \<and> loc_id l = i)"

definition creates :: "gateway_mutation \<Rightarrow> resource_kind \<Rightarrow> string \<Rightarrow> jval \<Rightarrow> bool" where
  "creates m kind key desired \<longleftrightarrow> (\<exists>h. gm_change m = Create_mutation kind key desired h)"

definition policy_at :: "mutation_change \<Rightarrow> string \<Rightarrow> string \<Rightarrow> bool" where
  "policy_at change p i \<longleftrightarrow> is_policy (mc_kind change) \<and> \<not> is_creation change
     \<and> mc_provider change = \<lparr>loc_id = i, loc_parentId = Some p\<rparr>"

fun lawful :: "platform \<Rightarrow> gateway_mutation \<Rightarrow> client_trace \<Rightarrow> client_call \<Rightarrow> bool" where
  "lawful pf m h (Read c) = True"
| "lawful pf m h (Wait n) = True"
| "lawful pf m h (Create_mcp_server body) = (submitted h = []
     \<and> (\<exists>key desired expected. creates m Mcp_server key desired \<and> normalizeServerDesired (pf_parse_url pf) desired = Inr expected
          \<and> sd_auth_type expected = ''unauthenticated'' \<and> body = server_create_body key expected (gm_marker m)
          \<and> seen h (Get_mcp_server key) = Some JNull
          \<and> listing h List_access_apps (none_is (\<lambda>app. isExactServerApp app key))))"
| "lawful pf m h (Sync_mcp_server i) = (\<exists>expected. syncs pf m i expected (submitted h)
     \<and> (\<not> is_creation (gm_change m) \<longrightarrow> shown h (Get_mcp_server i) (\<lambda>live. field live ''description'' = JStr (gm_marker m)
          \<and> field live ''hostname'' = JStr (sd_hostname expected) \<and> field live ''auth_type'' = JStr (sd_auth_type expected)
          \<and> sd_auth_type expected = ''unauthenticated'')))"
| "lawful pf m h (Update_mcp_server i body) = (\<exists>expected before. submitted h = before @ [Sync_mcp_server i]
     \<and> syncs pf m i expected before \<and> body = server_update_body expected (gm_marker m)
     \<and> shown h (Get_mcp_server i) (\<lambda>live. field live ''id'' = JStr i \<and> field live ''status'' = JStr ''ready''
          \<and> expectedToolsDiscovered (field live ''tools'') (sd_updated_tools expected)))"
| "lawful pf m h (Delete_mcp_server i) = (submitted h = [] \<and> removes m Mcp_server i
     \<and> shown h (Get_mcp_server i) (\<lambda>live. field live ''description'' = JStr (gm_marker m))
     \<and> listing h List_access_apps (none_is (\<lambda>app. isExactServerApp app i)))"
| "lawful pf m h (Create_portal body) = (submitted h = []
     \<and> (\<exists>key desired expected. creates m Portal key desired \<and> normalizePortalDesired desired (gm_marker m) = Inr expected
          \<and> body = JObj ((''id'', JStr key) # portal_body_entries expected) \<and> seen h (Get_portal key) = Some JNull
          \<and> listing h List_access_apps (none_is (is_candidate (gc_hostname (gm_config m))))))"
| "lawful pf m h (Update_portal i body) = (submitted h = []
     \<and> (\<exists>desired expected. updates m Portal i desired \<and> normalizePortalDesired desired (gm_marker m) = Inr expected
          \<and> body = JObj (portal_body_entries expected))
     \<and> shown h (Get_portal i) (\<lambda>live. field live ''description'' = JStr (gm_marker m)
          \<and> field live ''hostname'' = JStr (gc_hostname (gm_config m))))"
| "lawful pf m h (Delete_portal i) = (submitted h = [] \<and> removes m Portal i
     \<and> list_all (\<lambda>r. rr_kind r \<noteq> Portal_access_application) (rc_resources (gm_receipt m))
     \<and> shown h (Get_portal i) (\<lambda>live. field live ''description'' = JStr (gm_marker m)
          \<and> field live ''hostname'' = JStr (gc_hostname (gm_config m)))
     \<and> listing h List_access_apps (none_is (is_candidate (gc_hostname (gm_config m)))))"
| "lawful pf m h (Create_access_app body) = (submitted h = []
     \<and> ((\<exists>key desired sourceKey. creates m Source_access_application key desired
           \<and> normalizeSourceAccessApplicationDesired desired = Inr sourceKey
           \<and> body = source_application_body (gm_marker m) sourceKey \<and> server_ready m sourceKey h
           \<and> listing h List_access_apps (none_is (\<lambda>app. is_named (gm_marker m) app \<or> isExactServerApp app sourceKey)))
        \<or> (\<exists>key desired application portal. creates m Portal_access_application key desired
           \<and> normalizePortalAccessApplicationDesired desired = Inr application
           \<and> expectedPortalForApplicationMutation pf m (pa_portalResourceKey application) = Inr portal
           \<and> body = portal_application_body application \<and> portal_ready m (pa_portalResourceKey application) portal h
           \<and> listing h List_access_apps (none_is (\<lambda>app. is_named (pa_name application) app \<or> is_candidate (pa_domain application) app)))))"
| "lawful pf m h (Update_access_app i body) = (submitted h = []
     \<and> (\<exists>desired application portal. updates m Portal_access_application i desired
          \<and> normalizePortalAccessApplicationDesired desired = Inr application
          \<and> expectedPortalForApplicationMutation pf m (pa_portalResourceKey application) = Inr portal
          \<and> body = portal_application_body application \<and> portal_ready m (pa_portalResourceKey application) portal h
          \<and> shown h (Get_access_app i) (\<lambda>live. field live ''id'' = JStr i \<and> field live ''name'' = JStr (pa_name application)
               \<and> portalAccessApplicationContractMatches live (pa_domain application)
               \<and> listing h (List_app_policies i) (phase_ok (gm_receipt m) i live))
          \<and> listing h List_access_apps (\<lambda>apps.
               candidate_ids (\<lambda>a. is_named (pa_name application) a \<or> is_candidate (pa_domain application) a) apps = Inr [i])))"
| "lawful pf m h (Delete_access_app i) = (submitted h = [] \<and> seen h (List_app_policies i) = Some (JArr [])
     \<and> (removes m Source_access_application i
          \<and> shown h (Get_access_app i) (\<lambda>app. inlinePoliciesAreEmpty app \<and> source_destination app (gm_marker m) \<noteq> None)
        \<or> removes m Portal_access_application i
          \<and> shown h (Get_access_app i) (\<lambda>app. inlinePoliciesAreEmpty app \<and> field app ''name'' = JStr (gc_name (gm_config m))
               \<and> portalAccessApplicationContractMatches app (gc_hostname (gm_config m)))
          \<and> listing h List_access_apps (\<lambda>apps. candidate_ids (\<lambda>a. is_named (gc_name (gm_config m)) a
               \<or> is_candidate (gc_hostname (gm_config m)) a) apps = Inr [i])))"
| "lawful pf m h (Create_app_policy p body) = (submitted h = []
     \<and> (\<exists>kind key desired policy. is_policy kind \<and> creates m kind key desired \<and> desiredPolicy pf m desired = Inr policy
          \<and> body = policy_body_value policy \<and> findPolicyParent m = Inr p)
     \<and> shown h (Get_access_app p) (\<lambda>app. parent_proven m p app \<and> inlinePoliciesAreEmpty app)
     \<and> seen h (List_app_policies p) = Some (JArr []))"
| "lawful pf m h (Update_app_policy p i body) = (submitted h = [] \<and> policy_at (gm_change m) p i \<and> \<not> is_deletion (gm_change m)
     \<and> (\<exists>policy. desiredPolicy pf m (mc_desired (gm_change m)) = Inr policy \<and> body = policy_body_value policy)
     \<and> policy_confirmed m p i h)"
| "lawful pf m h (Delete_app_policy p i) = (submitted h = [] \<and> policy_at (gm_change m) p i \<and> is_deletion (gm_change m)
     \<and> policy_confirmed m p i h)"
| "lawful pf m h (Create_dns_record body) = (submitted h = []
     \<and> (\<exists>key desired portalKey. creates m Dns_record key desired \<and> desiredDns m desired = Inr (body, portalKey)
          \<and> dns_backed pf m portalKey h)
     \<and> seen h (List_dns_records (gc_hostname (gm_config m))) = Some (JArr []))"
| "lawful pf m h (Update_dns_record i body) = (submitted h = []
     \<and> (\<exists>desired portalKey. updates m Dns_record i desired \<and> desiredDns m desired = Inr (body, portalKey)
          \<and> dns_backed pf m portalKey h)
     \<and> shown h (Get_dns_record i) (\<lambda>live. field live ''comment'' = JStr (gm_marker m)
          \<and> normalizeDnsName (field live ''name'') = gc_hostname (gm_config m)))"
| "lawful pf m h (Delete_dns_record i) = (submitted h = [] \<and> removes m Dns_record i
     \<and> shown h (Get_dns_record i) (\<lambda>live. field live ''comment'' = JStr (gm_marker m)
          \<and> normalizeDnsName (field live ''name'') = gc_hostname (gm_config m)))"

end
