(* ===== verification/Provider_Checks.thy ===== *)
theory Provider_Checks
  imports Provider_Rules
begin

text \<open>
  What the checks of parents, waits and dependencies establish, under every rule that permits reading.
\<close>

lemma shown_snoc [simp]: "shown (h @ [(Read c, Inr v)]) c P \<longleftrightarrow> P v"
  by (simp add: shown_def)

lemma shown_frame: "frame D h h' \<Longrightarrow> \<not> D c \<Longrightarrow> shown h' c P = shown h c P"
  by (simp add: shown_def frame_seen)

lemma listing_snoc [simp]: "listing (h @ [(Read c, Inr (JArr xs))]) c P \<longleftrightarrow> P xs"
  by (simp add: listing_def)

lemma listing_frame: "frame D h h' \<Longrightarrow> \<not> D c \<Longrightarrow> listing h' c P = listing h c P"
  by (simp add: listing_def frame_seen)

lemma shown_other [simp]: "c \<noteq> Read c' \<Longrightarrow> shown (h @ [(c, a)]) c' P = shown h c' P"
  by (simp add: shown_def)

lemma listing_other [simp]: "c \<noteq> Read c' \<Longrightarrow> listing (h @ [(c, a)]) c' P = listing h c' P"
  by (simp add: listing_def)

definition dependency_reads :: "observe_call \<Rightarrow> bool" where
  "dependency_reads c \<longleftrightarrow> (\<exists>i. c = Get_mcp_server i) \<or> (\<exists>i. c = Get_portal i)"

definition parent_reads :: "string \<Rightarrow> observe_call \<Rightarrow> bool" where
  "parent_reads p c \<longleftrightarrow> c = Get_access_app p \<or> dependency_reads c"

lemma frame_into: "frame ((=) c) h h' \<Longrightarrow> D c \<Longrightarrow> frame D h h'"
  unfolding frame_def by metis

lemma frame_snoc: "frame D h h' \<Longrightarrow> D c \<Longrightarrow> frame D h (h' @ [(Read c, a)])"
  by (auto simp: frame_def)

text \<open>The portal as it is read: absent where that is allowed, or as expected.\<close>

definition portal_checked :: "gateway_mutation \<Rightarrow> string \<Rightarrow> bool \<Rightarrow> portal_desired option \<Rightarrow> client_trace \<Rightarrow> bool" where
  "portal_checked m key allowMissing expected h \<longleftrightarrow> holds_entry (gm_receipt m) Portal key key
     \<and> (allowMissing \<and> seen h (Get_portal key) = Some JNull
        \<or> shown h (Get_portal key) (\<lambda>live. carries (gm_receipt m) key live
           \<and> field live ''hostname'' = JStr (gc_hostname (gm_config m))
           \<and> (case expected of None \<Rightarrow> True | Some e \<Rightarrow> portalMatchesExpected live key e)))"

definition backing_reads :: "observe_call \<Rightarrow> bool" where
  "backing_reads c \<longleftrightarrow> c \<noteq> List_identity_providers \<and> c \<noteq> Get_zone \<and> (\<forall>n. c \<noteq> List_dns_records n) \<and> (\<forall>i. c \<noteq> Get_dns_record i)"

context reading_allowed
begin

lemma server_entry:
  assumes "filter (\<lambda>r. loc_id (rr_provider r) = key) (entries_of receipt Mcp_server key) = [server]"
  shows "holds_entry receipt Mcp_server key key" "loc_id (rr_provider server) = key" "rr_key server = key"
proof -
  have "server \<in> set (filter (\<lambda>r. loc_id (rr_provider r) = key) (entries_of receipt Mcp_server key))" by (simp add: assms)
  then show "holds_entry receipt Mcp_server key key" "loc_id (rr_provider server) = key" "rr_key server = key"
    by (auto simp: entries_of_def holds_entry_def)
qed

lemma owned_server:
  "safely G (\<lambda>server h'. frame ((=) (Get_mcp_server key)) h h' \<and> loc_id (rr_provider server) = key \<and> server_ready m key h')
     (assertReceiptOwnedServer m key) h"
proof -
  have "safely G (\<lambda>server h'. frame ((=) (Get_mcp_server key)) h h' \<and> loc_id (rr_provider server) = key \<and> server_ready m key h')
      (seq (exactLive (Get_mcp_server (loc_id (rr_provider server))) (loc_id (rr_provider server)) ''ownership_conflict'') (\<lambda>live.
       seq (ensure (is_marker (rc_installationId (gm_receipt m)) (rr_key server) (field live ''description'')) ''ownership_conflict'') (\<lambda>_.
       return server))) h"
    if "filter (\<lambda>r. loc_id (rr_provider r) = key) (entries_of (gm_receipt m) Mcp_server key) = [server]" for server
    unfolding server_entry(2,3) [OF that]
    by (intro steps) (simp add: frame_read server_ready_def carries_def server_entry [OF that])
  then show ?thesis unfolding assertReceiptOwnedServer_def by (intro lifted) simp
qed

lemma portal_entry:
  assumes "filter (\<lambda>r. loc_id (rr_provider r) = rr_key r) (entries_of receipt Portal key) = [portal]"
  shows "holds_entry receipt Portal key key" "loc_id (rr_provider portal) = key" "rr_key portal = key"
proof -
  have "portal \<in> set (filter (\<lambda>r. loc_id (rr_provider r) = rr_key r) (entries_of receipt Portal key))" by (simp add: assms)
  then show "holds_entry receipt Portal key key" "loc_id (rr_provider portal) = key" "rr_key portal = key"
    by (auto simp: entries_of_def holds_entry_def)
qed

lemma owned_portal:
  "safely G (\<lambda>_ h'. frame ((=) (Get_portal key)) h h' \<and> portal_checked m key allowMissing expected h')
     (assertReceiptOwnedPortal m key allowMissing expected) h"
proof -
  have "safely G (\<lambda>_ h'. frame ((=) (Get_portal key)) h h' \<and> portal_checked m key allowMissing expected h')
     (seq (exactRead (Get_portal (loc_id (rr_provider portal))) (loc_id (rr_provider portal))) (\<lambda>found. case found of
       None \<Rightarrow> ensure allowMissing ''ownership_conflict''
     | Some live \<Rightarrow> seq (ensure (is_marker (rc_installationId (gm_receipt m)) (rr_key portal) (field live ''description'')
           \<and> field live ''hostname'' = JStr (gc_hostname (gm_config m))) ''ownership_conflict'') (\<lambda>_.
         ensure (case expected of None \<Rightarrow> True | Some e \<Rightarrow> portalMatchesExpected live (loc_id (rr_provider portal)) e) ''ownership_conflict''))) h"
    if "filter (\<lambda>r. loc_id (rr_provider r) = rr_key r) (entries_of (gm_receipt m) Portal key) = [portal]" for portal
    unfolding portal_entry(2,3) [OF that] option.case
    by (intro steps; simp only: option.case; intro steps) (auto simp: frame_read portal_checked_def carries_def portal_entry [OF that])
  then show ?thesis unfolding assertReceiptOwnedPortal_def by (intro lifted) simp
qed

lemma exact_portal:
  "safely G (\<lambda>_ h'. frame ((=) (Get_portal key)) h h' \<and> portal_ready m key e h')
     (assertReceiptOwnedPortal m key False (Some e)) h"
  by (rule safely_post [OF owned_portal]) (simp add: portal_checked_def portal_ready_def)

lemma source_authority:
  "safely G (\<lambda>_ h'. frame (dependency_reads) h h' \<and> source_destination app marker \<noteq> None)
     (assertSourceAccessApplicationAuthority m app marker allowMissingServer) h"
proof -
  have read: "safely G (\<lambda>_ h'. frame (dependency_reads) h h') (seq (exactRead (Get_mcp_server i) i) f) h"
    if "\<And>r h. safely G (\<lambda>_ h'. h' = h) (f r) h" for i and f :: "jval option \<Rightarrow> unit providing"
  proof (rule exactly_read)
    show "safely G (\<lambda>_ h'. frame (dependency_reads) h h') (f None) (h @ [(Read (Get_mcp_server i), Inr JNull)])"
      by (rule safely_post [OF that]) (simp add: frame_read dependency_reads_def)
    show "safely G (\<lambda>_ h'. frame (dependency_reads) h h') (f (Some v)) (h @ [(Read (Get_mcp_server i), Inr v)])" for v
      by (rule safely_post [OF that]) (simp add: frame_read dependency_reads_def)
  qed
  have both: "safely G (\<lambda>_ h'. frame (dependency_reads) h h' \<and> b) q h" if "safely G (\<lambda>_ h'. frame (dependency_reads) h h') q h" b
    for b and q :: "unit providing"
    using that(1) by (rule safely_post) (simp add: that(2))
  show ?thesis
    unfolding assertSourceAccessApplicationAuthority_def
    by (intro lifted) (auto split: list.split option.split simp: bind_eq_Some_conv intro!: both read ensured_last)
qed

lemma portal_authority:
  assumes "field app ''id'' = JStr i"
  shows "safely G (\<lambda>_ h'. frame (dependency_reads) h h' \<and> field app ''name'' = JStr (gc_name (gm_config m))
     \<and> portalAccessApplicationContractMatches app (gc_hostname (gm_config m))
     \<and> (requireDesired \<longrightarrow> provider_oauth_matches (field app ''oauth_configuration''))
     \<and> (\<exists>key. holds_entry (gm_receipt m) Portal_access_application key i))
     (assertPortalAccessApplicationAuthority m app allowMissingPortal requireDesired) h"
proof -
  have entry: "\<exists>key. holds_entry (gm_receipt m) Portal_access_application key i"
    if "filter (\<lambda>r. rr_kind r = Portal_access_application \<and> JStr (loc_id (rr_provider r)) = field app ''id'') (rc_resources (gm_receipt m)) = [x]" for x
  proof -
    have "x \<in> set (filter (\<lambda>r. rr_kind r = Portal_access_application \<and> JStr (loc_id (rr_provider r)) = field app ''id'') (rc_resources (gm_receipt m)))"
      by (simp only: that list.set) simp
    then show ?thesis using assms by (auto simp: holds_entry_def)
  qed
  show ?thesis
    unfolding assertPortalAccessApplicationAuthority_def
    by (intro ensured lifted, rule safely_post [OF owned_portal])
      (use entry in \<open>auto intro: frame_into simp: dependency_reads_def\<close>)
qed

lemma parent_entry_Inr:
  assumes "parent_entry m kind fieldName p = Inr r"
  shows "holds_entry (gm_receipt m) kind (rr_key r) p"
proof -
  obtain key where "filter (\<lambda>r. rr_kind r = kind \<and> (case key of None \<Rightarrow> True | Some k \<Rightarrow> rr_key r = k) \<and> loc_id (rr_provider r) = p)
      (rc_resources (gm_receipt m)) = [r]"
    using assms by (auto simp: parent_entry_def andThen_Inr)
  then have "r \<in> set (filter (\<lambda>r. rr_kind r = kind \<and> (case key of None \<Rightarrow> True | Some k \<Rightarrow> rr_key r = k) \<and> loc_id (rr_provider r) = p)
      (rc_resources (gm_receipt m)))"
    by (metis list.set_intros(1))
  then show ?thesis by (auto simp: holds_entry_def)
qed

lemma policy_parent:
  "safely G (\<lambda>app h'. frame (parent_reads p) h h' \<and> seen h' (Get_access_app p) = Some app \<and> parent_proven m p app)
     (assertPolicyParent m p) h"
proof -
  let ?R = "\<lambda>app h'. frame (parent_reads p) h h' \<and> seen h' (Get_access_app p) = Some app \<and> parent_proven m p app"
  have post: "?R app h''"
    if "frame dependency_reads (h @ [(Read (Get_access_app p), Inr app)]) h''" "parent_proven m p app" for app h''
  proof (intro conjI)
    show "seen h'' (Get_access_app p) = Some app" using frame_seen [OF that(1), of "Get_access_app p"] by (simp add: dependency_reads_def)
    have "frame (parent_reads p) (h @ [(Read (Get_access_app p), Inr app)]) h''"
      using that(1) by (rule frame_mono) (simp add: parent_reads_def)
    then show "frame (parent_reads p) h h''" by (rule frame_trans [OF frame_read, rotated]) (simp add: parent_reads_def)
  qed (rule that(2))
  show ?thesis unfolding assertPolicyParent_def
  proof (rule live_read)
    fix app :: jval assume i: "field app ''id'' = JStr p"
    let ?h = "h @ [(Read (Get_access_app p), Inr app)]"
    show "safely G ?R
       (if mc_kind (gm_change m) = Portal_access_policy
       then seq (lift (parent_entry m Portal_access_application ''portalApplicationResourceKey'' p)) (\<lambda>_.
         seq (assertPortalAccessApplicationAuthority m app (is_deletion (gm_change m)) True) (\<lambda>_. return app))
       else seq (lift (parent_entry m Source_access_application ''sourceApplicationResourceKey'' p)) (\<lambda>entry.
         seq (lift (provider_marker (rc_installationId (gm_receipt m)) (rr_key entry))) (\<lambda>marker.
         seq (assertSourceAccessApplicationAuthority m app marker (is_deletion (gm_change m))) (\<lambda>_. return app)))) ?h"
    proof (cases "mc_kind (gm_change m) = Portal_access_policy")
      case True
      then show ?thesis unfolding if_P [OF True]
        by (intro lifted; intro after [OF portal_authority [OF i]]; simp only: safely_return)
          (rule post, auto simp: parent_proven_def i)
    next
      case False
      then show ?thesis unfolding if_not_P [OF False]
        by (intro lifted; intro after [OF source_authority]; simp only: safely_return)
          (rule post, auto simp: parent_proven_def i dest!: parent_entry_Inr)
    qed
  qed
qed

section \<open>Waiting\<close>

lemma server_synced:
  "safely G (\<lambda>_ h'. frame ((=) (Get_mcp_server i)) h h'
     \<and> shown h' (Get_mcp_server i) (\<lambda>live. field live ''id'' = JStr i \<and> field live ''status'' = JStr ''ready''
         \<and> expectedToolsDiscovered (field live ''tools'') tools)) (waitForServerSync n po i tools) h"
proof (induction n arbitrary: h)
  case (Suc n)
  let ?R = "\<lambda>g h'. frame ((=) (Get_mcp_server i)) g h'
     \<and> shown h' (Get_mcp_server i) (\<lambda>live. field live ''id'' = JStr i \<and> field live ''status'' = JStr ''ready''
         \<and> expectedToolsDiscovered (field live ''tools'') tools)"
  have again: "safely G (\<lambda>_. ?R h) (waitForServerSync n po i tools) h'" if "frame ((=) (Get_mcp_server i)) h h'" for h'
    using Suc.IH by (rule safely_post) (auto intro: frame_trans that)
  show ?case unfolding waitForServerSync.simps
    by (intro live_read safely_if; (simp only: safely_throw | intro waited_between [where D = "(=) (Get_mcp_server i)"] again)?)
      (auto intro: frame_trans frame_read)
qed simp

lemma application_absent: "safely G (\<lambda>_ _. True) (waitForAccessAppAbsence n po i) h"
proof (induction n arbitrary: h)
  case (Suc n)
  show ?case unfolding waitForAccessAppAbsence.simps
    by (intro exactly_read safely_if waited_between [where D = "\<lambda>_. True"] Suc.IH; simp)
qed simp

section \<open>Policies\<close>

lemma one_policy: "assertExpectedPolicySet policies i marker False = Inr x \<Longrightarrow> \<exists>found. x = Some found"
  by (auto simp: assertExpectedPolicySet_def andThen_Inr Let_def split: if_splits list.splits)

lemma no_policy_listed: "assertEmptyPolicySet (JArr ps) marker = Inr u \<Longrightarrow> ps = []"
  by (auto simp: assertEmptyPolicySet_def andThen_Inr split: if_splits)

lemma policy_set_confirmed:
  "safely G (\<lambda>_ h'. frame ((=) (List_app_policies p)) h h'
     \<and> listing h' (List_app_policies p) (\<lambda>ps. \<exists>found. assertExpectedPolicySet (JArr ps) i (gm_marker m) False = Inr (Some found)))
     (confirmPolicy pf m p i parent) h"
  unfolding confirmPolicy_def
  by (intro steps) (auto simp: frame_read dest: one_policy)

lemma policy_live:
  "safely G (\<lambda>_ h'. frame ((=) (Get_app_policy p i)) h h'
     \<and> shown h' (Get_app_policy p i) (\<lambda>live. field live ''id'' = JStr i \<and> field live ''name'' = JStr (gm_marker m)))
     (checkLivePolicy pf m p i) h"
  unfolding checkLivePolicy_def
  by (intro steps) (auto simp: frame_read)

lemma policies_absent:
  "safely G (\<lambda>_ h'. frame (\<lambda>c. parent_reads p c \<or> c = List_app_policies p) h h'
     \<and> shown h' (Get_access_app p) (\<lambda>app. parent_proven m p app \<and> inlinePoliciesAreEmpty app)
     \<and> seen h' (List_app_policies p) = Some (JArr [])) (noPolicies m p) h"
  unfolding noPolicies_def
  by (intro after [OF policy_parent] ensured listed lifted_last)
    (auto simp: shown_def intro!: frame_snoc intro: frame_mono dest!: no_policy_listed)

section \<open>What a DNS record depends on\<close>

lemma dns_backing:
  "safely G (\<lambda>_ h'. frame backing_reads h h' \<and> dns_backed pf m portalKey h') (assertDnsDependencies pf m portalKey) h"
proof -
  have portal: "safely G (\<lambda>_ h'. frame ((=) (Get_portal (rs_key (dd_portal deps)))) g h'
      \<and> (\<exists>e. portal_ready m (rs_key (dd_portal deps)) e h')) (dnsPortalLive m deps) g" for deps and g :: client_trace
    unfolding dnsPortalLive_def by (intro lifted, rule safely_post [OF exact_portal]) auto
  let ?i = "\<lambda>deps. loc_id (rr_provider (dd_ownedApplication deps))"
  have application: "safely G (\<lambda>application h'. frame (\<lambda>c. c = Get_access_app (?i deps) \<or> c = List_access_apps) g h'
      \<and> (\<exists>e. normalizePortalAccessApplicationDesired (rs_desired (dd_application deps)) = Inr e
           \<and> shown h' (Get_access_app (?i deps)) (\<lambda>live. live_application_matches live e))) (dnsApplicationLive deps) g"
    for deps and g :: client_trace
    unfolding dnsApplicationLive_def Let_def
    by (intro lifted live_read ensured after [OF candidate_set])
      (auto simp: shown_frame intro: frame_trans [OF frame_read frame_into])
  have policy: "safely G (\<lambda>_ h'. frame (\<lambda>c. c = List_app_policies (?i deps) \<or> c = Get_app_policy (?i deps) (loc_id (rr_provider (dd_ownedPolicy deps)))) g h'
      \<and> (\<exists>marker e. normalizePolicyDesired (pf_sha pf) (rs_desired (dd_policy deps)) (gm_access m) marker = Inr e
           \<and> shown h' (Get_app_policy (?i deps) (loc_id (rr_provider (dd_ownedPolicy deps)))) (\<lambda>live. accessPolicyMatches live e)))
      (dnsPolicyLive pf m deps app) g" for deps app and g :: client_trace
    unfolding dnsPolicyLive_def Let_def
    by (intro lifted listed exactly_read ensured_last) (auto intro!: frame_snoc frame_refl simp del: append_assoc)
  show ?thesis
    unfolding assertDnsDependencies_def
  proof (intro lifted after [OF portal] after [OF application], rule safely_post [OF policy], goal_cases)
    case (1 deps u g1 app g2 v g3)
    have f: "frame ((=) (Get_portal (rs_key (dd_portal deps)))) h g1" "frame (\<lambda>c. c = Get_access_app (?i deps) \<or> c = List_access_apps) g1 g2"
      "frame (\<lambda>c. c = List_app_policies (?i deps) \<or> c = Get_app_policy (?i deps) (loc_id (rr_provider (dd_ownedPolicy deps)))) g2 g3"
      using 1 by blast+
    have "frame backing_reads h g1" "frame backing_reads g1 g2" "frame backing_reads g2 g3"
      by (rule frame_mono [OF f(1)] frame_mono [OF f(2)] frame_mono [OF f(3)]; auto simp: backing_reads_def)+
    moreover have "portal_ready m (rs_key (dd_portal deps)) e g1 \<Longrightarrow> portal_ready m (rs_key (dd_portal deps)) e g3" for e
      by (simp add: portal_ready_def shown_frame [OF f(2)] shown_frame [OF f(3)])
    moreover have "shown g2 (Get_access_app (?i deps)) P \<Longrightarrow> shown g3 (Get_access_app (?i deps)) P" for P
      by (simp add: shown_frame [OF f(3)])
    ultimately show ?case using 1 unfolding dns_backed_def by (blast intro: frame_trans)
  qed
qed

end

end
