(* ===== verification/Provider_Safety.thy ===== *)
theory Provider_Safety
  imports Provider_Checks
begin

text \<open>
  Every handler of the provider requests only what the rule of \<open>Provider_Rules\<close> permits, whatever the account answers.
\<close>

interpretation lawful: reading_allowed "lawful pf m" for pf m
  by unfold_locales simp_all

definition obeys :: "platform \<Rightarrow> gateway_mutation \<Rightarrow> 'x providing \<Rightarrow> client_trace \<Rightarrow> bool" where
  "obeys pf m p h \<longleftrightarrow> safely (lawful pf m) (\<lambda>_ _. True) p h"

text \<open>What holds of a check holds of the handler that ends with it.\<close>

lemma obeys_check: "safely (lawful pf m) R p h \<Longrightarrow> obeys pf m p h"
  unfolding obeys_def by (erule safely_post) simp

lemma obeys_check_conj: "safely (lawful pf m) (\<lambda>x h'. frame D h h' \<and> R x h') p h \<Longrightarrow> obeys pf m p h"
  by (rule obeys_check)

lemma obeys_return [simp]: "obeys pf m (return x) h"
  by (simp add: obeys_def)

lemma obeys_throw [simp]: "obeys pf m (throw e) h"
  by (simp add: obeys_def)

text \<open>After a check nothing has been submitted either, and what it did not read is still what was seen.\<close>

lemma obeys_after:
  assumes "safely (lawful pf m) (\<lambda>x h'. frame D h h' \<and> R x h') p h" "submitted h = []"
    "\<And>x h'. frame D h h' \<Longrightarrow> R x h' \<Longrightarrow> submitted h' = [] \<Longrightarrow> obeys pf m (f x) h'"
  shows "obeys pf m (seq p f) h"
  unfolding obeys_def
proof (rule lawful.after [OF assms(1)])
  fix x h' assume "frame D h h'" "R x h'"
  then show "safely (lawful pf m) (\<lambda>_ _. True) (f x) h'"
    using assms(3) [of h' x] by (simp add: obeys_def frame_submitted assms(2))
qed

lemma obeys_lift: "(\<And>x. r = Inr x \<Longrightarrow> obeys pf m (f x) h) \<Longrightarrow> obeys pf m (seq (lift r) f) h"
  unfolding obeys_def by (rule lawful.lifted)

lemma obeys_ensure: "(b \<Longrightarrow> obeys pf m (f ()) h) \<Longrightarrow> obeys pf m (seq (ensure b code) f) h"
  unfolding obeys_def by (rule lawful.ensured)

lemma obeys_read: "(\<And>v. obeys pf m (f v) (h @ [(Read c, Inr v)])) \<Longrightarrow> obeys pf m (seq (ask (Read c)) f) h"
  unfolding obeys_def by (rule lawful.ask_read)

lemma obeys_listed: "(\<And>xs. obeys pf m (f xs) (h @ [(Read c, Inr (JArr xs))])) \<Longrightarrow> obeys pf m (seq (list_of c) f) h"
  unfolding obeys_def by (rule lawful.listed)

lemma obeys_exact:
  "obeys pf m (f None) (h @ [(Read c, Inr JNull)])
     \<Longrightarrow> (\<And>v. field v ''id'' = JStr i \<Longrightarrow> isObject v \<Longrightarrow> obeys pf m (f (Some v)) (h @ [(Read c, Inr v)]))
     \<Longrightarrow> obeys pf m (seq (exactRead c i) f) h"
  unfolding obeys_def by (rule lawful.exactly_read)

lemma obeys_live:
  "(\<And>v. field v ''id'' = JStr i \<Longrightarrow> isObject v \<Longrightarrow> obeys pf m (f v) (h @ [(Read c, Inr v)]))
     \<Longrightarrow> obeys pf m (seq (exactLive c i code) f) h"
  unfolding obeys_def by (rule lawful.live_read)

lemma obeys_ask: "lawful pf m h c \<Longrightarrow> (\<And>v. obeys pf m (f v) (h @ [(c, Inr v)])) \<Longrightarrow> obeys pf m (seq (ask c) f) h"
  unfolding obeys_def by (rule lawful.asked)

lemma obeys_no_result: "obeys pf m p h \<Longrightarrow> obeys pf m (no_result p) h"
  unfolding no_result_def obeys_def by (erule safely_seq) simp

lemmas obeys_steps = obeys_lift obeys_ensure obeys_read obeys_listed obeys_live

text \<open>Listings in which nothing was found.\<close>

lemma listing_none: "\<exists>xs. seen h c = Some (JArr xs) \<and> list_all (\<lambda>a. \<not> P a) xs \<Longrightarrow> listing h c (none_is P)"
  by (simp add: listing_def none_is_def)

section \<open>Servers\<close>

lemma deleteServer_obeys:
  assumes "removes m Mcp_server i" "submitted h = []"
  shows "obeys pf m (deleteServer m i) h"
  unfolding deleteServer_def
proof (intro obeys_exact; simp only: option.case)
  show "obeys pf m (assertNoServerAccessApplications i) (h @ [(Read (Get_mcp_server i), Inr JNull)])"
    by (rule obeys_check [OF lawful.no_server_applications])
next
  fix v :: jval
  show "obeys pf m (seq (lift (assertMarker (field v ''description'') (gm_marker m))) (\<lambda>_.
      seq (assertNoServerAccessApplications i) (\<lambda>_. seq (exactLive (Get_mcp_server i) i ''ownership_conflict'') (\<lambda>confirmed.
      seq (lift (assertMarker (field confirmed ''description'') (gm_marker m))) (\<lambda>_. seq (assertNoServerAccessApplications i) (\<lambda>_.
      seq (ask (Delete_mcp_server i)) (\<lambda>_. return ()))))))) (h @ [(Read (Get_mcp_server i), Inr v)])"
    by (intro obeys_steps obeys_after [OF lawful.no_server_applications] obeys_ask)
      (auto simp: assms listing_none shown_frame)
qed

lemma syncServer_obeys:
  assumes "syncs pf m key expected (submitted h)"
    "\<not> is_creation (gm_change m) \<Longrightarrow> shown h (Get_mcp_server key) (\<lambda>live. field live ''description'' = JStr (gm_marker m)
       \<and> field live ''hostname'' = JStr (sd_hostname expected) \<and> field live ''auth_type'' = JStr (sd_auth_type expected)
       \<and> sd_auth_type expected = ''unauthenticated'')"
  shows "obeys pf m (syncServer m po key expected) h"
  unfolding syncServer_def
proof (rule obeys_ask)
  show "lawful pf m h (Sync_mcp_server key)" using assms by auto
  fix v
  show "obeys pf m (seq (waitForServerSync (po_attempts po) po key (sd_updated_tools expected)) (\<lambda>_.
      seq (ask (Update_mcp_server key (server_update_body expected (gm_marker m)))) (\<lambda>_. return ()))) (h @ [(Sync_mcp_server key, Inr v)])"
    unfolding obeys_def
    by (rule lawful.after [OF lawful.server_synced], fold obeys_def, rule obeys_ask)
      (use assms(1) in \<open>auto simp: frame_submitted\<close>)
qed

lemma mutateServer_obeys:
  assumes kind: "mc_kind (gm_change m) = Mcp_server" and h: "submitted h = []"
    and keyed: "\<not> is_creation (gm_change m) \<Longrightarrow> loc_id (mc_provider (gm_change m)) = mc_key (gm_change m)"
  shows "obeys pf m (mutateServer pf po m) h"
proof (cases "gm_change m")
  case (Create_mutation k key desired hash)
  then have "k = Mcp_server" using kind by simp
  have "obeys pf m (seq (createServer m key expected) (\<lambda>_. syncServer m po key expected)) h"
    if "normalizeServerDesired (pf_parse_url pf) desired = Inr expected" for expected
  proof -
    have created: "safely (lawful pf m) (\<lambda>_ h'. submitted h' = [Create_mcp_server (server_create_body key expected (gm_marker m))])
        (createServer m key expected) h"
      unfolding createServer_def
      by (intro lawful.ask_read lawful.ensured lawful.after [OF lawful.no_baseline] lawful.asked)
        (use that Create_mutation \<open>k = Mcp_server\<close> in \<open>auto simp: h frame_submitted frame_seen listing_none creates_def\<close>)
    show ?thesis unfolding obeys_def
      by (rule safely_seq [OF created], fold obeys_def, rule syncServer_obeys)
        (use that Create_mutation \<open>k = Mcp_server\<close> in \<open>simp_all add: syncs_def is_creation_def is_deletion_def\<close>)
  qed
  then show ?thesis by (simp add: mutateServer_def Create_mutation obeys_lift)
next
  case (Update_mutation k key desired hash l)
  then have k: "k = Mcp_server" and l: "loc_id l = key" using kind keyed by (simp_all add: is_creation_def)
  have "obeys pf m (seq (checkServerUpdate m (loc_id l) expected) (\<lambda>_. syncServer m po key expected)) h"
    if "normalizeServerDesired (pf_parse_url pf) desired = Inr expected" for expected
  proof -
    have checked: "safely (lawful pf m) (\<lambda>_ h'. frame ((=) (Get_mcp_server key)) h h'
        \<and> shown h' (Get_mcp_server key) (\<lambda>live. field live ''description'' = JStr (gm_marker m)
         \<and> field live ''hostname'' = JStr (sd_hostname expected) \<and> field live ''auth_type'' = JStr (sd_auth_type expected)
         \<and> sd_auth_type expected = ''unauthenticated'')) (checkServerUpdate m (loc_id l) expected) h"
      unfolding checkServerUpdate_def l
      by (intro lawful.steps) (auto simp: frame_read)
    show ?thesis
      by (rule obeys_after [OF checked h], rule syncServer_obeys)
        (use that k l in \<open>simp_all add: syncs_def is_creation_def is_deletion_def Update_mutation\<close>)
  qed
  then show ?thesis by (simp add: mutateServer_def Update_mutation obeys_lift)
next
  case (Delete_mutation k key l)
  then show ?thesis using kind h by (simp add: mutateServer_def removes_def deleteServer_obeys)
qed

section \<open>Applications\<close>

lemma deleteApplication_obeys: "lawful pf m h (Delete_access_app i) \<Longrightarrow> obeys pf m (deleteApplication po i) h"
  unfolding deleteApplication_def
  by (intro obeys_ask obeys_ensure obeys_check [OF lawful.application_absent])

lemma source_checked:
  assumes "field app ''id'' = JStr i"
  shows "safely (lawful pf m) (\<lambda>_ h'. frame (\<lambda>c. dependency_reads c \<or> c = List_app_policies i) h h'
     \<and> source_destination app (gm_marker m) \<noteq> None \<and> inlinePoliciesAreEmpty app \<and> seen h' (List_app_policies i) = Some (JArr []))
     (checkSourceApplication m app) h"
  unfolding checkSourceApplication_def
proof (intro lawful.after [OF lawful.source_authority], rule safely_post [OF lawful.policies_empty [OF assms]], goal_cases)
  case (1 u h' v h'')
  have "frame (\<lambda>c. dependency_reads c \<or> c = List_app_policies i) h h'" using 1(1) by (rule frame_mono) simp
  moreover have "frame (\<lambda>c. dependency_reads c \<or> c = List_app_policies i) h' h''" using 1(3) by (auto intro: frame_into)
  ultimately show ?case using 1 by (auto intro: frame_trans)
qed

lemma deleteSourceApplication_obeys:
  assumes "removes m Source_access_application i" "submitted h = []"
  shows "obeys pf m (deleteSourceApplication po m i) h"
  unfolding deleteSourceApplication_def
proof (intro obeys_exact; simp only: option.case obeys_return)
  fix app :: jval assume app: "field app ''id'' = JStr i"
  show "obeys pf m (seq (checkSourceApplication m app) (\<lambda>_. seq (exactLive (Get_access_app i) i ''ownership_conflict'') (\<lambda>confirmed.
      seq (checkSourceApplication m confirmed) (\<lambda>_. deleteApplication po i)))) (h @ [(Read (Get_access_app i), Inr app)])"
    by (intro obeys_after [OF source_checked [OF app]] obeys_live obeys_after [OF source_checked] deleteApplication_obeys)
      (auto simp: assms shown_frame dependency_reads_def)
qed

lemma mutateSource_obeys:
  assumes kind: "mc_kind (gm_change m) = Source_access_application" and h: "submitted h = []"
  shows "obeys pf m (mutateSourceAccessApplication po m) h"
proof (cases "gm_change m")
  case (Create_mutation k key desired hash)
  then have k: "k = Source_access_application" using kind by simp
  have "obeys pf m (createSourceApplication m sourceKey sourceKey) h'"
    if "normalizeSourceAccessApplicationDesired desired = Inr sourceKey" "server_ready m sourceKey h'" "submitted h' = []"
    for sourceKey h'
  proof -
    have later: "obeys pf m (seq (lift (requireAppId created)) (\<lambda>createdId.
       seq (exactLive (Get_access_app createdId) createdId ''ownership_conflict'') (\<lambda>live.
       seq (ensure (isExactSourceAccessApplication live sourceKey (gm_marker m)) ''ownership_conflict'') (\<lambda>_.
       seq (assertReceiptOwnedServer m sourceKey) (\<lambda>_. assertAccessApplicationPoliciesEmpty live))))) g" for created and g :: client_trace
      unfolding obeys_def
      by (intro lawful.lifted lawful.live_read lawful.ensured lawful.after [OF lawful.owned_server],
          rule safely_post [OF lawful.policies_empty]) simp_all
    have "creates m Source_access_application key desired" by (simp add: creates_def Create_mutation k)
    then show ?thesis unfolding createSourceApplication_def
      by (intro obeys_listed obeys_ensure obeys_ask later)
        (use that in \<open>auto simp: server_ready_def none_is_def list_all_iff list_ex_iff\<close>)
  qed
  then show ?thesis unfolding mutateSourceAccessApplication_def Create_mutation mutation_change.case
    by (intro obeys_lift obeys_after [OF lawful.owned_server]) (auto simp: h)
next
  case (Update_mutation k key desired hash l)
  show ?thesis unfolding mutateSourceAccessApplication_def Update_mutation mutation_change.case updateSourceApplication_def
    by (intro obeys_lift obeys_after [OF lawful.owned_server] obeys_live obeys_ensure obeys_check [OF lawful.policies_empty])
      (auto simp: h)
next
  case (Delete_mutation k key l)
  then show ?thesis using kind h by (simp add: mutateSourceAccessApplication_def removes_def deleteSourceApplication_obeys)
qed

section \<open>Portals\<close>

lemma checkPortal_Inr: "checkPortal m live = Inr u \<longleftrightarrow> field live ''description'' = JStr (gm_marker m)
    \<and> field live ''hostname'' = JStr (gc_hostname (gm_config m))"
  by (auto simp: checkPortal_def andThen_Inr)

lemma receipt_absent_Inr: "assertPortalApplicationReceiptAbsent receipt = Inr u
    \<longleftrightarrow> list_all (\<lambda>r. rr_kind r \<noteq> Portal_access_application) (rc_resources receipt)"
  by (simp add: assertPortalApplicationReceiptAbsent_def list_all_iff list_ex_iff)

lemma mutatePortal_obeys:
  assumes kind: "mc_kind (gm_change m) = Portal" and h: "submitted h = []"
  shows "obeys pf m (mutatePortal m) h"
proof (cases "gm_change m")
  case (Create_mutation k key desired hash)
  then have "creates m Portal key desired" using kind by (simp add: creates_def)
  then show ?thesis unfolding mutatePortal_def Create_mutation mutation_change.case createPortal_def
    by (intro obeys_steps obeys_after [OF lawful.no_baseline] obeys_ask) (auto simp: h frame_seen listing_none)
next
  case (Update_mutation k key desired hash l)
  then have "updates m Portal (loc_id l) desired" using kind by (simp add: updates_def)
  then show ?thesis unfolding mutatePortal_def Update_mutation mutation_change.case updatePortal_def
    by (intro obeys_steps obeys_ask) (auto simp: h checkPortal_Inr)
next
  case (Delete_mutation k key l)
  then have "removes m Portal (loc_id l)" using kind by (simp add: removes_def)
  then show ?thesis unfolding mutatePortal_def Delete_mutation mutation_change.case deletePortal_def
    by (intro obeys_lift obeys_exact; simp only: option.case;
        intro obeys_steps obeys_after [OF lawful.no_portal_applications] obeys_ask obeys_check [OF lawful.no_portal_applications])
      (auto simp: h receipt_absent_Inr listing_none shown_frame)
qed

section \<open>Portal applications\<close>

definition check_reads :: "string \<Rightarrow> observe_call \<Rightarrow> bool" where
  "check_reads i c \<longleftrightarrow> dependency_reads c \<or> c = List_access_apps \<or> c = List_app_policies i"

lemma portal_application_checked:
  assumes "field app ''id'' = JStr i"
  shows "safely (lawful pf m) (\<lambda>_ h'. frame (check_reads i) h h'
     \<and> field app ''name'' = JStr (gc_name (gm_config m)) \<and> portalAccessApplicationContractMatches app (gc_hostname (gm_config m))
     \<and> inlinePoliciesAreEmpty app \<and> seen h' (List_app_policies i) = Some (JArr [])
     \<and> listing h' List_access_apps (\<lambda>apps. candidate_ids (\<lambda>a. is_named (gc_name (gm_config m)) a
          \<or> is_candidate (gc_hostname (gm_config m)) a) apps = Inr [i]))
     (checkPortalApplication m i app) h"
  unfolding checkPortalApplication_def
proof (intro lawful.after [OF lawful.portal_authority [OF assms]] lawful.after [OF lawful.candidate_set],
    rule safely_post [OF lawful.policies_empty [OF assms]], goal_cases)
  case (1 u h1 v h2 w h3)
  have f: "frame (check_reads i) h h1" "frame (check_reads i) h1 h2" "frame (check_reads i) h2 h3"
    using 1 by (auto elim!: frame_mono simp: check_reads_def)
  have "seen h3 List_access_apps = seen h2 List_access_apps" using 1(5) by (auto intro: frame_seen)
  then show ?case using 1 f by (auto simp: listing_def intro: frame_trans)
qed

lemma deletePortalApplication_obeys:
  assumes "removes m Portal_access_application i" "submitted h = []"
  shows "obeys pf m (deletePortalApplication po m i) h"
  unfolding deletePortalApplication_def
proof (intro obeys_exact; simp only: option.case)
  show "obeys pf m (assertPortalAccessApplicationCandidateSet (gc_hostname (gm_config m)) (gc_name (gm_config m)) i True)
      (h @ [(Read (Get_access_app i), Inr JNull)])"
    by (rule obeys_check [OF lawful.candidate_set])
next
  fix app :: jval assume app: "field app ''id'' = JStr i"
  show "obeys pf m (seq (checkPortalApplication m i app) (\<lambda>_. seq (exactLive (Get_access_app i) i ''ownership_conflict'') (\<lambda>confirmed.
      seq (checkPortalApplication m i confirmed) (\<lambda>_. deleteApplication po i)))) (h @ [(Read (Get_access_app i), Inr app)])"
    by (intro obeys_after [OF portal_application_checked [OF app]] obeys_live obeys_after [OF portal_application_checked] deleteApplication_obeys)
      (auto simp: assms shown_frame check_reads_def dependency_reads_def)
qed

lemma live_portal_application:
  "safely (lawful pf m) (\<lambda>live h'. frame ((=) (Get_access_app i)) h h' \<and> seen h' (Get_access_app i) = Some live
     \<and> field live ''id'' = JStr i \<and> field live ''name'' = JStr (pa_name expected)
     \<and> portalAccessApplicationContractMatches live (pa_domain expected)) (livePortalApplication i expected) h"
  unfolding livePortalApplication_def
  by (intro lawful.live_read lawful.ensured) (auto simp: frame_read)

lemma prepared:
  "safely (lawful pf m) (\<lambda>(expected, portal) h'. submitted h' = submitted h
     \<and> normalizePortalAccessApplicationDesired desired = Inr expected
     \<and> expectedPortalForApplicationMutation pf m (pa_portalResourceKey expected) = Inr portal)
     (prepared_application pf m desired) h"
  unfolding prepared_application_def
  by (intro lawful.lifted lawful.after [OF lawful.exact_portal]) (auto simp: frame_submitted)

lemma createPortalApplication_obeys:
  assumes "creates m Portal_access_application key desired" "submitted h = []"
    "normalizePortalAccessApplicationDesired desired = Inr expected"
    "expectedPortalForApplicationMutation pf m (pa_portalResourceKey expected) = Inr portal"
  shows "obeys pf m (createPortalApplication po m expected portal) h"
proof -
  have later: "obeys pf m (seq (lift (requireAppId created)) (\<lambda>createdId.
      seq (exactLive (Get_access_app createdId) createdId ''ownership_conflict'') (\<lambda>live.
      seq (ensure (portalAccessApplicationPrePolicyMatches live expected) ''ownership_conflict'') (\<lambda>_.
        return (created_result createdId))))) g" for created and g :: client_trace
    by (intro obeys_steps obeys_return)
  have quiet: "safely (lawful pf m) (\<lambda>_ h'. frame ((=) List_access_apps) g h' \<and> True)
      (provePortalAccessApplicationBaselineQuiet n po hostname) g" for n hostname and g :: client_trace
    using lawful.quiet_baseline by simp
  show ?thesis
    unfolding createPortalApplication_def
  proof (intro obeys_after [OF quiet assms(2)] obeys_after [OF lawful.exact_portal] obeys_listed obeys_ensure obeys_ask later, goal_cases)
    case (2 u h1 v h2 apps)
    let ?h = "h2 @ [(Read List_access_apps, Inr (JArr apps))]"
    have "submitted ?h = []" "portal_ready m (pa_portalResourceKey expected) portal ?h"
      "listing ?h List_access_apps (none_is (\<lambda>app. is_named (pa_name expected) app \<or> is_candidate (pa_domain expected) app))"
      using 2 by (auto simp: portal_ready_def none_is_def list_all_iff list_ex_iff)
    then show ?case unfolding lawful.simps using assms by blast
  qed
qed

lemma updatePortalApplication_obeys:
  assumes "updates m Portal_access_application i desired" "submitted h = []"
    "normalizePortalAccessApplicationDesired desired = Inr expected"
    "expectedPortalForApplicationMutation pf m (pa_portalResourceKey expected) = Inr portal"
  shows "obeys pf m (updatePortalApplication m i expected portal) h"
proof -
  have final: "lawful pf m h6 (Update_access_app i (portal_application_body expected))"
    if seen: "\<exists>apps. seen h2 List_access_apps = Some (JArr apps)
        \<and> candidate_ids (\<lambda>a. is_named (pa_name expected) a \<or> is_candidate (pa_domain expected) a) apps = Inr [i]"
      "seen h4 (Get_access_app i) = Some live" "field live ''id'' = JStr i" "field live ''name'' = JStr (pa_name expected)"
      "portalAccessApplicationContractMatches live (pa_domain expected)" "portal_ready m (pa_portalResourceKey expected) portal h5"
      "\<exists>policies. seen h6 (List_app_policies i) = Some (JArr policies) \<and> phase_ok (gm_receipt m) i live policies" "submitted h6 = []"
    and f: "frame ((=) (List_app_policies i)) h2 h3" "frame ((=) (Get_access_app i)) h3 h4"
      "frame ((=) (Get_portal (pa_portalResourceKey expected))) h4 h5" "frame ((=) (List_app_policies i)) h5 h6"
    for h2 h3 h4 h5 h6 live
  proof -
    have "seen h6 (Get_access_app i) = Some live"
      by (simp add: frame_seen [OF f(4)] frame_seen [OF f(3)] seen(2))
    moreover have "seen h6 List_access_apps = seen h2 List_access_apps"
      by (simp add: frame_seen [OF f(4)] frame_seen [OF f(3)] frame_seen [OF f(2)] frame_seen [OF f(1)])
    moreover have "portal_ready m (pa_portalResourceKey expected) portal h6"
      using seen(6) by (simp add: portal_ready_def shown_frame [OF f(4)])
    ultimately show ?thesis using seen assms unfolding lawful.simps shown_def listing_def by auto
  qed
  show ?thesis
    unfolding updatePortalApplication_def
    by (intro obeys_after [OF live_portal_application assms(2)] obeys_after [OF lawful.candidate_set]
          obeys_after [OF lawful.policy_phase [where i = i]] obeys_after [OF live_portal_application] obeys_after [OF lawful.exact_portal]
          obeys_ask obeys_return) (simp_all del: lawful.simps, blast intro: final)
qed

lemma mutatePortalApplication_obeys:
  assumes kind: "mc_kind (gm_change m) = Portal_access_application" and h: "submitted h = []"
  shows "obeys pf m (mutatePortalAccessApplication pf po m) h"
proof (cases "gm_change m")
  case (Create_mutation k key desired hash)
  then have "creates m Portal_access_application key desired" using kind by (simp add: creates_def)
  then show ?thesis unfolding mutatePortalAccessApplication_def Create_mutation mutation_change.case obeys_def
    by (intro safely_seq [OF prepared]) (fold obeys_def, auto simp: h createPortalApplication_obeys)
next
  case (Update_mutation k key desired hash l)
  then have "updates m Portal_access_application (loc_id l) desired" using kind by (simp add: updates_def)
  then show ?thesis unfolding mutatePortalAccessApplication_def Update_mutation mutation_change.case obeys_def
    by (intro safely_seq [OF prepared]) (fold obeys_def, auto simp: h intro!: obeys_no_result updatePortalApplication_obeys)
next
  case (Delete_mutation k key l)
  then have "removes m Portal_access_application (loc_id l)" using kind by (simp add: removes_def)
  then show ?thesis unfolding mutatePortalAccessApplication_def Delete_mutation mutation_change.case
    by (intro obeys_no_result deletePortalApplication_obeys h)
qed

section \<open>Policies\<close>

lemma confirmed_policy:
  assumes live: "shown h1 (Get_app_policy p i) (\<lambda>live. field live ''id'' = JStr i \<and> field live ''name'' = JStr (gm_marker m))"
    and parent: "frame (parent_reads p) h1 h2" "seen h2 (Get_access_app p) = Some app" "parent_proven m p app"
    and policies: "frame ((=) (List_app_policies p)) h2 h3"
      "listing h3 (List_app_policies p) (\<lambda>ps. \<exists>found. assertExpectedPolicySet (JArr ps) i (gm_marker m) False = Inr (Some found))"
  shows "policy_confirmed m p i h3"
proof -
  have "shown h3 (Get_access_app p) (parent_proven m p)"
    using parent(2,3) by (simp add: shown_def frame_seen [OF policies(1)])
  moreover have "shown h3 (Get_app_policy p i) (\<lambda>live. field live ''id'' = JStr i \<and> field live ''name'' = JStr (gm_marker m))"
    using live by (simp add: shown_frame [OF policies(1)] shown_frame [OF parent(1)] parent_reads_def dependency_reads_def)
  ultimately show ?thesis using policies(2) by (simp add: policy_confirmed_def)
qed

lemma deletePolicy_obeys:
  assumes "gm_change m = Delete_mutation kind key l" "is_policy kind" "submitted h = []"
  shows "obeys pf m (deletePolicy pf m l) h"
proof -
  have at: "policy_at (gm_change m) p (loc_id l)" if "Option.bind (loc_parentId l) (\<lambda>p. safeId (JStr p)) = Some p" for p
    using that assms(1,2) by (cases l) (auto simp: policy_at_def is_creation_def bind_eq_Some_conv safeId_Some)
  show ?thesis
    unfolding deletePolicy_def
  proof (intro obeys_lift, goal_cases)
    case (1 p)
    then have p: "policy_at (gm_change m) p (loc_id l)" using at by simp
    have rest: "obeys pf m (seq (checkLivePolicy pf m p (loc_id l)) (\<lambda>_. seq (assertPolicyParent m p) (\<lambda>confirmedParent.
        seq (confirmPolicy pf m p (loc_id l) confirmedParent) (\<lambda>_. seq (ask (Delete_app_policy p (loc_id l))) (\<lambda>_. return ())))))
        g" if "submitted g = []" for g :: client_trace
      by (intro obeys_after [OF lawful.policy_live that] obeys_after [OF lawful.policy_parent] obeys_after [OF lawful.policy_set_confirmed]
            obeys_ask obeys_return) (use p assms in \<open>auto simp: is_deletion_def intro: confirmed_policy\<close>)
    show ?case
    proof (intro obeys_after [OF lawful.policy_parent assms(3)] obeys_read obeys_lift, goal_cases)
      case (1 app g ps u listed)
      then show ?case by (cases listed) (simp_all add: rest)
    qed
  qed
qed

lemma updatePolicy_obeys:
  assumes "gm_change m = Update_mutation kind key desired hash l" "is_policy kind" "submitted h = []"
    "l = \<lparr>loc_id = i, loc_parentId = Some p\<rparr>" "desiredPolicy pf m desired = Inr body"
  shows "obeys pf m (updatePolicy pf m p i body) h"
proof -
  have p: "policy_at (gm_change m) p i" using assms by (simp add: policy_at_def is_creation_def)
  show ?thesis
    unfolding updatePolicy_def
    by (intro obeys_after [OF lawful.policy_parent assms(3)] obeys_read obeys_lift obeys_after [OF lawful.policy_live]
          obeys_after [OF lawful.policy_parent] obeys_after [OF lawful.policy_set_confirmed] obeys_ask obeys_return)
      (use p assms in \<open>auto simp: is_deletion_def intro: confirmed_policy\<close>)
qed

lemma mutatePolicy_obeys:
  assumes kind: "is_policy (mc_kind (gm_change m))" and h: "submitted h = []"
  shows "obeys pf m (mutatePolicy pf m) h"
proof (cases "gm_change m")
  case (Create_mutation k key desired hash)
  then have "creates m k key desired" "is_policy k" using kind by (simp_all add: creates_def)
  then show ?thesis unfolding mutatePolicy_def Create_mutation mutation_change.case createPolicy_def
    by (intro obeys_lift obeys_after [OF lawful.policies_absent] obeys_ask obeys_return) (auto simp: h)
next
  case (Update_mutation k key desired hash l)
  then have k: "is_policy k" using kind by simp
  show ?thesis unfolding mutatePolicy_def Update_mutation mutation_change.case
  proof (intro obeys_lift, goal_cases)
    case (1 body p)
    then have "l = \<lparr>loc_id = loc_id l, loc_parentId = Some p\<rparr>" by (cases l) (auto simp: bind_eq_Some_conv safeId_Some)
    then show ?case using 1 by (intro updatePolicy_obeys [OF Update_mutation k h])
  qed
next
  case (Delete_mutation k key l)
  then show ?thesis using kind by (simp add: mutatePolicy_def deletePolicy_obeys [OF Delete_mutation _ h])
qed

section \<open>DNS records\<close>

lemma checkDns_Inr: "checkDns m live = Inr u \<longleftrightarrow> field live ''comment'' = JStr (gm_marker m)
    \<and> normalizeDnsName (field live ''name'') = gc_hostname (gm_config m)"
  by (auto simp: checkDns_def andThen_Inr)

lemma mutateDns_obeys:
  assumes kind: "mc_kind (gm_change m) = Dns_record" and h: "submitted h = []"
  shows "obeys pf m (mutateDns pf m) h"
proof (cases "gm_change m")
  case (Create_mutation k key desired hash)
  then have c: "creates m Dns_record key desired" using kind by (simp add: creates_def)
  have "obeys pf m (createDns pf m portalKey body) h" if "desiredDns m desired = Inr (body, portalKey)" for portalKey body
    unfolding createDns_def
    by (intro obeys_after [OF lawful.dns_backing h] obeys_listed obeys_ensure obeys_after [OF lawful.dns_backing] obeys_ask obeys_return)
      (use c that in \<open>auto simp: frame_seen backing_reads_def\<close>)
  then show ?thesis unfolding mutateDns_def Create_mutation mutation_change.case by (intro obeys_lift) auto
next
  case (Update_mutation k key desired hash l)
  then have c: "updates m Dns_record (loc_id l) desired" using kind by (simp add: updates_def)
  have "obeys pf m (updateDns pf m (loc_id l) portalKey body) h" if "desiredDns m desired = Inr (body, portalKey)" for portalKey body
    unfolding updateDns_def
    by (intro obeys_after [OF lawful.dns_backing h] obeys_live obeys_lift obeys_after [OF lawful.dns_backing] obeys_ask obeys_return)
      (use c that in \<open>auto simp: shown_frame backing_reads_def checkDns_Inr\<close>)
  then show ?thesis unfolding mutateDns_def Update_mutation mutation_change.case by (intro obeys_lift) auto
next
  case (Delete_mutation k key l)
  then have "removes m Dns_record (loc_id l)" using kind by (simp add: removes_def)
  then show ?thesis unfolding mutateDns_def Delete_mutation mutation_change.case deleteDns_def
    by (intro obeys_exact; simp only: option.case obeys_return; intro obeys_lift obeys_ask obeys_return)
      (auto simp: h checkDns_Inr)
qed

section \<open>Every mutation\<close>

definition mutation_keyed :: "gateway_mutation \<Rightarrow> bool" where
  "mutation_keyed m \<longleftrightarrow> (\<not> is_creation (gm_change m) \<and> mc_kind (gm_change m) = Mcp_server
     \<longrightarrow> loc_id (mc_provider (gm_change m)) = mc_key (gm_change m))"

theorem dispatch_obeys:
  assumes "mutation_keyed m" "submitted h = []"
  shows "obeys pf m (dispatchMutation pf po m) h"
  using assms by (cases "mc_kind (gm_change m)")
    (auto simp: dispatchMutation_def mutation_keyed_def is_policy_def intro!: obeys_no_result mutateServer_obeys mutateSource_obeys
      mutatePortal_obeys mutatePortalApplication_obeys mutatePolicy_obeys mutateDns_obeys)

end
