(* ===== verification/Provider_Bounds.thy ===== *)
theory Provider_Bounds
  imports Provider_Safety Composition
begin

text \<open>
  What a validated input has in common with the receipt in it, and the outcome of \<open>applyChange\<close> in terms of the
  mutation it runs.
\<close>

section \<open>Validated mutations\<close>

definition change_action :: "mutation_change \<Rightarrow> receipt_action" where
  "change_action change = (case change of Create_mutation _ _ _ _ \<Rightarrow> Create_action | Update_mutation _ _ _ _ _ \<Rightarrow> Update_action
     | Delete_mutation _ _ _ \<Rightarrow> Delete_action)"

text \<open>The mutation is the pending action of the receipt, on the bound account, and on a resource the receipt has.\<close>

definition journaled_in :: "bound_target \<Rightarrow> gateway_mutation \<Rightarrow> bool" where
  "journaled_in bt m \<longleftrightarrow>
     rt_accountId (rc_target (gm_receipt m)) = bt_accountId bt \<and> rt_zoneId (rc_target (gm_receipt m)) = bt_zoneId bt
     \<and> rt_hostname (rc_target (gm_receipt m)) = gc_hostname (gm_config m)
     \<and> ownershipMarker (JStr (rc_installationId (gm_receipt m))) (JStr (mc_key (gm_change m))) = Inr (gm_marker m)
     \<and> (\<exists>p. rc_pending (gm_receipt m) = Some p \<and> rp_action p = change_action (gm_change m)
          \<and> rp_kind p = mc_kind (gm_change m) \<and> rp_key p = mc_key (gm_change m)
          \<and> (is_deletion (gm_change m) \<or> rp_expectedDesiredHash p = mc_hash (gm_change m)))
     \<and> (is_creation (gm_change m)
        \<or> (\<exists>r \<in> set (rc_resources (gm_receipt m)). rr_kind r = mc_kind (gm_change m) \<and> rr_key r = mc_key (gm_change m)
             \<and> sameLocator (Some (rr_provider r)) (Some (mc_provider (gm_change m)))))"

lemma keyed_locator_Inr: "keyed_locator kind key provider = Inr l \<Longrightarrow> kind = Mcp_server \<or> kind = Portal \<Longrightarrow> loc_id l = key"
  by (auto simp: keyed_locator_def andThen_Inr)

lemma checked_desired_Inr: "checked_desired sha raw kind key pending i = Inr (d, h) \<Longrightarrow> rp_expectedDesiredHash pending = h"
  by (auto simp: checked_desired_def andThen_Inr)

lemma normalized_change_Inr:
  assumes "normalized_change sha raw receipt = Inr change"
  shows "(\<exists>p. rc_pending receipt = Some p \<and> rp_action p = change_action change \<and> rp_kind p = mc_kind change \<and> rp_key p = mc_key change
      \<and> (is_deletion change \<or> rp_expectedDesiredHash p = mc_hash change))"
    and "\<not> is_creation change \<Longrightarrow> mc_kind change = Mcp_server \<or> mc_kind change = Portal \<Longrightarrow> loc_id (mc_provider change) = mc_key change"
  using assms
  by (auto simp: normalized_change_def andThen_Inr is_deletion_def is_creation_def change_action_def
      dest: keyed_locator_Inr checked_desired_Inr split: receipt_action.splits) (metis receipt_action.exhaust)+

lemma found: "find P xs = Some x \<Longrightarrow> x \<in> set xs \<and> P x"
  by (induction xs) (auto split: if_splits)

lemma normalized_input:
  assumes "normalizeMutationInput pf bt inp = Inr m"
  shows "journaled_in bt m" "mutation_keyed m"
    "validateInstallationReceipt (pf_sha pf) (field inp ''receipt'') (JObj []) = Inr (gm_receipt m)"
proof -
  obtain receipt configInput config change owned marker where i:
      "provider_receipt (pf_sha pf) (field inp ''receipt'') = Inr receipt"
      "assertTarget (field inp ''target'') bt (rc_target receipt) = Inr ()"
      "gc_hostname config = rt_hostname (rc_target receipt)"
      "normalized_change (pf_sha pf) (field inp ''change'') receipt = Inr change"
      "owned_resource receipt change = Inr owned"
      "provider_marker (rc_installationId receipt) (mc_key change) = Inr marker"
      "m = \<lparr>gm_access = field inp ''access'', gm_change = change, gm_config = config, gm_configInput = configInput, gm_marker = marker,
         gm_owned = owned, gm_receipt = receipt, gm_target = field inp ''target''\<rparr>"
    using assms by (auto simp: normalizeMutationInput_def andThen_Inr)
  have "is_creation change \<or> (\<exists>r \<in> set (rc_resources receipt). rr_kind r = mc_kind change \<and> rr_key r = mc_key change
      \<and> sameLocator (Some (rr_provider r)) (Some (mc_provider change)))"
    using i(5) by (cases change) (auto simp: owned_resource_def is_creation_def andThen_Inr dest!: found)
  then show "journaled_in bt m"
    using i normalized_change_Inr(1) [OF i(4)] by (simp add: journaled_in_def assertTarget_def provider_marker_def)
  show "mutation_keyed m" using normalized_change_Inr(2) [OF i(4)] i(7) by (simp add: mutation_keyed_def)
  show "validateInstallationReceipt (pf_sha pf) (field inp ''receipt'') (JObj []) = Inr (gm_receipt m)"
    using i(1,7) by (simp add: provider_receipt_def)
qed

section \<open>Tracking\<close>

definition any_submitted :: "client_trace \<Rightarrow> bool" where
  "any_submitted h \<longleftrightarrow> submitted h \<noteq> []"

lemma any_submitted_Cons [simp]: "any_submitted ((c, a) # h) \<longleftrightarrow> is_mutation c \<or> any_submitted h"
  by (simp add: any_submitted_def submitted_def)

lemma any_submitted_Nil [simp]: "\<not> any_submitted []"
  by (simp add: any_submitted_def)

lemma tracked_runs:
  "runs (trackCloudflareMutationAttempt p s) t x \<longleftrightarrow> (\<exists>r. runs p t r \<and> x = (r, s \<or> any_submitted t))"
  by (induction p arbitrary: s t) (auto split: list.splits)

text \<open>How the outcome of the mutation is reported.\<close>

definition reported :: "client_trace \<Rightarrow> provider_fault + jval \<Rightarrow> provider_fault + jval" where
  "reported t r = (case r of Inl e \<Rightarrow> Inl (CloudflareGatewayProviderError (fault_code e) (\<not> any_submitted t)) | Inr x \<Rightarrow> Inr x)"

lemma applyChange_runs:
  "runs (applyChange pf bt po inp) t r \<longleftrightarrow> (\<exists>q. runs (apply_mutation pf bt po inp) t q \<and> r = reported t q)"
proof -
  have "runs (case q of Inl e \<Rightarrow> throw (CloudflareGatewayProviderError (fault_code e) (\<not> any_submitted t)) | Inr v \<Rightarrow> return v) t2 r
      \<longleftrightarrow> t2 = [] \<and> r = reported t q" for q r and t t2 :: client_trace
    by (cases q) (auto simp: reported_def)
  then show ?thesis by (auto simp: applyChange_def runs_map_end tracked_runs)
qed

section \<open>The rule for a whole change\<close>

definition provider_permits :: "platform \<Rightarrow> bound_target \<Rightarrow> jval \<Rightarrow> client_trace \<Rightarrow> client_call \<Rightarrow> bool" where
  "provider_permits pf bt inp h c \<longleftrightarrow> \<not> is_mutation c
     \<or> (\<exists>m. normalizeMutationInput pf bt inp = Inr m \<and> journaled_in bt m \<and> lawful pf m h c)"

lemma apply_permitted: "wp (provider_permits pf bt inp) (\<lambda>_ _. True) (apply_mutation pf bt po inp) []"
proof (cases "normalizeMutationInput pf bt inp")
  case (Inl e)
  then show ?thesis by (simp add: apply_mutation_def wp_seq wp_lift)
next
  case (Inr m)
  have "obeys pf m (dispatchMutation pf po m) []" by (rule dispatch_obeys [OF normalized_input(2) [OF Inr]]) simp
  then have "wp (lawful pf m) (\<lambda>_ _. True) (dispatchMutation pf po m) []"
    unfolding obeys_def safely_def by (rule wp_post) simp
  then have "wp (provider_permits pf bt inp) (\<lambda>_ _. True) (dispatchMutation pf po m) []"
    by (rule wp_mono) (use Inr normalized_input(1) [OF Inr] in \<open>auto simp: provider_permits_def\<close>)
  then show ?thesis
    by (simp add: apply_mutation_def wp_seq wp_lift Inr) (erule wp_post, simp add: wp_lift split: sum.split)
qed

text \<open>
  How many calls the provider makes: \<open>within p n\<close>, that every run of \<open>p\<close> has at most \<open>n\<close> calls. The waits make at most two
  calls for each attempt, so every operation ends after a number of calls that is fixed before it starts.
\<close>

section \<open>Bounded programs\<close>

primrec within :: "('c, 'a, 'r) program \<Rightarrow> nat \<Rightarrow> bool" where
  "within (Done r) = (\<lambda>n. True)"
| "within (Ask c k) = (\<lambda>n. 0 < n \<and> (\<forall>a. within (k a) (n - 1)))"

lemma within_runs: "within p n \<Longrightarrow> runs p t r \<Longrightarrow> length t \<le> n"
proof (induction p arbitrary: n t)
  case (Ask c k)
  then obtain a t' where t: "t = (c, a) # t'" "runs (k a) t' r" by (auto split: list.splits)
  have "length t' \<le> n - 1" using Ask.IH [OF _ _ t(2)] Ask.prems(1) by auto
  then show ?case using Ask.prems(1) by (auto simp: t(1))
qed simp

lemma within_more: "within p n \<Longrightarrow> n \<le> n' \<Longrightarrow> within p n'"
proof (induction p arbitrary: n n')
  case (Ask c k)
  have "within (k a) (n' - 1)" for a
    using Ask.IH [of "k a" "n - 1" "n' - 1"] Ask.prems by auto
  then show ?case using Ask.prems by simp
qed simp

lemma within_map_end: "within p k \<Longrightarrow> k \<le> n \<Longrightarrow> (\<And>r. within (f r) (n - k)) \<Longrightarrow> within (map_end f p) n"
proof (induction p arbitrary: k n)
  case (Done r)
  then have "within (f r) (n - k)" by simp
  then show ?case by (simp add: within_more)
next
  case (Ask c g)
  have "within (map_end f (g a)) (n - 1)" for a
    by (rule Ask.IH [where k = "k - 1"]) (use Ask.prems in auto)
  then show ?case using Ask.prems by auto
qed

lemma within_after: "within m k \<Longrightarrow> k \<le> n \<Longrightarrow> (\<And>x. within (f x) (n - k)) \<Longrightarrow> within (seq m f) n"
  unfolding seq_def by (rule within_map_end) (auto split: sum.split)

lemma within_catch: "within m n \<Longrightarrow> within (catch m (\<lambda>e. throw (f e))) n"
  unfolding catch_def by (rule within_map_end [where k = n]) (auto split: sum.split)

lemma within_tracked: "within p n \<Longrightarrow> within (trackCloudflareMutationAttempt p s) n"
  by (induction p arbitrary: s n) auto

named_theorems within_intros \<open>bounds on the calls of a program\<close>

lemma within_lift [within_intros]: "(\<And>x. within (f x) n) \<Longrightarrow> within (seq (lift r) f) n"
  by (rule within_after [where k = 0]) (simp_all add: lift_def)

lemma within_ensure [within_intros]: "(\<And>x. within (f x) n) \<Longrightarrow> within (seq (ensure b code) f) n"
  unfolding ensure_def by (rule within_lift)

lemma within_lift_last [simp]: "within (lift r) n"
  by (simp add: lift_def)

lemma within_ensure_last [simp]: "within (ensure b code) n"
  by (simp add: ensure_def)

lemma within_ask: "within (ask c) 1"
  by (simp add: ask_def)

lemma within_list: "within (list_of c) 1"
  unfolding list_of_def by (rule within_after [OF within_ask]) simp_all

lemma within_exact: "within (exactRead c i) 1"
  unfolding exactRead_def by (rule within_after [OF within_ask]) simp_all

lemma within_live: "within (exactLive c i code) 1"
  unfolding exactLive_def by (rule within_after [OF within_exact]) simp_all

lemma within_pause: "within (pause po) 1"
  unfolding pause_def by (rule within_after [OF within_ask]) simp_all

lemma within_pause_between: "within (pause_between po n) 1"
  using within_pause by (simp add: pause_between_def)

lemmas within_calls [within_intros] =
  within_after [OF within_ask] within_after [OF within_list] within_after [OF within_exact] within_after [OF within_live]
  within_after [OF within_pause] within_after [OF within_pause_between]

lemma within_option [within_intros]:
  "within p n \<Longrightarrow> (\<And>y. within (q y) n) \<Longrightarrow> within (case x of None \<Rightarrow> p | Some y \<Rightarrow> q y) n"
  by (cases x) auto

lemma within_if [within_intros]: "within p n \<Longrightarrow> within q n \<Longrightarrow> within (if b then p else q) n"
  by simp

lemma within_pair [within_intros]: "(\<And>a b. within (f a b) n) \<Longrightarrow> within (case x of (a, b) \<Rightarrow> f a b) n"
  by (cases x) simp

section \<open>Checks\<close>

lemma within_applications:
  "within (assertNoServerAccessApplications i) 1" "within (assertNoPortalAccessApplications n) 1"
  "within (assertNoAccessAppBaseline P) 1" "within (assertPortalAccessApplicationCandidateSet n e i b) 1"
  "within (assertAccessApplicationPoliciesEmpty app) 1"
  unfolding assertNoServerAccessApplications_def assertNoPortalAccessApplications_def assertNoAccessAppBaseline_def
    assertPortalAccessApplicationCandidateSet_def assertAccessApplicationPoliciesEmpty_def
  by (intro within_intros; simp)+

lemma within_phase: "within (assertPortalAccessApplicationPolicyPhase m app) 1"
  unfolding assertPortalAccessApplicationPolicyPhase_def
  by (intro within_intros) (auto split: list.split intro!: within_intros)

lemma within_parents:
  "within (assertReceiptOwnedServer m k) 1" "within (assertReceiptOwnedPortal m k b e) 1"
  "within (assertSourceAccessApplicationAuthority m app marker b) 1" "within (assertPortalAccessApplicationAuthority m app b c) 1"
proof -
  show portal: "within (assertReceiptOwnedPortal m k b e) 1" for k b e
    unfolding assertReceiptOwnedPortal_def by (intro within_intros; simp)
  show "within (assertReceiptOwnedServer m k) 1"
    unfolding assertReceiptOwnedServer_def by (intro within_intros; simp)
  show "within (assertSourceAccessApplicationAuthority m app marker b) 1"
    unfolding assertSourceAccessApplicationAuthority_def
    by (intro within_intros) (auto split: list.split option.split intro!: within_intros)
  show "within (assertPortalAccessApplicationAuthority m app b c) 1"
    unfolding assertPortalAccessApplicationAuthority_def by (intro within_intros portal)
qed

lemmas within_checks = within_applications within_phase within_parents

lemmas within_checked [within_intros] = within_checks [THEN within_after]

lemma within_parent: "within (assertPolicyParent m p) 2"
  unfolding assertPolicyParent_def by (intro within_intros; simp)

lemmas within_parent_after [within_intros] = within_after [OF within_parent]

lemma within_server_sync: "within (waitForServerSync n po i tools) (2 * n)"
proof (induction n)
  case (Suc n)
  then show ?case unfolding waitForServerSync.simps by (intro within_intros) simp_all
qed simp

lemma within_absence: "within (waitForAccessAppAbsence n po i) (2 * n)"
proof (induction n)
  case (Suc n)
  then show ?case unfolding waitForAccessAppAbsence.simps by (intro within_intros) simp_all
qed simp

lemma within_baseline: "within (provePortalAccessApplicationBaselineQuiet n po hostname) (2 * n)"
proof (induction n)
  case (Suc n)
  then show ?case unfolding provePortalAccessApplicationBaselineQuiet.simps by (intro within_intros) simp_all
qed simp

section \<open>Handlers\<close>

lemmas within_waits [within_intros] =
  within_after [OF within_server_sync] within_after [OF within_absence] within_after [OF within_baseline]

lemma within_server: "within (mutateServer pf po m) (2 * po_attempts po + 12)"
proof -
  have sync: "within (syncServer m po key expected) (2 * po_attempts po + 2)" for key expected
    unfolding syncServer_def by (intro within_intros) simp_all
  have create: "within (createServer m key expected) 3" for key expected
    unfolding createServer_def by (intro within_intros) simp_all
  have check: "within (checkServerUpdate m i expected) 1" for i expected
    unfolding checkServerUpdate_def by (intro within_intros) simp_all
  have delete: "within (deleteServer m i) 6" for i
    unfolding deleteServer_def by (intro within_intros; simp add: within_checks [THEN within_more])
  show ?thesis
    unfolding mutateServer_def
    by (cases "gm_change m")
      (auto intro!: within_lift within_after [OF create] within_after [OF check] intro: within_more [OF sync] within_more [OF delete])
qed

lemma within_delete_application: "within (deleteApplication po i) (2 * po_attempts po + 1)"
  unfolding deleteApplication_def by (intro within_intros) (simp_all add: within_absence [THEN within_more])

lemma within_source: "within (mutateSourceAccessApplication po m) (2 * po_attempts po + 12)"
proof -
  have check: "within (checkSourceApplication m app) 2" for app
    unfolding checkSourceApplication_def by (intro within_intros) (simp_all add: within_checks [THEN within_more])
  have delete: "within (deleteSourceApplication po m i) (2 * po_attempts po + 7)" for i
    unfolding deleteSourceApplication_def
    by (intro within_intros within_after [OF check]) (simp_all add: within_delete_application [THEN within_more])
  have update: "within (updateSourceApplication m i s) 2" for i s
    unfolding updateSourceApplication_def by (intro within_intros) (simp_all add: within_checks [THEN within_more])
  have create: "within (createSourceApplication m s i) 6" for i s
    unfolding createSourceApplication_def by (intro within_intros) (simp_all add: within_checks [THEN within_more])
  show ?thesis
    unfolding mutateSourceAccessApplication_def
    by (cases "gm_change m")
      (auto intro!: within_lift within_checked intro: within_more [OF create] within_more [OF update] within_more [OF delete])
qed

lemma within_portal: "within (mutatePortal m) (2 * n + 12)"
proof -
  have delete: "within (deletePortal m i) 6" for i
    unfolding deletePortal_def by (intro within_intros; simp add: within_checks [THEN within_more])
  have create: "within (createPortal m i e) 3" for i e
    unfolding createPortal_def by (intro within_intros) simp_all
  have update: "within (updatePortal m i e) 2" for i e
    unfolding updatePortal_def by (intro within_intros) simp_all
  show ?thesis
    unfolding mutatePortal_def
    by (cases "gm_change m") (auto intro!: within_lift intro: within_more [OF create] within_more [OF update] within_more [OF delete])
qed

lemma within_no_result: "within p n \<Longrightarrow> within (no_result p) n"
  unfolding no_result_def by (rule within_after [where k = n]) simp_all

lemma within_portal_application: "within (mutatePortalAccessApplication pf po m) (2 * po_attempts po + 12)"
proof -
  have check: "within (checkPortalApplication m i app) 3" for i app
    unfolding checkPortalApplication_def by (intro within_intros) (simp_all add: within_checks [THEN within_more])
  have delete: "within (deletePortalApplication po m i) (2 * po_attempts po + 9)" for i
    unfolding deletePortalApplication_def
    by (intro within_intros within_after [OF check])
      (simp_all add: within_checks [THEN within_more] within_delete_application [THEN within_more])
  have create: "within (createPortalApplication po m e p) (2 * po_attempts po + 4)" for e p
    unfolding createPortalApplication_def by (intro within_intros) simp_all
  have live: "within (livePortalApplication i e) 1" for i e
    unfolding livePortalApplication_def by (intro within_intros) simp_all
  have update: "within (updatePortalApplication m i e p) 7" for i e p
    unfolding updatePortalApplication_def by (intro within_intros within_after [OF live]) simp_all
  have prepare: "within (prepared_application pf m d) 1" for d
    unfolding prepared_application_def by (intro within_intros) simp_all
  show ?thesis
    unfolding mutatePortalAccessApplication_def
    by (cases "gm_change m")
      (auto intro!: within_after [OF prepare] within_pair within_no_result
         intro: within_more [OF create] within_more [OF update] within_more [OF delete])
qed

lemma within_policy: "within (mutatePolicy pf m) (2 * n + 12)"
proof -
  have confirm: "within (confirmPolicy pf m p i app) 1" for p i app
    unfolding confirmPolicy_def by (intro within_intros) simp_all
  have live: "within (checkLivePolicy pf m p i) 1" for p i
    unfolding checkLivePolicy_def by (intro within_intros) simp_all
  have none: "within (noPolicies m p) 3" for p
    unfolding noPolicies_def by (intro within_intros) simp_all
  have delete: "within (deletePolicy pf m l) 8" for l
    unfolding deletePolicy_def by (intro within_intros within_after [OF live] within_after [OF confirm]) simp_all
  have create: "within (createPolicy m p b) 7" for p b
    unfolding createPolicy_def by (intro within_intros within_after [OF none]) simp_all
  have update: "within (updatePolicy pf m p i b) 8" for p i b
    unfolding updatePolicy_def by (intro within_intros within_after [OF live] within_after [OF confirm]) simp_all
  show ?thesis
    unfolding mutatePolicy_def
    by (cases "gm_change m") (auto intro!: within_lift intro: within_more [OF create] within_more [OF update] within_more [OF delete])
qed

lemma within_dns: "within (mutateDns pf m) (2 * n + 12)"
proof -
  have portal: "within (dnsPortalLive m deps) 1" for deps
    unfolding dnsPortalLive_def by (intro within_intros within_parents)
  have application: "within (dnsApplicationLive deps) 2" for deps
    unfolding dnsApplicationLive_def Let_def by (intro within_intros) simp_all
  have policy: "within (dnsPolicyLive pf m deps app) 2" for deps app
    unfolding dnsPolicyLive_def Let_def by (intro within_intros) simp_all
  have backing: "within (assertDnsDependencies pf m k) 5" for k
    unfolding assertDnsDependencies_def
    by (intro within_intros within_after [OF portal] within_after [OF application]) (simp_all add: policy within_more)
  have delete: "within (deleteDns m i) 2" for i
    unfolding deleteDns_def by (intro within_intros; simp)
  have create: "within (createDns pf m k b) 12" for k b
    unfolding createDns_def by (intro within_intros within_after [OF backing]) simp_all
  have update: "within (updateDns pf m i k b) 12" for i k b
    unfolding updateDns_def by (intro within_intros within_after [OF backing]) simp_all
  show ?thesis
    unfolding mutateDns_def
    by (cases "gm_change m")
      (auto intro!: within_lift within_pair intro: within_more [OF create] within_more [OF update] within_more [OF delete])
qed

lemma within_apply: "within (applyChange pf bt po inp) (2 * po_attempts po + 12)"
proof -
  have "within (dispatchMutation pf po m) (2 * po_attempts po + 12)" for m
    unfolding dispatchMutation_def
    by (cases "mc_kind (gm_change m)")
      (simp_all add: within_no_result within_server within_source within_portal within_portal_application within_policy within_dns)
  then have "within (apply_mutation pf bt po inp) (2 * po_attempts po + 12)"
    unfolding apply_mutation_def by (intro within_lift) (rule within_after, assumption, simp_all)
  then have "within (trackCloudflareMutationAttempt (apply_mutation pf bt po inp) False) (2 * po_attempts po + 12)"
    by (rule within_tracked)
  then show ?thesis unfolding applyChange_def by (rule within_map_end) (auto split: sum.split)
qed

section \<open>Inspections\<close>

lemma within_recoded: "within p n \<Longrightarrow> within (recoded code p) n"
  unfolding recoded_def by (rule within_catch)

lemma within_sample: "within (checkedSample rm) 3"
proof -
  have "within (readPendingPortalCreateRollbackSample rm) 3"
    unfolding readPendingPortalCreateRollbackSample_def by (intro within_intros) simp_all
  then show ?thesis unfolding checkedSample_def by (rule within_after) (simp_all add: within_intros)
qed

lemma within_quiet: "within (provePendingPortalCreateRollbackQuiet po rm) (4 * po_attempts po)"
proof -
  have "within (quiet_samples n po rm q) (4 * n)" for n q
  proof (induction n arbitrary: q)
    case (Suc n)
    then show ?case unfolding quiet_samples.simps
      by (intro within_after [OF within_sample] within_intros) simp_all
  qed simp
  then show ?thesis unfolding provePendingPortalCreateRollbackQuiet_def by (rule within_after) simp_all
qed

lemma within_rollback: "within (rollbackPendingPortalCreate pf bt po inp) (4 * po_attempts po + 8)"
proof -
  have absent: "within (alreadyAbsent po rm) (4 * po_attempts po)" for rm
    unfolding alreadyAbsent_def by (rule within_after [OF within_quiet]) simp_all
  have delete: "within (deletePendingPortal po rm) (4 * po_attempts po + 1)" for rm
  proof -
    have "within (attempt (ask (Delete_portal (rollback_key rm)))) 1"
      unfolding attempt_def by (rule within_map_end [OF within_ask]) simp_all
    then show ?thesis unfolding deletePendingPortal_def
      by (rule within_after) (simp_all add: within_after [OF within_quiet])
  qed
  have "within (rollback_portal po rm) (4 * po_attempts po + 8)" for rm
    unfolding rollback_portal_def
    by (intro within_after [OF within_sample] within_intros) (simp_all add: absent [THEN within_more] delete [THEN within_more])
  then show ?thesis unfolding rollbackPendingPortalCreate_def by (intro within_recoded within_lift)
qed

lemma within_inspect: "within (inspectPendingPortalCreateRollback pf bt po inp) (4 * po_attempts po + 3)"
  unfolding inspectPendingPortalCreateRollback_def
  by (intro within_recoded within_lift within_after [OF within_sample] within_option within_after [OF within_quiet]) simp_all

lemma within_residue_reads: "within (count_residue rs counted) (length rs)"
proof (induction rs arbitrary: counted)
  case (Cons r rs)
  have "within (residue_read r) 1"
    unfolding residue_read_def Let_def
    by (cases "rr_kind r") (simp_all add: within_exact [simplified] within_lift)
  then show ?case unfolding count_residue.simps by (rule within_after) (simp_all add: Cons.IH)
qed simp

end
