(* ===== verification/Provider_Rollback.thy ===== *)
theory Provider_Rollback
  imports Provider_Bounds
begin

text \<open>
  The rollback of a pending portal and the inspections: what the histories of their runs look like. A sample is three reads;
  a quiet window is a fixed number of samples in which nothing of the portal is left.
\<close>

section \<open>Samples\<close>

definition sample_trace :: "rollback_mutation \<Rightarrow> jval \<Rightarrow> jval list \<Rightarrow> client_trace" where
  "sample_trace rm portal apps = [(Read (Get_portal (rollback_key rm)), Inr portal), (Read List_access_apps, Inr (JArr apps)),
     (Read (List_dns_records (rollback_hostname rm)), Inr (JArr []))]"

definition no_candidates :: "rollback_mutation \<Rightarrow> jval list \<Rightarrow> bool" where
  "no_candidates rm apps = none_is (is_candidate (rollback_hostname rm)) apps"

definition is_expected :: "rollback_mutation \<Rightarrow> jval \<Rightarrow> bool" where
  "is_expected rm portal = portalMatchesExpected portal (rollback_key rm) (rm_expectedPortal rm)"

text \<open>\<open>n\<close> samples without portal, application and record, with a delay between any two.\<close>

fun quiet_trace :: "nat \<Rightarrow> polling \<Rightarrow> rollback_mutation \<Rightarrow> client_trace \<Rightarrow> bool" where
  "quiet_trace 0 po rm t = (t = [])"
| "quiet_trace (Suc 0) po rm t = (\<exists>apps. no_candidates rm apps \<and> t = sample_trace rm JNull apps)"
| "quiet_trace (Suc (Suc n)) po rm t = (\<exists>apps a t'. no_candidates rm apps
     \<and> t = sample_trace rm JNull apps @ (Wait (po_interval po), a) # t' \<and> quiet_trace (Suc n) po rm t')"

context reading_allowed
begin

lemma paused: "safely G (\<lambda>_ h'. \<exists>a. h' = h @ [(Wait (po_interval po), a)]) (pause po) h"
  by (auto simp: pause_def ask_def safely_def wp_seq waits foreign_def split: sum.split)

lemma sampled:
  "safely G (\<lambda>r h'. \<exists>portal apps. h' = h @ sample_trace rm portal apps \<and> no_candidates rm apps
     \<and> (case r of None \<Rightarrow> portal = JNull | Some p \<Rightarrow> portal = p)) (checkedSample rm) h"
proof -
  let ?R = "\<lambda>sample h'. \<exists>portal apps records. h' = h @ [(Read (Get_portal (rollback_key rm)), Inr portal),
      (Read List_access_apps, Inr (JArr apps)), (Read (List_dns_records (rollback_hostname rm)), Inr (JArr records))]
      \<and> candidate_ids (is_candidate (rollback_hostname rm)) apps = Inr (sa_appCandidates sample) \<and> sa_dnsRecords sample = records
      \<and> (case sa_portal sample of None \<Rightarrow> portal = JNull | Some p \<Rightarrow> portal = p)"
  have "safely G ?R (readPendingPortalCreateRollbackSample rm) h"
    unfolding readPendingPortalCreateRollbackSample_def
    by (intro exactly_read listed lifted) auto
  then show ?thesis unfolding checkedSample_def
  proof (rule safely_seq, intro lifted, goal_cases)
    case (1 sample h' u)
    then obtain portal apps where p: "h' = h @ sample_trace rm portal apps"
      "candidate_ids (is_candidate (rollback_hostname rm)) apps = Inr []"
      "case sa_portal sample of None \<Rightarrow> portal = JNull | Some p \<Rightarrow> portal = p"
      by (auto simp: assertNoPendingPortalAppCandidates_def sample_trace_def)
    from candidate_ids_Nil [OF p(2)] p(1,3) show ?case by (auto simp: no_candidates_def none_is_def)
  qed
qed

lemma quiet_samples_window:
  "safely G (\<lambda>q h'. q \<longrightarrow> s \<and> (\<exists>t. h' = h @ t \<and> quiet_trace n po rm t)) (quiet_samples n po rm s) h"
proof (induction n arbitrary: h s)
  case (Suc n)
  have rest: "safely G (\<lambda>q h'. q \<longrightarrow> s \<and> (\<exists>t. h' = h @ t \<and> quiet_trace (Suc n) po rm t))
      (seq (pause_between po n) (\<lambda>_. quiet_samples n po rm (s \<and> portal = None))) (h @ sample_trace rm p apps)"
    if a: "no_candidates rm apps" "case portal of None \<Rightarrow> p = JNull | Some q \<Rightarrow> p = q" for portal p apps
  proof (cases n)
    case 0
    then show ?thesis using a by (auto simp: pause_between_def split: option.splits)
  next
    case (Suc k)
    let ?R = "\<lambda>q h'. q \<longrightarrow> s \<and> (\<exists>t. h' = h @ t \<and> quiet_trace (Suc n) po rm t)"
    have "safely G ?R (quiet_samples n po rm (s \<and> portal = None)) (h @ sample_trace rm p apps @ [(Wait (po_interval po), w)])" for w
      by (rule safely_post [OF Suc.IH]) (use a Suc in \<open>fastforce\<close>)
    note window = this
    have p: "pause_between po n = pause po" using Suc by (simp add: pause_between_def)
    show ?thesis unfolding p by (rule safely_seq [OF paused]) (use window in auto)
  qed
  show ?case unfolding quiet_samples.simps
    by (rule safely_seq [OF sampled], intro lifted) (use rest in blast)
qed simp

lemma proven_quiet:
  "safely G (\<lambda>_ h'. \<exists>t. h' = h @ t \<and> quiet_trace (po_attempts po) po rm t) (provePendingPortalCreateRollbackQuiet po rm) h"
  unfolding provePendingPortalCreateRollbackQuiet_def
  by (rule safely_seq [OF quiet_samples_window]) (auto intro!: ensured_last)

end

section \<open>The rollback\<close>

text \<open>The only mutation is the deletion of the portal, after two exact samples with a delay between them.\<close>

definition rollback_permits :: "platform \<Rightarrow> bound_target \<Rightarrow> polling \<Rightarrow> jval \<Rightarrow> client_trace \<Rightarrow> client_call \<Rightarrow> bool" where
  "rollback_permits pf bt po inp h c \<longleftrightarrow> \<not> is_mutation c
     \<or> (\<exists>rm p apps w q apps'. normalizePendingPortalCreateRollbackInput pf bt inp = Inr rm \<and> c = Delete_portal (rollback_key rm)
          \<and> h = sample_trace rm p apps @ (Wait (po_interval po), w) # sample_trace rm q apps'
          \<and> is_expected rm p \<and> is_expected rm q \<and> no_candidates rm apps \<and> no_candidates rm apps')"

text \<open>What a report says: the history ends with a full quiet window, after the deletion if there was one.\<close>

definition rollback_reported :: "platform \<Rightarrow> bound_target \<Rightarrow> polling \<Rightarrow> jval \<Rightarrow> jval \<Rightarrow> client_trace \<Rightarrow> bool" where
  "rollback_reported pf bt po inp v h \<longleftrightarrow> (\<exists>rm before after. normalizePendingPortalCreateRollbackInput pf bt inp = Inr rm
     \<and> h = before @ after \<and> quiet_trace (po_attempts po) po rm after
     \<and> (submitted before = [] \<and> v = rollback_report ''already_absent'' (rollback_key rm) ''not_needed''
        \<or> submitted before = [Delete_portal (rollback_key rm)]
          \<and> v \<in> {rollback_report ''rolled_back'' (rollback_key rm) ''confirmed'',
                 rollback_report ''rolled_back'' (rollback_key rm) ''outcome_unknown''}))"

interpretation rollback: reading_allowed "rollback_permits pf bt po inp" for pf bt po inp
  by unfold_locales (simp_all add: rollback_permits_def)

lemma submitted_sample [simp]: "submitted (sample_trace rm p apps) = []"
  by (simp add: sample_trace_def submitted_def)

lemma contract_Inr [simp]: "assertPendingPortalCreateContract rm p = Inr u \<longleftrightarrow> is_expected rm p"
  by (simp add: assertPendingPortalCreateContract_def is_expected_def)

lemma absent_reported:
  assumes "normalizePendingPortalCreateRollbackInput pf bt inp = Inr rm" "submitted h = []"
  shows "safely (rollback_permits pf bt po inp) (rollback_reported pf bt po inp) (alreadyAbsent po rm) h"
  unfolding alreadyAbsent_def
  by (rule safely_seq [OF rollback.proven_quiet]) (use assms in \<open>auto simp: rollback_reported_def\<close>)

lemma deletion_reported:
  assumes "normalizePendingPortalCreateRollbackInput pf bt inp = Inr rm" "submitted h = []"
    "rollback_permits pf bt po inp h (Delete_portal (rollback_key rm))"
  shows "safely (rollback_permits pf bt po inp) (rollback_reported pf bt po inp) (deletePendingPortal po rm) h"
proof -
  have "safely (rollback_permits pf bt po inp) (\<lambda>_ h'. \<exists>a. h' = h @ [(Delete_portal (rollback_key rm), a)])
      (attempt (ask (Delete_portal (rollback_key rm)))) h"
    using assms(3) by (simp add: ask_def safely_def wp_attempt)
  then show ?thesis unfolding deletePendingPortal_def
  proof (rule safely_seq)
    fix deleted h' assume "\<exists>a. h' = h @ [(Delete_portal (rollback_key rm), a)]"
    then have s: "submitted h' = [Delete_portal (rollback_key rm)]" using assms(2) by auto
    show "safely (rollback_permits pf bt po inp) (rollback_reported pf bt po inp)
        (seq (provePendingPortalCreateRollbackQuiet po rm) (\<lambda>_. return (rollback_report ''rolled_back'' (rollback_key rm)
           (case deleted of Inl _ \<Rightarrow> ''outcome_unknown'' | Inr _ \<Rightarrow> ''confirmed'')))) h'"
      by (rule safely_seq [OF rollback.proven_quiet])
        (use assms(1) s in \<open>auto simp: rollback_reported_def split: sum.split\<close>)
  qed
qed

lemma rollback_safe:
  assumes "normalizePendingPortalCreateRollbackInput pf bt inp = Inr rm"
  shows "safely (rollback_permits pf bt po inp) (rollback_reported pf bt po inp) (rollback_portal po rm) []"
  unfolding rollback_portal_def
proof (rule safely_seq [OF rollback.sampled], goal_cases)
  case (1 first h1)
  then obtain p apps where 1: "h1 = sample_trace rm p apps" "no_candidates rm apps"
    "case first of None \<Rightarrow> p = JNull | Some q \<Rightarrow> p = q" by auto
  show ?case
  proof (cases first)
    case None
    then show ?thesis using absent_reported [OF assms, of h1] 1 by simp
  next
    case (Some p')
    then have [simp]: "p' = p" using 1(3) by simp
    have second: "safely (rollback_permits pf bt po inp) (rollback_reported pf bt po inp) (seq (checkedSample rm) (\<lambda>second. case second of
         None \<Rightarrow> alreadyAbsent po rm
       | Some q \<Rightarrow> seq (lift (assertPendingPortalCreateContract rm q)) (\<lambda>_. deletePendingPortal po rm))) (h1 @ [(Wait (po_interval po), w)])"
      if "is_expected rm p" for w
    proof (rule safely_seq [OF rollback.sampled], goal_cases)
      case (1 second h2)
      then obtain q apps' where 2: "h2 = (h1 @ [(Wait (po_interval po), w)]) @ sample_trace rm q apps'" "no_candidates rm apps'"
        "case second of None \<Rightarrow> q = JNull | Some q' \<Rightarrow> q = q'" by blast
      have s: "submitted h2 = []" by (simp add: 2(1) \<open>h1 = _\<close> submitted_append submitted_def sample_trace_def)
      show ?case
      proof (cases second)
        case None
        then show ?thesis using absent_reported [OF assms s] by simp
      next
        case (Some q')
        then have "q' = q" using 2(3) by simp
        have "rollback_permits pf bt po inp h2 (Delete_portal (rollback_key rm))" if "is_expected rm q"
          unfolding rollback_permits_def using assms \<open>is_expected rm p\<close> that \<open>h1 = _\<close> 2(1,2) \<open>no_candidates rm apps\<close> by auto blast
        then show ?thesis using Some \<open>q' = q\<close> deletion_reported [OF assms s] by (auto intro!: rollback.lifted)
      qed
    qed
    show ?thesis unfolding Some option.case
      by (intro rollback.lifted, rule safely_seq [OF rollback.paused]) (use second in auto)
  qed
qed

lemma recoded_safely: "safely G R p h \<Longrightarrow> safely G R (recoded code p) h"
  unfolding recoded_def by (erule safely_rethrow) auto

section \<open>Inspections\<close>

interpretation inspection: reading_allowed "\<lambda>h c. \<not> is_mutation c"
  by unfold_locales simp_all

lemma safely_reads: "safely (\<lambda>h c. \<not> is_mutation c) R p h \<Longrightarrow> wp (\<lambda>h c. \<not> is_mutation c) (\<lambda>_ _. True) p h"
  unfolding safely_def by (erule wp_post) simp

lemma inspect_reads: "wp (\<lambda>h c. \<not> is_mutation c) (\<lambda>_ _. True) (inspectPendingPortalCreateRollback pf bt po inp) []"
proof (rule safely_reads [where R = "\<lambda>_ _. True"])
  have "safely (\<lambda>h c. \<not> is_mutation c) (\<lambda>_ _. True) (case portal of
        None \<Rightarrow> seq (provePendingPortalCreateRollbackQuiet po rm) (\<lambda>_. return (inspection_report ''already_absent'' (rollback_key rm)))
      | Some p \<Rightarrow> seq (lift (assertPendingPortalCreateContract rm p)) (\<lambda>_. return (inspection_report ''ready'' (rollback_key rm)))) h"
    for portal rm h
    by (cases portal) (auto intro!: safely_seq [OF inspection.proven_quiet] inspection.lifted)
  then show "safely (\<lambda>h c. \<not> is_mutation c) (\<lambda>_ _. True) (inspectPendingPortalCreateRollback pf bt po inp) []"
    unfolding inspectPendingPortalCreateRollback_def
    by (intro recoded_safely inspection.lifted safely_seq [OF inspection.sampled])
qed

lemma observation_reads: "wp (\<lambda>h c. \<not> is_mutation c) (\<lambda>_ _. True) (through_client p) h"
  by (induction p arbitrary: h) simp_all

text \<open>The read that proves that an entry of the receipt is still there.\<close>

definition residue_call :: "receipt_resource \<Rightarrow> observe_call" where
  "residue_call r = (let i = loc_id (rr_provider r) in case rr_kind r of
     Mcp_server \<Rightarrow> Get_mcp_server i
   | Source_access_application \<Rightarrow> Get_access_app i
   | Portal_access_application \<Rightarrow> Get_access_app i
   | Portal \<Rightarrow> Get_portal i
   | Dns_record \<Rightarrow> Get_dns_record i
   | _ \<Rightarrow> Get_app_policy (parent_or_empty (rr_provider r)) i)"

definition residue_trace :: "(receipt_resource \<times> jval) list \<Rightarrow> client_trace" where
  "residue_trace found = map (\<lambda>(r, v). (Read (residue_call r), Inr v)) found"

definition still_there :: "(receipt_resource \<times> jval) list \<Rightarrow> (receipt_resource \<times> jval) list" where
  "still_there found = filter (\<lambda>(r, v). v \<noteq> JNull) found"

definition live_applications :: "(receipt_resource \<times> jval) list \<Rightarrow> string list" where
  "live_applications found = map (\<lambda>(r, v). loc_id (rr_provider r))
     (filter (\<lambda>(r, v). rr_kind r = Portal_access_application) (still_there found))"

lemma residue_read_exact:
  "safely (\<lambda>h c. \<not> is_mutation c) (\<lambda>live h'. \<exists>v. h' = h @ [(Read (residue_call r), Inr v)] \<and> (live = None \<longleftrightarrow> v = JNull))
     (residue_read r) h"
proof -
  have exact: "safely (\<lambda>h c. \<not> is_mutation c) (\<lambda>live h'. \<exists>v. h' = h @ [(Read c, Inr v)] \<and> (live = None \<longleftrightarrow> v = JNull))
      (exactRead c i) h" for c i
    unfolding exactRead_def by (rule inspection.ask_read) auto
  show ?thesis
    by (cases "rr_kind r")
      (auto simp: residue_read_def residue_call_def Let_def bind_eq_Some_conv safeId_Some parent_or_empty_def
         intro!: exact inspection.lifted safely_post [OF exact])
qed

lemma residue_counted:
  "safely (\<lambda>h c. \<not> is_mutation c) (\<lambda>counted' h'. \<exists>found. map fst found = rs \<and> h' = h @ residue_trace found
     \<and> counted' = (fst counted + length (still_there found), snd counted @ live_applications found)) (count_residue rs counted) h"
proof (induction rs arbitrary: h counted)
  case Nil
  show ?case by (simp add: residue_trace_def still_there_def live_applications_def)
next
  case (Cons r rs)
  show ?case unfolding count_residue.simps
  proof (rule safely_seq [OF residue_read_exact], elim exE conjE, goal_cases)
    case (1 live h' v)
    show ?case
    proof (rule safely_post [OF Cons.IH], elim exE conjE)
      fix counted' h'' found
      assume f: "map fst found = rs" "h'' = h' @ residue_trace found"
        "counted' = (fst (if live = None then counted else (fst counted + 1,
           if rr_kind r = Portal_access_application then snd counted @ [loc_id (rr_provider r)] else snd counted))
             + length (still_there found),
           snd (if live = None then counted else (fst counted + 1,
           if rr_kind r = Portal_access_application then snd counted @ [loc_id (rr_provider r)] else snd counted)) @ live_applications found)"
      show "\<exists>found. map fst found = r # rs \<and> h'' = h @ residue_trace found
          \<and> counted' = (fst counted + length (still_there found), snd counted @ live_applications found)"
        by (rule exI [of _ "(r, v) # found"])
          (use f 1 in \<open>simp add: residue_trace_def still_there_def live_applications_def\<close>)
    qed
  qed
qed

lemma added_candidates: "fst (fold add_candidate ids (n, taken)) = n + card (set ids - set taken)"
proof (induction ids arbitrary: n taken)
  case (Cons i ids)
  show ?case
  proof (cases "i \<in> set taken")
    case True
    then have "add_candidate i (n, taken) = (n, taken)" by (simp add: add_candidate_def)
    then show ?thesis using True by (simp add: Cons.IH insert_Diff_if)
  next
    case False
    have "set (i # ids) - set taken = insert i (set ids - set (taken @ [i]))" using False by auto
    then have "card (set (i # ids) - set taken) = Suc (card (set ids - set (taken @ [i])))" by simp
    moreover have "add_candidate i (n, taken) = (n + 1, taken @ [i])" using False by (simp add: add_candidate_def)
    ultimately show ?thesis by (simp add: Cons.IH)
  qed
qed simp

text \<open>
  The count of an inspection: the entries of the receipt that were still there, and the applications of the hostname
  that are not among them.
\<close>

definition residue_proven :: "platform \<Rightarrow> bound_target \<Rightarrow> jval \<Rightarrow> nat \<Rightarrow> client_trace \<Rightarrow> bool" where
  "residue_proven pf bt inp n h \<longleftrightarrow> (\<exists>receipt configInput config found apps ids.
     provider_receipt (pf_sha pf) (field inp ''receipt'') = Inr receipt
     \<and> provider_config (pf_parse_url pf) (field inp ''config'') = Inr (configInput, config)
     \<and> map fst found = rc_resources receipt \<and> h = residue_trace found @ [(Read List_access_apps, Inr (JArr apps))]
     \<and> candidate_ids (is_candidate (gc_hostname config)) apps = Inr ids
     \<and> n = length (still_there found) + card (set ids - set (live_applications found)))"

lemma residue_safe: "safely (\<lambda>h c. \<not> is_mutation c) (residue_proven pf bt inp) (inspectCanaryResidue pf bt inp) []"
  unfolding inspectCanaryResidue_def inspectResidue_def
proof (intro recoded_safely inspection.ensured inspection.lifted, simp only: split_beta,
    intro inspection.ensured safely_seq [OF residue_counted] inspection.listed inspection.lifted, goal_cases)
  case (1 receipt u config counted h' apps ids)
  then show ?case by (cases config) (fastforce simp: residue_proven_def added_candidates)
qed

end
