(* ===== verification/Receipt_Ledger.thy ===== *)
theory Receipt_Ledger
  imports Receipt_Sealed
begin

text \<open>
  The ledger a receipt stands for and the journal protocol its operations follow. \<open>receipt_step\<close>
  is one successful call of an operation on a sealed receipt; \<open>ledger_step\<close> is the abstract
  protocol: write down one intent, then settle or abandon it, and retire only an empty ledger.
\<close>

section \<open>Ledgers\<close>

type_synonym resource_id = "resource_kind \<times> string"

definition ledger_of :: "receipt_resource list \<Rightarrow> resource_id \<rightharpoonup> receipt_resource" where
  "ledger_of rs = map_of (map (\<lambda>x. (identity_of x, x)) rs)"

lemma ledger_index:
  "ledger_of rs (k, key) = (case findResourceIndex rs k key of None \<Rightarrow> None | Some i \<Rightarrow> Some (rs ! i))"
  by (induction rs) (auto simp: ledger_of_def identity_of_def split: option.splits)

lemma index_Some: "findResourceIndex rs k key = Some i \<Longrightarrow> i < length rs \<and> identity_of (rs ! i) = (k, key)"
  by (induction rs arbitrary: i) (auto simp: identity_of_def split: if_splits)

lemma dom_ledger: "dom (ledger_of rs) = identity_of ` set rs"
  by (simp add: ledger_of_def dom_map_of_conv_image_fst image_image)

lemma ledger_Nil [simp]: "ledger_of [] = Map.empty"
  by (simp add: ledger_of_def)

lemma ledger_empty: "ledger_of rs = Map.empty \<longleftrightarrow> rs = []"
proof
  assume "ledger_of rs = Map.empty"
  then have "identity_of ` set rs = {}" unfolding dom_ledger [symmetric] by simp
  then show "rs = []" by simp
qed simp

lemma ledger_identity: "ledger_of rs i = Some x \<Longrightarrow> identity_of x = i \<and> x \<in> set rs"
  by (auto simp: ledger_of_def dest!: map_of_SomeD)

lemma ledger_mset:
  assumes "distinct (map identity_of rs)" "mset rs = mset rs'"
  shows "ledger_of rs = ledger_of rs'"
proof -
  have "distinct (map identity_of rs')" using assms by (metis mset_map mset_eq_imp_distinct_iff)
  moreover have "set rs = set rs'" using assms(2) by (rule mset_eq_setD)
  ultimately show ?thesis using assms(1) by (simp add: ledger_of_def map_of_inject_set comp_def)
qed

lemma ledger_Cons: "ledger_of (x # rs) = (ledger_of rs)(identity_of x \<mapsto> x)"
  by (simp add: ledger_of_def)

lemma ledger_append: "identity_of x \<notin> identity_of ` set rs \<Longrightarrow> ledger_of (rs @ [x]) = (ledger_of rs)(identity_of x \<mapsto> x)"
  by (induction rs) (auto simp: ledger_of_def fun_upd_twist)

lemma ledger_update:
  "i < length rs \<Longrightarrow> distinct (map identity_of rs) \<Longrightarrow> identity_of y = identity_of (rs ! i) \<Longrightarrow>
   ledger_of (rs[i := y]) = (ledger_of rs)(identity_of y \<mapsto> y)"
proof (induction rs arbitrary: i)
  case (Cons x rs)
  show ?case
  proof (cases i)
    case 0
    with Cons show ?thesis by (auto simp: ledger_of_def fun_eq_iff)
  next
    case (Suc j)
    then have j: "j < length rs" "identity_of y = identity_of (rs ! j)" using Cons.prems by auto
    then have ne: "identity_of y \<noteq> identity_of x" using Cons.prems(2) by (metis distinct.simps(2) image_eqI list.map(2) list.set_map nth_mem)
    have IH: "ledger_of (rs[j := y]) = (ledger_of rs)(identity_of y \<mapsto> y)"
      using Cons.prems(2) by (intro Cons.IH j) simp
    show ?thesis unfolding Suc list_update.simps nat.case ledger_Cons IH using ne by (rule fun_upd_twist)
  qed
qed simp

lemma ledger_remove:
  "i < length rs \<Longrightarrow> distinct (map identity_of rs) \<Longrightarrow>
   ledger_of (remove_nth i rs) = (ledger_of rs)(identity_of (rs ! i) := None)"
proof (induction rs arbitrary: i)
  case (Cons x rs)
  show ?case
  proof (cases i)
    case 0
    have "ledger_of rs (identity_of x) = None"
      using Cons.prems(2) dom_ledger [of rs] by (auto simp: domIff [symmetric] simp del: domIff)
    with 0 show ?thesis by (auto simp: remove_nth_def ledger_of_def fun_eq_iff)
  next
    case (Suc j)
    then have j: "j < length rs" using Cons.prems by simp
    then have ne: "identity_of (rs ! j) \<noteq> identity_of x" using Cons.prems(2) by (metis distinct.simps(2) image_eqI list.map(2) list.set_map nth_mem)
    have "remove_nth i (x # rs) = x # remove_nth j rs" by (simp add: remove_nth_def Suc)
    moreover have "ledger_of (remove_nth j rs) = (ledger_of rs)(identity_of (rs ! j) := None)"
      using Cons.prems(2) by (intro Cons.IH j) simp
    ultimately show ?thesis unfolding Suc nth_Cons_Suc by (simp only: ledger_Cons fun_upd_twist [OF ne])
  qed
qed simp

section \<open>The journal protocol\<close>

record ledger_state =
  ls_owned :: "resource_id \<rightharpoonup> receipt_resource"
  ls_pending :: "receipt_pending option"
  ls_removed :: bool

definition target_of :: "receipt_pending \<Rightarrow> resource_id" where
  "target_of p = (rp_kind p, rp_key p)"

text \<open>What an intent may be written for, and what settling it records.\<close>

definition permitted :: "(resource_id \<rightharpoonup> receipt_resource) \<Rightarrow> receipt_pending \<Rightarrow> bool" where
  "permitted owned p \<longleftrightarrow> (case rp_action p of
     Create_action \<Rightarrow> rp_type p = Apply_type \<and> owned (target_of p) = None
   | Update_action \<Rightarrow> rp_type p = Apply_type \<and> owned (target_of p) \<noteq> None
   | Delete_action \<Rightarrow> (case owned (target_of p) of None \<Rightarrow> False | Some x \<Rightarrow> rr_desiredHash x = rp_expectedDesiredHash p))"

definition settled :: "receipt_pending \<Rightarrow> receipt_resource option \<Rightarrow> receipt_resource option \<Rightarrow> bool" where
  "settled p old new \<longleftrightarrow> (case rp_action p of
     Delete_action \<Rightarrow> old \<noteq> None \<and> new = None
   | Create_action \<Rightarrow> old = None \<and> (case new of None \<Rightarrow> False
       | Some x \<Rightarrow> identity_of x = target_of p \<and> rr_desiredHash x = rp_expectedDesiredHash p)
   | Update_action \<Rightarrow> (case (old, new) of
         (Some x, Some y) \<Rightarrow> identity_of y = target_of p \<and> rr_desiredHash y = rp_expectedDesiredHash p
           \<and> rr_provider y = rr_provider x
       | _ \<Rightarrow> False))"

inductive ledger_step :: "ledger_state \<Rightarrow> ledger_state \<Rightarrow> bool" where
  note_intent: "\<lbrakk>ls_pending s = None; \<not> ls_removed s; permitted (ls_owned s) p\<rbrakk> \<Longrightarrow>
    ledger_step s (s\<lparr>ls_pending := Some p\<rparr>)"
| settle: "\<lbrakk>ls_pending s = Some p; settled p (ls_owned s (target_of p)) new\<rbrakk> \<Longrightarrow>
    ledger_step s (s\<lparr>ls_owned := (ls_owned s)(target_of p := new), ls_pending := None\<rparr>)"
| abandon: "ls_pending s = Some p \<Longrightarrow> ledger_step s (s\<lparr>ls_pending := None\<rparr>)"
| retire: "\<lbrakk>ls_pending s = None; \<not> ls_removed s; ls_owned s = Map.empty\<rbrakk> \<Longrightarrow>
    ledger_step s (s\<lparr>ls_removed := True\<rparr>)"

definition ledger :: "receipt \<Rightarrow> ledger_state" where
  "ledger r = \<lparr>ls_owned = ledger_of (rc_resources r), ls_pending = rc_pending r,
     ls_removed = (rc_state r = Removed)\<rparr>"

section \<open>Receipts in use\<close>

text \<open>One successful call of an operation on the receipt an earlier one returned.\<close>

inductive receipt_step :: "(string \<Rightarrow> string) \<Rightarrow> receipt \<Rightarrow> receipt \<Rightarrow> bool" for sha where
  step_update: "updateInstallationReceipt sha (receipt_value r) u = Inr r' \<Longrightarrow> receipt_step sha r r'"
| step_begin: "beginReceiptAction sha (receipt_value r) intent = Inr r' \<Longrightarrow> receipt_step sha r r'"
| step_commit: "commitReceiptAction sha (receipt_value r) result = Inr r' \<Longrightarrow> receipt_step sha r r'"
| step_clear: "clearReceiptAction sha (receipt_value r) i = Inr r' \<Longrightarrow> receipt_step sha r r'"
| step_mark: "markReceiptRemoved sha (receipt_value r) = Inr r' \<Longrightarrow> receipt_step sha r r'"

inductive receipt_reachable :: "(string \<Rightarrow> string) \<Rightarrow> receipt \<Rightarrow> bool" for sha where
  created: "createInstallationReceipt sha input = Inr r \<Longrightarrow> receipt_reachable sha r"
| stepped: "receipt_reachable sha r \<Longrightarrow> receipt_step sha r r' \<Longrightarrow> receipt_reachable sha r'"

lemma sealed_unique: "sealed sha r \<Longrightarrow> unique_resources (rc_resources r)"
  by (simp add: sealed_def receipt_ok_def)

lemma unique_identities: "unique_resources rs \<Longrightarrow> distinct (map identity_of rs)"
  by (simp add: unique_resources_def)

lemma ledger_sorted: "unique_resources rs \<Longrightarrow> ledger_of (js_sort compareResources rs) = ledger_of rs"
  by (rule ledger_mset) (simp_all add: unique_resources_def)

lemma provider_of_identity:
  assumes "providerIdentity k l = providerIdentity k m" "valid_locator k l" "valid_locator k m"
  shows "l = m"
proof -
  have "providerLocatorText (Some l) = providerLocatorText (Some m)"
    using assms(1) by (simp add: providerIdentity_def providerLocatorText_def)
  then have "Some l = Some m"
    using assms(2,3) by (intro providerLocatorText_inject [of _ k]) auto
  then show ?thesis by simp
qed

lemma commit_provider:
  assumes "normalizeCommitResult v p inst = Inr c"
  shows "(case cr_provider c of None \<Rightarrow> rp_action p \<noteq> Create_action | Some l \<Rightarrow> valid_locator (rp_kind p) l)"
proof -
  define np where "np = (if field v ''provider'' = Undef then (None, [])
    else map_prod Some id (normalizeProvider (field v ''provider'') ''result.provider'' (rp_kind p)))"
  have "cr_provider c = fst np \<and> snd np = [] \<and> (rp_action p = Create_action \<longrightarrow> fst np \<noteq> None)"
    using assms unfolding normalizeCommitResult_def Let_def case_prod_beta if_Inl andThen_Inr np_def [symmetric]
    by (elim conjE exE) (auto simp only: append_is_Nil_conv sum.inject commit_result.simps not_not split: if_split_asm)
  then show ?thesis
    by (cases "normalizeProvider (field v ''provider'') ''result.provider'' (rp_kind p)")
       (auto simp: np_def dest!: provider_N(1) split: if_splits)
qed

text \<open>Committing settles the pending intent and touches no other resource.\<close>

lemma committed_settles:
  assumes "committed_resources rs p c = Inr rs'" "unique_resources rs" "list_all ok_resource rs"
    and "case cr_provider c of None \<Rightarrow> rp_action p \<noteq> Create_action | Some l \<Rightarrow> valid_locator (rp_kind p) l"
  shows "\<exists>new. settled p (ledger_of rs (target_of p)) new \<and> ledger_of rs' = (ledger_of rs)(target_of p := new)"
proof (cases "findResourceIndex rs (rp_kind p) (rp_key p)")
  case None
  then have L: "ledger_of rs (target_of p) = None" by (simp add: target_of_def ledger_index)
  then have fresh: "target_of p \<notin> identity_of ` set rs" using dom_ledger [of rs] by (auto simp: domIff)
  from assms(1) None obtain l where c: "rp_action p = Create_action"
    "rs' = rs @ [\<lparr>rr_desiredHash = rp_expectedDesiredHash p,
      rr_identityHash = non_empty (cr_identityHash c), rr_key = rp_key p,
      rr_kind = rp_kind p, rr_marker = non_empty (cr_marker c), rr_provider = l\<rparr>]"
    by (auto simp: committed_resources_def split: receipt_action.splits option.splits)
  let ?x = "\<lparr>rr_desiredHash = rp_expectedDesiredHash p,
      rr_identityHash = non_empty (cr_identityHash c), rr_key = rp_key p,
      rr_kind = rp_kind p, rr_marker = non_empty (cr_marker c), rr_provider = l\<rparr>"
  have i: "identity_of ?x = target_of p" by (simp add: identity_of_def target_of_def)
  then have "ledger_of rs' = (ledger_of rs)(target_of p \<mapsto> ?x)"
    using ledger_append [of ?x rs] fresh by (simp add: c(2))
  moreover have "settled p None (Some ?x)" by (simp add: settled_def c(1) i)
  ultimately show ?thesis using L by metis
next
  case (Some i)
  note idx = index_Some [OF Some]
  have L: "ledger_of rs (target_of p) = Some (rs ! i)" by (simp add: target_of_def ledger_index Some)
  have id: "identity_of (rs ! i) = target_of p" using idx by (simp add: target_of_def)
  note dist = unique_identities [OF assms(2)]
  from assms(1) Some consider "rp_action p = Delete_action" "rs' = remove_nth i rs" | "rp_action p = Update_action"
    by (auto simp: committed_resources_def split: receipt_action.splits)
  then show ?thesis
  proof cases
    case 1
    then have "ledger_of rs' = (ledger_of rs)(target_of p := None)"
      using ledger_remove [OF conjunct1 [OF idx] dist] id by simp
    then show ?thesis using L 1(1) by (auto simp: settled_def)
  next
    case 2
    define y where "y = (rs ! i)\<lparr>rr_desiredHash := rp_expectedDesiredHash p,
      rr_marker := or_keep (cr_marker c) (rr_marker (rs ! i)),
      rr_identityHash := or_keep (cr_identityHash c) (rr_identityHash (rs ! i))\<rparr>"
    have rs': "rs' = rs[i := y]"
      using assms(1) Some 2 by (auto simp: committed_resources_def Let_def y_def split: option.splits if_splits)
    have yid: "identity_of y = identity_of (rs ! i)" by (simp add: y_def identity_of_def)
    have "ledger_of rs' = (ledger_of rs)(target_of p \<mapsto> y)"
      using ledger_update [OF conjunct1 [OF idx] dist yid] id yid by (simp add: rs')
    moreover have "settled p (Some (rs ! i)) (Some y)"
      using 2 id yid by (simp add: settled_def y_def)
    ultimately show ?thesis using L by metis
  qed
qed

section \<open>Refinement\<close>

lemma step_refines:
  assumes "sealed sha r" "receipt_step sha r r'"
  shows "sealed sha r' \<and> (ledger r' = ledger r \<or> ledger_step (ledger r) (ledger r'))"
proof -
  note valid = sealed_validates [OF assms(1)]
  from assms(2) show ?thesis
  proof cases
    case (step_update u)
    then show ?thesis
    proof (cases rule: update_Inr)
      case same
      then show ?thesis using valid assms(1) by simp
    next
      case (updated r0 h)
      then have [simp]: "r0 = r" using valid by simp
      have "rc_resources r' = rc_resources r \<and> rc_pending r' = rc_pending r \<and> rc_state r' = rc_state r"
        by (subst updated(4), subst (2) updated(4), subst (3) updated(4)) simp
      then show ?thesis using updated by (simp add: ledger_def)
    qed
  next
    case (step_begin intent)
    then obtain p h where intent: "normalizePending intent ''intent'' = Inr p"
      and p: "rc_state r \<noteq> Removed" "rc_pending r = None"
      "rp_type p = Uninstall_type \<longrightarrow> rp_action p = Delete_action"
      "rp_action p = Create_action \<longleftrightarrow> findResourceIndex (rc_resources r) (rp_kind p) (rp_key p) = None"
      "\<forall>i. rp_action p = Delete_action \<longrightarrow> findResourceIndex (rc_resources r) (rp_kind p) (rp_key p) = Some i \<longrightarrow>
         rr_desiredHash (rc_resources r ! i) = rp_expectedDesiredHash p"
      and r': "r' = r\<lparr>rc_state := (if rp_type p = Uninstall_type then Uninstalling else Installing),
         rc_revision := rc_revision r + 1, rc_pending := Some p, rc_checksum := Some h\<rparr>" "sealed sha r'"
      by (rule begin_Inr [OF _ valid])
    have "permitted (ledger_of (rc_resources r)) p"
      using p(3-5)
      by (cases "rp_action p"; cases "rp_type p")
         (auto simp: permitted_def target_of_def ledger_index split: option.splits)
    then have "ledger_step (ledger r) ((ledger r)\<lparr>ls_pending := Some p\<rparr>)"
      using p(1,2) by (intro note_intent) (simp_all add: ledger_def)
    moreover have "ledger r' = (ledger r)\<lparr>ls_pending := Some p\<rparr>" using p(1) by (simp add: ledger_def r'(1))
    ultimately show ?thesis using r'(2) by simp
  next
    case (step_commit result)
    then obtain p c rs h where p: "rc_pending r = Some p"
      "normalizeCommitResult result p (rc_installationId r) = Inr c"
      "committed_resources (rc_resources r) p c = Inr rs" "unique_resources rs"
      and r': "r' = r\<lparr>rc_state := (if rp_type p = Uninstall_type then Uninstalling else Ready),
         rc_revision := rc_revision r + 1, rc_resources := js_sort compareResources rs, rc_pending := None,
         rc_checksum := Some h\<rparr>" "sealed sha r'"
      by (rule commit_Inr [OF _ valid])
    have ok: "unique_resources (rc_resources r)" "list_all ok_resource (rc_resources r)" "rc_state r \<noteq> Removed"
      using assms(1) p(1) by (auto simp: sealed_def receipt_ok_def consistent_def)
    obtain new where new: "settled p (ledger_of (rc_resources r) (target_of p)) new"
      "ledger_of rs = (ledger_of (rc_resources r))(target_of p := new)"
      using committed_settles [OF p(3) ok(1,2) commit_provider [OF p(2)]] by blast
    have "ledger_step (ledger r) ((ledger r)\<lparr>ls_owned := (ls_owned (ledger r))(target_of p := new), ls_pending := None\<rparr>)"
      using p(1) new(1) by (intro settle) (simp_all add: ledger_def)
    moreover have "ledger r' = (ledger r)\<lparr>ls_owned := (ls_owned (ledger r))(target_of p := new), ls_pending := None\<rparr>"
      using new(2) ledger_sorted [OF p(4)] ok(3) by (simp add: ledger_def r'(1))
    ultimately show ?thesis using r'(2) by simp
  next
    case (step_clear i)
    then show ?thesis
    proof (cases rule: clear_Inr)
      case idle
      then show ?thesis using valid assms(1) by simp
    next
      case (cleared r0 p h)
      then have [simp]: "r0 = r" using valid by simp
      have "rc_state r \<noteq> Removed" using assms(1) cleared by (auto simp: sealed_def receipt_ok_def consistent_def)
      then have "ledger r' = (ledger r)\<lparr>ls_pending := None\<rparr>" using cleared by (simp add: ledger_def)
      moreover have "ledger_step (ledger r) ((ledger r)\<lparr>ls_pending := None\<rparr>)"
        using cleared by (intro abandon [of _ p]) (simp add: ledger_def)
      ultimately show ?thesis using cleared by simp
    qed
  next
    case step_mark
    then show ?thesis
    proof (cases rule: mark_Inr)
      case already
      then show ?thesis using valid assms(1) by simp
    next
      case (marked r0 h)
      then have [simp]: "r0 = r" using valid by simp
      have "ledger r' = (ledger r)\<lparr>ls_removed := True\<rparr>" using marked by (simp add: ledger_def)
      moreover have "ledger_step (ledger r) ((ledger r)\<lparr>ls_removed := True\<rparr>)"
        using marked by (intro retire) (simp_all add: ledger_def)
      ultimately show ?thesis using marked by simp
    qed
  qed
qed

lemma created_sealed:
  assumes "createInstallationReceipt sha input = Inr r"
  shows "sealed sha r" "rc_pending r = None" "rc_state r = Ready" "rc_revision r = 0"
proof -
  from assms obtain kvs where "sealReceipt sha (JObj kvs) = Inr r" "field (JObj kvs) ''pending'' = JNull"
    "field (JObj kvs) ''state'' = JStr ''ready''" "field (JObj kvs) ''revision'' = jint 0"
    by (auto simp: createInstallationReceipt_def Let_def split: if_splits)
  moreover from this obtain n h where n: "normalizeReceipt (JObj kvs) False = Inr n" "r = n\<lparr>rc_checksum := Some h\<rparr>" "sealed sha r"
    by (blast elim: sealReceipt_Inr)
  moreover have "parse_state (JStr ''ready'') = Some Ready" using parse_state_text [of Ready] by simp
  ultimately show "sealed sha r" "rc_pending r = None" "rc_state r = Ready" "rc_revision r = 0"
    by (auto simp: normalizeReceipt_def is_safe_integer_def MAX_SAFE_INTEGER_def simp del: field.simps split: if_splits)
qed

lemma reachable_sealed: "receipt_reachable sha r \<Longrightarrow> sealed sha r"
  by (induction rule: receipt_reachable.induct) (auto dest: created_sealed(1) step_refines)

end
