(* ===== verification/Receipt_Binding.thy ===== *)
theory Receipt_Binding
  imports Receipt_Ledger Plan_Identity
begin

text \<open>
  What a checksum binds: two receipt records with one canonical text are the same up to their
  checksums, so equal checksums mean equal receipts or a collision of the digest.
\<close>

lemma resource_fields:
  "field (resource_value x) ''kind'' = JStr (kind_text (rr_kind x))" "field (resource_value x) ''key'' = JStr (rr_key x)"
  "field (resource_value x) ''provider'' = locator_value (rr_provider x)"
  "field (resource_value x) ''desiredHash'' = JStr (rr_desiredHash x)"
  "field (resource_value x) ''marker'' = (case rr_marker x of None \<Rightarrow> Undef | Some m \<Rightarrow> JStr m)"
  "field (resource_value x) ''identityHash'' = (case rr_identityHash x of None \<Rightarrow> Undef | Some m \<Rightarrow> JStr m)"
  by (simp_all add: resource_value_def opt_entry_def split: option.split)

lemma resource_well_formed: "well_formed (resource_value x)"
  by (simp add: resource_value_def opt_entry_def well_formed_entries_iff split: option.split)

lemma resource_binds:
  assumes "sort_keys (resource_value x) = sort_keys (resource_value y)" shows "x = y"
proof -
  note f = sort_keys_field [OF assms resource_well_formed resource_well_formed]
  have "rr_kind x = rr_kind y" using f [of "''kind''"] by (simp add: resource_fields)
  moreover have "rr_key x = rr_key y" using f [of "''key''"] by (simp add: resource_fields)
  moreover have "rr_provider x = rr_provider y" using f [of "''provider''"] by (simp add: resource_fields locator_review)
  moreover have "rr_desiredHash x = rr_desiredHash y" using f [of "''desiredHash''"] by (simp add: resource_fields)
  moreover have "rr_marker x = rr_marker y" using f [of "''marker''"] by (simp add: resource_fields split: option.splits)
  moreover have "rr_identityHash x = rr_identityHash y"
    using f [of "''identityHash''"] by (simp add: resource_fields split: option.splits)
  ultimately show ?thesis by simp
qed

lemma pending_fields:
  "field (pending_value q) ''type'' = JStr (type_text (rp_type q))"
  "field (pending_value q) ''action'' = JStr (receipt_action_text (rp_action q))"
  "field (pending_value q) ''kind'' = JStr (kind_text (rp_kind q))"
  "field (pending_value q) ''key'' = JStr (rp_key q)" "field (pending_value q) ''planId'' = JStr (rp_planId q)"
  "field (pending_value q) ''operationId'' = JStr (rp_operationId q)"
  "field (pending_value q) ''expectedDesiredHash'' = JStr (rp_expectedDesiredHash q)"
  "field (pending_value q) ''requestHash'' = JStr (rp_requestHash q)"
  "field (pending_value q) ''pruneApprovalId'' = (case rp_pruneApprovalId q of None \<Rightarrow> Undef | Some i \<Rightarrow> JStr i)"
  by (simp_all add: pending_value_def opt_entry_def split: option.split)

lemma pending_well_formed: "well_formed (pending_value q)"
  by (simp add: pending_value_def opt_entry_def well_formed_entries_iff split: option.split)

lemma enum_text_inject [simp]:
  "type_text t = type_text t' \<longleftrightarrow> t = t'" "receipt_action_text a = receipt_action_text a' \<longleftrightarrow> a = a'"
  "state_text s = state_text s' \<longleftrightarrow> s = s'"
proof -
  show "type_text t = type_text t' \<longleftrightarrow> t = t'" by (cases t; cases t') simp_all
  show "receipt_action_text a = receipt_action_text a' \<longleftrightarrow> a = a'" by (cases a; cases a') simp_all
  show "state_text s = state_text s' \<longleftrightarrow> s = s'" by (cases s; cases s') simp_all
qed

lemma pending_binds:
  assumes "sort_keys (pending_value p) = sort_keys (pending_value q)" shows "p = q"
proof -
  note f = sort_keys_field [OF assms pending_well_formed pending_well_formed]
  have "rp_type p = rp_type q" using f [of "''type''"] by (simp add: pending_fields)
  moreover have "rp_action p = rp_action q" using f [of "''action''"] by (simp add: pending_fields)
  moreover have "rp_kind p = rp_kind q" using f [of "''kind''"] by (simp add: pending_fields)
  moreover have "rp_key p = rp_key q" using f [of "''key''"] by (simp add: pending_fields)
  moreover have "rp_planId p = rp_planId q" using f [of "''planId''"] by (simp add: pending_fields)
  moreover have "rp_operationId p = rp_operationId q" using f [of "''operationId''"] by (simp add: pending_fields)
  moreover have "rp_expectedDesiredHash p = rp_expectedDesiredHash q"
    using f [of "''expectedDesiredHash''"] by (simp add: pending_fields)
  moreover have "rp_requestHash p = rp_requestHash q" using f [of "''requestHash''"] by (simp add: pending_fields)
  moreover have "rp_pruneApprovalId p = rp_pruneApprovalId q"
    using f [of "''pruneApprovalId''"] by (simp add: pending_fields split: option.splits)
  ultimately show ?thesis by simp
qed

lemma target_binds:
  assumes "sort_keys (target_value s) = sort_keys (target_value t)" shows "s = t"
proof -
  have wf: "well_formed (target_value x)" for x by (simp add: target_value_def)
  note f = sort_keys_field [OF assms wf wf]
  show ?thesis
    using f [of "''accountId''"] f [of "''zoneId''"] f [of "''zoneName''"] f [of "''hostname''"]
    by (simp add: target_value_def)
qed

lemma policy_binds:
  assumes "sort_keys (policy_value a) = sort_keys (policy_value b)" "ok_policy a" "ok_policy b" shows "a = b"
proof -
  have wf: "ok_policy x \<Longrightarrow> well_formed (policy_value x)" for x
    by (simp add: policy_value_def ok_policy_def is_safe_integer_def MAX_SAFE_INTEGER_def)
  note f = sort_keys_field [OF assms(1) wf wf, OF assms(2,3)]
  show ?thesis
    using f [of "''identityType''"] f [of "''identityCount''"] f [of "''identitiesHash''"]
    by (simp add: policy_value_def)
qed

lemma map_sort_keys_inject:
  assumes "\<And>x y. sort_keys (f x) = sort_keys (f y) \<Longrightarrow> x = y" "map (\<lambda>x. sort_keys (f x)) xs = map (\<lambda>x. sort_keys (f x)) ys"
  shows "xs = ys"
  using assms(2) by (rule list.inj_map_strong [rotated]) (rule assms(1))

lemma receipt_well_formed:
  assumes "receipt_ok r" shows "well_formed (receipt_value (withoutChecksum r))"
proof -
  have "ok_policy (rc_accessPolicy r)" "is_safe_integer (rc_revision r)" using assms by (simp_all add: receipt_ok_def)
  then have "well_formed (policy_value (rc_accessPolicy r))"
    by (simp add: policy_value_def ok_policy_def is_safe_integer_def MAX_SAFE_INTEGER_def)
  moreover have "well_formed (target_value t)" for t by (simp add: target_value_def)
  moreover have "well_formed (case rc_pending r of None \<Rightarrow> JNull | Some p \<Rightarrow> pending_value p)"
    by (simp add: pending_well_formed split: option.split)
  ultimately show ?thesis
    using \<open>is_safe_integer (rc_revision r)\<close>
    by (simp add: receipt_value_def withoutChecksum_def opt_entry_def well_formed_items_iff list.pred_map comp_def
        resource_well_formed list_all_iff is_safe_integer_def MAX_SAFE_INTEGER_def)
qed

lemma receipt_binds:
  assumes eq: "sort_keys (receipt_value (withoutChecksum r)) = sort_keys (receipt_value (withoutChecksum s))"
    and ok: "receipt_ok r" "receipt_ok s"
  shows "withoutChecksum r = withoutChecksum s"
proof -
  note f = sort_keys_field [OF eq receipt_well_formed receipt_well_formed, OF ok]
  have [simp]: "rc_resources (withoutChecksum x) = rc_resources x" "rc_pending (withoutChecksum x) = rc_pending x"
    "rc_target (withoutChecksum x) = rc_target x" "rc_accessPolicy (withoutChecksum x) = rc_accessPolicy x" for x
    by (simp_all add: withoutChecksum_def)
  have "rc_installationId r = rc_installationId s"
    using f [of "''installationId''"] by (simp add: withoutChecksum_def)
  moreover have "rc_state r = rc_state s" using f [of "''state''"] by (simp add: withoutChecksum_def)
  moreover have "rc_revision r = rc_revision s" using f [of "''revision''"] by (simp add: withoutChecksum_def)
  moreover have "rc_release r = rc_release s" using f [of "''release''"] by (simp add: withoutChecksum_def)
  moreover have "rc_desiredHash r = rc_desiredHash s" using f [of "''desiredHash''"] by (simp add: withoutChecksum_def)
  moreover have "rc_target r = rc_target s" using f [of "''target''"] by (simp add: target_binds)
  moreover have "rc_accessPolicy r = rc_accessPolicy s"
    using f [of "''accessPolicy''"] ok by (simp add: policy_binds receipt_ok_def)
  moreover have "rc_resources r = rc_resources s"
    using f [of "''resources''"]
    by (intro map_sort_keys_inject [of resource_value, OF resource_binds]) (auto simp: sort_keys_items_map comp_def)
  moreover have "rc_pending r = rc_pending s"
    using f [of "''pending''"] by (auto simp: eq_commute [of JNull] dest!: pending_binds split: option.splits)
  ultimately show ?thesis by (simp add: withoutChecksum_def)
qed

lemma sealed_checksum:
  "sealed sha r \<Longrightarrow> \<exists>h. rc_checksum r = Some h \<and> hashCanonical sha (receipt_value (withoutChecksum r)) = Some h"
  by (auto simp: sealed_def unsigned_digest_def split: option.splits)

lemma withoutChecksum_eq: "withoutChecksum r = withoutChecksum s \<Longrightarrow> rc_checksum r = rc_checksum s \<Longrightarrow> r = s"
  by (cases r; cases s) (simp add: withoutChecksum_def)

lemma checksum_binds:
  assumes "sealed sha r" "sealed sha s" "rc_checksum r = rc_checksum s"
  shows "r = s \<or> (\<exists>t u. canonicalJson (receipt_value (withoutChecksum r)) = Some t
    \<and> canonicalJson (receipt_value (withoutChecksum s)) = Some u \<and> collision sha t u)"
proof -
  have ok: "receipt_ok r" "receipt_ok s" using assms by (simp_all add: sealed_def)
  obtain h where "hashCanonical sha (receipt_value (withoutChecksum r)) = Some h"
    "hashCanonical sha (receipt_value (withoutChecksum s)) = Some h"
    using sealed_checksum [OF assms(1)] sealed_checksum [OF assms(2)] assms(3) by auto
  from hashCanonical_inject [OF receipt_well_formed [OF ok(1)] receipt_well_formed [OF ok(2)] this]
  show ?thesis using receipt_binds [OF _ ok] withoutChecksum_eq assms(3) by blast
qed

section \<open>The fields a step keeps\<close>

lemma step_fields:
  assumes "sealed sha r" "receipt_step sha r r'"
  shows "r' = r \<or> rc_revision r' = rc_revision r + 1"
    and "rc_installationId r' = rc_installationId r" "rc_target r' = rc_target r"
    and "rc_state r = Removed \<Longrightarrow> r' = r"
    and "rc_state r' = Installing \<longrightarrow> rc_pending r' \<noteq> None \<or> rc_state r = Installing \<and> rc_pending r = None"
proof -
  note valid = sealed_validates [OF assms(1)]
  have cons: "rc_state r = Removed \<Longrightarrow> rc_pending r = None"
    using assms(1) by (auto simp: sealed_def receipt_ok_def consistent_def)
  have "(r' = r \<or> rc_revision r' = rc_revision r + 1) \<and> rc_installationId r' = rc_installationId r \<and> rc_target r' = rc_target r
    \<and> (rc_state r = Removed \<longrightarrow> r' = r)
    \<and> (rc_state r' = Installing \<longrightarrow> rc_pending r' \<noteq> None \<or> rc_state r = Installing \<and> rc_pending r = None)"
    using assms(2)
  proof cases
    case (step_update u)
    then show ?thesis
    proof (cases rule: update_Inr)
      case same
      then show ?thesis using valid by simp
    next
      case (updated r0 h)
      then have [simp]: "r0 = r" using valid by simp
      have "rc_revision r' = rc_revision r + 1 \<and> rc_installationId r' = rc_installationId r \<and> rc_target r' = rc_target r
        \<and> rc_state r' = rc_state r"
        by (subst updated(4), subst (2) updated(4), subst (3) updated(4), subst (4) updated(4)) simp
      then show ?thesis using updated by auto
    qed
  next
    case (step_begin intent)
    then obtain p h where "normalizePending intent ''intent'' = Inr p" "rc_state r \<noteq> Removed" "rc_pending r = None"
      "rp_type p = Uninstall_type \<longrightarrow> rp_action p = Delete_action"
      "rp_action p = Create_action \<longleftrightarrow> findResourceIndex (rc_resources r) (rp_kind p) (rp_key p) = None"
      "\<forall>i. rp_action p = Delete_action \<longrightarrow> findResourceIndex (rc_resources r) (rp_kind p) (rp_key p) = Some i \<longrightarrow>
         rr_desiredHash (rc_resources r ! i) = rp_expectedDesiredHash p"
      "r' = r\<lparr>rc_state := (if rp_type p = Uninstall_type then Uninstalling else Installing),
         rc_revision := rc_revision r + 1, rc_pending := Some p, rc_checksum := Some h\<rparr>" "sealed sha r'"
      by (rule begin_Inr [OF _ valid])
    then show ?thesis by simp
  next
    case (step_commit result)
    then obtain p c rs h where "rc_pending r = Some p"
      "normalizeCommitResult result p (rc_installationId r) = Inr c"
      "committed_resources (rc_resources r) p c = Inr rs" "unique_resources rs"
      "r' = r\<lparr>rc_state := (if rp_type p = Uninstall_type then Uninstalling else Ready),
         rc_revision := rc_revision r + 1, rc_resources := js_sort compareResources rs, rc_pending := None,
         rc_checksum := Some h\<rparr>" "sealed sha r'"
      by (rule commit_Inr [OF _ valid])
    then show ?thesis using cons by auto
  next
    case (step_clear i)
    then show ?thesis using valid cons by (cases rule: clear_Inr) auto
  next
    case step_mark
    then show ?thesis using valid by (cases rule: mark_Inr) auto
  qed
  then show "r' = r \<or> rc_revision r' = rc_revision r + 1" "rc_installationId r' = rc_installationId r"
    "rc_target r' = rc_target r" "rc_state r = Removed \<Longrightarrow> r' = r"
    "rc_state r' = Installing \<longrightarrow> rc_pending r' \<noteq> None \<or> rc_state r = Installing \<and> rc_pending r = None"
    by blast+
qed

text \<open>A receipt in use is installing only while an action is pending.\<close>

lemma reachable_installing: "receipt_reachable sha r \<Longrightarrow> rc_state r = Installing \<longrightarrow> rc_pending r \<noteq> None"
proof (induction rule: receipt_reachable.induct)
  case (created input r)
  then show ?case using created_sealed(3) by simp
next
  case (stepped r r')
  show ?case using step_fields(5) [OF reachable_sealed [OF stepped.hyps(1)] stepped.hyps(2)] stepped.IH by blast
qed

end
