(* ===== verification/Plan_Properties.thy ===== *)
theory Plan_Properties
  imports Plan_Identity
begin

text \<open>
  The properties of the planner, over \<open>buildDesiredResources\<close>, \<open>reconcile\<close> and \<open>plan_of\<close>, the last
  being everything \<open>buildGatewayPlan\<close> does after it has validated its inputs.
\<close>

section \<open>Concrete inputs\<close>

definition sample_sha :: "string \<Rightarrow> string" where
  "sample_sha t = replicate 64 CHR ''a''"

definition sample_hash :: string where
  "sample_hash = ''sha256:'' @ replicate 64 CHR ''a''"

definition sample_desired :: desired_resource where
  "sample_desired = \<lparr>rs_kind = Portal, rs_key = ''portal-a'', rs_desired = JObj [(''name'', JStr ''x'')],
     dr_desiredHash = sample_hash\<rparr>"

definition sample_observed :: "string \<Rightarrow> string \<Rightarrow> observed_resource" where
  "sample_observed key h = \<lparr>ob_kind = Portal, ob_key = key, ob_desiredHash = h, ob_ownerInstallationId = ''acg-a'',
     ob_ownerMatchesManager = True, ob_provider = Some \<lparr>loc_id = ''p1'', loc_parentId = None\<rparr>\<rparr>"

definition sample_state :: desired_state where
  "sample_state = \<lparr>ds_accessPolicy = \<lparr>ap_identityType = ''email'', ap_identityCount = 1, ap_identitiesHash = sample_hash\<rparr>,
     ds_blockers = [], ds_desiredHash = sample_hash, ds_installationId = ''acg-a'', ds_resources = [sample_desired]\<rparr>"

lemma sample_hex: "hex_digest sample_sha"
  by (simp add: hex_digest_def sample_sha_def list_all_iff char_class_defs)

lemma sample_state_canonical: "list_all (\<lambda>d. canonicalJson (rs_desired d) \<noteq> None) (ds_resources sample_state)"
  by (simp add: sample_state_def sample_desired_def)

section \<open>Desired resources\<close>

text \<open>
  The desired resources of a configuration are well formed: three per source and four for the
  portal, every key is a valid resource key of at most 32 characters, and every desired hash has the
  form of a SHA-256 digest, for any digest function that returns 64 hexadecimal digits.
\<close>

theorem desired_resources_valid:
  assumes "hex_digest sha" "buildDesiredResources sha config access inst = Some rs"
  shows "length rs = 3 * length (gc_sources config) + 4
    \<and> list_all (\<lambda>r. test RESOURCE_KEY (rs_key r) \<and> length (rs_key r) \<le> 32 \<and> test HASH (dr_desiredHash r)) rs"
  using desired_structure [OF assms(2)] derived_key_valid [OF assms(1)] hashCanonical_HASH [OF assms(1)]
  by (fastforce simp: list_all_iff)

text \<open>
  Dependencies come first: in the list of desired resources, which is the order a deployment
  creates them in, every key another resource's desired object refers to (a source's server from
  its application, policies and the portal's source mappings; the portal from its application, its
  policy and the DNS record) belongs to a resource earlier in the list.
\<close>

theorem desired_dependencies_first:
  assumes "buildDesiredResources sha config access inst = Some rs" "i < length rs"
  shows "set (dependencies (rs_desired (rs ! i))) \<subseteq> set (map rs_key (take i rs))"
  using dependencies_first_nth [OF desired_structure(1) [OF assms(1)], of i] assms(2)
  by (simp add: take_map comp_def)

definition sample_access :: normalized_access where
  "sample_access = \<lparr>na_accessGroups = [], na_accessGroupsProvided = False, na_allowedEmails = [''a@b.io''],
     na_allowedEmailsProvided = True, na_canaryServiceIdentity = False, na_identitiesHash = sample_hash,
     na_invalidAccessGroupCount = 0, na_invalidEmailCount = 0\<rparr>"

definition sample_gateway :: gateway_config where
  "sample_gateway = \<lparr>gc_name = ''T'', gc_hostname = ''m.io'', gc_codeMode = ''off'', gc_capabilityMode = ''read_only'',
     gc_sources = [\<lparr>gs_id = ''s'', gs_label = ''S'', gs_url = ''https://a.io/'',
       gs_authentication = \<lparr>sa_mode = ''none'', sa_onBehalfOfUser = False\<rparr>, gs_accessGroup = None,
       gs_enabledTools = [''t'']\<rparr>]\<rparr>"

theorem desired_resources_valid_witness:
  "\<exists>rs. buildDesiredResources sample_sha sample_gateway sample_access ''acg-a'' = Some rs \<and> length rs = 7"
proof -
  obtain rs where rs: "buildDesiredResources sample_sha sample_gateway sample_access ''acg-a'' = Some rs"
    using buildDesiredResources_total by blast
  from desired_resources_valid [OF sample_hex this] have "length rs = 7" by (simp add: sample_gateway_def)
  with rs show ?thesis by blast
qed

theorem desired_dependencies_first_witness:
  "\<exists>rs. buildDesiredResources sample_sha sample_gateway sample_access ''acg-a'' = Some rs
    \<and> set (dependencies (rs_desired (rs ! 1))) \<subseteq> set (map rs_key (take 1 rs))"
proof -
  obtain rs where rs: "buildDesiredResources sample_sha sample_gateway sample_access ''acg-a'' = Some rs"
    using buildDesiredResources_total by blast
  then have "1 < length rs" using desired_structure(2) by (simp add: sample_gateway_def)
  from desired_dependencies_first [OF rs this] rs show ?thesis by blast
qed

section \<open>Reconciliation\<close>

text \<open>
  A plan touches only what the installation owns: every update, deletion or no-op names the
  kind and key of exactly one observed resource that carries this installation's ownership marker,
  and carries that resource's locator.
\<close>

theorem plan_touches_owned:
  assumes "c \<in> set (fst (reconcile ds obs inst))" "pc_action c \<in> {Update, Delete, Noop}"
  shows "\<exists>ob. filter (\<lambda>ob. ob_kind ob = pc_kind c \<and> ob_key ob = pc_key c \<and> isOwned ob inst) obs = [ob]
    \<and> pc_provider c = ob_provider ob"
  using assms by (rule reconcile_owned)

theorem plan_touches_owned_witness:
  "\<exists>ob. filter (\<lambda>ob. ob_kind ob = Portal \<and> ob_key ob = ''portal-b'' \<and> isOwned ob ''acg-a'')
      [sample_observed ''portal-b'' sample_hash] = [ob]
    \<and> Some \<lparr>loc_id = ''p1'', loc_parentId = None\<rparr> = ob_provider ob"
proof -
  let ?c = "\<lparr>pc_action = Delete, pc_kind = Portal, pc_key = ''portal-b'', pc_desiredHash = None, pc_desired = None,
    pc_provider = Some \<lparr>loc_id = ''p1'', loc_parentId = None\<rparr>, pc_reason = Some ''stale_owned_resource''\<rparr>"
  have "?c \<in> set (fst (reconcile [] [sample_observed ''portal-b'' sample_hash] ''acg-a''))" by code_simp
  from plan_touches_owned [OF this] show ?thesis by simp
qed

text \<open>
  C28. Reconciliation converges in one step: when the desired resources have distinct identities and
  nothing conflicts, carrying out every change on a provider that accepts it leaves a state whose
  reconciliation has nothing to do.
\<close>

theorem plan_converges:
  assumes "distinct (map desiredIdentity ds)"
    and "\<not> list_ex (\<lambda>c. pc_action c = Conflict) (fst (reconcile ds obs inst))"
  shows "list_all (\<lambda>c. pc_action c = Noop)
    (fst (reconcile ds (fold (carry_out inst) (fst (reconcile ds obs inst)) obs) inst))"
  unfolding all_noop_iff_realised using assms by (rule carry_out_realises)

theorem plan_converges_witness:
  "list_all (\<lambda>c. pc_action c = Noop) (fst (reconcile [sample_desired]
     (fold (carry_out ''acg-a'')
       (fst (reconcile [sample_desired] [sample_observed ''portal-a'' [], sample_observed ''portal-b'' []] ''acg-a''))
       [sample_observed ''portal-a'' [], sample_observed ''portal-b'' []]) ''acg-a''))"
proof (rule plan_converges)
  show "\<not> list_ex (\<lambda>c. pc_action c = Conflict)
      (fst (reconcile [sample_desired] [sample_observed ''portal-a'' [], sample_observed ''portal-b'' []] ''acg-a''))"
    by code_simp
qed simp

text \<open>
  A plan with nothing to do is a healthy gateway, and only that: every change is a no-op exactly
  when each desired resource is observed once, owned and with the desired hash, and no other
  resource of this installation exists.
\<close>

theorem plan_noop_iff_realised:
  "list_all (\<lambda>c. pc_action c = Noop) (fst (reconcile ds obs inst)) \<longleftrightarrow>
   list_all (\<lambda>d. case filter (\<lambda>ob. observedIdentity ob = desiredIdentity d) obs of
       [ob] \<Rightarrow> isOwned ob inst \<and> ob_desiredHash ob = dr_desiredHash d | _ \<Rightarrow> False) ds
   \<and> filter (\<lambda>ob. observedIdentity ob \<notin> desiredIdentity ` set ds \<and> isOwned ob inst) obs = []"
  unfolding all_noop_iff_realised realised_def staleResources_def set_map by (rule refl)

text \<open>
  The uninstall list removes everything and nothing else: it is in reverse dependency order
  (DNS first, servers last), it deletes only, and carrying it out leaves exactly the observed
  resources that are not this installation's.
\<close>

theorem uninstall_complete:
  "sorted_wrt (\<lambda>c d. resourceRank (pc_kind d) \<le> resourceRank (pc_kind c)) (snd (reconcile ds obs inst))
   \<and> list_all (\<lambda>c. pc_action c = Delete) (snd (reconcile ds obs inst))
   \<and> fold (carry_out inst) (snd (reconcile ds obs inst)) obs = filter (\<lambda>ob. \<not> isOwned ob inst) obs"
  using uninstall_rank uninstall_all by (auto simp: list_all_iff reconcile_def uninstallChange_def)

section \<open>The plan\<close>

text \<open>
  C39. The plan does not depend on the order in which the provider lists its resources: permuting
  the raw \<^verbatim>\<open>resources\<close> array gives the same plan, with the same identifier.
\<close>

theorem plan_order_independent:
  assumes "mset xs = mset ys"
  shows "plan_of sha release st (JObj ((''resources'', JArr xs) # rest)) =
    plan_of sha release st (JObj ((''resources'', JArr ys) # rest))"
proof -
  let ?n = "\<lambda>zs. normalizeObservedResources (JObj ((''resources'', JArr zs) # rest))"
  have "mset (List.map_filter readObservedResource zs) =
      image_mset the (filter_mset (\<lambda>x. x \<noteq> None) (image_mset readObservedResource (mset zs)))" for zs
    by (simp add: map_filter_def filter_mset_image_mset comp_def flip: mset_filter mset_map)
       (simp add: map_filter_def comp_def filter_map)
  then have "mset (?n xs) = mset (?n ys)" using assms by (simp add: normalizeObservedResources_def)
  then have "reconcile (ds_resources st) (?n xs) (ds_installationId st) =
      reconcile (ds_resources st) (?n ys) (ds_installationId st)"
    by (rule reconcile_order) (rule normalizeObservedResources_valid)
  then show ?thesis by (simp only: plan_of_def)
qed

theorem plan_order_independent_witness:
  "plan_of sample_sha ''1.0.0'' sample_state (JObj [(''resources'', JArr [JNull, JBool True])]) =
   plan_of sample_sha ''1.0.0'' sample_state (JObj [(''resources'', JArr [JBool True, JNull])])"
  by (rule plan_order_independent) simp

text \<open>
  C37. The identifier an operator approves binds the reviewed content: two plans with the same
  \<^verbatim>\<open>planId\<close> show the same installation, desired hash, release, blockers, changes and uninstall list
  (up to key order inside desired objects), unless their two canonical texts collide under the
  first 24 digits of the digest.
\<close>

theorem plan_id_binds:
  assumes "plan_of sha rel st obs = Some p" "plan_of sha rel' st' obs' = Some q" "gp_planId p = gp_planId q"
    and "\<forall>d \<in> set (ds_resources st). good_desired (Some (rs_desired d))"
    and "\<forall>d \<in> set (ds_resources st'). good_desired (Some (rs_desired d))"
  shows "same_review p q \<or> (\<exists>t u. canonicalJson (plan_value p) = Some t \<and> canonicalJson (plan_value q) = Some u
    \<and> collision (\<lambda>x. take 24 (sha x)) t u)"
proof -
  note pp = plan_of_parts [OF assms(1)] and qq = plan_of_parts [OF assms(2)]
  obtain t where t: "canonicalJson (plan_value p) = Some t" "gp_planId p = ''plan-'' @ take 24 (sha t)"
    using pp(7) by (auto simp: stablePlanId_Some)
  obtain u where u: "canonicalJson (plan_value q) = Some u" "gp_planId q = ''plan-'' @ take 24 (sha u)"
    using qq(7) by (auto simp: stablePlanId_Some)
  have gp: "good_desired (pc_desired c)" if "c \<in> set (gp_changes p) \<or> c \<in> set (gp_uninstall p)" for c
    using that reconcile_good_desired [of "ds_resources st" c] assms(4) unfolding pp(1,2) [symmetric] by blast
  have gq: "good_desired (pc_desired c)" if "c \<in> set (gp_changes q) \<or> c \<in> set (gp_uninstall q)" for c
    using that reconcile_good_desired [of "ds_resources st'" c] assms(5) unfolding qq(1,2) [symmetric] by blast
  show ?thesis
  proof (cases "t = u")
    case True
    have "sort_keys (plan_value p) = sort_keys (plan_value q)"
      using gp gq by (intro canonical_inject [OF _ _ t(1)] well_formed_plan) (auto simp: u(1) True)
    then show ?thesis using gp gq by (intro disjI1 same_review_of_values) auto
  next
    case False
    with assms(3) t u show ?thesis by (auto simp: collision_def)
  qed
qed

theorem plan_id_binds_witness:
  "\<exists>p. plan_of sample_sha ''1.0.0'' sample_state Undef = Some p \<and> (same_review p p \<or>
     (\<exists>t u. canonicalJson (plan_value p) = Some t \<and> canonicalJson (plan_value p) = Some u
       \<and> collision (\<lambda>x. take 24 (sample_sha x)) t u))"
proof -
  obtain p where p: "plan_of sample_sha ''1.0.0'' sample_state Undef = Some p"
    using plan_of_total [of sample_state] sample_state_canonical by blast
  have "\<forall>d \<in> set (ds_resources sample_state). good_desired (Some (rs_desired d))"
    by (simp add: sample_state_def sample_desired_def good_desired_def)
  from plan_id_binds [OF p p refl this this] p show ?thesis by blast
qed

text \<open>
  A plan without blockers is ready: the account and an active zone are selected, the hostname
  belongs to the zone, Zero Trust is set up, at least one identity is allowed and none is invalid,
  every source with a group names exactly one observed group, and no resource conflicts.
\<close>

theorem plan_without_blockers_ready:
  assumes "desired_state_of sha config target access = Some st" "plan_of sha release st observed = Some p"
    and "gp_blockers p = []"
  shows "dt_accountId target \<noteq> None \<and> dt_zoneId target \<noteq> None \<and> dt_zoneStatus target = ''active''
    \<and> hostnameBelongsToZone (gc_hostname config) (dt_zoneName target) \<and> dt_zeroTrustReady target
    \<and> (na_canaryServiceIdentity access \<or> na_allowedEmails access \<noteq> [])
    \<and> na_invalidEmailCount access = 0 \<and> na_invalidAccessGroupCount access = 0
    \<and> (\<forall>s \<in> set (gc_sources config). \<forall>g. gs_accessGroup s = Some g \<longrightarrow>
        length (accessGroupsNamed (na_accessGroups access) g) = 1)
    \<and> list_all (\<lambda>c. pc_action c \<noteq> Conflict) (gp_changes p)"
proof -
  have b: "buildBlockers config target access = []"
    using assms plan_of_parts(6) [OF assms(2)] by (auto simp: desired_state_of_def split: bind_splits)
  have "length (accessGroupsNamed (na_accessGroups access) g) = 1"
    if "s \<in> set (gc_sources config)" "gs_accessGroup s = Some g" for s g
  proof -
    have "source_blockers access s = []" using b that(1) by (simp add: buildBlockers_def)
    with that(2) show ?thesis
      by (cases "accessGroupsNamed (na_accessGroups access) g")
         (auto simp: source_blockers_def Let_def split: if_splits)
  qed
  moreover have "list_all (\<lambda>c. pc_action c \<noteq> Conflict) (gp_changes p)"
    using assms(3) plan_of_parts(6) [OF assms(2)] by (auto simp: list_all_iff list_ex_iff split: if_splits)
  ultimately show ?thesis using b by (auto simp: buildBlockers_def split: if_splits)
qed

definition sample_target :: deployment_target where
  "sample_target = \<lparr>dt_accountId = Some ''acc'', dt_zoneId = Some ''zone'', dt_zoneName = ''m.io'',
     dt_zoneStatus = ''active'', dt_zeroTrustReady = True\<rparr>"

theorem plan_without_blockers_ready_witness:
  "hostnameBelongsToZone (gc_hostname sample_gateway) (dt_zoneName sample_target)"
proof -
  obtain st where st: "desired_state_of sample_sha sample_gateway sample_target sample_access = Some st"
    "list_all (\<lambda>d. canonicalJson (rs_desired d) \<noteq> None) (ds_resources st)"
    using desired_state_total by blast
  obtain p where p: "plan_of sample_sha ''1.0.0'' st Undef = Some p" using plan_of_total [OF st(2)] by blast
  have "buildBlockers sample_gateway sample_target sample_access = []" by code_simp
  moreover have "ds_blockers st = buildBlockers sample_gateway sample_target sample_access"
    using st(1) by (auto simp: desired_state_of_def split: bind_splits)
  moreover have "\<not> list_ex (\<lambda>c. pc_action c = Conflict) (gp_changes p)"
    unfolding plan_of_parts(1) [OF p, symmetric]
    by (auto simp: list_ex_iff reconcile_def normalizeObservedResources_def reconcileDesired_def staleResources_def
        staleChanges_def map_filter_simps)
  ultimately have "gp_blockers p = []" using plan_of_parts(6) [OF p] by simp
  note facts = st(1) p this
  from plan_without_blockers_ready [OF facts] show ?thesis by blast
qed

end
