(* ===== verification/Receipt_Properties.thy ===== *)
theory Receipt_Properties
  imports Receipt_Binding Plan_Properties
begin

text \<open>
  What a receipt can always do. Sealing a well-formed receipt succeeds; hence clearing a pending
  action, journaling and committing the deletion of the last resource, and marking an empty receipt
  succeed, and every receipt in use can be drained to a removed one. Deleting the last resource is
  always allowed because resources are kept in rank order: an application is never removed before
  the policies below it.
\<close>

section \<open>Sealing\<close>

lemma digest_HASH: "hex_digest sha \<Longrightarrow> unsigned_digest sha r = Inr h \<Longrightarrow> test HASH h"
  by (auto simp: unsigned_digest_def split: option.splits dest: hashCanonical_HASH)

lemma seal_total:
  assumes "hex_digest sha" "receipt_ok c" "rc_checksum c = None"
  obtains h where "sealReceipt sha (receipt_value c) = Inr ((in_order c)\<lparr>rc_checksum := Some h\<rparr>)"
proof -
  obtain h where h: "unsigned_digest sha (in_order c) = Inr h" using digest_total by blast
  have "receipt_ok (in_order c)"
    using normalizeReceipt_ok(1) [OF normalizeReceipt_value [of c False]] assms(2,3) by (simp add: checksum_ok_def)
  then have "normalizeReceipt (receipt_value ((in_order c)\<lparr>rc_checksum := Some h\<rparr>)) True
      = Inr ((in_order c)\<lparr>rc_checksum := Some h\<rparr>)"
    using normalizeReceipt_value [of "(in_order c)\<lparr>rc_checksum := Some h\<rparr>" True] digest_HASH [OF assms(1) h]
    by (simp add: checksum_ok_def)
  moreover have "normalizeReceipt (receipt_value c) False = Inr (in_order c)"
    using assms(2,3) by (simp add: normalizeReceipt_value checksum_ok_def)
  moreover have "h \<noteq> []" using digest_HASH [OF assms(1) h] by (auto simp: is_hash)
  ultimately show ?thesis using that h by (simp add: sealReceipt_def requireSealedReceipt_def)
qed

text \<open>A sealed receipt with some fields replaced, the resources still in order.\<close>

lemma seal_sorted:
  assumes "hex_digest sha" "receipt_ok c" "rc_checksum c = None"
    and "js_sort compareResources (rc_resources c) = rc_resources c"
  obtains h where "sealReceipt sha (receipt_value c) = Inr (c\<lparr>rc_checksum := Some h\<rparr>)"
proof -
  have "in_order c = c" using assms(4) by (cases c) (simp add: in_order_def)
  then show ?thesis using seal_total [OF assms(1-3)] that by metis
qed

lemma sealed_sorted: "sealed sha r \<Longrightarrow> js_sort compareResources (rc_resources r) = rc_resources r"
  by (cases r) (simp add: sealed_def in_order_def)

lemma sealed_parts:
  assumes "sealed sha r"
  shows "receipt_ok r" "is_safe_integer (rc_revision r)" "0 \<le> rc_revision r" "material_free (receipt_value (withoutChecksum r))"
  using assms by (simp_all add: sealed_def receipt_ok_def)

lemma material_receipt_parts:
  "material_free (receipt_value (withoutChecksum r)) \<longleftrightarrow>
     \<not> is_sensitive_value (rc_installationId r) \<and> \<not> is_sensitive_value (rc_release r)
     \<and> material_free (target_value (rc_target r)) \<and> material_free (policy_value (rc_accessPolicy r))
     \<and> \<not> is_sensitive_value (rc_desiredHash r) \<and> list_all (\<lambda>x. material_free (resource_value x)) (rc_resources r)
     \<and> (case rc_pending r of None \<Rightarrow> True | Some p \<Rightarrow> material_free (pending_value p))"
  by (auto simp: receipt_value_def withoutChecksum_def opt_entry_def material_free_items_iff list.pred_map comp_def split: option.split)

lemma next_revision: "0 \<le> n \<Longrightarrow> n < MAX_SAFE_INTEGER \<Longrightarrow> is_safe_integer n \<and> is_safe_integer (n + 1) \<and> 0 \<le> n + 1"
  by (simp add: is_safe_integer_def)

section \<open>Abandoning\<close>

lemma clear_total:
  assumes "hex_digest sha" "sealed sha r" "rc_pending r = Some p" "rc_revision r < MAX_SAFE_INTEGER"
  obtains h where "clearReceiptAction sha (receipt_value r) (JStr (rp_operationId p)) =
    Inr (r\<lparr>rc_state := Ready, rc_revision := rc_revision r + 1, rc_pending := None, rc_checksum := Some h\<rparr>)"
proof -
  note ok = sealed_parts [OF assms(2)]
  let ?c = "(withoutChecksum r)\<lparr>rc_state := Ready, rc_revision := rc_revision r + 1, rc_pending := None\<rparr>"
  have rev: "incrementRevision (rc_revision r) = Inr (rc_revision r + 1)"
    using ok assms(4) by (simp add: incrementRevision_def)
  have m: "material_free (receipt_value (withoutChecksum ?c))"
    using ok(4) unfolding material_receipt_parts by (simp add: withoutChecksum_def)
  have "receipt_ok ?c"
    using ok(1) m next_revision [OF ok(3) assms(4)] by (simp add: receipt_ok_def withoutChecksum_def consistent_def pending_owned_def)
  then obtain h where h: "sealReceipt sha (receipt_value ?c) = Inr (?c\<lparr>rc_checksum := Some h\<rparr>)"
    by (rule seal_sorted [OF assms(1)]) (simp_all add: withoutChecksum_def sealed_sorted [OF assms(2)])
  have "test SAFE_OPAQUE_ID (rp_operationId p)" using ok(1) assms(3) by (simp add: receipt_ok_def ok_pending_def)
  then have "clearReceiptAction sha (receipt_value r) (JStr (rp_operationId p)) = Inr (?c\<lparr>rc_checksum := Some h\<rparr>)"
    using sealed_validates [OF assms(2)] assms(3) rev h by (simp add: clearReceiptAction_def)
  then show ?thesis using that by (simp add: withoutChecksum_def)
qed

lemma mark_total:
  assumes "hex_digest sha" "sealed sha r" "rc_pending r = None" "rc_resources r = []" "rc_revision r < MAX_SAFE_INTEGER"
  shows "\<exists>r'. markReceiptRemoved sha (receipt_value r) = Inr r' \<and> rc_state r' = Removed"
proof (cases "rc_state r = Removed")
  case True
  then show ?thesis using sealed_validates [OF assms(2)] by (simp add: markReceiptRemoved_def)
next
  case False
  note ok = sealed_parts [OF assms(2)]
  let ?c = "(withoutChecksum r)\<lparr>rc_state := Removed, rc_revision := rc_revision r + 1\<rparr>"
  have m: "material_free (receipt_value (withoutChecksum ?c))"
    using ok(4) unfolding material_receipt_parts by (simp add: withoutChecksum_def)
  have "receipt_ok ?c"
    using ok(1) m next_revision [OF ok(3) assms(5)] assms(3,4)
    by (simp add: receipt_ok_def withoutChecksum_def consistent_def pending_owned_def)
  then obtain h where h: "sealReceipt sha (receipt_value ?c) = Inr (?c\<lparr>rc_checksum := Some h\<rparr>)"
    by (rule seal_sorted [OF assms(1)]) (simp_all add: withoutChecksum_def assms(4))
  have rev: "incrementRevision (rc_revision r) = Inr (rc_revision r + 1)"
    using ok assms(5) by (simp add: incrementRevision_def)
  show ?thesis using sealed_validates [OF assms(2)] assms(3,4) False h rev by (simp add: markReceiptRemoved_def)
qed

section \<open>Removing the last resource\<close>

lemma compareResources_rank: "compareResources x y \<le> 0 \<Longrightarrow> resourceRank (rr_kind x) \<le> resourceRank (rr_kind y)"
  by (auto simp: compareResources_def or_else_def split: if_splits)

lemma parent_rank: "is_policy k \<Longrightarrow> resourceRank (parent_kind k) < resourceRank k"
  by (auto simp: is_policy_def parent_kind_def)

lemma sorted_butlast: "js_sort compareResources (xs @ [x]) = xs @ [x] \<Longrightarrow> js_sort compareResources xs = xs"
  using resource_order.sorted_sort [of "xs @ [x]"] by (simp add: sorted_wrt_append resource_order.sort_sorted)

lemma last_rank:
  "js_sort compareResources (xs @ [x]) = xs @ [x] \<Longrightarrow> y \<in> set xs \<Longrightarrow> resourceRank (rr_kind y) \<le> resourceRank (rr_kind x)"
  using resource_order.sorted_sort [of "xs @ [x]"] by (simp add: sorted_wrt_append compareResources_rank)

definition parent_bound :: "receipt_resource list \<Rightarrow> receipt_resource \<Rightarrow> bool" where
  "parent_bound rs r \<longleftrightarrow> (\<forall>c \<in> set rs. rr_kind c = parent_kind (rr_kind r) \<longrightarrow>
     (\<exists>d \<in> set rs. rr_kind d = parent_kind (rr_kind r) \<and> loc_id (rr_provider d) = parent_text r))"

lemma unique_resources_iff:
  "unique_resources rs \<longleftrightarrow> distinct (map identity_of rs)
     \<and> distinct (map (\<lambda>r. providerIdentity (rr_kind r) (rr_provider r)) rs)
     \<and> distinct (map (\<lambda>r. loc_id (rr_provider r)) (filter (\<lambda>r. is_access_application (rr_kind r)) rs))
     \<and> (\<forall>r \<in> set rs. is_policy (rr_kind r) \<longrightarrow> parent_bound rs r)"
proof -
  have "(let parents = {c \<in> set rs. rr_kind c = parent_kind (rr_kind r)} in
      parents \<noteq> {} \<longrightarrow> parent_text r \<in> (\<lambda>c. loc_id (rr_provider c)) ` parents) \<longleftrightarrow> parent_bound rs r" for r
    by (auto simp: parent_bound_def Let_def image_iff)
  then show ?thesis by (simp only: unique_resources_def)
qed

lemma unique_butlast:
  assumes u: "unique_resources (xs @ [x])" and s: "js_sort compareResources (xs @ [x]) = xs @ [x]"
  shows "unique_resources xs"
proof -
  have "parent_bound xs r" if "r \<in> set xs" "is_policy (rr_kind r)" for r
  proof -
    have "rr_kind x \<noteq> parent_kind (rr_kind r)"
      using last_rank [OF s that(1)] parent_rank [OF that(2)] by auto
    moreover have "parent_bound (xs @ [x]) r" using u that by (simp add: unique_resources_iff)
    ultimately show ?thesis by (auto simp: parent_bound_def)
  qed
  moreover have "distinct (map (\<lambda>r. loc_id (rr_provider r)) (filter (\<lambda>r. is_access_application (rr_kind r)) xs))"
    using u by (simp add: unique_resources_iff split: if_splits)
  ultimately show ?thesis using u by (simp add: unique_resources_iff)
qed

lemma findResourceIndex_last:
  "distinct (map identity_of (xs @ [x])) \<Longrightarrow> findResourceIndex (xs @ [x]) (rr_kind x) (rr_key x) = Some (length xs)"
  by (induction xs) (auto simp: identity_of_def)

definition removal :: "receipt_resource \<Rightarrow> receipt_pending" where
  "removal x = \<lparr>rp_action = Delete_action, rp_expectedDesiredHash = rr_desiredHash x, rp_key = rr_key x,
     rp_kind = rr_kind x, rp_operationId = ''op'', rp_planId = ''op'', rp_pruneApprovalId = None,
     rp_requestHash = rr_desiredHash x, rp_type = Uninstall_type\<rparr>"

lemma plain_op: "\<not> is_sensitive_value ''op''"
  by (rule plain_clean) (simp add: plain_char_def is_space_def)

lemma op_opaque: "test SAFE_OPAQUE_ID ''op''"
  by code_simp

lemma removal_ok: "ok_resource x \<Longrightarrow> ok_pending (removal x)"
  by (simp add: removal_def ok_pending_def ok_resource_def op_opaque)

lemma removal_material: "material_free (resource_value x) \<Longrightarrow> material_free (pending_value (removal x))"
  using enum_clean(3) [of Uninstall_type] enum_clean(4) [of Delete_action]
  by (simp add: removal_def pending_value_def resource_value_def opt_entry_def plain_op)

lemma begin_removal:
  assumes "hex_digest sha" "sealed sha r" "rc_pending r = None" "rc_state r \<noteq> Removed"
    and rs: "rc_resources r = xs @ [x]" and rev: "rc_revision r < MAX_SAFE_INTEGER"
  obtains h where "beginReceiptAction sha (receipt_value r) (pending_value (removal x)) =
    Inr (r\<lparr>rc_state := Uninstalling, rc_revision := rc_revision r + 1, rc_pending := Some (removal x), rc_checksum := Some h\<rparr>)"
proof -
  note ok = sealed_parts [OF assms(2)]
  let ?p = "removal x"
  let ?c = "(withoutChecksum r)\<lparr>rc_state := Uninstalling, rc_revision := rc_revision r + 1, rc_pending := Some ?p\<rparr>"
  have x: "ok_resource x" "material_free (resource_value x)"
    using ok(1,4) rs unfolding material_receipt_parts by (simp_all add: receipt_ok_def)
  have idx: "findResourceIndex (rc_resources r) (rr_kind x) (rr_key x) = Some (length xs)"
    unfolding rs using unique_identities [OF sealed_unique [OF assms(2)]] unfolding rs by (rule findResourceIndex_last)
  have p: "normalizePending (pending_value ?p) ''intent'' = Inr ?p"
    using pending_normal [OF removal_ok [OF x(1)]] removal_material [OF x(2)]
    by (simp add: normalizePending_def find_forbidden_empty)
  have m: "material_free (receipt_value (withoutChecksum ?c))"
    using ok(4) removal_material [OF x(2)] unfolding material_receipt_parts by (simp add: withoutChecksum_def)
  have owned: "pending_owned (Some ?p) (js_sort compareResources (rc_resources r))"
    unfolding sealed_sorted [OF assms(2)] pending_owned_def using idx by (simp add: removal_def) (simp add: rs)
  have "receipt_ok ?c"
    using ok(1) m next_revision [OF ok(3) rev] removal_ok [OF x(1)] owned
    by (simp add: receipt_ok_def withoutChecksum_def consistent_def removal_def)
  then obtain h where h: "sealReceipt sha (receipt_value ?c) = Inr (?c\<lparr>rc_checksum := Some h\<rparr>)"
    by (rule seal_sorted [OF assms(1)]) (simp_all add: withoutChecksum_def sealed_sorted [OF assms(2)])
  have "incrementRevision (rc_revision r) = Inr (rc_revision r + 1)"
    using ok rev by (simp add: incrementRevision_def)
  then have "beginReceiptAction sha (receipt_value r) (pending_value ?p) = Inr (?c\<lparr>rc_checksum := Some h\<rparr>)"
    using sealed_validates [OF assms(2)] assms(3,4) p idx h
    by (simp add: beginReceiptAction_def Let_def) (simp add: removal_def rs)
  then show ?thesis using that by (simp add: withoutChecksum_def)
qed

lemma commit_removal:
  assumes "hex_digest sha" "sealed sha r" "rc_pending r = Some (removal x)"
    and rs: "rc_resources r = xs @ [x]" and rev: "rc_revision r < MAX_SAFE_INTEGER"
  obtains h where "commitReceiptAction sha (receipt_value r) (JObj []) =
    Inr (r\<lparr>rc_state := Uninstalling, rc_revision := rc_revision r + 1, rc_resources := xs, rc_pending := None,
      rc_checksum := Some h\<rparr>)"
proof -
  note ok = sealed_parts [OF assms(2)]
  let ?c = "(withoutChecksum r)\<lparr>rc_state := Uninstalling, rc_revision := rc_revision r + 1, rc_resources := xs, rc_pending := None\<rparr>"
  have s: "js_sort compareResources (xs @ [x]) = xs @ [x]" using sealed_sorted [OF assms(2)] by (simp add: rs)
  have u: "unique_resources xs" using unique_butlast [OF _ s] sealed_unique [OF assms(2)] by (simp add: rs)
  have idx: "findResourceIndex (xs @ [x]) (rr_kind x) (rr_key x) = Some (length xs)"
    using unique_identities [OF sealed_unique [OF assms(2)]] unfolding rs by (rule findResourceIndex_last)
  have m: "material_free (receipt_value (withoutChecksum ?c))"
    using ok(4) rs unfolding material_receipt_parts by (simp add: withoutChecksum_def)
  have "receipt_ok ?c"
    using ok(1) m next_revision [OF ok(3) rev] u
    by (simp add: receipt_ok_def withoutChecksum_def consistent_def pending_owned_def rs)
  then obtain h where h: "sealReceipt sha (receipt_value ?c) = Inr (?c\<lparr>rc_checksum := Some h\<rparr>)"
    by (rule seal_sorted [OF assms(1)]) (simp_all add: withoutChecksum_def sorted_butlast [OF s])
  have res: "normalizeCommitResult (JObj []) (removal x) (rc_installationId r) =
      Inr \<lparr>cr_identityHash = None, cr_marker = None, cr_provider = None\<rparr>"
    by (simp add: normalizeCommitResult_def removal_def rejectUnknownKeys_def unknown_keys_def)
  have com: "committed_resources (rc_resources r) (removal x) c = Inr xs" for c
    using idx by (simp add: committed_resources_def removal_def rs remove_nth_def)
  have "incrementRevision (rc_revision r) = Inr (rc_revision r + 1)"
    using ok rev by (simp add: incrementRevision_def)
  moreover have "assertUniqueResources xs = Inr ()" using u by (simp add: assertUniqueResources_def unique_errors_empty)
  moreover have "rp_type (removal x) = Uninstall_type" by (simp add: removal_def)
  ultimately have "commitReceiptAction sha (receipt_value r) (JObj []) = Inr (?c\<lparr>rc_checksum := Some h\<rparr>)"
    using sealed_validates [OF assms(2)] assms(3) res com h by (simp add: commitReceiptAction_def)
  then show ?thesis using that by (simp add: withoutChecksum_def)
qed

section \<open>Draining\<close>

lemma step_sealed: "sealed sha r \<Longrightarrow> receipt_step sha r r' \<Longrightarrow> sealed sha r'"
  using step_refines by blast

lemma drain:
  assumes "hex_digest sha" "sealed sha r" "rc_pending r = None"
    and "rc_revision r + 2 * int (length (rc_resources r)) < MAX_SAFE_INTEGER"
  shows "\<exists>r'. (receipt_step sha)\<^sup>*\<^sup>* r r' \<and> rc_state r' = Removed"
  using assms(2-)
proof (induction "rc_resources r" arbitrary: r rule: rev_induct)
  case Nil
  then obtain r' where "markReceiptRemoved sha (receipt_value r) = Inr r'" "rc_state r' = Removed"
    using mark_total [OF assms(1)] by fastforce
  then show ?case by (blast intro: receipt_step.step_mark)
next
  case (snoc x xs)
  note rs = snoc.hyps(2) [symmetric]
  have rev: "rc_revision r + 2 * int (length xs) + 2 < MAX_SAFE_INTEGER" using snoc.prems(3) by (simp add: rs)
  then have lt: "rc_revision r < MAX_SAFE_INTEGER" "rc_revision r + 1 < MAX_SAFE_INTEGER" by linarith+
  have live: "rc_state r \<noteq> Removed"
    using snoc.prems(1) rs by (auto simp: sealed_def receipt_ok_def consistent_def)
  obtain h where "beginReceiptAction sha (receipt_value r) (pending_value (removal x)) =
    Inr (r\<lparr>rc_state := Uninstalling, rc_revision := rc_revision r + 1, rc_pending := Some (removal x), rc_checksum := Some h\<rparr>)"
    (is "_ = Inr ?b")
    by (rule begin_removal [OF assms(1) snoc.prems(1,2) live rs lt(1)])
  then have b: "receipt_step sha r ?b" by (rule receipt_step.step_begin)
  then have sb: "sealed sha ?b" using snoc.prems(1) step_sealed by blast
  have pb: "rc_pending ?b = Some (removal x)" "rc_resources ?b = xs @ [x]" "rc_revision ?b < MAX_SAFE_INTEGER"
    using rs lt by simp_all
  obtain g where "commitReceiptAction sha (receipt_value ?b) (JObj []) = Inr (?b\<lparr>rc_state := Uninstalling,
      rc_revision := rc_revision ?b + 1, rc_resources := xs, rc_pending := None, rc_checksum := Some g\<rparr>)"
    (is "_ = Inr ?d")
    by (rule commit_removal [OF assms(1) sb pb])
  then have d: "receipt_step sha ?b ?d" by (rule receipt_step.step_commit)
  then have "sealed sha ?d" using sb step_sealed by blast
  moreover have "xs = rc_resources ?d" "rc_pending ?d = None" by simp_all
  moreover have "rc_revision ?d + 2 * int (length (rc_resources ?d)) < MAX_SAFE_INTEGER" using rev by simp
  ultimately obtain r' where "(receipt_step sha)\<^sup>*\<^sup>* ?d r'" "rc_state r' = Removed" using snoc.hyps(1) by blast
  then show ?case using b d by (meson converse_rtranclp_into_rtranclp)
qed

text \<open>
  The properties of \<^verbatim>\<open>src/receipt.ts\<close>. \<open>receipt_reachable sha r\<close> means that \<open>r\<close> came from
  \<open>createInstallationReceipt\<close> by successful operations; \<open>sha\<close> is the platform's SHA-256.
\<close>

section \<open>A concrete receipt\<close>

definition sample_receipt :: receipt where
  "sample_receipt = \<lparr>rc_accessPolicy = \<lparr>ap_identityType = ''email'', ap_identityCount = 1, ap_identitiesHash = sample_hash\<rparr>,
     rc_desiredHash = sample_hash, rc_installationId = ''acg-a'', rc_pending = None, rc_release = ''1.0.0'',
     rc_resources = [], rc_revision = 0, rc_state = Ready,
     rc_target = \<lparr>rt_accountId = ''acc'', rt_hostname = ''m.io'', rt_zoneId = ''zone'', rt_zoneName = ''m.io''\<rparr>,
     rc_checksum = None\<rparr>"

definition sample_creation :: jval where
  "sample_creation = JObj [(''plan'', JObj [(''installationId'', JStr ''acg-a''), (''release'', JStr ''1.0.0''),
       (''desiredHash'', JStr sample_hash)]),
     (''target'', target_value (rc_target sample_receipt)), (''accessPolicy'', policy_value (rc_accessPolicy sample_receipt))]"

lemma sample_hash_HASH: "test HASH sample_hash"
  by code_simp

lemma sample_texts:
  "test RESOURCE_KEY ''acg-a''" "test RELEASE ''1.0.0''" "test SAFE_OPAQUE_ID ''acc''" "test SAFE_OPAQUE_ID ''zone''"
  "is_receipt_hostname ''m.io''"
  by code_simp+

lemma sample_plain:
  "\<not> is_sensitive_value ''acg-a''" "\<not> is_sensitive_value ''1.0.0''" "\<not> is_sensitive_value ''acc''"
  "\<not> is_sensitive_value ''zone''" "\<not> is_sensitive_value ''m.io''" "\<not> is_sensitive_value ''email''"
  "\<not> is_sensitive_value sample_hash"
  by (rule plain_clean, simp add: plain_char_def is_space_def)+ (rule hash_clean, rule sample_hash_HASH)

lemma sample_receipt_ok: "receipt_ok sample_receipt"
proof -
  have "material_free (receipt_value (withoutChecksum sample_receipt))"
    unfolding material_receipt_parts
    by (simp add: sample_receipt_def target_value_def policy_value_def sample_plain)
  moreover have "ok_target (rc_target sample_receipt)" "\<not> outside_zone (rc_target sample_receipt)"
    by (simp_all add: sample_receipt_def ok_target_def outside_zone_def hostnameBelongsToZone_def sample_texts)
  moreover have "ok_policy (rc_accessPolicy sample_receipt)"
    by (simp add: sample_receipt_def ok_policy_def sample_hash_HASH)
  ultimately show ?thesis
    by (simp add: receipt_ok_def) (simp add: sample_receipt_def sample_texts sample_hash_HASH is_safe_integer_def
        MAX_SAFE_INTEGER_def unique_resources_def consistent_def pending_owned_def)
qed

lemma sample_created:
  obtains h where "createInstallationReceipt sample_sha sample_creation = Inr (sample_receipt\<lparr>rc_checksum := Some h\<rparr>)"
proof -
  obtain h where h: "sealReceipt sample_sha (receipt_value sample_receipt) = Inr (sample_receipt\<lparr>rc_checksum := Some h\<rparr>)"
    by (rule seal_sorted [OF sample_hex sample_receipt_ok]) (simp_all add: sample_receipt_def)
  have "createInstallationReceipt sample_sha sample_creation = sealReceipt sample_sha (receipt_value sample_receipt)"
    by (simp add: createInstallationReceipt_def sample_creation_def receipt_value_def sample_receipt_def
        rejectUnknownKeys_def unknown_keys_def target_value_def policy_value_def coalesce_def opt_entry_def)
  with h that show ?thesis by simp
qed

lemma sample_reachable:
  obtains r where "receipt_reachable sample_sha r" "rc_pending r = None" "rc_resources r = []" "rc_state r = Ready"
    "rc_revision r = 0"
proof -
  obtain h where "createInstallationReceipt sample_sha sample_creation = Inr (sample_receipt\<lparr>rc_checksum := Some h\<rparr>)"
    by (rule sample_created)
  then have "receipt_reachable sample_sha (sample_receipt\<lparr>rc_checksum := Some h\<rparr>)" by (rule created)
  then show ?thesis by (rule that) (simp_all add: sample_receipt_def)
qed

lemma sample_step:
  obtains r r' where "receipt_reachable sample_sha r" "receipt_step sample_sha r r'" "rc_state r' = Removed"
    "rc_state r = Ready" "rc_revision r = 0"
proof (rule sample_reachable)
  fix r assume r: "receipt_reachable sample_sha r" "rc_pending r = None" "rc_resources r = []" "rc_state r = Ready"
    "rc_revision r = 0"
  have "rc_revision r < MAX_SAFE_INTEGER" by (simp add: r MAX_SAFE_INTEGER_def)
  then obtain r' where "markReceiptRemoved sample_sha (receipt_value r) = Inr r'" "rc_state r' = Removed"
    using mark_total [OF sample_hex reachable_sealed [OF r(1)] r(2,3)] by blast
  then show thesis using that r step_mark by blast
qed

section \<open>Properties\<close>

text \<open>
  What is sealed validates: the receipt \<open>sealReceipt\<close> returns is accepted by
  \<open>validateInstallationReceipt\<close>, which returns the same receipt, whatever the sealed input was.
\<close>

theorem receipt_sealed_validates:
  assumes "sealReceipt sha v = Inr r"
  shows "validReceipt sha (receipt_value r) = Inr r"
  using assms by (rule sealReceipt_Inr) (rule sealed_validates)

theorem receipt_sealed_validates_witness:
  "\<exists>r. sealReceipt sample_sha (receipt_value sample_receipt) = Inr r \<and> validReceipt sample_sha (receipt_value r) = Inr r"
proof -
  obtain h where h: "sealReceipt sample_sha (receipt_value sample_receipt) = Inr (sample_receipt\<lparr>rc_checksum := Some h\<rparr>)"
    by (rule seal_sorted [OF sample_hex sample_receipt_ok]) (simp_all add: sample_receipt_def)
  with receipt_sealed_validates [OF this] show ?thesis by blast
qed

text \<open>
  C27. The operations implement the journal protocol: every successful operation on a receipt in use
  leaves the ledger as it is or makes one step of \<open>ledger_step\<close>: it writes down one permitted
  intent when none is pending, settles the pending intent by changing exactly its target resource
  as intended, abandons it without touching the resources, or retires an empty ledger.
\<close>

theorem receipt_follows_protocol:
  assumes "receipt_reachable sha r" "receipt_step sha r r'"
  shows "ledger r' = ledger r \<or> ledger_step (ledger r) (ledger r')"
  using step_refines [OF reachable_sealed [OF assms(1)] assms(2)] by blast

theorem receipt_follows_protocol_witness:
  "\<exists>r r'. receipt_step sample_sha r r' \<and> ls_removed (ledger r') \<and> (ledger r' = ledger r \<or> ledger_step (ledger r) (ledger r'))"
proof (rule sample_step)
  fix r r' assume a: "receipt_reachable sample_sha r" "receipt_step sample_sha r r'" "rc_state r' = Removed"
  from a(3) have "ls_removed (ledger r')" by (simp add: ledger_def)
  with receipt_follows_protocol [OF a(1,2)] a(2) show ?thesis by blast
qed

text \<open>
  C38. Every receipt in use is well formed: its resources are unique and within the limit, a policy's
  parent is bound, a removed receipt is an empty tombstone, it is installing exactly while an apply
  action is pending, a pending uninstall action is a deletion, and no secret-looking field or text
  is in it.
\<close>

theorem receipt_always_well_formed:
  assumes "receipt_reachable sha r"
  shows "receipt_ok r \<and> unique_resources (rc_resources r) \<and> length (rc_resources r) \<le> MAX_RESOURCES
    \<and> (rc_state r = Removed \<longrightarrow> rc_pending r = None \<and> rc_resources r = [])
    \<and> (rc_state r = Installing \<longleftrightarrow> (\<exists>p. rc_pending r = Some p \<and> rp_type p = Apply_type))
    \<and> (\<forall>p. rc_pending r = Some p \<and> rp_type p = Uninstall_type \<longrightarrow> rp_action p = Delete_action)
    \<and> findForbiddenMaterial (receipt_value (withoutChecksum r)) ''$'' = []"
proof -
  have ok: "receipt_ok r" using reachable_sealed [OF assms] by (simp add: sealed_def)
  have "(\<exists>p. rc_pending r = Some p \<and> rp_type p = Apply_type)" if "rc_state r = Installing"
    using reachable_installing [OF assms] that ok by (auto simp: receipt_ok_def consistent_def split: if_splits)
  then show ?thesis
    using ok by (auto simp: receipt_ok_def consistent_def pending_owned_def find_forbidden_empty)
qed

theorem receipt_always_well_formed_witness:
  "\<exists>r. receipt_reachable sample_sha r \<and> receipt_ok r"
  by (rule sample_reachable) (use receipt_always_well_formed in blast)

text \<open>
  A receipt keeps its identity and counts its versions: a successful operation keeps the
  installation and the target, and returns the receipt unchanged or with the revision increased by
  one, never beyond the largest safe integer; a removed receipt never changes again.
\<close>

theorem receipt_revision_counts:
  assumes "receipt_reachable sha r" "receipt_step sha r r'"
  shows "rc_installationId r' = rc_installationId r \<and> rc_target r' = rc_target r
    \<and> (r' = r \<or> rc_revision r' = rc_revision r + 1)
    \<and> 0 \<le> rc_revision r' \<and> rc_revision r' \<le> MAX_SAFE_INTEGER
    \<and> (rc_state r = Removed \<longrightarrow> r' = r)"
proof -
  have "receipt_ok r'"
    using reachable_sealed [OF stepped [OF assms]] by (simp add: sealed_def)
  then show ?thesis using step_fields [OF reachable_sealed [OF assms(1)] assms(2)]
    by (auto simp: receipt_ok_def is_safe_integer_def)
qed

theorem receipt_revision_counts_witness:
  "\<exists>r r'. receipt_step sample_sha r r' \<and> rc_revision r = 0 \<and> (r' = r \<or> rc_revision r' = 1)"
proof (rule sample_step)
  fix r r' assume a: "receipt_reachable sample_sha r" "receipt_step sample_sha r r'" "rc_revision r = 0"
  from receipt_revision_counts [OF a(1,2)] a(2,3) show ?thesis by auto
qed

text \<open>
  The checksum binds the content: two receipts in use with the same checksum are the same
  receipt, unless the canonical texts of their contents are a collision of the digest.
\<close>

theorem receipt_checksum_binds:
  assumes "receipt_reachable sha r" "receipt_reachable sha s" "rc_checksum r = rc_checksum s"
  shows "r = s \<or> (\<exists>t u. canonicalJson (receipt_value (withoutChecksum r)) = Some t
    \<and> canonicalJson (receipt_value (withoutChecksum s)) = Some u \<and> collision sha t u)"
  using assms by (intro checksum_binds reachable_sealed)

theorem receipt_checksum_binds_witness:
  "\<exists>r. receipt_reachable sample_sha r \<and> (r = r \<or> (\<exists>t u. canonicalJson (receipt_value (withoutChecksum r)) = Some t
    \<and> canonicalJson (receipt_value (withoutChecksum r)) = Some u \<and> collision sample_sha t u))"
proof (rule sample_reachable)
  fix r assume "receipt_reachable sample_sha r"
  with receipt_checksum_binds [OF this this refl] show ?thesis by blast
qed

text \<open>
  An installation can always be retired: from every receipt in use whose revision leaves room,
  some sequence of successful operations (abandoning a pending action, then journaling and
  committing the deletion of the resources from the highest rank down) leads to a removed receipt.
\<close>

theorem receipt_can_be_retired:
  assumes "hex_digest sha" "receipt_reachable sha r"
    and "rc_revision r + 2 * int (length (rc_resources r)) + 1 < MAX_SAFE_INTEGER"
  shows "\<exists>r'. (receipt_step sha)\<^sup>*\<^sup>* r r' \<and> rc_state r' = Removed \<and> rc_resources r' = []"
proof -
  note s = reachable_sealed [OF assms(2)]
  have tomb: "rc_resources x = []" if "(receipt_step sha)\<^sup>*\<^sup>* y x" "sealed sha y" "rc_state x = Removed" for x y
  proof -
    from that(1,2) have "sealed sha x" by (induction rule: rtranclp_induct) (auto dest: step_sealed)
    then show ?thesis using that(3) by (simp add: sealed_def receipt_ok_def consistent_def)
  qed
  show ?thesis
  proof (cases "rc_pending r")
    case None
    with drain [OF assms(1) s] assms(3) s tomb show ?thesis by fastforce
  next
    case (Some p)
    have "rc_revision r < MAX_SAFE_INTEGER" using assms(3) by linarith
    then obtain h where "clearReceiptAction sha (receipt_value r) (JStr (rp_operationId p)) =
        Inr (r\<lparr>rc_state := Ready, rc_revision := rc_revision r + 1, rc_pending := None, rc_checksum := Some h\<rparr>)"
      (is "_ = Inr ?c") by (rule clear_total [OF assms(1) s Some])
    then have c: "receipt_step sha r ?c" by (rule step_clear)
    then have "sealed sha ?c" using s step_sealed by blast
    then obtain r' where "(receipt_step sha)\<^sup>*\<^sup>* ?c r'" "rc_state r' = Removed"
      using drain [OF assms(1), of ?c] assms(3) by auto
    then show ?thesis using c \<open>sealed sha ?c\<close> tomb by (meson converse_rtranclp_into_rtranclp)
  qed
qed

theorem receipt_can_be_retired_witness:
  "\<exists>r r'. receipt_reachable sample_sha r \<and> rc_state r = Ready \<and> (receipt_step sample_sha)\<^sup>*\<^sup>* r r' \<and> rc_state r' = Removed"
proof (rule sample_reachable)
  fix r assume r: "receipt_reachable sample_sha r" "rc_resources r = []" "rc_revision r = 0" "rc_state r = Ready"
  then have "rc_revision r + 2 * int (length (rc_resources r)) + 1 < MAX_SAFE_INTEGER" by (simp add: MAX_SAFE_INTEGER_def)
  from receipt_can_be_retired [OF sample_hex r(1) this] r show ?thesis by blast
qed

end
