(* ===== verification/Observer_Invariant.thy ===== *)
theory Observer_Invariant
  imports Observer_Facts
begin

text \<open>
  The interface between the loops of the observer and a property of what they have collected
  (\<open>observation_invariant\<close>), and the lemma of every loop: it keeps the property, and it fails only with coded
  errors.
\<close>

section \<open>Markers that were read\<close>

text \<open>The field of a live object that carries the marker.\<close>

definition marker_field :: "resource_kind \<Rightarrow> string" where
  "marker_field kind = (if kind = Dns_record then ''comment''
     else if kind = Mcp_server \<or> kind = Portal then ''description'' else ''name'')"

text \<open>An answer of the provider, or an element of a list it answered.\<close>

definition live_at :: "observe_trace \<Rightarrow> jval \<Rightarrow> bool" where
  "live_at h v \<longleftrightarrow> (\<exists>c a. (c, Inr a) \<in> set h \<and> (v = a \<or> (\<exists>xs. items a = Some xs \<and> v \<in> set xs)))"

definition marker_seen :: "observe_trace \<Rightarrow> resource_kind \<Rightarrow> string \<Rightarrow> jval \<Rightarrow> bool" where
  "marker_seen h kind i marker \<longleftrightarrow> marker = Undef
     \<or> (\<exists>v. live_at h v \<and> safeId (field v ''id'') = Some i \<and> field v (marker_field kind) = marker)"

lemma live_at_answer [simp]: "live_at (h @ [(c, Inr v)]) v"
  by (auto simp: live_at_def)

lemma live_at_extends: "live_at h v \<Longrightarrow> prefix h h' \<Longrightarrow> live_at h' v"
  unfolding live_at_def prefix_def by fastforce

lemma live_at_element: "live_at h (JArr xs) \<Longrightarrow> x \<in> set xs \<Longrightarrow> (c, Inr (JArr xs)) \<in> set h \<Longrightarrow> live_at h x"
  by (auto simp: live_at_def)

lemma marker_seen_extends: "marker_seen h kind i m \<Longrightarrow> prefix h h' \<Longrightarrow> marker_seen h' kind i m"
  unfolding marker_seen_def using live_at_extends by blast

lemma marker_seenI:
  "live_at h v \<Longrightarrow> safeId (field v ''id'') = Some i \<Longrightarrow> f = marker_field kind \<Longrightarrow> marker_seen h kind i (field v f)"
  unfolding marker_seen_def by blast

lemma marker_seen_Undef [simp]: "marker_seen h kind i Undef"
  by (simp add: marker_seen_def)

lemma pushed_cases: "os_resources (pushed r s) = (if hasLocator (os_resources s) (cl_kind r) (cl_key r) (cl_provider r)
    then os_resources s else os_resources s @ [r])"
  by (simp add: pushed_def pushObserved_def)

lemma appended_is_pushed: "s\<lparr>os_resources := os_resources s @ [unproven kind key None]\<rparr> = pushed (unproven kind key None) s"
  by (simp add: pushed_def pushObserved_def hasLocator_def sameLocator_def unproven_def list_ex_iff split: option.split)

lemma sane_pushed: "sane_so_far ob s \<Longrightarrow> sane_resource ob r \<Longrightarrow> sane_so_far ob (pushed r s)"
  by (auto simp: sane_so_far_def pushed_cases)

lemma sane_noted [simp]: "sane_so_far ob (noted d s) = sane_so_far ob s"
  by (simp add: sane_so_far_def noted_def)

section \<open>The interface\<close>

locale observation_invariant =
  fixes pf :: platform and ob :: observation and I :: "observed_so_far \<Rightarrow> observe_trace \<Rightarrow> bool"
  assumes sane: "I s h \<Longrightarrow> sane_observation pf ob"
    and extends: "I s h \<Longrightarrow> prefix h h' \<Longrightarrow> I s h'"
    and note_kept: "I s h \<Longrightarrow> I (noted d s) h"
    and unproven_kept: "I s h \<Longrightarrow> sane_so_far ob s \<Longrightarrow> I (pushed (unproven kind key p) s) h"
    and made_kept: "I s h \<Longrightarrow> sane_so_far ob s
      \<Longrightarrow> makeObserved kind key l marker m desired (ob_receipt ob) prov = Inr r
      \<Longrightarrow> marker_seen h kind (loc_id l) marker
      \<Longrightarrow> (\<And>d. desired = Some d \<Longrightarrow> d \<in> set (ds_resources (ob_desiredState ob)) \<and> rs_kind d = kind \<and> rs_key d = key)
      \<Longrightarrow> I (pushed r s) h"
begin

definition kept :: "observed_so_far \<Rightarrow> observe_trace \<Rightarrow> bool" where
  "kept s h \<longleftrightarrow> I s h \<and> sane_so_far ob s"

lemma kept_sane: "kept s h \<Longrightarrow> sane_observation pf ob"
  using sane by (auto simp: kept_def)

lemma kept_extends: "kept s h \<Longrightarrow> prefix h h' \<Longrightarrow> kept s h'"
  using extends by (auto simp: kept_def)

lemma kept_call [intro]: "kept s h \<Longrightarrow> kept s (h @ [e])"
  by (erule kept_extends) simp

lemma kept_noted [intro]: "kept s h \<Longrightarrow> kept (noted d s) h"
  using note_kept by (simp add: kept_def)

lemma kept_unproven:
  "kept s h \<Longrightarrow> known ob kind key \<Longrightarrow> (\<And>l. p = Some l \<Longrightarrow> valid_locator kind l) \<Longrightarrow> kept (pushed (unproven kind key p) s) h"
  using unproven_kept sane_pushed sane_unproven by (simp add: kept_def)

lemma push_made_kept:
  assumes "kept s h" "known ob kind key" "valid_locator kind l" "marker_seen h kind (loc_id l) marker"
    and d: "\<And>d. desired = Some d \<Longrightarrow> d \<in> set (ds_resources (ob_desiredState ob)) \<and> rs_kind d = kind \<and> rs_key d = key"
  shows "delivers kept (push_made (makeObserved kind key l marker m desired (ob_receipt ob) prov) s) h"
proof -
  obtain r where r: "makeObserved kind key l marker m desired (ob_receipt ob) prov = Inr r"
    using makeObserved_total [OF kept_sane [OF assms(1)] assms(2)] d by blast
  have "sane_resource ob r" using made_sane [OF kept_sane [OF assms(1)] r assms(2,3)] d by blast
  then have "kept (pushed r s) h"
    using assms(1) made_kept [OF _ _ r assms(4)] d sane_pushed by (auto simp: kept_def)
  then show ?thesis by (simp add: push_made_def r delivers_def wp_seq wp_lift)
qed

lemma desired_known: "d \<in> set (desired_of_kind ob kind) \<Longrightarrow> d \<in> set (ds_resources (ob_desiredState ob)) \<and> rs_kind d = kind"
  by (simp add: desired_of_kind_def)

lemma at_desired: "desired_at ob kind key = Some d
    \<Longrightarrow> d \<in> set (ds_resources (ob_desiredState ob)) \<and> rs_kind d = kind \<and> rs_key d = key"
  using desired_at_Some by blast

lemma decided:
  assumes "decides matches" "desired_at ob kind key = Some d" "sane_observation pf ob"
  obtains b where "matches live d = Inr b"
  using assms sane_parts(1,2) [OF assms(3)] at_desired [OF assms(2)] unfolding decides_def by blast

lemma each_kept:
  assumes "kept s h" "\<And>x s h'. x \<in> set xs \<Longrightarrow> kept s h' \<Longrightarrow> prefix h h' \<Longrightarrow> delivers kept (f x s) h'"
  shows "delivers kept (each f xs s) h"
proof -
  have "delivers (\<lambda>s h'. kept s h' \<and> prefix h h') (each f xs s) h"
  proof (rule delivers_each)
    fix x s h' assume "x \<in> set xs" and k: "kept s h' \<and> prefix h h'"
    then have "delivers kept (f x s) h'" using assms(2) by blast
    then show "delivers (\<lambda>s h'. kept s h' \<and> prefix h h') (f x s) h'"
      by (rule delivers_post) (use k prefix_order.trans in blast)
  qed (use assms(1) in simp)
  then show ?thesis by (rule delivers_post) blast
qed

section \<open>Servers and portals\<close>

definition entity_read :: "resource_kind \<Rightarrow> string \<times> string \<times> jval option \<Rightarrow> observe_trace \<Rightarrow> bool" where
  "entity_read kind result h \<longleftrightarrow> known ob kind (fst result)
     \<and> (\<forall>live. snd (snd result) = Some live \<longrightarrow> live_at h live \<and> safeId (field live ''id'') = Some (fst (snd result)))"

lemma entity_read_extends: "entity_read kind r h \<Longrightarrow> prefix h h' \<Longrightarrow> entity_read kind r h'"
  using live_at_extends by (auto simp: entity_read_def)

lemma entity_kept:
  assumes "kept s h" "entity_read kind result h" "decides matches" "kind = Mcp_server \<or> kind = Portal"
  shows "delivers kept (observe_entity ob kind matches result s) h"
proof -
  obtain key i live where result: "result = (key, i, live)" by (cases result) auto
  show ?thesis
  proof (cases live)
    case (Some v)
    have k: "known ob kind key" and v: "live_at h v" "safeId (field v ''id'') = Some i"
      using assms(2) by (auto simp: entity_read_def result Some)
    have "valid_locator kind (locator_at i)"
      using v(2) assms(4) by (auto simp: safeId_Some valid_locator_def is_policy_def)
    moreover have "marker_seen h kind i (field v ''description'')"
      using v by (rule marker_seenI) (use assms(4) in \<open>auto simp: marker_field_def\<close>)
    ultimately have push: "delivers kept (push_made (makeObserved kind key (locator_at i) (field v ''description'') m
        (desired_at ob kind key) (ob_receipt ob) False) s) h" for m
      using assms(1) k at_desired by (intro push_made_kept) simp_all
    show ?thesis
    proof (cases "desired_at ob kind key")
      case None
      then show ?thesis using push by (simp add: observe_entity_def result Some lift_def)
    next
      case (Some d)
      obtain b where "matches v d = Inr b" using decided [OF assms(3) Some kept_sane [OF assms(1)]] by blast
      then show ?thesis using push by (simp add: observe_entity_def result \<open>live = _\<close> Some lift_def Let_def)
    qed
  qed (use assms(1) in \<open>simp add: observe_entity_def result\<close>)
qed

section \<open>Applications\<close>

definition safe_ids :: "string list \<Rightarrow> bool" where
  "safe_ids ids \<longleftrightarrow> (\<forall>i \<in> set ids. test SAFE_OPAQUE_ID i)"

lemma listed_ids_safe: "map_or_throw requireObservedApp xs = Inr ids \<Longrightarrow> safe_ids ids"
  unfolding safe_ids_def by (auto dest!: map_or_throw_Inr simp: requireObservedApp_Inr safeId_Some)

lemma listed_ids_coded: "map_or_throw requireObservedApp xs = Inl e \<Longrightarrow> coded e"
  by (auto dest!: map_or_throw_Inl simp: requireObservedApp_def split: option.splits if_splits)

lemma candidate_ids_kept:
  assumes "kept s h" "safe_ids candidates"
  shows "delivers (\<lambda>ids h'. kept s h' \<and> safe_ids ids) (with_receipt_candidate ob desired candidates) h"
  unfolding with_receipt_candidate_def Let_def
  by (intro delivery)
     (use assms in \<open>auto intro: kept_extends simp: exactReturnedId_def requireObservedApp_def safe_ids_def safeId_Some
        split: if_splits option.splits\<close>)

lemma mismatched_kept:
  assumes "kept s h" "d \<in> set (ds_resources (ob_desiredState ob))" "\<not> is_policy (rs_kind d)" "test SAFE_OPAQUE_ID i"
  shows "kept (mismatched d i s) h"
  unfolding mismatched_def using assms known_desired by (intro kept_unproven kept_noted) (auto simp: valid_locator_at)

lemma ambiguous_kept: "kept s h \<Longrightarrow> kept (note_ambiguous d n s) h"
  by (simp add: note_ambiguous_def kept_noted)

lemma observed_marker_known: "sane_observation pf ob \<Longrightarrow> known ob kind key \<Longrightarrow> \<exists>m. observed_marker ob key = Inr m"
  using marker_of_valid [OF sane_parts(2) known_valid] by (simp add: observed_marker_def)

lemma recovers_kept:
  assumes "kept s h" "live_at h v"
  shows "delivers (\<lambda>b h'. kept s h' \<and> live_at h' v) (pending_base_recovers eligible i live) h"
proof -
  have ext: "kept s h' \<and> live_at h' v" if "prefix h h'" for h'
    using assms kept_extends live_at_extends that by blast
  show ?thesis unfolding pending_base_recovers_def using ext
    by (auto intro!: delivery delivers_seq [OF delivers_read_list [where R = "\<lambda>xs h'. prefix h h'"]] simp: assms)
qed

lemma application_push_kept:
  assumes "kept s h" "d \<in> set (desired_of_kind ob kind)" "kind \<in> {Source_access_application, Portal_access_application}"
    and "live_at h live" "is_exactly live i" "marker \<in> {Undef, field live ''name''}"
  shows "delivers kept (push_made (makeObserved (rs_kind d) (rs_key d) (locator_at i) marker m (Some d) (ob_receipt ob) prov) s) h"
proof -
  note d = desired_known [OF assms(2)]
  have i: "safeId (field live ''id'') = Some i" using assms(5) by (simp add: is_exactly_def)
  then have "valid_locator kind (locator_at i)" using assms(3) by (auto simp: valid_locator_def is_policy_def safeId_Some)
  moreover have "marker_seen h kind i marker"
    using assms(6) marker_seenI [OF assms(4) i, of "''name''" kind] assms(3) by (auto simp: marker_field_def)
  ultimately show ?thesis using assms(1) d known_desired [of d ob] by (intro push_made_kept) auto
qed

lemma source_candidate_kept:
  assumes "kept s h" "d \<in> set (desired_of_kind ob Source_access_application)" "test SAFE_OPAQUE_ID i"
  shows "delivers kept (observe_source_candidate ob d marker only i s) h"
  unfolding observe_source_candidate_def
proof (rule delivers_seq_read, rule delivers_if)
  fix v
  have k: "kept s (h @ [(Get_access_app i, Inr v)])" using assms(1) by blast
  show "delivers kept (return (mismatched d i s)) (h @ [(Get_access_app i, Inr v)])"
    using mismatched_kept [OF k] assms desired_known [OF assms(2)] by (simp add: is_policy_def)
  assume "\<not> \<not> is_exactly v i"
  then show "delivers kept (let serverId = field (rs_desired d) ''sourceResourceKey'';
                baseMatches = sourceAccessApplicationBaseMatches v serverId marker in
         seq (pending_base_recovers (pendingCreateMatches (ob_receipt ob) d \<and> only \<and> baseMatches) i v)
           (\<lambda>pendingBaseCanRecover.
         let exact = sourceAccessApplicationMatches v serverId marker in
         push_made (makeObserved (rs_kind d) (rs_key d) (locator_at i)
           (if exact then field v ''name'' else Undef) (exact \<or> pendingBaseCanRecover) (Some d) (ob_receipt ob)
           pendingBaseCanRecover) s)) (h @ [(Get_access_app i, Inr v)])"
    unfolding Let_def
    by (intro delivers_seq [OF recovers_kept [OF k live_at_answer]] application_push_kept [OF _ assms(2)]) auto
qed

lemma portal_candidate_kept:
  assumes "kept s h" "d \<in> set (desired_of_kind ob Portal_access_application)" "test SAFE_OPAQUE_ID i"
  shows "delivers kept (observe_portal_candidate ob d i s) h"
  unfolding observe_portal_candidate_def
proof (rule delivers_seq_read, rule delivers_if)
  fix v
  have k: "kept s (h @ [(Get_access_app i, Inr v)])" using assms(1) by blast
  show "delivers kept (return (mismatched d i s)) (h @ [(Get_access_app i, Inr v)])"
    using mismatched_kept [OF k] assms desired_known [OF assms(2)] by (simp add: is_policy_def)
  assume "\<not> \<not> is_exactly v i"
  then show "delivers kept (push_made (makeObserved (rs_kind d) (rs_key d) (locator_at i) Undef
      (portalAccessApplicationMatches v (rs_desired d)) (Some d) (ob_receipt ob) False) s) (h @ [(Get_access_app i, Inr v)])"
    using application_push_kept [OF k assms(2) _ live_at_answer] by simp
qed

text \<open>The loop over the candidates of one application.\<close>

lemma candidates_kept:
  assumes "kept s h"
    and step: "\<And>seen i s h. kept s h \<Longrightarrow> test SAFE_OPAQUE_ID i \<Longrightarrow> delivers kept (f seen i s) h"
  shows "delivers kept (seq (lift (map_or_throw requireObservedApp xs)) (\<lambda>listed.
      seq (with_receipt_candidate ob d listed) (\<lambda>candidates.
        let seen = uniq candidates in
        seq (each (f seen) seen s) (\<lambda>s'. return (note_ambiguous d (length seen) s'))))) h"
proof (rule delivers_seq_lift)
  fix e assume "map_or_throw requireObservedApp xs = Inl e"
  then show "coded e" by (rule listed_ids_coded)
next
  fix listed assume "map_or_throw requireObservedApp xs = Inr listed"
  then have "delivers (\<lambda>ids h'. kept s h' \<and> safe_ids ids) (with_receipt_candidate ob d listed) h"
    using assms(1) listed_ids_safe by (intro candidate_ids_kept) auto
  then show "delivers kept (seq (with_receipt_candidate ob d listed) (\<lambda>candidates.
        let seen = uniq candidates in
        seq (each (f seen) seen s) (\<lambda>s'. return (note_ambiguous d (length seen) s')))) h"
  proof (rule delivers_seq)
    fix ids h' assume "kept s h' \<and> safe_ids ids"
    then have "delivers kept (each (f (uniq ids)) (uniq ids) s) h'"
      using step by (intro delivers_each) (auto simp: safe_ids_def)
    then show "delivers kept (let seen = uniq ids in
        seq (each (f seen) seen s) (\<lambda>s'. return (note_ambiguous d (length seen) s'))) h'"
      unfolding Let_def by (rule delivers_seq) (simp add: ambiguous_kept)
  qed
qed

lemma source_application_kept:
  assumes "kept s h" "d \<in> set (desired_of_kind ob Source_access_application)"
  shows "delivers kept (observe_source_application ob apps d s) h"
proof -
  obtain m where m: "observed_marker ob (rs_key d) = Inr m"
    using observed_marker_known [OF kept_sane [OF assms(1)]] known_desired desired_known [OF assms(2)] by blast
  show ?thesis unfolding observe_source_application_def
    by (rule delivers_seq_lift) (auto simp: m intro: candidates_kept [OF assms(1)] source_candidate_kept [OF _ assms(2)])
qed

lemma portal_application_kept:
  assumes "kept s h" "d \<in> set (desired_of_kind ob Portal_access_application)"
  shows "delivers kept (observe_portal_application ob apps d s) h"
  unfolding observe_portal_application_def
  by (rule candidates_kept [OF assms(1)]) (rule portal_candidate_kept [OF _ assms(2)])

section \<open>DNS records\<close>

lemma dns_push_kept:
  assumes "kept s h" "known ob Dns_record key" "live_at h record" "safeId (field record ''id'') = Some i"
    and "\<And>d. desired = Some d \<Longrightarrow> d \<in> set (ds_resources (ob_desiredState ob)) \<and> rs_kind d = Dns_record \<and> rs_key d = key"
  shows "delivers kept (push_made (makeObserved Dns_record key (locator_at i) (field record ''comment'') m desired
    (ob_receipt ob) False) s) h"
  using assms by (intro push_made_kept) (auto intro: marker_seenI simp: valid_locator_at is_policy_def safeId_Some marker_field_def)

lemma dns_record_kept:
  assumes "kept s h" "d \<in> set (desired_of_kind ob Dns_record)" "live_at h record"
  shows "delivers kept (observe_dns_record ob d record s) h"
  unfolding observe_dns_record_def
proof (rule delivers_option)
  note d = desired_known [OF assms(2)] known_desired [of d ob]
  show "delivers kept (return (pushed (unproven Dns_record (rs_key d) None) (noted (bare_diagnostic ''invalid_dns_record'') s))) h"
    using assms(1) d by (auto intro!: kept_unproven)
  fix i assume i: "record_id record = Some i"
  obtain b where b: "dnsMatches record d = Inr b"
    using dns_decides sane_parts(1,2) [OF kept_sane [OF assms(1)]] d(1) unfolding decides_def by blast
  show "delivers kept (seq (lift (dnsMatches record d)) (\<lambda>liveMatches.
       push_made (makeObserved Dns_record (rs_key d) (locator_at i) (field record ''comment'') liveMatches
         (Some d) (ob_receipt ob) False) s)) h"
    using assms(1,3) d i by (intro delivery dns_push_kept) (auto simp: b record_id_Some)
qed

lemma owned_dns_kept:
  assumes "kept s h" "e \<in> set (receiptResources ob)" "rr_kind e = Dns_record"
  shows "delivers kept (observe_owned_dns ob seen e s) h"
proof -
  have decided: "\<exists>b. (case desired_at ob Dns_record (rr_key e) of None \<Rightarrow> Inr False | Some d \<Rightarrow> dnsMatches v d) = Inr b" for v
    using decided [OF dns_decides _ kept_sane [OF assms(1)]] by (metis option.case_eq_if option.collapse)
  show ?thesis unfolding observe_owned_dns_def Let_def
  proof (intro delivery)
    fix v j b
    assume j: "exactReturnedId v (loc_id (rr_provider e)) = Inr j"
    show "delivers kept (push_made (makeObserved Dns_record (rr_key e) (locator_at j) (field v ''comment'') b
          (desired_at ob Dns_record (rr_key e)) (ob_receipt ob) False) s)
        (h @ [(Get_dns_record (loc_id (rr_provider e)), Inr v)])"
      using assms(1) j known_entry [OF assms(2)] assms(3) at_desired
      by (intro dns_push_kept) (auto simp: exactReturnedId_Inr)
  qed (use assms(1) decided in \<open>auto simp: exactReturnedId_def split: if_splits\<close>, (metis Inl_Inr_False)?)
qed

lemma dns_kept:
  assumes "kept s h" "\<And>r. r \<in> set records \<Longrightarrow> live_at h r"
  shows "delivers kept (observe_dns ob records s) h"
proof -
  obtain d ds where d: "desired_of_kind ob Dns_record = d # ds" using sane_parts(6) [OF kept_sane [OF assms(1)]] by (meson neq_Nil_conv)
  have "delivers kept (each (observe_dns_record ob d) records s) h"
    by (intro each_kept dns_record_kept) (auto intro: assms live_at_extends simp: d)
  then show ?thesis unfolding observe_dns_def d list.case
  proof (rule delivers_seq)
    fix s1 h' assume "kept s1 h'"
    then have "kept (if 1 < length records
             then noted (diagnostic ''ambiguous_dns_record'' Dns_record (rs_key d) (Some (length records))) s1 else s1) h'"
      by auto
    then show "delivers kept (let s2 = (if 1 < length records
             then noted (diagnostic ''ambiguous_dns_record'' Dns_record (rs_key d) (Some (length records))) s1 else s1) in
       each (observe_owned_dns ob (List.map_filter record_id records))
         (filter (\<lambda>r. rr_kind r = Dns_record) (receiptResources ob)) s2) h'"
      unfolding Let_def by (intro each_kept owned_dns_kept) auto
  qed
qed

section \<open>Policies\<close>

lemma verify_kept:
  assumes "kept s h" "\<And>v. \<exists>b. predicate v = Inr b"
  shows "delivers (\<lambda>r h'. kept (snd r) h') (verifySingleAccessApp i predicate kind key s) h"
  unfolding verifySingleAccessApp_def
proof (intro delivery)
  fix v e assume "(if is_exactly v i then predicate v else Inr False) = Inl e"
  then show "coded e" using assms(2) [of v] by (auto split: if_splits)
qed (use assms(1) in auto)

lemma parent_decides:
  assumes "is_policy kind" "sane_observation pf ob"
  shows "\<exists>b. parent_matches ob kind key v = Inr b"
proof -
  have "\<exists>m. observed_marker ob key = Inr m" if "desired_at ob k key = Some d" for k d
    using observed_marker_known [OF assms(2)] known_desired at_desired [OF that] by blast
  then show ?thesis by (fastforce simp: parent_matches_def split: option.split)
qed

lemma policy_kept:
  assumes "kept s h" "d \<in> set (ds_resources (ob_desiredState ob))" "is_policy (rs_kind d)"
    and "live_at h policy" "test SAFE_OPAQUE_ID appId"
  shows "delivers kept (observe_policy pf ob d appId policy s) h"
  unfolding observe_policy_def
proof (rule delivers_option)
  show "delivers kept (return (pushed (unproven (rs_kind d) (rs_key d) None)
       (noted (diagnostic ''invalid_access_policy'' (rs_kind d) (rs_key d) None) s))) h"
    using assms(1,2) known_desired by (auto intro!: kept_unproven)
  fix i assume i: "safeId (field policy ''id'') = Some i"
  obtain b where b: "policyMatches pf policy (rs_desired d) (ob_access ob) = Inr b"
    using policy_decides sane_parts(5) [OF kept_sane [OF assms(1)]] by blast
  have "marker_seen h (rs_kind d) i (field policy ''name'')"
    using assms(3,4) i by (intro marker_seenI) (auto simp: marker_field_def is_policy_def)
  then show "delivers kept (seq (lift (policyMatches pf policy (rs_desired d) (ob_access ob))) (\<lambda>liveMatches.
       push_made (makeObserved (rs_kind d) (rs_key d) \<lparr>loc_id = i, loc_parentId = Some appId\<rparr> (field policy ''name'')
         liveMatches (Some d) (ob_receipt ob) False) s)) h"
    using assms i by (intro delivery push_made_kept) (auto simp: b known_desired valid_locator_def safeId_Some)
qed

lemma unexpected_kept:
  assumes "kept s h" "known ob (rs_kind d) (rs_key d)"
  shows "kept (note_unexpected d n s) h"
proof -
  have "os_resources s = os_resources (noted x s)" for x by (simp add: noted_def)
  then have "note_unexpected d n s = (if n = 0 then s else pushed (unproven (rs_kind d) (rs_key d) None)
      (noted (diagnostic ''unexpected_access_policy'' (rs_kind d) (rs_key d) (Some n)) s))"
    unfolding note_unexpected_def appended_is_pushed [symmetric] by simp
  then show ?thesis using assms by (auto intro!: kept_unproven)
qed

lemma policies_kept:
  assumes "kept s h" "d \<in> set (ds_resources (ob_desiredState ob))" "is_policy (rs_kind d)" "test SAFE_OPAQUE_ID appId"
  shows "delivers kept (observe_policies pf ob d appId app s) h"
  unfolding observe_policies_def
proof (rule delivers_seq)
  show "delivers (\<lambda>xs h'. kept s h' \<and> (\<forall>x \<in> set xs. live_at h' x)) (read_list (List_app_policies appId)) h"
    using assms(1) by (intro delivers_read_list) (auto simp: live_at_def)
next
  fix policies h' assume p: "kept s h' \<and> (\<forall>x \<in> set policies. live_at h' x)"
  note known = known_desired [OF assms(2)]
  obtain m where m: "observed_marker ob (rs_key d) = Inr m" using observed_marker_known [OF kept_sane [OF assms(1)] known] by blast
  define matches where "matches = filter (\<lambda>p. isObject p \<and> field p ''name'' = JStr m) policies"
  have "kept (if b then noted x (note_unexpected d n s) else note_unexpected d n s) h'" for b x n
    using unexpected_kept [OF _ known, of s h' n] p by auto
  then have "delivers kept (each (observe_policy pf ob d appId) matches
      (if b then noted x (note_unexpected d n s) else note_unexpected d n s)) h'" for b x n
    using p assms(2-4) by (intro each_kept policy_kept) (auto simp: matches_def intro: live_at_extends)
  then show "delivers kept (seq (lift (observed_marker ob (rs_key d))) (\<lambda>marker.
       let is_match = (\<lambda>p. isObject p \<and> field p ''name'' = JStr marker);
           matches = filter is_match policies;
           unexpected = length (filter (\<lambda>p. \<not> is_match p) policies)
             + (if inlinePoliciesMatchListedPolicies app policies then 0 else 1);
           s1 = note_unexpected d unexpected s;
           s2 = (if 1 < length matches
             then noted (diagnostic ''access_policy_ambiguous'' (rs_kind d) (rs_key d) (Some (length matches))) s1 else s1) in
       each (observe_policy pf ob d appId) matches s2)) h'"
    unfolding m Let_def matches_def by (intro delivery) auto
qed

lemma desired_policy_kept:
  assumes "kept s h" "d \<in> set (ds_resources (ob_desiredState ob))" "is_policy (rs_kind d)"
  shows "delivers kept (observe_desired_policy pf ob d s) h"
  unfolding observe_desired_policy_def
proof (rule delivers_option, simp, rule delivers_option, simp add: assms)
  fix key l
  assume "Option.bind (find (\<lambda>r. cl_kind r = parent_kind (rs_kind d) \<and> cl_key r = key \<and> cl_manager r = Some MANAGER)
      (os_resources s)) cl_provider = Some l"
  then obtain r where "r \<in> set (os_resources s)" "cl_provider r = Some l"
    by (auto simp: find_Some_iff split: bind_splits intro: nth_mem)
  then have l: "test SAFE_OPAQUE_ID (loc_id l)"
    using assms(1) by (auto simp: kept_def sane_so_far_def sane_resource_def valid_locator_def)
  show "delivers kept (seq (verifySingleAccessApp (loc_id l) (parent_matches ob (rs_kind d) key) (rs_kind d) (rs_key d) s)
      (\<lambda>(app, s1). case app of
         None \<Rightarrow> return (pushed (unproven (rs_kind d) (rs_key d) None) s1)
       | Some live \<Rightarrow> observe_policies pf ob d (loc_id l) live s1)) h"
  proof (rule delivers_seq [OF verify_kept [OF assms(1) parent_decides [OF assms(3) kept_sane [OF assms(1)]]]])
    fix x :: "jval option \<times> observed_so_far" and h' assume "kept (snd x) h'"
    then show "delivers kept (case x of (app, s1) \<Rightarrow> case app of
         None \<Rightarrow> return (pushed (unproven (rs_kind d) (rs_key d) None) s1)
       | Some live \<Rightarrow> observe_policies pf ob d (loc_id l) live s1) h'"
      using known_desired [OF assms(2)] policies_kept [OF _ assms(2,3) l] by (auto intro: kept_unproven split: prod.splits option.split)
  qed
qed

section \<open>The installed inventory\<close>

lemma owned_application_kept:
  assumes "kept s h" "e \<in> set (receiptResources ob)" "rr_kind e = Source_access_application \<or> rr_kind e = Portal_access_application"
  shows "delivers kept (observe_owned_application ob e s) h"
proof -
  note sane = kept_sane [OF assms(1)]
  have marker: "\<exists>m. marker_of (rc_installationId r) (rr_key e) = Inr m" if "ob_receipt ob = Some r" for r
    using marker_of_valid [OF sane_parts(2) [OF sane] known_valid [OF sane known_entry [OF assms(2)]]]
      sane_parts(3) [OF sane that] by simp
  have exact: "\<exists>b. (if rr_kind e = Source_access_application
      then sourceAccessApplicationReceiptMatches v e (receiptResources ob) (rc_installationId r) else Inr True) = Inr b"
    if "ob_receipt ob = Some r" for r v
    using marker [OF that] by (auto simp: sourceAccessApplicationReceiptMatches_def)
  have live: "\<exists>b. owned_application_matches ob r e v = Inr b" if "ob_receipt ob = Some r" for r v
    using marker [OF that] at_desired by (auto simp: owned_application_matches_def split: option.split)
  let ?i = "loc_id (rr_provider e)"
  have push: "delivers kept (push_made (makeObserved (rr_kind e) (rr_key e) (locator_at j)
      (if exact \<and> rr_kind e \<noteq> Portal_access_application then field v ''name'' else Undef) m
      (desired_at ob (rr_kind e) (rr_key e)) (ob_receipt ob) False) s) (h @ [(Get_access_app ?i, Inr v)])"
    if "exactReturnedId v ?i = Inr j" for v j exact m
    using assms(1,3) that known_entry [OF assms(2)] at_desired
    by (intro push_made_kept) (auto simp: exactReturnedId_Inr valid_locator_def is_policy_def safeId_Some marker_field_def
        intro: marker_seenI)
  show ?thesis unfolding observe_owned_application_def Let_def
  proof (intro delivery)
    fix v r b assume r: "ob_receipt ob = Some r"
    show "coded x" if "exactReturnedId v ?i = Inl x" for x using that by (auto simp: exactReturnedId_def split: if_splits)
    show "coded x" if "(if rr_kind e = Source_access_application
        then sourceAccessApplicationReceiptMatches v e (receiptResources ob) (rc_installationId r) else Inr True) = Inl x" for x
      using exact [OF r, of v] that by simp
    show "coded x" if "owned_application_matches ob r e v = Inl x" for x
      using live [OF r, of v] that by simp
  qed (use assms(1) push in auto)
qed

lemma owned_policy_kept:
  assumes "kept s h" "e \<in> set (receiptResources ob)" "is_policy (rr_kind e)"
  shows "delivers kept (observe_owned_policy ob e s) h"
  unfolding observe_owned_policy_def Let_def
proof (intro delivery)
  let ?p = "parent_or_empty (rr_provider e)" and ?i = "loc_id (rr_provider e)"
  fix v j assume j: "exactReturnedId v ?i = Inr j" and p: "?p \<noteq> []"
  have "valid_locator (rr_kind e) (rr_provider e)" using sane_parts(4) [OF kept_sane [OF assms(1)] assms(2)] by (simp add: ok_resource_def)
  then have "valid_locator (rr_kind e) \<lparr>loc_id = j, loc_parentId = Some ?p\<rparr>"
    using j p assms(3) by (auto simp: valid_locator_def parent_or_empty_def exactReturnedId_Inr safeId_Some split: option.splits)
  moreover have "marker_seen (h @ [(Get_app_policy ?p ?i, Inr v)]) (rr_kind e) j (field v ''name'')"
    using j assms(3) by (intro marker_seenI) (auto simp: exactReturnedId_Inr marker_field_def is_policy_def)
  ultimately show "delivers kept (push_made (makeObserved (rr_kind e) (rr_key e) \<lparr>loc_id = j, loc_parentId = Some ?p\<rparr>
      (field v ''name'') False (desired_at ob (rr_kind e) (rr_key e)) (ob_receipt ob) False) s) (h @ [(Get_app_policy ?p ?i, Inr v)])"
    using assms(1) known_entry [OF assms(2)] at_desired by (intro push_made_kept) auto
qed (use assms(1) in \<open>auto simp: exactReturnedId_def split: if_splits\<close>)

section \<open>All of it\<close>

lemma entity_reads_kept:
  assumes "kind = Mcp_server \<or> kind = Portal"
  shows "delivers (\<lambda>rs h'. list_all (settled (\<lambda>r. entity_read kind r h')) rs)
    (readEntities (buildEntityReads kind (ds_resources (ob_desiredState ob)) (receiptResources ob)) reader) h"
  unfolding readEntities_def
proof (rule delivers_each_read)
  fix read and h' :: observe_trace
  assume "read \<in> set (buildEntityReads kind (ds_resources (ob_desiredState ob)) (receiptResources ob))"
  then have "known ob kind (fst read)" by (auto simp: buildEntityReads_def known_def)
  then show "delivers (\<lambda>y h'. entity_read kind y h') (read_entity reader read) h'"
    unfolding read_entity_def
    by (intro delivery) (auto simp: entity_read_def exactReturnedId_def record_id_def split: if_splits)
qed (auto simp: entity_read_def live_at_extends)

lemma settled_extends:
  "list_all (settled (\<lambda>r. entity_read kind r h)) rs \<Longrightarrow> prefix h h' \<Longrightarrow> list_all (settled (\<lambda>r. entity_read kind r h')) rs"
  unfolding list_all_iff settled_def using entity_read_extends by (fastforce split: sum.splits)

text \<open>What \<open>read_inventory\<close> returns.\<close>

definition inventory_read :: "(string \<times> string \<times> jval option) list \<times> (string \<times> string \<times> jval option) list \<times> jval list \<times> jval list
    \<Rightarrow> observe_trace \<Rightarrow> bool" where
  "inventory_read found h \<longleftrightarrow> (case found of (servers, portals, records, apps) \<Rightarrow>
     list_all (\<lambda>r. entity_read Mcp_server r h) servers \<and> list_all (\<lambda>r. entity_read Portal r h) portals
     \<and> (\<forall>r \<in> set records. live_at h r))"

lemma list_read:
  "delivers (\<lambda>r h'. prefix h h' \<and> (case r of Inl e \<Rightarrow> coded e | Inr v \<Rightarrow> \<exists>c. (c, Inr v) \<in> set h')) (attempt (providerRead c)) h"
  by (rule delivers_attempt [where R = "\<lambda>v h'. (c, Inr v) \<in> set h'"]) (auto intro: delivers_read)

lemma inventory_kept: "delivers inventory_read (read_inventory ob hostname) h"
  unfolding read_inventory_def
proof (rule delivers_seq [OF entity_reads_kept [of Mcp_server]], simp,
    rule delivers_seq [OF entity_reads_kept [of Portal]], simp, rule delivers_seq [OF list_read], rule delivers_seq [OF list_read])
  fix servers portals dns apps h1 h2 h3 h4
  assume s: "list_all (settled (\<lambda>r. entity_read Mcp_server r h1)) servers"
    and p: "list_all (settled (\<lambda>r. entity_read Portal r h2)) portals" "prefix h1 h2"
    and d: "prefix h2 h3 \<and> (case dns of Inl e \<Rightarrow> coded e | Inr v \<Rightarrow> \<exists>c. (c, Inr v) \<in> set h3)"
    and a: "prefix h3 h4 \<and> (case apps of Inl e \<Rightarrow> coded e | Inr v \<Rightarrow> \<exists>c. (c, Inr v) \<in> set h4)"
  have ext: "prefix h1 h4" "prefix h2 h4" "prefix h3 h4" using p(2) d a prefix_order.trans by blast+
  note S = all_settled_ok [OF settled_extends [OF s ext(1)]] and P = all_settled_ok [OF settled_extends [OF p(1) ext(2)]]
  have dns: "\<exists>c. (c, Inr v) \<in> set h4" if "dns = Inr v" for v
    using d that set_mono_prefix [OF ext(3)] by auto
  show "delivers inventory_read
     (seq (lift (all_settled servers)) (\<lambda>serverResults.
     seq (lift (all_settled portals)) (\<lambda>portalResults.
     seq (lift dns) (\<lambda>dnsRecords.
     seq (lift apps) (\<lambda>accessApps.
       case (items dnsRecords, items accessApps) of
         (Some dnsList, Some appList) \<Rightarrow> return (serverResults, portalResults, dnsList, appList)
       | _ \<Rightarrow> throw invalid_response))))) h4"
  proof (intro delivers_seq_lift)
    fix servers' portals' dns' apps'
    assume r: "all_settled servers = Inr servers'" "all_settled portals = Inr portals'" "dns = Inr dns'"
    have "live_at h4 r" if "items dns' = Some xs" "r \<in> set xs" for r xs
      using dns [OF r(3)] that by (auto simp: live_at_def)
    then show "delivers inventory_read (case (items dns', items apps') of
         (Some dnsList, Some appList) \<Rightarrow> return (servers', portals', dnsList, appList)
       | _ \<Rightarrow> throw invalid_response) h4"
      using S P by (auto simp: r inventory_read_def split: option.split)
  qed (use S P d a in auto)
qed

theorem observation_kept:
  assumes "kept s h"
  shows "delivers kept (observe_resources pf ob hostname s) h"
proof -
  let ?st = "ob_desiredState ob"
  have policies: "delivers kept (each (observe_desired_policy pf ob) (filter (\<lambda>d. is_policy (rs_kind d)) (ds_resources ?st)) s') h'"
    if "kept s' h'" for s' h'
    using that by (intro each_kept desired_policy_kept) auto
  have owned: "delivers kept (each (observe_owned_application ob)
       (filter (\<lambda>r. rr_kind r = Source_access_application \<or> rr_kind r = Portal_access_application) (receiptResources ob)) s') h'"
    if "kept s' h'" for s' h'
    using that by (intro each_kept owned_application_kept) auto
  have owned': "delivers kept (each (observe_owned_policy ob) (filter (\<lambda>r. is_policy (rr_kind r)) (receiptResources ob)) s') h'"
    if "kept s' h'" for s' h'
    using that by (intro each_kept owned_policy_kept) auto
  have inv: "delivers (\<lambda>found h'. inventory_read found h' \<and> prefix h h') (read_inventory ob hostname) h"
    by (rule delivers_post [OF inventory_kept]) simp
  show ?thesis unfolding observe_resources_def
  proof (rule delivers_seq [OF inv], clarify)
    fix servers portals records apps h'
    assume i: "inventory_read (servers, portals, records, apps) h'" and h: "prefix h h'"
    have live: "\<And>r. r \<in> set records \<Longrightarrow> live_at h' r" using i by (simp add: inventory_read_def)
    have s1: "delivers kept (each (observe_entity ob Mcp_server serverMatches) servers s) h'"
      using i kept_extends [OF assms h] server_decides
      by (intro each_kept entity_kept) (auto simp: inventory_read_def list_all_iff intro: entity_read_extends)
    have s2: "delivers kept (each (observe_entity ob Portal portalBaseMatches) portals s1) h''" if "kept s1 h''" "prefix h' h''" for s1 h''
      using i that portal_decides
      by (intro each_kept entity_kept) (auto simp: inventory_read_def list_all_iff intro: entity_read_extends)
    have s5: "delivers kept (observe_dns ob records s4) h''" if "kept s4 h''" "prefix h' h''" for s4 h''
      using that live live_at_extends by (intro dns_kept) blast+
    have s3: "delivers kept (each (observe_source_application ob apps) (desired_of_kind ob Source_access_application) s2) h''"
        "delivers kept (each (observe_portal_application ob apps) (desired_of_kind ob Portal_access_application) s2) h''"
      if "kept s2 h''" for s2 h''
      using that by (intro each_kept source_application_kept portal_application_kept; simp)+
    note chain = prefix_order.trans [of h']
    show "delivers kept
     (seq (each (observe_entity ob Mcp_server serverMatches) servers s) (\<lambda>s1.
     seq (each (observe_entity ob Portal portalBaseMatches) portals s1) (\<lambda>s2.
     seq (each (observe_source_application ob apps) (desired_of_kind ob Source_access_application) s2) (\<lambda>s3.
     seq (each (observe_portal_application ob apps) (desired_of_kind ob Portal_access_application) s3) (\<lambda>s4.
     seq (observe_dns ob records s4) (\<lambda>s5.
     seq (each (observe_desired_policy pf ob) (filter (\<lambda>d. is_policy (rs_kind d)) (ds_resources ?st)) s5) (\<lambda>s6.
     seq (each (observe_owned_application ob)
       (filter (\<lambda>r. rr_kind r = Source_access_application \<or> rr_kind r = Portal_access_application) (receiptResources ob)) s6) (\<lambda>s7.
       each (observe_owned_policy ob) (filter (\<lambda>r. is_policy (rr_kind r)) (receiptResources ob)) s7)))))))) h'"
      by (rule delivers_seq [OF s1], rule delivers_seq [OF s2], assumption, assumption,
          rule delivers_seq [OF s3(1)], assumption, rule delivers_seq [OF s3(2)], assumption,
          rule delivers_seq [OF s5], assumption, blast intro: chain,
          rule delivers_seq [OF policies], assumption, rule delivers_seq [OF owned], assumption, rule owned')
  qed
qed

end

end
