(* ===== verification/Observer_Safety.thy ===== *)
theory Observer_Safety
  imports Observer_Invariant
begin

text \<open>
  The observation from its inputs: what \<open>readCloudflareObservedState\<close> builds before the loops is a sane
  observation (\<open>sane_start\<close>), and the interface \<open>observation_invariant\<close> is instantiated with the
  properties of the collected resources: that they are well formed, that ownership is proven, and that no
  locator is reported twice.
\<close>

section \<open>The desired resources are sane\<close>

definition sane_spec :: "string \<Rightarrow> resource_spec \<Rightarrow> bool" where
  "sane_spec inst s \<longleftrightarrow> metadata_installation (rs_desired s) = Some inst
     \<and> (is_policy (rs_kind s) \<longrightarrow> isString (field (rs_desired s) (if rs_kind s = Source_access_policy
          then ''sourceApplicationResourceKey'' else ''portalApplicationResourceKey'')))"

lemma metadata_ok: "metadata_installation (JObj ((''metadata'', metadataValue inst) # rest)) = Some inst"
  by (simp add: metadata_installation_def object_field_def metadataValue_def)

lemma source_sane: "sourceResources sha config access inst source = Some (specs, m) \<Longrightarrow> \<forall>s \<in> set specs. sane_spec inst s"
  by (auto simp: sourceResources_def Let_def sane_spec_def metadata_ok is_policy_def split: bind_splits)

lemma portal_sane:
  "portalResources sha config access inst m = Some specs \<Longrightarrow> (\<forall>s \<in> set specs. sane_spec inst s) \<and> (\<exists>s \<in> set specs. rs_kind s = Dns_record)"
  by (auto simp: portalResources_def Let_def sane_spec_def metadata_ok is_policy_def split: bind_splits)

lemma desired_sane:
  assumes "hex_digest sha" "buildDesiredResources sha config access inst = Some rs"
  shows "d \<in> set rs \<Longrightarrow> sane_desired inst d" "\<exists>d \<in> set rs. rs_kind d = Dns_record"
proof -
  from assms(2) obtain perSource portal where p:
    "list_all2 (\<lambda>source block. sourceResources sha config access inst source = Some block) (sortedSources config) perSource"
    "portalResources sha config access inst (map snd perSource) = Some portal"
    "map (\<lambda>r. (rs_kind r, rs_key r, rs_desired r)) rs =
     map (\<lambda>r. (rs_kind r, rs_key r, rs_desired r)) (concat (map fst perSource) @ portal)"
    by (rule buildDesiredResources_blocks)
  have specs: "\<forall>s \<in> set (concat (map fst perSource) @ portal). sane_spec inst s"
  proof -
    have "\<forall>s \<in> set (fst b). sane_spec inst s" if b: "b \<in> set perSource" for b
    proof -
      obtain i where "i < length perSource" "b = perSource ! i" using b unfolding in_set_conv_nth by blast
      then have "sourceResources sha config access inst (sortedSources config ! i) = Some (fst b, snd b)"
        using p(1) by (simp add: list_all2_conv_all_nth)
      then show ?thesis by (rule source_sane)
    qed
    then show ?thesis using portal_sane [OF p(2)] by auto
  qed
  have same: "(\<lambda>r. (rs_kind r, rs_key r, rs_desired r)) ` set rs =
      (\<lambda>r. (rs_kind r, rs_key r, rs_desired r)) ` set (concat (map fst perSource) @ portal)"
    using arg_cong [OF p(3), of set] by (simp only: set_map)
  show "sane_desired inst d" if d: "d \<in> set rs"
  proof -
    have "(rs_kind d, rs_key d, rs_desired d) \<in> (\<lambda>r. (rs_kind r, rs_key r, rs_desired r)) ` set (concat (map fst perSource) @ portal)"
      unfolding same [symmetric] using d by blast
    then obtain x where x: "x \<in> set (concat (map fst perSource) @ portal)" "rs_kind x = rs_kind d" "rs_desired x = rs_desired d"
      by (elim imageE) simp
    then have "sane_spec inst x" using specs by blast
    then show ?thesis
      using derived_key_valid [OF assms(1) desired_structure(3) [OF assms(2) d]]
        desired_structure(4) [OF assms(2) d] hashCanonical_HASH [OF assms(1)]
      by (auto simp: sane_desired_def sane_spec_def parent_key_def x)
  qed
  obtain s where "s \<in> set (concat (map fst perSource) @ portal)" "rs_kind s = Dns_record"
    using portal_sane [OF p(2)] by auto
  then have "(rs_kind s, rs_key s, rs_desired s) \<in> (\<lambda>r. (rs_kind r, rs_key r, rs_desired r)) ` set rs"
    unfolding same by blast
  then show "\<exists>d \<in> set rs. rs_kind d = Dns_record" using \<open>rs_kind s = _\<close> by (elim imageE) (metis prod.inject)
qed

lemma installation_id_key:
  assumes "hex_digest sha" "stableInstallationId sha hostname target = Some i"
  shows "test RESOURCE_KEY i"
proof -
  obtain d where d: "hashHex sha (JObj [(''hostname'', JStr hostname),
       (''accountId'', JStr (case dt_accountId target of None \<Rightarrow> [] | Some a \<Rightarrow> a)),
       (''zoneId'', JStr (case dt_zoneId target of None \<Rightarrow> [] | Some z \<Rightarrow> z))]) = Some d" "i = ''acg-'' @ take 24 d"
    using assms(2) by (auto simp: stableInstallationId_def split: bind_splits)
  then show ?thesis using hashHex_hex [OF assms(1) d(1)] take_hex [of d 24]
    by (simp add: is_resource_key key_char_def char_class_defs)
qed

section \<open>The observation a run works on\<close>

definition observes :: "platform \<Rightarrow> observe_input \<Rightarrow> verified_target \<Rightarrow> observation \<Rightarrow> bool" where
  "observes pf inp target ob \<longleftrightarrow> ob_access ob = oi_access inp
     \<and> desired_for_observation pf inp target = Inr (ob_desiredState ob)
     \<and> (\<exists>config. validateGatewayConfig (pf_parse_url pf) (oi_config inp) = Inr config
          \<and> ob_receipt ob = fst (readTrustedReceipt (pf_sha pf) (oi_receipt inp) (ds_installationId (ob_desiredState ob))
              (expected_target_value target (gc_hostname config))))"

lemma trusted_receipt:
  assumes "fst (readTrustedReceipt sha v inst expected) = Some rc"
  shows "validateInstallationReceipt sha v (JObj [(''expectedTarget'', expected)]) = Inr rc" "rc_installationId rc = inst"
  using assms by (auto simp: readTrustedReceipt_def split: if_splits sum.splits)

lemma sane_start:
  assumes "hex_digest (pf_sha pf)" "observes pf inp target ob"
  shows "sane_observation pf ob"
proof -
  from assms(2) obtain config :: gateway_config where ob: "ob_access ob = oi_access inp"
    "desired_for_observation pf inp target = Inr (ob_desiredState ob)"
    "ob_receipt ob = fst (readTrustedReceipt (pf_sha pf) (oi_receipt inp) (ds_installationId (ob_desiredState ob))
              (expected_target_value target (gc_hostname config)))"
    unfolding observes_def by blast
  from ob(2) obtain c access where c: "normalizeAccess (pf_sha pf) (oi_access inp) = Some access"
      "desired_state_of (pf_sha pf) c (normalizeTarget (verified_target_value target)) access = Some (ob_desiredState ob)"
    by (auto simp: desired_for_observation_def buildGatewayDesiredState_def Let_def split: sum.splits option.splits if_splits)
  from c(2) have st: "stableInstallationId (pf_sha pf) (gc_hostname c) (normalizeTarget (verified_target_value target))
        = Some (ds_installationId (ob_desiredState ob))"
      "buildDesiredResources (pf_sha pf) c access (ds_installationId (ob_desiredState ob)) = Some (ds_resources (ob_desiredState ob))"
    by (auto simp: desired_state_of_def dest!: sym [where t = "ob_desiredState ob"] split: bind_splits)
  have "sane_access (pf_sha pf) (ob_access ob)"
    using c(1) unfolding ob(1) sane_access_def normalizeAccess_def Let_def
    by (auto simp: canaryServiceTokenId_def split: if_splits sum.splits)
  moreover have "receipt_ok r \<and> rc_installationId r = ds_installationId (ob_desiredState ob)" if r: "ob_receipt ob = Some r" for r
  proof -
    note t = trusted_receipt [OF ob(3) [symmetric, unfolded r]]
    show ?thesis using t(2) normalizeReceipt_ok(1) [OF validReceipt_Inr(2) [OF t(1)]] by simp
  qed
  ultimately show ?thesis
    using desired_sane [OF assms(1) st(2)] installation_id_key [OF assms(1) st(1)] by (simp add: sane_observation_def)
qed

section \<open>Instances of the interface\<close>

definition owned :: "cloud_resource \<Rightarrow> bool" where
  "owned r \<longleftrightarrow> cl_manager r \<noteq> None \<or> cl_installationId r \<noteq> None"

text \<open>The receipt's entry for a resource, and its unfinished creation of it.\<close>

definition in_inventory :: "receipt \<Rightarrow> cloud_resource \<Rightarrow> bool" where
  "in_inventory rc r \<longleftrightarrow> (\<exists>e \<in> set (rc_resources rc). rr_kind e = cl_kind r \<and> rr_key e = cl_key r
     \<and> sameLocator (cl_provider r) (Some (rr_provider e)))"

definition being_created :: "observation \<Rightarrow> receipt \<Rightarrow> cloud_resource \<Rightarrow> bool" where
  "being_created ob rc r \<longleftrightarrow> (\<exists>p d. rc_pending rc = Some p \<and> rp_type p = Apply_type \<and> rp_action p = Create_action
     \<and> rp_kind p = cl_kind r \<and> rp_key p = cl_key r
     \<and> d \<in> set (ds_resources (ob_desiredState ob)) \<and> rs_kind d = cl_kind r \<and> rs_key d = cl_key r
     \<and> rp_expectedDesiredHash p = dr_desiredHash d)"

text \<open>A live object with the identifier of a resource was read, and it carries the marker.\<close>

definition marker_read :: "observe_trace \<Rightarrow> string \<Rightarrow> cloud_resource \<Rightarrow> bool" where
  "marker_read h inst r \<longleftrightarrow> (\<exists>v l. cl_provider r = Some l \<and> live_at h v \<and> safeId (field v ''id'') = Some (loc_id l)
     \<and> field v (marker_field (cl_kind r)) = JStr (''acg:v1:'' @ inst @ '':'' @ cl_key r))"

definition ownership_proven :: "observation \<Rightarrow> observe_trace \<Rightarrow> cloud_resource \<Rightarrow> bool" where
  "ownership_proven ob h r \<longleftrightarrow> (\<exists>rc. ob_receipt ob = Some rc \<and> cl_manager r = Some MANAGER
     \<and> cl_installationId r = Some (rc_installationId rc)
     \<and> (if cl_kind r = Portal_access_application then in_inventory rc r
        else (in_inventory rc r \<or> being_created ob rc r) \<and> marker_read h (rc_installationId rc) r))"

definition ownership_kept :: "platform \<Rightarrow> observation \<Rightarrow> observed_so_far \<Rightarrow> observe_trace \<Rightarrow> bool" where
  "ownership_kept pf ob s h \<longleftrightarrow> sane_observation pf ob \<and> (\<forall>r \<in> set (os_resources s). owned r \<longrightarrow> ownership_proven ob h r)"

lemma ownership_extends: "ownership_proven ob h r \<Longrightarrow> prefix h h' \<Longrightarrow> ownership_proven ob h' r"
  unfolding ownership_proven_def marker_read_def using live_at_extends by (meson)

lemma made_proven:
  assumes sane: "sane_observation pf ob" and r: "makeObserved kind key l marker m desired (ob_receipt ob) prov = Inr r"
    and seen: "marker_seen h kind (loc_id l) marker"
    and d: "\<And>d. desired = Some d \<Longrightarrow> d \<in> set (ds_resources (ob_desiredState ob)) \<and> rs_kind d = kind \<and> rs_key d = key"
    and "owned r"
  shows "ownership_proven ob h r"
proof -
  note f = makeObserved_Inr [OF r]
  obtain rc em where rc: "ob_receipt ob = Some rc" "cl_installationId r = Some (rc_installationId rc)"
    "marker_of (rc_installationId rc) key = Inr em"
    "is_owned kind (marker = JStr em) m desired (ob_receipt ob) (receipt_entry (ob_receipt ob) kind key l)
       (pending_create (ob_receipt ob) kind key desired) prov" "cl_manager r = Some MANAGER"
    using f(5,6) \<open>owned r\<close> unfolding owned_def by blast
  have em: "em = ''acg:v1:'' @ rc_installationId rc @ '':'' @ key"
    using rc(3) by (auto simp: marker_of_def ownershipMarker_def Let_def split: if_splits)
  have entry: "in_inventory rc r" if "receipt_entry (ob_receipt ob) kind key l \<noteq> None"
    using that f(1-3) by (auto simp: receipt_entry_def trusted_resources_def rc(1) find_None_iff in_inventory_def sameLocator_def)
  have pending: "being_created ob rc r" if "pending_create (ob_receipt ob) kind key desired"
    using that d f(1,2) by (auto simp: pending_create_def rc(1) being_created_def split: option.splits)
  have "marker_read h (rc_installationId rc) r" if "marker = JStr em"
    using seen that f(1-3) unfolding marker_seen_def em marker_read_def by auto
  then show ?thesis using rc entry pending unfolding ownership_proven_def f(1) is_owned_def by (auto split: if_splits)
qed

interpretation ownership: observation_invariant pf ob "ownership_kept pf ob" for pf ob
proof
  show "ownership_kept pf ob s h \<Longrightarrow> sane_observation pf ob" for s h by (simp add: ownership_kept_def)
  show "ownership_kept pf ob s h \<Longrightarrow> prefix h h' \<Longrightarrow> ownership_kept pf ob s h'" for s h h'
    using ownership_extends by (auto simp: ownership_kept_def)
  show "ownership_kept pf ob s h \<Longrightarrow> ownership_kept pf ob (noted d s) h" for s h d
    by (simp add: ownership_kept_def noted_def)
  show "ownership_kept pf ob s h \<Longrightarrow> ownership_kept pf ob (pushed (unproven kind key p) s) h" for s h kind key p
    by (auto simp: ownership_kept_def pushed_cases unproven_def owned_def)
  show "ownership_kept pf ob (pushed r s) h"
    if "ownership_kept pf ob s h" "makeObserved kind key l marker m desired (ob_receipt ob) prov = Inr r"
      "marker_seen h kind (loc_id l) marker"
      "\<And>d. desired = Some d \<Longrightarrow> d \<in> set (ds_resources (ob_desiredState ob)) \<and> rs_kind d = kind \<and> rs_key d = key"
    for s h kind key l marker m desired prov r
    using that made_proven [of pf ob kind key l marker m desired prov r h] by (auto simp: ownership_kept_def pushed_cases)
qed

text \<open>Two reported resources with a locator differ in kind, key or locator.\<close>

definition place :: "cloud_resource \<Rightarrow> (resource_kind \<times> string \<times> string \<times> string) option" where
  "place r = map_option (\<lambda>l. (cl_kind r, cl_key r, parent_or_empty l, loc_id l)) (cl_provider r)"

definition located_once :: "cloud_resource list \<Rightarrow> bool" where
  "located_once rs \<longleftrightarrow> distinct (filter (\<lambda>p. p \<noteq> None) (map place rs))"

definition placed :: "platform \<Rightarrow> observation \<Rightarrow> observed_so_far \<Rightarrow> observe_trace \<Rightarrow> bool" where
  "placed pf ob s h \<longleftrightarrow> sane_observation pf ob \<and> located_once (os_resources s)"

lemma located_push: "located_once (os_resources s) \<Longrightarrow> located_once (os_resources (pushed r s))"
proof -
  have "hasLocator (os_resources s) (cl_kind r) (cl_key r) (cl_provider r)"
    if "x \<in> set (os_resources s)" "place x = Some p" "place r = Some p" for x p
    using that by (auto simp: hasLocator_def list_ex_iff place_def sameLocator_def split: option.splits)
  then show "located_once (os_resources s) \<Longrightarrow> located_once (os_resources (pushed r s))"
    by (fastforce simp: pushed_cases located_once_def)
qed

interpretation placement: observation_invariant pf ob "placed pf ob" for pf ob
  by unfold_locales (auto simp: placed_def noted_def located_push)

section \<open>The whole observation\<close>

text \<open>A property of what the loops collect holds of what \<open>readCloudflareObservedState\<close> returns.\<close>

lemma reading_delivers:
  assumes hex: "hex_digest (pf_sha pf)"
    and loops: "\<And>ob hostname s h. sane_observation pf ob \<Longrightarrow> os_resources s = []
      \<Longrightarrow> delivers (K ob) (observe_resources pf ob hostname s) h"
  shows "delivers (\<lambda>state h. \<exists>ob s. observes pf inp (cs_target state) ob \<and> sane_observation pf ob \<and> K ob s h
      \<and> cs_resources state = js_sort compareObserved (os_resources s)
      \<and> cs_diagnostics state = js_sort compareDiagnostics (os_diagnostics s)) (readCloudflareObservedState pf inp) []"
  unfolding readCloudflareObservedState_def
proof (rule delivers_seq_lift)
  fix e assume "(case validateGatewayConfig (pf_parse_url pf) (oi_config inp) of Inl e \<Rightarrow> Inl (Config_failure e) | Inr c \<Rightarrow> Inr c) = Inl e"
  then show "coded e" by (auto simp: coded_def split: sum.splits)
next
  fix config :: gateway_config
  assume c: "(case validateGatewayConfig (pf_parse_url pf) (oi_config inp) of Inl e \<Rightarrow> Inl (Config_failure e) | Inr c \<Rightarrow> Inr c) = Inr config"
  have zone: "delivers (\<lambda>_ _. True) (verified_zone inp) []"
    unfolding verified_zone_def
    by (intro delivery delivers_seq [OF delivers_read_list [where R = "\<lambda>_ _. True"]])
       (auto simp: normalizeSelectedTarget_def verifyZone_def split: if_splits option.splits)
  let ?R = "\<lambda>state h. \<exists>ob s. observes pf inp (cs_target state) ob \<and> sane_observation pf ob \<and> K ob s h
      \<and> cs_resources state = js_sort compareObserved (os_resources s)
      \<and> cs_diagnostics state = js_sort compareDiagnostics (os_diagnostics s)"
  show "delivers ?R (seq (verified_zone inp) (\<lambda>target.
     seq (lift (desired_for_observation pf inp target)) (\<lambda>st.
       let (trusted, notes) = readTrustedReceipt (pf_sha pf) (oi_receipt inp) (ds_installationId st)
             (expected_target_value target (gc_hostname config));
           ob = \<lparr>ob_access = oi_access inp, ob_desiredState = st, ob_receipt = trusted\<rparr> in
       seq (observe_resources pf ob (gc_hostname config) \<lparr>os_resources = [], os_diagnostics = notes\<rparr>) (\<lambda>s.
         return \<lparr>cs_diagnostics = js_sort compareDiagnostics (os_diagnostics s),
           cs_resources = js_sort compareObserved (os_resources s), cs_target = target\<rparr>)))) []"
  proof (rule delivers_seq [OF zone], rule delivers_seq_lift)
    fix target e assume "desired_for_observation pf inp target = Inl e"
    then show "coded e" by (auto simp: desired_for_observation_def split: sum.splits)
  next
    fix target st and h :: observe_trace
    assume st: "desired_for_observation pf inp target = Inr st"
    let ?t = "readTrustedReceipt (pf_sha pf) (oi_receipt inp) (ds_installationId st) (expected_target_value target (gc_hostname config))"
    define ob where "ob = \<lparr>ob_access = oi_access inp, ob_desiredState = st, ob_receipt = fst ?t\<rparr>"
    have obs: "observes pf inp target ob" using c st by (auto simp: observes_def ob_def split: sum.splits)
    note sane = sane_start [OF hex obs]
    have "delivers (K ob) (observe_resources pf ob (gc_hostname config) \<lparr>os_resources = [], os_diagnostics = snd ?t\<rparr>) h"
      using sane by (rule loops) simp
    then have "delivers ?R (seq (observe_resources pf ob (gc_hostname config) \<lparr>os_resources = [], os_diagnostics = snd ?t\<rparr>) (\<lambda>s.
         return \<lparr>cs_diagnostics = js_sort compareDiagnostics (os_diagnostics s),
           cs_resources = js_sort compareObserved (os_resources s), cs_target = target\<rparr>)) h"
      by (rule delivers_seq) (use obs sane in auto)
    then show "delivers ?R (let (trusted, notes) = ?t; ob = \<lparr>ob_access = oi_access inp, ob_desiredState = st, ob_receipt = trusted\<rparr> in
       seq (observe_resources pf ob (gc_hostname config) \<lparr>os_resources = [], os_diagnostics = notes\<rparr>) (\<lambda>s.
         return \<lparr>cs_diagnostics = js_sort compareDiagnostics (os_diagnostics s),
           cs_resources = js_sort compareObserved (os_resources s), cs_target = target\<rparr>)) h"
      by (simp add: ob_def Let_def case_prod_unfold)
  qed
qed

lemma reading_wp:
  assumes "hex_digest (pf_sha pf)"
    and "\<And>ob hostname s h. sane_observation pf ob \<Longrightarrow> os_resources s = [] \<Longrightarrow> delivers (K ob) (observe_resources pf ob hostname s) h"
    and Q: "\<And>ob s h (state :: cloud_state). observes pf inp (cs_target state) ob \<Longrightarrow> sane_observation pf ob \<Longrightarrow> K ob s h
      \<Longrightarrow> cs_resources state = js_sort compareObserved (os_resources s)
      \<Longrightarrow> cs_diagnostics state = js_sort compareDiagnostics (os_diagnostics s) \<Longrightarrow> Q state h"
  shows "wp (\<lambda>h c. True) (\<lambda>r h. case r of Inl e \<Rightarrow> True | Inr state \<Rightarrow> Q state h) (readCloudflareObservedState pf inp) []"
proof (rule wp_post [OF reading_delivers [OF assms(1,2), of inp, unfolded delivers_def]])
  fix r :: "observe_failure + cloud_state" and h
  assume d: "case r of Inl e \<Rightarrow> coded e | Inr state \<Rightarrow> \<exists>ob s. observes pf inp (cs_target state) ob \<and> sane_observation pf ob \<and> K ob s h
      \<and> cs_resources state = js_sort compareObserved (os_resources s)
      \<and> cs_diagnostics state = js_sort compareDiagnostics (os_diagnostics s)"
  show "case r of Inl e \<Rightarrow> True | Inr state \<Rightarrow> Q state h"
  proof (cases r)
    case (Inr state)
    with d obtain ob s where "observes pf inp (cs_target state) ob" "sane_observation pf ob" "K ob s h"
      "cs_resources state = js_sort compareObserved (os_resources s)"
      "cs_diagnostics state = js_sort compareDiagnostics (os_diagnostics s)" by auto
    then show ?thesis using Q by (simp add: Inr)
  qed simp
qed

end
