(* ===== verification/Input_Properties.thy ===== *)
theory Input_Properties
  imports Canary_Identity
begin

text \<open>
  The properties of the input layer: canonical JSON and its digest, access groups, configuration
  validation and the canary service identity. \<open>sample_config\<close> and \<open>sample_url\<close> are the concrete
  inputs the witnesses evaluate.
\<close>

section \<open>Canonical JSON\<close>

text \<open>
  Canonical serialisation identifies exactly the values that differ only in the order of object
  keys: \<^verbatim>\<open>canonicalJson\<close> gives two well-formed values the same text if and only if they are equal
  once every object's keys are sorted. So an equality of hashed texts is an equality of content.
\<close>

theorem canonical_text_identifies:
  assumes "well_formed v" "well_formed w" "canonicalJson v = Some t" "canonicalJson w = Some u"
  shows "t = u \<longleftrightarrow> sort_keys v = sort_keys w"
  using assms canonical_inject [of v w] canonical_of_sort_keys [of v w] by blast

theorem canonical_text_identifies_witness:
  "''{\"a\":1,\"b\":[true]}'' = ''{\"a\":1,\"b\":[true]}'' \<longleftrightarrow>
   sort_keys (JObj [(''b'', JArr [JBool True]), (''a'', jint 1)]) =
   sort_keys (JObj [(''a'', jint 1), (''b'', JArr [JBool True])])"
  by (rule canonical_text_identifies) code_simp+

section \<open>Access groups\<close>

text \<open>
  Normalised access groups are a set: whatever the raw observation, the groups returned are
  valid, sorted, and no two share an identifier; and when nothing is counted invalid they are
  exactly the raw observations, read one by one, so nothing was dropped.
\<close>

theorem access_groups_normalised:
  "distinct (map ag_id (ng_groups (normalizeAccessGroups access)))
   \<and> list_all valid_group (ng_groups (normalizeAccessGroups access))
   \<and> sorted_wrt (\<lambda>g h. compareGroups g h \<le> 0) (ng_groups (normalizeAccessGroups access))
   \<and> (ng_provided (normalizeAccessGroups access) \<and> ng_invalidCount (normalizeAccessGroups access) = 0 \<longrightarrow>
      (\<exists>raws. field access ''groups'' = JArr raws
        \<and> mset (map Some (ng_groups (normalizeAccessGroups access))) = mset (map readAccessGroup raws)))"
proof (intro conjI impI)
  show "list_all valid_group (ng_groups (normalizeAccessGroups access))"
    unfolding list_all_iff using normalized_groups_valid by blast
next
  assume "ng_provided (normalizeAccessGroups access) \<and> ng_invalidCount (normalizeAccessGroups access) = 0"
  then show "\<exists>raws. field access ''groups'' = JArr raws
      \<and> mset (map Some (ng_groups (normalizeAccessGroups access))) = mset (map readAccessGroup raws)"
    using normalized_groups_complete [of access] by blast
qed (blast intro: normalized_groups_distinct normalized_groups_sorted)+

theorem access_groups_normalised_witness:
  "\<exists>raws. field (JObj [(''groups'', JArr [JObj [(''id'', JStr ''g1''), (''name'', JStr ''Staff'')]])]) ''groups'' = JArr raws
    \<and> mset (map Some (ng_groups (normalizeAccessGroups
        (JObj [(''groups'', JArr [JObj [(''id'', JStr ''g1''), (''name'', JStr ''Staff'')]])])))) = mset (map readAccessGroup raws)"
proof -
  have "ng_provided (normalizeAccessGroups (JObj [(''groups'', JArr [JObj [(''id'', JStr ''g1''), (''name'', JStr ''Staff'')]])]))
    \<and> ng_invalidCount (normalizeAccessGroups (JObj [(''groups'', JArr [JObj [(''id'', JStr ''g1''), (''name'', JStr ''Staff'')]])])) = 0"
    by code_simp
  then show ?thesis
    using access_groups_normalised [of "JObj [(''groups'', JArr [JObj [(''id'', JStr ''g1''), (''name'', JStr ''Staff'')]])]"]
    by blast
qed

text \<open>
  A group resolved from a stored digest is the only current group with that digest: the digest
  does not depend on the order of the groups, the count must be one, and no other normalised group
  of the same observation has it.
\<close>

theorem access_group_resolution_unique:
  assumes "resolveAccessGroupByDigest sha access n h = Some g"
  shows "n = 1 \<and> accessGroupDigest sha [g] = h
    \<and> filter (\<lambda>g'. accessGroupDigest sha [g'] = h) (ng_groups (normalizeAccessGroups access)) = [g]"
proof -
  have "filter (\<lambda>g'. accessGroupDigest sha [g'] = h) (ng_groups (normalizeAccessGroups access)) = [g]" "n = 1"
    using assms by (auto simp: resolveAccessGroupByDigest_def Let_def split: if_splits list.splits)
  moreover have "accessGroupDigest sha [g] = h" using resolveAccessGroupByDigest_Some [OF assms] by blast
  ultimately show ?thesis by blast
qed

theorem access_group_resolution_unique_witness:
  "filter (\<lambda>g'. accessGroupDigest rev [g'] = accessGroupDigest rev [\<lparr>ag_id = ''g1'', ag_name = ''Staff''\<rparr>])
     (ng_groups (normalizeAccessGroups
       (JObj [(''groups'', JArr [JObj [(''id'', JStr ''g1''), (''name'', JStr ''Staff'')]])]))) =
   [\<lparr>ag_id = ''g1'', ag_name = ''Staff''\<rparr>]"
proof -
  have "resolveAccessGroupByDigest rev (JObj [(''groups'', JArr [JObj [(''id'', JStr ''g1''), (''name'', JStr ''Staff'')]])])
      1 (accessGroupDigest rev [\<lparr>ag_id = ''g1'', ag_name = ''Staff''\<rparr>]) = Some \<lparr>ag_id = ''g1'', ag_name = ''Staff''\<rparr>"
    by code_simp
  from access_group_resolution_unique [OF this] show ?thesis by blast
qed

section \<open>Configuration\<close>

definition sample_entries :: "(string \<times> jval) list" where
  "sample_entries = [(''schemaVersion'', jint 1),
     (''gateway'', JObj [(''name'', JStr ''Team''), (''hostname'', JStr ''mcp.ex.io''), (''codeMode'', JStr ''off'')]),
     (''policy'', JObj [(''capabilityMode'', JStr ''read_only''), (''credentialCustody'', JStr ''customer''),
        (''telemetry'', JStr ''off'')]),
     (''sources'', JArr [JObj [(''id'', JStr ''s''), (''label'', JStr ''S''), (''url'', JStr ''https://a.io/''),
        (''authentication'', JObj [(''mode'', JStr ''none''), (''onBehalfOfUser'', JBool False)]),
        (''enabledTools'', JArr [JStr ''t''])]])]"

definition sample_config :: jval where
  "sample_config = JObj sample_entries"

definition sample_url :: "string \<Rightarrow> url option" where
  "sample_url s = (if s = ''https://a.io/'' then
     Some \<lparr>u_protocol = ''https:'', u_username = [], u_password = [], u_hostname = ''a.io'', u_searchKeys = []\<rparr>
   else None)"

lemma sample_config_ok:
  "isJsonObject sample_config" "config_errors sample_url sample_config = []"
  "parse_optional_string (field sample_config ''$schema'') \<noteq> None"
  by code_simp+

lemma sample_config_accepted:
  "\<exists>c. validateGatewayConfig sample_url sample_config = Inr c"
  using no_errors_schema(2) [OF sample_config_ok(1,2)] sample_config_ok
  by (auto simp: validateGatewayConfig_def)

text \<open>
  C40. An accepted configuration is safe to plan from: no key anywhere in it looks like a secret
  (bar \<^verbatim>\<open>credentialCustody\<close>), credentials stay with the customer, telemetry is off, every source is
  an HTTPS URL on a public host without credentials in it, source identifiers are distinct, and
  every tool list is a non-empty list of distinct exact names within the size limits.
\<close>

theorem config_accepted_sound:
  assumes "validateGatewayConfig parse_url input = Inr c"
  shows "valid_config parse_url c \<and> secret_free input
    \<and> field (field input ''policy'') ''credentialCustody'' = JStr ''customer''
    \<and> field (field input ''policy'') ''telemetry'' = JStr ''off''"
proof -
  have ok: "isJsonObject input" "config_errors parse_url input = []" "gatewayConfigSchema input = Some c"
    using assms by (auto simp: validateGatewayConfig_def split: if_splits option.splits)
  then have "secret_free input"
    using findSecretFields_empty(1) [of input "''$''"] by (simp add: config_errors_def isJsonObject_def)
  with ok(3) validateGatewayConfig_valid [OF assms] show ?thesis
    by (auto simp: gatewayConfigSchema_def Let_def split: if_splits)
qed

theorem config_accepted_sound_witness:
  "\<exists>c. validateGatewayConfig sample_url sample_config = Inr c \<and> valid_config sample_url c \<and> secret_free sample_config"
  using sample_config_accepted config_accepted_sound by blast

text \<open>
  The validator decides: a JSON object whose optional \<^verbatim>\<open>$schema\<close> is text is accepted exactly when
  the validators report nothing, and otherwise it is refused with exactly the reported messages;
  the schema never refuses what the validators let through.
\<close>

theorem config_decided:
  assumes "isJsonObject input" "parse_optional_string (field input ''$schema'') \<noteq> None"
  shows "(config_errors parse_url input = [] \<longrightarrow> (\<exists>c. validateGatewayConfig parse_url input = Inr c))
    \<and> (config_errors parse_url input \<noteq> [] \<longrightarrow>
        validateGatewayConfig parse_url input = Inl (ConfigErrors (config_errors parse_url input)))"
  using assms no_errors_schema(2) [OF assms(1)]
  by (auto simp: validateGatewayConfig_def split: option.split)

theorem config_decided_witness:
  "(\<exists>c. validateGatewayConfig sample_url sample_config = Inr c)
   \<and> validateGatewayConfig (\<lambda>_. None) (JObj []) = Inl (ConfigErrors (config_errors (\<lambda>_. None) (JObj [])))"
proof
  show "\<exists>c. validateGatewayConfig sample_url sample_config = Inr c"
    using config_decided [OF sample_config_ok(1,3)] sample_config_ok(2) by blast
  have "isJsonObject (JObj []) \<and> parse_optional_string (field (JObj []) ''$schema'') \<noteq> None
      \<and> config_errors (\<lambda>_. None) (JObj []) \<noteq> []"
    by code_simp
  then show "validateGatewayConfig (\<lambda>_. None) (JObj []) = Inl (ConfigErrors (config_errors (\<lambda>_. None) (JObj [])))"
    using config_decided [of "JObj []"] by blast
qed

text \<open>
  The one gap between the validators and the schema: a \<^verbatim>\<open>$schema\<close> that is no text passes every
  validator, and \<^verbatim>\<open>v.parse\<close> then throws its own error in place of a \<^verbatim>\<open>GatewayConfigError\<close> with
  messages.
\<close>

theorem config_schema_key_gap:
  "isJsonObject (JObj ((''$schema'', jint 1) # sample_entries))
   \<and> config_errors sample_url (JObj ((''$schema'', jint 1) # sample_entries)) = []
   \<and> validateGatewayConfig sample_url (JObj ((''$schema'', jint 1) # sample_entries)) = Inl ConfigSchemaError"
proof (intro conjI)
  show obj: "isJsonObject (JObj ((''$schema'', jint 1) # sample_entries))" by code_simp
  show errs: "config_errors sample_url (JObj ((''$schema'', jint 1) # sample_entries)) = []" by code_simp
  have "gatewayConfigSchema (JObj ((''$schema'', jint 1) # sample_entries)) = None" by code_simp
  then show "validateGatewayConfig sample_url (JObj ((''$schema'', jint 1) # sample_entries)) = Inl ConfigSchemaError"
    using obj errs by (simp add: validateGatewayConfig_def)
qed

section \<open>The canary's service identity\<close>

text \<open>
  A service-token policy is tied to one token: a policy that matches a stored identity digest
  allows exactly one service token and nothing else, and two policies that match one digest allow
  the same token, or their two serialised identities collide under SHA-256.
\<close>

theorem canary_policy_token:
  assumes "serviceTokenPolicyMatchesDigest sha p h" "serviceTokenPolicyMatchesDigest sha q h"
  shows "\<exists>r s i j. field p ''include'' = JArr [r] \<and> field q ''include'' = JArr [s]
    \<and> field p ''exclude'' = JArr [] \<and> field p ''require'' = JArr []
    \<and> exactServiceTokenPolicyRule r = Some i \<and> exactServiceTokenPolicyRule s = Some j
    \<and> (i = j \<or> collision sha (token_text i) (token_text j))"
proof -
  obtain r where r: "field p ''include'' = JArr [r]"
    using assms(1) by (rule serviceTokenPolicyMatchesDigest_token)
  obtain s where s: "field q ''include'' = JArr [s]"
    using assms(2) by (rule serviceTokenPolicyMatchesDigest_token)
  have "field p ''exclude'' = JArr [] \<and> field p ''require'' = JArr []"
    using assms(1) by (auto simp: serviceTokenPolicyMatchesDigest_def split: if_splits)
  with r s policy_token_unique [OF assms r s] show ?thesis by blast
qed

definition sample_token :: string where
  "sample_token = ''01234567-89ab-4def-8123-456789abcdef''"

definition sample_policy :: jval where
  "sample_policy = JObj [(''decision'', JStr ''non_identity''),
     (''include'', JArr [JObj [(''service_token'', JObj [(''token_id'', JStr sample_token)])]]),
     (''exclude'', JArr []), (''require'', JArr [])]"

theorem canary_policy_token_witness:
  "\<exists>r i. field sample_policy ''include'' = JArr [r] \<and> exactServiceTokenPolicyRule r = Some i"
proof -
  have "\<exists>h. canaryServiceIdentityDigest rev sample_token = Inr h \<and> serviceTokenPolicyMatchesDigest rev sample_policy h"
    by (rule exI [of _ "''sha256:'' @ rev (token_text sample_token)"]) code_simp
  then obtain h where "serviceTokenPolicyMatchesDigest rev sample_policy h" by blast
  from canary_policy_token [OF this this] show ?thesis by blast
qed

end
