(* ===== verification/Observer_Properties.thy ===== *)
theory Observer_Properties
  imports Observer_Safety Plan_Properties Input_Properties
begin

text \<open>
  Properties of the observer: its state is one the reconciler accepts, in a fixed order; nothing is reported as
  owned without proof; and so a plan made from it touches only what is proven to be this installation's.
\<close>

section \<open>What the reconciler reads\<close>

lemma pick_locator: "pick [''id'', ''parentId''] (locator_value l) = locator_value l"
  by (cases "loc_parentId l") (simp_all add: pick_def locator_value_def opt_entry_def)

lemma valid_provider: "valid_locator kind l \<Longrightarrow> validProviderForKind kind (locator_value l)"
  by (auto simp: validProviderForKind_def locator_value_def valid_locator_def opt_entry_def safeOpaqueId_Some split: option.splits)

lemma read_locator_value: "read_locator (locator_value l) = l"
  by (cases "loc_parentId l") (simp_all add: read_locator_def locator_value_def opt_entry_def)

lemma provider_schema: "observedProviderSchema (locator_value l) = Some (locator_value l)"
proof -
  have "isObject (locator_value l)" "isString (field (locator_value l) ''id'')"
    "optional_text (field (locator_value l) ''parentId'') \<noteq> None"
    by (cases "loc_parentId l"; simp add: locator_value_def opt_entry_def optional_text_def)+
  then show ?thesis by (simp add: observedProviderSchema_def pick_locator)
qed

lemma resource_schema:
  "observedResourceSchema (cloud_resource_value r) = Some (r\<lparr>cl_provider := None\<rparr>, map_option locator_value (cl_provider r))"
proof -
  have "field (cloud_resource_value r) ''provider'' = (case cl_provider r of None \<Rightarrow> Undef | Some l \<Rightarrow> locator_value l)"
    by (cases "cl_provider r") (simp_all add: cloud_resource_value_def opt_entry_def)
  moreover have "locator_value l \<noteq> Undef" for l by (simp add: locator_value_def)
  ultimately have p: "(if field (cloud_resource_value r) ''provider'' = Undef then Some None
            else map_option Some (observedProviderSchema (field (cloud_resource_value r) ''provider'')))
      = Some (map_option locator_value (cl_provider r))"
    by (cases "cl_provider r") (simp_all add: provider_schema)
  have f: "field (cloud_resource_value r) ''desiredHash'' = JStr (cl_desiredHash r)"
    "field (cloud_resource_value r) ''key'' = JStr (cl_key r)" "field (cloud_resource_value r) ''kind'' = JStr (kind_text (cl_kind r))"
    "field (cloud_resource_value r) ''owner'' = JObj (opt_entry ''installationId'' (map_option JStr (cl_installationId r))
          @ opt_entry ''manager'' (map_option JStr (cl_manager r)))" "isObject (cloud_resource_value r)"
    by (simp_all add: cloud_resource_value_def)
  show ?thesis unfolding observedResourceSchema_def p f
    by (cases "cl_installationId r"; cases "cl_manager r"; cases r)
       (simp_all add: cloud_resource_value_def opt_entry_def optional_text_def Let_def)
qed

lemma diagnostic_schema: "observedDiagnosticSchema (diagnostic_value d) = Some d"
  by (cases "cd_count d"; cases "cd_key d"; cases "cd_kind d"; cases d)
     (simp_all add: observedDiagnosticSchema_def diagnostic_value_def opt_entry_def optional_text_def)

lemma target_schema: "verifiedTargetSchema (verified_target_value t) = Some t"
  by (cases t) (simp add: verifiedTargetSchema_def verified_target_value_def)

lemma all_or_none_map: "(\<And>x. x \<in> set xs \<Longrightarrow> f (g x) = Some (k x)) \<Longrightarrow> all_or_none f (map g xs) = Some (map k xs)"
  by (induction xs) simp_all

lemma map_or_throw_map: "(\<And>x. x \<in> set xs \<Longrightarrow> f (g x) = Inr x) \<Longrightarrow> map_or_throw f (map g xs) = Inr xs"
  by (induction xs) simp_all

lemma sane_normal:
  assumes "sane_observation pf ob" "sane_resource ob r"
  shows "normalizeObservedResource (r\<lparr>cl_provider := None\<rparr>, map_option locator_value (cl_provider r)) = Inr r"
    "observed_resource_ok r"
proof -
  have v: "\<And>l. cl_provider r = Some l \<Longrightarrow> validProviderForKind (cl_kind r) (locator_value l)"
    using assms(2) valid_provider by (simp add: sane_resource_def)
  show "normalizeObservedResource (r\<lparr>cl_provider := None\<rparr>, map_option locator_value (cl_provider r)) = Inr r"
    using v by (cases "cl_provider r"; cases r)
      (simp_all add: normalizeObservedResource_def normalizeObservedLocator_def read_locator_value)
  show "observed_resource_ok r"
    using assms(2) known_valid [OF assms(1)] v
    by (auto simp: sane_resource_def observed_resource_ok_def provider_value_def split: option.splits)
qed

lemma sane_state_accepted:
  assumes "sane_observation pf ob" "\<forall>r \<in> set (cs_resources s). sane_resource ob r"
  shows "normalizeObservedState (cloud_state_value s) = Inr s"
proof -
  have "all_or_none observedDiagnosticSchema (map diagnostic_value (cs_diagnostics s)) = Some (cs_diagnostics s)"
    using all_or_none_map [of "cs_diagnostics s" observedDiagnosticSchema diagnostic_value "\<lambda>d. d"]
    by (simp add: diagnostic_schema)
  moreover have "all_or_none observedResourceSchema (map cloud_resource_value (cs_resources s))
      = Some (map (\<lambda>r. (r\<lparr>cl_provider := None\<rparr>, map_option locator_value (cl_provider r))) (cs_resources s))"
    by (rule all_or_none_map) (rule resource_schema)
  moreover have "map_or_throw normalizeObservedResource
      (map (\<lambda>r. (r\<lparr>cl_provider := None\<rparr>, map_option locator_value (cl_provider r))) (cs_resources s)) = Inr (cs_resources s)"
    using assms sane_normal(1) by (intro map_or_throw_map) blast
  moreover have "assertObservedResources (cs_resources s) = Inr ()"
    using assms sane_normal(2) by (auto simp: assertObservedResources_def list_all_iff)
  ultimately show ?thesis
    by (cases s) (simp add: normalizeObservedState_def cloud_state_value_def target_schema)
qed

lemma started_sane: "os_resources s = [] \<Longrightarrow> sane_so_far ob s"
  by (simp add: sane_so_far_def)

lemma ownership_loops:
  "sane_observation pf ob \<Longrightarrow> os_resources s = [] \<Longrightarrow> delivers (ownership.kept ob pf) (observe_resources pf ob hostname s) h"
  by (rule ownership.observation_kept) (simp add: ownership.kept_def ownership_kept_def started_sane)

lemma placement_loops:
  "sane_observation pf ob \<Longrightarrow> os_resources s = [] \<Longrightarrow> delivers (placement.kept ob pf) (observe_resources pf ob hostname s) h"
  by (rule placement.observation_kept) (simp add: placement.kept_def placed_def located_once_def started_sane)

section \<open>What is returned\<close>

text \<open>A platform and an input for the witnesses: one source, an allowed email, no receipt.\<close>

definition observe_platform :: platform where
  "observe_platform = \<lparr>pf_sha = sample_sha, pf_parse_url = sample_url\<rparr>"

definition observe_sample :: observe_input where
  "observe_sample = \<lparr>oi_access = JObj [(''allowedEmails'', JArr [JStr ''a@b.io''])], oi_config = sample_config, oi_receipt = JNull,
     oi_target = JObj [(''accountId'', JStr ''acc''), (''zoneId'', JStr ''zone'')]\<rparr>"

lemma observe_hex: "hex_digest (pf_sha observe_platform)"
  by (simp add: observe_platform_def sample_hex)

interpretation observed_state_order: comparison compareObserved
  unfolding compareObserved_def [abs_def] by (intro comparison_intros)

interpretation observed_diagnostic_order: comparison compareDiagnostics
  unfolding compareDiagnostics_def [abs_def] by (intro comparison_intros)

text \<open>
  The observer never fails with a raw error: whatever the provider, the receipt and the access input are, an
  observation ends with a state, with a rejected configuration, or with an \<open>ObservedStateError\<close> whose code is one of the
  six safe codes. In particular no ownership marker and no comparison throws.
\<close>

theorem observe_errors_coded:
  assumes "hex_digest (pf_sha pf)"
  shows "wp (\<lambda>h c. True) (\<lambda>r h. case r of Inl e \<Rightarrow> coded e | Inr state \<Rightarrow> True) (readCloudflareObservedState pf inp) []"
  using reading_delivers [OF assms ownership_loops, of inp] unfolding delivers_def
  by (rule wp_post) (auto split: sum.splits)

theorem observe_errors_coded_witness:
  "wp (\<lambda>h c. True) (\<lambda>r h. case r of Inl e \<Rightarrow> coded e | Inr state \<Rightarrow> True) (readCloudflareObservedState observe_platform observe_sample) []"
  by (rule observe_errors_coded) (rule observe_hex)

text \<open>
  C36. Whatever the provider answers, the state the observer returns is one the reconciler accepts as it is: normalising it
  gives the same state, with valid keys, hashes and locators.
\<close>

theorem observed_state_accepted:
  assumes "hex_digest (pf_sha pf)"
  shows "wp (\<lambda>h c. True) (\<lambda>r h. case r of Inl e \<Rightarrow> True | Inr state \<Rightarrow> normalizeObservedState (cloud_state_value state) = Inr state)
    (readCloudflareObservedState pf inp) []"
  by (rule reading_wp [OF assms ownership_loops]) (auto simp: ownership.kept_def sane_so_far_def intro!: sane_state_accepted)

theorem observed_state_accepted_witness:
  "wp (\<lambda>h c. True) (\<lambda>r h. case r of Inl e \<Rightarrow> True | Inr state \<Rightarrow> normalizeObservedState (cloud_state_value state) = Inr state)
    (readCloudflareObservedState observe_platform observe_sample) []"
  by (rule observed_state_accepted) (rule observe_hex)

text \<open>
  The observed state is in a fixed order and has no duplicates: resources are sorted by kind, key and locator,
  diagnostics by code, kind and key, and no two resources with a locator have the same kind, key and locator.
\<close>

theorem observed_located_once:
  assumes "hex_digest (pf_sha pf)"
  shows "wp (\<lambda>h c. True) (\<lambda>r h. case r of Inl e \<Rightarrow> True | Inr state \<Rightarrow>
      sorted_wrt (\<lambda>a b. compareObserved a b \<le> 0) (cs_resources state)
      \<and> sorted_wrt (\<lambda>a b. compareDiagnostics a b \<le> 0) (cs_diagnostics state)
      \<and> located_once (cs_resources state)) (readCloudflareObservedState pf inp) []"
proof -
  have "located_once (js_sort compareObserved rs)" if "located_once rs" for rs
  proof -
    have "mset (filter (\<lambda>p. p \<noteq> None) (map place (js_sort compareObserved rs))) = mset (filter (\<lambda>p. p \<noteq> None) (map place rs))"
      by (simp add: mset_filter)
    then show ?thesis using that mset_eq_imp_distinct_iff unfolding located_once_def by blast
  qed
  then show ?thesis
    by (intro reading_wp [OF assms placement_loops]) (auto simp: placement.kept_def placed_def observed_state_order.sorted_sort
        observed_diagnostic_order.sorted_sort)
qed

theorem observed_located_once_witness:
  "wp (\<lambda>h c. True) (\<lambda>r h. case r of Inl e \<Rightarrow> True | Inr state \<Rightarrow>
      sorted_wrt (\<lambda>a b. compareObserved a b \<le> 0) (cs_resources state)
      \<and> sorted_wrt (\<lambda>a b. compareDiagnostics a b \<le> 0) (cs_diagnostics state)
      \<and> located_once (cs_resources state)) (readCloudflareObservedState observe_platform observe_sample) []"
  by (rule observed_located_once) (rule observe_hex)

text \<open>
  Ownership is proven: a resource is only reported with an owner if the receipt that was given validates
  (seal and target included) for this installation, and the owner is that receipt's installation. A portal application is in
  the receipt's inventory with this locator. Any other resource is in the inventory with this locator, or is what the
  receipt's pending creation is for, and a live object with its identifier was read that carries the installation's marker for
  its key.
\<close>

theorem observed_ownership_proven:
  assumes "hex_digest (pf_sha pf)"
  shows "wp (\<lambda>h c. True) (\<lambda>r h. case r of Inl e \<Rightarrow> True | Inr state \<Rightarrow>
      \<exists>ob. observes pf inp (cs_target state) ob \<and> list_all (\<lambda>r. \<not> owned r \<or> ownership_proven ob h r) (cs_resources state))
    (readCloudflareObservedState pf inp) []"
  by (rule reading_wp [OF assms ownership_loops]) (auto simp: ownership.kept_def ownership_kept_def list_all_iff)

theorem observed_ownership_proven_witness:
  "wp (\<lambda>h c. True) (\<lambda>r h. case r of Inl e \<Rightarrow> True | Inr state \<Rightarrow>
      \<exists>ob. observes observe_platform observe_sample (cs_target state) ob \<and> list_all (\<lambda>r. \<not> owned r \<or> ownership_proven ob h r) (cs_resources state))
    (readCloudflareObservedState observe_platform observe_sample) []"
  by (rule observed_ownership_proven) (rule observe_hex)

section \<open>Plans from observations\<close>

lemma observed_locator: "valid_locator kind l \<Longrightarrow> normalizeProviderLocator kind (locator_value l) = Some l"
  by (cases l; cases "loc_parentId l")
     (auto simp: normalizeProviderLocator_def locator_value_def valid_locator_def opt_entry_def safeOpaqueId_def Let_def)

lemma read_observed:
  assumes "readObservedResource (cloud_resource_value r) = Some x" "sane_resource ob r"
  shows "ob_kind x = cl_kind r" "ob_key x = cl_key r" "ob_provider x = cl_provider r" "isOwned x inst \<Longrightarrow> owned r"
proof -
  have f: "field (cloud_resource_value r) ''key'' = JStr (cl_key r)" "field (cloud_resource_value r) ''kind'' = JStr (kind_text (cl_kind r))"
    "field (cloud_resource_value r) ''owner'' = JObj (opt_entry ''installationId'' (map_option JStr (cl_installationId r))
          @ opt_entry ''manager'' (map_option JStr (cl_manager r)))"
    "field (cloud_resource_value r) ''provider'' = (case cl_provider r of None \<Rightarrow> Undef | Some l \<Rightarrow> locator_value l)"
    by (cases "cl_provider r"; simp add: cloud_resource_value_def opt_entry_def)+
  show "ob_kind x = cl_kind r" "ob_key x = cl_key r"
    using assms(1) by (auto simp: readObservedResource_def f Let_def split: if_splits)
  have "ob_provider x = normalizeProviderLocator (cl_kind r) (case cl_provider r of None \<Rightarrow> Undef | Some l \<Rightarrow> locator_value l)"
    using assms(1) by (auto simp: readObservedResource_def f Let_def split: if_splits)
  then show "ob_provider x = cl_provider r"
    using assms(2) observed_locator
    by (cases "cl_provider r") (auto simp: sane_resource_def normalizeProviderLocator_def [of _ Undef])
  show "owned r" if "isOwned x inst"
    using that assms(1)
    by (cases "cl_manager r"; cases "cl_installationId r")
       (auto simp: readObservedResource_def f isOwned_def owned_def opt_entry_def Let_def split: if_splits)
qed

lemma normalized_observation:
  assumes "x \<in> set (normalizeObservedResources (cloud_state_value s))"
  obtains r where "r \<in> set (cs_resources s)" "readObservedResource (cloud_resource_value r) = Some x"
  using assms that
  by (auto simp: normalizeObservedResources_def cloud_state_value_def List.map_filter_def)

text \<open>What a plan does with an existing resource.\<close>

definition touches :: "gateway_plan \<Rightarrow> plan_change \<Rightarrow> bool" where
  "touches plan c \<longleftrightarrow> c \<in> set (gp_uninstall plan) \<or> c \<in> set (gp_changes plan) \<and> pc_action c \<in> {Update, Delete, Noop}"

lemma touched_owned:
  assumes "buildGatewayPlan sha parse_url config observed release access = Inr plan" "touches plan c"
  shows "\<exists>x inst. x \<in> set (normalizeObservedResources observed) \<and> isOwned x inst \<and> ob_kind x = pc_kind c \<and> ob_key x = pc_key c
    \<and> pc_provider c = ob_provider x"
proof -
  obtain rel st where p: "plan_of sha rel st observed = Some plan"
    using assms(1) by (auto simp: buildGatewayPlan_def andThen_Inr split: option.splits)
  let ?obs = "normalizeObservedResources observed"
  show ?thesis
  proof (cases "c \<in> set (gp_uninstall plan)")
    case True
    then obtain x where "x \<in> set ?obs" "isOwned x (ds_installationId st)" "c = uninstallChange x"
      unfolding plan_of_parts(2) [OF p, symmetric] by (auto simp: reconcile_def)
    then show ?thesis by (auto simp: uninstallChange_def)
  next
    case False
    then have c: "c \<in> set (fst (reconcile (ds_resources st) ?obs (ds_installationId st)))" "pc_action c \<in> {Update, Delete, Noop}"
      using assms(2) unfolding plan_of_parts(1) [OF p] by (auto simp: touches_def)
    from reconcile_owned [OF this] obtain x where
      x: "filter (\<lambda>ob. ob_kind ob = pc_kind c \<and> ob_key ob = pc_key c \<and> isOwned ob (ds_installationId st)) ?obs = [x]"
      "pc_provider c = ob_provider x" by blast
    from x(1) have "x \<in> set (filter (\<lambda>ob. ob_kind ob = pc_kind c \<and> ob_key ob = pc_key c \<and> isOwned ob (ds_installationId st)) ?obs)"
      by simp
    with x(2) show ?thesis by auto
  qed
qed

text \<open>
  C26. From observation to plan: every update, deletion, no-op or uninstallation in a plan that is made from an observed state
  names a resource, with its locator, that the observer reported with proven ownership. So neither a foreign resource nor
  one whose marker or receipt entry is missing is ever planned to be touched, whatever the provider answers.
\<close>

theorem observed_plan_touches_proven:
  assumes "hex_digest (pf_sha pf)"
  shows "wp (\<lambda>h c. True) (\<lambda>r h. case r of Inl e \<Rightarrow> True | Inr state \<Rightarrow>
      \<exists>ob. observes pf inp (cs_target state) ob
        \<and> (\<forall>config release access plan c.
             buildGatewayPlan (pf_sha pf) (pf_parse_url pf) config (cloud_state_value state) release access = Inr plan \<and> touches plan c
             \<longrightarrow> (\<exists>r \<in> set (cs_resources state). cl_kind r = pc_kind c \<and> cl_key r = pc_key c \<and> cl_provider r = pc_provider c
                   \<and> ownership_proven ob h r)))
    (readCloudflareObservedState pf inp) []"
proof -
  have *: "\<exists>r \<in> set (cs_resources state). cl_kind r = pc_kind c \<and> cl_key r = pc_key c \<and> cl_provider r = pc_provider c \<and> ownership_proven ob h r"
    if k: "ownership.kept ob pf s h" "cs_resources state = js_sort compareObserved (os_resources s)"
      and p: "buildGatewayPlan (pf_sha pf) (pf_parse_url pf) config (cloud_state_value state) release access = Inr plan" "touches plan c"
    for ob s h state config release access plan c
  proof -
    from touched_owned [OF p] obtain x inst where x: "x \<in> set (normalizeObservedResources (cloud_state_value state))" "isOwned x inst"
      "ob_kind x = pc_kind c" "ob_key x = pc_key c" "pc_provider c = ob_provider x" by blast
    obtain r where r: "r \<in> set (cs_resources state)" "readObservedResource (cloud_resource_value r) = Some x"
      using x(1) by (rule normalized_observation)
    have "sane_resource ob r" "owned r \<Longrightarrow> ownership_proven ob h r"
      using k r(1) by (auto simp: ownership.kept_def ownership_kept_def sane_so_far_def)
    with read_observed [OF r(2)] x show ?thesis by (intro bexI [OF _ r(1)]) auto
  qed
  show ?thesis
  proof (rule reading_wp [OF assms ownership_loops], goal_cases)
    case (3 ob s h state)
    show ?case
    proof (intro exI conjI allI impI)
      show "observes pf inp (cs_target state) ob" by (rule 3)
    qed (use * [OF 3(3,4)] in blast)
  qed
qed

theorem observed_plan_touches_proven_witness:
  "wp (\<lambda>h c. True) (\<lambda>r h. case r of Inl e \<Rightarrow> True | Inr state \<Rightarrow>
      \<exists>ob. observes observe_platform observe_sample (cs_target state) ob
        \<and> (\<forall>config release access plan c.
             buildGatewayPlan (pf_sha observe_platform) (pf_parse_url observe_platform) config (cloud_state_value state) release access = Inr plan \<and> touches plan c
             \<longrightarrow> (\<exists>r \<in> set (cs_resources state). cl_kind r = pc_kind c \<and> cl_key r = pc_key c \<and> cl_provider r = pc_provider c
                   \<and> ownership_proven ob h r)))
    (readCloudflareObservedState observe_platform observe_sample) []"
  by (rule observed_plan_touches_proven) (rule observe_hex)

end
