(* ===== verification/Provider_Properties.thy ===== *)
theory Provider_Properties
  imports Provider_Bounds Provider_Rollback Receipt_Properties Observer_Properties Reconciler_Data
begin

text \<open>
  The properties of \<^verbatim>\<open>src/cloudflare-provider.ts\<close>.
\<close>

section \<open>A concrete deletion\<close>

text \<open>A receipt that owns a DNS record and has journaled its removal.\<close>

definition dns_entry :: receipt_resource where
  "dns_entry = \<lparr>rr_desiredHash = sample_hash, rr_identityHash = None, rr_key = ''dns'', rr_kind = Dns_record,
     rr_marker = Some ''acg:v1:acg-a:dns'', rr_provider = \<lparr>loc_id = ''rec'', loc_parentId = None\<rparr>\<rparr>"

definition removing_dns :: receipt where
  "removing_dns = \<lparr>rc_accessPolicy = \<lparr>ap_identityType = ''email'', ap_identityCount = 1, ap_identitiesHash = sample_hash\<rparr>,
     rc_desiredHash = sample_hash, rc_installationId = ''acg-a'',
     rc_pending = Some \<lparr>rp_action = Delete_action, rp_expectedDesiredHash = sample_hash, rp_key = ''dns'', rp_kind = Dns_record,
       rp_operationId = ''op'', rp_planId = ''plan'', rp_pruneApprovalId = None, rp_requestHash = sample_hash, rp_type = Uninstall_type\<rparr>,
     rc_release = ''1.0.0'', rc_resources = [dns_entry], rc_revision = 3, rc_state = Uninstalling,
     rc_target = \<lparr>rt_accountId = ''acc'', rt_hostname = ''mcp.ex.io'', rt_zoneId = ''zone'', rt_zoneName = ''ex.io''\<rparr>,
     rc_checksum = None\<rparr>"

definition sealed_removal :: receipt where
  "sealed_removal = (case sealReceipt sample_sha (receipt_value removing_dns) of Inr r \<Rightarrow> r | Inl e \<Rightarrow> removing_dns)"

definition removal_input :: jval where
  "removal_input = JObj [(''change'', JObj [(''action'', JStr ''delete''), (''kind'', JStr ''dns_record''), (''key'', JStr ''dns''),
       (''provider'', JObj [(''id'', JStr ''rec'')])]),
     (''receipt'', receipt_value sealed_removal), (''config'', sample_config),
     (''target'', JObj [(''accountId'', JStr ''acc''), (''zoneId'', JStr ''zone'')]), (''access'', JObj [])]"

definition bound_sample :: bound_target where
  "bound_sample = \<lparr>bt_accountId = ''acc'', bt_zoneId = ''zone''\<rparr>"

definition polling_sample :: polling where
  "polling_sample = \<lparr>po_attempts = 2, po_interval = 1000\<rparr>"

lemma removal_texts:
  "test RESOURCE_KEY ''dns''" "test SAFE_OPAQUE_ID ''rec''" "test SAFE_OPAQUE_ID ''op''" "test SAFE_OPAQUE_ID ''plan''"
  "is_receipt_hostname ''mcp.ex.io''" "is_receipt_hostname ''ex.io''" "hostnameBelongsToZone ''mcp.ex.io'' ''ex.io''"
  by code_simp+

lemma removal_plain:
  "\<not> is_sensitive_value ''dns''" "\<not> is_sensitive_value ''rec''" "\<not> is_sensitive_value ''op''" "\<not> is_sensitive_value ''plan''"
  "\<not> is_sensitive_value ''mcp.ex.io''" "\<not> is_sensitive_value ''ex.io''" "\<not> is_sensitive_value ''acg:v1:acg-a:dns''"
  "\<not> is_sensitive_value ''dns_record''" "\<not> is_sensitive_value ''delete''" "\<not> is_sensitive_value ''uninstall''"
  by (rule plain_clean, simp add: plain_char_def is_space_def)+

lemma removing_dns_ok: "receipt_ok removing_dns"
proof -
  have "material_free (receipt_value (withoutChecksum removing_dns))"
    unfolding material_receipt_parts
    by (simp add: removing_dns_def dns_entry_def target_value_def policy_value_def resource_value_def pending_value_def locator_value_def
        opt_entry_def sample_plain removal_plain)
  moreover have "ok_target (rc_target removing_dns)" "\<not> outside_zone (rc_target removing_dns)"
    by (simp_all add: removing_dns_def ok_target_def outside_zone_def sample_texts removal_texts)
  moreover have "ok_policy (rc_accessPolicy removing_dns)"
    by (simp add: removing_dns_def ok_policy_def sample_hash_HASH)
  moreover have "list_all ok_resource (rc_resources removing_dns)"
    by (simp add: removing_dns_def dns_entry_def ok_resource_def valid_locator_def is_policy_def sample_hash_HASH removal_texts)
  moreover have "unique_resources (rc_resources removing_dns)"
    by (simp add: removing_dns_def dns_entry_def unique_resources_def is_policy_def is_access_application_def)
  moreover have "list_all (bound (rc_installationId removing_dns) (rc_accessPolicy removing_dns)) (rc_resources removing_dns)"
    by (simp add: removing_dns_def dns_entry_def bound_def)
  moreover have "js_sort compareResources [dns_entry] = [dns_entry]" by (simp add: dns_entry_def)
  then have "pending_owned (rc_pending removing_dns) (js_sort compareResources (rc_resources removing_dns))"
    by (simp add: pending_owned_def removing_dns_def dns_entry_def)
  ultimately show ?thesis
    by (simp add: receipt_ok_def) (simp add: removing_dns_def sample_texts removal_texts sample_hash_HASH is_safe_integer_def
        MAX_SAFE_INTEGER_def MAX_RESOURCES_def consistent_def ok_pending_def)
qed

lemma sealed_removal_valid:
  obtains h where "sealed_removal = removing_dns\<lparr>rc_checksum := Some h\<rparr>"
    "validateInstallationReceipt sample_sha (receipt_value sealed_removal) (JObj []) = Inr sealed_removal"
proof -
  obtain h where h: "sealReceipt sample_sha (receipt_value removing_dns) = Inr (removing_dns\<lparr>rc_checksum := Some h\<rparr>)"
    by (rule seal_sorted [OF sample_hex removing_dns_ok]) (simp_all add: removing_dns_def)
  then have s: "sealed_removal = removing_dns\<lparr>rc_checksum := Some h\<rparr>" by (simp add: sealed_removal_def)
  moreover have "validateInstallationReceipt sample_sha (receipt_value sealed_removal) (JObj []) = Inr sealed_removal"
    using h unfolding s by (rule sealReceipt_Inr) (rule sealed_validates)
  ultimately show ?thesis by (rule that)
qed

lemma sample_config_read:
  "parse_json sample_config = Some sample_config"
  "(case validateGatewayConfig sample_url sample_config of Inr c \<Rightarrow> gc_hostname c = ''mcp.ex.io'' | Inl e \<Rightarrow> False)"
  by code_simp+

lemma removal_normalized:
  obtains m where "normalizeMutationInput observe_platform bound_sample removal_input = Inr m"
    "gm_change m = Delete_mutation Dns_record ''dns'' \<lparr>loc_id = ''rec'', loc_parentId = None\<rparr>"
    "gm_marker m = ''acg:v1:acg-a:dns''" "gc_hostname (gm_config m) = ''mcp.ex.io''"
proof -
  obtain h where s: "sealed_removal = removing_dns\<lparr>rc_checksum := Some h\<rparr>"
    "validateInstallationReceipt sample_sha (receipt_value sealed_removal) (JObj []) = Inr sealed_removal"
    by (rule sealed_removal_valid)
  obtain c where c: "validateGatewayConfig sample_url sample_config = Inr c" "gc_hostname c = ''mcp.ex.io''"
    using sample_config_read(2) by (auto split: sum.splits)
  have k: "canaryServiceTokenId (JObj []) = Inr None" by (simp add: canaryServiceTokenId_def)
  have t: "assertTarget (JObj [(''accountId'', JStr ''acc''), (''zoneId'', JStr ''zone'')]) bound_sample (rc_target sealed_removal) = Inr ()"
    by (simp add: assertTarget_def s(1) removing_dns_def bound_sample_def)
  have i: "machine_identity_checked sample_sha (JObj []) c sealed_removal = Inr ()"
    by (simp add: machine_identity_checked_def k s(1) removing_dns_def replaced_def andThen_def)
  let ?change = "Delete_mutation Dns_record ''dns'' \<lparr>loc_id = ''rec'', loc_parentId = None\<rparr>"
  have l: "keyed_locator Dns_record ''dns'' (JObj [(''id'', JStr ''rec'')]) = Inr \<lparr>loc_id = ''rec'', loc_parentId = None\<rparr>"
    by (simp add: keyed_locator_def provider_locator_def andThen_def demand_def demand_some_def safeId_def safeOpaqueId_def
        removal_texts is_policy_def assertExactKeys_def hasExactKeys_def)
  have parsed: "parse_action (JStr ''delete'') = Some Delete_action" "parse_kind (JStr ''dns_record'') = Some Dns_record"
    by code_simp+
  have n: "normalized_change sample_sha (field removal_input ''change'') sealed_removal = Inr ?change"
    by (simp add: normalized_change_def removal_input_def andThen_def demand_def demand_some_def parsed requireResourceKey_def
        isResourceKey_def removal_texts s(1) removing_dns_def l)
  have o: "owned_resource sealed_removal ?change = Inr (Some dns_entry)"
    by (simp add: owned_resource_def s(1) removing_dns_def dns_entry_def sameLocator_def andThen_def demand_some_def)
  have m: "provider_marker (rc_installationId sealed_removal) ''dns'' = Inr ''acg:v1:acg-a:dns''"
    by (simp add: provider_marker_def s(1) removing_dns_def ownershipMarker_def removal_texts sample_texts foreign_def)
  have r: "provider_receipt sample_sha (receipt_value sealed_removal) = Inr sealed_removal"
    by (simp add: provider_receipt_def s(2) replaced_def)
  have cc: "provider_config sample_url sample_config = Inr (sample_config, c)"
    by (simp add: provider_config_def sample_config_read(1) c(1) demand_some_def replaced_def andThen_def)
  have "normalizeMutationInput observe_platform bound_sample removal_input = Inr \<lparr>gm_access = JObj [], gm_change = ?change,
      gm_config = c, gm_configInput = sample_config, gm_marker = ''acg:v1:acg-a:dns'', gm_owned = Some dns_entry,
      gm_receipt = sealed_removal, gm_target = JObj [(''accountId'', JStr ''acc''), (''zoneId'', JStr ''zone'')]\<rparr>"
    using n t i o m r cc c(2)
    by (simp add: normalizeMutationInput_def removal_input_def andThen_def demand_def unknown_keys_def observe_platform_def)
       (simp add: s(1) removing_dns_def)
  then show ?thesis by (rule that) (simp_all add: c(2))
qed

definition live_dns :: jval where
  "live_dns = JObj [(''id'', JStr ''rec''), (''name'', JStr ''mcp.ex.io.''), (''comment'', JStr ''acg:v1:acg-a:dns'')]"

definition removal_trace :: client_trace where
  "removal_trace = [(Read (Get_dns_record ''rec''), Inr live_dns), (Delete_dns_record ''rec'', Inr JNull)]"

lemma removal_program:
  "apply_mutation observe_platform bound_sample polling_sample removal_input =
     Ask (Read (Get_dns_record ''rec'')) (\<lambda>a. case a of Inl u \<Rightarrow> throw Other_fault
       | Inr v \<Rightarrow> if v = JNull then return (JObj [(''status'', JStr ''submitted'')])
           else if \<not> isObject v \<or> field v ''id'' \<noteq> JStr ''rec'' then throw (fault ''invalid_provider_response'')
           else if field v ''comment'' \<noteq> JStr ''acg:v1:acg-a:dns'' \<or> normalizeDnsName (field v ''name'') \<noteq> ''mcp.ex.io''
           then throw (fault ''ownership_conflict'')
           else Ask (Delete_dns_record ''rec'') (\<lambda>b. case b of Inl u \<Rightarrow> throw Other_fault
             | Inr w \<Rightarrow> return (JObj [(''status'', JStr ''submitted'')])))"
proof -
  obtain m where m: "normalizeMutationInput observe_platform bound_sample removal_input = Inr m"
    "gm_change m = Delete_mutation Dns_record ''dns'' \<lparr>loc_id = ''rec'', loc_parentId = None\<rparr>"
    "gm_marker m = ''acg:v1:acg-a:dns''" "gc_hostname (gm_config m) = ''mcp.ex.io''"
    by (rule removal_normalized)
  have r: "normalizeApplyMutationResult (gm_change m) Undef = Inr (JObj [(''status'', JStr ''submitted'')])"
    by (simp add: m(2) normalizeApplyMutationResult_def demand_def andThen_def)
  show ?thesis
    by (auto simp: apply_mutation_def m dispatchMutation_def no_result_def mutateDns_def deleteDns_def exactRead_def ask_def seq_def lift_def
        foreign_def checkDns_def assertMarker_def demand_def andThen_def r [unfolded m] fun_eq_iff split: sum.split)
qed

lemma removal_run: "runs (applyChange observe_platform bound_sample polling_sample removal_input) removal_trace
    (Inr (JObj [(''status'', JStr ''submitted'')]))"
proof -
  have "normalizeDnsName (JStr ''mcp.ex.io.'') = ''mcp.ex.io''" by code_simp
  then have "runs (apply_mutation observe_platform bound_sample polling_sample removal_input) removal_trace
      (Inr (JObj [(''status'', JStr ''submitted'')]))"
    unfolding removal_program by (simp add: removal_trace_def live_dns_def)
  moreover have "reported removal_trace (Inr v) = Inr v" for v by (simp add: reported_def)
  ultimately show ?thesis unfolding applyChange_runs by metis
qed

lemma removal_failed_run: "runs (applyChange observe_platform bound_sample polling_sample removal_input)
    [(Read (Get_dns_record ''rec''), Inl ())] (Inl (Provider_error ''provider_write_failed'' True))"
proof -
  have "runs (apply_mutation observe_platform bound_sample polling_sample removal_input)
      [(Read (Get_dns_record ''rec''), Inl ())] (Inl Other_fault)"
    unfolding removal_program by simp
  moreover have "reported [(Read (Get_dns_record ''rec''), Inl ())] (Inl Other_fault) = Inl (Provider_error ''provider_write_failed'' True)"
    by (simp add: reported_def fault_code_def CloudflareGatewayProviderError_def SAFE_CODES_def)
  ultimately show ?thesis unfolding applyChange_runs by metis
qed

section \<open>Requests\<close>

text \<open>
  C5. The provider asks for nothing its rule does not allow. Every mutation requested while a change is applied belongs to an
  input whose receipt validates and has journaled exactly this change, for the bound account; it was not
  preceded by another mutation (but for a server, which is created, synchronised and updated in this order); and
  what was last read permits it: a creation after the key was found free and nothing of the same shape or name exists, an
  update or a deletion of an object that was read back under the receipt's identifier with the installation's marker or, for a
  markerless portal application, with the configured name and contract, whose dependents are gone. The bodies are
  those computed from the validated desired state.
\<close>

theorem provider_requests_lawful:
  assumes "runs (applyChange pf bt po inp) t r" "t = pre @ (c, a) # post" "is_mutation c"
  shows "\<exists>m. normalizeMutationInput pf bt inp = Inr m \<and> journaled_in bt m \<and> lawful pf m pre c"
proof -
  obtain q where "runs (apply_mutation pf bt po inp) t q" using assms(1) by (auto simp: applyChange_runs)
  from runs_guard [OF this apply_permitted assms(2)] show ?thesis using assms(3) by (simp add: provider_permits_def)
qed

theorem provider_requests_lawful_witness:
  "\<exists>m. normalizeMutationInput observe_platform bound_sample removal_input = Inr m \<and> journaled_in bound_sample m
     \<and> lawful observe_platform m [(Read (Get_dns_record ''rec''), Inr live_dns)] (Delete_dns_record ''rec'')"
  by (rule provider_requests_lawful [OF removal_run, where post = "[]" and a = "Inr JNull"]) (simp_all add: removal_trace_def)

text \<open>
  C6. A failed change is reported with one of the safe codes, and the report says that nothing was submitted exactly
  where no mutation was requested. The reconciler clears its journal on this word alone.
\<close>

theorem provider_outcome_reported:
  assumes "runs (applyChange pf bt po inp) t (Inl e)"
  shows "\<exists>code \<in> set SAFE_CODES. e = Provider_error code (submitted t = [])"
proof -
  obtain q where "runs (apply_mutation pf bt po inp) t q" "Inl e = reported t q" using assms by (auto simp: applyChange_runs)
  then obtain f where "e = CloudflareGatewayProviderError (fault_code f) (\<not> any_submitted t)"
    by (cases q) (auto simp: reported_def)
  then show ?thesis
    by (auto simp: CloudflareGatewayProviderError_def any_submitted_def SAFE_CODES_def)
qed

theorem provider_outcome_reported_witness:
  "\<exists>code \<in> set SAFE_CODES. Provider_error ''provider_write_failed'' True
     = Provider_error code (submitted [(Read (Get_dns_record ''rec''), Inl ())] = [])"
  by (rule provider_outcome_reported [OF removal_failed_run])

lemma lawful_first_three: "lawful pf m h c \<Longrightarrow> is_mutation c \<Longrightarrow> length (submitted h) \<le> 2"
  by (cases c) (auto simp: syncs_def split: if_splits)

lemma submitted_three:
  assumes "\<And>pre c a post. t = pre @ (c, a) # post \<Longrightarrow> is_mutation c \<Longrightarrow> length (submitted pre) \<le> 2"
  shows "length (submitted t) \<le> 3"
  using assms
proof (induction t rule: rev_induct)
  case (snoc e t)
  obtain c a where e: "e = (c, a)" by (cases e)
  show ?case
  proof (cases "is_mutation c")
    case True
    then have "length (submitted t) \<le> 2" by (intro snoc.prems [of t c a "[]"]) (simp_all add: e)
    then show ?thesis by (simp add: e)
  next
    case False
    have "length (submitted t) \<le> 3" by (rule snoc.IH) (use snoc.prems in fastforce)
    then show ?thesis using False by (simp add: e)
  qed
qed simp

text \<open>
  One change submits at most three mutations, whatever the account answers and however often it is polled.
\<close>

theorem provider_mutations_bounded:
  assumes "runs (applyChange pf bt po inp) t r"
  shows "length (submitted t) \<le> 3"
proof (rule submitted_three)
  obtain q where q: "runs (apply_mutation pf bt po inp) t q" using assms by (auto simp: applyChange_runs)
  fix pre c a post assume "t = pre @ (c, a) # post" "is_mutation c"
  with runs_guard [OF q apply_permitted this(1)] show "length (submitted pre) \<le> 2"
    by (auto simp: provider_permits_def intro: lawful_first_three)
qed

theorem provider_mutations_bounded_witness: "length (submitted removal_trace) \<le> 3"
  by (rule provider_mutations_bounded [OF removal_run])

text \<open>
  C23. The provider's operations end: with \<open>n\<close> attempts configured (at most 120), applying a change makes at most
  \<open>2 n + 12\<close> calls, rolling a portal back at most \<open>4 n + 8\<close> and inspecting it at most \<open>4 n + 3\<close>, delays included, whatever is answered.
\<close>

theorem provider_calls_bounded:
  "within (applyChange pf bt po inp) (2 * po_attempts po + 12)
   \<and> within (rollbackPendingPortalCreate pf bt po inp) (4 * po_attempts po + 8)
   \<and> within (inspectPendingPortalCreateRollback pf bt po inp) (4 * po_attempts po + 3)"
  by (simp add: within_apply within_rollback within_inspect)

section \<open>Results\<close>

text \<open>The application a creation returns was read back as it was to be created.\<close>

definition read_back :: "client_trace \<Rightarrow> string \<Rightarrow> bool" where
  "read_back h i \<longleftrightarrow> (\<exists>expected. shown h (Get_access_app i) (\<lambda>live. portalAccessApplicationPrePolicyMatches live expected))"

definition result_sound :: "gateway_mutation \<Rightarrow> jval \<Rightarrow> client_trace \<Rightarrow> bool" where
  "result_sound m v h \<longleftrightarrow> (if is_creation (gm_change m) \<and> mc_kind (gm_change m) = Portal_access_application
     then \<exists>i. v = created_result i \<and> safeId (JStr i) = Some i \<and> read_back h i else v = Undef)"

interpretation any_call: reading_allowed "\<lambda>h c. True"
  by unfold_locales simp_all

lemma read_backI: "portalAccessApplicationPrePolicyMatches v e \<Longrightarrow> read_back (h @ [(Read (Get_access_app i), Inr v)]) i"
  unfolding read_back_def by (rule exI [of _ e]) simp

lemma created_sound:
  "safely (\<lambda>h c. True) (\<lambda>v h'. \<exists>i. v = created_result i \<and> safeId (JStr i) = Some i \<and> read_back h' i)
     (createPortalApplication po m expected portal) h"
proof -
  have quiet: "safely (\<lambda>h c. True) (\<lambda>_ h'. frame ((=) List_access_apps) g h' \<and> True)
      (provePortalAccessApplicationBaselineQuiet n po hostname) g" for n hostname and g :: client_trace
    using any_call.quiet_baseline by simp
  show ?thesis
    unfolding createPortalApplication_def
    by (intro any_call.after [OF quiet] any_call.after [OF any_call.exact_portal] any_call.listed any_call.ensured any_call.asked
          any_call.lifted any_call.live_read)
      (auto simp: requireAppId_def safeId_Some split: if_splits simp del: append_assoc intro!: exI refl read_backI)
qed

lemma no_result_sound: "safely (\<lambda>h c. True) (\<lambda>v h'. v = Undef) (no_result p) h"
proof -
  have "safely (\<lambda>h c. True) (\<lambda>_ _. True) p h" unfolding safely_def wp_runs by (simp split: sum.split)
  then show ?thesis unfolding no_result_def by (rule safely_seq) simp
qed

lemma any_result: "safely (\<lambda>h c. True) (\<lambda>_ _. True) p h"
  unfolding safely_def wp_runs by (simp split: sum.split)

lemma dispatch_sound: "safely (\<lambda>h c. True) (result_sound m) (dispatchMutation pf po m) h"
proof (cases "is_creation (gm_change m) \<and> mc_kind (gm_change m) = Portal_access_application")
  case True
  then obtain key desired hash where c: "gm_change m = Create_mutation Portal_access_application key desired hash"
    by (cases "gm_change m") (auto simp: is_creation_def)
  show ?thesis
    unfolding dispatchMutation_def c mutation_change.sel resource_kind.case mutatePortalAccessApplication_def mutation_change.case
    by (intro safely_seq [OF any_result]) (auto simp: result_sound_def c is_creation_def intro!: safely_post [OF created_sound])
next
  case False
  have "safely (\<lambda>h c. True) (\<lambda>v h'. v = Undef) (dispatchMutation pf po m) h"
  proof (cases "mc_kind (gm_change m) = Portal_access_application")
    case True
    then show ?thesis using False
      by (cases "gm_change m")
        (auto simp: dispatchMutation_def mutatePortalAccessApplication_def is_creation_def no_result_sound intro!: safely_seq [OF any_result])
  qed (cases "mc_kind (gm_change m)"; simp add: dispatchMutation_def no_result_sound)
  then show ?thesis by (rule safely_post) (use False in \<open>auto simp: result_sound_def\<close>)
qed

text \<open>The plan's change that a mutation carries out.\<close>

definition carries_out :: "plan_change \<Rightarrow> mutation_change \<Rightarrow> bool" where
  "carries_out change mutation \<longleftrightarrow> pc_kind change = mc_kind mutation \<and> (pc_action change = Create \<longleftrightarrow> is_creation mutation)"

lemma markerless: "carries_out change (gm_change m) \<Longrightarrow> isMarkerlessApplicationCreate change
    \<longleftrightarrow> is_creation (gm_change m) \<and> mc_kind (gm_change m) = Portal_access_application"
  by (auto simp: carries_out_def isMarkerlessApplicationCreate_def)

lemma submitted_result:
  assumes "result_sound m result h" "normalizeApplyMutationResult (gm_change m) result = Inr v" "carries_out change (gm_change m)"
  shows "if isMarkerlessApplicationCreate change
    then \<exists>i. normalizeMutationResult change v = Inr (Some \<lparr>loc_id = i, loc_parentId = None\<rparr>) \<and> read_back h i
    else normalizeMutationResult change v = Inr None"
proof (cases "isMarkerlessApplicationCreate change")
  case True
  then obtain i where i: "result = created_result i" "safeId (JStr i) = Some i" "read_back h i" and k: "pc_kind change = Portal_access_application"
    using assms(1) unfolding result_sound_def markerless [OF assms(3)] by (auto simp: markerless [OF assms(3), symmetric] isMarkerlessApplicationCreate_def)
  have v: "v = JObj [(''status'', JStr ''submitted''), (''provider'', JObj [(''id'', JStr i)])]"
    using assms(2) True i(2) unfolding i(1) markerless [OF assms(3)]
    by (auto simp: normalizeApplyMutationResult_def created_result_def andThen_Inr is_creation_def safeId_Some split: mutation_change.splits)
  have "join_with '','' (js_sort compareText [''status'', ''provider'']) = ''provider,status''" by code_simp
  then have "normalizeMutationResult change v = Inr (Some \<lparr>loc_id = i, loc_parentId = None\<rparr>)"
    using True k i(2) by (simp add: normalizeMutationResult_def v validProviderForKind_def is_policy_def safeId_def read_locator_def)
  then show ?thesis using True i(3) by auto
next
  case False
  then have "v = JObj [(''status'', JStr ''submitted'')]"
    using assms(2) unfolding markerless [OF assms(3)]
    by (auto simp: normalizeApplyMutationResult_def andThen_Inr is_creation_def split: mutation_change.splits if_splits)
  then show ?thesis using False by (simp add: normalizeMutationResult_def)
qed

text \<open>
  The reconciler accepts what the provider returns: for the change it asked for, the result normalises to no locator, or, for
  a markerless portal application, to the identifier of an application that was read back exactly as it was to be created.
\<close>

theorem provider_result_accepted:
  assumes "runs (applyChange pf bt po inp) t (Inr v)"
  shows "\<exists>m. normalizeMutationInput pf bt inp = Inr m \<and> (\<forall>change. carries_out change (gm_change m) \<longrightarrow>
    (if isMarkerlessApplicationCreate change
     then \<exists>i. normalizeMutationResult change v = Inr (Some \<lparr>loc_id = i, loc_parentId = None\<rparr>) \<and> read_back t i
     else normalizeMutationResult change v = Inr None))"
proof -
  obtain q where q: "runs (apply_mutation pf bt po inp) t q" "Inr v = reported t q" using assms by (auto simp: applyChange_runs)
  then have "q = Inr v" by (cases q) (simp_all add: reported_def)
  with q(1) have r: "runs (apply_mutation pf bt po inp) t (Inr v)" by simp
  show ?thesis
  proof (cases "normalizeMutationInput pf bt inp")
    case (Inl e)
    then show ?thesis using r by (simp add: apply_mutation_def seq_def lift_def)
  next
    case (Inr m)
    have "safely (\<lambda>h c. True) (\<lambda>v h. \<exists>result. result_sound m result h \<and> normalizeApplyMutationResult (gm_change m) result = Inr v)
        (apply_mutation pf bt po inp) []"
      unfolding apply_mutation_def Inr
      by (intro any_call.lifted safely_seq [OF dispatch_sound]) (auto intro!: any_call.lifted_last)
    from runs_wp [OF r this [unfolded safely_def]] obtain result where
      "result_sound m result t" "normalizeApplyMutationResult (gm_change m) result = Inr v" by auto
    then show ?thesis using Inr submitted_result by blast
  qed
qed

theorem provider_result_accepted_witness:
  "\<exists>m. normalizeMutationInput observe_platform bound_sample removal_input = Inr m \<and> (\<forall>change. carries_out change (gm_change m) \<longrightarrow>
    (if isMarkerlessApplicationCreate change
     then \<exists>i. normalizeMutationResult change (JObj [(''status'', JStr ''submitted'')]) = Inr (Some \<lparr>loc_id = i, loc_parentId = None\<rparr>)
       \<and> read_back removal_trace i
     else normalizeMutationResult change (JObj [(''status'', JStr ''submitted'')]) = Inr None))"
  by (rule provider_result_accepted [OF removal_run])

section \<open>Rollback and inspections\<close>

lemma rollback_whole:
  "safely (rollback_permits pf bt po inp) (rollback_reported pf bt po inp) (rollbackPendingPortalCreate pf bt po inp) []"
  unfolding rollbackPendingPortalCreate_def by (intro recoded_safely rollback.lifted rollback_safe)

text \<open>
  C22. Rolling back a pending portal deletes nothing but that portal, and only directly after two complete samples, with the delay
  between them, in which the portal was exactly the one to be created and neither an application nor a record of the
  hostname existed. Every success is reported only after the full number of samples, without any mutation between
  them, in which portal, applications and records are all gone.
\<close>

theorem provider_rollback_exact:
  "wp (rollback_permits pf bt po inp) (\<lambda>r h. case r of Inl e \<Rightarrow> True | Inr v \<Rightarrow> rollback_reported pf bt po inp v h)
     (rollbackPendingPortalCreate pf bt po inp) []"
  using rollback_whole by (simp only: safely_def)

text \<open>
  Inspecting only reads, and the number of an inspection is exact: each entry of the receipt was read once under its locator,
  and the number is that of the entries that were still there, plus the portal applications of the hostname that are
  not among them. Zero therefore means that nothing is left. Observing through the same client and inspecting a
  pending rollback only read as well.
\<close>

theorem provider_residue_exact:
  "wp (\<lambda>h c. \<not> is_mutation c) (\<lambda>r h. case r of Inl e \<Rightarrow> True | Inr n \<Rightarrow> residue_proven pf bt inp n h)
     (inspectCanaryResidue pf bt inp) []
   \<and> wp (\<lambda>h c. \<not> is_mutation c) (\<lambda>_ _. True) (inspectPendingPortalCreateRollback pf bt po inp) []
   \<and> wp (\<lambda>h c. \<not> is_mutation c) (\<lambda>_ _. True) (readObservedState pf observed) []"
  using residue_safe inspect_reads observation_reads by (simp add: safely_def readObservedState_def)

end
