(* ===== verification/Reconciler_Steps.thy ===== *)
theory Reconciler_Steps
  imports Reconciler_Checks
begin

text \<open>
  The asynchronous building blocks of \<^verbatim>\<open>src/reconciler.ts\<close>: reading the live state, journaling an
  action in the stored receipt, mutating one remote resource, and committing what was verified.

  The environment is the injected provider and receipt store, the random identifiers and the
  progress sink. \<^verbatim>\<open>withExclusiveLock(operation)\<close> is a call that takes the lock, the operation, and a
  call that releases it, as \<^verbatim>\<open>src/receipt-store.ts\<close> has it. Objects the code copies before it hands
  them out (\<^verbatim>\<open>structuredClone\<close>, spreads) are the values themselves.
\<close>

section \<open>Calls\<close>

record read_input =
  ri_access :: jval
  ri_config :: jval
  ri_receipt :: "receipt option"
  ri_target :: jval

record mutation_input =
  mi_access :: jval
  mi_change :: plan_change
  mi_config :: jval
  mi_receipt :: receipt
  mi_target :: jval

record progress_event =
  pe_action :: change_action
  pe_kind :: resource_kind
  pe_stage :: operation_type
  pe_status :: string

datatype reconcile_call =
    Store_read
  | Store_write receipt
  | Lock
  | Unlock
  | Observe read_input
  | Apply mutation_input
  | Inspect mutation_input
  | Rollback mutation_input
  | Random_uuid
  | Progress progress_event

type_synonym 'x reconcile = "(reconcile_call, failure + jval, failure, 'x) action"

type_synonym reconcile_trace = "(reconcile_call, failure + jval) trace"

definition progress :: "reconcile_context \<Rightarrow> progress_event \<Rightarrow> unit reconcile" where
  "progress context event =
     (if cx_hasProgress context then catch (seq (call (Progress event)) (\<lambda>_. return ())) (\<lambda>_. return ()) else return ())"

definition operationId :: "string reconcile" where
  "operationId = seq (call Random_uuid) (\<lambda>uuid. return (''op-'' @ text_or [] uuid))"

section \<open>The receipt store\<close>

definition readReceipt :: "jval reconcile" where
  "readReceipt = catch (call Store_read) (\<lambda>_. throw (GatewayReconcileError ''receipt_read_failed''))"

definition writeReceipt :: "receipt \<Rightarrow> unit reconcile" where
  "writeReceipt receipt = catch (seq (call (Store_write receipt)) (\<lambda>_. return ()))
     (\<lambda>_. throw (GatewayReconcileError ''receipt_write_failed''))"

definition exclusively :: "reconcile_context \<Rightarrow> 'x reconcile \<Rightarrow> 'x reconcile" where
  "exclusively context operation =
     (if \<not> cx_canLock context then throw (GatewayReconcileError ''receipt_lock_failed'')
      else seq (call Lock) (\<lambda>_. seq (attempt operation) (\<lambda>outcome. seq (attempt (call Unlock)) (\<lambda>released.
        case outcome of
          Inl error \<Rightarrow> throw error
        | Inr value \<Rightarrow> (case released of Inl error \<Rightarrow> throw error | Inr _ \<Rightarrow> return value)))))"

definition withReceiptLock :: "reconcile_context \<Rightarrow> 'x reconcile \<Rightarrow> 'x reconcile" where
  "withReceiptLock context operation = catch (exclusively context operation) (\<lambda>error.
     if is_gateway_error error then throw error
     else if coded_error error = Some ''locked'' then throw (GatewayReconcileError ''receipt_locked'')
     else throw (GatewayReconcileError ''receipt_lock_failed''))"

definition validateReceiptSafe :: "(string \<Rightarrow> string) \<Rightarrow> jval \<Rightarrow> jval \<Rightarrow> failure + receipt" where
  "validateReceiptSafe sha value options = (case validateInstallationReceipt sha value options of
     Inl e \<Rightarrow> Inl (GatewayReconcileError ''receipt_invalid'') | Inr r \<Rightarrow> Inr r)"

definition truthy :: "jval \<Rightarrow> bool" where
  "truthy v \<longleftrightarrow> v \<notin> {Undef, JNull, JBool False, jint 0, JStr []}"

section \<open>Reading the live state\<close>

definition map_result :: "('a \<Rightarrow> 'b) \<Rightarrow> 'e + 'a \<Rightarrow> 'e + 'b" where
  "map_result f m = andThen m (\<lambda>x. Inr (f x))"

definition readObserved :: "reconcile_context \<Rightarrow> receipt option \<Rightarrow> cloud_state reconcile" where
  "readObserved context receipt =
     catch (seq (call (Observe \<lparr>ri_access = cx_access context, ri_config = cx_config context, ri_receipt = receipt,
         ri_target = cx_target context\<rparr>)) (\<lambda>value. lift (normalizeObservedState value)))
       (\<lambda>error. if is_gateway_error error then throw error else throw (GatewayReconcileError ''observation_failed''))"

text \<open>The stored receipt, and the receipt validated again for the observed target.\<close>

definition stored_receipt :: "(string \<Rightarrow> string) \<Rightarrow> jval \<Rightarrow> failure + receipt option" where
  "stored_receipt sha value = (if value = JNull \<or> value = Undef then Inr None
     else map_result Some (validateReceiptSafe sha value (JObj [])))"

definition receipt_for_target :: "(string \<Rightarrow> string) \<Rightarrow> reconcile_context \<Rightarrow> verified_target \<Rightarrow> receipt option
    \<Rightarrow> failure + receipt option" where
  "receipt_for_target sha context target receipt = (case receipt of
     None \<Rightarrow> Inr None
   | Some r \<Rightarrow> map_result Some (validateReceiptSafe sha (receipt_value r)
       (JObj [(''expectedTarget'', target_value (receiptTarget (cx_configValue context) target))])))"

definition readLive :: "platform \<Rightarrow> reconcile_context \<Rightarrow> live_state reconcile" where
  "readLive pf context =
     seq readReceipt (\<lambda>storedValue.
     seq (lift (stored_receipt (pf_sha pf) storedValue)) (\<lambda>storedReceipt.
     seq (refuse_if (case cx_override context of
            None \<Rightarrow> False
          | Some expected \<Rightarrow> rc_checksum expected \<noteq> Option.bind storedReceipt rc_checksum)
        (GatewayReconcileError ''receipt_changed'')) (\<lambda>_.
     seq (readObserved context storedReceipt) (\<lambda>observed.
     seq (lift (assertSelectedTarget (cx_target context) (cs_target observed))) (\<lambda>_.
     seq (lift (receipt_for_target (pf_sha pf) context (cs_target observed) storedReceipt)) (\<lambda>receipt.
     seq (lift (case parse_json (cloud_state_value observed) of None \<Rightarrow> Inl Type_error | Some v \<Rightarrow> Inr v)) (\<lambda>observedInput.
     seq (lift (type_failure (buildGatewayPlan (pf_sha pf) (pf_parse_url pf) (cx_config context) observedInput
        (JStr (cx_release context)) (cx_access context)))) (\<lambda>plan.
     seq (refuse_if (case receipt of None \<Rightarrow> False | Some r \<Rightarrow> rc_installationId r \<noteq> gp_installationId plan)
        (GatewayReconcileError ''receipt_mismatch'')) (\<lambda>_.
       return \<lparr>lv_observed = observed, lv_plan = plan, lv_receipt = receipt\<rparr>)))))))))"

definition with_override :: "reconcile_context \<Rightarrow> receipt \<Rightarrow> reconcile_context" where
  "with_override context receipt = context\<lparr>cx_override := Some receipt\<rparr>"

text \<open>\<^verbatim>\<open>readLive({ ...context, receiptOverride: receipt })\<close>, and the live resources of one kind and key.\<close>

definition readLiveOf :: "platform \<Rightarrow> reconcile_context \<Rightarrow> receipt \<Rightarrow> live_state reconcile" where
  "readLiveOf pf context receipt = readLive pf (with_override context receipt)"

abbreviation liveMatches :: "live_state \<Rightarrow> resource_kind \<Rightarrow> string \<Rightarrow> cloud_resource list" where
  "liveMatches live kind key \<equiv> matchingResources (cs_resources (lv_observed live)) kind key"

section \<open>Journaling\<close>

definition intent_value :: "string \<Rightarrow> (string \<times> jval) list \<Rightarrow> string \<Rightarrow> jval" where
  "intent_value operation request requestHash =
     JObj ((''operationId'', JStr operation) # request @ [(''requestHash'', JStr requestHash)])"

definition journalAction :: "platform \<Rightarrow> reconcile_context \<Rightarrow> receipt \<Rightarrow> string \<Rightarrow> plan_change \<Rightarrow> operation_type
    \<Rightarrow> string option \<Rightarrow> receipt reconcile" where
  "journalAction pf context receipt planId change type pruneApprovalId =
     seq (lift (expectedHash receipt change)) (\<lambda>expectedDesiredHash.
     let request = mutation_request type planId (pc_action change) (pc_kind change) (pc_key change)
           expectedDesiredHash pruneApprovalId in
     seq operationId (\<lambda>operation.
     seq (lift (mutationRequestHash (pf_sha pf) request)) (\<lambda>requestHash.
     seq (lift (type_failure (beginReceiptAction (pf_sha pf) (receipt_value receipt)
       (intent_value operation request requestHash)))) (\<lambda>pending.
     seq (writeReceipt pending) (\<lambda>_.
     seq (progress context \<lparr>pe_action = pc_action change, pe_kind = pc_kind change, pe_stage = type, pe_status = ''started''\<rparr>)
       (\<lambda>_. return pending))))))"

section \<open>Mutating\<close>

definition pending_stage :: "receipt \<Rightarrow> operation_type" where
  "pending_stage receipt = (case rc_pending receipt of None \<Rightarrow> Apply_type | Some p \<Rightarrow> rp_type p)"

text \<open>The stored receipt is still the one the mutation was journaled in.\<close>

definition journaled_here :: "receipt \<Rightarrow> plan_change \<Rightarrow> receipt \<Rightarrow> bool" where
  "journaled_here receipt change trusted \<longleftrightarrow> (case rc_pending trusted of
     None \<Rightarrow> False
   | Some p \<Rightarrow> rc_checksum trusted = rc_checksum receipt
       \<and> Some (rp_operationId p) = map_option rp_operationId (rc_pending receipt)
       \<and> change_action_of (rp_action p) = pc_action change \<and> rp_kind p = pc_kind change \<and> rp_key p = pc_key change)"

definition clearDefinitelyUnsubmittedMutation :: "platform \<Rightarrow> receipt \<Rightarrow> plan_change \<Rightarrow> unit reconcile" where
  "clearDefinitelyUnsubmittedMutation pf receipt change =
     seq readReceipt (\<lambda>current.
     seq (lift (if truthy current then map_result Some (validateReceiptSafe (pf_sha pf) current (JObj [])) else Inr None))
       (\<lambda>trusted. case trusted of
         None \<Rightarrow> throw (GatewayReconcileError ''receipt_changed'')
       | Some r \<Rightarrow> (case rc_pending r of
           None \<Rightarrow> throw (GatewayReconcileError ''receipt_changed'')
         | Some p \<Rightarrow>
             seq (refuse_if (\<not> journaled_here receipt change r) (GatewayReconcileError ''receipt_changed'')) (\<lambda>_.
             seq (lift (assertPendingRequestHash (pf_sha pf) p)) (\<lambda>_.
             seq (lift (type_failure (clearReceiptAction (pf_sha pf) (receipt_value r) (JStr (rp_operationId p)))))
               writeReceipt)))))"

definition applyCall :: "reconcile_context \<Rightarrow> mutation_input \<Rightarrow> jval reconcile" where
  "applyCall context input = (if cx_canApply context then call (Apply input)
     else throw (GatewayReconcileError ''mutation_failed''))"

definition mutation_of :: "reconcile_context \<Rightarrow> plan_change \<Rightarrow> receipt \<Rightarrow> jval \<Rightarrow> mutation_input" where
  "mutation_of context change receipt target = \<lparr>mi_access = cx_access context, mi_change = change,
     mi_config = cx_config context, mi_receipt = receipt, mi_target = target\<rparr>"

definition mutate :: "platform \<Rightarrow> reconcile_context \<Rightarrow> plan_change \<Rightarrow> receipt \<Rightarrow> verified_target
    \<Rightarrow> mutation_result reconcile" where
  "mutate pf context change receipt target =
     (let event = (\<lambda>status. progress context \<lparr>pe_action = pc_action change, pe_kind = pc_kind change,
          pe_stage = pending_stage receipt, pe_status = status\<rparr>) in
      seq (attempt (seq (applyCall context (mutation_of context change receipt (verified_target_value target)))
          (\<lambda>value. lift (normalizeMutationResult change value)))) (\<lambda>outcome.
        case outcome of
          Inl error \<Rightarrow>
            seq (event ''failed'') (\<lambda>_.
              if not_submitted error \<and> map_option rp_type (rc_pending receipt) = Some Apply_type
              then seq (clearDefinitelyUnsubmittedMutation pf receipt change)
                (\<lambda>_. throw (GatewayReconcileError ''mutation_not_submitted''))
              else throw (GatewayReconcileError ''mutation_failed''))
        | Inr result \<Rightarrow> seq (event ''verifying'') (\<lambda>_. return result)))"

section \<open>Committing\<close>

text \<open>\<^verbatim>\<open>commitReceiptAction(receipt)\<close> and the write that follows.\<close>

definition commitDeletion :: "platform \<Rightarrow> receipt \<Rightarrow> receipt reconcile" where
  "commitDeletion pf receipt =
     seq (lift (type_failure (commitReceiptAction (pf_sha pf) (receipt_value receipt) (JObj [])))) (\<lambda>committed.
     seq (writeReceipt committed) (\<lambda>_. return committed))"

definition commit_value :: "string \<Rightarrow> string \<Rightarrow> string option \<Rightarrow> locator option \<Rightarrow> jval" where
  "commit_value desiredHash marker identityHash provider =
     JObj ([(''desiredHash'', JStr desiredHash), (''marker'', JStr marker)]
       @ opt_entry ''identityHash'' (map_option JStr identityHash)
       @ opt_entry ''provider'' (map_option locator_value provider))"

definition commitVerifiedChange :: "platform \<Rightarrow> receipt \<Rightarrow> plan_change \<Rightarrow> receipt reconcile" where
  "commitVerifiedChange pf receipt change =
     (case pc_provider change of
        None \<Rightarrow> throw (GatewayReconcileError ''verification_failed'')
      | Some provider \<Rightarrow>
          if loc_id provider = [] then throw (GatewayReconcileError ''verification_failed'')
          else
            let desired = (case pc_desired change of None \<Rightarrow> JObj [] | Some d \<Rightarrow> d);
                identityHash = (if is_policy (pc_kind change) then desiredIdentityHash desired else None)
            in seq (lift (requireDesiredHash (pc_desiredHash change))) (\<lambda>desiredHash.
               seq (lift (type_failure (ownershipMarker (JStr (rc_installationId receipt)) (JStr (pc_key change))))) (\<lambda>marker.
               seq (lift (type_failure (commitReceiptAction (pf_sha pf) (receipt_value receipt)
                 (commit_value desiredHash marker identityHash
                   (if map_option rp_action (rc_pending receipt) = Some Create_action then Some provider else None)))))
                 (\<lambda>committed. seq (writeReceipt committed) (\<lambda>_. return committed)))))"

section \<open>One pending mutation\<close>

definition fulfils :: "receipt_pending \<Rightarrow> plan_change option \<Rightarrow> change_action \<Rightarrow> bool" where
  "fulfils pending change action \<longleftrightarrow> (case change of None \<Rightarrow> False
     | Some c \<Rightarrow> pc_action c = action \<and> pc_desiredHash c = Some (rp_expectedDesiredHash pending))"

text \<open>Deleting the pending resource, proving its absence and committing.\<close>

definition deletePending :: "platform \<Rightarrow> reconcile_context \<Rightarrow> receipt \<Rightarrow> receipt_pending \<Rightarrow> plan_change \<Rightarrow> verified_target
    \<Rightarrow> string \<Rightarrow> live_state reconcile" where
  "deletePending pf context receipt pending change target code =
     seq (mutate pf context change receipt target) (\<lambda>_.
     seq (readLiveOf pf context receipt) (\<lambda>verified.
     seq (refuse_if (liveMatches verified (rp_kind pending) (rp_key pending) \<noteq> []) (GatewayReconcileError code)) (\<lambda>_.
     seq (commitDeletion pf receipt) (\<lambda>committed. readLiveOf pf context committed))))"

text \<open>Creating or updating: an application without marker is claimed by the locator just returned.\<close>

definition submitPending :: "platform \<Rightarrow> reconcile_context \<Rightarrow> receipt \<Rightarrow> receipt_pending \<Rightarrow> plan_change \<Rightarrow> verified_target
    \<Rightarrow> live_state reconcile" where
  "submitPending pf context receipt pending change target =
     seq (mutate pf context change receipt target) (\<lambda>mutationResult.
       if isMarkerlessApplicationCreate change then
         (case mutationResult of
            None \<Rightarrow> throw (GatewayReconcileError ''mutation_failed'')
          | Some provider \<Rightarrow>
              seq (commitVerifiedChange pf receipt (change\<lparr>pc_provider := Some provider\<rparr>)) (\<lambda>committed.
              seq (readLiveOf pf context committed) (\<lambda>verified.
              let verifiedChange = findChange (lv_plan verified) (pc_kind change) (pc_key change) in
              seq (refuse_if (\<not> fulfils pending verifiedChange Noop
                  \<or> \<not> sameProvider (Option.bind verifiedChange pc_provider) (Some provider))
                (GatewayReconcileError ''verification_failed'')) (\<lambda>_. return verified))))
       else
         seq (readLiveOf pf context receipt) (\<lambda>verified.
         case findChange (lv_plan verified) (pc_kind change) (pc_key change) of
           None \<Rightarrow> throw (GatewayReconcileError ''verification_failed'')
         | Some verifiedChange \<Rightarrow>
             seq (refuse_if (\<not> fulfils pending (Some verifiedChange) Noop) (GatewayReconcileError ''verification_failed''))
               (\<lambda>_. seq (commitVerifiedChange pf receipt verifiedChange) (readLiveOf pf context))))"

definition performPendingMutation :: "platform \<Rightarrow> reconcile_context \<Rightarrow> live_state \<Rightarrow> live_state reconcile" where
  "performPendingMutation pf context live =
     (case Option.bind (lv_receipt live) (\<lambda>r. map_option (Pair r) (rc_pending r)) of
        None \<Rightarrow> throw (GatewayReconcileError ''pending_conflict'')
      | Some (receipt, pending) \<Rightarrow>
          (case findChange (lv_plan live) (rp_kind pending) (rp_key pending) of
             None \<Rightarrow> throw (GatewayReconcileError ''pending_conflict'')
           | Some change \<Rightarrow>
               if rp_action pending = Delete_action then
                 seq (refuse_if (pc_action change \<noteq> Delete) (GatewayReconcileError ''pending_conflict'')) (\<lambda>_.
                   deletePending pf context receipt pending change (cs_target (lv_observed live)) ''verification_failed'')
               else
                 seq (refuse_if (\<not> fulfils pending (Some change) (change_action_of (rp_action pending)))
                   (GatewayReconcileError ''pending_conflict'')) (\<lambda>_.
                 seq (lift (assertLowerRankDependenciesConverged (lv_plan live) receipt change)) (\<lambda>_.
                   submitPending pf context receipt pending change (cs_target (lv_observed live))))))"

end
