(* ===== verification/Reconciler.thy ===== *)
theory Reconciler
  imports Reconciler_Steps
begin

text \<open>
  The operations of \<^verbatim>\<open>src/reconciler.ts\<close>: planning, status, applying an approved plan, rolling back a
  pending portal, uninstalling, with their recoveries from an interrupted run.
\<close>

section \<open>Inputs\<close>

text \<open>Of the injected functions the input says which are there.\<close>

record reconciler_input =
  in_access :: jval
  in_approvedPlanId :: jval
  in_approvedPruneId :: jval
  in_approvedRollbackId :: jval
  in_approvedUninstallId :: jval
  in_config :: jval
  in_onProgress :: bool
  in_providerIsObject :: bool
  in_hasObserve :: bool
  in_hasApply :: bool
  in_hasInspect :: bool
  in_hasRollback :: bool
  in_prune :: jval
  in_storeIsObject :: bool
  in_hasRead :: bool
  in_hasWrite :: bool
  in_hasLock :: bool
  in_release :: jval
  in_target :: jval

definition context_of :: "reconciler_input \<Rightarrow> gateway_config \<Rightarrow> jval \<Rightarrow> jval \<Rightarrow> jval \<Rightarrow> string \<Rightarrow> reconcile_context" where
  "context_of input configValue config target access release =
     \<lparr>cx_access = access, cx_approvedPlanId = text_option (in_approvedPlanId input),
      cx_approvedPruneId = text_option (in_approvedPruneId input),
      cx_approvedRollbackId = text_option (in_approvedRollbackId input),
      cx_approvedUninstallId = text_option (in_approvedUninstallId input),
      cx_config = config, cx_configValue = configValue, cx_hasProgress = in_onProgress input,
      cx_canApply = in_hasApply input, cx_canInspect = in_hasInspect input, cx_canRollback = in_hasRollback input,
      cx_canLock = in_hasLock input, cx_prune = (in_prune input = JBool True), cx_override = None,
      cx_release = release, cx_target = target\<rparr>"

definition optional_string :: "jval \<Rightarrow> bool" where
  "optional_string v \<longleftrightarrow> v = Undef \<or> isString v"

definition requireContext :: "platform \<Rightarrow> reconciler_input \<Rightarrow> bool \<Rightarrow> failure + reconcile_context" where
  "requireContext pf input mutations =
     (case (parse_json (in_config input), parse_boundary_object (in_target input), parse_boundary_object (in_access input)) of
        (Some config, Some target, Some access) \<Rightarrow>
          andThen (type_failure (validateGatewayConfig (pf_parse_url pf) config)) (\<lambda>configValue.
            if \<not> in_providerIsObject input \<or> \<not> in_hasObserve input \<or> (mutations \<and> \<not> in_hasApply input)
               \<or> \<not> in_storeIsObject input \<or> \<not> in_hasRead input \<or> \<not> in_hasWrite input
               \<or> (mutations \<and> \<not> in_hasLock input)
               \<or> (mutations \<and> \<not> (optional_string (in_approvedPlanId input) \<and> optional_string (in_approvedPruneId input)
                    \<and> optional_string (in_approvedUninstallId input)))
            then Inl Type_error
            else case in_release input of
              Undef \<Rightarrow> Inr (context_of input configValue config target access ''development'')
            | JStr release \<Rightarrow> Inr (context_of input configValue config target access release)
            | _ \<Rightarrow> Inl Type_error)
      | _ \<Rightarrow> Inl Type_error)"

definition requirePendingPortalRollbackContext :: "platform \<Rightarrow> reconciler_input \<Rightarrow> bool \<Rightarrow> failure + reconcile_context" where
  "requirePendingPortalRollbackContext pf input mutations =
     andThen (requireContext pf input False) (\<lambda>context.
       if \<not> in_hasInspect input
          \<or> (mutations \<and> (\<not> in_hasRollback input \<or> \<not> in_hasLock input
               \<or> (case in_approvedRollbackId input of JStr i \<Rightarrow> \<not> test ROLLBACK_ID i | _ \<Rightarrow> True)))
       then Inl Type_error else Inr context)"

section \<open>Reports\<close>

record receipt_summary =
  su_state :: receipt_state
  su_revision :: int
  su_installationId :: string
  su_resourceCount :: nat

definition receiptSummary :: "receipt \<Rightarrow> receipt_summary" where
  "receiptSummary receipt = \<lparr>su_state = rc_state receipt, su_revision = rc_revision receipt,
     su_installationId = rc_installationId receipt, su_resourceCount = length (rc_resources receipt)\<rparr>"

record prune_report =
  pu_pruneApprovalId :: "string option"
  pu_remoteDeleteCount :: nat
  pu_receiptRetirementCount :: nat
  pu_actions :: "(prune_verb \<times> resource_kind \<times> string) list"

definition publicPruneApproval :: "prune_approval \<Rightarrow> prune_report" where
  "publicPruneApproval prune = \<lparr>pu_pruneApprovalId = pa_approvalId prune,
     pu_remoteDeleteCount = length (pa_remoteDeletions prune),
     pu_receiptRetirementCount = length (pa_receiptRetirements prune), pu_actions = pa_actions prune\<rparr>"

definition sanitizeDiagnostics :: "cloud_diagnostic list \<Rightarrow> string list" where
  "sanitizeDiagnostics value = take 100 (filter (test SAFE_CODE) (map cd_code value))"

definition summarizeChanges :: "plan_change list \<Rightarrow> (change_action \<times> resource_kind \<times> string) list" where
  "summarizeChanges changes = map (\<lambda>c. (pc_action c, pc_kind c, pc_key c)) changes"

record plan_report =
  rp_plan :: gateway_plan
  rp_prune :: prune_report
  rp_receipt :: "receipt_summary option"
  rp_diagnostics :: "string list"

record status_report =
  st_state :: string
  st_plan :: gateway_plan
  st_blockers :: "string list"
  st_changes :: "(change_action \<times> resource_kind \<times> string) list"
  st_prune :: prune_report
  st_diagnostics :: "string list"
  st_receipt :: "(receipt_state \<times> int) option"

record apply_report =
  ar_status :: string
  ar_plan :: gateway_plan
  ar_prune :: prune_report
  ar_receipt :: receipt_summary
  ar_diagnostics :: "string list"

record uninstall_report =
  ur_status :: string
  ur_uninstallId :: string
  ur_receipt :: receipt_summary

record public_uninstall =
  pl_uninstallId :: string
  pl_installationId :: string
  pl_blockers :: "(resource_kind \<times> string) list"
  pl_actions :: "uninstall_action list"
  pl_receipt :: receipt_summary
  pl_diagnostics :: "string list"

definition publicUninstallPreview :: "uninstall_preview \<Rightarrow> public_uninstall" where
  "publicUninstallPreview preview = \<lparr>pl_uninstallId = up_uninstallId preview, pl_installationId = up_installationId preview,
     pl_blockers = up_blockers preview, pl_actions = up_actions preview, pl_receipt = receiptSummary (up_receipt preview),
     pl_diagnostics = sanitizeDiagnostics (cs_diagnostics (up_observed preview))\<rparr>"

section \<open>Planning and status\<close>

definition planLive :: "platform \<Rightarrow> reconcile_context \<Rightarrow> plan_report reconcile" where
  "planLive pf context =
     seq (readLive pf context) (\<lambda>live.
     seq (lift (buildPruneApproval (pf_sha pf) live)) (\<lambda>prune.
       return \<lparr>rp_plan = lv_plan live, rp_prune = publicPruneApproval prune,
         rp_receipt = map_option receiptSummary (lv_receipt live),
         rp_diagnostics = sanitizeDiagnostics (cs_diagnostics (lv_observed live))\<rparr>))"

definition planLiveGateway :: "platform \<Rightarrow> reconciler_input \<Rightarrow> plan_report reconcile" where
  "planLiveGateway pf input = seq (lift (requireContext pf input False)) (planLive pf)"

definition gateway_state :: "live_state \<Rightarrow> prune_approval \<Rightarrow> string" where
  "gateway_state live prune =
     (let blockers = map pb_code (gp_blockers (lv_plan live));
          actions = map pc_action (gp_changes (lv_plan live)) in
      if map_option rc_state (lv_receipt live) = Some Removed then ''removed''
      else if map_option rc_state (lv_receipt live) = Some Uninstalling then ''uninstalling''
      else if Option.bind (lv_receipt live) rc_pending \<noteq> None then ''recovering''
      else if ''resource_conflicts'' \<in> set blockers then ''conflict''
      else if blockers \<noteq> [] then ''blocked''
      else if list_ex (\<lambda>a. a \<noteq> Noop) actions \<or> pa_actions prune \<noteq> [] then ''drift'' else ''ready'')"

definition statusOf :: "platform \<Rightarrow> reconcile_context \<Rightarrow> status_report reconcile" where
  "statusOf pf context =
     seq (readLive pf context) (\<lambda>live.
     seq (lift (buildPruneApproval (pf_sha pf) live)) (\<lambda>prune.
       return \<lparr>st_state = gateway_state live prune, st_plan = lv_plan live,
         st_blockers = map pb_code (gp_blockers (lv_plan live)),
         st_changes = summarizeChanges (gp_changes (lv_plan live)), st_prune = publicPruneApproval prune,
         st_diagnostics = sanitizeDiagnostics (cs_diagnostics (lv_observed live)),
         st_receipt = map_option (\<lambda>r. (rc_state r, rc_revision r)) (lv_receipt live)\<rparr>))"

definition getGatewayStatus :: "platform \<Rightarrow> reconciler_input \<Rightarrow> status_report reconcile" where
  "getGatewayStatus pf input = seq (lift (requireContext pf input False)) (statusOf pf)"

section \<open>Applying\<close>

text \<open>Recovery of an interrupted apply: prove what happened to the pending action, or refuse.\<close>

definition recoverApplyPending :: "platform \<Rightarrow> reconcile_context \<Rightarrow> live_state \<Rightarrow> live_state reconcile" where
  "recoverApplyPending pf context live =
     (case Option.bind (lv_receipt live) (\<lambda>r. map_option (Pair r) (rc_pending r)) of
        None \<Rightarrow> throw (GatewayReconcileError ''pending_conflict'')
      | Some (receipt, pending) \<Rightarrow>
          seq (lift (assertPendingRequestHash (pf_sha pf) pending)) (\<lambda>_.
          let change = findChange (lv_plan live) (rp_kind pending) (rp_key pending) in
          if rp_action pending = Delete_action then
            if liveMatches live (rp_kind pending) (rp_key pending) = []
            then seq (commitDeletion pf receipt) (readLiveOf pf context)
            else (case change of
                None \<Rightarrow> throw (GatewayReconcileError ''pending_conflict'')
              | Some c \<Rightarrow>
                  if pc_action c = Delete
                  then seq (lift (assertRecoveryApplyRetry context pending live)) (\<lambda>_.
                    deletePending pf context receipt pending c (cs_target (lv_observed live)) ''pending_conflict'')
                  else throw (GatewayReconcileError ''pending_conflict''))
          else if fulfils pending change Noop
          then seq (commitVerifiedChange pf receipt (the change)) (readLiveOf pf context)
          else if rp_action pending = Create_action
          then if map_option pc_action change = Some Create
            then throw (GatewayReconcileError ''pending_outcome_unknown'')
            else throw (GatewayReconcileError ''pending_conflict'')
          else if \<not> fulfils pending change (change_action_of (rp_action pending))
          then throw (GatewayReconcileError ''pending_conflict'')
          else seq (lift (assertRecoveryApplyRetry context pending live)) (\<lambda>_. performPendingMutation pf context live)))"

text \<open>
  One candidate of \<^verbatim>\<open>retireAbsentReceiptEntries\<close>: \<open>None\<close> is a \<^verbatim>\<open>continue\<close>, otherwise the owned
  resource to retire and whether the prune approval covers it.
\<close>

definition retirement_of :: "reconcile_context \<Rightarrow> prune_approval \<Rightarrow> receipt \<Rightarrow> live_state \<Rightarrow> resource_kind \<times> string
    \<Rightarrow> (receipt_resource \<times> bool) option" where
  "retirement_of context approvedPrune receipt live candidate =
     (case findReceiptResource receipt (fst candidate) (snd candidate) of
        None \<Rightarrow> None
      | Some owned \<Rightarrow>
          if liveMatches live (rr_kind owned) (rr_key owned) \<noteq> [] then None
          else case findChange (lv_plan live) (rr_kind owned) (rr_key owned) of
            Some current \<Rightarrow> if pc_action current \<noteq> Create then None else Some (owned, False)
          | None \<Rightarrow>
              if \<not> cx_prune context
                 \<or> \<not> list_ex (\<lambda>retirement. sameReceiptResource retirement owned) (pa_receiptRetirements approvedPrune)
              then None else Some (owned, True))"

fun retireCandidates :: "platform \<Rightarrow> reconcile_context \<Rightarrow> string \<Rightarrow> prune_approval \<Rightarrow> live_state \<Rightarrow> receipt
    \<Rightarrow> (resource_kind \<times> string) list \<Rightarrow> (live_state \<times> receipt) reconcile" where
  "retireCandidates pf context approvedPlanId approvedPrune live receipt [] = return (live, receipt)"
| "retireCandidates pf context approvedPlanId approvedPrune live0 receipt (candidate # candidates) =
     seq (readLiveOf pf context receipt) (\<lambda>live.
     seq (lift (assertPlanExecutable (lv_plan live))) (\<lambda>_.
     seq (refuse_if (gp_planId (lv_plan live) \<noteq> approvedPlanId) (GatewayReconcileError ''plan_changed'')) (\<lambda>_.
     case retirement_of context approvedPrune receipt live candidate of
       None \<Rightarrow> retireCandidates pf context approvedPlanId approvedPrune live receipt candidates
     | Some (owned, pruned) \<Rightarrow>
         seq (journalAction pf context receipt approvedPlanId (deletion_of owned) Apply_type
           (if pruned then pa_approvalId approvedPrune else None)) (\<lambda>pending.
         seq (readLiveOf pf context pending) (\<lambda>verified.
         seq (refuse_if (liveMatches verified (rr_kind owned) (rr_key owned) \<noteq> []) (GatewayReconcileError ''pending_conflict'')) (\<lambda>_.
         seq (commitDeletion pf pending) (\<lambda>committed.
         seq (readLiveOf pf context committed) (\<lambda>fresh.
           retireCandidates pf context approvedPlanId approvedPrune fresh committed candidates))))))))"

definition retireAbsentReceiptEntries :: "platform \<Rightarrow> reconcile_context \<Rightarrow> live_state \<Rightarrow> receipt \<Rightarrow> prune_approval
    \<Rightarrow> (live_state \<times> receipt) reconcile" where
  "retireAbsentReceiptEntries pf context live receipt approvedPrune =
     retireCandidates pf context (gp_planId (lv_plan live)) approvedPrune live receipt
       (map (\<lambda>r. (rr_kind r, rr_key r)) (js_sort compareReceiptResourcesReverse (rc_resources receipt)))"

definition approvedChanges :: "reconcile_context \<Rightarrow> gateway_plan \<Rightarrow> plan_change list" where
  "approvedChanges context plan = js_sort compareApprovedChanges
     (filter (\<lambda>c. pc_action c = Create \<or> pc_action c = Update \<or> (pc_action c = Delete \<and> cx_prune context)) (gp_changes plan))"

text \<open>The loop over the approved changes; it gives the receipt after the last of them.\<close>

fun applyChanges :: "platform \<Rightarrow> reconcile_context \<Rightarrow> prune_approval \<Rightarrow> receipt \<Rightarrow> plan_change list \<Rightarrow> receipt reconcile" where
  "applyChanges pf context approvedPrune receipt [] = return receipt"
| "applyChanges pf context approvedPrune receipt (approved # changes) =
     seq (readLiveOf pf context receipt) (\<lambda>live.
     seq (lift (assertPlanExecutable (lv_plan live))) (\<lambda>_.
     let current = findChange (lv_plan live) (pc_kind approved) (pc_key approved) in
     if map_option pc_action current = Some Noop then applyChanges pf context approvedPrune receipt changes
     else
       seq (lift (assertApprovedChangeStillMatches approved current)) (\<lambda>change.
       seq (lift (assertLowerRankDependenciesConverged (lv_plan live) receipt change)) (\<lambda>_.
       seq (journalAction pf context receipt (gp_planId (lv_plan live)) change Apply_type
         (if pc_action change = Delete then pa_approvalId approvedPrune else None)) (\<lambda>pending.
       seq (performPendingMutation pf context (live\<lparr>lv_receipt := Some pending\<rparr>)) (\<lambda>after.
       case lv_receipt after of
         None \<Rightarrow> throw (GatewayReconcileError ''receipt_changed'')
       | Some committed \<Rightarrow> applyChanges pf context approvedPrune committed changes))))))"

definition gateway_plan_value :: "gateway_plan \<Rightarrow> jval" where
  "gateway_plan_value plan = JObj [(''schemaVersion'', jint 1), (''installationId'', JStr (gp_installationId plan)),
     (''desiredHash'', JStr (gp_desiredHash plan)), (''planId'', JStr (gp_planId plan)), (''release'', JStr (gp_release plan)),
     (''requiredCapabilities'', JArr (map JStr GATEWAY_REQUIRED_CAPABILITIES)),
     (''blockers'', JArr (map blocker_value (gp_blockers plan))), (''changes'', JArr (map change_value (gp_changes plan))),
     (''uninstall'', JArr (map change_value (gp_uninstall plan)))]"

text \<open>\<^verbatim>\<open>{ plan, target, accessPolicy }\<close>, for creating or updating a receipt.\<close>

definition receipt_input :: "reconcile_context \<Rightarrow> live_state \<Rightarrow> desired_state \<Rightarrow> jval" where
  "receipt_input context live desired = JObj [(''plan'', gateway_plan_value (lv_plan live)),
     (''target'', target_value (receiptTarget (cx_configValue context) (cs_target (lv_observed live)))),
     (''accessPolicy'', policy_value (ds_accessPolicy desired))]"

definition desiredFor :: "platform \<Rightarrow> reconcile_context \<Rightarrow> verified_target \<Rightarrow> failure + desired_state" where
  "desiredFor pf context target = type_failure (buildGatewayDesiredState (pf_sha pf) (pf_parse_url pf) (cx_config context)
     (verified_target_value target) (cx_access context))"

text \<open>The receipt of the run, created and stored when there is none, with the live state to go on from.\<close>

definition receiptToUse :: "platform \<Rightarrow> reconcile_context \<Rightarrow> live_state \<Rightarrow> (live_state \<times> receipt) reconcile" where
  "receiptToUse pf context live = (case lv_receipt live of
     Some receipt \<Rightarrow> return (live, receipt)
   | None \<Rightarrow>
       seq (lift (desiredFor pf context (cs_target (lv_observed live)))) (\<lambda>desired.
       seq (lift (type_failure (createInstallationReceipt (pf_sha pf) (receipt_input context live desired)))) (\<lambda>receipt.
       seq (writeReceipt receipt) (\<lambda>_.
       seq (readLiveOf pf context receipt) (\<lambda>fresh.
       seq (lift (assertPlanExecutable (lv_plan fresh))) (\<lambda>_. return (fresh, receipt)))))))"

text \<open>The live state an apply starts from, after the recovery of a pending action.\<close>

definition liveToApply :: "platform \<Rightarrow> reconcile_context \<Rightarrow> live_state reconcile" where
  "liveToApply pf context =
     seq (readLive pf context) (\<lambda>live.
     if map_option rc_state (lv_receipt live) = Some Removed then throw (GatewayReconcileError ''installation_removed'')
     else if map_option rc_state (lv_receipt live) = Some Uninstalling then throw (GatewayReconcileError ''pending_uninstall'')
     else case Option.bind (lv_receipt live) rc_pending of
       None \<Rightarrow> return live
     | Some pending \<Rightarrow>
         if rp_type pending \<noteq> Apply_type then throw (GatewayReconcileError ''pending_uninstall'')
         else recoverApplyPending pf context live)"

text \<open>The end of an apply: nothing approved may be left to do; the receipt takes the new content.\<close>

definition finishApply :: "platform \<Rightarrow> reconcile_context \<Rightarrow> receipt \<Rightarrow> apply_report reconcile" where
  "finishApply pf context receipt =
     seq (readLiveOf pf context receipt) (\<lambda>live.
     seq (lift (assertPlanExecutable (lv_plan live))) (\<lambda>_.
     seq (refuse_if (approvedChanges context (lv_plan live) \<noteq> []) (GatewayReconcileError ''verification_failed'')) (\<lambda>_.
     seq (lift (desiredFor pf context (cs_target (lv_observed live)))) (\<lambda>desired.
     seq (lift (type_failure (updateInstallationReceipt (pf_sha pf) (receipt_value receipt)
       (receipt_input context live desired)))) (\<lambda>updated.
     seq (writeReceipt updated) (\<lambda>_.
     seq (readLiveOf pf context updated) (\<lambda>final.
     seq (lift (buildPruneApproval (pf_sha pf) final)) (\<lambda>remainingPrune.
       return \<lparr>ar_status = (if list_all (\<lambda>c. pc_action c = Noop) (gp_changes (lv_plan final))
             \<and> pa_actions remainingPrune = [] then ''ready'' else ''drift''),
         ar_plan = lv_plan final, ar_prune = publicPruneApproval remainingPrune, ar_receipt = receiptSummary updated,
         ar_diagnostics = sanitizeDiagnostics (cs_diagnostics (lv_observed final))\<rparr>))))))))"

definition applyGatewayLocked :: "platform \<Rightarrow> reconcile_context \<Rightarrow> apply_report reconcile" where
  "applyGatewayLocked pf context =
     seq (liveToApply pf context) (\<lambda>live.
     seq (lift (assertPlanExecutable (lv_plan live))) (\<lambda>_.
     seq (refuse_if (cx_approvedPlanId context \<noteq> Some (gp_planId (lv_plan live))) (GatewayReconcileError ''approval_required'')) (\<lambda>_.
     seq (lift (buildPruneApproval (pf_sha pf) live)) (\<lambda>approvedPrune.
     seq (lift (assertPruneApproval context approvedPrune)) (\<lambda>_.
     seq (receiptToUse pf context live) (\<lambda>(live, receipt).
     seq (lift (assertReceiptMatchesPlan receipt (lv_plan live))) (\<lambda>_.
     seq (retireAbsentReceiptEntries pf context live receipt approvedPrune) (\<lambda>(live, receipt).
     seq (applyChanges pf context approvedPrune receipt (approvedChanges context (lv_plan live)))
       (finishApply pf context)))))))))"

definition applyGateway :: "platform \<Rightarrow> reconciler_input \<Rightarrow> apply_report reconcile" where
  "applyGateway pf input =
     seq (lift (requireContext pf input True)) (\<lambda>context. withReceiptLock context (applyGatewayLocked pf context))"

end
