(* ===== verification/Reconciler_Removal.thy ===== *)
theory Reconciler_Removal
  imports Reconciler
begin

text \<open>
  The destructive operations of \<^verbatim>\<open>src/reconciler.ts\<close>: rolling back a portal whose creation was
  interrupted, and uninstalling what the receipt owns.
\<close>

section \<open>Rolling back a pending portal\<close>

record portal_preview =
  pp_evidence :: portal_evidence
  pp_portal :: desired_resource
  pp_pending :: receipt_pending
  pp_providerInput :: mutation_input
  pp_receipt :: receipt
  pp_rollbackId :: string

text \<open>\<^verbatim>\<open>{ ...object, k: value }\<close>\<close>

definition spread_with :: "jval \<Rightarrow> string \<Rightarrow> jval \<Rightarrow> jval" where
  "spread_with object k value = (case object of
     JObj kvs \<Rightarrow> if k \<in> set (map fst kvs) then JObj (map (\<lambda>e. if fst e = k then (k, value) else e) kvs)
       else JObj (kvs @ [(k, value)])
   | _ \<Rightarrow> JObj [(k, value)])"

definition lower_than_portal :: "resource_kind \<Rightarrow> bool" where
  "lower_than_portal kind \<longleftrightarrow> resourceRank kind < resourceRank Portal"

text \<open>The loop over the resources the portal depends on, and the one over those that depend on it.\<close>

definition dependency_in_place :: "gateway_plan \<Rightarrow> receipt \<Rightarrow> desired_resource \<Rightarrow> bool" where
  "dependency_in_place plan receipt dependency \<longleftrightarrow>
     (case (findReceiptResource receipt (rs_kind dependency) (rs_key dependency),
            findChange plan (rs_kind dependency) (rs_key dependency)) of
        (Some owned, Some change) \<Rightarrow> pc_action change = Noop \<and> rr_desiredHash owned = dr_desiredHash dependency
          \<and> sameProvider (Some (rr_provider owned)) (pc_provider change)
      | _ \<Rightarrow> False)"

definition dependent_not_started :: "gateway_plan \<Rightarrow> desired_resource \<Rightarrow> bool" where
  "dependent_not_started plan resource \<longleftrightarrow> (case findChange plan (rs_kind resource) (rs_key resource) of
     None \<Rightarrow> False | Some change \<Rightarrow> pc_action change = Create \<and> pc_provider change = None)"

definition assertPendingPortalRollbackTopology :: "gateway_plan \<Rightarrow> receipt \<Rightarrow> desired_resource list \<Rightarrow> desired_resource
    \<Rightarrow> failure + unit" where
  "assertPendingPortalRollbackTopology plan receipt desiredResources portal =
     (let lowerDesired = filter (\<lambda>r. lower_than_portal (rs_kind r)) desiredResources in
      if length (rc_resources receipt) \<noteq> length lowerDesired
         \<or> list_ex (\<lambda>r. \<not> lower_than_portal (rr_kind r)) (rc_resources receipt)
         \<or> length (gp_changes plan) \<noteq> length desiredResources
         \<or> \<not> list_all (dependency_in_place plan receipt) lowerDesired
         \<or> \<not> list_all (dependent_not_started plan)
             (filter (\<lambda>r. \<not> (rs_key r = rs_key portal \<and> rs_kind r = rs_kind portal)
                \<and> resourceRank Portal < resourceRank (rs_kind r)) desiredResources)
         \<or> list_ex (\<lambda>c. pc_action c = Delete) (gp_changes plan)
      then Inl (GatewayReconcileError ''pending_conflict'') else Inr ())"

text \<open>The change that creates the portal, as handed to the provider.\<close>

definition portal_creation :: "desired_resource \<Rightarrow> plan_change" where
  "portal_creation portal = \<lparr>pc_action = Create, pc_kind = rs_kind portal, pc_key = rs_key portal,
     pc_desiredHash = Some (dr_desiredHash portal), pc_desired = Some (rs_desired portal), pc_provider = None,
     pc_reason = None\<rparr>"

definition inspectCall :: "reconcile_context \<Rightarrow> mutation_input \<Rightarrow> jval reconcile" where
  "inspectCall context input = (if cx_canInspect context then call (Inspect input)
     else throw (GatewayReconcileError ''mutation_failed''))"

definition rollbackCall :: "reconcile_context \<Rightarrow> mutation_input \<Rightarrow> jval reconcile" where
  "rollbackCall context input = (if cx_canRollback context then call (Rollback input)
     else throw (GatewayReconcileError ''mutation_failed''))"

text \<open>\<^verbatim>\<open>try { ... } catch { throw new GatewayReconcileError(code) }\<close>\<close>

definition or_refuse :: "'x reconcile \<Rightarrow> string \<Rightarrow> 'x reconcile" where
  "or_refuse m code = catch m (\<lambda>_. throw (GatewayReconcileError code))"

text \<open>The pending portal the live state allows to roll back, with its change.\<close>

definition pendingPortal :: "platform \<Rightarrow> reconcile_context \<Rightarrow> live_state \<Rightarrow> failure + receipt \<times> receipt_pending \<times> desired_resource" where
  "pendingPortal pf context live =
     (case Option.bind (lv_receipt live) (\<lambda>r. map_option (Pair r) (rc_pending r)) of
        None \<Rightarrow> Inl (GatewayReconcileError ''pending_conflict'')
      | Some (receipt, pending) \<Rightarrow>
          if rc_state receipt \<noteq> Installing \<or> rp_type pending \<noteq> Apply_type \<or> rp_action pending \<noteq> Create_action
             \<or> rp_kind pending \<noteq> Portal
          then Inl (GatewayReconcileError ''pending_conflict'')
          else andThen (assertPendingRequestHash (pf_sha pf) pending) (\<lambda>_.
            if rc_release receipt \<noteq> cx_release context \<or> rc_installationId receipt \<noteq> gp_installationId (lv_plan live)
            then Inl (GatewayReconcileError ''receipt_mismatch'')
            else andThen (desiredFor pf context (cs_target (lv_observed live))) (\<lambda>desired.
              case find (\<lambda>r. rs_kind r = Portal \<and> rs_key r = rp_key pending) (ds_resources desired) of
                None \<Rightarrow> Inl (GatewayReconcileError ''pending_conflict'')
              | Some portal \<Rightarrow>
                  if dr_desiredHash portal \<noteq> rp_expectedDesiredHash pending
                     \<or> canonicalJson (policy_value (ds_accessPolicy desired)) \<noteq> canonicalJson (policy_value (rc_accessPolicy receipt))
                  then Inl (GatewayReconcileError ''pending_conflict'')
                  else andThen (assertPendingPortalRollbackTopology (lv_plan live) receipt (ds_resources desired) portal)
                    (\<lambda>_. Inr (receipt, pending, portal)))))"

definition portal_input :: "reconcile_context \<Rightarrow> receipt \<Rightarrow> desired_resource \<Rightarrow> mutation_input" where
  "portal_input context receipt portal = mutation_of context (portal_creation portal) receipt
     (spread_with (cx_target context) ''zoneName'' (JStr (rt_zoneName (rc_target receipt))))"

text \<open>What the provider saw has to agree with what the plan says.\<close>

definition evidence_agrees :: "portal_evidence \<Rightarrow> gateway_plan \<Rightarrow> desired_resource \<Rightarrow> failure + unit" where
  "evidence_agrees evidence plan portal =
     (let portalAction = map_option pc_action (findChange plan (rs_kind portal) (rs_key portal));
          blockerCodes = map pb_code (gp_blockers plan) in
      if (evidence = Portal_ready \<and> portalAction \<noteq> Some Conflict)
         \<or> (evidence = Portal_already_absent \<and> portalAction \<noteq> Some Create)
      then Inl (GatewayReconcileError ''pending_conflict'')
      else if (evidence = Portal_ready \<and> blockerCodes \<noteq> [''resource_conflicts''])
         \<or> (evidence = Portal_already_absent \<and> blockerCodes \<noteq> [])
      then Inl (GatewayReconcileError ''plan_blocked'') else Inr ())"

definition evidence_text :: "portal_evidence \<Rightarrow> string" where
  "evidence_text evidence = (if evidence = Portal_ready then ''ready'' else ''already_absent'')"

definition rollback_digest_value :: "receipt \<Rightarrow> receipt_pending \<Rightarrow> gateway_plan \<Rightarrow> string \<Rightarrow> portal_evidence \<Rightarrow> jval" where
  "rollback_digest_value receipt pending plan portalKey evidence =
     JObj [(''schemaVersion'', jint 1), (''operation'', JStr ''rollback_pending_portal_create''),
       (''target'', JObj [(''accountId'', JStr (rt_accountId (rc_target receipt))),
          (''zoneId'', JStr (rt_zoneId (rc_target receipt))), (''hostname'', JStr (rt_hostname (rc_target receipt)))]),
       (''installationId'', JStr (rc_installationId receipt)), (''release'', JStr (rc_release receipt)),
       (''receiptDesiredHash'', JStr (rc_desiredHash receipt)), (''currentDesiredHash'', JStr (gp_desiredHash plan)),
       (''currentPlanId'', JStr (gp_planId plan)),
       (''receiptChecksum'', case rc_checksum receipt of None \<Rightarrow> Undef | Some c \<Rightarrow> JStr c),
       (''pending'', JObj [(''operationId'', JStr (rp_operationId pending)), (''requestHash'', JStr (rp_requestHash pending)),
          (''type'', JStr (type_text (rp_type pending))), (''planId'', JStr (rp_planId pending)),
          (''action'', JStr (receipt_action_text (rp_action pending))), (''kind'', JStr (kind_text (rp_kind pending))),
          (''key'', JStr (rp_key pending)), (''expectedDesiredHash'', JStr (rp_expectedDesiredHash pending))]),
       (''evidence'', JObj [(''status'', JStr (evidence_text evidence)), (''portalKey'', JStr portalKey)])]"

definition buildPendingPortalRollbackPreview :: "platform \<Rightarrow> reconcile_context \<Rightarrow> portal_preview reconcile" where
  "buildPendingPortalRollbackPreview pf context =
     seq (readLive pf context) (\<lambda>live.
     seq (lift (pendingPortal pf context live)) (\<lambda>(receipt, pending, portal).
     let input = portal_input context receipt portal in
     seq (or_refuse (seq (inspectCall context input) (\<lambda>value.
         lift (normalizePendingPortalRollbackEvidence value (rs_key portal)))) ''pending_conflict'') (\<lambda>evidence.
     seq (lift (evidence_agrees evidence (lv_plan live) portal)) (\<lambda>_.
     seq (lift (hash_or_fail (hashCanonical (pf_sha pf)
         (rollback_digest_value receipt pending (lv_plan live) (rs_key portal) evidence)))) (\<lambda>rollbackHash.
       return \<lparr>pp_evidence = evidence, pp_portal = portal, pp_pending = pending, pp_providerInput = input,
         pp_receipt = receipt, pp_rollbackId = ''rollback-'' @ take 24 (drop 7 rollbackHash)\<rparr>)))))"

record rollback_preview =
  rv_rollbackId :: string
  rv_present :: bool
  rv_receipt :: receipt_summary

definition publicPendingPortalRollbackPreview :: "portal_preview \<Rightarrow> rollback_preview" where
  "publicPendingPortalRollbackPreview preview = \<lparr>rv_rollbackId = pp_rollbackId preview,
     rv_present = (pp_evidence preview = Portal_ready), rv_receipt = receiptSummary (pp_receipt preview)\<rparr>"

definition planPendingPortalCreateRollback :: "platform \<Rightarrow> reconciler_input \<Rightarrow> rollback_preview reconcile" where
  "planPendingPortalCreateRollback pf input =
     seq (lift (requirePendingPortalRollbackContext pf input False)) (\<lambda>context.
     seq (buildPendingPortalRollbackPreview pf context) (\<lambda>preview.
       return (publicPendingPortalRollbackPreview preview)))"

definition rollbackPendingPortalCreateLocked :: "platform \<Rightarrow> reconcile_context \<Rightarrow> (string \<times> receipt_summary) reconcile" where
  "rollbackPendingPortalCreateLocked pf context =
     seq (buildPendingPortalRollbackPreview pf context) (\<lambda>preview.
     seq (refuse_if (cx_approvedRollbackId context \<noteq> Some (pp_rollbackId preview))
       (GatewayReconcileError ''rollback_approval_required'')) (\<lambda>_.
     seq (or_refuse (seq (rollbackCall context (pp_providerInput preview)) (\<lambda>value.
         lift (normalizePendingPortalRollbackMutationResult value (rs_key (pp_portal preview))))) ''mutation_failed'')
       (\<lambda>mutationResult.
     seq (or_refuse (seq (inspectCall context (pp_providerInput preview)) (\<lambda>value.
         lift (normalizePendingPortalRollbackEvidence value (rs_key (pp_portal preview))))) ''verification_failed'')
       (\<lambda>verifiedEvidence.
     seq (refuse_if (verifiedEvidence \<noteq> Portal_already_absent) (GatewayReconcileError ''verification_failed'')) (\<lambda>_.
     seq readReceipt (\<lambda>stored.
     seq (lift (if truthy stored then map_result Some (validateReceiptSafe (pf_sha pf) stored (JObj [])) else Inr None)) (\<lambda>current.
     case current of
       None \<Rightarrow> throw (GatewayReconcileError ''receipt_changed'')
     | Some r \<Rightarrow>
         seq (refuse_if (rc_checksum r \<noteq> rc_checksum (pp_receipt preview)) (GatewayReconcileError ''receipt_changed'')) (\<lambda>_.
         seq (lift (type_failure (clearReceiptAction (pf_sha pf) (receipt_value r)
           (JStr (rp_operationId (pp_pending preview)))))) (\<lambda>cleared.
         seq (writeReceipt cleared) (\<lambda>_. return (pp_rollbackId preview, receiptSummary cleared)))))))))))"

definition rollbackPendingPortalCreate :: "platform \<Rightarrow> reconciler_input \<Rightarrow> (string \<times> receipt_summary) reconcile" where
  "rollbackPendingPortalCreate pf input =
     seq (lift (requirePendingPortalRollbackContext pf input True)) (\<lambda>context.
       withReceiptLock context (rollbackPendingPortalCreateLocked pf context))"

section \<open>Uninstalling\<close>

definition buildGatewayUninstallPlan :: "platform \<Rightarrow> reconcile_context \<Rightarrow> uninstall_preview reconcile" where
  "buildGatewayUninstallPlan pf context = seq (readLive pf context) (\<lambda>live. lift (uninstall_plan_of (pf_sha pf) live))"

definition planGatewayUninstall :: "platform \<Rightarrow> reconciler_input \<Rightarrow> public_uninstall reconcile" where
  "planGatewayUninstall pf input =
     seq (lift (requireContext pf input False)) (\<lambda>context.
     seq (buildGatewayUninstallPlan pf context) (\<lambda>preview. return (publicUninstallPreview preview)))"

text \<open>Deleting one owned resource and proving its absence.\<close>

definition deleteOwned :: "platform \<Rightarrow> reconcile_context \<Rightarrow> receipt \<Rightarrow> plan_change \<Rightarrow> verified_target \<Rightarrow> unit reconcile" where
  "deleteOwned pf context receipt change target =
     seq (mutate pf context change receipt target) (\<lambda>_.
     seq (readLiveOf pf context receipt) (\<lambda>verified.
       refuse_if (liveMatches verified (pc_kind change) (pc_key change) \<noteq> []) (GatewayReconcileError ''verification_failed'')))"

definition recoverUninstallPending :: "platform \<Rightarrow> reconcile_context \<Rightarrow> uninstall_preview \<Rightarrow> uninstall_preview reconcile" where
  "recoverUninstallPending pf context preview =
     (case rc_pending (up_receipt preview) of
        None \<Rightarrow> throw (GatewayReconcileError ''pending_conflict'')
      | Some pending \<Rightarrow>
          seq (lift (assertPendingRequestHash (pf_sha pf) pending)) (\<lambda>_.
          seq (refuse_if (rp_type pending \<noteq> Uninstall_type \<or> rp_action pending \<noteq> Delete_action)
            (GatewayReconcileError ''pending_apply'')) (\<lambda>_.
          case findReceiptResource (up_receipt preview) (rp_kind pending) (rp_key pending) of
            None \<Rightarrow> throw (GatewayReconcileError ''pending_conflict'')
          | Some owned \<Rightarrow>
              seq (case matchingResources (cs_resources (up_observed preview)) (rp_kind pending) (rp_key pending) of
                  [] \<Rightarrow> return ()
                | [match] \<Rightarrow>
                    seq (refuse_if (\<not> isExactOwnedMatch match owned (rc_installationId (up_receipt preview)))
                      (GatewayReconcileError ''pending_conflict'')) (\<lambda>_.
                    seq (refuse_if (cx_approvedUninstallId context \<noteq> Some (rp_planId pending))
                      (GatewayReconcileError ''uninstall_approval_required'')) (\<lambda>_.
                      deleteOwned pf context (up_receipt preview) (deletion_of owned) (cs_target (up_observed preview))))
                | _ \<Rightarrow> throw (GatewayReconcileError ''pending_conflict'')) (\<lambda>_.
              seq (commitDeletion pf (up_receipt preview)) (\<lambda>receipt.
                buildGatewayUninstallPlan pf (with_override context receipt))))))"

definition find_action :: "uninstall_preview \<Rightarrow> resource_kind \<Rightarrow> string \<Rightarrow> uninstall_action option" where
  "find_action preview kind key = find (\<lambda>a. ua_kind a = kind \<and> ua_key a = key) (up_actions preview)"

text \<open>The loop over the approved actions; \<open>planId\<close> is the identifier the journal records.\<close>

fun uninstallActions :: "platform \<Rightarrow> reconcile_context \<Rightarrow> string \<Rightarrow> receipt \<Rightarrow> uninstall_action list \<Rightarrow> receipt reconcile" where
  "uninstallActions pf context planId receipt [] = return receipt"
| "uninstallActions pf context planId receipt (approved # actions) =
     seq (buildGatewayUninstallPlan pf (with_override context receipt)) (\<lambda>fresh.
     case find_action fresh (ua_kind approved) (ua_key approved) of
       None \<Rightarrow> throw (GatewayReconcileError ''ownership_conflict'')
     | Some current \<Rightarrow>
         seq (refuse_if (list_ex (\<lambda>b. b = (ua_kind approved, ua_key approved)) (up_blockers fresh))
           (GatewayReconcileError ''ownership_conflict'')) (\<lambda>_.
         case findReceiptResource receipt (ua_kind approved) (ua_key approved) of
           None \<Rightarrow> uninstallActions pf context planId receipt actions
         | Some owned \<Rightarrow>
             seq (journalAction pf context receipt planId (deletion_of owned) Uninstall_type None) (\<lambda>pending.
             seq (if ua_verb current = Uninstall_delete
                then deleteOwned pf context pending (deletion_of owned) (cs_target (up_observed fresh)) else return ()) (\<lambda>_.
             seq (commitDeletion pf pending) (\<lambda>committed.
               uninstallActions pf context planId committed actions)))))"

definition uninstallGatewayLocked :: "platform \<Rightarrow> reconcile_context \<Rightarrow> uninstall_report reconcile" where
  "uninstallGatewayLocked pf context =
     seq (buildGatewayUninstallPlan pf context) (\<lambda>first.
     if rc_state (up_receipt first) = Removed
     then return \<lparr>ur_status = ''removed'', ur_uninstallId = up_uninstallId first, ur_receipt = receiptSummary (up_receipt first)\<rparr>
     else
       seq (case rc_pending (up_receipt first) of
           None \<Rightarrow> return (up_uninstallId first, first)
         | Some pending \<Rightarrow> seq (recoverUninstallPending pf context first) (\<lambda>preview. return (rp_planId pending, preview)))
         (\<lambda>(approvalId, preview).
       seq (refuse_if (up_blockers preview \<noteq> []) (GatewayReconcileError ''ownership_conflict'')) (\<lambda>_.
       seq (refuse_if (cx_approvedUninstallId context \<noteq> Some approvalId) (GatewayReconcileError ''uninstall_approval_required'')) (\<lambda>_.
       seq (uninstallActions pf context (up_uninstallId preview) (up_receipt preview) (up_actions preview)) (\<lambda>receipt.
       seq (refuse_if (rc_resources receipt \<noteq> []) (GatewayReconcileError ''verification_failed'')) (\<lambda>_.
       seq (lift (type_failure (markReceiptRemoved (pf_sha pf) (receipt_value receipt)))) (\<lambda>removed.
       seq (writeReceipt removed) (\<lambda>_.
         return \<lparr>ur_status = ''removed'', ur_uninstallId = approvalId, ur_receipt = receiptSummary removed\<rparr>))))))))"

definition uninstallGateway :: "platform \<Rightarrow> reconciler_input \<Rightarrow> uninstall_report reconcile" where
  "uninstallGateway pf input =
     seq (lift (requireContext pf input True)) (\<lambda>context. withReceiptLock context (uninstallGatewayLocked pf context))"

end
