(* ===== verification/Reconciler_History.thy ===== *)
theory Reconciler_History
  imports Reconciler_Removal Receipt_Binding
begin

text \<open>
  What the history of calls says: the receipt the store holds, the state last observed, and which
  calls are lawful after it. \<open>lawful\<close> is the discipline every operation keeps whatever the
  environment answers:

  \<^item> a write extends the stored receipt by one step of the journal protocol, or creates the first one,
    and forgets a resource only when it was last observed absent;
  \<^item> a mutation is journaled: the store holds the very receipt handed to the provider, whose pending
    action is that mutation; it updates or deletes only what was last observed with this
    installation's ownership marker, and creates only what was last observed absent.

  The parameter \<open>A\<close> of \<open>lawful\<close> is what an operation has to answer for on top of this: whose approval
  its mutations have.
\<close>

section \<open>The stored receipt and the observed state\<close>

fun store_event :: "(string \<Rightarrow> string) \<Rightarrow> reconcile_call \<times> (failure + jval) \<Rightarrow> receipt option \<Rightarrow> receipt option" where
  "store_event sha (Store_read, Inr v) s = (case stored_receipt sha v of Inl e \<Rightarrow> None | Inr r \<Rightarrow> r)"
| "store_event sha (Store_write r, Inr v) s = Some r"
| "store_event sha _ s = s"

definition stored_at :: "(string \<Rightarrow> string) \<Rightarrow> reconcile_trace \<Rightarrow> receipt option" where
  "stored_at sha h = fold (store_event sha) h None"

fun observe_event :: "reconcile_call \<times> (failure + jval) \<Rightarrow> cloud_state option \<Rightarrow> cloud_state option" where
  "observe_event (Observe i, Inr v) s = (case normalizeObservedState v of Inl e \<Rightarrow> None | Inr c \<Rightarrow> Some c)"
| "observe_event _ s = s"

definition seen_at :: "reconcile_trace \<Rightarrow> cloud_state option" where
  "seen_at h = fold observe_event h None"

lemma stored_at_snoc [simp]: "stored_at sha (h @ [e]) = store_event sha e (stored_at sha h)"
  by (simp add: stored_at_def)

lemma seen_at_snoc [simp]: "seen_at (h @ [e]) = observe_event e (seen_at h)"
  by (simp add: seen_at_def)

text \<open>The receipts that went through the store, and two different ones with the same checksum.\<close>

fun receipts_event :: "(string \<Rightarrow> string) \<Rightarrow> reconcile_call \<times> (failure + jval) \<Rightarrow> receipt set" where
  "receipts_event sha (Store_read, Inr v) = (case stored_receipt sha v of Inr (Some r) \<Rightarrow> {r} | _ \<Rightarrow> {})"
| "receipts_event sha (Store_write r, Inr v) = {r}"
| "receipts_event sha _ = {}"

definition receipts_of :: "(string \<Rightarrow> string) \<Rightarrow> reconcile_trace \<Rightarrow> receipt set" where
  "receipts_of sha h = \<Union> (receipts_event sha ` set h)"

definition known :: "(string \<Rightarrow> string) \<Rightarrow> reconcile_trace \<Rightarrow> receipt \<Rightarrow> bool" where
  "known sha h r \<longleftrightarrow> sealed sha r \<and> r \<in> receipts_of sha h"

definition collided :: "(string \<Rightarrow> string) \<Rightarrow> reconcile_trace \<Rightarrow> bool" where
  "collided sha h \<longleftrightarrow> (\<exists>r s. known sha h r \<and> known sha h s \<and> rc_checksum r = rc_checksum s \<and> r \<noteq> s)"

lemma known_mono: "known sha h r \<Longrightarrow> prefix h h' \<Longrightarrow> known sha h' r"
  by (auto simp: known_def receipts_of_def prefix_def)

lemma collided_mono: "collided sha h \<Longrightarrow> prefix h h' \<Longrightarrow> collided sha h'"
  unfolding collided_def by (meson known_mono)

lemma receipts_snoc [simp]: "receipts_of sha (h @ [e]) = receipts_of sha h \<union> receipts_event sha e"
  by (auto simp: receipts_of_def)

definition plan_from :: "platform \<Rightarrow> reconcile_context \<Rightarrow> cloud_state \<Rightarrow> gateway_plan option" where
  "plan_from pf context s = (case parse_json (cloud_state_value s) of
     None \<Rightarrow> None
   | Some v \<Rightarrow> (case buildGatewayPlan (pf_sha pf) (pf_parse_url pf) (cx_config context) v
        (JStr (cx_release context)) (cx_access context) of Inl e \<Rightarrow> None | Inr p \<Rightarrow> Some p))"

lemma with_override_simps [simp]:
  "cx_config (with_override context r) = cx_config context" "cx_release (with_override context r) = cx_release context"
  "cx_access (with_override context r) = cx_access context" "cx_override (with_override context r) = Some r"
  by (simp_all add: with_override_def)

lemma plan_from_override [simp]: "plan_from pf (with_override context r) = plan_from pf context"
  unfolding plan_from_def with_override_simps by (rule refl)

section \<open>Lawful calls\<close>

text \<open>The pending resource, or any other, is observed absent.\<close>

definition seen_absent :: "reconcile_trace \<Rightarrow> resource_id \<Rightarrow> bool" where
  "seen_absent h i \<longleftrightarrow> (case seen_at h of None \<Rightarrow> False | Some s \<Rightarrow> matchingResources (cs_resources s) (fst i) (snd i) = [])"

definition forgets_absent :: "reconcile_trace \<Rightarrow> receipt \<Rightarrow> receipt \<Rightarrow> bool" where
  "forgets_absent h r r' \<longleftrightarrow>
     (\<forall>i \<in> dom (ledger_of (rc_resources r)) - dom (ledger_of (rc_resources r')). seen_absent h i)"

definition lawful_write :: "(string \<Rightarrow> string) \<Rightarrow> reconcile_trace \<Rightarrow> receipt \<Rightarrow> bool" where
  "lawful_write sha h r' \<longleftrightarrow> (case stored_at sha h of
     None \<Rightarrow> (\<exists>input. createInstallationReceipt sha input = Inr r')
   | Some s \<Rightarrow> sealed sha s \<and> receipt_step sha s r' \<and> forgets_absent h s r')"

definition owned_by :: "string \<Rightarrow> cloud_resource \<Rightarrow> bool" where
  "owned_by installationId r \<longleftrightarrow> cl_manager r = Some MANAGER \<and> cl_installationId r = Some installationId"

text \<open>A change that does not touch a foreign resource, nor creates over an existing one.\<close>

definition touches_own :: "cloud_state \<Rightarrow> string \<Rightarrow> plan_change \<Rightarrow> bool" where
  "touches_own s installationId c \<longleftrightarrow>
     (let matches = matchingResources (cs_resources s) (pc_kind c) (pc_key c) in
      if pc_action c = Create then matches = []
      else list_ex (\<lambda>r. owned_by installationId r \<and> sameProvider (cl_provider r) (pc_provider c)) matches)"

definition journaled :: "receipt \<Rightarrow> plan_change \<Rightarrow> bool" where
  "journaled r c \<longleftrightarrow> (case rc_pending r of None \<Rightarrow> False
     | Some p \<Rightarrow> rp_kind p = pc_kind c \<and> rp_key p = pc_key c \<and> change_action_of (rp_action p) = pc_action c)"

text \<open>The store holds the very receipt handed to the provider, in which the change is journaled.\<close>

definition journaled_call :: "(string \<Rightarrow> string) \<Rightarrow> reconcile_trace \<Rightarrow> mutation_input \<Rightarrow> bool" where
  "journaled_call sha h mi \<longleftrightarrow>
     stored_at sha h = Some (mi_receipt mi) \<and> sealed sha (mi_receipt mi) \<and> journaled (mi_receipt mi) (mi_change mi)"

definition lawful_mutation :: "(string \<Rightarrow> string) \<Rightarrow> reconcile_trace \<Rightarrow> mutation_input \<Rightarrow> bool" where
  "lawful_mutation sha h mi \<longleftrightarrow> journaled_call sha h mi
     \<and> (case seen_at h of None \<Rightarrow> False | Some s \<Rightarrow> touches_own s (rc_installationId (mi_receipt mi)) (mi_change mi))"

text \<open>
  The discipline of an operation under the lock; \<open>A\<close> is what the operation has to answer for itself.
  All of it holds as long as no two receipts of the run have the same checksum.
\<close>

definition lawful_call :: "(string \<Rightarrow> string) \<Rightarrow> (reconcile_trace \<Rightarrow> reconcile_call \<Rightarrow> bool) \<Rightarrow> reconcile_trace
    \<Rightarrow> reconcile_call \<Rightarrow> bool" where
  "lawful_call sha A h c = (case c of
     Store_write r \<Rightarrow> lawful_write sha h r
   | Apply mi \<Rightarrow> lawful_mutation sha h mi \<and> A h c
   | Rollback mi \<Rightarrow> journaled_call sha h mi \<and> A h c
   | Inspect mi \<Rightarrow> A h c
   | Lock \<Rightarrow> False
   | Unlock \<Rightarrow> False
   | _ \<Rightarrow> True)"

definition lawful :: "(string \<Rightarrow> string) \<Rightarrow> (reconcile_trace \<Rightarrow> reconcile_call \<Rightarrow> bool) \<Rightarrow> reconcile_trace
    \<Rightarrow> reconcile_call \<Rightarrow> bool" where
  "lawful sha A h c \<longleftrightarrow> collided sha h \<or> lawful_call sha A h c"

lemma lawful_simps [simp]:
  "lawful sha A h Store_read" "lawful sha A h (Observe i)" "lawful sha A h Random_uuid" "lawful sha A h (Progress e)"
  "lawful_write sha h r \<Longrightarrow> lawful sha A h (Store_write r)"
  "lawful_mutation sha h mi \<Longrightarrow> A h (Apply mi) \<Longrightarrow> lawful sha A h (Apply mi)"
  "journaled_call sha h mi \<Longrightarrow> A h (Rollback mi) \<Longrightarrow> lawful sha A h (Rollback mi)"
  "A h (Inspect mi) \<Longrightarrow> lawful sha A h (Inspect mi)"
  by (simp_all add: lawful_def lawful_call_def)

text \<open>An action that keeps the discipline, and returns only where \<open>R\<close> holds.\<close>

definition secure :: "(string \<Rightarrow> string) \<Rightarrow> (reconcile_trace \<Rightarrow> reconcile_call \<Rightarrow> bool) \<Rightarrow> ('x \<Rightarrow> reconcile_trace \<Rightarrow> bool)
    \<Rightarrow> 'x reconcile \<Rightarrow> reconcile_trace \<Rightarrow> bool" where
  "secure sha A R p h \<longleftrightarrow> safely (lawful sha A) (\<lambda>x h'. collided sha h' \<or> R x h') p h"

lemma secure_collided: "collided sha h \<Longrightarrow> secure sha A R p h"
proof (unfold secure_def safely_def, induction p arbitrary: h)
  case (Done r)
  then show ?case by (simp split: sum.split)
next
  case (Ask c k)
  have "collided sha (h @ [(c, a)])" for a using Ask.prems by (rule collided_mono) simp
  then show ?case using Ask by (simp add: lawful_def)
qed

lemma secureI: "(\<not> collided sha h \<Longrightarrow> secure sha A R p h) \<Longrightarrow> secure sha A R p h"
  using secure_collided by blast

lemma safely_secure: "safely (lawful sha A) R p h \<Longrightarrow> secure sha A R p h"
  unfolding secure_def by (erule safely_post) simp

lemma secure_return [simp]: "R x h \<Longrightarrow> secure sha A R (return x) h"
  by (simp add: secure_def)

lemma secure_throw: "secure sha A R (throw e) h"
  by (simp add: secure_def)

lemma secure_lift: "(\<And>x. r = Inr x \<Longrightarrow> R x h) \<Longrightarrow> secure sha A R (lift r) h"
  unfolding secure_def by (rule safely_lift) simp

lemma secure_refuse: "(\<not> b \<Longrightarrow> R () h) \<Longrightarrow> secure sha A R (refuse_if b e) h"
  unfolding secure_def by (rule safely_refuse) simp

lemma secure_post: "secure sha A R p h \<Longrightarrow> (\<And>x h'. R x h' \<Longrightarrow> prefix h h' \<Longrightarrow> S x h') \<Longrightarrow> secure sha A S p h"
  unfolding secure_def by (erule safely_post) blast

lemma secure_seq:
  assumes "secure sha A R m h" "\<And>x h'. R x h' \<Longrightarrow> prefix h h' \<Longrightarrow> secure sha A S (f x) h'"
  shows "secure sha A S (seq m f) h"
  unfolding secure_def
proof (rule safely_seq [OF assms(1) [unfolded secure_def]], goal_cases)
  case (1 x h')
  then show ?case using assms(2) [of x h'] secure_collided unfolding secure_def by blast
qed

lemma secure_seq_lift: "(\<And>x. r = Inr x \<Longrightarrow> secure sha A R (f x) h) \<Longrightarrow> secure sha A R (seq (lift r) f) h"
  unfolding secure_def by (rule safely_seq_lift)

lemma secure_seq_refuse: "(\<not> b \<Longrightarrow> secure sha A R (f ()) h) \<Longrightarrow> secure sha A R (seq (refuse_if b e) f) h"
  unfolding secure_def by (rule safely_seq_refuse)

lemma secure_option:
  "(x = None \<Longrightarrow> secure sha A R p h) \<Longrightarrow> (\<And>y. x = Some y \<Longrightarrow> secure sha A R (q y) h)
     \<Longrightarrow> secure sha A R (case x of None \<Rightarrow> p | Some y \<Rightarrow> q y) h"
  by (cases x) auto

lemma secure_if:
  "(b \<Longrightarrow> secure sha A R p h) \<Longrightarrow> (\<not> b \<Longrightarrow> secure sha A R q h) \<Longrightarrow> secure sha A R (if b then p else q) h"
  by simp

lemmas secure_rules = secure_option secure_if secure_throw secure_seq_lift secure_seq_refuse

lemma secure_attempt: "wp (lawful sha A) R m h \<Longrightarrow> secure sha A R (attempt m) h"
  unfolding secure_def safely_def wp_attempt by (erule wp_post) simp

text \<open>The live state is what the history says.\<close>

definition live_at :: "platform \<Rightarrow> reconcile_context \<Rightarrow> reconcile_trace \<Rightarrow> live_state \<Rightarrow> bool" where
  "live_at pf context h live \<longleftrightarrow>
     seen_at h = Some (lv_observed live) \<and> stored_at (pf_sha pf) h = lv_receipt live
     \<and> plan_from pf context (lv_observed live) = Some (lv_plan live)
     \<and> (case lv_receipt live of None \<Rightarrow> True
        | Some r \<Rightarrow> sealed (pf_sha pf) r \<and> rc_installationId r = gp_installationId (lv_plan live))"

definition holds :: "(string \<Rightarrow> string) \<Rightarrow> reconcile_trace \<Rightarrow> receipt \<Rightarrow> bool" where
  "holds sha h r \<longleftrightarrow> stored_at sha h = Some r \<and> sealed sha r"

lemma lawful_step: "holds sha h r \<Longrightarrow> receipt_step sha r r' \<Longrightarrow> forgets_absent h r r' \<Longrightarrow> lawful_write sha h r'"
  by (simp add: holds_def lawful_write_def)

lemma forgets_nothing: "rc_resources r' = rc_resources r \<Longrightarrow> forgets_absent h r r'"
  by (simp add: forgets_absent_def)

text \<open>Only settling a deletion makes a receipt forget a resource.\<close>

lemma step_forgets:
  assumes "sealed sha r" "receipt_step sha r r'"
    and "\<And>p. rc_pending r = Some p \<Longrightarrow> rp_action p = Delete_action \<Longrightarrow> seen_absent h (target_of p)"
  shows "forgets_absent h r r'"
proof -
  have "ledger r' = ledger r \<or> ledger_step (ledger r) (ledger r')" using step_refines assms(1,2) by blast
  then show ?thesis
  proof (elim disjE)
    assume "ledger_step (ledger r) (ledger r')"
    then show ?thesis
    proof cases
      case (settle p new)
      then have p: "rc_pending r = Some p" by (simp add: ledger_def)
      have L: "ledger_of (rc_resources r') = (ledger_of (rc_resources r))(target_of p := new)"
        using arg_cong [OF settle(1), of ls_owned] by (simp add: ledger_def)
      show ?thesis
      proof (cases "rp_action p = Delete_action")
        case True
        then show ?thesis using assms(3) [OF p] by (auto simp: forgets_absent_def L split: if_splits)
      next
        case False
        then have "new \<noteq> None" using settle(3) by (cases "rp_action p") (auto simp: settled_def split: option.splits)
        then show ?thesis by (auto simp: forgets_absent_def L)
      qed
    qed (simp_all add: ledger_def forgets_absent_def)
  qed (simp add: ledger_def forgets_absent_def)
qed

lemma kept_resources:
  assumes "sealed sha r"
  shows "updateInstallationReceipt sha (receipt_value r) u = Inr r' \<Longrightarrow> rc_resources r' = rc_resources r"
    and "clearReceiptAction sha (receipt_value r) i = Inr r' \<Longrightarrow> rc_resources r' = rc_resources r"
    and "markReceiptRemoved sha (receipt_value r) = Inr r' \<Longrightarrow> rc_resources r' = rc_resources r"
proof -
  note valid = sealed_validates [OF assms]
  show "rc_resources r' = rc_resources r" if "updateInstallationReceipt sha (receipt_value r) u = Inr r'"
    using that
  proof (cases rule: update_Inr)
    case (updated s h)
    have "s = r" using updated(1) valid by simp
    then show ?thesis by (subst updated(4)) simp
  qed (use valid in simp)
  show "rc_resources r' = rc_resources r" if "clearReceiptAction sha (receipt_value r) i = Inr r'"
    using that valid by (cases rule: clear_Inr) auto
  show "rc_resources r' = rc_resources r" if "markReceiptRemoved sha (receipt_value r) = Inr r'"
    using that valid by (cases rule: mark_Inr) auto
qed

lemma stored_known: "stored_at sha h = Some r \<Longrightarrow> r \<in> receipts_of sha h"
proof (induction h rule: rev_induct)
  case (snoc e h)
  then show ?case
    by (cases "(sha, e, stored_at sha h)" rule: store_event.cases) (auto split: sum.splits option.splits)
qed (simp add: stored_at_def)

lemma holds_known: "holds sha h r \<Longrightarrow> known sha h r"
  by (simp add: holds_def known_def stored_known)

lemma validateReceiptSafe_Inr: "validateReceiptSafe sha v options = Inr r \<Longrightarrow> validateInstallationReceipt sha v options = Inr r"
  by (auto simp: validateReceiptSafe_def split: sum.splits)

lemma map_result_Inr: "map_result f m = Inr y \<longleftrightarrow> (\<exists>x. m = Inr x \<and> y = f x)"
  by (auto simp: map_result_def andThen_Inr)

lemma type_failure_Inr: "type_failure m = Inr x \<longleftrightarrow> m = Inr x"
  by (auto simp: type_failure_def split: sum.splits)

lemma stored_receipt_sealed: "stored_receipt sha v = Inr (Some r) \<Longrightarrow> sealed sha r"
  by (auto simp: stored_receipt_def map_result_Inr dest!: validateReceiptSafe_Inr validReceipt_Inr(1) split: if_splits)

text \<open>Validating a sealed receipt again gives it back.\<close>

lemma validate_again:
  assumes "sealed sha r" "validateInstallationReceipt sha (receipt_value r) options = Inr r'" shows "r' = r"
proof -
  have "normalizeReceipt (receipt_value r) True = Inr r'" using validReceipt_Inr(2) [OF assms(2)] .
  moreover have "normalizeReceipt (receipt_value r) True = Inr (in_order r)"
    using assms(1) normalizeReceipt_value [OF _ sealed_checksum_ok [OF assms(1)]] by (simp add: sealed_def)
  ultimately show ?thesis using assms(1) by (simp add: sealed_def)
qed

lemma receipt_for_target_same:
  "receipt_for_target sha context t s = Inr r \<Longrightarrow> (\<And>x. s = Some x \<Longrightarrow> sealed sha x) \<Longrightarrow> r = s"
  by (cases s) (auto simp: receipt_for_target_def map_result_Inr dest!: validateReceiptSafe_Inr dest: validate_again)

section \<open>The receipt store\<close>

lemma wp_readReceipt:
  assumes "G h Store_read" "\<And>v. Q (Inr v) (h @ [(Store_read, Inr v)])" "\<And>e h'. Q (Inl e) h'"
  shows "wp G Q readReceipt h"
  unfolding readReceipt_def using assms by (auto simp: wp_simps split: sum.split)

lemma wp_writeReceipt:
  assumes "G h (Store_write r)" "\<And>v. Q (Inr ()) (h @ [(Store_write r, Inr v)])" "\<And>e h'. Q (Inl e) h'"
  shows "wp G Q (writeReceipt r) h"
  unfolding writeReceipt_def using assms by (auto simp: wp_simps split: sum.split)

lemma wp_progress:
  assumes "G h (Progress e)" "\<And>h'. stored_at sha h' = stored_at sha h \<Longrightarrow> seen_at h' = seen_at h \<Longrightarrow> (\<exists>t. h' = h @ t) \<Longrightarrow> Q (Inr ()) h'"
  shows "wp G Q (progress context e) h"
proof -
  have "Q (Inr ()) (h @ [(Progress e, a)])" for a by (rule assms(2)) (cases a; simp)+
  moreover have "Q (Inr ()) h" by (rule assms(2)) simp_all
  ultimately show ?thesis using assms(1) by (auto simp: progress_def wp_simps split: sum.split)
qed

lemma wp_operationId:
  assumes "G h Random_uuid" "\<And>u h'. stored_at sha h' = stored_at sha h \<Longrightarrow> seen_at h' = seen_at h \<Longrightarrow> Q (Inr u) h'"
    "\<And>e h'. Q (Inl e) h'"
  shows "wp G Q operationId h"
proof -
  have "Q (Inr u) (h @ [(Random_uuid, a)])" for u a by (rule assms(2)) (cases a; simp)+
  then show ?thesis using assms(1,3) by (auto simp: operationId_def wp_simps split: sum.split)
qed

section \<open>Reading the live state\<close>

definition matches_override :: "reconcile_context \<Rightarrow> live_state \<Rightarrow> bool" where
  "matches_override context live \<longleftrightarrow> (case cx_override context of None \<Rightarrow> True
     | Some expected \<Rightarrow> rc_checksum expected = Option.bind (lv_receipt live) rc_checksum)"

lemma wp_readObserved:
  assumes "\<And>i. G h (Observe i)" "\<And>i v s. normalizeObservedState v = Inr s \<Longrightarrow> Q (Inr s) (h @ [(Observe i, Inr v)])"
    "\<And>e h'. Q (Inl e) h'"
  shows "wp G Q (readObserved context r) h"
  unfolding readObserved_def using assms by (auto simp: wp_simps split: sum.split)

lemma wp_readLive:
  assumes G: "\<And>h. G h Store_read" "\<And>h i. G h (Observe i)"
    and Q: "\<And>live h'. live_at pf context h' live \<Longrightarrow> matches_override context live \<Longrightarrow> (\<exists>t. h' = h @ t) \<Longrightarrow> Q (Inr live) h'"
    and E: "\<And>e h'. Q (Inl e) h'"
  shows "wp G Q (readLive pf context) h"
  unfolding readLive_def
proof (rule wp_seqI, rule wp_readReceipt [of G h "\<lambda>r h'. (case r of Inl e \<Rightarrow> True | Inr v \<Rightarrow> h' = h @ [(Store_read, Inr v)])"],
    goal_cases)
  case (5 v h')
  then have h': "h' = h @ [(Store_read, Inr v)]" by simp
  show ?case
  proof (cases "stored_receipt (pf_sha pf) v")
    case (Inl e)
    then show ?thesis by (simp add: wp_simps E)
  next
    case (Inr s)
    then have st: "stored_at (pf_sha pf) h' = s" by (simp add: h')
    have seal: "\<And>x. s = Some x \<Longrightarrow> sealed (pf_sha pf) x" using stored_receipt_sealed Inr by blast
    let ?ov = "case cx_override context of None \<Rightarrow> False | Some expected \<Rightarrow> rc_checksum expected \<noteq> Option.bind s rc_checksum"
    show ?thesis
      unfolding wp_seq wp_lift Inr sum.case wp_refuse
    proof (cases ?ov, goal_cases)
      case 1
      then show ?case by (simp add: E)
    next
      case 2
      show ?case
        unfolding if_not_P [OF 2] sum.case
      proof (rule wp_readObserved, rule G(2), goal_cases)
        case (1 i w ob)
        have seen: "seen_at (h' @ [(Observe i, Inr w)]) = Some ob" using 1 by simp
        have st2: "stored_at (pf_sha pf) (h' @ [(Observe i, Inr w)]) = s" by (simp add: st)
        show ?case
        proof (simp add: wp_simps E split: sum.split, intro allI impI, goal_cases)
          case (1 r v' p)
          then have r: "r = s" using receipt_for_target_same seal by blast
          have pl: "plan_from pf context ob = Some p"
            using 1 by (auto simp: plan_from_def type_failure_Inr split: option.splits)
          have "live_at pf context (h' @ [(Observe i, Inr w)]) \<lparr>lv_observed = ob, lv_plan = p, lv_receipt = s\<rparr>"
            if "\<not> (case s of None \<Rightarrow> False | Some r \<Rightarrow> rc_installationId r \<noteq> gp_installationId p)"
            using that seen st2 pl seal by (auto simp: live_at_def split: option.splits)
          moreover have "matches_override context \<lparr>lv_observed = ob, lv_plan = p, lv_receipt = s\<rparr>"
            using 2 by (auto simp: matches_override_def split: option.splits)
          moreover have "\<exists>t. h' @ [(Observe i, Inr w)] = h @ t" by (simp add: h')
          ultimately show ?case using Q E r 1 by (simp add: h' split: option.splits)
        qed
      qed (simp add: E)
    qed
  qed
qed (simp_all add: G E)

end
