(* ===== verification/Reconciler_Rules.thy ===== *)
theory Reconciler_Rules
  imports Reconciler_History Plan_Identity
begin

text \<open>
  The rules of the building blocks of the reconciler, under the discipline \<open>lawful\<close>.
\<close>

section \<open>The journaled intent\<close>

lemma parse_action_of_change: "parse_action (JStr (action_text act)) = Some a \<Longrightarrow> change_action_of a = act"
  by (cases act) (auto simp: parse_action_def split: if_splits)

lemma intent_fields [simp]:
  "field (intent_value op (mutation_request ty plan act kind key h prune) rh) ''operationId'' = JStr op"
  "field (intent_value op (mutation_request ty plan act kind key h prune) rh) ''type'' = JStr (type_text ty)"
  "field (intent_value op (mutation_request ty plan act kind key h prune) rh) ''planId'' = JStr plan"
  "field (intent_value op (mutation_request ty plan act kind key h prune) rh) ''action'' = JStr (action_text act)"
  "field (intent_value op (mutation_request ty plan act kind key h prune) rh) ''kind'' = JStr (kind_text kind)"
  "field (intent_value op (mutation_request ty plan act kind key h prune) rh) ''key'' = JStr key"
  "field (intent_value op (mutation_request ty plan act kind key h prune) rh) ''expectedDesiredHash'' = JStr h"
  "field (intent_value op (mutation_request ty plan act kind key h prune) rh) ''requestHash'' = JStr rh"
  "field (intent_value op (mutation_request ty plan act kind key h prune) rh) ''pruneApprovalId'' =
     (case prune of None \<Rightarrow> Undef | Some i \<Rightarrow> JStr i)"
  by (simp_all add: intent_value_def mutation_request_def opt_entry_def split: option.split)

lemma intent_isObject [simp]: "isObject (intent_value op req rh)"
  by (simp add: intent_value_def)

lemma normalizePending_intent:
  assumes "normalizePending (intent_value op (mutation_request ty plan act kind key h prune) rh) path = Inr p"
  shows "rp_operationId p = op" "rp_type p = ty" "rp_planId p = plan" "change_action_of (rp_action p) = act"
    "rp_kind p = kind" "rp_key p = key" "rp_expectedDesiredHash p = h" "rp_requestHash p = rh" "rp_pruneApprovalId p = prune"
proof -
  let ?v = "intent_value op (mutation_request ty plan act kind key h prune) rh"
  have n: "normalizePendingForReceipt ?v path = (Some p, [])"
    using assms unfolding normalizePending_def
    by (cases "normalizePendingForReceipt ?v path") (auto split: if_splits option.splits)
  then have "parse_action (JStr (action_text act)) = Some (rp_action p)"
    by (auto simp: normalizePendingForReceipt_def Let_def split: option.splits if_splits)
  then show "change_action_of (rp_action p) = act" by (rule parse_action_of_change)
  from n show "rp_operationId p = op" "rp_type p = ty" "rp_planId p = plan" "rp_kind p = kind" "rp_key p = key"
    "rp_expectedDesiredHash p = h" "rp_requestHash p = rh"
    by (auto simp: normalizePendingForReceipt_def Let_def split: if_splits)
  from n show "rp_pruneApprovalId p = prune"
    by (auto simp: normalizePendingForReceipt_def Let_def split: if_splits option.splits)
qed

text \<open>The receipt after journaling: the same resources and identity, with the intended action pending.\<close>

definition journals :: "receipt \<Rightarrow> string \<Rightarrow> plan_change \<Rightarrow> operation_type \<Rightarrow> string option \<Rightarrow> receipt \<Rightarrow> bool" where
  "journals r planId c ty prune r' \<longleftrightarrow> rc_resources r' = rc_resources r \<and> rc_installationId r' = rc_installationId r
     \<and> (\<exists>p. rc_pending r' = Some p \<and> rp_kind p = pc_kind c \<and> rp_key p = pc_key c
          \<and> change_action_of (rp_action p) = pc_action c \<and> rp_type p = ty \<and> rp_planId p = planId
          \<and> rp_pruneApprovalId p = prune \<and> expectedHash r c = Inr (rp_expectedDesiredHash p))"

lemma journals_journaled: "journals r planId c ty prune r' \<Longrightarrow> journaled r' c"
  by (auto simp: journals_def journaled_def)

lemma begin_intent:
  assumes "beginReceiptAction sha (receipt_value r) (intent_value op (mutation_request ty plan act kind key h prune) rh) = Inr r'"
    and "sealed sha r"
  shows "sealed sha r'" "rc_resources r' = rc_resources r" "rc_installationId r' = rc_installationId r"
    "\<exists>p. rc_pending r' = Some p \<and> rp_kind p = kind \<and> rp_key p = key \<and> change_action_of (rp_action p) = act
       \<and> rp_type p = ty \<and> rp_planId p = plan \<and> rp_pruneApprovalId p = prune \<and> rp_expectedDesiredHash p = h"
proof -
  from begin_Inr [OF assms(1) sealed_validates [OF assms(2)]] obtain p c where
    p: "normalizePending (intent_value op (mutation_request ty plan act kind key h prune) rh) ''intent'' = Inr p"
    and r': "r' = r\<lparr>rc_state := (if rp_type p = Uninstall_type then Uninstalling else Installing),
       rc_revision := rc_revision r + 1, rc_pending := Some p, rc_checksum := Some c\<rparr>" and s: "sealed sha r'"
    by metis
  show "sealed sha r'" by (rule s)
  show "rc_resources r' = rc_resources r" "rc_installationId r' = rc_installationId r" by (simp_all add: r')
  show "\<exists>p. rc_pending r' = Some p \<and> rp_kind p = kind \<and> rp_key p = key \<and> change_action_of (rp_action p) = act
       \<and> rp_type p = ty \<and> rp_planId p = plan \<and> rp_pruneApprovalId p = prune \<and> rp_expectedDesiredHash p = h"
    using normalizePending_intent [OF p] by (simp add: r')
qed

text \<open>What holds after \<open>journalAction\<close>: the store holds the journaled receipt, written in this run.\<close>

definition journaled_now :: "(string \<Rightarrow> string) \<Rightarrow> reconcile_trace \<Rightarrow> receipt \<Rightarrow> bool" where
  "journaled_now sha h r \<longleftrightarrow> stored_at sha h = Some r \<and> sealed sha r \<and> (\<exists>v. (Store_write r, Inr v) \<in> set h)"

lemma secure_writeReceipt:
  assumes "lawful_write sha h r" "\<And>v. R () (h @ [(Store_write r, Inr v)])" shows "secure sha A R (writeReceipt r) h"
  by (rule safely_secure, unfold safely_def, rule wp_writeReceipt) (simp_all add: assms)

lemma secure_progress:
  assumes "\<And>h'. stored_at sha h' = stored_at sha h \<Longrightarrow> seen_at h' = seen_at h \<Longrightarrow> prefix h h' \<Longrightarrow> R () h'"
  shows "secure sha A R (progress context e) h"
  by (rule safely_secure, unfold safely_def, rule wp_progress [where sha = sha]) (auto intro: assms)

lemma secure_operationId:
  assumes "\<And>u h'. stored_at sha h' = stored_at sha h \<Longrightarrow> seen_at h' = seen_at h \<Longrightarrow> R u h'"
  shows "secure sha A R operationId h"
  by (rule safely_secure, unfold safely_def, rule wp_operationId [where sha = sha]) (auto intro: assms)

lemma secure_journalAction:
  assumes "holds (pf_sha pf) h r"
  shows "secure (pf_sha pf) A
    (\<lambda>r' h'. journals r planId c ty prune r' \<and> journaled_now (pf_sha pf) h' r' \<and> seen_at h' = seen_at h)
    (journalAction pf context r planId c ty prune) h"
  unfolding journalAction_def Let_def
proof (rule secure_seq_lift, rule secure_seq, rule secure_operationId
    [where R = "\<lambda>_ h1. holds (pf_sha pf) h1 r \<and> seen_at h1 = seen_at h"], goal_cases)
  case (2 eh op h1)
  let ?req = "mutation_request ty planId (pc_action c) (pc_kind c) (pc_key c) eh prune"
  have s: "sealed (pf_sha pf) r" using assms by (simp add: holds_def)
  show ?case
  proof (rule secure_seq_lift, rule secure_seq_lift)
    fix rh r' assume "type_failure (beginReceiptAction (pf_sha pf) (receipt_value r) (intent_value op ?req rh)) = Inr r'"
    then have b: "beginReceiptAction (pf_sha pf) (receipt_value r) (intent_value op ?req rh) = Inr r'"
      by (simp add: type_failure_Inr)
    note facts = begin_intent [OF b s]
    then have j: "journals r planId c ty prune r'" using 2(1) by (auto simp: journals_def)
    have law: "lawful_write (pf_sha pf) h1 r'" using lawful_step [OF _ step_begin [OF b] forgets_nothing [OF facts(2)]] 2(2) by simp
    show "secure (pf_sha pf) A
      (\<lambda>r' h'. journals r planId c ty prune r' \<and> journaled_now (pf_sha pf) h' r' \<and> seen_at h' = seen_at h)
      (seq (writeReceipt r') (\<lambda>_. seq (progress context \<lparr>pe_action = pc_action c, pe_kind = pc_kind c, pe_stage = ty,
         pe_status = ''started''\<rparr>) (\<lambda>_. return r'))) h1"
    proof (rule secure_seq, rule secure_writeReceipt [where R = "\<lambda>_ h2. journaled_now (pf_sha pf) h2 r' \<and> seen_at h2 = seen_at h"],
        goal_cases)
      case (3 u h2)
      then show ?case
        by (intro secure_seq [OF secure_progress [where R = "\<lambda>_ h3. journaled_now (pf_sha pf) h3 r' \<and> seen_at h3 = seen_at h"]])
           (auto simp: j journaled_now_def prefix_def)
    qed (use law 2(2) facts(1) in \<open>auto simp: journaled_now_def\<close>)
  qed
qed (use assms in \<open>auto simp: holds_def\<close>)

section \<open>Reading\<close>

lemma live_at_override [simp]: "live_at pf (with_override context r) = live_at pf context"
  by (simp add: live_at_def fun_eq_iff)

lemma secure_readLive:
  "secure (pf_sha pf) A (\<lambda>live h'. live_at pf context h' live \<and> matches_override context live) (readLive pf context) h"
  by (rule safely_secure, unfold safely_def, rule wp_readLive) simp_all

text \<open>Reading again for a known receipt gives that receipt.\<close>

lemma secure_readLiveOf:
  assumes "known (pf_sha pf) h r"
  shows "secure (pf_sha pf) A (\<lambda>live h'. live_at pf context h' live \<and> lv_receipt live = Some r) (readLiveOf pf context r) h"
proof -
  have "collided (pf_sha pf) h' \<or> lv_receipt live = Some r"
    if "live_at pf context h' live" "matches_override (with_override context r) live" "prefix h h'" for live h'
  proof -
    have k: "known (pf_sha pf) h' r" using assms that(3) by (rule known_mono)
    obtain c where c: "rc_checksum r = Some c" using sealed_checksum assms by (auto simp: known_def)
    with that(2) obtain s where s: "lv_receipt live = Some s" "rc_checksum s = rc_checksum r"
      by (cases "lv_receipt live") (auto simp: matches_override_def)
    then have "known (pf_sha pf) h' s" using that(1) stored_known by (auto simp: live_at_def known_def)
    with k s show ?thesis by (auto simp: collided_def)
  qed
  then show ?thesis
    unfolding readLiveOf_def secure_def
    by (intro safely_post [OF secure_readLive [unfolded secure_def]]) auto
qed

lemma live_stored: "live_at pf context h live \<Longrightarrow> lv_receipt live = Some r \<Longrightarrow> stored_at (pf_sha pf) h = Some r \<and> sealed (pf_sha pf) r"
  by (simp add: live_at_def)

section \<open>Committing\<close>

text \<open>What holds after a commit of \<open>r\<close>.\<close>

definition committed_now :: "(string \<Rightarrow> string) \<Rightarrow> reconcile_trace \<Rightarrow> receipt \<Rightarrow> receipt \<Rightarrow> bool" where
  "committed_now sha h r r' \<longleftrightarrow> stored_at sha h = Some r' \<and> sealed sha r' \<and> receipt_step sha r r' \<and> rc_pending r' = None
     \<and> rc_installationId r' = rc_installationId r"

lemma committed_holds: "committed_now sha h r r' \<Longrightarrow> holds sha h r'"
  by (simp add: committed_now_def holds_def)

lemma secure_commit:
  assumes h: "holds (pf_sha pf) h r" and c: "commitReceiptAction (pf_sha pf) (receipt_value r) result = Inr r'"
    and gone: "\<And>p. rc_pending r = Some p \<Longrightarrow> rp_action p = Delete_action \<Longrightarrow> seen_absent h (target_of p)"
  shows "secure (pf_sha pf) A (\<lambda>x h'. committed_now (pf_sha pf) h' r x \<and> seen_at h' = seen_at h)
    (seq (writeReceipt r') (\<lambda>_. return r')) h"
proof -
  have s: "sealed (pf_sha pf) r" using h by (simp add: holds_def)
  have law: "lawful_write (pf_sha pf) h r'" by (rule lawful_step [OF h step_commit [OF c] step_forgets [OF s step_commit [OF c] gone]])
  have "sealed (pf_sha pf) r'" "rc_pending r' = None" "rc_installationId r' = rc_installationId r"
    using commit_Inr [OF c sealed_validates [OF s]] by (metis receipt.select_convs receipt.surjective receipt.update_convs)+
  then have done_: "committed_now (pf_sha pf) (h @ [(Store_write r', Inr v)]) r r'" for v
    using step_commit [OF c] by (simp add: committed_now_def)
  show ?thesis
    by (rule secure_seq, rule secure_writeReceipt [OF law, where R = "\<lambda>_ h'. committed_now (pf_sha pf) h' r r' \<and> seen_at h' = seen_at h"])
       (use done_ in auto)
qed

lemma secure_commitDeletion:
  assumes "holds (pf_sha pf) h r" "\<And>p. rc_pending r = Some p \<Longrightarrow> seen_absent h (target_of p)"
  shows "secure (pf_sha pf) A (\<lambda>r' h'. committed_now (pf_sha pf) h' r r' \<and> seen_at h' = seen_at h) (commitDeletion pf r) h"
  unfolding commitDeletion_def
  by (rule secure_seq_lift, simp only: type_failure_Inr, rule secure_commit [OF assms(1)]) (auto intro: assms(2))

lemma secure_commitVerifiedChange:
  assumes "holds (pf_sha pf) h r" "\<And>p. rc_pending r = Some p \<Longrightarrow> rp_action p \<noteq> Delete_action"
  shows "secure (pf_sha pf) A (\<lambda>r' h'. committed_now (pf_sha pf) h' r r' \<and> seen_at h' = seen_at h)
    (commitVerifiedChange pf r c) h"
  unfolding commitVerifiedChange_def Let_def
  by (intro secure_rules, simp only: type_failure_Inr) (rule secure_commit [OF assms(1)]; auto dest: assms(2))

section \<open>Mutating\<close>

lemma secure_readReceipt: "secure (pf_sha pf) A (\<lambda>v h'. h' = h @ [(Store_read, Inr v)]) readReceipt h"
  by (rule safely_secure, unfold safely_def, rule wp_readReceipt) simp_all

lemma stored_receipt_truthy: "truthy v \<Longrightarrow> stored_receipt sha v = map_result Some (validateReceiptSafe sha v (JObj []))"
  by (auto simp: truthy_def stored_receipt_def)

text \<open>A receipt just read from the store and validated.\<close>

lemma secure_read_trusted:
  "secure (pf_sha pf) A (\<lambda>r h'. case r of None \<Rightarrow> True | Some r \<Rightarrow> stored_at (pf_sha pf) h' = Some r \<and> sealed (pf_sha pf) r)
    (seq readReceipt (\<lambda>current. lift (if truthy current then map_result Some (validateReceiptSafe (pf_sha pf) current (JObj []))
       else Inr None))) h"
proof (rule secure_seq [OF secure_readReceipt], rule secure_lift, goal_cases)
  case (1 v h' r)
  then show ?case
    using stored_receipt_sealed [of "pf_sha pf" v] by (auto simp: stored_receipt_truthy split: option.split if_splits)
qed

lemma seq_assoc: "seq (seq m f) g = seq m (\<lambda>x. seq (f x) g)"
  unfolding seq_def by (induction m) (auto split: sum.split)

lemma secure_clear: "secure (pf_sha pf) A (\<lambda>_ _. True) (clearDefinitelyUnsubmittedMutation pf r c) h"
proof -
  have "secure (pf_sha pf) A (\<lambda>_ _. True)
    (seq (seq readReceipt (\<lambda>current. lift (if truthy current then map_result Some (validateReceiptSafe (pf_sha pf) current (JObj []))
       else Inr None))) (\<lambda>trusted. case trusted of
         None \<Rightarrow> throw (GatewayReconcileError ''receipt_changed'')
       | Some r' \<Rightarrow> (case rc_pending r' of
           None \<Rightarrow> throw (GatewayReconcileError ''receipt_changed'')
         | Some p \<Rightarrow>
             seq (refuse_if (\<not> journaled_here r c r') (GatewayReconcileError ''receipt_changed'')) (\<lambda>_.
             seq (lift (assertPendingRequestHash (pf_sha pf) p)) (\<lambda>_.
             seq (lift (type_failure (clearReceiptAction (pf_sha pf) (receipt_value r') (JStr (rp_operationId p)))))
               writeReceipt))))) h"
  proof (rule secure_seq [OF secure_read_trusted], intro secure_option secure_throw secure_seq_refuse secure_seq_lift, goal_cases)
    case (1 t h' r' p u w)
    then have "holds (pf_sha pf) h' r'" by (simp add: holds_def)
    then show ?case
      using 1 by (intro secure_writeReceipt lawful_step [OF _ step_clear forgets_nothing [OF kept_resources(2)]])
        (auto simp: type_failure_Inr holds_def)
  qed
  then show ?thesis unfolding clearDefinitelyUnsubmittedMutation_def seq_assoc .
qed

lemma secure_mutate:
  assumes "lawful_mutation (pf_sha pf) h (mutation_of context c r (verified_target_value t))"
    "A h (Apply (mutation_of context c r (verified_target_value t)))"
  shows "secure (pf_sha pf) A (\<lambda>_ h'. holds (pf_sha pf) h' r \<and> seen_at h' = seen_at h) (mutate pf context c r t) h"
  unfolding mutate_def Let_def
proof (rule secure_seq [OF secure_attempt
    [where R = "\<lambda>_ h'. holds (pf_sha pf) h' r \<and> seen_at h' = seen_at h"]], goal_cases)
  case 1
  have st: "holds (pf_sha pf) h r"
    using assms(1) by (simp add: lawful_mutation_def journaled_call_def mutation_of_def holds_def)
  then have "holds (pf_sha pf) (h @ [(Apply i, a)]) r \<and> seen_at (h @ [(Apply i, a)]) = seen_at h" for i a
    by (cases a) (simp_all add: holds_def)
  then show ?case
    using assms st by (auto simp: applyCall_def wp_simps split: sum.split)
next
  case (2 outcome h')
  have quiet: "secure (pf_sha pf) A (\<lambda>_ h'. holds (pf_sha pf) h' r \<and> seen_at h' = seen_at h) (progress context e) h'" for e
    by (rule secure_progress) (use 2 in \<open>simp add: holds_def\<close>)
  show ?case
  proof (cases outcome)
    case (Inl e)
    show ?thesis unfolding Inl sum.case
      by (intro secure_seq [OF quiet] secure_if secure_seq [OF secure_clear] secure_throw)
  next
    case (Inr x)
    show ?thesis unfolding Inr sum.case
      by (rule secure_seq [OF quiet]) simp
  qed
qed

text \<open>
  What the plan of an observed state says about that state: every change that updates, deletes or
  leaves a resource is about exactly one observed resource with this installation's ownership
  marker, and a creation is about a kind and key that was not observed.
\<close>

section \<open>From the observed state to the planner's view of it\<close>

lemma observed_state_ok:
  assumes "normalizeObservedState v = Inr s" shows "list_all observed_resource_ok (cs_resources s)"
  using assms by (auto simp: normalizeObservedState_def andThen_Inr assertObservedResources_def Let_def split: option.splits if_splits)

lemma seen_ok: "seen_at h = Some s \<Longrightarrow> list_all observed_resource_ok (cs_resources s)"
proof (induction h rule: rev_induct)
  case (snoc e h)
  then show ?case
    by (cases "(e, seen_at h)" rule: observe_event.cases) (auto dest: observed_state_ok split: sum.splits)
qed (simp add: seen_at_def)

lemma own_keys [simp]:
  "\<not> prototype_key ''diagnostics''" "\<not> prototype_key ''resources''" "\<not> prototype_key ''target''"
  "\<not> prototype_key ''desiredHash''" "\<not> prototype_key ''key''" "\<not> prototype_key ''kind''" "\<not> prototype_key ''owner''"
  "\<not> prototype_key ''installationId''" "\<not> prototype_key ''manager''" "\<not> prototype_key ''provider''"
  "\<not> prototype_key ''id''" "\<not> prototype_key ''parentId''" "\<not> prototype_key ''code''" "\<not> prototype_key ''count''"
  "\<not> prototype_key ''accountId''" "\<not> prototype_key ''zeroTrustReady''" "\<not> prototype_key ''zoneId''"
  "\<not> prototype_key ''zoneName''" "\<not> prototype_key ''zoneStatus''"
  by (simp_all add: prototype_key_def)

lemma drop_cloud_resource [simp]: "drop_prototype (cloud_resource_value r) = cloud_resource_value r"
  by (simp add: cloud_resource_value_def opt_entry_def locator_value_def split: option.split)

lemma drop_diagnostic [simp]: "drop_prototype (diagnostic_value d) = diagnostic_value d"
  by (simp add: diagnostic_value_def opt_entry_def split: option.split)

lemma drop_target [simp]: "drop_prototype (verified_target_value t) = verified_target_value t"
  by (simp add: verified_target_value_def)

lemma drop_state [simp]: "drop_prototype (cloud_state_value s) = cloud_state_value s"
  by (simp add: cloud_state_value_def drop_prototype_map comp_def)

lemma is_json_items_map: "(\<And>x. is_json (f x)) \<Longrightarrow> is_json_items (map f xs)"
  by (induction xs) auto

lemma parse_state: "parse_json (cloud_state_value s) = Some (cloud_state_value s)"
proof -
  have "is_json (cloud_resource_value r)" for r
    by (simp add: cloud_resource_value_def opt_entry_def locator_value_def split: option.split)
  moreover have "is_json (diagnostic_value d)" for d
    by (simp add: diagnostic_value_def opt_entry_def split: option.split)
  ultimately have "is_json (cloud_state_value s)"
    by (simp add: cloud_state_value_def is_json_items_map verified_target_value_def)
  then show ?thesis by (simp add: parse_json_def)
qed

lemma validProvider_locator: "validProviderForKind k (locator_value l) \<longleftrightarrow> valid_locator k l"
  by (cases l; cases "loc_parentId l")
     (auto simp: validProviderForKind_def locator_value_def opt_entry_def valid_locator_def safeOpaqueId_def)

lemma planner_locator: "valid_locator k l \<Longrightarrow> normalizeProviderLocator k (locator_value l) = Some l"
  by (cases l; cases "loc_parentId l")
     (auto simp: normalizeProviderLocator_def locator_value_def opt_entry_def valid_locator_def safeOpaqueId_def)

text \<open>The planner's record of a normalised resource.\<close>

definition view :: "cloud_resource \<Rightarrow> observed_resource" where
  "view r = \<lparr>ob_kind = cl_kind r, ob_key = cl_key r, ob_desiredHash = cl_desiredHash r,
     ob_ownerInstallationId = (case cl_installationId r of None \<Rightarrow> []
       | Some i \<Rightarrow> if test RESOURCE_KEY i then i else []),
     ob_ownerMatchesManager = (cl_manager r = Some MANAGER), ob_provider = cl_provider r\<rparr>"

lemma resource_field_values:
  "field (cloud_resource_value r) ''key'' = JStr (cl_key r)"
  "field (cloud_resource_value r) ''kind'' = JStr (kind_text (cl_kind r))"
  "field (cloud_resource_value r) ''desiredHash'' = JStr (cl_desiredHash r)"
  "field (cloud_resource_value r) ''provider'' = provider_value (cl_provider r)"
  "isObject (field (cloud_resource_value r) ''owner'')"
  "field (field (cloud_resource_value r) ''owner'') ''installationId'' =
     (case cl_installationId r of None \<Rightarrow> Undef | Some i \<Rightarrow> JStr i)"
  "field (field (cloud_resource_value r) ''owner'') ''manager'' = (case cl_manager r of None \<Rightarrow> Undef | Some i \<Rightarrow> JStr i)"
  by (simp_all add: cloud_resource_value_def opt_entry_def provider_value_def split: option.split)

lemma read_view:
  assumes "observed_resource_ok r" shows "readObservedResource (cloud_resource_value r) = Some (view r)"
proof -
  have k: "test RESOURCE_KEY (cl_key r)" using assms by (simp add: observed_resource_ok_def)
  have p: "normalizeProviderLocator (cl_kind r) (provider_value (cl_provider r)) = cl_provider r"
  proof (cases "cl_provider r")
    case None
    then show ?thesis by (simp add: provider_value_def normalizeProviderLocator_def)
  next
    case (Some l)
    then have "valid_locator (cl_kind r) l"
      using assms by (simp add: observed_resource_ok_def provider_value_def validProvider_locator)
    then show ?thesis using Some by (simp add: provider_value_def planner_locator)
  qed
  have h: "(if test HASH (cl_desiredHash r) then cl_desiredHash r else []) = cl_desiredHash r"
    using assms by (auto simp: observed_resource_ok_def)
  have o1: "isObject (cloud_resource_value r)" by (simp add: cloud_resource_value_def)
  have own: "(if isObject (field (cloud_resource_value r) ''owner'') then field (cloud_resource_value r) ''owner'' else JObj [])
      = field (cloud_resource_value r) ''owner''"
    using resource_field_values(5) by simp
  show ?thesis
    unfolding readObservedResource_def Let_def own resource_field_values view_def
    by (cases "cl_installationId r"; cases "cl_manager r") (simp_all add: o1 k p h isResourceKey_def)
qed

definition views :: "cloud_state \<Rightarrow> observed_resource list" where
  "views s = js_sort compareObservedResources (map view (cs_resources s))"

lemma read_views:
  assumes "list_all observed_resource_ok (cs_resources s)"
  shows "normalizeObservedResources (cloud_state_value s) = views s"
proof -
  have "List.map_filter readObservedResource (map cloud_resource_value rs) = map view rs"
    if "list_all observed_resource_ok rs" for rs
    using that by (induction rs) (auto simp: map_filter_simps read_view)
  then show ?thesis using assms by (simp add: normalizeObservedResources_def views_def cloud_state_value_def)
qed

section \<open>The plan of an observed state\<close>

lemma plan_from_parts:
  assumes "plan_from pf context s = Some p" "list_all observed_resource_ok (cs_resources s)"
  obtains ds where "gp_changes p = fst (reconcile ds (views s) (gp_installationId p))" "gp_installationId p \<noteq> []"
proof -
  from assms(1) have "buildGatewayPlan (pf_sha pf) (pf_parse_url pf) (cx_config context) (cloud_state_value s)
      (JStr (cx_release context)) (cx_access context) = Inr p"
    by (auto simp: plan_from_def parse_state split: sum.splits)
  then obtain rel config target access st where
    st: "desired_state_of (pf_sha pf) config target access = Some st"
      "plan_of (pf_sha pf) rel st (cloud_state_value s) = Some p"
    by (auto simp: buildGatewayPlan_def buildGatewayDesiredState_def andThen_Inr Let_def split: option.splits sum.splits if_splits)
  note parts = plan_of_parts [OF st(2)]
  have "ds_installationId st \<noteq> []"
    using st(1) by (auto simp: desired_state_of_def stableInstallationId_def split: bind_splits)
  then show ?thesis
    using that [of "ds_resources st"] parts(1,3) unfolding read_views [OF assms(2)] by simp
qed

lemma view_fields [simp]:
  "ob_kind (view r) = cl_kind r" "ob_key (view r) = cl_key r" "ob_provider (view r) = cl_provider r"
  by (simp_all add: view_def)

lemma owned_view: "inst \<noteq> [] \<Longrightarrow> isOwned (view r) inst \<Longrightarrow> owned_by inst r"
  by (auto simp: isOwned_def view_def owned_by_def split: option.splits if_splits)

lemma filter_views_empty:
  "filter (\<lambda>ob. observedIdentity ob = resourceIdentity k key) (views s) = [] \<Longrightarrow> matchingResources (cs_resources s) k key = []"
  by (auto simp: views_def filter_empty_conv matchingResources_def observedIdentity_def)

lemma reconcile_create:
  assumes "c \<in> set (fst (reconcile ds obs inst))" "pc_action c = Create"
  shows "filter (\<lambda>ob. observedIdentity ob = resourceIdentity (pc_kind c) (pc_key c)) obs = []"
proof -
  from assms(1) consider d where "c = reconcileDesired obs inst d"
    | "c \<in> set (staleChanges (staleResources ds obs inst))"
    by (auto simp: reconcile_def)
  then show ?thesis
  proof cases
    case 1
    then show ?thesis using assms(2)
      by (auto simp: reconcileDesired_def desiredChange_def desiredIdentity_def split: list.splits if_splits)
  next
    case 2
    then show ?thesis using assms(2) by (auto simp: staleChanges_def staleChange_def split: list.splits)
  qed
qed

text \<open>The changes of a plan touch what is observed as owned, and create what is observed absent.\<close>

lemma plan_touches:
  assumes "plan_from pf context s = Some p" "list_all observed_resource_ok (cs_resources s)"
    and "c \<in> set (gp_changes p)" "pc_action c \<noteq> Conflict"
  shows "touches_own s (gp_installationId p) c"
proof -
  obtain ds where ch: "gp_changes p = fst (reconcile ds (views s) (gp_installationId p))" and ne: "gp_installationId p \<noteq> []"
    using assms(1,2) by (rule plan_from_parts)
  show ?thesis
  proof (cases "pc_action c = Create")
    case True
    then show ?thesis
      using reconcile_create [of c] assms(3) unfolding ch by (simp add: touches_own_def filter_views_empty)
  next
    case False
    then have "pc_action c \<in> {Update, Delete, Noop}" using assms(4) by (cases "pc_action c") auto
    with assms(3) obtain ob where
      ob: "filter (\<lambda>ob. ob_kind ob = pc_kind c \<and> ob_key ob = pc_key c \<and> isOwned ob (gp_installationId p)) (views s) = [ob]"
        "pc_provider c = ob_provider ob"
      unfolding ch using reconcile_owned by blast
    from ob(1) have "ob \<in> set (filter (\<lambda>ob. ob_kind ob = pc_kind c \<and> ob_key ob = pc_key c \<and> isOwned ob (gp_installationId p)) (views s))"
      by simp
    then have "ob \<in> set (views s)" "ob_kind ob = pc_kind c" "ob_key ob = pc_key c" "isOwned ob (gp_installationId p)"
      by simp_all
    moreover from this obtain r where "r \<in> set (cs_resources s)" "ob = view r" by (auto simp: views_def)
    moreover have "sameProvider l l" for l by (simp add: sameProvider_def split: option.split)
    ultimately show ?thesis
      using False ob(2) owned_view [OF ne] by (auto simp: touches_own_def list_ex_iff matchingResources_def intro!: bexI [of _ r])
  qed
qed

end
