(* ===== verification/Reconciler_Safety.thy ===== *)
theory Reconciler_Safety
  imports Reconciler_Rules
begin

text \<open>
  Every step of an apply or an uninstall keeps the discipline \<open>lawful\<close>, whatever the provider and the
  store answer. What an operation needs on top of it, the approval of its mutations, is an interface:
  the locale \<open>step_policy\<close> asks for a grant that, once given, stays for the rest of the run, and
  covers the mutations journaled in this run. The steps are proved safe once inside it; applying and
  uninstalling each interpret it with their own grant.
\<close>

section \<open>A pending mutation\<close>

lemma target_of_mutation [simp]:
  "mi_receipt (mutation_of context c r t) = r" "mi_change (mutation_of context c r t) = c"
  by (simp_all add: mutation_of_def)

lemma found_change: "findChange plan k key = Some c \<Longrightarrow> c \<in> set (gp_changes plan) \<and> pc_kind c = k \<and> pc_key c = key"
  by (auto simp: findChange_def find_Some_iff)

text \<open>The mutation of a change the plan of the live state has, with the receipt in which it is journaled.\<close>

lemma live_mutation:
  assumes "live_at pf context h live" "lv_receipt live = Some r" "journaled r c"
    and "c \<in> set (gp_changes (lv_plan live))" "pc_action c \<noteq> Conflict"
  shows "lawful_mutation (pf_sha pf) h (mutation_of context c r t)"
proof -
  have s: "seen_at h = Some (lv_observed live)" "plan_from pf context (lv_observed live) = Some (lv_plan live)"
    and r: "stored_at (pf_sha pf) h = Some r" "sealed (pf_sha pf) r" "rc_installationId r = gp_installationId (lv_plan live)"
    using assms(1,2) by (simp_all add: live_at_def)
  have "touches_own (lv_observed live) (gp_installationId (lv_plan live)) c"
    using plan_touches [OF s(2) seen_ok [OF s(1)]] assms(4,5) by simp
  then show ?thesis using assms(3) s(1) r by (simp add: lawful_mutation_def journaled_call_def)
qed

lemma live_holds: "live_at pf context h live \<and> lv_receipt live = Some r \<Longrightarrow> holds (pf_sha pf) h r"
  by (auto simp: live_at_def holds_def)

lemma secure_commitGone:
  assumes live: "live_at pf context h live \<and> lv_receipt live = Some r" and p: "rc_pending r = Some p"
    and gone: "liveMatches live (rp_kind p) (rp_key p) = []"
  shows "secure (pf_sha pf) A (\<lambda>r' h'. known (pf_sha pf) h' r') (commitDeletion pf r) h"
proof (rule secure_post [OF secure_commitDeletion])
  show "holds (pf_sha pf) h r" using live by (rule live_holds)
  show "seen_absent h (target_of q)" if "rc_pending r = Some q" for q
    using that live p gone by (simp add: live_at_def seen_absent_def target_of_def)
qed (auto intro: holds_known committed_holds)

lemma secure_commitKept:
  assumes "holds (pf_sha pf) h r" "\<And>p. rc_pending r = Some p \<Longrightarrow> rp_action p \<noteq> Delete_action"
  shows "secure (pf_sha pf) A (\<lambda>r' h'. known (pf_sha pf) h' r') (commitVerifiedChange pf r c) h"
  by (rule secure_post [OF secure_commitVerifiedChange [OF assms(1)]])
     (auto dest: assms(2) intro: holds_known committed_holds)

lemma secure_deletePending:
  assumes "lawful_mutation (pf_sha pf) h (mutation_of context c r (verified_target_value t))"
    "A h (Apply (mutation_of context c r (verified_target_value t)))" and p: "rc_pending r = Some p"
  shows "secure (pf_sha pf) A (\<lambda>live h'. live_at pf context h' live) (deletePending pf context r p c t code) h"
  unfolding deletePending_def
proof (rule secure_seq [OF secure_mutate [where A = A, OF assms(1,2)]], rule secure_seq [OF secure_readLiveOf],
    simp add: holds_known, rule secure_seq_refuse, goal_cases)
  case (1 m h1 live h2)
  then show ?case
    using p by (intro secure_seq [OF secure_commitGone [OF 1(3)]]) (auto intro: secure_post [OF secure_readLiveOf])
qed

lemma secure_submitPending:
  assumes "lawful_mutation (pf_sha pf) h (mutation_of context c r (verified_target_value t))"
    "A h (Apply (mutation_of context c r (verified_target_value t)))"
    and p: "\<And>p. rc_pending r = Some p \<Longrightarrow> rp_action p \<noteq> Delete_action"
  shows "secure (pf_sha pf) A (\<lambda>live h'. live_at pf context h' live) (submitPending pf context r p c t) h"
  unfolding submitPending_def Let_def
proof (rule secure_seq [OF secure_mutate [where A = A, OF assms(1,2)]], goal_cases)
  case (1 m h1)
  then have h: "holds (pf_sha pf) h1 r" by simp
  show ?case
  proof (intro secure_if secure_option secure_throw, goal_cases)
    case (1 provider)
    show ?case
    proof (rule secure_seq [OF secure_commitKept [OF h p]], assumption, goal_cases)
      case (1 r' h2)
      then show ?case
        by (intro secure_seq [OF secure_readLiveOf]) (auto intro!: secure_seq_refuse)
    qed
  next
    case 2
    show ?case
    proof (rule secure_seq [OF secure_readLiveOf [OF holds_known [OF h]]], intro secure_rules,
        rule secure_seq [OF secure_commitKept], goal_cases)
      case (3 live h2 v r' h3)
      then show ?case by (intro secure_post [OF secure_readLiveOf]) simp_all
    qed (use p in \<open>auto intro: live_holds\<close>)
  qed
qed

lemma bound_pending: "Option.bind (lv_receipt live) (\<lambda>r. map_option (Pair r) (rc_pending r)) = Some (r, p) \<longleftrightarrow>
    lv_receipt live = Some r \<and> rc_pending r = Some p"
  by (cases "lv_receipt live") auto

lemma fulfils_Some: "fulfils p (Some c) a \<Longrightarrow> pc_action c = a"
  by (simp add: fulfils_def)

lemma change_action_of_not_conflict [simp]: "change_action_of a \<noteq> Conflict" "change_action_of a \<noteq> Noop"
  by (cases a; simp)+

lemma secure_performPendingMutation:
  assumes live: "live_at pf context h live"
    and A: "\<And>r c t. lv_receipt live = Some r \<Longrightarrow> journaled r c
      \<Longrightarrow> findChange (lv_plan live) (pc_kind c) (pc_key c) = Some c \<Longrightarrow> A h (Apply (mutation_of context c r t))"
  shows "secure (pf_sha pf) A (\<lambda>live h'. live_at pf context h' live) (performPendingMutation pf context live) h"
  unfolding performPendingMutation_def
proof (rule secure_option, rule secure_throw, simp only: case_prod_beta, intro secure_rules, goal_cases)
  case (1 y c)
  obtain r p where y: "y = (r, p)" "lv_receipt live = Some r" "rc_pending r = Some p" using 1(1) by (cases y) (simp add: bound_pending)
  note f = found_change [OF 1(2)]
  from 1 f y have j: "journaled r c" by (simp add: journaled_def)
  have find: "findChange (lv_plan live) (pc_kind c) (pc_key c) = Some c" using 1(2) f by simp
  have "pc_action c \<noteq> Conflict" using 1(4) by simp
  with f have law: "lawful_mutation (pf_sha pf) h (mutation_of context c r t)" for t by (intro live_mutation [OF live y(2) j]) simp_all
  show ?case
    unfolding y(1) fst_conv snd_conv
    by (rule secure_deletePending [where A = A, OF law A [OF y(2) j find]]) (rule y(3))
next
  case (2 y c u)
  obtain r p where y: "y = (r, p)" "lv_receipt live = Some r" "rc_pending r = Some p" using 2(1) by (cases y) (simp add: bound_pending)
  note f = found_change [OF 2(2)]
  have a: "pc_action c = change_action_of (rp_action p)" using 2 y(1) by (simp add: fulfils_Some)
  from a f y have j: "journaled r c" by (simp add: journaled_def)
  have find: "findChange (lv_plan live) (pc_kind c) (pc_key c) = Some c" using 2(2) f by simp
  from f a have law: "lawful_mutation (pf_sha pf) h (mutation_of context c r t)" for t by (intro live_mutation [OF live y(2) j]) simp_all
  show ?case
    unfolding y(1) fst_conv snd_conv
    by (rule secure_submitPending [where A = A, OF law A [OF y(2) j find]]) (use 2 y in auto)
qed

lemma live_pending:
  assumes "live_at pf context h live"
    and "Option.bind (lv_receipt live) (\<lambda>r. map_option (Pair r) (rc_pending r)) = Some (r, p)"
  shows "holds (pf_sha pf) h r"
  using assms(2) live_stored [OF assms(1)] by (auto simp: bound_pending holds_def)

section \<open>The approval of a mutation\<close>

locale step_policy =
  fixes pf :: platform
    and A :: "reconcile_trace \<Rightarrow> reconcile_call \<Rightarrow> bool"
    and granted :: "reconcile_trace \<Rightarrow> plan_change \<Rightarrow> bool"
    and fits :: "receipt \<Rightarrow> plan_change \<Rightarrow> bool"
  assumes persists: "granted h c \<Longrightarrow> prefix h h' \<Longrightarrow> granted h' c"
    and covers: "granted h (mi_change mi) \<Longrightarrow> fits (mi_receipt mi) (mi_change mi) \<Longrightarrow> (Store_write (mi_receipt mi), Inr v) \<in> set h \<Longrightarrow> A h (Apply mi)"
begin

lemma journaled_granted:
  assumes "granted h c" "prefix h h'" "journaled_now (pf_sha pf) h' r" "fits r c" shows "A h' (Apply (mutation_of context c r t))"
  using assms(3,4) covers [of h' "mutation_of context c r t"] persists [OF assms(1,2)] by (auto simp: journaled_now_def)

text \<open>A change of the live plan, journaled and performed.\<close>

lemma secure_perform:
  assumes live: "live_at pf context h live" and r: "holds (pf_sha pf) h r" "rc_installationId r = gp_installationId (lv_plan live)"
    and c: "findChange (lv_plan live) (pc_kind c) (pc_key c) = Some c" and g: "granted h c"
    and f: "\<And>r. fits r c"
  shows "secure (pf_sha pf) A (\<lambda>after h'. live_at pf context h' after)
    (seq (journalAction pf context r planId c ty prune) (\<lambda>pending.
      performPendingMutation pf context (live\<lparr>lv_receipt := Some pending\<rparr>))) h"
proof (rule secure_seq [OF secure_journalAction [OF r(1)]], rule secure_performPendingMutation, goal_cases)
  case (1 r' h')
  then show ?case using live r(2) by (simp add: live_at_def journaled_now_def journals_def)
next
  case (2 r' h' r'' c' t)
  from 2(1) obtain p where "rc_pending r' = Some p" "rp_kind p = pc_kind c" "rp_key p = pc_key c"
    unfolding journals_def by blast
  moreover have "r'' = r'" using 2(3) by simp
  ultimately have "pc_kind c' = pc_kind c" "pc_key c' = pc_key c" using 2(4) by (simp_all add: journaled_def)
  then have "c' = c" using c 2(5) by simp
  moreover have "journaled_now (pf_sha pf) h' r'" using 2(1) by simp
  ultimately show ?case using journaled_granted [OF g 2(2) _ f] \<open>r'' = r'\<close> by simp
qed

text \<open>Deleting what is observed as owned, as an uninstallation does.\<close>

lemma secure_deleteOwned:
  assumes j: "journaled_call (pf_sha pf) h (mutation_of context c r (verified_target_value t))" "seen_at h = Some s"
    "touches_own s (rc_installationId r) c" and A: "A h (Apply (mutation_of context c r (verified_target_value t)))"
  shows "secure (pf_sha pf) A (\<lambda>_ h'. holds (pf_sha pf) h' r
      \<and> (\<exists>s. seen_at h' = Some s \<and> matchingResources (cs_resources s) (pc_kind c) (pc_key c) = []))
    (deleteOwned pf context r c t) h"
proof -
  have law: "lawful_mutation (pf_sha pf) h (mutation_of context c r (verified_target_value t))"
    using j by (simp add: lawful_mutation_def)
  show ?thesis
    unfolding deleteOwned_def
    by (rule secure_seq [OF secure_mutate [where A = A, OF law A]], rule secure_seq [OF secure_readLiveOf],
        simp add: holds_known, rule secure_refuse) (auto simp: live_at_def holds_def)
qed

end

section \<open>Applying\<close>

text \<open>
  The live state an apply was approved for: nothing blocks its plan, the plan is the approved one,
  and the prune it needs is approved too, or it is the retry of a journaled action.
\<close>

definition apply_approved :: "platform \<Rightarrow> reconcile_context \<Rightarrow> live_state \<Rightarrow> bool" where
  "apply_approved pf context live \<longleftrightarrow>
     assertPlanExecutable (lv_plan live) = Inr () \<and> cx_approvedPlanId context = Some (gp_planId (lv_plan live))
     \<and> ((\<exists>prune. buildPruneApproval (pf_sha pf) live = Inr prune \<and> assertPruneApproval context prune = Inr ())
        \<or> (\<exists>r p. lv_receipt live = Some r \<and> rc_pending r = Some p \<and> assertRecoveryApplyRetry context p live = Inr ()))"

definition approved_since :: "platform \<Rightarrow> reconcile_context \<Rightarrow> reconcile_trace \<Rightarrow> bool" where
  "approved_since pf context h \<longleftrightarrow> (\<exists>h' live. prefix h' h \<and> live_at pf context h' live \<and> apply_approved pf context live)"

definition apply_grant :: "platform \<Rightarrow> reconcile_context \<Rightarrow> reconcile_trace \<Rightarrow> plan_change \<Rightarrow> bool" where
  "apply_grant pf context h c \<longleftrightarrow> approved_since pf context h \<and> (pc_action c = Delete \<longrightarrow> cx_prune context)"

text \<open>An apply creates only what it journaled itself: a creation found pending is never submitted again.\<close>

definition apply_policy :: "platform \<Rightarrow> reconcile_context \<Rightarrow> reconcile_trace \<Rightarrow> reconcile_call \<Rightarrow> bool" where
  "apply_policy pf context h c = (case c of
     Apply mi \<Rightarrow> apply_grant pf context h (mi_change mi)
       \<and> (pc_action (mi_change mi) = Create \<longrightarrow> (\<exists>v. (Store_write (mi_receipt mi), Inr v) \<in> set h))
   | _ \<Rightarrow> False)"

lemma approved_since_mono: "approved_since pf context h \<Longrightarrow> prefix h h' \<Longrightarrow> approved_since pf context h'"
  unfolding approved_since_def using prefix_order.trans by blast

lemma approved_now: "live_at pf context h live \<Longrightarrow> apply_approved pf context live \<Longrightarrow> approved_since pf context h"
  by (auto simp: approved_since_def)

interpretation applying: step_policy pf "apply_policy pf ctx" "apply_grant pf ctx" "\<lambda>r c. True" for pf ctx
proof
  show "apply_grant pf ctx h c \<Longrightarrow> prefix h h' \<Longrightarrow> apply_grant pf ctx h' c" for h h' c
    by (auto simp: apply_grant_def intro: approved_since_mono)
  show "apply_grant pf ctx h (mi_change mi) \<Longrightarrow> (Store_write (mi_receipt mi), Inr v) \<in> set h
      \<Longrightarrow> apply_policy pf ctx h (Apply mi)" for h mi v
    by (auto simp: apply_policy_def)
qed

lemma retry_approved:
  assumes "live_at pf context h live" "lv_receipt live = Some r" "rc_pending r = Some p"
    "assertRecoveryApplyRetry context p live = Inr ()"
  shows "approved_since pf context h" "rp_action p = Delete_action \<Longrightarrow> cx_prune context"
  using assms by (auto simp: assertRecoveryApplyRetry_def andThen_Inr apply_approved_def intro!: approved_now split: if_splits)

lemma secure_recoverApplyPending:
  assumes live: "live_at pf context h live"
  shows "secure (pf_sha pf) (apply_policy pf context) (\<lambda>live h'. live_at pf context h' live)
    (recoverApplyPending pf context live) h"
  unfolding recoverApplyPending_def Let_def
proof (rule secure_option, rule secure_throw, simp only: case_prod_beta,
    intro secure_rules, goal_cases)
  case (1 y)
  then obtain r p where y: "y = (r, p)" "lv_receipt live = Some r" "rc_pending r = Some p" by (cases y) (simp add: bound_pending)
  then show ?case
    using live 1 by (intro secure_seq [OF secure_commitGone]) (auto intro: secure_post [OF secure_readLiveOf])
next
  case (2 y x c w)
  then obtain r p where y: "y = (r, p)" "lv_receipt live = Some r" "rc_pending r = Some p" by (cases y) (simp add: bound_pending)
  note f = found_change [OF 2(5)]
  have j: "journaled r c" using 2 f y by (simp add: journaled_def)
  have law: "lawful_mutation (pf_sha pf) h (mutation_of context c r t)" for t
    using 2(6) f by (intro live_mutation [OF live y(2) j]) simp_all
  have A: "apply_policy pf context h (Apply (mutation_of context c r t))" for t
    using retry_approved [OF live y(2,3)] 2 y by (simp add: apply_policy_def apply_grant_def)
  show ?case
    unfolding y(1) fst_conv snd_conv
    by (rule secure_deletePending [where A = "apply_policy pf context", OF law A y(3)])
next
  case (3 y x)
  then obtain r p where y: "y = (r, p)" "lv_receipt live = Some r" "rc_pending r = Some p" by (cases y) (simp add: bound_pending)
  then show ?case
    using live 3 by (intro secure_seq [OF secure_commitKept]) (auto intro: live_holds secure_post [OF secure_readLiveOf])
next
  case (4 y x w)
  then obtain r p where y: "y = (r, p)" "lv_receipt live = Some r" "rc_pending r = Some p" by (cases y) (simp add: bound_pending)
  have "approved_since pf context h" using retry_approved [OF live y(2,3)] 4 y by simp
  then have "apply_policy pf context h (Apply (mutation_of context c r' t))" if "lv_receipt live = Some r'" "journaled r' c" for r' c t
    using that 4 y by (cases "rp_action p") (auto simp: apply_policy_def apply_grant_def journaled_def)
  then show ?case by (rule secure_performPendingMutation [OF live])
qed

text \<open>A live state together with the receipt it was read with.\<close>

definition live_with :: "platform \<Rightarrow> reconcile_context \<Rightarrow> reconcile_trace \<Rightarrow> live_state \<times> receipt \<Rightarrow> bool" where
  "live_with pf context h lr \<longleftrightarrow> live_at pf context h (fst lr) \<and> lv_receipt (fst lr) = Some (snd lr)"

lemma live_with_holds: "live_with pf context h lr \<Longrightarrow> holds (pf_sha pf) h (snd lr)"
  by (simp add: live_with_def live_holds)

lemma secure_retireCandidates:
  assumes "live_with pf context h (live, receipt)"
  shows "secure (pf_sha pf) A (\<lambda>lr h'. live_with pf context h' lr)
    (retireCandidates pf context planId approved live receipt candidates) h"
  using assms
proof (induction candidates arbitrary: live receipt h)
  case (Cons candidate candidates)
  then have k: "known (pf_sha pf) h receipt" using live_with_holds holds_known by fastforce
  show ?case
    unfolding retireCandidates.simps case_prod_beta
  proof (rule secure_seq [OF secure_readLiveOf [OF k]], intro secure_rules, goal_cases)
    case (1 now h1)
    then show ?case by (intro Cons.IH) (simp add: live_with_def)
  next
    case (2 now h1 u v)
    then have holds: "holds (pf_sha pf) h1 receipt" using live_holds by blast
    show ?case
    proof (rule secure_seq [OF secure_journalAction [OF holds]], goal_cases)
      case (1 pending h2)
      then have k2: "known (pf_sha pf) h2 pending" by (simp add: journaled_now_def known_def stored_known)
      obtain p where p: "rc_pending pending = Some p" "rp_kind p = rr_kind (fst v)" "rp_key p = rr_key (fst v)"
        using 1 by (auto simp: journals_def deletion_of_def)
      show ?case
      proof (rule secure_seq [OF secure_readLiveOf [OF k2]], intro secure_rules, goal_cases)
        case (1 verified h3)
        then have gone: "liveMatches verified (rp_kind p) (rp_key p) = []" using p by simp
        show ?case
        proof (rule secure_seq [OF secure_commitGone [OF 1(1) p(1) gone]], goal_cases)
          case (1 committed h4)
          show ?case by (rule secure_seq [OF secure_readLiveOf [OF 1(1)]]) (intro Cons.IH, simp add: live_with_def)
        qed
      qed
    qed
  qed
qed simp

lemma approved_found:
  "assertApprovedChangeStillMatches approved current = Inr c \<Longrightarrow> current = Some c \<and> pc_action c = pc_action approved"
  by (auto simp: assertApprovedChangeStillMatches_def split: option.splits if_splits)

lemma secure_applyChanges:
  assumes "known (pf_sha pf) h receipt" "\<And>c. c \<in> set changes \<Longrightarrow> apply_grant pf context h c"
  shows "secure (pf_sha pf) (apply_policy pf context) (\<lambda>r h'. known (pf_sha pf) h' r)
    (applyChanges pf context prune receipt changes) h"
  using assms
proof (induction changes arbitrary: receipt h)
  case (Cons approved changes)
  have later: "known (pf_sha pf) h' r \<Longrightarrow> prefix h h'
      \<Longrightarrow> secure (pf_sha pf) (apply_policy pf context) (\<lambda>r h'. known (pf_sha pf) h' r) (applyChanges pf context prune r changes) h'"
    for r h'
    using applying.persists [OF Cons.prems(2)] by (intro Cons.IH) auto
  show ?case
    unfolding applyChanges.simps Let_def
  proof (rule secure_seq [OF secure_readLiveOf [OF Cons.prems(1)]], intro secure_rules, goal_cases)
    case (1 live h1 u)
    then show ?case using later Cons.prems(1) known_mono by blast
  next
    case (2 live h1 u c v)
    then have c: "findChange (lv_plan live) (pc_kind approved) (pc_key approved) = Some c" "pc_action c = pc_action approved"
      using approved_found by blast+
    then have find: "findChange (lv_plan live) (pc_kind c) (pc_key c) = Some c" using found_change [OF c(1)] by simp
    have "apply_grant pf context h approved" using Cons.prems(2) by simp
    then have g: "apply_grant pf context h1 c" using applying.persists [OF _ 2(2)] c(2) by (simp add: apply_grant_def)
    have live: "live_at pf context h1 live" and inst: "rc_installationId receipt = gp_installationId (lv_plan live)"
      using 2(1) by (auto simp: live_at_def)
    have holds: "holds (pf_sha pf) h1 receipt" using 2(1) by (rule live_holds)
    show ?case
      unfolding seq_assoc [symmetric]
    proof (rule secure_seq [OF applying.secure_perform [OF live holds inst find g TrueI]], intro secure_rules, goal_cases)
      case (1 after h2 committed)
      then have "known (pf_sha pf) h2 committed" by (intro holds_known live_holds) simp
      then show ?case using later 1(2) 2(2) prefix_order.trans by blast
    qed
  qed
qed simp

lemma secure_liveToApply:
  "secure (pf_sha pf) (apply_policy pf context) (\<lambda>live h'. live_at pf context h' live) (liveToApply pf context) h"
  unfolding liveToApply_def
proof (rule secure_seq [OF secure_readLive], intro secure_rules, goal_cases)
  case (2 live h' p)
  then show ?case by (intro secure_recoverApplyPending) simp
qed simp

lemma secure_receiptToUse:
  assumes live: "live_at pf context h live"
  shows "secure (pf_sha pf) A (\<lambda>lr h'. live_with pf context h' lr) (receiptToUse pf context live) h"
  unfolding receiptToUse_def
proof (intro secure_rules, goal_cases)
  case (1 desired receipt)
  then have c: "createInstallationReceipt (pf_sha pf) (receipt_input context live desired) = Inr receipt"
    by (simp add: type_failure_Inr)
  then have law: "lawful_write (pf_sha pf) h receipt" using 1(1) live by (auto simp: lawful_write_def live_at_def)
  show ?case
  proof (rule secure_seq [OF secure_writeReceipt [OF law, where R = "\<lambda>_ h'. known (pf_sha pf) h' receipt"]], goal_cases)
    case (2 u h')
    show ?case
      by (rule secure_seq [OF secure_readLiveOf [OF 2(1)]], intro secure_rules) (simp add: live_with_def)
  qed (use created_sealed(1) [OF c] in \<open>simp add: known_def\<close>)
next
  case (2 receipt)
  then show ?case using live by (simp add: live_with_def)
qed

text \<open>What a finished apply reports is what was observed last, under a receipt that is stored and settled.\<close>

definition apply_reported :: "platform \<Rightarrow> reconcile_context \<Rightarrow> apply_report \<Rightarrow> reconcile_trace \<Rightarrow> bool" where
  "apply_reported pf context report h \<longleftrightarrow> (\<exists>live receipt. live_at pf context h live \<and> lv_receipt live = Some receipt
     \<and> rc_pending receipt = None \<and> rc_state receipt \<noteq> Removed
     \<and> ar_plan report = lv_plan live \<and> ar_receipt report = receiptSummary receipt
     \<and> (ar_status report = ''ready'' \<longrightarrow> list_all (\<lambda>c. pc_action c = Noop) (gp_changes (lv_plan live))))"

lemma updated_settled:
  assumes "updateInstallationReceipt sha (receipt_value r) u = Inr r'" "sealed sha r"
  shows "sealed sha r'" "rc_pending r' = None" "rc_state r' \<noteq> Removed"
proof -
  have "sealed sha r' \<and> rc_pending r' = None \<and> rc_state r' \<noteq> Removed"
  proof (rule update_Inr [OF assms(1)], goal_cases)
    case 1
    then show ?case using sealed_validates [OF assms(2)] assms(2) by simp
  next
    case (2 s h)
    have "rc_state r' = rc_state s" "rc_pending r' = rc_pending s"
      using arg_cong [OF 2(4), of rc_state] arg_cong [OF 2(4), of rc_pending] by simp_all
    then show ?case using 2(2,3,5) by simp
  qed
  then show "sealed sha r'" "rc_pending r' = None" "rc_state r' \<noteq> Removed" by simp_all
qed

lemma secure_finishApply:
  assumes "known (pf_sha pf) h receipt"
  shows "secure (pf_sha pf) A (apply_reported pf context) (finishApply pf context receipt) h"
  unfolding finishApply_def
proof (rule secure_seq [OF secure_readLiveOf [OF assms]], intro secure_rules, goal_cases)
  case (1 live h1 u desired updated)
  then have up: "updateInstallationReceipt (pf_sha pf) (receipt_value receipt) (receipt_input context live desired) = Inr updated"
    by (simp add: type_failure_Inr)
  have holds: "holds (pf_sha pf) h1 receipt" using 1(1) by (rule live_holds)
  then have settled: "sealed (pf_sha pf) updated" "rc_pending updated = None" "rc_state updated \<noteq> Removed"
    using updated_settled [OF up] by (auto simp: holds_def)
  have law: "lawful_write (pf_sha pf) h1 updated" 
    using lawful_step [OF holds step_update [OF up] forgets_nothing] kept_resources(1) [OF _ up] holds by (simp add: holds_def)
  show ?case
  proof (rule secure_seq [OF secure_writeReceipt [OF law, where R = "\<lambda>_ h'. known (pf_sha pf) h' updated"]], goal_cases)
    case (2 w h2)
    show ?case
    proof (rule secure_seq [OF secure_readLiveOf [OF 2(1)]], intro secure_rules secure_return, goal_cases)
      case (1 final h3 prune)
      then show ?case using settled by (auto simp: apply_reported_def)
    qed
  qed (use settled in \<open>simp add: known_def\<close>)
qed

lemma approvedChanges_granted:
  "approved_since pf context h \<Longrightarrow> c \<in> set (approvedChanges context plan) \<Longrightarrow> apply_grant pf context h c"
  by (auto simp: approvedChanges_def apply_grant_def)

text \<open>The whole apply keeps the discipline.\<close>

lemma secure_applyGatewayLocked:
  "secure (pf_sha pf) (apply_policy pf context) (apply_reported pf context) (applyGatewayLocked pf context) h"
  unfolding applyGatewayLocked_def case_prod_beta
proof (rule secure_seq [OF secure_liveToApply], intro secure_rules, goal_cases)
  case (1 live h1 u prune w)
  then have "apply_approved pf context live" by (auto simp: apply_approved_def)
  then have ok: "approved_since pf context h1" using 1(1) approved_now by blast
  show ?case
  proof (rule secure_seq [OF secure_receiptToUse [OF 1(1)]], intro secure_rules, goal_cases)
    case (1 lr h2 u)
    have ok: "approved_since pf context h2" using ok 1(2) by (rule approved_since_mono)
    have lr: "live_with pf context h2 (fst lr, snd lr)" using 1(1) by simp
    show ?case
      unfolding retireAbsentReceiptEntries_def
    proof (rule secure_seq [OF secure_retireCandidates [OF lr]], goal_cases)
      case (1 lr' h3)
      have ok: "approved_since pf context h3" using ok 1(2) by (rule approved_since_mono)
      have k: "known (pf_sha pf) h3 (snd lr')" using 1(1) live_with_holds holds_known by blast
      show ?case
        by (rule secure_seq [OF secure_applyChanges [OF k approvedChanges_granted [OF ok]]], assumption, rule secure_finishApply)
    qed
  qed
qed

end
