(* ===== verification/Reconciler_Removal_Safety.thy ===== *)
theory Reconciler_Removal_Safety
  imports Reconciler_Safety
begin

text \<open>
  Uninstalling and rolling back keep the discipline \<open>lawful\<close>: an uninstallation only deletes, what the
  receipt owns and the observation shows with this installation's marker, under the approved
  identifier; a rollback only acts on the portal whose creation is pending, after an inspection.
\<close>

section \<open>What an uninstallation preview says\<close>

lemma uninstall_parts:
  assumes "uninstall_plan_of sha live = Inr pv"
  shows "lv_receipt live = Some (up_receipt pv)" "up_observed pv = lv_observed live"
    "up_actions pv = rights (uninstall_entries (up_observed pv) (up_receipt pv))"
    "\<And>p. rc_pending (up_receipt pv) = Some p \<Longrightarrow> rp_type p = Uninstall_type"
  using assms by (auto simp: uninstall_plan_of_def Let_def andThen_Inr split: option.splits if_splits)

definition preview_at :: "platform \<Rightarrow> reconcile_context \<Rightarrow> reconcile_trace \<Rightarrow> uninstall_preview \<Rightarrow> bool" where
  "preview_at pf context h pv \<longleftrightarrow> (\<exists>live. live_at pf context h live \<and> uninstall_plan_of (pf_sha pf) live = Inr pv)"

lemma preview_facts:
  assumes "preview_at pf context h pv"
  shows "holds (pf_sha pf) h (up_receipt pv)" "seen_at h = Some (up_observed pv)"
  using assms by (auto simp: preview_at_def live_at_def holds_def dest: uninstall_parts)

lemma rights_set: "y \<in> set (rights xs) \<longleftrightarrow> Inr y \<in> set xs"
proof (induction xs)
  case (Cons x xs)
  then show ?case by (cases x) (auto simp: rights_def map_filter_simps)
qed (simp add: rights_def map_filter_simps)

lemma found_resource: "findReceiptResource r k key = Some x \<Longrightarrow> x \<in> set (rc_resources r) \<and> rr_kind x = k \<and> rr_key x = key"
  by (auto simp: findReceiptResource_def find_Some_iff)

lemma unique_resource:
  "sealed sha r \<Longrightarrow> x \<in> set (rc_resources r) \<Longrightarrow> y \<in> set (rc_resources r) \<Longrightarrow> rr_kind x = rr_kind y \<Longrightarrow> rr_key x = rr_key y \<Longrightarrow> x = y"
  using unique_identities [OF sealed_unique, of sha r]
  by (auto simp: distinct_map identity_of_def inj_on_def)

text \<open>The action found for an owned resource is the verdict on what is observed under its name.\<close>

lemma found_action:
  assumes "preview_at pf context h pv" "find_action pv k key = Some act" "findReceiptResource (up_receipt pv) k key = Some owned"
  shows "uninstall_entry (up_observed pv) (rc_installationId (up_receipt pv)) owned = Inr act"
proof -
  obtain live where live: "uninstall_plan_of (pf_sha pf) live = Inr pv" using assms(1) by (auto simp: preview_at_def)
  have act: "ua_kind act = k" "ua_key act = key" "act \<in> set (up_actions pv)"
    using assms(2) by (auto simp: find_action_def find_Some_iff)
  then obtain x where x: "x \<in> set (rc_resources (up_receipt pv))"
    "uninstall_entry (up_observed pv) (rc_installationId (up_receipt pv)) x = Inr act"
    using uninstall_parts(3) [OF live] by (auto simp: rights_set uninstall_entries_def)
  then have "rr_kind x = k" "rr_key x = key"
    using act by (auto simp: uninstall_entry_def split: list.splits if_splits)
  then have "x = owned"
    using unique_resource [OF _ x(1)] found_resource [OF assms(3)] preview_facts(1) [OF assms(1)] by (auto simp: holds_def)
  then show ?thesis using x(2) by simp
qed

lemma exact_touches:
  "matchingResources (cs_resources s) (rr_kind owned) (rr_key owned) = [m] \<Longrightarrow> isExactOwnedMatch m owned inst
     \<Longrightarrow> touches_own s inst (deletion_of owned)"
  by (simp add: touches_own_def deletion_of_def isExactOwnedMatch_def owned_by_def)

section \<open>Uninstalling\<close>

text \<open>The preview the user approved, or the interrupted uninstallation the user approved to finish.\<close>

definition uninstall_approved :: "platform \<Rightarrow> reconcile_context \<Rightarrow> live_state \<Rightarrow> bool" where
  "uninstall_approved pf context live \<longleftrightarrow>
     (\<exists>pv. uninstall_plan_of (pf_sha pf) live = Inr pv \<and> cx_approvedUninstallId context = Some (up_uninstallId pv))
     \<or> (\<exists>r p. lv_receipt live = Some r \<and> rc_pending r = Some p \<and> rp_type p = Uninstall_type
          \<and> cx_approvedUninstallId context = Some (rp_planId p))"

definition uninstall_grant :: "platform \<Rightarrow> reconcile_context \<Rightarrow> reconcile_trace \<Rightarrow> plan_change \<Rightarrow> bool" where
  "uninstall_grant pf context h c \<longleftrightarrow> pc_action c = Delete
     \<and> (\<exists>h' live. prefix h' h \<and> live_at pf context h' live \<and> uninstall_approved pf context live)"

text \<open>The deletion is that of the very resource the receipt has under this name, at the locator the receipt has for it.\<close>

definition deletes_owned :: "receipt \<Rightarrow> plan_change \<Rightarrow> bool" where
  "deletes_owned r c \<longleftrightarrow> (\<exists>owned. findReceiptResource r (pc_kind c) (pc_key c) = Some owned \<and> c = deletion_of owned)"

definition uninstall_policy :: "platform \<Rightarrow> reconcile_context \<Rightarrow> reconcile_trace \<Rightarrow> reconcile_call \<Rightarrow> bool" where
  "uninstall_policy pf context h c = (case c of
     Apply mi \<Rightarrow> uninstall_grant pf context h (mi_change mi) \<and> deletes_owned (mi_receipt mi) (mi_change mi)
   | _ \<Rightarrow> False)"

interpretation uninstalling: step_policy pf "uninstall_policy pf ctx" "uninstall_grant pf ctx" deletes_owned for pf ctx
proof
  show "uninstall_grant pf ctx h c \<Longrightarrow> prefix h h' \<Longrightarrow> uninstall_grant pf ctx h' c" for h h' c
    unfolding uninstall_grant_def using prefix_order.trans by blast
qed (simp add: uninstall_policy_def)

lemma deletion_fields [simp]:
  "pc_action (deletion_of x) = Delete" "pc_kind (deletion_of x) = rr_kind x" "pc_key (deletion_of x) = rr_key x"
  by (simp_all add: deletion_of_def)

lemma deletes_found: "findReceiptResource r k key = Some owned \<Longrightarrow> rc_resources r' = rc_resources r \<Longrightarrow> deletes_owned r' (deletion_of owned)"
  by (auto simp: deletes_owned_def findReceiptResource_def find_Some_iff)

lemma secure_buildUninstall:
  "secure (pf_sha pf) A (\<lambda>pv h'. preview_at pf context h' pv) (buildGatewayUninstallPlan pf context) h"
  unfolding buildGatewayUninstallPlan_def
  by (rule secure_seq [OF secure_readLive]) (auto intro!: secure_lift simp: preview_at_def)

lemma secure_buildUninstallOf:
  assumes "known (pf_sha pf) h r"
  shows "secure (pf_sha pf) A (\<lambda>pv h'. preview_at pf context h' pv \<and> up_receipt pv = r)
    (buildGatewayUninstallPlan pf (with_override context r)) h"
  unfolding buildGatewayUninstallPlan_def readLiveOf_def [symmetric]
  by (rule secure_seq [OF secure_readLiveOf [OF assms]]) (auto intro!: secure_lift simp: preview_at_def dest: uninstall_parts(1))

lemma secure_retireOwned:
  assumes h: "holds (pf_sha pf) h r" and p: "rc_pending r = Some p" and gone: "seen_absent h (target_of p)"
  shows "secure (pf_sha pf) A (\<lambda>r' h'. holds (pf_sha pf) h' r') (commitDeletion pf r) h"
  by (rule secure_post [OF secure_commitDeletion [OF h]]) (use p gone in \<open>auto intro: committed_holds\<close>)

lemma secure_uninstallActions:
  assumes "holds (pf_sha pf) h receipt" "\<And>c. pc_action c = Delete \<Longrightarrow> uninstall_grant pf context h c"
  shows "secure (pf_sha pf) (uninstall_policy pf context) (\<lambda>r h'. holds (pf_sha pf) h' r)
    (uninstallActions pf context planId receipt actions) h"
  using assms
proof (induction actions arbitrary: receipt h)
  case (Cons approved actions)
  have later: "holds (pf_sha pf) h' r \<Longrightarrow> prefix h h'
      \<Longrightarrow> secure (pf_sha pf) (uninstall_policy pf context) (\<lambda>r h'. holds (pf_sha pf) h' r) (uninstallActions pf context planId r actions) h'"
    for r h'
    using uninstalling.persists [OF Cons.prems(2)] by (intro Cons.IH) auto
  show ?case
    unfolding uninstallActions.simps
  proof (rule secure_seq [OF secure_buildUninstallOf [OF holds_known [OF Cons.prems(1)]]], intro secure_rules, goal_cases)
    case (1 fresh h1 current)
    then show ?case using later preview_facts(1) by blast
  next
    case (2 fresh h1 current owned)
    then have pv: "preview_at pf context h1 fresh" and r: "up_receipt fresh = receipt" by simp_all
    have holds: "holds (pf_sha pf) h1 receipt" and seen: "seen_at h1 = Some (up_observed fresh)"
      using preview_facts [OF pv] r by simp_all
    have entry: "uninstall_entry (up_observed fresh) (rc_installationId receipt) owned = Inr current"
      using found_action [OF pv 2(3)] 2(5) r by simp
    note owned = 2(5)
    have name: "rr_kind owned = ua_kind approved" "rr_key owned = ua_key approved" using found_resource [OF 2(5)] by simp_all
    show ?case
    proof (rule secure_seq [OF secure_journalAction [OF holds]], goal_cases)
      case (1 pending h2)
      obtain p where p: "rc_pending pending = Some p" "target_of p = (rr_kind owned, rr_key owned)"
        and inst: "rc_installationId pending = rc_installationId receipt"
        using 1(1) by (auto simp: journals_def target_of_def)
      have fits: "deletes_owned pending (deletion_of owned)" using 1(1) deletes_found [OF owned] by (simp add: journals_def)
      have h2: "holds (pf_sha pf) h2 pending" "seen_at h2 = Some (up_observed fresh)"
        using 1(1) seen by (simp_all add: journaled_now_def holds_def)
      have g: "uninstall_grant pf context h1 (deletion_of owned)"
        using uninstalling.persists [OF Cons.prems(2) 2(2)] by simp
      have "secure (pf_sha pf) (uninstall_policy pf context)
          (\<lambda>_ h'. holds (pf_sha pf) h' pending \<and> seen_absent h' (rr_kind owned, rr_key owned))
          (if ua_verb current = Uninstall_delete then deleteOwned pf context pending (deletion_of owned) (cs_target (up_observed fresh))
           else return ()) h2"
      proof (rule secure_if, goal_cases)
        case del: 1
        then obtain m where "matchingResources (cs_resources (up_observed fresh)) (rr_kind owned) (rr_key owned) = [m]"
          "isExactOwnedMatch m owned (rc_installationId receipt)"
          using entry by (auto simp: uninstall_entry_def split: list.splits if_splits)
        then have own: "touches_own (up_observed fresh) (rc_installationId pending) (deletion_of owned)"
          using exact_touches inst by simp
        have j: "journaled_call (pf_sha pf) h2 (mutation_of context (deletion_of owned) pending t)" for t
          using h2 1(1) by (auto simp: journaled_call_def holds_def intro: journals_journaled)
        have A: "uninstall_policy pf context h2 (Apply (mutation_of context (deletion_of owned) pending t))" for t
          using uninstalling.journaled_granted [OF g 1(2) _ fits] 1(1) by simp
        show ?case
          by (rule secure_post [OF uninstalling.secure_deleteOwned [OF j h2(2) own A]]) (auto simp: seen_absent_def)
      next
        case 2
        then have "matchingResources (cs_resources (up_observed fresh)) (rr_kind owned) (rr_key owned) = []"
          using entry by (auto simp: uninstall_entry_def split: list.splits if_splits)
        then show ?case using h2 by (simp add: seen_absent_def)
      qed
      then show ?case
      proof (rule secure_seq, goal_cases)
        case (1 u h3)
        then show ?case
        proof (intro secure_seq [OF secure_retireOwned [where p = p]], goal_cases)
          case (4 committed h4)
          moreover have "prefix h h4" using 2(2) \<open>prefix h1 h2\<close> 1(2) 4(4) by (meson prefix_order.trans)
          ultimately show ?case using later by blast
        qed (use p in simp_all)
      qed
    qed
  qed
qed simp

lemma secure_recoverUninstall:
  assumes pv: "preview_at pf context h preview"
  shows "secure (pf_sha pf) (uninstall_policy pf context) (\<lambda>pv h'. preview_at pf context h' pv)
    (recoverUninstallPending pf context preview) h"
  unfolding recoverUninstallPending_def
proof (intro secure_rules, goal_cases)
  case (1 p u owned)
  let ?r = "up_receipt preview"
  have holds: "holds (pf_sha pf) h ?r" and seen: "seen_at h = Some (up_observed preview)" using preview_facts [OF pv] by simp_all
  have p: "rc_pending ?r = Some p" "rp_action p = Delete_action" "rp_type p = Uninstall_type" using 1 by simp_all
  note found = 1(4)
  note owned = found_resource [OF found]
  have t: "target_of p = (rr_kind owned, rr_key owned)" using owned by (simp add: target_of_def)
  have j: "journaled_call (pf_sha pf) h (mutation_of context (deletion_of owned) ?r t)" for t
    using holds p owned by (simp add: journaled_call_def holds_def journaled_def)
  obtain live where live: "live_at pf context h live" "lv_receipt live = Some ?r"
    using pv uninstall_parts(1) by (auto simp: preview_at_def)
  have gone: "secure (pf_sha pf) (uninstall_policy pf context) (\<lambda>_ h'. holds (pf_sha pf) h' ?r \<and> seen_absent h' (target_of p))
      (case matchingResources (cs_resources (up_observed preview)) (rp_kind p) (rp_key p) of
         [] \<Rightarrow> return ()
       | [match] \<Rightarrow>
           seq (refuse_if (\<not> isExactOwnedMatch match owned (rc_installationId ?r)) (GatewayReconcileError ''pending_conflict'')) (\<lambda>_.
           seq (refuse_if (cx_approvedUninstallId context \<noteq> Some (rp_planId p))
             (GatewayReconcileError ''uninstall_approval_required'')) (\<lambda>_.
             deleteOwned pf context ?r (deletion_of owned) (cs_target (up_observed preview))))
       | _ \<Rightarrow> throw (GatewayReconcileError ''pending_conflict'')) h"
  proof (cases "matchingResources (cs_resources (up_observed preview)) (rp_kind p) (rp_key p)")
    case Nil
    then show ?thesis using holds seen by (simp add: seen_absent_def target_of_def)
  next
    case ms: (Cons m ms)
    show ?thesis
    proof (cases ms)
      case Nil
      show ?thesis
        unfolding ms Nil list.case
      proof (intro secure_rules, goal_cases)
        case 1
        then have own: "touches_own (up_observed preview) (rc_installationId ?r) (deletion_of owned)"
          using ms Nil owned by (intro exact_touches) simp_all
        have "uninstall_approved pf context live" using 1 live(2) p by (auto simp: uninstall_approved_def)
        then have "uninstall_grant pf context h (deletion_of owned)" using live(1) by (auto simp: uninstall_grant_def)
        then have A: "uninstall_policy pf context h (Apply (mutation_of context (deletion_of owned) ?r t))" for t
          using deletes_found [OF found refl] by (simp add: uninstall_policy_def)
        show ?case
          by (rule secure_post [OF uninstalling.secure_deleteOwned [OF j seen own A]]) (auto simp: seen_absent_def t)
      qed
    qed (simp add: ms secure_throw)
  qed
  then show ?case
  proof (rule secure_seq, goal_cases)
    case (1 u h1)
    then show ?case
    proof (intro secure_seq [OF secure_retireOwned [where p = p]], goal_cases)
      case (4 r h2)
      then show ?case by (intro secure_post [OF secure_buildUninstallOf]) (auto intro: holds_known simp: preview_at_def)
    qed (use p in simp_all)
  qed
qed

text \<open>What a finished uninstallation leaves: an empty receipt in state \<open>Removed\<close>, in the store.\<close>

definition uninstall_reported :: "platform \<Rightarrow> uninstall_report \<Rightarrow> reconcile_trace \<Rightarrow> bool" where
  "uninstall_reported pf report h \<longleftrightarrow> (\<exists>r. holds (pf_sha pf) h r \<and> rc_state r = Removed \<and> rc_resources r = []
     \<and> rc_pending r = None \<and> ur_receipt report = receiptSummary r)"

lemma removed_empty: "sealed sha r \<Longrightarrow> rc_state r = Removed \<Longrightarrow> rc_resources r = [] \<and> rc_pending r = None"
  by (simp add: sealed_def receipt_ok_def consistent_def)

lemma marked_removed:
  assumes "markReceiptRemoved sha (receipt_value r) = Inr r'" "sealed sha r"
  shows "sealed sha r'" "rc_state r' = Removed"
proof -
  have "sealed sha r' \<and> rc_state r' = Removed"
    using assms(1) sealed_validates [OF assms(2)] assms(2) by (cases rule: mark_Inr) auto
  then show "sealed sha r'" "rc_state r' = Removed" by simp_all
qed

lemma secure_uninstallGatewayLocked:
  "secure (pf_sha pf) (uninstall_policy pf context) (uninstall_reported pf) (uninstallGatewayLocked pf context) h"
  unfolding uninstallGatewayLocked_def case_prod_beta
proof (rule secure_seq [OF secure_buildUninstall], rule secure_if, goal_cases)
  case (1 first h1)
  then have h: "holds (pf_sha pf) h1 (up_receipt first)" by (intro preview_facts)
  then have "rc_resources (up_receipt first) = [] \<and> rc_pending (up_receipt first) = None"
    using 1(3) removed_empty by (auto simp: holds_def)
  with h 1(3) show ?case by (intro secure_return) (auto simp: uninstall_reported_def)
next
  case (2 first h1)
  define begun where "begun = (\<lambda>(approvalId, preview) h'. preview_at pf context h' preview
    \<and> (cx_approvedUninstallId context = Some approvalId \<longrightarrow> uninstall_grant pf context h' (deletion_of undefined)))"
  obtain live where live: "live_at pf context h1 live" "uninstall_plan_of (pf_sha pf) live = Inr first"
    using 2(1) by (auto simp: preview_at_def)
  have "secure (pf_sha pf) (uninstall_policy pf context) begun
      (case rc_pending (up_receipt first) of
         None \<Rightarrow> return (up_uninstallId first, first)
       | Some pending \<Rightarrow> seq (recoverUninstallPending pf context first) (\<lambda>preview. return (rp_planId pending, preview))) h1"
  proof (rule secure_option, goal_cases)
    case 1
    then show ?case
      using live 2(1) by (auto simp: begun_def uninstall_grant_def uninstall_approved_def intro!: secure_return)
  next
    case (2 p)
    have "uninstall_approved pf context live" if "cx_approvedUninstallId context = Some (rp_planId p)"
      using that 2 live(2) uninstall_parts by (auto simp: uninstall_approved_def)
    then show ?case
      using live(1) by (intro secure_seq [OF secure_recoverUninstall [OF \<open>preview_at pf context h1 first\<close>]])
        (auto simp: begun_def uninstall_grant_def intro!: secure_return)
  qed
  then show ?case
  proof (rule secure_seq, intro secure_rules, goal_cases)
    case (1 ap h2)
    let ?preview = "snd ap"
    have pv: "preview_at pf context h2 ?preview" using 1(1) by (simp add: begun_def case_prod_beta)
    have "uninstall_grant pf context h2 (deletion_of undefined)" using 1 by (simp add: begun_def case_prod_beta)
    then have g: "pc_action c = Delete \<Longrightarrow> uninstall_grant pf context h2 c" for c by (simp add: uninstall_grant_def)
    show ?case
    proof (rule secure_seq [OF secure_uninstallActions [OF preview_facts(1) [OF pv] g]], assumption, intro secure_rules, goal_cases)
      case (1 r h3 removed)
      then have m: "markReceiptRemoved (pf_sha pf) (receipt_value r) = Inr removed" and h: "holds (pf_sha pf) h3 r"
        by (simp_all add: type_failure_Inr)
      have rm: "sealed (pf_sha pf) removed" "rc_state removed = Removed" using marked_removed [OF m] h by (simp_all add: holds_def)
      have law: "lawful_write (pf_sha pf) h3 removed"
        using lawful_step [OF h step_mark [OF m] forgets_nothing] kept_resources(3) [OF _ m] h by (simp add: holds_def)
      show ?case
        by (rule secure_seq [OF secure_writeReceipt [OF law, where R = "\<lambda>_ h'. holds (pf_sha pf) h' removed"]])
           (use rm removed_empty in \<open>auto simp: holds_def uninstall_reported_def intro!: secure_return\<close>)
    qed
  qed
qed

section \<open>Rolling back\<close>

text \<open>The evidence of the last inspection of this input.\<close>

definition inspected :: "reconcile_trace \<Rightarrow> mutation_input \<Rightarrow> portal_evidence \<Rightarrow> bool" where
  "inspected h mi e \<longleftrightarrow> (\<exists>v. (Inspect mi, Inr v) \<in> set h
     \<and> normalizePendingPortalRollbackEvidence v (pc_key (mi_change mi)) = Inr e)"

text \<open>A rollback preview is what the live state and an inspection say.\<close>

definition rollback_at :: "platform \<Rightarrow> reconcile_context \<Rightarrow> reconcile_trace \<Rightarrow> portal_preview \<Rightarrow> bool" where
  "rollback_at pf context h pv \<longleftrightarrow>
     (\<exists>live h'. prefix h' h \<and> live_at pf context h' live
       \<and> pendingPortal pf context live = Inr (pp_receipt pv, pp_pending pv, pp_portal pv)
       \<and> evidence_agrees (pp_evidence pv) (lv_plan live) (pp_portal pv) = Inr ()
       \<and> (\<exists>d. hashCanonical (pf_sha pf) (rollback_digest_value (pp_receipt pv) (pp_pending pv) (lv_plan live)
              (rs_key (pp_portal pv)) (pp_evidence pv)) = Some d \<and> pp_rollbackId pv = ''rollback-'' @ take 24 (drop 7 d)))
     \<and> pp_providerInput pv = portal_input context (pp_receipt pv) (pp_portal pv)
     \<and> inspected h (pp_providerInput pv) (pp_evidence pv)"

definition rollback_policy :: "platform \<Rightarrow> reconcile_context \<Rightarrow> reconcile_trace \<Rightarrow> reconcile_call \<Rightarrow> bool" where
  "rollback_policy pf context h c = (case c of
     Inspect mi \<Rightarrow> journaled_call (pf_sha pf) h mi
   | Rollback mi \<Rightarrow> (\<exists>pv. rollback_at pf context h pv \<and> pp_providerInput pv = mi
       \<and> cx_approvedRollbackId context = Some (pp_rollbackId pv))
   | _ \<Rightarrow> False)"

lemma portal_input_fields [simp]:
  "mi_receipt (portal_input context r portal) = r" "mi_change (portal_input context r portal) = portal_creation portal"
  "pc_key (portal_creation portal) = rs_key portal" "pc_kind (portal_creation portal) = rs_kind portal"
  "pc_action (portal_creation portal) = Create"
  by (simp_all add: portal_input_def portal_creation_def)

lemma pendingPortal_parts:
  assumes "pendingPortal pf context live = Inr (r, p, portal)"
  shows "lv_receipt live = Some r" "rc_pending r = Some p" "rp_action p = Create_action" "rs_kind portal = rp_kind p"
    "rs_key portal = rp_key p" "rs_kind portal = Portal"
proof -
  obtain r0 p0 where b: "Option.bind (lv_receipt live) (\<lambda>r. map_option (Pair r) (rc_pending r)) = Some (r0, p0)"
    using assms by (cases "Option.bind (lv_receipt live) (\<lambda>r. map_option (Pair r) (rc_pending r))") (auto simp: pendingPortal_def)
  from assms [unfolded pendingPortal_def b option.case prod.case if_Inl andThen_Inr]
  obtain d :: desired_state where c: "rp_action p0 = Create_action" "rp_kind p0 = Portal"
    and f: "(case find (\<lambda>r. rs_kind r = Portal \<and> rs_key r = rp_key p0) (ds_resources d) of
        None \<Rightarrow> Inl (GatewayReconcileError ''pending_conflict'')
      | Some portal \<Rightarrow>
          if dr_desiredHash portal \<noteq> rp_expectedDesiredHash p0
             \<or> canonicalJson (policy_value (ds_accessPolicy d)) \<noteq> canonicalJson (policy_value (rc_accessPolicy r0))
          then Inl (GatewayReconcileError ''pending_conflict'')
          else andThen (assertPendingPortalRollbackTopology (lv_plan live) r0 (ds_resources d) portal)
            (\<lambda>_. Inr (r0, p0, portal))) = Inr (r, p, portal)"
    by blast
  obtain portal' where portal': "find (\<lambda>r. rs_kind r = Portal \<and> rs_key r = rp_key p0) (ds_resources d) = Some portal'"
    using f by (cases "find (\<lambda>r. rs_kind r = Portal \<and> rs_key r = rp_key p0) (ds_resources d)") simp_all
  from f [unfolded portal' option.case if_Inl andThen_Inr] have eq: "r0 = r" "p0 = p" "portal' = portal" by auto
  show "lv_receipt live = Some r" "rc_pending r = Some p" "rp_action p = Create_action"
    using b c eq by (auto simp: bound_pending)
  show "rs_kind portal = rp_kind p" "rs_key portal = rp_key p" "rs_kind portal = Portal"
    using portal' c eq by (auto simp: find_Some_iff)
qed

lemma safely_or_refuse: "secure sha A R m h \<Longrightarrow> secure sha A R (or_refuse m code) h"
  unfolding secure_def or_refuse_def by (erule safely_rethrow) simp

text \<open>An inspection with the evidence it gives, and a rollback call.\<close>

lemma secure_inspect:
  assumes "A h (Inspect mi)" "key = pc_key (mi_change mi)"
    and "\<And>v e. normalizePendingPortalRollbackEvidence v key = Inr e \<Longrightarrow> R e (h @ [(Inspect mi, Inr v)])"
  shows "secure sha A R (or_refuse (seq (inspectCall context mi) (\<lambda>value.
    lift (normalizePendingPortalRollbackEvidence value key))) code) h"
proof (rule safely_or_refuse)
  show "secure sha A R (seq (inspectCall context mi) (\<lambda>value. lift (normalizePendingPortalRollbackEvidence value key))) h"
    unfolding inspectCall_def
  proof (cases "cx_canInspect context")
    case True
    have "secure sha A (\<lambda>v h'. h' = h @ [(Inspect mi, Inr v)]) (call (Inspect mi)) h"
      by (rule safely_secure, rule safely_call) (simp_all add: assms(1))
    then show "secure sha A R (seq (if cx_canInspect context then call (Inspect mi)
        else throw (GatewayReconcileError ''mutation_failed'')) (\<lambda>value. lift (normalizePendingPortalRollbackEvidence value key))) h"
      unfolding if_P [OF True] by (rule secure_seq) (auto intro!: secure_lift assms(3))
  qed (simp add: secure_def)
qed

lemma secure_buildRollback:
  "secure (pf_sha pf) (rollback_policy pf context)
    (\<lambda>pv h'. rollback_at pf context h' pv \<and> journaled_call (pf_sha pf) h' (pp_providerInput pv))
    (buildPendingPortalRollbackPreview pf context) h"
  unfolding buildPendingPortalRollbackPreview_def case_prod_beta Let_def
proof (rule secure_seq [OF secure_readLive], rule secure_seq_lift, goal_cases)
  case (1 live h1 x)
  obtain r p portal where x: "x = (r, p, portal)" by (cases x) auto
  note parts = pendingPortal_parts [OF 1(3) [unfolded x]]
  have j: "journaled_call (pf_sha pf) h1 (portal_input context r portal)"
    using 1(1) parts live_stored by (auto simp: journaled_call_def journaled_def)
  show ?case
    unfolding x fst_conv snd_conv
  proof (rule secure_seq [OF secure_inspect [where R = "\<lambda>e h'. inspected h' (portal_input context r portal) e
        \<and> journaled_call (pf_sha pf) h' (portal_input context r portal)"]], goal_cases)
    case (4 e h2)
    then show ?case
    proof (intro secure_seq_lift secure_return, goal_cases)
      case (1 u d)
      then show ?case
        using \<open>live_at pf context h1 live \<and> _\<close> \<open>pendingPortal pf context live = Inr x\<close> x
        by (auto simp: rollback_at_def hash_or_fail_def split: option.splits)
    qed
  qed (use j in \<open>auto simp: rollback_policy_def inspected_def journaled_call_def\<close>)
qed

text \<open>
  What a finished rollback leaves. It asked the provider to roll the portal of the approved preview back, then inspected that portal
  again and found it absent; the store holds a receipt without a pending action.
\<close>

definition rollback_reported :: "platform \<Rightarrow> reconcile_context \<Rightarrow> string \<times> receipt_summary \<Rightarrow> reconcile_trace \<Rightarrow> bool" where
  "rollback_reported pf context result h \<longleftrightarrow> (\<exists>pre performed verified post pv r.
     h = pre @ (Rollback (pp_providerInput pv), Inr performed) # (Inspect (pp_providerInput pv), Inr verified) # post
     \<and> rollback_at pf context pre pv \<and> cx_approvedRollbackId context = Some (pp_rollbackId pv)
     \<and> pc_kind (mi_change (pp_providerInput pv)) = Portal
     \<and> normalizePendingPortalRollbackEvidence verified (rs_key (pp_portal pv)) = Inr Portal_already_absent
     \<and> holds (pf_sha pf) h r \<and> rc_pending r = None \<and> result = (pp_rollbackId pv, receiptSummary r))"

lemma cleared_idle:
  assumes "clearReceiptAction sha (receipt_value r) i = Inr r'" "sealed sha r" shows "sealed sha r' \<and> rc_pending r' = None"
  using assms(1) sealed_validates [OF assms(2)] assms(2) by (cases rule: clear_Inr) auto

lemma secure_rollbackLocked:
  "secure (pf_sha pf) (rollback_policy pf context) (rollback_reported pf context) (rollbackPendingPortalCreateLocked pf context) h"
  unfolding rollbackPendingPortalCreateLocked_def
proof (rule secure_seq [OF secure_buildRollback], rule secure_seq_refuse, goal_cases)
  case (1 pv h1)
  let ?mi = "pp_providerInput pv"
  have pv: "rollback_at pf context h1 pv" "cx_approvedRollbackId context = Some (pp_rollbackId pv)" using 1 by simp_all
  have j: "journaled_call (pf_sha pf) h1 ?mi" and A: "rollback_policy pf context h1 (Rollback ?mi)"
    using 1 by (auto simp: rollback_policy_def)
  have key: "rs_key (pp_portal pv) = pc_key (mi_change ?mi)" and kind: "pc_kind (mi_change ?mi) = Portal"
    using 1(1) pendingPortal_parts(6) by (auto simp: rollback_at_def)
  define asked where "asked h' a \<longleftrightarrow> h' = h1 @ [(Rollback ?mi, Inr a)]" for h' a
  have asked_j: "asked h' a \<Longrightarrow> journaled_call (pf_sha pf) h' ?mi" for h' a
    using j by (simp add: asked_def journaled_call_def)
  have "secure (pf_sha pf) (rollback_policy pf context) (\<lambda>_ h'. \<exists>a. asked h' a)
      (or_refuse (seq (rollbackCall context ?mi) (\<lambda>value.
         lift (normalizePendingPortalRollbackMutationResult value (rs_key (pp_portal pv))))) ''mutation_failed'') h1"
  proof (rule safely_or_refuse, unfold rollbackCall_def, cases "cx_canRollback context")
    case True
    have "secure (pf_sha pf) (rollback_policy pf context) (\<lambda>v h'. asked h' v) (call (Rollback ?mi)) h1"
      by (rule safely_secure, rule safely_call) (use j A in \<open>simp_all add: asked_def\<close>)
    then show "secure (pf_sha pf) (rollback_policy pf context) (\<lambda>_ h'. \<exists>a. asked h' a)
        (seq (if cx_canRollback context then call (Rollback ?mi) else throw (GatewayReconcileError ''mutation_failed''))
          (\<lambda>value. lift (normalizePendingPortalRollbackMutationResult value (rs_key (pp_portal pv))))) h1"
      unfolding if_P [OF True] by (rule secure_seq) (auto intro!: secure_lift)
  qed (simp add: secure_def)
  then show ?case
  proof (rule secure_seq, goal_cases)
    case (1 m h2)
    define verified where "verified e h' \<longleftrightarrow> (\<exists>a v. h' = h1 @ [(Rollback ?mi, Inr a), (Inspect ?mi, Inr v)]
      \<and> normalizePendingPortalRollbackEvidence v (rs_key (pp_portal pv)) = Inr e)" for e h'
    show ?case
    proof (rule secure_seq [OF secure_inspect [where R = verified]], goal_cases)
      case (4 e h3)
      show ?case
      proof (rule secure_seq_refuse, subst seq_assoc [symmetric], rule secure_seq [OF secure_read_trusted], intro secure_rules, goal_cases)
        case (1 t h4 r cleared)
        then have r: "holds (pf_sha pf) h4 r" and c: "clearReceiptAction (pf_sha pf) (receipt_value r)
            (JStr (rp_operationId (pp_pending pv))) = Inr cleared" and h4: "prefix h3 h4" and e: "e = Portal_already_absent"
          by (simp_all add: holds_def type_failure_Inr)
        obtain a v where h3: "h3 = h1 @ [(Rollback ?mi, Inr a), (Inspect ?mi, Inr v)]"
          "normalizePendingPortalRollbackEvidence v (rs_key (pp_portal pv)) = Inr Portal_already_absent"
          using 4(1) e by (auto simp: verified_def)
        have ok: "sealed (pf_sha pf) cleared \<and> rc_pending cleared = None" using cleared_idle [OF c] r by (simp add: holds_def)
        have law: "lawful_write (pf_sha pf) h4 cleared"
          using lawful_step [OF r step_clear [OF c] forgets_nothing] kept_resources(2) [OF _ c] r by (simp add: holds_def)
        show ?case
        proof (rule secure_seq [OF secure_writeReceipt [OF law, where R = "\<lambda>_ h'. holds (pf_sha pf) h' cleared"]], goal_cases)
          case (2 u h5)
          obtain post where post: "h5 = h3 @ post" using h4 2(2) by (auto simp: prefix_def)
          have "rollback_reported pf context (pp_rollbackId pv, receiptSummary cleared) h5"
            unfolding rollback_reported_def
            by (rule exI [of _ h1], rule exI [of _ a], rule exI [of _ v], rule exI [of _ post], rule exI [of _ pv], rule exI [of _ cleared])
               (use 2(1) ok pv kind h3 post in simp)
          then show ?case by (rule secure_return)
        qed (simp add: ok holds_def)
      qed
    qed (use 1 key asked_j in \<open>auto simp: rollback_policy_def verified_def asked_def\<close>)
  qed
qed

end
