(* ===== verification/Reconciler_Exclusive.thy ===== *)
theory Reconciler_Exclusive
  imports Reconciler_Removal_Safety
begin

text \<open>
  The operations that change anything run under the receipt lock: they take it first, make every
  other call while they hold it, and release it whatever happens. What they throw is an error of the
  reconciler, except for the \<^verbatim>\<open>TypeError\<close> of a malformed input, which is thrown before any call.
\<close>

section \<open>The lock\<close>

fun lock_event :: "reconcile_call \<times> (failure + jval) \<Rightarrow> bool \<Rightarrow> bool" where
  "lock_event (Lock, Inr v) l = True"
| "lock_event (Unlock, a) l = False"
| "lock_event _ l = l"

definition locked :: "reconcile_trace \<Rightarrow> bool" where
  "locked h = fold lock_event h False"

lemma locked_snoc [simp]: "locked (h @ [e]) = lock_event e (locked h)"
  by (simp add: locked_def)

lemma locked_Nil [simp]: "\<not> locked []"
  by (simp add: locked_def)

definition guarded :: "(string \<Rightarrow> string) \<Rightarrow> (reconcile_trace \<Rightarrow> reconcile_call \<Rightarrow> bool) \<Rightarrow> reconcile_trace
    \<Rightarrow> reconcile_call \<Rightarrow> bool" where
  "guarded sha A h c \<longleftrightarrow> collided sha h \<or> (case c of
     Lock \<Rightarrow> h = []
   | Unlock \<Rightarrow> locked h
   | _ \<Rightarrow> locked h \<and> lawful_call sha A h c)"

lemma lawful_guarded:
  "wp (lawful sha A) Q p h \<Longrightarrow> collided sha h \<or> locked h
     \<Longrightarrow> wp (guarded sha A) (\<lambda>r h'. Q r h' \<and> (collided sha h' \<or> locked h')) p h"
proof (induction p arbitrary: h)
  case (Ask c k)
  have c: "collided sha h \<or> lawful_call sha A h c" using Ask.prems(1) by (simp add: lawful_def)
  then have g: "guarded sha A h c"
    using Ask.prems(2) by (cases c) (auto simp: guarded_def lawful_call_def)
  have "collided sha (h @ [(c, a)]) \<or> locked (h @ [(c, a)])" for a
  proof (cases "collided sha h")
    case True
    then show ?thesis using collided_mono by fastforce
  next
    case False
    then have "locked h" "lawful_call sha A h c" using c Ask.prems(2) by simp_all
    then have "locked (h @ [(c, a)])" by (cases c; cases a) (simp_all add: lawful_call_def)
    then show ?thesis ..
  qed
  then show ?case using g Ask by simp
qed simp

text \<open>What a locked run ends in: the lock released, an error of the reconciler or the value of the operation.\<close>

definition released :: "(string \<Rightarrow> string) \<Rightarrow> ('x \<Rightarrow> reconcile_trace \<Rightarrow> bool) \<Rightarrow> failure + 'x \<Rightarrow> reconcile_trace \<Rightarrow> bool" where
  "released sha R r h \<longleftrightarrow> \<not> locked h \<and> (case r of
     Inl e \<Rightarrow> is_gateway_error e
   | Inr x \<Rightarrow> (\<exists>h' v. h = h' @ [(Unlock, Inr v)] \<and> (collided sha h' \<or> R x h')))"

definition ended :: "(string \<Rightarrow> string) \<Rightarrow> ('x \<Rightarrow> reconcile_trace \<Rightarrow> bool) \<Rightarrow> failure + 'x \<Rightarrow> reconcile_trace \<Rightarrow> bool" where
  "ended sha R r h \<longleftrightarrow> \<not> locked h \<and> (case r of
     Inl e \<Rightarrow> True
   | Inr x \<Rightarrow> (\<exists>h' v. h = h' @ [(Unlock, Inr v)] \<and> (collided sha h' \<or> R x h')))"

lemma wp_unlock:
  assumes "(case outcome of Inl e \<Rightarrow> True | Inr x \<Rightarrow> collided sha h \<or> R x h) \<and> (collided sha h \<or> locked h)"
  shows "wp (guarded sha A) (ended sha R) (seq (attempt (call Unlock)) (\<lambda>released. case outcome of
      Inl error \<Rightarrow> throw error
    | Inr value \<Rightarrow> (case released of Inl error \<Rightarrow> throw error | Inr _ \<Rightarrow> return value))) h"
proof -
  have "guarded sha A h Unlock" using assms by (auto simp: guarded_def)
  then show ?thesis using assms
    by (cases outcome) (auto simp: wp_simps ended_def split: sum.split)
qed

lemma wp_exclusively:
  assumes op: "\<And>v. secure sha A R op [(Lock, Inr v)]"
  shows "wp (guarded sha A) (ended sha R) (exclusively context op) []"
proof -
  have run: "wp (guarded sha A) (\<lambda>r h'. (case r of Inl e \<Rightarrow> True | Inr x \<Rightarrow> collided sha h' \<or> R x h')
      \<and> (collided sha h' \<or> locked h')) op [(Lock, Inr v)]" for v
    using op [of v] unfolding secure_def safely_def by (rule lawful_guarded) (simp add: locked_def)
  have body: "wp (guarded sha A) (ended sha R) (seq (attempt op) (\<lambda>outcome. seq (attempt (call Unlock)) (\<lambda>released.
        case outcome of
          Inl error \<Rightarrow> throw error
        | Inr value \<Rightarrow> (case released of Inl error \<Rightarrow> throw error | Inr _ \<Rightarrow> return value)))) [(Lock, Inr v)]" for v
    unfolding wp_seq [of _ _ "attempt op"] wp_attempt sum.case by (rule wp_post [OF run]) (rule wp_unlock)
  have "guarded sha A [] Lock" by (simp add: guarded_def)
  then show ?thesis using body by (auto simp: exclusively_def wp_seq wp_call ended_def locked_def split: sum.split)
qed

lemma wp_withReceiptLock:
  assumes "\<And>v. secure sha A R op [(Lock, Inr v)]"
  shows "wp (guarded sha A) (released sha R) (withReceiptLock context op) []"
  unfolding withReceiptLock_def wp_catch
proof (rule wp_post [OF wp_exclusively [OF assms]], goal_cases)
  case (1 r h)
  then show ?case by (cases r) (auto simp: ended_def released_def GatewayReconcileError_def)
qed

section \<open>The three operations\<close>

lemma wp_checked:
  assumes "\<And>c. r = Inr c \<Longrightarrow> wp (guarded sha (A c)) (released sha (R c)) (f c) []" "\<And>e. r = Inl e \<Longrightarrow> e = Type_error"
  shows "case r of
      Inl e \<Rightarrow> seq (lift r) f = throw Type_error
    | Inr c \<Rightarrow> wp (guarded sha (A c)) (released sha (R c)) (seq (lift r) f) []"
  using assms by (cases r) (auto simp: seq_def lift_def)

lemma requireContext_error: "requireContext pf input m = Inl e \<Longrightarrow> e = Type_error"
  by (auto simp: requireContext_def andThen_def type_failure_def split: option.splits sum.splits if_splits jval.splits)

lemma rollbackContext_error: "requirePendingPortalRollbackContext pf input m = Inl e \<Longrightarrow> e = Type_error"
  by (auto simp: requirePendingPortalRollbackContext_def andThen_def dest: requireContext_error split: sum.splits if_splits)

lemma applyGateway_run:
  "case requireContext pf input True of
     Inl e \<Rightarrow> applyGateway pf input = throw Type_error
   | Inr c \<Rightarrow> wp (guarded (pf_sha pf) (apply_policy pf c)) (released (pf_sha pf) (apply_reported pf c)) (applyGateway pf input) []"
  unfolding applyGateway_def
  by (rule wp_checked [where A = "apply_policy pf" and R = "apply_reported pf"])
     (auto intro: wp_withReceiptLock secure_applyGatewayLocked dest: requireContext_error)

lemma uninstallGateway_run:
  "case requireContext pf input True of
     Inl e \<Rightarrow> uninstallGateway pf input = throw Type_error
   | Inr c \<Rightarrow> wp (guarded (pf_sha pf) (uninstall_policy pf c)) (released (pf_sha pf) (uninstall_reported pf)) (uninstallGateway pf input) []"
  unfolding uninstallGateway_def
  by (rule wp_checked [where A = "uninstall_policy pf" and R = "\<lambda>_. uninstall_reported pf"])
     (auto intro: wp_withReceiptLock secure_uninstallGatewayLocked dest: requireContext_error)

lemma rollback_run:
  "case requirePendingPortalRollbackContext pf input True of
     Inl e \<Rightarrow> rollbackPendingPortalCreate pf input = throw Type_error
   | Inr c \<Rightarrow> wp (guarded (pf_sha pf) (rollback_policy pf c)) (released (pf_sha pf) (rollback_reported pf c)) (rollbackPendingPortalCreate pf input) []"
  unfolding rollbackPendingPortalCreate_def
  by (rule wp_checked [where A = "rollback_policy pf" and R = "rollback_reported pf"])
     (auto intro: wp_withReceiptLock secure_rollbackLocked dest: rollbackContext_error)

section \<open>Reading only\<close>

text \<open>Actions that make calls of one sort only.\<close>

definition only :: "(reconcile_call \<Rightarrow> bool) \<Rightarrow> 'x reconcile \<Rightarrow> bool" where
  "only P p \<longleftrightarrow> (\<forall>h. wp (\<lambda>_ c. P c) (\<lambda>_ _. True) p h)"

lemma only_lift: "only P (lift r)"
  by (simp add: only_def wp_lift)

lemma only_throw: "only P (throw e)"
  by (simp add: only_def)

lemma only_return: "only P (return x)"
  by (simp add: only_def)

lemma only_refuse: "only P (refuse_if b e)"
  by (simp add: only_def wp_refuse)

lemma only_call: "P c \<Longrightarrow> only P (call c)"
  by (simp add: only_def wp_call)

lemma only_seq: "only P m \<Longrightarrow> (\<And>x. only P (f x)) \<Longrightarrow> only P (seq m f)"
  unfolding only_def by (auto intro: wp_seqI [where R = "\<lambda>_ _. True"])

lemma only_catch: "only P m \<Longrightarrow> (\<And>e. only P (f e)) \<Longrightarrow> only P (catch m f)"
  unfolding only_def by (auto intro: wp_catchI [where R = "\<lambda>_ _. True"])

lemma only_if: "only P p \<Longrightarrow> only P q \<Longrightarrow> only P (if b then p else q)"
  by simp

lemmas only_rules = only_lift only_throw only_return only_refuse only_call only_seq only_catch only_if

lemma only_readLive: "P Store_read \<Longrightarrow> (\<And>i. P (Observe i)) \<Longrightarrow> only P (readLive pf context)"
  unfolding readLive_def readReceipt_def readObserved_def by (intro only_rules) simp_all

fun reading :: "reconcile_call \<Rightarrow> bool" where
  "reading Store_read = True"
| "reading (Observe i) = True"
| "reading _ = False"

fun inspecting :: "reconcile_call \<Rightarrow> bool" where
  "inspecting (Inspect i) = True"
| "inspecting c = reading c"

end
