(* ===== verification/Reconciler_Bounds.thy ===== *)
theory Reconciler_Bounds
  imports Reconciler_Exclusive
begin

text \<open>
  How many mutations the reconciler asks for. \<open>applies_at_most\<close> counts them for each step; for a whole operation the bound is
  what was approved: at most one for an interrupted action and one for each change of one plan, or each action of one
  uninstallation preview, that was made of a state observed in that very run. It holds whatever is answered, with no
  reservation about checksums.
\<close>

section \<open>Counting mutations\<close>

fun is_change :: "reconcile_call \<Rightarrow> bool" where
  "is_change (Apply mi) = True"
| "is_change (Rollback mi) = True"
| "is_change _ = False"

definition applied :: "reconcile_trace \<Rightarrow> nat" where
  "applied h = length (filter (is_change \<circ> fst) h)"

definition applies_at_most :: "nat \<Rightarrow> 'x reconcile \<Rightarrow> bool" where
  "applies_at_most n p \<longleftrightarrow> (\<forall>h. wp (\<lambda>_ _. True) (\<lambda>_ h'. applied h' \<le> applied h + n) p h)"

lemma applied_snoc [simp]: "applied (h @ [(c, a)]) = applied h + (if is_change c then 1 else 0)"
  by (simp add: applied_def)

lemma at_most_only:
  assumes "only (\<lambda>c. \<not> is_change c) p" shows "applies_at_most n p"
proof -
  have "wp (\<lambda>_ _. True) (\<lambda>_ h'. applied h' \<le> applied h0 + n) p h"
    if "wp (\<lambda>_ c. \<not> is_change c) (\<lambda>_ _. True) p h" "applied h \<le> applied h0 + n" for h h0
    using that by (induction p arbitrary: h) auto
  then show ?thesis using assms by (simp add: only_def applies_at_most_def)
qed

lemma at_most_seq:
  assumes "applies_at_most m p" "\<And>x. applies_at_most n (f x)" shows "applies_at_most (m + n) (seq p f)"
  unfolding applies_at_most_def
proof
  fix h
  show "wp (\<lambda>_ _. True) (\<lambda>_ h'. applied h' \<le> applied h + (m + n)) (seq p f) h"
  proof (rule wp_seqI [where R = "\<lambda>_ h'. applied h' \<le> applied h + m"], goal_cases)
    case 1
    show ?case using assms(1) unfolding applies_at_most_def by blast
  next
    case (3 x h')
    have "wp (\<lambda>_ _. True) (\<lambda>_ h''. applied h'' \<le> applied h' + n) (f x) h'" using assms(2) unfolding applies_at_most_def by blast
    then show ?case using 3 by (auto intro: wp_post)
  qed simp
qed

lemma at_most_mono: assumes "applies_at_most m p" "m \<le> n" shows "applies_at_most n p"
  unfolding applies_at_most_def
proof
  fix h
  have "wp (\<lambda>_ _. True) (\<lambda>_ h'. applied h' \<le> applied h + m) p h" using assms(1) unfolding applies_at_most_def by blast
  then show "wp (\<lambda>_ _. True) (\<lambda>_ h'. applied h' \<le> applied h + n) p h" by (rule wp_post) (use assms(2) in simp)
qed

lemma only_option: "only P p \<Longrightarrow> (\<And>y. only P (q y)) \<Longrightarrow> only P (case x of None \<Rightarrow> p | Some y \<Rightarrow> q y)"
  by (cases x) auto

lemma only_list: "only P p \<Longrightarrow> (\<And>y ys. only P (q y ys)) \<Longrightarrow> only P (case x of [] \<Rightarrow> p | y # ys \<Rightarrow> q y ys)"
  by (cases x) auto

lemma only_attempt: "only P m \<Longrightarrow> only P (attempt m)"
  by (simp add: only_def wp_attempt)

lemmas only_intros = only_rules only_option only_list only_attempt

lemma at_most_option:
  "applies_at_most n p \<Longrightarrow> (\<And>y. applies_at_most n (q y)) \<Longrightarrow> applies_at_most n (case x of None \<Rightarrow> p | Some y \<Rightarrow> q y)"
  by (cases x) auto

lemma at_most_if: "applies_at_most n p \<Longrightarrow> applies_at_most n q \<Longrightarrow> applies_at_most n (if b then p else q)"
  by simp

lemma at_most_seq_left: "applies_at_most n p \<Longrightarrow> (\<And>x. only (\<lambda>c. \<not> is_change c) (f x)) \<Longrightarrow> applies_at_most n (seq p f)"
  using at_most_seq [where m = n and n = 0, of p f] at_most_only by auto

lemma at_most_seq_right: "only (\<lambda>c. \<not> is_change c) p \<Longrightarrow> (\<And>x. applies_at_most n (f x)) \<Longrightarrow> applies_at_most n (seq p f)"
  using at_most_seq [where m = 0 and n = n, of p f] at_most_only by auto

lemma quiet_steps:
  "only (\<lambda>c. \<not> is_change c) readReceipt" "only (\<lambda>c. \<not> is_change c) (writeReceipt r)" "only (\<lambda>c. \<not> is_change c) (progress context e)"
  "only (\<lambda>c. \<not> is_change c) (readLive pf context)" "only (\<lambda>c. \<not> is_change c) (readLiveOf pf context r)"
  "only (\<lambda>c. \<not> is_change c) (journalAction pf context r planId c ty prune)"
  "only (\<lambda>c. \<not> is_change c) (commitDeletion pf r)" "only (\<lambda>c. \<not> is_change c) (commitVerifiedChange pf r ch)"
  "only (\<lambda>c. \<not> is_change c) (clearDefinitelyUnsubmittedMutation pf r ch)"
proof -
  show w: "only (\<lambda>c. \<not> is_change c) (writeReceipt r)" for r unfolding writeReceipt_def by (intro only_intros) simp_all
  show r: "only (\<lambda>c. \<not> is_change c) readReceipt" unfolding readReceipt_def by (intro only_intros) simp_all
  show p: "only (\<lambda>c. \<not> is_change c) (progress ctx e)" for ctx e unfolding progress_def by (intro only_intros) simp_all
  show l: "only (\<lambda>c. \<not> is_change c) (readLive pf ctx)" for ctx by (rule only_readLive) simp_all
  show "only (\<lambda>c. \<not> is_change c) (readLiveOf pf context r)" unfolding readLiveOf_def by (rule l)
  show "only (\<lambda>c. \<not> is_change c) (journalAction pf context r planId c ty prune)"
    unfolding journalAction_def operationId_def Let_def by (intro only_intros w p) simp_all
  show "only (\<lambda>c. \<not> is_change c) (commitDeletion pf r)" unfolding commitDeletion_def by (intro only_intros w)
  show "only (\<lambda>c. \<not> is_change c) (commitVerifiedChange pf r ch)" unfolding commitVerifiedChange_def Let_def by (intro only_intros w)
  show "only (\<lambda>c. \<not> is_change c) (clearDefinitelyUnsubmittedMutation pf r ch)"
    unfolding clearDefinitelyUnsubmittedMutation_def by (intro only_intros w r)
qed

lemma one_mutation: "applies_at_most 1 (mutate pf context c r t)"
proof -
  have call: "applies_at_most 1 (attempt (seq (applyCall context i) f))" if "\<And>x. only (\<lambda>c. \<not> is_change c) (f x)" for i f
  proof -
    have "applies_at_most 1 (applyCall context i)" by (simp add: applyCall_def applies_at_most_def wp_call)
    then have "applies_at_most 1 (seq (applyCall context i) f)" using that by (rule at_most_seq_left)
    then show ?thesis by (simp add: applies_at_most_def wp_attempt)
  qed
  have "only (\<lambda>c. \<not> is_change c) (case outcome of
      Inl error \<Rightarrow> seq (progress context e) (\<lambda>_. if b error
        then seq (clearDefinitelyUnsubmittedMutation pf r c) (\<lambda>_. throw e1) else throw e2)
    | Inr result \<Rightarrow> seq (progress context e') (\<lambda>_. return result))" for outcome :: "failure + mutation_result" and e e' b e1 e2
    by (cases outcome) (auto intro!: only_intros quiet_steps)
  then show ?thesis unfolding mutate_def Let_def by (intro at_most_seq_left call only_lift)
qed

lemma one_submission:
  "applies_at_most 1 (deletePending pf context r p c t code)" "applies_at_most 1 (submitPending pf context r p c t)"
  "applies_at_most 1 (performPendingMutation pf context live)" "applies_at_most 1 (deleteOwned pf context r c t)"
proof -
  show d: "applies_at_most 1 (deletePending pf context r p c t code)" for r p c t code
    unfolding deletePending_def by (intro at_most_seq_left [OF one_mutation] only_intros quiet_steps)
  show s: "applies_at_most 1 (submitPending pf context r p c t)" for r p c t
    unfolding submitPending_def Let_def by (intro at_most_seq_left [OF one_mutation] only_intros quiet_steps)
  show "applies_at_most 1 (performPendingMutation pf context live)"
    unfolding performPendingMutation_def case_prod_beta
    by (intro at_most_option at_most_if at_most_seq_right only_intros d s at_most_only [OF only_throw])
  show "applies_at_most 1 (deleteOwned pf context r c t)"
    unfolding deleteOwned_def by (intro at_most_seq_left [OF one_mutation] only_intros quiet_steps)
qed

lemma recovery_bounds:
  "applies_at_most 1 (recoverApplyPending pf context live)" "applies_at_most 1 (recoverUninstallPending pf context pv)"
proof -
  show "applies_at_most 1 (recoverApplyPending pf context live)"
    unfolding recoverApplyPending_def Let_def case_prod_beta
    by (intro at_most_option at_most_if at_most_seq_right only_intros quiet_steps one_submission
        at_most_only [OF only_throw] at_most_only [OF only_seq])
  have b: "only (\<lambda>c. \<not> is_change c) (buildGatewayUninstallPlan pf c)" for c
    unfolding buildGatewayUninstallPlan_def by (intro only_intros quiet_steps)
  have "applies_at_most 1 (case ms of [] \<Rightarrow> return ()
      | [m] \<Rightarrow> seq (refuse_if (g m) e) (\<lambda>_. seq (refuse_if b e') (\<lambda>_. deleteOwned pf context r c t))
      | _ \<Rightarrow> throw e'')" for ms :: "cloud_resource list" and g e b e' r c t e''
    by (simp split: list.split)
       (auto intro!: at_most_seq_right only_intros one_submission(4) [unfolded One_nat_def] at_most_only [OF only_throw]
         at_most_only [OF only_return])
  then show "applies_at_most 1 (recoverUninstallPending pf context pv)"
    unfolding recoverUninstallPending_def
    by (intro at_most_option at_most_seq_right only_intros at_most_only [OF only_throw] at_most_seq_left b quiet_steps)
qed

lemma retire_quiet: "only (\<lambda>c. \<not> is_change c) (retireAbsentReceiptEntries pf context live r prune)"
proof -
  have "only (\<lambda>c. \<not> is_change c) (retireCandidates pf context planId prune live r cs)" for planId live r cs
    by (induction cs arbitrary: live r) (auto intro!: only_intros quiet_steps simp: case_prod_beta)
  then show ?thesis by (simp add: retireAbsentReceiptEntries_def)
qed

lemma changes_bound: "applies_at_most (length changes) (applyChanges pf context prune r changes)"
proof (induction changes arbitrary: r)
  case Nil
  then show ?case by (simp add: at_most_only [OF only_return])
next
  case (Cons c changes)
  have later: "applies_at_most (Suc (length changes)) (applyChanges pf context prune r' changes)" for r'
    by (rule at_most_mono [OF Cons.IH]) simp
  have "applies_at_most (1 + length changes) (seq (performPendingMutation pf context live') (\<lambda>after.
      case lv_receipt after of None \<Rightarrow> throw (GatewayReconcileError ''receipt_changed'')
      | Some committed \<Rightarrow> applyChanges pf context prune committed changes))" for live'
    by (intro at_most_seq one_submission at_most_option Cons.IH at_most_only [OF only_throw])
  then show ?case
    by (simp only: applyChanges.simps Let_def list.size plus_1_eq_Suc add_0_right add_Suc_right)
       (intro at_most_if later at_most_seq_right [OF quiet_steps(5)] at_most_seq_right [OF only_lift]
         at_most_seq_right [OF quiet_steps(6)])
qed

lemma actions_bound: "applies_at_most (length actions) (uninstallActions pf context planId r actions)"
proof (induction actions arbitrary: r)
  case Nil
  then show ?case by (simp add: at_most_only [OF only_return])
next
  case (Cons a actions)
  have later: "applies_at_most (Suc (length actions)) (uninstallActions pf context planId r' actions)" for r'
    by (rule at_most_mono [OF Cons.IH]) simp
  have "applies_at_most (1 + length actions) (seq (if b then deleteOwned pf context pending d t else return ()) (\<lambda>_.
      seq (commitDeletion pf pending) (\<lambda>committed. uninstallActions pf context planId committed actions)))" for b pending d t
    by (intro at_most_seq at_most_if one_submission at_most_seq_right quiet_steps Cons.IH at_most_only [OF only_return])
  moreover have b: "only (\<lambda>c. \<not> is_change c) (buildGatewayUninstallPlan pf c)" for c
    unfolding buildGatewayUninstallPlan_def by (intro only_intros quiet_steps)
  ultimately show ?case
    by (simp only: uninstallActions.simps list.size plus_1_eq_Suc add_0_right add_Suc_right)
       (intro at_most_seq_right [OF only_refuse] at_most_seq_right [OF quiet_steps(6)] at_most_seq_right [OF b] at_most_option later
         at_most_only [OF only_throw])
qed

section \<open>Counting the mutations of a whole operation\<close>

text \<open>A plan, or an uninstallation preview, that was made of a state observed in the run.\<close>

definition plan_made :: "platform \<Rightarrow> reconcile_context \<Rightarrow> reconcile_trace \<Rightarrow> gateway_plan \<Rightarrow> bool" where
  "plan_made pf context h plan \<longleftrightarrow> (\<exists>h' s. prefix h' h \<and> seen_at h' = Some s \<and> plan_from pf context s = Some plan)"

definition preview_made :: "platform \<Rightarrow> reconcile_context \<Rightarrow> reconcile_trace \<Rightarrow> uninstall_preview \<Rightarrow> bool" where
  "preview_made pf context h pv \<longleftrightarrow> (\<exists>h'. prefix h' h \<and> preview_at pf context h' pv)"

text \<open>
  What bounds the mutations of an apply: one for an interrupted action, and one for each change of a single plan, made in this run
  in which the approved plan was made too. For an uninstallation it is the actions of a single preview.
\<close>

definition apply_bound :: "platform \<Rightarrow> reconcile_context \<Rightarrow> reconcile_trace \<Rightarrow> nat \<Rightarrow> bool" where
  "apply_bound pf context h n \<longleftrightarrow> n = 1 \<or> (\<exists>approved plan. plan_made pf context h approved
     \<and> cx_approvedPlanId context = Some (gp_planId approved) \<and> plan_made pf context h plan
     \<and> n = 1 + length (approvedChanges context plan))"

definition uninstall_bound :: "platform \<Rightarrow> reconcile_context \<Rightarrow> reconcile_trace \<Rightarrow> nat \<Rightarrow> bool" where
  "uninstall_bound pf context h n \<longleftrightarrow> n = 1 \<or> (\<exists>pv. uninstall_grant pf context h (deletion_of undefined)
     \<and> preview_made pf context h pv \<and> n = 1 + length (up_actions pv))"

lemma plan_made_mono: "plan_made pf context h plan \<Longrightarrow> prefix h h' \<Longrightarrow> plan_made pf context h' plan"
  unfolding plan_made_def using prefix_order.trans by blast

lemma preview_made_mono: "preview_made pf context h pv \<Longrightarrow> prefix h h' \<Longrightarrow> preview_made pf context h' pv"
  unfolding preview_made_def using prefix_order.trans by blast

lemma apply_bound_mono: "apply_bound pf context h n \<Longrightarrow> prefix h h' \<Longrightarrow> apply_bound pf context h' n"
  unfolding apply_bound_def using plan_made_mono by blast

lemma uninstall_bound_mono: "uninstall_bound pf context h n \<Longrightarrow> prefix h h' \<Longrightarrow> uninstall_bound pf context h' n"
  unfolding uninstall_bound_def using preview_made_mono uninstalling.persists by blast

lemma live_plan_made: "live_at pf context h live \<Longrightarrow> plan_made pf context h (lv_plan live)"
  by (auto simp: live_at_def plan_made_def)

subsection \<open>The plans the steps go on with\<close>

abbreviation ends_with :: "('x \<Rightarrow> reconcile_trace \<Rightarrow> bool) \<Rightarrow> 'x reconcile \<Rightarrow> reconcile_trace \<Rightarrow> bool" where
  "ends_with \<equiv> safely (\<lambda>_ _. True)"

lemma ends_any: "wp (\<lambda>_ _. True) (\<lambda>_ _. True) p h"
  by (induction p arbitrary: h) simp_all

lemma ends_seq: "(\<And>x h'. prefix h h' \<Longrightarrow> ends_with R (f x) h') \<Longrightarrow> ends_with R (seq m f) h"
  by (rule safely_seq [where R = "\<lambda>_ _. True"]) (simp_all add: safely_def ends_any cong: sum.case_cong)

lemma ends_readLive: "ends_with (\<lambda>live h'. live_at pf context h' live) (readLive pf context) h"
  unfolding safely_def by (rule wp_readLive) simp_all

lemma ends_readLiveOf: "ends_with (\<lambda>live h'. plan_made pf context h' (lv_plan live)) (readLiveOf pf context r) h"
  unfolding readLiveOf_def by (rule safely_post [OF ends_readLive]) (simp add: live_plan_made)

lemma ends_read:
  assumes "\<And>live h'. plan_made pf context h' (lv_plan live) \<Longrightarrow> prefix h h' \<Longrightarrow> ends_with R (f live) h'"
  shows "ends_with R (seq (readLiveOf pf context r) f) h"
  by (rule safely_seq [OF ends_readLiveOf]) (use assms in blast)

lemma ends_submission:
  "ends_with (\<lambda>live h'. plan_made pf context h' (lv_plan live)) (deletePending pf context r p c t code) h"
  "ends_with (\<lambda>live h'. plan_made pf context h' (lv_plan live)) (submitPending pf context r p c t) h"
  "ends_with (\<lambda>live h'. plan_made pf context h' (lv_plan live)) (performPendingMutation pf context live) h"
proof -
  show d: "ends_with (\<lambda>live h'. plan_made pf context h' (lv_plan live)) (deletePending pf context r p c t code) h" for r p c t code h
    unfolding deletePending_def by (intro ends_seq ends_readLiveOf)
  show s: "ends_with (\<lambda>live h'. plan_made pf context h' (lv_plan live)) (submitPending pf context r p c t) h" for r p c t h
    unfolding submitPending_def Let_def
    by (rule ends_seq, intro safely_if safely_option)
       (rule ends_read | rule safely_seq_refuse | rule safely_option | rule ends_seq | rule ends_readLiveOf | simp)+
  show "ends_with (\<lambda>live h'. plan_made pf context h' (lv_plan live)) (performPendingMutation pf context live) h"
    unfolding performPendingMutation_def case_prod_beta
    by (rule safely_option | rule safely_if | rule safely_seq_refuse | rule safely_seq_lift | rule d | rule s | simp)+
qed

lemma ends_recovery: "ends_with (\<lambda>live h'. plan_made pf context h' (lv_plan live)) (recoverApplyPending pf context live) h"
  unfolding recoverApplyPending_def Let_def case_prod_beta
  by (rule safely_option | rule safely_if | rule safely_seq_refuse | rule safely_seq_lift | rule ends_submission
      | rule ends_seq | rule ends_readLiveOf | simp)+

lemma ends_liveToApply: "ends_with (\<lambda>live h'. plan_made pf context h' (lv_plan live)) (liveToApply pf context) h"
  unfolding liveToApply_def
  by (rule safely_seq [OF ends_readLive])
     (intro safely_if safely_option ends_recovery; simp add: live_plan_made)

lemma ends_receiptToUse:
  assumes "plan_made pf context h (lv_plan live)"
  shows "ends_with (\<lambda>lr h'. plan_made pf context h' (lv_plan (fst lr))) (receiptToUse pf context live) h"
  unfolding receiptToUse_def
  by (rule safely_option | rule safely_seq_lift | rule ends_read | rule ends_seq | simp add: assms)+

lemma ends_retire:
  assumes "plan_made pf context h (lv_plan live)"
  shows "ends_with (\<lambda>lr h'. plan_made pf context h' (lv_plan (fst lr))) (retireCandidates pf context planId prune live r cs) h"
  using assms
proof (induction cs arbitrary: live r h)
  case (Cons c cs)
  show ?case
    unfolding retireCandidates.simps case_prod_beta
    by (rule Cons.IH | assumption | rule safely_option | rule safely_seq_lift | rule safely_seq_refuse | rule ends_read | rule ends_seq)+
qed simp

subsection \<open>The operations\<close>

lemma wp_prefix: "wp (\<lambda>_ _. True) (\<lambda>_ h'. prefix h h') p h"
  by (rule wp_extends, rule wp_post [OF ends_any]) auto

lemma counted_step:
  assumes "applies_at_most n p" "ends_with R p h"
  shows "wp (\<lambda>_ _. True) (\<lambda>r h'. applied h' \<le> applied h + n \<and> prefix h h' \<and> (case r of Inl e \<Rightarrow> True | Inr x \<Rightarrow> R x h')) p h"
  using wp_conj [OF spec [OF assms(1) [unfolded applies_at_most_def]] wp_conj [OF wp_prefix assms(2) [unfolded safely_def]]]
  by (rule wp_mono) simp_all

lemma wp_seq_checks:
  "(\<And>e. Q (Inl e) h) \<Longrightarrow> (\<And>x. r = Inr x \<Longrightarrow> wp G Q (f x) h) \<Longrightarrow> wp G Q (seq (lift r) f) h"
  "Q (Inl e) h \<Longrightarrow> (\<not> b \<Longrightarrow> wp G Q (g ()) h) \<Longrightarrow> wp G Q (seq (refuse_if b e) g) h"
  by (auto simp: wp_seq wp_lift wp_refuse split: sum.split)

lemma locked_quiet:
  "only (\<lambda>c. \<not> is_change c) (receiptToUse pf context live)" "only (\<lambda>c. \<not> is_change c) (finishApply pf context r)"
  unfolding receiptToUse_def finishApply_def by (intro only_intros quiet_steps)+

lemma liveToApply_bound: "applies_at_most 1 (liveToApply pf context)"
  unfolding liveToApply_def
  by (intro at_most_seq_right quiet_steps at_most_if at_most_option recovery_bounds at_most_only [OF only_throw] at_most_only [OF only_return])

lemma count_changes:
  assumes "plan_made pf context h approved" "cx_approvedPlanId context = Some (gp_planId approved)" "plan_made pf context h plan"
    "applied h \<le> 1"
  shows "wp (\<lambda>_ _. True) (\<lambda>_ h'. \<exists>n. apply_bound pf context h' n \<and> applied h' \<le> n)
    (seq (applyChanges pf context prune r (approvedChanges context plan)) (finishApply pf context)) h"
proof -
  let ?changes = "approvedChanges context plan"
  have "applies_at_most (length ?changes) (seq (applyChanges pf context prune r ?changes) (finishApply pf context))"
    by (intro at_most_seq_left changes_bound locked_quiet)
  moreover have "ends_with (\<lambda>_ _. True) p h" for p :: "apply_report reconcile" and h by (simp add: safely_def ends_any cong: sum.case_cong)
  ultimately show ?thesis
  proof (rule wp_post [OF counted_step], goal_cases)
    case (1 r h')
    then have "apply_bound pf context h' (1 + length ?changes)"
      using assms(1-3) plan_made_mono unfolding apply_bound_def by blast
    then show ?case using 1 assms(4) by (intro exI [of _ "1 + length ?changes"]) simp
  qed
qed

lemma count_apply:
  assumes "applied h = 0"
  shows "wp (\<lambda>_ _. True) (\<lambda>_ h'. \<exists>n. apply_bound pf context h' n \<and> applied h' \<le> n) (applyGatewayLocked pf context) h"
    (is "wp _ (\<lambda>_. ?Q) _ _")
proof -
  have one: "?Q h'" if "applied h' \<le> 1" for h' using that by (auto simp: apply_bound_def)
  show ?thesis
    unfolding applyGatewayLocked_def case_prod_beta retireAbsentReceiptEntries_def
  proof (rule wp_seqI [OF counted_step [OF liveToApply_bound ends_liveToApply]], goal_cases)
    case (2 live h1)
    then have live: "plan_made pf context h1 (lv_plan live)" and n1: "applied h1 \<le> 1" using assms by simp_all
    show ?case
    proof (intro wp_seq_checks one n1, goal_cases)
      case (1 u prune v)
      then have approved: "cx_approvedPlanId context = Some (gp_planId (lv_plan live))" by simp
      show ?case
      proof (rule wp_seqI [OF counted_step [OF at_most_only [OF locked_quiet(1), of 0] ends_receiptToUse [OF live]]], goal_cases)
        case (2 lr h2)
        then have n2: "applied h2 \<le> 1" and made: "plan_made pf context h2 (lv_plan (fst lr))" using n1 by simp_all
        have live2: "plan_made pf context h2 (lv_plan live)" using live 2 plan_made_mono by blast
        show ?case
        proof (intro wp_seq_checks one n2, goal_cases)
          case (1 u)
          show ?case
          proof (rule wp_seqI [OF counted_step [OF at_most_only [OF retire_quiet [unfolded retireAbsentReceiptEntries_def], of 0]
                ends_retire [OF made]]], goal_cases)
            case (2 lr' h3)
            then show ?case using n2 live2 plan_made_mono by (intro count_changes [OF _ approved]) auto
          qed (use n2 one in simp)
        qed
      qed (use n1 one in simp)
    qed
  qed (use assms one in simp)
qed

lemma quiet_uninstallPlan: "only (\<lambda>c. \<not> is_change c) (buildGatewayUninstallPlan pf context)"
  unfolding buildGatewayUninstallPlan_def by (intro only_intros quiet_steps)

lemma ends_uninstallPlan: "ends_with (\<lambda>pv h'. preview_at pf context h' pv) (buildGatewayUninstallPlan pf context) h"
  unfolding buildGatewayUninstallPlan_def
  by (rule safely_seq [OF ends_readLive]) (auto intro!: safely_lift simp: preview_at_def)

lemma preview_override: "preview_at pf (with_override context r) = preview_at pf context"
  by (simp add: preview_at_def fun_eq_iff)

lemma ends_uninstallPlanOf:
  "ends_with (\<lambda>pv h'. preview_at pf context h' pv) (buildGatewayUninstallPlan pf (with_override context r)) h"
  using ends_uninstallPlan [of pf "with_override context r"] by (simp add: preview_override)

lemma ends_recoverUninstall:
  "ends_with (\<lambda>pv h'. preview_at pf context h' pv) (recoverUninstallPending pf context preview) h"
  unfolding recoverUninstallPending_def
  by (rule safely_option | rule safely_seq_lift | rule safely_seq_refuse | rule ends_uninstallPlanOf | rule ends_seq | simp)+

text \<open>What an uninstallation starts from: the identifier its approval is compared with, and the preview it works through.\<close>

lemma approval_of_preview:
  assumes "preview_at pf context h first" "cx_approvedUninstallId context = Some (case rc_pending (up_receipt first) of
      None \<Rightarrow> up_uninstallId first | Some p \<Rightarrow> rp_planId p)"
  shows "uninstall_grant pf context h (deletion_of undefined)"
proof -
  obtain live where live: "live_at pf context h live" "uninstall_plan_of (pf_sha pf) live = Inr first"
    using assms(1) by (auto simp: preview_at_def)
  have "uninstall_approved pf context live"
    using assms(2) live(2) uninstall_parts(1,4) [OF live(2)]
    by (cases "rc_pending (up_receipt first)") (auto simp: uninstall_approved_def)
  then show ?thesis using live(1) by (auto simp: uninstall_grant_def)
qed

lemma count_uninstall:
  assumes "applied h = 0"
  shows "wp (\<lambda>_ _. True) (\<lambda>_ h'. \<exists>n. uninstall_bound pf context h' n \<and> applied h' \<le> n) (uninstallGatewayLocked pf context) h"
    (is "wp _ (\<lambda>_. ?Q) _ _")
proof -
  have one: "?Q h'" if "applied h' \<le> 1" for h' using that by (auto simp: uninstall_bound_def)
  show ?thesis
    unfolding uninstallGatewayLocked_def case_prod_beta
  proof (rule wp_seqI [OF counted_step [OF at_most_only [OF quiet_uninstallPlan, of 0] ends_uninstallPlan]], goal_cases)
    case (2 first h1)
    then have first: "preview_at pf context h1 first" and n1: "applied h1 = 0" using assms by simp_all
    let ?id = "case rc_pending (up_receipt first) of None \<Rightarrow> up_uninstallId first | Some p \<Rightarrow> rp_planId p"
    let ?start = "case rc_pending (up_receipt first) of
         None \<Rightarrow> return (up_uninstallId first, first)
       | Some pending \<Rightarrow> seq (recoverUninstallPending pf context first) (\<lambda>preview. return (rp_planId pending, preview))"
    have b: "applies_at_most 1 ?start"
      by (intro at_most_option at_most_seq_left recovery_bounds only_return at_most_only [OF only_return])
    have e: "ends_with (\<lambda>ip h'. fst ip = ?id \<and> preview_at pf context h' (snd ip)) ?start h1"
      by (rule safely_option) (use first in \<open>auto intro!: safely_seq [OF ends_recoverUninstall]\<close>)
    have "wp (\<lambda>_ _. True) (\<lambda>_. ?Q) (seq ?start (\<lambda>ip.
        seq (refuse_if (up_blockers (snd ip) \<noteq> []) (GatewayReconcileError ''ownership_conflict'')) (\<lambda>_.
        seq (refuse_if (cx_approvedUninstallId context \<noteq> Some (fst ip)) (GatewayReconcileError ''uninstall_approval_required'')) (\<lambda>_.
        seq (uninstallActions pf context (up_uninstallId (snd ip)) (up_receipt (snd ip)) (up_actions (snd ip))) (\<lambda>receipt.
        seq (refuse_if (rc_resources receipt \<noteq> []) (GatewayReconcileError ''verification_failed'')) (\<lambda>_.
        seq (lift (type_failure (markReceiptRemoved (pf_sha pf) (receipt_value receipt)))) (\<lambda>removed.
        seq (writeReceipt removed) (\<lambda>_.
          return \<lparr>ur_status = ''removed'', ur_uninstallId = fst ip, ur_receipt = receiptSummary removed\<rparr>)))))))) h1"
    proof (rule wp_seqI [OF counted_step [OF b e]], goal_cases)
      case (2 ip h2)
      then have n2: "applied h2 \<le> 1" using n1 by simp
      show ?case
      proof (intro wp_seq_checks one n2, goal_cases)
        case 1
        let ?actions = "up_actions (snd ip)"
        have granted: "uninstall_grant pf context h2 (deletion_of undefined)"
          using approval_of_preview [OF first] 1 2 uninstalling.persists by fastforce
        have made: "preview_made pf context h2 (snd ip)" using 2 by (auto simp: preview_made_def)
        have "applies_at_most (length ?actions) (seq (uninstallActions pf context i r ?actions) (\<lambda>receipt.
            seq (refuse_if (rc_resources receipt \<noteq> []) (GatewayReconcileError ''verification_failed'')) (\<lambda>_.
            seq (lift (type_failure (markReceiptRemoved (pf_sha pf) (receipt_value receipt)))) (\<lambda>removed.
            seq (writeReceipt removed) (\<lambda>_. return (report removed))))))" for i r and report :: "receipt \<Rightarrow> uninstall_report"
          by (intro at_most_seq_left actions_bound only_intros quiet_steps)
        moreover have "ends_with (\<lambda>_ _. True) p h" for p :: "uninstall_report reconcile" and h
          by (simp add: safely_def ends_any cong: sum.case_cong)
        ultimately show ?case
        proof (rule wp_post [OF counted_step], goal_cases)
          case (1 r h')
          then have "uninstall_bound pf context h' (1 + length ?actions)"
            using granted made preview_made_mono uninstalling.persists unfolding uninstall_bound_def by blast
          then show ?case using 1 n2 by (intro exI [of _ "1 + length ?actions"]) simp
        qed
      qed
    qed (use n1 one in simp)
    moreover have "?Q h1" by (rule one) (simp add: n1)
    ultimately show ?case by (cases "rc_state (up_receipt first) = Removed") simp_all
  next
    case (1 e h')
    show ?case by (rule one) (use 1 assms in simp)
  qed
qed

lemma one_rollback: "applies_at_most 1 (rollbackPendingPortalCreateLocked pf context)"
proof -
  have refused: "applies_at_most n (or_refuse m code)" if "applies_at_most n m" for n code and m :: "'x reconcile"
    using that unfolding applies_at_most_def or_refuse_def by (auto intro!: wp_catchI)
  have quiet: "only (\<lambda>c. \<not> is_change c) (or_refuse (seq (inspectCall context i) f) code)" if "\<And>x. only (\<lambda>c. \<not> is_change c) (f x)"
    for i code and f :: "jval \<Rightarrow> 'x reconcile"
    unfolding or_refuse_def inspectCall_def by (intro only_intros that) simp
  have call: "applies_at_most 1 (rollbackCall context i)" for i
    unfolding rollbackCall_def by (intro at_most_if at_most_only [OF only_throw]) (simp add: applies_at_most_def wp_call)
  have preview: "only (\<lambda>c. \<not> is_change c) (buildPendingPortalRollbackPreview pf context)"
    unfolding buildPendingPortalRollbackPreview_def case_prod_beta Let_def by (intro only_intros quiet quiet_steps)
  show ?thesis
    unfolding rollbackPendingPortalCreateLocked_def
    by (intro at_most_seq_right [OF preview] at_most_seq_right [OF only_refuse] at_most_seq_left refused call only_intros quiet quiet_steps)
qed

lemma wp_count_locked:
  assumes "\<And>v. wp (\<lambda>_ _. True) (\<lambda>_. P) p [(Lock, Inr v)]" "\<And>h e. P h \<Longrightarrow> \<not> is_change (fst e) \<Longrightarrow> P (h @ [e])" "P []"
  shows "wp (\<lambda>_ _. True) (\<lambda>_. P) (withReceiptLock context p) []"
proof -
  have lock: "P [(Lock, a)]" for a using assms(2) [OF assms(3), of "(Lock, a)"] by simp
  have "wp (\<lambda>_ _. True) (\<lambda>_. P) (seq (attempt p) (\<lambda>outcome. seq (attempt (call Unlock)) (\<lambda>released. case outcome of
      Inl error \<Rightarrow> throw error
    | Inr value \<Rightarrow> (case released of Inl error \<Rightarrow> throw error | Inr _ \<Rightarrow> return value)))) [(Lock, Inr v)]" for v
    unfolding wp_seq [of _ _ "attempt p"] wp_attempt
    by (rule wp_post [OF assms(1)]) (auto simp: wp_simps intro: assms(2) split: sum.split)
  then have "wp (\<lambda>_ _. True) (\<lambda>_. P) (seq (call Lock) (\<lambda>_. seq (attempt p) (\<lambda>outcome. seq (attempt (call Unlock)) (\<lambda>released.
      case outcome of
        Inl error \<Rightarrow> throw error
      | Inr value \<Rightarrow> (case released of Inl error \<Rightarrow> throw error | Inr _ \<Rightarrow> return value))))) []"
    unfolding wp_seq [of _ _ "call Lock"] wp_call using lock by (simp split: sum.split)
  then have "wp (\<lambda>_ _. True) (\<lambda>_. P) (exclusively context p) []"
    unfolding exclusively_def using assms(3) by simp
  then show ?thesis
    unfolding withReceiptLock_def wp_catch by (rule wp_post) (auto split: sum.split)
qed

text \<open>What a run of each operation asks for in all.\<close>

lemma wp_counted:
  assumes "\<And>v. wp (\<lambda>_ _. True) (\<lambda>_ h. \<exists>n. B h n \<and> applied h \<le> n) p [(Lock, Inr v)]"
    "\<And>h h' n. B h n \<Longrightarrow> prefix h h' \<Longrightarrow> B h' n" "B [] 1"
  shows "wp (\<lambda>_ _. True) (\<lambda>_ h. \<exists>n. B h n \<and> applied h \<le> n) (withReceiptLock context p) []"
proof (rule wp_count_locked [OF assms(1)], goal_cases)
  case (1 h e)
  then show ?case using assms(2) [of h _ "h @ [e]"] by (cases e) auto
next
  case 2
  show ?case using assms(3) by (intro exI [of _ 1]) (simp add: applied_def)
qed

lemma operations_counted:
  assumes "requireContext pf input True = Inr context"
  shows "wp (\<lambda>_ _. True) (\<lambda>_ h. \<exists>n. apply_bound pf context h n \<and> applied h \<le> n) (applyGateway pf input) []"
    "wp (\<lambda>_ _. True) (\<lambda>_ h. \<exists>n. uninstall_bound pf context h n \<and> applied h \<le> n) (uninstallGateway pf input) []"
proof -
  have "wp (\<lambda>_ _. True) (\<lambda>_ h. \<exists>n. apply_bound pf context h n \<and> applied h \<le> n) (withReceiptLock context (applyGatewayLocked pf context)) []"
    by (rule wp_counted, rule count_apply, simp add: applied_def, erule apply_bound_mono, assumption, simp add: apply_bound_def)
  then show "wp (\<lambda>_ _. True) (\<lambda>_ h. \<exists>n. apply_bound pf context h n \<and> applied h \<le> n) (applyGateway pf input) []"
    by (simp add: applyGateway_def assms wp_seq wp_lift)
  have "wp (\<lambda>_ _. True) (\<lambda>_ h. \<exists>n. uninstall_bound pf context h n \<and> applied h \<le> n) (withReceiptLock context (uninstallGatewayLocked pf context)) []"
    by (rule wp_counted, rule count_uninstall, simp add: applied_def, erule uninstall_bound_mono, assumption, simp add: uninstall_bound_def)
  then show "wp (\<lambda>_ _. True) (\<lambda>_ h. \<exists>n. uninstall_bound pf context h n \<and> applied h \<le> n) (uninstallGateway pf input) []"
    by (simp add: uninstallGateway_def assms wp_seq wp_lift)
qed

lemma rollback_counted:
  "wp (\<lambda>_ _. True) (\<lambda>_ h. applied h \<le> 1) (rollbackPendingPortalCreate pf input) []"
proof -
  have "wp (\<lambda>_ _. True) (\<lambda>_ h. applied h \<le> 1) (withReceiptLock c (rollbackPendingPortalCreateLocked pf c)) []" for c
    by (rule wp_count_locked, rule wp_post [OF spec [OF one_rollback [unfolded applies_at_most_def]]]) (auto simp: applied_def)
  then show ?thesis by (simp add: rollbackPendingPortalCreate_def wp_seq wp_lift applied_def split: sum.split)
qed

end
