(* ===== verification/Reconciler_Properties.thy ===== *)
theory Reconciler_Properties
  imports Reconciler_Bounds
begin

text \<open>
  The properties of the reconciler. Each holds for every environment: whatever the provider and the
  receipt store answer, whenever they fail, and whatever else changes between two calls. They are
  weakest preconditions over the program of an operation: a guard on every call, which sees the
  history so far, and a condition on the result. The only reservation, written out in each, is a run
  in which two different valid receipts with the same checksum pass through the store (\<open>collided\<close>).
\<close>

text \<open>Every call but the first, which takes the lock, is made while it is held; it is released at the end.\<close>

definition exclusive :: "(string \<Rightarrow> string) \<Rightarrow> reconcile_trace \<Rightarrow> reconcile_call \<Rightarrow> bool" where
  "exclusive sha h c \<longleftrightarrow> collided sha h \<or> (if c = Lock then h = [] else locked h)"

definition lock_released :: "failure + 'x \<Rightarrow> reconcile_trace \<Rightarrow> bool" where
  "lock_released r h \<longleftrightarrow> \<not> locked h \<and> (case r of Inl e \<Rightarrow> is_gateway_error e | Inr _ \<Rightarrow> True)"

lemma exclusive_run: "wp (guarded sha A) (released sha R) p [] \<Longrightarrow> wp (exclusive sha) lock_released p []"
proof (erule wp_mono, goal_cases)
  case (1 r h)
  then show ?case by (cases r) (auto simp: released_def lock_released_def)
next
  case (2 h c)
  then show ?case by (cases c) (auto simp: guarded_def exclusive_def)
qed

lemma collided_snoc: "collided sha h \<Longrightarrow> collided sha (h @ [e])"
  by (rule collided_mono [OF _ prefixI]) simp_all

lemma count_run: "applies_at_most n p \<Longrightarrow> wp (\<lambda>_ _. True) (\<lambda>_ h. applied h \<le> n) p []"
  unfolding applies_at_most_def by (elim allE [of _ "[]"]) (simp add: applied_def)

section \<open>Applying\<close>

text \<open>
  C3. Every mutation an apply asks of the provider is journaled and touches nothing foreign: at that
  moment the lock is held, the store holds the very receipt handed to the provider, whose pending
  action is this mutation, and in the state observed last the resource either is absent, for a
  creation, or carries this installation's marker and the locator of the change.
  (Reserved are runs in which two different receipts with the same checksum pass through the store.)
\<close>

theorem apply_mutations_journaled:
  "case requireContext pf input True of
     Inl e \<Rightarrow> applyGateway pf input = throw Type_error
   | Inr context \<Rightarrow> wp (\<lambda>h c. case c of
         Apply mi \<Rightarrow> collided (pf_sha pf) h \<or> locked h \<and> lawful_mutation (pf_sha pf) h mi
       | _ \<Rightarrow> True) (\<lambda>_ _. True) (applyGateway pf input) []"
  using applyGateway_run [of pf input]
  by (auto split: sum.splits elim!: wp_mono simp: guarded_def lawful_call_def split: reconcile_call.split)

text \<open>
  C4. Nothing is changed without approval: before any mutation of an apply the plan of an observed
  state carried the approved plan identifier, with nothing blocking it and its prune approved or its
  interrupted action retried; a deletion also needs the prune flag; and a creation is only submitted
  after this very run wrote its intent, so a creation found pending is never submitted again.
  (Reserved are runs in which two different receipts with the same checksum pass through the store.)
\<close>

theorem apply_mutations_approved:
  "case requireContext pf input True of
     Inl e \<Rightarrow> applyGateway pf input = throw Type_error
   | Inr context \<Rightarrow> wp (\<lambda>h c. case c of
         Apply mi \<Rightarrow> collided (pf_sha pf) h \<or> approved_since pf context h
           \<and> (if pc_action (mi_change mi) = Delete then cx_prune context
              else if pc_action (mi_change mi) = Create then \<exists>v. (Store_write (mi_receipt mi), Inr v) \<in> set h else True)
       | Rollback mi \<Rightarrow> collided (pf_sha pf) h
       | Inspect mi \<Rightarrow> collided (pf_sha pf) h
       | _ \<Rightarrow> True) (\<lambda>_ _. True) (applyGateway pf input) []"
  using applyGateway_run [of pf input]
  by (auto split: sum.splits elim!: wp_mono simp: guarded_def lawful_call_def apply_policy_def apply_grant_def split: reconcile_call.split)

text \<open>
  What a successful apply reports is what it observed last, under a stored receipt with no pending
  action: the reported plan is the plan of that observation, and ``ready'' means that it leaves every
  resource as it is.
\<close>

theorem apply_report_is_observed:
  "case requireContext pf input True of
     Inl e \<Rightarrow> applyGateway pf input = throw Type_error
   | Inr context \<Rightarrow> wp (\<lambda>_ _. True) (\<lambda>r h. case r of
         Inl e \<Rightarrow> True
       | Inr report \<Rightarrow> collided (pf_sha pf) h \<or> (\<exists>h' v. h = h' @ [(Unlock, Inr v)] \<and> apply_reported pf context report h'))
       (applyGateway pf input) []"
  using collided_snoc applyGateway_run [of pf input]
  by (auto split: sum.splits elim!: wp_mono simp: released_def)

section \<open>All operations\<close>

text \<open>
  C24. The stored receipt only moves by the journal protocol: whatever an operation writes is one
  successful receipt operation applied to the receipt the store holds, or a new receipt where it
  holds none; and a resource disappears from the receipt only when it was observed absent last.
  (Reserved are runs in which two different receipts with the same checksum pass through the store.)
\<close>

theorem writes_follow_protocol:
  "(case requireContext pf input True of
      Inl e \<Rightarrow> applyGateway pf input = throw Type_error \<and> uninstallGateway pf input = throw Type_error
    | Inr context \<Rightarrow> wp (\<lambda>h c. case c of Store_write r \<Rightarrow> collided (pf_sha pf) h \<or> lawful_write (pf_sha pf) h r | _ \<Rightarrow> True)
          (\<lambda>_ _. True) (applyGateway pf input) []
        \<and> wp (\<lambda>h c. case c of Store_write r \<Rightarrow> collided (pf_sha pf) h \<or> lawful_write (pf_sha pf) h r | _ \<Rightarrow> True)
          (\<lambda>_ _. True) (uninstallGateway pf input) [])
   \<and> (case requirePendingPortalRollbackContext pf input True of
      Inl e \<Rightarrow> rollbackPendingPortalCreate pf input = throw Type_error
    | Inr context \<Rightarrow> wp (\<lambda>h c. case c of Store_write r \<Rightarrow> collided (pf_sha pf) h \<or> lawful_write (pf_sha pf) h r | _ \<Rightarrow> True)
        (\<lambda>_ _. True) (rollbackPendingPortalCreate pf input) [])"
proof -
  have "guarded sha A h c \<Longrightarrow> case c of Store_write r \<Rightarrow> collided sha h \<or> lawful_write sha h r | _ \<Rightarrow> True" for sha A h c
    by (auto simp: guarded_def lawful_call_def split: reconcile_call.split)
  then show ?thesis
    using applyGateway_run [of pf input] uninstallGateway_run [of pf input] rollback_run [of pf input]
    by (auto split: sum.splits elim!: wp_mono)
qed

text \<open>
  C32. The changing operations are exclusive: they take the receipt lock first and only once, make
  every other call while they hold it, have released it when they end, and throw only errors of the
  reconciler, apart from the \<^verbatim>\<open>TypeError\<close> of a malformed input thrown before any call.
  (Reserved are runs in which two different receipts with the same checksum pass through the store.)
\<close>

theorem operations_are_exclusive:
  "(case requireContext pf input True of
      Inl e \<Rightarrow> applyGateway pf input = throw Type_error \<and> uninstallGateway pf input = throw Type_error
    | Inr context \<Rightarrow> wp (exclusive (pf_sha pf))
          lock_released (applyGateway pf input) []
        \<and> wp (exclusive (pf_sha pf))
          lock_released (uninstallGateway pf input) [])
   \<and> (case requirePendingPortalRollbackContext pf input True of
      Inl e \<Rightarrow> rollbackPendingPortalCreate pf input = throw Type_error
    | Inr context \<Rightarrow> wp (exclusive (pf_sha pf))
        lock_released (rollbackPendingPortalCreate pf input) [])"
  using applyGateway_run [of pf input] uninstallGateway_run [of pf input] rollback_run [of pf input]
  by (simp add: exclusive_run split: sum.splits)

text \<open>
  Planning and status change nothing: planning an apply or an uninstallation and the status read
  the stored receipt and observe, and planning a rollback also inspects; they make no other call.
\<close>

theorem planning_only_reads:
  "wp (\<lambda>_ c. reading c) (\<lambda>_ _. True) (planLiveGateway pf input) []
   \<and> wp (\<lambda>_ c. reading c) (\<lambda>_ _. True) (getGatewayStatus pf input) []
   \<and> wp (\<lambda>_ c. reading c) (\<lambda>_ _. True) (planGatewayUninstall pf input) []
   \<and> wp (\<lambda>_ c. inspecting c) (\<lambda>_ _. True) (planPendingPortalCreateRollback pf input) []"
proof -
  have r: "only reading (readLive pf c)" "only inspecting (readLive pf c)" for c by (rule only_readLive; simp)+
  have "only reading (planLiveGateway pf input)"
    unfolding planLiveGateway_def planLive_def by (intro only_intros r)
  moreover have "only reading (getGatewayStatus pf input)"
    unfolding getGatewayStatus_def statusOf_def by (intro only_intros r)
  moreover have "only reading (planGatewayUninstall pf input)"
    unfolding planGatewayUninstall_def buildGatewayUninstallPlan_def by (intro only_intros r)
  moreover have "only inspecting (planPendingPortalCreateRollback pf input)"
    unfolding planPendingPortalCreateRollback_def buildPendingPortalRollbackPreview_def or_refuse_def inspectCall_def case_prod_beta Let_def
    by (intro only_intros r) simp
  ultimately show ?thesis by (simp add: only_def)
qed

text \<open>
  The number of mutations is bounded by what was approved: recovering an interrupted action asks
  for at most one, retiring absent entries for none, applying a list of changes or uninstalling a
  list of actions for at most one each.
\<close>

theorem mutations_bounded:
  "wp (\<lambda>_ _. True) (\<lambda>_ h. applied h \<le> 1) (recoverApplyPending pf context live) []
   \<and> wp (\<lambda>_ _. True) (\<lambda>_ h. applied h = 0) (retireAbsentReceiptEntries pf context live receipt prune) []
   \<and> wp (\<lambda>_ _. True) (\<lambda>_ h. applied h \<le> length changes) (applyChanges pf context prune receipt changes) []
   \<and> wp (\<lambda>_ _. True) (\<lambda>_ h. applied h \<le> 1) (recoverUninstallPending pf context preview) []
   \<and> wp (\<lambda>_ _. True) (\<lambda>_ h. applied h \<le> length actions) (uninstallActions pf context planId receipt actions) []"
  using count_run [OF recovery_bounds(1)] count_run [OF at_most_only [OF retire_quiet], of 0] count_run [OF changes_bound]
    count_run [OF recovery_bounds(2)] count_run [OF actions_bound]
  by simp

text \<open>The provider's error for a mutation said that nothing was submitted.\<close>

definition surely_unsubmitted :: "reconcile_trace \<Rightarrow> bool" where
  "surely_unsubmitted h \<longleftrightarrow> (\<exists>i e. (Apply i, Inl e) \<in> set h \<and> not_submitted e)"

lemma wp_persistent:
  "K h \<Longrightarrow> (\<And>h e. K h \<Longrightarrow> K (h @ [e])) \<Longrightarrow> wp (\<lambda>h c. K h) (\<lambda>_ _. True) p h"
  by (induction p arbitrary: h) auto

lemma normalizeMutation_error: "normalizeMutationResult c v = Inl e \<Longrightarrow> \<not> not_submitted e"
  by (auto simp: normalizeMutationResult_def GatewayReconcileError_def split: if_splits)

lemma mutate_unsubmitted:
  "wp (\<lambda>h c. case c of Store_write r \<Rightarrow> surely_unsubmitted h | _ \<Rightarrow> True) (\<lambda>_ _. True)
     (mutate pf context change receipt target) []"
proof -
  let ?G = "\<lambda>h c. case c of Store_write r \<Rightarrow> surely_unsubmitted h | _ \<Rightarrow> True"
  define R :: "failure + (failure + mutation_result) \<Rightarrow> reconcile_trace \<Rightarrow> bool" where
    "R = (\<lambda>r h. case r of Inr (Inl e) \<Rightarrow> not_submitted e \<longrightarrow> surely_unsubmitted h | _ \<Rightarrow> True)"
  have call: "wp ?G R (attempt (seq (applyCall context i) (\<lambda>v. lift (normalizeMutationResult change v)))) []" for i
    using normalizeMutation_error
    by (auto simp: R_def applyCall_def wp_simps GatewayReconcileError_def surely_unsubmitted_def split: sum.split)
  have after: "wp ?G (\<lambda>_ _. True) (seq (progress context ev) (\<lambda>_.
      if not_submitted e \<and> b then seq (clearDefinitelyUnsubmittedMutation pf receipt change) (\<lambda>_. throw e1) else throw e2)) h"
    if "not_submitted e \<longrightarrow> surely_unsubmitted h" for ev e b e1 e2 h
  proof (rule wp_seqI, rule wp_progress [where sha = "pf_sha pf" and Q = "\<lambda>_ h'. \<exists>t. h' = h @ t"], simp, blast, simp, goal_cases)
    case (1 u h')
    show ?case
    proof (cases "not_submitted e \<and> b")
      case True
      have "surely_unsubmitted h'" using that True 1 by (fastforce simp: surely_unsubmitted_def)
      then have "wp (\<lambda>h c. surely_unsubmitted h) (\<lambda>_ _. True) (seq (clearDefinitelyUnsubmittedMutation pf receipt change) (\<lambda>_. throw e1)) h'"
        by (rule wp_persistent) (auto simp: surely_unsubmitted_def)
      then show ?thesis unfolding if_P [OF True] by (rule wp_mono) (auto split: reconcile_call.split)
    next
      case False
      show ?thesis unfolding if_not_P [OF False] by simp
    qed
  qed
  show ?thesis
    unfolding mutate_def Let_def
  proof (rule wp_seqI [OF call], simp, goal_cases)
    case (1 outcome h')
    show ?case
    proof (cases outcome)
      case (Inl e)
      then have "not_submitted e \<longrightarrow> surely_unsubmitted h'" using 1 by (simp add: R_def)
      then show ?thesis unfolding Inl sum.case by (rule after)
    next
      case (Inr x)
      show ?thesis unfolding Inr sum.case
        by (rule wp_seqI, rule wp_progress [where sha = "pf_sha pf" and Q = "\<lambda>_ _. True"]) auto
    qed
  qed
qed

text \<open>
  An unknown outcome leaves the journal alone: after asking the provider for a mutation, the
  pending action is only cleared from the stored receipt when the provider's error says that nothing
  was submitted; every other failure, a malformed answer included, throws with the receipt untouched.
\<close>

theorem unknown_outcome_keeps_journal:
  "wp (\<lambda>h c. case c of Store_write r \<Rightarrow> surely_unsubmitted h | _ \<Rightarrow> True) (\<lambda>_ _. True)
     (mutate pf context change receipt target) []"
  by (rule mutate_unsubmitted)

section \<open>Uninstalling\<close>

text \<open>
  C25. An uninstallation only deletes, what it was approved to delete: every mutation is a deletion
  under the lock, journaled in the stored receipt, of the very resource that receipt has under this name,
  at the locator the receipt has for it, last observed there with this installation's marker, after the approved
  identifier was computed from an observed state, or is the identifier of the interrupted uninstallation it finishes.
  (Reserved are runs in which two different receipts with the same checksum pass through the store.)
\<close>

theorem uninstall_mutations_approved:
  "case requireContext pf input True of
     Inl e \<Rightarrow> uninstallGateway pf input = throw Type_error
   | Inr context \<Rightarrow> wp (\<lambda>h c. case c of
         Apply mi \<Rightarrow> collided (pf_sha pf) h \<or> locked h \<and> lawful_mutation (pf_sha pf) h mi
           \<and> uninstall_grant pf context h (mi_change mi) \<and> deletes_owned (mi_receipt mi) (mi_change mi)
       | Rollback mi \<Rightarrow> collided (pf_sha pf) h
       | Inspect mi \<Rightarrow> collided (pf_sha pf) h
       | _ \<Rightarrow> True) (\<lambda>_ _. True) (uninstallGateway pf input) []"
  using uninstallGateway_run [of pf input]
  by (auto split: sum.splits elim!: wp_mono simp: guarded_def lawful_call_def uninstall_policy_def split: reconcile_call.split)

text \<open>
  C33. A finished uninstallation leaves nothing behind: the store holds a receipt in state ``removed''
  that owns no resource and has no pending action; what it dropped on the way was observed absent, as
  every write of the reconciler has it.
  (Reserved are runs in which two different receipts with the same checksum pass through the store.)
\<close>

theorem uninstall_leaves_nothing:
  "case requireContext pf input True of
     Inl e \<Rightarrow> uninstallGateway pf input = throw Type_error
   | Inr context \<Rightarrow> wp (\<lambda>_ _. True) (\<lambda>r h. case r of
         Inl e \<Rightarrow> True
       | Inr report \<Rightarrow> collided (pf_sha pf) h \<or> (\<exists>receipt. stored_at (pf_sha pf) h = Some receipt \<and> rc_state receipt = Removed
           \<and> rc_resources receipt = [] \<and> rc_pending receipt = None \<and> ur_receipt report = receiptSummary receipt))
       (uninstallGateway pf input) []"
  using collided_snoc uninstallGateway_run [of pf input]
  by (auto split: sum.splits elim!: wp_mono simp: released_def uninstall_reported_def holds_def)

section \<open>Rolling back\<close>

text \<open>
  C29. A rollback looks before and after it acts: it asks the provider to roll back only the portal
  whose creation is the pending action of the stored receipt, after an inspection of the same input
  whose evidence, with the receipt and the plan, gives the approved identifier; and it reports
  success only when the inspection of that same portal that came right after the rollback found it absent,
  with no action pending in the store. (Reserved are runs in which two different receipts with the same
  checksum pass through the store.)
\<close>

theorem rollback_looks_twice:
  "case requirePendingPortalRollbackContext pf input True of
     Inl e \<Rightarrow> rollbackPendingPortalCreate pf input = throw Type_error
   | Inr context \<Rightarrow> wp (\<lambda>h c. case c of
         Rollback mi \<Rightarrow> collided (pf_sha pf) h \<or> locked h \<and> journaled_call (pf_sha pf) h mi
           \<and> (\<exists>preview. rollback_at pf context h preview \<and> pp_providerInput preview = mi
                \<and> cx_approvedRollbackId context = Some (pp_rollbackId preview))
       | Apply mi \<Rightarrow> collided (pf_sha pf) h
       | _ \<Rightarrow> True)
       (\<lambda>r h. case r of
         Inl e \<Rightarrow> True
       | Inr report \<Rightarrow> collided (pf_sha pf) h \<or> (\<exists>h' v. h = h' @ [(Unlock, Inr v)] \<and> rollback_reported pf context report h'))
       (rollbackPendingPortalCreate pf input) []"
  using collided_snoc rollback_run [of pf input]
  by (auto split: sum.splits elim!: wp_mono
      simp: released_def guarded_def lawful_call_def rollback_policy_def split: reconcile_call.split)

end
