(* ===== verification/Gateway_System.thy ===== *)
theory Gateway_System
  imports Composition Provider_Properties Reconciler_Properties
begin

text \<open>
  The reconciler over the provider. The operations of \<^verbatim>\<open>src/reconciler.ts\<close> call a provider; here the provider is that of
  \<^verbatim>\<open>src/cloudflare-provider.ts\<close>, so a run is a run of calls to the client of the account, mixed with those to the receipt
  store, its lock and the process. The answers of these are still arbitrary.
\<close>

section \<open>The system\<close>

datatype system_call = Outside reconcile_call | Client client_call

type_synonym system_trace = "(system_call, failure + jval) trace"

type_synonym 'r system = "(system_call, failure + jval, 'r) program"

text \<open>What the reconciler can tell of the errors of the provider and of the observer.\<close>

definition thrown :: "provider_fault \<Rightarrow> failure" where
  "thrown e = (case e of Provider_error code unsubmitted \<Rightarrow> Foreign_error (Some code) unsubmitted
     | Other_fault \<Rightarrow> Foreign_error None False)"

definition observe_thrown :: "observe_failure \<Rightarrow> failure" where
  "observe_thrown e = (case e of Observed_error code \<Rightarrow> Foreign_error (Some code) False | _ \<Rightarrow> Foreign_error None False)"

text \<open>The arguments as the objects the provider is given.\<close>

definition mutation_value :: "mutation_input \<Rightarrow> jval" where
  "mutation_value mi = JObj [(''change'', change_value (mi_change mi)), (''receipt'', receipt_value (mi_receipt mi)),
     (''config'', mi_config mi), (''target'', mi_target mi), (''access'', mi_access mi)]"

definition observe_input_of :: "read_input \<Rightarrow> observe_input" where
  "observe_input_of i = \<lparr>oi_access = ri_access i, oi_config = ri_config i,
     oi_receipt = (case ri_receipt i of None \<Rightarrow> JNull | Some r \<Rightarrow> receipt_value r), oi_target = ri_target i\<rparr>"

text \<open>A program over the client; the errors of the client say nothing to the provider.\<close>

definition client_answer :: "failure + jval \<Rightarrow> unit + jval" where
  "client_answer a = (case a of Inl e \<Rightarrow> Inl () | Inr v \<Rightarrow> Inr v)"

definition over_client :: "(client_call, unit + jval, 'r) program \<Rightarrow> 'r system" where
  "over_client = connect (\<lambda>c. Ask (Client c) (\<lambda>a. Done (client_answer a)))"

definition provided :: "platform \<Rightarrow> bound_target \<Rightarrow> polling \<Rightarrow> reconcile_call \<Rightarrow> (failure + jval) system" where
  "provided pf bt po c = (case c of
     Observe i \<Rightarrow> over_client (map_end (\<lambda>r. Done (map_sum observe_thrown cloud_state_value r)) (readObservedState pf (observe_input_of i)))
   | Apply mi \<Rightarrow> over_client (map_end (\<lambda>r. Done (map_sum thrown id r)) (applyChange pf bt po (mutation_value mi)))
   | Inspect mi \<Rightarrow> over_client (map_end (\<lambda>r. Done (map_sum thrown id r)) (inspectPendingPortalCreateRollback pf bt po (mutation_value mi)))
   | Rollback mi \<Rightarrow> over_client (map_end (\<lambda>r. Done (map_sum thrown id r))
       (Provider_Inspect.rollbackPendingPortalCreate pf bt po (mutation_value mi)))
   | _ \<Rightarrow> Ask (Outside c) Done)"

definition system :: "platform \<Rightarrow> bound_target \<Rightarrow> polling \<Rightarrow> (reconcile_call, failure + jval, 'r) program \<Rightarrow> 'r system" where
  "system pf bt po p = connect (provided pf bt po) p"

section \<open>What the client sees\<close>

fun client_view :: "system_trace \<Rightarrow> client_trace" where
  "client_view [] = []"
| "client_view ((Client c, a) # t) = (c, client_answer a) # client_view t"
| "client_view ((Outside c, a) # t) = client_view t"

lemma client_view_append [simp]: "client_view (t @ t') = client_view t @ client_view t'"
  by (induction t rule: client_view.induct) simp_all

definition through_client_only :: "system_trace \<Rightarrow> bool" where
  "through_client_only t \<longleftrightarrow> (\<forall>e \<in> set t. \<exists>c. fst e = Client c)"

lemma over_client_runs: "runs (over_client p) t r \<Longrightarrow> runs p (client_view t) r \<and> through_client_only t"
  unfolding over_client_def
proof (induction p arbitrary: t)
  case (Ask c k)
  then obtain a t' where t: "t = (Client c, a) # t'" and
    "runs (connect (\<lambda>c. Ask (Client c) (\<lambda>a. Done (client_answer a))) (k (client_answer a))) t' r"
    by (auto split: list.splits)
  with Ask.IH have "runs (k (client_answer a)) (client_view t') r \<and> through_client_only t'" by blast
  then show ?case by (simp add: t through_client_only_def)
qed (simp add: through_client_only_def)

lemma runs_results: "runs (map_end (\<lambda>r. Done (f r)) p) t s \<longleftrightarrow> (\<exists>r. runs p t r \<and> s = f r)"
  by (auto simp: runs_map_end)

section \<open>The parts of a run\<close>

text \<open>Observing and inspecting request no mutation, a change at most three, a rollback at most one.\<close>

lemma no_mutations: "wp (\<lambda>h c. \<not> is_mutation c) Q p [] \<Longrightarrow> runs p t r \<Longrightarrow> submitted t = []"
proof -
  assume "wp (\<lambda>h c. \<not> is_mutation c) Q p []" "runs p t r"
  then have "list_all (\<lambda>e. \<not> is_mutation (fst e)) t"
    by (intro wp_calls [of "\<lambda>c. \<not> is_mutation c", OF wp_post]) simp_all
  then show ?thesis by (auto simp: submitted_def list_all_iff filter_empty_conv)
qed

lemma outside_part: "runs (Ask (Outside c) Done) t r \<Longrightarrow> client_view t = []"
  by (auto split: list.splits)

lemma observe_part:
  assumes "runs (provided pf bt po (Observe i)) t a" shows "submitted (client_view t) = []"
proof -
  from assms have "runs (map_end (\<lambda>r. Done (map_sum observe_thrown cloud_state_value r)) (readObservedState pf (observe_input_of i)))
      (client_view t) a"
    by (auto simp: provided_def dest: over_client_runs)
  then show ?thesis unfolding runs_results readObservedState_def by (auto dest: no_mutations [OF observation_reads])
qed

lemma inspect_part:
  assumes "runs (provided pf bt po (Inspect mi)) t a" shows "submitted (client_view t) = []"
proof -
  from assms have "runs (map_end (\<lambda>r. Done (map_sum thrown id r)) (inspectPendingPortalCreateRollback pf bt po (mutation_value mi)))
      (client_view t) a"
    by (auto simp: provided_def dest: over_client_runs)
  then show ?thesis unfolding runs_results using no_mutations [OF inspect_reads] by blast
qed

lemma apply_part:
  assumes "runs (provided pf bt po (Apply mi)) t a"
  obtains q where "runs (apply_mutation pf bt po (mutation_value mi)) (client_view t) q"
    "a = map_sum thrown id (reported (client_view t) q)" "through_client_only t"
proof -
  from assms have "runs (map_end (\<lambda>r. Done (map_sum thrown id r)) (applyChange pf bt po (mutation_value mi))) (client_view t) a"
    "through_client_only t"
    by (auto simp: provided_def dest: over_client_runs)
  then show ?thesis using that unfolding runs_results applyChange_runs by blast
qed

lemma rollback_part:
  assumes "runs (provided pf bt po (Rollback mi)) t a"
  obtains q where "runs (Provider_Inspect.rollbackPendingPortalCreate pf bt po (mutation_value mi)) (client_view t) q"
proof -
  from assms have "runs (map_end (\<lambda>r. Done (map_sum thrown id r))
      (Provider_Inspect.rollbackPendingPortalCreate pf bt po (mutation_value mi))) (client_view t) a"
    by (auto simp: provided_def dest: over_client_runs)
  then show ?thesis using that unfolding runs_results by blast
qed

text \<open>A change whose answer says that nothing was submitted requested no mutation.\<close>

lemma unsubmitted_part:
  assumes "runs (provided pf bt po (Apply mi)) t (Inl e)" "not_submitted e" shows "submitted (client_view t) = []"
  using assms(1)
proof (rule apply_part)
  fix q assume "Inl e = map_sum thrown id (reported (client_view t) q)"
  then show ?thesis using assms(2)
    by (cases q) (auto simp: reported_def thrown_def CloudflareGatewayProviderError_def any_submitted_def)
qed

end
