(* ===== verification/System_Properties.thy ===== *)
theory System_Properties
  imports Gateway_System
begin

text \<open>
  What the reconciler's discipline and the provider's rule give together, for the requests that reach the account.
\<close>

section \<open>Mutations in a run\<close>

text \<open>Only applying a change and rolling one back request mutations.\<close>

lemma quiet_part:
  assumes "runs (provided pf bt po c) t a" "\<not> is_change c" shows "submitted (client_view t) = []"
proof (cases c)
  case (Observe i)
  then show ?thesis using assms(1) by (simp add: observe_part)
next
  case (Inspect mi)
  then show ?thesis using assms(1) by (simp add: inspect_part)
qed (use assms in \<open>auto simp: provided_def split: list.splits\<close>)

lemma client_mutation:
  assumes "runs (provided pf bt po asked) (u @ (Client c, a) # v) x" "is_mutation c"
  shows "\<exists>mi. asked = Apply mi \<and> provider_permits pf bt (mutation_value mi) (client_view u) c
     \<or> asked = Rollback mi \<and> rollback_permits pf bt po (mutation_value mi) (client_view u) c"
proof -
  have view: "client_view (u @ (Client c, a) # v) = client_view u @ (c, client_answer a) # client_view v" by simp
  have "is_change asked" using quiet_part [OF assms(1)] assms(2) by (auto simp: submitted_def)
  then show ?thesis
  proof (cases asked)
    case (Apply mi)
    obtain q where "runs (apply_mutation pf bt po (mutation_value mi)) (client_view (u @ (Client c, a) # v)) q"
      using assms(1) unfolding Apply by (rule apply_part)
    then have "provider_permits pf bt (mutation_value mi) (client_view u) c" by (rule runs_guard [OF _ apply_permitted view])
    then show ?thesis using Apply by blast
  next
    case (Rollback mi)
    obtain q where "runs (Provider_Inspect.rollbackPendingPortalCreate pf bt po (mutation_value mi))
        (client_view (u @ (Client c, a) # v)) q"
      using assms(1) unfolding Rollback by (rule rollback_part)
    then have "rollback_permits pf bt po (mutation_value mi) (client_view u) c"
      by (rule runs_guard [OF _ rollback_whole [unfolded safely_def] view])
    then show ?thesis using Rollback by blast
  qed simp_all
qed

text \<open>The state of the reconciler when a request is made: its calls so far, and the requests of the current one.\<close>

definition at_asked :: "platform \<Rightarrow> bound_target \<Rightarrow> polling \<Rightarrow> system_trace \<Rightarrow> (reconcile_trace \<Rightarrow> client_trace \<Rightarrow> bool) \<Rightarrow> bool" where
  "at_asked pf bt po t P \<longleftrightarrow> (\<exists>h t1 u. t = t1 @ u \<and> unfolds (provided pf bt po) h t1 \<and> P h (client_view u))"

lemma at_asked_mono: "at_asked pf bt po t P \<Longrightarrow> (\<And>h u. P h u \<Longrightarrow> Q h u) \<Longrightarrow> at_asked pf bt po t Q"
  unfolding at_asked_def by blast

text \<open>What is known of the request \<open>c\<close> when the calls of the reconciler keep to \<open>G\<close>.\<close>

definition sent_for :: "platform \<Rightarrow> bound_target \<Rightarrow> polling \<Rightarrow> (reconcile_trace \<Rightarrow> reconcile_call \<Rightarrow> bool) \<Rightarrow> system_trace
    \<Rightarrow> client_call \<Rightarrow> bool" where
  "sent_for pf bt po G t c \<longleftrightarrow> at_asked pf bt po t (\<lambda>h u. \<exists>mi.
     G h (Apply mi) \<and> provider_permits pf bt (mutation_value mi) u c
     \<or> G h (Rollback mi) \<and> rollback_permits pf bt po (mutation_value mi) u c)"

lemma system_guard:
  assumes "wp G Q p []"
  shows "wp (\<lambda>t c. case c of Client c \<Rightarrow> is_mutation c \<longrightarrow> sent_for pf bt po G t c | _ \<Rightarrow> True) (\<lambda>_ _. True) (system pf bt po p) []"
proof (rule wp_from_runs, simp)
  fix t r pre c a post
  assume run: "runs (system pf bt po p) t r" "t = pre @ (c, a) # post"
  show "case c of Client c \<Rightarrow> is_mutation c \<longrightarrow> sent_for pf bt po G pre c | _ \<Rightarrow> True"
  proof (cases c)
    case (Client d)
    have "sent_for pf bt po G pre d" if m: "is_mutation d"
      using run(1) [unfolded system_def] assms run(2)
    proof (rule connect_guard)
      fix h asked x u v t1
      assume i: "unfolds (provided pf bt po) h t1" "G h asked" "runs (provided pf bt po asked) (u @ (c, a) # v) x" "pre = t1 @ u"
      from client_mutation [OF i(3) [unfolded Client] m] i show ?thesis by (auto simp: sent_for_def at_asked_def)
    qed
    then show ?thesis by (simp add: Client)
  qed simp
qed

section \<open>What a request answers to\<close>

definition on_mutations :: "(system_trace \<Rightarrow> client_call \<Rightarrow> bool) \<Rightarrow> system_trace \<Rightarrow> system_call \<Rightarrow> bool" where
  "on_mutations P t c = (case c of Client d \<Rightarrow> is_mutation d \<longrightarrow> P t d | Outside e \<Rightarrow> True)"

text \<open>The change the provider carries out is the one the reconciler asked for.\<close>

definition same_change :: "plan_change \<Rightarrow> mutation_change \<Rightarrow> bool" where
  "same_change asked done \<longleftrightarrow> pc_action asked = change_action_of (change_action done) \<and> pc_kind asked = mc_kind done
     \<and> pc_key asked = mc_key done"

text \<open>
  The request belongs to a change the reconciler asked for under its lock, journaled in the stored receipt, which is
  the receipt the provider validated, and granted by \<open>A\<close>; and the provider's rule permits it after what it read for this change.
\<close>

definition answers_for :: "platform \<Rightarrow> bound_target \<Rightarrow> (reconcile_trace \<Rightarrow> reconcile_call \<Rightarrow> bool) \<Rightarrow> reconcile_trace
    \<Rightarrow> client_trace \<Rightarrow> client_call \<Rightarrow> bool" where
  "answers_for pf bt A h u c \<longleftrightarrow> (\<exists>mi m. locked h \<and> lawful_mutation (pf_sha pf) h mi \<and> A h (Apply mi)
     \<and> normalizeMutationInput pf bt (mutation_value mi) = Inr m \<and> gm_receipt m = mi_receipt mi
     \<and> same_change (mi_change mi) (gm_change m) \<and> journaled_in bt m \<and> Provider_Rules.lawful pf m u c)"

lemma validated_receipt:
  assumes "journaled_call sha h mi" "normalizeMutationInput pf bt (mutation_value mi) = Inr m" "sha = pf_sha pf"
  shows "gm_receipt m = mi_receipt mi" "same_change (mi_change mi) (gm_change m)"
proof -
  have s: "sealed (pf_sha pf) (mi_receipt mi)" and j: "journaled (mi_receipt mi) (mi_change mi)"
    using assms(1,3) by (simp_all add: journaled_call_def)
  have "validateInstallationReceipt (pf_sha pf) (receipt_value (mi_receipt mi)) (JObj []) = Inr (gm_receipt m)"
    using normalized_input(3) [OF assms(2)] by (simp add: mutation_value_def)
  then show r: "gm_receipt m = mi_receipt mi" using sealed_validates [OF s] by simp
  show "same_change (mi_change mi) (gm_change m)"
    using j normalized_input(1) [OF assms(2)] r by (auto simp: journaled_def journaled_in_def same_change_def split: option.splits)
qed

lemma permitted_answers:
  assumes "locked h" "lawful_mutation (pf_sha pf) h mi" "A h (Apply mi)" "provider_permits pf bt (mutation_value mi) u c" "is_mutation c"
  shows "answers_for pf bt A h u c"
proof -
  obtain m where m: "normalizeMutationInput pf bt (mutation_value mi) = Inr m" "journaled_in bt m" "Provider_Rules.lawful pf m u c"
    using assms(4,5) by (auto simp: provider_permits_def)
  have "journaled_call (pf_sha pf) h mi" using assms(2) by (simp add: lawful_mutation_def)
  from validated_receipt [OF this m(1) refl] show ?thesis using m assms(1-3) unfolding answers_for_def by blast
qed

lemma sent_answers:
  assumes "sent_for pf bt po (guarded (pf_sha pf) A) t c" "is_mutation c" "\<And>h mi. \<not> A h (Rollback mi)"
  shows "at_asked pf bt po t (\<lambda>h u. collided (pf_sha pf) h \<or> answers_for pf bt A h u c)"
  using assms(1) unfolding sent_for_def
  by (rule at_asked_mono) (use assms(2,3) in \<open>auto simp: guarded_def lawful_call_def intro: permitted_answers\<close>)

lemma system_answers:
  assumes "wp (guarded (pf_sha pf) A) Q p []" "\<And>h mi. \<not> A h (Rollback mi)"
  shows "wp (on_mutations (\<lambda>t c. at_asked pf bt po t (\<lambda>h u. collided (pf_sha pf) h \<or> answers_for pf bt A h u c)))
    (\<lambda>_ _. True) (system pf bt po p) []"
proof -
  note answers = sent_answers [of pf bt po A, OF _ _ assms(2)]
  show ?thesis using system_guard [OF assms(1)]
    by (rule wp_mono) (auto simp: on_mutations_def intro: answers split: system_call.splits)
qed

lemma apply_answers:
  assumes "requireContext pf input True = Inr context"
  shows "wp (on_mutations (\<lambda>t c. at_asked pf bt po t (\<lambda>h u. collided (pf_sha pf) h
      \<or> answers_for pf bt (apply_policy pf context) h u c))) (\<lambda>_ _. True) (system pf bt po (applyGateway pf input)) []"
  using applyGateway_run [of pf input] by (simp add: assms system_answers apply_policy_def)

text \<open>
  The reconciler and the provider together: every mutation an apply requests from the account was asked for under the lock and
  with the approval of a plan, is the pending action of the very receipt the store holds, which the provider
  validated and whose change it carries out, and is permitted by what the provider read since it was asked.
\<close>

theorem system_apply_lawful:
  "case requireContext pf input True of
     Inl e \<Rightarrow> applyGateway pf input = throw Type_error
   | Inr context \<Rightarrow> wp (on_mutations (\<lambda>t c. at_asked pf bt po t (\<lambda>h u. collided (pf_sha pf) h
         \<or> answers_for pf bt (apply_policy pf context) h u c))) (\<lambda>_ _. True) (system pf bt po (applyGateway pf input)) []"
  using applyGateway_run [of pf input] apply_answers by (auto split: sum.split)

section \<open>Removing\<close>

fun is_removal :: "client_call \<Rightarrow> bool" where
  "is_removal (Delete_mcp_server i) = True"
| "is_removal (Delete_portal i) = True"
| "is_removal (Delete_access_app i) = True"
| "is_removal (Delete_app_policy p i) = True"
| "is_removal (Delete_dns_record i) = True"
| "is_removal c = False"

lemma deletions_remove: "Provider_Rules.lawful pf m h c \<Longrightarrow> is_mutation c \<Longrightarrow> is_deletion (gm_change m) \<Longrightarrow> is_removal c"
  by (cases c) (auto simp: creates_def updates_def is_deletion_def syncs_def)

lemma removal_answers:
  assumes "answers_for pf bt (uninstall_policy pf context) h u c" "is_mutation c" shows "is_removal c"
proof -
  obtain mi m where m: "uninstall_policy pf context h (Apply mi)" "same_change (mi_change mi) (gm_change m)"
    "Provider_Rules.lawful pf m u c"
    using assms(1) by (auto simp: answers_for_def)
  have "pc_action (mi_change mi) = Delete" using m(1) by (simp add: uninstall_policy_def uninstall_grant_def)
  then have "is_deletion (gm_change m)"
    using m(2) by (cases "gm_change m") (simp_all add: same_change_def change_action_def is_deletion_def)
  with m(3) assms(2) show ?thesis by (rule deletions_remove)
qed

lemma uninstall_answers:
  assumes "requireContext pf input True = Inr context"
  shows "wp (on_mutations (\<lambda>t c. at_asked pf bt po t (\<lambda>h u. collided (pf_sha pf) h
      \<or> is_removal c \<and> answers_for pf bt (uninstall_policy pf context) h u c)))
    (\<lambda>_ _. True) (system pf bt po (uninstallGateway pf input)) []"
proof -
  have "wp (guarded (pf_sha pf) (uninstall_policy pf context)) (released (pf_sha pf) (uninstall_reported pf)) (uninstallGateway pf input) []"
    using uninstallGateway_run [of pf input] by (simp add: assms)
  then show ?thesis
    by (rule wp_mono [OF system_answers])
       (auto simp: uninstall_policy_def on_mutations_def elim!: at_asked_mono intro: removal_answers split: system_call.splits)
qed

text \<open>
  C2. An uninstallation requests nothing but deletions from the account, and a rollback nothing but the deletion of the pending
  portal: each under the lock, for the receipt the store holds, with the approval of this removal, and after what
  the provider read since it was asked permits it.
  (Reserved are runs in which two different receipts with the same checksum pass through the store.)
\<close>

theorem system_removals_only:
  "(case requireContext pf input True of
      Inl e \<Rightarrow> uninstallGateway pf input = throw Type_error
    | Inr context \<Rightarrow> wp (on_mutations (\<lambda>t c. at_asked pf bt po t (\<lambda>h u. collided (pf_sha pf) h
          \<or> is_removal c \<and> answers_for pf bt (uninstall_policy pf context) h u c)))
          (\<lambda>_ _. True) (system pf bt po (uninstallGateway pf input)) [])
   \<and> (case requirePendingPortalRollbackContext pf input True of
      Inl e \<Rightarrow> Reconciler_Removal.rollbackPendingPortalCreate pf input = throw Type_error
    | Inr context \<Rightarrow> wp (on_mutations (\<lambda>t c. at_asked pf bt po t (\<lambda>h u. collided (pf_sha pf) h
          \<or> (\<exists>mi. locked h \<and> journaled_call (pf_sha pf) h mi \<and> rollback_policy pf context h (Rollback mi)
               \<and> rollback_permits pf bt po (mutation_value mi) u c))))
          (\<lambda>_ _. True) (system pf bt po (Reconciler_Removal.rollbackPendingPortalCreate pf input)) [])"
proof (rule conjI, goal_cases)
  case 1
  show ?case using uninstallGateway_run [of pf input] uninstall_answers by (auto split: sum.split)
next
  case 2
  have "wp (guarded (pf_sha pf) (rollback_policy pf ctx)) Q p []
      \<Longrightarrow> wp (on_mutations (\<lambda>t c. at_asked pf bt po t (\<lambda>h u. collided (pf_sha pf) h
          \<or> (\<exists>mi. locked h \<and> journaled_call (pf_sha pf) h mi \<and> rollback_policy pf ctx h (Rollback mi)
               \<and> rollback_permits pf bt po (mutation_value mi) u c)))) (\<lambda>_ _. True) (system pf bt po p) []"
    for ctx Q and p :: "(reconcile_call, failure + jval, failure + 'x) program"
    by (drule system_guard, erule wp_mono)
       (auto simp: rollback_policy_def guarded_def lawful_call_def on_mutations_def sent_for_def elim!: at_asked_mono split: system_call.splits)
  then show ?case using rollback_run [of pf input] by (simp split: sum.splits)
qed

section \<open>Outcomes and numbers\<close>

text \<open>Each change requests at most three mutations, each rollback one.\<close>

lemma part_bound:
  assumes "runs (provided pf bt po c) t a" shows "length (submitted (client_view t)) \<le> (if is_change c then 3 else 0)"
proof (cases "is_change c")
  case True
  have "length (submitted (client_view t)) \<le> 3"
  proof (cases c)
    case (Apply mi)
    show ?thesis using assms(1) unfolding Apply
    proof (rule apply_part)
      fix q assume q: "runs (apply_mutation pf bt po (mutation_value mi)) (client_view t) q"
      show ?thesis
      proof (rule submitted_three)
        fix pre d x post assume e: "client_view t = pre @ (d, x) # post" "is_mutation d"
        have "provider_permits pf bt (mutation_value mi) pre d" by (rule runs_guard [OF q apply_permitted e(1)])
        then show "length (submitted pre) \<le> 2" using e(2) by (auto simp: provider_permits_def intro: lawful_first_three)
      qed
    qed
  next
    case (Rollback mi)
    show ?thesis using assms(1) unfolding Rollback
    proof (rule rollback_part)
      fix q assume q: "runs (Provider_Inspect.rollbackPendingPortalCreate pf bt po (mutation_value mi)) (client_view t) q"
      show ?thesis
      proof (rule submitted_three)
        fix pre d x post assume e: "client_view t = pre @ (d, x) # post" "is_mutation d"
        have "rollback_permits pf bt po (mutation_value mi) pre d"
          by (rule runs_guard [OF q rollback_whole [unfolded safely_def] e(1)])
        then show "length (submitted pre) \<le> 2"
          using e(2) by (auto simp: rollback_permits_def submitted_append) (simp add: submitted_def sample_trace_def)
      qed
    qed
  qed (use True in simp_all)
  then show ?thesis using True by simp
qed (use quiet_part [OF assms] in simp)

lemma unfolds_bound: "unfolds (provided pf bt po) h t \<Longrightarrow> length (submitted (client_view t)) \<le> 3 * applied h"
proof (induction rule: unfolds.induct)
  case (part c s a h t)
  then show ?case using part_bound [OF part.hyps(1)] by (auto simp: submitted_append applied_def split: if_splits)
qed (simp add: applied_def)

lemma system_bound:
  assumes "applies_at_most n p"
  shows "wp (\<lambda>_ _. True) (\<lambda>_ t. length (submitted (client_view t)) \<le> 3 * n) (system pf bt po p) []"
proof (rule wp_from_runs)
  fix t r assume "runs (system pf bt po p) t r"
  then obtain h where h: "unfolds (provided pf bt po) h t" "runs p h r" by (auto simp: system_def connect_runs)
  have "applied h \<le> n" using runs_wp [OF h(2) count_run [OF assms]] .
  then show "length (submitted (client_view t)) \<le> 3 * n" using unfolds_bound [OF h(1)] by linarith
qed simp

text \<open>A rollback requests one at most.\<close>

lemma submitted_one:
  assumes "\<And>pre c a post. t = pre @ (c, a) # post \<Longrightarrow> is_mutation c \<Longrightarrow> submitted pre = []"
  shows "length (submitted t) \<le> 1"
  using assms
proof (induction t rule: rev_induct)
  case (snoc e t)
  obtain c a where e: "e = (c, a)" by (cases e)
  show ?case
  proof (cases "is_mutation c")
    case True
    then have "submitted t = []" by (intro snoc.prems [of t c a "[]"]) (simp_all add: e)
    then show ?thesis by (simp add: e)
  next
    case False
    have "length (submitted t) \<le> 1" by (rule snoc.IH) (use snoc.prems in fastforce)
    then show ?thesis using False by (simp add: e)
  qed
qed simp

fun is_apply :: "reconcile_call \<Rightarrow> bool" where
  "is_apply (Apply mi) = True"
| "is_apply _ = False"

lemma rollback_part_bound:
  assumes "runs (provided pf bt po c) t a" "\<not> is_apply c"
  shows "length (submitted (client_view t)) \<le> (if is_change c then 1 else 0)"
proof (cases "is_change c")
  case True
  then obtain mi where mi: "c = Rollback mi" using assms(2) by (cases c) simp_all
  have "length (submitted (client_view t)) \<le> 1"
    using assms(1) unfolding mi
  proof (rule rollback_part)
    fix q assume q: "runs (Provider_Inspect.rollbackPendingPortalCreate pf bt po (mutation_value mi)) (client_view t) q"
    show ?thesis
    proof (rule submitted_one)
      fix pre d x post assume e: "client_view t = pre @ (d, x) # post" "is_mutation d"
      have "rollback_permits pf bt po (mutation_value mi) pre d"
        by (rule runs_guard [OF q rollback_whole [unfolded safely_def] e(1)])
      then show "submitted pre = []"
        using e(2) by (auto simp: rollback_permits_def submitted_append) (simp_all add: submitted_def sample_trace_def)
    qed
  qed
  then show ?thesis using True by simp
qed (use quiet_part [OF assms(1)] in simp)

lemma unfolds_rollback:
  "unfolds (provided pf bt po) h t \<Longrightarrow> list_all (\<lambda>e. \<not> is_apply (fst e)) h \<Longrightarrow> length (submitted (client_view t)) \<le> applied h"
proof (induction rule: unfolds.induct)
  case (part c s a h t)
  then show ?case using rollback_part_bound [OF part.hyps(1)] by (auto simp: submitted_append applied_def split: if_splits)
qed (simp add: applied_def)

lemma rollback_applies_nothing: "wp (\<lambda>_ c. \<not> is_apply c) (\<lambda>_ _. True) (Reconciler_Removal.rollbackPendingPortalCreate pf input) []"
proof -
  have r: "only (\<lambda>c. \<not> is_apply c) (readLive pf c)" for c by (rule only_readLive) simp_all
  have s: "only (\<lambda>c. \<not> is_apply c) readReceipt" "only (\<lambda>c. \<not> is_apply c) (writeReceipt x)" for x
    unfolding readReceipt_def writeReceipt_def by (intro only_intros; simp)+
  have "only (\<lambda>c. \<not> is_apply c) (rollbackPendingPortalCreateLocked pf c)" for c
    unfolding rollbackPendingPortalCreateLocked_def buildPendingPortalRollbackPreview_def or_refuse_def inspectCall_def rollbackCall_def
      case_prod_beta Let_def
    by (intro only_intros r s) simp_all
  then have "only (\<lambda>c. \<not> is_apply c) (withReceiptLock c (rollbackPendingPortalCreateLocked pf c))" for c
    unfolding withReceiptLock_def exclusively_def by (intro only_intros) (auto intro!: only_intros split: sum.split)
  then have "only (\<lambda>c. \<not> is_apply c) (Reconciler_Removal.rollbackPendingPortalCreate pf input)"
    unfolding Reconciler_Removal.rollbackPendingPortalCreate_def by (intro only_intros)
  then show ?thesis by (simp add: only_def)
qed

lemma rollback_submits_one:
  "wp (\<lambda>_ _. True) (\<lambda>_ t. length (submitted (client_view t)) \<le> 1)
    (system pf bt po (Reconciler_Removal.rollbackPendingPortalCreate pf input)) []"
proof (rule wp_from_runs)
  fix t r assume "runs (system pf bt po (Reconciler_Removal.rollbackPendingPortalCreate pf input)) t r"
  then obtain h where h: "unfolds (provided pf bt po) h t" "runs (Reconciler_Removal.rollbackPendingPortalCreate pf input) h r"
    by (auto simp: system_def connect_runs)
  have "list_all (\<lambda>e. \<not> is_apply (fst e)) h" using wp_calls [OF rollback_applies_nothing h(2)] .
  moreover have "applied h \<le> 1" using runs_wp [OF h(2) rollback_counted] .
  ultimately show "length (submitted (client_view t)) \<le> 1" using unfolds_rollback [OF h(1)] by linarith
qed simp

text \<open>
  The number of requests that change the account is bounded by what was approved: applying a list of changes makes at most
  three for each, uninstalling a list of actions as well, and recovering an interrupted action at most three, whatever
  the account answers and however long it is polled.
\<close>

theorem system_mutations_bounded:
  "wp (\<lambda>_ _. True) (\<lambda>_ t. length (submitted (client_view t)) \<le> 3 * length changes)
     (system pf bt po (applyChanges pf context prune receipt changes)) []
   \<and> wp (\<lambda>_ _. True) (\<lambda>_ t. length (submitted (client_view t)) \<le> 3 * length actions)
     (system pf bt po (uninstallActions pf context planId receipt actions)) []
   \<and> wp (\<lambda>_ _. True) (\<lambda>_ t. length (submitted (client_view t)) \<le> 3) (system pf bt po (recoverApplyPending pf context live)) []
   \<and> wp (\<lambda>_ _. True) (\<lambda>_ t. length (submitted (client_view t)) \<le> 3) (system pf bt po (recoverUninstallPending pf context preview)) []"
  using system_bound [OF changes_bound] system_bound [OF actions_bound] system_bound [OF recovery_bounds(1)]
    system_bound [OF recovery_bounds(2)]
  by simp

text \<open>Where every change asked for was reported as not submitted, nothing was.\<close>

lemma unfolds_unsubmitted:
  assumes "unfolds (provided pf bt po) h t" "\<And>c x. (c, x) \<in> set h \<Longrightarrow> is_change c \<Longrightarrow> \<exists>mi e. c = Apply mi \<and> x = Inl e \<and> not_submitted e"
  shows "submitted (client_view t) = []"
  using assms
proof (induction rule: unfolds.induct)
  case (part c s a h t)
  have "submitted (client_view s) = []"
  proof (cases "is_change c")
    case True
    obtain mi e where "c = Apply mi" "a = Inl e" "not_submitted e" using part.prems [OF _ True, of a] by auto
    then show ?thesis using unsubmitted_part part.hyps(1) by simp
  qed (rule quiet_part [OF part.hyps(1)])
  moreover have "submitted (client_view t) = []" by (rule part.IH, rule part.prems) simp_all
  ultimately show ?case by (simp add: submitted_append)
qed simp

lemma only_change:
  assumes "surely_unsubmitted h" "applied h \<le> 1" "(c, x) \<in> set h" "is_change c"
  shows "\<exists>mi e. c = Apply mi \<and> x = Inl e \<and> not_submitted e"
proof -
  obtain mi e where e: "(Apply mi, Inl e) \<in> set h" "not_submitted e" using assms(1) by (auto simp: surely_unsubmitted_def)
  let ?changes = "filter (is_change \<circ> fst) h"
  have "(Apply mi, Inl e) \<in> set ?changes" "(c, x) \<in> set ?changes" using e(1) assms(3,4) by simp_all
  moreover have "length ?changes \<le> 1" using assms(2) by (simp add: applied_def)
  ultimately have "(c, x) = (Apply mi, Inl e)" by (cases ?changes) auto
  then show ?thesis using e(2) by simp
qed

text \<open>
  C7. The journal is only cleared for a change of which nothing reached the account: where mutating writes the receipt without the
  pending action, no mutation was requested before, in the whole run.
\<close>

theorem system_cleared_unsubmitted:
  "wp (\<lambda>t c. case c of Outside (Store_write r) \<Rightarrow> submitted (client_view t) = [] | _ \<Rightarrow> True) (\<lambda>_ _. True)
     (system pf bt po (mutate pf context change receipt target)) []"
proof (rule wp_from_runs, simp)
  fix t r pre c a post
  assume "runs (system pf bt po (mutate pf context change receipt target)) t r" and e: "t = pre @ (c, a) # post"
  then obtain h where h: "unfolds (provided pf bt po) h t" "runs (mutate pf context change receipt target) h r"
    by (auto simp: system_def connect_runs)
  have n: "applied h \<le> 1" using runs_wp [OF h(2) count_run [OF one_mutation]] .
  have "submitted (client_view pre) = []" if w: "c = Outside (Store_write r')" for r'
    using h(1) e
  proof (rule unfolds_event)
    fix h1 d x h2 t1 u v t2
    assume i: "h = h1 @ (d, x) # h2" "unfolds (provided pf bt po) h1 t1" "runs (provided pf bt po d) (u @ (c, a) # v) x" "pre = t1 @ u"
    have d: "d = Store_write r' \<and> u = []"
      using i(3) unfolding w
      by (cases d) (auto simp: provided_def append_eq_Cons_conv through_client_only_def dest!: over_client_runs split: list.splits)
    have "surely_unsubmitted h1" using runs_guard [OF h(2) mutate_unsubmitted i(1)] d by simp
    moreover have "applied h1 \<le> 1" using n by (simp add: i(1) applied_def)
    ultimately show ?thesis using unfolds_unsubmitted [OF i(2)] only_change d i(4) by simp
  qed
  then show "case c of Outside (Store_write r) \<Rightarrow> submitted (client_view pre) = [] | _ \<Rightarrow> True"
    by (simp split: system_call.split reconcile_call.split)
qed

end
