(* ===== verification/Http_Client.thy ===== *)
theory Http_Client
  imports Provider Json_Text
begin

text \<open>
  The HTTP client of the account, \<^verbatim>\<open>src/cloudflare-client.ts\<close>: the request of each operation, the pages of a
  list, and what is told of a failure. A program over \<^verbatim>\<open>fetch\<close>, whose answer is the response, or \<open>None\<close> where it
  is rejected, aborted by the caller's signal or timed out; the body of a response is a part of it.
  \<open>encodeURIComponent\<close>, the path of \<^verbatim>\<open>new URL\<close> and the serialisation of \<^verbatim>\<open>URLSearchParams\<close> are written out (texts
  have code units below 256, so a unit is one or two bytes of UTF-8); the reading of a numeral that is no integer text is the platform's.
\<close>

section \<open>Errors\<close>

definition CLIENT_CODE :: pattern where
  "CLIENT_CODE = seqs [Start, Run (\<lambda>c. is_alnum c \<or> c \<in> set ''_.:-'') 1 (Some 64), End]"

definition SAFE_REQUEST_ID :: pattern where
  "SAFE_REQUEST_ID = seqs [Start, Run (\<lambda>c. is_alnum c \<or> c \<in> set ''_.:/-'') 1 (Some 128), End]"

record api_error =
  ae_codes :: "string list"
  ae_operation :: string
  ae_requestId :: "string option"
  ae_status :: int

text \<open>A \<^verbatim>\<open>CloudflareApiError\<close>, a \<^verbatim>\<open>TypeError\<close>, or the error of a schema.\<close>

datatype client_error = Api_error api_error | Client_type_error | Schema_error

text \<open>\<^verbatim>\<open>String(value)\<close> of a finite number, and the texts themselves.\<close>

definition code_text :: "jval \<Rightarrow> string option" where
  "code_text v = (case v of JStr s \<Rightarrow> Some s | JNum (JInt i) \<Rightarrow> Some (int_text i) | JNum (JFrac t) \<Rightarrow> Some t | _ \<Rightarrow> None)"

primrec sanitize_from :: "jval list \<Rightarrow> string list \<Rightarrow> string list" where
  "sanitize_from [] result = result"
| "sanitize_from (v # vs) result =
     (let result' = (case code_text v of
          Some code \<Rightarrow> if test CLIENT_CODE code \<and> code \<notin> set result then result @ [code] else result
        | None \<Rightarrow> result)
      in if length result' = 20 then result' else sanitize_from vs result')"

definition sanitizeCodes :: "jval list \<Rightarrow> string list" where
  "sanitizeCodes values = sanitize_from values []"

definition sanitizeRequestId :: "jval \<Rightarrow> string option" where
  "sanitizeRequestId v = (case v of JStr s \<Rightarrow> if test SAFE_REQUEST_ID s then Some s else None | _ \<Rightarrow> None)"

definition safeStatus :: "jval \<Rightarrow> int" where
  "safeStatus v = (case v of JNum (JInt i) \<Rightarrow> if 0 \<le> i \<and> i \<le> 599 then i else 0 | _ \<Rightarrow> 0)"

definition CloudflareApiError :: "string \<Rightarrow> int \<Rightarrow> jval list \<Rightarrow> string option \<Rightarrow> client_error" where
  "CloudflareApiError operation status codes requestId = Api_error
     \<lparr>ae_codes = sanitizeCodes codes, ae_operation = (if test CLIENT_CODE operation then operation else ''unknown_operation''),
      ae_requestId = Option.bind requestId (\<lambda>i. sanitizeRequestId (JStr i)), ae_status = safeStatus (jint status)\<rparr>"

definition error_message :: "api_error \<Rightarrow> string" where
  "error_message e = ''Cloudflare API request failed: '' @ join_with '' ''
     ([''operation='' @ ae_operation e, ''status='' @ int_text (ae_status e),
       ''codes='' @ (if ae_codes e = [] then ''none'' else join_with '','' (ae_codes e))]
      @ (case ae_requestId e of None \<Rightarrow> [] | Some i \<Rightarrow> [''request_id='' @ i]))"

section \<open>Arguments\<close>

definition client_demand :: "bool \<Rightarrow> client_error + unit" where
  "client_demand b = (if b then Inr () else Inl Client_type_error)"

definition requireIdentifier :: "jval \<Rightarrow> client_error + string" where
  "requireIdentifier v = (case v of
     JStr s \<Rightarrow> if js_trim s = [] \<or> 256 < length s \<or> hasControlCharacter s then Inl Client_type_error else Inr s
   | _ \<Rightarrow> Inl Client_type_error)"

definition requireSecret :: "jval \<Rightarrow> client_error + string" where
  "requireSecret v = (case v of
     JStr s \<Rightarrow> if s = [] \<or> hasControlCharacter s then Inl Client_type_error else Inr s
   | _ \<Rightarrow> Inl Client_type_error)"

definition requireBody :: "jval \<Rightarrow> client_error + jval" where
  "requireBody v = (case parse_boundary_object v of
     Some b \<Rightarrow> if is_json b then Inr b else Inl Client_type_error
   | None \<Rightarrow> Inl Client_type_error)"

fun is_primitive :: "jval \<Rightarrow> bool" where
  "is_primitive (JArr xs) = False"
| "is_primitive (JObj kvs) = False"
| "is_primitive v = True"

fun is_query_value :: "jval \<Rightarrow> bool" where
  "is_query_value (JArr xs) = list_all is_primitive xs"
| "is_query_value v = is_primitive v"

definition requireQuery :: "jval \<Rightarrow> client_error + (string \<times> jval) list" where
  "requireQuery v = (case parse_boundary_object v of
     Some (JObj kvs) \<Rightarrow> if list_all (\<lambda>e. is_query_value (snd e)) kvs then Inr kvs else Inl Client_type_error
   | _ \<Rightarrow> Inl Client_type_error)"

record client_config =
  cc_accountId :: string
  cc_token :: string
  cc_zoneId :: string

text \<open>The data among the options; the function and the signal are typing. The second part is the time limit.\<close>

definition client_options :: "jval \<Rightarrow> client_error + client_config \<times> int" where
  "client_options options =
     andThen (client_demand (isObject options
       \<and> unknown_keys options [''token'', ''accountId'', ''zoneId'', ''fetchImpl'', ''signal'', ''requestTimeoutMs''] = [])) (\<lambda>_.
     andThen (requireSecret (field options ''token'')) (\<lambda>token.
     andThen (requireIdentifier (field options ''accountId'')) (\<lambda>accountId.
     andThen (requireIdentifier (field options ''zoneId'')) (\<lambda>zoneId.
     andThen (case field options ''requestTimeoutMs'' of
         Undef \<Rightarrow> Inr 30000
       | JNum (JInt i) \<Rightarrow> if i < 1 \<or> 120000 < i then Inl Client_type_error else Inr i
       | _ \<Rightarrow> Inl Client_type_error) (\<lambda>timeout.
       Inr (\<lparr>cc_accountId = accountId, cc_token = token, cc_zoneId = zoneId\<rparr>, timeout))))))"

section \<open>URLs\<close>

text \<open>A byte as an escape.\<close>

definition upper_hex :: "nat \<Rightarrow> char" where
  "upper_hex n = (if n < 10 then char_of (48 + n) else char_of (55 + n))"

definition percent :: "nat \<Rightarrow> string" where
  "percent b = [CHR ''%'', upper_hex (b div 16), upper_hex (b mod 16)]"

definition escape_bytes :: "char \<Rightarrow> string" where
  "escape_bytes c = concat (map percent (utf8 c))"

definition uri_unreserved :: "char \<Rightarrow> bool" where
  "uri_unreserved c \<longleftrightarrow> is_alnum c \<or> c \<in> set ''-_.!~*()'' \<or> c = CHR 0x27"

definition encodeURIComponent :: "string \<Rightarrow> string" where
  "encodeURIComponent s = concat (map (\<lambda>c. if uri_unreserved c then [c] else escape_bytes c) s)"

definition form_encode :: "string \<Rightarrow> string" where
  "form_encode s = concat (map (\<lambda>c. if is_alnum c \<or> c \<in> set ''*-._'' then [c] else if c = CHR '' '' then ''+'' else escape_bytes c) s)"

text \<open>The segments of a path as \<^verbatim>\<open>new URL\<close> resolves them.\<close>

fun resolve_path :: "string list \<Rightarrow> string list \<Rightarrow> string list" where
  "resolve_path resolved [] = resolved"
| "resolve_path resolved (s # ss) =
     (if s = ''..'' then resolve_path (butlast resolved @ (if ss = [] then [[]] else [])) ss
      else if s = ''.'' then resolve_path (resolved @ (if ss = [] then [[]] else [])) ss
      else resolve_path (resolved @ [s]) ss)"

definition ORIGIN :: string where
  "ORIGIN = ''https://api.cloudflare.com/''"

definition BASE_PATH :: "string list" where
  "BASE_PATH = [''client'', ''v4'']"

text \<open>\<^verbatim>\<open>String(value)\<close>.\<close>

fun js_text :: "jval \<Rightarrow> string"
  and js_elements :: "jval list \<Rightarrow> string list" where
  "js_text (JStr s) = s"
| "js_text (JBool b) = (if b then ''true'' else ''false'')"
| "js_text JNull = ''null''"
| "js_text Undef = ''undefined''"
| "js_text (JNum n) = (case n of JInt i \<Rightarrow> int_text i | JFrac t \<Rightarrow> t | JInf b \<Rightarrow> if b then ''-Infinity'' else ''Infinity'')"
| "js_text (JArr xs) = join_with '','' (js_elements xs)"
| "js_text (JObj kvs) = ''[object Object]''"
| "js_elements [] = []"
| "js_elements (x # xs) = (if x = JNull \<or> x = Undef then [] else js_text x) # js_elements xs"

definition query_pairs :: "(string \<times> jval) list \<Rightarrow> (string \<times> string) list" where
  "query_pairs query = concat (map (\<lambda>(key, raw).
     map (\<lambda>value. (key, js_text value)) (filter (\<lambda>v. v \<noteq> Undef \<and> v \<noteq> JNull) (case raw of JArr xs \<Rightarrow> xs | _ \<Rightarrow> [raw]))) query)"

definition search_text :: "(string \<times> string) list \<Rightarrow> string" where
  "search_text pairs = (if pairs = [] then [] else
     ''?'' @ join_with ''&'' (map (\<lambda>(k, v). form_encode k @ ''='' @ form_encode v) pairs))"

definition path_text :: "string list \<Rightarrow> string" where
  "path_text path = ORIGIN @ join_with ''/'' (resolve_path [] (BASE_PATH @ map encodeURIComponent path))"

definition buildUrl :: "string list \<Rightarrow> jval \<Rightarrow> client_error + string" where
  "buildUrl path query = (if query = Undef then Inr (path_text path)
     else andThen (requireQuery query) (\<lambda>safe. Inr (path_text path @ search_text (query_pairs safe))))"

section \<open>Requests\<close>

record http_request =
  hq_body :: "string option"
  hq_headers :: "(string \<times> string) list"
  hq_method :: string
  hq_url :: string

text \<open>The content of a response: a text to read or a value to read, \<open>None\<close> where reading it fails or is aborted.\<close>

datatype http_content = Text_content "string option" | Json_content "jval option" | No_content

record http_response =
  hr_cf_ray :: jval
  hr_content :: http_content
  hr_ok :: bool
  hr_request_id :: jval
  hr_status :: jval

datatype http_call = Fetch http_request | Delay int

type_synonym 'x httping = "(http_call, http_response option, client_error, 'x) action"

text \<open>The platform's readings: a JSON numeral, and a text by \<^verbatim>\<open>Number\<close> (\<open>None\<close> is \<^verbatim>\<open>NaN\<close>), where they are no integer text.\<close>

record http_platform =
  hp_double :: "string \<Rightarrow> jnum"
  hp_number :: "string \<Rightarrow> jnum option"

definition readEnvelope :: "http_platform \<Rightarrow> http_content \<Rightarrow> jval" where
  "readEnvelope hp content = (case content of
     Text_content (Some t) \<Rightarrow> if t = [] then JNull
       else (case json_parse (hp_double hp) t of None \<Rightarrow> JNull | Some v \<Rightarrow> drop_prototype v)
   | Json_content (Some v) \<Rightarrow> drop_prototype v
   | _ \<Rightarrow> JNull)"

definition getRequestId :: "http_response \<Rightarrow> string option" where
  "getRequestId response = sanitizeRequestId
     (if hr_cf_ray response = JNull \<or> hr_cf_ray response = Undef then hr_request_id response else hr_cf_ray response)"

definition readErrorCodes :: "jval \<Rightarrow> jval list" where
  "readErrorCodes v = (case v of JArr xs \<Rightarrow> map (\<lambda>item. if isObject item then field item ''code'' else Undef) xs | _ \<Rightarrow> [])"

text \<open>What a response gives: nothing, the result (with the information on the pages), or the error.\<close>

definition read_response :: "http_platform \<Rightarrow> string \<Rightarrow> bool \<Rightarrow> bool \<Rightarrow> http_response \<Rightarrow> client_error + jval" where
  "read_response hp operation nullOn404 withInfo response =
     (let status = safeStatus (hr_status response); requestId = getRequestId response in
      if nullOn404 \<and> status = 404 then Inr JNull
      else if hr_ok response \<and> status = 204 then Inr JNull
      else let envelope = readEnvelope hp (hr_content response) in
        if \<not> hr_ok response \<or> \<not> isObject envelope \<or> field envelope ''success'' \<noteq> JBool True
        then let codes = (if isObject envelope then sanitizeCodes (readErrorCodes (field envelope ''errors'')) else []) in
          Inl (CloudflareApiError operation status (if codes \<noteq> [] then map JStr codes else [JStr ''invalid_response'']) requestId)
        else if ''result'' \<notin> set (keys envelope) then Inl (CloudflareApiError operation status [JStr ''invalid_response''] requestId)
        else Inr (if withInfo
          then JObj [(''result'', field envelope ''result''), (''resultInfo'', field envelope ''result_info'')]
          else field envelope ''result''))"

definition request_body :: "string \<Rightarrow> jval \<Rightarrow> client_error + string option" where
  "request_body operation body = (if body = Undef then Inr None
     else andThen (requireBody body) (\<lambda>b. Inr (json_stringify b)))"

definition request_headers :: "client_config \<Rightarrow> bool \<Rightarrow> (string \<times> string) list" where
  "request_headers cfg hasBody = [(''Accept'', ''application/json''), (''Authorization'', ''Bearer '' @ cc_token cfg)]
     @ (if hasBody then [(''Content-Type'', ''application/json'')] else [])"

record request_options =
  ro_body :: jval
  ro_nullOn404 :: bool
  ro_query :: jval
  ro_withInfo :: bool

definition plain_request :: request_options where
  "plain_request = \<lparr>ro_body = Undef, ro_nullOn404 = False, ro_query = Undef, ro_withInfo = False\<rparr>"

definition request :: "http_platform \<Rightarrow> client_config \<Rightarrow> string \<Rightarrow> string \<Rightarrow> string list \<Rightarrow> request_options \<Rightarrow> jval httping" where
  "request hp cfg operation verb path ro =
     seq (lift (buildUrl path (ro_query ro))) (\<lambda>url.
     seq (lift (request_body operation (ro_body ro))) (\<lambda>body.
       Ask (Fetch \<lparr>hq_body = body, hq_headers = request_headers cfg (body \<noteq> None), hq_method = verb, hq_url = url\<rparr>) (\<lambda>a. case a of
         None \<Rightarrow> throw (CloudflareApiError operation 0 [JStr ''network_error''] None)
       | Some response \<Rightarrow> Done (read_response hp operation (ro_nullOn404 ro) (ro_withInfo ro) response))))"

section \<open>Pages\<close>

definition PAGE_SIZE :: nat where
  "PAGE_SIZE = 100"

definition MAX_PAGES :: nat where
  "MAX_PAGES = 100"

definition text_number :: "http_platform \<Rightarrow> string \<Rightarrow> jnum option" where
  "text_number hp s = (let t = js_trim s in
     if t = [] then Some (JInt 0)
     else if is_safe_integer (text_int t) \<and> t = int_text (text_int t) then Some (JInt (text_int t)) else hp_number hp t)"

text \<open>\<^verbatim>\<open>Number(value)\<close>.\<close>

definition js_number :: "http_platform \<Rightarrow> jval \<Rightarrow> jnum option" where
  "js_number hp v = (case v of
     JNum n \<Rightarrow> Some n
   | JNull \<Rightarrow> Some (JInt 0)
   | JBool b \<Rightarrow> Some (JInt (if b then 1 else 0))
   | JStr s \<Rightarrow> text_number hp s
   | JArr xs \<Rightarrow> text_number hp (js_text v)
   | _ \<Rightarrow> None)"

definition readTotalPages :: "http_platform \<Rightarrow> jval \<Rightarrow> nat option" where
  "readTotalPages hp resultInfo =
     (if \<not> isObject resultInfo \<or> field resultInfo ''total_pages'' = Undef then None
      else case js_number hp (field resultInfo ''total_pages'') of
        Some (JInt i) \<Rightarrow> if is_safe_integer i \<and> 1 \<le> i then Some (nat i) else None
      | _ \<Rightarrow> None)"

definition page_query :: "(string \<times> jval) list \<Rightarrow> nat \<Rightarrow> jval" where
  "page_query query page = JObj (put ''per_page'' (jint (int PAGE_SIZE)) (put ''page'' (jint (int page)) query))"

text \<open>Whether the page is the last one.\<close>

definition last_page :: "nat option \<Rightarrow> nat \<Rightarrow> nat \<Rightarrow> bool" where
  "last_page totalPages page found = (case totalPages of Some pages \<Rightarrow> pages \<le> page | None \<Rightarrow> found < PAGE_SIZE)"

definition pagination_limit :: "string \<Rightarrow> client_error" where
  "pagination_limit operation = CloudflareApiError operation 200 [JStr ''pagination_limit''] None"

text \<open>The pages from \<open>page\<close> on, with \<open>n\<close> pages left.\<close>

primrec paginate_from :: "nat \<Rightarrow> http_platform \<Rightarrow> client_config \<Rightarrow> string \<Rightarrow> string list \<Rightarrow> (string \<times> jval) list \<Rightarrow> nat
    \<Rightarrow> jval list \<Rightarrow> jval httping" where
  "paginate_from 0 hp cfg operation path query page results = throw (pagination_limit operation)"
| "paginate_from (Suc n) hp cfg operation path query page results =
     seq (request hp cfg operation ''GET'' path (plain_request\<lparr>ro_query := page_query query page, ro_withInfo := True\<rparr>)) (\<lambda>response.
     seq (lift (case items (field response ''result'') of None \<Rightarrow> Inl Schema_error | Some xs \<Rightarrow> Inr xs)) (\<lambda>xs.
       let totalPages = readTotalPages hp (field response ''resultInfo'') in
       if (case totalPages of Some pages \<Rightarrow> MAX_PAGES < pages | None \<Rightarrow> False) then throw (pagination_limit operation)
       else if last_page totalPages page (length xs) then return (JArr (results @ xs))
       else if page = MAX_PAGES then throw (pagination_limit operation)
       else paginate_from n hp cfg operation path query (page + 1) (results @ xs)))"

definition paginate :: "http_platform \<Rightarrow> client_config \<Rightarrow> string \<Rightarrow> string list \<Rightarrow> jval \<Rightarrow> jval httping" where
  "paginate hp cfg operation path query =
     seq (lift (requireQuery query)) (\<lambda>safe. paginate_from MAX_PAGES hp cfg operation path safe 1 [])"

section \<open>Operations\<close>

definition account_path :: "client_config \<Rightarrow> string list" where
  "account_path cfg = [''accounts'', cc_accountId cfg]"

definition mcpServers :: "client_config \<Rightarrow> string list" where
  "mcpServers cfg = account_path cfg @ [''access'', ''ai-controls'', ''mcp'', ''servers'']"

definition portals :: "client_config \<Rightarrow> string list" where
  "portals cfg = account_path cfg @ [''access'', ''ai-controls'', ''mcp'', ''portals'']"

definition zone_path :: "client_config \<Rightarrow> string list" where
  "zone_path cfg = [''zones'', cc_zoneId cfg]"

definition accessApps :: "client_config \<Rightarrow> string list" where
  "accessApps cfg = zone_path cfg @ [''access'', ''apps'']"

definition dnsRecords :: "client_config \<Rightarrow> string list" where
  "dnsRecords cfg = zone_path cfg @ [''dns_records'']"

text \<open>\<^verbatim>\<open>id(value, label)\<close>\<close>

definition with_id :: "string \<Rightarrow> 'x httping \<Rightarrow> 'x httping" where
  "with_id i p = seq (lift (requireIdentifier (JStr i))) (\<lambda>_. p)"

definition one :: request_options where
  "one = plain_request\<lparr>ro_nullOn404 := True\<rparr>"

definition sending :: "jval \<Rightarrow> request_options" where
  "sending body = plain_request\<lparr>ro_body := body\<rparr>"

text \<open>The query the observer and the provider list DNS records with.\<close>

definition exact_name :: "string \<Rightarrow> jval" where
  "exact_name hostname = JObj [(''name.exact'', JStr hostname), (''match'', JStr ''all'')]"

fun client_read :: "http_platform \<Rightarrow> client_config \<Rightarrow> observe_call \<Rightarrow> jval httping" where
  "client_read hp cfg Get_zone = request hp cfg ''get_zone'' ''GET'' [''zones'', cc_zoneId cfg] one"
| "client_read hp cfg List_identity_providers =
     paginate hp cfg ''list_identity_providers'' (account_path cfg @ [''access'', ''identity_providers'']) (JObj [])"
| "client_read hp cfg (Get_mcp_server i) = with_id i (request hp cfg ''get_mcp_server'' ''GET'' (mcpServers cfg @ [i]) one)"
| "client_read hp cfg (Get_portal i) = with_id i (request hp cfg ''get_portal'' ''GET'' (portals cfg @ [i]) one)"
| "client_read hp cfg (List_dns_records hostname) = paginate hp cfg ''list_dns_records'' (dnsRecords cfg) (exact_name hostname)"
| "client_read hp cfg List_access_apps = paginate hp cfg ''list_access_apps'' (accessApps cfg) (JObj [])"
| "client_read hp cfg (Get_access_app i) = with_id i (request hp cfg ''get_access_app'' ''GET'' (accessApps cfg @ [i]) one)"
| "client_read hp cfg (Get_dns_record i) = with_id i (request hp cfg ''get_dns_record'' ''GET'' (dnsRecords cfg @ [i]) one)"
| "client_read hp cfg (List_app_policies i) =
     with_id i (paginate hp cfg ''list_app_policies'' (accessApps cfg @ [i, ''policies'']) (JObj []))"
| "client_read hp cfg (Get_app_policy p i) =
     with_id p (with_id i (request hp cfg ''get_app_policy'' ''GET'' (accessApps cfg @ [p, ''policies'', i]) one))"

fun client_operation :: "http_platform \<Rightarrow> client_config \<Rightarrow> client_call \<Rightarrow> jval httping" where
  "client_operation hp cfg (Read c) = client_read hp cfg c"
| "client_operation hp cfg (Create_mcp_server body) = request hp cfg ''create_mcp_server'' ''POST'' (mcpServers cfg) (sending body)"
| "client_operation hp cfg (Update_mcp_server i body) =
     with_id i (request hp cfg ''update_mcp_server'' ''PUT'' (mcpServers cfg @ [i]) (sending body))"
| "client_operation hp cfg (Delete_mcp_server i) =
     with_id i (request hp cfg ''delete_mcp_server'' ''DELETE'' (mcpServers cfg @ [i]) plain_request)"
| "client_operation hp cfg (Sync_mcp_server i) =
     with_id i (request hp cfg ''sync_mcp_server'' ''POST'' (mcpServers cfg @ [i, ''sync'']) plain_request)"
| "client_operation hp cfg (Create_portal body) = request hp cfg ''create_portal'' ''POST'' (portals cfg) (sending body)"
| "client_operation hp cfg (Update_portal i body) =
     with_id i (request hp cfg ''update_portal'' ''PUT'' (portals cfg @ [i]) (sending body))"
| "client_operation hp cfg (Delete_portal i) =
     with_id i (request hp cfg ''delete_portal'' ''DELETE'' (portals cfg @ [i]) plain_request)"
| "client_operation hp cfg (Create_access_app body) =
     request hp cfg ''create_access_app'' ''POST'' (accessApps cfg) (sending body)"
| "client_operation hp cfg (Update_access_app i body) =
     with_id i (request hp cfg ''update_access_app'' ''PUT'' (accessApps cfg @ [i]) (sending body))"
| "client_operation hp cfg (Delete_access_app i) =
     with_id i (request hp cfg ''delete_access_app'' ''DELETE'' (accessApps cfg @ [i]) plain_request)"
| "client_operation hp cfg (Create_app_policy p body) =
     with_id p (request hp cfg ''create_app_policy'' ''POST'' (accessApps cfg @ [p, ''policies'']) (sending body))"
| "client_operation hp cfg (Update_app_policy p i body) =
     with_id p (with_id i (request hp cfg ''update_app_policy'' ''PUT'' (accessApps cfg @ [p, ''policies'', i]) (sending body)))"
| "client_operation hp cfg (Delete_app_policy p i) =
     with_id p (with_id i (request hp cfg ''delete_app_policy'' ''DELETE'' (accessApps cfg @ [p, ''policies'', i]) plain_request))"
| "client_operation hp cfg (Create_dns_record body) = request hp cfg ''create_dns_record'' ''POST'' (dnsRecords cfg) (sending body)"
| "client_operation hp cfg (Update_dns_record i body) =
     with_id i (request hp cfg ''update_dns_record'' ''PUT'' (dnsRecords cfg @ [i]) (sending body))"
| "client_operation hp cfg (Delete_dns_record i) =
     with_id i (request hp cfg ''delete_dns_record'' ''DELETE'' (dnsRecords cfg @ [i]) plain_request)"
| "client_operation hp cfg (Wait n) = Ask (Delay n) (\<lambda>a. case a of None \<Rightarrow> throw Client_type_error | Some r \<Rightarrow> return Undef)"

end
