(* ===== verification/Http_Facts.thy ===== *)
theory Http_Facts
  imports Http_Client Provider_Bounds
begin

text \<open>
  What a server reads out of a URL of the client, and the requests of one operation. \<open>url_segments\<close> is the
  reading of a path: the part before the query, split at slashes, each part unescaped. It is stated against the
  source's \<open>encodeURIComponent\<close> and the resolution of dot segments.
\<close>

section \<open>Unescaping\<close>

fun decode_bytes :: "string \<Rightarrow> nat list" where
  "decode_bytes [] = []"
| "decode_bytes (c # s) = (if c = CHR ''%'' then (case s of
       a # b # r \<Rightarrow> (case (hex_of a, hex_of b) of (Some x, Some y) \<Rightarrow> (16 * x + y) # decode_bytes r | _ \<Rightarrow> [])
     | _ \<Rightarrow> []) else code_unit c # decode_bytes s)"

fun utf8_text :: "nat list \<Rightarrow> string" where
  "utf8_text [] = []"
| "utf8_text (b # bs) = (if b < 128 then char_of b # utf8_text bs
     else (case bs of [] \<Rightarrow> [] | d # r \<Rightarrow> char_of ((b - 192) * 64 + (d - 128)) # utf8_text r))"

definition decodeURIComponent :: "string \<Rightarrow> string" where
  "decodeURIComponent s = utf8_text (decode_bytes s)"

lemma char_code [simp]: "char_of (code_unit c) = c"
  by simp

lemma hex_of_upper: "n < 16 \<Longrightarrow> hex_of (upper_hex n) = Some n"
proof -
  assume "n < 16"
  then have "n \<in> set [0..<16]" by simp
  then show ?thesis by (auto simp: upt_conv_Cons upper_hex_def hex_of_def Let_def)
qed

lemma decode_percent: "b < 256 \<Longrightarrow> decode_bytes (percent b @ s) = b # decode_bytes s"
  by (simp add: percent_def hex_of_upper)

lemma decode_escaped: "decode_bytes (escape_bytes c @ s) = utf8 c @ decode_bytes s"
proof -
  have "decode_bytes (concat (map percent bs) @ s) = bs @ decode_bytes s" if "\<forall>b \<in> set bs. b < 256" for bs
    using that by (induction bs) (simp_all add: decode_percent del: decode_bytes.simps)
  then show ?thesis using utf8_bound by (simp add: escape_bytes_def)
qed

lemma unreserved_char: "uri_unreserved c \<Longrightarrow> c \<noteq> CHR ''%'' \<and> c \<noteq> CHR ''/'' \<and> c \<noteq> CHR ''?'' \<and> code_unit c < 128"
  by (auto simp: uri_unreserved_def char_class_defs)

lemma decode_encoded: "decode_bytes (encodeURIComponent s) = concat (map utf8 s)"
proof (induction s)
  case (Cons c s)
  then show ?case using unreserved_char [of c] decode_escaped [of c "encodeURIComponent s"]
    by (auto simp: encodeURIComponent_def utf8_def)
qed (simp add: encodeURIComponent_def)

lemma utf8_text_utf8: "utf8_text (utf8 c @ bs) = c # utf8_text bs"
proof (cases "code_unit c < 128")
  case False
  have "(64 * (code_unit c div 64) + code_unit c mod 64) = code_unit c" by simp
  then show ?thesis using False code_bound [of c] by (simp add: utf8_def Let_def mult.commute)
qed (simp add: utf8_def)

lemma decode_encode: "decodeURIComponent (encodeURIComponent s) = s"
proof -
  have "utf8_text (concat (map utf8 s)) = s" by (induction s) (simp_all add: utf8_text_utf8)
  then show ?thesis by (simp add: decodeURIComponent_def decode_encoded)
qed

section \<open>Paths\<close>

definition url_segments :: "string \<Rightarrow> string list option" where
  "url_segments url = (if take (length ORIGIN) url = ORIGIN
     then Some (map decodeURIComponent (split_at (CHR ''/'') (takeWhile (\<lambda>c. c \<noteq> CHR ''?'') (drop (length ORIGIN) url)))) else None)"

lemma set_join_with: "x \<in> set (join_with sep xs) \<Longrightarrow> x \<in> set sep \<or> (\<exists>w \<in> set xs. x \<in> set w)"
  by (induction sep xs rule: join_with.induct) auto

lemma split_join:
  "xs \<noteq> [] \<Longrightarrow> (\<And>x. x \<in> set xs \<Longrightarrow> sep \<notin> set x) \<Longrightarrow> split_at sep (join_with [sep] xs) = xs"
proof (induction "[sep]" xs rule: join_with.induct)
  case (2 x)
  then have "sep \<notin> set x" by simp
  then show ?case by (induction x) auto
next
  case (3 x y ys)
  have "split_at sep (x @ sep # t) = x # split_at sep t" if "sep \<notin> set x" for t x
    using that by (induction x) auto
  then show ?case using 3 by simp
qed simp

lemma escaped_chars: "x \<in> set (escape_bytes c) \<Longrightarrow> x \<noteq> CHR ''/'' \<and> x \<noteq> CHR ''?''"
proof -
  have hex: "upper_hex n \<noteq> CHR ''/'' \<and> upper_hex n \<noteq> CHR ''?''" if "n < 16" for n
  proof -
    from that have "n \<in> set [0..<16]" by simp
    then have "code_unit (upper_hex n) \<noteq> 47 \<and> code_unit (upper_hex n) \<noteq> 63"
      by (auto simp: upt_conv_Cons upper_hex_def)
    then show ?thesis by auto
  qed
  assume "x \<in> set (escape_bytes c)"
  then obtain b where b: "b \<in> set (utf8 c)" "x \<in> set (percent b)" by (auto simp: escape_bytes_def)
  have "b div 16 < 16" "b mod 16 < 16" using utf8_bound [OF b(1)] by simp_all
  with hex b(2) show ?thesis by (auto simp: percent_def)
qed

lemma encoded_chars: "x \<in> set (encodeURIComponent s) \<Longrightarrow> x \<noteq> CHR ''/'' \<and> x \<noteq> CHR ''?''"
  using escaped_chars unreserved_char by (auto simp: encodeURIComponent_def split: if_splits)

definition is_dots :: "string \<Rightarrow> bool" where
  "is_dots s \<longleftrightarrow> s = ''.'' \<or> s = ''..''"

lemma encoded_dots: "is_dots (encodeURIComponent s) \<Longrightarrow> is_dots s"
proof -
  have "decodeURIComponent ''.'' = ''.''" "decodeURIComponent ''..'' = ''..''" by code_simp+
  moreover assume "is_dots (encodeURIComponent s)"
  ultimately show ?thesis using decode_encode [of s] by (auto simp: is_dots_def)
qed

lemma resolve_plain: "list_all (\<lambda>s. \<not> is_dots s) ss \<Longrightarrow> resolve_path resolved ss = resolved @ ss"
  by (induction resolved ss rule: resolve_path.induct) (auto simp: is_dots_def)

lemma base_encoded: "map encodeURIComponent BASE_PATH = BASE_PATH"
  by code_simp

text \<open>A server reads the segments of a path as they are, whatever characters they have, unless one of them is made of dots.\<close>

lemma segments_read:
  assumes "list_all (\<lambda>s. \<not> is_dots s) path" "search = [] \<or> hd search = CHR ''?''"
  shows "url_segments (path_text path @ search) = Some (BASE_PATH @ path)"
proof -
  let ?ss = "map encodeURIComponent (BASE_PATH @ path)"
  have "list_all (\<lambda>s. \<not> is_dots s) BASE_PATH" by (simp add: BASE_PATH_def is_dots_def)
  moreover have "list_all (\<lambda>s. \<not> is_dots s) (map encodeURIComponent path)"
    using assms(1) encoded_dots by (auto simp: list_all_iff)
  ultimately have "list_all (\<lambda>s. \<not> is_dots s) ?ss" by (simp add: base_encoded)
  then have shape: "path_text path = ORIGIN @ join_with ''/'' ?ss"
    using resolve_plain [of ?ss "[]"] by (simp add: path_text_def base_encoded)
  have no: "x \<noteq> CHR ''?''" if "x \<in> set (join_with ''/'' ?ss)" for x
    using that set_join_with [of x "''/''" ?ss] encoded_chars by auto
  have "takeWhile (\<lambda>c. c \<noteq> CHR ''?'') (join_with ''/'' ?ss @ search) = join_with ''/'' ?ss"
    using no assms(2) by (cases search) (auto simp: takeWhile_tail)
  moreover have "split_at (CHR ''/'') (join_with ''/'' ?ss) = ?ss"
    by (rule split_join) (use encoded_chars in \<open>auto simp: BASE_PATH_def\<close>)
  moreover have "map decodeURIComponent ?ss = BASE_PATH @ path" by (simp add: decode_encode o_def)
  ultimately show ?thesis unfolding url_segments_def shape by simp
qed

section \<open>The request of an operation\<close>

fun request_method :: "client_call \<Rightarrow> string" where
  "request_method (Read c) = ''GET''"
| "request_method (Create_mcp_server body) = ''POST''"
| "request_method (Sync_mcp_server i) = ''POST''"
| "request_method (Create_portal body) = ''POST''"
| "request_method (Create_access_app body) = ''POST''"
| "request_method (Create_app_policy p body) = ''POST''"
| "request_method (Create_dns_record body) = ''POST''"
| "request_method (Update_mcp_server i body) = ''PUT''"
| "request_method (Update_portal i body) = ''PUT''"
| "request_method (Update_access_app i body) = ''PUT''"
| "request_method (Update_app_policy p i body) = ''PUT''"
| "request_method (Update_dns_record i body) = ''PUT''"
| "request_method (Wait n) = ''GET''"
| "request_method c = ''DELETE''"

text \<open>The resource an operation is about: below the account, or below the zone.\<close>

definition mcp :: "client_config \<Rightarrow> string list \<Rightarrow> string list" where
  "mcp cfg rest = [''accounts'', cc_accountId cfg, ''access'', ''ai-controls'', ''mcp''] @ rest"

definition in_zone :: "client_config \<Rightarrow> string list \<Rightarrow> string list" where
  "in_zone cfg rest = [''zones'', cc_zoneId cfg] @ rest"

fun read_path :: "client_config \<Rightarrow> observe_call \<Rightarrow> string list" where
  "read_path cfg Get_zone = in_zone cfg []"
| "read_path cfg List_identity_providers = [''accounts'', cc_accountId cfg, ''access'', ''identity_providers'']"
| "read_path cfg (Get_mcp_server i) = mcp cfg [''servers'', i]"
| "read_path cfg (Get_portal i) = mcp cfg [''portals'', i]"
| "read_path cfg (List_dns_records hostname) = in_zone cfg [''dns_records'']"
| "read_path cfg List_access_apps = in_zone cfg [''access'', ''apps'']"
| "read_path cfg (Get_access_app i) = in_zone cfg [''access'', ''apps'', i]"
| "read_path cfg (Get_dns_record i) = in_zone cfg [''dns_records'', i]"
| "read_path cfg (List_app_policies i) = in_zone cfg [''access'', ''apps'', i, ''policies'']"
| "read_path cfg (Get_app_policy p i) = in_zone cfg [''access'', ''apps'', p, ''policies'', i]"

fun request_path :: "client_config \<Rightarrow> client_call \<Rightarrow> string list" where
  "request_path cfg (Read c) = read_path cfg c"
| "request_path cfg (Create_mcp_server body) = mcp cfg [''servers'']"
| "request_path cfg (Update_mcp_server i body) = mcp cfg [''servers'', i]"
| "request_path cfg (Delete_mcp_server i) = mcp cfg [''servers'', i]"
| "request_path cfg (Sync_mcp_server i) = mcp cfg [''servers'', i, ''sync'']"
| "request_path cfg (Create_portal body) = mcp cfg [''portals'']"
| "request_path cfg (Update_portal i body) = mcp cfg [''portals'', i]"
| "request_path cfg (Delete_portal i) = mcp cfg [''portals'', i]"
| "request_path cfg (Create_access_app body) = in_zone cfg [''access'', ''apps'']"
| "request_path cfg (Update_access_app i body) = in_zone cfg [''access'', ''apps'', i]"
| "request_path cfg (Delete_access_app i) = in_zone cfg [''access'', ''apps'', i]"
| "request_path cfg (Create_app_policy p body) = in_zone cfg [''access'', ''apps'', p, ''policies'']"
| "request_path cfg (Update_app_policy p i body) = in_zone cfg [''access'', ''apps'', p, ''policies'', i]"
| "request_path cfg (Delete_app_policy p i) = in_zone cfg [''access'', ''apps'', p, ''policies'', i]"
| "request_path cfg (Create_dns_record body) = in_zone cfg [''dns_records'']"
| "request_path cfg (Update_dns_record i body) = in_zone cfg [''dns_records'', i]"
| "request_path cfg (Delete_dns_record i) = in_zone cfg [''dns_records'', i]"
| "request_path cfg (Wait n) = []"

fun request_payload :: "client_call \<Rightarrow> jval" where
  "request_payload (Create_mcp_server body) = body"
| "request_payload (Update_mcp_server i body) = body"
| "request_payload (Create_portal body) = body"
| "request_payload (Update_portal i body) = body"
| "request_payload (Create_access_app body) = body"
| "request_payload (Update_access_app i body) = body"
| "request_payload (Create_app_policy p body) = body"
| "request_payload (Update_app_policy p i body) = body"
| "request_payload (Create_dns_record body) = body"
| "request_payload (Update_dns_record i body) = body"
| "request_payload c = Undef"

definition plain_path :: "string list \<Rightarrow> bool" where
  "plain_path path \<longleftrightarrow> list_all (\<lambda>s. \<not> is_dots s) path"

text \<open>The request has the method, the resource and the body of the operation.\<close>

definition asks_for :: "string \<Rightarrow> string list \<Rightarrow> jval \<Rightarrow> http_call \<Rightarrow> bool" where
  "asks_for verb path body d \<longleftrightarrow> (\<exists>rq. d = Fetch rq \<and> hq_method rq = verb
     \<and> (plain_path path \<longrightarrow> url_segments (hq_url rq) = Some (BASE_PATH @ path))
     \<and> request_body [] body = Inr (hq_body rq))"

definition carries_request :: "client_config \<Rightarrow> client_call \<Rightarrow> http_call \<Rightarrow> bool" where
  "carries_request cfg c d \<longleftrightarrow> asks_for (request_method c) (request_path cfg c) (request_payload c) d"

lemma search_query: "search_text pairs = [] \<or> hd (search_text pairs) = CHR ''?''"
  by (simp add: search_text_def)

lemma built_url:
  assumes "buildUrl path query = Inr url" "plain_path path" shows "url_segments url = Some (BASE_PATH @ path)"
proof (cases "query = Undef")
  case True
  then show ?thesis using assms segments_read [of path "[]"] by (simp add: buildUrl_def plain_path_def)
next
  case False
  then obtain pairs where "url = path_text path @ search_text pairs"
    using assms(1) by (auto simp: buildUrl_def andThen_Inr)
  then show ?thesis using assms(2) segments_read [OF _ search_query] by (simp add: plain_path_def)
qed

lemma wp_request:
  assumes "\<And>d. asks_for verb path (ro_body ro) d \<Longrightarrow> G h d"
    "\<And>e. Q (Inl e) h" "\<And>d. Q (Inl (CloudflareApiError operation 0 [JStr ''network_error''] None)) (h @ [(d, None)])"
    "\<And>d r. asks_for verb path (ro_body ro) d
       \<Longrightarrow> Q (read_response hp operation (ro_nullOn404 ro) (ro_withInfo ro) r) (h @ [(d, Some r)])"
  shows "wp G Q (request hp cfg operation verb path ro) h"
proof (cases "buildUrl path (ro_query ro)")
  case url: (Inr url)
  show ?thesis
  proof (cases "request_body operation (ro_body ro)")
    case (Inr body)
    have "asks_for verb path (ro_body ro)
        (Fetch \<lparr>hq_body = body, hq_headers = request_headers cfg (body \<noteq> None), hq_method = verb, hq_url = url\<rparr>)"
      using Inr built_url [OF url] by (simp add: asks_for_def request_body_def)
    then show ?thesis using assms by (simp add: request_def wp_seq wp_lift url Inr split: option.split)
  qed (use assms(2) in \<open>simp add: request_def wp_seq wp_lift url\<close>)
qed (use assms(2) in \<open>simp add: request_def wp_seq wp_lift\<close>)

end
