(* ===== verification/Http_Properties.thy ===== *)
theory Http_Properties
  imports Http_Facts
begin

text \<open>
  The properties of \<^verbatim>\<open>src/cloudflare-client.ts\<close>: what it asks of the server, that lists are complete, and what its
  errors tell.
\<close>

section \<open>Requests\<close>

lemma wp_with_id: "(\<And>e. Q (Inl e) h) \<Longrightarrow> wp G Q p h \<Longrightarrow> wp G Q (with_id i p) h"
  by (cases "requireIdentifier (JStr i)") (simp_all add: with_id_def wp_seq wp_lift)

lemma wp_paginate_from:
  assumes "\<And>h d. asks_for ''GET'' path Undef d \<Longrightarrow> G h d"
  shows "wp G (\<lambda>_ _. True) (paginate_from n hp cfg operation path query page results) h"
proof (induction n arbitrary: page results h)
  case (Suc n)
  show ?case
    unfolding paginate_from.simps
  proof (rule wp_seqI, rule wp_request [where Q = "\<lambda>_ _. True"], goal_cases)
    case 1
    then show ?case using assms by (simp add: plain_request_def)
  next
    case (6 response h')
    then show ?case using Suc.IH
      by (cases "items (field response ''result'')") (simp_all add: wp_seq wp_lift Let_def)
  qed simp_all
qed simp

lemma wp_paginate:
  "(\<And>h d. asks_for ''GET'' path Undef d \<Longrightarrow> G h d) \<Longrightarrow> wp G (\<lambda>_ _. True) (paginate hp cfg operation path query) h"
  by (cases "requireQuery query") (simp_all add: paginate_def wp_seq wp_lift wp_paginate_from)

text \<open>One request where the operation is no list.\<close>

definition request_guard :: "client_config \<Rightarrow> client_call \<Rightarrow> (http_call, http_response option) trace \<Rightarrow> http_call \<Rightarrow> bool" where
  "request_guard cfg c h d \<longleftrightarrow> (case c of Wait n \<Rightarrow> h = [] \<and> d = Delay n
     | Read r \<Rightarrow> carries_request cfg c d
     | _ \<Rightarrow> h = [] \<and> carries_request cfg c d)"

lemmas path_defs = account_path_def mcpServers_def portals_def accessApps_def dnsRecords_def zone_path_def mcp_def in_zone_def

lemma operation_guarded: "wp (request_guard cfg c) (\<lambda>_ _. True) (client_operation hp cfg c) []"
proof (cases c)
  case (Read r)
  then show ?thesis
    by (cases r) (auto intro!: wp_with_id wp_paginate wp_request
      simp: request_guard_def carries_request_def one_def plain_request_def path_defs)
qed (auto intro!: wp_with_id wp_request split: option.split
      simp: request_guard_def carries_request_def sending_def plain_request_def path_defs)

text \<open>
  An operation of the client asks for its own resource and no other: every request has the method of the operation, the body it
  was given, and a URL whose path a server reads as exactly the segments of that resource below this account or this
  zone, whatever characters the identifiers have (but for an identifier that is a dot segment); an operation that changes something makes
  at most this one request.
\<close>

theorem client_requests_addressed:
  "wp (request_guard cfg c) (\<lambda>_ _. True) (client_operation hp cfg c) []"
  by (rule operation_guarded)

definition sample_client :: client_config where
  "sample_client = \<lparr>cc_accountId = ''acc'', cc_token = ''tok'', cc_zoneId = ''zone''\<rparr>"

text \<open>
  The exception: an identifier of two dots passes \<^verbatim>\<open>requireIdentifier\<close> and \<^verbatim>\<open>encodeURIComponent\<close>, and the URL parser resolves it, so
  deleting the record ``..'' sends the request to delete the zone.
\<close>

theorem dot_identifier_escapes:
  "\<exists>headers k. client_operation hp sample_client (Delete_dns_record ''..'') = Ask (Fetch \<lparr>hq_body = None, hq_headers = headers,
     hq_method = ''DELETE'', hq_url = ''https://api.cloudflare.com/client/v4/zones/zone/''\<rparr>) k"
proof -
  have i: "requireIdentifier (JStr ''..'') = Inr ''..''" by code_simp
  have u: "buildUrl (dnsRecords sample_client @ [''..'']) Undef = Inr ''https://api.cloudflare.com/client/v4/zones/zone/''" by code_simp
  show ?thesis
    using u by (simp add: with_id_def i request_def plain_request_def request_body_def seq_def lift_def)
qed

section \<open>Bounds\<close>

fun is_list :: "client_call \<Rightarrow> bool" where
  "is_list (Read List_identity_providers) = True"
| "is_list (Read (List_dns_records hostname)) = True"
| "is_list (Read List_access_apps) = True"
| "is_list (Read (List_app_policies i)) = True"
| "is_list c = False"

lemma within_request: "within (request hp cfg operation verb path ro) 1"
proof -
  have "within (Ask d (\<lambda>a. case a of None \<Rightarrow> throw e | Some r \<Rightarrow> Done (f r))) 1" for d e and f :: "http_response \<Rightarrow> client_error + jval"
    by (simp split: option.split)
  then show ?thesis unfolding request_def by (intro within_lift)
qed

lemma within_pages: "within (paginate_from n hp cfg operation path query page results) n"
proof (induction n arbitrary: page results)
  case (Suc n)
  show ?case unfolding paginate_from.simps
    by (rule within_after [OF within_request], simp, intro within_lift) (use Suc in \<open>simp add: Let_def\<close>)
qed simp

lemma within_paginate: "within (paginate hp cfg operation path query) 100"
  unfolding paginate_def MAX_PAGES_def by (intro within_lift within_pages)

lemma within_with_id: "within p n \<Longrightarrow> within (with_id i p) n"
  unfolding with_id_def by (intro within_lift)

text \<open>
  Listing ends: whatever the server says of its pages, a list makes at most a hundred requests, and every other operation
  at most one.
\<close>

theorem client_requests_bounded:
  "within (client_operation hp cfg c) (if is_list c then 100 else 1)"
proof (cases c)
  case (Read r)
  then show ?thesis by (cases r) (auto intro!: within_with_id within_paginate within_request [unfolded One_nat_def])
qed (auto intro!: within_with_id within_request [unfolded One_nat_def] split: option.split)

section \<open>Pages\<close>

text \<open>The elements of a page and the number of pages the response speaks of.\<close>

definition page_answer :: "http_platform \<Rightarrow> string \<Rightarrow> http_response option \<Rightarrow> (jval list \<times> nat option) option" where
  "page_answer hp operation a = (case a of None \<Rightarrow> None
     | Some response \<Rightarrow> (case read_response hp operation False True response of Inl e \<Rightarrow> None
       | Inr r \<Rightarrow> map_option (\<lambda>xs. (xs, readTotalPages hp (field r ''resultInfo''))) (items (field r ''result''))))"

text \<open>The history has the requests of the pages from \<open>page\<close> on, in order, and their answers.\<close>

fun pages_read :: "http_platform \<Rightarrow> string \<Rightarrow> string list \<Rightarrow> (string \<times> jval) list \<Rightarrow> nat \<Rightarrow> (http_call, http_response option) trace
    \<Rightarrow> (jval list \<times> nat option) list \<Rightarrow> bool" where
  "pages_read hp operation path query page [] [] = True"
| "pages_read hp operation path query page ((d, a) # h) (x # xs) = ((\<exists>rq. d = Fetch rq
     \<and> buildUrl path (page_query query page) = Inr (hq_url rq)) \<and> page_answer hp operation a = Some x
     \<and> pages_read hp operation path query (page + 1) h xs)"
| "pages_read hp operation path query page h xs = False"

text \<open>Only the last one is the last page, by what the server said or by its size.\<close>

definition is_end :: "nat option \<Rightarrow> nat \<Rightarrow> jval list \<Rightarrow> bool" where
  "is_end pages page found \<longleftrightarrow> (if pages = None then length found < 100 else the pages \<le> page)"

lemma last_is_end: "last_page pages page (length found) \<longleftrightarrow> is_end pages page found"
  by (simp add: last_page_def is_end_def PAGE_SIZE_def split: option.split)

fun ends_at_last :: "nat \<Rightarrow> (jval list \<times> nat option) list \<Rightarrow> bool" where
  "ends_at_last page [] = False"
| "ends_at_last page [(found, pages)] = is_end pages page found"
| "ends_at_last page ((found, pages) # x # xs) = (\<not> is_end pages page found \<and> ends_at_last (page + 1) (x # xs))"

definition listed :: "http_platform \<Rightarrow> string \<Rightarrow> string list \<Rightarrow> (string \<times> jval) list \<Rightarrow> nat \<Rightarrow> jval list \<Rightarrow> jval
    \<Rightarrow> (http_call, http_response option) trace \<Rightarrow> bool" where
  "listed hp operation path query page before v h \<longleftrightarrow> (\<exists>xs. pages_read hp operation path query page h xs \<and> ends_at_last page xs
     \<and> v = JArr (before @ concat (map fst xs)))"

lemma listed_last:
  "buildUrl path (page_query query page) = Inr (hq_url rq) \<Longrightarrow> page_answer hp operation a = Some (found, pages)
     \<Longrightarrow> last_page pages page (length found) \<Longrightarrow> listed hp operation path query page before (JArr (before @ found)) [(Fetch rq, a)]"
  unfolding listed_def by (rule exI [of _ "[(found, pages)]"]) (simp add: last_is_end)

lemma listed_more:
  assumes "buildUrl path (page_query query page) = Inr (hq_url rq)" "page_answer hp operation a = Some (found, pages)"
    "\<not> last_page pages page (length found)" "listed hp operation path query (page + 1) (before @ found) v h"
  shows "listed hp operation path query page before v ((Fetch rq, a) # h)"
proof -
  obtain xs where xs: "pages_read hp operation path query (page + 1) h xs" "ends_at_last (page + 1) xs"
    "v = JArr ((before @ found) @ concat (map fst xs))"
    using assms(4) by (auto simp: listed_def)
  obtain y ys where y: "xs = y # ys" using xs(2) by (cases xs) auto
  show ?thesis unfolding listed_def
    by (rule exI [of _ "(found, pages) # xs"]) (use assms(1-3) xs y in \<open>simp add: last_is_end\<close>)
qed

lemma listed_pages:
  "wp (\<lambda>_ _. True) (\<lambda>r h. case r of Inl e \<Rightarrow> True | Inr v \<Rightarrow> (\<exists>t. h = h0 @ t \<and> listed hp operation path query page results v t))
     (paginate_from n hp cfg operation path query page results) h0"
proof (induction n arbitrary: page results h0)
  case (Suc n)
  let ?ro = "plain_request\<lparr>ro_query := page_query query page, ro_withInfo := True\<rparr>"
  let ?Q = "\<lambda>r h. case r of Inl e \<Rightarrow> True | Inr v \<Rightarrow> (\<exists>t. h = h0 @ t \<and> listed hp operation path query page results v t)"
  let ?R = "\<lambda>r h. case r of Inl e \<Rightarrow> True | Inr response \<Rightarrow> (\<exists>rq a. h = h0 @ [(Fetch rq, Some a)]
      \<and> buildUrl path (page_query query page) = Inr (hq_url rq) \<and> read_response hp operation False True a = Inr response)"
  have asked: "wp (\<lambda>_ _. True) ?R (request hp cfg operation ''GET'' path ?ro) h0"
    by (cases "buildUrl path (page_query query page)")
       (auto simp: request_def request_body_def plain_request_def wp_seq wp_lift split: option.split sum.split)
  show ?case unfolding paginate_from.simps
  proof (rule wp_seqI [OF asked], simp, goal_cases)
    case (1 response h)
    then obtain rq a where a: "h = h0 @ [(Fetch rq, Some a)]" "buildUrl path (page_query query page) = Inr (hq_url rq)"
      "read_response hp operation False True a = Inr response" by auto
    show ?case
    proof (cases "items (field response ''result'')")
      case (Some found)
      let ?pages = "readTotalPages hp (field response ''resultInfo'')"
      have p: "page_answer hp operation (Some a) = Some (found, ?pages)" using a(3) Some by (simp add: page_answer_def)
      have later: "wp (\<lambda>_ _. True) ?Q (paginate_from n hp cfg operation path query (page + 1) (results @ found)) h"
        if "\<not> last_page ?pages page (length found)"
        by (rule wp_post [OF Suc.IH]) (use a(1) listed_more [OF a(2) p that] in \<open>auto split: sum.splits\<close>)
      show ?thesis using later listed_last [OF a(2) p] a(1) by (simp add: wp_seq wp_lift Some Let_def)
    qed (simp add: wp_seq wp_lift)
  qed
qed simp

text \<open>
  C8. A list is complete or it is refused: what a list returns is the elements of the pages 1, 2, 3 and so on, each requested once and in
  order, up to the first page that is the last one, which the server said or, where it said nothing, that is not
  full. It never returns a part.
\<close>

theorem client_lists_complete:
  "wp (\<lambda>_ _. True) (\<lambda>r h. case r of Inl e \<Rightarrow> True
     | Inr v \<Rightarrow> (\<exists>safe. requireQuery query = Inr safe \<and> listed hp operation path safe 1 [] v h))
     (paginate hp cfg operation path query) []"
proof (cases "requireQuery query")
  case (Inr safe)
  have "wp (\<lambda>_ _. True) (\<lambda>r h. case r of Inl e \<Rightarrow> True | Inr v \<Rightarrow> listed hp operation path safe 1 [] v h)
      (paginate_from MAX_PAGES hp cfg operation path safe 1 []) []"
    by (rule wp_post [OF listed_pages]) (auto split: sum.splits)
  then show ?thesis unfolding paginate_def wp_seq wp_lift Inr sum.case
    by (rule wp_post) (auto simp del: One_nat_def split: sum.splits)
qed (simp add: paginate_def wp_seq wp_lift)

section \<open>Errors\<close>

lemma is_client_code: "test CLIENT_CODE s \<longleftrightarrow> list_all (\<lambda>c. is_alnum c \<or> c \<in> set ''_.:-'') s \<and> 1 \<le> length s \<and> length s \<le> 64"
  by (simp add: CLIENT_CODE_def ends_run_end del: ends.simps(6))

lemma is_request_id: "test SAFE_REQUEST_ID s \<longleftrightarrow> list_all (\<lambda>c. is_alnum c \<or> c \<in> set ''_.:/-'') s \<and> 1 \<le> length s \<and> length s \<le> 128"
  by (simp add: SAFE_REQUEST_ID_def ends_run_end del: ends.simps(6))

text \<open>At most twenty short codes, a status of HTTP, and a message of letters, digits and a few signs.\<close>

definition message_char :: "char \<Rightarrow> bool" where
  "message_char c \<longleftrightarrow> is_alnum c \<or> c \<in> set '' _.:/-=,''"

fun error_sane :: "client_error \<Rightarrow> bool" where
  "error_sane (Api_error e) \<longleftrightarrow> length (ae_codes e) \<le> 20 \<and> distinct (ae_codes e) \<and> list_all (test CLIENT_CODE) (ae_codes e)
     \<and> 0 \<le> ae_status e \<and> ae_status e \<le> 599 \<and> list_all message_char (error_message e)"
| "error_sane e = True"

lemma sanitize_sane:
  assumes "length result \<le> 19" "distinct result" "list_all (test CLIENT_CODE) result"
  shows "length (sanitize_from vs result) \<le> 20 \<and> distinct (sanitize_from vs result)
    \<and> list_all (test CLIENT_CODE) (sanitize_from vs result)"
  using assms
proof (induction vs arbitrary: result)
  case (Cons v vs)
  then show ?case by (simp add: Let_def split: option.split)
qed simp

lemma message_join: "list_all (list_all message_char) xs \<Longrightarrow> list_all message_char sep \<Longrightarrow> list_all message_char (join_with sep xs)"
  by (induction sep xs rule: join_with.induct) simp_all

lemma code_message: "test CLIENT_CODE s \<Longrightarrow> list_all message_char s"
proof -
  have "message_char c" if "is_alnum c \<or> c \<in> set ''_.:-''" for c using that by (auto simp: message_char_def)
  then show "test CLIENT_CODE s \<Longrightarrow> list_all message_char s" unfolding is_client_code list_all_iff by blast
qed

lemma request_id_message: "test SAFE_REQUEST_ID s \<Longrightarrow> list_all message_char s"
proof -
  have "message_char c" if "is_alnum c \<or> c \<in> set ''_.:/-''" for c using that by (auto simp: message_char_def)
  then show "test SAFE_REQUEST_ID s \<Longrightarrow> list_all message_char s" unfolding is_request_id list_all_iff by blast
qed

lemma int_message: "list_all message_char (int_text i)"
  using nat_text_digits by (auto simp: int_text_def list_all_iff message_char_def is_alnum_def)

lemma api_error_sane: "error_sane (CloudflareApiError operation status codes requestId)"
proof -
  obtain e where e: "CloudflareApiError operation status codes requestId = Api_error e" by (simp add: CloudflareApiError_def)
  then have codes: "ae_codes e = sanitizeCodes codes" and status: "ae_status e = safeStatus (jint status)"
    and op: "ae_operation e = (if test CLIENT_CODE operation then operation else ''unknown_operation'')"
    and i: "ae_requestId e = Option.bind requestId (\<lambda>i. sanitizeRequestId (JStr i))"
    by (auto simp: CloudflareApiError_def)
  have c: "length (ae_codes e) \<le> 20" "distinct (ae_codes e)" "list_all (test CLIENT_CODE) (ae_codes e)"
    unfolding codes sanitizeCodes_def using sanitize_sane [of "[]" codes] by simp_all
  have ids: "list_all message_char i" if "ae_requestId e = Some i" for i
    using that i by (auto simp: sanitizeRequestId_def intro: request_id_message split: bind_splits if_splits)
  have lits: "list_all message_char ''unknown_operation''" "list_all message_char ''Cloudflare API request failed: ''"
    "list_all message_char ''operation=''" "list_all message_char ''status=''" "list_all message_char ''codes=''"
    "list_all message_char ''request_id=''" "list_all message_char ''none''" "list_all message_char '' ''" "list_all message_char '',''"
    by code_simp+
  have "list_all message_char (ae_operation e)" using code_message lits(1) by (simp add: op)
  moreover have "list_all (list_all message_char) (ae_codes e)" using c(3) code_message by (auto simp: list_all_iff)
  ultimately have "list_all message_char (error_message e)"
    unfolding error_message_def list_all_append
    by (intro conjI message_join lits)
       (auto simp: int_message message_join ids message_char_def [of "char_of n" for n] message_char_def [of "Char a b c d e f g h" for a b c d e f g h]
          char_class_defs split: option.split)
  then show ?thesis using c by (simp add: e status safeStatus_def)
qed

abbreviation sanely :: "jval httping \<Rightarrow> bool" where
  "sanely p \<equiv> \<forall>h. wp (\<lambda>_ _. True) (\<lambda>r h. case r of Inl e \<Rightarrow> error_sane e | Inr v \<Rightarrow> True) p h"

lemma response_sane: "read_response hp operation b w r = Inl e \<Longrightarrow> error_sane e"
  using api_error_sane by (auto simp: read_response_def Let_def split: if_splits)

lemma built_sane: "buildUrl path query = Inl e \<Longrightarrow> error_sane e" "request_body operation body = Inl e \<Longrightarrow> error_sane e"
  "requireQuery query = Inl e \<Longrightarrow> error_sane e" "requireIdentifier v = Inl e \<Longrightarrow> error_sane e"
  by (auto simp: buildUrl_def request_body_def requireQuery_def requireBody_def requireIdentifier_def andThen_def
      split: if_splits option.splits jval.splits sum.splits)

lemma request_sane: "sanely (request hp cfg operation verb path ro)"
  using api_error_sane
  by (auto simp: request_def wp_seq wp_lift split: sum.split option.split dest: response_sane built_sane)

lemma pages_sane: "sanely (paginate_from n hp cfg operation path query page results)"
proof (induction n arbitrary: page results)
  case (Suc n)
  show ?case unfolding paginate_from.simps
  proof (intro allI wp_seqI [OF request_sane [rule_format]], goal_cases)
    case (2 h response h')
    then show ?case using Suc.IH api_error_sane
      by (cases "items (field response ''result'')") (simp_all add: wp_seq wp_lift Let_def pagination_limit_def)
  qed simp
qed (simp add: pagination_limit_def api_error_sane)

lemma paginate_sane: "sanely (paginate hp cfg operation path query)"
  using pages_sane built_sane(3) by (simp add: paginate_def wp_seq wp_lift split: sum.split)

lemma with_id_sane: "sanely p \<Longrightarrow> sanely (with_id i p)"
  using built_sane(4) by (simp add: with_id_def wp_seq wp_lift split: sum.split)

text \<open>
  A failure tells nothing of what was sent or received but codes: a \<^verbatim>\<open>CloudflareApiError\<close> has at most twenty different codes
  of at most 64 safe characters, a status from 0 to 599, and a message of letters, digits and the signs that join them,
  whatever the response contained.
\<close>

theorem client_errors_sane:
  "wp (\<lambda>_ _. True) (\<lambda>r h. case r of Inl e \<Rightarrow> error_sane e | Inr v \<Rightarrow> True) (client_operation hp cfg c) []"
proof -
  have "sanely (client_operation hp cfg c)"
  proof (cases c)
    case (Read r)
    then show ?thesis by (cases r) (simp_all add: request_sane paginate_sane with_id_sane)
  qed (simp_all add: request_sane with_id_sane split: option.split)
  then show ?thesis by blast
qed

end
