(* ===== verification/Gateway_Network.thy ===== *)
theory Gateway_Network
  imports System_Properties Http_Properties
begin

text \<open>
  The whole stack: the reconciler over the provider over the HTTP client. A run is a run of HTTP requests, mixed with the
  calls to the receipt store, its lock and the process. What the reconciler and the provider keep to holds of the
  requests that reach the server.
\<close>

section \<open>The stack\<close>

datatype net_call = Process reconcile_call | Net http_call

text \<open>Answers are of the sort of the call; one of the other sort counts as a failure.\<close>

datatype net_answer = From_process "failure + jval" | From_net "http_response option"

type_synonym net_trace = "(net_call, net_answer) trace"

definition process_answer :: "net_answer \<Rightarrow> failure + jval" where
  "process_answer a = (case a of From_process r \<Rightarrow> r | From_net r \<Rightarrow> Inl (Foreign_error None False))"

definition response_answer :: "net_answer \<Rightarrow> http_response option" where
  "response_answer a = (case a of From_process r \<Rightarrow> None | From_net r \<Rightarrow> r)"

definition over_net :: "(http_call, http_response option, 'r) program \<Rightarrow> (net_call, net_answer, 'r) program" where
  "over_net = connect (\<lambda>d. Ask (Net d) (\<lambda>a. Done (response_answer a)))"

text \<open>The errors of the client have no \<^verbatim>\<open>mutationOutcome\<close> and no code the provider looks at.\<close>

definition over_http :: "http_platform \<Rightarrow> client_config \<Rightarrow> system_call \<Rightarrow> (net_call, net_answer, failure + jval) program" where
  "over_http hp cfg c = (case c of
     Outside e \<Rightarrow> Ask (Process e) (\<lambda>a. Done (process_answer a))
   | Client d \<Rightarrow> over_net (map_end (\<lambda>r. Done (map_sum (\<lambda>e. Foreign_error None False) id r)) (client_operation hp cfg d)))"

definition deployed :: "platform \<Rightarrow> bound_target \<Rightarrow> polling \<Rightarrow> http_platform \<Rightarrow> client_config
    \<Rightarrow> (reconcile_call, failure + jval, 'r) program \<Rightarrow> (net_call, net_answer, 'r) program" where
  "deployed pf bt po hp cfg p = connect (over_http hp cfg) (system pf bt po p)"

section \<open>Writes\<close>

text \<open>A request that is no \<^verbatim>\<open>GET\<close>.\<close>

definition is_write :: "net_call \<Rightarrow> bool" where
  "is_write d \<longleftrightarrow> (\<exists>rq. d = Net (Fetch rq) \<and> hq_method rq \<noteq> ''GET'')"

definition writes :: "net_trace \<Rightarrow> nat" where
  "writes t = length (filter (is_write \<circ> fst) t)"

fun net_view :: "net_trace \<Rightarrow> (http_call, http_response option) trace" where
  "net_view [] = []"
| "net_view ((Net d, a) # t) = (d, response_answer a) # net_view t"
| "net_view ((Process e, a) # t) = net_view t"

lemma net_view_append [simp]: "net_view (t @ t') = net_view t @ net_view t'"
  by (induction t rule: net_view.induct) simp_all

lemma over_net_runs: "runs (over_net p) t r \<Longrightarrow> runs p (net_view t) r \<and> (\<forall>e \<in> set t. \<exists>d. fst e = Net d)"
  unfolding over_net_def
proof (induction p arbitrary: t)
  case (Ask c k)
  then obtain a t' where t: "t = (Net c, a) # t'" and
    "runs (connect (\<lambda>d. Ask (Net d) (\<lambda>a. Done (response_answer a))) (k (response_answer a))) t' r"
    by (auto split: list.splits)
  with Ask.IH show ?case by (simp add: t) blast
qed simp

text \<open>The requests for one call of the client.\<close>

lemma client_part:
  assumes "runs (over_http hp cfg (Client c)) t x" "t = pre @ (d, a) # post"
  obtains q where "d = Net q" "request_guard cfg c (net_view pre) q" "length (net_view pre) = length pre"
proof -
  have r: "runs (map_end (\<lambda>r. Done (map_sum (\<lambda>e. Foreign_error None False) id r)) (client_operation hp cfg c)) (net_view t) x"
    and all: "\<forall>e \<in> set t. \<exists>d. fst e = Net d"
    using assms(1) by (auto simp: over_http_def dest: over_net_runs)
  obtain y where y: "runs (client_operation hp cfg c) (net_view t) y" using r by (auto simp: runs_results)
  obtain q where q: "d = Net q" using all assms(2) by auto
  have n: "length (net_view s) = length s" if "\<forall>e \<in> set s. \<exists>d. fst e = Net d" for s
    using that by (induction s rule: net_view.induct) auto
  have "net_view t = net_view pre @ (q, response_answer a) # net_view post" by (simp add: assms(2) q)
  from runs_guard [OF y operation_guarded this] q n [of pre] all assms(2) show ?thesis using that by auto
qed

text \<open>Only a mutation sends a write, and it is its first and only request.\<close>

lemma write_part:
  assumes "runs (over_http hp cfg c) t x" "t = pre @ (d, a) # post" "is_write d"
  obtains e rq where "c = Client e" "is_mutation e" "pre = []" "d = Net (Fetch rq)" "carries_request cfg e (Fetch rq)"
proof (cases c)
  case (Outside e)
  then show ?thesis using assms by (auto simp: over_http_def is_write_def append_eq_Cons_conv split: list.splits)
next
  case (Client e)
  obtain rq where rq: "d = Net (Fetch rq)" "hq_method rq \<noteq> ''GET''" using assms(3) by (auto simp: is_write_def)
  obtain q where q: "d = Net q" "request_guard cfg e (net_view pre) q" "length (net_view pre) = length pre"
    using assms(1) unfolding Client by (rule client_part [OF _ assms(2)])
  have "is_mutation e \<and> net_view pre = [] \<and> carries_request cfg e (Fetch rq)"
    using q rq by (cases e) (auto simp: request_guard_def carries_request_def asks_for_def)
  then show ?thesis using that Client rq(1) q(3) by simp
qed

text \<open>What is known of a write from what is known of the mutations.\<close>

definition on_writes :: "http_platform \<Rightarrow> client_config \<Rightarrow> (system_trace \<Rightarrow> client_call \<Rightarrow> bool) \<Rightarrow> net_trace \<Rightarrow> net_call \<Rightarrow> bool" where
  "on_writes hp cfg P t d \<longleftrightarrow> (is_write d \<longrightarrow> (\<exists>ts c rq. d = Net (Fetch rq) \<and> unfolds (over_http hp cfg) ts t \<and> is_mutation c
     \<and> carries_request cfg c (Fetch rq) \<and> P ts c))"

lemma deployed_writes:
  assumes "wp (on_mutations P) Q (system pf bt po p) []"
  shows "wp (on_writes hp cfg P) (\<lambda>_ _. True) (deployed pf bt po hp cfg p) []"
proof (rule wp_from_runs, simp)
  fix t r pre d a post
  assume run: "runs (deployed pf bt po hp cfg p) t r" "t = pre @ (d, a) # post"
  have "\<exists>ts c rq. d = Net (Fetch rq) \<and> unfolds (over_http hp cfg) ts pre \<and> is_mutation c \<and> carries_request cfg c (Fetch rq) \<and> P ts c"
    if w: "is_write d"
    using run(1) [unfolded deployed_def] assms run(2)
  proof (rule connect_guard)
    fix ts c x u v t1
    assume i: "unfolds (over_http hp cfg) ts t1" "on_mutations P ts c" "runs (over_http hp cfg c) (u @ (d, a) # v) x" "pre = t1 @ u"
    obtain e rq where e: "c = Client e" "is_mutation e" "u = []" "d = Net (Fetch rq)" "carries_request cfg e (Fetch rq)"
      using i(3) by (rule write_part [OF _ refl w])
    then have "P ts e" using i(2) by (simp add: on_mutations_def)
    then show ?thesis using e i(1,4) by auto
  qed
  then show "on_writes hp cfg P pre d" by (simp add: on_writes_def)
qed

text \<open>
  C1. Every request other than a \<^verbatim>\<open>GET\<close> that an apply or an uninstallation sends over the network is the one request of a mutation
  of the provider, addressed to its resource, which answers to the reconciler: asked for under the lock, approved,
  the pending action of the stored receipt, and permitted by what was read since. An uninstallation sends only deletions.
  (Reserved are runs in which two different receipts with the same checksum pass through the store.)
\<close>

theorem network_writes_lawful:
  "case requireContext pf input True of
     Inl e \<Rightarrow> applyGateway pf input = throw Type_error \<and> uninstallGateway pf input = throw Type_error
   | Inr context \<Rightarrow>
       wp (on_writes hp cfg (\<lambda>t c. at_asked pf bt po t (\<lambda>h u. collided (pf_sha pf) h
           \<or> answers_for pf bt (apply_policy pf context) h u c)))
         (\<lambda>_ _. True) (deployed pf bt po hp cfg (applyGateway pf input)) []
       \<and> wp (on_writes hp cfg (\<lambda>t c. at_asked pf bt po t (\<lambda>h u. collided (pf_sha pf) h
           \<or> is_removal c \<and> answers_for pf bt (uninstall_policy pf context) h u c)))
         (\<lambda>_ _. True) (deployed pf bt po hp cfg (uninstallGateway pf input)) []"
proof (cases "requireContext pf input True")
  case (Inl e)
  then show ?thesis using applyGateway_run [of pf input] uninstallGateway_run [of pf input] by simp
next
  case (Inr ctx)
  then show ?thesis
    using deployed_writes [OF apply_answers [OF Inr]] deployed_writes [OF uninstall_answers [OF Inr]] by simp
qed

section \<open>Numbers\<close>

lemma part_writes:
  assumes "runs (over_http hp cfg c) t x"
  shows "writes t \<le> (case c of Client e \<Rightarrow> if is_mutation e then 1 else 0 | Outside e \<Rightarrow> 0)"
proof (cases "writes t = 0")
  case False
  then obtain d a where "(d, a) \<in> set t" and w: "is_write d" by (auto simp: writes_def filter_empty_conv)
  then obtain pre post where t: "t = pre @ (d, a) # post" by (auto dest: split_list)
  obtain e where e: "c = Client e" "is_mutation e" "pre = []" using assms by (rule write_part [OF _ t w])
  have "\<not> is_write (fst y)" if m: "y \<in> set post" for y
  proof
    assume y: "is_write (fst y)"
    obtain u v where "post = u @ y # v" using split_list [OF m] by blast
    then have "t = (pre @ (d, a) # u) @ (fst y, snd y) # v" by (simp add: t)
    from assms this y show False by (rule write_part) simp
  qed
  then show ?thesis using e t w by (simp add: writes_def)
qed simp

lemma unfolds_writes: "unfolds (over_http hp cfg) ts t \<Longrightarrow> writes t \<le> length (submitted (client_view ts))"
proof (induction rule: unfolds.induct)
  case (part c s a h t)
  then show ?case using part_writes [OF part.hyps(1)]
    by (cases c) (auto simp: writes_def submitted_def split: if_splits)
qed (simp add: writes_def)

text \<open>The calls the reconciler made in a run of requests.\<close>

definition calls_made :: "platform \<Rightarrow> bound_target \<Rightarrow> polling \<Rightarrow> http_platform \<Rightarrow> client_config \<Rightarrow> reconcile_trace \<Rightarrow> net_trace \<Rightarrow> bool" where
  "calls_made pf bt po hp cfg h t \<longleftrightarrow> (\<exists>ts. unfolds (provided pf bt po) h ts \<and> unfolds (over_http hp cfg) ts t)"

lemma deployed_counted:
  assumes "wp (\<lambda>_ _. True) (\<lambda>_ h. \<exists>n. B h n \<and> applied h \<le> n) p []"
  shows "wp (\<lambda>_ _. True) (\<lambda>_ t. \<exists>h n. calls_made pf bt po hp cfg h t \<and> B h n \<and> writes t \<le> 3 * n) (deployed pf bt po hp cfg p) []"
proof (rule wp_from_runs)
  fix t r assume "runs (deployed pf bt po hp cfg p) t r"
  then obtain ts h where ts: "unfolds (over_http hp cfg) ts t" "unfolds (provided pf bt po) h ts" "runs p h r"
    by (auto simp: deployed_def system_def connect_runs)
  obtain n where n: "B h n" "applied h \<le> n" using runs_wp [OF ts(3) assms] by blast
  have "writes t \<le> 3 * n" using unfolds_writes [OF ts(1)] unfolds_bound [OF ts(2)] n(2) by linarith
  then show "\<exists>h n. calls_made pf bt po hp cfg h t \<and> B h n \<and> writes t \<le> 3 * n" using ts n(1) by (auto simp: calls_made_def)
qed simp

text \<open>
  C9. The number of writes a whole operation makes on the network is bounded by what was approved, whatever the server answers: three for
  the one interrupted action an apply or an uninstallation may find, and three for each creation, update or prune deletion of one plan, or each action of one
  uninstallation preview, made in that very run of a state the provider observed, in which the approved plan or uninstallation was made too;
  and a rollback makes at most one.
\<close>

theorem network_writes_bounded:
  "(case requireContext pf input True of
      Inl e \<Rightarrow> applyGateway pf input = throw Type_error \<and> uninstallGateway pf input = throw Type_error
    | Inr context \<Rightarrow>
        wp (\<lambda>_ _. True) (\<lambda>_ t. \<exists>h n. calls_made pf bt po hp cfg h t \<and> apply_bound pf context h n \<and> writes t \<le> 3 * n)
          (deployed pf bt po hp cfg (applyGateway pf input)) []
        \<and> wp (\<lambda>_ _. True) (\<lambda>_ t. \<exists>h n. calls_made pf bt po hp cfg h t \<and> uninstall_bound pf context h n \<and> writes t \<le> 3 * n)
          (deployed pf bt po hp cfg (uninstallGateway pf input)) [])
   \<and> wp (\<lambda>_ _. True) (\<lambda>_ t. writes t \<le> 1) (deployed pf bt po hp cfg (Reconciler_Removal.rollbackPendingPortalCreate pf input)) []"
proof (rule conjI, goal_cases)
  case 1
  show ?case
    using deployed_counted [OF operations_counted(1)] deployed_counted [OF operations_counted(2)]
      applyGateway_run [of pf input] uninstallGateway_run [of pf input]
    by (simp split: sum.splits)
next
  case 2
  show ?case
  proof (rule wp_from_runs)
    fix t r assume "runs (deployed pf bt po hp cfg (Reconciler_Removal.rollbackPendingPortalCreate pf input)) t r"
    then obtain ts where ts: "unfolds (over_http hp cfg) ts t"
      "runs (system pf bt po (Reconciler_Removal.rollbackPendingPortalCreate pf input)) ts r"
      by (auto simp: deployed_def connect_runs)
    have "length (submitted (client_view ts)) \<le> 1" using runs_wp [OF ts(2) rollback_submits_one] .
    then show "writes t \<le> 1" using unfolds_writes [OF ts(1)] by linarith
  qed simp
qed

end
