(* ===== verification/Teardown_Job.thy ===== *)
theory Teardown_Job
  imports Bootstrap_Store
begin

text \<open>
  The hosted job that removes the last resources of a gateway, \<^verbatim>\<open>apps/installer/src/gateway-teardown-job.ts\<close>, and where it is kept,
  \<^verbatim>\<open>gateway-teardown-durable-state.ts\<close>. A job removes five resources in a fixed order, under attempts that each need a
  fresh consent; it remembers what was armed and verified, and whether every grant was revoked. The verified handoff a
  job is created from is an argument.
\<close>

section \<open>The job\<close>

datatype removal_step = Retire_namespace | Management_domain | Management_policy | Management_application | Remove_worker

fun removal_step_text :: "removal_step \<Rightarrow> string" where
  "removal_step_text Retire_namespace = ''retire_namespace''"
| "removal_step_text Management_domain = ''management_domain''"
| "removal_step_text Management_policy = ''management_policy''"
| "removal_step_text Management_application = ''management_application''"
| "removal_step_text Remove_worker = ''worker''"

definition GATEWAY_ROOT_REMOVAL_STEPS :: "removal_step list" where
  "GATEWAY_ROOT_REMOVAL_STEPS = [Retire_namespace, Management_domain, Management_policy, Management_application, Remove_worker]"

datatype teardown_phase = Review | Authorizing_teardown | Exchanging_teardown | Recovery_required | Removed | Removed_unconfirmed

fun teardown_phase_text :: "teardown_phase \<Rightarrow> string" where
  "teardown_phase_text Review = ''review''"
| "teardown_phase_text Authorizing_teardown = ''authorizing''"
| "teardown_phase_text Exchanging_teardown = ''exchanging''"
| "teardown_phase_text Recovery_required = ''recovery_required''"
| "teardown_phase_text Removed = ''removed''"
| "teardown_phase_text Removed_unconfirmed = ''removed_revocation_unconfirmed''"

datatype revocation = Not_attempted | Confirmed | Unconfirmed

fun revocation_text :: "revocation \<Rightarrow> string" where
  "revocation_text Not_attempted = ''not_attempted''"
| "revocation_text Confirmed = ''confirmed''"
| "revocation_text Unconfirmed = ''unconfirmed''"

datatype credential_policy = Request_memory_only | Operator_managed

fun credential_policy_text :: "credential_policy \<Rightarrow> string" where
  "credential_policy_text Request_memory_only = ''request-memory-only''"
| "credential_policy_text Operator_managed = ''operator-managed''"

datatype release_channel = Canary_channel | Stable_channel

fun release_channel_text :: "release_channel \<Rightarrow> string" where
  "release_channel_text Canary_channel = ''canary''"
| "release_channel_text Stable_channel = ''stable''"

record release_identity =
  rel_artifactSha256 :: string
  rel_channel :: release_channel
  rel_controlPlaneOrigin :: string
  rel_keyId :: string
  rel_publicKey :: string
  rel_release :: string

record teardown_attempt =
  ta_id :: string
  ta_stateHash :: string
  ta_verifierHash :: string
  ta_issuedAt :: int
  ta_expiresAt :: int

record teardown_job =
  tj_revision :: int
  tj_handoff :: string
  tj_handoffSha256 :: string
  tj_release :: release_identity
  tj_retirementModuleSha256 :: string
  tj_acceptedAt :: int
  tj_updatedAt :: int
  tj_phase :: teardown_phase
  tj_attempt :: "teardown_attempt option"
  tj_verifiedSteps :: "removal_step list"
  tj_pendingStep :: "removal_step option"
  tj_pendingAttemptId :: "string option"
  tj_revocation :: revocation
  tj_failureReason :: "string option"
  tj_credentialPolicy :: "credential_policy option"

datatype teardown_error = Teardown_schema | Teardown_conflict

definition ATTEMPT_TTL_MS :: int where
  "ATTEMPT_TTL_MS = 10 * 60 * 1000"

definition BARE_SHA256 :: pattern where
  "BARE_SHA256 = prefixed [] is_lower_hex 64"

definition TEARDOWN_REASON :: pattern where
  "TEARDOWN_REASON = seqs [Start, Cls is_lower, Run (\<lambda>c. is_lower c \<or> is_digit c \<or> c = CHR ''_'') 0 (Some 95), End]"

definition version_number :: pattern where
  "version_number = Alt (Lit ''0'') (Seq (Cls (\<lambda>c. is_digit c \<and> c \<noteq> CHR ''0'')) (Run is_digit 0 None))"

definition GATEWAY_RELEASE :: pattern where
  "GATEWAY_RELEASE = seqs [Start, Lit ''gateway-v'', version_number, Lit ''.'', version_number, Lit ''.'', version_number, End]"

definition KEY_ID :: pattern where
  "KEY_ID = seqs [Start, Cls lower_alnum, Run (\<lambda>c. lower_alnum c \<or> c \<in> set ''._-'') 0 (Some 63), End]"

section \<open>Reading and writing\<close>

definition release_value :: "release_identity \<Rightarrow> jval" where
  "release_value r = JObj [(''artifactSha256'', JStr (rel_artifactSha256 r)), (''channel'', JStr (release_channel_text (rel_channel r))),
     (''controlPlaneOrigin'', JStr (rel_controlPlaneOrigin r)), (''keyId'', JStr (rel_keyId r)), (''publicKey'', JStr (rel_publicKey r)),
     (''release'', JStr (rel_release r)), (''schemaVersion'', jint 1)]"

text \<open>\<open>url\<close> is the schema's test that a text is a URL.\<close>

definition text_such :: "(string \<Rightarrow> bool) \<Rightarrow> jval \<Rightarrow> string option" where
  "text_such P v = (case v of JStr s \<Rightarrow> if P s then Some s else None | _ \<Rightarrow> None)"

definition parse_release :: "(string \<Rightarrow> bool) \<Rightarrow> jval \<Rightarrow> release_identity option" where
  "parse_release url v = do {
     strict_object [''artifactSha256'', ''channel'', ''controlPlaneOrigin'', ''keyId'', ''publicKey'', ''release'', ''schemaVersion''] v;
     artifactSha256 \<leftarrow> matching BARE_SHA256 (field v ''artifactSha256'');
     channel \<leftarrow> picklist release_channel_text [Canary_channel, Stable_channel] (field v ''channel'');
     controlPlaneOrigin \<leftarrow> text_such url (field v ''controlPlaneOrigin'');
     keyId \<leftarrow> matching KEY_ID (field v ''keyId'');
     publicKey \<leftarrow> matching TOKEN (field v ''publicKey'');
     release \<leftarrow> matching GATEWAY_RELEASE (field v ''release'');
     exactly (jint 1) (field v ''schemaVersion'');
     Some \<lparr>rel_artifactSha256 = artifactSha256, rel_channel = channel, rel_controlPlaneOrigin = controlPlaneOrigin,
       rel_keyId = keyId, rel_publicKey = publicKey, rel_release = release\<rparr> }"

definition attempt_value :: "teardown_attempt \<Rightarrow> jval" where
  "attempt_value a = JObj [(''id'', JStr (ta_id a)), (''stateHash'', JStr (ta_stateHash a)), (''verifierHash'', JStr (ta_verifierHash a)),
     (''issuedAt'', jint (ta_issuedAt a)), (''expiresAt'', jint (ta_expiresAt a))]"

definition parse_attempt :: "jval \<Rightarrow> teardown_attempt option" where
  "parse_attempt v = do {
     strict_object [''id'', ''stateHash'', ''verifierHash'', ''issuedAt'', ''expiresAt''] v;
     i \<leftarrow> matching ATTEMPT_ID (field v ''id'');
     stateHash \<leftarrow> matching TOKEN (field v ''stateHash'');
     verifierHash \<leftarrow> matching TOKEN (field v ''verifierHash'');
     issuedAt \<leftarrow> int_from 0 (field v ''issuedAt'');
     expiresAt \<leftarrow> int_from 0 (field v ''expiresAt'');
     Some \<lparr>ta_id = i, ta_stateHash = stateHash, ta_verifierHash = verifierHash, ta_issuedAt = issuedAt, ta_expiresAt = expiresAt\<rparr> }"

definition step_value :: "removal_step \<Rightarrow> jval" where
  "step_value s = JStr (removal_step_text s)"

definition parse_step :: "jval \<Rightarrow> removal_step option" where
  "parse_step = picklist removal_step_text GATEWAY_ROOT_REMOVAL_STEPS"

definition parse_steps :: "jval \<Rightarrow> removal_step list option" where
  "parse_steps v = (case items v of None \<Rightarrow> None | Some vs \<Rightarrow>
     (case those (map parse_step vs) of None \<Rightarrow> None | Some steps \<Rightarrow>
       if length steps \<le> length GATEWAY_ROOT_REMOVAL_STEPS then Some steps else None))"

definition job_keys :: "string list" where
  "job_keys = [''schemaVersion'', ''revision'', ''handoff'', ''handoffSha256'', ''release'', ''retirementModuleSha256'', ''acceptedAt'',
     ''updatedAt'', ''phase'', ''attempt'', ''verifiedSteps'', ''pendingStep'', ''pendingAttemptId'', ''revocation'', ''failureReason'',
     ''credentialPolicy'']"

definition job_value :: "teardown_job \<Rightarrow> jval" where
  "job_value j = JObj ([(''schemaVersion'', jint 1), (''revision'', jint (tj_revision j)), (''handoff'', JStr (tj_handoff j)),
     (''handoffSha256'', JStr (tj_handoffSha256 j)), (''release'', release_value (tj_release j)),
     (''retirementModuleSha256'', JStr (tj_retirementModuleSha256 j)), (''acceptedAt'', jint (tj_acceptedAt j)),
     (''updatedAt'', jint (tj_updatedAt j)), (''phase'', JStr (teardown_phase_text (tj_phase j))),
     (''attempt'', or_null attempt_value (tj_attempt j)), (''verifiedSteps'', JArr (map step_value (tj_verifiedSteps j))),
     (''pendingStep'', or_null step_value (tj_pendingStep j)), (''pendingAttemptId'', or_null JStr (tj_pendingAttemptId j)),
     (''revocation'', JStr (revocation_text (tj_revocation j))), (''failureReason'', or_null JStr (tj_failureReason j))]
     @ (case tj_credentialPolicy j of None \<Rightarrow> [] | Some p \<Rightarrow> [(''credentialPolicy'', JStr (credential_policy_text p))]))"

definition parse_job :: "(string \<Rightarrow> bool) \<Rightarrow> jval \<Rightarrow> teardown_job option" where
  "parse_job url v = do {
     strict_object job_keys v;
     exactly (jint 1) (field v ''schemaVersion'');
     revision \<leftarrow> int_from 1 (field v ''revision'');
     handoff \<leftarrow> text_such (\<lambda>s. 1 \<le> length s \<and> length s \<le> 32 * 1024) (field v ''handoff'');
     handoffSha256 \<leftarrow> matching HASH (field v ''handoffSha256'');
     release \<leftarrow> parse_release url (field v ''release'');
     retirement \<leftarrow> matching BARE_SHA256 (field v ''retirementModuleSha256'');
     acceptedAt \<leftarrow> int_from 0 (field v ''acceptedAt'');
     updatedAt \<leftarrow> int_from 0 (field v ''updatedAt'');
     phase \<leftarrow> picklist teardown_phase_text [Review, Authorizing_teardown, Exchanging_teardown, Recovery_required, Removed, Removed_unconfirmed]
       (field v ''phase'');
     attempt \<leftarrow> nullable parse_attempt (field v ''attempt'');
     verifiedSteps \<leftarrow> parse_steps (field v ''verifiedSteps'');
     pendingStep \<leftarrow> nullable parse_step (field v ''pendingStep'');
     pendingAttemptId \<leftarrow> nullable (matching ATTEMPT_ID) (field v ''pendingAttemptId'');
     revoked \<leftarrow> picklist revocation_text [Not_attempted, Confirmed, Unconfirmed] (field v ''revocation'');
     failureReason \<leftarrow> nullable (matching TEARDOWN_REASON) (field v ''failureReason'');
     policy \<leftarrow> (if field v ''credentialPolicy'' = Undef then Some None
       else map_option Some (picklist credential_policy_text [Request_memory_only, Operator_managed] (field v ''credentialPolicy'')));
     Some \<lparr>tj_revision = revision, tj_handoff = handoff, tj_handoffSha256 = handoffSha256, tj_release = release,
       tj_retirementModuleSha256 = retirement, tj_acceptedAt = acceptedAt, tj_updatedAt = updatedAt, tj_phase = phase,
       tj_attempt = attempt, tj_verifiedSteps = verifiedSteps, tj_pendingStep = pendingStep,
       tj_pendingAttemptId = pendingAttemptId, tj_revocation = revoked, tj_failureReason = failureReason,
       tj_credentialPolicy = policy\<rparr> }"

definition gatewayTeardownCredentialPolicy :: "teardown_job \<Rightarrow> credential_policy" where
  "gatewayTeardownCredentialPolicy j = (case tj_credentialPolicy j of None \<Rightarrow> Request_memory_only | Some p \<Rightarrow> p)"

definition removedRevocation :: "teardown_job \<Rightarrow> revocation" where
  "removedRevocation j = (if gatewayTeardownCredentialPolicy j = Operator_managed then Not_attempted else Confirmed)"

definition removed_phase :: "teardown_phase \<Rightarrow> bool" where
  "removed_phase p \<longleftrightarrow> p = Removed \<or> p = Removed_unconfirmed"

text \<open>\<open>array[index]\<close>, \<open>undefined\<close> out of range.\<close>

definition at_index :: "'a list \<Rightarrow> nat \<Rightarrow> 'a option" where
  "at_index xs i = (if i < length xs then Some (xs ! i) else None)"

definition job_conflicts :: "teardown_job \<Rightarrow> bool" where
  "job_conflicts j \<longleftrightarrow>
     tj_updatedAt j < tj_acceptedAt j
     \<or> list_ex (\<lambda>(i, s). at_index GATEWAY_ROOT_REMOVAL_STEPS i \<noteq> Some s) (zip [0..<length (tj_verifiedSteps j)] (tj_verifiedSteps j))
     \<or> (tj_pendingStep j \<noteq> None \<and> tj_pendingStep j \<noteq> at_index GATEWAY_ROOT_REMOVAL_STEPS (length (tj_verifiedSteps j)))
     \<or> (removed_phase (tj_phase j) \<and> (length (tj_verifiedSteps j) \<noteq> length GATEWAY_ROOT_REMOVAL_STEPS
         \<or> tj_pendingStep j \<noteq> None \<or> tj_attempt j \<noteq> None
         \<or> tj_revocation j \<noteq> (if tj_phase j = Removed then removedRevocation j else Unconfirmed)))
     \<or> ((tj_pendingStep j = None) \<noteq> (tj_pendingAttemptId j = None))
     \<or> ((tj_phase j = Authorizing_teardown \<or> tj_phase j = Exchanging_teardown) \<noteq> (tj_attempt j \<noteq> None))
     \<or> (tj_phase j = Review \<and> (tj_verifiedSteps j \<noteq> [] \<or> tj_pendingStep j \<noteq> None))
     \<or> (case tj_attempt j of None \<Rightarrow> False | Some a \<Rightarrow> ta_issuedAt a < tj_acceptedAt j \<or> tj_updatedAt j < ta_issuedAt a
         \<or> ta_expiresAt a - ta_issuedAt a \<noteq> ATTEMPT_TTL_MS)"

definition parseGatewayTeardownJob :: "(string \<Rightarrow> bool) \<Rightarrow> jval \<Rightarrow> teardown_error + teardown_job" where
  "parseGatewayTeardownJob url v = (case parse_job url v of None \<Rightarrow> Inl Teardown_schema
     | Some j \<Rightarrow> if job_conflicts j then Inl Teardown_conflict else Inr j)"

section \<open>Operations\<close>

definition conflict_unless :: "bool \<Rightarrow> teardown_error + unit" where
  "conflict_unless b = (if b then Inr () else Inl Teardown_conflict)"

text \<open>Given what the verification of the handoff returned: its digest and whether an earlier grant's revocation is unconfirmed.\<close>

definition createGatewayTeardownJob :: "(string \<Rightarrow> bool) \<Rightarrow> string \<Rightarrow> string \<times> bool \<Rightarrow> release_identity \<Rightarrow> string \<Rightarrow> int
    \<Rightarrow> credential_policy option \<Rightarrow> teardown_error + teardown_job" where
  "createGatewayTeardownJob url handoff verified release retirement now policy = parseGatewayTeardownJob url (job_value
     \<lparr>tj_revision = 1, tj_handoff = handoff, tj_handoffSha256 = fst verified, tj_release = release,
       tj_retirementModuleSha256 = retirement, tj_acceptedAt = now, tj_updatedAt = now, tj_phase = Review, tj_attempt = None,
       tj_verifiedSteps = [], tj_pendingStep = None, tj_pendingAttemptId = None,
       tj_revocation = (if snd verified then Unconfirmed else Not_attempted), tj_failureReason = None, tj_credentialPolicy = policy\<rparr>)"

definition next_job :: "(string \<Rightarrow> bool) \<Rightarrow> teardown_job \<Rightarrow> (teardown_job \<Rightarrow> teardown_job) \<Rightarrow> int \<Rightarrow> teardown_error + teardown_job" where
  "next_job url j change now =
     andThen (parseGatewayTeardownJob url (job_value j)) (\<lambda>_.
     andThen (conflict_unless (is_safe_integer now \<and> tj_updatedAt j \<le> now)) (\<lambda>_.
       parseGatewayTeardownJob url (job_value ((change j)\<lparr>tj_revision := tj_revision j + 1, tj_updatedAt := now\<rparr>))))"

definition authorizeGatewayTeardownJob :: "(string \<Rightarrow> bool) \<Rightarrow> teardown_job \<Rightarrow> string \<Rightarrow> string \<Rightarrow> string \<Rightarrow> int
    \<Rightarrow> teardown_error + teardown_job" where
  "authorizeGatewayTeardownJob url job attemptId stateHash verifierHash now =
     andThen (conflict_unless (\<not> (removed_phase (tj_phase job)
       \<or> (case tj_attempt job of None \<Rightarrow> False | Some a \<Rightarrow> now < ta_expiresAt a \<or> ta_id a = attemptId)
       \<or> tj_pendingAttemptId job = Some attemptId))) (\<lambda>_.
     let revocationUnconfirmed = (tj_revocation job = Unconfirmed \<or> tj_phase job = Exchanging_teardown) in
     next_job url job (\<lambda>j. j\<lparr>tj_phase := Authorizing_teardown, tj_failureReason := None,
       tj_revocation := (if revocationUnconfirmed then Unconfirmed else Not_attempted),
       tj_attempt := Some \<lparr>ta_id = attemptId, ta_stateHash = stateHash, ta_verifierHash = verifierHash, ta_issuedAt = now,
         ta_expiresAt = now + ATTEMPT_TTL_MS\<rparr>\<rparr>) now)"

definition consumeGatewayTeardownCallback :: "(string \<Rightarrow> bool) \<Rightarrow> teardown_job \<Rightarrow> string \<Rightarrow> string \<Rightarrow> string \<Rightarrow> int
    \<Rightarrow> teardown_error + teardown_job" where
  "consumeGatewayTeardownCallback url job attemptId stateHash verifierHash now =
     andThen (conflict_unless (tj_phase job = Authorizing_teardown \<and> (case tj_attempt job of None \<Rightarrow> False | Some a \<Rightarrow>
       ta_id a = attemptId \<and> ta_stateHash a = stateHash \<and> ta_verifierHash a = verifierHash \<and> now < ta_expiresAt a))) (\<lambda>_.
     next_job url job (\<lambda>j. j\<lparr>tj_phase := Exchanging_teardown\<rparr>) now)"

definition active_attempt :: "teardown_job \<Rightarrow> string \<Rightarrow> int \<Rightarrow> teardown_error + unit" where
  "active_attempt job attemptId now = conflict_unless (tj_phase job = Exchanging_teardown
     \<and> (case tj_attempt job of None \<Rightarrow> False | Some a \<Rightarrow> ta_id a = attemptId \<and> now < ta_expiresAt a))"

definition armGatewayRootRemoval :: "(string \<Rightarrow> bool) \<Rightarrow> teardown_job \<Rightarrow> string \<Rightarrow> removal_step \<Rightarrow> int \<Rightarrow> teardown_error + teardown_job" where
  "armGatewayRootRemoval url job attemptId step now =
     andThen (active_attempt job attemptId now) (\<lambda>_.
     andThen (conflict_unless (\<not> ((tj_pendingStep job \<noteq> None \<and> tj_pendingAttemptId job = Some attemptId)
       \<or> Some step \<noteq> at_index GATEWAY_ROOT_REMOVAL_STEPS (length (tj_verifiedSteps job))))) (\<lambda>_.
     next_job url job (\<lambda>j. j\<lparr>tj_pendingStep := Some step, tj_pendingAttemptId := Some attemptId\<rparr>) now))"

definition verifyGatewayRootRemoval :: "(string \<Rightarrow> bool) \<Rightarrow> teardown_job \<Rightarrow> string \<Rightarrow> removal_step \<Rightarrow> int \<Rightarrow> teardown_error + teardown_job" where
  "verifyGatewayRootRemoval url job attemptId step now =
     andThen (active_attempt job attemptId now) (\<lambda>_.
     andThen (conflict_unless (tj_pendingStep job = Some step)) (\<lambda>_.
     next_job url job (\<lambda>j. j\<lparr>tj_verifiedSteps := tj_verifiedSteps j @ [step], tj_pendingStep := None, tj_pendingAttemptId := None\<rparr>) now))"

definition settleGatewayTeardownAttempt :: "(string \<Rightarrow> bool) \<Rightarrow> teardown_job \<Rightarrow> string \<Rightarrow> revocation \<Rightarrow> string option \<Rightarrow> int
    \<Rightarrow> teardown_error + teardown_job" where
  "settleGatewayTeardownAttempt url job attemptId revoked reason now =
     andThen (conflict_unless (map_option ta_id (tj_attempt job) = Some attemptId)) (\<lambda>_.
     andThen (conflict_unless ((revoked = Not_attempted) = (gatewayTeardownCredentialPolicy job = Operator_managed))) (\<lambda>_.
     let complete = (tj_phase job = Exchanging_teardown \<and> tj_pendingStep job = None
           \<and> length (tj_verifiedSteps job) = length GATEWAY_ROOT_REMOVAL_STEPS);
         revoked' = (if tj_revocation job = Unconfirmed then Unconfirmed else revoked);
         phase = (if complete then if revoked' = removedRevocation job then Removed else Removed_unconfirmed else Recovery_required) in
     next_job url job (\<lambda>j. j\<lparr>tj_phase := phase, tj_attempt := None, tj_revocation := revoked',
       tj_failureReason := (if complete then None else reason)\<rparr>) now))"

definition retainGatewayTeardownRevocationWarning :: "(string \<Rightarrow> bool) \<Rightarrow> teardown_job \<Rightarrow> int \<Rightarrow> teardown_error + teardown_job" where
  "retainGatewayTeardownRevocationWarning url job now =
     andThen (conflict_unless (\<not> removed_phase (tj_phase job))) (\<lambda>_.
     next_job url job (\<lambda>j. j\<lparr>tj_revocation := Unconfirmed\<rparr>) now)"

section \<open>The port\<close>

datatype job_port_error = Job_thrown teardown_error | Job_invalid | Job_sql_error

definition MAX_JOB_BYTES :: nat where
  "MAX_JOB_BYTES = 64 * 1024"

definition read_job :: "(string \<Rightarrow> bool) \<Rightarrow> (string \<Rightarrow> jnum) \<Rightarrow> stored_row \<Rightarrow> job_port_error + teardown_job option" where
  "read_job url double r = (case r of
     None \<Rightarrow> Inr None
   | Some (revision, text) \<Rightarrow> if MAX_JOB_BYTES < length text then Inl Job_invalid
       else (case json_parse double text of
         None \<Rightarrow> Inl Job_invalid
       | Some decoded \<Rightarrow> (case parseGatewayTeardownJob url decoded of
           Inl e \<Rightarrow> Inl Job_invalid
         | Inr job \<Rightarrow> if tj_revision job \<noteq> revision \<or> canonicalJson (job_value job) \<noteq> Some text then Inl Job_invalid
             else Inr (Some job))))"

text \<open>What a successor may not change.\<close>

definition job_replaceable :: "teardown_job \<Rightarrow> teardown_job \<Rightarrow> bool" where
  "job_replaceable previous job \<longleftrightarrow> \<not> (tj_handoff previous \<noteq> tj_handoff job \<or> tj_handoffSha256 previous \<noteq> tj_handoffSha256 job
     \<or> tj_acceptedAt previous \<noteq> tj_acceptedAt job \<or> tj_updatedAt job < tj_updatedAt previous
     \<or> canonicalJson (release_value (tj_release previous)) \<noteq> canonicalJson (release_value (tj_release job))
     \<or> tj_retirementModuleSha256 previous \<noteq> tj_retirementModuleSha256 job
     \<or> list_ex (\<lambda>(i, s). at_index (tj_verifiedSteps job) i \<noteq> Some s) (zip [0..<length (tj_verifiedSteps previous)] (tj_verifiedSteps previous))
     \<or> removed_phase (tj_phase previous)
     \<or> (tj_revocation previous = Unconfirmed \<and> tj_revocation job \<noteq> Unconfirmed))"

definition write_job :: "(string \<Rightarrow> bool) \<Rightarrow> (string \<Rightarrow> jnum) \<Rightarrow> int option \<Rightarrow> teardown_job \<Rightarrow> stored_row
    \<Rightarrow> (job_port_error + bool) \<times> stored_row" where
  "write_job url double expected input r = (case parseGatewayTeardownJob url (job_value input) of
     Inl e \<Rightarrow> (Inl (Job_thrown e), r)
   | Inr job \<Rightarrow>
       if (case expected of None \<Rightarrow> tj_revision job \<noteq> 1 \<or> tj_phase job \<noteq> Review
           | Some n \<Rightarrow> \<not> is_safe_integer n \<or> n < 1 \<or> tj_revision job \<noteq> n + 1) then (Inl Job_invalid, r)
       else (case canonicalJson (job_value job) of
         None \<Rightarrow> (Inl Job_invalid, r)
       | Some serialized \<Rightarrow>
           if MAX_JOB_BYTES < length (encode_text serialized) then (Inl Job_invalid, r)
           else (case read_job url double r of
             Inl e \<Rightarrow> (Inl e, r)
           | Inr previous \<Rightarrow>
               if map_option tj_revision previous \<noteq> expected then (Inr False, r)
               else if (case previous of None \<Rightarrow> False | Some p \<Rightarrow> \<not> job_replaceable p job) then (Inl Job_invalid, r)
               else (case sql_write MAX_JOB_BYTES expected (tj_revision job) serialized r of
                 None \<Rightarrow> (Inl Job_sql_error, r)
               | Some (changed, r') \<Rightarrow> (Inr changed, r')))))"

end
