(* ===== verification/Stage2_Journal.thy ===== *)
theory Stage2_Journal
  imports Teardown_Job
begin

text \<open>
  The journal of the installation in the customer's account, \<^verbatim>\<open>apps/installer/src/customer-stage2-journal.ts\<close>: ten actions in a fixed
  order, each prepared, armed before it is sent, submitted with what the provider returned, and verified, by the attempt
  that holds the lease. The record and the locator of an action are JSON values, kept free of secrets
  (\<^verbatim>\<open>assertSecretFree\<close> of \<^verbatim>\<open>schema.ts\<close>).
\<close>

section \<open>JSON values and secrets\<close>

text \<open>The keys a record schema leaves out.\<close>

definition RESERVED :: "string list" where
  "RESERVED = [''__proto__'', ''prototype'', ''constructor'']"

fun json_value :: "jval \<Rightarrow> jval option"
  and json_items :: "jval list \<Rightarrow> jval list option"
  and json_entries :: "(string \<times> jval) list \<Rightarrow> (string \<times> jval) list option" where
  "json_value (JArr xs) = map_option JArr (json_items xs)"
| "json_value (JObj kvs) = map_option JObj (json_entries kvs)"
| "json_value Undef = None"
| "json_value JNull = Some JNull"
| "json_value (JBool b) = Some (JBool b)"
| "json_value (JNum n) = Some (JNum n)"
| "json_value (JStr s) = Some (JStr s)"
| "json_items [] = Some []"
| "json_items (x # xs) = (case json_value x of None \<Rightarrow> None | Some y \<Rightarrow> map_option (\<lambda>ys. y # ys) (json_items xs))"
| "json_entries [] = Some []"
| "json_entries ((k, v) # kvs) = (if k \<in> set RESERVED then json_entries kvs else case json_value v of
     None \<Rightarrow> None | Some w \<Rightarrow> map_option (\<lambda>es. (k, w) # es) (json_entries kvs))"

text \<open>\<open>v.record\<close>, which takes an array for the record of its indices.\<close>

definition json_record :: "jval \<Rightarrow> (string \<times> jval) list option" where
  "json_record v = (case v of
     JObj kvs \<Rightarrow> json_entries kvs
   | JArr xs \<Rightarrow> map_option (zip (map nat_text [0..<length xs])) (json_items xs)
   | _ \<Rightarrow> None)"

fun boundary_value :: "jval \<Rightarrow> jval"
  and boundary_items :: "jval list \<Rightarrow> jval list"
  and boundary_entries :: "(string \<times> jval) list \<Rightarrow> (string \<times> jval) list" where
  "boundary_value (JArr xs) = JArr (boundary_items xs)"
| "boundary_value (JObj kvs) = JObj (boundary_entries kvs)"
| "boundary_value Undef = Undef"
| "boundary_value JNull = JNull"
| "boundary_value (JBool b) = JBool b"
| "boundary_value (JNum n) = JNum n"
| "boundary_value (JStr s) = JStr s"
| "boundary_items [] = []"
| "boundary_items (x # xs) = boundary_value x # boundary_items xs"
| "boundary_entries [] = []"
| "boundary_entries ((k, v) # kvs) = (if k \<in> set RESERVED then boundary_entries kvs
     else (k, boundary_value v) # boundary_entries kvs)"

definition FORBIDDEN_STORED_KEYS :: "string list" where
  "FORBIDDEN_STORED_KEYS = [''access_token'', ''accesstoken'', ''authorizationcode'', ''client_secret'', ''clientsecret'',
     ''codeverifier'', ''refresh_token'', ''refreshtoken'', ''verifier'']"

definition FORBIDDEN_STORED_KEY_FRAGMENTS :: "string list" where
  "FORBIDDEN_STORED_KEY_FRAGMENTS = [''accesstoken'', ''refreshtoken'', ''bearertoken'', ''oauthtoken'', ''authorizationcode'',
     ''clientsecret'', ''bootstrapnonce'', ''hmacsignature'', ''uploadjwt'', ''completionjwt'', ''assetjwt'', ''pkceverifier'', ''codeverifier'']"

fun has_fragment :: "string \<Rightarrow> string \<Rightarrow> bool" where
  "has_fragment w [] = (w = [])"
| "has_fragment w (c # s) = (is_prefix_of w (c # s) \<or> has_fragment w s)"

definition forbiddenStoredKey :: "string \<Rightarrow> bool" where
  "forbiddenStoredKey key = (let normalized = filter (\<lambda>c. c \<noteq> CHR ''-'' \<and> c \<noteq> CHR ''_'') (toLowerCase key) in
     toLowerCase key \<in> set FORBIDDEN_STORED_KEYS
     \<or> normalized \<in> set FORBIDDEN_STORED_KEYS
     \<or> list_ex (\<lambda>fragment. has_fragment fragment normalized) FORBIDDEN_STORED_KEY_FRAGMENTS
     \<or> (is_suffix_of ''nonce'' normalized \<and> \<not> is_suffix_of ''noncehash'' normalized)
     \<or> (is_suffix_of ''signature'' normalized \<and> \<not> is_suffix_of ''signaturehash'' normalized)
     \<or> (is_suffix_of ''secret'' normalized \<and> \<not> is_suffix_of ''secrethash'' normalized)
     \<or> (is_suffix_of ''verifier'' normalized \<and> \<not> is_suffix_of ''verifierhash'' normalized))"

text \<open>A path that is found is never empty, so it counts as true.\<close>

fun findForbiddenStoredKeyPath :: "jval \<Rightarrow> string \<Rightarrow> string option"
  and forbidden_in_items :: "jval list \<Rightarrow> nat \<Rightarrow> string \<Rightarrow> string option"
  and forbidden_in_entries :: "(string \<times> jval) list \<Rightarrow> string \<Rightarrow> string option" where
  "findForbiddenStoredKeyPath (JArr xs) path = forbidden_in_items xs 0 path"
| "findForbiddenStoredKeyPath (JObj kvs) path = forbidden_in_entries kvs path"
| "findForbiddenStoredKeyPath v path = None"
| "forbidden_in_items [] i path = None"
| "forbidden_in_items (x # xs) i path = (case findForbiddenStoredKeyPath x (path @ ''['' @ nat_text i @ '']'') of
     Some found \<Rightarrow> Some found | None \<Rightarrow> forbidden_in_items xs (i + 1) path)"
| "forbidden_in_entries [] path = None"
| "forbidden_in_entries ((key, item) # kvs) path = (let here = (if path \<noteq> [] then path @ ''.'' @ key else key) in
     if forbiddenStoredKey key then Some here
     else case findForbiddenStoredKeyPath item here of Some found \<Rightarrow> Some found | None \<Rightarrow> forbidden_in_entries kvs path)"

definition forbiddenStoredKeyPath :: "jval \<Rightarrow> string option" where
  "forbiddenStoredKeyPath v = findForbiddenStoredKeyPath (boundary_value v) []"

text \<open>Whether \<open>assertSecretFree\<close> returns.\<close>

definition assertSecretFree :: "jval \<Rightarrow> bool" where
  "assertSecretFree v \<longleftrightarrow> forbiddenStoredKeyPath v = None"

section \<open>The journal\<close>

datatype stage2_name = Management_dns_record | Management_access_application | Management_admin_policy | Management_service_policy
  | Gateway_resources | Management_dns_record_release | Management_custom_domain | Workers_dev_disable | Terminal_verify | Final_runtime

fun stage2_name_text :: "stage2_name \<Rightarrow> string" where
  "stage2_name_text Management_dns_record = ''management_dns_record''"
| "stage2_name_text Management_access_application = ''management_access_application''"
| "stage2_name_text Management_admin_policy = ''management_admin_policy''"
| "stage2_name_text Management_service_policy = ''management_service_policy''"
| "stage2_name_text Gateway_resources = ''gateway_resources''"
| "stage2_name_text Management_dns_record_release = ''management_dns_record_release''"
| "stage2_name_text Management_custom_domain = ''management_custom_domain''"
| "stage2_name_text Workers_dev_disable = ''workers_dev_disable''"
| "stage2_name_text Terminal_verify = ''terminal_verify''"
| "stage2_name_text Final_runtime = ''final_runtime''"

definition CUSTOMER_STAGE2_ACTION_ORDER :: "stage2_name list" where
  "CUSTOMER_STAGE2_ACTION_ORDER = [Management_dns_record, Management_access_application, Management_admin_policy,
     Management_service_policy, Gateway_resources, Management_dns_record_release, Management_custom_domain,
     Workers_dev_disable, Terminal_verify, Final_runtime]"

definition CUSTOMER_STAGE2_OPTIONAL_ACTION :: stage2_name where
  "CUSTOMER_STAGE2_OPTIONAL_ACTION = Management_service_policy"

definition CUSTOMER_STAGE2_DNS_RECORD_ACTIONS :: "stage2_name list" where
  "CUSTOMER_STAGE2_DNS_RECORD_ACTIONS = [Management_dns_record, Management_dns_record_release]"

definition dnsRecordAction :: "stage2_name \<Rightarrow> bool" where
  "dnsRecordAction name \<longleftrightarrow> name \<in> set CUSTOMER_STAGE2_DNS_RECORD_ACTIONS"

text \<open>Of the names of the actions.\<close>

definition customerStage2ActionSequence :: "stage2_name list \<Rightarrow> stage2_name list" where
  "customerStage2ActionSequence names = (let servicePolicy = (CUSTOMER_STAGE2_OPTIONAL_ACTION \<in> set names);
       dnsRecord = (Management_dns_record \<in> set names) in
     filter (\<lambda>name. (name \<noteq> CUSTOMER_STAGE2_OPTIONAL_ACTION \<or> servicePolicy) \<and> (\<not> dnsRecordAction name \<or> dnsRecord))
       CUSTOMER_STAGE2_ACTION_ORDER)"

datatype stage2_phase = Prepared | Send_armed | Submitted | Verified

fun stage2_phase_text :: "stage2_phase \<Rightarrow> string" where
  "stage2_phase_text Prepared = ''prepared''"
| "stage2_phase_text Send_armed = ''send_armed''"
| "stage2_phase_text Submitted = ''submitted''"
| "stage2_phase_text Verified = ''verified''"

record stage2_identity =
  id_accountId :: string
  id_zoneId :: string
  id_zoneName :: string
  id_installId :: string
  id_planId :: string
  id_planHash :: string
  id_configurationHash :: string
  id_desiredHash :: string
  id_workerName :: string
  id_workerId :: string
  id_namespaceId :: string
  id_bootstrapVersionId :: string
  id_releaseId :: string
  id_releaseArtifactSha256 :: string
  id_finalRuntimeSha256 :: string
  id_updateChannel :: release_channel
  id_updateKeyId :: string
  id_updatePublicKey :: string
  id_ownershipReceiptSha256 :: string

record stage2_organization =
  og_name :: string
  og_authDomain :: string
  og_issuer :: string

record stage2_lease =
  ls_attemptId :: string
  ls_acquiredAt :: int
  ls_expiresAt :: int

record stage2_action =
  ac_name :: stage2_name
  ac_phase :: stage2_phase
  ac_record :: "(string \<times> jval) list"
  ac_locator :: jval
  ac_preparedAt :: int
  ac_sendArmedAt :: "int option"
  ac_submittedAt :: "int option"
  ac_verifiedAt :: "int option"

record stage2_preflight =
  pf_attestationHash :: string
  pf_checkedAt :: int
  pf_expiresAt :: int

record stage2_cleanup =
  cu_phase :: cleanup_phase
  cu_reason :: "string option"

record stage2_journal =
  st_revision :: int
  st_createdAt :: int
  st_updatedAt :: int
  st_identity :: stage2_identity
  st_organization :: stage2_organization
  st_identityProviderIds :: "string list"
  st_workersSubdomain :: string
  st_preflight :: stage2_preflight
  st_lease :: "stage2_lease option"
  st_actions :: "stage2_action list"
  st_completedAt :: "int option"
  st_cleanup :: "stage2_cleanup option"

datatype stage2_error = Stage2_invalid | Stage2_conflict | Stage2_lease_expired | Stage2_complete

section \<open>Patterns\<close>

definition SAFE_ID :: pattern where
  "SAFE_ID = seqs [Start, Cls is_alnum, Run opaque_char 0 (Some 127), End]"

definition ACCOUNT_ID :: pattern where
  "ACCOUNT_ID = prefixed [] is_lower_hex 32"

definition STAGE2_PLAN_ID :: pattern where
  "STAGE2_PLAN_ID = prefixed ''plan-'' is_lower_hex 24"

definition WORKER_NAME :: pattern where
  "WORKER_NAME = seqs [Start, Cls is_lower, Opt (seqs [Run key_char 0 (Some 61), Cls lower_alnum]), End]"

definition VERSION_ID :: pattern where
  "VERSION_ID = seqs [Start, Run is_lower_hex 8 (Some 8), Lit ''-'', Run is_lower_hex 4 (Some 4), Lit ''-'',
     Cls (\<lambda>c. 49 \<le> code_unit c \<and> code_unit c \<le> 56), Run is_lower_hex 3 (Some 3), Lit ''-'', Cls (\<lambda>c. c \<in> set ''89ab''),
     Run is_lower_hex 3 (Some 3), Lit ''-'', Run is_lower_hex 12 (Some 12), End]"

definition UPDATE_KEY_ID :: pattern where
  "UPDATE_KEY_ID = seqs [Start, Cls lower_alnum,
     Opt (seqs [Run (\<lambda>c. lower_alnum c \<or> c \<in> set ''._-'') 0 (Some 62), Cls lower_alnum]), End]"

definition MAX_JOURNAL_BYTES :: nat where
  "MAX_JOURNAL_BYTES = 256 * 1024"

section \<open>Reading and writing\<close>

definition identity_value :: "stage2_identity \<Rightarrow> jval" where
  "identity_value i = JObj [(''accountId'', JStr (id_accountId i)), (''zoneId'', JStr (id_zoneId i)), (''zoneName'', JStr (id_zoneName i)),
     (''installId'', JStr (id_installId i)), (''planId'', JStr (id_planId i)), (''planHash'', JStr (id_planHash i)),
     (''configurationHash'', JStr (id_configurationHash i)), (''desiredHash'', JStr (id_desiredHash i)),
     (''workerName'', JStr (id_workerName i)), (''workerId'', JStr (id_workerId i)), (''namespaceId'', JStr (id_namespaceId i)),
     (''bootstrapVersionId'', JStr (id_bootstrapVersionId i)), (''releaseId'', JStr (id_releaseId i)),
     (''releaseArtifactSha256'', JStr (id_releaseArtifactSha256 i)), (''finalRuntimeSha256'', JStr (id_finalRuntimeSha256 i)),
     (''updateChannel'', JStr (release_channel_text (id_updateChannel i))), (''updateKeyId'', JStr (id_updateKeyId i)),
     (''updatePublicKey'', JStr (id_updatePublicKey i)), (''ownershipReceiptSha256'', JStr (id_ownershipReceiptSha256 i))]"

definition parse_identity :: "jval \<Rightarrow> stage2_identity option" where
  "parse_identity v = do {
     strict_object [''accountId'', ''zoneId'', ''zoneName'', ''installId'', ''planId'', ''planHash'', ''configurationHash'',
       ''desiredHash'', ''workerName'', ''workerId'', ''namespaceId'', ''bootstrapVersionId'', ''releaseId'',
       ''releaseArtifactSha256'', ''finalRuntimeSha256'', ''updateChannel'', ''updateKeyId'', ''updatePublicKey'', ''ownershipReceiptSha256''] v;
     accountId \<leftarrow> matching ACCOUNT_ID (field v ''accountId'');
     zoneId \<leftarrow> matching ACCOUNT_ID (field v ''zoneId'');
     zoneName \<leftarrow> text_such (\<lambda>s. True) (field v ''zoneName'');
     installId \<leftarrow> matching INSTALLATION_ID (field v ''installId'');
     planId \<leftarrow> matching STAGE2_PLAN_ID (field v ''planId'');
     planHash \<leftarrow> matching HASH (field v ''planHash'');
     configurationHash \<leftarrow> matching HASH (field v ''configurationHash'');
     desiredHash \<leftarrow> matching HASH (field v ''desiredHash'');
     workerName \<leftarrow> matching WORKER_NAME (field v ''workerName'');
     workerId \<leftarrow> matching ACCOUNT_ID (field v ''workerId'');
     namespaceId \<leftarrow> matching ACCOUNT_ID (field v ''namespaceId'');
     bootstrapVersionId \<leftarrow> matching VERSION_ID (field v ''bootstrapVersionId'');
     releaseId \<leftarrow> matching GATEWAY_RELEASE (field v ''releaseId'');
     releaseArtifactSha256 \<leftarrow> matching BARE_SHA256 (field v ''releaseArtifactSha256'');
     finalRuntimeSha256 \<leftarrow> matching BARE_SHA256 (field v ''finalRuntimeSha256'');
     updateChannel \<leftarrow> picklist release_channel_text [Canary_channel, Stable_channel] (field v ''updateChannel'');
     updateKeyId \<leftarrow> matching UPDATE_KEY_ID (field v ''updateKeyId'');
     updatePublicKey \<leftarrow> matching TOKEN (field v ''updatePublicKey'');
     ownershipReceiptSha256 \<leftarrow> matching HASH (field v ''ownershipReceiptSha256'');
     Some \<lparr>id_accountId = accountId, id_zoneId = zoneId, id_zoneName = zoneName, id_installId = installId, id_planId = planId,
       id_planHash = planHash, id_configurationHash = configurationHash, id_desiredHash = desiredHash, id_workerName = workerName,
       id_workerId = workerId, id_namespaceId = namespaceId, id_bootstrapVersionId = bootstrapVersionId, id_releaseId = releaseId,
       id_releaseArtifactSha256 = releaseArtifactSha256, id_finalRuntimeSha256 = finalRuntimeSha256,
       id_updateChannel = updateChannel, id_updateKeyId = updateKeyId, id_updatePublicKey = updatePublicKey,
       id_ownershipReceiptSha256 = ownershipReceiptSha256\<rparr> }"

definition organization_value :: "stage2_organization \<Rightarrow> jval" where
  "organization_value g = JObj [(''name'', JStr (og_name g)), (''authDomain'', JStr (og_authDomain g)), (''issuer'', JStr (og_issuer g))]"

definition parse_organization :: "(string \<Rightarrow> bool) \<Rightarrow> jval \<Rightarrow> stage2_organization option" where
  "parse_organization url v = do {
     strict_object [''name'', ''authDomain'', ''issuer''] v;
     name \<leftarrow> text_such (\<lambda>s. 1 \<le> length s \<and> length s \<le> 256) (field v ''name'');
     authDomain \<leftarrow> text_such (\<lambda>s. 3 \<le> length s \<and> length s \<le> 253) (field v ''authDomain'');
     issuer \<leftarrow> text_such url (field v ''issuer'');
     Some \<lparr>og_name = name, og_authDomain = authDomain, og_issuer = issuer\<rparr> }"

definition lease_value :: "stage2_lease \<Rightarrow> jval" where
  "lease_value l = JObj [(''attemptId'', JStr (ls_attemptId l)), (''acquiredAt'', jint (ls_acquiredAt l)), (''expiresAt'', jint (ls_expiresAt l))]"

definition parse_lease :: "jval \<Rightarrow> stage2_lease option" where
  "parse_lease v = do {
     strict_object [''attemptId'', ''acquiredAt'', ''expiresAt''] v;
     attemptId \<leftarrow> matching ATTEMPT_ID (field v ''attemptId'');
     acquiredAt \<leftarrow> int_from 0 (field v ''acquiredAt'');
     expiresAt \<leftarrow> int_from 0 (field v ''expiresAt'');
     Some \<lparr>ls_attemptId = attemptId, ls_acquiredAt = acquiredAt, ls_expiresAt = expiresAt\<rparr> }"

definition action_value :: "stage2_action \<Rightarrow> jval" where
  "action_value a = JObj [(''name'', JStr (stage2_name_text (ac_name a))), (''phase'', JStr (stage2_phase_text (ac_phase a))),
     (''record'', JObj (ac_record a)), (''locator'', ac_locator a), (''preparedAt'', jint (ac_preparedAt a)),
     (''sendArmedAt'', or_null jint (ac_sendArmedAt a)), (''submittedAt'', or_null jint (ac_submittedAt a)),
     (''verifiedAt'', or_null jint (ac_verifiedAt a))]"

definition parse_action :: "jval \<Rightarrow> stage2_action option" where
  "parse_action v = do {
     strict_object [''name'', ''phase'', ''record'', ''locator'', ''preparedAt'', ''sendArmedAt'', ''submittedAt'', ''verifiedAt''] v;
     name \<leftarrow> picklist stage2_name_text CUSTOMER_STAGE2_ACTION_ORDER (field v ''name'');
     phase \<leftarrow> picklist stage2_phase_text [Prepared, Send_armed, Submitted, Verified] (field v ''phase'');
     rec_entries \<leftarrow> json_record (field v ''record'');
     locator \<leftarrow> json_value (field v ''locator'');
     preparedAt \<leftarrow> int_from 0 (field v ''preparedAt'');
     sendArmedAt \<leftarrow> nullable (int_from 0) (field v ''sendArmedAt'');
     submittedAt \<leftarrow> nullable (int_from 0) (field v ''submittedAt'');
     verifiedAt \<leftarrow> nullable (int_from 0) (field v ''verifiedAt'');
     Some \<lparr>ac_name = name, ac_phase = phase, ac_record = rec_entries, ac_locator = locator, ac_preparedAt = preparedAt,
       ac_sendArmedAt = sendArmedAt, ac_submittedAt = submittedAt, ac_verifiedAt = verifiedAt\<rparr> }"

definition preflight_value :: "stage2_preflight \<Rightarrow> jval" where
  "preflight_value p = JObj [(''attestationHash'', JStr (pf_attestationHash p)), (''checkedAt'', jint (pf_checkedAt p)),
     (''expiresAt'', jint (pf_expiresAt p))]"

definition parse_preflight :: "jval \<Rightarrow> stage2_preflight option" where
  "parse_preflight v = do {
     strict_object [''attestationHash'', ''checkedAt'', ''expiresAt''] v;
     attestationHash \<leftarrow> matching HASH (field v ''attestationHash'');
     checkedAt \<leftarrow> int_from 0 (field v ''checkedAt'');
     expiresAt \<leftarrow> int_from 0 (field v ''expiresAt'');
     Some \<lparr>pf_attestationHash = attestationHash, pf_checkedAt = checkedAt, pf_expiresAt = expiresAt\<rparr> }"

definition cleanup_record_value :: "stage2_cleanup \<Rightarrow> jval" where
  "cleanup_record_value c = JObj [(''phase'', JStr (cleanup_phase_text (cu_phase c))), (''reason'', or_null JStr (cu_reason c))]"

definition parse_cleanup_record :: "jval \<Rightarrow> stage2_cleanup option" where
  "parse_cleanup_record v = do {
     strict_object [''phase'', ''reason''] v;
     phase \<leftarrow> picklist cleanup_phase_text [Cleanup_removing, Cleanup_removed, Cleanup_recovery_required] (field v ''phase'');
     reason \<leftarrow> nullable (matching FAILURE_REASON) (field v ''reason'');
     Some \<lparr>cu_phase = phase, cu_reason = reason\<rparr> }"

definition parse_list :: "(jval \<Rightarrow> 'a option) \<Rightarrow> (nat \<Rightarrow> bool) \<Rightarrow> jval \<Rightarrow> 'a list option" where
  "parse_list f len v = (case items v of None \<Rightarrow> None | Some vs \<Rightarrow>
     (case those (map f vs) of None \<Rightarrow> None | Some xs \<Rightarrow> if len (length xs) then Some xs else None))"

definition journal_keys :: "string list" where
  "journal_keys = [''schemaVersion'', ''revision'', ''createdAt'', ''updatedAt'', ''identity'', ''organization'', ''identityProviderIds'',
     ''workersSubdomain'', ''preflight'', ''lease'', ''actions'', ''completedAt'', ''cleanup'']"

definition journal_value :: "stage2_journal \<Rightarrow> jval" where
  "journal_value j = JObj [(''schemaVersion'', jint 1), (''revision'', jint (st_revision j)), (''createdAt'', jint (st_createdAt j)),
     (''updatedAt'', jint (st_updatedAt j)), (''identity'', identity_value (st_identity j)),
     (''organization'', organization_value (st_organization j)), (''identityProviderIds'', JArr (map JStr (st_identityProviderIds j))),
     (''workersSubdomain'', JStr (st_workersSubdomain j)), (''preflight'', preflight_value (st_preflight j)),
     (''lease'', or_null lease_value (st_lease j)), (''actions'', JArr (map action_value (st_actions j))),
     (''completedAt'', or_null jint (st_completedAt j)), (''cleanup'', or_null cleanup_record_value (st_cleanup j))]"

definition parse_journal :: "(string \<Rightarrow> bool) \<Rightarrow> jval \<Rightarrow> stage2_journal option" where
  "parse_journal url v = do {
     strict_object journal_keys v;
     exactly (jint 1) (field v ''schemaVersion'');
     revision \<leftarrow> int_from 1 (field v ''revision'');
     createdAt \<leftarrow> int_from 0 (field v ''createdAt'');
     updatedAt \<leftarrow> int_from 0 (field v ''updatedAt'');
     identity \<leftarrow> parse_identity (field v ''identity'');
     organization \<leftarrow> parse_organization url (field v ''organization'');
     identityProviderIds \<leftarrow> parse_list (matching SAFE_ID) (\<lambda>n. 1 \<le> n) (field v ''identityProviderIds'');
     workersSubdomain \<leftarrow> matching HOST_LABEL (field v ''workersSubdomain'');
     preflight \<leftarrow> parse_preflight (field v ''preflight'');
     lease \<leftarrow> nullable parse_lease (field v ''lease'');
     actions \<leftarrow> parse_list parse_action (\<lambda>n. n \<le> length CUSTOMER_STAGE2_ACTION_ORDER) (field v ''actions'');
     completedAt \<leftarrow> nullable (int_from 0) (field v ''completedAt'');
     cleanup \<leftarrow> null_default parse_cleanup_record (field v ''cleanup'');
     Some \<lparr>st_revision = revision, st_createdAt = createdAt, st_updatedAt = updatedAt, st_identity = identity,
       st_organization = organization, st_identityProviderIds = identityProviderIds, st_workersSubdomain = workersSubdomain,
       st_preflight = preflight, st_lease = lease, st_actions = actions, st_completedAt = completedAt, st_cleanup = cleanup\<rparr> }"

section \<open>Checks\<close>

text \<open>Whether \<open>validateAction\<close> returns.\<close>

definition validateAction :: "stage2_action \<Rightarrow> nat \<Rightarrow> int \<Rightarrow> stage2_name list \<Rightarrow> bool" where
  "validateAction action index updatedAt steps \<longleftrightarrow>
     \<not> (Some (ac_name action) \<noteq> at_index steps index \<or> updatedAt < ac_preparedAt action)
     \<and> (let armed = ac_sendArmedAt action; submitted = ac_submittedAt action; verified = ac_verifiedAt action; located = ac_locator action \<noteq> JNull in
       \<not> ((ac_phase action = Prepared \<and> (located \<or> armed \<noteq> None \<or> submitted \<noteq> None \<or> verified \<noteq> None))
         \<or> (ac_phase action = Send_armed \<and> (located \<or> armed = None \<or> submitted \<noteq> None \<or> verified \<noteq> None))
         \<or> (ac_phase action = Submitted \<and> (\<not> located \<or> armed = None \<or> submitted = None \<or> verified \<noteq> None))
         \<or> (ac_phase action = Verified \<and> (\<not> located \<or> armed = None \<or> submitted = None \<or> verified = None))
         \<or> (case armed of None \<Rightarrow> False | Some a \<Rightarrow> a < ac_preparedAt action \<or> updatedAt < a)
         \<or> (case submitted of None \<Rightarrow> False | Some s \<Rightarrow> (case armed of None \<Rightarrow> True | Some a \<Rightarrow> s < a) \<or> updatedAt < s)
         \<or> (case verified of None \<Rightarrow> False | Some x \<Rightarrow> (case submitted of None \<Rightarrow> True | Some s \<Rightarrow> x < s) \<or> updatedAt < x)))
     \<and> assertSecretFree (JObj (ac_record action)) \<and> (ac_locator action = JNull \<or> assertSecretFree (ac_locator action))"

definition action_names :: "stage2_journal \<Rightarrow> stage2_name list" where
  "action_names j = map ac_name (st_actions j)"

definition journal_conflicts :: "stage2_journal \<Rightarrow> bool" where
  "journal_conflicts j \<longleftrightarrow> st_updatedAt j < st_createdAt j
     \<or> st_createdAt j < pf_checkedAt (st_preflight j)
     \<or> pf_expiresAt (st_preflight j) \<le> pf_checkedAt (st_preflight j)
     \<or> \<not> distinct (st_identityProviderIds j)
     \<or> js_sort compareText (st_identityProviderIds j) \<noteq> st_identityProviderIds j
     \<or> (case st_lease j of None \<Rightarrow> False | Some l \<Rightarrow> st_updatedAt j < ls_acquiredAt l \<or> ls_expiresAt l \<le> ls_acquiredAt l)
     \<or> (case st_completedAt j of None \<Rightarrow> False | Some t \<Rightarrow> st_lease j \<noteq> None \<or> st_updatedAt j < t
         \<or> length (st_actions j) \<noteq> length (customerStage2ActionSequence (action_names j))
         \<or> list_ex (\<lambda>a. ac_phase a \<noteq> Verified) (st_actions j))"

definition journal_accepted :: "stage2_journal \<Rightarrow> bool" where
  "journal_accepted j \<longleftrightarrow> \<not> journal_conflicts j
     \<and> list_all (\<lambda>(i, a). validateAction a i (st_updatedAt j) (customerStage2ActionSequence (action_names j)))
         (zip [0..<length (st_actions j)] (st_actions j))
     \<and> assertSecretFree (journal_value j)
     \<and> (case canonicalJson (journal_value j) of None \<Rightarrow> False | Some serialized \<Rightarrow> length (encode_text serialized) \<le> MAX_JOURNAL_BYTES)"

definition parseCustomerStage2Journal :: "(string \<Rightarrow> bool) \<Rightarrow> jval \<Rightarrow> stage2_journal option" where
  "parseCustomerStage2Journal url v = (case parse_journal url v of
     None \<Rightarrow> None | Some j \<Rightarrow> if journal_accepted j then Some j else None)"

section \<open>Operations\<close>

definition stage2_require :: "bool \<Rightarrow> stage2_error \<Rightarrow> stage2_error + unit" where
  "stage2_require b e = (if b then Inr () else Inl e)"

definition validTime :: "int \<Rightarrow> stage2_error + unit" where
  "validTime t = stage2_require (is_safe_integer t \<and> 0 \<le> t) Stage2_invalid"

definition requireJournal :: "(string \<Rightarrow> bool) \<Rightarrow> stage2_journal \<Rightarrow> stage2_error + stage2_journal" where
  "requireJournal url j = (case parseCustomerStage2Journal url (journal_value j) of None \<Rightarrow> Inl Stage2_invalid | Some k \<Rightarrow> Inr k)"

definition next_journal :: "(string \<Rightarrow> bool) \<Rightarrow> stage2_journal \<Rightarrow> (stage2_journal \<Rightarrow> stage2_journal) \<Rightarrow> int \<Rightarrow> stage2_error + stage2_journal" where
  "next_journal url journal change now =
     andThen (validTime now) (\<lambda>_.
     andThen (stage2_require (st_updatedAt journal \<le> now) Stage2_conflict) (\<lambda>_.
       requireJournal url ((change journal)\<lparr>st_revision := st_revision journal + 1, st_updatedAt := now\<rparr>)))"

text \<open>Returns the lease.\<close>

definition assertLease :: "stage2_journal \<Rightarrow> string \<Rightarrow> int \<Rightarrow> stage2_error + stage2_lease" where
  "assertLease journal attemptId now =
     andThen (validTime now) (\<lambda>_.
     andThen (stage2_require (test ATTEMPT_ID attemptId) Stage2_invalid) (\<lambda>_.
     andThen (stage2_require (st_completedAt journal = None) Stage2_complete) (\<lambda>_. case st_lease journal of
       None \<Rightarrow> Inl Stage2_conflict
     | Some lease \<Rightarrow> andThen (stage2_require (ls_attemptId lease = attemptId) Stage2_conflict) (\<lambda>_.
         andThen (stage2_require (now < ls_expiresAt lease) Stage2_lease_expired) (\<lambda>_. Inr lease)))))"

text \<open>What the attestation of the preflight names.\<close>

record stage2_attestation =
  at_attestationHash :: string
  at_checkedAt :: int
  at_expiresAt :: int
  at_accountId :: string
  at_zoneId :: string
  at_planId :: string
  at_planHash :: string
  at_installationId :: string
  at_configurationHash :: string
  at_desiredHash :: string
  at_releaseId :: string
  at_releaseArtifactSha256 :: string

definition createCustomerStage2Journal :: "(string \<Rightarrow> bool) \<Rightarrow> int \<Rightarrow> int \<Rightarrow> string \<Rightarrow> stage2_identity \<Rightarrow> stage2_organization
    \<Rightarrow> string list \<Rightarrow> string \<Rightarrow> stage2_attestation \<Rightarrow> stage2_error + stage2_journal" where
  "createCustomerStage2Journal url now leaseExpiresAt attemptId identity organization providerIds subdomain preflight =
     andThen (validTime now) (\<lambda>_.
     andThen (validTime leaseExpiresAt) (\<lambda>_.
     andThen (stage2_require (\<not> (\<not> test ATTEMPT_ID attemptId \<or> leaseExpiresAt \<le> now
         \<or> now < at_checkedAt preflight \<or> at_expiresAt preflight \<le> now
         \<or> at_accountId preflight \<noteq> id_accountId identity \<or> at_zoneId preflight \<noteq> id_zoneId identity
         \<or> at_planId preflight \<noteq> id_planId identity \<or> at_planHash preflight \<noteq> id_planHash identity
         \<or> at_installationId preflight \<noteq> id_installId identity
         \<or> at_configurationHash preflight \<noteq> id_configurationHash identity \<or> at_desiredHash preflight \<noteq> id_desiredHash identity
         \<or> at_releaseId preflight \<noteq> id_releaseId identity
         \<or> at_releaseArtifactSha256 preflight \<noteq> id_releaseArtifactSha256 identity)) Stage2_invalid) (\<lambda>_.
     requireJournal url \<lparr>st_revision = 1, st_createdAt = now, st_updatedAt = now, st_identity = identity, st_organization = organization,
       st_identityProviderIds = js_sort compareText providerIds, st_workersSubdomain = subdomain,
       st_preflight = \<lparr>pf_attestationHash = at_attestationHash preflight, pf_checkedAt = at_checkedAt preflight,
         pf_expiresAt = at_expiresAt preflight\<rparr>,
       st_lease = Some \<lparr>ls_attemptId = attemptId, ls_acquiredAt = now, ls_expiresAt = leaseExpiresAt\<rparr>,
       st_actions = [], st_completedAt = None, st_cleanup = None\<rparr>)))"

definition acquireCustomerStage2Lease :: "(string \<Rightarrow> bool) \<Rightarrow> stage2_journal \<Rightarrow> string \<Rightarrow> int \<Rightarrow> int \<Rightarrow> stage2_error + stage2_journal" where
  "acquireCustomerStage2Lease url v attemptId now leaseExpiresAt =
     andThen (requireJournal url v) (\<lambda>journal.
     andThen (validTime now) (\<lambda>_.
     andThen (validTime leaseExpiresAt) (\<lambda>_.
     andThen (stage2_require (\<not> (\<not> test ATTEMPT_ID attemptId \<or> leaseExpiresAt \<le> now \<or> st_completedAt journal \<noteq> None))
       (if st_completedAt journal = None then Stage2_invalid else Stage2_complete)) (\<lambda>_.
     andThen (stage2_require (case st_lease journal of None \<Rightarrow> True | Some l \<Rightarrow>
         \<not> (ls_attemptId l \<noteq> attemptId \<and> now < ls_expiresAt l)) Stage2_conflict) (\<lambda>_.
     if (case st_lease journal of None \<Rightarrow> False | Some l \<Rightarrow> ls_attemptId l = attemptId \<and> now < ls_expiresAt l) then Inr journal
     else next_journal url journal (\<lambda>j. j\<lparr>st_lease := Some \<lparr>ls_attemptId = attemptId, ls_acquiredAt = now,
       ls_expiresAt = leaseExpiresAt\<rparr>\<rparr>) now)))))"

definition renewCustomerStage2Lease :: "(string \<Rightarrow> bool) \<Rightarrow> stage2_journal \<Rightarrow> string \<Rightarrow> int \<Rightarrow> int \<Rightarrow> stage2_error + stage2_journal" where
  "renewCustomerStage2Lease url v attemptId now leaseExpiresAt =
     andThen (requireJournal url v) (\<lambda>journal.
     andThen (assertLease journal attemptId now) (\<lambda>lease.
     andThen (stage2_require (is_safe_integer leaseExpiresAt \<and> ls_expiresAt lease < leaseExpiresAt) Stage2_invalid) (\<lambda>_.
     next_journal url journal (\<lambda>j. j\<lparr>st_lease := Some (lease\<lparr>ls_expiresAt := leaseExpiresAt\<rparr>)\<rparr>) now)))"

definition releaseCustomerStage2Lease :: "(string \<Rightarrow> bool) \<Rightarrow> stage2_journal \<Rightarrow> string \<Rightarrow> int \<Rightarrow> stage2_error + stage2_journal" where
  "releaseCustomerStage2Lease url v attemptId now =
     andThen (requireJournal url v) (\<lambda>journal.
     andThen (assertLease journal attemptId now) (\<lambda>_.
     next_journal url journal (\<lambda>j. j\<lparr>st_lease := None\<rparr>) now))"

definition customerStage2MutationsUnsent :: "(string \<Rightarrow> bool) \<Rightarrow> stage2_journal \<Rightarrow> stage2_error + bool" where
  "customerStage2MutationsUnsent url v = andThen (requireJournal url v) (\<lambda>parsed.
     Inr (st_completedAt parsed = None \<and> list_all (\<lambda>a. ac_phase a = Prepared) (st_actions parsed)))"

definition recordCustomerStage2Cleanup :: "(string \<Rightarrow> bool) \<Rightarrow> stage2_journal \<Rightarrow> int \<Rightarrow> cleanup_phase \<Rightarrow> string option
    \<Rightarrow> stage2_error + stage2_journal" where
  "recordCustomerStage2Cleanup url v now phase reason =
     andThen (requireJournal url v) (\<lambda>journal.
     andThen (stage2_require (st_completedAt journal = None) Stage2_complete) (\<lambda>_.
     andThen (stage2_require (map_option cu_phase (st_cleanup journal) \<noteq> Some Cleanup_removed) Stage2_conflict) (\<lambda>_.
     next_journal url journal (\<lambda>j. j\<lparr>st_cleanup := Some \<lparr>cu_phase = phase, cu_reason = safe_reason reason\<rparr>\<rparr>) now)))"

definition customerStage2Action :: "(string \<Rightarrow> bool) \<Rightarrow> stage2_journal \<Rightarrow> stage2_name \<Rightarrow> stage2_error + stage2_action option" where
  "customerStage2Action url v name = andThen (requireJournal url v) (\<lambda>parsed. Inr (find (\<lambda>a. ac_name a = name) (st_actions parsed)))"

definition prepareCustomerStage2Action :: "(string \<Rightarrow> bool) \<Rightarrow> stage2_journal \<Rightarrow> string \<Rightarrow> int \<Rightarrow> stage2_name \<Rightarrow> (string \<times> jval) list
    \<Rightarrow> stage2_error + stage2_journal" where
  "prepareCustomerStage2Action url v attemptId now name rec_entries =
     andThen (requireJournal url v) (\<lambda>journal.
     andThen (assertLease journal attemptId now) (\<lambda>_.
     andThen (stage2_require (at_index (customerStage2ActionSequence (action_names journal @ [name])) (length (st_actions journal)) = Some name)
       Stage2_conflict) (\<lambda>_.
     andThen (stage2_require (assertSecretFree (JObj rec_entries)) Stage2_invalid) (\<lambda>_.
     next_journal url journal (\<lambda>j. j\<lparr>st_actions := st_actions j @ [\<lparr>ac_name = name, ac_phase = Prepared, ac_record = rec_entries,
       ac_locator = JNull, ac_preparedAt = now, ac_sendArmedAt = None, ac_submittedAt = None, ac_verifiedAt = None\<rparr>]\<rparr>) now))))"

definition replaceAction :: "(string \<Rightarrow> bool) \<Rightarrow> stage2_journal \<Rightarrow> nat \<Rightarrow> stage2_action \<Rightarrow> int \<Rightarrow> stage2_error + stage2_journal" where
  "replaceAction url journal index action now = next_journal url journal (\<lambda>j. j\<lparr>st_actions := (st_actions j)[index := action]\<rparr>) now"

text \<open>\<open>findIndex\<close> of the name, and the action there.\<close>

definition find_action :: "stage2_journal \<Rightarrow> stage2_name \<Rightarrow> (nat \<times> stage2_action) option" where
  "find_action j name = (let i = length (takeWhile (\<lambda>a. ac_name a \<noteq> name) (st_actions j)) in
     map_option (Pair i) (at_index (st_actions j) i))"

definition armCustomerStage2Action :: "(string \<Rightarrow> bool) \<Rightarrow> stage2_journal \<Rightarrow> string \<Rightarrow> int \<Rightarrow> stage2_name \<Rightarrow> stage2_error + stage2_journal" where
  "armCustomerStage2Action url v attemptId now name =
     andThen (requireJournal url v) (\<lambda>journal.
     andThen (assertLease journal attemptId now) (\<lambda>_. case find_action journal name of
       None \<Rightarrow> Inl Stage2_conflict
     | Some (index, action) \<Rightarrow>
         andThen (stage2_require (\<not> (ac_phase action \<noteq> Prepared
           \<or> list_ex (\<lambda>a. ac_phase a \<noteq> Verified) (take index (st_actions journal)))) Stage2_conflict) (\<lambda>_.
         replaceAction url journal index (action\<lparr>ac_phase := Send_armed, ac_sendArmedAt := Some now\<rparr>) now)))"

definition submitCustomerStage2Action :: "(string \<Rightarrow> bool) \<Rightarrow> stage2_journal \<Rightarrow> string \<Rightarrow> int \<Rightarrow> stage2_name \<Rightarrow> jval
    \<Rightarrow> stage2_error + stage2_journal" where
  "submitCustomerStage2Action url v attemptId now name locator =
     andThen (requireJournal url v) (\<lambda>journal.
     andThen (assertLease journal attemptId now) (\<lambda>_. case find_action journal name of
       None \<Rightarrow> Inl Stage2_conflict
     | Some (index, action) \<Rightarrow>
         andThen (stage2_require (\<not> (ac_phase action \<noteq> Send_armed \<or> locator = JNull)) Stage2_conflict) (\<lambda>_.
         andThen (stage2_require (assertSecretFree locator) Stage2_invalid) (\<lambda>_.
         replaceAction url journal index (action\<lparr>ac_phase := Submitted, ac_locator := locator, ac_submittedAt := Some now\<rparr>) now))))"

definition verifyCustomerStage2Action :: "(string \<Rightarrow> bool) \<Rightarrow> stage2_journal \<Rightarrow> string \<Rightarrow> int \<Rightarrow> stage2_name \<Rightarrow> stage2_error + stage2_journal" where
  "verifyCustomerStage2Action url v attemptId now name =
     andThen (requireJournal url v) (\<lambda>journal.
     andThen (assertLease journal attemptId now) (\<lambda>_. case find_action journal name of
       None \<Rightarrow> Inl Stage2_conflict
     | Some (index, action) \<Rightarrow>
         andThen (stage2_require (\<not> (ac_phase action \<noteq> Submitted \<or> ac_locator action = JNull)) Stage2_conflict) (\<lambda>_.
         replaceAction url journal index (action\<lparr>ac_phase := Verified, ac_verifiedAt := Some now\<rparr>) now)))"

definition completeCustomerStage2Journal :: "(string \<Rightarrow> bool) \<Rightarrow> stage2_journal \<Rightarrow> string \<Rightarrow> int \<Rightarrow> stage2_error + stage2_journal" where
  "completeCustomerStage2Journal url v attemptId now =
     andThen (requireJournal url v) (\<lambda>journal.
     andThen (assertLease journal attemptId now) (\<lambda>_.
     andThen (stage2_require (\<not> (length (st_actions journal) \<noteq> length (customerStage2ActionSequence (action_names journal))
       \<or> list_ex (\<lambda>a. ac_phase a \<noteq> Verified) (st_actions journal))) Stage2_conflict) (\<lambda>_.
     next_journal url journal (\<lambda>j. j\<lparr>st_lease := None, st_completedAt := Some now\<rparr>) now)))"

end
