(* ===== verification/Teardown_Properties.thy ===== *)
theory Teardown_Properties
  imports Teardown_Job
begin

text \<open>What the schema of a job accepts, that a job is read as it was written, and what each operation changes.\<close>

section \<open>The schema\<close>

definition release_ok :: "(string \<Rightarrow> bool) \<Rightarrow> release_identity \<Rightarrow> bool" where
  "release_ok url r \<longleftrightarrow> test BARE_SHA256 (rel_artifactSha256 r) \<and> url (rel_controlPlaneOrigin r) \<and> test KEY_ID (rel_keyId r)
     \<and> test TOKEN (rel_publicKey r) \<and> test GATEWAY_RELEASE (rel_release r)"

definition attempt_ok :: "teardown_attempt \<Rightarrow> bool" where
  "attempt_ok a \<longleftrightarrow> test ATTEMPT_ID (ta_id a) \<and> test TOKEN (ta_stateHash a) \<and> test TOKEN (ta_verifierHash a)
     \<and> is_safe_integer (ta_issuedAt a) \<and> 0 \<le> ta_issuedAt a \<and> is_safe_integer (ta_expiresAt a) \<and> 0 \<le> ta_expiresAt a"

definition job_ok :: "(string \<Rightarrow> bool) \<Rightarrow> teardown_job \<Rightarrow> bool" where
  "job_ok url j \<longleftrightarrow> is_safe_integer (tj_revision j) \<and> 1 \<le> tj_revision j \<and> 1 \<le> length (tj_handoff j) \<and> length (tj_handoff j) \<le> 32 * 1024
     \<and> test HASH (tj_handoffSha256 j) \<and> release_ok url (tj_release j) \<and> test BARE_SHA256 (tj_retirementModuleSha256 j)
     \<and> is_safe_integer (tj_acceptedAt j) \<and> 0 \<le> tj_acceptedAt j \<and> is_safe_integer (tj_updatedAt j) \<and> 0 \<le> tj_updatedAt j
     \<and> pred_option attempt_ok (tj_attempt j) \<and> length (tj_verifiedSteps j) \<le> length GATEWAY_ROOT_REMOVAL_STEPS
     \<and> pred_option (test ATTEMPT_ID) (tj_pendingAttemptId j) \<and> pred_option (test TEARDOWN_REASON) (tj_failureReason j)"

lemma teardown_labels [simp]:
  "picklist release_channel_text [Canary_channel, Stable_channel] (JStr (release_channel_text c)) = Some c"
  by (cases c) (simp_all add: picklist_def)

lemma phase_label [simp]:
  "picklist teardown_phase_text [Review, Authorizing_teardown, Exchanging_teardown, Recovery_required, Removed, Removed_unconfirmed]
     (JStr (teardown_phase_text p)) = Some p"
  by (cases p) (simp_all add: picklist_def)

lemma revocation_label [simp]: "picklist revocation_text [Not_attempted, Confirmed, Unconfirmed] (JStr (revocation_text r)) = Some r"
  by (cases r) (simp_all add: picklist_def)

lemma policy_label [simp]:
  "picklist credential_policy_text [Request_memory_only, Operator_managed] (JStr (credential_policy_text p)) = Some p"
  by (cases p) (simp_all add: picklist_def)

lemma step_label [simp]: "parse_step (step_value s) = Some s"
  by (cases s) (simp_all add: parse_step_def step_value_def picklist_def GATEWAY_ROOT_REMOVAL_STEPS_def)

lemma text_such_JStr [simp]: "text_such P (JStr s) = (if P s then Some s else None)"
  by (simp add: text_such_def)

lemma parse_release_value: "parse_release url (release_value r) = (if release_ok url r then Some r else None)"
  by (cases r) (simp add: parse_release_def release_value_def release_ok_def schema_simps)

lemma parse_attempt_value: "parse_attempt (attempt_value a) = (if attempt_ok a then Some a else None)"
  by (cases a) (simp add: parse_attempt_def attempt_value_def attempt_ok_def schema_simps)

lemma parse_steps_value: "parse_steps (JArr (map step_value ss)) = (if length ss \<le> length GATEWAY_ROOT_REMOVAL_STEPS then Some ss else None)"
proof -
  have "those (map parse_step (map step_value ss)) = Some ss" by (induction ss) simp_all
  then show ?thesis by (simp add: parse_steps_def)
qed

lemma job_parts:
  "nullable parse_attempt (or_null attempt_value a) = (if pred_option attempt_ok a then Some a else None)"
  "nullable parse_step (or_null step_value s) = Some s"
  "nullable (matching p) (or_null JStr t) = (if pred_option (test p) t then Some t else None)"
proof -
  show "nullable parse_attempt (or_null attempt_value a) = (if pred_option attempt_ok a then Some a else None)"
    by (rule nullable_written, rule parse_attempt_value, simp add: attempt_value_def)
  show "nullable parse_step (or_null step_value s) = Some s"
    by (rule nullable_always, rule step_label, simp add: step_value_def)
qed (rule nullable_written; simp add: schema_simps)

lemma policy_field:
  "field (job_value j) ''credentialPolicy'' = (case tj_credentialPolicy j of None \<Rightarrow> Undef | Some p \<Rightarrow> JStr (credential_policy_text p))"
  by (simp add: job_value_def map_of_append split: option.split)

lemma parse_job_value: "parse_job url (job_value j) = (if job_ok url j then Some j else None)"
proof -
  have keys: "strict_object job_keys (job_value j) = Some ()"
    by (auto simp: job_value_def job_keys_def schema_simps split: option.split)
  have policy: "(if field (job_value j) ''credentialPolicy'' = Undef then Some None
       else map_option Some (picklist credential_policy_text [Request_memory_only, Operator_managed] (field (job_value j) ''credentialPolicy'')))
     = Some (tj_credentialPolicy j)"
    by (simp add: policy_field split: option.split)
  have other: "field (job_value j) k = field (JObj (take 15 (case job_value j of JObj kvs \<Rightarrow> kvs | _ \<Rightarrow> []))) k" if "k \<noteq> ''credentialPolicy''" for k
    using that by (simp add: job_value_def map_of_append split: option.split)
  show ?thesis
    unfolding parse_job_def keys policy
    by (cases j) (simp add: other job_value_def schema_simps job_parts parse_release_value parse_steps_value job_ok_def)
qed

definition job_valid :: "(string \<Rightarrow> bool) \<Rightarrow> teardown_job \<Rightarrow> bool" where
  "job_valid url j \<longleftrightarrow> job_ok url j \<and> \<not> job_conflicts j"

lemma parse_written_job [simp]: "parseGatewayTeardownJob url (job_value j) = Inr k \<longleftrightarrow> job_valid url j \<and> k = j"
  by (auto simp: parseGatewayTeardownJob_def parse_job_value job_valid_def)

section \<open>The machine\<close>

datatype teardown_operation =
    Authorize_teardown string string string int
  | Callback_teardown string string string int
  | Arm_removal string removal_step int
  | Verify_removal string removal_step int
  | Settle_teardown string revocation "string option" int
  | Retain_warning int

fun teardown_step :: "(string \<Rightarrow> bool) \<Rightarrow> teardown_operation \<Rightarrow> teardown_job \<Rightarrow> teardown_error + teardown_job" where
  "teardown_step url (Authorize_teardown i sh vh now) j = authorizeGatewayTeardownJob url j i sh vh now"
| "teardown_step url (Callback_teardown i sh vh now) j = consumeGatewayTeardownCallback url j i sh vh now"
| "teardown_step url (Arm_removal i s now) j = armGatewayRootRemoval url j i s now"
| "teardown_step url (Verify_removal i s now) j = verifyGatewayRootRemoval url j i s now"
| "teardown_step url (Settle_teardown i rv reason now) j = settleGatewayTeardownAttempt url j i rv reason now"
| "teardown_step url (Retain_warning now) j = retainGatewayTeardownRevocationWarning url j now"

primrec teardown_run :: "(string \<Rightarrow> bool) \<Rightarrow> teardown_operation list \<Rightarrow> teardown_job \<Rightarrow> teardown_error + teardown_job" where
  "teardown_run url [] j = Inr j"
| "teardown_run url (op # ops) j = andThen (teardown_step url op j) (teardown_run url ops)"

lemma teardown_run_append: "teardown_run url (ops @ ops') j = andThen (teardown_run url ops j) (teardown_run url ops')"
proof (induction ops arbitrary: j)
  case (Cons op ops)
  then show ?case by (cases "teardown_step url op j") simp_all
qed simp

text \<open>What every operation keeps, and the change of its own.\<close>

definition successor :: "(string \<Rightarrow> bool) \<Rightarrow> teardown_job \<Rightarrow> (teardown_job \<Rightarrow> teardown_job) \<Rightarrow> int \<Rightarrow> teardown_job \<Rightarrow> bool" where
  "successor url j change now k \<longleftrightarrow> job_valid url j \<and> job_valid url k \<and> is_safe_integer now \<and> tj_updatedAt j \<le> now
     \<and> k = (change j)\<lparr>tj_revision := tj_revision j + 1, tj_updatedAt := now\<rparr>"

lemma unless_Inr [simp]: "conflict_unless b = Inr u \<longleftrightarrow> b"
  by (simp add: conflict_unless_def)

lemma next_job_Inr [simp]: "next_job url j change now = Inr k \<longleftrightarrow> successor url j change now k"
  by (auto simp: next_job_def andThen_Inr successor_def)

lemma active_Inr [simp]: "active_attempt j i now = Inr u \<longleftrightarrow>
    tj_phase j = Exchanging_teardown \<and> (\<exists>a. tj_attempt j = Some a \<and> ta_id a = i \<and> now < ta_expiresAt a)"
  by (auto simp: active_attempt_def split: option.splits)

lemma authorize_step:
  "teardown_step url (Authorize_teardown i sh vh now) j = Inr k \<longleftrightarrow>
     \<not> removed_phase (tj_phase j) \<and> (case tj_attempt j of None \<Rightarrow> True | Some a \<Rightarrow> ta_expiresAt a \<le> now \<and> ta_id a \<noteq> i)
     \<and> tj_pendingAttemptId j \<noteq> Some i
     \<and> successor url j (\<lambda>j. j\<lparr>tj_phase := Authorizing_teardown, tj_failureReason := None,
         tj_revocation := (if tj_revocation j = Unconfirmed \<or> tj_phase j = Exchanging_teardown then Unconfirmed else Not_attempted),
         tj_attempt := Some \<lparr>ta_id = i, ta_stateHash = sh, ta_verifierHash = vh, ta_issuedAt = now, ta_expiresAt = now + ATTEMPT_TTL_MS\<rparr>\<rparr>) now k"
  by (auto simp: authorizeGatewayTeardownJob_def andThen_Inr Let_def successor_def split: option.splits)

lemma callback_teardown_step:
  "teardown_step url (Callback_teardown i sh vh now) j = Inr k \<longleftrightarrow> tj_phase j = Authorizing_teardown
     \<and> (\<exists>a. tj_attempt j = Some a \<and> ta_id a = i \<and> ta_stateHash a = sh \<and> ta_verifierHash a = vh \<and> now < ta_expiresAt a)
     \<and> successor url j (\<lambda>j. j\<lparr>tj_phase := Exchanging_teardown\<rparr>) now k"
  by (auto simp: consumeGatewayTeardownCallback_def andThen_Inr split: option.splits)

lemma arm_step:
  "teardown_step url (Arm_removal i s now) j = Inr k \<longleftrightarrow> active_attempt j i now = Inr ()
     \<and> (tj_pendingStep j = None \<or> tj_pendingAttemptId j \<noteq> Some i)
     \<and> at_index GATEWAY_ROOT_REMOVAL_STEPS (length (tj_verifiedSteps j)) = Some s
     \<and> successor url j (\<lambda>j. j\<lparr>tj_pendingStep := Some s, tj_pendingAttemptId := Some i\<rparr>) now k"
  by (auto simp: armGatewayRootRemoval_def andThen_Inr)

lemma verify_step:
  "teardown_step url (Verify_removal i s now) j = Inr k \<longleftrightarrow> active_attempt j i now = Inr () \<and> tj_pendingStep j = Some s
     \<and> successor url j (\<lambda>j. j\<lparr>tj_verifiedSteps := tj_verifiedSteps j @ [s], tj_pendingStep := None, tj_pendingAttemptId := None\<rparr>) now k"
  by (auto simp: verifyGatewayRootRemoval_def andThen_Inr)

definition complete_job :: "teardown_job \<Rightarrow> bool" where
  "complete_job j \<longleftrightarrow> tj_phase j = Exchanging_teardown \<and> tj_pendingStep j = None
     \<and> length (tj_verifiedSteps j) = length GATEWAY_ROOT_REMOVAL_STEPS"

lemma settle_step:
  "teardown_step url (Settle_teardown i rv reason now) j = Inr k \<longleftrightarrow> map_option ta_id (tj_attempt j) = Some i
     \<and> (rv = Not_attempted \<longleftrightarrow> gatewayTeardownCredentialPolicy j = Operator_managed)
     \<and> successor url j (\<lambda>j. j\<lparr>tj_phase := (if complete_job j
           then if (if tj_revocation j = Unconfirmed then Unconfirmed else rv) = removedRevocation j then Removed else Removed_unconfirmed
           else Recovery_required),
         tj_attempt := None, tj_revocation := (if tj_revocation j = Unconfirmed then Unconfirmed else rv),
         tj_failureReason := (if complete_job j then None else reason)\<rparr>) now k"
  unfolding complete_job_def by (auto simp: settleGatewayTeardownAttempt_def andThen_Inr Let_def successor_def)

lemma retain_step:
  "teardown_step url (Retain_warning now) j = Inr k \<longleftrightarrow> \<not> removed_phase (tj_phase j)
     \<and> successor url j (\<lambda>j. j\<lparr>tj_revocation := Unconfirmed\<rparr>) now k"
  by (auto simp: retainGatewayTeardownRevocationWarning_def andThen_Inr)

lemmas teardown_steps = authorize_step callback_teardown_step arm_step verify_step settle_step retain_step

declare teardown_step.simps [simp del]

text \<open>What no operation changes.\<close>

lemma step_keeps:
  assumes "teardown_step url op j = Inr k"
  shows "job_valid url j" "job_valid url k" "tj_revision k = tj_revision j + 1" "tj_handoff k = tj_handoff j"
    "tj_handoffSha256 k = tj_handoffSha256 j" "tj_release k = tj_release j"
    "tj_retirementModuleSha256 k = tj_retirementModuleSha256 j" "tj_acceptedAt k = tj_acceptedAt j"
    "tj_updatedAt j \<le> tj_updatedAt k" "tj_credentialPolicy k = tj_credentialPolicy j"
  using assms by (cases op; simp add: teardown_steps successor_def)+

text \<open>
  The removal keeps its order, and ends clean only when every grant was revoked.
\<close>

section \<open>Order\<close>

text \<open>Every removal is verified only after it was armed, and one at a time.\<close>

fun armed_first :: "removal_step option \<Rightarrow> teardown_operation list \<Rightarrow> bool" where
  "armed_first p [] = True"
| "armed_first p (Arm_removal i s now # ops) = armed_first (Some s) ops"
| "armed_first p (Verify_removal i s now # ops) = (p = Some s \<and> armed_first None ops)"
| "armed_first p (op # ops) = armed_first p ops"

fun removals :: "teardown_operation list \<Rightarrow> removal_step list" where
  "removals [] = []"
| "removals (Verify_removal i s now # ops) = s # removals ops"
| "removals (op # ops) = removals ops"

lemma run_removals: "teardown_run url ops j = Inr k \<Longrightarrow>
    armed_first (tj_pendingStep j) ops \<and> tj_verifiedSteps k = tj_verifiedSteps j @ removals ops"
proof (induction ops arbitrary: j)
  case (Cons op ops)
  then obtain m where m: "teardown_step url op j = Inr m" "teardown_run url ops m = Inr k" by (auto simp: andThen_Inr)
  show ?case using m(1) Cons.IH [OF m(2)] by (cases op) (auto simp: teardown_steps successor_def)
qed simp

lemma valid_prefix: "job_valid url j \<Longrightarrow> tj_verifiedSteps j = take (length (tj_verifiedSteps j)) GATEWAY_ROOT_REMOVAL_STEPS"
proof -
  assume "job_valid url j"
  then have e: "at_index GATEWAY_ROOT_REMOVAL_STEPS i = Some (tj_verifiedSteps j ! i)" if "i < length (tj_verifiedSteps j)" for i
    using that by (force simp: job_valid_def job_conflicts_def list_ex_length)
  show ?thesis
  proof (rule nth_equalityI)
    have "length (tj_verifiedSteps j) \<le> length GATEWAY_ROOT_REMOVAL_STEPS" using \<open>job_valid url j\<close> by (simp add: job_valid_def job_ok_def)
    then show "length (tj_verifiedSteps j) = length (take (length (tj_verifiedSteps j)) GATEWAY_ROOT_REMOVAL_STEPS)" by simp
    show "tj_verifiedSteps j ! i = take (length (tj_verifiedSteps j)) GATEWAY_ROOT_REMOVAL_STEPS ! i" if "i < length (tj_verifiedSteps j)" for i
      using e [OF that] that by (auto simp: at_index_def split: if_splits)
  qed
qed

lemma run_valid: "teardown_run url ops j = Inr k \<Longrightarrow> job_valid url j \<Longrightarrow> job_valid url k"
  by (induction ops arbitrary: j) (auto simp: andThen_Inr dest: step_keeps(2))

lemma created:
  assumes "createGatewayTeardownJob url handoff verified release retirement now policy = Inr j"
  shows "job_valid url j" "tj_revision j = 1" "tj_phase j = Review" "tj_verifiedSteps j = []" "tj_pendingStep j = None" "tj_attempt j = None"
    "tj_revocation j = (if snd verified then Unconfirmed else Not_attempted)" "tj_credentialPolicy j = policy"
  using assms by (auto simp: createGatewayTeardownJob_def)

text \<open>
  C18. The removal keeps its order, over all attempts and however they end: in every sequence of operations on a new job, what was
  verified is an initial part of the fixed order, each resource was armed before it was verified absent and no other was
  armed in between, and a job that counts as removed has verified all five.
\<close>

theorem teardown_removes_in_order:
  "case createGatewayTeardownJob url handoff verified release retirement now policy of Inl e \<Rightarrow> True | Inr j \<Rightarrow>
     (case teardown_run url ops j of Inl e \<Rightarrow> True | Inr k \<Rightarrow>
       armed_first None ops \<and> tj_verifiedSteps k = removals ops
       \<and> (\<exists>n. removals ops = take n GATEWAY_ROOT_REMOVAL_STEPS)
       \<and> (removals ops = GATEWAY_ROOT_REMOVAL_STEPS \<or> tj_phase k \<in> {Review, Authorizing_teardown, Exchanging_teardown, Recovery_required}))"
proof (cases "createGatewayTeardownJob url handoff verified release retirement now policy")
  case j: (Inr j)
  note c = created [OF j]
  show ?thesis
  proof (cases "teardown_run url ops j")
    case k: (Inr k)
    have v: "job_valid url k" using run_valid [OF k c(1)] .
    have r: "armed_first None ops" "tj_verifiedSteps k = removals ops" using run_removals [OF k] c by auto
    have p: "removals ops = take (length (removals ops)) GATEWAY_ROOT_REMOVAL_STEPS" using valid_prefix [OF v] r(2) by simp
    have "removals ops = GATEWAY_ROOT_REMOVAL_STEPS \<or> \<not> removed_phase (tj_phase k)"
      using v p r(2) by (auto simp: job_valid_def job_conflicts_def)
    then have "removals ops = GATEWAY_ROOT_REMOVAL_STEPS \<or> tj_phase k \<in> {Review, Authorizing_teardown, Exchanging_teardown, Recovery_required}"
      by (cases "tj_phase k") (auto simp: removed_phase_def)
    then show ?thesis using r p by (simp add: j k) blast
  qed (simp add: j)
qed simp

section \<open>Revocation\<close>

text \<open>Every grant that was exchanged is confirmed to be revoked before another is asked for.\<close>

fun grants_revoked :: "bool \<Rightarrow> teardown_operation list \<Rightarrow> bool" where
  "grants_revoked held [] = (\<not> held)"
| "grants_revoked held (Callback_teardown i sh vh now # ops) = grants_revoked True ops"
| "grants_revoked held (Settle_teardown i rv reason now # ops) = ((\<not> held \<or> rv = Confirmed) \<and> grants_revoked False ops)"
| "grants_revoked held (Authorize_teardown i sh vh now # ops) = (\<not> held \<and> grants_revoked False ops)"
| "grants_revoked held (op # ops) = grants_revoked held ops"

lemma warning_stays: "teardown_step url op j = Inr k \<Longrightarrow> tj_revocation j = Unconfirmed \<Longrightarrow> tj_revocation k = Unconfirmed"
  by (cases op) (auto simp: teardown_steps successor_def)

lemma settled_confirmed:
  assumes "teardown_step url (Settle_teardown i rv reason now) j = Inr k" "gatewayTeardownCredentialPolicy j = Request_memory_only"
    "tj_revocation k \<noteq> Unconfirmed"
  shows "rv = Confirmed" "tj_phase k \<noteq> Exchanging_teardown"
  using assms by (cases rv; auto simp: settle_step successor_def split: if_splits)+

lemma run_policy: "teardown_run url ops j = Inr k \<Longrightarrow> tj_credentialPolicy k = tj_credentialPolicy j"
  by (induction ops arbitrary: j) (auto simp: andThen_Inr dest: step_keeps(10))

lemma run_revoked:
  "teardown_run url ops j = Inr k \<Longrightarrow> tj_revocation k \<noteq> Unconfirmed \<Longrightarrow> tj_phase k \<noteq> Exchanging_teardown
    \<Longrightarrow> gatewayTeardownCredentialPolicy j = Request_memory_only
    \<Longrightarrow> tj_revocation j \<noteq> Unconfirmed \<and> grants_revoked (tj_phase j = Exchanging_teardown) ops"
proof (induction ops arbitrary: j)
  case (Cons op ops)
  then obtain m where m: "teardown_step url op j = Inr m" "teardown_run url ops m = Inr k" by (auto simp: andThen_Inr)
  have "gatewayTeardownCredentialPolicy m = Request_memory_only"
    using step_keeps(10) [OF m(1)] Cons.prems(4) by (simp add: gatewayTeardownCredentialPolicy_def)
  then have ih: "tj_revocation m \<noteq> Unconfirmed" "grants_revoked (tj_phase m = Exchanging_teardown) ops"
    using Cons.IH [OF m(2)] Cons.prems by auto
  then have "tj_revocation j \<noteq> Unconfirmed" using warning_stays [OF m(1)] by blast
  then show ?case
  proof (cases op)
    case (Settle_teardown i rv reason now)
    then show ?thesis using settled_confirmed [OF m(1) [unfolded Settle_teardown] Cons.prems(4) ih(1)] ih \<open>tj_revocation j \<noteq> Unconfirmed\<close>
      by simp
  qed (use m(1) ih in \<open>auto simp: teardown_steps successor_def split: if_splits\<close>)
qed simp

text \<open>Whether a revocation is left unconfirmed: by its own outcome, by a grant given up for another, or by a warning that is retained.\<close>

fun revocation_lost :: "bool \<Rightarrow> teardown_operation list \<Rightarrow> bool" where
  "revocation_lost held [] = False"
| "revocation_lost held (Callback_teardown i sh vh now # ops) = revocation_lost True ops"
| "revocation_lost held (Settle_teardown i rv reason now # ops) = (rv = Unconfirmed \<or> revocation_lost False ops)"
| "revocation_lost held (Authorize_teardown i sh vh now # ops) = (held \<or> revocation_lost False ops)"
| "revocation_lost held (Retain_warning now # ops) = True"
| "revocation_lost held (op # ops) = revocation_lost held ops"

text \<open>Whether a grant is held at the end.\<close>

fun grant_held :: "bool \<Rightarrow> teardown_operation list \<Rightarrow> bool" where
  "grant_held held [] = held"
| "grant_held held (Callback_teardown i sh vh now # ops) = grant_held True ops"
| "grant_held held (Settle_teardown i rv reason now # ops) = grant_held False ops"
| "grant_held held (Authorize_teardown i sh vh now # ops) = grant_held False ops"
| "grant_held held (op # ops) = grant_held held ops"

text \<open>The last operation settles the attempt that held a grant when all five resources were verified absent.\<close>

definition settles_removal :: "teardown_operation list \<Rightarrow> bool" where
  "settles_removal ops \<longleftrightarrow> (case rev ops of
     Settle_teardown i rv reason now # before \<Rightarrow> grant_held False (rev before) \<and> removals ops = GATEWAY_ROOT_REMOVAL_STEPS
   | _ \<Rightarrow> False)"

lemma run_lost:
  "teardown_run url ops j = Inr k \<Longrightarrow>
    (tj_revocation k = Unconfirmed \<longleftrightarrow> tj_revocation j = Unconfirmed \<or> revocation_lost (tj_phase j = Exchanging_teardown) ops)
    \<and> (tj_phase k = Exchanging_teardown \<longleftrightarrow> grant_held (tj_phase j = Exchanging_teardown) ops)"
proof (induction ops arbitrary: j)
  case (Cons op ops)
  then obtain m where m: "teardown_step url op j = Inr m" "teardown_run url ops m = Inr k" by (auto simp: andThen_Inr)
  show ?case using m(1) Cons.IH [OF m(2)] by (cases op) (auto simp: teardown_steps successor_def split: if_splits)
qed simp

lemma step_into_removed:
  assumes "teardown_step url op j = Inr k"
  shows "removed_phase (tj_phase k) \<longleftrightarrow> (case op of Settle_teardown i rv reason now \<Rightarrow> complete_job j | _ \<Rightarrow> False)"
  using assms by (cases op) (auto simp: teardown_steps successor_def removed_phase_def)

lemma removals_append: "removals (ops @ ops') = removals ops @ removals ops'"
  by (induction ops rule: removals.induct) simp_all

lemma valid_length: "job_valid url j \<Longrightarrow> length (tj_verifiedSteps j) = length GATEWAY_ROOT_REMOVAL_STEPS
    \<Longrightarrow> tj_verifiedSteps j = GATEWAY_ROOT_REMOVAL_STEPS \<and> tj_pendingStep j = None"
  using valid_prefix [of url j] by (auto simp: job_valid_def job_conflicts_def at_index_def)

lemma run_settles:
  assumes "teardown_run url ops j = Inr k" "job_valid url j" "tj_phase j = Review" "tj_verifiedSteps j = []"
  shows "removed_phase (tj_phase k) \<longleftrightarrow> settles_removal ops"
proof (cases ops rule: rev_cases)
  case Nil
  then show ?thesis using assms by (simp add: settles_removal_def removed_phase_def)
next
  case (snoc before op)
  obtain m where m: "teardown_run url before j = Inr m" "teardown_step url op m = Inr k"
    using assms(1) by (auto simp: snoc teardown_run_append andThen_Inr)
  have v: "job_valid url m" using run_valid [OF m(1) assms(2)] .
  have r: "tj_verifiedSteps m = removals before" "tj_phase m = Exchanging_teardown \<longleftrightarrow> grant_held False before"
    using run_removals [OF m(1)] run_lost [OF m(1)] assms by auto
  have "complete_job m \<longleftrightarrow> grant_held False before \<and> removals before = GATEWAY_ROOT_REMOVAL_STEPS"
    using valid_length [OF v] r by (auto simp: complete_job_def)
  then show ?thesis using step_into_removed [OF m(2)]
    by (cases op) (simp_all add: snoc settles_removal_def removals_append)
qed

text \<open>
  C17. A hosted job ends as \<^verbatim>\<open>removed\<close> only when nothing it was granted is left: no revocation before it was unconfirmed, and every grant
  it exchanged a code for was confirmed to be revoked before the next one was asked for and at the end. It ends exactly when the attempt that
  holds a grant is settled with all five resources verified absent, and it then ends as \<^verbatim>\<open>removed_revocation_unconfirmed\<close> instead exactly
  when a revocation is unconfirmed: the one it was created with, one settled as unconfirmed, one of a grant given up for another consent, or
  one of which the warning was retained.
\<close>

theorem teardown_removed_means_revoked:
  "case createGatewayTeardownJob url handoff verified release retirement now None of Inl e \<Rightarrow> True | Inr j \<Rightarrow>
     (case teardown_run url ops j of Inl e \<Rightarrow> True | Inr k \<Rightarrow>
       (if tj_phase k = Removed then \<not> snd verified \<and> grants_revoked False ops \<and> tj_revocation k = Confirmed else True)
       \<and> (if settles_removal ops
          then tj_phase k = (if snd verified \<or> revocation_lost False ops then Removed_unconfirmed else Removed)
          else tj_phase k \<in> {Review, Authorizing_teardown, Exchanging_teardown, Recovery_required}))"
proof (cases "createGatewayTeardownJob url handoff verified release retirement now None")
  case j: (Inr j)
  note c = created [OF j]
  show ?thesis
  proof (cases "teardown_run url ops j")
    case k: (Inr k)
    have v: "job_valid url k" using run_valid [OF k c(1)] .
    have policy: "gatewayTeardownCredentialPolicy j = Request_memory_only" "tj_credentialPolicy k = tj_credentialPolicy j"
      using c(8) run_policy [OF k] by (simp_all add: gatewayTeardownCredentialPolicy_def)
    have confirmed: "tj_revocation k = Confirmed" if r: "tj_phase k = Removed"
      using v r policy c(8) by (auto simp: job_valid_def job_conflicts_def removed_phase_def removedRevocation_def gatewayTeardownCredentialPolicy_def)
    have "\<not> snd verified \<and> grants_revoked False ops \<and> tj_revocation k = Confirmed" if r: "tj_phase k = Removed"
      using run_revoked [OF k] confirmed [OF r] r policy(1) c by (auto split: if_splits)
    moreover have "removed_phase (tj_phase k) \<longleftrightarrow> settles_removal ops" using run_settles [OF k] c by simp
    moreover have "tj_revocation k = Unconfirmed \<longleftrightarrow> snd verified \<or> revocation_lost False ops" using run_lost [OF k] c by simp
    moreover have "tj_revocation k = Unconfirmed" if "tj_phase k = Removed_unconfirmed"
      using v that by (auto simp: job_valid_def job_conflicts_def removed_phase_def)
    ultimately show ?thesis using confirmed by (cases "tj_phase k") (auto simp: j k removed_phase_def)
  qed (simp add: j)
qed simp

end
