(* ===== verification/Stage2_Properties.thy ===== *)
theory Stage2_Properties
  imports Stage2_Journal Teardown_Properties
begin

text \<open>What the schema of the journal accepts and what it keeps of a journal that is written; the protocol the operations keep to;
  and what this means for every run: the order of the actions and the lease as a lock.\<close>

section \<open>JSON values\<close>

fun jsonic :: "jval \<Rightarrow> bool"
  and jsonic_items :: "jval list \<Rightarrow> bool"
  and jsonic_entries :: "(string \<times> jval) list \<Rightarrow> bool" where
  "jsonic (JArr xs) = jsonic_items xs"
| "jsonic (JObj kvs) = jsonic_entries kvs"
| "jsonic Undef = False"
| "jsonic JNull = True"
| "jsonic (JBool b) = True"
| "jsonic (JNum n) = True"
| "jsonic (JStr s) = True"
| "jsonic_items [] = True"
| "jsonic_items (x # xs) = (jsonic x \<and> jsonic_items xs)"
| "jsonic_entries [] = True"
| "jsonic_entries ((k, v) # kvs) = (k \<notin> set RESERVED \<and> jsonic v \<and> jsonic_entries kvs)"

lemma json_value_jsonic:
  "json_value v = Some w \<Longrightarrow> jsonic w"
  "json_items xs = Some ys \<Longrightarrow> jsonic_items ys"
  "json_entries kvs = Some es \<Longrightarrow> jsonic_entries es"
  by (induction v and xs and kvs arbitrary: w and ys and es rule: json_value_json_items_json_entries.induct)
     (auto split: option.splits if_splits)

lemma jsonic_fixed:
  "jsonic v \<Longrightarrow> json_value v = Some v"
  "jsonic_items xs \<Longrightarrow> json_items xs = Some xs"
  "jsonic_entries kvs \<Longrightarrow> json_entries kvs = Some kvs"
  by (induction v and xs and kvs rule: jsonic_jsonic_items_jsonic_entries.induct) auto

lemma boundary_jsonic:
  "jsonic v \<Longrightarrow> boundary_value v = v"
  "jsonic_items xs \<Longrightarrow> boundary_items xs = xs"
  "jsonic_entries kvs \<Longrightarrow> boundary_entries kvs = kvs"
  by (induction v and xs and kvs rule: jsonic_jsonic_items_jsonic_entries.induct) auto

lemma jsonic_lists:
  "jsonic_items xs \<longleftrightarrow> list_all jsonic xs"
  "jsonic_entries kvs \<longleftrightarrow> list_all (\<lambda>(k, v). k \<notin> set RESERVED \<and> jsonic v) kvs"
proof -
  show "jsonic_items xs \<longleftrightarrow> list_all jsonic xs" by (induction xs) simp_all
  show "jsonic_entries kvs \<longleftrightarrow> list_all (\<lambda>(k, v). k \<notin> set RESERVED \<and> jsonic v) kvs" by (induction kvs) auto
qed

lemma jsonic_sort_keys:
  "jsonic v \<Longrightarrow> jsonic (sort_keys v)"
  "jsonic_items xs \<Longrightarrow> jsonic_items (sort_keys_items xs)"
  "jsonic_entries kvs \<Longrightarrow> jsonic_entries (sort_keys_entries kvs)"
  by (induction v and xs and kvs rule: jsonic_jsonic_items_jsonic_entries.induct)
     (auto simp: jsonic_lists(2) list_all_iff)

lemma jsonic_or_null [simp]: "jsonic (or_null f x) \<longleftrightarrow> pred_option (\<lambda>a. jsonic (f a)) x"
  by (cases x) (simp_all add: or_null_def)

section \<open>Secrets\<close>

text \<open>The keys of a value, at every depth.\<close>

fun deep_keys :: "jval \<Rightarrow> string set"
  and deep_items :: "jval list \<Rightarrow> string set"
  and deep_entries :: "(string \<times> jval) list \<Rightarrow> string set" where
  "deep_keys (JArr xs) = deep_items xs"
| "deep_keys (JObj kvs) = deep_entries kvs"
| "deep_keys v = {}"
| "deep_items [] = {}"
| "deep_items (x # xs) = deep_keys x \<union> deep_items xs"
| "deep_entries [] = {}"
| "deep_entries ((k, v) # kvs) = {k} \<union> deep_keys v \<union> deep_entries kvs"

lemma forbidden_None:
  "findForbiddenStoredKeyPath v p = None \<longleftrightarrow> deep_keys v \<subseteq> {k. \<not> forbiddenStoredKey k}"
  "forbidden_in_items xs i p = None \<longleftrightarrow> deep_items xs \<subseteq> {k. \<not> forbiddenStoredKey k}"
  "forbidden_in_entries kvs p = None \<longleftrightarrow> deep_entries kvs \<subseteq> {k. \<not> forbiddenStoredKey k}"
  by (induction v p and xs i p and kvs p rule: findForbiddenStoredKeyPath_forbidden_in_items_forbidden_in_entries.induct)
     (auto simp: Let_def split: option.splits)

lemma secret_free: "jsonic v \<Longrightarrow> assertSecretFree v \<longleftrightarrow> deep_keys v \<subseteq> {k. \<not> forbiddenStoredKey k}"
  by (simp add: assertSecretFree_def forbiddenStoredKeyPath_def boundary_jsonic forbidden_None)

lemma deep_lists: "deep_items xs = \<Union> (deep_keys ` set xs)" "deep_entries kvs = (\<Union>(k, v) \<in> set kvs. {k} \<union> deep_keys v)"
proof -
  show "deep_items xs = \<Union> (deep_keys ` set xs)" by (induction xs) simp_all
  show "deep_entries kvs = (\<Union>(k, v) \<in> set kvs. {k} \<union> deep_keys v)" by (induction kvs) auto
qed

lemma deep_sort_keys:
  "deep_keys (sort_keys v) = deep_keys v"
  "deep_items (sort_keys_items xs) = deep_items xs"
  "deep_entries (sort_keys_entries kvs) = deep_entries kvs"
  by (induction v and xs and kvs rule: sort_keys_sort_keys_items_sort_keys_entries.induct)
     (auto simp: deep_lists(2))


section \<open>The schema\<close>

definition time_ok :: "int \<Rightarrow> bool" where
  "time_ok t \<longleftrightarrow> is_safe_integer t \<and> 0 \<le> t"

definition identity_ok :: "stage2_identity \<Rightarrow> bool" where
  "identity_ok i \<longleftrightarrow> parse_identity (identity_value i) = Some i"

definition organization_ok :: "(string \<Rightarrow> bool) \<Rightarrow> stage2_organization \<Rightarrow> bool" where
  "organization_ok url g \<longleftrightarrow> parse_organization url (organization_value g) = Some g"

definition lease_ok :: "stage2_lease \<Rightarrow> bool" where
  "lease_ok l \<longleftrightarrow> test ATTEMPT_ID (ls_attemptId l) \<and> time_ok (ls_acquiredAt l) \<and> time_ok (ls_expiresAt l)"

definition action_ok :: "stage2_action \<Rightarrow> bool" where
  "action_ok a \<longleftrightarrow> json_entries (ac_record a) \<noteq> None \<and> json_value (ac_locator a) \<noteq> None \<and> time_ok (ac_preparedAt a)
     \<and> pred_option time_ok (ac_sendArmedAt a) \<and> pred_option time_ok (ac_submittedAt a) \<and> pred_option time_ok (ac_verifiedAt a)"

text \<open>An action as the schema reads it: its values without the reserved keys.\<close>

definition clean_action :: "stage2_action \<Rightarrow> stage2_action" where
  "clean_action a = a\<lparr>ac_record := the (json_entries (ac_record a)), ac_locator := the (json_value (ac_locator a))\<rparr>"

definition preflight_ok :: "stage2_preflight \<Rightarrow> bool" where
  "preflight_ok p \<longleftrightarrow> test HASH (pf_attestationHash p) \<and> time_ok (pf_checkedAt p) \<and> time_ok (pf_expiresAt p)"

definition cleanup_ok :: "stage2_cleanup \<Rightarrow> bool" where
  "cleanup_ok c \<longleftrightarrow> pred_option (test FAILURE_REASON) (cu_reason c)"

definition journal_ok :: "(string \<Rightarrow> bool) \<Rightarrow> stage2_journal \<Rightarrow> bool" where
  "journal_ok url j \<longleftrightarrow> is_safe_integer (st_revision j) \<and> 1 \<le> st_revision j \<and> time_ok (st_createdAt j) \<and> time_ok (st_updatedAt j)
     \<and> identity_ok (st_identity j) \<and> organization_ok url (st_organization j)
     \<and> list_all (test SAFE_ID) (st_identityProviderIds j) \<and> st_identityProviderIds j \<noteq> []
     \<and> test HOST_LABEL (st_workersSubdomain j) \<and> preflight_ok (st_preflight j) \<and> pred_option lease_ok (st_lease j)
     \<and> list_all action_ok (st_actions j) \<and> length (st_actions j) \<le> length CUSTOMER_STAGE2_ACTION_ORDER
     \<and> pred_option time_ok (st_completedAt j) \<and> pred_option cleanup_ok (st_cleanup j)"

definition clean :: "stage2_journal \<Rightarrow> stage2_journal" where
  "clean j = j\<lparr>st_actions := map clean_action (st_actions j)\<rparr>"

lemma name_label [simp]: "picklist stage2_name_text CUSTOMER_STAGE2_ACTION_ORDER (JStr (stage2_name_text n)) = Some n"
  by (cases n) (simp_all add: picklist_def CUSTOMER_STAGE2_ACTION_ORDER_def)

lemma stage2_phase_label [simp]: "picklist stage2_phase_text [Prepared, Send_armed, Submitted, Verified] (JStr (stage2_phase_text p)) = Some p"
  by (cases p) (simp_all add: picklist_def)

lemma cleanup_phase_label [simp]:
  "picklist cleanup_phase_text [Cleanup_removing, Cleanup_removed, Cleanup_recovery_required] (JStr (cleanup_phase_text p)) = Some p"
  by (cases p) (simp_all add: picklist_def)

lemma parse_identity_value: "parse_identity (identity_value i) = (if identity_ok i then Some i else None)"
proof -
  have "parse_identity (identity_value i) = Some k \<Longrightarrow> k = i" for k
    by (cases i) (simp add: parse_identity_def identity_value_def schema_simps split: if_splits)
  then show ?thesis by (cases "parse_identity (identity_value i)") (auto simp: identity_ok_def)
qed

lemma parse_organization_value: "parse_organization url (organization_value g) = (if organization_ok url g then Some g else None)"
proof -
  have "parse_organization url (organization_value g) = Some k \<Longrightarrow> k = g" for k
    by (cases g) (simp add: parse_organization_def organization_value_def schema_simps split: if_splits)
  then show ?thesis by (cases "parse_organization url (organization_value g)") (auto simp: organization_ok_def)
qed

lemma parse_lease_value: "parse_lease (lease_value l) = (if lease_ok l then Some l else None)"
  by (cases l) (simp add: parse_lease_def lease_value_def lease_ok_def time_ok_def schema_simps)

lemma parse_preflight_value: "parse_preflight (preflight_value p) = (if preflight_ok p then Some p else None)"
  by (cases p) (simp add: parse_preflight_def preflight_value_def preflight_ok_def time_ok_def schema_simps)

lemma stage2_parts:
  "nullable parse_lease (or_null lease_value l) = (if pred_option lease_ok l then Some l else None)"
  "nullable (int_from 0) (or_null jint t) = (if pred_option time_ok t then Some t else None)"
  "nullable (matching p) (or_null JStr x) = (if pred_option (test p) x then Some x else None)"
proof -
  show "nullable parse_lease (or_null lease_value l) = (if pred_option lease_ok l then Some l else None)"
    by (rule nullable_written, rule parse_lease_value, simp add: lease_value_def)
  show "nullable (int_from 0) (or_null jint t) = (if pred_option time_ok t then Some t else None)"
    by (rule nullable_written) (simp_all add: schema_simps time_ok_def)
  show "nullable (matching p) (or_null JStr x) = (if pred_option (test p) x then Some x else None)"
    by (rule nullable_written) (simp_all add: schema_simps)
qed

lemma parse_cleanup_record_value: "parse_cleanup_record (cleanup_record_value c) = (if cleanup_ok c then Some c else None)"
  by (cases c) (simp add: parse_cleanup_record_def cleanup_record_value_def cleanup_ok_def schema_simps stage2_parts)

lemma cleanup_part: "null_default parse_cleanup_record (or_null cleanup_record_value c) = (if pred_option cleanup_ok c then Some c else None)"
  by (rule null_default_written, rule parse_cleanup_record_value) (simp_all add: cleanup_record_value_def)

lemma parse_action_value: "parse_action (action_value a) = (if action_ok a then Some (clean_action a) else None)"
  by (cases a; cases "json_entries (ac_record a)"; cases "json_value (ac_locator a)")
     (simp_all add: parse_action_def action_value_def action_ok_def clean_action_def time_ok_def [symmetric] schema_simps stage2_parts
      json_record_def)

lemma parse_list_written:
  assumes "\<And>x. x \<in> set xs \<Longrightarrow> f (put_as x) = (if ok x then Some (g x) else None)"
  shows "parse_list f len (JArr (map put_as xs)) = (if list_all ok xs \<and> len (length xs) then Some (map g xs) else None)"
proof -
  have "those (map f (map put_as xs)) = (if list_all ok xs then Some (map g xs) else None)" using assms by (induction xs) auto
  then show ?thesis by (simp add: parse_list_def)
qed

lemma parse_journal_value: "parse_journal url (journal_value j) = (if journal_ok url j then Some (clean j) else None)"
proof -
  have ids: "parse_list (matching SAFE_ID) len (JArr (map JStr xs)) = (if list_all (test SAFE_ID) xs \<and> len (length xs) then Some xs else None)" for len xs
    using parse_list_written [of xs "matching SAFE_ID" JStr "test SAFE_ID" id] by (simp add: schema_simps)
  have actions: "parse_list parse_action len (JArr (map action_value xs)) =
      (if list_all action_ok xs \<and> len (length xs) then Some (map clean_action xs) else None)" for len xs
    by (rule parse_list_written) (rule parse_action_value)
  show ?thesis
    by (cases j) (auto simp: parse_journal_def journal_value_def journal_keys_def schema_simps parse_identity_value parse_organization_value
        parse_preflight_value ids actions stage2_parts cleanup_part journal_ok_def clean_def Suc_le_eq time_ok_def)
qed


section \<open>Valid journals\<close>

definition jsonic_action :: "stage2_action \<Rightarrow> bool" where
  "jsonic_action a \<longleftrightarrow> jsonic_entries (ac_record a) \<and> jsonic (ac_locator a)"

definition journal_valid :: "(string \<Rightarrow> bool) \<Rightarrow> stage2_journal \<Rightarrow> bool" where
  "journal_valid url j \<longleftrightarrow> journal_ok url j \<and> journal_accepted j \<and> list_all jsonic_action (st_actions j)"

lemma clean_same: "list_all jsonic_action (st_actions j) \<Longrightarrow> clean j = j"
proof -
  have one: "jsonic_action a \<Longrightarrow> clean_action a = a" for a by (simp add: clean_action_def jsonic_action_def jsonic_fixed)
  then have "list_all jsonic_action xs \<Longrightarrow> map clean_action xs = xs" for xs by (induction xs) auto
  then show "list_all jsonic_action (st_actions j) \<Longrightarrow> ?thesis" by (simp add: clean_def)
qed

lemma clean_fields [simp]:
  "st_revision (clean j) = st_revision j" "st_updatedAt (clean j) = st_updatedAt j" "st_lease (clean j) = st_lease j"
  "st_completedAt (clean j) = st_completedAt j" "length (st_actions (clean j)) = length (st_actions j)" "st_cleanup (clean j) = st_cleanup j"
  "action_names (clean j) = action_names j" "map ac_phase (st_actions (clean j)) = map ac_phase (st_actions j)"
  by (simp_all add: clean_def action_names_def clean_action_def comp_def)

lemma required_Inr: "requireJournal url x = Inr y \<longleftrightarrow> journal_ok url x \<and> y = clean x \<and> journal_accepted y"
  by (auto simp: requireJournal_def parseCustomerStage2Journal_def parse_journal_value split: if_splits)

lemma require_valid: "requireJournal url x = Inr y \<Longrightarrow> journal_valid url y"
proof -
  assume r: "requireJournal url x = Inr y"
  have "action_ok a \<Longrightarrow> jsonic_action (clean_action a) \<and> action_ok (clean_action a)" for a
    using json_value_jsonic by (fastforce simp: action_ok_def jsonic_action_def clean_action_def jsonic_fixed)
  then have "list_all action_ok (st_actions x) \<Longrightarrow> list_all jsonic_action (st_actions (clean x)) \<and> list_all action_ok (st_actions (clean x))"
    by (simp add: clean_def list_all_iff)
  then show ?thesis using r by (auto simp: required_Inr journal_valid_def journal_ok_def clean_def)
qed

lemma require_same: "journal_valid url j \<Longrightarrow> requireJournal url j = Inr j"
  by (simp add: required_Inr journal_valid_def clean_same)

lemma valid_sequence:
  assumes "journal_valid url j"
  shows "action_names j = take (length (action_names j)) (customerStage2ActionSequence (action_names j))"
proof (rule nth_equalityI)
  let ?s = "customerStage2ActionSequence (action_names j)"
  have at: "at_index ?s i = Some (action_names j ! i)" if "i < length (action_names j)" for i
  proof -
    have "validateAction (st_actions j ! i) i (st_updatedAt j) ?s"
      using assms that by (simp add: journal_valid_def journal_accepted_def list_all_length action_names_def)
    then show ?thesis using that by (simp add: validateAction_def action_names_def)
  qed
  show "action_names j ! i = take (length (action_names j)) ?s ! i" if "i < length (action_names j)" for i
    using at [OF that] that by (simp add: at_index_def split: if_splits)
  show "length (action_names j) = length (take (length (action_names j)) ?s)"
  proof (cases "action_names j = []")
    case False
    then have "length (action_names j) - 1 < length ?s" using at [of "length (action_names j) - 1"] by (simp add: at_index_def split: if_splits)
    then show ?thesis by simp
  qed simp
qed

section \<open>The machine\<close>

datatype stage2_operation =
    Acquire_lease string int int
  | Renew_lease string int int
  | Release_lease string int
  | Record_cleanup int cleanup_phase "string option"
  | Prepare_action string int stage2_name "(string \<times> jval) list"
  | Arm_action string int stage2_name
  | Submit_action string int stage2_name jval
  | Verify_action string int stage2_name
  | Complete_journal string int

fun stage2_step :: "(string \<Rightarrow> bool) \<Rightarrow> stage2_operation \<Rightarrow> stage2_journal \<Rightarrow> stage2_error + stage2_journal" where
  "stage2_step url (Acquire_lease a now e) j = acquireCustomerStage2Lease url j a now e"
| "stage2_step url (Renew_lease a now e) j = renewCustomerStage2Lease url j a now e"
| "stage2_step url (Release_lease a now) j = releaseCustomerStage2Lease url j a now"
| "stage2_step url (Record_cleanup now p reason) j = recordCustomerStage2Cleanup url j now p reason"
| "stage2_step url (Prepare_action a now n entries) j = prepareCustomerStage2Action url j a now n entries"
| "stage2_step url (Arm_action a now n) j = armCustomerStage2Action url j a now n"
| "stage2_step url (Submit_action a now n locator) j = submitCustomerStage2Action url j a now n locator"
| "stage2_step url (Verify_action a now n) j = verifyCustomerStage2Action url j a now n"
| "stage2_step url (Complete_journal a now) j = completeCustomerStage2Journal url j a now"

text \<open>What counts of a journal: the names and phases of its actions, who holds the lease and until when, and whether it is complete.\<close>

type_synonym stage2_view = "(stage2_name \<times> stage2_phase) list \<times> (string \<times> int) option \<times> bool"

definition sent :: "stage2_action list \<Rightarrow> (stage2_name \<times> stage2_phase) list" where
  "sent = map (\<lambda>a. (ac_name a, ac_phase a))"

definition holder :: "stage2_lease option \<Rightarrow> (string \<times> int) option" where
  "holder = map_option (\<lambda>l. (ls_attemptId l, ls_expiresAt l))"

definition journal_view :: "stage2_journal \<Rightarrow> stage2_view" where
  "journal_view j = (sent (st_actions j), holder (st_lease j), st_completedAt j \<noteq> None)"

definition verified_only :: "(stage2_name \<times> stage2_phase) list \<Rightarrow> bool" where
  "verified_only acts \<longleftrightarrow> list_all (\<lambda>x. snd x = Verified) acts"

text \<open>The protocol.\<close>

inductive stage2_move :: "stage2_view \<Rightarrow> stage2_operation \<Rightarrow> stage2_view \<Rightarrow> bool" where
  acquire: "(case h of None \<Rightarrow> True | Some (b, x) \<Rightarrow> x \<le> now) \<Longrightarrow> now < e
    \<Longrightarrow> stage2_move (acts, h, False) (Acquire_lease a now e) (acts, Some (a, e), False)"
| still: "now < x \<Longrightarrow> stage2_move (acts, Some (a, x), False) (Acquire_lease a now e) (acts, Some (a, x), False)"
| renew: "now < x \<Longrightarrow> x < e \<Longrightarrow> stage2_move (acts, Some (a, x), False) (Renew_lease a now e) (acts, Some (a, e), False)"
| release: "now < x \<Longrightarrow> stage2_move (acts, Some (a, x), False) (Release_lease a now) (acts, None, False)"
| cleanup: "stage2_move (acts, h, False) (Record_cleanup now p reason) (acts, h, False)"
| prepare: "now < x \<Longrightarrow> stage2_move (acts, Some (a, x), False) (Prepare_action a now n entries) (acts @ [(n, Prepared)], Some (a, x), False)"
| arm: "now < x \<Longrightarrow> verified_only done \<Longrightarrow> stage2_move (done @ (n, Prepared) # rest, Some (a, x), False) (Arm_action a now n)
    (done @ (n, Send_armed) # rest, Some (a, x), False)"
| submit: "now < x \<Longrightarrow> stage2_move (acts @ (n, Send_armed) # rest, Some (a, x), False) (Submit_action a now n locator)
    (acts @ (n, Submitted) # rest, Some (a, x), False)"
| verify: "now < x \<Longrightarrow> stage2_move (acts @ (n, Submitted) # rest, Some (a, x), False) (Verify_action a now n)
    (acts @ (n, Verified) # rest, Some (a, x), False)"
| complete: "now < x \<Longrightarrow> verified_only acts \<Longrightarrow> length acts = length (customerStage2ActionSequence (map fst acts))
    \<Longrightarrow> stage2_move (acts, Some (a, x), False) (Complete_journal a now) (acts, None, True)"

lemma stage2_require_Inr [simp]: "stage2_require b e = Inr u \<longleftrightarrow> b"
  by (simp add: stage2_require_def)

lemma assertLease_Inr: "assertLease j a now = Inr l \<longleftrightarrow> time_ok now \<and> test ATTEMPT_ID a \<and> st_completedAt j = None \<and> st_lease j = Some l
    \<and> ls_attemptId l = a \<and> now < ls_expiresAt l"
  by (auto simp: assertLease_def andThen_Inr validTime_def time_ok_def split: option.splits)

lemma next_Inr: "next_journal url j change now = Inr k \<longleftrightarrow> time_ok now \<and> st_updatedAt j \<le> now
    \<and> requireJournal url ((change j)\<lparr>st_revision := st_revision j + 1, st_updatedAt := now\<rparr>) = Inr k"
  by (auto simp: next_journal_def andThen_Inr validTime_def time_ok_def)

lemma sent_clean [simp]: "sent (st_actions (clean j)) = sent (st_actions j)"
  by (simp add: sent_def clean_def clean_action_def)

lemma view_clean: "journal_view (clean j) = journal_view j"
  by (simp add: journal_view_def)

lemma required_view: "requireJournal url x = Inr y \<Longrightarrow> journal_view y = journal_view x"
  by (auto simp: required_Inr view_clean)

lemma located_action:
  assumes "find_action j n = Some (i, a)"
  shows "i < length (st_actions j)" "st_actions j ! i = a" "ac_name a = n"
proof -
  have i: "i = length (takeWhile (\<lambda>a. ac_name a \<noteq> n) (st_actions j))" "i < length (st_actions j)" "a = st_actions j ! i"
    using assms by (auto simp: find_action_def Let_def at_index_def split: if_splits)
  then show "i < length (st_actions j)" "st_actions j ! i = a" by simp_all
  show "ac_name a = n" using nth_length_takeWhile [of "\<lambda>a. ac_name a \<noteq> n" "st_actions j"] i by simp
qed

lemma located_sent:
  assumes "find_action j n = Some (i, a)"
  shows "sent (st_actions j) = sent (take i (st_actions j)) @ (n, ac_phase a) # sent (drop (Suc i) (st_actions j))"
    "sent ((st_actions j)[i := b]) = sent (take i (st_actions j)) @ (ac_name b, ac_phase b) # sent (drop (Suc i) (st_actions j))"
proof -
  note f = located_action [OF assms]
  have "st_actions j = take i (st_actions j) @ a # drop (Suc i) (st_actions j)" using id_take_nth_drop [OF f(1)] f(2) by simp
  then have "sent (st_actions j) = sent (take i (st_actions j) @ a # drop (Suc i) (st_actions j))" by (rule arg_cong)
  then show "sent (st_actions j) = sent (take i (st_actions j)) @ (n, ac_phase a) # sent (drop (Suc i) (st_actions j))"
    using f(3) by (simp add: sent_def)
  show "sent ((st_actions j)[i := b]) = sent (take i (st_actions j)) @ (ac_name b, ac_phase b) # sent (drop (Suc i) (st_actions j))"
    using f(1) by (simp add: upd_conv_take_nth_drop sent_def)
qed


section \<open>The operations keep to the protocol\<close>

lemma moved:
  assumes "requireJournal url v = Inr j" "assertLease j a now = Inr l" "next_journal url j change now = Inr k"
  shows "now < ls_expiresAt l" "journal_view j = (sent (st_actions j), Some (a, ls_expiresAt l), False)"
    "journal_view k = (sent (st_actions (change j)), holder (st_lease (change j)), st_completedAt (change j) \<noteq> None)"
proof -
  have l: "st_completedAt j = None" "st_lease j = Some l" "ls_attemptId l = a" "now < ls_expiresAt l"
    using assms(2) by (simp_all add: assertLease_Inr)
  then show "now < ls_expiresAt l" "journal_view j = (sent (st_actions j), Some (a, ls_expiresAt l), False)"
    by (simp_all add: journal_view_def holder_def)
  have "requireJournal url ((change j)\<lparr>st_revision := st_revision j + 1, st_updatedAt := now\<rparr>) = Inr k"
    using assms(3) by (simp add: next_Inr)
  from required_view [OF this] show "journal_view k = (sent (st_actions (change j)), holder (st_lease (change j)), st_completedAt (change j) \<noteq> None)"
    by (simp add: journal_view_def)
qed

lemma acquire_refined:
  assumes "acquireCustomerStage2Lease url v a now e = Inr k"
  shows "stage2_move (journal_view v) (Acquire_lease a now e) (journal_view k)"
proof -
  obtain j where j: "requireJournal url v = Inr j" "now < e" "st_completedAt j = None"
    "case st_lease j of None \<Rightarrow> True | Some l \<Rightarrow> ls_attemptId l = a \<or> ls_expiresAt l \<le> now"
    "if (case st_lease j of None \<Rightarrow> False | Some l \<Rightarrow> ls_attemptId l = a \<and> now < ls_expiresAt l) then k = j
     else next_journal url j (\<lambda>j. j\<lparr>st_lease := Some \<lparr>ls_attemptId = a, ls_acquiredAt = now, ls_expiresAt = e\<rparr>\<rparr>) now = Inr k"
    using assms by (auto simp: acquireCustomerStage2Lease_def andThen_Inr not_less not_le split: option.splits if_splits)
  note view = required_view [OF j(1)]
  show ?thesis
  proof (cases "case st_lease j of None \<Rightarrow> False | Some l \<Rightarrow> ls_attemptId l = a \<and> now < ls_expiresAt l")
    case True
    then obtain l where l: "st_lease j = Some l" "ls_attemptId l = a" "now < ls_expiresAt l" by (auto split: option.splits)
    have "stage2_move (sent (st_actions j), Some (a, ls_expiresAt l), False) (Acquire_lease a now e) (sent (st_actions j), Some (a, ls_expiresAt l), False)"
      using l(3) by (rule stage2_move.still)
    then show ?thesis using True j l view by (simp add: journal_view_def holder_def)
  next
    case False
    have k: "journal_view k = (sent (st_actions j), Some (a, e), False)"
      using j(3,5) False required_view by (force simp: next_Inr journal_view_def holder_def)
    have "case holder (st_lease j) of None \<Rightarrow> True | Some (b, x) \<Rightarrow> x \<le> now"
      using False j(4) by (auto simp: holder_def split: option.splits)
    then have "stage2_move (sent (st_actions j), holder (st_lease j), False) (Acquire_lease a now e) (sent (st_actions j), Some (a, e), False)"
      using j(2) by (rule stage2_move.acquire)
    then show ?thesis using k j(3) view by (simp add: journal_view_def)
  qed
qed

lemma renew_refined:
  assumes "renewCustomerStage2Lease url v a now e = Inr k"
  shows "stage2_move (journal_view v) (Renew_lease a now e) (journal_view k)"
proof -
  obtain j l where j: "requireJournal url v = Inr j" "assertLease j a now = Inr l" "ls_expiresAt l < e"
    "next_journal url j (\<lambda>j. j\<lparr>st_lease := Some (l\<lparr>ls_expiresAt := e\<rparr>)\<rparr>) now = Inr k"
    using assms by (auto simp: renewCustomerStage2Lease_def andThen_Inr)
  have "ls_attemptId l = a" "st_completedAt j = None" using j(2) by (simp_all add: assertLease_Inr)
  then show ?thesis using moved [OF j(1,2,4)] j(3) required_view [OF j(1)] stage2_move.renew [of now "ls_expiresAt l" e] by (simp add: holder_def)
qed

lemma release_refined:
  assumes "releaseCustomerStage2Lease url v a now = Inr k"
  shows "stage2_move (journal_view v) (Release_lease a now) (journal_view k)"
proof -
  obtain j l where j: "requireJournal url v = Inr j" "assertLease j a now = Inr l" "next_journal url j (\<lambda>j. j\<lparr>st_lease := None\<rparr>) now = Inr k"
    using assms by (auto simp: releaseCustomerStage2Lease_def andThen_Inr)
  have "st_completedAt j = None" using j(2) by (simp add: assertLease_Inr)
  then show ?thesis using moved [OF j(1-3)] required_view [OF j(1)] stage2_move.release [of now "ls_expiresAt l"] by (simp add: holder_def)
qed

lemma cleanup_refined:
  assumes "recordCustomerStage2Cleanup url v now p reason = Inr k"
  shows "stage2_move (journal_view v) (Record_cleanup now p reason) (journal_view k)"
proof -
  obtain j where j: "requireJournal url v = Inr j" "st_completedAt j = None"
    "next_journal url j (\<lambda>j. j\<lparr>st_cleanup := Some \<lparr>cu_phase = p, cu_reason = safe_reason reason\<rparr>\<rparr>) now = Inr k"
    using assms by (auto simp: recordCustomerStage2Cleanup_def andThen_Inr)
  have "journal_view k = journal_view j" using j(3) required_view by (force simp: next_Inr journal_view_def)
  moreover have "journal_view v = (sent (st_actions j), holder (st_lease j), False)" using required_view [OF j(1)] j(2) by (simp add: journal_view_def)
  ultimately show ?thesis using required_view [OF j(1)] stage2_move.cleanup by simp
qed

lemma prepare_refined:
  assumes "prepareCustomerStage2Action url v a now n entries = Inr k"
  shows "stage2_move (journal_view v) (Prepare_action a now n entries) (journal_view k)"
proof -
  obtain j l where j: "requireJournal url v = Inr j" "assertLease j a now = Inr l"
    "next_journal url j (\<lambda>j. j\<lparr>st_actions := st_actions j @ [\<lparr>ac_name = n, ac_phase = Prepared, ac_record = entries,
       ac_locator = JNull, ac_preparedAt = now, ac_sendArmedAt = None, ac_submittedAt = None, ac_verifiedAt = None\<rparr>]\<rparr>) now = Inr k"
    using assms by (auto simp: prepareCustomerStage2Action_def andThen_Inr)
  have "st_completedAt j = None" "holder (st_lease j) = Some (a, ls_expiresAt l)" using j(2) by (auto simp: assertLease_Inr holder_def)
  then show ?thesis
    using moved [OF j(1-3)] required_view [OF j(1)] stage2_move.prepare [of now "ls_expiresAt l" "sent (st_actions j)" a n entries]
    by (simp add: sent_def)
qed

lemma replaced:
  assumes "requireJournal url v = Inr j" "assertLease j a now = Inr l" "find_action j n = Some (i, action)" "replaceAction url j i b now = Inr k"
    "ac_name b = n"
  shows "now < ls_expiresAt l"
    "journal_view v = (sent (take i (st_actions j)) @ (n, ac_phase action) # sent (drop (Suc i) (st_actions j)), Some (a, ls_expiresAt l), False)"
    "journal_view k = (sent (take i (st_actions j)) @ (n, ac_phase b) # sent (drop (Suc i) (st_actions j)), Some (a, ls_expiresAt l), False)"
proof -
  have "st_completedAt j = None" "holder (st_lease j) = Some (a, ls_expiresAt l)" using assms(2) by (auto simp: assertLease_Inr holder_def)
  then show "now < ls_expiresAt l"
    "journal_view v = (sent (take i (st_actions j)) @ (n, ac_phase action) # sent (drop (Suc i) (st_actions j)), Some (a, ls_expiresAt l), False)"
    "journal_view k = (sent (take i (st_actions j)) @ (n, ac_phase b) # sent (drop (Suc i) (st_actions j)), Some (a, ls_expiresAt l), False)"
    using moved [OF assms(1,2) assms(4) [unfolded replaceAction_def]] required_view [OF assms(1)] located_sent [OF assms(3)] assms(5) by simp_all
qed

lemma arm_refined:
  assumes "armCustomerStage2Action url v a now n = Inr k"
  shows "stage2_move (journal_view v) (Arm_action a now n) (journal_view k)"
proof -
  obtain j l i action where j: "requireJournal url v = Inr j" "assertLease j a now = Inr l" "find_action j n = Some (i, action)"
    "ac_phase action = Prepared" "\<not> list_ex (\<lambda>a. ac_phase a \<noteq> Verified) (take i (st_actions j))"
    "replaceAction url j i (action\<lparr>ac_phase := Send_armed, ac_sendArmedAt := Some now\<rparr>) now = Inr k"
    using assms by (auto simp: armCustomerStage2Action_def andThen_Inr split: option.splits)
  have "verified_only (sent (take i (st_actions j)))" using j(5) by (auto simp: verified_only_def sent_def list_ex_iff list_all_iff)
  moreover have "ac_name (action\<lparr>ac_phase := Send_armed, ac_sendArmedAt := Some now\<rparr>) = n" using located_action(3) [OF j(3)] by simp
  note replaced [OF j(1-3,6) this]
  ultimately show ?thesis using j(4) by (simp add: stage2_move.arm)
qed

lemma submit_refined:
  assumes "submitCustomerStage2Action url v a now n locator = Inr k"
  shows "stage2_move (journal_view v) (Submit_action a now n locator) (journal_view k)"
proof -
  obtain j l i action where j: "requireJournal url v = Inr j" "assertLease j a now = Inr l" "find_action j n = Some (i, action)"
    "ac_phase action = Send_armed"
    "replaceAction url j i (action\<lparr>ac_phase := Submitted, ac_locator := locator, ac_submittedAt := Some now\<rparr>) now = Inr k"
    using assms by (auto simp: submitCustomerStage2Action_def andThen_Inr split: option.splits)
  have n: "ac_name (action\<lparr>ac_phase := Submitted, ac_locator := locator, ac_submittedAt := Some now\<rparr>) = n" using located_action(3) [OF j(3)] by simp
  show ?thesis using replaced [OF j(1-3,5) n] j(4) by (simp add: stage2_move.submit)
qed

lemma verify_refined:
  assumes "verifyCustomerStage2Action url v a now n = Inr k"
  shows "stage2_move (journal_view v) (Verify_action a now n) (journal_view k)"
proof -
  obtain j l i action where j: "requireJournal url v = Inr j" "assertLease j a now = Inr l" "find_action j n = Some (i, action)"
    "ac_phase action = Submitted" "replaceAction url j i (action\<lparr>ac_phase := Verified, ac_verifiedAt := Some now\<rparr>) now = Inr k"
    using assms by (auto simp: verifyCustomerStage2Action_def andThen_Inr split: option.splits)
  have n: "ac_name (action\<lparr>ac_phase := Verified, ac_verifiedAt := Some now\<rparr>) = n" using located_action(3) [OF j(3)] by simp
  show ?thesis using replaced [OF j(1-3,5) n] j(4) by (simp add: stage2_move.verify)
qed

lemma complete_refined:
  assumes "completeCustomerStage2Journal url v a now = Inr k"
  shows "stage2_move (journal_view v) (Complete_journal a now) (journal_view k)"
proof -
  obtain j l where j: "requireJournal url v = Inr j" "assertLease j a now = Inr l"
    "length (st_actions j) = length (customerStage2ActionSequence (action_names j))" "\<not> list_ex (\<lambda>a. ac_phase a \<noteq> Verified) (st_actions j)"
    "next_journal url j (\<lambda>j. j\<lparr>st_lease := None, st_completedAt := Some now\<rparr>) now = Inr k"
    using assms by (auto simp: completeCustomerStage2Journal_def andThen_Inr)
  have names: "map fst (sent xs) = map ac_name xs" for xs by (simp add: sent_def)
  have "verified_only (sent (st_actions j))" using j(4) by (auto simp: verified_only_def sent_def list_ex_iff list_all_iff)
  then show ?thesis
    using moved [OF j(1,2,5)] j(3) required_view [OF j(1)] stage2_move.complete [of now "ls_expiresAt l" "sent (st_actions j)" a]
    by (simp add: names action_names_def holder_def) (simp add: sent_def)
qed

lemma stage2_refined: "stage2_step url op j = Inr k \<Longrightarrow> stage2_move (journal_view j) op (journal_view k)"
  by (cases op) (simp_all add: acquire_refined renew_refined release_refined cleanup_refined prepare_refined arm_refined submit_refined
      verify_refined complete_refined)

section \<open>Runs\<close>

text \<open>A journal as it is read back: its values with sorted keys.\<close>

definition settle_action :: "stage2_action \<Rightarrow> stage2_action" where
  "settle_action a = a\<lparr>ac_record := js_sort by_key (sort_keys_entries (ac_record a)), ac_locator := sort_keys (ac_locator a)\<rparr>"

definition settle :: "stage2_journal \<Rightarrow> stage2_journal" where
  "settle j = j\<lparr>st_actions := map settle_action (st_actions j)\<rparr>"

text \<open>The operations on a journal, which may be stored and read back between them.\<close>

inductive stage2_run :: "(string \<Rightarrow> bool) \<Rightarrow> stage2_journal \<Rightarrow> stage2_operation list \<Rightarrow> stage2_journal \<Rightarrow> bool" for url j where
  nothing: "stage2_run url j [] j"
| operation: "stage2_run url j ops k \<Longrightarrow> stage2_step url op k = Inr l \<Longrightarrow> stage2_run url j (ops @ [op]) l"
| stored: "stage2_run url j ops k \<Longrightarrow> stage2_run url j ops (settle k)"

lemma sent_settle [simp]: "sent (st_actions (settle j)) = sent (st_actions j)"
  by (simp add: sent_def settle_def settle_action_def)

lemma view_settle [simp]: "journal_view (settle j) = journal_view j"
  unfolding journal_view_def by simp (simp add: settle_def)

lemma names_view: "action_names j = map fst (fst (journal_view j))"
  by (simp add: action_names_def journal_view_def sent_def)

lemma next_valid: "next_journal url j change now = Inr k \<Longrightarrow> journal_valid url k"
  using require_valid by (auto simp: next_Inr)

lemma step_valid: "stage2_step url op j = Inr k \<Longrightarrow> journal_valid url k"
  by (cases op)
     (auto simp: acquireCustomerStage2Lease_def renewCustomerStage2Lease_def releaseCustomerStage2Lease_def recordCustomerStage2Cleanup_def
        prepareCustomerStage2Action_def armCustomerStage2Action_def submitCustomerStage2Action_def verifyCustomerStage2Action_def
        completeCustomerStage2Journal_def replaceAction_def andThen_Inr split: option.splits if_splits dest: next_valid require_valid)

lemma created_journal:
  assumes "createCustomerStage2Journal url now e a identity organization ids subdomain preflight = Inr j"
  shows "journal_valid url j" "journal_view j = ([], Some (a, e), False)" "st_revision j = 1"
proof -
  obtain x where r: "requireJournal url x = Inr j" "journal_view x = ([], Some (a, e), False)" "st_revision x = 1"
    using assms by (auto simp: createCustomerStage2Journal_def andThen_Inr journal_view_def holder_def sent_def)
  show "journal_valid url j" using require_valid [OF r(1)] .
  show "journal_view j = ([], Some (a, e), False)" using required_view [OF r(1)] r(2) by simp
  show "st_revision j = 1" using r(1,3) by (auto simp: required_Inr)
qed

section \<open>Order\<close>

text \<open>What a run does with the provider: the phases it brings the actions to.\<close>

fun sending :: "stage2_operation \<Rightarrow> (stage2_name \<times> stage2_phase) list" where
  "sending (Arm_action a now n) = [(n, Send_armed)]"
| "sending (Submit_action a now n locator) = [(n, Submitted)]"
| "sending (Verify_action a now n) = [(n, Verified)]"
| "sending op = []"

definition sendings :: "stage2_operation list \<Rightarrow> (stage2_name \<times> stage2_phase) list" where
  "sendings ops = concat (map sending ops)"

text \<open>One action after the other, each armed, submitted and verified.\<close>

definition in_turn :: "stage2_name list \<Rightarrow> (stage2_name \<times> stage2_phase) list" where
  "in_turn names = concat (map (\<lambda>n. [(n, Send_armed), (n, Submitted), (n, Verified)]) names)"

fun reached :: "stage2_name \<times> stage2_phase \<Rightarrow> (stage2_name \<times> stage2_phase) list" where
  "reached (n, Prepared) = []"
| "reached (n, Send_armed) = [(n, Send_armed)]"
| "reached (n, Submitted) = [(n, Send_armed), (n, Submitted)]"
| "reached (n, Verified) = [(n, Send_armed), (n, Submitted), (n, Verified)]"

definition prepared_only :: "(stage2_name \<times> stage2_phase) list \<Rightarrow> bool" where
  "prepared_only acts \<longleftrightarrow> list_all (\<lambda>x. snd x = Prepared) acts"

fun shaped :: "(stage2_name \<times> stage2_phase) list \<Rightarrow> bool" where
  "shaped [] = True"
| "shaped ((n, p) # acts) = (if p = Verified then shaped acts else prepared_only acts)"

lemma prepared_reached: "prepared_only acts \<Longrightarrow> concat (map reached acts) = []"
  by (induction acts) (auto simp: prepared_only_def)

lemma shaped_prepared: "prepared_only acts \<Longrightarrow> shaped acts"
  by (cases acts rule: shaped.cases) (auto simp: prepared_only_def)

lemma shaped_done: "verified_only acts \<Longrightarrow> shaped (acts @ rest) = shaped rest"
  by (induction acts rule: shaped.induct) (auto simp: verified_only_def)

lemma shaped_split: "shaped (acts @ (n, p) # rest) \<Longrightarrow> p \<noteq> Prepared \<Longrightarrow> verified_only acts"
  by (induction acts rule: shaped.induct) (auto simp: verified_only_def prepared_only_def split: if_splits)

lemma shaped_snoc: "shaped acts \<Longrightarrow> shaped (acts @ [(n, Prepared)])"
  by (induction acts rule: shaped.induct) (auto simp: prepared_only_def)

lemma move_shaped:
  assumes "stage2_move v op w" "shaped (fst v)"
  shows "shaped (fst w) \<and> concat (map reached (fst w)) = concat (map reached (fst v)) @ sending op
    \<and> (if snd (snd w) then verified_only (fst w) \<and> length (fst w) = length (customerStage2ActionSequence (map fst (fst w))) else True)"
  using assms
proof cases
  case (arm now x acts n rest a)
  then have "prepared_only rest" using assms(2) shaped_done [of acts] by simp
  then show ?thesis using arm shaped_done [of acts] by (simp add: prepared_reached)
next
  case (submit now x acts n rest a locator)
  then have v: "verified_only acts" using assms(2) shaped_split by fastforce
  then have "prepared_only rest" using assms(2) submit shaped_done [of acts] by simp
  then show ?thesis using submit shaped_done [OF v] by (simp add: prepared_reached)
next
  case (verify now x acts n rest a)
  then have v: "verified_only acts" using assms(2) shaped_split by fastforce
  then have "prepared_only rest" using assms(2) verify shaped_done [of acts] by simp
  then show ?thesis using verify shaped_done [OF v] by (simp add: prepared_reached shaped_prepared)
qed (auto simp: shaped_snoc)

lemma reached_turn: "shaped acts \<Longrightarrow> \<exists>n. concat (map reached acts) = take n (in_turn (map fst acts))"
proof (induction acts rule: shaped.induct)
  case (2 n p acts)
  show ?case
  proof (cases "p = Verified")
    case True
    then obtain m where "concat (map reached acts) = take m (in_turn (map fst acts))" using 2 by auto
    then have "concat (map reached ((n, p) # acts)) = take (Suc (Suc (Suc m))) (in_turn (map fst ((n, p) # acts)))" using True by (simp add: in_turn_def)
    then show ?thesis by blast
  next
    case False
    then have "concat (map reached acts) = []" using 2 prepared_reached by simp
    then have "concat (map reached ((n, p) # acts)) = take (length (reached (n, p))) (in_turn (map fst ((n, p) # acts)))"
      using False by (cases p) (simp_all add: in_turn_def)
    then show ?thesis by blast
  qed
qed (simp add: in_turn_def)

lemma turn_take: "\<exists>k. take n (in_turn (take m names)) = take k (in_turn names)"
proof -
  have "in_turn names = in_turn (take m names) @ in_turn (drop m names)"
    unfolding in_turn_def by (metis append_take_drop_id concat_append map_append)
  then have "take n (in_turn (take m names)) = take (min n (length (in_turn (take m names)))) (in_turn names)" by (simp add: take_append min_def)
  then show ?thesis by blast
qed

lemma verified_turn: "verified_only acts \<Longrightarrow> concat (map reached acts) = in_turn (map fst acts)"
  by (induction acts) (auto simp: verified_only_def in_turn_def)

lemma run_shaped:
  assumes "stage2_run url j ops k" "journal_valid url j" "journal_view j = ([], h, False)"
  shows "shaped (fst (journal_view k)) \<and> concat (map reached (fst (journal_view k))) = sendings ops
    \<and> (if snd (snd (journal_view k)) then verified_only (fst (journal_view k))
        \<and> length (fst (journal_view k)) = length (customerStage2ActionSequence (map fst (fst (journal_view k)))) else True)
    \<and> action_names k = take (length (action_names k)) (customerStage2ActionSequence (action_names k))"
  using assms(1)
proof induction
  case nothing
  then show ?case using assms(3) valid_sequence [OF assms(2)] by (simp add: sendings_def)
next
  case (operation ops k op l)
  show ?case
    using move_shaped [OF stage2_refined [OF operation.hyps(2)]] operation.IH valid_sequence [OF step_valid [OF operation.hyps(2)]]
    by (simp add: sendings_def)
next
  case (stored ops k)
  then show ?case by (simp add: names_view)
qed

text \<open>
  C10. The installation is carried out one action at a time: in every run of the operations on a new journal, whatever attempts it
  takes, the armings, submissions and verifications are an initial part of the fixed sequence in which each action is
  armed, submitted and verified before the next is armed; the journal shows exactly how far they are, and a journal
  counts as complete only when the whole sequence was carried out.
\<close>

theorem stage2_sends_in_order:
  "case createCustomerStage2Journal url now e a identity organization ids subdomain preflight of Inl error \<Rightarrow> True | Inr j \<Rightarrow>
     {(ops, k). stage2_run url j ops k} \<subseteq>
     {(ops, k). sendings ops = concat (map reached (sent (st_actions k)))
       \<and> (\<exists>n. sendings ops = take n (in_turn (customerStage2ActionSequence (action_names k))))
       \<and> (if st_completedAt k = None then True else sendings ops = in_turn (customerStage2ActionSequence (action_names k)))}"
proof (cases "createCustomerStage2Journal url now e a identity organization ids subdomain preflight")
  case (Inr j)
  have "sendings ops = concat (map reached (sent (st_actions k)))
      \<and> (\<exists>n. sendings ops = take n (in_turn (customerStage2ActionSequence (action_names k))))
      \<and> (if st_completedAt k = None then True else sendings ops = in_turn (customerStage2ActionSequence (action_names k)))"
    if run: "stage2_run url j ops k" for ops k
  proof -
    note c = created_journal [OF Inr]
    let ?acts = "sent (st_actions k)"
    have names: "map fst ?acts = action_names k" by (simp add: sent_def action_names_def)
    have s: "shaped ?acts" "concat (map reached ?acts) = sendings ops"
      "st_completedAt k \<noteq> None \<Longrightarrow> verified_only ?acts \<and> length ?acts = length (customerStage2ActionSequence (action_names k))"
      "action_names k = take (length (action_names k)) (customerStage2ActionSequence (action_names k))"
      using run_shaped [OF run c(1,2)] names by (auto simp: journal_view_def)
    have "\<exists>n. sendings ops = take n (in_turn (customerStage2ActionSequence (action_names k)))"
      using reached_turn [OF s(1)] s(2,4) names turn_take by metis
    moreover have "sendings ops = in_turn (customerStage2ActionSequence (action_names k))" if "st_completedAt k \<noteq> None"
    proof -
      have "length (action_names k) = length (customerStage2ActionSequence (action_names k))" using s(3) [OF that] names by (metis length_map)
      then have "action_names k = customerStage2ActionSequence (action_names k)" using s(4) by simp
      then show ?thesis using verified_turn [of ?acts] s(2,3) that names by metis
    qed
    ultimately show ?thesis using s(2) by simp
  qed
  then show ?thesis unfolding Inr by (simp only: sum.case) blast
qed simp

section \<open>The lease\<close>

text \<open>
  A lock with an expiry, as a reference: who holds it and until when. The attempt that holds it may prolong it, give it up
  and work; another gets it only when nobody holds it or the time is over.
\<close>

definition held :: "(string \<times> int) option \<Rightarrow> string \<Rightarrow> int \<Rightarrow> bool" where
  "held h a now \<longleftrightarrow> (case h of None \<Rightarrow> False | Some (b, x) \<Rightarrow> b = a \<and> now < x)"

definition free :: "(string \<times> int) option \<Rightarrow> int \<Rightarrow> bool" where
  "free h now \<longleftrightarrow> (case h of None \<Rightarrow> True | Some (b, x) \<Rightarrow> x \<le> now)"

fun lock_step :: "stage2_operation \<Rightarrow> (string \<times> int) option \<Rightarrow> (string \<times> int) option option" where
  "lock_step (Acquire_lease a now e) h = (if held h a now then Some h else if free h now \<and> now < e then Some (Some (a, e)) else None)"
| "lock_step (Renew_lease a now e) h = (if held h a now \<and> snd (the h) < e then Some (Some (a, e)) else None)"
| "lock_step (Release_lease a now) h = (if held h a now then Some None else None)"
| "lock_step (Record_cleanup now p reason) h = Some h"
| "lock_step (Prepare_action a now n entries) h = (if held h a now then Some h else None)"
| "lock_step (Arm_action a now n) h = (if held h a now then Some h else None)"
| "lock_step (Submit_action a now n locator) h = (if held h a now then Some h else None)"
| "lock_step (Verify_action a now n) h = (if held h a now then Some h else None)"
| "lock_step (Complete_journal a now) h = (if held h a now then Some None else None)"

primrec lock_run :: "stage2_operation list \<Rightarrow> (string \<times> int) option \<Rightarrow> (string \<times> int) option option" where
  "lock_run [] h = Some h"
| "lock_run (op # ops) h = Option.bind (lock_step op h) (lock_run ops)"

lemma lock_run_append: "lock_run (ops @ ops') h = Option.bind (lock_run ops h) (lock_run ops')"
proof (induction ops arbitrary: h)
  case (Cons op ops)
  then show ?case by (cases "lock_step op h") simp_all
qed simp

lemma move_locked: "stage2_move v op w \<Longrightarrow> lock_step op (fst (snd v)) = Some (fst (snd w))"
  by (cases rule: stage2_move.cases) (auto simp: held_def free_def split: option.splits)

lemma run_locked:
  assumes "stage2_run url j ops k"
  shows "lock_run ops (fst (snd (journal_view j))) = Some (fst (snd (journal_view k)))"
  using assms
proof induction
  case (operation ops k op l)
  then show ?case using move_locked [OF stage2_refined [OF operation.hyps(2)]] by (simp add: lock_run_append)
qed simp_all

text \<open>
  C11. The lease of the journal is such a lock: in every run of the operations, each that prepares, arms, submits, verifies, completes or
  prolongs is one of the attempt that holds the lock at its time, and the lock passes to another attempt only when it
  was given up or its time was over.
\<close>

theorem stage2_lease_is_lock:
  "case createCustomerStage2Journal url now e a identity organization ids subdomain preflight of Inl error \<Rightarrow> True | Inr j \<Rightarrow>
     {(ops, k). stage2_run url j ops k} \<subseteq> {(ops, k). lock_run ops (Some (a, e)) = Some (holder (st_lease k))}"
proof (cases "createCustomerStage2Journal url now e a identity organization ids subdomain preflight")
  case (Inr j)
  then show ?thesis using run_locked [of url j] created_journal(2) [OF Inr] by (auto simp: journal_view_def)
qed simp

end
