(* ===== verification/Teardown_Store.thy ===== *)
theory Teardown_Store
  imports Teardown_Properties
begin

text \<open>The port of the job keeps the laws of \<open>Revision_Store\<close>, and refuses no successor an operation makes.\<close>

section \<open>Reading back\<close>

lemma list_readable: "readable_items double (map f xs) \<longleftrightarrow> list_all (\<lambda>x. readable double (f x)) xs"
  by (induction xs) auto

lemma job_readable:
  assumes "job_ok url j" shows "readable double (job_value j)"
proof -
  have one: "is_safe_integer 1" by (simp add: is_safe_integer_def MAX_SAFE_INTEGER_def)
  have "readable double (release_value (tj_release j))" by (simp add: release_value_def one)
  moreover have "readable double (attempt_value a)" if "attempt_ok a" for a using that by (simp add: attempt_value_def attempt_ok_def)
  moreover have "readable double (step_value s)" for s by (simp add: step_value_def)
  ultimately show ?thesis
    using assms by (auto simp: job_ok_def job_value_def option.pred_set list_readable list_all_iff one split: option.split)
qed

lemma parse_release_order: "well_formed v \<Longrightarrow> parse_release url (sort_keys v) = parse_release url v"
proof -
  have t: "text_such P (sort_keys w) = text_such P w" for P w by (cases w) (simp_all add: text_such_def)
  show "well_formed v \<Longrightarrow> ?thesis" by (simp add: parse_release_def order_simps field_sort_keys t)
qed

lemma parse_attempt_order: "well_formed v \<Longrightarrow> parse_attempt (sort_keys v) = parse_attempt v"
  by (simp add: parse_attempt_def order_simps field_sort_keys)

lemma parse_steps_order: "parse_steps (sort_keys v) = parse_steps v"
proof (cases v)
  case (JArr xs)
  have "map parse_step (sort_keys_items xs) = map parse_step xs" by (induction xs) (simp_all add: parse_step_def order_simps)
  then show ?thesis using JArr by (simp add: parse_steps_def)
qed (simp_all add: parse_steps_def)

lemma parse_job_order:
  assumes v: "well_formed v" shows "parse_job url (sort_keys v) = parse_job url v"
proof -
  have t: "text_such P (sort_keys w) = text_such P w" for P w by (cases w) (simp_all add: text_such_def)
  show ?thesis
    using v by (simp add: parse_job_def order_simps field_sort_keys t parse_release_order parse_attempt_order parse_steps_order
        well_formed_field nullable_def parse_step_def)
qed

lemma read_stored_job:
  assumes "job_valid url j" "canonicalJson (job_value j) = Some body" "length body \<le> MAX_JOB_BYTES"
  shows "read_job url double (Some (tj_revision j, body)) = Inr (Some j)"
proof -
  have ok: "job_ok url j" using assms(1) by (simp add: job_valid_def)
  have v: "readable double (job_value j)" using ok by (rule job_readable)
  obtain t where "canonicalJson (job_value j) = Some t" "json_parse double t = Some (sort_keys (job_value j))"
    using v by (rule canonical_read_back)
  moreover have "parseGatewayTeardownJob url (sort_keys (job_value j)) = Inr j"
    using parse_job_order [OF readable_well_formed(1) [OF v]] assms(1) ok
    by (simp add: parseGatewayTeardownJob_def parse_job_value job_valid_def)
  ultimately show ?thesis using assms by (simp add: read_job_def)
qed

section \<open>The laws of the port\<close>

definition job_row :: "(string \<Rightarrow> bool) \<Rightarrow> stored_row \<Rightarrow> bool" where
  "job_row url r \<longleftrightarrow> (case r of None \<Rightarrow> True | Some (revision, body) \<Rightarrow>
     \<exists>j. job_valid url j \<and> canonicalJson (job_value j) = Some body \<and> revision = tj_revision j \<and> length body \<le> MAX_JOB_BYTES)"

lemma write_job_True:
  assumes "write_job url double expected j r = (Inr True, r')"
  obtains previous body where "read_job url double r = Inr previous" "expected = map_option tj_revision previous" "job_valid url j"
    "tj_revision j = (case expected of None \<Rightarrow> 1 | Some n \<Rightarrow> n + 1)" "canonicalJson (job_value j) = Some body"
    "length body \<le> MAX_JOB_BYTES" "r' = Some (tj_revision j, body)"
proof -
  obtain body previous where w: "job_valid url j" "canonicalJson (job_value j) = Some body" "length (encode_text body) \<le> MAX_JOB_BYTES"
    "tj_revision j = (case expected of None \<Rightarrow> 1 | Some n \<Rightarrow> n + 1)" "read_job url double r = Inr previous"
    "map_option tj_revision previous = expected" "sql_write MAX_JOB_BYTES expected (tj_revision j) body r = Some (True, r')"
    using assms by (cases "parseGatewayTeardownJob url (job_value j)")
      (auto simp: write_job_def split: if_splits option.splits sum.splits prod.splits)
  moreover have "length body \<le> MAX_JOB_BYTES" using w(3) length_encode_text(1) [of body] by simp
  ultimately show ?thesis using that by (auto simp: sql_write_True)
qed

lemma write_job_refused: "write_job url double expected j r = (res, r') \<Longrightarrow> res \<noteq> Inr True \<Longrightarrow> r' = r"
  by (auto simp: write_job_def dest: sql_write_same split: if_splits option.splits sum.splits prod.splits)

interpretation job_port: revision_store "read_job url double" "write_job url double" tj_revision id "\<lambda>j. True" "job_row url" None
  for url double
proof unfold_locales
  fix r found expected j r'
  assume r: "job_row url r" "read_job url double r = Inr found" "write_job url double expected j r = (Inr True, r')"
  obtain previous body where w: "read_job url double r = Inr previous" "expected = map_option tj_revision previous" "job_valid url j"
    "tj_revision j = (case expected of None \<Rightarrow> 1 | Some n \<Rightarrow> n + 1)" "canonicalJson (job_value j) = Some body"
    "length body \<le> MAX_JOB_BYTES" "r' = Some (tj_revision j, body)" using r(3) by (rule write_job_True)
  show "expected = map_option tj_revision found \<and> tj_revision j = (case expected of None \<Rightarrow> 1 | Some n \<Rightarrow> n + 1)
      \<and> job_row url r' \<and> read_job url double r' = Inr (Some (id j))"
    using w r(2) read_stored_job [OF w(3,5,6)] by (auto simp: job_row_def)
qed (use write_job_refused in \<open>auto simp: job_row_def read_job_def\<close>)

section \<open>What is stored\<close>

definition job_initial :: "(string \<Rightarrow> bool) \<Rightarrow> teardown_job \<Rightarrow> bool" where
  "job_initial url j \<longleftrightarrow> (\<exists>handoff verified release retirement now policy.
     createGatewayTeardownJob url handoff verified release retirement now policy = Inr j)"

definition job_follows :: "(string \<Rightarrow> bool) \<Rightarrow> teardown_job \<Rightarrow> teardown_job \<Rightarrow> bool" where
  "job_follows url j k \<longleftrightarrow> (\<exists>op. teardown_step url op j = Inr k)"

lemma step_open: "teardown_step url op j = Inr k \<Longrightarrow> \<not> removed_phase (tj_phase j)"
proof -
  assume s: "teardown_step url op j = Inr k"
  have "removed_phase (tj_phase j) \<Longrightarrow> tj_attempt j = None" using step_keeps(1) [OF s] by (simp add: job_valid_def job_conflicts_def)
  then show ?thesis using s by (cases op) (auto simp: teardown_steps removed_phase_def)
qed

lemma step_replaceable: "teardown_step url op j = Inr k \<Longrightarrow> job_replaceable j k"
proof -
  assume s: "teardown_step url op j = Inr k"
  have "\<exists>rest. tj_verifiedSteps k = tj_verifiedSteps j @ rest" using s by (cases op) (auto simp: teardown_steps successor_def)
  then have "\<not> list_ex (\<lambda>(i, s). at_index (tj_verifiedSteps k) i \<noteq> Some s) (zip [0..<length (tj_verifiedSteps j)] (tj_verifiedSteps j))"
    by (auto simp: list_ex_length at_index_def nth_append)
  then show ?thesis
    using step_keeps [OF s] step_open [OF s] warning_stays [OF s] by (auto simp: job_replaceable_def)
qed

text \<open>
  The stored job is a sequential history of the operations whatever requests interleave, and always readable; and what the port
  demands of a successor (the same authority, time and verified removals that only grow, no way out of a removed
  phase, a warning that stays) every operation keeps, so the port refuses none for it.
\<close>

theorem teardown_serialized:
  "{(r, h) | r m h. served (read_job url double) (write_job url double) tj_revision id (job_initial url) (job_follows url) None r m h}
     \<subseteq> {(r, h). read_job url double r = Inr (latest h) \<and> sequential id (job_initial url) (job_follows url) h}
   \<and> {(j, k). job_follows url j k} \<subseteq> {(j, k). job_replaceable j k \<and> tj_revision k = tj_revision j + 1}"
proof
  show "{(r, h) | r m h. served (read_job url double) (write_job url double) tj_revision id (job_initial url) (job_follows url) None r m h}
     \<subseteq> {(r, h). read_job url double r = Inr (latest h) \<and> sequential id (job_initial url) (job_follows url) h}"
    using job_port.served_invariant by fastforce
  show "{(j, k). job_follows url j k} \<subseteq> {(j, k). job_replaceable j k \<and> tj_revision k = tj_revision j + 1}"
    using step_replaceable step_keeps(3) by (fastforce simp: job_follows_def)
qed

end
