(* ===== verification/Stage2_Store.thy ===== *)
theory Stage2_Store
  imports Stage2_Properties Teardown_Store
begin

text \<open>
  Where the journal is kept, \<^verbatim>\<open>apps/installer/src/customer-stage2-durable-state.ts\<close>: the port, its laws, and what they mean for
  concurrent requests and for what is stored.
\<close>

section \<open>The port\<close>

definition MAX_STATE_BYTES :: nat where
  "MAX_STATE_BYTES = 256 * 1024"

definition initializeCustomerStage2Sql :: "int option \<Rightarrow> stage2_error + int" where
  "initializeCustomerStage2Sql version = (let stored = (case version of None \<Rightarrow> 1 | Some n \<Rightarrow> n) in
     if stored \<noteq> 1 then Inl Stage2_conflict else Inr stored)"

definition read_stage2 :: "(string \<Rightarrow> bool) \<Rightarrow> (string \<Rightarrow> jnum) \<Rightarrow> stored_row \<Rightarrow> stage2_error port_error + stage2_journal option" where
  "read_stage2 url double r = (case r of
     None \<Rightarrow> Inr None
   | Some (revision, body) \<Rightarrow> if MAX_STATE_BYTES < length body then Inl (Thrown Stage2_conflict)
       else (case json_parse double body of
         None \<Rightarrow> Inl (Thrown Stage2_conflict)
       | Some decoded \<Rightarrow> (case parseCustomerStage2Journal url decoded of
           None \<Rightarrow> Inl (Thrown Stage2_conflict)
         | Some journal \<Rightarrow> if st_revision journal \<noteq> revision \<or> canonicalJson decoded \<noteq> Some body then Inl (Thrown Stage2_conflict)
             else Inr (Some journal))))"

definition write_stage2 :: "(string \<Rightarrow> bool) \<Rightarrow> int option \<Rightarrow> stage2_journal \<Rightarrow> stored_row \<Rightarrow> (stage2_error port_error + bool) \<times> stored_row" where
  "write_stage2 url expected state r = (case parseCustomerStage2Journal url (journal_value state) of
     None \<Rightarrow> (Inl (Thrown Stage2_invalid), r)
   | Some parsed \<Rightarrow>
       if (case expected of None \<Rightarrow> st_revision parsed \<noteq> 1
           | Some n \<Rightarrow> \<not> is_safe_integer n \<or> n < 1 \<or> st_revision parsed \<noteq> n + 1) then (Inl (Thrown Stage2_invalid), r)
       else (case canonicalJson (journal_value parsed) of
         None \<Rightarrow> (Inl (Thrown Stage2_invalid), r)
       | Some serialized \<Rightarrow> if MAX_STATE_BYTES < length (encode_text serialized) then (Inl (Thrown Stage2_invalid), r)
           else (case sql_write MAX_STATE_BYTES expected (st_revision parsed) serialized r of
             None \<Rightarrow> (Inl Sql_error, r)
           | Some (changed, r') \<Rightarrow> (Inr changed, r'))))"

section \<open>Reading back\<close>

text \<open>A journal whose values the platform reads as it wrote them.\<close>

definition sound_action :: "(string \<Rightarrow> jnum) \<Rightarrow> stage2_action \<Rightarrow> bool" where
  "sound_action double a \<longleftrightarrow> jsonic_action a \<and> readable double (JObj (ac_record a)) \<and> readable double (ac_locator a)"

definition journal_sound :: "(string \<Rightarrow> jnum) \<Rightarrow> stage2_journal \<Rightarrow> bool" where
  "journal_sound double j \<longleftrightarrow> list_all (sound_action double) (st_actions j)"

lemma sound_jsonic: "journal_sound double j \<Longrightarrow> list_all jsonic_action (st_actions j)"
  by (auto simp: journal_sound_def sound_action_def list_all_iff)

lemma settle_record: "sort_keys (JObj kvs) = JObj (js_sort by_key (sort_keys_entries kvs))"
  by simp

lemma sound_settle_action: "sound_action double a \<Longrightarrow> sound_action double (settle_action a)"
  using readable_sort_keys(1) [of double "JObj (ac_record a)"] readable_sort_keys(1) [of double "ac_locator a"]
    jsonic_sort_keys(1) [of "JObj (ac_record a)"] jsonic_sort_keys(1) [of "ac_locator a"]
  by (simp add: sound_action_def settle_action_def jsonic_action_def)

lemma sound_settle: "journal_sound double j \<Longrightarrow> journal_sound double (settle j)"
  using sound_settle_action by (simp add: journal_sound_def settle_def list_all_iff)

lemma readable_or_null_time: "pred_option time_ok t \<Longrightarrow> readable double (or_null jint t)"
  by (cases t) (simp_all add: or_null_def time_ok_def)

lemma action_readable: "sound_action double a \<Longrightarrow> action_ok a \<Longrightarrow> readable double (action_value a)"
  by (auto simp: sound_action_def action_ok_def action_value_def time_ok_def readable_or_null_time simp del: readable_or_null)

lemma journal_readable:
  assumes "journal_ok url j" "journal_sound double j" shows "readable double (journal_value j)"
proof -
  have one: "is_safe_integer 1" by (simp add: is_safe_integer_def MAX_SAFE_INTEGER_def)
  have parts: "readable double (identity_value i)" "readable double (organization_value g)"
    "preflight_ok p \<Longrightarrow> readable double (preflight_value p)" "lease_ok l \<Longrightarrow> readable double (lease_value l)"
    "readable double (cleanup_record_value c)" for i g p l c
    by (simp_all add: identity_value_def organization_value_def preflight_value_def preflight_ok_def lease_value_def lease_ok_def
        cleanup_record_value_def time_ok_def option.pred_set)
  have lists: "readable_items double (map JStr xs)" "list_all (\<lambda>a. sound_action double a \<and> action_ok a) ys \<Longrightarrow> readable_items double (map action_value ys)"
    for xs ys by (auto simp: list_readable list_all_iff action_readable)
  have "list_all (\<lambda>a. sound_action double a \<and> action_ok a) (st_actions j)" using assms by (simp add: journal_ok_def journal_sound_def list_all_iff)
  then show ?thesis
    using assms(1) one parts lists by (auto simp: journal_ok_def journal_value_def time_ok_def option.pred_set)
qed

lemma parts_order:
  assumes "well_formed v"
  shows "parse_identity (sort_keys v) = parse_identity v" "parse_organization url (sort_keys v) = parse_organization url v"
    "parse_lease (sort_keys v) = parse_lease v" "parse_preflight (sort_keys v) = parse_preflight v"
    "parse_cleanup_record (sort_keys v) = parse_cleanup_record v"
proof -
  have t: "text_such P (sort_keys w) = text_such P w" for P w by (cases w) (simp_all add: text_such_def)
  show "parse_identity (sort_keys v) = parse_identity v" using assms by (simp add: parse_identity_def order_simps field_sort_keys t)
  show "parse_organization url (sort_keys v) = parse_organization url v"
    using assms by (simp add: parse_organization_def order_simps field_sort_keys t)
  show "parse_lease (sort_keys v) = parse_lease v" using assms by (simp add: parse_lease_def order_simps field_sort_keys)
  show "parse_preflight (sort_keys v) = parse_preflight v" using assms by (simp add: parse_preflight_def order_simps field_sort_keys)
  show "parse_cleanup_record (sort_keys v) = parse_cleanup_record v"
    using assms by (simp add: parse_cleanup_record_def order_simps field_sort_keys nullable_def)
qed

lemma parse_action_order:
  assumes "sound_action double a" "action_ok a"
  shows "parse_action (sort_keys (action_value a)) = Some (settle_action a)"
proof -
  have w: "well_formed (action_value a)" using readable_well_formed(1) [OF action_readable [OF assms]] .
  have v: "json_record (sort_keys (JObj (ac_record a))) = Some (js_sort by_key (sort_keys_entries (ac_record a)))"
    "json_value (sort_keys (ac_locator a)) = Some (sort_keys (ac_locator a))"
    using assms(1) jsonic_sort_keys(1) [of "JObj (ac_record a)"] jsonic_sort_keys(1) [of "ac_locator a"]
    by (simp_all add: sound_action_def jsonic_action_def json_record_def jsonic_fixed)
  have s: "sort_keys (or_null jint t) = or_null jint t" for t by (cases t) (simp_all add: or_null_def)
  have fields: "field (action_value a) ''name'' = JStr (stage2_name_text (ac_name a))" "field (action_value a) ''phase'' = JStr (stage2_phase_text (ac_phase a))"
    "field (action_value a) ''record'' = JObj (ac_record a)" "field (action_value a) ''locator'' = ac_locator a"
    "field (action_value a) ''preparedAt'' = jint (ac_preparedAt a)" "field (action_value a) ''sendArmedAt'' = or_null jint (ac_sendArmedAt a)"
    "field (action_value a) ''submittedAt'' = or_null jint (ac_submittedAt a)" "field (action_value a) ''verifiedAt'' = or_null jint (ac_verifiedAt a)"
    by (simp_all add: action_value_def)
  have strict: "strict_object [''name'', ''phase'', ''record'', ''locator'', ''preparedAt'', ''sendArmedAt'', ''submittedAt'', ''verifiedAt''] (action_value a) = Some ()"
    by (simp add: action_value_def schema_simps)
  show ?thesis
    using assms(2) unfolding parse_action_def
    by (simp only: field_sort_keys [OF w] fields strict_object_order strict v s scalar_order stage2_parts)
       (cases a, simp add: action_ok_def settle_action_def schema_simps stage2_parts time_ok_def)
qed


lemma parse_list_order: "parse_list f len (sort_keys v) = parse_list (f \<circ> sort_keys) len v"
proof (cases v)
  case (JArr xs)
  have "map f (sort_keys_items xs) = map (f \<circ> sort_keys) xs" by (induction xs) simp_all
  then show ?thesis using JArr by (simp add: parse_list_def)
qed (simp_all add: parse_list_def)

lemma null_parts_order:
  assumes "well_formed v"
  shows "nullable parse_lease (sort_keys v) = nullable parse_lease v" "nullable (int_from 0) (sort_keys v) = nullable (int_from 0) v"
    "null_default parse_cleanup_record (sort_keys v) = null_default parse_cleanup_record v"
  using assms by (simp_all add: null_order parts_order scalar_order) (auto simp: nullable_def null_default_def)

lemma parse_journal_order:
  assumes "journal_ok url j" "journal_sound double j"
  shows "parse_journal url (sort_keys (journal_value j)) = Some (settle j)"
proof -
  have w: "well_formed (journal_value j)" using readable_well_formed(1) [OF journal_readable [OF assms]] .
  have "parse_list (parse_action \<circ> sort_keys) (\<lambda>n. n \<le> length CUSTOMER_STAGE2_ACTION_ORDER) (JArr (map action_value (st_actions j)))
      = (if list_all (\<lambda>a. True) (st_actions j) \<and> length (st_actions j) \<le> length CUSTOMER_STAGE2_ACTION_ORDER
         then Some (map settle_action (st_actions j)) else None)"
    using assms by (intro parse_list_written) (auto simp: parse_action_order journal_ok_def journal_sound_def list_all_iff)
  then have actions: "parse_list (parse_action \<circ> sort_keys) (\<lambda>n. n \<le> length CUSTOMER_STAGE2_ACTION_ORDER) (field (journal_value j) ''actions'')
      = Some (map settle_action (st_actions j))"
    using assms(1) by (simp add: journal_ok_def list_all_iff journal_value_def)
  have ids: "parse_list (matching SAFE_ID \<circ> sort_keys) len v = parse_list (matching SAFE_ID) len v" for len v
    by (simp add: comp_def order_simps)
  have fields: "well_formed (field (journal_value j) k)" for k using w by (rule well_formed_field)
  have "parse_journal url (journal_value j) = Some (clean j)" using assms(1) by (simp add: parse_journal_value)
  then show ?thesis
    unfolding parse_journal_def
    by (simp only: field_sort_keys [OF w] strict_object_order scalar_order null_parts_order [OF fields] parts_order [OF fields] parse_list_order
        ids actions)
       (cases j, auto simp: settle_def clean_def bind_eq_Some_conv)
qed

section \<open>The laws of the port\<close>

lemma settle_value: "sort_keys (journal_value (settle j)) = sort_keys (journal_value j)"
proof -
  have rec: "js_sort by_key (sort_keys_entries (js_sort by_key (sort_keys_entries kvs))) = js_sort by_key (sort_keys_entries kvs)" for kvs
    using sort_keys_idem(1) [of "JObj kvs"] by simp
  have action: "sort_keys (action_value (settle_action a)) = sort_keys (action_value a)" for a
    by (cases a) (simp add: action_value_def settle_action_def rec sort_keys_idem del: js_sort.simps)
  have items: "sort_keys_items (map action_value (map settle_action as)) = sort_keys_items (map action_value as)" for as
    by (induction as) (simp_all add: action del: sort_keys.simps)
  show ?thesis
    using items [of "st_actions j"] by (simp add: journal_value_def settle_def del: js_sort.simps map_map)
qed

lemma jsonic_journal:
  assumes "list_all jsonic_action (st_actions j)" shows "jsonic (journal_value j)"
proof -
  have a: "jsonic (action_value a)" if "jsonic_action a" for a
    using that by (simp add: jsonic_action_def action_value_def RESERVED_def option.pred_set)
  have "jsonic_items (map JStr xs)" for xs by (induction xs) simp_all
  moreover have "list_all jsonic_action ys \<Longrightarrow> jsonic_items (map action_value ys)" for ys using a by (induction ys) auto
  ultimately show ?thesis
    using assms by (simp add: journal_value_def RESERVED_def option.pred_set identity_value_def organization_value_def preflight_value_def
        lease_value_def cleanup_record_value_def)
qed

lemma secret_free_order: "jsonic v \<Longrightarrow> assertSecretFree (sort_keys v) = assertSecretFree v"
  by (simp add: secret_free jsonic_sort_keys deep_sort_keys)

lemma settle_ok: "journal_ok url j \<Longrightarrow> journal_sound double j \<Longrightarrow> journal_ok url (settle j)"
proof -
  have "sound_action double a \<Longrightarrow> action_ok a \<Longrightarrow> action_ok (settle_action a)" for a
    using sound_settle_action [of double a] by (simp add: sound_action_def jsonic_action_def action_ok_def jsonic_fixed) (simp add: settle_action_def)
  then show "journal_ok url j \<Longrightarrow> journal_sound double j \<Longrightarrow> ?thesis"
    by (simp add: journal_ok_def settle_def journal_sound_def list_all_iff)
qed

lemma settle_validated:
  assumes "jsonic_action a" shows "validateAction (settle_action a) i t steps = validateAction a i t steps"
proof -
  have "sort_keys (ac_locator a) = JNull \<longleftrightarrow> ac_locator a = JNull" by (cases "ac_locator a") simp_all
  moreover have "assertSecretFree (JObj (js_sort by_key (sort_keys_entries (ac_record a)))) = assertSecretFree (JObj (ac_record a))"
    "assertSecretFree (sort_keys (ac_locator a)) = assertSecretFree (ac_locator a)"
    using secret_free_order [of "JObj (ac_record a)"] secret_free_order [of "ac_locator a"] assms by (simp_all add: jsonic_action_def)
  moreover have "ac_name (settle_action a) = ac_name a" "ac_phase (settle_action a) = ac_phase a"
    "ac_preparedAt (settle_action a) = ac_preparedAt a" "ac_sendArmedAt (settle_action a) = ac_sendArmedAt a"
    "ac_submittedAt (settle_action a) = ac_submittedAt a" "ac_verifiedAt (settle_action a) = ac_verifiedAt a"
    "ac_record (settle_action a) = js_sort by_key (sort_keys_entries (ac_record a))" "ac_locator (settle_action a) = sort_keys (ac_locator a)"
    by (simp_all add: settle_action_def)
  ultimately show ?thesis by (simp only: validateAction_def)
qed

lemma settle_accepted:
  assumes "journal_valid url j" "journal_sound double j"
  shows "journal_accepted (settle j)" "canonicalJson (journal_value (settle j)) = canonicalJson (journal_value j)"
proof -
  have ok: "journal_ok url j" "journal_accepted j" using assms(1) by (simp_all add: journal_valid_def)
  have v: "readable double (journal_value j)" "readable double (journal_value (settle j))"
    using journal_readable [OF ok(1) assms(2)] journal_readable [OF settle_ok [OF ok(1) assms(2)] sound_settle [OF assms(2)]] .
  have k: "list_all jsonic_action (st_actions j)" "list_all jsonic_action (st_actions (settle j))"
    using sound_jsonic [OF assms(2)] sound_jsonic [OF sound_settle [OF assms(2)]] by simp_all
  have keys: "deep_keys (journal_value (settle j)) = deep_keys (journal_value j)"
    using deep_sort_keys(1) [of "journal_value (settle j)"] deep_sort_keys(1) [of "journal_value j"] by (simp add: settle_value)
  have free: "assertSecretFree (journal_value (settle j)) = assertSecretFree (journal_value j)"
    using secret_free [OF jsonic_journal [OF k(1)]] secret_free [OF jsonic_journal [OF k(2)]] keys by simp
  obtain t u where t: "canonicalJson (journal_value j) = Some t" "canonicalJson (journal_value (settle j)) = Some u"
    using readable_canonical(1) [OF v(1)] readable_canonical(1) [OF v(2)] by blast
  then show canonical: "canonicalJson (journal_value (settle j)) = canonicalJson (journal_value j)"
    using canonical_render(1) [OF t(1)] canonical_render(1) [OF t(2)] by (simp add: settle_value)
  have names: "action_names (settle j) = action_names j" by (simp add: action_names_def settle_def settle_action_def)
  have same: "st_actions (settle j) = map settle_action (st_actions j)" "st_updatedAt (settle j) = st_updatedAt j"
    "st_createdAt (settle j) = st_createdAt j" "st_preflight (settle j) = st_preflight j" "st_lease (settle j) = st_lease j"
    "st_identityProviderIds (settle j) = st_identityProviderIds j" "st_completedAt (settle j) = st_completedAt j" by (simp_all add: settle_def)
  have phases: "list_ex (\<lambda>a. ac_phase a \<noteq> Verified) (map settle_action as) = list_ex (\<lambda>a. ac_phase a \<noteq> Verified) as" for as
    by (induction as) (simp_all add: settle_action_def)
  have conflicts: "journal_conflicts (settle j) = journal_conflicts j"
    unfolding journal_conflicts_def names same phases length_map ..
  have one: "jsonic_action (st_actions j ! i)" if "i < length (st_actions j)" for i using k(1) that by (simp add: list_all_length)
  show "journal_accepted (settle j)"
    using ok(2) unfolding journal_accepted_def names same conflicts free canonical
    by (simp add: list_all_length settle_validated [OF one])
qed

lemma read_stored_journal:
  assumes "journal_valid url j" "journal_sound double j" "canonicalJson (journal_value j) = Some body" "length body \<le> MAX_STATE_BYTES"
  shows "read_stage2 url double (Some (st_revision j, body)) = Inr (Some (settle j))"
proof -
  have ok: "journal_ok url j" using assms(1) by (simp add: journal_valid_def)
  have v: "readable double (journal_value j)" using journal_readable [OF ok assms(2)] .
  obtain t where "canonicalJson (journal_value j) = Some t" "json_parse double t = Some (sort_keys (journal_value j))"
    "canonicalJson (sort_keys (journal_value j)) = Some t" using v by (rule canonical_read_back)
  moreover have "parseCustomerStage2Journal url (sort_keys (journal_value j)) = Some (settle j)"
    using parse_journal_order [OF ok assms(2)] settle_accepted(1) [OF assms(1,2)] by (simp add: parseCustomerStage2Journal_def)
  moreover have "st_revision (settle j) = st_revision j" by (simp add: settle_def)
  ultimately show ?thesis using assms by (simp add: read_stage2_def)
qed

text \<open>What a row can hold.\<close>

definition stage2_row :: "(string \<Rightarrow> bool) \<Rightarrow> (string \<Rightarrow> jnum) \<Rightarrow> stored_row \<Rightarrow> bool" where
  "stage2_row url double r \<longleftrightarrow> (case r of None \<Rightarrow> True | Some (revision, body) \<Rightarrow>
     \<exists>j. journal_valid url j \<and> journal_sound double j \<and> canonicalJson (journal_value j) = Some body \<and> revision = st_revision j
       \<and> length (encode_text body) \<le> MAX_STATE_BYTES)"

lemma parse_written_journal: "parseCustomerStage2Journal url (journal_value x) = Some y \<longleftrightarrow> requireJournal url x = Inr y"
  by (simp add: requireJournal_def split: option.splits)

lemma write_stage2_True:
  assumes "write_stage2 url expected j r = (Inr True, r')" "journal_sound double j"
  obtains body where "journal_valid url j" "expected = map_option fst r" "st_revision j = (case expected of None \<Rightarrow> 1 | Some n \<Rightarrow> n + 1)"
    "canonicalJson (journal_value j) = Some body" "length (encode_text body) \<le> MAX_STATE_BYTES" "r' = Some (st_revision j, body)"
proof -
  obtain k body where w: "requireJournal url j = Inr k" "canonicalJson (journal_value k) = Some body"
    "length (encode_text body) \<le> MAX_STATE_BYTES" "st_revision k = (case expected of None \<Rightarrow> 1 | Some n \<Rightarrow> n + 1)"
    "sql_write MAX_STATE_BYTES expected (st_revision k) body r = Some (True, r')"
    using assms(1) by (cases "parseCustomerStage2Journal url (journal_value j)")
      (auto simp: write_stage2_def parse_written_journal split: if_splits option.splits prod.splits)
  have "k = j" using w(1) clean_same [OF sound_jsonic [OF assms(2)]] by (simp add: required_Inr)
  then show ?thesis using that w require_valid [OF w(1)] by (auto simp: sql_write_True)
qed

lemma write_stage2_refused: "write_stage2 url expected j r = (res, r') \<Longrightarrow> res \<noteq> Inr True \<Longrightarrow> r' = r"
  by (auto simp: write_stage2_def dest: sql_write_same split: if_splits option.splits prod.splits)

interpretation stage2_port: revision_store "read_stage2 url double" "write_stage2 url" st_revision settle "journal_sound double"
  "stage2_row url double" None
  for url double
proof unfold_locales
  fix r found expected j r'
  assume r: "stage2_row url double r" "journal_sound double j" "read_stage2 url double r = Inr found" "write_stage2 url expected j r = (Inr True, r')"
  obtain body where w: "journal_valid url j" "expected = map_option fst r" "st_revision j = (case expected of None \<Rightarrow> 1 | Some n \<Rightarrow> n + 1)"
    "canonicalJson (journal_value j) = Some body" "length (encode_text body) \<le> MAX_STATE_BYTES" "r' = Some (st_revision j, body)"
    using r(4,2) by (rule write_stage2_True)
  have short: "length u \<le> length (encode_text u)" for u by (rule length_encode_text(1))
  have "map_option fst r = map_option st_revision found"
    using r(3) by (cases r; cases found) (auto simp: read_stage2_def split: option.splits if_splits)
  then show "expected = map_option st_revision found \<and> st_revision j = (case expected of None \<Rightarrow> 1 | Some n \<Rightarrow> n + 1)
      \<and> stage2_row url double r' \<and> read_stage2 url double r' = Inr (Some (settle j))"
    using w r(2) read_stored_journal [OF w(1) r(2) w(4) short [THEN le_trans, OF w(5)]] by (auto simp: stage2_row_def)
qed (use write_stage2_refused sound_settle in \<open>auto simp: stage2_row_def read_stage2_def settle_def\<close>)


section \<open>What is stored\<close>

text \<open>An operation whose values the platform can read back.\<close>

fun readable_input :: "(string \<Rightarrow> jnum) \<Rightarrow> stage2_operation \<Rightarrow> bool" where
  "readable_input double (Prepare_action a now n entries) = readable double (JObj entries)"
| "readable_input double (Submit_action a now n locator) = readable double locator"
| "readable_input double op = True"

definition stage2_initial :: "(string \<Rightarrow> bool) \<Rightarrow> stage2_journal \<Rightarrow> bool" where
  "stage2_initial url j \<longleftrightarrow> (\<exists>now e a identity organization ids subdomain preflight.
     createCustomerStage2Journal url now e a identity organization ids subdomain preflight = Inr j)"

definition stage2_follows :: "(string \<Rightarrow> bool) \<Rightarrow> (string \<Rightarrow> jnum) \<Rightarrow> stage2_journal \<Rightarrow> stage2_journal \<Rightarrow> bool" where
  "stage2_follows url double j k \<longleftrightarrow> (\<exists>op. readable_input double op \<and> stage2_step url op j = Inr k)"

definition stage2_journals :: "(string \<Rightarrow> bool) \<Rightarrow> stage2_journal set" where
  "stage2_journals url = {k. \<exists>j ops. stage2_initial url j \<and> stage2_run url j ops k}"

lemma json_readable:
  "readable double v \<Longrightarrow> json_value v = Some w \<Longrightarrow> readable double w"
  "readable_items double xs \<Longrightarrow> json_items xs = Some ys \<Longrightarrow> readable_items double ys"
  "readable_entries double kvs \<Longrightarrow> json_entries kvs = Some es \<Longrightarrow>
     readable_entries double es \<and> map fst es = filter (\<lambda>k. k \<notin> set RESERVED) (map fst kvs)"
  by (induction v and xs and kvs arbitrary: w and ys and es rule: json_value_json_items_json_entries.induct)
     (auto split: option.splits if_splits)

definition readable_action :: "(string \<Rightarrow> jnum) \<Rightarrow> stage2_action \<Rightarrow> bool" where
  "readable_action double a \<longleftrightarrow> readable double (JObj (ac_record a)) \<and> readable double (ac_locator a)"

lemma sound_readable: "journal_sound double j \<Longrightarrow> list_all (readable_action double) (st_actions j)"
  by (auto simp: journal_sound_def sound_action_def readable_action_def list_all_iff)

lemma required_sound:
  assumes "requireJournal url x = Inr k" "list_all (readable_action double) (st_actions x)"
  shows "journal_sound double k"
proof -
  have k: "k = clean x" "journal_ok url x" using assms(1) by (simp_all add: required_Inr)
  have "readable_action double a \<Longrightarrow> action_ok a \<Longrightarrow> readable_action double (clean_action a)" for a
    using json_readable(1) [of double "JObj (ac_record a)"] json_readable(1) [of double "ac_locator a"]
    by (auto simp: readable_action_def action_ok_def clean_action_def)
  then have "list_all (readable_action double) (st_actions k)" using assms(2) k by (simp add: clean_def journal_ok_def list_all_iff)
  then show ?thesis using require_valid [OF assms(1)]
    by (simp add: journal_sound_def sound_action_def readable_action_def journal_valid_def list_all_iff)
qed

lemma next_sound:
  "next_journal url j change now = Inr k \<Longrightarrow> list_all (readable_action double) (st_actions (change j)) \<Longrightarrow> journal_sound double k"
  using required_sound by (fastforce simp: next_Inr)

lemma updated_readable:
  "list_all (readable_action double) as \<Longrightarrow> readable_action double b \<Longrightarrow> list_all (readable_action double) (as[i := b])"
  using set_update_subset_insert [of as i b] by (auto simp: list_all_iff)

lemma replaced_sound:
  assumes "replaceAction url j i b now = Inr k" "list_all (readable_action double) (st_actions j)" "readable_action double b"
  shows "journal_sound double k"
  using assms(1) unfolding replaceAction_def by (rule next_sound) (simp add: updated_readable assms(2,3))

lemma located_readable:
  "find_action j n = Some (i, a) \<Longrightarrow> list_all (readable_action double) (st_actions j) \<Longrightarrow> readable_action double a"
  using located_action [of j n i a] by (auto simp: list_all_length)

lemma follows_sound:
  assumes "journal_sound double j" "stage2_follows url double j k"
  shows "journal_sound double k"
proof -
  obtain op where op: "readable_input double op" "stage2_step url op j = Inr k" using assms(2) by (auto simp: stage2_follows_def)
  have read: "list_all (readable_action double) (st_actions j')" "journal_sound double j'" if "requireJournal url j = Inr j'" for j'
    using required_sound [OF that sound_readable [OF assms(1)]] sound_readable by blast+
  show ?thesis
  proof (cases op)
    case (Acquire_lease a now e)
    then show ?thesis using op(2) read
      by (auto simp: acquireCustomerStage2Lease_def andThen_Inr split: if_splits dest!: next_sound [where double = double])
  next
    case (Renew_lease a now e)
    then show ?thesis using op(2) read by (auto simp: renewCustomerStage2Lease_def andThen_Inr dest!: next_sound [where double = double])
  next
    case (Release_lease a now)
    then show ?thesis using op(2) read by (auto simp: releaseCustomerStage2Lease_def andThen_Inr dest!: next_sound [where double = double])
  next
    case (Record_cleanup now p reason)
    then show ?thesis using op(2) read by (auto simp: recordCustomerStage2Cleanup_def andThen_Inr dest!: next_sound [where double = double])
  next
    case (Prepare_action a now n entries)
    then show ?thesis using op read
      by (auto simp: prepareCustomerStage2Action_def andThen_Inr readable_action_def dest!: next_sound [where double = double])
  next
    case (Arm_action a now n)
    then obtain j' i b where j: "requireJournal url j = Inr j'" "find_action j' n = Some (i, b)"
      "replaceAction url j' i (b\<lparr>ac_phase := Send_armed, ac_sendArmedAt := Some now\<rparr>) now = Inr k"
      using op(2) by (auto simp: armCustomerStage2Action_def andThen_Inr split: option.splits)
    then show ?thesis using replaced_sound [OF j(3) read(1) [OF j(1)]] located_readable [OF j(2) read(1) [OF j(1)]]
      by (simp add: readable_action_def)
  next
    case (Submit_action a now n locator)
    then obtain j' i b where j: "requireJournal url j = Inr j'" "find_action j' n = Some (i, b)"
      "replaceAction url j' i (b\<lparr>ac_phase := Submitted, ac_locator := locator, ac_submittedAt := Some now\<rparr>) now = Inr k"
      using op(2) by (auto simp: submitCustomerStage2Action_def andThen_Inr split: option.splits)
    then show ?thesis using replaced_sound [OF j(3) read(1) [OF j(1)]] located_readable [OF j(2) read(1) [OF j(1)]] op(1) Submit_action
      by (simp add: readable_action_def)
  next
    case (Verify_action a now n)
    then obtain j' i b where j: "requireJournal url j = Inr j'" "find_action j' n = Some (i, b)"
      "replaceAction url j' i (b\<lparr>ac_phase := Verified, ac_verifiedAt := Some now\<rparr>) now = Inr k"
      using op(2) by (auto simp: verifyCustomerStage2Action_def andThen_Inr split: option.splits)
    then show ?thesis using replaced_sound [OF j(3) read(1) [OF j(1)]] located_readable [OF j(2) read(1) [OF j(1)]]
      by (simp add: readable_action_def)
  next
    case (Complete_journal a now)
    then show ?thesis using op(2) read by (auto simp: completeCustomerStage2Journal_def andThen_Inr dest!: next_sound [where double = double])
  qed
qed

lemma initial_sound: "stage2_initial url j \<Longrightarrow> journal_sound double j"
proof -
  assume "stage2_initial url j"
  then have "sent (st_actions j) = []" using created_journal(2) by (auto simp: stage2_initial_def journal_view_def)
  then show ?thesis by (simp add: sent_def journal_sound_def)
qed

lemma sequential_journals: "sequential settle (stage2_initial url) (stage2_follows url double) h \<Longrightarrow> set h \<subseteq> stage2_journals url"
proof (induction h rule: induct_list012)
  case (2 s)
  then show ?case by (auto simp: stage2_journals_def intro: stage2_run.nothing stage2_run.stored)
next
  case (3 t s h)
  then obtain t' op j ops where "t = settle t'" "stage2_step url op s = Inr t'" "stage2_initial url j" "stage2_run url j ops s"
    by (auto simp: stage2_follows_def stage2_journals_def)
  then have "t \<in> stage2_journals url" by (auto simp: stage2_journals_def intro: stage2_run.operation stage2_run.stored)
  then show ?case using 3 by simp
qed simp

lemma served_journals:
  assumes "served (read_stage2 url double) (write_stage2 url) st_revision settle (stage2_initial url) (stage2_follows url double) None r m h"
  shows "stage2_row url double r" "read_stage2 url double r = Inr (latest h)"
    "sequential settle (stage2_initial url) (stage2_follows url double) h"
  using stage2_port.served_invariant [OF assms] initial_sound follows_sound by blast+

text \<open>
  C12. Concurrent requests make one history of the journal: whatever requests read the row, work on what they read and write the successor,
  the row is readable and holds the last journal of a sequential history, each an operation on the one before, so that
  every stored journal is one that a run of the operations reaches: none loses an action another request recorded.
\<close>

theorem stage2_serialized:
  "{(r, h) | r m h. served (read_stage2 url double) (write_stage2 url) st_revision settle (stage2_initial url)
       (stage2_follows url double) None r m h}
   \<subseteq> {(r, h). read_stage2 url double r = Inr (latest h) \<and> sequential settle (stage2_initial url) (stage2_follows url double) h
       \<and> set h \<subseteq> stage2_journals url}"
  using served_journals sequential_journals by fastforce

text \<open>
  C13. No secret is stored: whatever the requests put into the records and locators, the row is empty or a text of at most the size that is
  allowed which is read as a value none of whose keys, at any depth, is one that names a credential.
\<close>

theorem stage2_stores_no_secret:
  "{r | r m h. served (read_stage2 url double) (write_stage2 url) st_revision settle (stage2_initial url) (stage2_follows url double) None r m h}
   \<subseteq> {r. case r of None \<Rightarrow> True | Some (revision, body) \<Rightarrow> length (encode_text body) \<le> MAX_STATE_BYTES
       \<and> (case json_parse double body of None \<Rightarrow> False | Some v \<Rightarrow> deep_keys v \<subseteq> {k. \<not> forbiddenStoredKey k})}"
proof clarify
  fix r :: stored_row and m :: "'w \<Rightarrow> stage2_journal option" and h
  assume "served (read_stage2 url double) (write_stage2 url) st_revision settle (stage2_initial url) (stage2_follows url double) None r m h"
  then have row: "stage2_row url double r" by (rule served_journals)
  show "case r of None \<Rightarrow> True | Some (revision, body) \<Rightarrow> length (encode_text body) \<le> MAX_STATE_BYTES
       \<and> (case json_parse double body of None \<Rightarrow> False | Some v \<Rightarrow> deep_keys v \<subseteq> {k. \<not> forbiddenStoredKey k})"
  proof (cases r)
    case (Some x)
    then obtain j body where j: "x = (st_revision j, body)" "journal_valid url j" "journal_sound double j"
      "canonicalJson (journal_value j) = Some body" "length (encode_text body) \<le> MAX_STATE_BYTES"
      using row by (auto simp: stage2_row_def split: prod.splits)
    obtain t where t: "canonicalJson (journal_value j) = Some t" "json_parse double t = Some (sort_keys (journal_value j))"
      using canonical_read_back [OF journal_readable [OF _ j(3)]] j(2) by (auto simp: journal_valid_def)
    have "deep_keys (journal_value j) \<subseteq> {k. \<not> forbiddenStoredKey k}"
      using secret_free [OF jsonic_journal [OF sound_jsonic [OF j(3)]]] j(2) by (simp add: journal_valid_def journal_accepted_def)
    then show ?thesis using Some j t by (simp add: deep_sort_keys)
  qed simp
qed

end
