(* ===== verification/Store_Data.thy ===== *)
theory Store_Data
  imports Json_Roundtrip Programs
begin

text \<open>
  The data of \<^verbatim>\<open>src/receipt-store.ts\<close>: its errors, the paths it touches, its calls to the file system,
  and the metadata of a receipt lock with its parser.

  A path is given by its role (\<open>store_path\<close>); \<open>path_parts\<close> are its components and \<open>path_parts_inject\<close>
  shows that different roles never name one file. An open file is named by the path it was opened on,
  as an operation has at most one handle on a path. An adapter that answers with something else than
  the call promises makes the next line throw a \<^verbatim>\<open>TypeError\<close> (\<open>stats_of\<close> and the like).
\<close>

section \<open>Errors\<close>

text \<open>
  What can be thrown: a \<^verbatim>\<open>ReceiptStoreError\<close>, or any other value, of which the code only sees
  whether it is an \<^verbatim>\<open>instanceof Error\<close> and what \<^verbatim>\<open>fileSystemErrorSchema\<close> reads in it: nothing, or an
  optional code.
\<close>

datatype store_failure = Store_error string | Thrown bool "string option option"

abbreviation type_error :: store_failure where
  "type_error \<equiv> Thrown True (Some None)"

definition CODE :: pattern where
  "CODE = seqs [Start, Run (\<lambda>c. is_lower c \<or> is_upper c \<or> is_digit c \<or> c = CHR ''_'') 1 None, End]"

definition FS_CODE :: pattern where
  "FS_CODE = seqs [Start, Run (\<lambda>c. is_upper c \<or> is_digit c \<or> c = CHR ''_'') 1 None, End]"

definition ReceiptStoreError :: "string \<Rightarrow> store_failure" where
  "ReceiptStoreError code = Store_error (if test CODE code then code else ''store_error'')"

fun is_store_error :: "store_failure \<Rightarrow> bool" where
  "is_store_error (Store_error code) = True"
| "is_store_error (Thrown e p) = False"

fun is_error :: "store_failure \<Rightarrow> bool" where
  "is_error (Store_error code) = True"
| "is_error (Thrown e p) = e"

text \<open>\<^verbatim>\<open>v.safeParse(fileSystemErrorSchema, error)\<close>.\<close>

fun parsed :: "store_failure \<Rightarrow> string option option" where
  "parsed (Store_error code) = Some (Some code)"
| "parsed (Thrown e p) = p"

text \<open>\<^verbatim>\<open>parsed.success ? parsed.output : new Error(...)\<close>: a plain copy, no longer a \<^verbatim>\<open>ReceiptStoreError\<close>.\<close>

definition plain :: "store_failure \<Rightarrow> store_failure" where
  "plain error = (case parsed error of Some code \<Rightarrow> Thrown False (Some code) | None \<Rightarrow> Thrown True (Some None))"

definition isMissing :: "store_failure \<Rightarrow> bool" where
  "isMissing error \<longleftrightarrow> parsed error = Some (Some ''ENOENT'')"

definition isUnsupportedSync :: "store_failure \<Rightarrow> bool" where
  "isUnsupportedSync error \<longleftrightarrow>
     parsed error \<in> {Some (Some ''EINVAL''), Some (Some ''ENOSYS''), Some (Some ''ENOTSUP''), Some (Some ''EOPNOTSUPP'')}"

definition safeStoreError :: "store_failure \<Rightarrow> string \<Rightarrow> store_failure" where
  "safeStoreError error fallbackCode =
     (if is_store_error error then error
      else if parsed error = Some (Some ''ELOOP'') then ReceiptStoreError ''unsafe_target''
      else ReceiptStoreError (case parsed error of
          Some (Some code) \<Rightarrow> if test FS_CODE code then toLowerCase code else fallbackCode
        | _ \<Rightarrow> fallbackCode))"

section \<open>Paths\<close>

datatype store_path = Directory | Target | Lock | Lock_entry string | Temporary string

text \<open>POSIX \<^verbatim>\<open>path.resolve\<close>: the components of an absolute path.\<close>

fun normal_parts :: "string list \<Rightarrow> string list \<Rightarrow> string list" where
  "normal_parts acc [] = acc"
| "normal_parts acc (p # ps) =
     (if p = [] \<or> p = ''.'' then normal_parts acc ps
      else if p = ''..'' then normal_parts (butlast acc) ps
      else normal_parts (acc @ [p]) ps)"

definition resolve :: "string list \<Rightarrow> string \<Rightarrow> string list" where
  "resolve cwd filePath = normal_parts (if is_prefix_of ''/'' filePath then [] else cwd) (split_at CHR ''/'' filePath)"

text \<open>What the process provides: working directory, its identifiers, and the platform's reading of numerals.\<close>

record process_info =
  ps_cwd :: "string list"
  ps_owner :: string
  ps_pid :: int
  ps_double :: "string \<Rightarrow> jnum"

record file_store =
  fs_process :: process_info
  fs_directory :: "string list"
  fs_basename :: string
  fs_default_probe :: bool

definition path_parts :: "file_store \<Rightarrow> store_path \<Rightarrow> string list" where
  "path_parts store p = fs_directory store @ (case p of
       Directory \<Rightarrow> []
     | Target \<Rightarrow> [fs_basename store]
     | Lock \<Rightarrow> [''.'' @ fs_basename store @ ''.lock'']
     | Lock_entry entry \<Rightarrow> [''.'' @ fs_basename store @ ''.lock'', entry]
     | Temporary uuid \<Rightarrow> [''.'' @ fs_basename store @ ''.tmp-'' @ int_text (ps_pid (fs_process store)) @ ''-'' @ uuid])"

lemma path_parts_inject: "path_parts store p = path_parts store q \<longleftrightarrow> p = q"
proof -
  have "length b < length (''.'' @ b @ x)" for b x :: string by simp
  then have ne: "b \<noteq> ''.'' @ b @ x" "''.'' @ b @ x \<noteq> b" for b x :: string by (metis less_irrefl)+
  show ?thesis
    using ne [of "fs_basename store"] by (cases p; cases q) (auto simp: path_parts_def)
qed

text \<open>
  The third argument tells of the option \<open>processProbe\<close> whether it is left to its default, a function,
  or something else; an \<open>fs\<close> adapter given replaces the environment of the calls.
\<close>

datatype probe_option = Default_probe | Given_probe | Not_a_function

definition createFileReceiptStore :: "process_info \<Rightarrow> jval \<Rightarrow> jval \<Rightarrow> probe_option \<Rightarrow> store_failure + file_store" where
  "createFileReceiptStore process filePath fs processProbe = (case filePath of
     JStr p \<Rightarrow>
       if js_trim p = [] \<or> CHR 0x00 \<in> set p then Inl type_error
       else if fs \<noteq> Undef \<and> \<not> isObject fs then Inl type_error
       else if processProbe = Not_a_function then Inl type_error
       else let target = resolve (ps_cwd process) p in
         Inr \<lparr>fs_process = process, fs_directory = butlast target,
              fs_basename = (if target = [] then [] else last target), fs_default_probe = (processProbe = Default_probe)\<rparr>
   | _ \<Rightarrow> Inl type_error)"

section \<open>Calls\<close>

datatype file_kind = Regular | Folder | Symbolic_link | Special

record file_stat =
  st_kind :: file_kind
  st_mode :: nat
  st_dev :: jnum
  st_ino :: jnum
  st_size :: int
  st_mtime :: jnum

text \<open>The modes \<^verbatim>\<open>0o600\<close> and \<^verbatim>\<open>0o700\<close>.\<close>

definition OWNER_ONLY_MODE :: nat where
  "OWNER_ONLY_MODE = 384"

definition OWNER_ONLY_DIRECTORY_MODE :: nat where
  "OWNER_ONLY_DIRECTORY_MODE = 448"

text \<open>
  Opening: for reading, without following a symbolic link or (to synchronise a directory) with it, or
  creating a file that must not exist. \<open>Outside\<close> is what the caller's operation does under the lock.
\<close>

datatype open_mode = Reading | Reading_follow | Creating nat

datatype 'o store_call =
    Mkdir store_path nat | Chmod store_path nat | Lstat store_path | Readdir store_path
  | Unlink store_path | Rmdir store_path | Rename store_path store_path
  | Open store_path open_mode | Fwrite store_path string | Fchmod store_path nat | Fsync store_path
  | Fclose store_path | Fstat store_path | Fread store_path
  | Kill int | Probe int | Random_uuid | Now | Outside 'o

datatype reply = Nothing | Stats file_stat | Text string | Names "string list" | Value jval

type_synonym ('o, 'x) store_action = "('o store_call, store_failure + reply, store_failure, 'x) action"

type_synonym 'o store_trace = "('o store_call, store_failure + reply) trace"

fun stats_of :: "reply \<Rightarrow> store_failure + file_stat" where
  "stats_of (Stats s) = Inr s"
| "stats_of _ = Inl type_error"

fun text_of :: "reply \<Rightarrow> store_failure + string" where
  "text_of (Text t) = Inr t"
| "text_of _ = Inl type_error"

fun names_of :: "reply \<Rightarrow> store_failure + string list" where
  "names_of (Names ns) = Inr ns"
| "names_of _ = Inl type_error"

definition perform :: "'o store_call \<Rightarrow> ('o, unit) store_action" where
  "perform c = seq (call c) (\<lambda>_. return ())"

definition expecting :: "(reply \<Rightarrow> store_failure + 'x) \<Rightarrow> 'o store_call \<Rightarrow> ('o, 'x) store_action" where
  "expecting f c = seq (call c) (\<lambda>v. lift (f v))"

section \<open>Lock metadata\<close>

definition id_char :: "char \<Rightarrow> bool" where
  "id_char c \<longleftrightarrow> is_alnum c \<or> c \<in> {CHR ''_'', CHR ''.'', CHR '':'', CHR ''-''}"

definition SAFE_LOCK_ID :: pattern where
  "SAFE_LOCK_ID = seqs [Start, Cls is_alnum, Run id_char 0 (Some 127), End]"

definition LOCK_ENTRY :: pattern where
  "LOCK_ENTRY = seqs [Start, Cls is_alnum, Run id_char 0 (Some 127), Lit ''.json'', End]"

definition STALE_LOCK_RECOVERY_CONFIRMATION :: string where
  "STALE_LOCK_RECOVERY_CONFIRMATION = ''remove-inspected-stale-receipt-lock''"

text \<open>The version is always \<^verbatim>\<open>LOCK_VERSION\<close>, 1.\<close>

record lock_metadata =
  lm_lockId :: string
  lm_ownerId :: string
  lm_pid :: int
  lm_createdAt :: string
  lm_operationId :: string

definition metadata_value :: "lock_metadata \<Rightarrow> jval" where
  "metadata_value m = JObj [(''version'', jint 1), (''lockId'', JStr (lm_lockId m)), (''ownerId'', JStr (lm_ownerId m)),
     (''pid'', jint (lm_pid m)), (''createdAt'', JStr (lm_createdAt m)), (''operationId'', JStr (lm_operationId m))]"

subsection \<open>Instants\<close>

text \<open>
  \<open>iso_instant s\<close>: \<^verbatim>\<open>new Date(s)\<close> is a time and its \<^verbatim>\<open>toISOString()\<close> is \<open>s\<close>, so \<open>s\<close> is the one ISO 8601 text of
  an instant in ECMAScript's range: years 0 to 9999 with four digits, others with a sign and six.
\<close>

definition number_at :: "string \<Rightarrow> nat \<Rightarrow> nat \<Rightarrow> nat option" where
  "number_at s i n = (let d = take n (drop i s) in if length d = n \<and> list_all is_digit d then Some (digits_value d) else None)"

definition month_days :: "int \<Rightarrow> nat \<Rightarrow> nat" where
  "month_days y m = (if m = 2 then if y mod 4 = 0 \<and> (y mod 100 \<noteq> 0 \<or> y mod 400 = 0) then 29 else 28
     else if m \<in> {4, 6, 9, 11} then 30 else 31)"

definition iso_rest :: "int \<Rightarrow> string \<Rightarrow> bool" where
  "iso_rest year r \<longleftrightarrow> length r = 20 \<and> r ! 0 = CHR ''-'' \<and> r ! 3 = CHR ''-'' \<and> r ! 6 = CHR ''T'' \<and> r ! 9 = CHR '':''
     \<and> r ! 12 = CHR '':'' \<and> r ! 15 = CHR ''.'' \<and> r ! 19 = CHR ''Z''
     \<and> (case (number_at r 1 2, number_at r 4 2, number_at r 7 2, number_at r 10 2, number_at r 13 2, number_at r 16 3) of
          (Some mo, Some d, Some h, Some mi, Some s, Some ms) \<Rightarrow>
            1 \<le> mo \<and> mo \<le> 12 \<and> 1 \<le> d \<and> d \<le> month_days year mo \<and> h < 24 \<and> mi < 60 \<and> s < 60
        | _ \<Rightarrow> False)"

definition iso_instant :: "string \<Rightarrow> bool" where
  "iso_instant s \<longleftrightarrow> (case s of [] \<Rightarrow> False | c # r \<Rightarrow>
     if c = CHR ''+'' then (case number_at s 1 6 of None \<Rightarrow> False | Some y \<Rightarrow>
         10000 \<le> y \<and> iso_rest (int y) (drop 7 s)
         \<and> (y < 275760 \<or> y = 275760 \<and> compareText (drop 7 s) ''-09-13T00:00:00.000Z'' \<le> 0))
     else if c = CHR ''-'' then (case number_at s 1 6 of None \<Rightarrow> False | Some y \<Rightarrow>
         0 < y \<and> iso_rest (- int y) (drop 7 s)
         \<and> (y < 271821 \<or> y = 271821 \<and> compareText ''-04-20T00:00:00.000Z'' (drop 7 s) \<le> 0))
     else (case number_at s 0 4 of None \<Rightarrow> False | Some y \<Rightarrow> iso_rest (int y) (drop 4 s)))"

subsection \<open>Parsing\<close>

definition metadata_fields :: "string list" where
  "metadata_fields = [''createdAt'', ''lockId'', ''operationId'', ''ownerId'', ''pid'', ''version'']"

text \<open>\<^verbatim>\<open>v.parse(boundaryValueSchema, value)\<close> copies every JSON value; the strict schema then wants just these fields.\<close>

definition parseLockMetadata :: "(string \<Rightarrow> jnum) \<Rightarrow> string \<Rightarrow> lock_metadata option" where
  "parseLockMetadata double raw = (case json_parse double raw of
     None \<Rightarrow> None
   | Some parsed_value \<Rightarrow>
       let value = drop_prototype parsed_value in
       if \<not> isObject value \<or> unknown_keys value metadata_fields \<noteq> [] then None
       else (case (field value ''createdAt'', field value ''lockId'', field value ''operationId'', field value ''ownerId'',
               field value ''pid'', field value ''version'') of
           (JStr createdAt, JStr lockId, JStr operationId, JStr ownerId, JNum pid, JNum version) \<Rightarrow>
             if version \<noteq> JInt 1 then None
             else (case safe_int (JNum pid) of
                 None \<Rightarrow> None
               | Some p \<Rightarrow>
                   if p \<le> 0 then None
                   else if \<not> test SAFE_LOCK_ID lockId \<or> \<not> test SAFE_LOCK_ID ownerId then None
                   else if \<not> test SAFE_OPERATION_ID operationId then None
                   else if \<not> iso_instant createdAt then None
                   else Some \<lparr>lm_lockId = lockId, lm_ownerId = ownerId, lm_pid = p, lm_createdAt = createdAt,
                              lm_operationId = operationId\<rparr>)
         | _ \<Rightarrow> None))"

text \<open>What every parsed metadata satisfies.\<close>

definition valid_metadata :: "lock_metadata \<Rightarrow> bool" where
  "valid_metadata m \<longleftrightarrow> is_safe_integer (lm_pid m) \<and> 0 < lm_pid m \<and> test SAFE_LOCK_ID (lm_lockId m)
     \<and> test SAFE_LOCK_ID (lm_ownerId m) \<and> test SAFE_OPERATION_ID (lm_operationId m) \<and> iso_instant (lm_createdAt m)"

text \<open>The evidence of a recovery request, as given, against metadata found on disk.\<close>

definition sameEvidence :: "jval \<Rightarrow> lock_metadata \<Rightarrow> bool" where
  "sameEvidence left right \<longleftrightarrow> field left ''version'' = jint 1 \<and> field left ''lockId'' = JStr (lm_lockId right)
     \<and> field left ''ownerId'' = JStr (lm_ownerId right) \<and> field left ''pid'' = jint (lm_pid right)
     \<and> field left ''createdAt'' = JStr (lm_createdAt right) \<and> field left ''operationId'' = JStr (lm_operationId right)"

definition validateRecoveryInput :: "(string \<Rightarrow> jnum) \<Rightarrow> jval \<Rightarrow> store_failure + unit" where
  "validateRecoveryInput double input =
     (if \<not> isObject input then Inl (ReceiptStoreError ''invalid_recovery_input'')
      else if js_sort compareText (keys input) \<noteq> [''confirmation'', ''evidence'']
      then Inl (ReceiptStoreError ''invalid_recovery_input'')
      else case json_stringify (field input ''evidence'') of
          None \<Rightarrow> Inl (ReceiptStoreError ''invalid_recovery_input'')
        | Some raw \<Rightarrow> (case parseLockMetadata double raw of
              None \<Rightarrow> Inl (ReceiptStoreError ''invalid_recovery_input'')
            | Some evidence \<Rightarrow> Inr ()))"

section \<open>Inspections\<close>

record file_identity =
  fi_dev :: jnum
  fi_ino :: jnum
  fi_size :: int
  fi_mtime :: jnum

definition fileIdentity :: "file_stat \<Rightarrow> file_identity" where
  "fileIdentity stat = \<lparr>fi_dev = st_dev stat, fi_ino = st_ino stat, fi_size = st_size stat, fi_mtime = st_mtime stat\<rparr>"

datatype identity = File_identity file_identity | Lock_file_identity file_identity file_identity

fun sameFileIdentity :: "identity \<Rightarrow> identity \<Rightarrow> bool" where
  "sameFileIdentity (Lock_file_identity d m) (Lock_file_identity d' m') = (d = d' \<and> m = m')"
| "sameFileIdentity (File_identity f) (File_identity f') = (f = f')"
| "sameFileIdentity _ _ = False"

datatype lock_status = Ambiguous | Live | Stale_candidate

text \<open>A valid inspection carries the metadata, which is also its evidence, and the entry of the lock it was read from.\<close>

datatype inspection =
    Unsafe_lock string identity
  | Valid_lock lock_status lock_metadata identity string

fun inspection_status :: "inspection \<Rightarrow> lock_status" where
  "inspection_status (Unsafe_lock reason f) = Ambiguous"
| "inspection_status (Valid_lock status m f entry) = status"

definition ambiguousInspection :: "string \<Rightarrow> file_identity \<Rightarrow> inspection" where
  "ambiguousInspection reason f = Unsafe_lock reason (File_identity f)"

text \<open>\<open>mode & 0o077\<close> are the low six bits.\<close>

definition open_to_others :: "file_stat \<Rightarrow> bool" where
  "open_to_others stat \<longleftrightarrow> st_mode stat mod 64 \<noteq> 0"

end
