(* ===== verification/Receipt_Store.thy ===== *)
theory Receipt_Store
  imports Store_Data
begin

text \<open>
  The operations of \<^verbatim>\<open>src/receipt-store.ts\<close> as programs over the calls of \<open>Store_Data\<close>. The argument
  \<open>operation\<close> of \<open>withExclusiveLock\<close> is itself a program, which may make any call.
\<close>

section \<open>Handles and synchronisation\<close>

definition closeQuietly :: "store_path \<Rightarrow> ('o, unit) store_action" where
  "closeQuietly p = seq (attempt (perform (Fclose p))) (\<lambda>_. return ())"

definition unlinkQuietly :: "store_path \<Rightarrow> ('o, unit) store_action" where
  "unlinkQuietly p = seq (attempt (perform (Unlink p))) (\<lambda>_. return ())"

definition syncFile :: "store_path \<Rightarrow> ('o, unit) store_action" where
  "syncFile p = catch (perform (Fsync p)) (\<lambda>error. if isUnsupportedSync error then return () else throw error)"

text \<open>
  \<^verbatim>\<open>try { handle = await io.open(p, mode); body } catch (error) { handler } finally { await
  closeQuietly(handle); }\<close>, where the handler makes no call.
\<close>

definition with_handle :: "store_path \<Rightarrow> open_mode \<Rightarrow> ('o, 'x) store_action \<Rightarrow> (store_failure \<Rightarrow> store_failure + 'x)
    \<Rightarrow> ('o, 'x) store_action" where
  "with_handle p mode body handler =
     seq (attempt (perform (Open p mode))) (\<lambda>opened. case opened of
       Inl error \<Rightarrow> lift (handler error)
     | Inr _ \<Rightarrow> seq (attempt body) (\<lambda>result. seq (closeQuietly p) (\<lambda>_.
         lift (case result of Inl error \<Rightarrow> handler error | Inr x \<Rightarrow> Inr x))))"

definition syncDirectoryIfPractical :: "('o, unit) store_action" where
  "syncDirectoryIfPractical = with_handle Directory Reading_follow (perform (Fsync Directory)) (\<lambda>_. Inr ())"

definition assertRegularOrMissing :: "string \<Rightarrow> ('o, bool) store_action" where
  "assertRegularOrMissing fallbackCode =
     seq (attempt (expecting stats_of (Lstat Target))) (\<lambda>stat. case stat of
       Inl error \<Rightarrow> if isMissing (plain error) then return False else throw (safeStoreError (plain error) fallbackCode)
     | Inr s \<Rightarrow> if st_kind s \<noteq> Regular then throw (ReceiptStoreError ''unsafe_target'') else return True)"

section \<open>Reading and writing the receipt\<close>

definition read_failure :: "store_failure \<Rightarrow> store_failure + string option" where
  "read_failure error = (if isMissing (plain error) then Inr None else Inl (safeStoreError (plain error) ''read_failed''))"

definition read_target :: "('o, string option) store_action" where
  "read_target = with_handle Target Reading
     (seq (expecting stats_of (Fstat Target)) (\<lambda>stat.
      seq (refuse_if (st_kind stat \<noteq> Regular) (ReceiptStoreError ''unsafe_target'')) (\<lambda>_.
      seq (expecting text_of (Fread Target)) (\<lambda>raw. return (Some raw)))))
     read_failure"

definition read :: "file_store \<Rightarrow> ('o, jval) store_action" where
  "read store =
     seq (assertRegularOrMissing ''read_failed'') (\<lambda>exists.
     if \<not> exists then return JNull
     else seq read_target (\<lambda>raw. case raw of
         None \<Rightarrow> return JNull
       | Some text \<Rightarrow> (case json_parse (ps_double (fs_process store)) text of
             None \<Rightarrow> throw (ReceiptStoreError ''invalid_json'')
           | Some value \<Rightarrow> return (drop_prototype value))))"

text \<open>The part of the writing that is undone by removing the temporary file, and what follows the renaming.\<close>

definition write_temporary :: "store_path \<Rightarrow> string \<Rightarrow> ('o, unit) store_action" where
  "write_temporary temporary serialized =
     seq (perform (Fwrite temporary serialized)) (\<lambda>_.
     seq (perform (Fchmod temporary OWNER_ONLY_MODE)) (\<lambda>_.
     seq (syncFile temporary) (\<lambda>_.
     perform (Fclose temporary))))"

definition replace_target :: "store_path \<Rightarrow> ('o, unit) store_action" where
  "replace_target temporary =
     seq (assertRegularOrMissing ''write_failed'') (\<lambda>_. perform (Rename temporary Target))"

definition finish_write :: "('o, unit) store_action" where
  "finish_write = seq (perform (Chmod Target OWNER_ONLY_MODE)) (\<lambda>_. syncDirectoryIfPractical)"

definition write_failure :: "store_failure \<Rightarrow> store_failure" where
  "write_failure error = safeStoreError (plain error) ''write_failed''"

definition write_through :: "store_path \<Rightarrow> string \<Rightarrow> ('o, unit) store_action" where
  "write_through temporary serialized =
     seq (attempt (perform (Open temporary (Creating OWNER_ONLY_MODE)))) (\<lambda>opened. case opened of
       Inl error \<Rightarrow> seq (unlinkQuietly temporary) (\<lambda>_. throw (write_failure error))
     | Inr _ \<Rightarrow> seq (attempt (write_temporary temporary serialized)) (\<lambda>written. case written of
         Inl error \<Rightarrow> seq (closeQuietly temporary) (\<lambda>_. seq (unlinkQuietly temporary) (\<lambda>_. throw (write_failure error)))
       | Inr _ \<Rightarrow> seq (attempt (replace_target temporary)) (\<lambda>renamed. case renamed of
           Inl error \<Rightarrow> seq (unlinkQuietly temporary) (\<lambda>_. throw (write_failure error))
         | Inr _ \<Rightarrow> catch finish_write (\<lambda>error. throw (write_failure error)))))"

definition writeAtomic :: "jval \<Rightarrow> ('o, unit) store_action" where
  "writeAtomic receipt = (case json_stringify receipt of
     None \<Rightarrow> throw (ReceiptStoreError ''invalid_json'')
   | Some serialized \<Rightarrow>
       seq (assertRegularOrMissing ''write_failed'') (\<lambda>_.
       seq (expecting text_of Random_uuid) (\<lambda>uuid. write_through (Temporary uuid) serialized)))"

section \<open>The lock\<close>

definition createLockMetadata :: "file_store \<Rightarrow> jval \<Rightarrow> ('o, lock_metadata) store_action" where
  "createLockMetadata store options =
     (let operationId = (case field options ''operationId'' of
            Undef \<Rightarrow> JStr ''receipt-mutation'' | JNull \<Rightarrow> JStr ''receipt-mutation'' | v \<Rightarrow> v) in
      if \<not> isObject options \<or> unknown_keys options [''operationId''] \<noteq> [] then throw type_error
      else (case operationId of
          JStr i \<Rightarrow>
            if \<not> test SAFE_OPERATION_ID i then throw type_error
            else seq (expecting text_of Random_uuid) (\<lambda>lockId.
              seq (expecting text_of Now) (\<lambda>createdAt.
              return \<lparr>lm_lockId = lockId, lm_ownerId = ps_owner (fs_process store), lm_pid = ps_pid (fs_process store),
                      lm_createdAt = createdAt, lm_operationId = i\<rparr>))
        | _ \<Rightarrow> throw type_error))"

definition removeLockDirectory :: "string \<Rightarrow> ('o, unit) store_action" where
  "removeLockDirectory entry =
     seq (catch (perform (Unlink (Lock_entry entry))) (\<lambda>error.
        if isMissing (plain error) then throw (ReceiptStoreError ''lock_replaced'')
        else throw (safeStoreError (plain error) ''lock_release_failed''))) (\<lambda>_.
     catch (perform (Rmdir Lock)) (\<lambda>error.
        if isMissing (plain error) \<or> parsed error \<in> {Some (Some ''ENOTEMPTY''), Some (Some ''EEXIST'')}
        then throw (ReceiptStoreError ''lock_replaced'')
        else throw (safeStoreError (plain error) ''lock_release_failed'')))"

definition lock_failure :: "store_failure \<Rightarrow> store_failure" where
  "lock_failure error =
     (if parsed error = Some (Some ''EEXIST'') then ReceiptStoreError ''locked''
      else if is_error error then error else ReceiptStoreError ''operation_failed'')"

text \<open>The \<^verbatim>\<open>finally\<close> block once the directory is acquired, and the end of \<open>withExclusiveLock\<close>.\<close>

definition release_failure :: "store_failure \<Rightarrow> store_failure option" where
  "release_failure error =
     (if is_store_error error then Some error
      else if isMissing (plain error) then None else Some (safeStoreError (plain error) ''lock_release_failed''))"

definition release :: "bool \<Rightarrow> string \<Rightarrow> store_failure + 'x \<Rightarrow> ('o, 'x) store_action" where
  "release opened entry outcome =
     seq (if opened then closeQuietly (Lock_entry entry) else return ()) (\<lambda>_.
     seq (attempt (removeLockDirectory entry)) (\<lambda>removed.
     seq syncDirectoryIfPractical (\<lambda>_.
     case outcome of
       Inl primaryError \<Rightarrow> throw primaryError
     | Inr value \<Rightarrow> (case removed of
           Inr _ \<Rightarrow> return value
         | Inl error \<Rightarrow> (case release_failure error of None \<Rightarrow> return value | Some e \<Rightarrow> throw e)))))"

definition catch_lock :: "store_failure + 'x \<Rightarrow> store_failure + 'x" where
  "catch_lock r = (case r of Inl error \<Rightarrow> Inl (lock_failure error) | Inr x \<Rightarrow> Inr x)"

definition publish_metadata :: "string \<Rightarrow> lock_metadata \<Rightarrow> ('o, unit) store_action" where
  "publish_metadata entry metadata =
     seq (perform (Fwrite (Lock_entry entry) (case json_stringify (metadata_value metadata) of None \<Rightarrow> [] | Some t \<Rightarrow> t))) (\<lambda>_.
     seq (perform (Fchmod (Lock_entry entry) OWNER_ONLY_MODE)) (\<lambda>_.
     seq (syncFile (Lock_entry entry)) (\<lambda>_.
     syncDirectoryIfPractical)))"

definition open_entry :: "string \<Rightarrow> ('o, unit) store_action" where
  "open_entry entry = seq (perform (Chmod Lock OWNER_ONLY_DIRECTORY_MODE)) (\<lambda>_. perform (Open (Lock_entry entry) (Creating OWNER_ONLY_MODE)))"

definition under_lock :: "string \<Rightarrow> lock_metadata \<Rightarrow> ('o, 'x) store_action \<Rightarrow> ('o, 'x) store_action" where
  "under_lock entry metadata operation =
     seq (attempt (open_entry entry)) (\<lambda>opened. case opened of
       Inl error \<Rightarrow> release False entry (Inl (lock_failure error))
     | Inr _ \<Rightarrow> seq (attempt (seq (publish_metadata entry metadata) (\<lambda>_. operation))) (\<lambda>result.
         release True entry (catch_lock result)))"

definition withExclusiveLock :: "file_store \<Rightarrow> ('o, 'x) store_action \<Rightarrow> jval \<Rightarrow> ('o, 'x) store_action" where
  "withExclusiveLock store operation options =
     seq (createLockMetadata store (if options = Undef then JObj [] else options)) (\<lambda>metadata.
     seq (attempt (perform (Mkdir Lock OWNER_ONLY_DIRECTORY_MODE))) (\<lambda>made. case made of
       Inl error \<Rightarrow> throw (lock_failure error)
     | Inr _ \<Rightarrow> under_lock (lm_lockId metadata @ ''.json'') metadata operation))"

section \<open>Inspecting the lock\<close>

text \<open>\<^verbatim>\<open>probeProcess\<close> sends the null signal.\<close>

definition probeProcess :: "int \<Rightarrow> ('o, string) store_action" where
  "probeProcess pid = seq (attempt (perform (Kill pid))) (\<lambda>killed. return (case killed of
     Inr _ \<Rightarrow> ''live''
   | Inl error \<Rightarrow> if parsed error = Some (Some ''ESRCH'') then ''not_running''
       else if parsed error = Some (Some ''EPERM'') then ''live'' else ''ambiguous''))"

definition probed_status :: "store_failure + reply \<Rightarrow> lock_status" where
  "probed_status a = (case a of
     Inr (Value state) \<Rightarrow> if state = JStr ''live'' then Live else if state = JStr ''not_running'' then Stale_candidate else Ambiguous
   | _ \<Rightarrow> Ambiguous)"

definition lock_owner_status :: "file_store \<Rightarrow> int \<Rightarrow> ('o, lock_status) store_action" where
  "lock_owner_status store pid =
     (if fs_default_probe store then seq (probeProcess pid) (\<lambda>state. return (probed_status (Inr (Value (JStr state)))))
      else seq (attempt (call (Probe pid))) (\<lambda>a. return (probed_status a)))"

definition MAX_LOCK_BYTES :: int where
  "MAX_LOCK_BYTES = 4096"

definition inspect_entry :: "file_store \<Rightarrow> file_stat \<Rightarrow> string \<Rightarrow> ('o, inspection option) store_action" where
  "inspect_entry store pathStat entry =
     seq (expecting stats_of (Fstat (Lock_entry entry))) (\<lambda>stat.
     if st_kind stat \<noteq> Regular then return (Some (ambiguousInspection ''unsafe_lock_target'' (fileIdentity stat)))
     else if st_size stat > MAX_LOCK_BYTES \<or> open_to_others stat
     then return (Some (ambiguousInspection ''invalid_lock_metadata'' (fileIdentity stat)))
     else seq (expecting text_of (Fread (Lock_entry entry))) (\<lambda>raw.
       case parseLockMetadata (ps_double (fs_process store)) raw of
         None \<Rightarrow> return (Some (ambiguousInspection ''invalid_lock_metadata'' (fileIdentity stat)))
       | Some metadata \<Rightarrow>
           if entry \<noteq> lm_lockId metadata @ ''.json''
           then return (Some (ambiguousInspection ''invalid_lock_metadata'' (fileIdentity stat)))
           else seq (lock_owner_status store (lm_pid metadata)) (\<lambda>status.
             return (Some (Valid_lock status metadata (Lock_file_identity (fileIdentity pathStat) (fileIdentity stat)) entry)))))"

text \<open>A file that disappeared meanwhile is a lock that was released.\<close>

definition inspection_failure :: "store_failure \<Rightarrow> store_failure + inspection option" where
  "inspection_failure error =
     (if isMissing (plain error) then Inr None else Inl (safeStoreError (plain error) ''lock_inspection_failed''))"

definition entry_failure :: "file_stat \<Rightarrow> store_failure \<Rightarrow> store_failure + inspection option" where
  "entry_failure pathStat error =
     (if isMissing (plain error) then Inr None
      else if parsed error = Some (Some ''ELOOP'') then Inr (Some (ambiguousInspection ''unsafe_lock_target'' (fileIdentity pathStat)))
      else Inl (safeStoreError (plain error) ''lock_inspection_failed''))"

definition inspectLockDirectory :: "file_store \<Rightarrow> ('o, inspection option) store_action" where
  "inspectLockDirectory store =
     seq (attempt (expecting stats_of (Lstat Lock))) (\<lambda>found. case found of
       Inl error \<Rightarrow> lift (inspection_failure error)
     | Inr pathStat \<Rightarrow>
         if st_kind pathStat \<noteq> Folder \<or> open_to_others pathStat
         then return (Some (ambiguousInspection ''unsafe_lock_target'' (fileIdentity pathStat)))
         else seq (attempt (expecting names_of (Readdir Lock))) (\<lambda>listed. case listed of
             Inl error \<Rightarrow> lift (inspection_failure error)
           | Inr entries \<Rightarrow> (case entries of
                 [entry] \<Rightarrow>
                   if \<not> test LOCK_ENTRY entry
                   then return (Some (ambiguousInspection ''invalid_lock_metadata'' (fileIdentity pathStat)))
                   else with_handle (Lock_entry entry) Reading (inspect_entry store pathStat entry) (entry_failure pathStat)
               | _ \<Rightarrow> return (Some (ambiguousInspection ''invalid_lock_metadata'' (fileIdentity pathStat))))))"

text \<open>The public part: status, metadata with evidence, and reason.\<close>

record lock_inspection =
  li_status :: lock_status
  li_metadata :: "lock_metadata option"
  li_reason :: "string option"

fun public :: "inspection \<Rightarrow> lock_inspection" where
  "public (Unsafe_lock reason f) = \<lparr>li_status = Ambiguous, li_metadata = None, li_reason = Some reason\<rparr>"
| "public (Valid_lock status m f entry) = \<lparr>li_status = status, li_metadata = Some m, li_reason = None\<rparr>"

definition inspectLock :: "file_store \<Rightarrow> ('o, lock_inspection option) store_action" where
  "inspectLock store = seq (inspectLockDirectory store) (\<lambda>inspection. return (map_option public inspection))"

section \<open>Recovering a stale lock\<close>

text \<open>The identity and the entry of an inspection that permits a removal.\<close>

definition stale_lock :: "jval \<Rightarrow> inspection option \<Rightarrow> store_failure + identity \<times> string \<times> lock_metadata" where
  "stale_lock evidence inspection = (case inspection of
     None \<Rightarrow> Inl (ReceiptStoreError ''lock_not_found'')
   | Some i \<Rightarrow>
       if inspection_status i = Live then Inl (ReceiptStoreError ''lock_live'')
       else if inspection_status i \<noteq> Stale_candidate then Inl (ReceiptStoreError ''lock_ambiguous'')
       else (case i of
           Unsafe_lock reason f \<Rightarrow> Inl (ReceiptStoreError ''lock_ambiguous'')
         | Valid_lock status metadata f entry \<Rightarrow>
             if \<not> sameEvidence evidence metadata then Inl (ReceiptStoreError ''lock_evidence_mismatch'')
             else Inr (f, entry, metadata)))"

definition recovery_failure :: "store_failure \<Rightarrow> store_failure" where
  "recovery_failure error =
     (if is_store_error error then error else safeStoreError (plain error) ''lock_recovery_failed'')"

text \<open>The result is the identifier of the removed lock.\<close>

definition recoverStaleLock :: "file_store \<Rightarrow> jval \<Rightarrow> ('o, string) store_action" where
  "recoverStaleLock store input =
     seq (lift (validateRecoveryInput (ps_double (fs_process store)) input)) (\<lambda>_.
     seq (refuse_if (field input ''confirmation'' \<noteq> JStr STALE_LOCK_RECOVERY_CONFIRMATION)
            (ReceiptStoreError ''confirmation_required'')) (\<lambda>_.
     seq (inspectLockDirectory store) (\<lambda>inspection.
     seq (lift (stale_lock (field input ''evidence'') inspection)) (\<lambda>(first_identity, first_entry, first_metadata).
     catch
       (seq (inspectLockDirectory store) (\<lambda>fresh.
        seq (lift (stale_lock (field input ''evidence'') fresh)) (\<lambda>(fresh_identity, entry, metadata).
        seq (refuse_if (\<not> sameFileIdentity first_identity fresh_identity)
               (ReceiptStoreError ''lock_evidence_mismatch'')) (\<lambda>_.
        seq (removeLockDirectory entry) (\<lambda>_.
        seq syncDirectoryIfPractical (\<lambda>_.
        return (lm_lockId metadata)))))))
       (\<lambda>error. throw (recovery_failure error))))))"

end
