(* ===== verification/Store_Safety.thy ===== *)
theory Store_Safety
  imports Receipt_Store
begin

text \<open>
  A file system for the calls of the receipt store. \<open>disks D h\<close> are the states the files can be in after
  the history \<open>h\<close>, from one of the states in \<open>D\<close>; a call that failed may have taken effect, or, for a
  write, left any text behind. It is empty for a history whose answers no file system gives: reading
  another text than the file holds, or missing a file that is there. What survives a crash is among
  the states after some prefix of the history.
\<close>

type_synonym disk = "store_path \<Rightarrow> string option"

definition maybe :: "bool \<Rightarrow> disk \<Rightarrow> disk \<Rightarrow> disk set" where
  "maybe ok d d' = (if ok then {d'} else {d, d'})"

definition succeeded :: "store_failure + reply \<Rightarrow> bool" where
  "succeeded a \<longleftrightarrow> (case a of Inl e \<Rightarrow> False | Inr r \<Rightarrow> True)"

lemma succeeded_simps [simp]: "succeeded (Inr r)" "\<not> succeeded (Inl e)"
  by (simp_all add: succeeded_def)

definition missing :: "store_failure + reply \<Rightarrow> bool" where
  "missing a \<longleftrightarrow> (case a of Inl e \<Rightarrow> isMissing e | Inr r \<Rightarrow> False)"

definition holds_text :: "store_failure + reply \<Rightarrow> string option \<Rightarrow> bool" where
  "holds_text a f \<longleftrightarrow> (case a of Inr (Text t) \<Rightarrow> f = Some t | _ \<Rightarrow> True)"

fun effect :: "'o store_call \<times> (store_failure + reply) \<Rightarrow> disk \<Rightarrow> disk set" where
  "effect (Open p (Creating m), a) d = maybe (succeeded a) d (d(p \<mapsto> []))"
| "effect (Open p Reading, a) d = (if missing a \<and> d p \<noteq> None then {} else {d})"
| "effect (Fwrite p t, a) d = (if succeeded a then {d(p \<mapsto> t)} else {d'. \<exists>u. d' = d(p \<mapsto> u)})"
| "effect (Fstat p, a) d = (if missing a \<and> d p \<noteq> None then {} else {d})"
| "effect (Fread p, a) d = (if holds_text a (d p) \<and> \<not> (missing a \<and> d p \<noteq> None) then {d} else {})"
| "effect (Lstat p, a) d = (if missing a \<and> d p \<noteq> None then {} else {d})"
| "effect (Rename p q, a) d = maybe (succeeded a) d (d(q := d p, p := None))"
| "effect (Unlink p, a) d = maybe (succeeded a) d (d(p := None))"
| "effect _ d = {d}"

definition disks :: "disk set \<Rightarrow> 'o store_trace \<Rightarrow> disk set" where
  "disks D h = foldl (\<lambda>D e. \<Union>d \<in> D. effect e d) D h"

lemma disks_simps [simp]:
  "disks D [] = D" "disks D (h @ h') = disks (disks D h) h'" "disks D (e # h) = disks (\<Union>d \<in> D. effect e d) h"
  by (simp_all add: disks_def)

text \<open>Programs that make only some calls.\<close>

primrec makes :: "('c \<Rightarrow> bool) \<Rightarrow> ('c, 'a, 'r) program \<Rightarrow> bool" where
  "makes C (Done r) = True"
| "makes C (Ask c k) = (C c \<and> (\<forall>a. makes C (k a)))"

lemma makes_map_end: "makes C p \<Longrightarrow> (\<And>r. makes C (f r)) \<Longrightarrow> makes C (map_end f p)"
  by (induction p) auto

named_theorems makes_intros \<open>programs that make only some calls\<close>

lemma makes_seq [makes_intros]: "makes C m \<Longrightarrow> (\<And>x. makes C (f x)) \<Longrightarrow> makes C (seq m f)"
  unfolding seq_def by (rule makes_map_end) (auto split: sum.split)

lemma makes_attempt [makes_intros]: "makes C m \<Longrightarrow> makes C (attempt m)"
  unfolding attempt_def by (rule makes_map_end) auto

lemma makes_catch [makes_intros]: "makes C m \<Longrightarrow> (\<And>e. makes C (f e)) \<Longrightarrow> makes C (catch m f)"
  unfolding catch_def by (rule makes_map_end) (auto split: sum.split)

lemma makes_lift [makes_intros]: "makes C (lift r)"
  by (simp add: lift_def)

lemma makes_refuse [makes_intros]: "makes C (refuse_if b e)"
  by (simp add: refuse_if_def)

lemma makes_call [makes_intros]: "C c \<Longrightarrow> makes C (call c)"
  by (simp add: call_def)

lemma makes_Done [makes_intros]: "makes C (Done r)"
  by simp

lemma makes_perform [makes_intros]: "C c \<Longrightarrow> makes C (perform c)"
  unfolding perform_def by (intro makes_intros)

lemma makes_expecting [makes_intros]: "C c \<Longrightarrow> makes C (expecting f c)"
  unfolding expecting_def by (intro makes_intros)

lemma makes_if [makes_intros]: "(b \<Longrightarrow> makes C p) \<Longrightarrow> (\<not> b \<Longrightarrow> makes C q) \<Longrightarrow> makes C (if b then p else q)"
  by simp

lemma makes_sum [makes_intros]:
  "(\<And>e. x = Inl e \<Longrightarrow> makes C (p e)) \<Longrightarrow> (\<And>y. x = Inr y \<Longrightarrow> makes C (q y))
     \<Longrightarrow> makes C (case x of Inl e \<Rightarrow> p e | Inr y \<Rightarrow> q y)"
  by (cases x) auto

lemma makes_option [makes_intros]:
  "(x = None \<Longrightarrow> makes C p) \<Longrightarrow> (\<And>y. x = Some y \<Longrightarrow> makes C (q y)) \<Longrightarrow> makes C (case x of None \<Rightarrow> p | Some y \<Rightarrow> q y)"
  by (cases x) auto

lemma makes_prod [makes_intros]: "(\<And>y z. x = (y, z) \<Longrightarrow> makes C (p y z)) \<Longrightarrow> makes C (case x of (y, z) \<Rightarrow> p y z)"
  by (cases x) auto

lemma makes_mono: "makes C p \<Longrightarrow> (\<And>c. C c \<Longrightarrow> C' c) \<Longrightarrow> makes C' p"
  by (induction p) auto

lemma makes_closeQuietly [makes_intros]: "C (Fclose p) \<Longrightarrow> makes C (closeQuietly p)"
  unfolding closeQuietly_def by (intro makes_intros)

lemma makes_unlinkQuietly [makes_intros]: "C (Unlink p) \<Longrightarrow> makes C (unlinkQuietly p)"
  unfolding unlinkQuietly_def by (intro makes_intros)

lemma makes_syncFile [makes_intros]: "C (Fsync p) \<Longrightarrow> makes C (syncFile p)"
  unfolding syncFile_def by (intro makes_intros)

lemma makes_with_handle [makes_intros]:
  "C (Open p mode) \<Longrightarrow> C (Fclose p) \<Longrightarrow> makes C body \<Longrightarrow> makes C (with_handle p mode body handler)"
  unfolding with_handle_def by (intro makes_intros)

lemma makes_syncDirectory [makes_intros]:
  "C (Open Directory Reading_follow) \<Longrightarrow> C (Fsync Directory) \<Longrightarrow> C (Fclose Directory) \<Longrightarrow> makes C syncDirectoryIfPractical"
  unfolding syncDirectoryIfPractical_def by (intro makes_intros)

lemma makes_assertRegular [makes_intros]: "C (Lstat Target) \<Longrightarrow> makes C (assertRegularOrMissing code)"
  unfolding assertRegularOrMissing_def by (intro makes_intros)

section \<open>What calls keep of the disk\<close>

definition keeps :: "(disk \<Rightarrow> bool) \<Rightarrow> 'o store_call \<Rightarrow> bool" where
  "keeps P c \<longleftrightarrow> (\<forall>a d. P d \<longrightarrow> effect (c, a) d \<subseteq> {d'. P d'})"

definition within :: "(disk \<Rightarrow> bool) \<Rightarrow> disk \<Rightarrow> 'o store_trace \<Rightarrow> bool" where
  "within P d h \<longleftrightarrow> disks {d} h \<subseteq> {d'. P d'}"

lemma within_snoc: "within P d h \<Longrightarrow> keeps P c \<Longrightarrow> within P d (h @ [(c, a)])"
  unfolding within_def keeps_def by auto

lemma within_mono: "within P d h \<Longrightarrow> (\<And>d'. P d' \<Longrightarrow> Q d') \<Longrightarrow> within Q d h"
  unfolding within_def by auto

text \<open>A program of calls that keep \<open>P\<close> stays within \<open>P\<close>.\<close>

lemma wp_keeps:
  assumes "makes (keeps P) p" "within P d h" "\<And>d'. P d' \<Longrightarrow> I d'"
  shows "wp (\<lambda>h c. within I d h) (\<lambda>r h'. within P d h') p h"
  using assms(1,2)
proof (induction p arbitrary: h)
  case (Ask c k)
  then have "within I d h" using within_mono assms(3) by blast
  moreover have "wp (\<lambda>h c. within I d h) (\<lambda>r h'. within P d h') (k a) (h @ [(c, a)])" for a
    by (rule Ask.IH) (use Ask.prems within_snoc in auto)
  ultimately show ?case by simp
qed simp

lemma keeps_other [simp]:
  "keeps P (Chmod p m)" "keeps P (Lstat p)" "keeps P (Readdir p)" "keeps P (Rmdir p)" "keeps P (Mkdir p m)"
  "keeps P (Open p Reading)" "keeps P (Open p Reading_follow)" "keeps P (Fchmod p m)" "keeps P (Fsync p)"
  "keeps P (Fclose p)" "keeps P (Fstat p)" "keeps P (Fread p)" "keeps P (Kill i)" "keeps P (Probe i)"
  "keeps P Random_uuid" "keeps P Now" "keeps P (Outside x)"
  by (simp_all add: keeps_def)

lemma keeps_elsewhere:
  "(\<And>d x. P d \<Longrightarrow> P (d(p := x))) \<Longrightarrow> keeps P (Unlink p)"
  "(\<And>d x. P d \<Longrightarrow> P (d(p := x))) \<Longrightarrow> keeps P (Fwrite p t)"
  "(\<And>d x. P d \<Longrightarrow> P (d(p := x))) \<Longrightarrow> keeps P (Open p (Creating m))"
  by (auto simp: keeps_def maybe_def)

text \<open>
  The proofs about the receipt store: \<open>writeAtomic\<close> replaces the receipt as a whole, \<open>read\<close> gives back
  what was written, and what the lock permits.
\<close>

lemma wp_perform:
  "wp G Q (perform c) h \<longleftrightarrow> G h c \<and> (\<forall>a. Q (case a of Inl e \<Rightarrow> Inl e | Inr r \<Rightarrow> Inr ()) (h @ [(c, a)]))"
  unfolding perform_def wp_seq wp_call by (auto split: sum.split)

lemma wp_expecting:
  "wp G Q (expecting f c) h \<longleftrightarrow> G h c \<and> (\<forall>a. Q (case a of Inl e \<Rightarrow> Inl e | Inr r \<Rightarrow> f r) (h @ [(c, a)]))"
  unfolding expecting_def wp_seq wp_call wp_lift by (auto split: sum.split)

section \<open>Atomic replacement\<close>

abbreviation old :: "disk \<Rightarrow> disk \<Rightarrow> bool" where
  "old d d' \<equiv> d' Target = d Target"

abbreviation new :: "string \<Rightarrow> disk \<Rightarrow> bool" where
  "new s d' \<equiv> d' Target = Some s"

abbreviation whole :: "disk \<Rightarrow> string \<Rightarrow> disk \<Rightarrow> bool" where
  "whole d s d' \<equiv> old d d' \<or> new s d'"

abbreviation staged :: "disk \<Rightarrow> string \<Rightarrow> string \<Rightarrow> disk \<Rightarrow> bool" where
  "staged d u s d' \<equiv> old d d' \<and> d' (Temporary u) = Some s"

abbreviation kept_whole :: "disk \<Rightarrow> string \<Rightarrow> 'o store_trace \<Rightarrow> 'o store_call \<Rightarrow> bool" where
  "kept_whole d s h c \<equiv> within (whole d s) d h"

lemma wp_whole_keeps:
  "makes (keeps P) p \<Longrightarrow> within P d h \<Longrightarrow> (\<And>d'. P d' \<Longrightarrow> whole d s d') \<Longrightarrow>
   wp (kept_whole d s) (\<lambda>r h'. within P d h') p h"
  by (rule wp_keeps)

lemma wp_write_temporary:
  assumes "within (old d) d h"
  shows "wp (kept_whole d s) (\<lambda>r h'. within (old d) d h' \<and> (case r of Inl e \<Rightarrow> True | Inr _ \<Rightarrow> within (staged d u s) d h'))
    (write_temporary (Temporary u) s) h"
proof -
  let ?rest = "seq (perform (Fchmod (Temporary u) OWNER_ONLY_MODE)) (\<lambda>_. seq (syncFile (Temporary u)) (\<lambda>_. perform (Fclose (Temporary u))))"
  have rest: "wp (kept_whole d s) (\<lambda>r h'. within (staged d u s) d h') ?rest h'" if "within (staged d u s) d h'" for h'
    by (rule wp_whole_keeps) (use that in \<open>auto intro!: makes_intros\<close>)
  have ok: "within (staged d u s) d (h @ [(Fwrite (Temporary u) s, Inr v)])" for v
    using assms by (auto simp: within_def)
  have failed: "within (old d) d (h @ [(Fwrite (Temporary u) s, Inl e)])" for e
    using assms by (auto simp: within_def)
  have start: "within (whole d s) d h" using assms by (rule within_mono) simp
  show ?thesis
    unfolding write_temporary_def wp_seq [of _ _ "perform (Fwrite _ _)"] wp_perform
  proof (intro conjI allI start)
    fix a :: "store_failure + reply"
    show "case case a of Inl e \<Rightarrow> Inl e | Inr r \<Rightarrow> Inr () of
        Inl e \<Rightarrow> within (old d) d (h @ [(Fwrite (Temporary u) s, a)]) \<and> (case Inl e of Inl e \<Rightarrow> True | Inr _ \<Rightarrow> within (staged d u s) d (h @ [(Fwrite (Temporary u) s, a)]))
      | Inr x \<Rightarrow> wp (kept_whole d s) (\<lambda>r h'. within (old d) d h' \<and> (case r of Inl e \<Rightarrow> True | Inr _ \<Rightarrow> within (staged d u s) d h')) ?rest (h @ [(Fwrite (Temporary u) s, a)])"
      using ok failed by (cases a) (auto intro!: wp_post [OF rest] elim: within_mono split: sum.split)
  qed
qed

lemma wp_replace_target:
  assumes "within (staged d u s) d h"
  shows "wp (kept_whole d s) (\<lambda>r h'. within (whole d s) d h' \<and> (case r of Inl e \<Rightarrow> True | Inr _ \<Rightarrow> within (new s) d h'))
    (replace_target (Temporary u)) h"
  unfolding replace_target_def
proof (rule wp_seqI [where R = "\<lambda>r h'. within (staged d u s) d h'"])
  show "wp (kept_whole d s) (\<lambda>r h'. within (staged d u s) d h') (assertRegularOrMissing ''write_failed'') h"
    by (rule wp_whole_keeps) (use assms in \<open>auto intro!: makes_intros\<close>)
next
  fix x h' assume h': "within (staged d u s) d h'"
  show "wp (kept_whole d s) (\<lambda>r h'. within (whole d s) d h' \<and> (case r of Inl e \<Rightarrow> True | Inr _ \<Rightarrow> within (new s) d h'))
      (perform (Rename (Temporary u) Target)) h'"
    unfolding wp_perform using h' by (auto simp: within_def maybe_def split: sum.split)
qed (auto elim: within_mono)

lemma wp_write_through:
  fixes h :: "'o store_trace"
  assumes "within (old d) d h"
  shows "wp (kept_whole d s) (\<lambda>r h'. within (whole d s) d h' \<and> (case r of Inl e \<Rightarrow> True | Inr _ \<Rightarrow> within (new s) d h'))
    (write_through (Temporary u) s) h"
proof -
  let ?Q = "\<lambda>r h'. within (whole d s) d h' \<and> (case r of Inl e \<Rightarrow> True | Inr _ \<Rightarrow> within (new s) d h')"
  let ?t = "Temporary u"
  have keep: "keeps P (Unlink ?t :: 'o store_call)" "keeps P (Open ?t (Creating m) :: 'o store_call)"
    if "P = old d \<or> P = whole d s" for P m
    using that by (auto intro!: keeps_elsewhere)
  have undo: "wp (kept_whole d s) ?Q (seq (unlinkQuietly ?t) (\<lambda>_. throw e)) h'"
    if "within (whole d s) d h'" for e and h' :: "'o store_trace"
  proof -
    have "wp (kept_whole d s) (\<lambda>r h'. within (whole d s) d h') (unlinkQuietly ?t) h'"
      by (rule wp_whole_keeps) (use that keep in \<open>auto intro!: makes_intros\<close>)
    then show ?thesis by (rule wp_seqI) auto
  qed
  have close: "wp (kept_whole d s) (\<lambda>r h'. within (whole d s) d h') (closeQuietly ?t) h'"
    if "within (whole d s) d h'" for h' :: "'o store_trace"
    by (rule wp_whole_keeps) (use that in \<open>auto intro!: makes_intros\<close>)
  have finish: "wp (kept_whole d s) ?Q (catch finish_write (\<lambda>e. throw (write_failure e))) h'"
    if "within (new s) d h'" for h' :: "'o store_trace"
  proof -
    have "wp (kept_whole d s) (\<lambda>r h'. within (new s) d h') (catch finish_write (\<lambda>e. throw (write_failure e))) h'"
      unfolding finish_write_def by (rule wp_whole_keeps) (use that in \<open>auto intro!: makes_intros\<close>)
    then show ?thesis by (rule wp_post) (auto elim: within_mono split: sum.split)
  qed
  have replace: "wp (kept_whole d s) ?Q (seq (attempt (replace_target ?t)) (\<lambda>renamed. case renamed of
           Inl error \<Rightarrow> seq (unlinkQuietly ?t) (\<lambda>_. throw (write_failure error))
         | Inr _ \<Rightarrow> catch finish_write (\<lambda>error. throw (write_failure error)))) h'"
    if "within (staged d u s) d h'" for h' :: "'o store_trace"
    unfolding wp_seq [of _ _ "attempt _"] wp_attempt sum.case
  proof (rule wp_post [OF wp_replace_target [OF that]], goal_cases)
    case (1 r h'')
    then show ?case using undo finish by (cases r) simp_all
  qed
  have stage: "wp (kept_whole d s) ?Q (seq (attempt (write_temporary ?t s)) (\<lambda>written. case written of
         Inl error \<Rightarrow> seq (closeQuietly ?t) (\<lambda>_. seq (unlinkQuietly ?t) (\<lambda>_. throw (write_failure error)))
       | Inr _ \<Rightarrow> seq (attempt (replace_target ?t)) (\<lambda>renamed. case renamed of
           Inl error \<Rightarrow> seq (unlinkQuietly ?t) (\<lambda>_. throw (write_failure error))
         | Inr _ \<Rightarrow> catch finish_write (\<lambda>error. throw (write_failure error))))) h'"
    if "within (old d) d h'" for h' :: "'o store_trace"
    unfolding wp_seq [of _ _ "attempt (write_temporary _ _)"] wp_attempt sum.case
  proof (rule wp_post [OF wp_write_temporary [OF that]], goal_cases)
    case (1 r h'')
    show ?case
    proof (cases r)
      case (Inl e)
      have "within (whole d s) d h''" using 1 by (auto elim: within_mono)
      then have "wp (kept_whole d s) ?Q (seq (closeQuietly ?t) (\<lambda>_. seq (unlinkQuietly ?t) (\<lambda>_. throw (write_failure e)))) h''"
        by (intro wp_seqI [OF close]) (auto intro!: undo)
      then show ?thesis by (simp add: Inl)
    next
      case (Inr x)
      then show ?thesis using 1 replace by simp
    qed
  qed
  have start: "within (whole d s) d h" using assms by (rule within_mono) simp
  show ?thesis
    unfolding write_through_def wp_seq [of _ _ "attempt (perform _)"] wp_attempt wp_perform sum.case
  proof (intro conjI start allI)
    fix a :: "store_failure + reply"
    let ?h = "h @ [(Open ?t (Creating OWNER_ONLY_MODE), a)]"
    have h: "within (old d) d ?h" using assms keep by (intro within_snoc) simp_all
    then have "within (whole d s) d ?h" by (rule within_mono) simp
    with h show "wp (kept_whole d s) ?Q (case case a of Inl e \<Rightarrow> Inl e | Inr r \<Rightarrow> Inr () of
        Inl error \<Rightarrow> seq (unlinkQuietly ?t) (\<lambda>_. throw (write_failure error))
      | Inr x \<Rightarrow> seq (attempt (write_temporary ?t s)) (\<lambda>written. case written of
         Inl error \<Rightarrow> seq (closeQuietly ?t) (\<lambda>_. seq (unlinkQuietly ?t) (\<lambda>_. throw (write_failure error)))
       | Inr _ \<Rightarrow> seq (attempt (replace_target ?t)) (\<lambda>renamed. case renamed of
           Inl error \<Rightarrow> seq (unlinkQuietly ?t) (\<lambda>_. throw (write_failure error))
         | Inr _ \<Rightarrow> catch finish_write (\<lambda>error. throw (write_failure error))))) ?h"
      using undo stage by (cases a) simp_all
  qed
qed

lemma wp_writeAtomic:
  "wp (\<lambda>h c. within (\<lambda>d'. old d d' \<or> d' Target = json_stringify receipt) d h)
     (\<lambda>r h. within (\<lambda>d'. old d d' \<or> d' Target = json_stringify receipt) d h
        \<and> (case r of Inl e \<Rightarrow> True | Inr _ \<Rightarrow> within (\<lambda>d'. json_stringify receipt \<noteq> None \<and> d' Target = json_stringify receipt) d h))
     (writeAtomic receipt) []"
proof (cases "json_stringify receipt")
  case None
  then show ?thesis by (simp add: writeAtomic_def within_def)
next
  case (Some s)
  let ?Q = "\<lambda>r h'. within (whole d s) d h' \<and> (case r of Inl e \<Rightarrow> True | Inr _ \<Rightarrow> within (new s) d h')"
  have seqI: "wp (kept_whole d s) ?Q (seq m f) h"
    if "makes (keeps (old d)) m" "within (old d) d h" "\<And>x h. within (old d) d h \<Longrightarrow> wp (kept_whole d s) ?Q (f x) h"
    for m :: "('o, 'x) store_action" and f h
  proof -
    have "wp (kept_whole d s) (\<lambda>r h'. within (old d) d h') m h" by (rule wp_whole_keeps) (use that in auto)
    then show ?thesis by (rule wp_seqI) (use that(3) in \<open>auto elim: within_mono\<close>)
  qed
  have "wp (kept_whole d s) ?Q (writeAtomic receipt) []"
    unfolding writeAtomic_def Some option.case
    by (intro seqI wp_write_through) (auto intro!: makes_intros simp: within_def)
  then show ?thesis by (simp add: Some cong: sum.case_cong)
qed

section \<open>Reading back\<close>

lemma wp_closeQuietly:
  "wp G Q (closeQuietly p) h \<longleftrightarrow> G h (Fclose p) \<and> (\<forall>a. Q (Inr ()) (h @ [(Fclose p, a)]))"
  by (auto simp: closeQuietly_def wp_seq wp_attempt wp_perform)

lemma wp_with_handle:
  "wp G Q (with_handle p mode body handler) h \<longleftrightarrow> G h (Open p mode)
     \<and> (\<forall>e. Q (handler e) (h @ [(Open p mode, Inl e)]))
     \<and> (\<forall>v. wp G (\<lambda>r h'. G h' (Fclose p) \<and> (\<forall>a. Q (case r of Inl e \<Rightarrow> handler e | Inr x \<Rightarrow> Inr x) (h' @ [(Fclose p, a)])))
          body (h @ [(Open p mode, Inr v)]))"
proof -
  have all: "(\<forall>a :: store_failure + reply. P a) \<longleftrightarrow> (\<forall>e. P (Inl e)) \<and> (\<forall>v. P (Inr v))" for P
    using sum.exhaust by metis
  show ?thesis
    by (auto simp: with_handle_def wp_seq wp_attempt wp_perform wp_lift wp_closeQuietly all)
qed

lemma isMissing_plain [simp]: "isMissing (plain e) = isMissing e"
  by (auto simp: isMissing_def plain_def split: option.split)

lemma isMissing_type_error [simp]: "\<not> isMissing type_error"
  by (simp add: isMissing_def)

lemma disks_empty [simp]: "disks {} h = {}"
  by (induction h) simp_all

definition impossible :: "disk \<Rightarrow> 'o store_trace \<Rightarrow> bool" where
  "impossible d h \<longleftrightarrow> disks {d} h = {}"

lemma impossible_append: "impossible d h \<Longrightarrow> impossible d (h @ t)"
  by (simp add: impossible_def)

lemma impossible_more: "impossible d (h @ [e]) \<Longrightarrow> impossible d (h @ e # t)"
  by (simp add: impossible_def)

lemma wp_assert_present:
  assumes "within (new t) d h"
  shows "wp (\<lambda>_ _. True) (\<lambda>r h'. within (new t) d h' \<and> (r = Inr False \<longrightarrow> impossible d h')) (assertRegularOrMissing code) h"
  unfolding assertRegularOrMissing_def wp_seq wp_attempt wp_expecting
proof (intro conjI allI TrueI)
  fix a :: "store_failure + reply"
  have "within (new t) d (h @ [(Lstat Target, a)])" using assms by (rule within_snoc) simp
  moreover have "impossible d (h @ [(Lstat Target, a)])" if "missing a"
    using assms that by (auto simp: impossible_def within_def)
  ultimately show "case Inr (case a of Inl e \<Rightarrow> Inl e | Inr r \<Rightarrow> stats_of r) of
      Inl e \<Rightarrow> within (new t) d (h @ [(Lstat Target, a)]) \<and> (Inl e = Inr False \<longrightarrow> impossible d (h @ [(Lstat Target, a)]))
    | Inr x \<Rightarrow> wp (\<lambda>_ _. True) (\<lambda>r h'. within (new t) d h' \<and> (r = Inr False \<longrightarrow> impossible d h'))
         (case x of
            Inl error \<Rightarrow> if isMissing (plain error) then return False else throw (safeStoreError (plain error) code)
          | Inr s \<Rightarrow> if st_kind s \<noteq> Regular then throw (ReceiptStoreError ''unsafe_target'') else return True)
         (h @ [(Lstat Target, a)])"
  proof (cases a)
    case (Inr r)
    then show ?thesis
      using \<open>within (new t) d (h @ [(Lstat Target, a)])\<close> by (cases r) simp_all
  qed (simp add: missing_def)
qed

lemma wp_read_present:
  assumes "within (new t) d h"
  shows "wp (\<lambda>_ _. True) (\<lambda>r h'. case r of Inl e \<Rightarrow> True | Inr raw \<Rightarrow> raw = Some t \<or> impossible d h') read_target h"
  unfolding read_target_def wp_with_handle
proof (intro conjI allI TrueI)
  fix e
  have "impossible d (h @ [(Open Target Reading, Inl e)])" if "isMissing e"
    using assms that by (auto simp: impossible_def within_def missing_def)
  then show "case read_failure e of Inl e \<Rightarrow> True | Inr raw \<Rightarrow> raw = Some t \<or> impossible d (h @ [(Open Target Reading, Inl e)])"
    by (simp add: read_failure_def)
next
  fix v :: reply
  let ?h = "h @ [(Open Target Reading, Inr v)]"
  have h: "within (new t) d ?h" using assms by (rule within_snoc) simp
  have missed: "impossible d (h' @ [(c, Inl e)])" if "within (new t) d h'" "c = Fstat Target \<or> c = Fread Target" "isMissing e"
    for h' c e
    using that by (auto simp: impossible_def within_def missing_def)
  show "wp (\<lambda>_ _. True) (\<lambda>r h'. True \<and> (\<forall>a. case case r of Inl e \<Rightarrow> read_failure e | Inr x \<Rightarrow> Inr x of Inl e \<Rightarrow> True
        | Inr raw \<Rightarrow> raw = Some t \<or> impossible d (h' @ [(Fclose Target, a)])))
     (seq (expecting stats_of (Fstat Target)) (\<lambda>stat.
      seq (refuse_if (st_kind stat \<noteq> Regular) (ReceiptStoreError ''unsafe_target'')) (\<lambda>_.
      seq (expecting text_of (Fread Target)) (\<lambda>raw. return (Some raw))))) ?h"
  proof (rule wp_seqI [where R = "\<lambda>r h'. case r of Inl e \<Rightarrow> isMissing e \<longrightarrow> impossible d h' | Inr x \<Rightarrow> within (new t) d h'"])
    show "wp (\<lambda>_ _. True) (\<lambda>r h'. case r of Inl e \<Rightarrow> isMissing e \<longrightarrow> impossible d h' | Inr x \<Rightarrow> within (new t) d h')
        (expecting stats_of (Fstat Target)) ?h"
      unfolding wp_expecting
    proof (intro conjI allI TrueI)
      fix a :: "store_failure + reply"
      show "case case a of Inl e \<Rightarrow> Inl e | Inr r \<Rightarrow> stats_of r of
          Inl e \<Rightarrow> isMissing e \<longrightarrow> impossible d (?h @ [(Fstat Target, a)])
        | Inr x \<Rightarrow> within (new t) d (?h @ [(Fstat Target, a)])"
      proof (cases a)
        case (Inr r)
        show ?thesis unfolding Inr using within_snoc [OF h] by (cases r) simp_all
      qed (use missed [OF h] in simp)
    qed
  next
    fix stat :: file_stat and h'
    let ?Q = "\<lambda>r h'. True \<and> (\<forall>a. case case r of Inl e \<Rightarrow> read_failure e | Inr x \<Rightarrow> Inr x of Inl e \<Rightarrow> True
        | Inr raw \<Rightarrow> raw = Some t \<or> impossible d (h' @ [(Fclose Target, a)]))"
    assume "case Inr stat of Inl e \<Rightarrow> isMissing e \<longrightarrow> impossible d h' | Inr x \<Rightarrow> within (new t) d h'"
    then have h': "within (new t) d h'" by simp
    have raw: "wp (\<lambda>_ _. True) ?Q (seq (expecting text_of (Fread Target)) (\<lambda>raw. return (Some raw))) h'"
      unfolding wp_seq wp_expecting
    proof (intro conjI allI TrueI)
      fix a :: "store_failure + reply"
      have other: "impossible d (h' @ [(Fread Target, a)])" if "a = Inr (Text u)" "u \<noteq> t" for u
        using that h' by (auto simp: impossible_def within_def holds_text_def)
      show "case case a of Inl e \<Rightarrow> Inl e | Inr r \<Rightarrow> text_of r of
          Inl e \<Rightarrow> ?Q (Inl e) (h' @ [(Fread Target, a)])
        | Inr x \<Rightarrow> wp (\<lambda>_ _. True) ?Q (return (Some x)) (h' @ [(Fread Target, a)])"
      proof (cases a)
        case (Inl e)
        then show ?thesis using missed [OF h', of "Fread Target" e] impossible_more
          by (auto simp: read_failure_def)
      next
        case (Inr r)
        then show ?thesis using other impossible_more
          by (cases r) (auto simp: read_failure_def)
      qed
    qed
    then show "wp (\<lambda>_ _. True) ?Q (seq (refuse_if (st_kind stat \<noteq> Regular) (ReceiptStoreError ''unsafe_target'')) (\<lambda>_.
        seq (expecting text_of (Fread Target)) (\<lambda>raw. return (Some raw)))) h'"
      unfolding wp_seq [of _ _ "refuse_if _ _"] wp_refuse by (auto simp: read_failure_def ReceiptStoreError_def isMissing_def plain_def)
  qed (auto simp: read_failure_def impossible_append)
qed

lemma wp_read_back:
  assumes "within (new t) d h" "json_parse (ps_double (fs_process store)) t = Some v"
  shows "wp (\<lambda>_ _. True) (\<lambda>r h'. case r of Inl e \<Rightarrow> True | Inr x \<Rightarrow> x = drop_prototype v \<or> impossible d h') (read store) h"
  unfolding read_def
proof (rule wp_seqI [OF wp_assert_present [OF assms(1)]])
  fix x h' assume x: "within (new t) d h' \<and> (Inr x = (Inr False :: store_failure + bool) \<longrightarrow> impossible d h')"
  let ?Q = "\<lambda>r h'. case r of Inl e \<Rightarrow> True | Inr x \<Rightarrow> x = drop_prototype v \<or> impossible d h'"
  have "wp (\<lambda>_ _. True) ?Q (seq read_target (\<lambda>raw. case raw of None \<Rightarrow> return JNull
      | Some text \<Rightarrow> (case json_parse (ps_double (fs_process store)) text of
            None \<Rightarrow> throw (ReceiptStoreError ''invalid_json'') | Some value \<Rightarrow> return (drop_prototype value)))) h'"
    by (rule wp_seqI [OF wp_read_present]) (use x assms(2) in \<open>auto split: option.split\<close>)
  with x show "wp (\<lambda>_ _. True) ?Q (if \<not> x then return JNull else seq read_target (\<lambda>raw. case raw of None \<Rightarrow> return JNull
      | Some text \<Rightarrow> (case json_parse (ps_double (fs_process store)) text of
            None \<Rightarrow> throw (ReceiptStoreError ''invalid_json'') | Some value \<Rightarrow> return (drop_prototype value)))) h'"
    by simp
qed simp

lemma wp_write_read:
  assumes "readable (ps_double (fs_process store)) v"
  shows "wp (\<lambda>_ _. True) (\<lambda>r h. case r of Inl e \<Rightarrow> True | Inr x \<Rightarrow> x = drop_prototype v \<or> disks {d} h = {})
    (seq (writeAtomic v) (\<lambda>_. read store)) []"
proof -
  obtain t where t: "json_stringify v = Some t" "json_parse (ps_double (fs_process store)) t = Some v"
    using stringify_parse [OF assms] .
  have "wp (\<lambda>_ _. True) (\<lambda>r h. case r of Inl e \<Rightarrow> True | Inr x \<Rightarrow> within (new t) d h) (writeAtomic v) []"
    by (rule wp_mono [OF wp_writeAtomic [where receipt = v and d = d]]) (simp_all add: t(1) split: sum.splits)
  then show ?thesis
    unfolding impossible_def [symmetric]
    by (rule wp_seqI) (auto intro: wp_read_back [OF _ t(2)])
qed

end
