(* ===== verification/Store_Lock.thy ===== *)
theory Store_Lock
  imports Store_Safety
begin

text \<open>
  The receipt lock: what \<open>withExclusiveLock\<close> does while it holds the lock directory, when it lets go of
  it, and that of all the processes on one file system at most one is inside.
\<close>

section \<open>The lock in a history\<close>

fun lock_step :: "bool \<Rightarrow> 'o store_call \<times> (store_failure + reply) \<Rightarrow> bool" where
  "lock_step b (Mkdir p m, a) = (b \<or> p = Lock \<and> succeeded a)"
| "lock_step b (Rmdir p, a) = (b \<and> \<not> (p = Lock \<and> succeeded a))"
| "lock_step b _ = b"

text \<open>The directory was created in this history and not removed since.\<close>

definition holding :: "'o store_trace \<Rightarrow> bool" where
  "holding h = foldl lock_step False h"

lemma holding_simps [simp]:
  "\<not> holding []" "holding (h @ [e]) = lock_step (holding h) e"
  "holding (h @ [e, e']) = lock_step (lock_step (holding h) e) e'"
  by (simp_all add: holding_def)

definition published :: "'o store_trace \<Rightarrow> bool" where
  "published h \<longleftrightarrow> (\<exists>entry t v. (Fwrite (Lock_entry entry) t, Inr v) \<in> set h)"

definition refused :: "'o store_trace \<Rightarrow> bool" where
  "refused h \<longleftrightarrow> (\<exists>m e. (Mkdir Lock m, Inl e) \<in> set h)"

definition cleaning :: "'o store_trace \<Rightarrow> bool" where
  "cleaning h \<longleftrightarrow> (\<exists>entry a. (Unlink (Lock_entry entry), a) \<in> set h)"

text \<open>
  What each call needs: the caller's operation and every change of the lock happen while the directory
  is held; the metadata is published before the operation starts; and a process that was refused does
  nothing more.
\<close>

definition lock_guard :: "'o store_trace \<Rightarrow> 'o store_call \<Rightarrow> bool" where
  "lock_guard h c \<longleftrightarrow> \<not> refused h \<and> (case c of
     Mkdir p m \<Rightarrow> p = Lock \<and> \<not> holding h
   | Outside x \<Rightarrow> holding h \<and> published h \<and> \<not> cleaning h
   | Fwrite p t \<Rightarrow> holding h \<and> (\<exists>entry. p = Lock_entry entry)
   | Unlink p \<Rightarrow> holding h \<and> (\<exists>entry. p = Lock_entry entry)
   | Rmdir p \<Rightarrow> holding h \<and> p = Lock \<and> (\<exists>entry v. h \<noteq> [] \<and> last h = (Unlink (Lock_entry entry), Inr v))
   | Rename p q \<Rightarrow> False
   | _ \<Rightarrow> True)"

text \<open>
  At the end: a value is only returned once the lock is released, a failure leaves the directory only
  where removing it was tried, and who was refused reports it.
\<close>

definition lock_end :: "store_failure + 'x \<Rightarrow> 'o store_trace \<Rightarrow> bool" where
  "lock_end r h \<longleftrightarrow> (case r of Inr x \<Rightarrow> \<not> holding h | Inl e \<Rightarrow> \<not> holding h \<or> cleaning h)
     \<and> (\<forall>m e. (Mkdir Lock m, Inl e) \<in> set h \<longrightarrow> r = Inl (lock_failure e))"

lemma wp_invariant:
  assumes "makes C p" "I h" "\<And>h c a. C c \<Longrightarrow> I h \<Longrightarrow> G h c \<and> I (h @ [(c, a)])"
  shows "wp G (\<lambda>r. I) p h"
  using assms(1,2)
proof (induction p arbitrary: h)
  case (Ask c k)
  then have C: "C c" "I h" by simp_all
  have "wp G (\<lambda>r. I) (k a) (h @ [(c, a)])" for a
    by (rule Ask.IH) (use Ask.prems assms(3) [OF C] in auto)
  then show ?case using assms(3) [OF C] by simp
qed simp

definition quiet :: "'o store_call \<Rightarrow> bool" where
  "quiet c \<longleftrightarrow> (case c of Mkdir p m \<Rightarrow> False | Rmdir p \<Rightarrow> False | Unlink p \<Rightarrow> False | Rename p q \<Rightarrow> False
     | Fwrite p t \<Rightarrow> False | Outside x \<Rightarrow> False | _ \<Rightarrow> True)"

lemma quiet_simps [simp]:
  "quiet (Chmod p m)" "quiet (Open p mode)" "quiet (Fchmod p m)" "quiet (Fsync p)" "quiet (Fclose p)"
  "quiet (Fstat p)" "quiet (Fread p)" "quiet (Lstat p)" "quiet (Readdir p)" "quiet Random_uuid" "quiet Now"
  by (simp_all add: quiet_def)

lemma quiet_step: "quiet c \<Longrightarrow> lock_step b (c, a) = b"
  by (cases c) (simp_all add: quiet_def)

lemma lock_facts_append [simp]:
  "\<not> published []" "published (h @ h') \<longleftrightarrow> published h \<or> published h'"
  "published ((c, a) # h) \<longleftrightarrow> (\<exists>entry t v. (c, a) = (Fwrite (Lock_entry entry) t, Inr v)) \<or> published h"
  "\<not> refused []" "refused (h @ h') \<longleftrightarrow> refused h \<or> refused h'"
  "refused ((c, a) # h) \<longleftrightarrow> (\<exists>m e. (c, a) = (Mkdir Lock m, Inl e)) \<or> refused h"
  "\<not> cleaning []" "cleaning (h @ h') \<longleftrightarrow> cleaning h \<or> cleaning h'"
  "cleaning ((c, a) # h) \<longleftrightarrow> (\<exists>entry. c = Unlink (Lock_entry entry)) \<or> cleaning h"
  by (auto simp: published_def refused_def cleaning_def)

text \<open>Quiet programs change none of the facts about the lock.\<close>

definition lock_facts :: "'o store_trace \<Rightarrow> bool \<times> bool \<times> bool \<times> bool" where
  "lock_facts h = (holding h, published h, refused h, cleaning h)"

lemma wp_quiet:
  fixes h :: "'o store_trace"
  assumes "makes quiet p" "\<not> refused h"
  shows "wp lock_guard (\<lambda>r h'. lock_facts h' = lock_facts h) p h"
proof (rule wp_invariant [OF assms(1)])
  fix h' :: "'o store_trace" and c :: "'o store_call" and a :: "store_failure + reply"
  assume c: "quiet c" and h': "lock_facts h' = lock_facts h"
  have "lock_guard h' c"
    using c h' assms(2) by (cases c) (simp_all add: lock_guard_def quiet_def lock_facts_def)
  moreover have "lock_facts (h' @ [(c, a)]) = lock_facts h'"
    using c quiet_step by (cases c) (simp_all add: lock_facts_def quiet_def)
  ultimately show "lock_guard h' c \<and> lock_facts (h' @ [(c, a)]) = lock_facts h" using h' by simp
qed simp

section \<open>Taking and releasing\<close>

lemma safeStoreError_store [simp]: "is_store_error (safeStoreError e code)" "is_store_error (ReceiptStoreError code)"
  by (auto simp: safeStoreError_def ReceiptStoreError_def split: option.split)

lemma wp_removeLockDirectory:
  assumes "holding h" "\<not> refused h"
  shows "wp lock_guard (\<lambda>r h'. \<not> refused h' \<and> cleaning h' \<and> (case r of Inl e \<Rightarrow> is_store_error e | Inr _ \<Rightarrow> \<not> holding h'))
    (removeLockDirectory entry) h"
  unfolding removeLockDirectory_def wp_seq wp_catch wp_perform
  using assms by (auto simp: lock_guard_def wp_if split: sum.split)

lemma wp_release:
  fixes outcome :: "store_failure + 'x" and h :: "'o store_trace"
  assumes "holding h" "\<not> refused h"
  shows "wp lock_guard (\<lambda>r h'. lock_end r h' \<and> \<not> refused h') (release opened entry outcome) h"
proof -
  let ?last = "\<lambda>removed. case outcome of
       Inl primaryError \<Rightarrow> throw primaryError
     | Inr value \<Rightarrow> (case removed of
           Inr _ \<Rightarrow> return value
         | Inl error \<Rightarrow> (case release_failure error of None \<Rightarrow> return value | Some e \<Rightarrow> throw e))"
  have finish: "wp lock_guard (\<lambda>r h'. lock_end r h' \<and> \<not> refused h') (?last removed :: ('o, 'x) store_action) h'"
    if "\<not> refused h'" "cleaning h'" "case removed of Inl e \<Rightarrow> is_store_error e | Inr _ \<Rightarrow> \<not> holding h'"
    for removed :: "store_failure + unit" and h' :: "'o store_trace"
    using that by (auto simp: lock_end_def refused_def release_failure_def split: sum.split)
  have sync: "wp lock_guard (\<lambda>r h'. lock_end r h' \<and> \<not> refused h') (seq syncDirectoryIfPractical (\<lambda>_. ?last removed)) h'"
    if "\<not> refused h'" "cleaning h'" "case removed of Inl e \<Rightarrow> is_store_error e | Inr _ \<Rightarrow> \<not> holding h'"
    for removed :: "store_failure + unit" and h' :: "'o store_trace"
  proof (rule wp_seqI [where R = "\<lambda>r h''. lock_facts h'' = lock_facts h'"])
    show "wp lock_guard (\<lambda>r h''. lock_facts h'' = lock_facts h') syncDirectoryIfPractical h'"
      by (rule wp_quiet) (use that in \<open>auto intro!: makes_intros\<close>)
  next
    fix e and h'' :: "'o store_trace" assume "lock_facts h'' = lock_facts h'"
    then show "lock_end (Inl e :: store_failure + 'x) h'' \<and> \<not> refused h''"
      using that by (auto simp: lock_facts_def lock_end_def refused_def)
  next
    fix x and h'' :: "'o store_trace" assume "lock_facts h'' = lock_facts h'"
    then show "wp lock_guard (\<lambda>r h'. lock_end r h' \<and> \<not> refused h') (?last removed) h''"
      using that by (intro finish) (simp_all add: lock_facts_def split: sum.splits)
  qed
  have start: "wp lock_guard (\<lambda>r h'. lock_facts h' = lock_facts h \<and> r = Inr ()) (if opened then closeQuietly (Lock_entry entry) else return ()) h"
    using assms(2) by (auto simp: wp_closeQuietly lock_guard_def lock_facts_def)
  show ?thesis
    unfolding release_def
  proof (rule wp_seqI [OF start])
    fix x and h' :: "'o store_trace" assume "lock_facts h' = lock_facts h \<and> Inr x = (Inr () :: store_failure + unit)"
    then have h': "holding h'" "\<not> refused h'" using assms by (simp_all add: lock_facts_def)
    show "wp lock_guard (\<lambda>r h'. lock_end r h' \<and> \<not> refused h')
        (seq (attempt (removeLockDirectory entry)) (\<lambda>removed. seq syncDirectoryIfPractical (\<lambda>_. ?last removed))) h'"
      unfolding wp_seq [of _ _ "attempt _"] wp_attempt sum.case
      by (rule wp_post [OF wp_removeLockDirectory [OF h']]) (rule sync; simp)
  qed simp
qed

text \<open>An operation of the caller, whose calls are its own.\<close>

abbreviation outside :: "('o, store_failure + reply, store_failure + 'x) program \<Rightarrow> ('o, 'x) store_action" where
  "outside operation \<equiv> map_program Outside id operation"

fun is_outside :: "'o store_call \<Rightarrow> bool" where
  "is_outside (Outside x) = True"
| "is_outside _ = False"

lemma makes_outside: "makes is_outside (outside operation)"
  by (induction operation) simp_all

lemma wp_outside:
  fixes h :: "'o store_trace"
  assumes "holding h" "published h" "\<not> refused h" "\<not> cleaning h"
  shows "wp lock_guard (\<lambda>r h'. holding h' \<and> \<not> refused h') (outside operation) h"
proof (rule wp_post [OF wp_invariant [OF makes_outside]])
  fix h' :: "'o store_trace" and c :: "'o store_call" and a :: "store_failure + reply"
  assume "is_outside c" "holding h' \<and> published h' \<and> \<not> refused h' \<and> \<not> cleaning h'"
  then show "lock_guard h' c \<and> (holding (h' @ [(c, a)]) \<and> published (h' @ [(c, a)]) \<and> \<not> refused (h' @ [(c, a)]) \<and> \<not> cleaning (h' @ [(c, a)]))"
    by (cases c) (simp_all add: lock_guard_def)
qed (use assms in simp_all)

lemma wp_publish:
  fixes h :: "'o store_trace"
  assumes "holding h" "\<not> refused h" "\<not> cleaning h"
  shows "wp lock_guard (\<lambda>r h'. holding h' \<and> \<not> refused h' \<and> \<not> cleaning h' \<and> (case r of Inl e \<Rightarrow> True | Inr _ \<Rightarrow> published h'))
    (publish_metadata entry metadata) h"
proof -
  let ?text = "case json_stringify (metadata_value metadata) of None \<Rightarrow> [] | Some t \<Rightarrow> t"
  let ?rest = "seq (perform (Fchmod (Lock_entry entry) OWNER_ONLY_MODE)) (\<lambda>_. seq (syncFile (Lock_entry entry)) (\<lambda>_. syncDirectoryIfPractical)) :: ('o, unit) store_action"
  have rest: "wp lock_guard (\<lambda>r h'. lock_facts h' = lock_facts h') ?rest h'"
    "wp lock_guard (\<lambda>r h''. lock_facts h'' = lock_facts h') ?rest h'" if "\<not> refused h'" for h' :: "'o store_trace"
    by (rule wp_post [OF wp_quiet]; use that in \<open>auto intro!: makes_intros\<close>)+
  show ?thesis
    unfolding publish_metadata_def wp_seq [of _ _ "perform (Fwrite _ _)"] wp_perform
  proof (intro conjI allI)
    show "lock_guard h (Fwrite (Lock_entry entry) ?text)" using assms by (simp add: lock_guard_def)
  next
    fix a :: "store_failure + reply"
    let ?h = "h @ [(Fwrite (Lock_entry entry) ?text, a)]"
    have h: "holding ?h" "\<not> refused ?h" "\<not> cleaning ?h" using assms by simp_all
    show "case case a of Inl e \<Rightarrow> Inl e | Inr r \<Rightarrow> Inr () of
        Inl e \<Rightarrow> holding ?h \<and> \<not> refused ?h \<and> \<not> cleaning ?h \<and> (case Inl e of Inl e \<Rightarrow> True | Inr _ \<Rightarrow> published ?h)
      | Inr x \<Rightarrow> wp lock_guard (\<lambda>r h'. holding h' \<and> \<not> refused h' \<and> \<not> cleaning h' \<and> (case r of Inl e \<Rightarrow> True | Inr _ \<Rightarrow> published h')) ?rest ?h"
    proof (cases a)
      case (Inr v)
      then have "published ?h" by simp
      then have "wp lock_guard (\<lambda>r h'. holding h' \<and> \<not> refused h' \<and> \<not> cleaning h' \<and> (case r of Inl e \<Rightarrow> True | Inr _ \<Rightarrow> published h')) ?rest ?h"
        using h by (intro wp_post [OF rest(2) [OF h(2)]]) (simp add: lock_facts_def split: sum.split)
      then show ?thesis by (simp add: Inr)
    qed (use h in simp)
  qed
qed

lemma wp_under_lock:
  fixes h :: "'o store_trace" and operation :: "('o, store_failure + reply, store_failure + 'x) program"
  assumes "holding h" "\<not> refused h" "\<not> cleaning h"
  shows "wp lock_guard (\<lambda>r h'. lock_end r h' \<and> \<not> refused h') (under_lock entry metadata (outside operation)) h"
proof -
  have body: "wp lock_guard (\<lambda>r h'. holding h' \<and> \<not> refused h') (seq (publish_metadata entry metadata) (\<lambda>_. outside operation)) h'"
    if "holding h'" "\<not> refused h'" "\<not> cleaning h'" for h' :: "'o store_trace"
    by (rule wp_seqI [OF wp_publish [OF that]]) (auto intro: wp_outside)
  have inside: "wp lock_guard (\<lambda>r h'. lock_end r h' \<and> \<not> refused h')
      (seq (attempt (seq (publish_metadata entry metadata) (\<lambda>_. outside operation))) (\<lambda>result. release True entry (catch_lock result))) h'"
    if "holding h'" "\<not> refused h'" "\<not> cleaning h'" for h' :: "'o store_trace"
    unfolding wp_seq [of _ _ "attempt _"] wp_attempt sum.case
    by (rule wp_post [OF body [OF that]]) (auto intro: wp_release)
  have opened: "wp lock_guard (\<lambda>r h'. lock_facts h' = lock_facts h) (open_entry entry) h"
    unfolding open_entry_def by (rule wp_quiet) (use assms in \<open>auto intro!: makes_intros\<close>)
  show ?thesis
    unfolding under_lock_def wp_seq [of _ _ "attempt (open_entry _)"] wp_attempt sum.case
  proof (rule wp_post [OF opened], goal_cases)
    case (1 r h')
    then have "holding h'" "\<not> refused h'" "\<not> cleaning h'" using assms by (simp_all add: lock_facts_def)
    then show ?case using inside wp_release by (cases r) simp_all
  qed
qed

lemma makes_createLockMetadata: "makes quiet (createLockMetadata store options)"
  unfolding createLockMetadata_def Let_def
  by (cases "field options ''operationId''") (auto intro!: makes_intros)

lemma wp_withExclusiveLock:
  fixes operation :: "('o, store_failure + reply, store_failure + 'x) program"
  shows "wp lock_guard lock_end (withExclusiveLock store (outside operation) options) []"
  unfolding withExclusiveLock_def
proof (rule wp_seqI [OF wp_quiet [OF makes_createLockMetadata]])
  show "\<not> refused ([] :: 'o store_trace)" by simp
next
  fix e and h :: "'o store_trace" assume "lock_facts h = lock_facts []"
  then show "lock_end (Inl e :: store_failure + 'x) h" by (auto simp: lock_facts_def lock_end_def refused_def)
next
  fix metadata and h :: "'o store_trace" assume "lock_facts h = lock_facts []"
  then have h: "\<not> holding h" "\<not> refused h" "\<not> cleaning h" by (simp_all add: lock_facts_def)
  show "wp lock_guard lock_end (seq (attempt (perform (Mkdir Lock OWNER_ONLY_DIRECTORY_MODE))) (\<lambda>made. case made of
       Inl error \<Rightarrow> throw (lock_failure error)
     | Inr _ \<Rightarrow> under_lock (lm_lockId metadata @ ''.json'') metadata (outside operation))) h"
    unfolding wp_seq wp_attempt wp_perform sum.case
  proof (intro conjI allI)
    show "lock_guard h (Mkdir Lock OWNER_ONLY_DIRECTORY_MODE)" using h by (simp add: lock_guard_def)
  next
    fix a :: "store_failure + reply"
    let ?h = "h @ [(Mkdir Lock OWNER_ONLY_DIRECTORY_MODE, a)]"
    show "wp lock_guard lock_end (case case a of Inl e \<Rightarrow> Inl e | Inr r \<Rightarrow> Inr () of
         Inl error \<Rightarrow> throw (lock_failure error)
       | Inr _ \<Rightarrow> under_lock (lm_lockId metadata @ ''.json'') metadata (outside operation)) ?h"
    proof (cases a)
      case (Inl e)
      then show ?thesis using h by (auto simp: lock_end_def refused_def)
    next
      case (Inr v)
      then have "wp lock_guard (\<lambda>r h'. lock_end r h' \<and> \<not> refused h') (under_lock (lm_lockId metadata @ ''.json'') metadata (outside operation)) ?h"
        using h by (intro wp_under_lock) simp_all
      then show ?thesis unfolding Inr by (simp add: wp_post)
    qed
  qed
qed

section \<open>Many processes\<close>

text \<open>\<open>asks p t c\<close>: after the calls and answers \<open>t\<close> the program \<open>p\<close> makes the call \<open>c\<close>.\<close>

primrec asks :: "('c, 'a, 'r) program \<Rightarrow> ('c \<times> 'a) list \<Rightarrow> 'c \<Rightarrow> bool" where
  "asks (Done r) = (\<lambda>t c. False)"
| "asks (Ask c' k) = (\<lambda>t c. case t of [] \<Rightarrow> c' = c | (c'', a) # t' \<Rightarrow> c'' = c' \<and> asks (k a) t' c)"

lemma wp_asks: "wp G Q p h \<Longrightarrow> asks p t c \<Longrightarrow> G (h @ t) c"
proof (induction p arbitrary: h t)
  case (Ask c' k)
  then show ?case
  proof (cases t)
    case (Cons e t')
    obtain c'' a where e: "e = (c'', a)" by (cases e)
    have "wp G Q (k a) (h @ [(c', a)])" using Ask.prems(1) by simp
    moreover have "asks (k a) t' c" "c'' = c'" using Ask.prems(2) Cons e by simp_all
    ultimately have "G ((h @ [(c', a)]) @ t') c" by (intro Ask.IH [OF rangeI])
    then show ?thesis using Cons e \<open>c'' = c'\<close> by simp
  qed auto
qed simp

text \<open>
  The lock directory of one file system: creating it succeeds only where it is absent, removing it
  only where it is there. \<open>system ps b e ts\<close>: from a file system where the lock directory is there
  (\<open>b\<close>) or not, processes running the programs \<open>ps\<close>, however their calls interleave and whatever else
  they are answered, can reach the histories \<open>ts\<close>, and then the directory is there if \<open>e\<close>.
\<close>

definition lock_answer :: "bool \<Rightarrow> 'o store_call \<Rightarrow> store_failure + reply \<Rightarrow> bool" where
  "lock_answer e c a \<longleftrightarrow> (case c of
     Mkdir p m \<Rightarrow> p = Lock \<and> succeeded a \<longrightarrow> \<not> e
   | Rmdir p \<Rightarrow> p = Lock \<and> succeeded a \<longrightarrow> e
   | _ \<Rightarrow> True)"

inductive system :: "(nat \<Rightarrow> ('o store_call, store_failure + reply, 'r) program) \<Rightarrow> bool \<Rightarrow> bool \<Rightarrow> (nat \<Rightarrow> 'o store_trace) \<Rightarrow> bool"
  for ps and b where
  system_start: "system ps b b (\<lambda>_. [])"
| system_step: "system ps b e ts \<Longrightarrow> asks (ps i) (ts i) c \<Longrightarrow> lock_answer e c a
    \<Longrightarrow> system ps b (lock_step e (c, a)) (ts(i := ts i @ [(c, a)]))"

lemma system_invariant:
  assumes "system ps b e ts" "\<And>i. wp lock_guard Q (ps i) []"
  shows "(\<forall>i. holding (ts i) \<longrightarrow> e) \<and> (\<forall>i j. holding (ts i) \<longrightarrow> holding (ts j) \<longrightarrow> i = j)"
  using assms(1)
proof (induction rule: system.induct)
  case (system_step e ts i c a)
  have guard: "lock_guard (ts i) c" using wp_asks [OF assms(2) system_step.hyps(2)] by simp
  show ?case
  proof (cases "\<exists>p m. c = Mkdir p m \<or> c = Rmdir p")
    case False
    then have "lock_step x (c, a) = x" for x by (cases c) auto
    then show ?thesis using system_step.IH by auto
  next
    case True
    then consider (make) m where "c = Mkdir Lock m" | (remove) "c = Rmdir Lock" "holding (ts i)"
      using guard by (auto simp: lock_guard_def)
    then show ?thesis
    proof cases
      case make
      then show ?thesis
        using system_step.IH system_step.hyps(3) guard by (cases "succeeded a") (auto simp: lock_answer_def lock_guard_def)
    next
      case remove
      then show ?thesis using system_step.IH by (cases "succeeded a") auto
    qed
  qed
qed simp

lemma system_exclusive:
  assumes "system ps b e ts" "\<And>i. wp lock_guard Q (ps i) []" "asks (ps i) (ts i) (Outside x)" "asks (ps j) (ts j) (Outside y)"
  shows "i = j"
proof -
  have "holding (ts i)" "holding (ts j)"
    using wp_asks [OF assms(2) assms(3)] wp_asks [OF assms(2) assms(4)] by (simp_all add: lock_guard_def)
  then show ?thesis using system_invariant [OF assms(1,2)] by blast
qed

text \<open>A run of one process alone.\<close>

primrec follows :: "('c, 'a, 'r) program \<Rightarrow> ('c \<times> 'a) list \<Rightarrow> bool" where
  "follows (Done r) = (\<lambda>t. t = [])"
| "follows (Ask c k) = (\<lambda>t. case t of [] \<Rightarrow> True | (c', a) # t' \<Rightarrow> c' = c \<and> follows (k a) t')"

lemma follows_Nil [simp]: "follows p []"
  by (cases p) simp_all

lemma follows_snoc: "follows p (t @ [(c, a)]) \<longleftrightarrow> follows p t \<and> asks p t c"
  by (induction p arbitrary: t) (auto split: list.split)

fun lock_answers :: "bool \<Rightarrow> 'o store_trace \<Rightarrow> bool" where
  "lock_answers e [] = True"
| "lock_answers e ((c, a) # t) = (lock_answer e c a \<and> lock_answers (lock_step e (c, a)) t)"

lemma lock_answers_snoc:
  "lock_answers e (t @ [(c, a)]) \<longleftrightarrow> lock_answers e t \<and> lock_answer (foldl lock_step e t) c a"
  by (induction e t rule: lock_answers.induct) auto

lemma system_alone:
  "follows (ps i) t \<Longrightarrow> lock_answers b t \<Longrightarrow> system ps b (foldl lock_step b t) ((\<lambda>_. [])(i := t))"
proof (induction t rule: rev_induct)
  case Nil
  then show ?case using system_start [of ps b] by simp
next
  case (snoc x t)
  obtain c a where x: "x = (c, a)" by (cases x)
  have "system ps b (foldl lock_step b t) ((\<lambda>_. [])(i := t))"
    using snoc.IH snoc.prems unfolding x by (simp only: follows_snoc lock_answers_snoc)
  then have "system ps b (lock_step (foldl lock_step b t) (c, a)) (((\<lambda>_. [])(i := t))(i := ((\<lambda>_. [])(i := t)) i @ [(c, a)]))"
    by (rule system_step) (use snoc.prems x in \<open>simp_all add: follows_snoc lock_answers_snoc\<close>)
  then show ?case by (simp only: x foldl_append foldl.simps fun_upd_upd fun_upd_same)
qed

lemma play_follows: "follows p (fst (play p as))"
proof (induction p arbitrary: as)
  case (Ask c k)
  then show ?case by (cases as) (auto simp: split_beta)
qed simp

lemma play_asks: "fst (play p (as @ [a])) = t @ [(c, a)] \<Longrightarrow> length t = length as \<Longrightarrow> asks p t c"
proof (induction p arbitrary: as t)
  case (Ask c' k)
  show ?case
  proof (cases as)
    case Nil
    then show ?thesis using Ask.prems by (simp add: split_beta)
  next
    case (Cons b as')
    then obtain e t' where t: "t = e # t'" using Ask.prems(2) by (cases t) auto
    then have "e = (c', b)" "fst (play (k b) (as' @ [a])) = t' @ [(c, a)]"
      using Ask.prems(1) Cons by (simp_all add: split_beta)
    then show ?thesis using Ask.IH [OF rangeI] Ask.prems(2) Cons t by simp
  qed
qed simp

end
