(* ===== verification/Store_Recovery.thy ===== *)
theory Store_Recovery
  imports Store_Lock
begin

text \<open>
  Recovering a stale lock: a lock is only removed after two inspections of the same run each found the
  metadata the request names in the same files, and its owner not running.
\<close>

definition owner_dead :: "file_store \<Rightarrow> int \<Rightarrow> 'o store_trace \<Rightarrow> bool" where
  "owner_dead store pid t \<longleftrightarrow>
     (if fs_default_probe store then \<exists>e. (Kill pid, Inl e) \<in> set t \<and> parsed e = Some (Some ''ESRCH'')
      else (Probe pid, Inr (Value (JStr ''not_running''))) \<in> set t)"

definition stale_seen :: "file_store \<Rightarrow> lock_metadata \<Rightarrow> identity \<Rightarrow> string \<Rightarrow> 'o store_trace \<Rightarrow> bool" where
  "stale_seen store m f entry t \<longleftrightarrow> (\<exists>d s raw.
     (Lstat Lock, Inr (Stats d)) \<in> set t \<and> st_kind d = Folder \<and> \<not> open_to_others d
     \<and> (Readdir Lock, Inr (Names [entry])) \<in> set t
     \<and> (Fstat (Lock_entry entry), Inr (Stats s)) \<in> set t \<and> st_kind s = Regular \<and> \<not> open_to_others s
     \<and> (Fread (Lock_entry entry), Inr (Text raw)) \<in> set t
     \<and> parseLockMetadata (ps_double (fs_process store)) raw = Some m \<and> entry = lm_lockId m @ ''.json''
     \<and> f = Lock_file_identity (fileIdentity d) (fileIdentity s)
     \<and> owner_dead store (lm_pid m) t)"

lemma stale_seen_mono: "stale_seen store m f entry t \<Longrightarrow> set t \<subseteq> set t' \<Longrightarrow> stale_seen store m f entry t'"
  unfolding stale_seen_def owner_dead_def by (smt (verit) subsetD)

text \<open>What an inspection that took the calls \<open>t\<close> says when it finds a stale lock.\<close>

definition inspected :: "file_store \<Rightarrow> inspection option \<Rightarrow> 'o store_trace \<Rightarrow> bool" where
  "inspected store x t \<longleftrightarrow> (\<forall>m f entry. x = Some (Valid_lock Stale_candidate m f entry) \<longrightarrow> stale_seen store m f entry t)"

lemma inspected_trivial [simp]: "inspected store None t" "inspected store (Some (Unsafe_lock reason f)) t"
  "inspected store (Some (ambiguousInspection reason g)) t"
  by (simp_all add: inspected_def ambiguousInspection_def)

definition reading :: "'o store_call \<Rightarrow> bool" where
  "reading c \<longleftrightarrow> (case c of Lstat p \<Rightarrow> True | Readdir p \<Rightarrow> True | Open p mode \<Rightarrow> mode \<in> {Reading, Reading_follow}
     | Fstat p \<Rightarrow> True | Fread p \<Rightarrow> True | Fclose p \<Rightarrow> True | Fsync p \<Rightarrow> True | Kill i \<Rightarrow> True | Probe i \<Rightarrow> True | _ \<Rightarrow> False)"

lemma reading_simps [simp]:
  "reading (Lstat p)" "reading (Readdir p)" "reading (Open p Reading)" "reading (Open p Reading_follow)" "reading (Fstat p)"
  "reading (Fread p)" "reading (Fclose p)" "reading (Fsync p)" "reading (Kill i)" "reading (Probe i)"
  by (simp_all add: reading_def)

lemma wp_owner_status:
  "wp (\<lambda>_. reading) (\<lambda>r h'. \<exists>t. h' = h @ t \<and> (r = Inr Stale_candidate \<longrightarrow> owner_dead store pid t)) (lock_owner_status store pid) h"
  by (auto simp: lock_owner_status_def probeProcess_def probed_status_def owner_dead_def wp_seq wp_attempt wp_perform wp_call
    split: sum.split reply.split)

lemma wp_expect:
  assumes "G h c" "\<And>a e. Q (Inl e) (h @ [(c, a)])"
    and "\<And>a x. (case a of Inl e \<Rightarrow> Inl e | Inr r \<Rightarrow> f r) = Inr x \<Longrightarrow> wp G Q (k x) (h @ [(c, a)])"
  shows "wp G Q (seq (expecting f c) k) h"
  unfolding wp_seq wp_expecting using assms by (auto split: sum.split)

lemma answer_forms:
  "(case a of Inl e \<Rightarrow> Inl e | Inr r \<Rightarrow> stats_of r) = Inr s \<longleftrightarrow> a = Inr (Stats s)"
  "(case a of Inl e \<Rightarrow> Inl e | Inr r \<Rightarrow> text_of r) = Inr u \<longleftrightarrow> a = Inr (Text u)"
  "(case a of Inl e \<Rightarrow> Inl e | Inr r \<Rightarrow> names_of r) = Inr ns \<longleftrightarrow> a = Inr (Names ns)"
  by (auto split: sum.split elim: stats_of.elims text_of.elims names_of.elims)

text \<open>An outcome that claims no stale lock, after some more calls.\<close>

definition inspects :: "file_store \<Rightarrow> 'o store_trace \<Rightarrow> store_failure + inspection option \<Rightarrow> 'o store_trace \<Rightarrow> bool" where
  "inspects store h r h' \<longleftrightarrow> (\<exists>t. h' = h @ t \<and> (case r of Inl e \<Rightarrow> True | Inr x \<Rightarrow> inspected store x t))"

lemma inspects_trivial [simp]:
  "inspects store h (Inl e) (h @ t)" "inspects store h (Inr None) (h @ t)"
  "inspects store h (Inr (Some (ambiguousInspection reason g))) (h @ t)"
  by (simp_all add: inspects_def)

lemma wp_inspect_entry:
  fixes t :: "'o store_trace"
  assumes "(Lstat Lock, Inr (Stats d)) \<in> set t" "st_kind d = Folder" "\<not> open_to_others d"
    "(Readdir Lock, Inr (Names [entry])) \<in> set t"
  shows "wp (\<lambda>_. reading) (inspects store h) (inspect_entry store d entry) (h @ t)"
  unfolding inspect_entry_def
proof (rule wp_expect)
  fix a and s :: file_stat
  assume "(case a of Inl e \<Rightarrow> Inl e | Inr r \<Rightarrow> stats_of r) = Inr s"
  then have a: "a = Inr (Stats s)" by (simp add: answer_forms)
  let ?t = "t @ [(Fstat (Lock_entry entry), a)]"
  have read: "wp (\<lambda>_. reading) (inspects store h)
     (seq (expecting text_of (Fread (Lock_entry entry))) (\<lambda>raw.
       case parseLockMetadata (ps_double (fs_process store)) raw of
         None \<Rightarrow> return (Some (ambiguousInspection ''invalid_lock_metadata'' (fileIdentity s)))
       | Some metadata \<Rightarrow>
           if entry \<noteq> lm_lockId metadata @ ''.json''
           then return (Some (ambiguousInspection ''invalid_lock_metadata'' (fileIdentity s)))
           else seq (lock_owner_status store (lm_pid metadata)) (\<lambda>status.
             return (Some (Valid_lock status metadata (Lock_file_identity (fileIdentity d) (fileIdentity s)) entry))))) (h @ ?t)"
    if s: "st_kind s = Regular" "\<not> open_to_others s"
  proof (rule wp_expect)
    fix b and raw assume "(case b of Inl e \<Rightarrow> Inl e | Inr r \<Rightarrow> text_of r) = Inr raw"
    then have b: "b = Inr (Text raw)" by (simp add: answer_forms)
    let ?u = "?t @ [(Fread (Lock_entry entry), b)]"
    show "wp (\<lambda>_. reading) (inspects store h) (case parseLockMetadata (ps_double (fs_process store)) raw of
         None \<Rightarrow> return (Some (ambiguousInspection ''invalid_lock_metadata'' (fileIdentity s)))
       | Some metadata \<Rightarrow>
           if entry \<noteq> lm_lockId metadata @ ''.json''
           then return (Some (ambiguousInspection ''invalid_lock_metadata'' (fileIdentity s)))
           else seq (lock_owner_status store (lm_pid metadata)) (\<lambda>status.
             return (Some (Valid_lock status metadata (Lock_file_identity (fileIdentity d) (fileIdentity s)) entry))))
        ((h @ ?t) @ [(Fread (Lock_entry entry), b)])"
    proof (cases "parseLockMetadata (ps_double (fs_process store)) raw")
      case (Some m)
      have "inspects store h (Inr (Some (Valid_lock status m (Lock_file_identity (fileIdentity d) (fileIdentity s)) entry))) (h @ ?u @ t')"
        if "entry = lm_lockId m @ ''.json''" "status = Stale_candidate \<longrightarrow> owner_dead store (lm_pid m) t'" for status t'
      proof -
        have "owner_dead store (lm_pid m) (?u @ t')" if "status = Stale_candidate"
          using \<open>status = _ \<longrightarrow> _\<close> that by (auto simp: owner_dead_def split: if_splits)
        then have "inspected store (Some (Valid_lock status m (Lock_file_identity (fileIdentity d) (fileIdentity s)) entry)) (?u @ t')"
          using assms s a b Some that(1) unfolding inspected_def stale_seen_def
          by (intro allI impI exI [of _ d] exI [of _ s] exI [of _ raw]) simp
        then show ?thesis by (auto simp: inspects_def)
      qed
      note valid = this
      show ?thesis
      proof (cases "entry = lm_lockId m @ ''.json''")
        case True
        have "wp (\<lambda>_. reading) (inspects store h) (seq (lock_owner_status store (lm_pid m)) (\<lambda>status.
             return (Some (Valid_lock status m (Lock_file_identity (fileIdentity d) (fileIdentity s)) entry)))) (h @ ?u)"
          by (rule wp_seqI [OF wp_owner_status [where pid = "lm_pid m"]]) (use valid [OF True] in auto)
        then show ?thesis using True by (simp add: Some)
      qed (simp add: Some)
    qed simp
  qed simp_all
  then show "wp (\<lambda>_. reading) (inspects store h)
     (if st_kind s \<noteq> Regular then return (Some (ambiguousInspection ''unsafe_lock_target'' (fileIdentity s)))
      else if st_size s > MAX_LOCK_BYTES \<or> open_to_others s
      then return (Some (ambiguousInspection ''invalid_lock_metadata'' (fileIdentity s)))
      else seq (expecting text_of (Fread (Lock_entry entry))) (\<lambda>raw.
       case parseLockMetadata (ps_double (fs_process store)) raw of
         None \<Rightarrow> return (Some (ambiguousInspection ''invalid_lock_metadata'' (fileIdentity s)))
       | Some metadata \<Rightarrow>
           if entry \<noteq> lm_lockId metadata @ ''.json''
           then return (Some (ambiguousInspection ''invalid_lock_metadata'' (fileIdentity s)))
           else seq (lock_owner_status store (lm_pid metadata)) (\<lambda>status.
             return (Some (Valid_lock status metadata (Lock_file_identity (fileIdentity d) (fileIdentity s)) entry)))))
     ((h @ t) @ [(Fstat (Lock_entry entry), a)])"
    by simp
qed simp_all

lemma inspects_failure [simp]:
  "inspects store h (inspection_failure e) (h @ t)" "inspects store h (entry_failure d e) (h @ t)"
  by (simp_all add: inspection_failure_def entry_failure_def)

lemma inspects_more: "inspects store h r h' \<Longrightarrow> inspects store h r (h' @ t)"
proof -
  assume "inspects store h r h'"
  then obtain u where u: "h' = h @ u" "case r of Inl e \<Rightarrow> True | Inr x \<Rightarrow> inspected store x u"
    by (auto simp: inspects_def)
  have "case r of Inl e \<Rightarrow> True | Inr x \<Rightarrow> inspected store x (u @ t)"
    using u(2) by (auto simp: inspected_def intro: stale_seen_mono [of store _ _ _ u] split: sum.splits)
  then show ?thesis using u(1) by (auto simp: inspects_def)
qed

lemma wp_inspectLockDirectory:
  fixes h :: "'o store_trace"
  shows "wp (\<lambda>_. reading) (inspects store h) (inspectLockDirectory store) h"
  unfolding inspectLockDirectory_def wp_seq [of _ _ "attempt (expecting stats_of _)"] wp_attempt wp_expecting sum.case
proof (intro conjI allI)
  fix a :: "store_failure + reply"
  let ?rest = "\<lambda>pathStat entries. case entries of
                 [entry] \<Rightarrow>
                   if \<not> test LOCK_ENTRY entry
                   then return (Some (ambiguousInspection ''invalid_lock_metadata'' (fileIdentity pathStat)))
                   else with_handle (Lock_entry entry) Reading (inspect_entry store pathStat entry) (entry_failure pathStat)
               | _ \<Rightarrow> return (Some (ambiguousInspection ''invalid_lock_metadata'' (fileIdentity pathStat)))"
  have entry: "wp (\<lambda>_. reading) (inspects store h) (with_handle (Lock_entry entry) Reading (inspect_entry store d entry) (entry_failure d)) (h @ t)"
    if "(Lstat Lock, Inr (Stats d)) \<in> set t" "st_kind d = Folder" "\<not> open_to_others d" "(Readdir Lock, Inr (Names [entry])) \<in> set t"
    for d entry and t :: "'o store_trace"
    unfolding wp_with_handle
  proof (intro conjI allI)
    fix v
    let ?t = "t @ [(Open (Lock_entry entry) Reading, Inr v)]"
    have "wp (\<lambda>_. reading) (inspects store h) (inspect_entry store d entry) (h @ ?t)"
      by (rule wp_inspect_entry) (use that in auto)
    then show "wp (\<lambda>_. reading) (\<lambda>r h'. reading (Fclose (Lock_entry entry) :: 'o store_call)
        \<and> (\<forall>a. inspects store h (case r of Inl e \<Rightarrow> entry_failure d e | Inr x \<Rightarrow> Inr x) (h' @ [(Fclose (Lock_entry entry), a)])))
        (inspect_entry store d entry) ((h @ t) @ [(Open (Lock_entry entry) Reading, Inr v)])"
      unfolding append_assoc
    proof (rule wp_post, goal_cases)
      case (1 r h')
      obtain u where "h' = h @ u" using 1 by (auto simp: inspects_def)
      then show ?case using inspects_more [OF 1] by (cases r) simp_all
    qed
  qed simp_all
  have list: "wp (\<lambda>_. reading) (inspects store h) (?rest d entries) (h @ t)"
    if "(Lstat Lock, Inr (Stats d)) \<in> set t" "st_kind d = Folder" "\<not> open_to_others d" "(Readdir Lock, Inr (Names entries)) \<in> set t"
    for d entries and t :: "'o store_trace"
    using entry [OF that(1-3)] that(4) by (auto split: list.split)
  show "wp (\<lambda>_. reading) (inspects store h)
     (case case a of Inl e \<Rightarrow> Inl e | Inr r \<Rightarrow> stats_of r of
        Inl error \<Rightarrow> lift (inspection_failure error)
      | Inr pathStat \<Rightarrow>
         if st_kind pathStat \<noteq> Folder \<or> open_to_others pathStat
         then return (Some (ambiguousInspection ''unsafe_lock_target'' (fileIdentity pathStat)))
         else seq (attempt (expecting names_of (Readdir Lock))) (\<lambda>listed. case listed of
             Inl error \<Rightarrow> lift (inspection_failure error)
           | Inr entries \<Rightarrow> ?rest pathStat entries))
     (h @ [(Lstat Lock, a)])"
  proof (cases "case a of Inl e \<Rightarrow> Inl e | Inr r \<Rightarrow> stats_of r")
    case (Inl e)
    then show ?thesis by (simp add: wp_lift)
  next
    case (Inr d)
    then have a: "a = Inr (Stats d)" by (simp add: answer_forms)
    have "wp (\<lambda>_. reading) (inspects store h) (seq (attempt (expecting names_of (Readdir Lock))) (\<lambda>listed. case listed of
             Inl error \<Rightarrow> lift (inspection_failure error)
           | Inr entries \<Rightarrow> ?rest d entries)) (h @ [(Lstat Lock, a)])" if d: "st_kind d = Folder" "\<not> open_to_others d"
      unfolding wp_seq [of _ _ "attempt _"] wp_attempt wp_expecting sum.case
    proof (intro conjI allI)
      fix b :: "store_failure + reply"
      let ?t = "[(Lstat Lock, a), (Readdir Lock, b)]"
      show "wp (\<lambda>_. reading) (inspects store h) (case case b of Inl e \<Rightarrow> Inl e | Inr r \<Rightarrow> names_of r of
             Inl error \<Rightarrow> lift (inspection_failure error)
           | Inr entries \<Rightarrow> ?rest d entries) ((h @ [(Lstat Lock, a)]) @ [(Readdir Lock, b)])"
      proof (cases "case b of Inl e \<Rightarrow> Inl e | Inr r \<Rightarrow> names_of r")
        case (Inl e)
        then show ?thesis by (simp add: wp_lift)
      next
        case (Inr entries)
        then have "b = Inr (Names entries)" by (simp add: answer_forms)
        then have "wp (\<lambda>_. reading) (inspects store h) (?rest d entries) (h @ ?t)" using d a by (intro list) simp_all
        then show ?thesis using Inr by simp
      qed
    qed simp
    then show ?thesis using Inr by simp
  qed
qed simp

section \<open>Recovery\<close>

text \<open>The request names these metadata, and carries the confirmation.\<close>

definition confirmed :: "jval \<Rightarrow> bool" where
  "confirmed input \<longleftrightarrow> field input ''confirmation'' = JStr STALE_LOCK_RECOVERY_CONFIRMATION"

definition twice_stale :: "file_store \<Rightarrow> jval \<Rightarrow> string \<Rightarrow> 'o store_trace \<Rightarrow> bool" where
  "twice_stale store input entry h \<longleftrightarrow> confirmed input \<and> (\<exists>h1 h2 m m' f. h = h1 @ h2
     \<and> stale_seen store m f entry h1 \<and> stale_seen store m' f entry h2
     \<and> sameEvidence (field input ''evidence'') m \<and> sameEvidence (field input ''evidence'') m')"

definition recovery_guard :: "file_store \<Rightarrow> jval \<Rightarrow> 'o store_trace \<Rightarrow> 'o store_call \<Rightarrow> bool" where
  "recovery_guard store input h c \<longleftrightarrow> (case c of
     Unlink p \<Rightarrow> (\<exists>entry. p = Lock_entry entry \<and> twice_stale store input entry h)
   | Rmdir p \<Rightarrow> p = Lock \<and> (\<exists>entry v h'. h = h' @ [(Unlink (Lock_entry entry), Inr v)] \<and> twice_stale store input entry h')
   | c \<Rightarrow> reading c)"

lemma stale_lock_Inr:
  "stale_lock evidence x = Inr (f, entry, m) \<longleftrightarrow>
     x = Some (Valid_lock Stale_candidate m f entry) \<and> sameEvidence evidence m"
  by (auto simp: stale_lock_def split: option.split inspection.split)

lemma reading_recovery: "reading c \<Longrightarrow> recovery_guard store input h c"
  by (cases c) (simp_all add: recovery_guard_def reading_def)

lemma wp_inspect_recovery:
  "wp (recovery_guard store input) (inspects store h) (inspectLockDirectory store) h"
  using wp_inspectLockDirectory [of store h] by (rule wp_mono) (simp_all add: reading_recovery)

lemma same_entry:
  "stale_seen store m f entry t \<Longrightarrow> stale_seen store m' f' entry' t' \<Longrightarrow> sameEvidence evidence m
     \<Longrightarrow> sameEvidence evidence m' \<Longrightarrow> entry' = entry"
  unfolding stale_seen_def sameEvidence_def by auto

lemma wp_remove_recovery:
  "twice_stale store input entry h \<Longrightarrow>
   wp (recovery_guard store input) (\<lambda>_ _. True) (seq (removeLockDirectory entry) (\<lambda>_. seq syncDirectoryIfPractical (\<lambda>_. return x))) h"
proof -
  assume twice: "twice_stale store input entry h"
  have sync: "wp (recovery_guard store input) (\<lambda>_ _. True) (seq syncDirectoryIfPractical (\<lambda>_. return x)) h'" for h'
    by (rule wp_seqI [OF wp_invariant [where I = "\<lambda>_. True" and C = reading]])
       (auto intro!: makes_intros reading_recovery)
  have "wp (recovery_guard store input) (\<lambda>_ _. True) (removeLockDirectory entry) h"
    unfolding removeLockDirectory_def wp_seq wp_catch wp_perform
    using twice by (auto simp: recovery_guard_def split: sum.split)
  then show ?thesis by (rule wp_seqI) (use sync in auto)
qed

lemma wp_recoverStaleLock:
  fixes store input
  shows "wp (recovery_guard store input) (\<lambda>_ _. True) (recoverStaleLock store input) ([] :: 'o store_trace)"
proof -
  let ?double = "ps_double (fs_process store)" and ?evidence = "field input ''evidence''"
  let ?G = "recovery_guard store input :: 'o store_trace \<Rightarrow> 'o store_call \<Rightarrow> bool"
  let ?second = "\<lambda>first_identity. seq (inspectLockDirectory store) (\<lambda>fresh.
        seq (lift (stale_lock ?evidence fresh)) (\<lambda>(fresh_identity, entry, metadata).
        seq (refuse_if (\<not> sameFileIdentity first_identity fresh_identity)
               (ReceiptStoreError ''lock_evidence_mismatch'')) (\<lambda>_.
        seq (removeLockDirectory entry) (\<lambda>_.
        seq syncDirectoryIfPractical (\<lambda>_.
        return (lm_lockId metadata))))))"
  have second: "wp ?G (\<lambda>_ _. True) (?second f) h"
    if h: "confirmed input" "stale_seen store m f entry h" "sameEvidence ?evidence m" for m f entry and h :: "'o store_trace"
  proof (rule wp_seqI [OF wp_inspect_recovery])
    fix x and h' :: "'o store_trace" assume "inspects store h (Inr x) h'"
    then obtain t where t: "h' = h @ t" "inspected store x t" by (auto simp: inspects_def)
    have "wp ?G (\<lambda>_ _. True) (seq (refuse_if (\<not> sameFileIdentity f g) (ReceiptStoreError ''lock_evidence_mismatch'')) (\<lambda>_.
        seq (removeLockDirectory e) (\<lambda>_. seq syncDirectoryIfPractical (\<lambda>_. return (lm_lockId m'))))) h'"
      if x: "x = Some (Valid_lock Stale_candidate m' g e)" "sameEvidence ?evidence m'" for m' g e
    proof -
      have seen: "stale_seen store m' g e t" using t(2) x(1) by (simp add: inspected_def)
      have "e = entry" using same_entry [OF h(2) seen h(3) x(2)] .
      have "g = f" if "sameFileIdentity f g"
        using that h(2) seen by (auto simp: stale_seen_def)
      then have "twice_stale store input e h'" if "sameFileIdentity f g"
        unfolding twice_stale_def using that h seen t(1) x(2) \<open>e = entry\<close> by blast
      then show ?thesis using wp_remove_recovery unfolding wp_seq [of _ _ "refuse_if _ _"] wp_refuse by auto
    qed
    then show "wp ?G (\<lambda>_ _. True) (seq (lift (stale_lock ?evidence x)) (\<lambda>(fresh_identity, entry, metadata).
        seq (refuse_if (\<not> sameFileIdentity f fresh_identity)
               (ReceiptStoreError ''lock_evidence_mismatch'')) (\<lambda>_.
        seq (removeLockDirectory entry) (\<lambda>_. seq syncDirectoryIfPractical (\<lambda>_. return (lm_lockId metadata)))))) h'"
      unfolding wp_seq [of _ _ "lift _"] wp_lift by (auto simp: stale_lock_Inr split: sum.split prod.split)
  qed simp
  have first: "wp ?G (\<lambda>_ _. True) (seq (inspectLockDirectory store) (\<lambda>inspection.
     seq (lift (stale_lock ?evidence inspection)) (\<lambda>(first_identity, first_entry, first_metadata).
     catch (?second first_identity) (\<lambda>error. throw (recovery_failure error))))) []" if "confirmed input"
  proof (rule wp_seqI [OF wp_inspect_recovery])
    fix x and h :: "'o store_trace" assume "inspects store [] (Inr x) h"
    then have x: "inspected store x h" by (simp add: inspects_def)
    have "wp ?G (\<lambda>_ _. True) (catch (?second f) (\<lambda>error. throw (recovery_failure error))) h"
      if "x = Some (Valid_lock Stale_candidate m f e)" "sameEvidence ?evidence m" for m f e
      by (rule wp_catchI [OF second [OF \<open>confirmed input\<close> _ that(2)]]) (use x that in \<open>auto simp: inspected_def\<close>)
    then show "wp ?G (\<lambda>_ _. True) (seq (lift (stale_lock ?evidence x)) (\<lambda>(first_identity, first_entry, first_metadata).
       catch (?second first_identity) (\<lambda>error. throw (recovery_failure error)))) h"
      unfolding wp_seq [of _ _ "lift _"] wp_lift by (auto simp: stale_lock_Inr split: sum.split prod.split)
  qed simp
  show ?thesis
    unfolding recoverStaleLock_def wp_seq [of _ _ "lift (validateRecoveryInput _ _)"] wp_seq [of _ _ "refuse_if _ _"] wp_lift wp_refuse
    using first by (auto simp: confirmed_def split: sum.split)
qed

end
