(* ===== verification/Store_Properties.thy ===== *)
theory Store_Properties
  imports Store_Recovery
begin

text \<open>
  The properties of the receipt store. A program's theorems hold for every file system and every
  answer; those about the contents of files (\<open>disks\<close>) are about every state the files can be in,
  failures and partial writes included.
\<close>

section \<open>Errors\<close>

definition fails_with :: "(store_failure \<Rightarrow> bool) \<Rightarrow> ('o, 'x) store_action \<Rightarrow> bool" where
  "fails_with E p \<longleftrightarrow> (\<forall>h. wp (\<lambda>_ _. True) (\<lambda>r _. case r of Inl e \<Rightarrow> E e | Inr _ \<Rightarrow> True) p h)"

named_theorems fails_intros \<open>which errors a program throws\<close>

lemma fails_return [fails_intros]: "fails_with E (return x)"
  by (simp add: fails_with_def)

lemma fails_throw [fails_intros]: "E e \<Longrightarrow> fails_with E (throw e)"
  by (simp add: fails_with_def)

lemma fails_lift [fails_intros]: "(\<And>e. r = Inl e \<Longrightarrow> E e) \<Longrightarrow> fails_with E (lift r)"
  by (simp add: fails_with_def wp_lift split: sum.split)

lemma fails_refuse [fails_intros]: "E e \<Longrightarrow> fails_with E (refuse_if b e)"
  by (simp add: fails_with_def wp_refuse)

lemma fails_seq [fails_intros]:
  assumes "fails_with E m" "\<And>x. fails_with E (f x)" shows "fails_with E (seq m f)"
  unfolding fails_with_def
proof
  fix h
  have "wp (\<lambda>_ _. True) (\<lambda>r _. case r of Inl e \<Rightarrow> E e | Inr _ \<Rightarrow> True) m h" using assms(1) by (simp add: fails_with_def)
  then show "wp (\<lambda>_ _. True) (\<lambda>r _. case r of Inl e \<Rightarrow> E e | Inr _ \<Rightarrow> True) (seq m f) h"
    by (rule wp_seqI) (use assms(2) in \<open>simp_all add: fails_with_def\<close>)
qed

lemma wp_all: "(\<And>r h'. Q r h') \<Longrightarrow> wp (\<lambda>_ _. True) Q p h"
  by (induction p arbitrary: h) simp_all

lemma fails_attempt [fails_intros]: "fails_with E (attempt m)"
  unfolding fails_with_def wp_attempt by (simp add: wp_all)

lemma fails_catch [fails_intros]: "(\<And>e. fails_with E (f e)) \<Longrightarrow> fails_with E (catch m f)"
  unfolding fails_with_def wp_catch by (auto intro!: wp_all split: sum.split)

lemma fails_sum [fails_intros]:
  "(\<And>e. x = Inl e \<Longrightarrow> fails_with E (p e)) \<Longrightarrow> (\<And>y. x = Inr y \<Longrightarrow> fails_with E (q y))
     \<Longrightarrow> fails_with E (case x of Inl e \<Rightarrow> p e | Inr y \<Rightarrow> q y)"
  by (cases x) auto

lemma fails_option [fails_intros]:
  "(x = None \<Longrightarrow> fails_with E p) \<Longrightarrow> (\<And>y. x = Some y \<Longrightarrow> fails_with E (q y))
     \<Longrightarrow> fails_with E (case x of None \<Rightarrow> p | Some y \<Rightarrow> q y)"
  by (cases x) auto

lemma fails_if [fails_intros]: "fails_with E p \<Longrightarrow> fails_with E q \<Longrightarrow> fails_with E (if b then p else q)"
  by simp

lemma fails_list [fails_intros]:
  "fails_with E p \<Longrightarrow> (\<And>y ys. fails_with E (q y ys)) \<Longrightarrow> fails_with E (case x of [] \<Rightarrow> p | y # ys \<Rightarrow> q y ys)"
  by (cases x) auto

lemma fails_prod [fails_intros]: "(\<And>y z. fails_with E (p y z)) \<Longrightarrow> fails_with E (case x of (y, z) \<Rightarrow> p y z)"
  by (cases x) auto

lemma fails_closeQuietly [fails_intros]: "fails_with E (closeQuietly p)"
  unfolding closeQuietly_def by (intro fails_intros)

lemma fails_unlinkQuietly [fails_intros]: "fails_with E (unlinkQuietly p)"
  unfolding unlinkQuietly_def by (intro fails_intros)

lemma fails_with_handle [fails_intros]:
  "(\<And>e e'. handler e = Inl e' \<Longrightarrow> E e') \<Longrightarrow> fails_with E (with_handle p mode body handler)"
  unfolding with_handle_def by (intro fails_intros) (auto split: sum.splits)

lemma fails_syncDirectory [fails_intros]: "fails_with E syncDirectoryIfPractical"
  unfolding syncDirectoryIfPractical_def by (intro fails_intros) simp

lemma fails_assertRegular [fails_intros]: "fails_with is_store_error (assertRegularOrMissing code)"
  unfolding assertRegularOrMissing_def by (intro fails_intros) simp_all

lemma fails_read: "fails_with is_store_error (read store)"
  unfolding read_def read_target_def
  by (intro fails_intros) (auto simp: read_failure_def split: if_splits)

lemma fails_inspectLockDirectory [fails_intros]: "fails_with is_store_error (inspectLockDirectory store)"
  unfolding inspectLockDirectory_def
  by (intro fails_intros) (auto simp: inspection_failure_def entry_failure_def split: if_splits)

lemma fails_inspectLock: "fails_with is_store_error (inspectLock store)"
  unfolding inspectLock_def by (intro fails_intros)

lemma recovery_failure_store [simp]: "is_store_error (recovery_failure e)"
  by (simp add: recovery_failure_def)

lemma fails_recoverStaleLock: "fails_with is_store_error (recoverStaleLock store input)"
  unfolding recoverStaleLock_def
  by (intro fails_intros)
     (auto simp: validateRecoveryInput_def stale_lock_def split: if_splits option.splits inspection.splits)

lemma fails_write_through: "fails_with is_store_error (write_through p t)"
  unfolding write_through_def by (intro fails_intros) (simp_all add: write_failure_def)

text \<open>
  Every error of the store is a \<^verbatim>\<open>ReceiptStoreError\<close> with a code, whatever the file system or an
  injected adapter throws: of reading, of inspecting and recovering a lock, and of writing once the
  name of the temporary file is chosen.
\<close>

theorem store_errors_coded:
  "fails_with is_store_error (read store) \<and> fails_with is_store_error (inspectLock store)
   \<and> fails_with is_store_error (recoverStaleLock store input) \<and> fails_with is_store_error (write_through temporary text)"
  by (simp add: fails_read fails_inspectLock fails_recoverStaleLock fails_write_through)

lemmas program_defs = perform_def expecting_def call_def seq_def attempt_def catch_def lift_def refuse_if_def

lemma masked_codes:
  "safeStoreError (plain (ReceiptStoreError ''unsafe_target'')) ''read_failed'' = Store_error ''read_failed''"
  "safeStoreError (plain (ReceiptStoreError ''unsafe_target'')) ''write_failed'' = Store_error ''write_failed''"
  "\<not> isMissing (ReceiptStoreError ''unsafe_target'')"
  by code_simp+

text \<open>
  A receipt replaced by something that is no regular file after the first check is refused, but not
  as \<^verbatim>\<open>unsafe_target\<close>: the error thrown after opening it is caught by the same block, copied without its
  class, and reported as \<^verbatim>\<open>read_failed\<close>; and so is, as \<^verbatim>\<open>write_failed\<close>, a target found unsafe by the second
  check of a write.
\<close>

theorem unsafe_target_masked:
  "snd (play (read store) [Inr (Stats (s\<lparr>st_kind := Regular\<rparr>)), Inr Nothing, Inr (Stats (s\<lparr>st_kind := Folder\<rparr>)), Inr Nothing])
     = Some (Inl (Store_error ''read_failed''))
   \<and> snd (play (write_through temporary text) [Inr Nothing, Inr Nothing, Inr Nothing, Inr Nothing, Inr Nothing,
        Inr (Stats (s\<lparr>st_kind := Folder\<rparr>)), Inr Nothing]) = Some (Inl (Store_error ''write_failed''))"
  by (simp add: read_def read_target_def write_through_def write_temporary_def replace_target_def assertRegularOrMissing_def
    with_handle_def closeQuietly_def unlinkQuietly_def syncFile_def program_defs read_failure_def write_failure_def masked_codes)

section \<open>Contents\<close>

text \<open>
  C31. Writing replaces the receipt as a whole: before every call, so at every point a crash can hit,
  and at the end, the receipt file holds what it held before or the complete new text; and once the
  write has returned it holds the new text.
\<close>

theorem write_is_atomic:
  "wp (\<lambda>h c. disks {d} h \<subseteq> {d'. d' Target \<in> {d Target, json_stringify receipt}})
     (\<lambda>r h. disks {d} h \<subseteq> {d'. d' Target \<in> {d Target, json_stringify receipt}}
        \<and> (case r of Inl e \<Rightarrow> True
           | Inr _ \<Rightarrow> disks {d} h \<subseteq> {d'. json_stringify receipt \<noteq> None \<and> d' Target = json_stringify receipt}))
     (writeAtomic receipt) []"
  using wp_writeAtomic [where receipt = receipt and d = d] by (simp add: within_def cong: sum.case_cong)


definition sample_process :: process_info where
  "sample_process = \<lparr>ps_cwd = [''home''], ps_owner = ''owner-1'', ps_pid = 4711, ps_double = JFrac\<rparr>"

definition sample_store :: file_store where
  "sample_store = \<lparr>fs_process = sample_process, fs_directory = [''home''], fs_basename = ''receipt.json'', fs_default_probe = True\<rparr>"


section \<open>The lock\<close>

text \<open>
  C30. At most one process is inside: of the processes that run an operation under the lock of one
  receipt, however their calls interleave and whatever fails, no two are about to make a call of their
  operation at the same time, as long as no lock is recovered meanwhile.
\<close>

theorem store_mutual_exclusion:
  assumes "system (\<lambda>i. withExclusiveLock (store\<lparr>fs_process := process i\<rparr>) (outside (operation i)) (options i)) b e ts"
    and "asks (withExclusiveLock (store\<lparr>fs_process := process i\<rparr>) (outside (operation i)) (options i)) (ts i) (Outside x)"
    and "asks (withExclusiveLock (store\<lparr>fs_process := process j\<rparr>) (outside (operation j)) (options j)) (ts j) (Outside y)"
  shows "i = j"
  using system_exclusive [OF assms(1) wp_withExclusiveLock assms(2,3)] .

text \<open>One process has entered, the others have not started.\<close>

abbreviation contender :: "nat \<Rightarrow> (unit, reply) store_action" where
  "contender i \<equiv> withExclusiveLock (sample_store\<lparr>fs_process := sample_process\<rparr>) (outside (call ())) Undef"

definition entering :: "unit store_trace" where
  "entering = fst (play (contender 0) (replicate 11 (Inr (Text ''a''))))"

lemma safe_default: "test SAFE_OPERATION_ID ''receipt-mutation''"
  by code_simp

definition entering_calls :: "unit store_call list" where
  "entering_calls =
    [Random_uuid, Now, Mkdir Lock OWNER_ONLY_DIRECTORY_MODE, Chmod Lock OWNER_ONLY_DIRECTORY_MODE,
     Open (Lock_entry ''a.json'') (Creating OWNER_ONLY_MODE),
     Fwrite (Lock_entry ''a.json'') (case json_stringify (metadata_value \<lparr>lm_lockId = ''a'', lm_ownerId = ''owner-1'',
        lm_pid = 4711, lm_createdAt = ''a'', lm_operationId = ''receipt-mutation''\<rparr>) of None \<Rightarrow> [] | Some t \<Rightarrow> t),
     Fchmod (Lock_entry ''a.json'') OWNER_ONLY_MODE, Fsync (Lock_entry ''a.json''),
     Open Directory Reading_follow, Fsync Directory, Fclose Directory]"

lemma play_Nil [simp]: "fst (play p []) = []"
  by (cases p) simp_all

lemma contender_calls:
  assumes "a = Inr (Text ''a'')"
  shows "fst (play (contender 0) (replicate 11 a)) = map (\<lambda>c. (c, a)) entering_calls"
    "fst (play (contender 0) (replicate 11 a @ [a])) = map (\<lambda>c. (c, a)) entering_calls @ [(Outside (), a)]"
  using assms
  by (simp_all add: withExclusiveLock_def createLockMetadata_def safe_default under_lock_def open_entry_def publish_metadata_def
    syncFile_def syncDirectoryIfPractical_def with_handle_def closeQuietly_def program_defs sample_store_def sample_process_def unknown_keys_def
    entering_calls_def numeral_eq_Suc)

theorem store_mutual_exclusion_witness:
  "{j. asks (contender j) (((\<lambda>_. [])(0 := entering)) j) (Outside ())} = {0 :: nat}"
proof -
  have entering: "entering = map (\<lambda>c. (c, Inr (Text ''a''))) entering_calls"
    unfolding entering_def by (rule contender_calls) simp
  have "follows (contender 0) entering" unfolding entering_def by (rule play_follows)
  moreover have "lock_answers False entering"
    unfolding entering entering_calls_def by (simp add: lock_answer_def)
  ultimately have "system contender False (foldl lock_step False entering) ((\<lambda>_. [])(0 := entering))"
    by (intro system_alone) simp_all
  note exclusive = store_mutual_exclusion [OF this, of 0 "()" _ "()"]
  have inside: "asks (contender 0) (((\<lambda>_. [])(0 := entering)) 0) (Outside ())"
    unfolding entering fun_upd_same
    by (rule play_asks [OF contender_calls(2) [OF refl]]) (simp add: entering_calls_def)
  show ?thesis
  proof (intro set_eqI iffI)
    fix j assume "j \<in> {j. asks (contender j) (((\<lambda>_. [])(0 := entering)) j) (Outside ())}"
    then have "asks (contender j) (((\<lambda>_. [])(0 := entering)) j) (Outside ())" by (rule CollectD)
    then have "0 = j" by (rule exclusive [OF inside])
    then show "j \<in> {0}" by simp
  next
    fix j :: nat assume "j \<in> {0}"
    then have "j = 0" by simp
    then show "j \<in> {j. asks (contender j) (((\<lambda>_. [])(0 := entering)) j) (Outside ())}"
      using inside by (simp only: mem_Collect_eq)
  qed
qed

text \<open>
  The lock brackets the operation: its calls are made only while this run holds the lock directory
  and has published its metadata, a refused run does nothing more, only the run that created the
  directory removes it and only right after the metadata, a value is returned only once it is removed,
  and no failure keeps it without having tried.
\<close>

theorem lock_brackets_operation:
  "wp lock_guard lock_end (withExclusiveLock store (outside operation) options) []"
  by (rule wp_withExclusiveLock)

text \<open>
  C34. A lock is recovered only from the dead: before anything is removed the request carried the
  confirmation, and two inspections of this run found, in the same files, metadata the request
  names and no running owner; and apart from the metadata and the lock directory nothing is changed.
\<close>

theorem recovery_only_of_dead_locks:
  "wp (recovery_guard store input) (\<lambda>_ _. True) (recoverStaleLock store input) []"
  by (rule wp_recoverStaleLock)

end
