(* ===== verification/Spec2Isabelle.thy ===== *)
theory Spec2Isabelle
  imports Bootstrap_Store Gateway_Network Input_Properties Observer_Properties Plan_Properties Provider_Properties Receipt_Properties Reconciler_Properties Stage2_Store Store_Properties Teardown_Store Web_Codec
begin

text \<open>
  The lifecycle core of the Ankka MCP gateway (\<^verbatim>\<open>src/*.ts\<close> of the repository, in \<^verbatim>\<open>src/src\<close> here):
  the part that decides what to change in a customer's Cloudflare account, changes it, and remembers
  in a receipt what it owns.

  \<^bold>\<open>The program.\<close> A validated configuration is turned into the desired resources (\<^verbatim>\<open>plan.ts\<close>); the
  planner compares them with the observed state and lists creations, updates and deletions, each
  bound by a digest and owned by the marker of this installation. The reconciler
  (\<^verbatim>\<open>reconciler.ts\<close>) executes an approved plan: for every mutation it writes an intent into the
  receipt, asks the provider, observes the result and commits it. The receipt (\<^verbatim>\<open>receipt.ts\<close>) is a
  sealed value with its own journal protocol. The observed state comes from the observer
  (\<^verbatim>\<open>cloudflare-observed.ts\<close>), which reads the account and decides, from live markers and the receipt,
  what is this installation's. The provider (\<^verbatim>\<open>cloudflare-provider.ts\<close>) carries out one journaled change: it checks
  the receipt, reads what the change depends on, asks the client for the mutation and waits for its effect; it
  also rolls back a pending portal and counts what an installation has left. The client (\<^verbatim>\<open>cloudflare-client.ts\<close>)
  turns each of its calls into HTTP requests to the account and reads the answers. The receipt store (\<^verbatim>\<open>receipt-store.ts\<close>) keeps it in a
  file, under a lock directory that excludes other processes.

  \<^bold>\<open>Theories and sources.\<close>
  \<^item> \<open>Prelude\<close>, \<open>Text_Patterns\<close>: JavaScript texts (code units below 256), stable sorting with a
    comparison function (locale \<open>comparison\<close>), results, and the regular expressions of all modules.
  \<^item> \<open>Json\<close>, \<open>Json_Canonical\<close>: the values of \<^verbatim>\<open>json.ts\<close>, what its schemas leave out of them, their canonical text and digests.
    \<open>Json_Text\<close>, \<open>Json_Roundtrip\<close>: \<^verbatim>\<open>JSON.stringify\<close> and \<^verbatim>\<open>JSON.parse\<close>.
  \<^item> \<open>Gateway_Config\<close> (\<^verbatim>\<open>config.ts\<close>), \<open>Access_Groups\<close> (\<^verbatim>\<open>access-groups.ts\<close>), \<open>Canary_Identity\<close>
    (\<^verbatim>\<open>canary-service-identity.ts\<close>); properties in \<open>Input_Properties\<close>.
  \<^item> \<open>Resources\<close>, \<open>Gateway_Plan\<close> (\<^verbatim>\<open>plan.ts\<close>); \<open>Plan_Facts\<close>, \<open>Plan_Identity\<close> and
    \<open>Plan_Properties\<close>: what a plan touches, that carrying it out leaves nothing to do, and that its
    identifier binds its contents.
  \<^item> \<open>Receipt\<close>, \<open>Receipt_Actions\<close> (\<^verbatim>\<open>receipt.ts\<close>); \<open>Receipt_Normal\<close> to \<open>Receipt_Properties\<close>: receipts in
    normal form, sealing, the journal as an abstract ledger the receipt refines (\<open>Receipt_Ledger\<close>).
  \<^item> \<open>Programs\<close>: asynchronous code as trees of calls that an arbitrary environment answers, with
    weakest preconditions over histories. \<open>Reconciler_Data\<close>, \<open>Reconciler_Checks\<close>,
    \<open>Reconciler_Steps\<close>, \<open>Reconciler\<close>, \<open>Reconciler_Removal\<close> (\<^verbatim>\<open>reconciler.ts\<close>) are such programs over the
    calls to the provider and the receipt store; \<open>Reconciler_History\<close> to \<open>Reconciler_Exclusive\<close>
    carry their proof, with one locale (\<open>step_policy\<close>) for what applying and uninstalling share; \<open>Reconciler_Bounds\<close> counts
    the mutations of whole operations.
  \<^item> \<open>Observer_Data\<close>, \<open>Observer\<close> (\<^verbatim>\<open>cloudflare-observed.ts\<close>), a program over the calls of the read client.
    \<open>Observer_Facts\<close>: its comparisons never fail, and rules for programs that fail only with
    coded errors. \<open>Observer_Invariant\<close>: the interface (\<open>observation_invariant\<close>) between the loops and a
    property of what they collect, instantiated in \<open>Observer_Safety\<close> with proven ownership and with unique
    locators; \<open>Observer_Properties\<close> carries them to plans made from an observation.
  \<^item> \<open>Provider_Data\<close>, \<open>Provider_Input\<close>, \<open>Provider\<close>, \<open>Provider_Mutations\<close>, \<open>Provider_Inspect\<close>
    (\<^verbatim>\<open>cloudflare-provider.ts\<close>), programs over the calls of the client and the delay between attempts.
    \<open>Provider_Rules\<close>: what a history of calls has shown and submitted, and rules for programs that may read
    (locale \<open>reading_allowed\<close>), and the specification of the requests, \<open>lawful\<close>; \<open>Provider_Checks\<close>
    and \<open>Provider_Safety\<close> prove that each handler keeps to it, \<open>Provider_Bounds\<close> that the whole change does, and
    the number of calls, in the configured number of attempts (at most 120).
    \<open>Provider_Rollback\<close>: rolling back and inspecting.
  \<^item> \<open>Http_Client\<close> (\<^verbatim>\<open>cloudflare-client.ts\<close>), a program over the requests; \<open>Http_Facts\<close>: what a server reads from the URL, by
    decoding what \<open>encodeURIComponent\<close> encodes; \<open>Http_Properties\<close>: requests, pages and errors.
  \<^item> \<open>Composition\<close>: a program whose calls are programs over other calls. \<open>Gateway_System\<close> puts the reconciler over the
    provider and the observer, \<open>Gateway_Network\<close> all of them over the client; \<open>System_Properties\<close> joins what the
    reconciler promises of its journal with what the provider promises of its requests, \<open>Gateway_Network\<close> carries it to
    the requests on the network.
  \<^item> \<open>Store_Data\<close>, \<open>Receipt_Store\<close> (\<^verbatim>\<open>receipt-store.ts\<close>), programs over the calls to the file system.
    \<open>Store_Safety\<close> gives these calls the states the files can be in and proves the atomic
    replacement, \<open>Store_Lock\<close> the lock and the interleavings of many processes, \<open>Store_Recovery\<close> the
    removal of a stale lock. That a receipt survives being stored and read is proved at the end of this theory, which joins
    the two modules.
  \<^item> The state machines of the hosted installer (\<^verbatim>\<open>apps/installer/src\<close>). \<open>Web_Codec\<close>: the base64url, digest and comparison
    functions of \<^verbatim>\<open>crypto.ts\<close>; \<open>Schemas\<close>: the combinators of the schemas. \<open>Bootstrap_State\<close>
    (\<^verbatim>\<open>customer-bootstrap-state.ts\<close>): the operations from the one-use capability to \<^verbatim>\<open>READY\<close>; \<open>Bootstrap_Machine\<close> makes a
    machine of them, \<open>Bootstrap_Properties\<close> proves its invariant, an abstract protocol it refines, what a sequence of
    operations can do and that it can be completed. \<open>Teardown_Job\<close>, \<open>Teardown_Properties\<close>
    (\<^verbatim>\<open>gateway-teardown-job.ts\<close>): the removal of the last resources, its order and its grants.
    \<open>Stage2_Journal\<close> (\<^verbatim>\<open>customer-stage2-journal.ts\<close>, with \<^verbatim>\<open>assertSecretFree\<close> of \<^verbatim>\<open>schema.ts\<close>): the ten actions of the
    installation and the lease of an attempt; \<open>Stage2_Properties\<close>: the abstract protocol (\<open>stage2_move\<close>), the order of the
    actions and the lease as a lock.
    \<open>Revision_Store\<close>: rows replaced by compare-and-set, with the interface (\<open>revision_store\<close>) under which concurrent
    requests are a sequential history; \<open>Bootstrap_Store\<close> (\<^verbatim>\<open>customer-bootstrap-durable-state.ts\<close>), \<open>Teardown_Store\<close>
    (\<^verbatim>\<open>gateway-teardown-durable-state.ts\<close>) and \<open>Stage2_Store\<close> (\<^verbatim>\<open>customer-stage2-durable-state.ts\<close>) interpret it.

  \<^bold>\<open>Parameters.\<close> SHA-256 (\<open>sha\<close> on texts, \<open>digest\<close> on bytes), the URL parser of the configuration and the platform's reading of non-integer numerals
  (\<open>hp_double\<close>, \<open>hp_number\<close>) are functions the definitions take. The URLs of the client are written out: a path below a
  fixed origin, whose dot segments are resolved. Nothing is assumed of \<open>sha\<close> but, where a digest is recognised by its
  form, that it has 64 hexadecimal digits. Where the code relies on collision resistance a theorem
  names the two texts that collide, or is reserved to histories without such a collision
  (\<open>collided\<close>). The environment of a program is no hypothesis: the theorems on programs hold for all
  answers. Programs are finite trees, so every one of their runs ends; the only recursions that are
  not structural are the parser's, whose fuel (twice the length of the text) is shown to suffice by
  \<open>parse_stable\<close>.

  \<^bold>\<open>Not modelled.\<close> Abort signals and time limits (an aborted request is one that is not answered), the canary, the command line, the routes, releases and uploads of the hosted installer and the other
  applications (\<^verbatim>\<open>apps/\<close>), generated payloads and build scripts. Third-party schemas (valibot) are
  taken at their documented behaviour.
\<close>

section \<open>The receipt through its store\<close>

text \<open>A receipt is one of the values that are read as they were written: it has none of the keys a reader leaves out.\<close>

lemma receipt_keys [simp]:
  "\<not> prototype_key ''schemaVersion''" "\<not> prototype_key ''state''" "\<not> prototype_key ''revision''" "\<not> prototype_key ''release''"
  "\<not> prototype_key ''accessPolicy''" "\<not> prototype_key ''pending''" "\<not> prototype_key ''checksum''" "\<not> prototype_key ''hostname''"
  "\<not> prototype_key ''identityType''" "\<not> prototype_key ''identityCount''" "\<not> prototype_key ''identitiesHash''"
  "\<not> prototype_key ''marker''" "\<not> prototype_key ''identityHash''" "\<not> prototype_key ''operationId''" "\<not> prototype_key ''type''"
  "\<not> prototype_key ''planId''" "\<not> prototype_key ''action''" "\<not> prototype_key ''expectedDesiredHash''"
  "\<not> prototype_key ''requestHash''" "\<not> prototype_key ''pruneApprovalId''"
  by (simp_all add: prototype_key_def)

lemma drop_resource [simp]: "drop_prototype (resource_value r) = resource_value r"
  by (simp add: resource_value_def locator_value_def opt_entry_def split: option.split)

lemma drop_pending [simp]: "drop_prototype (pending_value p) = pending_value p"
  by (simp add: pending_value_def opt_entry_def split: option.split)

lemma drop_receipt: "drop_prototype (receipt_value r) = receipt_value r"
  by (simp add: receipt_value_def target_value_def policy_value_def opt_entry_def drop_prototype_map comp_def split: option.split)

lemma readable_resource [simp]: "readable double (resource_value r)"
  by (simp add: resource_value_def locator_value_def opt_entry_def split: option.split)

lemma readable_pending [simp]: "readable double (pending_value p)"
  by (simp add: pending_value_def opt_entry_def split: option.split)

lemma readable_receipt: 
  assumes "receipt_ok r" shows "readable double (receipt_value r)"
proof -
  have resources: "readable_items double (map resource_value xs)" for xs by (induction xs) simp_all
  have "is_safe_integer (rc_revision r)" "is_safe_integer (ap_identityCount (rc_accessPolicy r))" "is_safe_integer 1"
    using assms by (auto simp: receipt_ok_def ok_policy_def is_safe_integer_def MAX_SAFE_INTEGER_def)
  then show ?thesis
    by (simp add: receipt_value_def target_value_def policy_value_def opt_entry_def resources split: option.split)
qed

text \<open>
  C21. The store keeps what the reconciler entrusts it with: for every valid receipt, after a successful write of its value the value that is
  read back is that very value, and the reconciler accepts it as the same receipt, on every file system without another writer in
  between; otherwise the write or the reading fails.
\<close>

theorem receipt_survives_store:
  "case validateInstallationReceipt sha v expected of Inl e \<Rightarrow> True | Inr receipt \<Rightarrow>
     wp (\<lambda>_ _. True) (\<lambda>r h. case r of Inl e \<Rightarrow> True
         | Inr value \<Rightarrow> value = receipt_value receipt \<and> stored_receipt sha value = Inr (Some receipt) \<or> disks {d} h = {})
       (seq (writeAtomic (receipt_value receipt)) (\<lambda>_. read store)) []"
proof (cases "validateInstallationReceipt sha v expected")
  case (Inr r)
  have s: "sealed sha r" by (rule validReceipt_Inr(1) [OF Inr])
  then have ok: "receipt_ok r" by (simp add: sealed_def)
  have "stored_receipt sha (receipt_value r) = Inr (Some r)"
    using sealed_validates [OF s]
    by (simp add: stored_receipt_def validateReceiptSafe_def map_result_def andThen_def receipt_value_def)
  then show ?thesis
    unfolding Inr sum.case
    by (intro wp_mono [OF wp_write_read [OF readable_receipt [OF ok], where store = store and d = d]])
       (auto simp: drop_receipt split: sum.splits)
qed simp

end
